(* ===== verification/OT_Prelude.thy ===== *)
theory OT_Prelude
  imports "HOL-Library.Word" "HOL-Library.Monad_Syntax"
begin

text \<open>
  Shared vocabulary of the development.

  The C code of the repository is modelled in the option monad: \<^term>\<open>None\<close> is undefined
  behaviour (an access outside an array, or a loop that never leaves), \<^term>\<open>Some\<close> a defined
  result.  Arrays are lists, a pointer into an array is the list with an offset, and every
  load and store is bounds checked (\<open>ld\<close>, \<open>st\<close>).  A counted \<open>for\<close> loop is \<open>foldM\<close> over its
  index range.  Integers keep their C width as words (LP64, the arm64 build of the Makefile).
\<close>

unbundle bit_operations_syntax

type_synonym u8 = "8 word"
type_synonym uint32 = "32 word"
type_synonym size_t = "64 word"

named_theorems mem_simps \<open>rewriting of bounds checked loads and stores\<close>
named_theorems byte_simps \<open>bytes of packed words\<close>

section \<open>Arrays\<close>

definition ld :: "'a list \<Rightarrow> nat \<Rightarrow> 'a option" where
  "ld xs i = (if i < length xs then Some (xs ! i) else None)"

definition st :: "'a list \<Rightarrow> nat \<Rightarrow> 'a \<Rightarrow> 'a list option" where
  "st xs i v = (if i < length xs then Some (xs[i := v]) else None)"

text \<open>\<open>strlen\<close> of a buffer, undefined without a terminating zero\<close>

definition strlen :: "u8 list \<Rightarrow> nat option" where
  "strlen b = (if 0 \<in> set b then Some (length (takeWhile (\<lambda>c. c \<noteq> 0) b)) else None)"

lemma ld_in [mem_simps]: "i < length xs \<Longrightarrow> ld xs i = Some (xs ! i)"
  by (simp add: ld_def)

lemma ld_out [mem_simps]: "length xs \<le> i \<Longrightarrow> ld xs i = None"
  by (simp add: ld_def)

lemma st_in [mem_simps]: "i < length xs \<Longrightarrow> st xs i v = Some (xs[i := v])"
  by (simp add: st_def)

lemma st_out [mem_simps]: "length xs \<le> i \<Longrightarrow> st xs i v = None"
  by (simp add: st_def)

lemma ld_Some_iff: "ld xs i = Some v \<longleftrightarrow> i < length xs \<and> xs ! i = v"
  by (simp add: ld_def)

lemma st_Some_iff: "st xs i v = Some ys \<longleftrightarrow> i < length xs \<and> ys = xs[i := v]"
  by (auto simp: st_def)

lemma st_length: "st xs i v = Some ys \<Longrightarrow> length ys = length xs"
  by (auto simp: st_Some_iff)

lemma ld_st_same: "st xs i v = Some ys \<Longrightarrow> ld ys i = Some v"
  by (auto simp: st_Some_iff ld_def)

lemma ld_st_other: "st xs i v = Some ys \<Longrightarrow> i \<noteq> j \<Longrightarrow> ld ys j = ld xs j"
  by (auto simp: st_Some_iff ld_def)

text \<open>
  An array that agrees with a sequence \<open>f\<close> on its first \<open>n\<close> cells: the invariant of the
  loops that fill an array from the left.
\<close>

definition agrees :: "'a list \<Rightarrow> (nat \<Rightarrow> 'a) \<Rightarrow> nat \<Rightarrow> bool" where
  "agrees xs f n \<longleftrightarrow> n \<le> length xs \<and> (\<forall>k < n. xs ! k = f k)"

lemma agrees_ld: "agrees xs f n \<Longrightarrow> k < n \<Longrightarrow> ld xs k = Some (f k)"
  by (simp add: agrees_def ld_def)

lemma agrees_st:
  "agrees xs f n \<Longrightarrow> n < length xs \<Longrightarrow> agrees (xs[n := f n]) f (Suc n)"
  by (auto simp: agrees_def less_Suc_eq nth_list_update)

lemma agrees_take: "agrees xs f n \<Longrightarrow> take n xs = map f [0..<n]"
  by (auto simp: agrees_def list_eq_iff_nth_eq)

lemma agrees_map: "length xs = n \<Longrightarrow> agrees xs f n \<Longrightarrow> xs = map f [0..<n]"
  using agrees_take [of xs f n] by simp

section \<open>Arrays filled from the left\<close>

definition fill :: "(nat \<Rightarrow> 'a) \<Rightarrow> 'a list \<Rightarrow> nat \<Rightarrow> 'a list" where
  "fill f xs n = map f [0..<n] @ drop n xs"

lemma fill_0: "fill f xs 0 = xs"
  by (simp add: fill_def)

lemma length_fill [simp]: "n \<le> length xs \<Longrightarrow> length (fill f xs n) = length xs"
  by (simp add: fill_def)

lemma nth_fill: "k < n \<Longrightarrow> fill f xs n ! k = f k"
  by (simp add: fill_def nth_append)

lemma ld_fill: "k < n \<Longrightarrow> ld (fill f xs n) k = Some (f k)"
  by (simp add: ld_def fill_def nth_append)

lemma agrees_fill: "n \<le> length xs \<Longrightarrow> agrees (fill f xs n) f n"
  by (simp add: agrees_def nth_fill)

lemma st_fill: "n < length xs \<Longrightarrow> v = f n \<Longrightarrow> m = n + 1 \<Longrightarrow> st (fill f xs n) n v = Some (fill f xs m)"
  using Cons_nth_drop_Suc [of n xs, symmetric]
  by (simp add: st_def fill_def list_update_append)

lemma agrees_drop_fill: "agrees rk f n \<Longrightarrow> drop n rk = drop n xs \<Longrightarrow> rk = fill f xs n"
  using agrees_take [of rk f n] append_take_drop_id [of n rk] by (simp add: fill_def)

section \<open>Overwriting a part of a buffer\<close>

definition put_block :: "'a list \<Rightarrow> nat \<Rightarrow> 'a list \<Rightarrow> 'a list" where
  "put_block out j bs = take j out @ bs @ drop (j + length bs) out"

lemma length_put_block: "j + length bs \<le> length out \<Longrightarrow> length (put_block out j bs) = length out"
  by (simp add: put_block_def)

lemma put_block_4:
  assumes "j + 4 \<le> length out"
  shows "out[j := a, j + 1 := b, j + 2 := c, j + 3 := d] = put_block out j [a, b, c, d]"
proof -
  have "length (take 4 (drop j out)) = 4" using assms by simp
  then obtain x0 x1 x2 x3 where "take 4 (drop j out) = [x0, x1, x2, x3]"
    by (auto simp: length_Suc_conv numeral_eq_Suc simp del: length_take length_drop)
  then have "drop j out = [x0, x1, x2, x3] @ drop (j + 4) out"
    using append_take_drop_id [of 4 "drop j out"] by (simp add: add.commute)
  then obtain us vs where "out = us @ [x0, x1, x2, x3] @ vs" "length us = j"
    using append_take_drop_id [of j out] assms by (metis add_leD1 length_take min.absorb2)
  then show ?thesis by (simp add: put_block_def list_update_append)
qed

lemma put_blocks:
  assumes "j + length xs + length ys \<le> length out" "i = j + length xs"
  shows "put_block (put_block out j xs) i ys = put_block out j (xs @ ys)"
  using assms by (simp add: put_block_def ac_simps)

lemma put_block_1: "j < length out \<Longrightarrow> out[j := x] = put_block out j [x]"
  by (simp add: put_block_def upd_conv_take_nth_drop)

lemma put_block_tail:
  assumes "length zs = length ys" "j + length xs + length ys \<le> length out" "i = j + length xs"
  shows "put_block (put_block out j (xs @ zs)) i ys = put_block out j (xs @ ys)"
  using assms by (simp add: put_block_def ac_simps)

lemma put_block_head:
  assumes "j + 1 + length xs \<le> length out"
  shows "(put_block out j (x # xs))[j := y] = put_block out j (y # xs)"
  using assms by (simp add: put_block_def list_update_append)

lemma take_put_block: "j \<le> length out \<Longrightarrow> take (j + length bs) (put_block out j bs) = take j out @ bs"
  by (simp add: put_block_def)

section \<open>Counted loops\<close>

fun foldM :: "('i \<Rightarrow> 's \<Rightarrow> 's option) \<Rightarrow> 'i list \<Rightarrow> 's \<Rightarrow> 's option" where
  "foldM f [] s = Some s"
| "foldM f (i # is) s = do { s' \<leftarrow> f i s; foldM f is s' }"

lemma foldM_append: "foldM f (is @ js) s = do { s' \<leftarrow> foldM f is s; foldM f js s' }"
  by (induction "is" arbitrary: s) (auto split: bind_splits)

lemma foldM_upt_Suc:
  "m \<le> n \<Longrightarrow> foldM f [m..<Suc n] s = do { s' \<leftarrow> foldM f [m..<n] s; f n s' }"
  by (cases "foldM f [m..<n] s") (auto simp: foldM_append split: bind_splits)

text \<open>Total correctness of a counted loop: the body always returns and keeps the invariant.\<close>

lemma foldM_upt_rule:
  assumes "I m s" and "m \<le> n"
    and "\<And>k s. m \<le> k \<Longrightarrow> k < n \<Longrightarrow> I k s \<Longrightarrow> \<exists>s'. f k s = Some s' \<and> I (Suc k) s'"
  shows "\<exists>s'. foldM f [m..<n] s = Some s' \<and> I n s'"
  using assms(2)
proof (induction rule: dec_induct)
  case base
  with assms(1) show ?case by simp
next
  case (step k)
  then obtain s1 where s1: "foldM f [m..<k] s = Some s1" "I k s1" by blast
  with step.hyps assms(3) obtain s2 where "f k s1 = Some s2" "I (Suc k) s2" by blast
  with s1 step.hyps show ?case by (simp add: foldM_append)
qed

lemma foldM_Some: "foldM (\<lambda>i s. Some (g i s)) is s = Some (fold g is s)"
  by (induction "is" arbitrary: s) simp_all

lemma foldM_cong:
  "(\<And>i s. i \<in> set is \<Longrightarrow> f i s = g i s) \<Longrightarrow> foldM f is s = foldM g is s"
  by (induction "is" arbitrary: s) (auto split: bind_splits)

lemma foldM_inv:
  assumes "foldM f is s = Some s'" "I s" "\<And>i s s'. I s \<Longrightarrow> f i s = Some s' \<Longrightarrow> I s'"
  shows "I s'"
  using assms(1,2) by (induction "is" arbitrary: s) (auto split: bind_splits intro: assms(3))

lemma foldM_inv_cong:
  assumes "I s" "\<And>i s. I s \<Longrightarrow> f i s = g i s" "\<And>i s s'. I s \<Longrightarrow> g i s = Some s' \<Longrightarrow> I s'"
  shows "foldM f is s = foldM g is s"
  using assms(1)
proof (induction "is" arbitrary: s)
  case (Cons i "is")
  then show ?case by (cases "g i s") (auto simp: assms(2) intro: assms(3))
qed simp

lemma fill_loop:
  assumes "\<And>k. m \<le> k \<Longrightarrow> k < n \<Longrightarrow> g k (fill f xs k) = st (fill f xs k) k (f k)" "m \<le> n" "n \<le> length xs"
  shows "foldM g [m..<n] (fill f xs m) = Some (fill f xs n)"
proof -
  have "\<exists>ys. foldM g [m..<n] (fill f xs m) = Some ys \<and> ys = fill f xs n"
    by (rule foldM_upt_rule [where I = "\<lambda>k ys. ys = fill f xs k"]) (use assms in \<open>auto simp: st_fill\<close>)
  then show ?thesis by blast
qed

section \<open>Copying bytes\<close>

text \<open>
  \<open>for (i = 0; i < n; i++) dst[d + i] = src[s + i]\<close>, the loop both digest routines and
  \<open>TEE_MemMove\<close> between disjoint buffers amount to.
\<close>

definition copy_loop :: "'a list \<Rightarrow> nat \<Rightarrow> 'a list \<Rightarrow> nat \<Rightarrow> nat \<Rightarrow> 'a list option" where
  "copy_loop dst d src s n =
     foldM (\<lambda>i dst. do { x \<leftarrow> ld src (s + i); st dst (d + i) x }) [0..<n] dst"

lemma copy_loop_ok:
  assumes "s + n \<le> length src" and "d + n \<le> length dst"
  shows "copy_loop dst d src s n = Some (take d dst @ take n (drop s src) @ drop (d + n) dst)"
proof -
  let ?I = "\<lambda>k xs. xs = take d dst @ take k (drop s src) @ drop (d + k) dst"
  have "\<exists>xs. copy_loop dst d src s n = Some xs \<and> ?I n xs"
    unfolding copy_loop_def
  proof (rule foldM_upt_rule [where I = ?I])
    fix k xs assume k: "k < n" and xs: "?I k xs"
    from k assms have len: "d + k < length xs" "s + k < length src"
      by (auto simp: xs)
    have "xs[d + k := src ! (s + k)] =
      take d dst @ take (Suc k) (drop s src) @ drop (d + Suc k) dst"
      using k assms Cons_nth_drop_Suc [of "d + k" dst, symmetric]
      by (simp add: xs list_update_append take_Suc_conv_app_nth)
    with len show "\<exists>xs'. (do { x \<leftarrow> ld src (s + k); st xs (d + k) x }) = Some xs' \<and> ?I (Suc k) xs'"
      by (simp add: mem_simps)
  qed (use assms in auto)
  then show ?thesis by blast
qed

lemma copy_loop_put:
  "s + n \<le> length src \<Longrightarrow> d + n \<le> length dst \<Longrightarrow>
     copy_loop dst d src s n = Some (put_block dst d (take n (drop s src)))"
proof -
  assume "s + n \<le> length src" "d + n \<le> length dst"
  then have "length (take n (drop s src)) = n" by simp
  with copy_loop_ok [OF \<open>s + n \<le> length src\<close> \<open>d + n \<le> length dst\<close>] show ?thesis
    by (simp add: put_block_def del: length_take)
qed

section \<open>Big-endian words\<close>

text \<open>Four bytes as a word, most significant byte first, at any width of at least 32 bits.\<close>

definition be_word :: "u8 \<Rightarrow> u8 \<Rightarrow> u8 \<Rightarrow> u8 \<Rightarrow> 'w::len word" where
  "be_word a b c d =
     push_bit 24 (ucast a) OR push_bit 16 (ucast b) OR push_bit 8 (ucast c) OR ucast d"

lemma bit_u8: "bit (x :: u8) m \<Longrightarrow> m < 8"
  using bit_imp_le_length [of x m] by simp

lemma mask_255: "(255 :: 'w::len word) = mask 8"
  by (simp add: mask_eq_exp_minus_1)

lemma bit_be_word:
  assumes "32 \<le> LENGTH('w::len)"
  shows "bit (be_word a b c d :: 'w word) n \<longleftrightarrow>
    (if n < 8 then bit d n else if n < 16 then bit c (n - 8)
     else if n < 24 then bit b (n - 16) else bit a (n - 24))"
  using assms by (auto simp: be_word_def bit_simps dest: bit_u8)

lemma be_word_xor:
  assumes "32 \<le> LENGTH('w::len)"
  shows "(be_word a b c d XOR be_word a' b' c' d' :: 'w word) =
    be_word (a XOR a') (b XOR b') (c XOR c') (d XOR d')"
  by (rule bit_word_eqI) (simp add: bit_simps bit_be_word [OF assms])

lemma be_word_byte:
  assumes "32 \<le> LENGTH('w::len)"
  shows "(ucast (drop_bit 24 (be_word a b c d :: 'w word)) :: u8) = a"
    and "(ucast (drop_bit 16 (be_word a b c d :: 'w word)) :: u8) = b"
    and "(ucast (drop_bit 8 (be_word a b c d :: 'w word)) :: u8) = c"
    and "(ucast (be_word a b c d :: 'w word) :: u8) = d"
  using assms by (auto intro!: bit_word_eqI simp: bit_simps bit_be_word [OF assms])

lemma be_word_index:
  assumes "32 \<le> LENGTH('w::len)"
  shows "drop_bit 24 (be_word a b c d :: 'w word) = ucast a"
    and "drop_bit 16 (be_word a b c d :: 'w word) AND 255 = ucast b"
    and "drop_bit 8 (be_word a b c d :: 'w word) AND 255 = ucast c"
    and "(be_word a b c d :: 'w word) AND 255 = ucast d"
  using assms
  by (auto intro!: bit_word_eqI simp: bit_simps bit_be_word [OF assms] mask_255 dest: bit_u8)

lemma unat_ucast_u8: "8 \<le> LENGTH('w::len) \<Longrightarrow> unat (ucast (a :: u8) :: 'w word) = unat a"
proof -
  assume "8 \<le> LENGTH('w)"
  then have "(2::nat) ^ 8 \<le> 2 ^ LENGTH('w)" by (rule power_increasing) simp
  then have "unat a < 2 ^ LENGTH('w)" using unsigned_less [of a, where ?'a = nat] by simp
  then show ?thesis by (simp add: unsigned_ucast_eq take_bit_nat_eq_self)
qed

lemma unat_u8_less [simp]: "unat (a :: u8) < 256"
  using unsigned_less [of a] by simp

lemma sint_small: "unat w < 2 ^ 31 \<Longrightarrow> sint w = int (unat w)" for w :: uint32
proof -
  assume "unat w < 2 ^ 31"
  then have "int (unat w) < int (2 ^ 31)" by (simp only: of_nat_less_iff)
  then have "signed_take_bit 31 (uint w) = uint w"
    by (intro signed_take_bit_int_eq_self) (simp_all add: order_trans [OF _ uint_ge_0])
  then show ?thesis by (simp add: sint_uint)
qed

section \<open>Memory accesses wider than a byte\<close>

text \<open>
  A 32 bit field of a packed buffer (little endian, as on the boards and the host), \<open>memcpy\<close>
  between two buffers, and \<open>memset\<close>; each is undefined outside its buffers.
\<close>

definition le32 :: "uint32 \<Rightarrow> u8 list" where
  "le32 w = [ucast w, ucast (drop_bit 8 w), ucast (drop_bit 16 w), ucast (drop_bit 24 w)]"

definition of_le32 :: "u8 list \<Rightarrow> uint32" where
  "of_le32 bs = (case bs of [a, b, c, d] \<Rightarrow> be_word d c b a | _ \<Rightarrow> 0)"

definition ld32 :: "u8 list \<Rightarrow> nat \<Rightarrow> uint32 option" where
  "ld32 b i = (if i + 4 \<le> length b then Some (of_le32 (take 4 (drop i b))) else None)"

definition st32 :: "u8 list \<Rightarrow> nat \<Rightarrow> uint32 \<Rightarrow> u8 list option" where
  "st32 b i w = (if i + 4 \<le> length b then Some (put_block b i (le32 w)) else None)"

definition memcpy :: "'a list \<Rightarrow> nat \<Rightarrow> 'a list \<Rightarrow> nat \<Rightarrow> 'a list option" where
  "memcpy dst d src n =
     (if n \<le> length src \<and> d + n \<le> length dst then Some (put_block dst d (take n src)) else None)"

lemma length_le32 [simp]: "length (le32 w) = 4"
  by (simp add: le32_def)

lemma of_le32_le32 [simp]: "of_le32 (le32 w) = w"
proof (rule bit_word_eqI)
  fix n assume n: "n < LENGTH(32)"
  have *: "bit (of_le32 (le32 w)) n \<longleftrightarrow>
    (if n < 8 then bit (ucast w :: u8) n else if n < 16 then bit (ucast (drop_bit 8 w) :: u8) (n - 8)
     else if n < 24 then bit (ucast (drop_bit 16 w) :: u8) (n - 16)
     else bit (ucast (drop_bit 24 w) :: u8) (n - 24))"
    by (simp add: of_le32_def le32_def bit_be_word)
  show "bit (of_le32 (le32 w)) n \<longleftrightarrow> bit w n"
    unfolding * using n by (simp add: bit_simps) linarith
qed

lemma put_block_app: "length zs = length bs \<Longrightarrow> put_block (xs @ zs @ ys) (length xs) bs = xs @ bs @ ys"
  by (simp add: put_block_def)

lemma ld32_app: "i = length xs \<Longrightarrow> ld32 (xs @ le32 w @ ys) i = Some w"
  by (simp add: ld32_def)

lemma st32_app: "i = length xs \<Longrightarrow> length zs = 4 \<Longrightarrow> st32 (xs @ zs @ ys) i w = Some (xs @ le32 w @ ys)"
  by (simp add: st32_def put_block_app)

lemma memcpy_app:
  "i = length xs \<Longrightarrow> length zs = n \<Longrightarrow> n = length bs \<Longrightarrow> memcpy (xs @ zs @ ys) i bs n = Some (xs @ bs @ ys)"
  by (simp add: memcpy_def put_block_app)

lemma ld32_total: "i + 4 \<le> length b \<Longrightarrow> \<exists>w. ld32 b i = Some w"
  by (simp add: ld32_def)

section \<open>Between 32 and 64 bits\<close>

lemma unat_ucast_32_64 [simp]: "unat (ucast (w :: uint32) :: size_t) = unat w"
proof -
  have "unat w < 2 ^ 64" using unsigned_less [of w, where ?'a = nat] by simp
  then show ?thesis by (simp add: unsigned_ucast_eq take_bit_nat_eq_self)
qed

lemma ucast_down_up [simp]: "ucast (ucast (w :: uint32) :: size_t) = w"
  by (rule bit_word_eqI) (simp add: bit_simps)

lemma ucast_below: "(ucast (n :: uint32) :: size_t) < 2 ^ 32"
  using unsigned_less [of n, where ?'a = nat] by (simp add: word_less_nat_alt)

lemma ucast_up_down: "h < 2 ^ 32 \<Longrightarrow> ucast (ucast (h :: size_t) :: uint32) = h"
  by (simp add: word_less_nat_alt word_unat_eq_iff unsigned_ucast_eq unsigned_take_bit_eq take_bit_nat_eq_self)

lemma unat_of_nat32: "n < 2 ^ 32 \<Longrightarrow> unat (of_nat n :: uint32) = n"
  by (simp add: unsigned_of_nat take_bit_nat_eq_self)

lemma size_64_32: "n < 2 ^ 32 \<Longrightarrow> (of_nat n :: size_t) = ucast (of_nat n :: uint32)"
  by (simp add: word_unat_eq_iff unat_of_nat32 unsigned_of_nat take_bit_nat_eq_self)

end
