(* ===== verification/Aes_Spec.thy ===== *)
theory Aes_Spec
  imports OT_Prelude
begin

text \<open>
  The abstract specification the crypt TA's AES is checked against: the cipher of FIPS 197 on a
  state of four columns of four bytes, written from the standard with no tables but the S-boxes,
  and its own correctness (the inverse cipher undoes the cipher, the equivalent inverse cipher of
  section 5.3.5 agrees with the inverse cipher).
\<close>

type_synonym col = "u8 \<times> u8 \<times> u8 \<times> u8"
type_synonym aes_state = "col \<times> col \<times> col \<times> col"

named_theorems aes_layers \<open>the layers of the cipher on explicit states\<close>

section \<open>The field GF(2^8)\<close>

definition xtime :: "u8 \<Rightarrow> u8" where
  "xtime a = push_bit 1 a XOR (if bit a 7 then 0x1b else 0)"

definition gmul :: "u8 \<Rightarrow> u8 \<Rightarrow> u8" where
  "gmul c a = foldr (\<lambda>i acc. (if bit c i then (xtime ^^ i) a else 0) XOR acc) [0..<8] 0"

definition SBOX :: "u8 list" where
  "SBOX = [
     0x63, 0x7c, 0x77, 0x7b, 0xf2, 0x6b, 0x6f, 0xc5, 0x30, 0x01, 0x67, 0x2b, 0xfe, 0xd7, 0xab, 0x76,
     0xca, 0x82, 0xc9, 0x7d, 0xfa, 0x59, 0x47, 0xf0, 0xad, 0xd4, 0xa2, 0xaf, 0x9c, 0xa4, 0x72, 0xc0,
     0xb7, 0xfd, 0x93, 0x26, 0x36, 0x3f, 0xf7, 0xcc, 0x34, 0xa5, 0xe5, 0xf1, 0x71, 0xd8, 0x31, 0x15,
     0x04, 0xc7, 0x23, 0xc3, 0x18, 0x96, 0x05, 0x9a, 0x07, 0x12, 0x80, 0xe2, 0xeb, 0x27, 0xb2, 0x75,
     0x09, 0x83, 0x2c, 0x1a, 0x1b, 0x6e, 0x5a, 0xa0, 0x52, 0x3b, 0xd6, 0xb3, 0x29, 0xe3, 0x2f, 0x84,
     0x53, 0xd1, 0x00, 0xed, 0x20, 0xfc, 0xb1, 0x5b, 0x6a, 0xcb, 0xbe, 0x39, 0x4a, 0x4c, 0x58, 0xcf,
     0xd0, 0xef, 0xaa, 0xfb, 0x43, 0x4d, 0x33, 0x85, 0x45, 0xf9, 0x02, 0x7f, 0x50, 0x3c, 0x9f, 0xa8,
     0x51, 0xa3, 0x40, 0x8f, 0x92, 0x9d, 0x38, 0xf5, 0xbc, 0xb6, 0xda, 0x21, 0x10, 0xff, 0xf3, 0xd2,
     0xcd, 0x0c, 0x13, 0xec, 0x5f, 0x97, 0x44, 0x17, 0xc4, 0xa7, 0x7e, 0x3d, 0x64, 0x5d, 0x19, 0x73,
     0x60, 0x81, 0x4f, 0xdc, 0x22, 0x2a, 0x90, 0x88, 0x46, 0xee, 0xb8, 0x14, 0xde, 0x5e, 0x0b, 0xdb,
     0xe0, 0x32, 0x3a, 0x0a, 0x49, 0x06, 0x24, 0x5c, 0xc2, 0xd3, 0xac, 0x62, 0x91, 0x95, 0xe4, 0x79,
     0xe7, 0xc8, 0x37, 0x6d, 0x8d, 0xd5, 0x4e, 0xa9, 0x6c, 0x56, 0xf4, 0xea, 0x65, 0x7a, 0xae, 0x08,
     0xba, 0x78, 0x25, 0x2e, 0x1c, 0xa6, 0xb4, 0xc6, 0xe8, 0xdd, 0x74, 0x1f, 0x4b, 0xbd, 0x8b, 0x8a,
     0x70, 0x3e, 0xb5, 0x66, 0x48, 0x03, 0xf6, 0x0e, 0x61, 0x35, 0x57, 0xb9, 0x86, 0xc1, 0x1d, 0x9e,
     0xe1, 0xf8, 0x98, 0x11, 0x69, 0xd9, 0x8e, 0x94, 0x9b, 0x1e, 0x87, 0xe9, 0xce, 0x55, 0x28, 0xdf,
     0x8c, 0xa1, 0x89, 0x0d, 0xbf, 0xe6, 0x42, 0x68, 0x41, 0x99, 0x2d, 0x0f, 0xb0, 0x54, 0xbb, 0x16]"

definition INV_SBOX :: "u8 list" where
  "INV_SBOX = [
     0x52, 0x09, 0x6a, 0xd5, 0x30, 0x36, 0xa5, 0x38, 0xbf, 0x40, 0xa3, 0x9e, 0x81, 0xf3, 0xd7, 0xfb,
     0x7c, 0xe3, 0x39, 0x82, 0x9b, 0x2f, 0xff, 0x87, 0x34, 0x8e, 0x43, 0x44, 0xc4, 0xde, 0xe9, 0xcb,
     0x54, 0x7b, 0x94, 0x32, 0xa6, 0xc2, 0x23, 0x3d, 0xee, 0x4c, 0x95, 0x0b, 0x42, 0xfa, 0xc3, 0x4e,
     0x08, 0x2e, 0xa1, 0x66, 0x28, 0xd9, 0x24, 0xb2, 0x76, 0x5b, 0xa2, 0x49, 0x6d, 0x8b, 0xd1, 0x25,
     0x72, 0xf8, 0xf6, 0x64, 0x86, 0x68, 0x98, 0x16, 0xd4, 0xa4, 0x5c, 0xcc, 0x5d, 0x65, 0xb6, 0x92,
     0x6c, 0x70, 0x48, 0x50, 0xfd, 0xed, 0xb9, 0xda, 0x5e, 0x15, 0x46, 0x57, 0xa7, 0x8d, 0x9d, 0x84,
     0x90, 0xd8, 0xab, 0x00, 0x8c, 0xbc, 0xd3, 0x0a, 0xf7, 0xe4, 0x58, 0x05, 0xb8, 0xb3, 0x45, 0x06,
     0xd0, 0x2c, 0x1e, 0x8f, 0xca, 0x3f, 0x0f, 0x02, 0xc1, 0xaf, 0xbd, 0x03, 0x01, 0x13, 0x8a, 0x6b,
     0x3a, 0x91, 0x11, 0x41, 0x4f, 0x67, 0xdc, 0xea, 0x97, 0xf2, 0xcf, 0xce, 0xf0, 0xb4, 0xe6, 0x73,
     0x96, 0xac, 0x74, 0x22, 0xe7, 0xad, 0x35, 0x85, 0xe2, 0xf9, 0x37, 0xe8, 0x1c, 0x75, 0xdf, 0x6e,
     0x47, 0xf1, 0x1a, 0x71, 0x1d, 0x29, 0xc5, 0x89, 0x6f, 0xb7, 0x62, 0x0e, 0xaa, 0x18, 0xbe, 0x1b,
     0xfc, 0x56, 0x3e, 0x4b, 0xc6, 0xd2, 0x79, 0x20, 0x9a, 0xdb, 0xc0, 0xfe, 0x78, 0xcd, 0x5a, 0xf4,
     0x1f, 0xdd, 0xa8, 0x33, 0x88, 0x07, 0xc7, 0x31, 0xb1, 0x12, 0x10, 0x59, 0x27, 0x80, 0xec, 0x5f,
     0x60, 0x51, 0x7f, 0xa9, 0x19, 0xb5, 0x4a, 0x0d, 0x2d, 0xe5, 0x7a, 0x9f, 0x93, 0xc9, 0x9c, 0xef,
     0xa0, 0xe0, 0x3b, 0x4d, 0xae, 0x2a, 0xf5, 0xb0, 0xc8, 0xeb, 0xbb, 0x3c, 0x83, 0x53, 0x99, 0x61,
     0x17, 0x2b, 0x04, 0x7e, 0xba, 0x77, 0xd6, 0x26, 0xe1, 0x69, 0x14, 0x63, 0x55, 0x21, 0x0c, 0x7d]"

definition sbox :: "u8 \<Rightarrow> u8" where
  "sbox a = SBOX ! unat a"

definition inv_sbox :: "u8 \<Rightarrow> u8" where
  "inv_sbox a = INV_SBOX ! unat a"

section \<open>Layers\<close>

fun xor_col :: "col \<Rightarrow> col \<Rightarrow> col" where
  "xor_col (a, b, c, d) (a', b', c', d') = (a XOR a', b XOR b', c XOR c', d XOR d')"

fun SubWord :: "col \<Rightarrow> col" where
  "SubWord (a, b, c, d) = (sbox a, sbox b, sbox c, sbox d)"

fun RotWord :: "col \<Rightarrow> col" where
  "RotWord (a, b, c, d) = (b, c, d, a)"

fun InvSubWord :: "col \<Rightarrow> col" where
  "InvSubWord (a, b, c, d) = (inv_sbox a, inv_sbox b, inv_sbox c, inv_sbox d)"

fun MixColumn :: "col \<Rightarrow> col" where
  "MixColumn (a, b, c, d) =
     (gmul 2 a XOR gmul 3 b XOR c XOR d,
      a XOR gmul 2 b XOR gmul 3 c XOR d,
      a XOR b XOR gmul 2 c XOR gmul 3 d,
      gmul 3 a XOR b XOR c XOR gmul 2 d)"

fun InvMixColumn :: "col \<Rightarrow> col" where
  "InvMixColumn (a, b, c, d) =
     (gmul 14 a XOR gmul 11 b XOR gmul 13 c XOR gmul 9 d,
      gmul 9 a XOR gmul 14 b XOR gmul 11 c XOR gmul 13 d,
      gmul 13 a XOR gmul 9 b XOR gmul 14 c XOR gmul 11 d,
      gmul 11 a XOR gmul 13 b XOR gmul 9 c XOR gmul 14 d)"

fun on_cols :: "(col \<Rightarrow> col) \<Rightarrow> aes_state \<Rightarrow> aes_state" where
  "on_cols f (c0, c1, c2, c3) = (f c0, f c1, f c2, f c3)"

fun ShiftRows :: "aes_state \<Rightarrow> aes_state" where
  "ShiftRows ((a0, a1, a2, a3), (b0, b1, b2, b3), (c0, c1, c2, c3), (d0, d1, d2, d3)) =
     ((a0, b1, c2, d3), (b0, c1, d2, a3), (c0, d1, a2, b3), (d0, a1, b2, c3))"

fun InvShiftRows :: "aes_state \<Rightarrow> aes_state" where
  "InvShiftRows ((a0, a1, a2, a3), (b0, b1, b2, b3), (c0, c1, c2, c3), (d0, d1, d2, d3)) =
     ((a0, d1, c2, b3), (b0, a1, d2, c3), (c0, b1, a2, d3), (d0, c1, b2, a3))"

abbreviation SubBytes :: "aes_state \<Rightarrow> aes_state" where "SubBytes \<equiv> on_cols SubWord"
abbreviation InvSubBytes :: "aes_state \<Rightarrow> aes_state" where "InvSubBytes \<equiv> on_cols InvSubWord"
abbreviation MixColumns :: "aes_state \<Rightarrow> aes_state" where "MixColumns \<equiv> on_cols MixColumn"
abbreviation InvMixColumns :: "aes_state \<Rightarrow> aes_state" where "InvMixColumns \<equiv> on_cols InvMixColumn"

fun AddRoundKey :: "(nat \<Rightarrow> col) \<Rightarrow> nat \<Rightarrow> aes_state \<Rightarrow> aes_state" where
  "AddRoundKey w r (c0, c1, c2, c3) =
     (xor_col c0 (w (4 * r)), xor_col c1 (w (4 * r + 1)),
      xor_col c2 (w (4 * r + 2)), xor_col c3 (w (4 * r + 3)))"

section \<open>Key expansion, cipher, inverse cipher\<close>

text \<open>\<open>w key Nk i\<close> is word \<open>i\<close> of the key schedule of FIPS 197, figure 11.\<close>

definition Rcon :: "nat \<Rightarrow> col" where
  "Rcon j = ((xtime ^^ (j - 1)) 1, 0, 0, 0)"

function KeyExpansion :: "(nat \<Rightarrow> col) \<Rightarrow> nat \<Rightarrow> nat \<Rightarrow> col" where
  "KeyExpansion key Nk i =
     (if i < Nk \<or> Nk = 0 then key i
      else xor_col (KeyExpansion key Nk (i - Nk))
        (let temp = KeyExpansion key Nk (i - 1) in
         if i mod Nk = 0 then xor_col (SubWord (RotWord temp)) (Rcon (i div Nk))
         else if Nk > 6 \<and> i mod Nk = 4 then SubWord temp
         else temp))"
  by pat_completeness auto
termination
  by (relation "measure (\<lambda>(key, Nk, i). i)") auto

declare KeyExpansion.simps [simp del]

definition enc_layer :: "(nat \<Rightarrow> col) \<Rightarrow> nat \<Rightarrow> aes_state \<Rightarrow> aes_state" where
  "enc_layer w r s = AddRoundKey w r (MixColumns (ShiftRows (SubBytes s)))"

definition Cipher :: "(nat \<Rightarrow> col) \<Rightarrow> nat \<Rightarrow> aes_state \<Rightarrow> aes_state" where
  "Cipher w Nr s =
     AddRoundKey w Nr (ShiftRows (SubBytes (fold (enc_layer w) [1..<Nr] (AddRoundKey w 0 s))))"

definition dec_layer :: "(nat \<Rightarrow> col) \<Rightarrow> nat \<Rightarrow> aes_state \<Rightarrow> aes_state" where
  "dec_layer w r s = InvMixColumns (AddRoundKey w r (InvSubBytes (InvShiftRows s)))"

definition InvCipher :: "(nat \<Rightarrow> col) \<Rightarrow> nat \<Rightarrow> aes_state \<Rightarrow> aes_state" where
  "InvCipher w Nr s =
     AddRoundKey w 0 (InvSubBytes (InvShiftRows
       (fold (dec_layer w) (rev [1..<Nr]) (AddRoundKey w Nr s))))"

text \<open>The equivalent inverse cipher runs the layers in the order of the cipher.\<close>

definition eqdec_layer :: "(nat \<Rightarrow> col) \<Rightarrow> nat \<Rightarrow> aes_state \<Rightarrow> aes_state" where
  "eqdec_layer dw r s = AddRoundKey dw r (InvMixColumns (InvShiftRows (InvSubBytes s)))"

definition EqInvCipher :: "(nat \<Rightarrow> col) \<Rightarrow> nat \<Rightarrow> aes_state \<Rightarrow> aes_state" where
  "EqInvCipher dw Nr s =
     AddRoundKey dw Nr (InvShiftRows (InvSubBytes (fold (eqdec_layer dw) [1..<Nr] (AddRoundKey dw 0 s))))"

text \<open>Its key schedule: rounds reversed, the inner ones sent through \<open>InvMixColumn\<close>.\<close>

definition dec_keys :: "(nat \<Rightarrow> col) \<Rightarrow> nat \<Rightarrow> nat \<Rightarrow> col" where
  "dec_keys w Nr i =
     (let k = w (4 * (Nr - i div 4) + i mod 4) in if 4 \<le> i \<and> i < 4 * Nr then InvMixColumn k else k)"

section \<open>Field arithmetic\<close>

lemma xtime_xor: "xtime (a XOR b) = xtime a XOR xtime b"
  by (rule bit_word_eqI) (auto simp: xtime_def bit_simps)

lemma xtime_0 [simp]: "xtime 0 = 0"
  by (simp add: xtime_def)

lemma gmul_unroll:
  "gmul 2 a = xtime a"
  "gmul 3 a = xtime a XOR a"
  "gmul 9 a = xtime (xtime (xtime a)) XOR a"
  "gmul 11 a = xtime (xtime (xtime a)) XOR xtime a XOR a"
  "gmul 13 a = xtime (xtime (xtime a)) XOR xtime (xtime a) XOR a"
  "gmul 14 a = xtime (xtime (xtime a)) XOR xtime (xtime a) XOR xtime a"
  by (simp_all add: gmul_def upt_rec [of _ 8] numeral_eq_Suc bit_simps ac_simps)

text \<open>A sum of bytes in which every summand occurs twice vanishes.\<close>

lemma xor_cancel [simp]:
  "a XOR (a XOR b) = b" for a b :: "'a::len word"
  by (simp flip: xor.assoc)

lemma xor_cancel_right [simp]:
  "(a XOR b) XOR b = a" for a b :: "'a::len word"
  by (simp add: xor.assoc)

lemma InvMixColumn_MixColumn: "InvMixColumn (MixColumn c) = c"
  by (cases c) (simp add: gmul_unroll xtime_xor ac_simps)

lemma InvMixColumn_xor: "InvMixColumn (xor_col c k) = xor_col (InvMixColumn c) (InvMixColumn k)"
  by (cases c; cases k) (simp add: gmul_unroll xtime_xor ac_simps)

lemma xor_col_cancel: "xor_col (xor_col c k) k = c"
  by (cases c; cases k) simp

section \<open>The S-box\<close>

lemma length_SBOX: "length SBOX = 256"
  by (simp add: SBOX_def)

lemma inv_sbox_table: "map (\<lambda>s. INV_SBOX ! unat s) SBOX = map of_nat [0..<256]"
  by (simp add: SBOX_def INV_SBOX_def upt_rec)

lemma inv_sbox_sbox: "inv_sbox (sbox a) = a"
proof -
  have "map (\<lambda>s. INV_SBOX ! unat s) SBOX ! unat a = map of_nat [0..<256] ! unat a"
    by (simp only: inv_sbox_table)
  then show ?thesis by (simp add: sbox_def inv_sbox_def length_SBOX)
qed

lemma InvSubWord_SubWord: "InvSubWord (SubWord c) = c"
  by (cases c) (simp add: inv_sbox_sbox)

section \<open>The inverse cipher undoes the cipher\<close>

lemma InvShiftRows_ShiftRows: "InvShiftRows (ShiftRows s) = s"
  by (cases s rule: ShiftRows.cases) simp

lemma InvSub_shift_commute: "InvSubBytes (InvShiftRows s) = InvShiftRows (InvSubBytes s)"
  by (cases s rule: InvShiftRows.cases) simp

lemma InvSub_Sub: "InvSubBytes (SubBytes s) = s"
  by (cases s rule: prod_cases4) (simp add: InvSubWord_SubWord)

lemma InvMix_Mix: "InvMixColumns (MixColumns s) = s"
  by (cases s rule: prod_cases4) (simp add: InvMixColumn_MixColumn del: InvMixColumn.simps MixColumn.simps)

lemma AddRoundKey_cancel: "AddRoundKey w r (AddRoundKey w r s) = s"
  by (cases s rule: prod_cases4) (simp add: xor_col_cancel)

lemmas layer_inverses =
  InvShiftRows_ShiftRows InvSub_Sub InvMix_Mix AddRoundKey_cancel

text \<open>
  The inverse rounds start after an inverse substitution that the cipher's rounds end without:
  the two chains are shifted by one layer, which the induction carries along.
\<close>

lemma dec_layer_enc_layer:
  "dec_layer w r (ShiftRows (SubBytes (enc_layer w r s))) = ShiftRows (SubBytes s)"
  by (simp add: dec_layer_def enc_layer_def layer_inverses)

lemma dec_layers_enc_layers:
  "m \<le> n \<Longrightarrow> fold (dec_layer w) (rev [m..<n]) (ShiftRows (SubBytes (fold (enc_layer w) [m..<n] s)))
     = ShiftRows (SubBytes s)"
  by (induction rule: dec_induct) (simp_all add: dec_layer_enc_layer)

theorem InvCipher_Cipher: "1 \<le> Nr \<Longrightarrow> InvCipher w Nr (Cipher w Nr s) = s"
  by (simp add: InvCipher_def Cipher_def AddRoundKey_cancel dec_layers_enc_layers
      InvShiftRows_ShiftRows InvSub_Sub)

section \<open>The equivalent inverse cipher\<close>

lemma dec_keys_simps:
  "j < 4 \<Longrightarrow> dec_keys w Nr j = w (4 * Nr + j)"
  "j < 4 \<Longrightarrow> dec_keys w Nr (4 * Nr + j) = w j"
  "0 < r \<Longrightarrow> r < Nr \<Longrightarrow> j < 4 \<Longrightarrow> dec_keys w Nr (4 * r + j) = InvMixColumn (w (4 * (Nr - r) + j))"
  by (auto simp: dec_keys_def Let_def)

lemma AddRoundKey_dec_keys:
  "AddRoundKey (dec_keys w Nr) 0 s = AddRoundKey w Nr s"
  "AddRoundKey (dec_keys w Nr) Nr s = AddRoundKey w 0 s"
  "0 < r \<Longrightarrow> r < Nr \<Longrightarrow>
     AddRoundKey (dec_keys w Nr) r (InvMixColumns s) = InvMixColumns (AddRoundKey w (Nr - r) s)"
proof -
  have j: "(0::nat) < 4" "(1::nat) < 4" "(2::nat) < 4" "(3::nat) < 4" by simp_all
  note at = dec_keys_simps(1,2) [OF j(2)] dec_keys_simps(1,2) [OF j(3)]
    dec_keys_simps(1,2) [OF j(4)] dec_keys_simps(1,2) [OF j(1), unfolded add_0_right]
  note ev = AddRoundKey.simps on_cols.simps mult_0_right add_0
  show "AddRoundKey (dec_keys w Nr) 0 s = AddRoundKey w Nr s"
    by (cases s rule: prod_cases4) (simp only: ev at)
  show "AddRoundKey (dec_keys w Nr) Nr s = AddRoundKey w 0 s"
    by (cases s rule: prod_cases4) (simp only: ev at)
  assume r: "0 < r" "r < Nr"
  note at3 = dec_keys_simps(3) [OF r j(2)] dec_keys_simps(3) [OF r j(3)] dec_keys_simps(3) [OF r j(4)]
    dec_keys_simps(3) [OF r j(1), unfolded add_0_right]
  show "AddRoundKey (dec_keys w Nr) r (InvMixColumns s) = InvMixColumns (AddRoundKey w (Nr - r) s)"
    by (cases s rule: prod_cases4) (simp only: ev at3 InvMixColumn_xor)
qed

lemma eqdec_layer_dec_keys:
  "0 < r \<Longrightarrow> r < Nr \<Longrightarrow> eqdec_layer (dec_keys w Nr) r = dec_layer w (Nr - r)"
  by (rule ext) (simp add: eqdec_layer_def dec_layer_def AddRoundKey_dec_keys InvSub_shift_commute)

lemma rev_upt_map: "rev [1..<n] = map (\<lambda>r. n - r) [1..<n]"
  by (rule nth_equalityI) (auto simp: rev_nth)

theorem EqInvCipher_dec_keys: "EqInvCipher (dec_keys w Nr) Nr s = InvCipher w Nr s"
proof -
  have "fold (eqdec_layer (dec_keys w Nr)) [1..<Nr] t = fold (dec_layer w) (rev [1..<Nr]) t" for t
    unfolding rev_upt_map fold_map o_def
    by (rule fold_cong) (auto simp: eqdec_layer_dec_keys)
  then show ?thesis
    by (simp add: EqInvCipher_def InvCipher_def AddRoundKey_dec_keys InvSub_shift_commute)
qed

end
