(* ===== verification/Aes_Tables.thy ===== *)
theory Aes_Tables
  imports Aes_Impl Aes_Spec
begin

text \<open>
  The ten lookup tables of \<open>aes_impl.c\<close>, entry by entry: each entry packs multiples of an S-box
  value of FIPS 197.  The comparison is made on the integer values of the entries, which the
  simplifier evaluates faster than words.
\<close>

section \<open>Reading a table through its integer values\<close>

definition xtime_int :: "int \<Rightarrow> int" where
  "xtime_int s = (if s < 128 then 2 * s else (2 * s - 256) XOR 27)"

definition pack_int :: "int \<Rightarrow> int \<Rightarrow> int \<Rightarrow> int \<Rightarrow> int" where
  "pack_int a b c d = a * 16777216 + b * 65536 + c * 256 + d"

definition rot_int :: "int \<Rightarrow> int" where
  "rot_int x = x div 256 + x mod 256 * 16777216"

lemma uint_u8_less: "uint (a :: u8) < 256"
  using uint_lt2p [of a] by simp

lemma bit7_iff: "bit (a :: u8) 7 \<longleftrightarrow> 128 \<le> uint a"
proof -
  have "bit a 7 \<longleftrightarrow> odd (uint a div 128)"
    using bit_uint_iff [of a 7] by (simp add: bit_iff_odd)
  also have "\<dots> \<longleftrightarrow> 128 \<le> uint a"
    using uint_u8_less [of a] uint_ge_0 [of a] by presburger
  finally show ?thesis .
qed

lemma mod_256_once: "256 \<le> x \<Longrightarrow> x < 512 \<Longrightarrow> x mod 256 = x - 256" for x :: int
  using mod_pos_pos_trivial [of "x - 256" 256] by (simp add: minus_mod_self2)

lemma uint_xtime: "uint (xtime a) = xtime_int (uint a)"
proof -
  have "uint (a * 2) = (if uint a < 128 then 2 * uint a else 2 * uint a - 256)"
    using uint_u8_less [of a] mod_256_once [of "uint a * 2"]
    by (simp add: uint_word_ariths)
  then show ?thesis
    using bit7_iff [of a] by (auto simp: xtime_def xtime_int_def push_bit_eq_mult uint_xor)
qed

lemma uint_be_word: "uint (be_word a b c d :: u32) = pack_int (uint a) (uint b) (uint c) (uint d)"
proof -
  have "uint (be_word a b c d :: u32) =
      push_bit 24 (uint a) OR push_bit 16 (uint b) OR push_bit 8 (uint c) OR uint d"
    by (rule bit_eqI) (auto simp: bit_uint_iff bit_be_word bit_simps dest: bit_u8)
  also have "\<dots> = push_bit 24 (uint a) + (push_bit 16 (uint b) + (push_bit 8 (uint c) + uint d))"
    by (subst disjunctive_add [symmetric]; auto simp: bit_simps dest: bit_u8)+
  finally show ?thesis by (simp add: push_bit_eq_mult pack_int_def)
qed

lemma rot_int_pack:
  "rot_int (pack_int (uint a) (uint b) (uint c) (uint (d :: u8))) =
     pack_int (uint d) (uint a) (uint b) (uint c)"
proof -
  define h where "h = uint a * 65536 + uint b * 256 + uint c"
  have "pack_int (uint a) (uint b) (uint c) (uint d) = uint d + h * 256"
    by (simp add: pack_int_def h_def)
  then have "rot_int (pack_int (uint a) (uint b) (uint c) (uint d)) = h + uint d * 16777216"
    using uint_u8_less [of d] by (simp add: rot_int_def)
  then show ?thesis by (simp add: pack_int_def h_def)
qed

lemma table_at:
  assumes "map uint T = map (\<lambda>s. F (uint s)) L" and "length L = 256"
    and "\<And>s. F (uint s) = uint (G s)"
  shows "T ! unat (a :: u8) = (G (L ! unat a) :: u32)"
proof -
  have len: "length T = 256" using arg_cong [OF assms(1), of length] assms(2) by simp
  have "map uint T ! unat a = map (\<lambda>s. F (uint s)) L ! unat a" by (simp only: assms(1))
  then have "uint (T ! unat a) = uint (G (L ! unat a))"
    by (simp add: len assms(2,3))
  then show ?thesis by (rule word_uint_eqI)
qed

section \<open>The encryption tables\<close>

lemma Te0_ints: "map uint Te0 =
  map (\<lambda>s. pack_int (xtime_int (uint s)) (uint s) (uint s) (xtime_int (uint s) XOR uint s)) SBOX"
  by (simp add: Te0_def SBOX_def xtime_int_def pack_int_def)

lemma Te1_ints: "map uint Te1 = map (\<lambda>x. rot_int (uint x)) Te0"
  by (simp add: Te0_def Te1_def rot_int_def)

lemma Te2_ints: "map uint Te2 = map (\<lambda>x. rot_int (uint x)) Te1"
  by (simp add: Te1_def Te2_def rot_int_def)

lemma Te3_ints: "map uint Te3 = map (\<lambda>x. rot_int (uint x)) Te2"
  by (simp add: Te2_def Te3_def rot_int_def)

lemma Te4_ints: "map uint Te4 = map (\<lambda>s. pack_int (uint s) (uint s) (uint s) (uint s)) SBOX"
  by (simp add: Te4_def SBOX_def pack_int_def)

lemma length_Te: "length Te0 = 256" "length Te1 = 256" "length Te2 = 256" "length Te3 = 256"
  "length Te4 = 256"
  by (simp_all add: Te0_def Te1_def Te2_def Te3_def Te4_def)

lemma length_Td: "length Td0 = 256" "length Td1 = 256" "length Td2 = 256" "length Td3 = 256"
  "length Td4 = 256" and length_INV_SBOX: "length INV_SBOX = 256"
  by (simp_all add: Td0_def Td1_def Td2_def Td3_def Td4_def INV_SBOX_def)

lemma rot_table:
  assumes "map uint T' = map (\<lambda>x. rot_int (uint x)) T" and "length T = 256"
    and "T ! unat (a :: u8) = (be_word p q r s :: u32)"
  shows "T' ! unat a = (be_word s p q r :: u32)"
proof -
  have len: "length T' = 256" using arg_cong [OF assms(1), of length] assms(2) by simp
  have "map uint T' ! unat a = map (\<lambda>x. rot_int (uint x)) T ! unat a" by (simp only: assms(1))
  then have "uint (T' ! unat a) = uint (be_word s p q r :: u32)"
    by (simp add: len assms(2,3) uint_be_word rot_int_pack)
  then show ?thesis by (rule word_uint_eqI)
qed

lemma Te0_at: "Te0 ! unat a = be_word (gmul 2 (sbox a)) (sbox a) (sbox a) (gmul 3 (sbox a))"
  unfolding sbox_def
  by (rule table_at [OF Te0_ints length_SBOX]) (simp add: uint_be_word gmul_unroll uint_xtime uint_xor)

lemmas Te1_at = rot_table [OF Te1_ints length_Te(1) Te0_at]
lemmas Te2_at = rot_table [OF Te2_ints length_Te(2) Te1_at]
lemmas Te3_at = rot_table [OF Te3_ints length_Te(3) Te2_at]

lemma Te4_at: "Te4 ! unat a = be_word (sbox a) (sbox a) (sbox a) (sbox a)"
  unfolding sbox_def by (rule table_at [OF Te4_ints length_SBOX]) (simp add: uint_be_word)

section \<open>The decryption tables\<close>

lemma Td0_ints: "map uint Td0 =
  map (\<lambda>s. let s2 = xtime_int (uint s); s4 = xtime_int s2; s8 = xtime_int s4; s9 = s8 XOR uint s in
    pack_int (s8 XOR s4 XOR s2) s9 (s9 XOR s4) (s9 XOR s2)) INV_SBOX"
  by (simp add: Td0_def INV_SBOX_def xtime_int_def pack_int_def)

lemma Td1_ints: "map uint Td1 = map (\<lambda>x. rot_int (uint x)) Td0"
  by (simp add: Td0_def Td1_def rot_int_def)

lemma Td2_ints: "map uint Td2 = map (\<lambda>x. rot_int (uint x)) Td1"
  by (simp add: Td1_def Td2_def rot_int_def)

lemma Td3_ints: "map uint Td3 = map (\<lambda>x. rot_int (uint x)) Td2"
  by (simp add: Td2_def Td3_def rot_int_def)

lemma Td4_ints: "map uint Td4 = map (\<lambda>s. pack_int (uint s) (uint s) (uint s) (uint s)) INV_SBOX"
  by (simp add: Td4_def INV_SBOX_def pack_int_def)

lemma Td0_at: "Td0 ! unat a =
  be_word (gmul 14 (inv_sbox a)) (gmul 9 (inv_sbox a)) (gmul 13 (inv_sbox a)) (gmul 11 (inv_sbox a))"
  unfolding inv_sbox_def
  by (rule table_at [OF Td0_ints length_INV_SBOX])
    (simp add: uint_be_word gmul_unroll uint_xtime uint_xor Let_def ac_simps)

lemmas Td1_at = rot_table [OF Td1_ints length_Td(1) Td0_at]
lemmas Td2_at = rot_table [OF Td2_ints length_Td(2) Td1_at]
lemmas Td3_at = rot_table [OF Td3_ints length_Td(3) Td2_at]

lemma Td4_at: "Td4 ! unat a = be_word (inv_sbox a) (inv_sbox a) (inv_sbox a) (inv_sbox a)"
  unfolding inv_sbox_def by (rule table_at [OF Td4_ints length_INV_SBOX]) (simp add: uint_be_word)

lemmas table_simps = length_Te length_Td Te0_at Te1_at Te2_at Te3_at Te4_at
  Td0_at Td1_at Td2_at Td3_at Td4_at

end
