(* ===== verification/Aes_Keys.thy ===== *)
theory Aes_Keys
  imports Aes_Tables
begin

text \<open>
  The key schedules of \<open>aes_impl.c\<close> compute the key expansion of FIPS 197, and never leave the
  round key array of the size \<open>RKLENGTH\<close> announces.
\<close>

section \<open>Columns as words\<close>

fun word_of :: "col \<Rightarrow> u32" where
  "word_of (a, b, c, d) = be_word a b c d"

definition col_at :: "u8 list \<Rightarrow> nat \<Rightarrow> col" where
  "col_at p i = (p ! i, p ! (i + 1), p ! (i + 2), p ! (i + 3))"

lemma word_of_xor: "word_of (xor_col c k) = word_of c XOR word_of k"
  by (cases c; cases k) (simp add: be_word_xor)

lemma be_word_xor_form:
  "push_bit 24 (ucast a) XOR push_bit 16 (ucast b) XOR push_bit 8 (ucast c) XOR ucast d
     = (be_word a b c d :: u32)"
  by (rule bit_word_eqI) (auto simp: bit_be_word bit_simps dest: bit_u8)

lemma GETU32_ok: "i + 4 \<le> length p \<Longrightarrow> GETU32 p i = Some (word_of (col_at p i))"
  by (simp add: GETU32_def col_at_def mem_simps be_word_xor_form)

lemma be_word_masks:
  "(be_word a b c d :: u32) AND 0xff000000 = be_word a 0 0 0"
  "(be_word a b c d :: u32) AND 0x00ff0000 = be_word 0 b 0 0"
  "(be_word a b c d :: u32) AND 0x0000ff00 = be_word 0 0 c 0"
  "(be_word a b c d :: u32) AND 0x000000ff = be_word 0 0 0 d"
proof -
  have m: "(0xff000000 :: u32) = push_bit 24 (mask 8)" "(0x00ff0000 :: u32) = push_bit 16 (mask 8)"
    "(0x0000ff00 :: u32) = push_bit 8 (mask 8)" "(0x000000ff :: u32) = mask 8"
    by (simp_all add: mask_eq_exp_minus_1 push_bit_eq_mult)
  show "(be_word a b c d :: u32) AND 0xff000000 = be_word a 0 0 0"
    "(be_word a b c d :: u32) AND 0x00ff0000 = be_word 0 b 0 0"
    "(be_word a b c d :: u32) AND 0x0000ff00 = be_word 0 0 c 0"
    "(be_word a b c d :: u32) AND 0x000000ff = be_word 0 0 0 d"
    unfolding m by (rule bit_word_eqI; auto simp: bit_be_word bit_simps dest: bit_u8)+
qed

lemma table_index [byte_simps]:
  "unat (drop_bit 24 (be_word a b c d :: u32)) = unat a"
  "unat (drop_bit 16 (be_word a b c d :: u32) AND 255) = unat b"
  "unat (drop_bit 8 (be_word a b c d :: u32) AND 255) = unat c"
  "unat (be_word 0 0 0 d :: u32) = unat d"
  by (simp_all add: be_word_index unat_ucast_u8) (simp add: be_word_def unat_ucast_u8)

lemmas word_simps = byte_simps mem_simps table_simps be_word_masks be_word_xor

lemma sub_rot_word_ok: "sub_rot_word (word_of c) = Some (word_of (SubWord (RotWord c)))"
  by (cases c) (simp add: sub_rot_word_def word_simps)

lemma sub_word_ok: "sub_word (word_of c) = Some (word_of (SubWord c))"
  by (cases c) (simp add: sub_word_def word_simps)

section \<open>Round key arrays\<close>

lemma xor_words_fill:
  "\<lbrakk> d < length rk; a < d; b < d; f d = f a XOR f b; m = d + 1 \<rbrakk>
     \<Longrightarrow> xor_words (fill f rk d) d a b = Some (fill f rk m)"
  by (simp add: xor_words_def ld_fill st_fill)

section \<open>Key expansion\<close>

text \<open>The round key words of a key, as the code stores them.\<close>

definition rk_word :: "u8 list \<Rightarrow> nat \<Rightarrow> nat \<Rightarrow> u32" where
  "rk_word key Nk i = word_of (KeyExpansion (\<lambda>i. col_at key (4 * i)) Nk i)"

lemma rk_word_key: "i < Nk \<Longrightarrow> rk_word key Nk i = word_of (col_at key (4 * i))"
  by (simp add: rk_word_def KeyExpansion.simps)

lemma rk_word_step:
  assumes "0 < j" "j < Nk" "Nk \<le> 6 \<or> j \<noteq> 4"
  shows "rk_word key Nk (Nk * q + Nk + j) =
    rk_word key Nk (Nk * q + j) XOR rk_word key Nk (Nk * q + Nk + j - 1)"
proof -
  have "(j + Nk * Suc q) mod Nk = j" using assms by (simp only: mod_mult_self2 mod_less)
  then have "(Nk * q + Nk + j) mod Nk = j" by (simp add: ac_simps)
  then show ?thesis
    using assms KeyExpansion.simps [of "\<lambda>i. col_at key (4 * i)" Nk "Nk * q + Nk + j"]
    by (auto simp: rk_word_def word_of_xor Let_def simp del: word_of.simps)
qed

lemma rk_word_group:
  assumes "0 < Nk"
  shows "KeyExpansion key Nk (Nk * q + Nk) = xor_col (KeyExpansion key Nk (Nk * q))
    (xor_col (SubWord (RotWord (KeyExpansion key Nk (Nk * q + Nk - 1)))) (Rcon (q + 1)))"
proof -
  have "(Nk * q + Nk) mod Nk = 0" "(Nk * q + Nk) div Nk = q + 1" using assms by simp_all
  then show ?thesis
    using assms KeyExpansion.simps [of key Nk "Nk * q + Nk"] by (simp add: Let_def)
qed

lemma rcon_Rcon: "i < 10 \<Longrightarrow> ld rcon i = Some (word_of (Rcon (i + 1)))"
proof -
  assume "i < 10"
  then have "i \<in> set [0..<10]" by simp
  moreover have "\<forall>i \<in> set [0..<10]. ld rcon i = Some (word_of (Rcon (i + 1)))"
    by code_simp
  ultimately show ?thesis by blast
qed
lemma sub_rot_word_rk:
  "sub_rot_word (rk_word key Nk i) =
     Some (word_of (SubWord (RotWord (KeyExpansion (\<lambda>i. col_at key (4 * i)) Nk i))))"
  by (simp add: rk_word_def sub_rot_word_ok)

lemma st_group_head:
  assumes "0 < Nk" "q < 10" "d < length rk" "off = Nk * q" "d = off + Nk" "t = d - 1" "m = d + 1"
  shows "do { temp \<leftarrow> ld (fill (rk_word key Nk) rk d) t;
              k \<leftarrow> ld (fill (rk_word key Nk) rk d) off;
              x \<leftarrow> sub_rot_word temp;
              rc \<leftarrow> ld rcon q;
              rk \<leftarrow> st (fill (rk_word key Nk) rk d) d (k XOR x XOR rc);
              c rk } = c (fill (rk_word key Nk) rk m)"
proof -
  have "rk_word key Nk off XOR word_of (SubWord (RotWord (KeyExpansion (\<lambda>i. col_at key (4 * i)) Nk t)))
      XOR word_of (Rcon (q + 1)) = rk_word key Nk d"
    using assms by (simp add: rk_word_def rk_word_group word_of_xor xor.assoc del: word_of.simps)
  with assms show ?thesis
    by (simp add: ld_fill sub_rot_word_rk rcon_Rcon st_fill del: One_nat_def)
qed

lemma xor_words_rk:
  assumes "d < length rk" "d = Nk * q + Nk + j" "a = Nk * q + j" "b + 1 = d" "m = d + 1"
    and "0 < j" "j < Nk" "Nk \<le> 6 \<or> j \<noteq> 4"
  shows "xor_words (fill (rk_word key Nk) rk d) d a b = Some (fill (rk_word key Nk) rk m)"
proof (rule xor_words_fill)
  have "b = d - 1" using assms(4) by simp
  with assms rk_word_step [of j Nk key q] show "rk_word key Nk d = rk_word key Nk a XOR rk_word key Nk b"
    by simp
qed (use assms in auto)

lemma expand128_step:
  assumes "44 \<le> length rk" and "i < 10" and off: "off = 4 * i"
  shows "expand128 (fill (rk_word key 4) rk (off + 4)) off i =
    (if i + 1 = 10 then Some (fill (rk_word key 4) rk (off + 8))
     else expand128 (fill (rk_word key 4) rk (off + 8)) (off + 4) (i + 1))"
proof -
  let ?F = "fill (rk_word key 4) rk"
  note x = xor_words_rk [where q = i and Nk = 4 and rk = rk and key = key]
  have "xor_words (?F (off + 5)) (off + 5) (off + 1) (off + 4) = Some (?F (off + 6))"
    "xor_words (?F (off + 6)) (off + 6) (off + 2) (off + 5) = Some (?F (off + 7))"
    "xor_words (?F (off + 7)) (off + 7) (off + 3) (off + 6) = Some (?F (off + 8))"
    by (rule x [where j = 1] x [where j = 2] x [where j = 3]; use assms in simp)+
  then show ?thesis
    by (subst expand128.simps, subst st_group_head [where m = "off + 5"]) (use assms in simp_all)
qed

lemma expand128_ok:
  assumes "44 \<le> length rk" and "i < 10" and "off = 4 * i"
  shows "expand128 (fill (rk_word key 4) rk (off + 4)) off i = Some (fill (rk_word key 4) rk 44)"
  using assms(2,3)
proof (induction "9 - i" arbitrary: i off)
  case 0
  then have "i = 9" by simp
  with 0 show ?case by (subst expand128_step) (use assms(1) in auto)
next
  case (Suc n)
  then show ?case
    using Suc.hyps(1) [of "i + 1" "off + 4"] by (subst expand128_step)
      (use assms(1) in \<open>auto simp: add.commute\<close>)
qed

lemma expand192_step:
  assumes "52 \<le> length rk" and "i < 8" and off: "off = 6 * i"
  shows "expand192 (fill (rk_word key 6) rk (off + 6)) off i =
    (if i + 1 = 8 then Some (fill (rk_word key 6) rk (off + 10))
     else expand192 (fill (rk_word key 6) rk (off + 12)) (off + 6) (i + 1))"
proof -
  let ?F = "fill (rk_word key 6) rk"
  note x = xor_words_rk [where q = i and Nk = 6 and rk = rk and key = key]
  have "xor_words (?F (off + 7)) (off + 7) (off + 1) (off + 6) = Some (?F (off + 8))"
    "xor_words (?F (off + 8)) (off + 8) (off + 2) (off + 7) = Some (?F (off + 9))"
    "xor_words (?F (off + 9)) (off + 9) (off + 3) (off + 8) = Some (?F (off + 10))"
    by (rule x [where j = 1] x [where j = 2] x [where j = 3]; use assms in simp)+
  moreover have "xor_words (?F (off + 10)) (off + 10) (off + 4) (off + 9) = Some (?F (off + 11))"
    "xor_words (?F (off + 11)) (off + 11) (off + 5) (off + 10) = Some (?F (off + 12))"
    if "i + 1 \<noteq> 8"
    by (rule x [where j = 4] x [where j = 5]; use assms that in simp)+
  ultimately show ?thesis
    by (subst expand192.simps, subst st_group_head [where m = "off + 7"]) (use assms in simp_all)
qed

lemma expand192_ok:
  assumes "52 \<le> length rk" and "i < 8" and "off = 6 * i"
  shows "expand192 (fill (rk_word key 6) rk (off + 6)) off i = Some (fill (rk_word key 6) rk 52)"
  using assms(2,3)
proof (induction "7 - i" arbitrary: i off)
  case 0
  then have "i = 7" by simp
  with 0 show ?case by (subst expand192_step) (use assms(1) in auto)
next
  case (Suc n)
  then show ?case
    using Suc.hyps(1) [of "i + 1" "off + 6"] by (subst expand192_step)
      (use assms(1) in \<open>auto simp: add.commute\<close>)
qed

text \<open>The fifth word of a 256 bit group goes through the S-box without rotation.\<close>

lemma rk_word_middle:
  "rk_word key 8 (8 * q + 12) = rk_word key 8 (8 * q + 4) XOR
     word_of (SubWord (KeyExpansion (\<lambda>i. col_at key (4 * i)) 8 (8 * q + 11)))"
proof -
  have "(4 + 8 * Suc q) mod 8 = 4" by (simp only: mod_mult_self2) simp
  then have "(8 * q + 12) mod 8 = 4" by (simp add: ac_simps)
  then show ?thesis
    using KeyExpansion.simps [of "\<lambda>i. col_at key (4 * i)" 8 "8 * q + 12"]
    by (simp add: rk_word_def word_of_xor Let_def ac_simps del: word_of.simps)
qed

lemma st_group_middle:
  assumes "d < length rk" "d = 8 * q + 12" "t + 1 = d" "k + 8 = d" "m = d + 1"
  shows "do { temp \<leftarrow> ld (fill (rk_word key 8) rk d) t;
              k \<leftarrow> ld (fill (rk_word key 8) rk d) k;
              x \<leftarrow> sub_word temp;
              rk \<leftarrow> st (fill (rk_word key 8) rk d) d (k XOR x);
              c rk } = c (fill (rk_word key 8) rk m)"
proof -
  have tk: "t = 8 * q + 11" "k = 8 * q + 4" using assms by simp_all
  have "sub_word (rk_word key 8 t) =
      Some (word_of (SubWord (KeyExpansion (\<lambda>i. col_at key (4 * i)) 8 t)))"
    by (simp add: rk_word_def sub_word_ok)
  with assms show ?thesis
    by (simp add: ld_fill st_fill rk_word_middle tk)
qed

lemma expand256_step:
  assumes "60 \<le> length rk" and "i < 7" and off: "off = 8 * i"
  shows "expand256 (fill (rk_word key 8) rk (off + 8)) off i =
    (if i + 1 = 7 then Some (fill (rk_word key 8) rk (off + 12))
     else expand256 (fill (rk_word key 8) rk (off + 16)) (off + 8) (i + 1))"
proof -
  let ?F = "fill (rk_word key 8) rk"
  note x = xor_words_rk [where q = i and Nk = 8 and rk = rk and key = key]
  have "xor_words (?F (off + 9)) (off + 9) (off + 1) (off + 8) = Some (?F (off + 10))"
    "xor_words (?F (off + 10)) (off + 10) (off + 2) (off + 9) = Some (?F (off + 11))"
    "xor_words (?F (off + 11)) (off + 11) (off + 3) (off + 10) = Some (?F (off + 12))"
    by (rule x [where j = 1] x [where j = 2] x [where j = 3]; use assms in simp)+
  moreover have "xor_words (?F (off + 13)) (off + 13) (off + 5) (off + 12) = Some (?F (off + 14))"
    "xor_words (?F (off + 14)) (off + 14) (off + 6) (off + 13) = Some (?F (off + 15))"
    "xor_words (?F (off + 15)) (off + 15) (off + 7) (off + 14) = Some (?F (off + 16))"
    if "i + 1 \<noteq> 7"
    by (rule x [where j = 5] x [where j = 6] x [where j = 7]; use assms that in simp)+
  moreover have "do { temp \<leftarrow> ld (?F (off + 12)) (off + 11);
      k \<leftarrow> ld (?F (off + 12)) (off + 4);
      x \<leftarrow> sub_word temp;
      rk \<leftarrow> st (?F (off + 12)) (off + 12) (k XOR x);
      c rk } = c (?F (off + 13))" if "i + 1 \<noteq> 7" for c :: "u32 list \<Rightarrow> u32 list option"
    by (rule st_group_middle) (use assms that in simp_all)
  ultimately show ?thesis
    by (subst expand256.simps, subst st_group_head [where m = "off + 9"])
      (use assms(1,2) in \<open>simp_all add: off\<close>)
qed

lemma expand256_ok:
  assumes "60 \<le> length rk" and "i < 7" and "off = 8 * i"
  shows "expand256 (fill (rk_word key 8) rk (off + 8)) off i = Some (fill (rk_word key 8) rk 60)"
  using assms(2,3)
proof (induction "6 - i" arbitrary: i off)
  case 0
  then have "i = 6" by simp
  with 0 show ?case by (subst expand256_step) (use assms(1) in auto)
next
  case (Suc n)
  then show ?case
    using Suc.hyps(1) [of "i + 1" "off + 8"] by (subst expand256_step)
      (use assms(1) in \<open>auto simp: add.commute\<close>)
qed

section \<open>The encryption key schedule\<close>

lemma load_key_word_fill:
  assumes "d < Nk" "d < length rk" "4 * d + 4 \<le> length key" "i = 4 * d" "m = d + 1"
  shows "load_key_word (fill (rk_word key Nk) rk d) key d i = Some (fill (rk_word key Nk) rk m)"
  using assms by (simp add: load_key_word_def GETU32_ok st_fill rk_word_key)

lemma load_key_words:
  assumes "Nk = 4 \<or> Nk = 6 \<or> Nk = 8" "4 * Nk \<le> length key" "Nk \<le> length rk"
  defines "F \<equiv> fill (rk_word key Nk) rk"
  shows "load_key_word rk key 0 0 = Some (F 1)"
    "load_key_word (F 1) key 1 4 = Some (F 2)"
    "load_key_word (F 2) key 2 8 = Some (F 3)"
    "load_key_word (F 3) key 3 12 = Some (F 4)"
    "4 < Nk \<Longrightarrow> load_key_word (F 4) key 4 16 = Some (F 5)"
    "4 < Nk \<Longrightarrow> load_key_word (F 5) key 5 20 = Some (F 6)"
    "6 < Nk \<Longrightarrow> load_key_word (F 6) key 6 24 = Some (F 7)"
    "6 < Nk \<Longrightarrow> load_key_word (F 7) key 7 28 = Some (F 8)"
proof -
  have "0 < length rk" using assms by auto
  with assms load_key_word_fill [of 0 Nk rk key 0 1]
  show "load_key_word rk key 0 0 = Some (F 1)" by (auto simp: F_def fill_0)
qed (use assms in \<open>auto simp: F_def intro!: load_key_word_fill\<close>)

text \<open>
  The three key sizes: \<open>Nk\<close> words of key give \<open>Nk + 6\<close> rounds and \<open>4 * (Nk + 7)\<close> round key words.
\<close>

lemma rijndaelSetupEncrypt_ok:
  assumes "Nk = 4 \<or> Nk = 6 \<or> Nk = 8" "4 * Nk \<le> length key" "4 * Nk + 28 \<le> length rk"
  shows "rijndaelSetupEncrypt rk key (32 * int Nk) =
    Some (fill (rk_word key Nk) rk (4 * Nk + 28), Nk + 6)"
  using assms load_key_words [OF assms(1,2), of rk] expand128_ok [of rk 0 0 key]
    expand192_ok [of rk 0 0 key] expand256_ok [of rk 0 0 key]
  by (auto simp: rijndaelSetupEncrypt_def)

section \<open>The decryption key schedule\<close>

lemma swap_words_ok:
  "i < length rk \<Longrightarrow> j < length rk \<Longrightarrow> swap_words rk i j = Some (rk[i := rk ! j, j := rk ! i])"
  by (simp add: swap_words_def mem_simps)

definition swap_groups :: "u32 list \<Rightarrow> nat \<Rightarrow> nat \<Rightarrow> u32 list" where
  "swap_groups rk a b = map (\<lambda>k. rk ! (if k div 4 = a then 4 * b + k mod 4
     else if k div 4 = b then 4 * a + k mod 4 else k)) [0..<length rk]"

lemma swap_group_ok:
  assumes "a < b" "4 * b + 4 \<le> length rk"
  shows "do {
      rk \<leftarrow> swap_words rk (4 * a) (4 * b);
      rk \<leftarrow> swap_words rk (4 * a + 1) (4 * b + 1);
      rk \<leftarrow> swap_words rk (4 * a + 2) (4 * b + 2);
      rk \<leftarrow> swap_words rk (4 * a + 3) (4 * b + 3);
      c rk } = c (swap_groups rk a b)"
proof -
  let ?rk' = "rk[4 * a := rk ! (4 * b), 4 * b := rk ! (4 * a),
      4 * a + 1 := rk ! (4 * b + 1), 4 * b + 1 := rk ! (4 * a + 1),
      4 * a + 2 := rk ! (4 * b + 2), 4 * b + 2 := rk ! (4 * a + 2),
      4 * a + 3 := rk ! (4 * b + 3), 4 * b + 3 := rk ! (4 * a + 3)]"
  have "?rk' = swap_groups rk a b"
  proof (rule nth_equalityI)
    fix k assume k: "k < length ?rk'"
    obtain x y where xy: "k = 4 * x + y" "y < 4"
      using mod_mult_div_eq [of k 4] mod_less_divisor [of 4 k] by (metis add.commute zero_less_numeral)
    then have "y = 0 \<or> y = 1 \<or> y = 2 \<or> y = 3" by auto
    with assms k xy show "?rk' ! k = swap_groups rk a b ! k"
      by (auto simp: swap_groups_def nth_list_update) presburger+
  qed (simp add: swap_groups_def)
  with assms show ?thesis by (simp add: swap_words_ok nth_list_update)
qed

declare invert_order.simps [simp del]

definition mirror :: "nat \<Rightarrow> nat \<Rightarrow> nat \<Rightarrow> nat \<Rightarrow> nat" where
  "mirror Nr a b k = (if a \<le> k div 4 \<and> k div 4 \<le> b then 4 * (Nr - k div 4) + k mod 4 else k)"

lemma mirror_outside: "b \<le> a \<Longrightarrow> a + b = Nr \<Longrightarrow> mirror Nr a b k = k"
proof -
  assume "b \<le> a" "a + b = Nr"
  then have "Nr - k div 4 = k div 4" if "a \<le> k div 4" "k div 4 \<le> b" using that by simp
  then show ?thesis by (simp add: mirror_def)
qed

lemma mirror_less: "a + b = Nr \<Longrightarrow> k < n \<Longrightarrow> 4 * Nr + 4 \<le> n \<Longrightarrow> mirror Nr a b k < n"
  using mod_less_divisor [of 4 k] by (auto simp: mirror_def)

lemma swap_then_mirror:
  assumes "a < b" "a + b = Nr" "k < length rk" "4 * Nr + 4 \<le> length rk"
  shows "swap_groups rk a b ! mirror Nr (a + 1) (b - 1) k = rk ! mirror Nr a b k"
proof -
  have "mirror Nr (a + 1) (b - 1) k < length rk"
    using assms by (intro mirror_less) auto
  then have "swap_groups rk a b ! mirror Nr (a + 1) (b - 1) k =
      rk ! (let m = mirror Nr (a + 1) (b - 1) k in if m div 4 = a then 4 * b + m mod 4
        else if m div 4 = b then 4 * a + m mod 4 else m)"
    by (simp add: swap_groups_def Let_def)
  also have "\<dots> = rk ! mirror Nr a b k"
    using assms by (auto simp: mirror_def Let_def intro!: arg_cong [where f = "nth rk"])
  finally show ?thesis .
qed

lemma invert_order_ok:
  assumes "a + b = Nr" "4 * Nr + 4 \<le> length rk"
  shows "invert_order rk (4 * a) (4 * b) = Some (map (\<lambda>k. rk ! mirror Nr a b k) [0..<length rk])"
  using assms
proof (induction "b - a" arbitrary: a b rk rule: less_induct)
  case less
  show ?case
  proof (cases "a < b")
    case True
    with less.prems have "invert_order (swap_groups rk a b) (4 * (a + 1)) (4 * (b - 1)) =
        Some (map (\<lambda>k. swap_groups rk a b ! mirror Nr (a + 1) (b - 1) k) [0..<length rk])"
      using less.hyps [of "b - 1" "a + 1" "swap_groups rk a b"] by (simp add: swap_groups_def)
    with True less.prems have "invert_order (swap_groups rk a b) (4 * a + 4) (4 * b - 4) =
        Some (map (\<lambda>k. rk ! mirror Nr a b k) [0..<length rk])"
      using swap_then_mirror [OF True less.prems(1) _ less.prems(2)]
      by (simp add: diff_mult_distrib2 add.commute cong: map_cong)
    then show ?thesis
      using True less.prems
        swap_group_ok [of a b rk "\<lambda>rk. invert_order rk (4 * a + 4) (4 * b - 4)"]
      by (subst invert_order.simps) simp
  next
    case False
    then show ?thesis
      using less.prems map_nth [of rk] by (subst invert_order.simps) (simp add: mirror_outside)
  qed
qed

lemma InvMix_word_ok: "inv_mix_word (word_of c) = Some (word_of (InvMixColumn c))"
  by (cases c) (simp add: inv_mix_word_def word_simps inv_sbox_sbox)

text \<open>
  Words \<open>4 .. 4 * Nr - 1\<close> are sent through \<open>InvMixColumn\<close>, four to a loop iteration; \<open>mixed f r\<close> is
  the array after the iterations below \<open>r\<close>.
\<close>

definition mixed :: "(nat \<Rightarrow> col) \<Rightarrow> nat \<Rightarrow> nat \<Rightarrow> u32" where
  "mixed g m k = word_of (if 4 \<le> k \<and> k < m then InvMixColumn (g k) else g k)"

lemma inv_mix_at_ok:
  assumes "agrees rk (mixed g m) n" "4 \<le> m" "m < n" "m' = m + 1"
  shows "\<exists>rk'. inv_mix_at m rk = Some rk' \<and> agrees rk' (mixed g m') n \<and> length rk' = length rk
    \<and> drop n rk' = drop n rk"
proof -
  have "ld rk m = Some (word_of (g m))" using assms by (simp add: agrees_ld mixed_def)
  moreover have "agrees (rk[m := word_of (InvMixColumn (g m))]) (mixed g m') n"
    using assms by (auto simp: agrees_def mixed_def nth_list_update)
  ultimately show ?thesis
    using assms by (simp add: inv_mix_at_def InvMix_word_ok st_in agrees_def)
qed

lemma inv_mix_group_ok:
  assumes "agrees rk (mixed g (4 * i)) n" "1 \<le> i" "4 * i + 3 < n"
  shows "\<exists>rk'. do { rk \<leftarrow> inv_mix_at (4 * i) rk; rk \<leftarrow> inv_mix_at (4 * i + 1) rk;
      rk \<leftarrow> inv_mix_at (4 * i + 2) rk; inv_mix_at (4 * i + 3) rk } = Some rk'
    \<and> agrees rk' (mixed g (4 * Suc i)) n \<and> length rk' = length rk \<and> drop n rk' = drop n rk"
proof -
  obtain r1 where r1: "inv_mix_at (4 * i) rk = Some r1" "agrees r1 (mixed g (4 * i + 1)) n"
    "length r1 = length rk" "drop n r1 = drop n rk"
    using inv_mix_at_ok [OF assms(1), of "4 * i + 1"] assms by auto
  obtain r2 where r2: "inv_mix_at (4 * i + 1) r1 = Some r2" "agrees r2 (mixed g (4 * i + 2)) n"
    "length r2 = length rk" "drop n r2 = drop n rk"
    using inv_mix_at_ok [OF r1(2), of "4 * i + 2"] assms r1 by auto
  obtain r3 where r3: "inv_mix_at (4 * i + 2) r2 = Some r3" "agrees r3 (mixed g (4 * i + 3)) n"
    "length r3 = length rk" "drop n r3 = drop n rk"
    using inv_mix_at_ok [OF r2(2), of "4 * i + 3"] assms r2 by auto
  obtain r4 where "inv_mix_at (4 * i + 3) r3 = Some r4" "agrees r4 (mixed g (4 * i + 4)) n"
    "length r4 = length rk" "drop n r4 = drop n rk"
    using inv_mix_at_ok [OF r3(2), of "4 * i + 4"] assms r3 by auto
  with r1 r2 r3 show ?thesis by (simp add: add.commute)
qed

definition drk_word :: "u8 list \<Rightarrow> nat \<Rightarrow> nat \<Rightarrow> u32" where
  "drk_word key Nk i = word_of (dec_keys (KeyExpansion (\<lambda>i. col_at key (4 * i)) Nk) (Nk + 6) i)"

lemma inv_mix_loop_ok:
  assumes "agrees rk (\<lambda>k. word_of (g k)) n" "4 * Nr + 4 \<le> n" "1 \<le> Nr"
  shows "\<exists>rk'. foldM (\<lambda>i rk. do { rk \<leftarrow> inv_mix_at (4 * i) rk; rk \<leftarrow> inv_mix_at (4 * i + 1) rk;
      rk \<leftarrow> inv_mix_at (4 * i + 2) rk; inv_mix_at (4 * i + 3) rk }) [1..<Nr] rk = Some rk'
    \<and> agrees rk' (mixed g (4 * Nr)) n \<and> length rk' = length rk \<and> drop n rk' = drop n rk"
proof (rule foldM_upt_rule [where I = "\<lambda>i r. agrees r (mixed g (4 * i)) n \<and> length r = length rk
      \<and> drop n r = drop n rk"])
  have "mixed g (4 * 1) = (\<lambda>k. word_of (g k))" by (rule ext) (auto simp: mixed_def)
  with assms show "agrees rk (mixed g (4 * 1)) n \<and> length rk = length rk \<and> drop n rk = drop n rk"
    by simp
next
  fix i r assume "1 \<le> i" "i < Nr"
    "agrees r (mixed g (4 * i)) n \<and> length r = length rk \<and> drop n r = drop n rk"
  with inv_mix_group_ok [of r g i n] assms
  show "\<exists>r'. do { rk \<leftarrow> inv_mix_at (4 * i) r; rk \<leftarrow> inv_mix_at (4 * i + 1) rk;
      rk \<leftarrow> inv_mix_at (4 * i + 2) rk; inv_mix_at (4 * i + 3) rk } = Some r'
    \<and> agrees r' (mixed g (4 * Suc i)) n \<and> length r' = length rk \<and> drop n r' = drop n rk"
    by simp
qed (use assms in simp)

lemma rijndaelSetupDecrypt_ok:
  assumes "Nk = 4 \<or> Nk = 6 \<or> Nk = 8" "4 * Nk \<le> length key" "4 * Nk + 28 \<le> length rk"
  shows "rijndaelSetupDecrypt rk key (32 * int Nk) =
    Some (fill (drk_word key Nk) rk (4 * Nk + 28), Nk + 6)"
proof -
  let ?Nr = "Nk + 6" and ?n = "4 * Nk + 28" and ?W = "KeyExpansion (\<lambda>i. col_at key (4 * i)) Nk"
  let ?e = "fill (rk_word key Nk) rk ?n" and ?g = "\<lambda>k. ?W (4 * (?Nr - k div 4) + k mod 4)"
  let ?i = "map (\<lambda>k. ?e ! mirror ?Nr 0 ?Nr k) [0..<length rk]"
  have inv: "invert_order ?e 0 (4 * ?Nr) = Some ?i"
    using invert_order_ok [of 0 ?Nr ?Nr ?e] assms by (simp add: mult.commute)
  have lt: "4 * (?Nr - k div 4) + k mod 4 < ?n" "k div 4 \<le> ?Nr" if "k < ?n" for k
    using that mod_less_divisor [of 4 k] by (simp_all add: less_mult_imp_div_less)
  have mir: "mirror ?Nr 0 ?Nr k = 4 * (?Nr - k div 4) + k mod 4" if "k < ?n" for k
    using lt(2) [OF that] by (simp add: mirror_def)
  have "agrees ?i (\<lambda>k. word_of (?g k)) ?n"
    using assms(3) lt mir by (auto simp: agrees_def nth_fill rk_word_def)
  from inv_mix_loop_ok [OF this, of ?Nr] obtain rk' where
    loop: "foldM (\<lambda>i rk. do { rk \<leftarrow> inv_mix_at (4 * i) rk; rk \<leftarrow> inv_mix_at (4 * i + 1) rk;
      rk \<leftarrow> inv_mix_at (4 * i + 2) rk; inv_mix_at (4 * i + 3) rk }) [1..<?Nr] ?i = Some rk'"
    and ag: "agrees rk' (mixed ?g (4 * ?Nr)) ?n" "drop ?n rk' = drop ?n ?i"
    by auto
  have "drop ?n ?i = drop ?n rk"
  proof (rule nth_equalityI)
    fix k assume "k < length (drop ?n ?i)"
    then show "drop ?n ?i ! k = drop ?n rk ! k"
      by (auto simp: mirror_def fill_def nth_append less_eq_div_iff_mult_less_eq div_le_mono)
  qed simp
  moreover have "mixed ?g (4 * ?Nr) = drk_word key Nk"
    by (auto simp: mixed_def drk_word_def dec_keys_def Let_def)
  ultimately have "rk' = fill (drk_word key Nk) rk ?n"
    using ag agrees_drop_fill [of rk' "drk_word key Nk" ?n rk] by simp
  with inv loop show ?thesis
    using rijndaelSetupEncrypt_ok [OF assms] by (simp add: rijndaelSetupDecrypt_def)
qed

end
