(* ===== verification/Aes_Correct.thy ===== *)
theory Aes_Correct
  imports Aes_Keys
begin

text \<open>
  The block operations of \<open>aes_impl.c\<close> against FIPS 197: encryption is the cipher, decryption the
  (equivalent) inverse cipher, the two \<open>FULL_UNROLL\<close> variants agree with the loops, and no
  operation reads or writes outside its arrays.
\<close>

fun quad_of :: "aes_state \<Rightarrow> quad" where
  "quad_of (c0, c1, c2, c3) = (word_of c0, word_of c1, word_of c2, word_of c3)"

fun col_bytes :: "col \<Rightarrow> u8 list" where
  "col_bytes (a, b, c, d) = [a, b, c, d]"

fun state_bytes :: "aes_state \<Rightarrow> u8 list" where
  "state_bytes (c0, c1, c2, c3) = col_bytes c0 @ col_bytes c1 @ col_bytes c2 @ col_bytes c3"

definition state_at :: "u8 list \<Rightarrow> nat \<Rightarrow> aes_state" where
  "state_at p i = (col_at p i, col_at p (i + 4), col_at p (i + 8), col_at p (i + 12))"

lemma length_col_bytes [simp]: "length (col_bytes c) = 4"
  by (cases c) simp

lemma length_state_bytes [simp]: "length (state_bytes s) = 16"
  by (cases s rule: prod_cases4) simp

lemma state_at_put_block:
  "j + 16 \<le> length out \<Longrightarrow> state_at (put_block out j (state_bytes s)) j = s"
  by (cases s rule: ShiftRows.cases)
    (simp add: state_at_def col_at_def put_block_def nth_append)

lemma put_block_state_at:
  "length out = 16 \<Longrightarrow> length p = 16 \<Longrightarrow> put_block out 0 (state_bytes (state_at p 0)) = p"
proof -
  assume "length out = 16" "length p = 16"
  have "[0..<16] = [0, 1, 2, 3, 4, 5, 6, 7, 8, 9, 10, 11, 12, 13, 14, 15 :: nat]"
    by code_simp
  with \<open>length p = 16\<close> have "p = map (nth p) [0, 1, 2, 3, 4, 5, 6, 7, 8, 9, 10, 11, 12, 13, 14, 15]"
    by (metis map_nth)
  with \<open>length out = 16\<close> \<open>length p = 16\<close> show ?thesis
    by (simp add: put_block_def state_at_def col_at_def flip: numeral_2_eq_2)
qed

lemma PUTU32_ok:
  "j + 4 \<le> length out \<Longrightarrow> PUTU32 out j (word_of c) = Some (put_block out j (col_bytes c))"
  by (cases c) (simp add: PUTU32_def mem_simps be_word_byte flip: put_block_4)

section \<open>Rounds\<close>

lemma Te_word_ok:
  "Te_word (word_of (a0, a1, a2, a3)) (word_of (b0, b1, b2, b3)) (word_of (c0, c1, c2, c3))
     (word_of (d0, d1, d2, d3)) = Some (word_of (MixColumn (sbox a0, sbox b1, sbox c2, sbox d3)))"
  by (simp add: Te_word_def word_simps xor.assoc)

lemma Te4_word_ok:
  "Te4_word (word_of (a0, a1, a2, a3)) (word_of (b0, b1, b2, b3)) (word_of (c0, c1, c2, c3))
     (word_of (d0, d1, d2, d3)) = Some (word_of (sbox a0, sbox b1, sbox c2, sbox d3))"
  by (simp add: Te4_word_def word_simps)

lemma Td_word_ok:
  "Td_word (word_of (a0, a1, a2, a3)) (word_of (b0, b1, b2, b3)) (word_of (c0, c1, c2, c3))
     (word_of (d0, d1, d2, d3)) =
     Some (word_of (InvMixColumn (inv_sbox a0, inv_sbox b1, inv_sbox c2, inv_sbox d3)))"
  by (simp add: Td_word_def word_simps xor.assoc)

lemma Td4_word_ok:
  "Td4_word (word_of (a0, a1, a2, a3)) (word_of (b0, b1, b2, b3)) (word_of (c0, c1, c2, c3))
     (word_of (d0, d1, d2, d3)) = Some (word_of (inv_sbox a0, inv_sbox b1, inv_sbox c2, inv_sbox d3))"
  by (simp add: Td4_word_def word_simps)

abbreviation holds_keys :: "u32 list \<Rightarrow> (nat \<Rightarrow> col) \<Rightarrow> nat \<Rightarrow> bool" where
  "holds_keys rk w n \<equiv> agrees rk (\<lambda>k. word_of (w k)) n"

lemma enc_round_ok:
  assumes "holds_keys rk w n" "k = 4 * r" "4 * r + 4 \<le> n"
  shows "enc_round rk k (quad_of s) = Some (quad_of (enc_layer w r s))"
proof (cases s rule: ShiftRows.cases)
  case (1 a0 a1 a2 a3 b0 b1 b2 b3 c0 c1 c2 c3 d0 d1 d2 d3)
  have "ld rk (k + j) = Some (word_of (w (4 * r + j)))" if "j < 4" for j
    using assms agrees_ld [of rk "\<lambda>k. word_of (w k)" n "k + j"] that by simp
  from this [of 0] this [of 1] this [of 2] this [of 3] show ?thesis
    by (simp add: enc_round_def enc_layer_def 1 Te_word_ok word_of_xor
        del: word_of.simps MixColumn.simps xor_col.simps)
qed

lemma dec_round_ok:
  assumes "holds_keys rk w n" "k = 4 * r" "4 * r + 4 \<le> n"
  shows "dec_round rk k (quad_of s) = Some (quad_of (eqdec_layer w r s))"
proof (cases s rule: ShiftRows.cases)
  case (1 a0 a1 a2 a3 b0 b1 b2 b3 c0 c1 c2 c3 d0 d1 d2 d3)
  have "ld rk (k + j) = Some (word_of (w (4 * r + j)))" if "j < 4" for j
    using assms agrees_ld [of rk "\<lambda>k. word_of (w k)" n "k + j"] that by simp
  from this [of 0] this [of 1] this [of 2] this [of 3] show ?thesis
    by (simp add: dec_round_def eqdec_layer_def 1 Td_word_ok word_of_xor
        del: word_of.simps InvMixColumn.simps xor_col.simps)
qed

section \<open>Encryption\<close>

lemma add_first_key_ok:
  assumes "holds_keys rk w n" "4 \<le> n" "i + 16 \<le> length inp"
  shows "add_first_key rk inp i = Some (quad_of (AddRoundKey w 0 (state_at inp i)))"
proof -
  have "ld rk j = Some (word_of (w j))" if "j < 4" for j
    using assms(2) that by (intro agrees_ld [OF assms(1)]) simp
  from this [of 0] this [of 1] this [of 2] this [of 3] show ?thesis
    using assms(3)
    by (simp add: add_first_key_def GETU32_ok state_at_def word_of_xor flip: numeral_2_eq_2
        del: word_of.simps xor_col.simps)
qed

lemma enc_loop_ok:
  assumes "holds_keys rk w n" "4 * p + 8 * Suc m \<le> n" "off = 4 * p"
  shows "enc_loop rk off (int (Suc m)) (quad_of s) =
    Some (off + 8 * Suc m, quad_of (fold (enc_layer w) [p + 1..<p + 2 * Suc m] s))"
  using assms(2,3)
proof (induction m arbitrary: p off s)
  case 0
  then show ?case
    by (subst enc_loop.simps) (simp add: enc_round_ok [OF assms(1), of _ "Suc p"])
next
  case (Suc m)
  let ?s = "enc_layer w (p + 2) (enc_layer w (p + 1) s)"
  have "[p + 1..<p + 2 * Suc (Suc m)] = (p + 1) # (p + 2) # [p + 2 + 1..<p + 2 + 2 * Suc m]"
    by (simp add: upt_conv_Cons)
  moreover have "enc_loop rk (off + 8) (int (Suc m)) (quad_of ?s) =
      Some (off + 8 + 8 * Suc m, quad_of (fold (enc_layer w) [p + 2 + 1..<p + 2 + 2 * Suc m] ?s))"
    using Suc.prems by (intro Suc.IH) simp_all
  moreover have "enc_round rk (off + 4) (quad_of s) = Some (quad_of (enc_layer w (p + 1) s))"
    "enc_round rk (off + 8) (quad_of (enc_layer w (p + 1) s)) = Some (quad_of ?s)"
    using Suc.prems by (auto intro!: enc_round_ok [OF assms(1)])
  ultimately show ?case
    by (subst enc_loop.simps) simp
qed

lemma enc_last_ok:
  assumes "holds_keys rk w n" "off = 4 * r" "4 * r + 4 \<le> n" "j + 16 \<le> length out"
  shows "enc_last rk off (quad_of s) out j =
    Some (put_block out j (state_bytes (AddRoundKey w r (ShiftRows (SubBytes s)))))"
proof (cases s rule: ShiftRows.cases)
  case (1 a0 a1 a2 a3 b0 b1 b2 b3 c0 c1 c2 c3 d0 d1 d2 d3)
  have "ld rk (off + j) = Some (word_of (w (4 * r + j)))" if "j < 4" for j
    using assms agrees_ld [of rk "\<lambda>k. word_of (w k)" n "off + j"] that by simp
  from this [of 0] this [of 1] this [of 2] this [of 3] show ?thesis
    using assms(4) length_col_bytes
    by (simp add: enc_last_def 1 Te4_word_ok PUTU32_ok put_blocks length_put_block
        word_of_xor [symmetric] del: word_of.simps xor_col.simps)
qed

lemma rijndaelEncrypt_ok:
  assumes "holds_keys rk w (4 * Nr + 4)" "even Nr" "2 \<le> Nr" "i + 16 \<le> length inp" "j + 16 \<le> length out"
  shows "rijndaelEncrypt rk Nr inp i out j =
    Some (put_block out j (state_bytes (Cipher w Nr (state_at inp i))))"
proof -
  define m where "m = Nr div 2 - 1"
  have Nr: "Nr = 2 * Suc m" using assms(2,3) by (auto simp: m_def elim!: evenE)
  let ?s = "AddRoundKey w 0 (state_at inp i)"
  have "enc_loop rk 0 (int (Suc m)) (quad_of ?s) =
      Some (0 + 8 * Suc m, quad_of (fold (enc_layer w) [0 + 1..<0 + 2 * Suc m] ?s))"
    using assms(1) by (intro enc_loop_ok) (auto simp: Nr)
  moreover have "int Nr div 2 = int (Suc m)" by (simp add: Nr)
  moreover note add_first_key_ok [OF assms(1) _ assms(4)] enc_last_ok [OF assms(1) _ _ assms(5), of _ Nr]
  ultimately show ?thesis
    by (simp add: rijndaelEncrypt_def Cipher_def Nr)
qed

section \<open>Decryption\<close>

lemma dec_loop_ok:
  assumes "holds_keys rk w n" "4 * p + 8 * Suc m \<le> n" "off = 4 * p"
  shows "dec_loop rk off (int (Suc m)) (quad_of s) =
    Some (off + 8 * Suc m, quad_of (fold (eqdec_layer w) [p + 1..<p + 2 * Suc m] s))"
  using assms(2,3)
proof (induction m arbitrary: p off s)
  case 0
  then show ?case
    by (subst dec_loop.simps) (simp add: dec_round_ok [OF assms(1), of _ "Suc p"])
next
  case (Suc m)
  let ?s = "eqdec_layer w (p + 2) (eqdec_layer w (p + 1) s)"
  have "[p + 1..<p + 2 * Suc (Suc m)] = (p + 1) # (p + 2) # [p + 2 + 1..<p + 2 + 2 * Suc m]"
    by (simp add: upt_conv_Cons)
  moreover have "dec_loop rk (off + 8) (int (Suc m)) (quad_of ?s) =
      Some (off + 8 + 8 * Suc m, quad_of (fold (eqdec_layer w) [p + 2 + 1..<p + 2 + 2 * Suc m] ?s))"
    using Suc.prems by (intro Suc.IH) simp_all
  moreover have "dec_round rk (off + 4) (quad_of s) = Some (quad_of (eqdec_layer w (p + 1) s))"
    "dec_round rk (off + 8) (quad_of (eqdec_layer w (p + 1) s)) = Some (quad_of ?s)"
    using Suc.prems by (auto intro!: dec_round_ok [OF assms(1)])
  ultimately show ?case
    by (subst dec_loop.simps) simp
qed

lemma dec_last_ok:
  assumes "holds_keys rk w n" "off = 4 * r" "4 * r + 4 \<le> n" "j + 16 \<le> length out"
  shows "dec_last rk off (quad_of s) out j =
    Some (put_block out j (state_bytes (AddRoundKey w r (InvShiftRows (InvSubBytes s)))))"
proof (cases s rule: ShiftRows.cases)
  case (1 a0 a1 a2 a3 b0 b1 b2 b3 c0 c1 c2 c3 d0 d1 d2 d3)
  have "ld rk (off + j) = Some (word_of (w (4 * r + j)))" if "j < 4" for j
    using assms agrees_ld [of rk "\<lambda>k. word_of (w k)" n "off + j"] that by simp
  from this [of 0] this [of 1] this [of 2] this [of 3] show ?thesis
    using assms(4) length_col_bytes
    by (simp add: dec_last_def 1 Td4_word_ok PUTU32_ok put_blocks length_put_block
        word_of_xor [symmetric] del: word_of.simps xor_col.simps)
qed

lemma rijndaelDecrypt_ok:
  assumes "holds_keys rk w (4 * Nr + 4)" "even Nr" "2 \<le> Nr" "i + 16 \<le> length inp" "j + 16 \<le> length out"
  shows "rijndaelDecrypt rk Nr inp i out j =
    Some (put_block out j (state_bytes (EqInvCipher w Nr (state_at inp i))))"
proof -
  define m where "m = Nr div 2 - 1"
  have Nr: "Nr = 2 * Suc m" using assms(2,3) by (auto simp: m_def elim!: evenE)
  let ?s = "AddRoundKey w 0 (state_at inp i)"
  have "dec_loop rk 0 (int (Suc m)) (quad_of ?s) =
      Some (0 + 8 * Suc m, quad_of (fold (eqdec_layer w) [0 + 1..<0 + 2 * Suc m] ?s))"
    using assms(1) by (intro dec_loop_ok) (auto simp: Nr)
  moreover have "int Nr div 2 = int (Suc m)" by (simp add: Nr)
  moreover note add_first_key_ok [OF assms(1) _ assms(4)] dec_last_ok [OF assms(1) _ _ assms(5), of _ Nr]
  ultimately show ?thesis
    by (simp add: rijndaelDecrypt_def EqInvCipher_def Nr)
qed

section \<open>The unrolled variants\<close>

lemma enc_loop_fun: "enc_loop rk off r = (\<lambda>s. do {
    t \<leftarrow> enc_round rk (off + 4) s;
    if r - 1 = 0 then Some (off + 8, t)
    else do { s \<leftarrow> enc_round rk (off + 8) t; enc_loop rk (off + 8) (r - 1) s } })"
  by (rule ext) (rule enc_loop.simps)

lemma dec_loop_fun: "dec_loop rk off r = (\<lambda>s. do {
    t \<leftarrow> dec_round rk (off + 4) s;
    if r - 1 = 0 then Some (off + 8, t)
    else do { s \<leftarrow> dec_round rk (off + 8) t; dec_loop rk (off + 8) (r - 1) s } })"
  by (rule ext) (rule dec_loop.simps)

lemma enc_loop_unrolled:
  assumes "nr = 10 \<or> nr = 12 \<or> nr = 14"
  shows "enc_loop rk 0 (int nr div 2) s = do { t \<leftarrow> enc_unrolled_rounds rk nr s; Some (4 * nr, t) }"
  using assms
  by (elim disjE) (simp_all add: enc_loop_fun enc_unrolled_rounds_def)

lemma dec_loop_unrolled:
  assumes "nr = 10 \<or> nr = 12 \<or> nr = 14"
  shows "dec_loop rk 0 (int nr div 2) s = do { t \<leftarrow> dec_unrolled_rounds rk nr s; Some (4 * nr, t) }"
  using assms
  by (elim disjE) (simp_all add: dec_loop_fun dec_unrolled_rounds_def)

section \<open>Properties\<close>

abbreviation aes_keys :: "u8 list \<Rightarrow> nat \<Rightarrow> nat \<Rightarrow> col" where
  "aes_keys key Nk \<equiv> KeyExpansion (\<lambda>i. col_at key (4 * i)) Nk"

lemma holds_rk: "n \<le> length rk \<Longrightarrow> holds_keys (fill (rk_word key Nk) rk n) (aes_keys key Nk) n"
  using agrees_fill [of n rk "rk_word key Nk"] by (simp add: agrees_def rk_word_def)

lemma holds_drk:
  "n \<le> length rk \<Longrightarrow>
     holds_keys (fill (drk_word key Nk) rk n) (dec_keys (aes_keys key Nk) (Nk + 6)) n"
  using agrees_fill [of n rk "drk_word key Nk"] by (simp add: agrees_def drk_word_def)

lemma enc_after_setup:
  assumes "even Nk" "4 * Nk + 28 \<le> length rk" "i + 16 \<le> length inp" "j + 16 \<le> length out"
  shows "rijndaelEncrypt (fill (rk_word key Nk) rk (4 * Nk + 28)) (Nk + 6) inp i out j =
    Some (put_block out j (state_bytes (Cipher (aes_keys key Nk) (Nk + 6) (state_at inp i))))"
  using holds_rk [OF assms(2), of key Nk] assms
  by (intro rijndaelEncrypt_ok) (simp_all add: add.commute)

lemma dec_after_setup:
  assumes "even Nk" "4 * Nk + 28 \<le> length rk" "i + 16 \<le> length inp" "j + 16 \<le> length out"
  shows "rijndaelDecrypt (fill (drk_word key Nk) rk (4 * Nk + 28)) (Nk + 6) inp i out j =
    Some (put_block out j (state_bytes (InvCipher (aes_keys key Nk) (Nk + 6) (state_at inp i))))"
  using holds_drk [OF assms(2), of key Nk] assms
  by (subst EqInvCipher_dec_keys [symmetric], intro rijndaelDecrypt_ok) (simp_all add: add.commute)

text \<open>
  C1.  For the three key sizes, \<open>rijndaelSetupEncrypt\<close> followed by \<open>rijndaelEncrypt\<close> computes the
  FIPS 197 cipher of the input block, writes it at the output position, and leaves the rest of
  the output buffer alone; no access leaves an array as long as the round key array has
  \<open>RKLENGTH\<close> words.
\<close>

theorem rijndael_encrypts_fips:
  assumes "Nk = 4 \<or> Nk = 6 \<or> Nk = 8" "length key = 4 * Nk" "length rk = RKLENGTH (32 * Nk)"
    "i + 16 \<le> length inp" "j + 16 \<le> length out"
  shows "do { (rk, nrounds) \<leftarrow> rijndaelSetupEncrypt rk key (32 * int Nk);
              rijndaelEncrypt rk nrounds inp i out j }
    = Some (put_block out j (state_bytes (Cipher (aes_keys key Nk) (NROUNDS (32 * Nk)) (state_at inp i))))"
proof -
  have "even Nk" using assms(1) by auto
  with assms show ?thesis
    by (simp add: rijndaelSetupEncrypt_ok RKLENGTH_def NROUNDS_def enc_after_setup)
qed

theorem rijndael_encrypts_fips_witness:
  "do { (rk, nrounds) \<leftarrow> rijndaelSetupEncrypt (replicate 44 0) (replicate 16 0x2b) 128;
        rijndaelEncrypt rk nrounds (replicate 16 0x32) 0 (replicate 16 0) 0 }
    = Some (put_block (replicate 16 0) 0
        (state_bytes (Cipher (aes_keys (replicate 16 0x2b) 4) 10 (state_at (replicate 16 0x32) 0))))"
  using rijndael_encrypts_fips [of 4 "replicate 16 0x2b" "replicate 44 0" 0 "replicate 16 0x32" 0
      "replicate 16 0"]
  by (simp add: RKLENGTH_def NROUNDS_def)

text \<open>
  C2.  \<open>rijndaelSetupDecrypt\<close> followed by \<open>rijndaelDecrypt\<close> computes the FIPS 197 inverse cipher
  (figure 12, with the straight key schedule), although the code runs the equivalent inverse
  cipher on a transformed schedule.
\<close>

theorem rijndael_decrypts_fips:
  assumes "Nk = 4 \<or> Nk = 6 \<or> Nk = 8" "length key = 4 * Nk" "length rk = RKLENGTH (32 * Nk)"
    "i + 16 \<le> length inp" "j + 16 \<le> length out"
  shows "do { (rk, nrounds) \<leftarrow> rijndaelSetupDecrypt rk key (32 * int Nk);
              rijndaelDecrypt rk nrounds inp i out j }
    = Some (put_block out j (state_bytes (InvCipher (aes_keys key Nk) (NROUNDS (32 * Nk)) (state_at inp i))))"
proof -
  have "even Nk" using assms(1) by auto
  with assms show ?thesis
    by (simp add: rijndaelSetupDecrypt_ok RKLENGTH_def NROUNDS_def dec_after_setup)
qed

theorem rijndael_decrypts_fips_witness:
  "do { (rk, nrounds) \<leftarrow> rijndaelSetupDecrypt (replicate 60 0) (replicate 32 0x60) 256;
        rijndaelDecrypt rk nrounds (replicate 16 0x32) 0 (replicate 16 0) 0 }
    = Some (put_block (replicate 16 0) 0
        (state_bytes (InvCipher (aes_keys (replicate 32 0x60) 8) 14 (state_at (replicate 16 0x32) 0))))"
  using rijndael_decrypts_fips [of 8 "replicate 32 0x60" "replicate 60 0" 0 "replicate 16 0x32" 0
      "replicate 16 0"]
  by (simp add: RKLENGTH_def NROUNDS_def)

text \<open>
  C3.  Decrypting what was encrypted gives the block back, whatever the key, the block and the
  contents of the two output buffers were.
\<close>

theorem rijndael_roundtrip:
  assumes "Nk = 4 \<or> Nk = 6 \<or> Nk = 8" "length key = 4 * Nk"
    "length erk = RKLENGTH (32 * Nk)" "length drk = RKLENGTH (32 * Nk)"
    "length block = 16" "length mid = 16" "length out = 16"
  shows "do { (erk, enr) \<leftarrow> rijndaelSetupEncrypt erk key (32 * int Nk);
              (drk, dnr) \<leftarrow> rijndaelSetupDecrypt drk key (32 * int Nk);
              mid \<leftarrow> rijndaelEncrypt erk enr block 0 mid 0;
              rijndaelDecrypt drk dnr mid 0 out 0 } = Some block"
proof -
  have "even Nk" using assms(1) by auto
  with assms show ?thesis
    by (simp add: rijndaelSetupEncrypt_ok rijndaelSetupDecrypt_ok RKLENGTH_def enc_after_setup
        dec_after_setup state_at_put_block length_put_block InvCipher_Cipher put_block_state_at)
qed

theorem rijndael_roundtrip_witness:
  "do { (erk, enr) \<leftarrow> rijndaelSetupEncrypt (replicate 52 0) (replicate 24 0x8e) 192;
        (drk, dnr) \<leftarrow> rijndaelSetupDecrypt (replicate 52 0) (replicate 24 0x8e) 192;
        mid \<leftarrow> rijndaelEncrypt erk enr (replicate 16 0x6b) 0 (replicate 16 0) 0;
        rijndaelDecrypt drk dnr mid 0 (replicate 16 0) 0 } = Some (replicate 16 0x6b)"
  using rijndael_roundtrip [of 6 "replicate 24 0x8e" "replicate 52 0" "replicate 52 0"
      "replicate 16 0x6b" "replicate 16 0" "replicate 16 0"]
  by (simp add: RKLENGTH_def)

text \<open>
  C4.  The \<open>FULL_UNROLL\<close> variants of both block operations equal the compiled loops on every input,
  accesses outside an array included, for the three round counts the key setup returns.
\<close>

theorem rijndael_unrolled_equiv:
  assumes "nrounds = 10 \<or> nrounds = 12 \<or> nrounds = 14"
  shows "rijndaelEncrypt_unrolled rk nrounds inp i out j = rijndaelEncrypt rk nrounds inp i out j \<and>
    rijndaelDecrypt_unrolled rk nrounds inp i out j = rijndaelDecrypt rk nrounds inp i out j"
  using enc_loop_unrolled [OF assms] dec_loop_unrolled [OF assms]
  by (simp add: rijndaelEncrypt_unrolled_def rijndaelEncrypt_def
      rijndaelDecrypt_unrolled_def rijndaelDecrypt_def)

theorem rijndael_unrolled_equiv_witness:
  "rijndaelEncrypt_unrolled (replicate 44 1) 10 (replicate 16 2) 0 (replicate 16 3) 0 =
     rijndaelEncrypt (replicate 44 1) 10 (replicate 16 2) 0 (replicate 16 3) 0"
  using rijndael_unrolled_equiv [of 10 "replicate 44 1" "replicate 16 2" 0 "replicate 16 3" 0]
  by simp

text \<open>
  A key size other than 128, 192 or 256 bits is refused: the key setup reports 0 rounds,
  having stored the first eight key words only.
\<close>

theorem rijndael_setup_bad_size:
  assumes "keybits \<notin> {128, 192, 256}" "32 \<le> length key" "8 \<le> length rk"
  shows "rijndaelSetupEncrypt rk key keybits = Some (fill (\<lambda>i. word_of (col_at key (4 * i))) rk 8, 0)"
proof -
  have "fill (rk_word key 8) rk 8 = fill (\<lambda>i. word_of (col_at key (4 * i))) rk 8"
    by (simp add: fill_def rk_word_key)
  then show ?thesis
    using assms load_key_words [of 8 key rk] by (simp add: rijndaelSetupEncrypt_def)
qed

theorem rijndael_setup_bad_size_witness:
  "rijndaelSetupEncrypt (replicate 60 0) (replicate 32 1) 160 =
     Some (fill (\<lambda>i. word_of (col_at (replicate 32 1) (4 * i))) (replicate 60 0) 8, 0)"
  using rijndael_setup_bad_size [of 160 "replicate 32 1" "replicate 60 0"] by simp

end
