(* ===== verification/Sha2_Impl.thy ===== *)
theory Sha2_Impl
  imports OT_Prelude
begin

text \<open>
  Model of \<open>src/ta/crypt/sha2_impl.c\<close>: SHA-256 and SHA-224 with streaming contexts.  \<open>unsigned int\<close>
  and \<open>uint32_t\<close> are 32 bit words, so every length computation wraps as in C; array accesses are
  bounds checked.  The block loop of \<open>sha256_transf\<close> counts in a signed \<open>int\<close>: a block count with
  the top bit set runs no iteration, and \<open>i << 6\<close> leaves the range of \<open>int\<close> from \<open>i = 2^25\<close> on,
  which is undefined (\<^term>\<open>None\<close>).
\<close>

record sha256_ctx =
  tot_len :: uint32
  ctx_len :: uint32
  ctx_block :: "u8 list"
  ctx_h :: "uint32 list"

text \<open>\<open>struct sha224_ctx\<close> has the same members; the code casts between the two.\<close>

type_synonym sha224_ctx = sha256_ctx

section \<open>Constants and macros\<close>

definition sha224_h0 :: "uint32 list" where
  "sha224_h0 = [
     0xc1059ed8, 0x367cd507, 0x3070dd17, 0xf70e5939, 0xffc00b31, 0x68581511, 0x64f98fa7, 0xbefa4fa4]"

definition sha256_h0 :: "uint32 list" where
  "sha256_h0 = [
     0x6a09e667, 0xbb67ae85, 0x3c6ef372, 0xa54ff53a, 0x510e527f, 0x9b05688c, 0x1f83d9ab, 0x5be0cd19]"

text \<open>The 64 round constants, in decimal.\<close>

definition sha256_k :: "uint32 list" where
  "sha256_k = [
     1116352408, 1899447441, 3049323471, 3921009573, 961987163, 1508970993,
     2453635748, 2870763221, 3624381080, 310598401, 607225278, 1426881987,
     1925078388, 2162078206, 2614888103, 3248222580, 3835390401, 4022224774,
     264347078, 604807628, 770255983, 1249150122, 1555081692, 1996064986,
     2554220882, 2821834349, 2952996808, 3210313671, 3336571891, 3584528711,
     113926993, 338241895, 666307205, 773529912, 1294757372, 1396182291,
     1695183700, 1986661051, 2177026350, 2456956037, 2730485921, 2820302411,
     3259730800, 3345764771, 3516065817, 3600352804, 4094571909, 275423344,
     430227734, 506948616, 659060556, 883997877, 958139571, 1322822218,
     1537002063, 1747873779, 1955562222, 2024104815, 2227730452, 2361852424,
     2428436474, 2756734187, 3204031479, 3329325298]"

definition SHFR :: "uint32 \<Rightarrow> nat \<Rightarrow> uint32" where
  "SHFR x n = drop_bit n x"

definition ROTR :: "uint32 \<Rightarrow> nat \<Rightarrow> uint32" where
  "ROTR x n = drop_bit n x OR push_bit (32 - n) x"

definition CH :: "uint32 \<Rightarrow> uint32 \<Rightarrow> uint32 \<Rightarrow> uint32" where
  "CH x y z = (x AND y) XOR (NOT x AND z)"

definition MAJ :: "uint32 \<Rightarrow> uint32 \<Rightarrow> uint32 \<Rightarrow> uint32" where
  "MAJ x y z = (x AND y) XOR (x AND z) XOR (y AND z)"

definition SHA256_F1 :: "uint32 \<Rightarrow> uint32" where
  "SHA256_F1 x = ROTR x 2 XOR ROTR x 13 XOR ROTR x 22"

definition SHA256_F2 :: "uint32 \<Rightarrow> uint32" where
  "SHA256_F2 x = ROTR x 6 XOR ROTR x 11 XOR ROTR x 25"

definition SHA256_F3 :: "uint32 \<Rightarrow> uint32" where
  "SHA256_F3 x = ROTR x 7 XOR ROTR x 18 XOR SHFR x 3"

definition SHA256_F4 :: "uint32 \<Rightarrow> uint32" where
  "SHA256_F4 x = ROTR x 17 XOR ROTR x 19 XOR SHFR x 10"

definition UNPACK32 :: "uint32 \<Rightarrow> u8 list \<Rightarrow> nat \<Rightarrow> u8 list option" where
  "UNPACK32 x str i = do {
     str \<leftarrow> st str (i + 3) (ucast x);
     str \<leftarrow> st str (i + 2) (ucast (drop_bit 8 x));
     str \<leftarrow> st str (i + 1) (ucast (drop_bit 16 x));
     st str i (ucast (drop_bit 24 x))
   }"

definition PACK32 :: "u8 list \<Rightarrow> nat \<Rightarrow> uint32 option" where
  "PACK32 str i = do {
     b3 \<leftarrow> ld str (i + 3);
     b2 \<leftarrow> ld str (i + 2);
     b1 \<leftarrow> ld str (i + 1);
     b0 \<leftarrow> ld str i;
     Some (ucast b3 OR push_bit 8 (ucast b2) OR push_bit 16 (ucast b1) OR push_bit 24 (ucast b0))
   }"

text \<open>\<open>PACK32(&sub_block[i], &w[j])\<close>\<close>

definition PACK32_to :: "u8 list \<Rightarrow> nat \<Rightarrow> uint32 list \<Rightarrow> nat \<Rightarrow> uint32 list option" where
  "PACK32_to str i w j = do { x \<leftarrow> PACK32 str i; st w j x }"

definition SHA256_SCR :: "nat \<Rightarrow> uint32 list \<Rightarrow> uint32 list option" where
  "SHA256_SCR i w = do {
     w2 \<leftarrow> ld w (i - 2);
     w7 \<leftarrow> ld w (i - 7);
     w15 \<leftarrow> ld w (i - 15);
     w16 \<leftarrow> ld w (i - 16);
     st w i (SHA256_F4 w2 + w7 + SHA256_F3 w15 + w16)
   }"

section \<open>The compression function\<close>

text \<open>The body of the 64 round loop.\<close>

definition transf_round :: "uint32 list \<Rightarrow> nat \<Rightarrow> uint32 list \<Rightarrow> uint32 list option" where
  "transf_round w j wv = do {
     wv7 \<leftarrow> ld wv 7; wv4 \<leftarrow> ld wv 4; wv5 \<leftarrow> ld wv 5; wv6 \<leftarrow> ld wv 6;
     k \<leftarrow> ld sha256_k j; wj \<leftarrow> ld w j;
     let t1 = wv7 + SHA256_F2 wv4 + CH wv4 wv5 wv6 + k + wj;
     wv0 \<leftarrow> ld wv 0; wv1 \<leftarrow> ld wv 1; wv2 \<leftarrow> ld wv 2;
     let t2 = SHA256_F1 wv0 + MAJ wv0 wv1 wv2;
     x \<leftarrow> ld wv 6; wv \<leftarrow> st wv 7 x;
     x \<leftarrow> ld wv 5; wv \<leftarrow> st wv 6 x;
     x \<leftarrow> ld wv 4; wv \<leftarrow> st wv 5 x;
     x \<leftarrow> ld wv 3; wv \<leftarrow> st wv 4 (x + t1);
     x \<leftarrow> ld wv 2; wv \<leftarrow> st wv 3 x;
     x \<leftarrow> ld wv 1; wv \<leftarrow> st wv 2 x;
     x \<leftarrow> ld wv 0; wv \<leftarrow> st wv 1 x;
     st wv 0 (t1 + t2)
   }"

text \<open>\<open>ctx->h[j] += wv[j]\<close>\<close>

definition add_to :: "uint32 list \<Rightarrow> nat \<Rightarrow> uint32 list \<Rightarrow> uint32 list option" where
  "add_to h j wv = do { x \<leftarrow> ld h j; y \<leftarrow> ld wv j; st h j (x + y) }"

text \<open>
  One iteration of the block loop on the locals \<open>w\<close>, \<open>wv\<close> and the hash \<open>h\<close>; \<open>off\<close> is where
  \<open>sub_block\<close> points in the message.
\<close>

definition transf_block ::
  "u8 list \<Rightarrow> nat \<Rightarrow> uint32 list \<times> uint32 list \<times> uint32 list \<Rightarrow> (uint32 list \<times> uint32 list \<times> uint32 list) option" where
  "transf_block m off s = (case s of (w, wv, h) \<Rightarrow> do {
     w \<leftarrow> foldM (\<lambda>j w. PACK32_to m (off + 4 * j) w j) [0..<16] w;
     w \<leftarrow> foldM SHA256_SCR [16..<64] w;
     wv \<leftarrow> foldM (\<lambda>j wv. do { x \<leftarrow> ld h j; st wv j x }) [0..<8] wv;
     wv \<leftarrow> foldM (transf_round w) [0..<64] wv;
     h \<leftarrow> foldM (\<lambda>j h. add_to h j wv) [0..<8] h;
     Some (w, wv, h)
   })"

definition transf_loop ::
  "(u8 list \<Rightarrow> nat \<Rightarrow> uint32 list \<times> uint32 list \<times> uint32 list \<Rightarrow> (uint32 list \<times> uint32 list \<times> uint32 list) option)
   \<Rightarrow> sha256_ctx \<Rightarrow> u8 list \<Rightarrow> nat \<Rightarrow> uint32 \<Rightarrow> sha256_ctx option" where
  "transf_loop body ctx message off block_nb = do {
     (w, wv, h) \<leftarrow> foldM (\<lambda>i s. if 64 * i < 2 ^ 31 then body message (off + 64 * i) s else None)
       [0..<nat (sint block_nb)] (replicate 64 0, replicate 8 0, ctx_h ctx);
     Some (ctx\<lparr>ctx_h := h\<rparr>)
   }"

definition sha256_transf :: "sha256_ctx \<Rightarrow> u8 list \<Rightarrow> nat \<Rightarrow> uint32 \<Rightarrow> sha256_ctx option" where
  "sha256_transf = transf_loop transf_block"

text \<open>The \<open>UNROLL_LOOPS\<close> variant: the registers stay in place and the macro's indices rotate.\<close>

definition SHA256_EXP ::
  "uint32 list \<Rightarrow> nat \<times> nat \<times> nat \<times> nat \<times> nat \<times> nat \<times> nat \<times> nat \<times> nat \<Rightarrow> uint32 list \<Rightarrow> uint32 list option" where
  "SHA256_EXP w args wv = (case args of (a, b, c, d, e, f, g, h, j) \<Rightarrow> do {
     wvh \<leftarrow> ld wv h; wve \<leftarrow> ld wv e; wvf \<leftarrow> ld wv f; wvg \<leftarrow> ld wv g;
     k \<leftarrow> ld sha256_k j; wj \<leftarrow> ld w j;
     let t1 = wvh + SHA256_F2 wve + CH wve wvf wvg + k + wj;
     wva \<leftarrow> ld wv a; wvb \<leftarrow> ld wv b; wvc \<leftarrow> ld wv c;
     let t2 = SHA256_F1 wva + MAJ wva wvb wvc;
     wvd \<leftarrow> ld wv d;
     wv \<leftarrow> st wv d (wvd + t1);
     st wv h (t1 + t2)
   })"

definition exp_calls :: "(nat \<times> nat \<times> nat \<times> nat \<times> nat \<times> nat \<times> nat \<times> nat \<times> nat) list" where
  "exp_calls = [
     (0, 1, 2, 3, 4, 5, 6, 7, 0), (7, 0, 1, 2, 3, 4, 5, 6, 1), (6, 7, 0, 1, 2, 3, 4, 5, 2),
     (5, 6, 7, 0, 1, 2, 3, 4, 3), (4, 5, 6, 7, 0, 1, 2, 3, 4), (3, 4, 5, 6, 7, 0, 1, 2, 5),
     (2, 3, 4, 5, 6, 7, 0, 1, 6), (1, 2, 3, 4, 5, 6, 7, 0, 7), (0, 1, 2, 3, 4, 5, 6, 7, 8),
     (7, 0, 1, 2, 3, 4, 5, 6, 9), (6, 7, 0, 1, 2, 3, 4, 5, 10), (5, 6, 7, 0, 1, 2, 3, 4, 11),
     (4, 5, 6, 7, 0, 1, 2, 3, 12), (3, 4, 5, 6, 7, 0, 1, 2, 13), (2, 3, 4, 5, 6, 7, 0, 1, 14),
     (1, 2, 3, 4, 5, 6, 7, 0, 15), (0, 1, 2, 3, 4, 5, 6, 7, 16), (7, 0, 1, 2, 3, 4, 5, 6, 17),
     (6, 7, 0, 1, 2, 3, 4, 5, 18), (5, 6, 7, 0, 1, 2, 3, 4, 19), (4, 5, 6, 7, 0, 1, 2, 3, 20),
     (3, 4, 5, 6, 7, 0, 1, 2, 21), (2, 3, 4, 5, 6, 7, 0, 1, 22), (1, 2, 3, 4, 5, 6, 7, 0, 23),
     (0, 1, 2, 3, 4, 5, 6, 7, 24), (7, 0, 1, 2, 3, 4, 5, 6, 25), (6, 7, 0, 1, 2, 3, 4, 5, 26),
     (5, 6, 7, 0, 1, 2, 3, 4, 27), (4, 5, 6, 7, 0, 1, 2, 3, 28), (3, 4, 5, 6, 7, 0, 1, 2, 29),
     (2, 3, 4, 5, 6, 7, 0, 1, 30), (1, 2, 3, 4, 5, 6, 7, 0, 31), (0, 1, 2, 3, 4, 5, 6, 7, 32),
     (7, 0, 1, 2, 3, 4, 5, 6, 33), (6, 7, 0, 1, 2, 3, 4, 5, 34), (5, 6, 7, 0, 1, 2, 3, 4, 35),
     (4, 5, 6, 7, 0, 1, 2, 3, 36), (3, 4, 5, 6, 7, 0, 1, 2, 37), (2, 3, 4, 5, 6, 7, 0, 1, 38),
     (1, 2, 3, 4, 5, 6, 7, 0, 39), (0, 1, 2, 3, 4, 5, 6, 7, 40), (7, 0, 1, 2, 3, 4, 5, 6, 41),
     (6, 7, 0, 1, 2, 3, 4, 5, 42), (5, 6, 7, 0, 1, 2, 3, 4, 43), (4, 5, 6, 7, 0, 1, 2, 3, 44),
     (3, 4, 5, 6, 7, 0, 1, 2, 45), (2, 3, 4, 5, 6, 7, 0, 1, 46), (1, 2, 3, 4, 5, 6, 7, 0, 47),
     (0, 1, 2, 3, 4, 5, 6, 7, 48), (7, 0, 1, 2, 3, 4, 5, 6, 49), (6, 7, 0, 1, 2, 3, 4, 5, 50),
     (5, 6, 7, 0, 1, 2, 3, 4, 51), (4, 5, 6, 7, 0, 1, 2, 3, 52), (3, 4, 5, 6, 7, 0, 1, 2, 53),
     (2, 3, 4, 5, 6, 7, 0, 1, 54), (1, 2, 3, 4, 5, 6, 7, 0, 55), (0, 1, 2, 3, 4, 5, 6, 7, 56),
     (7, 0, 1, 2, 3, 4, 5, 6, 57), (6, 7, 0, 1, 2, 3, 4, 5, 58), (5, 6, 7, 0, 1, 2, 3, 4, 59),
     (4, 5, 6, 7, 0, 1, 2, 3, 60), (3, 4, 5, 6, 7, 0, 1, 2, 61), (2, 3, 4, 5, 6, 7, 0, 1, 62),
     (1, 2, 3, 4, 5, 6, 7, 0, 63)]"

definition transf_block_unrolled ::
  "u8 list \<Rightarrow> nat \<Rightarrow> uint32 list \<times> uint32 list \<times> uint32 list \<Rightarrow> (uint32 list \<times> uint32 list \<times> uint32 list) option" where
  "transf_block_unrolled m off s = (case s of (w, wv, h) \<Rightarrow> do {
     w \<leftarrow> PACK32_to m (off + 0) w 0;
     w \<leftarrow> PACK32_to m (off + 4) w 1;
     w \<leftarrow> PACK32_to m (off + 8) w 2;
     w \<leftarrow> PACK32_to m (off + 12) w 3;
     w \<leftarrow> PACK32_to m (off + 16) w 4;
     w \<leftarrow> PACK32_to m (off + 20) w 5;
     w \<leftarrow> PACK32_to m (off + 24) w 6;
     w \<leftarrow> PACK32_to m (off + 28) w 7;
     w \<leftarrow> PACK32_to m (off + 32) w 8;
     w \<leftarrow> PACK32_to m (off + 36) w 9;
     w \<leftarrow> PACK32_to m (off + 40) w 10;
     w \<leftarrow> PACK32_to m (off + 44) w 11;
     w \<leftarrow> PACK32_to m (off + 48) w 12;
     w \<leftarrow> PACK32_to m (off + 52) w 13;
     w \<leftarrow> PACK32_to m (off + 56) w 14;
     w \<leftarrow> PACK32_to m (off + 60) w 15;
     w \<leftarrow> SHA256_SCR 16 w; w \<leftarrow> SHA256_SCR 17 w; w \<leftarrow> SHA256_SCR 18 w; w \<leftarrow> SHA256_SCR 19 w;
     w \<leftarrow> SHA256_SCR 20 w; w \<leftarrow> SHA256_SCR 21 w; w \<leftarrow> SHA256_SCR 22 w; w \<leftarrow> SHA256_SCR 23 w;
     w \<leftarrow> SHA256_SCR 24 w; w \<leftarrow> SHA256_SCR 25 w; w \<leftarrow> SHA256_SCR 26 w; w \<leftarrow> SHA256_SCR 27 w;
     w \<leftarrow> SHA256_SCR 28 w; w \<leftarrow> SHA256_SCR 29 w; w \<leftarrow> SHA256_SCR 30 w; w \<leftarrow> SHA256_SCR 31 w;
     w \<leftarrow> SHA256_SCR 32 w; w \<leftarrow> SHA256_SCR 33 w; w \<leftarrow> SHA256_SCR 34 w; w \<leftarrow> SHA256_SCR 35 w;
     w \<leftarrow> SHA256_SCR 36 w; w \<leftarrow> SHA256_SCR 37 w; w \<leftarrow> SHA256_SCR 38 w; w \<leftarrow> SHA256_SCR 39 w;
     w \<leftarrow> SHA256_SCR 40 w; w \<leftarrow> SHA256_SCR 41 w; w \<leftarrow> SHA256_SCR 42 w; w \<leftarrow> SHA256_SCR 43 w;
     w \<leftarrow> SHA256_SCR 44 w; w \<leftarrow> SHA256_SCR 45 w; w \<leftarrow> SHA256_SCR 46 w; w \<leftarrow> SHA256_SCR 47 w;
     w \<leftarrow> SHA256_SCR 48 w; w \<leftarrow> SHA256_SCR 49 w; w \<leftarrow> SHA256_SCR 50 w; w \<leftarrow> SHA256_SCR 51 w;
     w \<leftarrow> SHA256_SCR 52 w; w \<leftarrow> SHA256_SCR 53 w; w \<leftarrow> SHA256_SCR 54 w; w \<leftarrow> SHA256_SCR 55 w;
     w \<leftarrow> SHA256_SCR 56 w; w \<leftarrow> SHA256_SCR 57 w; w \<leftarrow> SHA256_SCR 58 w; w \<leftarrow> SHA256_SCR 59 w;
     w \<leftarrow> SHA256_SCR 60 w; w \<leftarrow> SHA256_SCR 61 w; w \<leftarrow> SHA256_SCR 62 w; w \<leftarrow> SHA256_SCR 63 w;
     x \<leftarrow> ld h 0; wv \<leftarrow> st wv 0 x;
     x \<leftarrow> ld h 1; wv \<leftarrow> st wv 1 x;
     x \<leftarrow> ld h 2; wv \<leftarrow> st wv 2 x;
     x \<leftarrow> ld h 3; wv \<leftarrow> st wv 3 x;
     x \<leftarrow> ld h 4; wv \<leftarrow> st wv 4 x;
     x \<leftarrow> ld h 5; wv \<leftarrow> st wv 5 x;
     x \<leftarrow> ld h 6; wv \<leftarrow> st wv 6 x;
     x \<leftarrow> ld h 7; wv \<leftarrow> st wv 7 x;
     wv \<leftarrow> foldM (SHA256_EXP w) exp_calls wv;
     h \<leftarrow> add_to h 0 wv;
     h \<leftarrow> add_to h 1 wv;
     h \<leftarrow> add_to h 2 wv;
     h \<leftarrow> add_to h 3 wv;
     h \<leftarrow> add_to h 4 wv;
     h \<leftarrow> add_to h 5 wv;
     h \<leftarrow> add_to h 6 wv;
     h \<leftarrow> add_to h 7 wv;
     Some (w, wv, h)
   })"

definition sha256_transf_unrolled :: "sha256_ctx \<Rightarrow> u8 list \<Rightarrow> nat \<Rightarrow> uint32 \<Rightarrow> sha256_ctx option" where
  "sha256_transf_unrolled = transf_loop transf_block_unrolled"

section \<open>Contexts\<close>

definition SHA256_BLOCK_SIZE :: uint32 where
  "SHA256_BLOCK_SIZE = 64"

definition init_h :: "uint32 list \<Rightarrow> sha256_ctx \<Rightarrow> sha256_ctx option" where
  "init_h h0 ctx = do {
     h \<leftarrow> foldM (\<lambda>i h. do { x \<leftarrow> ld h0 i; st h i x }) [0..<8] (ctx_h ctx);
     Some (ctx\<lparr>ctx_h := h, ctx_len := 0, tot_len := 0\<rparr>)
   }"

definition sha256_init :: "sha256_ctx \<Rightarrow> sha256_ctx option" where
  "sha256_init = init_h sha256_h0"

definition sha256_update :: "sha256_ctx \<Rightarrow> u8 list \<Rightarrow> uint32 \<Rightarrow> sha256_ctx option" where
  "sha256_update ctx message len = (
     let tmp_len = SHA256_BLOCK_SIZE - ctx_len ctx;
         rem_len = (if len < tmp_len then len else tmp_len) in do {
     block \<leftarrow> copy_loop (ctx_block ctx) (unat (ctx_len ctx)) message 0 (unat rem_len);
     let ctx = ctx\<lparr>ctx_block := block\<rparr>;
     if ctx_len ctx + len < SHA256_BLOCK_SIZE then Some (ctx\<lparr>ctx_len := ctx_len ctx + len\<rparr>)
     else do {
       let new_len = len - rem_len;
       let block_nb = new_len div SHA256_BLOCK_SIZE;
       let shifted_message = unat rem_len;
       ctx \<leftarrow> sha256_transf ctx (ctx_block ctx) 0 1;
       ctx \<leftarrow> sha256_transf ctx message shifted_message block_nb;
       let rem_len = new_len mod SHA256_BLOCK_SIZE;
       block \<leftarrow> copy_loop (ctx_block ctx) 0 message (shifted_message + unat (push_bit 6 block_nb)) (unat rem_len);
       Some (ctx\<lparr>ctx_block := block, ctx_len := rem_len,
                 tot_len := tot_len ctx + push_bit 6 (block_nb + 1)\<rparr>)
     }
   })"

text \<open>The part of \<open>sha256_final\<close> before the digest is written out: pad and compress.\<close>

definition final_pad :: "sha256_ctx \<Rightarrow> sha256_ctx option" where
  "final_pad ctx = (
     let block_nb = (if SHA256_BLOCK_SIZE - 9 < ctx_len ctx mod SHA256_BLOCK_SIZE then 2 else 1) :: uint32;
         len_b = push_bit 3 (tot_len ctx + ctx_len ctx);
         pm_len = push_bit 6 block_nb in do {
     block \<leftarrow> foldM (\<lambda>i_m block. st block (unat (ctx_len ctx) + i_m) 0)
                [0..<unat (pm_len - ctx_len ctx)] (ctx_block ctx);
     block \<leftarrow> st block (unat (ctx_len ctx)) 0x80;
     block \<leftarrow> UNPACK32 len_b block (unat pm_len - 4);
     let ctx = ctx\<lparr>ctx_block := block\<rparr>;
     sha256_transf ctx (ctx_block ctx) 0 block_nb
   })"

definition put_digest :: "nat \<Rightarrow> sha256_ctx \<Rightarrow> u8 list \<Rightarrow> u8 list option" where
  "put_digest n ctx digest =
     foldM (\<lambda>i digest. do { x \<leftarrow> ld (ctx_h ctx) i; UNPACK32 x digest (4 * i) }) [0..<n] digest"

definition sha256_final :: "sha256_ctx \<Rightarrow> u8 list \<Rightarrow> (sha256_ctx \<times> u8 list) option" where
  "sha256_final ctx digest = do {
     ctx \<leftarrow> final_pad ctx;
     digest \<leftarrow> put_digest 8 ctx digest;
     Some (ctx, digest)
   }"

text \<open>\<open>struct sha256_ctx ctx = { }\<close>\<close>

definition zero_ctx :: sha256_ctx where
  "zero_ctx = \<lparr>tot_len = 0, ctx_len = 0, ctx_block = replicate 128 0, ctx_h = replicate 8 0\<rparr>"

definition sha256 :: "u8 list \<Rightarrow> uint32 \<Rightarrow> u8 list \<Rightarrow> u8 list option" where
  "sha256 message len digest = do {
     ctx \<leftarrow> sha256_init zero_ctx;
     ctx \<leftarrow> sha256_update ctx message len;
     (ctx, digest) \<leftarrow> sha256_final ctx digest;
     Some digest
   }"

section \<open>SHA-224\<close>

definition sha224_init :: "sha224_ctx \<Rightarrow> sha224_ctx option" where
  "sha224_init = init_h sha224_h0"

text \<open>\<open>sha224_update\<close> and the padding of \<open>sha224_final\<close> repeat the SHA-256 bodies word for word.\<close>

definition sha224_update :: "sha224_ctx \<Rightarrow> u8 list \<Rightarrow> uint32 \<Rightarrow> sha224_ctx option" where
  "sha224_update = sha256_update"

definition sha224_final :: "sha224_ctx \<Rightarrow> u8 list \<Rightarrow> (sha224_ctx \<times> u8 list) option" where
  "sha224_final ctx digest = do {
     ctx \<leftarrow> final_pad ctx;
     digest \<leftarrow> put_digest 7 ctx digest;
     Some (ctx, digest)
   }"

definition sha224 :: "u8 list \<Rightarrow> uint32 \<Rightarrow> u8 list \<Rightarrow> u8 list option" where
  "sha224 message len digest = do {
     ctx \<leftarrow> sha224_init zero_ctx;
     ctx \<leftarrow> sha224_update ctx message len;
     (ctx, digest) \<leftarrow> sha224_final ctx digest;
     Some digest
   }"

end
