(* ===== verification/Sha2_Spec.thy ===== *)
theory Sha2_Spec
  imports Complex_Main OT_Prelude
begin

text \<open>
  SHA-256 and SHA-224 as FIPS 180 defines them, on whole messages: padding, message schedule and
  compression with no buffers.  The constants are parameters of the hash; \<open>frac_cbrt\<close>,
  \<open>frac_sqrt\<close> and \<open>frac_sqrt_second\<close> say what the standard derives them from.
\<close>

type_synonym sha_regs = "uint32 \<times> uint32 \<times> uint32 \<times> uint32 \<times> uint32 \<times> uint32 \<times> uint32 \<times> uint32"

definition Ch :: "uint32 \<Rightarrow> uint32 \<Rightarrow> uint32 \<Rightarrow> uint32" where
  "Ch x y z = (x AND y) XOR (NOT x AND z)"

definition Maj :: "uint32 \<Rightarrow> uint32 \<Rightarrow> uint32 \<Rightarrow> uint32" where
  "Maj x y z = (x AND y) XOR (x AND z) XOR (y AND z)"

definition Sigma0 :: "uint32 \<Rightarrow> uint32" where
  "Sigma0 x = word_rotr 2 x XOR word_rotr 13 x XOR word_rotr 22 x"

definition Sigma1 :: "uint32 \<Rightarrow> uint32" where
  "Sigma1 x = word_rotr 6 x XOR word_rotr 11 x XOR word_rotr 25 x"

definition sigma0 :: "uint32 \<Rightarrow> uint32" where
  "sigma0 x = word_rotr 7 x XOR word_rotr 18 x XOR drop_bit 3 x"

definition sigma1 :: "uint32 \<Rightarrow> uint32" where
  "sigma1 x = word_rotr 17 x XOR word_rotr 19 x XOR drop_bit 10 x"

text \<open>The message schedule of a block \<open>M\<close> of sixteen words.\<close>

fun schedule :: "(nat \<Rightarrow> uint32) \<Rightarrow> nat \<Rightarrow> uint32" where
  "schedule M t =
     (if t < 16 then M t
      else sigma1 (schedule M (t - 2)) + schedule M (t - 7) + sigma0 (schedule M (t - 15))
        + schedule M (t - 16))"

declare schedule.simps [simp del]

fun sha_round :: "uint32 \<Rightarrow> uint32 \<Rightarrow> sha_regs \<Rightarrow> sha_regs" where
  "sha_round k w (a, b, c, d, e, f, g, h) =
     (let T1 = h + Sigma1 e + Ch e f g + k + w;
          T2 = Sigma0 a + Maj a b c
      in (T1 + T2, a, b, c, d + T1, e, f, g))"

fun add_regs :: "sha_regs \<Rightarrow> sha_regs \<Rightarrow> sha_regs" where
  "add_regs (a, b, c, d, e, f, g, h) (a', b', c', d', e', f', g', h') =
     (a + a', b + b', c + c', d + d', e + e', f + f', g + g', h + h')"

definition compress :: "(nat \<Rightarrow> uint32) \<Rightarrow> (nat \<Rightarrow> uint32) \<Rightarrow> sha_regs \<Rightarrow> sha_regs" where
  "compress K M H = add_regs H (fold (\<lambda>t. sha_round (K t) (schedule M t)) [0..<64] H)"

definition be32_at :: "u8 list \<Rightarrow> nat \<Rightarrow> uint32" where
  "be32_at m i = be_word (m ! i) (m ! (i + 1)) (m ! (i + 2)) (m ! (i + 3))"

text \<open>\<open>n\<close> blocks of 64 bytes, the first at position \<open>off\<close>.\<close>

definition hash_blocks :: "(nat \<Rightarrow> uint32) \<Rightarrow> u8 list \<Rightarrow> nat \<Rightarrow> nat \<Rightarrow> sha_regs \<Rightarrow> sha_regs" where
  "hash_blocks K m off n H = fold (\<lambda>i. compress K (\<lambda>j. be32_at m (off + 64 * i + 4 * j))) [0..<n] H"

definition be_bytes32 :: "uint32 \<Rightarrow> u8 list" where
  "be_bytes32 x = [ucast (drop_bit 24 x), ucast (drop_bit 16 x), ucast (drop_bit 8 x), ucast x]"

definition be_bytes64 :: "64 word \<Rightarrow> u8 list" where
  "be_bytes64 x = be_bytes32 (ucast (drop_bit 32 x)) @ be_bytes32 (ucast x)"

text \<open>Padding to a multiple of 64 bytes, ending with a 64 bit length field \<open>lf\<close>.\<close>

definition pad_with :: "64 word \<Rightarrow> u8 list \<Rightarrow> u8 list" where
  "pad_with lf m = m @ [0x80] @ replicate ((119 - length m mod 64) mod 64) 0 @ be_bytes64 lf"

definition pad :: "u8 list \<Rightarrow> u8 list" where
  "pad m = pad_with (of_nat (8 * length m)) m"

text \<open>The blocks of a padded message, which \<open>pad_with\<close> makes a multiple of 64 bytes long\<close>

definition hash_padded :: "(nat \<Rightarrow> uint32) \<Rightarrow> sha_regs \<Rightarrow> u8 list \<Rightarrow> sha_regs" where
  "hash_padded K H0 p = hash_blocks K p 0 (length p div 64) H0"

fun regs_list :: "sha_regs \<Rightarrow> uint32 list" where
  "regs_list (a, b, c, d, e, f, g, h) = [a, b, c, d, e, f, g, h]"

text \<open>The digest: the first \<open>n\<close> words of the final hash, big endian.\<close>

definition digest_bytes :: "nat \<Rightarrow> sha_regs \<Rightarrow> u8 list" where
  "digest_bytes n H = concat (map be_bytes32 (take n (regs_list H)))"

text \<open>
  What the constants are: the first 32 fractional bits of the cube roots of the first 64 primes,
  and for the initial values the first (SHA-256) or second (SHA-224) 32 fractional bits of the
  square roots of the first, respectively the next, eight primes.
\<close>

text \<open>The first 64 primes by trial division: a composite number below 312 has a factor below 18.\<close>

definition primes64 :: "nat list" where
  "primes64 = filter (\<lambda>n. \<forall>d \<in> set [2..<18]. d < n \<longrightarrow> n mod d \<noteq> 0) [2..<312]"

definition frac_cbrt :: "nat \<Rightarrow> uint32" where
  "frac_cbrt p = word_of_int \<lfloor>2 ^ 32 * root 3 (real p)\<rfloor>"

definition frac_sqrt :: "nat \<Rightarrow> uint32" where
  "frac_sqrt p = word_of_int \<lfloor>2 ^ 32 * sqrt (real p)\<rfloor>"

definition frac_sqrt_second :: "nat \<Rightarrow> uint32" where
  "frac_sqrt_second p = word_of_int \<lfloor>2 ^ 64 * sqrt (real p)\<rfloor>"

end
