(* ===== verification/Sha2_Correct.thy ===== *)
theory Sha2_Correct
  imports Sha2_Impl Sha2_Spec
begin

text \<open>
  The digest code of \<open>sha2_impl.c\<close> against FIPS 180: one block, a message fed in any sequence of
  updates, the padding with its 32 bit length field, and the \<open>UNROLL_LOOPS\<close> variant.
\<close>

section \<open>Macros\<close>

lemma ROTR_rotr: "0 < n \<Longrightarrow> n < 32 \<Longrightarrow> ROTR x n = word_rotr n x"
proof (rule bit_word_eqI)
  fix k assume n: "0 < n" "n < 32" and "k < LENGTH(32)"
  then have "(k + n) mod 32 = (if k + n < 32 then k + n else k + n - 32)"
    by (simp add: mod_if)
  with n \<open>k < LENGTH(32)\<close> show "bit (ROTR x n) k = bit (word_rotr n x) k"
    using bit_imp_le_length [of x "n + k"]
    by (auto simp: ROTR_def bit_simps bit_word_rotr_iff add.commute)
qed

lemmas sha_macros = ROTR_rotr SHFR_def SHA256_F1_def SHA256_F2_def SHA256_F3_def SHA256_F4_def
  CH_def MAJ_def Sigma0_def Sigma1_def sigma0_def sigma1_def Ch_def Maj_def

lemma macro_specs:
  "SHA256_F1 = Sigma0" "SHA256_F2 = Sigma1" "SHA256_F3 = sigma0" "SHA256_F4 = sigma1"
  "CH = Ch" "MAJ = Maj"
  by (simp_all add: fun_eq_iff sha_macros)

lemma PACK32_ok: "i + 4 \<le> length m \<Longrightarrow> PACK32 m i = Some (be32_at m i)"
  by (simp add: PACK32_def be32_at_def mem_simps be_word_def ac_simps)

lemma UNPACK32_ok: "i + 4 \<le> length p \<Longrightarrow> UNPACK32 x p i = Some (put_block p i (be_bytes32 x))"
  by (simp add: UNPACK32_def mem_simps be_bytes32_def list_update_swap flip: put_block_4)

section \<open>One block\<close>

abbreviation sha_K :: "nat \<Rightarrow> uint32" where "sha_K \<equiv> nth sha256_k"

lemma length_sha256_k: "length sha256_k = 64"
  by (simp add: sha256_k_def)

lemma length_regs_list [simp]: "length (regs_list r) = 8"
  by (cases r rule: regs_list.cases) simp

lemma pack_loop:
  assumes "16 \<le> length w" "off + 64 \<le> length m"
  shows "foldM (\<lambda>j w. PACK32_to m (off + 4 * j) w j) [0..<16] w =
    Some (fill (schedule (\<lambda>j. be32_at m (off + 4 * j))) w 16)"
proof -
  have "foldM (\<lambda>j w. PACK32_to m (off + 4 * j) w j) [0..<16]
      (fill (schedule (\<lambda>j. be32_at m (off + 4 * j))) w 0)
    = Some (fill (schedule (\<lambda>j. be32_at m (off + 4 * j))) w 16)"
    by (rule fill_loop) (use assms in \<open>auto simp: PACK32_to_def PACK32_ok schedule.simps\<close>)
  then show ?thesis by (simp add: fill_0)
qed

lemma scr_loop:
  assumes "64 \<le> length w"
  shows "foldM SHA256_SCR [16..<64] (fill (schedule M) w 16) = Some (fill (schedule M) w 64)"
proof (rule fill_loop)
  fix k :: nat assume k: "16 \<le> k" "k < 64"
  with schedule.simps [of M k] show "SHA256_SCR k (fill (schedule M) w k) = st (fill (schedule M) w k) k (schedule M k)"
    by (simp add: SHA256_SCR_def ld_fill macro_specs)
qed (use assms in simp_all)

lemma round_ok:
  assumes "j < 64" "ld w j = Some wj"
  shows "transf_round w j (regs_list r) = Some (regs_list (sha_round (sha_K j) wj r))"
  using assms by (cases r rule: regs_list.cases) (simp add: transf_round_def ld_def st_def length_sha256_k macro_specs Let_def)

lemma rounds_ok:
  assumes "agrees w W 64"
  shows "foldM (transf_round w) [0..<64] (regs_list r) =
    Some (regs_list (fold (\<lambda>t. sha_round (sha_K t) (W t)) [0..<64] r))"
proof -
  have "foldM (transf_round w) [0..<n] (regs_list r) =
      Some (regs_list (fold (\<lambda>t. sha_round (sha_K t) (W t)) [0..<n] r))" if "n \<le> 64" for n
    using that
    by (induction n) (simp_all add: foldM_append round_ok agrees_ld [OF assms])
  from this [of 64] show ?thesis by simp
qed

lemma copy_h: "length wv = 8 \<Longrightarrow>
  foldM (\<lambda>j wv. do { x \<leftarrow> ld (regs_list r) j; st wv j x }) [0..<8] wv = Some (regs_list r)"
proof -
  assume wv: "length wv = 8"
  have "foldM (\<lambda>j wv. do { x \<leftarrow> ld (regs_list r) j; st wv j x }) [0..<8] (fill (nth (regs_list r)) wv 0)
    = Some (fill (nth (regs_list r)) wv 8)"
    by (rule fill_loop) (use wv in \<open>auto simp: ld_def length_regs_list\<close>)
  moreover have "fill (nth (regs_list r)) wv 8 = regs_list r"
    using wv map_nth [of "regs_list r"] by (simp add: fill_def length_regs_list)
  ultimately show ?thesis by (simp add: fill_0)
qed

lemma add_h: "foldM (\<lambda>j h. add_to h j (regs_list s)) [0..<8] (regs_list r) = Some (regs_list (add_regs r s))"
  by (cases r rule: regs_list.cases; cases s rule: regs_list.cases)
    (simp add: upt_rec add_to_def ld_def st_def)

lemma transf_block_ok:
  assumes "length w = 64" "length wv = 8" "off + 64 \<le> length m"
  shows "\<exists>w' wv'. length w' = 64 \<and> length wv' = 8 \<and> transf_block m off (w, wv, regs_list r) =
    Some (w', wv', regs_list (compress sha_K (\<lambda>j. be32_at m (off + 4 * j)) r))"
proof -
  let ?W = "schedule (\<lambda>j. be32_at m (off + 4 * j))"
  have "agrees (fill ?W w 64) ?W 64" using assms by (simp add: agrees_fill)
  then show ?thesis
    using assms
    by (simp add: transf_block_def pack_loop scr_loop copy_h rounds_ok add_h compress_def
        del: upt_rec_numeral)
qed

lemma transf_ok:
  assumes "ctx_h ctx = regs_list r" "unat block_nb < 2 ^ 25" "off + 64 * unat block_nb \<le> length m"
  shows "sha256_transf ctx m off block_nb =
    Some (ctx\<lparr>ctx_h := regs_list (hash_blocks sha_K m off (unat block_nb) r)\<rparr>)"
proof -
  let ?f = "\<lambda>i s. if 64 * i < 2 ^ 31 then transf_block m (off + 64 * i) s else None"
  have "sint block_nb = int (unat block_nb)" using assms(2) by (simp add: sint_small)
  moreover have "\<exists>s. foldM ?f [0..<unat block_nb] (replicate 64 0, replicate 8 0, regs_list r) = Some s
     \<and> (\<exists>w wv. s = (w, wv, regs_list (hash_blocks sha_K m off (unat block_nb) r)) \<and> length w = 64 \<and> length wv = 8)"
  proof (rule foldM_upt_rule [where I = "\<lambda>n s. \<exists>w wv. s = (w, wv, regs_list (hash_blocks sha_K m off n r))
      \<and> length w = 64 \<and> length wv = 8"])
    fix i and s :: "uint32 list \<times> uint32 list \<times> uint32 list"
    assume i: "i < unat block_nb" and "\<exists>w wv. s = (w, wv, regs_list (hash_blocks sha_K m off i r))
      \<and> length w = 64 \<and> length wv = 8"
    then obtain w wv where s: "s = (w, wv, regs_list (hash_blocks sha_K m off i r))"
      "length w = 64" "length wv = 8" by blast
    from i assms have lt: "off + 64 * i + 64 \<le> length m" "64 * i < 2 ^ 31" by simp_all
    with transf_block_ok [OF s(2,3) lt(1), of "hash_blocks sha_K m off i r"]
    show "\<exists>s'. ?f i s = Some s' \<and> (\<exists>w wv. s' = (w, wv, regs_list (hash_blocks sha_K m off (Suc i) r))
      \<and> length w = 64 \<and> length wv = 8)"
      by (auto simp: s(1) hash_blocks_def)
  qed (auto simp: hash_blocks_def)
  ultimately show ?thesis
    by (auto simp: sha256_transf_def transf_loop_def assms(1))
qed

section \<open>Sequences of blocks\<close>

lemma be32_at_cong: "(\<And>j. j < 4 \<Longrightarrow> xs ! (a + j) = ys ! (b + j)) \<Longrightarrow> be32_at xs a = be32_at ys b"
proof -
  assume "\<And>j. j < 4 \<Longrightarrow> xs ! (a + j) = ys ! (b + j)"
  from this [of 0] this [of 1] this [of 2] this [of 3] show ?thesis by (simp add: be32_at_def)
qed

lemma schedule_cong: "(\<And>j. j < 16 \<Longrightarrow> M j = M' j) \<Longrightarrow> schedule M t = schedule M' t"
proof (induction M t rule: schedule.induct)
  case (1 M t)
  then show ?case by (cases "t < 16") (simp_all add: schedule.simps [of _ t])
qed

lemma compress_cong: "(\<And>j. j < 16 \<Longrightarrow> M j = M' j) \<Longrightarrow> compress K M H = compress K M' H"
  using schedule_cong [of M M'] by (simp add: compress_def)

lemma hash_blocks_cong:
  assumes "\<And>i. i < 64 * n \<Longrightarrow> xs ! (a + i) = ys ! (b + i)"
  shows "hash_blocks K xs a n H = hash_blocks K ys b n H"
  unfolding hash_blocks_def
proof (rule fold_cong)
  fix i assume "i \<in> set [0..<n]"
  then have i: "64 * i + 64 \<le> 64 * n" by simp
  have "be32_at xs (a + 64 * i + 4 * j) = be32_at ys (b + 64 * i + 4 * j)" if "j < 16" for j
  proof (rule be32_at_cong)
    fix k :: nat assume "k < 4"
    with that i assms [of "64 * i + 4 * j + k"]
    show "xs ! (a + 64 * i + 4 * j + k) = ys ! (b + 64 * i + 4 * j + k)" by (simp add: add.assoc)
  qed
  then show "compress K (\<lambda>j. be32_at xs (a + 64 * i + 4 * j)) = compress K (\<lambda>j. be32_at ys (b + 64 * i + 4 * j))"
    by (intro ext compress_cong) simp
qed simp_all

lemma hash_blocks_add: "hash_blocks K m off (a + b) H = hash_blocks K m (off + 64 * a) b (hash_blocks K m off a H)"
proof -
  have upt: "[0..<a + b] = [0..<a] @ map (\<lambda>i. i + a) [0..<b]"
    using upt_add_eq_append [of 0 a b] map_add_upt [of a b] by (simp add: add.commute)
  have eq: "off + 64 * (i + a) + 4 * j = off + 64 * a + 64 * i + 4 * j" for i j by simp
  show ?thesis
    unfolding hash_blocks_def upt fold_append fold_map o_def eq ..
qed

lemma hash_blocks_append: "64 * n \<le> length m \<Longrightarrow> hash_blocks K (m @ x) 0 n H = hash_blocks K m 0 n H"
  by (rule hash_blocks_cong) (simp add: nth_append)

section \<open>The streaming context\<close>

text \<open>
  \<open>sha_rel H0 ctx m\<close>: the context has absorbed the message \<open>m\<close>, its whole blocks into the hash and
  the rest into the block buffer.
\<close>

definition sha_rel :: "sha_regs \<Rightarrow> sha256_ctx \<Rightarrow> u8 list \<Rightarrow> bool" where
  "sha_rel H0 ctx m \<longleftrightarrow> length (ctx_block ctx) = 128
     \<and> ctx_len ctx = of_nat (length m mod 64)
     \<and> tot_len ctx = of_nat (64 * (length m div 64))
     \<and> take (length m mod 64) (ctx_block ctx) = drop (64 * (length m div 64)) m
     \<and> ctx_h ctx = regs_list (hash_blocks sha_K m 0 (length m div 64) H0)"

lemma unat_small_mod: "unat (of_nat (n mod 64) :: uint32) = n mod 64"
  by (simp add: unat_of_nat) 

lemma sha_rel_len: "sha_rel H0 ctx m \<Longrightarrow> unat (ctx_len ctx) = length m mod 64"
  by (simp add: sha_rel_def unat_of_nat)

lemma mod_div_small:
  fixes n :: nat
  assumes "n mod 64 + L < 64"
  shows "(n + L) mod 64 = n mod 64 + L" "(n + L) div 64 = n div 64"
proof -
  show "(n + L) mod 64 = n mod 64 + L" using assms by (metis mod_add_left_eq mod_less)
  show "(n + L) div 64 = n div 64" using assms by (simp add: div_add1_eq [of n L])
qed

lemma mod_div_large:
  fixes n :: nat
  assumes "64 \<le> n mod 64 + L"
  defines "new \<equiv> L - (64 - n mod 64)"
  shows "(n + L) mod 64 = new mod 64" "(n + L) div 64 = n div 64 + 1 + new div 64"
proof -
  have "n + L = new + 64 * (n div 64 + 1)"
    using assms mod_mult_div_eq [of n 64] by simp
  then show "(n + L) mod 64 = new mod 64" "(n + L) div 64 = n div 64 + 1 + new div 64"
    by (simp_all only: mod_mult_self2 div_mult_self2 zero_neq_numeral simp_thms)
qed

text \<open>Absorbing less than a block only extends the buffer.\<close>

lemma update_short:
  assumes "sha_rel H0 ctx m" "unat len \<le> length msg" "length m mod 64 + unat len < 64"
  shows "\<exists>ctx'. sha256_update ctx msg len = Some ctx' \<and> sha_rel H0 ctx' (m @ take (unat len) msg)"
proof -
  let ?r = "length m mod 64" and ?L = "unat len" and ?b = "ctx_block ctx"
  let ?x = "take ?L msg"
  note rel = assms(1) [unfolded sha_rel_def] and r = sha_rel_len [OF assms(1)]
  have "unat (64 - ctx_len ctx) = 64 - ?r"
    using r by (subst unat_sub) (simp_all add: word_le_nat_alt)
  then have lt: "len < 64 - ctx_len ctx"
    using assms(3) by (simp add: word_less_nat_alt)
  have "unat (ctx_len ctx + len) = ?r + ?L"
    using assms(3) r by (subst unat_add_lem [THEN iffD1]) simp_all
  then have short: "ctx_len ctx + len < 64"
    using assms(3) by (simp add: word_less_nat_alt)
  have copy: "copy_loop ?b ?r msg 0 ?L = Some (put_block ?b ?r ?x)"
    using copy_loop_put [of 0 ?L msg ?r ?b] rel assms by simp
  have len: "length (m @ ?x) div 64 = length m div 64" "length (m @ ?x) mod 64 = ?r + ?L"
    using assms(2,3) by (simp_all add: mod_div_small)
  have "64 * (length m div 64) \<le> length m" by simp
  then have "hash_blocks sha_K (m @ ?x) 0 (length m div 64) H0 = hash_blocks sha_K m 0 (length m div 64) H0"
    by (rule hash_blocks_append)
  moreover have "take (?r + ?L) (put_block ?b ?r ?x) = drop (64 * (length m div 64)) (m @ ?x)"
    using rel assms(2,3) by (simp add: put_block_def minus_mult_div_eq_mod)
  ultimately show ?thesis
    using rel assms lt short copy r unfolding sha_rel_def len
    by (simp add: sha256_update_def SHA256_BLOCK_SIZE_def Let_def length_put_block)
qed

text \<open>Absorbing at least the rest of the current block.\<close>

lemma hash_completed_block:
  assumes m: "length m = 64 * q + r" and r: "r < 64" and n: "64 - r + 64 * n \<le> L" "L \<le> length msg"
    and b: "take r b = drop (64 * q) m" "64 \<le> length b"
  defines "b1 \<equiv> put_block b r (take (64 - r) msg)"
  shows "hash_blocks K msg (64 - r) n (hash_blocks K b1 0 1 (hash_blocks K m 0 q H)) =
    hash_blocks K (m @ take L msg) 0 (q + 1 + n) H"
proof -
  let ?x = "take L msg"
  have "b1 ! i = (m @ ?x) ! (64 * q + i)" if "i < 64" for i
  proof (cases "i < r")
    case True
    have "b ! i = take r b ! i" using True by simp
    also have "\<dots> = m ! (64 * q + i)" using b m by simp
    finally show ?thesis using True m b(2) r
      by (simp add: b1_def put_block_def nth_append)
  next
    case False
    then have "i - r < 64 - r" using that by simp
    with False show ?thesis using that m r n b(2)
      by (simp add: b1_def put_block_def nth_append)
  qed
  then have 1: "hash_blocks K b1 0 1 H' = hash_blocks K (m @ ?x) (64 * q) 1 H'" for H'
    by (intro hash_blocks_cong) simp
  have "msg ! (64 - r + i) = (m @ ?x) ! (64 * (q + 1) + i)" if "i < 64 * n" for i
    using that m r n by (simp add: nth_append)
  then have 2: "hash_blocks K msg (64 - r) n H' = hash_blocks K (m @ ?x) (64 * (q + 1)) n H'" for H'
    by (intro hash_blocks_cong) simp
  have 3: "hash_blocks K m 0 q H = hash_blocks K (m @ ?x) 0 q H"
    using m by (simp add: hash_blocks_append)
  show ?thesis
    unfolding 1 2 3 using hash_blocks_add [of K "m @ ?x" 0 "q + 1" n H] hash_blocks_add [of K "m @ ?x" 0 q 1 H]
    by simp
qed

text \<open>The arithmetic of a message that fills the buffer: full blocks and a rest, on 32 bit words\<close>

lemma update_words:
  fixes c len :: uint32
  assumes c: "unat c = r" "r < 64" and l: "64 \<le> r + unat len" "unat len < 2 ^ 31"
  defines "n \<equiv> (unat len - (64 - r)) div 64" and "s \<equiv> (unat len - (64 - r)) mod 64"
  shows "unat len = 64 - r + 64 * n + s" "n < 2 ^ 25" "unat (64 - c) = 64 - r" "\<not> len < 64 - c" "\<not> c + len < 64"
    "unat ((len - (64 - c)) div 64) = n" "unat ((len - (64 - c)) mod 64) = s" "unat (push_bit 6 ((len - (64 - c)) div 64)) = 64 * n"
proof -
  show L: "unat len = 64 - r + 64 * n + s" using c(2) l(1) by (simp add: n_def s_def)
  show n25: "n < 2 ^ 25" using l(2) L by simp
  show rem: "unat (64 - c) = 64 - r"
    using c by (subst unat_sub) (simp_all add: word_le_nat_alt)
  then show "\<not> len < 64 - c" using L by (simp add: word_less_nat_alt)
  have "unat (c + len) = r + unat len"
    using l(2) c by (subst unat_add_lem [THEN iffD1]) simp_all
  then show "\<not> c + len < 64" using L c(2) by (simp add: word_less_nat_alt)
  have "unat (len - (64 - c)) = 64 * n + s"
    using rem L by (subst unat_sub) (simp_all add: word_le_nat_alt)
  moreover have "s < 64" by (simp add: s_def)
  ultimately show nb: "unat ((len - (64 - c)) div 64) = n" "unat ((len - (64 - c)) mod 64) = s"
    by (simp_all add: unat_div unat_mod)
  show "unat (push_bit 6 ((len - (64 - c)) div 64)) = 64 * n"
    using n25 nb(1) by (simp add: push_bit_eq_mult unat_word_ariths)
qed

lemma update_long:
  assumes rel: "sha_rel H0 ctx m" and "unat len \<le> length msg" "64 \<le> length m mod 64 + unat len"
    "unat len < 2 ^ 31"
  shows "\<exists>ctx'. sha256_update ctx msg len = Some ctx' \<and> sha_rel H0 ctx' (m @ take (unat len) msg)"
proof -
  define r q L b where "r = length m mod 64" and "q = length m div 64" and "L = unat len"
    and "b = ctx_block ctx"
  define n s where "n = (L - (64 - r)) div 64" and "s = (L - (64 - r)) mod 64"
  have r64: "r < 64" and s64: "s < 64" by (simp_all add: r_def s_def)
  have clen: "unat (ctx_len ctx) = r" using sha_rel_len [OF rel] by (simp add: r_def)
  note w = update_words [OF clen r64 assms(3) [folded r_def] assms(4), folded L_def, folded n_def s_def]
  note L = w(1)
  have msg: "64 - r + 64 * n + s \<le> length msg" using assms(2) L by (simp add: L_def)
  have ctx: "length b = 128" "ctx_len ctx = of_nat r" "tot_len ctx = of_nat (64 * q)"
    "take r b = drop (64 * q) m" "ctx_h ctx = regs_list (hash_blocks sha_K m 0 q H0)"
    using rel by (simp_all add: sha_rel_def b_def r_def q_def)
  have m: "length m = 64 * q + r" by (simp add: q_def r_def)
  let ?nb = "(len - (64 - ctx_len ctx)) div 64" and ?s = "(len - (64 - ctx_len ctx)) mod 64"
  have words: "?nb = of_nat n" "?s = of_nat s"
    unfolding w(6,7) [symmetric] by simp_all
  let ?b1 = "put_block b r (take (64 - r) msg)" and ?rest = "take s (drop (64 - r + 64 * n) msg)"
  have lb1: "length ?b1 = 128" using ctx(1) r64 msg by (simp add: length_put_block)
  have copy1: "copy_loop b r msg 0 (64 - r) = Some ?b1"
    using copy_loop_put [of 0 "64 - r" msg r b] ctx(1) r64 msg by simp
  have copy2: "copy_loop ?b1 0 msg (64 - r + 64 * n) s = Some (put_block ?b1 0 ?rest)"
    using lb1 msg s64 by (intro copy_loop_put) simp_all
  have t1: "sha256_transf (ctx\<lparr>ctx_block := ?b1\<rparr>) ?b1 0 1 = Some (ctx\<lparr>ctx_block := ?b1,
      ctx_h := regs_list (hash_blocks sha_K ?b1 0 1 (hash_blocks sha_K m 0 q H0))\<rparr>)"
    using transf_ok [of "ctx\<lparr>ctx_block := ?b1\<rparr>" "hash_blocks sha_K m 0 q H0" 1 0 ?b1] ctx lb1 by simp
  have t2: "sha256_transf (ctx\<lparr>ctx_block := ?b1, ctx_h := regs_list H\<rparr>) msg (64 - r) ?nb =
      Some (ctx\<lparr>ctx_block := ?b1, ctx_h := regs_list (hash_blocks sha_K msg (64 - r) n H)\<rparr>)" for H
    using transf_ok [of "ctx\<lparr>ctx_block := ?b1, ctx_h := regs_list H\<rparr>" H ?nb "64 - r" msg] w(2,6) msg
    by simp
  have h: "hash_blocks sha_K msg (64 - r) n (hash_blocks sha_K ?b1 0 1 (hash_blocks sha_K m 0 q H0)) =
      hash_blocks sha_K (m @ take L msg) 0 (q + 1 + n) H0"
    using hash_completed_block [of m q r n L msg b sha_K H0] m ctx r64 L msg by simp
  have upd: "sha256_update ctx msg len = Some (ctx\<lparr>ctx_block := put_block ?b1 0 ?rest,
      ctx_h := regs_list (hash_blocks sha_K (m @ take L msg) 0 (q + 1 + n) H0),
      ctx_len := of_nat s, tot_len := of_nat (64 * q) + push_bit 6 (of_nat n + 1)\<rparr>)"
    using h
    by (simp add: sha256_update_def SHA256_BLOCK_SIZE_def Let_def w(3-8) clen copy1 t1 t2 copy2
        ctx(3) flip: b_def words)
  have "take s (put_block ?b1 0 ?rest) = drop (64 * (q + 1 + n)) (m @ take L msg)"
    using msg m r64 L by (simp add: put_block_def drop_take)
  moreover have "length (m @ take L msg) div 64 = q + 1 + n" "length (m @ take L msg) mod 64 = s"
    using assms(2,3) by (simp_all add: mod_div_large q_def n_def s_def r_def L_def)
  moreover have "of_nat (64 * q) + push_bit 6 (of_nat n + 1) = (of_nat (64 * (q + 1 + n)) :: uint32)"
    by (simp add: push_bit_eq_mult algebra_simps)
  ultimately show ?thesis
    using upd lb1 s64 msg by (simp add: sha_rel_def length_put_block L_def)
qed

lemma sha256_update_ok:
  assumes "sha_rel H0 ctx m" "unat len \<le> length msg" "unat len < 2 ^ 31"
  shows "\<exists>ctx'. sha256_update ctx msg len = Some ctx' \<and> sha_rel H0 ctx' (m @ take (unat len) msg)"
  using update_short [OF assms(1,2)] update_long [OF assms(1,2) _ assms(3)] by (meson not_less)

lemma init_h_ok:
  assumes "length (ctx_h ctx) = 8" "length (ctx_block ctx) = 128"
  shows "\<exists>ctx'. init_h (regs_list H0) ctx = Some ctx' \<and> sha_rel H0 ctx' []"
  using copy_h [OF assms(1), of H0] assms(2)
  by (simp add: init_h_def sha_rel_def hash_blocks_def del: upt_rec_numeral)

section \<open>Padding\<close>

lemma zero_loop:
  assumes "d + n \<le> length b"
  shows "foldM (\<lambda>i b. st b (d + i) 0) [0..<n] b = Some (put_block b d (replicate n 0))"
  using assms
proof (induction n)
  case 0
  then show ?case by (simp add: put_block_def)
next
  case (Suc n)
  then have "st (put_block b d (replicate n 0)) (d + n) 0 = Some (put_block b d (replicate (Suc n) 0))"
    by (simp add: st_def length_put_block put_block_1 put_blocks replicate_append_same)
  with Suc show ?case by (simp add: foldM_append)
qed

lemma length_be_bytes32 [simp]: "length (be_bytes32 x) = 4"
  by (simp add: be_bytes32_def)

lemma zero_word_bytes: "be_bytes32 0 = [0, 0, 0, 0]"
  by (simp add: be_bytes32_def)

lemma be_bytes64_low: "be_bytes64 (ucast (x :: uint32)) = [0, 0, 0, 0] @ be_bytes32 x"
proof -
  have "drop_bit 32 (ucast x :: 64 word) = 0"
    by (rule bit_word_eqI) (auto simp: bit_simps dest: bit_imp_le_length)
  moreover have "ucast (ucast x :: 64 word) = x"
    by (rule bit_word_eqI) (simp add: bit_simps)
  ultimately show ?thesis by (simp add: be_bytes64_def zero_word_bytes)
qed

text \<open>The length field the code writes: the bit count modulo \<open>2^32\<close>.\<close>

definition len_field :: "u8 list \<Rightarrow> 64 word" where
  "len_field m = ucast (of_nat (8 * length m) :: uint32)"

text \<open>The padding of the standard, with the zeros the code writes\<close>

lemma pad_shape:
  assumes r: "r = length m mod 64" and nb: "nb = (if 55 < r then 2 else 1)"
  shows "pad_with (len_field m) m = m @ 0x80 # replicate (64 * nb - r - 5) 0 @ be_bytes32 (of_nat (8 * length m))"
proof -
  let ?z = "replicate (64 * nb - r - 5) (0 :: u8)"
  have r64: "r < 64" by (simp add: r)
  have "(119 - r) mod 64 + 4 = 64 * nb - r - 5"
  proof (cases "55 < r")
    case False
    then have "119 - r = 55 - r + 64" by simp
    then have "(119 - r) mod 64 = 55 - r" by (simp only: mod_add_self2) simp
    with False show ?thesis by (simp add: nb)
  qed (use r64 in \<open>simp add: nb\<close>)
  then have "replicate ((119 - r) mod 64) (0 :: u8) @ replicate 4 0 = ?z"
    by (simp flip: replicate_add)
  moreover have "replicate 4 (0 :: u8) = [0, 0, 0, 0]" by (simp add: numeral_eq_Suc)
  ultimately have z: "?z = replicate ((119 - r) mod 64) 0 @ [0, 0, 0, 0]" by simp
  show ?thesis unfolding pad_with_def len_field_def be_bytes64_low r [symmetric] z by simp
qed

text \<open>The three writes to the buffer: zeros up to its end, the mark, and the length\<close>

lemma pad_buffer:
  assumes b: "length b = 128" and r64: "r < 64" and nb: "r + 9 \<le> 64 * nb" "64 * nb \<le> 128"
  defines "z \<equiv> replicate (64 * nb - r - 5) (0 :: u8)"
  shows "foldM (\<lambda>i b. st b (r + i) 0) [0..<64 * nb - r] b = Some (put_block b r ((0 # z) @ replicate 4 0))"
    and "st (put_block b r ((0 # z) @ replicate 4 0)) r 0x80 = Some (put_block b r ((0x80 # z) @ replicate 4 0))"
    and "UNPACK32 l (put_block b r ((0x80 # z) @ replicate 4 0)) (64 * nb - 4) = Some (put_block b r (0x80 # z @ be_bytes32 l))"
proof -
  have "64 * nb - r = Suc (64 * nb - r - 5) + 4" using nb(1) by simp
  then have "replicate (64 * nb - r) (0 :: u8) = (0 # z) @ replicate 4 0"
    unfolding z_def by (metis replicate_Suc replicate_add)
  then show "foldM (\<lambda>i b. st b (r + i) 0) [0..<64 * nb - r] b = Some (put_block b r ((0 # z) @ replicate 4 0))"
    using zero_loop [of r "64 * nb - r" b] nb b by simp
  show "st (put_block b r ((0 # z) @ replicate 4 0)) r 0x80 = Some (put_block b r ((0x80 # z) @ replicate 4 0))"
    using nb b r64 by (simp add: z_def st_def length_put_block put_block_head)
  have "put_block (put_block b r ((0x80 # z) @ replicate 4 0)) (64 * nb - 4) (be_bytes32 l) = put_block b r ((0x80 # z) @ be_bytes32 l)"
    using nb b by (intro put_block_tail) (simp_all add: z_def)
  then show "UNPACK32 l (put_block b r ((0x80 # z) @ replicate 4 0)) (64 * nb - 4) = Some (put_block b r (0x80 # z @ be_bytes32 l))"
    using nb b by (simp add: z_def UNPACK32_ok length_put_block)
qed

lemma final_pad_ok:
  assumes "sha_rel H0 ctx m"
  shows "\<exists>ctx'. final_pad ctx = Some ctx' \<and>
    ctx_h ctx' = regs_list (hash_padded sha_K H0 (pad_with (len_field m) m))"
proof -
  define r q b where "r = length m mod 64" and "q = length m div 64" and "b = ctx_block ctx"
  define nb :: nat where "nb = (if 55 < r then 2 else 1)"
  have r64: "r < 64" and m: "length m = 64 * q + r" by (simp_all add: r_def q_def)
  have nb: "r + 9 \<le> 64 * nb" "64 * nb \<le> 128" "nb < 2 ^ 25" using r64 by (simp_all add: nb_def)
  have ctx: "length b = 128" "ctx_len ctx = of_nat r" "tot_len ctx = of_nat (64 * q)"
    "take r b = drop (64 * q) m" "ctx_h ctx = regs_list (hash_blocks sha_K m 0 q H0)"
    using assms by (simp_all add: sha_rel_def b_def r_def q_def)
  have clen: "unat (ctx_len ctx) = r" using sha_rel_len [OF assms] by (simp add: r_def)
  have blk: "(if SHA256_BLOCK_SIZE - 9 < ctx_len ctx mod SHA256_BLOCK_SIZE then 2 else 1) = (of_nat nb :: uint32)"
    using clen r64 by (simp add: SHA256_BLOCK_SIZE_def nb_def word_less_nat_alt unat_mod)
  have pm: "unat (push_bit 6 (of_nat nb) :: uint32) = 64 * nb" "unat (of_nat nb :: uint32) = nb"
    by (simp_all add: nb_def)
  then have k: "unat (push_bit 6 (of_nat nb) - ctx_len ctx) = 64 * nb - r"
    using clen nb(1) by (subst unat_sub) (simp_all add: word_le_nat_alt)
  have lenb: "push_bit 3 (tot_len ctx + ctx_len ctx) = (of_nat (8 * length m) :: uint32)"
    by (simp add: ctx m push_bit_eq_mult algebra_simps)
  note writes = pad_buffer [OF ctx(1) r64 nb(1,2)]
  let ?p = "pad_with (len_field m) m" and ?t = "0x80 # replicate (64 * nb - r - 5) (0 :: u8) @ be_bytes32 (of_nat (8 * length m))"
  let ?b = "put_block b r ?t"
  have p: "?p = m @ ?t" by (rule pad_shape [OF r_def nb_def])
  have "r + length ?t = 64 * nb" using nb(1) by simp
  then have "take (64 * nb) ?b = drop (64 * q) ?p"
    using take_put_block [of r b ?t] ctx(1,4) m r64 by (simp add: p del: append_Cons)
  moreover have "64 * q \<le> length ?p" by (simp add: p m)
  ultimately have "?b ! i = ?p ! (64 * q + i)" if "i < 64 * nb" for i
    using that by (metis nth_take nth_drop)
  then have "hash_blocks sha_K ?b 0 nb H = hash_blocks sha_K ?p (64 * q) nb H" for H
    by (intro hash_blocks_cong) simp
  moreover have "length ?p = 64 * (q + nb)" using nb m by (simp add: p)
  moreover have "hash_blocks sha_K ?p 0 q H0 = hash_blocks sha_K m 0 q H0"
    using m by (simp add: p hash_blocks_append)
  ultimately have "hash_blocks sha_K ?b 0 nb (hash_blocks sha_K m 0 q H0) = hash_padded sha_K H0 ?p"
    by (simp add: hash_padded_def hash_blocks_add)
  moreover have "sha256_transf (ctx\<lparr>ctx_block := ?b\<rparr>) ?b 0 (of_nat nb) =
      Some (ctx\<lparr>ctx_block := ?b, ctx_h := regs_list (hash_blocks sha_K ?b 0 nb (hash_blocks sha_K m 0 q H0))\<rparr>)"
    using transf_ok [of "ctx\<lparr>ctx_block := ?b\<rparr>" "hash_blocks sha_K m 0 q H0" "of_nat nb" 0 ?b] ctx nb pm(2)
    by (simp add: length_put_block)
  ultimately show ?thesis
    unfolding final_pad_def blk lenb Let_def pm k clen b_def [symmetric] writes(1) Option.bind.simps writes(2) writes(3)
    by simp
qed

section \<open>Digests\<close>

lemma length_digest_bytes: "n \<le> 8 \<Longrightarrow> length (digest_bytes n H) = 4 * n"
proof -
  assume "n \<le> 8"
  then have "map length (map be_bytes32 (take n (regs_list H))) = replicate n 4"
    by (simp add: o_def map_replicate_const min_def)
  then show ?thesis by (simp add: digest_bytes_def length_concat sum_list_replicate)
qed

lemma put_digest_ok:
  assumes "ctx_h ctx = regs_list H" "n \<le> 8" "4 * n \<le> length d"
  shows "put_digest n ctx d = Some (put_block d 0 (digest_bytes n H))"
  using assms(2,3)
proof (induction n)
  case 0
  then show ?case by (simp add: put_digest_def put_block_def digest_bytes_def)
next
  case (Suc n)
  have ld: "ld (ctx_h ctx) n = Some (regs_list H ! n)" using Suc.prems by (simp add: assms(1) ld_def)
  have d: "digest_bytes (Suc n) H = digest_bytes n H @ be_bytes32 (regs_list H ! n)"
    using Suc.prems by (simp add: digest_bytes_def take_Suc_conv_app_nth)
  have "UNPACK32 (regs_list H ! n) (put_block d 0 (digest_bytes n H)) (4 * n) =
      Some (put_block d 0 (digest_bytes (Suc n) H))"
    using Suc.prems
    by (simp add: d UNPACK32_ok length_put_block length_digest_bytes put_blocks be_bytes32_def)
  with Suc ld show ?case by (simp add: put_digest_def foldM_append)
qed

section \<open>The unrolled variant\<close>

text \<open>
  After \<open>j\<close> rounds the unrolled registers hold the rolled ones rotated by \<open>j\<close>: the macro's index
  tuple is the rotation's.
\<close>

definition exp_args :: "nat \<Rightarrow> nat \<times> nat \<times> nat \<times> nat \<times> nat \<times> nat \<times> nat \<times> nat \<times> nat" where
  "exp_args j = (let i = (\<lambda>k. (k + 7 * (j mod 8)) mod 8) in (i 0, i 1, i 2, i 3, i 4, i 5, i 6, i 7, j))"

lemma exp_calls_args: "exp_calls = map exp_args [0..<64]"
  unfolding exp_calls_def exp_args_def Let_def by code_simp

lemma exp_step:
  assumes "j < 64" "ld w j = Some wj"
  shows "SHA256_EXP w (exp_args j) (rotate j (regs_list r)) =
    Some (rotate (Suc j) (regs_list (sha_round (sha_K j) wj r)))"
proof (cases r rule: regs_list.cases)
  case (1 a b c d e f g h)
  have k: "ld sha256_k j = Some (sha_K j)" using assms(1) by (simp add: ld_def length_sha256_k)
  have "Suc j mod 8 = Suc (j mod 8) mod 8" by (simp add: mod_Suc_eq)
  moreover have "j mod 8 = 0 \<or> j mod 8 = 1 \<or> j mod 8 = 2 \<or> j mod 8 = 3 \<or> j mod 8 = 4 \<or> j mod 8 = 5
      \<or> j mod 8 = 6 \<or> j mod 8 = 7" by presburger
  ultimately show ?thesis
    using assms(2) k
    by (elim disjE) (simp_all add: 1 SHA256_EXP_def exp_args_def rotate_drop_take macro_specs Let_def mem_simps)
qed

lemma exp_rounds:
  assumes "agrees w W 64"
  shows "foldM (SHA256_EXP w) exp_calls (regs_list r) =
    Some (regs_list (fold (\<lambda>t. sha_round (sha_K t) (W t)) [0..<64] r))"
proof -
  have "foldM (SHA256_EXP w) (map exp_args [0..<n]) (regs_list r) =
      Some (rotate n (regs_list (fold (\<lambda>t. sha_round (sha_K t) (W t)) [0..<n] r)))" if "n \<le> 64" for n
    using that by (induction n) (simp_all add: foldM_append exp_step agrees_ld [OF assms])
  from this [of 64] show ?thesis by (simp add: exp_calls_args rotate_drop_take)
qed

lemma regs_list_exhaust: "length h = 8 \<Longrightarrow> \<exists>r. h = regs_list r"
proof -
  assume "length h = 8"
  then obtain a b c d e f g i where "h = [a, b, c, d, e, f, g, i]"
    by (auto simp: length_Suc_conv numeral_eq_Suc)
  then have "h = regs_list (a, b, c, d, e, f, g, i)" by simp
  then show ?thesis ..
qed

lemma unrolled_block:
  "transf_block_unrolled m off (w, wv, h) = do {
     w \<leftarrow> foldM (\<lambda>j w. PACK32_to m (off + 4 * j) w j) [0..<16] w;
     w \<leftarrow> foldM SHA256_SCR [16..<64] w;
     wv \<leftarrow> foldM (\<lambda>j wv. do { x \<leftarrow> ld h j; st wv j x }) [0..<8] wv;
     wv \<leftarrow> foldM (SHA256_EXP w) exp_calls wv;
     h \<leftarrow> foldM (\<lambda>j h. add_to h j wv) [0..<8] h;
     Some (w, wv, h)
   }"
proof -
  have u: "[0..<16] = [0, 1, 2, 3, 4, 5, 6, 7, 8, 9, 10, 11, 12, 13, 14, 15 :: nat]"
    "[0..<8] = [0, 1, 2, 3, 4, 5, 6, 7 :: nat]"
    by code_simp+
  show ?thesis
    unfolding transf_block_unrolled_def u by simp
qed

lemma schedule_loops_length:
  assumes "foldM (\<lambda>j w. PACK32_to m (off + 4 * j) w j) [0..<16] w = Some w1" "foldM SHA256_SCR [16..<64] w1 = Some w2"
  shows "length w2 = length w"
proof -
  have "length w1 = length w"
    by (rule foldM_inv [OF assms(1)]) (auto simp: PACK32_to_def st_Some_iff split: bind_splits)
  moreover have "length w2 = length w1"
    by (rule foldM_inv [OF assms(2)]) (auto simp: SHA256_SCR_def st_Some_iff split: bind_splits)
  ultimately show ?thesis by simp
qed

lemma unrolled_block_eq:
  assumes "length w = 64" "length wv = 8" "length h = 8"
  shows "transf_block_unrolled m off (w, wv, h) = transf_block m off (w, wv, h)"
proof -
  obtain r where h: "h = regs_list r" using regs_list_exhaust [OF assms(3)] by blast
  show ?thesis
  proof (cases "foldM (\<lambda>j w. PACK32_to m (off + 4 * j) w j) [0..<16] w \<bind> foldM SHA256_SCR [16..<64]")
    case None
    then show ?thesis
      by (auto simp: unrolled_block transf_block_def simp del: upt_rec_numeral split: bind_splits)
  next
    case (Some w2)
    then have "agrees w2 (nth w2) 64"
      using schedule_loops_length [of m off w] assms(1) by (auto simp: agrees_def bind_eq_Some_conv)
    with Some assms(2) show ?thesis
      by (auto simp: unrolled_block transf_block_def h copy_h exp_rounds rounds_ok bind_eq_Some_conv
          simp del: upt_rec_numeral)
  qed
qed

lemma transf_block_lengths:
  assumes "transf_block m off (w, wv, h) = Some (w', wv', h')"
  shows "length w' = length w" "length wv' = length wv" "length h' = length h"
proof -
  obtain w1 wv1 where s: "foldM (\<lambda>j w. PACK32_to m (off + 4 * j) w j) [0..<16] w = Some w1"
    "foldM SHA256_SCR [16..<64] w1 = Some w'"
    "foldM (\<lambda>j wv. do { x \<leftarrow> ld h j; st wv j x }) [0..<8] wv = Some wv1"
    "foldM (transf_round w') [0..<64] wv1 = Some wv'"
    "foldM (\<lambda>j h. add_to h j wv') [0..<8] h = Some h'"
    using assms by (auto simp: transf_block_def bind_eq_Some_conv simp del: upt_rec_numeral)
  show "length w' = length w" by (rule schedule_loops_length [OF s(1,2)])
  have "length wv1 = length wv"
    by (rule foldM_inv [OF s(3)]) (auto simp: st_Some_iff split: bind_splits)
  moreover have "length wv' = length wv1"
    by (rule foldM_inv [OF s(4)]) (auto simp: transf_round_def Let_def st_Some_iff split: bind_splits)
  ultimately show "length wv' = length wv" by simp
  show "length h' = length h"
    by (rule foldM_inv [OF s(5)]) (auto simp: add_to_def st_Some_iff split: bind_splits)
qed

section \<open>The constants\<close>

lemma floor_cbrt:
  assumes "c ^ 3 \<le> p * 2 ^ 96" "p * 2 ^ 96 < (c + 1) ^ 3"
  shows "\<lfloor>2 ^ 32 * root 3 (real p)\<rfloor> = int c"
proof -
  have eq: "2 ^ 32 * root 3 (real p) = root 3 (real (p * 2 ^ 96))"
    using real_root_power_cancel [of 3 "2 ^ 32 :: real"] by (simp add: real_root_mult mult.commute)
  have "real (c ^ 3) \<le> real (p * 2 ^ 96)" "real (p * 2 ^ 96) < real ((c + 1) ^ 3)"
    using assms by (simp_all only: of_nat_le_iff of_nat_less_iff)
  then have "root 3 (real c ^ 3) \<le> root 3 (real (p * 2 ^ 96))"
    "root 3 (real (p * 2 ^ 96)) < root 3 (real (c + 1) ^ 3)"
    by (simp_all only: of_nat_power real_root_le_iff real_root_less_iff zero_less_numeral)
  then show ?thesis
    unfolding eq by (simp add: floor_unique real_root_power_cancel)
qed

lemma floor_sqrt:
  assumes "c ^ 2 \<le> p * (2 ^ k) ^ 2" "p * (2 ^ k) ^ 2 < (c + 1) ^ 2"
  shows "\<lfloor>2 ^ k * sqrt (real p)\<rfloor> = int c"
proof -
  have eq: "2 ^ k * sqrt (real p) = sqrt (real (p * (2 ^ k) ^ 2))"
    by (simp add: real_sqrt_mult mult.commute)
  have "real (c ^ 2) \<le> real (p * (2 ^ k) ^ 2)" "real (p * (2 ^ k) ^ 2) < real ((c + 1) ^ 2)"
    using assms by (simp_all only: of_nat_le_iff of_nat_less_iff)
  then have "sqrt (real c ^ 2) \<le> sqrt (real (p * (2 ^ k) ^ 2))"
    "sqrt (real (p * (2 ^ k) ^ 2)) < sqrt (real (c + 1) ^ 2)"
    by (simp_all only: of_nat_power real_sqrt_le_iff real_sqrt_less_iff)
  then show ?thesis
    unfolding eq by (simp add: floor_unique)
qed

lemma primes64_eq: "primes64 = [2, 3, 5, 7, 11, 13, 17, 19, 23, 29, 31, 37, 41, 43, 47, 53, 59, 61, 67, 71, 73, 79, 83, 89, 97, 101, 103, 107, 109, 113, 127, 131, 137, 139, 149, 151, 157, 163, 167, 173, 179, 181, 191, 193, 197, 199, 211, 223, 227, 229, 233, 239, 241, 251, 257, 263, 269, 271, 277, 281, 283, 293, 307, 311]"
  by (simp add: primes64_def)

definition cbrts :: "nat list" where
  "cbrts = [
     5411319704, 6194414737, 7344290767, 8215976869,
     9551921755, 10098905585, 11043570340, 11460697813,
     12214315672, 13195500289, 13492127166, 14311783875,
     14809980276, 15046980094, 15499789991, 16133124468,
     16720292289, 16907126662, 17444216262, 17784676812,
     17950125167, 18429019306, 18734950876, 19175934170,
     19734090066, 20001703533, 20132865992, 20390182855,
     20516441075, 20764397895, 21588763473, 21813078375,
     22141143685, 22248366392, 22769593852, 22871018771,
     23170020180, 23461497531, 23651862830, 23931792517,
     24205322401, 24295138891, 24734567280, 24820601251,
     24990902297, 25075189284, 25569408389, 26045227120,
     26200031510, 26276752392, 26428864332, 26653801653,
     26727943347, 27092625994, 27306805839, 27517677555,
     27725365998, 27793908591, 27997534228, 28131656200,
     28198240250, 28526537963, 28973835255, 29099129074]"

definition sqrts :: "nat list" where
  "sqrts = [
     6074000999, 7439101573, 9603838834, 11363415354,
     14244795007, 15485724812, 17708603819, 18721328409]"

definition sqrts2 :: "nat list" where
  "sqrts2 = [
     88467476731178360536, 99338756991957652743, 102707124263845944599, 112207163657561200953,
     118116794080090393393, 120963390236882638097, 126464505871347584935, 134294323956039700388]"

lemma cbrts_ok: "list_all2 (\<lambda>p c. c ^ 3 \<le> p * 2 ^ 96 \<and> p * 2 ^ 96 < (c + 1) ^ 3) primes64 cbrts"
  unfolding primes64_eq cbrts_def by simp

lemma sqrts_ok: "list_all2 (\<lambda>p c. c ^ 2 \<le> p * (2 ^ 32) ^ 2 \<and> p * (2 ^ 32) ^ 2 < (c + 1) ^ 2) (take 8 primes64) sqrts"
  unfolding primes64_eq sqrts_def by simp

lemma sqrts2_ok: "list_all2 (\<lambda>p c. c ^ 2 \<le> p * (2 ^ 64) ^ 2 \<and> p * (2 ^ 64) ^ 2 < (c + 1) ^ 2) (take 8 (drop 8 primes64)) sqrts2"
  unfolding primes64_eq sqrts2_def by simp

lemma map_from_list_all2:
  "list_all2 P xs ys \<Longrightarrow> (\<And>x y. P x y \<Longrightarrow> f x = g y) \<Longrightarrow> map f xs = map g ys"
  by (induction rule: list_all2_induct) auto

section \<open>Properties\<close>

definition regs_of :: "uint32 list \<Rightarrow> sha_regs" where
  "regs_of h = (h ! 0, h ! 1, h ! 2, h ! 3, h ! 4, h ! 5, h ! 6, h ! 7)"

lemma regs_of_h0: "regs_list (regs_of sha256_h0) = sha256_h0" "regs_list (regs_of sha224_h0) = sha224_h0"
  by (simp_all add: regs_of_def sha256_h0_def sha224_h0_def)

lemma init_zero:
  "\<exists>ctx. sha256_init zero_ctx = Some ctx \<and> sha_rel (regs_of sha256_h0) ctx []"
  "\<exists>ctx. sha224_init zero_ctx = Some ctx \<and> sha_rel (regs_of sha224_h0) ctx []"
  using init_h_ok [of zero_ctx "regs_of sha256_h0"] init_h_ok [of zero_ctx "regs_of sha224_h0"]
  by (simp_all add: zero_ctx_def sha256_init_def sha224_init_def regs_of_h0)

lemma unat_len_field: "unat (len_field m) = (8 * length m) mod 2 ^ 32"
proof -
  have "(8 * length m) mod 2 ^ 32 < (2 :: nat) ^ 64"
    by (rule less_trans [of _ "2 ^ 32"]) simp_all
  then show ?thesis
    by (simp add: len_field_def unsigned_ucast_eq unat_of_nat take_bit_nat_eq_self del: of_nat_mult)
qed

text \<open>Below \<open>2^29\<close> bytes the 32 bit length field is the 64 bit field of the standard.\<close>

lemma len_field_exact: "length m < 2 ^ 29 \<Longrightarrow> pad_with (len_field m) m = pad m"
proof -
  assume "length m < 2 ^ 29"
  then have "unat (len_field m) = unat (of_nat (8 * length m) :: 64 word)"
    by (simp add: unat_len_field unat_of_nat del: of_nat_mult)
  then have "len_field m = of_nat (8 * length m)" by (simp only: word_unat_eq_iff)
  then show ?thesis by (simp only: pad_def)
qed

lemma be_word_split:
  "be_word (ucast (drop_bit 24 x)) (ucast (drop_bit 16 x)) (ucast (drop_bit 8 x)) (ucast x) = (x :: uint32)"
  by (rule bit_word_eqI) (auto simp: bit_be_word bit_simps)

lemma be_bytes32_inj: "be_bytes32 x = be_bytes32 y \<longleftrightarrow> x = y"
proof
  assume "be_bytes32 x = be_bytes32 y"
  then show "x = y" unfolding be_bytes32_def by (metis be_word_split list.inject)
qed simp

lemma be_bytes64_inj: "be_bytes64 x = be_bytes64 y \<longleftrightarrow> x = y"
proof
  assume "be_bytes64 x = be_bytes64 y"
  then have h: "(ucast (drop_bit 32 x) :: uint32) = ucast (drop_bit 32 y)" and l: "(ucast x :: uint32) = ucast y"
    by (simp_all add: be_bytes64_def be_bytes32_inj)
  show "x = y"
  proof (rule bit_word_eqI)
    fix n assume "n < LENGTH(64)"
    then show "bit x n = bit y n"
      using arg_cong [OF h, of "\<lambda>w. bit w (n - 32)"] arg_cong [OF l, of "\<lambda>w. bit w n"]
      by (cases "n < 32") (auto simp: bit_simps)
  qed
qed simp

lemma updates_ok:
  assumes "sha_rel H0 ctx m" "\<forall>c \<in> set cs. length c < 2 ^ 31"
  shows "\<exists>ctx'. foldM (\<lambda>c ctx. sha256_update ctx c (of_nat (length c))) cs ctx = Some ctx'
    \<and> sha_rel H0 ctx' (m @ concat cs)"
  using assms
proof (induction cs arbitrary: ctx m)
  case (Cons c cs)
  have "unat (of_nat (length c) :: uint32) = length c"
    using Cons.prems(2) by (simp add: unat_of_nat)
  with sha256_update_ok [OF Cons.prems(1), of "of_nat (length c)" c] Cons.prems(2)
  obtain c1 where "sha256_update ctx c (of_nat (length c)) = Some c1" "sha_rel H0 c1 (m @ c)"
    by auto
  with Cons.IH [of c1 "m @ c"] Cons.prems(2) show ?case by auto
qed simp

lemma final_ok:
  assumes "sha_rel H0 ctx m"
  shows "32 \<le> length d \<Longrightarrow> \<exists>ctx'. sha256_final ctx d =
      Some (ctx', put_block d 0 (digest_bytes 8 (hash_padded sha_K H0 (pad_with (len_field m) m))))"
    and "28 \<le> length d \<Longrightarrow> \<exists>ctx'. sha224_final ctx d =
      Some (ctx', put_block d 0 (digest_bytes 7 (hash_padded sha_K H0 (pad_with (len_field m) m))))"
  using final_pad_ok [OF assms] by (auto simp: sha256_final_def sha224_final_def put_digest_ok)

lemma sha256_ok:
  assumes "unat len \<le> length message" "unat len < 2 ^ 29" "32 \<le> length digest"
  shows "sha256 message len digest = Some (put_block digest 0
    (digest_bytes 8 (hash_padded (nth sha256_k) (regs_of sha256_h0) (pad (take (unat len) message)))))"
proof -
  obtain c0 where c0: "sha256_init zero_ctx = Some c0" "sha_rel (regs_of sha256_h0) c0 []"
    using init_zero by blast
  obtain c1 where c1: "sha256_update c0 message len = Some c1"
    "sha_rel (regs_of sha256_h0) c1 (take (unat len) message)"
    using sha256_update_ok [OF c0(2) assms(1)] assms(2) by auto
  from final_ok(1) [OF c1(2) assms(3)] assms(1,2) c0 c1(1) show ?thesis
    by (auto simp: sha256_def len_field_exact)
qed

lemma sha224_ok:
  assumes "unat len \<le> length message" "unat len < 2 ^ 29" "28 \<le> length digest"
  shows "sha224 message len digest = Some (put_block digest 0
    (digest_bytes 7 (hash_padded (nth sha256_k) (regs_of sha224_h0) (pad (take (unat len) message)))))"
proof -
  obtain c0 where c0: "sha224_init zero_ctx = Some c0" "sha_rel (regs_of sha224_h0) c0 []"
    using init_zero by blast
  obtain c1 where c1: "sha224_update c0 message len = Some c1"
    "sha_rel (regs_of sha224_h0) c1 (take (unat len) message)"
    using sha256_update_ok [OF c0(2) assms(1)] assms(2) by (auto simp: sha224_update_def)
  from final_ok(2) [OF c1(2) assms(3)] assms(1,2) c0 c1(1) show ?thesis
    by (auto simp: sha224_def len_field_exact)
qed

text \<open>
  C6.  \<open>sha256\<close> writes the FIPS 180 SHA-256 digest of the first \<open>len\<close> message bytes to the first 32
  bytes of the digest buffer, with no access outside a buffer, for messages below \<open>2^29\<close> bytes.
\<close>

theorem sha256_fips:
  assumes "unat len \<le> length message" "unat len < 2 ^ 29" "32 \<le> length digest"
  shows "sha256 message len digest = Some (put_block digest 0
    (digest_bytes 8 (hash_padded (nth sha256_k) (regs_of sha256_h0) (pad (take (unat len) message)))))"
  by (rule sha256_ok [OF assms])

theorem sha256_fips_witness:
  "sha256 [0x61, 0x62, 0x63] 3 (replicate 32 0) = Some (put_block (replicate 32 0) 0
    (digest_bytes 8 (hash_padded (nth sha256_k) (regs_of sha256_h0) (pad [0x61, 0x62, 0x63]))))"
  using sha256_fips [of 3 "[0x61, 0x62, 0x63]" "replicate 32 0"] by simp

text \<open>
  C7.  Hashing in pieces: any sequence of \<open>sha224_update\<close> calls between \<open>sha224_init\<close> and
  \<open>sha224_final\<close>, with pieces of any size, gives the SHA-224 digest of the concatenation of the
  pieces, for less than \<open>2^29\<close> bytes in total.
\<close>

theorem sha224_streaming:
  assumes "length (concat pieces) < 2 ^ 29" "28 \<le> length digest"
  shows "do { ctx \<leftarrow> sha224_init zero_ctx;
              ctx \<leftarrow> foldM (\<lambda>c ctx. sha224_update ctx c (of_nat (length c))) pieces ctx;
              (ctx, digest) \<leftarrow> sha224_final ctx digest;
              Some digest }
    = Some (put_block digest 0
        (digest_bytes 7 (hash_padded (nth sha256_k) (regs_of sha224_h0) (pad (concat pieces)))))"
proof -
  obtain c0 where c0: "sha224_init zero_ctx = Some c0" "sha_rel (regs_of sha224_h0) c0 []"
    using init_zero by blast
  have "\<forall>c \<in> set pieces. length c < 2 ^ 31"
    using assms(1) member_le_sum_list [of _ "map length pieces"] by (force simp: length_concat)
  then obtain c1 where c1: "foldM (\<lambda>c ctx. sha256_update ctx c (of_nat (length c))) pieces c0 = Some c1"
    "sha_rel (regs_of sha224_h0) c1 (concat pieces)"
    using updates_ok [OF c0(2)] by auto
  from final_ok(2) [OF c1(2) assms(2)] assms(1) c0 c1(1) show ?thesis
    by (auto simp: sha224_update_def len_field_exact)
qed

theorem sha224_streaming_witness:
  "do { ctx \<leftarrow> sha224_init zero_ctx;
        ctx \<leftarrow> foldM (\<lambda>c ctx. sha224_update ctx c (of_nat (length c))) [replicate 70 1, [], [2, 3]] ctx;
        (ctx, digest) \<leftarrow> sha224_final ctx (replicate 28 0);
        Some digest }
    = Some (put_block (replicate 28 0) 0 (digest_bytes 7 (hash_padded (nth sha256_k) (regs_of sha224_h0)
        (pad (replicate 70 1 @ [2, 3])))))"
  using sha224_streaming [of "[replicate 70 1, [], [2, 3]]" "replicate 28 0"] by simp

text \<open>
  C8.  The tables \<open>sha256_k\<close>, \<open>sha256_h0\<close> and \<open>sha224_h0\<close> are the constants FIPS 180 derives from the
  cube and square roots of the first primes.
\<close>

theorem sha2_constants:
  "sha256_k = map frac_cbrt primes64 \<and> sha256_h0 = map frac_sqrt (take 8 primes64) \<and>
   sha224_h0 = map frac_sqrt_second (take 8 (drop 8 primes64))"
proof -
  have "map frac_cbrt primes64 = map of_nat cbrts"
    by (rule map_from_list_all2 [OF cbrts_ok]) (elim conjE, drule (1) floor_cbrt, simp add: frac_cbrt_def)
  moreover have "map frac_sqrt (take 8 primes64) = map of_nat sqrts"
    by (rule map_from_list_all2 [OF sqrts_ok]) (elim conjE, drule (1) floor_sqrt, simp add: frac_sqrt_def)
  moreover have "map frac_sqrt_second (take 8 (drop 8 primes64)) = map of_nat sqrts2"
    by (rule map_from_list_all2 [OF sqrts2_ok]) (elim conjE, drule (1) floor_sqrt, simp add: frac_sqrt_second_def)
  ultimately show ?thesis
    by (simp add: cbrts_def sqrts_def sqrts2_def sha256_k_def sha256_h0_def sha224_h0_def)
qed

lemma len_field_eq: "len_field m = of_nat (8 * length m mod 2 ^ 32)"
proof -
  have "unat (of_nat (8 * length m mod 2 ^ 32) :: 64 word) = 8 * length m mod 2 ^ 32"
    by (simp add: unat_of_nat del: of_nat_mult)
  then show ?thesis by (simp add: word_unat_eq_iff unat_len_field)
qed

lemma pad_with_blocks: "64 dvd length (pad_with lf m)"
proof -
  have "length (be_bytes64 lf) = 8" by (simp add: be_bytes64_def be_bytes32_def)
  then have n: "length (pad_with lf m) = length m + 9 + (119 - length m mod 64) mod 64" by (simp add: pad_with_def)
  obtain q r where m: "length m = 64 * q + r" "r < 64" by (metis mod_less_divisor mult_div_mod_eq zero_less_numeral)
  have "r + 9 + (119 - r) mod 64 = (if r < 56 then 64 else 128)"
    using m(2) by (cases "r < 56") (auto simp: mod_if)
  then have "64 dvd 64 * q + (r + 9 + (119 - r) mod 64)" by simp
  moreover have "length m mod 64 = r" using m by simp
  ultimately show ?thesis unfolding n by (simp add: m(1) add.assoc)
qed

lemma len_field_pad:
  assumes "length m < 2 ^ 61"
  shows "pad_with (of_nat (8 * length m mod 2 ^ 32)) m = pad m \<longleftrightarrow> length m < 2 ^ 29"
proof
  assume "pad_with (of_nat (8 * length m mod 2 ^ 32)) m = pad m"
  then have "(of_nat (8 * length m mod 2 ^ 32) :: 64 word) = of_nat (8 * length m)"
    by (simp only: pad_def pad_with_def append_same_eq same_append_eq be_bytes64_inj)
  moreover have "unat (of_nat (8 * length m mod 2 ^ 32) :: 64 word) = 8 * length m mod 2 ^ 32"
    "unat (of_nat (8 * length m) :: 64 word) = 8 * length m"
    using assms by (simp_all add: unat_of_nat del: of_nat_mult)
  ultimately have "8 * length m mod 2 ^ 32 = 8 * length m" by simp
  then have "8 * length m < 2 ^ 32" by (metis mod_less_divisor zero_less_numeral zero_less_power)
  then show "length m < 2 ^ 29" by simp
qed (simp only: len_field_exact len_field_eq [symmetric])

text \<open>
  C9.  The length field has 32 bits only: whatever the pieces, \<open>sha256_final\<close> writes the digest of the
  message padded with its length in bits modulo \<open>2^32\<close>.  That is a whole number of blocks, and the padding
  FIPS 180 prescribes exactly if the message has less than \<open>2^29\<close> bytes.
\<close>

theorem sha256_long_message:
  assumes "\<forall>c \<in> set pieces. length c < 2 ^ 31" "length (concat pieces) < 2 ^ 61" "32 \<le> length digest"
  shows "do { ctx \<leftarrow> sha256_init zero_ctx;
              ctx \<leftarrow> foldM (\<lambda>c ctx. sha256_update ctx c (of_nat (length c))) pieces ctx;
              (ctx, digest) \<leftarrow> sha256_final ctx digest;
              Some digest }
      = Some (put_block digest 0 (digest_bytes 8 (hash_padded (nth sha256_k) (regs_of sha256_h0)
          (pad_with (of_nat (8 * length (concat pieces) mod 2 ^ 32)) (concat pieces))))) \<and>
    64 dvd length (pad_with (of_nat (8 * length (concat pieces) mod 2 ^ 32)) (concat pieces)) \<and>
    (pad_with (of_nat (8 * length (concat pieces) mod 2 ^ 32)) (concat pieces) = pad (concat pieces) \<longleftrightarrow>
      length (concat pieces) < 2 ^ 29)"
proof -
  obtain c0 where c0: "sha256_init zero_ctx = Some c0" "sha_rel (regs_of sha256_h0) c0 []"
    using init_zero by blast
  obtain c1 where c1: "foldM (\<lambda>c ctx. sha256_update ctx c (of_nat (length c))) pieces c0 = Some c1"
    "sha_rel (regs_of sha256_h0) c1 (concat pieces)"
    using updates_ok [OF c0(2) assms(1)] by auto
  obtain c2 where "sha256_final c1 digest = Some (c2, put_block digest 0 (digest_bytes 8 (hash_padded (nth sha256_k)
      (regs_of sha256_h0) (pad_with (of_nat (8 * length (concat pieces) mod 2 ^ 32)) (concat pieces)))))"
    using final_ok(1) [OF c1(2) assms(3)] by (auto simp only: len_field_eq)
  then show ?thesis
    using pad_with_blocks len_field_pad [OF assms(2)] by (simp only: c0(1) c1(1) bind.bind_lunit prod.case simp_thms)
qed

theorem sha256_long_message_witness:
  "do { ctx \<leftarrow> sha256_init zero_ctx;
        ctx \<leftarrow> foldM (\<lambda>c ctx. sha256_update ctx c (of_nat (length c))) [replicate (2 ^ 29) 1, [2, 3]] ctx;
        (ctx, digest) \<leftarrow> sha256_final ctx (replicate 32 0);
        Some digest }
      = Some (put_block (replicate 32 0) 0 (digest_bytes 8 (hash_padded (nth sha256_k) (regs_of sha256_h0)
          (pad_with (of_nat 16) (replicate (2 ^ 29) 1 @ [2, 3]))))) \<and>
    pad_with (of_nat 16) (replicate (2 ^ 29) 1 @ [2, 3]) \<noteq> pad (replicate (2 ^ 29) 1 @ [2, 3])"
proof -
  define big :: "u8 list" where "big = replicate (2 ^ 29) 1"
  have n: "length big = 2 ^ 29" by (simp only: big_def length_replicate)
  have m: "concat [big, [2, 3]] = big @ [2, 3]" "length (big @ [2, 3]) = 2 ^ 29 + 2" by (simp_all add: n)
  have "\<forall>c \<in> set [big, [2, 3]]. length c < 2 ^ 31" "length (concat [big, [2, 3]]) < 2 ^ 61" "32 \<le> length (replicate 32 (0 :: u8))"
    by (simp_all add: n)
  note claim = sha256_long_message [OF this, unfolded m]
  have "8 * (2 ^ 29 + 2) mod 2 ^ 32 = (16 :: nat)" "\<not> 2 ^ 29 + 2 < (2 ^ 29 :: nat)" by simp_all
  then show ?thesis using claim unfolding big_def [symmetric] by (simp only: simp_thms)
qed

text \<open>
  Built with \<open>UNROLL_LOOPS\<close>, \<open>sha256_transf\<close> computes what the rolled loops compute, for every
  message, block count and context with eight hash words, reads outside the message included.
\<close>

theorem sha256_transf_unrolled_equiv:
  assumes "length (ctx_h ctx) = 8"
  shows "sha256_transf_unrolled ctx message off block_nb = sha256_transf ctx message off block_nb"
proof -
  let ?I = "\<lambda>(w :: uint32 list, wv :: uint32 list, h :: uint32 list). length w = 64 \<and> length wv = 8 \<and> length h = 8"
  have "foldM (\<lambda>i s. if 64 * i < 2 ^ 31 then transf_block_unrolled message (off + 64 * i) s else None) is s =
      foldM (\<lambda>i s. if 64 * i < 2 ^ 31 then transf_block message (off + 64 * i) s else None) is s"
    if "?I s" for "is" s
    by (rule foldM_inv_cong [where I = ?I])
      (use that in \<open>auto simp: unrolled_block_eq split: if_splits dest: transf_block_lengths\<close>)
  with assms show ?thesis
    by (simp add: sha256_transf_unrolled_def sha256_transf_def transf_loop_def)
qed

theorem sha256_transf_unrolled_equiv_witness:
  "sha256_transf_unrolled zero_ctx (replicate 64 7) 0 1 = sha256_transf zero_ctx (replicate 64 7) 0 1"
  using sha256_transf_unrolled_equiv [of zero_ctx "replicate 64 7" 0 1] by (simp add: zero_ctx_def)

end
