(* ===== verification/Tee_Api.thy ===== *)
theory Tee_Api
  imports OT_Prelude
begin

text \<open>
  The vocabulary of the GlobalPlatform Internal Core API the trusted applications use
  (\<open>tee_api_defines.h\<close>, \<open>tee_api_types.h\<close>): result codes, parameter types, and the four parameters
  of a command.  The union \<open>TEE_Param\<close> is a record with both views; a command reads the view that
  its check of \<open>param_types\<close> selects.  A memory reference is the buffer's address and bytes with a
  32 bit size.
\<close>

type_synonym TEE_Result = uint32

definition TEE_SUCCESS :: TEE_Result where "TEE_SUCCESS = 0"
definition TEE_ERROR_CORRUPT_OBJECT :: TEE_Result where "TEE_ERROR_CORRUPT_OBJECT = 0xF0100001"
definition TEE_ERROR_GENERIC :: TEE_Result where "TEE_ERROR_GENERIC = 0xFFFF0000"
definition TEE_ERROR_ACCESS_DENIED :: TEE_Result where "TEE_ERROR_ACCESS_DENIED = 0xFFFF0001"
definition TEE_ERROR_CANCEL :: TEE_Result where "TEE_ERROR_CANCEL = 0xFFFF0002"
definition TEE_ERROR_BAD_FORMAT :: TEE_Result where "TEE_ERROR_BAD_FORMAT = 0xFFFF0005"
definition TEE_ERROR_BAD_PARAMETERS :: TEE_Result where "TEE_ERROR_BAD_PARAMETERS = 0xFFFF0006"
definition TEE_ERROR_BAD_STATE :: TEE_Result where "TEE_ERROR_BAD_STATE = 0xFFFF0007"
definition TEE_ERROR_ITEM_NOT_FOUND :: TEE_Result where "TEE_ERROR_ITEM_NOT_FOUND = 0xFFFF0008"
definition TEE_ERROR_NOT_IMPLEMENTED :: TEE_Result where "TEE_ERROR_NOT_IMPLEMENTED = 0xFFFF0009"
definition TEE_ERROR_NOT_SUPPORTED :: TEE_Result where "TEE_ERROR_NOT_SUPPORTED = 0xFFFF000A"
definition TEE_ERROR_OUT_OF_MEMORY :: TEE_Result where "TEE_ERROR_OUT_OF_MEMORY = 0xFFFF000C"
definition TEE_ERROR_SHORT_BUFFER :: TEE_Result where "TEE_ERROR_SHORT_BUFFER = 0xFFFF0010"
definition TEE_ERROR_OVERFLOW :: TEE_Result where "TEE_ERROR_OVERFLOW = 0xFFFF300F"
definition TEE_ERROR_TIME_NOT_SET :: TEE_Result where "TEE_ERROR_TIME_NOT_SET = 0xFFFF5000"
definition TEE_ERROR_TIME_NEEDS_RESET :: TEE_Result where "TEE_ERROR_TIME_NEEDS_RESET = 0xFFFF5001"

lemmas tee_results = TEE_SUCCESS_def
  TEE_ERROR_CORRUPT_OBJECT_def TEE_ERROR_GENERIC_def TEE_ERROR_ACCESS_DENIED_def
  TEE_ERROR_CANCEL_def TEE_ERROR_BAD_FORMAT_def TEE_ERROR_BAD_PARAMETERS_def
  TEE_ERROR_BAD_STATE_def TEE_ERROR_ITEM_NOT_FOUND_def TEE_ERROR_NOT_IMPLEMENTED_def
  TEE_ERROR_NOT_SUPPORTED_def TEE_ERROR_OUT_OF_MEMORY_def TEE_ERROR_SHORT_BUFFER_def
  TEE_ERROR_OVERFLOW_def TEE_ERROR_TIME_NOT_SET_def TEE_ERROR_TIME_NEEDS_RESET_def

definition PT_NONE :: uint32 where "PT_NONE = 0"
definition PT_VALUE_INPUT :: uint32 where "PT_VALUE_INPUT = 1"
definition PT_VALUE_OUTPUT :: uint32 where "PT_VALUE_OUTPUT = 2"
definition PT_VALUE_INOUT :: uint32 where "PT_VALUE_INOUT = 3"
definition PT_MEMREF_INPUT :: uint32 where "PT_MEMREF_INPUT = 5"
definition PT_MEMREF_OUTPUT :: uint32 where "PT_MEMREF_OUTPUT = 6"
definition PT_MEMREF_INOUT :: uint32 where "PT_MEMREF_INOUT = 7"

lemmas param_type_defs = PT_NONE_def PT_VALUE_INPUT_def PT_VALUE_OUTPUT_def PT_VALUE_INOUT_def
  PT_MEMREF_INPUT_def PT_MEMREF_OUTPUT_def PT_MEMREF_INOUT_def

definition TEE_PARAM_TYPES :: "uint32 \<Rightarrow> uint32 \<Rightarrow> uint32 \<Rightarrow> uint32 \<Rightarrow> uint32" where
  "TEE_PARAM_TYPES t0 t1 t2 t3 = t0 OR push_bit 4 t1 OR push_bit 8 t2 OR push_bit 12 t3"

definition TEE_PARAM_TYPE_GET :: "uint32 \<Rightarrow> nat \<Rightarrow> uint32" where
  "TEE_PARAM_TYPE_GET t i = drop_bit (i * 4) t AND 0xF"

record tee_param =
  maddr :: size_t
  mbuf :: "u8 list"
  msize :: uint32
  val_a :: uint32
  val_b :: uint32

record tee_params =
  p0 :: tee_param
  p1 :: tee_param
  p2 :: tee_param
  p3 :: tee_param

record TEE_Time =
  seconds :: uint32
  millis :: uint32

text \<open>
  The heap of a TA behind \<open>TEE_Malloc\<close> and \<open>TEE_Free\<close>: a pointer is a natural number, 0 is \<open>NULL\<close>,
  and the memory is of a type \<open>'m\<close> that the models leave open.
\<close>

type_synonym ptr = nat

record 'm heap_api =
  TEE_Malloc :: "size_t \<Rightarrow> 'm \<Rightarrow> ptr \<times> 'm"
  TEE_Free :: "ptr \<Rightarrow> 'm \<Rightarrow> 'm"

text \<open>
  The internal client API: a TA as the client of another TA.  A call returns its result code, the
  return origin and the parameters as the other side left them.
\<close>

type_synonym tee_uuid = "uint32 \<times> 16 word \<times> 16 word \<times> u8 list"

record 'm client_api =
  TEE_OpenTASession :: "tee_uuid \<Rightarrow> uint32 \<Rightarrow> uint32 \<Rightarrow> tee_params \<Rightarrow> 'm \<Rightarrow>
    TEE_Result \<times> size_t \<times> uint32 \<times> tee_params \<times> 'm"
  TEE_InvokeTACommand :: "size_t \<Rightarrow> uint32 \<Rightarrow> uint32 \<Rightarrow> uint32 \<Rightarrow> tee_params \<Rightarrow> 'm \<Rightarrow>
    TEE_Result \<times> uint32 \<times> tee_params \<times> 'm"
  TEE_CloseTASession :: "size_t \<Rightarrow> 'm \<Rightarrow> 'm"

definition zero_param :: tee_param where
  "zero_param = \<lparr>maddr = 0, mbuf = [], msize = 0, val_a = 0, val_b = 0\<rparr>"

definition zero_params :: tee_params where
  "zero_params = \<lparr>p0 = zero_param, p1 = zero_param, p2 = zero_param, p3 = zero_param\<rparr>"

text \<open>A memory reference as the TEE hands it to a command: the buffer has \<open>size\<close> bytes.\<close>

definition memref_ok :: "tee_param \<Rightarrow> bool" where
  "memref_ok p \<longleftrightarrow> length (mbuf p) = unat (msize p)"

text \<open>Setting \<open>params[i].value.a\<close> and \<open>.b\<close>.\<close>

definition set_val_a1 :: "uint32 \<Rightarrow> tee_params \<Rightarrow> tee_params" where
  "set_val_a1 x ps = ps\<lparr>p1 := (p1 ps)\<lparr>val_a := x\<rparr>\<rparr>"

lemma set_val_a1_simps [simp]:
  "val_a (p1 (set_val_a1 x ps)) = x" "p0 (set_val_a1 x ps) = p0 ps"
  "p2 (set_val_a1 x ps) = p2 ps" "p3 (set_val_a1 x ps) = p3 ps"
  "val_b (p1 (set_val_a1 x ps)) = val_b (p1 ps)"
  by (simp_all add: set_val_a1_def)

lemma bit_below: "unat w < 2 ^ n \<Longrightarrow> bit w k \<Longrightarrow> k < n" for w :: "'a::len word"
proof -
  assume "unat w < 2 ^ n" "bit w k"
  then have "take_bit n w = w"
    by (simp add: word_unat_eq_iff unsigned_take_bit_eq take_bit_nat_eq_self)
  with \<open>bit w k\<close> show ?thesis by (metis bit_take_bit_iff)
qed

text \<open>A type below 16 in each of four positions is what \<open>TEE_PARAM_TYPE_GET\<close> reads back.\<close>

lemma param_types_get:
  assumes "t0 < 16" "t1 < 16" "t2 < 16" "t3 < 16"
  shows "TEE_PARAM_TYPE_GET (TEE_PARAM_TYPES t0 t1 t2 t3) 0 = t0"
    "TEE_PARAM_TYPE_GET (TEE_PARAM_TYPES t0 t1 t2 t3) 1 = t1"
    "TEE_PARAM_TYPE_GET (TEE_PARAM_TYPES t0 t1 t2 t3) 2 = t2"
    "TEE_PARAM_TYPE_GET (TEE_PARAM_TYPES t0 t1 t2 t3) 3 = t3"
proof -
  have m: "(15 :: uint32) = mask 4" by (simp add: mask_eq_exp_minus_1)
  have low: "n < 4" if "t < 16" "bit t n" for t :: uint32 and n
    using bit_below [of t 4 n] that by (simp add: word_less_nat_alt)
  note b = low [OF assms(1)] low [OF assms(2)] low [OF assms(3)] low [OF assms(4)]
  show "TEE_PARAM_TYPE_GET (TEE_PARAM_TYPES t0 t1 t2 t3) 0 = t0"
    "TEE_PARAM_TYPE_GET (TEE_PARAM_TYPES t0 t1 t2 t3) 1 = t1"
    "TEE_PARAM_TYPE_GET (TEE_PARAM_TYPES t0 t1 t2 t3) 2 = t2"
    "TEE_PARAM_TYPE_GET (TEE_PARAM_TYPES t0 t1 t2 t3) 3 = t3"
    unfolding TEE_PARAM_TYPE_GET_def TEE_PARAM_TYPES_def m
    by (rule bit_word_eqI; auto simp: bit_simps dest: b)+
qed

end
