(* ===== verification/Handle_Db.thy ===== *)
theory Handle_Db
  imports Tee_Api
begin

text \<open>
  Model of \<open>src/ta/crypt/handle.c\<close>: a table from small integers to pointers that grows by
  doubling.  A missing database is \<^term>\<open>None\<close>.
  \<open>TEE_Realloc\<close> is a parameter of the model; \<open>realloc_ok\<close> states what the Internal Core API says of
  it (the common prefix is kept, the new part is arbitrary), with the heap of a TA bounded by
  2 GiB.  The locale \<open>handle_table\<close> is the contract the arithmetic commands rely on.
\<close>

type_synonym realloc_fn = "ptr list \<Rightarrow> size_t \<Rightarrow> ptr list option"

record handle_db =
  ptrs :: "ptr list"
  max_ptrs :: size_t

definition HANDLE_DB_INITIALIZER :: handle_db where
  "HANDLE_DB_INITIALIZER = \<lparr>ptrs = [], max_ptrs = 0\<rparr>"

definition HANDLE_DB_INITIAL_MAX_PTRS :: size_t where
  "HANDLE_DB_INITIAL_MAX_PTRS = 4"

definition handle_db_destroy :: "handle_db option \<Rightarrow> handle_db option" where
  "handle_db_destroy db = (case db of None \<Rightarrow> None | Some d \<Rightarrow> Some (d\<lparr>ptrs := [], max_ptrs := 0\<rparr>))"

text \<open>\<open>for (n = 0; n < db->max_ptrs; n++) if (!db->ptrs[n]) ...\<close>: where the search stops.\<close>

function find_empty :: "ptr list \<Rightarrow> nat \<Rightarrow> nat \<Rightarrow> nat option" where
  "find_empty ps mx n =
     (if n < mx then do { p \<leftarrow> ld ps n; if p = 0 then Some n else find_empty ps mx (n + 1) }
      else Some n)"
  by pat_completeness auto
termination
  by (relation "measure (\<lambda>(ps, mx, n). mx - n)") auto

declare find_empty.simps [simp del]

definition handle_get ::
  "realloc_fn \<Rightarrow> handle_db option \<Rightarrow> ptr \<Rightarrow> (int \<times> handle_db option) option" where
  "handle_get TEE_Realloc db ptr = (case db of None \<Rightarrow> Some (-1, None) | Some d \<Rightarrow>
     if ptr = 0 then Some (-1, db)
     else do {
       n \<leftarrow> find_empty (ptrs d) (unat (max_ptrs d)) 0;
       if n < unat (max_ptrs d) then do {
         ps \<leftarrow> st (ptrs d) n ptr;
         Some (sint (of_nat n :: uint32), Some (d\<lparr>ptrs := ps\<rparr>))
       }
       else do {
         let new_max_ptrs = (if max_ptrs d \<noteq> 0 then max_ptrs d * 2 else HANDLE_DB_INITIAL_MAX_PTRS);
         case TEE_Realloc (ptrs d) (new_max_ptrs * 8) of
           None \<Rightarrow> Some (-1, db)
         | Some p \<Rightarrow> do {
             p \<leftarrow> foldM (\<lambda>i p. st p (unat (max_ptrs d) + i) 0)
                    [0..<unat ((new_max_ptrs - max_ptrs d) * 8) div 8] p;
             p \<leftarrow> st p n ptr;
             Some (sint (of_nat n :: uint32), Some (d\<lparr>ptrs := p, max_ptrs := new_max_ptrs\<rparr>))
           }
       }
     })"

definition handle_put :: "handle_db option \<Rightarrow> int \<Rightarrow> (ptr \<times> handle_db option) option" where
  "handle_put db handle = (case db of None \<Rightarrow> Some (0, None) | Some d \<Rightarrow>
     if handle < 0 \<or> unat (max_ptrs d) \<le> nat handle then Some (0, db)
     else do {
       p \<leftarrow> ld (ptrs d) (nat handle);
       ps \<leftarrow> st (ptrs d) (nat handle) 0;
       Some (p, Some (d\<lparr>ptrs := ps\<rparr>))
     })"

definition handle_lookup :: "handle_db option \<Rightarrow> int \<Rightarrow> ptr option" where
  "handle_lookup db handle = (case db of None \<Rightarrow> Some 0 | Some d \<Rightarrow>
     if handle < 0 \<or> unat (max_ptrs d) \<le> nat handle then Some 0
     else ld (ptrs d) (nat handle))"

section \<open>The contract\<close>

datatype db_op = Get ptr | Put int

locale handle_table =
  fixes inv :: "'db \<Rightarrow> bool"
    and get :: "'db \<Rightarrow> ptr \<Rightarrow> (int \<times> 'db) option"
    and put :: "'db \<Rightarrow> int \<Rightarrow> (ptr \<times> 'db) option"
    and lookup :: "'db \<Rightarrow> int \<Rightarrow> ptr option"
  assumes lookup_total: "inv db \<Longrightarrow> \<exists>p. lookup db h = Some p"
    and get_law: "inv db \<Longrightarrow> p \<noteq> 0 \<Longrightarrow> \<exists>h db'. get db p = Some (h, db') \<and> inv db' \<and> h < 2 ^ 28 \<and>
      (if h < 0 then lookup db' = lookup db
       else lookup db h = Some 0 \<and> lookup db' = (lookup db)(h := Some p))"
    and put_law: "inv db \<Longrightarrow> \<exists>p db'. put db h = Some (p, db') \<and> inv db' \<and> lookup db h = Some p \<and>
      lookup db' = (lookup db)(h := Some 0)"
begin

definition step :: "db_op \<Rightarrow> 'db \<Rightarrow> 'db option" where
  "step op db = (case op of Get p \<Rightarrow> map_option snd (get db p) | Put h \<Rightarrow> map_option snd (put db h))"

lemma step_keeps:
  assumes "inv db" "lookup db h = Some p" "p \<noteq> 0" "op \<noteq> Put h" "op \<noteq> Get 0"
  shows "\<exists>db'. step op db = Some db' \<and> inv db' \<and> lookup db' h = Some p"
proof (cases op)
  case (Get q)
  with assms get_law [OF assms(1), of q] show ?thesis
    by (auto simp: step_def split: if_splits)
next
  case (Put k)
  with assms put_law [OF assms(1), of k] show ?thesis by (auto simp: step_def)
qed

lemma run_keeps:
  assumes "inv db" "lookup db h = Some p" "p \<noteq> 0" "Put h \<notin> set ops" "Get 0 \<notin> set ops"
  shows "\<exists>db'. foldM step ops db = Some db' \<and> inv db' \<and> lookup db' h = Some p"
  using assms
proof (induction ops arbitrary: db)
  case (Cons op ops)
  then obtain d where "step op db = Some d" "inv d" "lookup d h = Some p"
    using step_keeps [of db h p op] by auto
  with Cons show ?case by simp
qed simp

text \<open>A handle stays bound to its pointer, and is not handed out again, until it is given back.\<close>

lemma get_fresh:
  assumes "inv db" "lookup db h = Some p" "p \<noteq> 0" "q \<noteq> 0" "get db q = Some (k, db')" "0 \<le> k"
  shows "k \<noteq> h"
  using assms get_law [OF assms(1,4)] by (auto split: if_splits)

end

section \<open>The table meets the contract\<close>

definition realloc_ok :: "realloc_fn \<Rightarrow> bool" where
  "realloc_ok r \<longleftrightarrow> (\<forall>ps sz qs. r ps sz = Some qs \<longrightarrow>
     unat sz \<le> 2 ^ 31 \<and> length qs = unat sz div 8 \<and> take (length ps) qs = take (length qs) ps)"

definition db_inv :: "handle_db \<Rightarrow> bool" where
  "db_inv d \<longleftrightarrow> length (ptrs d) = unat (max_ptrs d) \<and> unat (max_ptrs d) \<le> 2 ^ 28"

definition hdb_inv :: "realloc_fn \<Rightarrow> handle_db option \<Rightarrow> bool" where
  "hdb_inv r db \<longleftrightarrow> realloc_ok r \<and> (case db of None \<Rightarrow> True | Some d \<Rightarrow> db_inv d)"

lemma find_empty_ok:
  assumes "n \<le> m" "m \<le> length ps"
  shows "\<exists>k. find_empty ps m n = Some k \<and> k \<le> m \<and> (k < m \<longrightarrow> ps ! k = 0)"
  using assms
proof (induction ps m n rule: find_empty.induct)
  case (1 ps m n)
  show ?case
  proof (cases "n < m \<and> ps ! n \<noteq> 0")
    case True
    with 1 obtain k where "find_empty ps m (n + 1) = Some k" "k \<le> m" "k < m \<longrightarrow> ps ! k = 0"
      by (auto simp: ld_def)
    with True 1(3) show ?thesis
      by (subst find_empty.simps) (auto simp: ld_def)
  next
    case False
    with 1(2,3) show ?thesis by (subst find_empty.simps) (auto simp: ld_def)
  qed
qed

lemma sint_index: "n < 2 ^ 28 \<Longrightarrow> sint (of_nat n :: uint32) = int n"
  by (simp add: sint_small unat_of_nat)

lemma lookup_upd:
  assumes "db_inv d" "n < length (ptrs d)"
  shows "handle_lookup (Some (d\<lparr>ptrs := (ptrs d)[n := p]\<rparr>)) = (handle_lookup (Some d))(int n := Some p)"
  using assms by (auto simp: fun_eq_iff handle_lookup_def db_inv_def ld_def nth_list_update)

text \<open>Growing the table: the old entries stay, the new ones are free.\<close>

lemma lookup_grow:
  assumes "db_inv d" "length qs = unat mx" "unat (max_ptrs d) \<le> unat mx" "take (length (ptrs d)) qs = ptrs d"
    "\<forall>i. unat (max_ptrs d) \<le> i \<and> i < unat mx \<longrightarrow> qs ! i = 0"
  shows "handle_lookup (Some (d\<lparr>ptrs := qs, max_ptrs := mx\<rparr>)) = handle_lookup (Some d)"
proof
  fix h
  have "qs ! nat h = ptrs d ! nat h" if "0 \<le> h" "nat h < unat (max_ptrs d)"
    using that assms(1,4) by (metis db_inv_def nth_take)
  with assms show "handle_lookup (Some (d\<lparr>ptrs := qs, max_ptrs := mx\<rparr>)) h = handle_lookup (Some d) h"
    by (auto simp: handle_lookup_def db_inv_def ld_def)
qed

lemma zero_fill:
  assumes "a + k \<le> length p"
  shows "foldM (\<lambda>i p. st p (a + i) 0) [0..<k] p = Some (put_block p a (replicate k (0 :: ptr)))"
  using assms
proof (induction k)
  case (Suc k)
  then have "st (put_block p a (replicate k 0)) (a + k) 0 = Some (put_block p a (replicate (Suc k) 0))"
    by (simp add: st_def length_put_block put_block_1 put_blocks replicate_append_same)
  with Suc show ?case by (simp add: foldM_append)
qed (simp add: put_block_def)

definition new_max :: "handle_db \<Rightarrow> size_t" where
  "new_max d = (if max_ptrs d \<noteq> 0 then max_ptrs d * 2 else HANDLE_DB_INITIAL_MAX_PTRS)"

lemma new_max_ok:
  assumes "db_inv d" "realloc_ok r" "r (ptrs d) (new_max d * 8) = Some qs"
  shows "unat (new_max d) \<le> 2 ^ 28" "length qs = unat (new_max d)" "unat (max_ptrs d) < unat (new_max d)"
    "take (length (ptrs d)) qs = ptrs d"
    "unat ((new_max d - max_ptrs d) * 8) div 8 = unat (new_max d) - unat (max_ptrs d)"
proof -
  have times8: "unat x \<le> 2 ^ 29 \<Longrightarrow> unat (x * 8) = unat x * 8" for x :: size_t
    by (simp add: unat_word_ariths)
  have small: "unat (max_ptrs d) \<le> 2 ^ 28" using assms(1) by (simp add: db_inv_def)
  have nm: "unat (new_max d) = (if max_ptrs d \<noteq> 0 then 2 * unat (max_ptrs d) else 4)"
    using small by (simp add: new_max_def HANDLE_DB_INITIAL_MAX_PTRS_def unat_word_ariths)
  have "unat (new_max d * 8) = unat (new_max d) * 8"
    using nm small by (intro times8) simp
  with assms(2,3) have r: "unat (new_max d) * 8 \<le> 2 ^ 31" "length qs = unat (new_max d)"
    "take (length (ptrs d)) qs = take (length qs) (ptrs d)"
    by (force simp: realloc_ok_def)+
  show "unat (new_max d) \<le> 2 ^ 28" using r(1) by simp
  show "length qs = unat (new_max d)" by (rule r(2))
  show lt: "unat (max_ptrs d) < unat (new_max d)"
    using nm unat_0_iff [of "max_ptrs d"] by (cases "max_ptrs d = 0") auto
  show "take (length (ptrs d)) qs = ptrs d"
    using r lt assms(1) by (simp add: db_inv_def)
  have "unat (new_max d - max_ptrs d) = unat (new_max d) - unat (max_ptrs d)"
    using lt by (subst unat_sub) (simp_all add: word_le_nat_alt)
  then show "unat ((new_max d - max_ptrs d) * 8) div 8 = unat (new_max d) - unat (max_ptrs d)"
    using r(1) times8 [of "new_max d - max_ptrs d"] by simp
qed

text \<open>A free slot is used \<dots>\<close>

lemma handle_get_slot:
  assumes inv: "realloc_ok r" "db_inv d" and p: "p \<noteq> 0"
    and n: "find_empty (ptrs d) (unat (max_ptrs d)) 0 = Some n" "n < unat (max_ptrs d)" "ptrs d ! n = 0"
  shows "\<exists>db'. handle_get r (Some d) p = Some (int n, db') \<and> hdb_inv r db' \<and> int n < 2 ^ 28 \<and>
    handle_lookup (Some d) (int n) = Some 0 \<and> handle_lookup db' = (handle_lookup (Some d))(int n := Some p)"
proof -
  let ?d = "d\<lparr>ptrs := (ptrs d)[n := p]\<rparr>"
  have idx: "n < length (ptrs d)" "sint (of_nat n :: uint32) = int n"
    using n(2) inv(2) by (simp_all add: db_inv_def sint_index)
  have "handle_get r (Some d) p = Some (int n, Some ?d)"
    using n(1,2) p idx by (simp add: handle_get_def st_in)
  moreover have "handle_lookup (Some d) (int n) = Some 0"
    using n(2,3) idx by (simp add: handle_lookup_def ld_def)
  moreover have "hdb_inv r (Some ?d)" using inv by (simp add: hdb_inv_def db_inv_def)
  moreover have "int n < 2 ^ 28" using n(2) inv(2) by (simp add: db_inv_def)
  ultimately show ?thesis using lookup_upd [OF inv(2) idx(1), of p] by simp
qed

text \<open>\<dots> and a full table grows\<close>

lemma handle_get_grows:
  assumes inv: "realloc_ok r" "db_inv d" and p: "p \<noteq> 0"
    and n: "find_empty (ptrs d) (unat (max_ptrs d)) 0 = Some (unat (max_ptrs d))"
    and qs: "r (ptrs d) (new_max d * 8) = Some qs"
  shows "\<exists>db'. handle_get r (Some d) p = Some (uint (max_ptrs d), db') \<and> hdb_inv r db' \<and> uint (max_ptrs d) < 2 ^ 28 \<and>
    handle_lookup (Some d) (uint (max_ptrs d)) = Some 0 \<and> handle_lookup db' = (handle_lookup (Some d))(uint (max_ptrs d) := Some p)"
proof -
  note nm = new_max_ok [OF inv(2,1) qs]
  define n k where "n = unat (max_ptrs d)" and "k = unat (new_max d) - n"
  let ?z = "put_block qs n (replicate k (0 :: ptr))"
  let ?d0 = "d\<lparr>ptrs := ?z, max_ptrs := new_max d\<rparr>"
  have u: "uint (max_ptrs d) = int n" by (simp add: n_def)
  have len: "length (ptrs d) = n" "length qs = n + k" "0 < k" "length ?z = unat (new_max d)"
    using nm inv(2) by (simp_all add: db_inv_def k_def n_def length_put_block)
  have z: "?z = ptrs d @ replicate k 0"
    using nm(4) len by (simp add: put_block_def)
  have "handle_lookup (Some ?d0) = handle_lookup (Some d)"
    unfolding z using nm len by (intro lookup_grow inv(2)) (auto simp: nth_append n_def)
  moreover have "db_inv ?d0" using len(4) nm(1) by (simp add: db_inv_def)
  moreover have "handle_get r (Some d) p = Some (sint (of_nat n :: uint32), Some (?d0\<lparr>ptrs := ?z[n := p]\<rparr>))"
    using n p qs nm(5) zero_fill [of n k qs] len
    by (simp add: handle_get_def Let_def st_in k_def n_def flip: new_max_def)
  moreover have "n < 2 ^ 28" using nm(1,3) by (simp add: n_def)
  moreover have "handle_lookup (Some d) (int n) = Some 0" by (simp add: handle_lookup_def n_def)
  moreover have "n < length (ptrs ?d0)" using len nm(3) by (simp add: n_def)
  ultimately show ?thesis
    using lookup_upd [of ?d0 n p] inv(1) by (simp add: u sint_index hdb_inv_def db_inv_def)
qed

lemma handle_get_ok:
  assumes "hdb_inv r db" "p \<noteq> 0"
  shows "\<exists>h db'. handle_get r db p = Some (h, db') \<and> hdb_inv r db' \<and> h < 2 ^ 28 \<and>
    (if h < 0 then handle_lookup db' = handle_lookup db
     else handle_lookup db h = Some 0 \<and> handle_lookup db' = (handle_lookup db)(h := Some p))"
proof (cases db)
  case None
  with assms show ?thesis by (simp add: handle_get_def)
next
  case (Some d)
  with assms have inv: "realloc_ok r" "db_inv d" by (simp_all add: hdb_inv_def)
  then obtain n where n: "find_empty (ptrs d) (unat (max_ptrs d)) 0 = Some n" "n \<le> unat (max_ptrs d)"
    "n < unat (max_ptrs d) \<longrightarrow> ptrs d ! n = 0"
    using find_empty_ok [of 0 "unat (max_ptrs d)" "ptrs d"] by (auto simp: db_inv_def)
  consider "n < unat (max_ptrs d)" | qs where "n = unat (max_ptrs d)" "r (ptrs d) (new_max d * 8) = Some qs"
    | "n = unat (max_ptrs d)" "r (ptrs d) (new_max d * 8) = None"
    using n(2) by (cases "r (ptrs d) (new_max d * 8)") force+
  then show ?thesis
  proof cases
    case 1
    then show ?thesis using handle_get_slot [OF inv assms(2) n(1)] n(3) Some by fastforce
  next
    case 2
    then show ?thesis using handle_get_grows [OF inv assms(2)] n(1) Some by fastforce
  next
    case 3
    with Some n(1) assms show ?thesis by (simp add: handle_get_def new_max_def Let_def)
  qed
qed

lemma handle_put_ok:
  assumes "hdb_inv r db"
  shows "\<exists>p db'. handle_put db h = Some (p, db') \<and> hdb_inv r db' \<and> handle_lookup db h = Some p \<and>
    handle_lookup db' = (handle_lookup db)(h := Some 0)"
proof (cases "\<exists>d. db = Some d \<and> 0 \<le> h \<and> nat h < unat (max_ptrs d)")
  case True
  then obtain d where d: "db = Some d" "0 \<le> h" "nat h < unat (max_ptrs d)" by blast
  with assms have "db_inv d" by (simp add: hdb_inv_def)
  with d assms lookup_upd [of d "nat h" 0] show ?thesis
    by (simp add: handle_put_def handle_lookup_def hdb_inv_def db_inv_def mem_simps)
next
  case False
  then have "handle_put db h = Some (0, db)" "handle_lookup db h = Some 0"
    by (auto simp: handle_put_def handle_lookup_def split: option.splits)
  with assms show ?thesis by (simp add: fun_upd_idem)
qed

lemma handle_lookup_total: "hdb_inv r db \<Longrightarrow> \<exists>p. handle_lookup db h = Some p"
  by (auto simp: handle_lookup_def hdb_inv_def db_inv_def ld_def split: option.splits)

interpretation hdb: handle_table "hdb_inv r" "handle_get r" handle_put handle_lookup for r
  by unfold_locales (assumption | rule handle_lookup_total handle_get_ok handle_put_ok)+

section \<open>Properties\<close>

text \<open>A call of \<open>handle_get\<close> or \<open>handle_put\<close> among others.\<close>

definition db_step :: "realloc_fn \<Rightarrow> db_op \<Rightarrow> handle_db option \<Rightarrow> handle_db option option" where
  "db_step r op db =
     (case op of Get p \<Rightarrow> map_option snd (handle_get r db p) | Put h \<Rightarrow> map_option snd (handle_put db h))"

lemma db_step_eq: "hdb.step r = db_step r"
  by (intro ext) (simp add: hdb.step_def db_step_def)

text \<open>
  C11.  A handle lives from \<open>handle_get\<close> to \<open>handle_put\<close>: after \<open>handle_get\<close> stored a pointer, any
  sequence of further calls that does not give this handle back leaves it bound to the pointer
  (also when the table grows), no call hands it out again, \<open>handle_put\<close> then returns the pointer,
  and a lookup afterwards finds nothing.
\<close>

theorem handle_lifetime:
  assumes "realloc_ok r" "db_inv d" "p \<noteq> 0" "handle_get r (Some d) p = Some (h, db1)" "0 \<le> h"
    "Put h \<notin> set ops" "Get 0 \<notin> set ops"
  shows "\<exists>db2 db3. foldM (db_step r) ops db1 = Some db2 \<and> handle_lookup db2 h = Some p \<and>
    (\<forall>q k db. q \<noteq> 0 \<and> handle_get r db2 q = Some (k, db) \<and> 0 \<le> k \<longrightarrow> k \<noteq> h) \<and>
    handle_put db2 h = Some (p, db3) \<and> handle_lookup db3 h = Some 0"
proof -
  have "hdb_inv r (Some d)" using assms(1,2) by (simp add: hdb_inv_def)
  with assms(3-5) have "hdb_inv r db1" "handle_lookup db1 h = Some p"
    using hdb.get_law [of r "Some d" p] by auto
  then obtain db2 where db2: "foldM (db_step r) ops db1 = Some db2" "hdb_inv r db2" "handle_lookup db2 h = Some p"
    using hdb.run_keeps [of r db1 h p ops] assms(3,6,7) by (auto simp: db_step_eq)
  moreover obtain db3 where "handle_put db2 h = Some (p, db3)" "handle_lookup db3 h = Some 0"
    using hdb.put_law [OF db2(2), of h] db2(3) by auto
  ultimately show ?thesis using hdb.get_fresh [OF db2(2,3) assms(3)] by blast
qed

definition stale_realloc :: realloc_fn where
  "stale_realloc ps sz =
     (if unat sz \<le> 2 ^ 31 then Some (take (unat sz div 8) (ps @ replicate (unat sz div 8) 7)) else None)"

lemma stale_realloc_ok: "realloc_ok stale_realloc"
  by (auto simp: realloc_ok_def stale_realloc_def min_def split: if_splits)

theorem handle_lifetime_witness:
  "\<exists>db2 db3. foldM (db_step stale_realloc) [Get 2, Get 3, Put 1, Get 4, Get 5] (Some \<lparr>ptrs = [9, 0, 0, 0], max_ptrs = 4\<rparr>) = Some db2 \<and>
    handle_lookup db2 0 = Some 9 \<and> handle_put db2 0 = Some (9, db3) \<and> handle_lookup db3 0 = Some 0"
proof -
  let ?d = "\<lparr>ptrs = [0, 0, 0, 0], max_ptrs = 4\<rparr>"
  have "handle_get stale_realloc (Some ?d) 9 = Some (0, Some \<lparr>ptrs = [9, 0, 0, 0], max_ptrs = 4\<rparr>)"
    by (simp add: handle_get_def find_empty.simps st_def ld_def)
  moreover have "db_inv ?d" by (simp add: db_inv_def)
  ultimately show ?thesis
    using handle_lifetime [of stale_realloc ?d 9 0 _ "[Get 2, Get 3, Put 1, Get 4, Get 5]"]
      stale_realloc_ok by auto
qed

end
