(* ===== verification/Arith_Taf.thy ===== *)
theory Arith_Taf
  imports Handle_Db
begin

text \<open>
  Model of \<open>src/ta/crypt/arith_taf.c\<close>: the arithmetic commands of the crypt TA.  Big integers live
  behind handles of the table of \<open>handle.c\<close>; a handle is the table index with a type tag in its
  top three bits.  The Internal Core API is a record of functions on a memory of an arbitrary type;
  the state is the static table and that memory.  \<^term>\<open>None\<close> is an access outside the table.
\<close>

record 'm bigint_api = "'m heap_api" +
  TEE_Realloc :: realloc_fn
  TEE_BigIntFMMContextSizeInU32 :: "uint32 \<Rightarrow> size_t"
  TEE_BigIntFMMSizeInU32 :: "uint32 \<Rightarrow> size_t"
  TEE_BigIntInit :: "ptr \<Rightarrow> size_t \<Rightarrow> 'm \<Rightarrow> 'm"
  TEE_BigIntInitFMMContext :: "ptr \<Rightarrow> uint32 \<Rightarrow> ptr \<Rightarrow> 'm \<Rightarrow> 'm"
  TEE_BigIntInitFMM :: "ptr \<Rightarrow> size_t \<Rightarrow> 'm \<Rightarrow> 'm"
  TEE_BigIntConvertFromOctetString :: "ptr \<Rightarrow> u8 list \<Rightarrow> uint32 \<Rightarrow> int \<Rightarrow> 'm \<Rightarrow> TEE_Result \<times> 'm"
  TEE_BigIntConvertToOctetString :: "u8 list \<Rightarrow> uint32 \<Rightarrow> ptr \<Rightarrow> 'm \<Rightarrow> TEE_Result \<times> u8 list \<times> uint32"
  TEE_BigIntConvertFromS32 :: "ptr \<Rightarrow> int \<Rightarrow> 'm \<Rightarrow> 'm"
  TEE_BigIntConvertToS32 :: "ptr \<Rightarrow> 'm \<Rightarrow> TEE_Result \<times> int"
  TEE_BigIntCmp :: "ptr \<Rightarrow> ptr \<Rightarrow> 'm \<Rightarrow> int"
  TEE_BigIntCmpS32 :: "ptr \<Rightarrow> int \<Rightarrow> 'm \<Rightarrow> int"
  TEE_BigIntShiftRight :: "ptr \<Rightarrow> ptr \<Rightarrow> size_t \<Rightarrow> 'm \<Rightarrow> 'm"
  TEE_BigIntGetBit :: "ptr \<Rightarrow> uint32 \<Rightarrow> 'm \<Rightarrow> bool"
  TEE_BigIntGetBitCount :: "ptr \<Rightarrow> 'm \<Rightarrow> uint32"
  TEE_BigIntAdd :: "ptr \<Rightarrow> ptr \<Rightarrow> ptr \<Rightarrow> 'm \<Rightarrow> 'm"
  TEE_BigIntSub :: "ptr \<Rightarrow> ptr \<Rightarrow> ptr \<Rightarrow> 'm \<Rightarrow> 'm"
  TEE_BigIntMul :: "ptr \<Rightarrow> ptr \<Rightarrow> ptr \<Rightarrow> 'm \<Rightarrow> 'm"
  TEE_BigIntNeg :: "ptr \<Rightarrow> ptr \<Rightarrow> 'm \<Rightarrow> 'm"
  TEE_BigIntSquare :: "ptr \<Rightarrow> ptr \<Rightarrow> 'm \<Rightarrow> 'm"
  TEE_BigIntDiv :: "ptr \<Rightarrow> ptr \<Rightarrow> ptr \<Rightarrow> ptr \<Rightarrow> 'm \<Rightarrow> 'm"
  TEE_BigIntMod :: "ptr \<Rightarrow> ptr \<Rightarrow> ptr \<Rightarrow> 'm \<Rightarrow> 'm"
  TEE_BigIntAddMod :: "ptr \<Rightarrow> ptr \<Rightarrow> ptr \<Rightarrow> ptr \<Rightarrow> 'm \<Rightarrow> 'm"
  TEE_BigIntSubMod :: "ptr \<Rightarrow> ptr \<Rightarrow> ptr \<Rightarrow> ptr \<Rightarrow> 'm \<Rightarrow> 'm"
  TEE_BigIntMulMod :: "ptr \<Rightarrow> ptr \<Rightarrow> ptr \<Rightarrow> ptr \<Rightarrow> 'm \<Rightarrow> 'm"
  TEE_BigIntSquareMod :: "ptr \<Rightarrow> ptr \<Rightarrow> ptr \<Rightarrow> 'm \<Rightarrow> 'm"
  TEE_BigIntInvMod :: "ptr \<Rightarrow> ptr \<Rightarrow> ptr \<Rightarrow> 'm \<Rightarrow> 'm"
  TEE_BigIntRelativePrime :: "ptr \<Rightarrow> ptr \<Rightarrow> 'm \<Rightarrow> bool"
  TEE_BigIntComputeExtendedGcd :: "ptr \<Rightarrow> ptr \<Rightarrow> ptr \<Rightarrow> ptr \<Rightarrow> ptr \<Rightarrow> 'm \<Rightarrow> 'm"
  TEE_BigIntIsProbablePrime :: "ptr \<Rightarrow> uint32 \<Rightarrow> 'm \<Rightarrow> int"
  TEE_BigIntConvertToFMM :: "ptr \<Rightarrow> ptr \<Rightarrow> ptr \<Rightarrow> ptr \<Rightarrow> 'm \<Rightarrow> 'm"
  TEE_BigIntConvertFromFMM :: "ptr \<Rightarrow> ptr \<Rightarrow> ptr \<Rightarrow> ptr \<Rightarrow> 'm \<Rightarrow> 'm"
  TEE_BigIntComputeFMM :: "ptr \<Rightarrow> ptr \<Rightarrow> ptr \<Rightarrow> ptr \<Rightarrow> ptr \<Rightarrow> 'm \<Rightarrow> 'm"

record 'm arith_st =
  hdb :: handle_db
  mem :: 'm

type_synonym 'm arith_res = "(TEE_Result \<times> tee_params \<times> 'm arith_st) option"

section \<open>Handles\<close>

definition HT_BIGINT :: uint32 where "HT_BIGINT = push_bit 31 1"
definition HT_FMMCTX :: uint32 where "HT_FMMCTX = push_bit 30 1"
definition HT_FMMVAR :: uint32 where "HT_FMMVAR = push_bit 29 1"
definition HT_MASK :: uint32 where "HT_MASK = HT_BIGINT OR HT_FMMCTX OR HT_FMMVAR"

text \<open>\<open>#define TEE_BigIntSizeInU32(n) ((((n)+31)/32)+2)\<close>\<close>

definition TEE_BigIntSizeInU32 :: "uint32 \<Rightarrow> uint32" where
  "TEE_BigIntSizeInU32 n = (n + 31) div 32 + 2"

definition TA_CRYPT_ARITH_INVALID_HANDLE :: uint32 where
  "TA_CRYPT_ARITH_INVALID_HANDLE = 0xffffffff"

definition lookup_handle :: "'m arith_st \<Rightarrow> uint32 \<Rightarrow> uint32 \<Rightarrow> ptr option" where
  "lookup_handle s type handle =
     (if handle AND HT_MASK = type then handle_lookup (Some (hdb s)) (sint (handle AND NOT HT_MASK))
      else Some 0)"

text \<open>The boolean, and the handle and table when it is true.\<close>

definition get_handle ::
  "realloc_fn \<Rightarrow> handle_db \<Rightarrow> uint32 \<Rightarrow> ptr \<Rightarrow> (bool \<times> uint32 \<times> handle_db) option" where
  "get_handle realloc db type ptr =
     (if type \<notin> {HT_BIGINT, HT_FMMCTX, HT_FMMVAR} then Some (False, 0, db)
      else do {
        (h, db') \<leftarrow> handle_get realloc (Some db) ptr;
        let db = (case db' of None \<Rightarrow> db | Some d \<Rightarrow> d);
        if h < 0 then Some (False, 0, db)
        else Some (True, word_of_int h OR type, db)
      })"

definition put_handle :: "handle_db \<Rightarrow> uint32 \<Rightarrow> (ptr \<times> handle_db) option" where
  "put_handle db handle = do {
     (p, db') \<leftarrow> handle_put (Some db) (sint (handle AND NOT HT_MASK));
     Some (p, case db' of None \<Rightarrow> db | Some d \<Rightarrow> d)
   }"

text \<open>\<open>CHECK_PT\<close>: refuse a command called with other parameter types.\<close>

definition CHECK_PT ::
  "uint32 \<Rightarrow> uint32 \<Rightarrow> uint32 \<Rightarrow> uint32 \<Rightarrow> uint32 \<Rightarrow> tee_params \<Rightarrow> 'm arith_st \<Rightarrow> 'm arith_res \<Rightarrow> 'm arith_res" where
  "CHECK_PT t0 t1 t2 t3 param_types params s body =
     (if param_types \<noteq> TEE_PARAM_TYPES t0 t1 t2 t3 then Some (TEE_ERROR_BAD_PARAMETERS, params, s)
      else body)"

abbreviation bad_params :: "tee_params \<Rightarrow> 'm arith_st \<Rightarrow> 'm arith_res" where
  "bad_params params s \<equiv> Some (TEE_ERROR_BAD_PARAMETERS, params, s)"

abbreviation success :: "tee_params \<Rightarrow> 'm arith_st \<Rightarrow> 'm arith_res" where
  "success params s \<equiv> Some (TEE_SUCCESS, params, s)"

text \<open>A C \<open>bool\<close> or \<open>int\<close> stored in a 32 bit parameter.\<close>

abbreviation u32_of_bool :: "bool \<Rightarrow> uint32" where
  "u32_of_bool b \<equiv> (if b then 1 else 0)"

section \<open>Creating and freeing objects\<close>

definition ta_entry_arith_new_var ::
  "'m bigint_api \<Rightarrow> uint32 \<Rightarrow> tee_params \<Rightarrow> 'm arith_st \<Rightarrow> 'm arith_res" where
  "ta_entry_arith_new_var api param_types params s =
     CHECK_PT PT_VALUE_INPUT PT_VALUE_OUTPUT PT_NONE PT_NONE param_types params s (do {
       let len = (ucast (TEE_BigIntSizeInU32 (val_a (p0 params))) :: size_t);
       let (p, m) = TEE_Malloc api (len * 4) (mem s);
       if p = 0 then Some (TEE_ERROR_OUT_OF_MEMORY, params, s\<lparr>mem := m\<rparr>)
       else do {
         (ok, handle, db) \<leftarrow> get_handle (TEE_Realloc api) (hdb s) HT_BIGINT p;
         if \<not> ok then Some (TEE_ERROR_OUT_OF_MEMORY, params, s\<lparr>hdb := db, mem := TEE_Free api p m\<rparr>)
         else success (set_val_a1 handle params) (s\<lparr>hdb := db, mem := TEE_BigIntInit api p len m\<rparr>)
       }
     })"

definition ta_entry_arith_new_fmm_ctx ::
  "'m bigint_api \<Rightarrow> uint32 \<Rightarrow> tee_params \<Rightarrow> 'm arith_st \<Rightarrow> 'm arith_res" where
  "ta_entry_arith_new_fmm_ctx api param_types params s =
     CHECK_PT PT_VALUE_INPUT PT_VALUE_OUTPUT PT_NONE PT_NONE param_types params s (do {
       modulus \<leftarrow> lookup_handle s HT_BIGINT (val_b (p0 params));
       if modulus = 0 then bad_params params s
       else do {
         let len = (ucast (TEE_BigIntFMMContextSizeInU32 api (val_a (p0 params))) :: uint32);
         let (p, m) = TEE_Malloc api (ucast len * 4) (mem s);
         (ok, handle, db) \<leftarrow> get_handle (TEE_Realloc api) (hdb s) HT_FMMCTX p;
         if \<not> ok then Some (TEE_ERROR_OUT_OF_MEMORY, params, s\<lparr>hdb := db, mem := TEE_Free api p m\<rparr>)
         else success (set_val_a1 handle params)
                (s\<lparr>hdb := db, mem := TEE_BigIntInitFMMContext api p len modulus m\<rparr>)
       }
     })"

definition ta_entry_arith_new_fmm_var ::
  "'m bigint_api \<Rightarrow> uint32 \<Rightarrow> tee_params \<Rightarrow> 'm arith_st \<Rightarrow> 'm arith_res" where
  "ta_entry_arith_new_fmm_var api param_types params s =
     CHECK_PT PT_VALUE_INPUT PT_VALUE_OUTPUT PT_NONE PT_NONE param_types params s (do {
       let len = TEE_BigIntFMMSizeInU32 api (val_a (p0 params));
       let (p, m) = TEE_Malloc api (len * 4) (mem s);
       if p = 0 then Some (TEE_ERROR_OUT_OF_MEMORY, params, s\<lparr>mem := m\<rparr>)
       else do {
         (ok, handle, db) \<leftarrow> get_handle (TEE_Realloc api) (hdb s) HT_FMMVAR p;
         if \<not> ok then Some (TEE_ERROR_OUT_OF_MEMORY, params, s\<lparr>hdb := db, mem := TEE_Free api p m\<rparr>)
         else success (set_val_a1 handle params) (s\<lparr>hdb := db, mem := TEE_BigIntInitFMM api p len m\<rparr>)
       }
     })"

definition ta_entry_arith_free_handle ::
  "'m bigint_api \<Rightarrow> uint32 \<Rightarrow> tee_params \<Rightarrow> 'm arith_st \<Rightarrow> 'm arith_res" where
  "ta_entry_arith_free_handle api param_types params s =
     CHECK_PT PT_VALUE_INPUT PT_NONE PT_NONE PT_NONE param_types params s (do {
       (p, db) \<leftarrow> put_handle (hdb s) (val_a (p0 params) AND NOT HT_MASK);
       if p = 0 then bad_params params (s\<lparr>hdb := db\<rparr>)
       else success params (s\<lparr>hdb := db, mem := TEE_Free api p (mem s)\<rparr>)
     })"

section \<open>Conversions and queries\<close>

definition ta_entry_arith_from_octet_string ::
  "'m bigint_api \<Rightarrow> uint32 \<Rightarrow> tee_params \<Rightarrow> 'm arith_st \<Rightarrow> 'm arith_res" where
  "ta_entry_arith_from_octet_string api param_types params s =
     CHECK_PT PT_VALUE_INPUT PT_MEMREF_INPUT PT_NONE PT_NONE param_types params s (do {
       big_int \<leftarrow> lookup_handle s HT_BIGINT (val_a (p0 params));
       if big_int = 0 then bad_params params s
       else (let (res, m) = TEE_BigIntConvertFromOctetString api big_int (mbuf (p1 params)) (msize (p1 params))
                          (sint (val_b (p0 params))) (mem s)
             in Some (res, params, s\<lparr>mem := m\<rparr>))
     })"

definition ta_entry_arith_from_s32 ::
  "'m bigint_api \<Rightarrow> uint32 \<Rightarrow> tee_params \<Rightarrow> 'm arith_st \<Rightarrow> 'm arith_res" where
  "ta_entry_arith_from_s32 api param_types params s =
     CHECK_PT PT_VALUE_INPUT PT_NONE PT_NONE PT_NONE param_types params s (do {
       big_int \<leftarrow> lookup_handle s HT_BIGINT (val_a (p0 params));
       if big_int = 0 then bad_params params s
       else success params (s\<lparr>mem := TEE_BigIntConvertFromS32 api big_int (sint (val_b (p0 params))) (mem s)\<rparr>)
     })"

definition ta_entry_arith_get_value ::
  "'m bigint_api \<Rightarrow> uint32 \<Rightarrow> tee_params \<Rightarrow> 'm arith_st \<Rightarrow> 'm arith_res" where
  "ta_entry_arith_get_value api param_types params s =
     CHECK_PT PT_VALUE_INPUT PT_VALUE_OUTPUT PT_MEMREF_OUTPUT PT_NONE param_types params s (do {
       big_int \<leftarrow> lookup_handle s HT_BIGINT (val_a (p0 params));
       if big_int = 0 then bad_params params s
       else (let params = set_val_a1 (if TEE_BigIntCmpS32 api big_int 0 (mem s) < 0 then -1 else 1) params;
                 (res, buf, size) = TEE_BigIntConvertToOctetString api (mbuf (p2 params)) (msize (p2 params)) big_int (mem s)
             in Some (res, params\<lparr>p2 := (p2 params)\<lparr>mbuf := buf, msize := size\<rparr>\<rparr>, s))
     })"

definition ta_entry_arith_get_value_s32 ::
  "'m bigint_api \<Rightarrow> uint32 \<Rightarrow> tee_params \<Rightarrow> 'm arith_st \<Rightarrow> 'm arith_res" where
  "ta_entry_arith_get_value_s32 api param_types params s =
     CHECK_PT PT_VALUE_INPUT PT_VALUE_OUTPUT PT_NONE PT_NONE param_types params s (do {
       big_int \<leftarrow> lookup_handle s HT_BIGINT (val_a (p0 params));
       if big_int = 0 then bad_params params s
       else (let (res, v) = TEE_BigIntConvertToS32 api big_int (mem s)
             in Some (res, if res = TEE_SUCCESS then set_val_a1 (word_of_int v) params else params, s))
     })"

definition ta_entry_arith_get_bit ::
  "'m bigint_api \<Rightarrow> uint32 \<Rightarrow> tee_params \<Rightarrow> 'm arith_st \<Rightarrow> 'm arith_res" where
  "ta_entry_arith_get_bit api param_types params s =
     CHECK_PT PT_VALUE_INPUT PT_VALUE_OUTPUT PT_NONE PT_NONE param_types params s (do {
       big_int \<leftarrow> lookup_handle s HT_BIGINT (val_a (p0 params));
       if big_int = 0 then bad_params params s
       else success (set_val_a1 (u32_of_bool (TEE_BigIntGetBit api big_int (val_b (p0 params)) (mem s))) params) s
     })"

definition ta_entry_arith_get_bit_count ::
  "'m bigint_api \<Rightarrow> uint32 \<Rightarrow> tee_params \<Rightarrow> 'm arith_st \<Rightarrow> 'm arith_res" where
  "ta_entry_arith_get_bit_count api param_types params s =
     CHECK_PT PT_VALUE_INPUT PT_VALUE_OUTPUT PT_NONE PT_NONE param_types params s (do {
       big_int \<leftarrow> lookup_handle s HT_BIGINT (val_a (p0 params));
       if big_int = 0 then bad_params params s
       else success (set_val_a1 (TEE_BigIntGetBitCount api big_int (mem s)) params) s
     })"

definition ta_entry_arith_shift_right ::
  "'m bigint_api \<Rightarrow> uint32 \<Rightarrow> tee_params \<Rightarrow> 'm arith_st \<Rightarrow> 'm arith_res" where
  "ta_entry_arith_shift_right api param_types params s =
     CHECK_PT PT_VALUE_INPUT PT_VALUE_INPUT PT_NONE PT_NONE param_types params s (do {
       op \<leftarrow> lookup_handle s HT_BIGINT (val_a (p0 params));
       dest \<leftarrow> lookup_handle s HT_BIGINT (val_a (p1 params));
       if op = 0 \<or> dest = 0 then bad_params params s
       else success params (s\<lparr>mem := TEE_BigIntShiftRight api dest op (ucast (val_b (p0 params))) (mem s)\<rparr>)
     })"

definition ta_entry_arith_cmp ::
  "'m bigint_api \<Rightarrow> uint32 \<Rightarrow> tee_params \<Rightarrow> 'm arith_st \<Rightarrow> 'm arith_res" where
  "ta_entry_arith_cmp api param_types params s =
     CHECK_PT PT_VALUE_INPUT PT_VALUE_OUTPUT PT_NONE PT_NONE param_types params s (do {
       op1 \<leftarrow> lookup_handle s HT_BIGINT (val_a (p0 params));
       op2 \<leftarrow> lookup_handle s HT_BIGINT (val_b (p0 params));
       if op1 = 0 \<or> op2 = 0 then bad_params params s
       else success (set_val_a1 (word_of_int (TEE_BigIntCmp api op1 op2 (mem s))) params) s
     })"

definition ta_entry_arith_cmp_s32 ::
  "'m bigint_api \<Rightarrow> uint32 \<Rightarrow> tee_params \<Rightarrow> 'm arith_st \<Rightarrow> 'm arith_res" where
  "ta_entry_arith_cmp_s32 api param_types params s =
     CHECK_PT PT_VALUE_INPUT PT_VALUE_OUTPUT PT_NONE PT_NONE param_types params s (do {
       op \<leftarrow> lookup_handle s HT_BIGINT (val_a (p0 params));
       if op = 0 then bad_params params s
       else success (set_val_a1 (word_of_int (TEE_BigIntCmpS32 api op (sint (val_b (p0 params))) (mem s))) params) s
     })"

section \<open>Arithmetic\<close>

definition ternary_func ::
  "uint32 \<Rightarrow> tee_params \<Rightarrow> (ptr \<Rightarrow> ptr \<Rightarrow> ptr \<Rightarrow> ptr \<Rightarrow> 'm \<Rightarrow> 'm) \<Rightarrow> 'm arith_st \<Rightarrow> 'm arith_res" where
  "ternary_func param_types params func s =
     CHECK_PT PT_VALUE_INPUT PT_VALUE_INPUT PT_NONE PT_NONE param_types params s (do {
       op1 \<leftarrow> lookup_handle s HT_BIGINT (val_a (p0 params));
       op2 \<leftarrow> lookup_handle s HT_BIGINT (val_b (p0 params));
       n \<leftarrow> lookup_handle s HT_BIGINT (val_a (p1 params));
       dest \<leftarrow> lookup_handle s HT_BIGINT (val_b (p1 params));
       if op1 = 0 \<or> op2 = 0 \<or> n = 0 \<or> dest = 0 then bad_params params s
       else success params (s\<lparr>mem := func dest op1 op2 n (mem s)\<rparr>)
     })"

definition binary_func ::
  "uint32 \<Rightarrow> tee_params \<Rightarrow> (ptr \<Rightarrow> ptr \<Rightarrow> ptr \<Rightarrow> 'm \<Rightarrow> 'm) \<Rightarrow> 'm arith_st \<Rightarrow> 'm arith_res" where
  "binary_func param_types params func s =
     CHECK_PT PT_VALUE_INPUT PT_VALUE_INPUT PT_NONE PT_NONE param_types params s (do {
       op1 \<leftarrow> lookup_handle s HT_BIGINT (val_a (p0 params));
       op2 \<leftarrow> lookup_handle s HT_BIGINT (val_b (p0 params));
       dest \<leftarrow> lookup_handle s HT_BIGINT (val_a (p1 params));
       if op1 = 0 \<or> op2 = 0 \<or> dest = 0 then bad_params params s
       else success params (s\<lparr>mem := func dest op1 op2 (mem s)\<rparr>)
     })"

definition unary_func ::
  "uint32 \<Rightarrow> tee_params \<Rightarrow> (ptr \<Rightarrow> ptr \<Rightarrow> 'm \<Rightarrow> 'm) \<Rightarrow> 'm arith_st \<Rightarrow> 'm arith_res" where
  "unary_func param_types params func s =
     CHECK_PT PT_VALUE_INPUT PT_NONE PT_NONE PT_NONE param_types params s (do {
       op \<leftarrow> lookup_handle s HT_BIGINT (val_a (p0 params));
       dest \<leftarrow> lookup_handle s HT_BIGINT (val_b (p0 params));
       if op = 0 \<or> dest = 0 then bad_params params s
       else success params (s\<lparr>mem := func dest op (mem s)\<rparr>)
     })"

definition ta_entry_arith_add ::
  "'m bigint_api \<Rightarrow> uint32 \<Rightarrow> tee_params \<Rightarrow> 'm arith_st \<Rightarrow> 'm arith_res" where
  "ta_entry_arith_add api param_types params s =
     binary_func param_types params (TEE_BigIntAdd api) s"

definition ta_entry_arith_sub ::
  "'m bigint_api \<Rightarrow> uint32 \<Rightarrow> tee_params \<Rightarrow> 'm arith_st \<Rightarrow> 'm arith_res" where
  "ta_entry_arith_sub api param_types params s =
     binary_func param_types params (TEE_BigIntSub api) s"

definition ta_entry_arith_mul ::
  "'m bigint_api \<Rightarrow> uint32 \<Rightarrow> tee_params \<Rightarrow> 'm arith_st \<Rightarrow> 'm arith_res" where
  "ta_entry_arith_mul api param_types params s =
     binary_func param_types params (TEE_BigIntMul api) s"

definition ta_entry_arith_neg ::
  "'m bigint_api \<Rightarrow> uint32 \<Rightarrow> tee_params \<Rightarrow> 'm arith_st \<Rightarrow> 'm arith_res" where
  "ta_entry_arith_neg api param_types params s =
     unary_func param_types params (TEE_BigIntNeg api) s"

definition ta_entry_arith_sqr ::
  "'m bigint_api \<Rightarrow> uint32 \<Rightarrow> tee_params \<Rightarrow> 'm arith_st \<Rightarrow> 'm arith_res" where
  "ta_entry_arith_sqr api param_types params s =
     unary_func param_types params (TEE_BigIntSquare api) s"

definition ta_entry_arith_div ::
  "'m bigint_api \<Rightarrow> uint32 \<Rightarrow> tee_params \<Rightarrow> 'm arith_st \<Rightarrow> 'm arith_res" where
  "ta_entry_arith_div api param_types params s =
     CHECK_PT PT_VALUE_INPUT PT_VALUE_INPUT PT_NONE PT_NONE param_types params s (do {
       op1 \<leftarrow> lookup_handle s HT_BIGINT (val_a (p0 params));
       op2 \<leftarrow> lookup_handle s HT_BIGINT (val_b (p0 params));
       dest_q \<leftarrow> lookup_handle s HT_BIGINT (val_a (p1 params));
       dest_r \<leftarrow> lookup_handle s HT_BIGINT (val_b (p1 params));
       if op1 = 0 \<or> op2 = 0 \<or> dest_q = 0 \<or> dest_r = 0 then bad_params params s
       else success params (s\<lparr>mem := TEE_BigIntDiv api dest_q dest_r op1 op2 (mem s)\<rparr>)
     })"

definition ta_entry_arith_mod ::
  "'m bigint_api \<Rightarrow> uint32 \<Rightarrow> tee_params \<Rightarrow> 'm arith_st \<Rightarrow> 'm arith_res" where
  "ta_entry_arith_mod api param_types params s =
     binary_func param_types params (TEE_BigIntMod api) s"

definition ta_entry_arith_addmod ::
  "'m bigint_api \<Rightarrow> uint32 \<Rightarrow> tee_params \<Rightarrow> 'm arith_st \<Rightarrow> 'm arith_res" where
  "ta_entry_arith_addmod api param_types params s =
     ternary_func param_types params (TEE_BigIntAddMod api) s"

definition ta_entry_arith_submod ::
  "'m bigint_api \<Rightarrow> uint32 \<Rightarrow> tee_params \<Rightarrow> 'm arith_st \<Rightarrow> 'm arith_res" where
  "ta_entry_arith_submod api param_types params s =
     ternary_func param_types params (TEE_BigIntSubMod api) s"

definition ta_entry_arith_mulmod ::
  "'m bigint_api \<Rightarrow> uint32 \<Rightarrow> tee_params \<Rightarrow> 'm arith_st \<Rightarrow> 'm arith_res" where
  "ta_entry_arith_mulmod api param_types params s =
     ternary_func param_types params (TEE_BigIntMulMod api) s"

definition ta_entry_arith_sqrmod ::
  "'m bigint_api \<Rightarrow> uint32 \<Rightarrow> tee_params \<Rightarrow> 'm arith_st \<Rightarrow> 'm arith_res" where
  "ta_entry_arith_sqrmod api param_types params s =
     binary_func param_types params (TEE_BigIntSquareMod api) s"

definition ta_entry_arith_invmod ::
  "'m bigint_api \<Rightarrow> uint32 \<Rightarrow> tee_params \<Rightarrow> 'm arith_st \<Rightarrow> 'm arith_res" where
  "ta_entry_arith_invmod api param_types params s =
     binary_func param_types params (TEE_BigIntInvMod api) s"

definition ta_entry_arith_is_rel_prime ::
  "'m bigint_api \<Rightarrow> uint32 \<Rightarrow> tee_params \<Rightarrow> 'm arith_st \<Rightarrow> 'm arith_res" where
  "ta_entry_arith_is_rel_prime api param_types params s =
     CHECK_PT PT_VALUE_INPUT PT_VALUE_OUTPUT PT_NONE PT_NONE param_types params s (do {
       op1 \<leftarrow> lookup_handle s HT_BIGINT (val_a (p0 params));
       op2 \<leftarrow> lookup_handle s HT_BIGINT (val_b (p0 params));
       if op1 = 0 \<or> op2 = 0 then bad_params params s
       else success (set_val_a1 (u32_of_bool (TEE_BigIntRelativePrime api op1 op2 (mem s))) params) s
     })"

text \<open>An optional destination: the invalid handle stands for \<open>NULL\<close>; the flag is a failed lookup.\<close>

definition optional_dest :: "'m arith_st \<Rightarrow> uint32 \<Rightarrow> (bool \<times> ptr) option" where
  "optional_dest s handle =
     (if handle \<noteq> TA_CRYPT_ARITH_INVALID_HANDLE then do {
        p \<leftarrow> lookup_handle s HT_BIGINT handle;
        Some (p = 0, p)
      } else Some (False, 0))"

definition ta_entry_arith_compute_egcd ::
  "'m bigint_api \<Rightarrow> uint32 \<Rightarrow> tee_params \<Rightarrow> 'm arith_st \<Rightarrow> 'm arith_res" where
  "ta_entry_arith_compute_egcd api param_types params s =
     CHECK_PT PT_VALUE_INPUT PT_VALUE_INPUT PT_VALUE_INPUT PT_NONE param_types params s (do {
       op1 \<leftarrow> lookup_handle s HT_BIGINT (val_a (p0 params));
       op2 \<leftarrow> lookup_handle s HT_BIGINT (val_b (p0 params));
       dest_gcd \<leftarrow> lookup_handle s HT_BIGINT (val_a (p2 params));
       if op1 = 0 \<or> op2 = 0 \<or> dest_gcd = 0 then bad_params params s
       else do {
         (bad, dest_u) \<leftarrow> optional_dest s (val_a (p1 params));
         if bad then bad_params params s
         else do {
           (bad, dest_v) \<leftarrow> optional_dest s (val_b (p1 params));
           if bad then bad_params params s
           else success params (s\<lparr>mem := TEE_BigIntComputeExtendedGcd api dest_gcd dest_u dest_v op1 op2 (mem s)\<rparr>)
         }
       }
     })"

definition ta_entry_arith_is_prime ::
  "'m bigint_api \<Rightarrow> uint32 \<Rightarrow> tee_params \<Rightarrow> 'm arith_st \<Rightarrow> 'm arith_res" where
  "ta_entry_arith_is_prime api param_types params s =
     CHECK_PT PT_VALUE_INPUT PT_VALUE_OUTPUT PT_NONE PT_NONE param_types params s (do {
       op \<leftarrow> lookup_handle s HT_BIGINT (val_a (p0 params));
       if op = 0 then bad_params params s
       else success (set_val_a1 (word_of_int (TEE_BigIntIsProbablePrime api op (val_b (p0 params)) (mem s))) params) s
     })"

definition ta_entry_arith_to_fmm ::
  "'m bigint_api \<Rightarrow> uint32 \<Rightarrow> tee_params \<Rightarrow> 'm arith_st \<Rightarrow> 'm arith_res" where
  "ta_entry_arith_to_fmm api param_types params s =
     CHECK_PT PT_VALUE_INPUT PT_VALUE_INPUT PT_NONE PT_NONE param_types params s (do {
       src \<leftarrow> lookup_handle s HT_BIGINT (val_a (p0 params));
       n \<leftarrow> lookup_handle s HT_BIGINT (val_b (p0 params));
       ctx \<leftarrow> lookup_handle s HT_FMMCTX (val_a (p1 params));
       dest \<leftarrow> lookup_handle s HT_FMMVAR (val_b (p1 params));
       if src = 0 \<or> n = 0 \<or> ctx = 0 \<or> dest = 0 then bad_params params s
       else success params (s\<lparr>mem := TEE_BigIntConvertToFMM api dest src n ctx (mem s)\<rparr>)
     })"

definition ta_entry_arith_from_fmm ::
  "'m bigint_api \<Rightarrow> uint32 \<Rightarrow> tee_params \<Rightarrow> 'm arith_st \<Rightarrow> 'm arith_res" where
  "ta_entry_arith_from_fmm api param_types params s =
     CHECK_PT PT_VALUE_INPUT PT_VALUE_INPUT PT_NONE PT_NONE param_types params s (do {
       src \<leftarrow> lookup_handle s HT_FMMVAR (val_a (p0 params));
       n \<leftarrow> lookup_handle s HT_BIGINT (val_b (p0 params));
       ctx \<leftarrow> lookup_handle s HT_FMMCTX (val_a (p1 params));
       dest \<leftarrow> lookup_handle s HT_BIGINT (val_b (p1 params));
       if src = 0 \<or> n = 0 \<or> ctx = 0 \<or> dest = 0 then bad_params params s
       else success params (s\<lparr>mem := TEE_BigIntConvertFromFMM api dest src n ctx (mem s)\<rparr>)
     })"

definition ta_entry_arith_compute_fmm ::
  "'m bigint_api \<Rightarrow> uint32 \<Rightarrow> tee_params \<Rightarrow> 'm arith_st \<Rightarrow> 'm arith_res" where
  "ta_entry_arith_compute_fmm api param_types params s =
     CHECK_PT PT_VALUE_INPUT PT_VALUE_INPUT PT_VALUE_INPUT PT_NONE param_types params s (do {
       op1 \<leftarrow> lookup_handle s HT_FMMVAR (val_a (p0 params));
       op2 \<leftarrow> lookup_handle s HT_FMMVAR (val_b (p0 params));
       n \<leftarrow> lookup_handle s HT_BIGINT (val_a (p1 params));
       ctx \<leftarrow> lookup_handle s HT_FMMCTX (val_b (p1 params));
       dest \<leftarrow> lookup_handle s HT_FMMVAR (val_a (p2 params));
       if op1 = 0 \<or> op2 = 0 \<or> n = 0 \<or> ctx = 0 \<or> dest = 0 then bad_params params s
       else success params (s\<lparr>mem := TEE_BigIntComputeFMM api dest op1 op2 n ctx (mem s)\<rparr>)
     })"

lemmas arith_entry_defs =
  ta_entry_arith_new_var_def
  ta_entry_arith_new_fmm_ctx_def
  ta_entry_arith_new_fmm_var_def
  ta_entry_arith_free_handle_def
  ta_entry_arith_from_octet_string_def
  ta_entry_arith_from_s32_def
  ta_entry_arith_get_value_def
  ta_entry_arith_get_value_s32_def
  ta_entry_arith_get_bit_def
  ta_entry_arith_get_bit_count_def
  ta_entry_arith_shift_right_def
  ta_entry_arith_cmp_def
  ta_entry_arith_cmp_s32_def
  ta_entry_arith_add_def
  ta_entry_arith_sub_def
  ta_entry_arith_mul_def
  ta_entry_arith_neg_def
  ta_entry_arith_sqr_def
  ta_entry_arith_div_def
  ta_entry_arith_mod_def
  ta_entry_arith_addmod_def
  ta_entry_arith_submod_def
  ta_entry_arith_mulmod_def
  ta_entry_arith_sqrmod_def
  ta_entry_arith_invmod_def
  ta_entry_arith_is_rel_prime_def
  ta_entry_arith_compute_egcd_def
  ta_entry_arith_is_prime_def
  ta_entry_arith_to_fmm_def
  ta_entry_arith_from_fmm_def
  ta_entry_arith_compute_fmm_def
  ternary_func_def binary_func_def unary_func_def optional_dest_def

text \<open>The arithmetic commands by number, as \<open>TA_InvokeCommandEntryPoint\<close> dispatches them.\<close>

definition arith_cmds ::
  "'m bigint_api \<Rightarrow> (uint32 \<times> (uint32 \<Rightarrow> tee_params \<Rightarrow> 'm arith_st \<Rightarrow> 'm arith_res)) list" where
  "arith_cmds api = [
     (46, ta_entry_arith_new_var api),
     (47, ta_entry_arith_new_fmm_ctx api),
     (48, ta_entry_arith_new_fmm_var api),
     (49, ta_entry_arith_free_handle api),
     (50, ta_entry_arith_from_octet_string api),
     (51, ta_entry_arith_from_s32 api),
     (52, ta_entry_arith_get_value api),
     (53, ta_entry_arith_get_value_s32 api),
     (54, ta_entry_arith_get_bit api),
     (55, ta_entry_arith_get_bit_count api),
     (56, ta_entry_arith_shift_right api),
     (57, ta_entry_arith_cmp api),
     (58, ta_entry_arith_cmp_s32 api),
     (59, ta_entry_arith_add api),
     (60, ta_entry_arith_sub api),
     (61, ta_entry_arith_mul api),
     (62, ta_entry_arith_neg api),
     (63, ta_entry_arith_sqr api),
     (64, ta_entry_arith_div api),
     (65, ta_entry_arith_mod api),
     (66, ta_entry_arith_addmod api),
     (67, ta_entry_arith_submod api),
     (68, ta_entry_arith_mulmod api),
     (69, ta_entry_arith_sqrmod api),
     (70, ta_entry_arith_invmod api),
     (71, ta_entry_arith_is_rel_prime api),
     (72, ta_entry_arith_compute_egcd api),
     (73, ta_entry_arith_is_prime api),
     (74, ta_entry_arith_to_fmm api),
     (75, ta_entry_arith_from_fmm api),
     (76, ta_entry_arith_compute_fmm api)]"

section \<open>What every command keeps\<close>

definition arith_inv :: "'m bigint_api \<Rightarrow> 'm arith_st \<Rightarrow> bool" where
  "arith_inv api s \<longleftrightarrow> hdb_inv (TEE_Realloc api) (Some (hdb s))"

definition bound :: "'m arith_st \<Rightarrow> int \<Rightarrow> ptr \<Rightarrow> bool" where
  "bound s h p \<longleftrightarrow> p \<noteq> 0 \<and> handle_lookup (Some (hdb s)) h = Some p"

text \<open>
  A command that returns, with the invariant kept and every bound handle still bound to the same
  object.
\<close>

definition keeps :: "'m bigint_api \<Rightarrow> 'm arith_st \<Rightarrow> 'm arith_res \<Rightarrow> bool" where
  "keeps api s r \<longleftrightarrow> (\<exists>res ps s'. r = Some (res, ps, s') \<and> arith_inv api s' \<and> (\<forall>h p. bound s h p \<longrightarrow> bound s' h p))"

named_theorems keeps_intros \<open>structural rules for keeps\<close>

lemma keeps_done: "arith_inv api s \<Longrightarrow> hdb s' = hdb s \<Longrightarrow> keeps api s (Some (res, ps, s'))"
  by (simp add: keeps_def arith_inv_def bound_def)

lemma keeps_CHECK_PT [keeps_intros]:
  "arith_inv api s \<Longrightarrow> keeps api s body \<Longrightarrow> keeps api s (CHECK_PT t0 t1 t2 t3 pt ps s body)"
  by (simp add: CHECK_PT_def keeps_done)

lemma keeps_if [keeps_intros]: "(b \<Longrightarrow> keeps api s x) \<Longrightarrow> (\<not> b \<Longrightarrow> keeps api s y) \<Longrightarrow> keeps api s (if b then x else y)"
  by simp

lemma lookup_handle_total: "arith_inv api s \<Longrightarrow> \<exists>p. lookup_handle s t h = Some p"
  unfolding arith_inv_def lookup_handle_def using hdb.lookup_total by auto

lemma keeps_lookup [keeps_intros]:
  assumes "arith_inv api s" "\<And>p. keeps api s (f p)"
  shows "keeps api s (lookup_handle s t h \<bind> f)"
  using lookup_handle_total [OF assms(1), of t h] assms(2) by auto

lemma keeps_optional_dest [keeps_intros]:
  assumes "arith_inv api s" "\<And>b p. keeps api s (f (b, p))"
  shows "keeps api s (optional_dest s h \<bind> f)"
  using lookup_handle_total [OF assms(1), of HT_BIGINT h] assms(2) by (auto simp: optional_dest_def)

lemma handle_get_null: "handle_get r (Some d) 0 = Some (-1, Some d)"
  by (simp add: handle_get_def)

text \<open>
  What \<open>get_handle\<close> returns: failure without effect, or a free table index tagged with the type,
  now bound to the pointer.
\<close>

definition got :: "handle_db \<Rightarrow> uint32 \<Rightarrow> ptr \<Rightarrow> bool \<Rightarrow> uint32 \<Rightarrow> handle_db \<Rightarrow> bool" where
  "got d t p ok handle d' \<longleftrightarrow>
     (if ok then p \<noteq> 0 \<and> t \<in> {HT_BIGINT, HT_FMMCTX, HT_FMMVAR} \<and>
        (\<exists>h. 0 \<le> h \<and> h < 2 ^ 28 \<and> handle = word_of_int h OR t \<and> handle_lookup (Some d) h = Some 0 \<and>
           handle_lookup (Some d') = (handle_lookup (Some d))(h := Some p))
      else handle_lookup (Some d') = handle_lookup (Some d))"

lemma get_handle_law:
  assumes "arith_inv api s"
  shows "\<exists>ok handle db. get_handle (TEE_Realloc api) (hdb s) t p = Some (ok, handle, db) \<and>
    hdb_inv (TEE_Realloc api) (Some db) \<and> got (hdb s) t p ok handle db"
proof (cases "t \<in> {HT_BIGINT, HT_FMMCTX, HT_FMMVAR} \<and> p \<noteq> 0")
  case False
  then have "get_handle (TEE_Realloc api) (hdb s) t p = Some (False, 0, hdb s)"
    by (auto simp: get_handle_def handle_get_null)
  moreover have "got (hdb s) t p False 0 (hdb s)" by (simp add: got_def)
  ultimately show ?thesis using assms unfolding arith_inv_def by blast
next
  case True
  note inv = assms [unfolded arith_inv_def]
  obtain h db' where g: "handle_get (TEE_Realloc api) (Some (hdb s)) p = Some (h, db')"
    "hdb_inv (TEE_Realloc api) db'" "h < 2 ^ 28"
    "if h < 0 then handle_lookup db' = handle_lookup (Some (hdb s))
     else handle_lookup (Some (hdb s)) h = Some 0 \<and> handle_lookup db' = (handle_lookup (Some (hdb s)))(h := Some p)"
    using hdb.get_law [OF inv] True by blast
  have "\<exists>d. db' = Some d"
    using g(1) by (auto simp: handle_get_def Let_def split: if_splits bind_splits option.splits)
  then obtain d where d: "db' = Some d" ..
  have "get_handle (TEE_Realloc api) (hdb s) t p =
      Some (if h < 0 then (False, 0, d) else (True, word_of_int h OR t, d))"
    using g(1) True d by (auto simp: get_handle_def)
  moreover have "if h < 0 then got (hdb s) t p False 0 d else got (hdb s) t p True (word_of_int h OR t) d"
    using g(3,4) True d by (auto simp: got_def intro!: exI [of _ h])
  ultimately show ?thesis using g(2) d by (cases "h < 0") auto
qed

text \<open>The bindings of a table survive in another.\<close>

definition db_ext :: "handle_db \<Rightarrow> handle_db \<Rightarrow> bool" where
  "db_ext d d' \<longleftrightarrow> (\<forall>h q. q \<noteq> 0 \<and> handle_lookup (Some d) h = Some q \<longrightarrow> handle_lookup (Some d') h = Some q)"

lemma db_ext_refl [simp]: "db_ext d d"
  by (simp add: db_ext_def)

lemma keeps_get_handle [keeps_intros]:
  assumes "arith_inv api s"
    "\<And>handle db. hdb_inv (TEE_Realloc api) (Some db) \<Longrightarrow> db_ext (hdb s) db \<Longrightarrow> keeps api s (f (True, handle, db))"
    "\<And>handle db. hdb_inv (TEE_Realloc api) (Some db) \<Longrightarrow> db_ext (hdb s) db \<Longrightarrow> keeps api s (f (False, handle, db))"
  shows "keeps api s (get_handle (TEE_Realloc api) (hdb s) t p \<bind> f)"
proof -
  obtain ok handle db where g: "get_handle (TEE_Realloc api) (hdb s) t p = Some (ok, handle, db)"
    "hdb_inv (TEE_Realloc api) (Some db)" "got (hdb s) t p ok handle db"
    using get_handle_law [OF assms(1), of t p] by blast
  from g(3) have "db_ext (hdb s) db" by (auto simp: got_def db_ext_def split: if_splits)
  with g(1,2) assms(2,3) show ?thesis by (cases ok) simp_all
qed

lemma keeps_new_db [keeps_intros]:
  "hdb_inv (TEE_Realloc api) (Some (hdb s')) \<Longrightarrow> db_ext (hdb s) (hdb s') \<Longrightarrow>
     keeps api s (Some (res, ps, s'))"
  by (simp add: keeps_def arith_inv_def bound_def db_ext_def)

lemma arith_cmd_keeps:
  assumes "arith_inv api s" "(cmd, f) \<in> set (arith_cmds api)" "cmd \<noteq> 49"
  shows "keeps api s (f pt ps s)"
  using assms(2,3) unfolding arith_cmds_def
  by (auto simp: arith_entry_defs Let_def split_def assms(1) assms(1) [unfolded arith_inv_def] intro!: keeps_intros)

section \<open>Tagged handles\<close>

lemma HT_bits:
  "bit HT_BIGINT k \<longleftrightarrow> k = 31" "bit HT_FMMCTX k \<longleftrightarrow> k = 30" "bit HT_FMMVAR k \<longleftrightarrow> k = 29"
  "bit HT_MASK k \<longleftrightarrow> k = 29 \<or> k = 30 \<or> k = 31"
  unfolding HT_BIGINT_def HT_FMMCTX_def HT_FMMVAR_def HT_MASK_def push_bit_of_1 bit_or_iff bit_exp_iff
  by auto

lemma low_index:
  assumes "0 \<le> h" "h < 2 ^ 28"
  shows "bit (word_of_int h :: uint32) k \<Longrightarrow> k < 28" "sint (word_of_int h :: uint32) = h"
proof -
  let ?w = "word_of_int h :: uint32"
  have u: "unat ?w = nat h" using assms by (simp add: unat_eq_nat_uint uint_word_of_int)
  then have "unat ?w < 2 ^ 28" using assms by simp
  then show "bit ?w k \<Longrightarrow> k < 28" by (rule bit_below)
  show "sint ?w = h" using assms u by (simp add: sint_small)
qed

lemma tagged_handle:
  assumes "0 \<le> h" "h < 2 ^ 28" "t \<in> {HT_BIGINT, HT_FMMCTX, HT_FMMVAR}"
  shows "(word_of_int h OR t) AND HT_MASK = t" "sint ((word_of_int h OR t) AND NOT HT_MASK) = h"
    "sint ((word_of_int h OR t) AND NOT HT_MASK AND NOT HT_MASK) = h"
proof -
  define w :: uint32 where "w = word_of_int h"
  have "k < 28" if "bit w k" for k using low_index(1) [OF assms(1,2)] that by (simp only: w_def)
  from this [of 29] this [of 30] this [of 31] have b: "\<not> bit w 29" "\<not> bit w 30" "\<not> bit w 31" by auto
  have "(w OR t) AND HT_MASK = t" "(w OR t) AND NOT HT_MASK = w"
    using assms(3) by (auto intro!: bit_word_eqI simp: bit_simps HT_bits b)
  with low_index(2) [OF assms(1,2)]
  show "(word_of_int h OR t) AND HT_MASK = t" "sint ((word_of_int h OR t) AND NOT HT_MASK) = h"
    "sint ((word_of_int h OR t) AND NOT HT_MASK AND NOT HT_MASK) = h"
    by (simp_all add: w_def and.assoc)
qed

lemma tags_distinct: "HT_BIGINT \<noteq> HT_FMMCTX" "HT_BIGINT \<noteq> HT_FMMVAR" "HT_FMMCTX \<noteq> HT_FMMVAR"
  by (simp_all add: HT_BIGINT_def HT_FMMCTX_def HT_FMMVAR_def)

lemma lookup_tagged:
  assumes "0 \<le> h" "h < 2 ^ 28" "t \<in> {HT_BIGINT, HT_FMMCTX, HT_FMMVAR}"
  shows "lookup_handle s t' (word_of_int h OR t) = (if t' = t then handle_lookup (Some (hdb s)) h else Some 0)"
  using tagged_handle [OF assms] by (auto simp: lookup_handle_def)

section \<open>Properties\<close>

text \<open>The parameter types \<open>ta_crypt.h\<close> documents for the arithmetic commands.\<close>

definition arith_expected :: "uint32 \<Rightarrow> uint32" where
  "arith_expected cmd =
     (if cmd \<in> {46, 47, 48, 53, 54, 55, 57, 58, 71, 73}
        then TEE_PARAM_TYPES PT_VALUE_INPUT PT_VALUE_OUTPUT PT_NONE PT_NONE
      else if cmd \<in> {49, 51, 62, 63} then TEE_PARAM_TYPES PT_VALUE_INPUT PT_NONE PT_NONE PT_NONE
      else if cmd = 50 then TEE_PARAM_TYPES PT_VALUE_INPUT PT_MEMREF_INPUT PT_NONE PT_NONE
      else if cmd = 52 then TEE_PARAM_TYPES PT_VALUE_INPUT PT_VALUE_OUTPUT PT_MEMREF_OUTPUT PT_NONE
      else if cmd \<in> {72, 76} then TEE_PARAM_TYPES PT_VALUE_INPUT PT_VALUE_INPUT PT_VALUE_INPUT PT_NONE
      else TEE_PARAM_TYPES PT_VALUE_INPUT PT_VALUE_INPUT PT_NONE PT_NONE)"

text \<open>
  Every arithmetic command accepts one combination of parameter types only; with any other
  it returns \<open>TEE_ERROR_BAD_PARAMETERS\<close> and changes neither the parameters, nor the handle table,
  nor the memory.
\<close>

theorem arith_type_check:
  assumes "(cmd, f) \<in> set (arith_cmds api)" "pt \<noteq> arith_expected cmd"
  shows "f pt params s = Some (TEE_ERROR_BAD_PARAMETERS, params, s)"
  using assms unfolding arith_cmds_def
  by (auto simp: arith_expected_def arith_entry_defs CHECK_PT_def)

lemma put_handle_law:
  assumes "hdb_inv r (Some d)"
  shows "\<exists>p d'. put_handle d handle = Some (p, d') \<and> hdb_inv r (Some d') \<and>
    handle_lookup (Some d) (sint (handle AND NOT HT_MASK)) = Some p \<and>
    handle_lookup (Some d') = (handle_lookup (Some d))(sint (handle AND NOT HT_MASK) := Some 0)"
proof -
  obtain p db' where p: "handle_put (Some d) (sint (handle AND NOT HT_MASK)) = Some (p, db')" "hdb_inv r db'"
    "handle_lookup (Some d) (sint (handle AND NOT HT_MASK)) = Some p"
    "handle_lookup db' = (handle_lookup (Some d))(sint (handle AND NOT HT_MASK) := Some 0)"
    using hdb.put_law [OF assms] by blast
  moreover obtain d' where "db' = Some d'"
    using p(1) by (auto simp: handle_put_def split: if_splits bind_splits)
  ultimately show ?thesis by (simp add: put_handle_def)
qed

text \<open>
  Every arithmetic command returns, whatever its parameters: no access leaves the handle table,
  whose invariant is kept.  All commands but \<open>ta_entry_arith_free_handle\<close> keep every handle in use
  bound to its object; that one unbinds at most the handle it is given.
\<close>

theorem arith_commands_keep_handles:
  assumes "realloc_ok (TEE_Realloc api)" "db_inv (hdb s)" "(cmd, f) \<in> set (arith_cmds api)"
  shows "\<exists>res ps s'. f pt params s = Some (res, ps, s') \<and> db_inv (hdb s') \<and>
    (\<forall>h p. p \<noteq> 0 \<and> handle_lookup (Some (hdb s)) h = Some p \<and>
       (cmd = 49 \<longrightarrow> h \<noteq> sint (val_a (p0 params) AND NOT HT_MASK)) \<longrightarrow> handle_lookup (Some (hdb s')) h = Some p)"
proof (cases "cmd = 49")
  case False
  then have "keeps api s (f pt params s)"
    using arith_cmd_keeps [of api s cmd f] assms by (simp add: arith_inv_def hdb_inv_def)
  then show ?thesis by (auto simp: keeps_def bound_def arith_inv_def hdb_inv_def)
next
  case True
  then have f: "f = ta_entry_arith_free_handle api"
    using assms(3) by (auto simp: arith_cmds_def)
  obtain p d' where p: "put_handle (hdb s) (val_a (p0 params) AND NOT HT_MASK) = Some (p, d')" "db_inv d'"
    "handle_lookup (Some d') = (handle_lookup (Some (hdb s)))(sint (val_a (p0 params) AND NOT HT_MASK) := Some 0)"
    using put_handle_law [of "TEE_Realloc api" "hdb s" "val_a (p0 params) AND NOT HT_MASK"] assms(1,2)
    by (auto simp: hdb_inv_def and.assoc)
  show ?thesis
    using p assms(2) True by (simp add: f ta_entry_arith_free_handle_def CHECK_PT_def)
qed

text \<open>
  When \<open>ta_entry_arith_new_var\<close> succeeds, the handle it returns leads back to the freshly
  allocated object under its own type tag, and to nothing under the two other tags.
\<close>

theorem arith_new_var_handle:
  assumes "realloc_ok (TEE_Realloc api)" "db_inv (hdb s)"
    "ta_entry_arith_new_var api pt params s = Some (TEE_SUCCESS, params', s')"
  shows "\<exists>p. p \<noteq> 0 \<and> p = fst (TEE_Malloc api (ucast (TEE_BigIntSizeInU32 (val_a (p0 params))) * 4) (mem s)) \<and>
    lookup_handle s' HT_BIGINT (val_a (p1 params')) = Some p \<and>
    lookup_handle s' HT_FMMCTX (val_a (p1 params')) = Some 0 \<and>
    lookup_handle s' HT_FMMVAR (val_a (p1 params')) = Some 0"
proof -
  obtain p m where pm: "TEE_Malloc api (ucast (TEE_BigIntSizeInU32 (val_a (p0 params))) * 4) (mem s) = (p, m)"
    by force
  obtain ok handle db where g: "get_handle (TEE_Realloc api) (hdb s) HT_BIGINT p = Some (ok, handle, db)"
    "got (hdb s) HT_BIGINT p ok handle db"
    using get_handle_law [of api s HT_BIGINT p] assms(1,2) by (auto simp: arith_inv_def hdb_inv_def)
  from assms(3) g(1) pm have ok: "ok" "p \<noteq> 0" "hdb s' = db" "val_a (p1 params') = handle"
    by (auto simp: ta_entry_arith_new_var_def CHECK_PT_def tee_results split: if_splits)
  with g(2) obtain h where h: "0 \<le> h" "h < 2 ^ 28" "handle = word_of_int h OR HT_BIGINT"
    "handle_lookup (Some db) h = Some p"
    by (auto simp: got_def)
  with ok pm tags_distinct show ?thesis
    by (simp add: lookup_tagged [OF h(1,2)])
qed

text \<open>
  The table does not record the type of an object: a handle in use is accepted under every
  type tag the caller writes into its top bits, so an object created as one kind is passed to the
  API as another.
\<close>

theorem arith_handle_type_confusion:
  assumes "0 \<le> h" "h < 2 ^ 28" "handle_lookup (Some (hdb s)) h = Some p"
    "t \<in> {HT_BIGINT, HT_FMMCTX, HT_FMMVAR}"
  shows "lookup_handle s t (word_of_int h OR t) = Some p"
  using assms by (simp add: lookup_tagged)

theorem arith_handle_type_confusion_witness:
  "lookup_handle \<lparr>hdb = \<lparr>ptrs = [5, 0, 0, 0], max_ptrs = 4\<rparr>, mem = ()\<rparr> HT_FMMVAR (word_of_int 0 OR HT_FMMVAR) = Some 5"
  using arith_handle_type_confusion [of 0 "\<lparr>hdb = \<lparr>ptrs = [5, 0, 0, 0], max_ptrs = 4\<rparr>, mem = ()\<rparr>" 5 HT_FMMVAR]
  by (simp add: handle_lookup_def ld_def)

section \<open>A computation through handles\<close>

definition value_param :: "uint32 \<Rightarrow> uint32 \<Rightarrow> tee_param" where
  "value_param a b = \<lparr>maddr = 0, mbuf = [], msize = 0, val_a = a, val_b = b\<rparr>"

definition value_params :: "uint32 \<Rightarrow> uint32 \<Rightarrow> uint32 \<Rightarrow> uint32 \<Rightarrow> tee_params" where
  "value_params a b c d = \<lparr>p0 = value_param a b, p1 = value_param c d, p2 = value_param 0 0, p3 = value_param 0 0\<rparr>"

text \<open>
  What the Internal Core API documents of the four functions used below, in terms of the integer
  \<open>val m p\<close> that the object at \<open>p\<close> holds.
\<close>

definition bigint_laws :: "'m bigint_api \<Rightarrow> ('m \<Rightarrow> ptr \<Rightarrow> int) \<Rightarrow> bool" where
  "bigint_laws api val \<longleftrightarrow>
     (\<forall>p x m. val (TEE_BigIntConvertFromS32 api p x m) = (val m)(p := x)) \<and>
     (\<forall>d a b m. val (TEE_BigIntSub api d a b m) = (val m)(d := val m a - val m b)) \<and>
     (\<forall>d a b m. val (TEE_BigIntMul api d a b m) = (val m)(d := val m a * val m b)) \<and>
     (\<forall>p m. - (2 ^ 31) \<le> val m p \<and> val m p < 2 ^ 31 \<longrightarrow> TEE_BigIntConvertToS32 api p m = (TEE_SUCCESS, val m p))"

lemma bigint_lawsD:
  assumes "bigint_laws api val"
  shows "val (TEE_BigIntConvertFromS32 api p x m) = (val m)(p := x)"
    "val (TEE_BigIntSub api d a b m) = (val m)(d := val m a - val m b)"
    "val (TEE_BigIntMul api d a b m) = (val m)(d := val m a * val m b)"
    "- (2 ^ 31) \<le> val m p \<Longrightarrow> val m p < 2 ^ 31 \<Longrightarrow> TEE_BigIntConvertToS32 api p m = (TEE_SUCCESS, val m p)"
  using assms unfolding bigint_laws_def by blast+

lemma lookup_handle_mem: "lookup_handle (s\<lparr>mem := m\<rparr>) = lookup_handle s"
  by (rule ext)+ (simp add: lookup_handle_def)

text \<open>
  Numbers survive the trip through the commands: storing \<open>x\<close> and \<open>y\<close>, then \<open>d := x * y\<close> and
  \<open>d := d - y\<close>, reading \<open>d\<close> back returns \<open>x * y - y\<close>, as long as it fits in 32 bits; the destination may be
  any object other than \<open>y\<close>, also \<open>x\<close> itself.
\<close>

theorem arith_session:
  assumes "bigint_laws api val"
    "lookup_handle s HT_BIGINT hx = Some px" "lookup_handle s HT_BIGINT hy = Some py"
    "lookup_handle s HT_BIGINT hz = Some pz" "px \<noteq> 0" "py \<noteq> 0" "pz \<noteq> 0" "px \<noteq> py" "pz \<noteq> py"
    "- (2 ^ 31) \<le> sint x * sint y - sint y" "sint x * sint y - sint y < 2 ^ 31"
  shows "do {
      (r1, _, s) \<leftarrow> ta_entry_arith_from_s32 api (arith_expected 51) (value_params hx x 0 0) s;
      (r2, _, s) \<leftarrow> ta_entry_arith_from_s32 api (arith_expected 51) (value_params hy y 0 0) s;
      (r3, _, s) \<leftarrow> ta_entry_arith_mul api (arith_expected 61) (value_params hx hy hz 0) s;
      (r4, _, s) \<leftarrow> ta_entry_arith_sub api (arith_expected 60) (value_params hz hy hz 0) s;
      (r5, ps, s) \<leftarrow> ta_entry_arith_get_value_s32 api (arith_expected 53) (value_params hz 0 0 0) s;
      Some ([r1, r2, r3, r4, r5], val_a (p1 ps)) }
    = Some ([TEE_SUCCESS, TEE_SUCCESS, TEE_SUCCESS, TEE_SUCCESS, TEE_SUCCESS], word_of_int (sint x * sint y - sint y))"
proof -
  note law = bigint_lawsD [OF assms(1)]
  let ?m1 = "TEE_BigIntConvertFromS32 api py (sint y) (TEE_BigIntConvertFromS32 api px (sint x) (mem s))"
  let ?m2 = "TEE_BigIntSub api pz pz py (TEE_BigIntMul api pz px py ?m1)"
  have "val ?m2 pz = sint x * sint y - sint y" using assms(8,9) by (simp add: law)
  then have "TEE_BigIntConvertToS32 api pz ?m2 = (TEE_SUCCESS, sint x * sint y - sint y)"
    using law(4) [of ?m2 pz] assms(10,11) by simp
  then show ?thesis
    using assms(2-7)
    by (simp add: ta_entry_arith_from_s32_def ta_entry_arith_mul_def ta_entry_arith_sub_def
        ta_entry_arith_get_value_s32_def binary_func_def CHECK_PT_def arith_expected_def value_params_def
        value_param_def lookup_handle_mem)
qed

section \<open>Witnesses\<close>

text \<open>
  An instance of the API on a memory that maps addresses to integers and counts allocations; it
  grows tables up to the limit, with stale words in the new part.
\<close>

type_synonym sim_mem = "nat \<times> (ptr \<Rightarrow> int)"

definition sim_realloc :: realloc_fn where
  "sim_realloc ps sz = (if unat sz \<le> 2 ^ 31 then Some (take (unat sz div 8) (ps @ replicate (unat sz div 8) 7)) else None)"

definition set_int :: "ptr \<Rightarrow> int \<Rightarrow> sim_mem \<Rightarrow> sim_mem" where
  "set_int p x m = (fst m, (snd m)(p := x))"

definition sim_api :: "sim_mem bigint_api" where
  "sim_api = \<lparr>
     TEE_Malloc = (\<lambda>sz m. (fst m + 1, (fst m + 1, snd m))),
     TEE_Free = (\<lambda>p m. m),
     TEE_Realloc = sim_realloc,
     TEE_BigIntFMMContextSizeInU32 = (\<lambda>n. 1),
     TEE_BigIntFMMSizeInU32 = (\<lambda>n. ucast n),
     TEE_BigIntInit = (\<lambda>p len m. set_int p 0 m),
     TEE_BigIntInitFMMContext = (\<lambda>p len n m. m),
     TEE_BigIntInitFMM = (\<lambda>p len m. set_int p 0 m),
     TEE_BigIntConvertFromOctetString = (\<lambda>p b sz sg m. (TEE_SUCCESS, set_int p (sg * int (length b)) m)),
     TEE_BigIntConvertToOctetString = (\<lambda>b sz p m. (TEE_SUCCESS, b, sz)),
     TEE_BigIntConvertFromS32 = (\<lambda>p x m. set_int p x m),
     TEE_BigIntConvertToS32 = (\<lambda>p m. (TEE_SUCCESS, snd m p)),
     TEE_BigIntCmp = (\<lambda>p q m. sgn (snd m p - snd m q)),
     TEE_BigIntCmpS32 = (\<lambda>p x m. sgn (snd m p - x)),
     TEE_BigIntShiftRight = (\<lambda>d p n m. set_int d (snd m p div 2 ^ unat n) m),
     TEE_BigIntGetBit = (\<lambda>p n m. bit (snd m p) (unat n)),
     TEE_BigIntGetBitCount = (\<lambda>p m. 32),
     TEE_BigIntAdd = (\<lambda>d a b m. set_int d (snd m a + snd m b) m),
     TEE_BigIntSub = (\<lambda>d a b m. set_int d (snd m a - snd m b) m),
     TEE_BigIntMul = (\<lambda>d a b m. set_int d (snd m a * snd m b) m),
     TEE_BigIntNeg = (\<lambda>d a m. set_int d (- snd m a) m),
     TEE_BigIntSquare = (\<lambda>d a m. set_int d (snd m a * snd m a) m),
     TEE_BigIntDiv = (\<lambda>q r a b m. set_int r (snd m a mod snd m b) (set_int q (snd m a div snd m b) m)),
     TEE_BigIntMod = (\<lambda>d a b m. set_int d (snd m a mod snd m b) m),
     TEE_BigIntAddMod = (\<lambda>d a b n m. set_int d ((snd m a + snd m b) mod snd m n) m),
     TEE_BigIntSubMod = (\<lambda>d a b n m. set_int d ((snd m a - snd m b) mod snd m n) m),
     TEE_BigIntMulMod = (\<lambda>d a b n m. set_int d ((snd m a * snd m b) mod snd m n) m),
     TEE_BigIntSquareMod = (\<lambda>d a n m. set_int d ((snd m a * snd m a) mod snd m n) m),
     TEE_BigIntInvMod = (\<lambda>d a n m. m),
     TEE_BigIntRelativePrime = (\<lambda>a b m. gcd (snd m a) (snd m b) = 1),
     TEE_BigIntComputeExtendedGcd = (\<lambda>g u v a b m. set_int g (gcd (snd m a) (snd m b)) m),
     TEE_BigIntIsProbablePrime = (\<lambda>p c m. -1),
     TEE_BigIntConvertToFMM = (\<lambda>d a n c m. set_int d (snd m a) m),
     TEE_BigIntConvertFromFMM = (\<lambda>d a n c m. set_int d (snd m a) m),
     TEE_BigIntComputeFMM = (\<lambda>d a b n c m. set_int d (snd m a * snd m b) m)\<rparr>"

lemma sim_realloc_ok: "realloc_ok (TEE_Realloc sim_api)"
  by (auto simp: realloc_ok_def sim_api_def sim_realloc_def min_def split: if_splits)

lemma sim_laws: "bigint_laws sim_api snd"
  by (simp add: bigint_laws_def sim_api_def set_int_def)

definition sim_st :: "sim_mem arith_st" where
  "sim_st = \<lparr>hdb = \<lparr>ptrs = [1, 2, 3, 0], max_ptrs = 4\<rparr>, mem = (3, \<lambda>p. 0)\<rparr>"

lemma sim_st_inv: "db_inv (hdb sim_st)"
  by (simp add: sim_st_def db_inv_def)

theorem arith_type_check_witness:
  "ta_entry_arith_add sim_api 0 (value_params 1 2 3 4) sim_st = Some (TEE_ERROR_BAD_PARAMETERS, value_params 1 2 3 4, sim_st)"
  using arith_type_check [of 59 "ta_entry_arith_add sim_api" sim_api 0 "value_params 1 2 3 4" sim_st]
  by (simp add: arith_cmds_def arith_expected_def TEE_PARAM_TYPES_def param_type_defs)

theorem arith_commands_keep_handles_witness:
  "\<exists>res ps s'. ta_entry_arith_free_handle sim_api (arith_expected 49) (value_params (2 OR HT_BIGINT) 0 0 0) sim_st = Some (res, ps, s') \<and>
    db_inv (hdb s') \<and>
    (\<forall>h p. p \<noteq> 0 \<and> handle_lookup (Some (hdb sim_st)) h = Some p \<and>
       (49 = (49 :: uint32) \<longrightarrow> h \<noteq> sint ((2 OR HT_BIGINT) AND NOT HT_MASK)) \<longrightarrow> handle_lookup (Some (hdb s')) h = Some p)"
proof -
  have "(49, ta_entry_arith_free_handle sim_api) \<in> set (arith_cmds sim_api)"
    by (simp add: arith_cmds_def)
  from arith_commands_keep_handles [OF sim_realloc_ok sim_st_inv this, of "arith_expected 49"
      "value_params (2 OR HT_BIGINT) 0 0 0"]
  show ?thesis by (simp add: value_params_def value_param_def)
qed

theorem arith_new_var_handle_witness:
  "\<exists>params' s'. ta_entry_arith_new_var sim_api (arith_expected 46) (value_params 64 0 0 0) sim_st =
      Some (TEE_SUCCESS, params', s') \<and> lookup_handle s' HT_BIGINT (val_a (p1 params')) = Some 4"
proof -
  let ?ps = "set_val_a1 (word_of_int 3 OR HT_BIGINT) (value_params 64 0 0 0)"
  let ?s = "\<lparr>hdb = \<lparr>ptrs = [1, 2, 3, 4], max_ptrs = 4\<rparr>, mem = (4, (\<lambda>p. 0)(4 := 0))\<rparr> :: sim_mem arith_st"
  have run: "ta_entry_arith_new_var sim_api (arith_expected 46) (value_params 64 0 0 0) sim_st = Some (TEE_SUCCESS, ?ps, ?s)"
    by (simp add: ta_entry_arith_new_var_def CHECK_PT_def arith_expected_def sim_api_def sim_st_def
        value_params_def value_param_def get_handle_def handle_get_def find_empty.simps ld_def st_def
        set_int_def)
  have "fst (TEE_Malloc sim_api (ucast (TEE_BigIntSizeInU32 (val_a (p0 (value_params 64 0 0 0)))) * 4) (mem sim_st)) = 4"
    by (simp add: sim_api_def sim_st_def)
  with arith_new_var_handle [OF sim_realloc_ok sim_st_inv run] run show ?thesis by auto
qed

theorem arith_session_witness:
  "do {
      (r1, _, s) \<leftarrow> ta_entry_arith_from_s32 sim_api (arith_expected 51) (value_params (word_of_int 0 OR HT_BIGINT) 6 0 0) sim_st;
      (r2, _, s) \<leftarrow> ta_entry_arith_from_s32 sim_api (arith_expected 51) (value_params (word_of_int 1 OR HT_BIGINT) 7 0 0) s;
      (r3, _, s) \<leftarrow> ta_entry_arith_mul sim_api (arith_expected 61)
        (value_params (word_of_int 0 OR HT_BIGINT) (word_of_int 1 OR HT_BIGINT) (word_of_int 0 OR HT_BIGINT) 0) s;
      (r4, _, s) \<leftarrow> ta_entry_arith_sub sim_api (arith_expected 60)
        (value_params (word_of_int 0 OR HT_BIGINT) (word_of_int 1 OR HT_BIGINT) (word_of_int 0 OR HT_BIGINT) 0) s;
      (r5, ps, s) \<leftarrow> ta_entry_arith_get_value_s32 sim_api (arith_expected 53) (value_params (word_of_int 0 OR HT_BIGINT) 0 0 0) s;
      Some ([r1, r2, r3, r4, r5], val_a (p1 ps)) }
    = Some ([TEE_SUCCESS, TEE_SUCCESS, TEE_SUCCESS, TEE_SUCCESS, TEE_SUCCESS], 35)"
proof -
  have l: "lookup_handle sim_st HT_BIGINT (word_of_int 0 OR HT_BIGINT) = Some 1"
    "lookup_handle sim_st HT_BIGINT (word_of_int 1 OR HT_BIGINT) = Some 2"
    using lookup_tagged [of 0 HT_BIGINT sim_st HT_BIGINT] lookup_tagged [of 1 HT_BIGINT sim_st HT_BIGINT]
    by (simp_all add: sim_st_def handle_lookup_def ld_def)
  from arith_session [OF sim_laws l(1,2,1), of 6 7] show ?thesis by simp
qed

end
