(* ===== verification/Ta_Env.thy ===== *)
theory Ta_Env
  imports Tee_Api
begin

text \<open>
  What the trusted applications rely on of their environment: laws of the heap and of the sessions
  of the internal client API, as hypotheses of the theorems that use them, and one environment that
  satisfies them for the witnesses.
\<close>

section \<open>Access rights of memory\<close>

text \<open>The flags of \<open>TEE_CheckMemoryAccessRights\<close>, OP-TEE's two extensions included\<close>

definition TEE_MEMORY_ACCESS_READ :: uint32 where "TEE_MEMORY_ACCESS_READ = 1"
definition TEE_MEMORY_ACCESS_WRITE :: uint32 where "TEE_MEMORY_ACCESS_WRITE = 2"
definition TEE_MEMORY_ACCESS_ANY_OWNER :: uint32 where "TEE_MEMORY_ACCESS_ANY_OWNER = 4"
definition TEE_MEMORY_ACCESS_NONSECURE :: uint32 where "TEE_MEMORY_ACCESS_NONSECURE = 0x10000000"
definition TEE_MEMORY_ACCESS_SECURE :: uint32 where "TEE_MEMORY_ACCESS_SECURE = 0x20000000"

lemmas access_defs = TEE_MEMORY_ACCESS_READ_def TEE_MEMORY_ACCESS_WRITE_def
  TEE_MEMORY_ACCESS_ANY_OWNER_def TEE_MEMORY_ACCESS_NONSECURE_def TEE_MEMORY_ACCESS_SECURE_def

section \<open>Types, algorithms and modes\<close>

definition TEE_ALG_AES_ECB_NOPAD :: uint32 where "TEE_ALG_AES_ECB_NOPAD = 0x10000010"
definition TEE_ALG_AES_CBC_NOPAD :: uint32 where "TEE_ALG_AES_CBC_NOPAD = 0x10000110"
definition TEE_ALG_AES_CTR :: uint32 where "TEE_ALG_AES_CTR = 0x10000210"
definition TEE_ALG_AES_XTS :: uint32 where "TEE_ALG_AES_XTS = 0x10000410"
definition TEE_ALG_AES_GCM :: uint32 where "TEE_ALG_AES_GCM = 0x40000810"

lemmas aes_alg_defs = TEE_ALG_AES_ECB_NOPAD_def TEE_ALG_AES_CBC_NOPAD_def TEE_ALG_AES_CTR_def
  TEE_ALG_AES_XTS_def TEE_ALG_AES_GCM_def

definition TEE_ALG_SHA1 :: uint32 where "TEE_ALG_SHA1 = 0x50000002"
definition TEE_ALG_SHA224 :: uint32 where "TEE_ALG_SHA224 = 0x50000003"
definition TEE_ALG_SHA256 :: uint32 where "TEE_ALG_SHA256 = 0x50000004"
definition TEE_ALG_SHA384 :: uint32 where "TEE_ALG_SHA384 = 0x50000005"
definition TEE_ALG_SHA512 :: uint32 where "TEE_ALG_SHA512 = 0x50000006"

definition TEE_TYPE_AES :: uint32 where "TEE_TYPE_AES = 0xA0000010"
definition TEE_ATTR_SECRET_VALUE :: uint32 where "TEE_ATTR_SECRET_VALUE = 0xC0000000"
definition TEE_MODE_ENCRYPT :: uint32 where "TEE_MODE_ENCRYPT = 0"
definition TEE_MODE_DECRYPT :: uint32 where "TEE_MODE_DECRYPT = 1"
definition TEE_MODE_DIGEST :: uint32 where "TEE_MODE_DIGEST = 5"

section \<open>The heap\<close>

text \<open>
  What the Internal Core API documents of the heap, \<open>live\<close> being the blocks handed out and not yet
  given back: \<open>TEE_Malloc\<close> yields a new block or \<open>NULL\<close>, and \<open>TEE_Free\<close> gives one back.
\<close>

definition heap_laws :: "('m, 'z) heap_api_scheme \<Rightarrow> ('m \<Rightarrow> ptr set) \<Rightarrow> bool" where
  "heap_laws api live \<longleftrightarrow> (\<forall>m. 0 \<notin> live m) \<and> (\<forall>p m. live (TEE_Free api p m) = live m - {p}) \<and>
     (\<forall>n m p m'. TEE_Malloc api n m = (p, m') \<longrightarrow>
        (if p = 0 then live m' = live m else p \<notin> live m \<and> live m' = insert p (live m)))"

lemma live_free: "heap_laws api live \<Longrightarrow> live (TEE_Free api p m) = live m - {p}"
  by (simp add: heap_laws_def)

lemma malloc_law:
  "heap_laws api live \<Longrightarrow> TEE_Malloc api n m = (p, m') \<Longrightarrow>
     (if p = 0 then live m' = live m else p \<notin> live m \<and> live m' = insert p (live m))"
  unfolding heap_laws_def by blast

lemma no_null_block: "heap_laws api live \<Longrightarrow> 0 \<notin> live m"
  by (simp add: heap_laws_def)

text \<open>A heap for the witnesses: its state lists the blocks in use, a new one is above all of them.\<close>

definition list_heap :: "ptr list heap_api" where
  "list_heap = \<lparr>TEE_Malloc = \<lambda>n m. (Suc (sum_list m), Suc (sum_list m) # m), TEE_Free = \<lambda>p m. filter (\<lambda>q. q \<noteq> p) m\<rparr>"

lemma fresh_block: "Suc (sum_list m) \<notin> set m"
  using member_le_sum_list [of "Suc (sum_list m)" m] by auto

lemma list_heap_laws: "heap_laws list_heap (\<lambda>m. set m - {0})"
  by (auto simp: heap_laws_def list_heap_def fresh_block)

section \<open>Sessions of the internal client API\<close>

text \<open>
  What the internal client API promises of the sessions a TA holds (\<open>ss m\<close>, the handles of the
  open ones): a session that opens is new, a failed open yields the null handle, a command leaves
  the sessions as they are, and closing ends exactly one.
\<close>

definition session_laws :: "('m, 'z) client_api_scheme \<Rightarrow> ('m \<Rightarrow> size_t set) \<Rightarrow> bool" where
  "session_laws api ss \<longleftrightarrow> (\<forall>m. 0 \<notin> ss m) \<and>
     (\<forall>s m. ss (TEE_CloseTASession api s m) = ss m - {s}) \<and>
     (\<forall>u t pt ps m res s orig ps' m'. TEE_OpenTASession api u t pt ps m = (res, s, orig, ps', m') \<longrightarrow>
        (if res = TEE_SUCCESS then s \<noteq> 0 \<and> s \<notin> ss m \<and> ss m' = insert s (ss m) else s = 0 \<and> ss m' = ss m)) \<and>
     (\<forall>s t c pt ps m res orig ps' m'. TEE_InvokeTACommand api s t c pt ps m = (res, orig, ps', m') \<longrightarrow> ss m' = ss m)"

lemma close_session: "session_laws api ss \<Longrightarrow> ss (TEE_CloseTASession api s m) = ss m - {s}"
  by (simp add: session_laws_def)

lemma no_null_session: "session_laws api ss \<Longrightarrow> 0 \<notin> ss m"
  by (simp add: session_laws_def)

lemma open_session:
  "session_laws api ss \<Longrightarrow> TEE_OpenTASession api u t pt ps m = (res, s, orig, ps', m') \<Longrightarrow>
     (if res = TEE_SUCCESS then s \<noteq> 0 \<and> s \<notin> ss m \<and> ss m' = insert s (ss m) else s = 0 \<and> ss m' = ss m)"
  unfolding session_laws_def by blast

lemma invoke_session:
  "session_laws api ss \<Longrightarrow> TEE_InvokeTACommand api s t c pt ps m = (res, orig, ps', m') \<Longrightarrow> ss m' = ss m"
  unfolding session_laws_def by metis

definition fresh_session :: "nat list \<Rightarrow> nat" where
  "fresh_session m = (if m = [] then 1 else Suc (Max (set m)))"

text \<open>For the witnesses: an API whose state is the list of open sessions and that refuses nothing.\<close>

definition list_client :: "nat list client_api" where
  "list_client = \<lparr>
     TEE_OpenTASession = \<lambda>u t pt ps m.
       if length m < 8 \<and> list_all (\<lambda>k. k < 100) m then
         (TEE_SUCCESS, of_nat (fresh_session m), 4, ps, fresh_session m # m)
       else (TEE_ERROR_OUT_OF_MEMORY, 0, 4, ps, m),
     TEE_InvokeTACommand = \<lambda>s t c pt ps m. (TEE_SUCCESS, 4, ps, m),
     TEE_CloseTASession = \<lambda>s m. filter (\<lambda>k. (of_nat k :: size_t) \<noteq> s) m\<rparr>"

lemma list_client_laws: "session_laws list_client (\<lambda>m. of_nat ` set m - {0})"
proof -
  have fresh: "(of_nat (fresh_session m) :: size_t) \<noteq> 0 \<and> (of_nat (fresh_session m) :: size_t) \<notin> of_nat ` set m"
    if "list_all (\<lambda>k. k < 100) m" for m
  proof -
    have u: "unat (of_nat k :: size_t) = k" if "k \<le> 100" for k
      using that by (simp add: unsigned_of_nat take_bit_nat_eq_self)
    define s where "s = fresh_session m"
    note that = that s_def [unfolded fresh_session_def]
    have "s \<le> 100"
    proof (cases "m = []")
      case False
      then have "Max (set m) \<in> set m" by simp
      with that(1) have "Max (set m) < 100" unfolding list_all_iff by blast
      moreover have "s = Suc (Max (set m))" using False that(2) by simp
      ultimately show ?thesis by linarith
    qed (use that(2) in simp)
    moreover have "0 < s" using that(2) by simp
    moreover have "\<forall>k \<in> set m. k < s" using that(2) by (auto simp: less_Suc_eq_le)
    ultimately have s: "0 < s" "s \<le> 100" "\<forall>k \<in> set m. k < s" by auto
    then have "\<forall>k \<in> set m. (of_nat k :: size_t) \<noteq> of_nat s"
      using u s(2) by (metis less_le_trans less_imp_le order_less_irrefl)
    moreover have "(of_nat s :: size_t) \<noteq> 0" using u [OF s(2)] s(1) by (metis less_irrefl unat_0)
    ultimately show ?thesis unfolding s_def by fastforce
  qed
  show ?thesis
    unfolding session_laws_def list_client_def using fresh
    by (auto simp: Let_def TEE_SUCCESS_def TEE_ERROR_OUT_OF_MEMORY_def split: if_splits)
qed

end
