(* ===== verification/Attr_Codec.thy ===== *)
theory Attr_Codec
  imports Ta_Env
begin

text \<open>
  Attributes of cryptographic objects on their way from the client to the TA: \<open>pack_attrs\<close> of
  \<open>src/host/libcrypt/helpers.c\<close> lays them out in one buffer, \<open>unpack_attrs\<close> of
  \<open>src/ta/crypt/cryp_taf.c\<close> checks a buffer and turns its offsets back into pointers.  The two sides
  run on different address spaces: on the host a memory attribute points to bytes (\<^term>\<open>None\<close> is
  \<open>NULL\<close>), in the TA it is an address.  \<open>uintptr_t\<close> has 64 bits on both.
\<close>

text \<open>The union \<open>content\<close> with both views; bit 29 of the identifier tells which one is meant.\<close>

record 'p tee_attribute =
  attributeID :: uint32
  ref_buffer :: 'p
  ref_length :: uint32
  value_a :: uint32
  value_b :: uint32

type_synonym host_attribute = "u8 list option tee_attribute"
type_synonym ta_attribute = "size_t tee_attribute"

definition TEE_ATTR_BIT_VALUE :: uint32 where "TEE_ATTR_BIT_VALUE = push_bit 29 1"

definition is_value :: "uint32 \<Rightarrow> bool" where
  "is_value i \<longleftrightarrow> i AND TEE_ATTR_BIT_VALUE \<noteq> 0"

section \<open>Packing, on the host\<close>

text \<open>\<open>#define ROUNDUP(v, size) (((v) + (size - 1)) & ~(size - 1))\<close> at the 32 bits of a length\<close>

definition ROUNDUP :: "uint32 \<Rightarrow> uint32 \<Rightarrow> uint32" where
  "ROUNDUP v sz = (v + (sz - 1)) AND NOT (sz - 1)"

definition packed_size :: "host_attribute list \<Rightarrow> uint32 \<Rightarrow> size_t option" where
  "packed_size attrs attr_count =
     foldM (\<lambda>n bl. do {
         at \<leftarrow> ld attrs n;
         Some (if is_value (attributeID at) \<or> ref_buffer at = None then bl
               else bl + ucast (ROUNDUP (ref_length at) 4))
       }) [0..<unat attr_count] (4 + 12 * ucast attr_count)"

text \<open>One attribute: its entry at index \<open>n\<close> of the table, its bytes at \<open>b\<close>.\<close>

definition pack_attr :: "host_attribute list \<Rightarrow> nat \<Rightarrow> u8 list \<times> nat \<Rightarrow> (u8 list \<times> nat) option" where
  "pack_attr attrs n = (\<lambda>(buf, b). do {
     at \<leftarrow> ld attrs n;
     buf \<leftarrow> st32 buf (4 + 12 * n) (attributeID at);
     if is_value (attributeID at) then do {
       buf \<leftarrow> st32 buf (4 + 12 * n + 4) (value_a at);
       buf \<leftarrow> st32 buf (4 + 12 * n + 8) (value_b at);
       Some (buf, b)
     }
     else do {
       buf \<leftarrow> st32 buf (4 + 12 * n + 8) (ref_length at);
       case ref_buffer at of
         None \<Rightarrow> do { buf \<leftarrow> st32 buf (4 + 12 * n + 4) 0; Some (buf, b) }
       | Some src \<Rightarrow> do {
           buf \<leftarrow> memcpy buf b src (unat (ref_length at));
           buf \<leftarrow> st32 buf (4 + 12 * n + 4) (of_nat b);
           Some (buf, b + unat (ROUNDUP (ref_length at) 4))
         }
     }
   })"

text \<open>The result code, \<open>*buf\<close> and \<open>*blen\<close>; \<open>calloc\<close> tells whether a size can be allocated.\<close>

definition pack_attrs ::
  "(size_t \<Rightarrow> bool) \<Rightarrow> host_attribute list \<Rightarrow> uint32 \<Rightarrow> (TEE_Result \<times> u8 list option \<times> size_t) option" where
  "pack_attrs calloc attrs attr_count =
     (if attr_count = 0 then Some (TEE_SUCCESS, None, 0)
      else do {
        bl \<leftarrow> packed_size attrs attr_count;
        if \<not> calloc bl then Some (TEE_ERROR_OUT_OF_MEMORY, None, 0)
        else do {
          buf \<leftarrow> st32 (replicate (unat bl) 0) 0 attr_count;
          (buf, b) \<leftarrow> foldM (pack_attr attrs) [0..<unat attr_count] (buf, 4 + 12 * unat attr_count);
          Some (TEE_SUCCESS, Some buf, bl)
        }
      })"

section \<open>Unpacking, in the TA\<close>

definition zero_attribute :: ta_attribute where
  "zero_attribute = \<lparr>attributeID = 0, ref_buffer = 0, ref_length = 0, value_a = 0, value_b = 0\<rparr>"

text \<open>The loop over the table; \<open>addr\<close> is \<open>(uintptr_t)buf\<close>.\<close>

fun unpack_loop ::
  "size_t \<Rightarrow> u8 list \<Rightarrow> size_t \<Rightarrow> nat list \<Rightarrow> ta_attribute list \<Rightarrow> (TEE_Result \<times> ta_attribute list) option" where
  "unpack_loop addr buf blen [] a = Some (TEE_SUCCESS, a)"
| "unpack_loop addr buf blen (n # ns) a = do {
     id \<leftarrow> ld32 buf (4 + 12 * n);
     ap_a \<leftarrow> ld32 buf (4 + 12 * n + 4);
     ap_b \<leftarrow> ld32 buf (4 + 12 * n + 8);
     if is_value id then do {
       a \<leftarrow> st a n (zero_attribute\<lparr>attributeID := id, value_a := ap_a, value_b := ap_b\<rparr>);
       unpack_loop addr buf blen ns a
     }
     else do {
       let p = (ucast ap_a :: size_t);
       if p \<noteq> 0 \<and> blen < p + ucast ap_b then do {
         a \<leftarrow> st a n (zero_attribute\<lparr>attributeID := id, ref_length := ap_b\<rparr>);
         Some (TEE_ERROR_BAD_PARAMETERS, a)
       }
       else do {
         let p = (if p \<noteq> 0 then p + addr else p);
         a \<leftarrow> st a n (zero_attribute\<lparr>attributeID := id, ref_buffer := p, ref_length := ap_b\<rparr>);
         unpack_loop addr buf blen ns a
       }
     }
   }"

text \<open>
  The result code, the array \<open>*attrs\<close> (its address and its elements), \<open>*attr_count\<close>, and the heap
  after the calls of \<open>TEE_Malloc\<close> and \<open>TEE_Free\<close>.  24 is the size of \<open>TEE_Attribute\<close>.
\<close>

definition unpack_attrs ::
  "('m, 'z) heap_api_scheme \<Rightarrow> size_t \<Rightarrow> u8 list \<Rightarrow> size_t \<Rightarrow> 'm \<Rightarrow>
     (TEE_Result \<times> ptr \<times> ta_attribute list \<times> uint32 \<times> 'm) option" where
  "unpack_attrs api addr buf blen m =
     (if blen = 0 then Some (TEE_SUCCESS, 0, [], 0, m)
      else if addr AND 3 \<noteq> 0 \<or> blen < 4 then Some (TEE_ERROR_BAD_PARAMETERS, 0, [], 0, m)
      else do {
        num \<leftarrow> ld32 buf 0;
        let num_attrs = (ucast num :: size_t);
        if blen - 4 < num_attrs * 12 then Some (TEE_ERROR_BAD_PARAMETERS, 0, [], 0, m)
        else if num_attrs = 0 then Some (TEE_SUCCESS, 0, [], 0, m)
        else do {
          let (p, m) = TEE_Malloc api (num_attrs * 24) m;
          if p = 0 then Some (TEE_ERROR_OUT_OF_MEMORY, 0, [], 0, m)
          else do {
            (res, a) \<leftarrow> unpack_loop addr buf blen [0..<unat num_attrs] (replicate (unat num_attrs) zero_attribute);
            if res = TEE_SUCCESS then Some (res, p, a, ucast num_attrs, m)
            else Some (res, 0, [], 0, TEE_Free api p m)
          }
        }
      })"

section \<open>The layout\<close>

definition attr_body :: "host_attribute \<Rightarrow> u8 list" where
  "attr_body at = (if is_value (attributeID at) then []
     else case ref_buffer at of None \<Rightarrow> []
       | Some src \<Rightarrow> take (unat (ref_length at)) src @
           replicate (4 * ((unat (ref_length at) + 3) div 4) - unat (ref_length at)) 0)"

definition field_a :: "nat \<Rightarrow> host_attribute \<Rightarrow> uint32" where
  "field_a off at = (if is_value (attributeID at) then value_a at
     else if ref_buffer at = None then 0 else of_nat off)"

definition field_b :: "host_attribute \<Rightarrow> uint32" where
  "field_b at = (if is_value (attributeID at) then value_b at else ref_length at)"

fun attr_table :: "nat \<Rightarrow> host_attribute list \<Rightarrow> u8 list" where
  "attr_table off [] = []"
| "attr_table off (at # as) = le32 (attributeID at) @ le32 (field_a off at) @ le32 (field_b at) @
     attr_table (off + length (attr_body at)) as"

definition attr_bodies :: "host_attribute list \<Rightarrow> u8 list" where
  "attr_bodies as = concat (map attr_body as)"

text \<open>An attribute whose bytes are there, as the callers of \<open>pack_attrs\<close> provide them.\<close>

definition host_ok :: "host_attribute \<Rightarrow> bool" where
  "host_ok at \<longleftrightarrow> is_value (attributeID at) \<or>
     (case ref_buffer at of None \<Rightarrow> True | Some src \<Rightarrow> unat (ref_length at) \<le> length src)"

definition layout_size :: "host_attribute list \<Rightarrow> nat" where
  "layout_size as = 4 + 12 * length as + length (attr_bodies as)"

lemma length_attr_table [simp]: "length (attr_table off as) = 12 * length as"
  by (induction as arbitrary: off) simp_all

lemma attr_bodies_simps [simp]: "attr_bodies [] = []" "attr_bodies (at # as) = attr_body at @ attr_bodies as"
  by (simp_all add: attr_bodies_def)

lemma unat_ROUNDUP:
  assumes "unat v + 3 < 2 ^ 32"
  shows "unat (ROUNDUP v 4) = 4 * ((unat v + 3) div 4)"
proof -
  have "(4 - 1 :: uint32) = mask 2" by (simp add: mask_eq_exp_minus_1)
  moreover have "w AND NOT (mask 2) = push_bit 2 (drop_bit 2 w)" for w :: uint32
    by (rule bit_word_eqI) (auto simp: bit_simps simp del: add_2_eq_Suc)
  ultimately have r: "ROUNDUP v 4 = push_bit 2 (drop_bit 2 (v + mask 2))" by (simp add: ROUNDUP_def)
  define w where "w = v + mask 2"
  have w: "unat w = unat v + 3"
    using assms unfolding w_def by (simp add: unat_word_ariths mask_eq_exp_minus_1)
  have "unat (push_bit 2 (drop_bit 2 w)) = take_bit 32 (push_bit 2 (drop_bit 2 (unat w)))"
    by (simp add: unsigned_push_bit_eq unat_drop_bit_eq)
  also have "push_bit 2 (drop_bit 2 (unat w)) = 4 * (unat w div 4)"
    by (simp add: push_bit_eq_mult drop_bit_eq_div)
  finally have "unat (ROUNDUP v 4) = take_bit 32 (4 * ((unat v + 3) div 4))"
    by (simp add: r w flip: w_def)
  moreover have "4 * ((unat v + 3) div 4) < 2 ^ 32" using assms by linarith
  ultimately show ?thesis by (simp add: take_bit_nat_eq_self)
qed

lemma ROUNDUP_body:
  assumes "host_ok at" "\<not> is_value (attributeID at)" "ref_buffer at = Some src" "length (attr_body at) < 2 ^ 32"
  shows "unat (ROUNDUP (ref_length at) 4) = length (attr_body at)"
    "length (attr_body at) = 4 * ((unat (ref_length at) + 3) div 4)"
proof -
  have b: "length (attr_body at) = 4 * ((unat (ref_length at) + 3) div 4)"
    using assms by (simp add: attr_body_def host_ok_def)
  then show "length (attr_body at) = 4 * ((unat (ref_length at) + 3) div 4)" .
  have "unat (ref_length at) + 3 < 2 ^ 32"
  proof (rule ccontr)
    assume "\<not> ?thesis"
    then have "2 ^ 32 div 4 \<le> (unat (ref_length at) + 3) div 4" by (intro div_le_mono) simp
    with b assms(4) show False by simp
  qed
  with b show "unat (ROUNDUP (ref_length at) 4) = length (attr_body at)" by (simp add: unat_ROUNDUP)
qed

lemma empty_body: "is_value (attributeID at) \<or> ref_buffer at = None \<Longrightarrow> attr_body at = []"
  by (auto simp: attr_body_def)

lemma rounded_size:
  assumes "host_ok at" "length (attr_body at) < 2 ^ 32"
  shows "(if is_value (attributeID at) \<or> ref_buffer at = None then bl
     else bl + ucast (ROUNDUP (ref_length at) 4)) = (bl + of_nat (length (attr_body at)) :: size_t)"
proof (cases "is_value (attributeID at) \<or> ref_buffer at = None")
  case False
  then have "unat (ROUNDUP (ref_length at) 4) = length (attr_body at)"
    using assms by (auto intro: ROUNDUP_body)
  then have "ucast (ROUNDUP (ref_length at) 4) = (of_nat (length (attr_body at)) :: size_t)"
    using of_nat_unat [of "ROUNDUP (ref_length at) 4"] by metis
  with False show ?thesis by (simp only: if_False)
qed (simp add: empty_body)

section \<open>Packing yields the layout\<close>

lemma packed_size_ok:
  assumes "length as = unat cnt" "\<forall>at \<in> set as. host_ok at" "layout_size as < 2 ^ 32"
  shows "packed_size as cnt = Some (of_nat (layout_size as))"
proof -
  have len: "length (attr_bodies (take n as)) \<le> length (attr_bodies as)" for n
    using arg_cong [OF append_take_drop_id [of n as], of "\<lambda>xs. length (attr_bodies xs)"] by (simp add: attr_bodies_def del: append_take_drop_id)
  have "\<exists>bl. packed_size as cnt = Some bl \<and> bl = of_nat (4 + 12 * unat cnt + length (attr_bodies (take (unat cnt) as)))"
    unfolding packed_size_def
  proof (rule foldM_upt_rule [where I = "\<lambda>n bl. bl = of_nat (4 + 12 * unat cnt + length (attr_bodies (take n as)))"])
    fix n :: nat and bl :: size_t
    assume n: "n < unat cnt" "bl = of_nat (4 + 12 * unat cnt + length (attr_bodies (take n as)))"
    let ?at = "as ! n"
    have at: "ld as n = Some ?at" "host_ok ?at" "attr_bodies (take (Suc n) as) = attr_bodies (take n as) @ attr_body ?at"
      using n assms(1,2) by (simp_all add: ld_def take_Suc_conv_app_nth attr_bodies_def)
    have "length (attr_body ?at) < 2 ^ 32"
      using at(3) len [of "Suc n"] assms(3) by (simp add: layout_size_def)
    then have "(if is_value (attributeID ?at) \<or> ref_buffer ?at = None then bl
        else bl + ucast (ROUNDUP (ref_length ?at) 4)) = bl + of_nat (length (attr_body ?at))"
      by (rule rounded_size [OF at(2)])
    with n(2) show "\<exists>s'. (do {
         at \<leftarrow> ld as n;
         Some (if is_value (attributeID at) \<or> ref_buffer at = None then bl
               else bl + ucast (ROUNDUP (ref_length at) 4))
       }) = Some s' \<and> s' = of_nat (4 + 12 * unat cnt + length (attr_bodies (take (Suc n) as)))"
      by (simp add: at)
  qed simp_all
  then show ?thesis using assms(1) by (simp add: layout_size_def)
qed

lemma entry_stores:
  assumes "length z1 = 4" "length z2 = 4" "length z3 = 4"
  shows "st32 (P @ z1 @ z2 @ z3 @ R) (length P) w = Some (P @ le32 w @ z2 @ z3 @ R)"
    "st32 (P @ z1 @ z2 @ z3 @ R) (length P + 4) w = Some (P @ z1 @ le32 w @ z3 @ R)"
    "st32 (P @ z1 @ z2 @ z3 @ R) (length P + 8) w = Some (P @ z1 @ z2 @ le32 w @ R)"
  using assms st32_app [of _ P z1 "z2 @ z3 @ R" w] st32_app [of _ "P @ z1" z2 "z3 @ R" w]
    st32_app [of _ "P @ z1 @ z2" z3 R w]
  by simp_all

lemma body_split:
  assumes "host_ok at" "\<not> is_value (attributeID at)" "ref_buffer at = Some src"
  shows "memcpy (xs @ replicate (length (attr_body at)) 0 @ ys) (length xs) src (unat (ref_length at)) = Some (xs @ attr_body at @ ys)"
proof -
  let ?n = "unat (ref_length at)" and ?p = "4 * ((unat (ref_length at) + 3) div 4) - unat (ref_length at)"
  have n: "?n \<le> length src" using assms by (simp add: host_ok_def)
  have "attr_body at = take ?n src @ replicate ?p 0" using assms by (simp add: attr_body_def)
  moreover from this n have "replicate (length (attr_body at)) (0 :: u8) = replicate ?n 0 @ replicate ?p 0"
    by (simp add: replicate_add [symmetric])
  moreover have "memcpy (xs @ replicate ?n 0 @ replicate ?p 0 @ ys) (length xs) src ?n =
      Some (xs @ take ?n src @ replicate ?p 0 @ ys)"
    using n by (simp add: memcpy_def put_block_def)
  ultimately show ?thesis by simp
qed

lemma pack_attr_ok:
  assumes "host_ok at" "length P = 4 + 12 * length ds" "length z1 = 4" "length z2 = 4" "length z3 = 4"
    "off = length (P @ z1 @ z2 @ z3 @ Q)" "length (attr_body at) < 2 ^ 32"
  shows "pack_attr (ds @ at # as) (length ds) (P @ z1 @ z2 @ z3 @ Q @ replicate (length (attr_body at)) 0 @ R, off) =
    Some (P @ le32 (attributeID at) @ le32 (field_a off at) @ le32 (field_b at) @ Q @ attr_body at @ R,
      off + length (attr_body at))"
proof -
  have at: "ld (ds @ at # as) (length ds) = Some at" by (simp add: ld_def)
  have P: "4 + 12 * length ds = length P" using assms(2) by simp
  note st = entry_stores [OF _ _ _, of _ _ _ P]
  consider "is_value (attributeID at)" | "\<not> is_value (attributeID at)" "ref_buffer at = None"
    | src where "\<not> is_value (attributeID at)" "ref_buffer at = Some src" by fastforce
  then show ?thesis
  proof cases
    case 3
    note m = body_split [OF assms(1) 3, of "P @ le32 (attributeID at) @ z2 @ le32 (ref_length at) @ Q" R]
    have "length (P @ le32 (attributeID at) @ z2 @ le32 (ref_length at) @ Q) = off" using assms(3-6) by simp
    with m ROUNDUP_body(1) [OF assms(1) 3 assms(7)] 3 show ?thesis
      unfolding pack_attr_def prod.case at P by (simp add: st assms(3-5) field_a_def field_b_def)
  qed (unfold pack_attr_def prod.case at P, simp_all add: st assms(3-5) field_a_def field_b_def attr_body_def)
qed

lemma pack_attr_loop:
  assumes "\<forall>at \<in> set as. host_ok at" "length P + 12 * length as + length Q + length (attr_bodies as) < 2 ^ 32"
    "length P = 4 + 12 * length ds"
  shows "foldM (pack_attr (ds @ as)) [length ds..<length ds + length as]
    (P @ replicate (12 * length as) 0 @ Q @ replicate (length (attr_bodies as)) 0, length P + 12 * length as + length Q) =
    Some (P @ attr_table (length P + 12 * length as + length Q) as @ Q @ attr_bodies as,
      length P + 12 * length as + length Q + length (attr_bodies as))"
  using assms
proof (induction as arbitrary: ds P Q)
  case (Cons at as)
  let ?off = "length P + 12 * length (at # as) + length Q"
  let ?h = "le32 (attributeID at) @ le32 (field_a ?off at) @ le32 (field_b at)"
  let ?z = "replicate 4 (0 :: u8)" and ?Z = "replicate (12 * length as) (0 :: u8)"
  let ?R = "replicate (length (attr_bodies as)) (0 :: u8)"
  have z: "replicate (12 * length (at # as)) 0 = ?z @ ?z @ ?z @ ?Z" by (simp add: replicate_add [symmetric] add.commute)
  have r: "replicate (length (attr_bodies (at # as))) 0 = replicate (length (attr_body at)) 0 @ ?R" by (simp add: replicate_add)
  have step: "pack_attr (ds @ at # as) (length ds)
     (P @ replicate (12 * length (at # as)) 0 @ Q @ replicate (length (attr_bodies (at # as))) 0, ?off) =
     Some ((P @ ?h) @ ?Z @ (Q @ attr_body at) @ ?R, ?off + length (attr_body at))"
    using pack_attr_ok [of at P ds ?z ?z ?z ?off "?Z @ Q" as ?R] Cons.prems unfolding z r by simp
  have "[length ds..<length ds + length (at # as)] = length ds # [length (ds @ [at])..<length (ds @ [at]) + length as]"
    by (simp add: upt_rec)
  then show ?case
    using step Cons.IH [of "P @ ?h" "Q @ attr_body at" "ds @ [at]"] Cons.prems
    by (simp add: ac_simps)
qed simp

text \<open>What \<open>pack_attrs\<close> writes.\<close>

lemma pack_attrs_layout:
  assumes "length as = unat cnt" "cnt \<noteq> 0" "\<forall>at \<in> set as. host_ok at" "layout_size as < 2 ^ 32"
    "calloc (of_nat (layout_size as))"
  shows "pack_attrs calloc as cnt =
    Some (TEE_SUCCESS, Some (le32 cnt @ attr_table (4 + 12 * length as) as @ attr_bodies as), of_nat (layout_size as))"
proof -
  have sz: "unat (of_nat (layout_size as) :: size_t) = layout_size as"
    using assms(4) by (simp add: unsigned_of_nat take_bit_nat_eq_self)
  have "st32 (replicate (layout_size as) 0) 0 cnt = Some (le32 cnt @ replicate (12 * length as) 0 @ replicate (length (attr_bodies as)) 0)"
    using st32_app [of 0 "[]" "replicate 4 0" "replicate (12 * length as) 0 @ replicate (length (attr_bodies as)) 0" cnt]
    by (simp add: layout_size_def replicate_add)
  moreover have "foldM (pack_attr as) [0..<unat cnt]
      (le32 cnt @ replicate (12 * length as) 0 @ replicate (length (attr_bodies as)) 0, 4 + 12 * unat cnt) =
      Some (le32 cnt @ attr_table (4 + 12 * length as) as @ attr_bodies as, layout_size as)"
    using pack_attr_loop [of as "le32 cnt" "[]" "[]"] assms by (simp add: layout_size_def)
  ultimately show ?thesis
    using assms packed_size_ok [OF assms(1,3,4)] by (simp add: pack_attrs_def sz)
qed

section \<open>Unpacking arbitrary buffers\<close>

text \<open>A memory attribute is \<open>NULL\<close> or lies within the buffer at \<open>addr\<close>.\<close>

definition in_buffer :: "size_t \<Rightarrow> size_t \<Rightarrow> ta_attribute \<Rightarrow> bool" where
  "in_buffer addr blen at \<longleftrightarrow> is_value (attributeID at) \<or> ref_buffer at = 0 \<or>
     unat addr \<le> unat (ref_buffer at) \<and>
     unat (ref_buffer at) + unat (ref_length at) \<le> unat addr + unat blen"

lemma unat_sum_32: "unat (ucast (v :: uint32) + ucast (w :: uint32) :: size_t) = unat v + unat w"
proof -
  have "unat v < 2 ^ 32" "unat w < 2 ^ 32" using unsigned_less [of v, where ?'a = nat] unsigned_less [of w, where ?'a = nat] by simp_all
  then show ?thesis by (simp add: unat_word_ariths)
qed

lemma offset_in_buffer:
  fixes pa pb :: uint32
  assumes "\<not> blen < ucast pa + (ucast pb :: size_t)" "unat addr + unat blen < 2 ^ 64"
  shows "in_buffer addr blen (zero_attribute\<lparr>attributeID := i, ref_buffer := ucast pa + addr, ref_length := pb\<rparr>)"
proof -
  have b: "unat pa + unat pb \<le> unat blen"
    using assms(1) by (simp add: word_less_nat_alt unat_sum_32)
  then have "unat (ucast pa + addr) = unat pa + unat addr"
    using assms(2) by (simp add: unat_word_ariths)
  with b show ?thesis by (simp add: in_buffer_def)
qed

lemma unpack_loop_safe:
  assumes "4 + 12 * n \<le> length buf" "length a = n" "m \<le> n" "unat addr + unat blen < 2 ^ 64"
  shows "\<exists>res a'. unpack_loop addr buf blen [m..<n] a = Some (res, a') \<and> length a' = n \<and> take m a' = take m a \<and>
    (res = TEE_SUCCESS \<longrightarrow> (\<forall>k. m \<le> k \<and> k < n \<longrightarrow> in_buffer addr blen (a' ! k)))"
  using assms(2,3)
proof (induction "n - m" arbitrary: m a)
  case (Suc d)
  then have m: "m < n" "[m..<n] = m # [Suc m..<n]" by (auto simp: upt_rec)
  have d: "d = n - Suc m" using Suc.hyps(2) by simp
  obtain i pa pb where l: "ld32 buf (4 + 12 * m) = Some i" "ld32 buf (8 + 12 * m) = Some pa" "ld32 buf (12 + 12 * m) = Some pb"
    using ld32_total [of "4 + 12 * m" buf] ld32_total [of "8 + 12 * m" buf] ld32_total [of "12 + 12 * m" buf]
      assms(1) m(1) by auto
  have IH: "\<exists>res a'. unpack_loop addr buf blen [Suc m..<n] (a[m := x]) = Some (res, a') \<and> length a' = n \<and> take m a' = take m a \<and>
      (res = TEE_SUCCESS \<longrightarrow> (\<forall>k. m \<le> k \<and> k < n \<longrightarrow> in_buffer addr blen (a' ! k)))"
    if x: "in_buffer addr blen x" for x
  proof -
    obtain res a' where a': "unpack_loop addr buf blen [Suc m..<n] (a[m := x]) = Some (res, a')" "length a' = n"
      "take (Suc m) a' = take (Suc m) (a[m := x])"
      "res = TEE_SUCCESS \<longrightarrow> (\<forall>k. Suc m \<le> k \<and> k < n \<longrightarrow> in_buffer addr blen (a' ! k))"
      using Suc.hyps(1) [of "Suc m" "a[m := x]"] d Suc.prems m(1) by auto
    have "take m a' = take m a" using arg_cong [OF a'(3), of "take m"] by simp
    moreover have "a' ! m = x"
      using arg_cong [OF a'(3), of "\<lambda>xs. xs ! m"] m(1) Suc.prems(1) by simp
    ultimately show ?thesis using a' x by (metis le_antisym not_less_eq_eq)
  qed
  have v: "in_buffer addr blen (zero_attribute\<lparr>attributeID := i, value_a := pa, value_b := pb\<rparr>)" if "is_value i"
    using that by (simp add: in_buffer_def)
  have z: "in_buffer addr blen (zero_attribute\<lparr>attributeID := i, ref_buffer := 0, ref_length := pb\<rparr>)"
    by (simp add: in_buffer_def)
  show ?case
    using IH [OF v] IH [OF z] IH [OF offset_in_buffer [of blen pa pb addr i]] assms(4) m Suc.prems(1)
    by (auto simp: l st_def Let_def TEE_SUCCESS_def TEE_ERROR_BAD_PARAMETERS_def)
qed (use assms in auto)

text \<open>The number of entries that pass the size check fits the buffer.\<close>

lemma unat_times_12: "unat (ucast (num :: uint32) * (12 :: size_t)) = unat num * 12"
  using unsigned_less [of num, where ?'a = nat] by (simp add: unat_word_ariths)

lemma unat_minus_4: "4 \<le> unat blen \<Longrightarrow> unat (blen - 4 :: size_t) = unat blen - 4"
  by (simp add: unat_sub word_le_nat_alt)

lemma entries_fit:
  "\<not> blen - 4 < ucast (num :: uint32) * (12 :: size_t) \<Longrightarrow> 4 \<le> unat blen \<Longrightarrow> 4 + 12 * unat num \<le> unat blen"
  by (simp add: word_less_nat_alt unat_times_12 unat_minus_4)

lemma fits_entries:
  "4 + 12 * unat num \<le> unat blen \<Longrightarrow>
     \<not> blen - 4 < ucast (num :: uint32) * (12 :: size_t) \<and> \<not> blen < 4 \<and> blen \<noteq> 0"
  by (auto simp: word_less_nat_alt unat_times_12 unat_minus_4)

lemma ucast_up_0: "ucast (w :: uint32) = (0 :: size_t) \<longleftrightarrow> w = 0"
  by (metis ucast_down_up unsigned_0)

lemma unpack_attrs_in_bounds:
  assumes "length buf = unat blen" "unat addr + unat blen < 2 ^ 64"
  shows "\<exists>res p as cnt m'. unpack_attrs api addr buf blen m = Some (res, p, as, cnt, m') \<and>
    length as = unat cnt \<and> (\<forall>at \<in> set as. in_buffer addr blen at)"
proof (cases "blen = 0 \<or> addr AND 3 \<noteq> 0 \<or> blen < 4")
  case False
  then have "4 \<le> unat blen" by (simp add: word_less_nat_alt)
  with assms(1) obtain num where num: "ld32 buf 0 = Some num" using ld32_total [of 0 buf] by auto
  let ?n = "ucast num :: size_t"
  obtain p m1 where p: "TEE_Malloc api (?n * 24) m = (p, m1)" by force
  show ?thesis
  proof (cases "blen - 4 < ?n * 12 \<or> ?n = 0 \<or> p = 0")
    case True
    with False p num show ?thesis by (auto simp: unpack_attrs_def Let_def)
  next
    case b: False
    with False have "4 + 12 * unat num \<le> length buf" using entries_fit [of blen num] \<open>4 \<le> unat blen\<close> assms(1) by simp
    from unpack_loop_safe [OF this, of "replicate (unat num) zero_attribute" 0 addr blen] assms(2)
    obtain res a where a: "unpack_loop addr buf blen [0..<unat num] (replicate (unat num) zero_attribute) = Some (res, a)"
      "length a = unat num" "res = TEE_SUCCESS \<longrightarrow> (\<forall>k < unat num. in_buffer addr blen (a ! k))"
      by auto
    with False b p num show ?thesis
      by (auto simp: unpack_attrs_def Let_def in_set_conv_nth)
  qed
qed (auto simp: unpack_attrs_def)

section \<open>Unpacking what was packed\<close>

definition ta_attr :: "size_t \<Rightarrow> nat \<Rightarrow> host_attribute \<Rightarrow> ta_attribute" where
  "ta_attr addr off at =
     (if is_value (attributeID at) then zero_attribute\<lparr>attributeID := attributeID at, value_a := value_a at, value_b := value_b at\<rparr>
      else zero_attribute\<lparr>attributeID := attributeID at,
        ref_buffer := (if ref_buffer at = None then 0 else of_nat off + addr), ref_length := ref_length at\<rparr>)"

fun unpacked :: "size_t \<Rightarrow> nat \<Rightarrow> host_attribute list \<Rightarrow> ta_attribute list" where
  "unpacked addr off [] = []"
| "unpacked addr off (at # as) = ta_attr addr off at # unpacked addr (off + length (attr_body at)) as"

lemma length_unpacked [simp]: "length (unpacked addr off as) = length as"
  by (induction as arbitrary: off) simp_all

lemma ref_length_body:
  "host_ok at \<Longrightarrow> \<not> is_value (attributeID at) \<Longrightarrow> ref_buffer at \<noteq> None \<Longrightarrow> unat (ref_length at) \<le> length (attr_body at)"
  by (auto simp: attr_body_def host_ok_def)

lemma off_32: "0 < off \<Longrightarrow> off < 2 ^ 32 \<Longrightarrow> (ucast (of_nat off :: uint32) :: size_t) = of_nat off \<and> (of_nat off :: size_t) \<noteq> 0"
proof -
  assume "0 < off" "off < 2 ^ 32"
  then have "unat (of_nat off :: uint32) = off" "unat (of_nat off :: size_t) = off"
    by (simp_all add: unsigned_of_nat take_bit_nat_eq_self)
  then show ?thesis using \<open>0 < off\<close> by (metis unat_ucast_32_64 word_unat_eq_iff not_gr_zero unat_0)
qed

lemma unpack_loop_layout:
  assumes "\<forall>at \<in> set as. host_ok at" "0 < off" "off + length (attr_bodies as) \<le> unat blen" "unat blen < 2 ^ 32"
    "buf = P @ attr_table off as @ Z" "length P = 4 + 12 * n" "length a = n + length as"
  shows "unpack_loop addr buf blen [n..<n + length as] a = Some (TEE_SUCCESS, take n a @ unpacked addr off as)"
  using assms
proof (induction as arbitrary: off P n a)
  case (Cons at as)
  let ?x = "ta_attr addr off at"
  have n: "[n..<n + length (at # as)] = n # [Suc n..<Suc n + length as]" by (simp add: upt_rec)
  have l: "ld32 buf (4 + 12 * n) = Some (attributeID at)" "ld32 buf (8 + 12 * n) = Some (field_a off at)"
    "ld32 buf (12 + 12 * n) = Some (field_b at)"
    using Cons.prems(5,6) ld32_app [of "4 + 12 * n" P "attributeID at"]
      ld32_app [of "8 + 12 * n" "P @ le32 (attributeID at)" "field_a off at"]
      ld32_app [of "12 + 12 * n" "P @ le32 (attributeID at) @ le32 (field_a off at)" "field_b at"] by simp_all
  have fits: "\<not> blen < ucast (of_nat off :: uint32) + (ucast (ref_length at) :: size_t)"
    if "\<not> is_value (attributeID at)" "ref_buffer at \<noteq> None"
  proof -
    have "unat (ref_length at) \<le> length (attr_body at)" using Cons.prems(1) that by (simp add: ref_length_body)
    moreover have "unat (of_nat off :: uint32) = off"
      using Cons.prems(3,4) by (simp add: unsigned_of_nat take_bit_nat_eq_self)
    ultimately show ?thesis using Cons.prems(3) by (simp add: word_less_nat_alt unat_sum_32)
  qed
  have "unpack_loop addr buf blen [n..<n + length (at # as)] a =
      unpack_loop addr buf blen [Suc n..<Suc n + length as] (a[n := ?x])"
    unfolding n using l fits off_32 [of off] Cons.prems(2,3,4,7)
    by (auto simp: st_def Let_def ta_attr_def field_a_def field_b_def)
  also have "\<dots> = Some (TEE_SUCCESS, take (Suc n) (a[n := ?x]) @ unpacked addr (off + length (attr_body at)) as)"
    using Cons.IH [of "off + length (attr_body at)" "P @ le32 (attributeID at) @ le32 (field_a off at) @ le32 (field_b at)" "Suc n" "a[n := ?x]"]
      Cons.prems by simp
  also have "take (Suc n) (a[n := ?x]) = take n a @ [?x]"
    using Cons.prems(7) by (simp add: take_Suc_conv_app_nth)
  finally show ?case by simp
qed simp

text \<open>
  A TA attribute is the host's: the same identifier, the same values, and memory with the same
  bytes, found in the buffer at \<open>addr\<close>.
\<close>

definition attr_bytes :: "size_t \<Rightarrow> u8 list \<Rightarrow> ta_attribute \<Rightarrow> u8 list" where
  "attr_bytes addr buf at = take (unat (ref_length at)) (drop (unat (ref_buffer at - addr)) buf)"

definition same_attr :: "size_t \<Rightarrow> u8 list \<Rightarrow> host_attribute \<Rightarrow> ta_attribute \<Rightarrow> bool" where
  "same_attr addr buf h t \<longleftrightarrow> attributeID t = attributeID h \<and>
     (if is_value (attributeID h) then value_a t = value_a h \<and> value_b t = value_b h
      else ref_length t = ref_length h \<and>
        (case ref_buffer h of None \<Rightarrow> ref_buffer t = 0
         | Some src \<Rightarrow> ref_buffer t \<noteq> 0 \<and> attr_bytes addr buf t = take (unat (ref_length h)) src))"

lemma same_attr_layout:
  assumes "host_ok at" "0 < length X" "length X < 2 ^ 32" "unat addr + length X < 2 ^ 64"
  shows "same_attr addr (X @ attr_body at @ Y) at (ta_attr addr (length X) at)"
proof -
  have "unat (of_nat (length X) :: size_t) = length X" using assms(3) by (simp add: unsigned_of_nat take_bit_nat_eq_self)
  moreover from this have "unat (of_nat (length X) + addr) = length X + unat addr"
    using assms(4) by (simp add: unat_word_ariths)
  ultimately have "(of_nat (length X) + addr :: size_t) \<noteq> 0" "unat (of_nat (length X) :: size_t) = length X"
    using assms(2) by auto
  then show ?thesis
    using assms(1) by (auto simp: same_attr_def ta_attr_def attr_bytes_def attr_body_def host_ok_def)
qed

lemma unpacked_same:
  assumes "\<forall>at \<in> set as. host_ok at" "0 < length X" "length X + length (attr_bodies as) < 2 ^ 32"
    "unat addr + length X + length (attr_bodies as) < 2 ^ 64" "buf = X @ attr_bodies as"
  shows "list_all2 (same_attr addr buf) as (unpacked addr (length X) as)"
  using assms
proof (induction as arbitrary: X)
  case (Cons at as)
  then show ?case
    using same_attr_layout [of at X addr "attr_bodies as"] Cons.IH [of "X @ attr_body at"] by simp
qed simp

definition buffer_bytes :: "u8 list option \<Rightarrow> u8 list" where
  "buffer_bytes buf = (case buf of None \<Rightarrow> [] | Some b \<Rightarrow> b)"

lemma packed_unpacks:
  assumes "length as = unat cnt" "\<forall>at \<in> set as. host_ok at" "layout_size as < 2 ^ 32"
    "calloc (of_nat (layout_size as))" "addr AND 3 = 0" "unat addr + layout_size as < 2 ^ 64"
    "\<forall>n m. fst (TEE_Malloc api n m) \<noteq> 0"
  shows "\<exists>buf blen p as' m'. pack_attrs calloc as cnt = Some (TEE_SUCCESS, buf, blen) \<and>
    unpack_attrs api addr (buffer_bytes buf) blen m = Some (TEE_SUCCESS, p, as', cnt, m') \<and>
    list_all2 (same_attr addr (buffer_bytes buf)) as as'"
proof (cases "cnt = 0")
  case True
  with assms(1) show ?thesis by (simp add: pack_attrs_def unpack_attrs_def)
next
  case False
  let ?off = "4 + 12 * length as"
  let ?buf = "le32 cnt @ attr_table ?off as @ attr_bodies as" and ?blen = "of_nat (layout_size as) :: size_t"
  have blen: "unat ?blen = layout_size as" using assms(3) by (simp add: unsigned_of_nat take_bit_nat_eq_self)
  obtain p m1 where p: "TEE_Malloc api (ucast cnt * 24) m = (p, m1)" "p \<noteq> 0"
    using assms(7) [rule_format, of "ucast cnt * 24" m] by (cases "TEE_Malloc api (ucast cnt * 24) m") simp
  have num: "ld32 ?buf 0 = Some cnt" using ld32_app [of 0 "[]"] by simp
  have fits: "\<not> ?blen - 4 < ucast cnt * 12" "\<not> ?blen < 4" "?blen \<noteq> 0"
    using fits_entries [of cnt ?blen] blen assms(1) by (simp_all add: layout_size_def)
  have loop: "unpack_loop addr ?buf ?blen [0..<unat cnt] (replicate (unat cnt) zero_attribute) =
      Some (TEE_SUCCESS, unpacked addr ?off as)"
    using unpack_loop_layout [of as ?off ?blen ?buf "le32 cnt" "attr_bodies as" 0 "replicate (unat cnt) zero_attribute" addr]
      assms(1-3) blen by (simp add: layout_size_def)
  have "unpack_attrs api addr ?buf ?blen m = Some (TEE_SUCCESS, p, unpacked addr ?off as, cnt, m1)"
    using fits num p loop assms(5) False by (simp add: unpack_attrs_def ucast_up_0)
  moreover have "list_all2 (same_attr addr ?buf) as (unpacked addr ?off as)"
    using unpacked_same [of as "le32 cnt @ attr_table ?off as" addr ?buf] assms(2,3,6) by (simp add: layout_size_def add.assoc)
  ultimately show ?thesis
    using pack_attrs_layout [of as cnt calloc, OF assms(1) False assms(2-4)] by (simp add: buffer_bytes_def)
qed

section \<open>Properties\<close>

text \<open>
  C17.  Whatever bytes the client passes, \<open>unpack_attrs\<close> reads only inside the buffer, returns, and
  on success hands out only attributes whose memory is \<open>NULL\<close> or inside the buffer.
\<close>

theorem unpack_attrs_safe:
  assumes "length buf = unat blen" "unat addr + unat blen < 2 ^ 64"
  shows "\<exists>res p as cnt m'. unpack_attrs api addr buf blen m = Some (res, p, as, cnt, m') \<and>
    length as = unat cnt \<and> (\<forall>at \<in> set as. in_buffer addr blen at)"
  by (rule unpack_attrs_in_bounds [OF assms])

text \<open>
  C18.  Attributes survive the way from the client to the TA: what \<open>pack_attrs\<close> writes,
  \<open>unpack_attrs\<close> accepts at any 4 byte aligned address and turns into the same attributes.
\<close>

theorem attrs_roundtrip:
  assumes "length as = unat cnt" "\<forall>at \<in> set as. host_ok at" "layout_size as < 2 ^ 32"
    "calloc (of_nat (layout_size as))" "addr AND 3 = 0" "unat addr + layout_size as < 2 ^ 64"
    "\<forall>n m. fst (TEE_Malloc api n m) \<noteq> 0"
  shows "\<exists>buf blen p as' m'. pack_attrs calloc as cnt = Some (TEE_SUCCESS, buf, blen) \<and>
    unpack_attrs api addr (buffer_bytes buf) blen m = Some (TEE_SUCCESS, p, as', cnt, m') \<and>
    list_all2 (same_attr addr (buffer_bytes buf)) as as'"
  by (rule packed_unpacks [of as cnt calloc addr api m, OF assms])

text \<open>A modulus of five bytes, a value attribute, and an absent buffer.\<close>

definition sample_attrs :: "host_attribute list" where
  "sample_attrs = [
     \<lparr>attributeID = 0xD0000130, ref_buffer = Some [1, 2, 3, 4, 5], ref_length = 5, value_a = 0, value_b = 0\<rparr>,
     \<lparr>attributeID = 0xF0000441, ref_buffer = None, ref_length = 0, value_a = 7, value_b = 9\<rparr>,
     \<lparr>attributeID = 0xD0000230, ref_buffer = None, ref_length = 3, value_a = 0, value_b = 0\<rparr>]"

lemma sample_ok: "length sample_attrs = unat (3 :: uint32)" "\<forall>at \<in> set sample_attrs. host_ok at"
  "layout_size sample_attrs = 48"
  by (simp_all add: sample_attrs_def host_ok_def layout_size_def attr_bodies_def attr_body_def is_value_def TEE_ATTR_BIT_VALUE_def)

theorem unpack_attrs_safe_witness:
  "\<exists>res p as cnt m'. unpack_attrs list_heap 0x1000 [2, 0, 0, 0, 255, 255, 255, 255] 8 [] = Some (res, p, as, cnt, m') \<and>
    length as = unat cnt \<and> (\<forall>at \<in> set as. in_buffer 0x1000 8 at)"
  by (rule unpack_attrs_safe) simp_all

theorem attrs_roundtrip_witness:
  "\<exists>buf blen p as' m'. pack_attrs (\<lambda>n. n < 100) sample_attrs 3 = Some (TEE_SUCCESS, buf, blen) \<and>
    unpack_attrs list_heap 0x1000 (buffer_bytes buf) blen [] = Some (TEE_SUCCESS, p, as', 3, m') \<and>
    list_all2 (same_attr 0x1000 (buffer_bytes buf)) sample_attrs as'"
  by (rule attrs_roundtrip [OF sample_ok(1,2)]) (simp_all add: sample_ok list_heap_def)

end
