(* ===== verification/Ta_Contract.thy ===== *)
theory Ta_Contract
  imports Ta_Env
begin

text \<open>
  What the command sets of the trusted applications have in common: a client sends commands one after
  the other, each with its number, types and parameters, and each command keeps to the books.  The
  locales state the contract of one command; the lemmas on sequences follow from it once for all TAs.
\<close>

type_synonym 'm command_handler = "uint32 \<Rightarrow> uint32 \<Rightarrow> tee_params \<Rightarrow> 'm \<Rightarrow> (TEE_Result \<times> tee_params \<times> 'm) option"

type_synonym command = "uint32 \<times> uint32 \<times> tee_params"

text \<open>A sequence of commands; \<^term>\<open>None\<close> when one of them is undefined or does not return\<close>

fun ta_run :: "'m command_handler \<Rightarrow> command list \<Rightarrow> 'm \<Rightarrow> 'm option" where
  "ta_run invoke [] m = Some m"
| "ta_run invoke ((cmd, types, params) # cs) m =
     (case invoke cmd types params m of None \<Rightarrow> None | Some (res, params', m') \<Rightarrow> ta_run invoke cs m')"

text \<open>
  \<open>keeps m m'\<close> relates the states before and after an \<open>admitted\<close> command that returns, and may be
  chained.
\<close>

locale command_set =
  fixes invoke :: "uint32 \<Rightarrow> uint32 \<Rightarrow> tee_params \<Rightarrow> 'm \<Rightarrow> (TEE_Result \<times> tee_params \<times> 'm) option"
    and keeps :: "'m \<Rightarrow> 'm \<Rightarrow> bool"
    and admitted :: "uint32 \<Rightarrow> tee_params \<Rightarrow> bool"
  assumes keeps_refl: "keeps m m"
    and keeps_trans: "keeps m1 m2 \<Longrightarrow> keeps m2 m3 \<Longrightarrow> keeps m1 m3"
    and command_keeps: "admitted cmd params \<Longrightarrow> invoke cmd types params m = Some (res, params', m') \<Longrightarrow> keeps m m'"
begin

lemma run_keeps:
  "\<forall>(cmd, types, params) \<in> set cs. admitted cmd params \<Longrightarrow> ta_run invoke cs m = Some m' \<Longrightarrow> keeps m m'"
proof (induction cs arbitrary: m)
  case Nil
  then show ?case by (simp add: keeps_refl)
next
  case (Cons c cs)
  then show ?case by (auto split: option.splits prod.splits dest: command_keeps intro: keeps_trans)
qed

end

text \<open>A command set in which every admitted command returns\<close>

locale total_command_set = command_set +
  assumes command_returns: "admitted cmd params \<Longrightarrow> \<exists>r. invoke cmd types params m = Some r"
begin

lemma run_returns:
  "\<forall>(cmd, types, params) \<in> set cs. admitted cmd params \<Longrightarrow> \<exists>m'. ta_run invoke cs m = Some m' \<and> keeps m m'"
proof (induction cs arbitrary: m)
  case Nil
  then show ?case by (simp add: keeps_refl)
next
  case (Cons c cs)
  obtain cmd types params where c: "c = (cmd, types, params)" by (cases c)
  have ad: "admitted cmd params" using Cons.prems by (simp add: c)
  obtain res params' m1 where i: "invoke cmd types params m = Some (res, params', m1)"
    using command_returns [OF ad, of types m] by auto
  obtain m2 where "ta_run invoke cs m1 = Some m2" "keeps m1 m2" using Cons.IH [of m1] Cons.prems by auto
  with command_keeps [OF ad i] i show ?case by (auto simp: c intro: keeps_trans)
qed

end

end
