(* ===== verification/Cryp_Taf.thy ===== *)
theory Cryp_Taf
  imports Attr_Codec Ta_Contract
begin

text \<open>
  Model of the commands of \<open>src/ta/crypt/cryp_taf.c\<close>: the client drives the operations and
  objects of the Internal Core API through 32 bit values that stand for handles.  The API is a
  record of functions on a state of an arbitrary type; an output buffer is passed with its size
  and comes back written, with the size the API stored.  A command that passes attributes also
  passes the memory reference their pointers lead into.  Input and output buffers are taken to be
  distinct.
\<close>

record 'm operation_api = "'m heap_api" +
  ta_head :: size_t
  TEE_AllocateOperation :: "uint32 \<Rightarrow> uint32 \<Rightarrow> uint32 \<Rightarrow> 'm \<Rightarrow> TEE_Result \<times> size_t \<times> 'm"
  TEE_FreeOperation :: "size_t \<Rightarrow> 'm \<Rightarrow> 'm"
  TEE_GetOperationInfo :: "size_t \<Rightarrow> 'm \<Rightarrow> u8 list"
  TEE_ResetOperation :: "size_t \<Rightarrow> 'm \<Rightarrow> 'm"
  TEE_SetOperationKey :: "size_t \<Rightarrow> size_t \<Rightarrow> 'm \<Rightarrow> TEE_Result \<times> 'm"
  TEE_SetOperationKey2 :: "size_t \<Rightarrow> size_t \<Rightarrow> size_t \<Rightarrow> 'm \<Rightarrow> TEE_Result \<times> 'm"
  TEE_CopyOperation :: "size_t \<Rightarrow> size_t \<Rightarrow> 'm \<Rightarrow> 'm"
  TEE_DigestUpdate :: "size_t \<Rightarrow> u8 list \<Rightarrow> uint32 \<Rightarrow> 'm \<Rightarrow> 'm"
  TEE_DigestDoFinal :: "size_t \<Rightarrow> u8 list \<Rightarrow> uint32 \<Rightarrow> u8 list \<Rightarrow> uint32 \<Rightarrow> 'm \<Rightarrow> TEE_Result \<times> u8 list \<times> uint32 \<times> 'm"
  TEE_CipherInit :: "size_t \<Rightarrow> u8 list \<Rightarrow> uint32 \<Rightarrow> 'm \<Rightarrow> 'm"
  TEE_CipherUpdate :: "size_t \<Rightarrow> u8 list \<Rightarrow> uint32 \<Rightarrow> u8 list \<Rightarrow> uint32 \<Rightarrow> 'm \<Rightarrow> TEE_Result \<times> u8 list \<times> uint32 \<times> 'm"
  TEE_CipherDoFinal :: "size_t \<Rightarrow> u8 list \<Rightarrow> uint32 \<Rightarrow> u8 list \<Rightarrow> uint32 \<Rightarrow> 'm \<Rightarrow> TEE_Result \<times> u8 list \<times> uint32 \<times> 'm"
  TEE_MACInit :: "size_t \<Rightarrow> u8 list \<Rightarrow> uint32 \<Rightarrow> 'm \<Rightarrow> 'm"
  TEE_MACUpdate :: "size_t \<Rightarrow> u8 list \<Rightarrow> uint32 \<Rightarrow> 'm \<Rightarrow> 'm"
  TEE_MACComputeFinal :: "size_t \<Rightarrow> u8 list \<Rightarrow> uint32 \<Rightarrow> u8 list \<Rightarrow> uint32 \<Rightarrow> 'm \<Rightarrow> TEE_Result \<times> u8 list \<times> uint32 \<times> 'm"
  TEE_MACCompareFinal :: "size_t \<Rightarrow> u8 list \<Rightarrow> uint32 \<Rightarrow> u8 list \<Rightarrow> uint32 \<Rightarrow> 'm \<Rightarrow> TEE_Result \<times> 'm"

record 'm object_api = "'m operation_api" +
  TEE_AllocateTransientObject :: "uint32 \<Rightarrow> uint32 \<Rightarrow> 'm \<Rightarrow> TEE_Result \<times> size_t \<times> 'm"
  TEE_FreeTransientObject :: "size_t \<Rightarrow> 'm \<Rightarrow> 'm"
  TEE_ResetTransientObject :: "size_t \<Rightarrow> 'm \<Rightarrow> 'm"
  TEE_PopulateTransientObject :: "size_t \<Rightarrow> ta_attribute list \<Rightarrow> uint32 \<Rightarrow> tee_param \<Rightarrow> 'm \<Rightarrow> TEE_Result \<times> 'm"
  TEE_CopyObjectAttributes1 :: "size_t \<Rightarrow> size_t \<Rightarrow> 'm \<Rightarrow> TEE_Result \<times> 'm"
  TEE_GenerateKey :: "size_t \<Rightarrow> uint32 \<Rightarrow> ta_attribute list \<Rightarrow> uint32 \<Rightarrow> tee_param \<Rightarrow> 'm \<Rightarrow> TEE_Result \<times> 'm"
  TEE_AsymmetricEncrypt :: "size_t \<Rightarrow> ta_attribute list \<Rightarrow> uint32 \<Rightarrow> tee_param \<Rightarrow> u8 list \<Rightarrow> uint32 \<Rightarrow> u8 list \<Rightarrow> uint32 \<Rightarrow> 'm \<Rightarrow> TEE_Result \<times> u8 list \<times> uint32 \<times> 'm"
  TEE_AsymmetricDecrypt :: "size_t \<Rightarrow> ta_attribute list \<Rightarrow> uint32 \<Rightarrow> tee_param \<Rightarrow> u8 list \<Rightarrow> uint32 \<Rightarrow> u8 list \<Rightarrow> uint32 \<Rightarrow> 'm \<Rightarrow> TEE_Result \<times> u8 list \<times> uint32 \<times> 'm"
  TEE_AsymmetricSignDigest :: "size_t \<Rightarrow> ta_attribute list \<Rightarrow> uint32 \<Rightarrow> tee_param \<Rightarrow> u8 list \<Rightarrow> uint32 \<Rightarrow> u8 list \<Rightarrow> uint32 \<Rightarrow> 'm \<Rightarrow> TEE_Result \<times> u8 list \<times> uint32 \<times> 'm"
  TEE_AsymmetricVerifyDigest :: "size_t \<Rightarrow> ta_attribute list \<Rightarrow> uint32 \<Rightarrow> tee_param \<Rightarrow> u8 list \<Rightarrow> uint32 \<Rightarrow> u8 list \<Rightarrow> uint32 \<Rightarrow> 'm \<Rightarrow> TEE_Result \<times> 'm"
  TEE_DeriveKey :: "size_t \<Rightarrow> ta_attribute list \<Rightarrow> uint32 \<Rightarrow> tee_param \<Rightarrow> size_t \<Rightarrow> 'm \<Rightarrow> 'm"

record 'm cryp_api = "'m object_api" +
  TEE_GenerateRandom :: "u8 list \<Rightarrow> uint32 \<Rightarrow> 'm \<Rightarrow> u8 list \<times> 'm"
  TEE_AEInit :: "size_t \<Rightarrow> u8 list \<Rightarrow> uint32 \<Rightarrow> uint32 \<Rightarrow> uint32 \<Rightarrow> uint32 \<Rightarrow> 'm \<Rightarrow> TEE_Result \<times> 'm"
  TEE_AEUpdateAAD :: "size_t \<Rightarrow> u8 list \<Rightarrow> uint32 \<Rightarrow> 'm \<Rightarrow> 'm"
  TEE_AEUpdate :: "size_t \<Rightarrow> u8 list \<Rightarrow> uint32 \<Rightarrow> u8 list \<Rightarrow> uint32 \<Rightarrow> 'm \<Rightarrow> TEE_Result \<times> u8 list \<times> uint32 \<times> 'm"
  TEE_AEEncryptFinal :: "size_t \<Rightarrow> u8 list \<Rightarrow> uint32 \<Rightarrow> u8 list \<Rightarrow> uint32 \<Rightarrow> u8 list \<Rightarrow> uint32 \<Rightarrow> 'm \<Rightarrow> TEE_Result \<times> u8 list \<times> uint32 \<times> u8 list \<times> uint32 \<times> 'm"
  TEE_AEDecryptFinal :: "size_t \<Rightarrow> u8 list \<Rightarrow> uint32 \<Rightarrow> u8 list \<Rightarrow> uint32 \<Rightarrow> u8 list \<Rightarrow> uint32 \<Rightarrow> 'm \<Rightarrow> TEE_Result \<times> u8 list \<times> uint32 \<times> 'm"
  TEE_GetObjectBufferAttribute :: "size_t \<Rightarrow> uint32 \<Rightarrow> u8 list \<Rightarrow> uint32 \<Rightarrow> 'm \<Rightarrow> TEE_Result \<times> u8 list \<times> uint32 \<times> 'm"
  TEE_GetObjectValueAttribute :: "size_t \<Rightarrow> uint32 \<Rightarrow> 'm \<Rightarrow> TEE_Result \<times> uint32 \<times> uint32 \<times> 'm"

type_synonym 'm cryp_res = "(TEE_Result \<times> tee_params \<times> 'm) option"

section \<open>Checks, handles and parameters\<close>

definition ASSERT_PARAM_TYPE :: "uint32 \<Rightarrow> uint32 \<Rightarrow> tee_params \<Rightarrow> 'm \<Rightarrow> 'm cryp_res \<Rightarrow> 'm cryp_res" where
  "ASSERT_PARAM_TYPE pt param_type params m body =
     (if pt \<noteq> param_type then Some (TEE_ERROR_BAD_PARAMETERS, params, m) else body)"

text \<open>A handle is a pointer; the client sees it as an offset to \<open>ta_head\<close>.\<close>

definition VAL2HANDLE :: "size_t \<Rightarrow> uint32 \<Rightarrow> size_t" where
  "VAL2HANDLE head v = (if v = 0 then 0 else ucast v + head)"

definition HANDLE2VAL :: "size_t \<Rightarrow> size_t \<Rightarrow> uint32" where
  "HANDLE2VAL head h = ucast (if h = 0 then h else h - head)"

abbreviation handle_a :: "('m, 'z) cryp_api_scheme \<Rightarrow> tee_param \<Rightarrow> size_t" where
  "handle_a api p \<equiv> VAL2HANDLE (ta_head api) (val_a p)"

abbreviation handle_b :: "('m, 'z) cryp_api_scheme \<Rightarrow> tee_param \<Rightarrow> size_t" where
  "handle_b api p \<equiv> VAL2HANDLE (ta_head api) (val_b p)"

definition set_memref :: "u8 list \<Rightarrow> uint32 \<Rightarrow> tee_param \<Rightarrow> tee_param" where
  "set_memref b n p = p\<lparr>mbuf := b, msize := n\<rparr>"

lemma set_memref_simps [simp]: "mbuf (set_memref b n p) = b" "msize (set_memref b n p) = n" "maddr (set_memref b n p) = maddr p"
  by (simp_all add: set_memref_def)

text \<open>\<open>sizeof(TEE_OperationInfo)\<close>\<close>

definition sizeof_operation_info :: uint32 where "sizeof_operation_info = 32"

section \<open>Operations\<close>

definition ta_entry_allocate_operation ::
  "('m, 'z) cryp_api_scheme \<Rightarrow> uint32 \<Rightarrow> tee_params \<Rightarrow> 'm \<Rightarrow> 'm cryp_res" where
  "ta_entry_allocate_operation api param_type params m =
     ASSERT_PARAM_TYPE (TEE_PARAM_TYPES PT_VALUE_INOUT PT_VALUE_INPUT PT_NONE PT_NONE) param_type params m (
       let (res, op, m) = TEE_AllocateOperation api (val_b (p0 params)) (val_a (p1 params)) (val_b (p1 params)) m
       in Some (res, params\<lparr>p0 := (p0 params)\<lparr>val_a := HANDLE2VAL (ta_head api) op\<rparr>\<rparr>, m))"

definition ta_entry_free_operation ::
  "('m, 'z) cryp_api_scheme \<Rightarrow> uint32 \<Rightarrow> tee_params \<Rightarrow> 'm \<Rightarrow> 'm cryp_res" where
  "ta_entry_free_operation api param_type params m =
     ASSERT_PARAM_TYPE (TEE_PARAM_TYPES PT_VALUE_INPUT PT_NONE PT_NONE PT_NONE) param_type params m (
       Some (TEE_SUCCESS, params, TEE_FreeOperation api (handle_a api (p0 params)) m))"

definition ta_entry_get_operation_info ::
  "('m, 'z) cryp_api_scheme \<Rightarrow> uint32 \<Rightarrow> tee_params \<Rightarrow> 'm \<Rightarrow> 'm cryp_res" where
  "ta_entry_get_operation_info api param_type params m =
     ASSERT_PARAM_TYPE (TEE_PARAM_TYPES PT_VALUE_INPUT PT_MEMREF_OUTPUT PT_NONE PT_NONE) param_type params m (
       if msize (p1 params) < sizeof_operation_info then Some (TEE_ERROR_SHORT_BUFFER, params, m)
       else do {
         buf \<leftarrow> memcpy (mbuf (p1 params)) 0 (TEE_GetOperationInfo api (handle_a api (p0 params)) m) (unat sizeof_operation_info);
         Some (TEE_SUCCESS, params\<lparr>p1 := set_memref buf sizeof_operation_info (p1 params)\<rparr>, m)
       })"

definition ta_entry_reset_operation ::
  "('m, 'z) cryp_api_scheme \<Rightarrow> uint32 \<Rightarrow> tee_params \<Rightarrow> 'm \<Rightarrow> 'm cryp_res" where
  "ta_entry_reset_operation api param_type params m =
     ASSERT_PARAM_TYPE (TEE_PARAM_TYPES PT_VALUE_INPUT PT_NONE PT_NONE PT_NONE) param_type params m (
       Some (TEE_SUCCESS, params, TEE_ResetOperation api (handle_a api (p0 params)) m))"

definition ta_entry_set_operation_key ::
  "('m, 'z) cryp_api_scheme \<Rightarrow> uint32 \<Rightarrow> tee_params \<Rightarrow> 'm \<Rightarrow> 'm cryp_res" where
  "ta_entry_set_operation_key api param_type params m =
     ASSERT_PARAM_TYPE (TEE_PARAM_TYPES PT_VALUE_INPUT PT_NONE PT_NONE PT_NONE) param_type params m (
       let (res, m) = TEE_SetOperationKey api (handle_a api (p0 params)) (handle_b api (p0 params)) m
       in Some (res, params, m))"

definition ta_entry_set_operation_key2 ::
  "('m, 'z) cryp_api_scheme \<Rightarrow> uint32 \<Rightarrow> tee_params \<Rightarrow> 'm \<Rightarrow> 'm cryp_res" where
  "ta_entry_set_operation_key2 api param_type params m =
     ASSERT_PARAM_TYPE (TEE_PARAM_TYPES PT_VALUE_INPUT PT_VALUE_INPUT PT_NONE PT_NONE) param_type params m (
       let (res, m) = TEE_SetOperationKey2 api (handle_a api (p0 params)) (handle_b api (p0 params)) (handle_a api (p1 params)) m
       in Some (res, params, m))"

definition ta_entry_copy_operation ::
  "('m, 'z) cryp_api_scheme \<Rightarrow> uint32 \<Rightarrow> tee_params \<Rightarrow> 'm \<Rightarrow> 'm cryp_res" where
  "ta_entry_copy_operation api param_type params m =
     ASSERT_PARAM_TYPE (TEE_PARAM_TYPES PT_VALUE_INPUT PT_NONE PT_NONE PT_NONE) param_type params m (
       Some (TEE_SUCCESS, params, TEE_CopyOperation api (handle_a api (p0 params)) (handle_b api (p0 params)) m))"

section \<open>Digests, ciphers and MACs\<close>

definition ta_entry_digest_update ::
  "('m, 'z) cryp_api_scheme \<Rightarrow> uint32 \<Rightarrow> tee_params \<Rightarrow> 'm \<Rightarrow> 'm cryp_res" where
  "ta_entry_digest_update api param_type params m =
     ASSERT_PARAM_TYPE (TEE_PARAM_TYPES PT_VALUE_INPUT PT_MEMREF_INPUT PT_NONE PT_NONE) param_type params m (
       Some (TEE_SUCCESS, params, TEE_DigestUpdate api (handle_a api (p0 params)) (mbuf (p1 params)) (msize (p1 params)) m))"

definition ta_entry_digest_do_final ::
  "('m, 'z) cryp_api_scheme \<Rightarrow> uint32 \<Rightarrow> tee_params \<Rightarrow> 'm \<Rightarrow> 'm cryp_res" where
  "ta_entry_digest_do_final api param_type params m =
     ASSERT_PARAM_TYPE (TEE_PARAM_TYPES PT_VALUE_INPUT PT_MEMREF_INPUT PT_MEMREF_OUTPUT PT_NONE) param_type params m (
       let (res, buf, n, m) = TEE_DigestDoFinal api (handle_a api (p0 params))
           (mbuf (p1 params)) (msize (p1 params)) (mbuf (p2 params)) (msize (p2 params)) m
       in Some (res, params\<lparr>p2 := set_memref buf n (p2 params)\<rparr>, m))"

definition ta_entry_cipher_init ::
  "('m, 'z) cryp_api_scheme \<Rightarrow> uint32 \<Rightarrow> tee_params \<Rightarrow> 'm \<Rightarrow> 'm cryp_res" where
  "ta_entry_cipher_init api param_type params m =
     (if param_type = TEE_PARAM_TYPES PT_VALUE_INPUT PT_NONE PT_NONE PT_NONE then
        Some (TEE_SUCCESS, params, TEE_CipherInit api (handle_a api (p0 params)) [] 0 m)
      else if param_type = TEE_PARAM_TYPES PT_VALUE_INPUT PT_MEMREF_INPUT PT_NONE PT_NONE then
        Some (TEE_SUCCESS, params, TEE_CipherInit api (handle_a api (p0 params)) (mbuf (p1 params)) (msize (p1 params)) m)
      else Some (TEE_ERROR_BAD_PARAMETERS, params, m))"

definition ta_entry_cipher_update ::
  "('m, 'z) cryp_api_scheme \<Rightarrow> uint32 \<Rightarrow> tee_params \<Rightarrow> 'm \<Rightarrow> 'm cryp_res" where
  "ta_entry_cipher_update api param_type params m =
     ASSERT_PARAM_TYPE (TEE_PARAM_TYPES PT_VALUE_INPUT PT_MEMREF_INPUT PT_MEMREF_OUTPUT PT_NONE) param_type params m (
       let (res, buf, n, m) = TEE_CipherUpdate api (handle_a api (p0 params))
           (mbuf (p1 params)) (msize (p1 params)) (mbuf (p2 params)) (msize (p2 params)) m
       in Some (res, params\<lparr>p2 := set_memref buf n (p2 params)\<rparr>, m))"

definition ta_entry_cipher_do_final ::
  "('m, 'z) cryp_api_scheme \<Rightarrow> uint32 \<Rightarrow> tee_params \<Rightarrow> 'm \<Rightarrow> 'm cryp_res" where
  "ta_entry_cipher_do_final api param_type params m =
     ASSERT_PARAM_TYPE (TEE_PARAM_TYPES PT_VALUE_INPUT PT_MEMREF_INPUT PT_MEMREF_OUTPUT PT_NONE) param_type params m (
       let (res, buf, n, m) = TEE_CipherDoFinal api (handle_a api (p0 params))
           (mbuf (p1 params)) (msize (p1 params)) (mbuf (p2 params)) (msize (p2 params)) m
       in Some (res, params\<lparr>p2 := set_memref buf n (p2 params)\<rparr>, m))"

definition ta_entry_mac_init ::
  "('m, 'z) cryp_api_scheme \<Rightarrow> uint32 \<Rightarrow> tee_params \<Rightarrow> 'm \<Rightarrow> 'm cryp_res" where
  "ta_entry_mac_init api param_type params m =
     (if param_type = TEE_PARAM_TYPES PT_VALUE_INPUT PT_NONE PT_NONE PT_NONE then
        Some (TEE_SUCCESS, params, TEE_MACInit api (handle_a api (p0 params)) [] 0 m)
      else if param_type = TEE_PARAM_TYPES PT_VALUE_INPUT PT_MEMREF_INPUT PT_NONE PT_NONE then
        Some (TEE_SUCCESS, params, TEE_MACInit api (handle_a api (p0 params)) (mbuf (p1 params)) (msize (p1 params)) m)
      else Some (TEE_ERROR_BAD_PARAMETERS, params, m))"

definition ta_entry_mac_update ::
  "('m, 'z) cryp_api_scheme \<Rightarrow> uint32 \<Rightarrow> tee_params \<Rightarrow> 'm \<Rightarrow> 'm cryp_res" where
  "ta_entry_mac_update api param_type params m =
     ASSERT_PARAM_TYPE (TEE_PARAM_TYPES PT_VALUE_INPUT PT_MEMREF_INPUT PT_NONE PT_NONE) param_type params m (
       Some (TEE_SUCCESS, params, TEE_MACUpdate api (handle_a api (p0 params)) (mbuf (p1 params)) (msize (p1 params)) m))"

definition ta_entry_mac_final_compute ::
  "('m, 'z) cryp_api_scheme \<Rightarrow> uint32 \<Rightarrow> tee_params \<Rightarrow> 'm \<Rightarrow> 'm cryp_res" where
  "ta_entry_mac_final_compute api param_type params m =
     ASSERT_PARAM_TYPE (TEE_PARAM_TYPES PT_VALUE_INPUT PT_MEMREF_INPUT PT_MEMREF_OUTPUT PT_NONE) param_type params m (
       let (res, buf, n, m) = TEE_MACComputeFinal api (handle_a api (p0 params))
           (mbuf (p1 params)) (msize (p1 params)) (mbuf (p2 params)) (msize (p2 params)) m
       in Some (res, params\<lparr>p2 := set_memref buf n (p2 params)\<rparr>, m))"

definition ta_entry_mac_final_compare ::
  "('m, 'z) cryp_api_scheme \<Rightarrow> uint32 \<Rightarrow> tee_params \<Rightarrow> 'm \<Rightarrow> 'm cryp_res" where
  "ta_entry_mac_final_compare api param_type params m =
     ASSERT_PARAM_TYPE (TEE_PARAM_TYPES PT_VALUE_INPUT PT_MEMREF_INPUT PT_MEMREF_INPUT PT_NONE) param_type params m (
       let (res, m) = TEE_MACCompareFinal api (handle_a api (p0 params)) (mbuf (p1 params)) (msize (p1 params)) (mbuf (p2 params)) (msize (p2 params)) m
       in Some (res, params, m))"

section \<open>Objects and attributes\<close>

definition ta_entry_allocate_transient_object ::
  "('m, 'z) cryp_api_scheme \<Rightarrow> uint32 \<Rightarrow> tee_params \<Rightarrow> 'm \<Rightarrow> 'm cryp_res" where
  "ta_entry_allocate_transient_object api param_type params m =
     ASSERT_PARAM_TYPE (TEE_PARAM_TYPES PT_VALUE_INPUT PT_VALUE_OUTPUT PT_NONE PT_NONE) param_type params m (
       let (res, obj, m) = TEE_AllocateTransientObject api (val_a (p0 params)) (val_b (p0 params)) m
       in Some (res, if res = TEE_SUCCESS then set_val_a1 (HANDLE2VAL (ta_head api) obj) params else params, m))"

definition ta_entry_free_transient_object ::
  "('m, 'z) cryp_api_scheme \<Rightarrow> uint32 \<Rightarrow> tee_params \<Rightarrow> 'm \<Rightarrow> 'm cryp_res" where
  "ta_entry_free_transient_object api param_type params m =
     ASSERT_PARAM_TYPE (TEE_PARAM_TYPES PT_VALUE_INPUT PT_NONE PT_NONE PT_NONE) param_type params m (
       Some (TEE_SUCCESS, params, TEE_FreeTransientObject api (handle_a api (p0 params)) m))"

definition ta_entry_reset_transient_object ::
  "('m, 'z) cryp_api_scheme \<Rightarrow> uint32 \<Rightarrow> tee_params \<Rightarrow> 'm \<Rightarrow> 'm cryp_res" where
  "ta_entry_reset_transient_object api param_type params m =
     ASSERT_PARAM_TYPE (TEE_PARAM_TYPES PT_VALUE_INPUT PT_NONE PT_NONE PT_NONE) param_type params m (
       Some (TEE_SUCCESS, params, TEE_ResetTransientObject api (handle_a api (p0 params)) m))"

text \<open>\<open>unpack_attrs\<close> on the second parameter, and the rest of a command when it succeeds.\<close>

definition with_attrs ::
  "('m, 'z) cryp_api_scheme \<Rightarrow> tee_params \<Rightarrow> 'm \<Rightarrow>
     (ptr \<Rightarrow> ta_attribute list \<Rightarrow> uint32 \<Rightarrow> 'm \<Rightarrow> 'm cryp_res) \<Rightarrow> 'm cryp_res" where
  "with_attrs api params m k = do {
     (res, attrs, as, attr_count, m) \<leftarrow>
       unpack_attrs api (maddr (p1 params)) (mbuf (p1 params)) (ucast (msize (p1 params))) m;
     if res \<noteq> TEE_SUCCESS then Some (res, params, m)
     else k attrs as attr_count m
   }"

definition ta_entry_populate_transient_object ::
  "('m, 'z) cryp_api_scheme \<Rightarrow> uint32 \<Rightarrow> tee_params \<Rightarrow> 'm \<Rightarrow> 'm cryp_res" where
  "ta_entry_populate_transient_object api param_type params m =
     ASSERT_PARAM_TYPE (TEE_PARAM_TYPES PT_VALUE_INPUT PT_MEMREF_INPUT PT_NONE PT_NONE) param_type params m (
       with_attrs api params m (\<lambda>attrs as attr_count m.
         let (res, m) = TEE_PopulateTransientObject api (handle_a api (p0 params)) as attr_count (p1 params) m
         in Some (res, params, TEE_Free api attrs m)))"

definition ta_entry_copy_object_attributes ::
  "('m, 'z) cryp_api_scheme \<Rightarrow> uint32 \<Rightarrow> tee_params \<Rightarrow> 'm \<Rightarrow> 'm cryp_res" where
  "ta_entry_copy_object_attributes api param_type params m =
     ASSERT_PARAM_TYPE (TEE_PARAM_TYPES PT_VALUE_INPUT PT_NONE PT_NONE PT_NONE) param_type params m (
       let (res, m) = TEE_CopyObjectAttributes1 api (handle_a api (p0 params)) (handle_b api (p0 params)) m
       in Some (res, params, m))"

definition ta_entry_generate_key ::
  "('m, 'z) cryp_api_scheme \<Rightarrow> uint32 \<Rightarrow> tee_params \<Rightarrow> 'm \<Rightarrow> 'm cryp_res" where
  "ta_entry_generate_key api param_type params m =
     ASSERT_PARAM_TYPE (TEE_PARAM_TYPES PT_VALUE_INPUT PT_MEMREF_INPUT PT_NONE PT_NONE) param_type params m (
       with_attrs api params m (\<lambda>attrs as attr_count m.
         let (res, m) = TEE_GenerateKey api (handle_a api (p0 params)) (val_b (p0 params)) as attr_count (p1 params) m
         in Some (res, params, TEE_Free api attrs m)))"

section \<open>Asymmetric operations and key derivation\<close>

definition ta_entry_asymmetric_encrypt ::
  "('m, 'z) cryp_api_scheme \<Rightarrow> uint32 \<Rightarrow> tee_params \<Rightarrow> 'm \<Rightarrow> 'm cryp_res" where
  "ta_entry_asymmetric_encrypt api param_type params m =
     ASSERT_PARAM_TYPE (TEE_PARAM_TYPES PT_VALUE_INPUT PT_MEMREF_INPUT PT_MEMREF_INPUT PT_MEMREF_OUTPUT) param_type params m (
       with_attrs api params m (\<lambda>attrs as attr_count m.
         let (res, buf, n, m) = TEE_AsymmetricEncrypt api (handle_a api (p0 params)) as attr_count (p1 params)
             (mbuf (p2 params)) (msize (p2 params))
             (mbuf (p3 params)) (msize (p3 params)) m
         in Some (res, params\<lparr>p3 := set_memref buf n (p3 params)\<rparr>, TEE_Free api attrs m)))"

definition ta_entry_asymmetric_decrypt ::
  "('m, 'z) cryp_api_scheme \<Rightarrow> uint32 \<Rightarrow> tee_params \<Rightarrow> 'm \<Rightarrow> 'm cryp_res" where
  "ta_entry_asymmetric_decrypt api param_type params m =
     ASSERT_PARAM_TYPE (TEE_PARAM_TYPES PT_VALUE_INPUT PT_MEMREF_INPUT PT_MEMREF_INPUT PT_MEMREF_OUTPUT) param_type params m (
       with_attrs api params m (\<lambda>attrs as attr_count m.
         let (res, buf, n, m) = TEE_AsymmetricDecrypt api (handle_a api (p0 params)) as attr_count (p1 params)
             (mbuf (p2 params)) (msize (p2 params))
             (mbuf (p3 params)) (msize (p3 params)) m
         in Some (res, params\<lparr>p3 := set_memref buf n (p3 params)\<rparr>, TEE_Free api attrs m)))"

definition ta_entry_asymmetric_sign_digest ::
  "('m, 'z) cryp_api_scheme \<Rightarrow> uint32 \<Rightarrow> tee_params \<Rightarrow> 'm \<Rightarrow> 'm cryp_res" where
  "ta_entry_asymmetric_sign_digest api param_type params m =
     ASSERT_PARAM_TYPE (TEE_PARAM_TYPES PT_VALUE_INPUT PT_MEMREF_INPUT PT_MEMREF_INPUT PT_MEMREF_OUTPUT) param_type params m (
       with_attrs api params m (\<lambda>attrs as attr_count m.
         let (res, buf, n, m) = TEE_AsymmetricSignDigest api (handle_a api (p0 params)) as attr_count (p1 params)
             (mbuf (p2 params)) (msize (p2 params))
             (mbuf (p3 params)) (msize (p3 params)) m
         in Some (res, params\<lparr>p3 := set_memref buf n (p3 params)\<rparr>, TEE_Free api attrs m)))"

definition ta_entry_asymmetric_verify_digest ::
  "('m, 'z) cryp_api_scheme \<Rightarrow> uint32 \<Rightarrow> tee_params \<Rightarrow> 'm \<Rightarrow> 'm cryp_res" where
  "ta_entry_asymmetric_verify_digest api param_type params m =
     ASSERT_PARAM_TYPE (TEE_PARAM_TYPES PT_VALUE_INPUT PT_MEMREF_INPUT PT_MEMREF_INPUT PT_MEMREF_INPUT) param_type params m (
       with_attrs api params m (\<lambda>attrs as attr_count m.
         let (res, m) = TEE_AsymmetricVerifyDigest api (handle_a api (p0 params)) as attr_count (p1 params)
             (mbuf (p2 params)) (msize (p2 params))
             (mbuf (p3 params)) (msize (p3 params)) m
         in Some (res, params, TEE_Free api attrs m)))"

definition ta_entry_derive_key ::
  "('m, 'z) cryp_api_scheme \<Rightarrow> uint32 \<Rightarrow> tee_params \<Rightarrow> 'm \<Rightarrow> 'm cryp_res" where
  "ta_entry_derive_key api param_type params m =
     ASSERT_PARAM_TYPE (TEE_PARAM_TYPES PT_VALUE_INPUT PT_MEMREF_INPUT PT_NONE PT_NONE) param_type params m (
       with_attrs api params m (\<lambda>attrs as attr_count m.
         let m = TEE_DeriveKey api (handle_a api (p0 params)) as attr_count (p1 params) (handle_b api (p0 params)) m
         in Some (TEE_SUCCESS, params, TEE_Free api attrs m)))"

definition ta_entry_random_number_generate ::
  "('m, 'z) cryp_api_scheme \<Rightarrow> uint32 \<Rightarrow> tee_params \<Rightarrow> 'm \<Rightarrow> 'm cryp_res" where
  "ta_entry_random_number_generate api param_type params m =
     ASSERT_PARAM_TYPE (TEE_PARAM_TYPES PT_MEMREF_OUTPUT PT_NONE PT_NONE PT_NONE) param_type params m (
       let (buf, m) = TEE_GenerateRandom api (mbuf (p0 params)) (msize (p0 params)) m
       in Some (TEE_SUCCESS, params\<lparr>p0 := set_memref buf (msize (p0 params)) (p0 params)\<rparr>, m))"

section \<open>Authenticated encryption\<close>

definition ta_entry_ae_init ::
  "('m, 'z) cryp_api_scheme \<Rightarrow> uint32 \<Rightarrow> tee_params \<Rightarrow> 'm \<Rightarrow> 'm cryp_res" where
  "ta_entry_ae_init api param_type params m =
     ASSERT_PARAM_TYPE (TEE_PARAM_TYPES PT_VALUE_INPUT PT_MEMREF_INPUT PT_VALUE_INPUT PT_NONE) param_type params m (
       let (res, m) = TEE_AEInit api (handle_a api (p0 params)) (mbuf (p1 params)) (msize (p1 params))
           (val_b (p0 params) * 8) (val_a (p2 params)) (val_b (p2 params)) m
       in Some (res, params, m))"

definition ta_entry_ae_update_aad ::
  "('m, 'z) cryp_api_scheme \<Rightarrow> uint32 \<Rightarrow> tee_params \<Rightarrow> 'm \<Rightarrow> 'm cryp_res" where
  "ta_entry_ae_update_aad api param_type params m =
     ASSERT_PARAM_TYPE (TEE_PARAM_TYPES PT_VALUE_INPUT PT_MEMREF_INPUT PT_NONE PT_NONE) param_type params m (
       Some (TEE_SUCCESS, params, TEE_AEUpdateAAD api (handle_a api (p0 params)) (mbuf (p1 params)) (msize (p1 params)) m))"

definition ta_entry_ae_update ::
  "('m, 'z) cryp_api_scheme \<Rightarrow> uint32 \<Rightarrow> tee_params \<Rightarrow> 'm \<Rightarrow> 'm cryp_res" where
  "ta_entry_ae_update api param_type params m =
     ASSERT_PARAM_TYPE (TEE_PARAM_TYPES PT_VALUE_INPUT PT_MEMREF_INPUT PT_MEMREF_OUTPUT PT_NONE) param_type params m (
       let (res, buf, n, m) = TEE_AEUpdate api (handle_a api (p0 params))
           (mbuf (p1 params)) (msize (p1 params)) (mbuf (p2 params)) (msize (p2 params)) m
       in Some (TEE_SUCCESS, params\<lparr>p2 := set_memref buf n (p2 params)\<rparr>, m))"

definition ta_entry_ae_encrypt_final ::
  "('m, 'z) cryp_api_scheme \<Rightarrow> uint32 \<Rightarrow> tee_params \<Rightarrow> 'm \<Rightarrow> 'm cryp_res" where
  "ta_entry_ae_encrypt_final api param_type params m =
     ASSERT_PARAM_TYPE (TEE_PARAM_TYPES PT_VALUE_INPUT PT_MEMREF_INPUT PT_MEMREF_OUTPUT PT_MEMREF_OUTPUT) param_type params m (
       let (res, buf, n, tag, tn, m) = TEE_AEEncryptFinal api (handle_a api (p0 params))
           (mbuf (p1 params)) (msize (p1 params)) (mbuf (p2 params)) (msize (p2 params)) (mbuf (p3 params)) (msize (p3 params)) m
       in Some (res, params\<lparr>p2 := set_memref buf n (p2 params), p3 := set_memref tag tn (p3 params)\<rparr>, m))"

definition ta_entry_ae_decrypt_final ::
  "('m, 'z) cryp_api_scheme \<Rightarrow> uint32 \<Rightarrow> tee_params \<Rightarrow> 'm \<Rightarrow> 'm cryp_res" where
  "ta_entry_ae_decrypt_final api param_type params m =
     ASSERT_PARAM_TYPE (TEE_PARAM_TYPES PT_VALUE_INPUT PT_MEMREF_INPUT PT_MEMREF_OUTPUT PT_MEMREF_INPUT) param_type params m (
       let (res, buf, n, m) = TEE_AEDecryptFinal api (handle_a api (p0 params))
           (mbuf (p1 params)) (msize (p1 params)) (mbuf (p2 params)) (msize (p2 params)) (mbuf (p3 params)) (msize (p3 params)) m
       in Some (res, params\<lparr>p2 := set_memref buf n (p2 params)\<rparr>, m))"

section \<open>Reading attributes\<close>

definition ta_entry_get_object_buffer_attribute ::
  "('m, 'z) cryp_api_scheme \<Rightarrow> uint32 \<Rightarrow> tee_params \<Rightarrow> 'm \<Rightarrow> 'm cryp_res" where
  "ta_entry_get_object_buffer_attribute api param_type params m =
     ASSERT_PARAM_TYPE (TEE_PARAM_TYPES PT_VALUE_INPUT PT_MEMREF_OUTPUT PT_NONE PT_NONE) param_type params m (
       let (res, buf, n, m) = TEE_GetObjectBufferAttribute api (handle_a api (p0 params))
           (val_b (p0 params)) (mbuf (p1 params)) (msize (p1 params)) m
       in Some (res, params\<lparr>p1 := set_memref buf n (p1 params)\<rparr>, m))"

definition ta_entry_get_object_value_attribute ::
  "('m, 'z) cryp_api_scheme \<Rightarrow> uint32 \<Rightarrow> tee_params \<Rightarrow> 'm \<Rightarrow> 'm cryp_res" where
  "ta_entry_get_object_value_attribute api param_type params m =
     ASSERT_PARAM_TYPE (TEE_PARAM_TYPES PT_VALUE_INPUT PT_VALUE_OUTPUT PT_NONE PT_NONE) param_type params m (
       let (res, a, b, m) = TEE_GetObjectValueAttribute api (handle_a api (p0 params)) (val_b (p0 params)) m
       in Some (res, params\<lparr>p1 := (p1 params)\<lparr>val_a := a, val_b := b\<rparr>\<rparr>, m))"

lemmas cryp_entry_defs =
  ta_entry_allocate_operation_def
  ta_entry_free_operation_def
  ta_entry_get_operation_info_def
  ta_entry_reset_operation_def
  ta_entry_set_operation_key_def
  ta_entry_set_operation_key2_def
  ta_entry_copy_operation_def
  ta_entry_digest_update_def
  ta_entry_digest_do_final_def
  ta_entry_cipher_init_def
  ta_entry_cipher_update_def
  ta_entry_cipher_do_final_def
  ta_entry_mac_init_def
  ta_entry_mac_update_def
  ta_entry_mac_final_compute_def
  ta_entry_mac_final_compare_def
  ta_entry_allocate_transient_object_def
  ta_entry_free_transient_object_def
  ta_entry_reset_transient_object_def
  ta_entry_populate_transient_object_def
  ta_entry_copy_object_attributes_def
  ta_entry_generate_key_def
  ta_entry_asymmetric_encrypt_def
  ta_entry_asymmetric_decrypt_def
  ta_entry_asymmetric_sign_digest_def
  ta_entry_asymmetric_verify_digest_def
  ta_entry_derive_key_def
  ta_entry_random_number_generate_def
  ta_entry_ae_init_def
  ta_entry_ae_update_aad_def
  ta_entry_ae_update_def
  ta_entry_ae_encrypt_final_def
  ta_entry_ae_decrypt_final_def
  ta_entry_get_object_buffer_attribute_def
  ta_entry_get_object_value_attribute_def

text \<open>The commands by number, as \<open>TA_InvokeCommandEntryPoint\<close> dispatches them.\<close>

definition cryp_cmds ::
  "('m, 'z) cryp_api_scheme \<Rightarrow> (uint32 \<times> (uint32 \<Rightarrow> tee_params \<Rightarrow> 'm \<Rightarrow> 'm cryp_res)) list" where
  "cryp_cmds api = [
     (5, ta_entry_allocate_operation api),
     (6, ta_entry_free_operation api),
     (7, ta_entry_get_operation_info api),
     (8, ta_entry_reset_operation api),
     (9, ta_entry_set_operation_key api),
     (10, ta_entry_set_operation_key2 api),
     (11, ta_entry_copy_operation api),
     (12, ta_entry_digest_update api),
     (13, ta_entry_digest_do_final api),
     (14, ta_entry_cipher_init api),
     (15, ta_entry_cipher_update api),
     (16, ta_entry_cipher_do_final api),
     (17, ta_entry_mac_init api),
     (18, ta_entry_mac_update api),
     (19, ta_entry_mac_final_compute api),
     (20, ta_entry_mac_final_compare api),
     (21, ta_entry_allocate_transient_object api),
     (22, ta_entry_free_transient_object api),
     (23, ta_entry_reset_transient_object api),
     (24, ta_entry_populate_transient_object api),
     (25, ta_entry_copy_object_attributes api),
     (26, ta_entry_generate_key api),
     (27, ta_entry_asymmetric_encrypt api),
     (28, ta_entry_asymmetric_decrypt api),
     (29, ta_entry_asymmetric_sign_digest api),
     (30, ta_entry_asymmetric_verify_digest api),
     (31, ta_entry_derive_key api),
     (32, ta_entry_random_number_generate api),
     (33, ta_entry_ae_init api),
     (34, ta_entry_ae_update_aad api),
     (35, ta_entry_ae_update api),
     (36, ta_entry_ae_encrypt_final api),
     (37, ta_entry_ae_decrypt_final api),
     (38, ta_entry_get_object_buffer_attribute api),
     (39, ta_entry_get_object_value_attribute api)]"

section \<open>Resources\<close>

text \<open>
  What the Internal Core API documents of the functions themselves: the cryptographic functions
  leave the caller's blocks alone, and \<open>TEE_GetOperationInfo\<close> writes one structure.
\<close>

definition operation_laws :: "('m, 'z) cryp_api_scheme \<Rightarrow> ('m \<Rightarrow> ptr set) \<Rightarrow> bool" where
  "operation_laws api live \<longleftrightarrow>
     (\<forall>h m. length (TEE_GetOperationInfo api h m) = 32) \<and>
     (\<forall>x0 x1 x2 m. live (snd (snd (TEE_AllocateOperation api x0 x1 x2 m))) = live m) \<and>
     (\<forall>x0 m. live (TEE_FreeOperation api x0 m) = live m) \<and>
     (\<forall>x0 m. live (TEE_ResetOperation api x0 m) = live m) \<and>
     (\<forall>x0 x1 m. live (snd (TEE_SetOperationKey api x0 x1 m)) = live m) \<and>
     (\<forall>x0 x1 x2 m. live (snd (TEE_SetOperationKey2 api x0 x1 x2 m)) = live m) \<and>
     (\<forall>x0 x1 m. live (TEE_CopyOperation api x0 x1 m) = live m) \<and>
     (\<forall>x0 x1 x2 m. live (TEE_DigestUpdate api x0 x1 x2 m) = live m) \<and>
     (\<forall>x0 x1 x2 x3 x4 m. live (snd (snd (snd (TEE_DigestDoFinal api x0 x1 x2 x3 x4 m)))) = live m) \<and>
     (\<forall>x0 x1 x2 m. live (TEE_CipherInit api x0 x1 x2 m) = live m) \<and>
     (\<forall>x0 x1 x2 x3 x4 m. live (snd (snd (snd (TEE_CipherUpdate api x0 x1 x2 x3 x4 m)))) = live m) \<and>
     (\<forall>x0 x1 x2 x3 x4 m. live (snd (snd (snd (TEE_CipherDoFinal api x0 x1 x2 x3 x4 m)))) = live m) \<and>
     (\<forall>x0 x1 x2 m. live (TEE_MACInit api x0 x1 x2 m) = live m) \<and>
     (\<forall>x0 x1 x2 m. live (TEE_MACUpdate api x0 x1 x2 m) = live m) \<and>
     (\<forall>x0 x1 x2 x3 x4 m. live (snd (snd (snd (TEE_MACComputeFinal api x0 x1 x2 x3 x4 m)))) = live m) \<and>
     (\<forall>x0 x1 x2 x3 x4 m. live (snd (TEE_MACCompareFinal api x0 x1 x2 x3 x4 m)) = live m) \<and>
     (\<forall>x0 x1 m. live (snd (snd (TEE_AllocateTransientObject api x0 x1 m))) = live m) \<and>
     (\<forall>x0 m. live (TEE_FreeTransientObject api x0 m) = live m) \<and>
     (\<forall>x0 m. live (TEE_ResetTransientObject api x0 m) = live m) \<and>
     (\<forall>x0 x1 x2 x3 m. live (snd (TEE_PopulateTransientObject api x0 x1 x2 x3 m)) = live m) \<and>
     (\<forall>x0 x1 m. live (snd (TEE_CopyObjectAttributes1 api x0 x1 m)) = live m) \<and>
     (\<forall>x0 x1 x2 x3 x4 m. live (snd (TEE_GenerateKey api x0 x1 x2 x3 x4 m)) = live m) \<and>
     (\<forall>x0 x1 x2 x3 x4 x5 x6 x7 m. live (snd (snd (snd (TEE_AsymmetricEncrypt api x0 x1 x2 x3 x4 x5 x6 x7 m)))) = live m) \<and>
     (\<forall>x0 x1 x2 x3 x4 x5 x6 x7 m. live (snd (snd (snd (TEE_AsymmetricDecrypt api x0 x1 x2 x3 x4 x5 x6 x7 m)))) = live m) \<and>
     (\<forall>x0 x1 x2 x3 x4 x5 x6 x7 m. live (snd (snd (snd (TEE_AsymmetricSignDigest api x0 x1 x2 x3 x4 x5 x6 x7 m)))) = live m) \<and>
     (\<forall>x0 x1 x2 x3 x4 x5 x6 x7 m. live (snd (TEE_AsymmetricVerifyDigest api x0 x1 x2 x3 x4 x5 x6 x7 m)) = live m) \<and>
     (\<forall>x0 x1 x2 x3 x4 m. live (TEE_DeriveKey api x0 x1 x2 x3 x4 m) = live m) \<and>
     (\<forall>x0 x1 m. live (snd (TEE_GenerateRandom api x0 x1 m)) = live m) \<and>
     (\<forall>x0 x1 x2 x3 x4 x5 m. live (snd (TEE_AEInit api x0 x1 x2 x3 x4 x5 m)) = live m) \<and>
     (\<forall>x0 x1 x2 m. live (TEE_AEUpdateAAD api x0 x1 x2 m) = live m) \<and>
     (\<forall>x0 x1 x2 x3 x4 m. live (snd (snd (snd (TEE_AEUpdate api x0 x1 x2 x3 x4 m)))) = live m) \<and>
     (\<forall>x0 x1 x2 x3 x4 x5 x6 m. live (snd (snd (snd (snd (snd (TEE_AEEncryptFinal api x0 x1 x2 x3 x4 x5 x6 m)))))) = live m) \<and>
     (\<forall>x0 x1 x2 x3 x4 x5 x6 m. live (snd (snd (snd (TEE_AEDecryptFinal api x0 x1 x2 x3 x4 x5 x6 m)))) = live m) \<and>
     (\<forall>x0 x1 x2 x3 m. live (snd (snd (snd (TEE_GetObjectBufferAttribute api x0 x1 x2 x3 m)))) = live m) \<and>
     (\<forall>x0 x1 m. live (snd (snd (snd (TEE_GetObjectValueAttribute api x0 x1 m)))) = live m)"

definition keeps_blocks :: "('m \<Rightarrow> ptr set) \<Rightarrow> 'm \<Rightarrow> 'm cryp_res \<Rightarrow> bool" where
  "keeps_blocks live m r \<longleftrightarrow> (\<exists>res ps m'. r = Some (res, ps, m') \<and> live m' = live m)"

text \<open>A parameter as the TEE passes it: the bytes are there and the addresses do not wrap.\<close>

definition mapped_memref :: "tee_param \<Rightarrow> bool" where
  "mapped_memref p \<longleftrightarrow> memref_ok p \<and> unat (maddr p) + unat (msize p) < 2 ^ 64"

lemma keeps_blocks_ASSERT:
  "keeps_blocks live m (ASSERT_PARAM_TYPE pt param_type ps m r) \<longleftrightarrow> pt \<noteq> param_type \<or> keeps_blocks live m r"
  by (auto simp: ASSERT_PARAM_TYPE_def keeps_blocks_def)

lemma unpack_attrs_blocks:
  assumes "heap_laws api live" "unpack_attrs api addr buf blen m = Some (res, p, as, cnt, m')"
  shows "live m' - {p} = live m \<and> (res \<noteq> TEE_SUCCESS \<longrightarrow> live m' = live m)"
proof (cases "blen = 0 \<or> addr AND 3 \<noteq> 0 \<or> blen < 4")
  case True
  with assms show ?thesis by (auto simp: unpack_attrs_def heap_laws_def split: if_splits)
next
  case False
  with assms(2) obtain num where num: "ld32 buf 0 = Some num"
    by (auto simp: unpack_attrs_def split: bind_splits)
  obtain q m1 where q: "TEE_Malloc api (ucast num * 24) m = (q, m1)" by force
  from assms(1) have z: "\<And>m. 0 \<notin> live m" "\<And>p m. live (TEE_Free api p m) = live m - {p}"
    and l: "if q = 0 then live m1 = live m else q \<notin> live m \<and> live m1 = insert q (live m)"
    using q unfolding heap_laws_def by blast+
  show ?thesis
    using assms(2) False z l unfolding unpack_attrs_def num q
    by (auto simp: Let_def num q split: if_splits bind_splits)
qed

lemma with_attrs_blocks:
  assumes "heap_laws api live" "mapped_memref (p1 params)"
    "\<And>attrs as cnt m'. live m' - {attrs} = live m \<Longrightarrow> keeps_blocks live m (k attrs as cnt m')"
  shows "keeps_blocks live m (with_attrs api params m k)"
proof -
  obtain res p as cnt m' where u: "unpack_attrs api (maddr (p1 params)) (mbuf (p1 params)) (ucast (msize (p1 params))) m = Some (res, p, as, cnt, m')"
    using unpack_attrs_in_bounds [of "mbuf (p1 params)" "ucast (msize (p1 params))" "maddr (p1 params)" api m] assms(2)
    by (auto simp: mapped_memref_def memref_ok_def)
  from unpack_attrs_blocks [OF assms(1) this] assms(3) [of m' p as cnt] show ?thesis
    by (auto simp: with_attrs_def u keeps_blocks_def)
qed

lemma keeps_blocks_done: "live m' = live m \<Longrightarrow> keeps_blocks live m (Some (res, ps, m'))"
  by (simp add: keeps_blocks_def)

lemma keeps_blocks_if: "(b \<Longrightarrow> keeps_blocks live m x) \<Longrightarrow> (\<not> b \<Longrightarrow> keeps_blocks live m y) \<Longrightarrow> keeps_blocks live m (if b then x else y)"
  by simp

lemma cryp_cmd_blocks:
  assumes "heap_laws api live" "operation_laws api live" "mapped_memref (p1 params)"
    "(cmd, f) \<in> set (cryp_cmds api)"
  shows "keeps_blocks live m (f param_type params m)"
  using assms(4) unfolding cryp_cmds_def
  by (auto simp: cryp_entry_defs keeps_blocks_ASSERT Let_def split_beta assms(2) [unfolded operation_laws_def]
      live_free [OF assms(1)] memcpy_def word_less_nat_alt sizeof_operation_info_def
      assms(3) [unfolded mapped_memref_def memref_ok_def]
      intro!: keeps_blocks_done with_attrs_blocks [OF assms(1,3)])

section \<open>Properties\<close>

text \<open>The parameter types \<open>ta_crypt.h\<close> documents for these commands; two of them have an optional IV.\<close>

definition cryp_expected :: "uint32 \<Rightarrow> uint32 list" where
  "cryp_expected cmd =
     (if cmd = 5 then [TEE_PARAM_TYPES PT_VALUE_INOUT PT_VALUE_INPUT PT_NONE PT_NONE]
      else if cmd \<in> {6, 8, 9, 11, 22, 23, 25} then [TEE_PARAM_TYPES PT_VALUE_INPUT PT_NONE PT_NONE PT_NONE]
      else if cmd \<in> {7, 38} then [TEE_PARAM_TYPES PT_VALUE_INPUT PT_MEMREF_OUTPUT PT_NONE PT_NONE]
      else if cmd = 10 then [TEE_PARAM_TYPES PT_VALUE_INPUT PT_VALUE_INPUT PT_NONE PT_NONE]
      else if cmd \<in> {12, 18, 24, 26, 31, 34} then [TEE_PARAM_TYPES PT_VALUE_INPUT PT_MEMREF_INPUT PT_NONE PT_NONE]
      else if cmd \<in> {13, 15, 16, 19, 35} then [TEE_PARAM_TYPES PT_VALUE_INPUT PT_MEMREF_INPUT PT_MEMREF_OUTPUT PT_NONE]
      else if cmd \<in> {14, 17} then
        [TEE_PARAM_TYPES PT_VALUE_INPUT PT_NONE PT_NONE PT_NONE, TEE_PARAM_TYPES PT_VALUE_INPUT PT_MEMREF_INPUT PT_NONE PT_NONE]
      else if cmd = 20 then [TEE_PARAM_TYPES PT_VALUE_INPUT PT_MEMREF_INPUT PT_MEMREF_INPUT PT_NONE]
      else if cmd \<in> {21, 39} then [TEE_PARAM_TYPES PT_VALUE_INPUT PT_VALUE_OUTPUT PT_NONE PT_NONE]
      else if cmd \<in> {27, 28, 29} then [TEE_PARAM_TYPES PT_VALUE_INPUT PT_MEMREF_INPUT PT_MEMREF_INPUT PT_MEMREF_OUTPUT]
      else if cmd = 30 then [TEE_PARAM_TYPES PT_VALUE_INPUT PT_MEMREF_INPUT PT_MEMREF_INPUT PT_MEMREF_INPUT]
      else if cmd = 32 then [TEE_PARAM_TYPES PT_MEMREF_OUTPUT PT_NONE PT_NONE PT_NONE]
      else if cmd = 33 then [TEE_PARAM_TYPES PT_VALUE_INPUT PT_MEMREF_INPUT PT_VALUE_INPUT PT_NONE]
      else if cmd = 36 then [TEE_PARAM_TYPES PT_VALUE_INPUT PT_MEMREF_INPUT PT_MEMREF_OUTPUT PT_MEMREF_OUTPUT]
      else if cmd = 37 then [TEE_PARAM_TYPES PT_VALUE_INPUT PT_MEMREF_INPUT PT_MEMREF_OUTPUT PT_MEMREF_INPUT]
      else [])"

text \<open>
  Every cryptographic command refuses, with \<open>TEE_ERROR_BAD_PARAMETERS\<close> and without calling the
  API, any parameter types but the documented ones.
\<close>

theorem cryp_type_check:
  assumes "(cmd, f) \<in> set (cryp_cmds api)" "pt \<notin> set (cryp_expected cmd)"
  shows "f pt params m = Some (TEE_ERROR_BAD_PARAMETERS, params, m)"
  using assms unfolding cryp_cmds_def
  by (auto simp: cryp_expected_def cryp_entry_defs ASSERT_PARAM_TYPE_def)

text \<open>The commands as \<open>ta_entry.c\<close> finds them by number\<close>

definition cryp_invoke :: "('m, 'z) cryp_api_scheme \<Rightarrow> uint32 \<Rightarrow> uint32 \<Rightarrow> tee_params \<Rightarrow> 'm \<Rightarrow> 'm cryp_res" where
  "cryp_invoke api cmd param_type params m =
     (case map_of (cryp_cmds api) cmd of Some f \<Rightarrow> f param_type params m | None \<Rightarrow> Some (TEE_ERROR_BAD_PARAMETERS, params, m))"

lemma cryp_invoke_blocks:
  assumes "heap_laws api live" "operation_laws api live" "mapped_memref (p1 params)"
  shows "keeps_blocks live m (cryp_invoke api cmd param_type params m)"
  using cryp_cmd_blocks [OF assms] keeps_blocks_done [of live m m]
  by (auto simp: cryp_invoke_def split: option.splits dest: map_of_SomeD)

interpretation cryp: total_command_set "cryp_invoke api" "\<lambda>m m'. live m' = live m"
    "\<lambda>cmd params. heap_laws api live \<and> operation_laws api live \<and> mapped_memref (p1 params)"
  for api live
proof unfold_locales
  fix cmd types m res params' m' and params :: tee_params
  assume "heap_laws api live \<and> operation_laws api live \<and> mapped_memref (p1 params)"
  then have "keeps_blocks live m (cryp_invoke api cmd types params m)" by (simp add: cryp_invoke_blocks)
  then show "\<exists>r. cryp_invoke api cmd types params m = Some r"
    "cryp_invoke api cmd types params m = Some (res, params', m') \<Longrightarrow> live m' = live m"
    by (auto simp: keeps_blocks_def)
qed simp_all

text \<open>
  C20.  Every cryptographic command returns and leaves the heap as it found it: the attribute arrays
  are given back on every path, whatever bytes the client passed as attributes.  A sequence of commands runs to
  its end.
\<close>

theorem cryp_commands_no_leak:
  assumes laws: "heap_laws api live" "operation_laws api live"
    and cmd: "mapped_memref (p1 params)" "(cmd, f) \<in> set (cryp_cmds api)"
    and run: "\<forall>(cmd, types, params) \<in> set cs. mapped_memref (p1 params)"
  shows "(\<exists>res ps m'. f param_type params m = Some (res, ps, m') \<and> live m' = live m) \<and>
    (\<exists>m'. ta_run (cryp_invoke api) cs m = Some m' \<and> live m' = live m)"
proof
  show "\<exists>res ps m'. f param_type params m = Some (res, ps, m') \<and> live m' = live m"
    using cryp_cmd_blocks [OF laws cmd] by (simp add: keeps_blocks_def)
  show "\<exists>m'. ta_run (cryp_invoke api) cs m = Some m' \<and> live m' = live m"
    using cryp.run_returns [of cs api live m] laws run by auto
qed

text \<open>
  A handle survives the client's 32 bit value exactly when it is \<open>NULL\<close> or lies less than
  4 GiB above \<open>ta_head\<close>, and not on it.
\<close>

theorem handle_value_roundtrip:
  "VAL2HANDLE head (HANDLE2VAL head h) = h \<longleftrightarrow> h = 0 \<or> (0 < unat (h - head) \<and> unat (h - head) < 2 ^ 32)"
proof (cases "h = 0")
  case False
  let ?d = "h - head"
  have u: "unat (ucast ?d :: uint32) = unat ?d mod 2 ^ 32"
    by (simp add: unsigned_ucast_eq take_bit_eq_mod)
  have "VAL2HANDLE head (HANDLE2VAL head h) = h \<longleftrightarrow>
      (ucast ?d :: uint32) \<noteq> 0 \<and> ucast (ucast ?d :: uint32) = ?d"
    using False by (auto simp: VAL2HANDLE_def HANDLE2VAL_def algebra_simps)
  also have "\<dots> \<longleftrightarrow> unat ?d mod 2 ^ 32 \<noteq> 0 \<and> unat ?d mod 2 ^ 32 = unat ?d"
    by (simp only: word_unat_eq_iff unat_ucast_32_64 u unat_0)
  also have "\<dots> \<longleftrightarrow> 0 < unat ?d \<and> unat ?d < 2 ^ 32"
    by (metis mod_less mod_less_divisor not_gr_zero zero_less_numeral zero_less_power)
  finally show ?thesis using False by simp
qed (simp add: VAL2HANDLE_def HANDLE2VAL_def)

text \<open>
  \<open>TA_CRYPT_CMD_POPULATE_TRANSIENT_OBJECT\<close> end to end: with a buffer that the client's
  \<open>pack_attrs\<close> made, mapped at any aligned address, the API's \<open>TEE_PopulateTransientObject\<close> is called
  once, with the client's attributes, and its result is returned.
\<close>

theorem populate_from_client:
  assumes "length as = unat cnt" "\<forall>at \<in> set as. host_ok at" "layout_size as < 2 ^ 32"
    "calloc (of_nat (layout_size as))" "maddr (p1 params) AND 3 = 0"
    "unat (maddr (p1 params)) + layout_size as < 2 ^ 64" "\<forall>n m. fst (TEE_Malloc api n m) \<noteq> 0"
    "pack_attrs calloc as cnt = Some (TEE_SUCCESS, buf, blen)"
    "mbuf (p1 params) = buffer_bytes buf" "ucast (msize (p1 params)) = blen"
  shows "\<exists>p as' m1. list_all2 (same_attr (maddr (p1 params)) (mbuf (p1 params))) as as' \<and>
    ta_entry_populate_transient_object api (TEE_PARAM_TYPES PT_VALUE_INPUT PT_MEMREF_INPUT PT_NONE PT_NONE) params m =
      (let (res, m2) = TEE_PopulateTransientObject api (VAL2HANDLE (ta_head api) (val_a (p0 params))) as' cnt (p1 params) m1
       in Some (res, params, TEE_Free api p m2))"
proof -
  obtain p as' m1 where "unpack_attrs api (maddr (p1 params)) (buffer_bytes buf) blen m = Some (TEE_SUCCESS, p, as', cnt, m1)"
    "list_all2 (same_attr (maddr (p1 params)) (buffer_bytes buf)) as as'"
    using packed_unpacks [of as cnt calloc "maddr (p1 params)" api m, OF assms(1-7)] assms(8) by auto
  with assms(9,10) show ?thesis
    by (auto simp: ta_entry_populate_transient_object_def ASSERT_PARAM_TYPE_def with_attrs_def Let_def)
qed

text \<open>
  \<open>ta_entry_ae_update\<close> drops the result of \<open>TEE_AEUpdate\<close>: the client is told success also
  when the API refused, for instance because the output buffer is too short.
\<close>

lemma ae_update_drops_error:
  "\<exists>ps m'. ta_entry_ae_update api (TEE_PARAM_TYPES PT_VALUE_INPUT PT_MEMREF_INPUT PT_MEMREF_OUTPUT PT_NONE) params m =
     Some (TEE_SUCCESS, ps, m')"
  by (simp add: ta_entry_ae_update_def ASSERT_PARAM_TYPE_def split_beta Let_def)

section \<open>Witnesses\<close>

text \<open>An implementation of the API that accepts everything.\<close>

definition sample_api :: "ptr list cryp_api" where
  "sample_api = \<lparr>
    TEE_Malloc = TEE_Malloc list_heap,
    TEE_Free = TEE_Free list_heap,
    ta_head = 0x1000,
    TEE_AllocateOperation = \<lambda>x0 x1 x2 m. (TEE_SUCCESS, 0x2000, m),
    TEE_FreeOperation = \<lambda>x0 m. m,
    TEE_GetOperationInfo = \<lambda>h m. replicate 32 0,
    TEE_ResetOperation = \<lambda>x0 m. m,
    TEE_SetOperationKey = \<lambda>x0 x1 m. (TEE_SUCCESS, m),
    TEE_SetOperationKey2 = \<lambda>x0 x1 x2 m. (TEE_SUCCESS, m),
    TEE_CopyOperation = \<lambda>x0 x1 m. m,
    TEE_DigestUpdate = \<lambda>x0 x1 x2 m. m,
    TEE_DigestDoFinal = \<lambda>x0 x1 x2 x3 x4 m. (TEE_SUCCESS, x3, x4, m),
    TEE_CipherInit = \<lambda>x0 x1 x2 m. m,
    TEE_CipherUpdate = \<lambda>x0 x1 x2 x3 x4 m. (TEE_SUCCESS, x3, x4, m),
    TEE_CipherDoFinal = \<lambda>x0 x1 x2 x3 x4 m. (TEE_SUCCESS, x3, x4, m),
    TEE_MACInit = \<lambda>x0 x1 x2 m. m,
    TEE_MACUpdate = \<lambda>x0 x1 x2 m. m,
    TEE_MACComputeFinal = \<lambda>x0 x1 x2 x3 x4 m. (TEE_SUCCESS, x3, x4, m),
    TEE_MACCompareFinal = \<lambda>x0 x1 x2 x3 x4 m. (TEE_SUCCESS, m),
    TEE_AllocateTransientObject = \<lambda>x0 x1 m. (TEE_SUCCESS, 0x2000, m),
    TEE_FreeTransientObject = \<lambda>x0 m. m,
    TEE_ResetTransientObject = \<lambda>x0 m. m,
    TEE_PopulateTransientObject = \<lambda>x0 x1 x2 x3 m. (TEE_SUCCESS, m),
    TEE_CopyObjectAttributes1 = \<lambda>x0 x1 m. (TEE_SUCCESS, m),
    TEE_GenerateKey = \<lambda>x0 x1 x2 x3 x4 m. (TEE_SUCCESS, m),
    TEE_AsymmetricEncrypt = \<lambda>x0 x1 x2 x3 x4 x5 x6 x7 m. (TEE_SUCCESS, x6, x7, m),
    TEE_AsymmetricDecrypt = \<lambda>x0 x1 x2 x3 x4 x5 x6 x7 m. (TEE_SUCCESS, x6, x7, m),
    TEE_AsymmetricSignDigest = \<lambda>x0 x1 x2 x3 x4 x5 x6 x7 m. (TEE_SUCCESS, x6, x7, m),
    TEE_AsymmetricVerifyDigest = \<lambda>x0 x1 x2 x3 x4 x5 x6 x7 m. (TEE_SUCCESS, m),
    TEE_DeriveKey = \<lambda>x0 x1 x2 x3 x4 m. m,
    TEE_GenerateRandom = \<lambda>x0 x1 m. (x0, m),
    TEE_AEInit = \<lambda>x0 x1 x2 x3 x4 x5 m. (TEE_SUCCESS, m),
    TEE_AEUpdateAAD = \<lambda>x0 x1 x2 m. m,
    TEE_AEUpdate = \<lambda>x0 x1 x2 x3 x4 m. (TEE_SUCCESS, x3, x4, m),
    TEE_AEEncryptFinal = \<lambda>x0 x1 x2 x3 x4 x5 x6 m. (TEE_SUCCESS, x3, x4, x5, x6, m),
    TEE_AEDecryptFinal = \<lambda>x0 x1 x2 x3 x4 x5 x6 m. (TEE_SUCCESS, x3, x4, m),
    TEE_GetObjectBufferAttribute = \<lambda>x0 x1 x2 x3 m. (TEE_SUCCESS, x2, x3, m),
    TEE_GetObjectValueAttribute = \<lambda>x0 x1 m. (TEE_SUCCESS, 1, 2, m)\<rparr>"

lemma sample_laws: "heap_laws sample_api (\<lambda>m. set m - {0})" "operation_laws sample_api (\<lambda>m. set m - {0})"
  by (auto simp: heap_laws_def operation_laws_def sample_api_def list_heap_def fresh_block)

definition sample_params :: tee_params where
  "sample_params = (let v = \<lparr>maddr = 0, mbuf = [], msize = 0, val_a = 0x1000, val_b = 0\<rparr> in
     \<lparr>p0 = v, p1 = v\<lparr>maddr := 0x4000, mbuf := [0, 0, 0, 0, 9], msize := 5\<rparr>, p2 = v, p3 = v\<rparr>)"

theorem cryp_type_check_witness:
  "ta_entry_free_operation sample_api (TEE_PARAM_TYPES PT_NONE PT_NONE PT_NONE PT_NONE) sample_params [3] =
     Some (TEE_ERROR_BAD_PARAMETERS, sample_params, [3])"
  by (rule cryp_type_check [of 6])
    (simp_all add: cryp_cmds_def cryp_expected_def TEE_PARAM_TYPES_def param_type_defs)

theorem cryp_commands_no_leak_witness:
  "(\<exists>res ps m'. ta_entry_generate_key sample_api (TEE_PARAM_TYPES PT_VALUE_INPUT PT_MEMREF_INPUT PT_NONE PT_NONE) sample_params [3] =
     Some (res, ps, m') \<and> set m' - {0} = set [3] - {0}) \<and>
   (\<exists>m'. ta_run (cryp_invoke sample_api) [(26, TEE_PARAM_TYPES PT_VALUE_INPUT PT_MEMREF_INPUT PT_NONE PT_NONE, sample_params),
      (6, TEE_PARAM_TYPES PT_VALUE_INPUT PT_NONE PT_NONE PT_NONE, sample_params)] [3] = Some m' \<and> set m' - {0} = set [3] - {0})"
  by (rule cryp_commands_no_leak [OF sample_laws, of _ 26])
    (simp_all add: cryp_cmds_def mapped_memref_def memref_ok_def sample_params_def Let_def)

definition client_params :: "u8 list \<Rightarrow> tee_params" where
  "client_params b = (let v = \<lparr>maddr = 0, mbuf = [], msize = 0, val_a = 0x1000, val_b = 0\<rparr> in
     \<lparr>p0 = v, p1 = v\<lparr>maddr := 0x4000, mbuf := b, msize := 48\<rparr>, p2 = v, p3 = v\<rparr>)"

theorem populate_from_client_witness:
  "\<exists>b p as' m1. list_all2 (same_attr 0x4000 b) sample_attrs as' \<and>
    ta_entry_populate_transient_object sample_api (TEE_PARAM_TYPES PT_VALUE_INPUT PT_MEMREF_INPUT PT_NONE PT_NONE) (client_params b) [] =
      (let (res, m2) = TEE_PopulateTransientObject sample_api (VAL2HANDLE 0x1000 0x1000) as' 3 (p1 (client_params b)) m1
       in Some (res, client_params b, TEE_Free sample_api p m2))"
proof -
  let ?b = "le32 3 @ attr_table (4 + 12 * length sample_attrs) sample_attrs @ attr_bodies sample_attrs"
  have "pack_attrs (\<lambda>n. n < 100) sample_attrs 3 = Some (TEE_SUCCESS, Some ?b, 48)"
    using pack_attrs_layout [of sample_attrs 3 "\<lambda>n. n < 100"] sample_ok by simp
  from populate_from_client [OF sample_ok(1,2) _ _ _ _ _ this, where params = "client_params ?b" and api = sample_api and m = "[]"]
  show ?thesis
    by (auto simp: sample_ok client_params_def buffer_bytes_def sample_api_def list_heap_def Let_def)
qed

end
