(* ===== verification/Crypt_Data.thy ===== *)
theory Crypt_Data
  imports Tee_Api Aes_Correct Sha2_Correct
begin

text \<open>
  Model of \<open>src/ta/crypt/aes_taf.c\<close> and \<open>src/ta/crypt/sha2_taf.c\<close>: the commands that run the cipher
  and the digests of the TA on the client's buffers.  The round keys are a static array, part of
  the state.  Input and output buffers are taken to be distinct.
\<close>

section \<open>AES-256 in ECB mode\<close>

definition AES_BLOCK_SIZE :: uint32 where "AES_BLOCK_SIZE = 128"
definition AES_256 :: int where "AES_256 = 256"

definition aes_key :: "u8 list" where
  "aes_key = [
     0x00, 0x01, 0x02, 0x03, 0x04, 0x05, 0x06, 0x07,
     0x08, 0x09, 0x0a, 0x0b, 0x0c, 0x0d, 0x0e, 0x0f,
     0x10, 0x11, 0x12, 0x13, 0x14, 0x15, 0x16, 0x17,
     0x18, 0x19, 0x1a, 0x1b, 0x1c, 0x1d, 0x1e, 0x1f]"

type_synonym aes_taf_res = "(TEE_Result \<times> tee_params \<times> u32 list) option"

text \<open>\<open>(params[i].memref.size << 8) % AES_BLOCK_SIZE != 0\<close>\<close>

definition partial_block :: "tee_param \<Rightarrow> bool" where
  "partial_block p \<longleftrightarrow> push_bit 8 (msize p) mod AES_BLOCK_SIZE \<noteq> 0"

definition ta_entry_aes256ecb_encrypt :: "uint32 \<Rightarrow> tee_params \<Rightarrow> u32 list \<Rightarrow> aes_taf_res" where
  "ta_entry_aes256ecb_encrypt param_types params rk =
     (if param_types \<noteq> TEE_PARAM_TYPES PT_MEMREF_INPUT PT_MEMREF_OUTPUT PT_NONE PT_NONE
        then Some (TEE_ERROR_BAD_PARAMETERS, params, rk)
      else if partial_block (p0 params) then Some (TEE_ERROR_BAD_PARAMETERS, params, rk)
      else if partial_block (p1 params) then Some (TEE_ERROR_BAD_PARAMETERS, params, rk)
      else do {
        (rk, nr) \<leftarrow> rijndaelSetupEncrypt rk aes_key AES_256;
        let n_input_blocks = unat (msize (p0 params) div (AES_BLOCK_SIZE div 8));
        out \<leftarrow> foldM (\<lambda>i out. rijndaelEncrypt rk (NROUNDS (nat AES_256)) (mbuf (p0 params)) (i * 16) out (i * 16))
          [0..<n_input_blocks] (mbuf (p1 params));
        Some (TEE_SUCCESS, params\<lparr>p1 := (p1 params)\<lparr>mbuf := out\<rparr>\<rparr>, rk)
      })"

definition ta_entry_aes256ecb_decrypt :: "uint32 \<Rightarrow> tee_params \<Rightarrow> u32 list \<Rightarrow> aes_taf_res" where
  "ta_entry_aes256ecb_decrypt param_types params rk =
     (if param_types \<noteq> TEE_PARAM_TYPES PT_MEMREF_INPUT PT_MEMREF_OUTPUT PT_NONE PT_NONE
        then Some (TEE_ERROR_BAD_PARAMETERS, params, rk)
      else if partial_block (p0 params) then Some (TEE_ERROR_BAD_PARAMETERS, params, rk)
      else if partial_block (p1 params) then Some (TEE_ERROR_BAD_PARAMETERS, params, rk)
      else do {
        (rk, nr) \<leftarrow> rijndaelSetupDecrypt rk aes_key AES_256;
        let n_input_blocks = unat (msize (p0 params) div (AES_BLOCK_SIZE div 8));
        out \<leftarrow> foldM (\<lambda>i out. rijndaelDecrypt rk (NROUNDS (nat AES_256)) (mbuf (p0 params)) (i * 16) out (i * 16))
          [0..<n_input_blocks] (mbuf (p1 params));
        Some (TEE_SUCCESS, params\<lparr>p1 := (p1 params)\<lparr>mbuf := out\<rparr>\<rparr>, rk)
      })"

section \<open>SHA-224 and SHA-256\<close>

definition SHA224_DIGEST_SIZE :: uint32 where "SHA224_DIGEST_SIZE = 224 div 8"
definition SHA256_DIGEST_SIZE :: uint32 where "SHA256_DIGEST_SIZE = 256 div 8"

definition ta_entry_sha224 :: "uint32 \<Rightarrow> tee_params \<Rightarrow> (TEE_Result \<times> tee_params) option" where
  "ta_entry_sha224 param_types params =
     (if param_types \<noteq> TEE_PARAM_TYPES PT_MEMREF_INPUT PT_MEMREF_OUTPUT PT_NONE PT_NONE
        then Some (TEE_ERROR_BAD_PARAMETERS, params)
      else if msize (p1 params) < SHA224_DIGEST_SIZE then Some (TEE_ERROR_BAD_PARAMETERS, params)
      else do {
        digest \<leftarrow> sha224 (mbuf (p0 params)) (msize (p0 params)) (mbuf (p1 params));
        Some (TEE_SUCCESS, params\<lparr>p1 := (p1 params)\<lparr>mbuf := digest\<rparr>\<rparr>)
      })"

definition ta_entry_sha256 :: "uint32 \<Rightarrow> tee_params \<Rightarrow> (TEE_Result \<times> tee_params) option" where
  "ta_entry_sha256 param_types params =
     (if param_types \<noteq> TEE_PARAM_TYPES PT_MEMREF_INPUT PT_MEMREF_OUTPUT PT_NONE PT_NONE
        then Some (TEE_ERROR_BAD_PARAMETERS, params)
      else if msize (p1 params) < SHA256_DIGEST_SIZE then Some (TEE_ERROR_BAD_PARAMETERS, params)
      else do {
        digest \<leftarrow> sha256 (mbuf (p0 params)) (msize (p0 params)) (mbuf (p1 params));
        Some (TEE_SUCCESS, params\<lparr>p1 := (p1 params)\<lparr>mbuf := digest\<rparr>\<rparr>)
      })"

section \<open>Blocks of a buffer\<close>

lemma never_partial: "\<not> partial_block p"
proof -
  have "unat (push_bit 8 (msize p)) mod 128 = (unat (msize p) * 256 mod 2 ^ 32) mod 128"
    by (simp only: unsigned_push_bit_eq) (simp add: push_bit_eq_mult take_bit_eq_mod)
  also have "\<dots> = unat (msize p) * 256 mod 128" by (simp add: mod_mod_cancel)
  also have "\<dots> = 0" by presburger
  finally show ?thesis by (simp add: partial_block_def AES_BLOCK_SIZE_def word_unat_eq_iff unat_mod)
qed

lemma blocks_count: "unat (n div (AES_BLOCK_SIZE div 8)) = unat n div 16"
  by (simp add: AES_BLOCK_SIZE_def unat_div)

text \<open>The first \<open>n\<close> blocks of a buffer, each through a function on the cipher's state.\<close>

definition ecb :: "(aes_state \<Rightarrow> aes_state) \<Rightarrow> u8 list \<Rightarrow> nat \<Rightarrow> u8 list" where
  "ecb f inp n = concat (map (\<lambda>i. state_bytes (f (state_at inp (i * 16)))) [0..<n])"

lemma length_ecb [simp]: "length (ecb f inp n) = 16 * n"
  by (induction n) (simp_all add: ecb_def)

lemma ecb_Suc: "ecb f inp (Suc n) = ecb f inp n @ state_bytes (f (state_at inp (n * 16)))"
  by (simp add: ecb_def)

lemma ecb_loop:
  assumes "\<And>i out. i < n \<Longrightarrow> i * 16 + 16 \<le> length out \<Longrightarrow>
      g i out = Some (put_block out (i * 16) (state_bytes (f (state_at inp (i * 16)))))"
    "16 * n \<le> length out"
  shows "foldM g [0..<n] out = Some (put_block out 0 (ecb f inp n))"
proof -
  let ?I = "\<lambda>k xs. xs = put_block out 0 (ecb f inp k)"
  have "\<exists>xs. foldM g [0..<n] out = Some xs \<and> ?I n xs"
  proof (rule foldM_upt_rule [where I = ?I])
    fix k xs assume k: "k < n" "?I k xs"
    have "length xs = length out" using k assms(2) by (simp add: length_put_block)
    then have "g k xs = Some (put_block xs (k * 16) (state_bytes (f (state_at inp (k * 16)))))"
      using assms k by simp
    moreover have "put_block xs (k * 16) (state_bytes (f (state_at inp (k * 16)))) = put_block out 0 (ecb f inp (Suc k))"
      using k assms(2) by (simp add: put_blocks ecb_Suc)
    ultimately show "\<exists>xs'. g k xs = Some xs' \<and> ?I (Suc k) xs'" by blast
  qed (simp_all add: ecb_def put_block_def)
  then show ?thesis by blast
qed

lemma state_at_app: "state_at (xs @ state_bytes s @ ys) (length xs) = s"
  by (cases s rule: ShiftRows.cases) (simp add: state_at_def col_at_def nth_append)

lemma state_at_ecb:
  assumes "i < n" "16 * n \<le> length out"
  shows "state_at (put_block out 0 (ecb f inp n)) (i * 16) = f (state_at inp (i * 16))"
proof -
  have "[0..<n] = [0..<i] @ i # [Suc i..<n]" using assms(1) upt_add_eq_append [of 0 i "n - i"] by (simp add: upt_conv_Cons)
  then have "\<exists>ys. put_block out 0 (ecb f inp n) = ecb f inp i @ state_bytes (f (state_at inp (i * 16))) @ ys"
    by (simp add: ecb_def put_block_def)
  then obtain ys where ys: "put_block out 0 (ecb f inp n) = ecb f inp i @ state_bytes (f (state_at inp (i * 16))) @ ys" ..
  have "length (ecb f inp i) = i * 16" by simp
  with state_at_app [of "ecb f inp i"] ys show ?thesis by metis
qed

lemma state_bytes_at: "k + 16 \<le> length p \<Longrightarrow> state_bytes (state_at p k) = take 16 (drop k p)"
proof -
  assume k: "k + 16 \<le> length p"
  let ?q = "take 16 (drop k p)"
  have "state_at ?q 0 = state_at p k" using k by (simp add: state_at_def col_at_def add.commute)
  moreover have "put_block (replicate 16 0) 0 (state_bytes (state_at ?q 0)) = ?q"
    by (rule put_block_state_at) (use k in simp_all)
  ultimately show ?thesis by (simp add: put_block_def)
qed

lemma ecb_id: "16 * n \<le> length inp \<Longrightarrow> ecb (\<lambda>s. s) inp n = take (16 * n) inp"
proof (induction n)
  case (Suc n)
  then have "ecb (\<lambda>s. s) inp (Suc n) = take (n * 16) inp @ take 16 (drop (n * 16) inp)"
    by (simp add: ecb_Suc state_bytes_at mult.commute)
  also have "\<dots> = take (16 * Suc n) inp" by (simp flip: take_add add: mult.commute add.commute)
  finally show ?case .
qed (simp add: ecb_def)

section \<open>The AES commands\<close>

definition aes_cipher :: "aes_state \<Rightarrow> aes_state" where
  "aes_cipher = Cipher (aes_keys aes_key 8) 14"

definition aes_inv_cipher :: "aes_state \<Rightarrow> aes_state" where
  "aes_inv_cipher = InvCipher (aes_keys aes_key 8) 14"

abbreviation in_out_types :: uint32 where
  "in_out_types \<equiv> TEE_PARAM_TYPES PT_MEMREF_INPUT PT_MEMREF_OUTPUT PT_NONE PT_NONE"

lemma aes_inverse: "aes_inv_cipher (aes_cipher s) = s"
  by (simp add: aes_cipher_def aes_inv_cipher_def InvCipher_Cipher)

lemma length_aes_key: "length aes_key = 32"
  by (simp add: aes_key_def)

lemmas aes_entry_defs = ta_entry_aes256ecb_encrypt_def ta_entry_aes256ecb_decrypt_def

lemma aes_encrypt_ok:
  assumes "length rk = 60" "16 * (unat (msize (p0 params)) div 16) \<le> length (mbuf (p0 params))"
    "16 * (unat (msize (p0 params)) div 16) \<le> length (mbuf (p1 params))"
  shows "\<exists>rk'. ta_entry_aes256ecb_encrypt in_out_types params rk = Some (TEE_SUCCESS,
      params\<lparr>p1 := (p1 params)\<lparr>mbuf := put_block (mbuf (p1 params)) 0
        (ecb aes_cipher (mbuf (p0 params)) (unat (msize (p0 params)) div 16))\<rparr>\<rparr>, rk') \<and> length rk' = 60"
proof -
  let ?rk = "fill (rk_word aes_key 8) rk 60"
  have "rijndaelSetupEncrypt rk aes_key 256 = Some (?rk, 14)"
    using rijndaelSetupEncrypt_ok [of 8 aes_key rk] assms(1) by (simp add: length_aes_key)
  moreover have "rijndaelEncrypt ?rk 14 inp i out j = Some (put_block out j (state_bytes (aes_cipher (state_at inp i))))"
    if "i + 16 \<le> length inp" "j + 16 \<le> length out" for inp i out j
    using enc_after_setup [of 8 rk i inp j out aes_key] assms(1) that by (simp add: aes_cipher_def)
  then have "foldM (\<lambda>i out. rijndaelEncrypt ?rk 14 (mbuf (p0 params)) (i * 16) out (i * 16))
      [0..<unat (msize (p0 params)) div 16] (mbuf (p1 params)) =
      Some (put_block (mbuf (p1 params)) 0 (ecb aes_cipher (mbuf (p0 params)) (unat (msize (p0 params)) div 16)))"
    using assms(2,3) by (intro ecb_loop) simp_all
  ultimately show ?thesis
    using assms(1) by (simp add: aes_entry_defs never_partial blocks_count NROUNDS_def AES_256_def)
qed

lemma aes_decrypt_ok:
  assumes "length rk = 60" "16 * (unat (msize (p0 params)) div 16) \<le> length (mbuf (p0 params))"
    "16 * (unat (msize (p0 params)) div 16) \<le> length (mbuf (p1 params))"
  shows "\<exists>rk'. ta_entry_aes256ecb_decrypt in_out_types params rk = Some (TEE_SUCCESS,
      params\<lparr>p1 := (p1 params)\<lparr>mbuf := put_block (mbuf (p1 params)) 0
        (ecb aes_inv_cipher (mbuf (p0 params)) (unat (msize (p0 params)) div 16))\<rparr>\<rparr>, rk') \<and> length rk' = 60"
proof -
  let ?rk = "fill (drk_word aes_key 8) rk 60"
  have "rijndaelSetupDecrypt rk aes_key 256 = Some (?rk, 14)"
    using rijndaelSetupDecrypt_ok [of 8 aes_key rk] assms(1) by (simp add: length_aes_key)
  moreover have "rijndaelDecrypt ?rk 14 inp i out j = Some (put_block out j (state_bytes (aes_inv_cipher (state_at inp i))))"
    if "i + 16 \<le> length inp" "j + 16 \<le> length out" for inp i out j
    using dec_after_setup [of 8 rk i inp j out aes_key] assms(1) that by (simp add: aes_inv_cipher_def)
  then have "foldM (\<lambda>i out. rijndaelDecrypt ?rk 14 (mbuf (p0 params)) (i * 16) out (i * 16))
      [0..<unat (msize (p0 params)) div 16] (mbuf (p1 params)) =
      Some (put_block (mbuf (p1 params)) 0 (ecb aes_inv_cipher (mbuf (p0 params)) (unat (msize (p0 params)) div 16)))"
    using assms(2,3) by (intro ecb_loop) simp_all
  ultimately show ?thesis
    using assms(1) by (simp add: aes_entry_defs never_partial blocks_count NROUNDS_def AES_256_def)
qed

text \<open>A block operation that returns had 16 bytes to write to.\<close>

lemma PUTU32_bounds: "PUTU32 p i w = Some q \<Longrightarrow> i + 4 \<le> length p \<and> length q = length p"
  by (auto simp: PUTU32_def st_def split: bind_splits if_splits)

lemma enc_last_bounds: "enc_last rk off t out j = Some r \<Longrightarrow> j + 16 \<le> length out \<and> length r = length out"
  by (cases t) (auto simp: enc_last_def split: bind_splits dest!: PUTU32_bounds)

lemma rijndaelEncrypt_bounds: "rijndaelEncrypt rk nr inp i out j = Some r \<Longrightarrow> j + 16 \<le> length out \<and> length r = length out"
  by (auto simp: rijndaelEncrypt_def split: bind_splits dest!: enc_last_bounds)

lemma ecb_loop_bounds:
  assumes "foldM (\<lambda>i out. rijndaelEncrypt rk nr inp (i * 16) out (i * 16)) [0..<n] out = Some r"
  shows "16 * n \<le> length out"
proof (cases n)
  case (Suc m)
  let ?g = "\<lambda>i out. rijndaelEncrypt rk nr inp (i * 16) out (i * 16)"
  from assms Suc obtain s where s: "foldM ?g [0..<m] out = Some s" "?g m s = Some r"
    by (auto simp: foldM_upt_Suc split: bind_splits simp del: upt_Suc)
  from s(1) have "length s = length out"
    by (rule foldM_inv [where I = "\<lambda>xs. length xs = length out"]) (auto dest: rijndaelEncrypt_bounds)
  with rijndaelEncrypt_bounds [OF s(2)] Suc show ?thesis by simp
qed simp

section \<open>Properties\<close>

text \<open>
  The two AES commands are inverse to each other: decrypting what the encryption command left
  in its output buffer gives back every whole block of the plaintext, whatever the output buffers
  and the round key array held before.
\<close>

theorem aes_commands_roundtrip:
  assumes "length rk = 60" "memref_ok (p0 ps)" "memref_ok (p1 ps)" "memref_ok dst"
    "msize (p1 ps) = msize (p0 ps)" "msize dst = msize (p0 ps)"
  shows "do { (r1, ps1, rk) \<leftarrow> ta_entry_aes256ecb_encrypt in_out_types ps rk;
              (r2, ps2, rk) \<leftarrow> ta_entry_aes256ecb_decrypt in_out_types (ps1\<lparr>p0 := p1 ps1, p1 := dst\<rparr>) rk;
              Some (r1, r2, mbuf (p1 ps2)) }
    = Some (TEE_SUCCESS, TEE_SUCCESS,
        put_block (mbuf dst) 0 (take (16 * (unat (msize (p0 ps)) div 16)) (mbuf (p0 ps))))"
proof -
  let ?n = "unat (msize (p0 ps)) div 16"
  let ?c = "put_block (mbuf (p1 ps)) 0 (ecb aes_cipher (mbuf (p0 ps)) ?n)"
  have n: "16 * ?n \<le> unat (msize (p0 ps))" by simp
  note len = assms(2-6) [unfolded memref_ok_def] n
  have c: "length ?c = length (mbuf (p1 ps))" using len by (intro length_put_block) simp
  obtain rk1 where e: "ta_entry_aes256ecb_encrypt in_out_types ps rk =
      Some (TEE_SUCCESS, ps\<lparr>p1 := (p1 ps)\<lparr>mbuf := ?c\<rparr>\<rparr>, rk1)" "length rk1 = 60"
    using aes_encrypt_ok [of rk ps] assms(1) len by auto
  let ?ps = "ps\<lparr>p0 := (p1 ps)\<lparr>mbuf := ?c\<rparr>, p1 := dst\<rparr>"
  obtain rk2 where d: "ta_entry_aes256ecb_decrypt in_out_types ?ps rk1 =
      Some (TEE_SUCCESS, ?ps\<lparr>p1 := dst\<lparr>mbuf := put_block (mbuf dst) 0 (ecb aes_inv_cipher ?c ?n)\<rparr>\<rparr>, rk2)"
    using aes_decrypt_ok [of rk1 ?ps] e(2) len c by auto
  have "ecb aes_inv_cipher ?c ?n = ecb (\<lambda>s. s) (mbuf (p0 ps)) ?n"
    unfolding ecb_def [of aes_inv_cipher] ecb_def [of "\<lambda>s. s"] using len
    by (intro arg_cong [of _ _ concat] map_cong refl) (simp add: state_at_ecb aes_inverse)
  then show ?thesis using e(1) d len by (simp add: ecb_id)
qed

text \<open>
  The encryption command does not check that the ciphertext fits: its size checks never refuse
  anything, and with an output buffer shorter than the whole input blocks it writes outside it.
\<close>

theorem aes_short_output_overrun:
  assumes "length rk = 60" "length (mbuf (p1 params)) < 16 * (unat (msize (p0 params)) div 16)"
  shows "ta_entry_aes256ecb_encrypt in_out_types params rk = None"
proof (rule ccontr)
  assume "ta_entry_aes256ecb_encrypt in_out_types params rk \<noteq> None"
  then obtain rk1 nr out where "foldM (\<lambda>i out. rijndaelEncrypt rk1 nr (mbuf (p0 params)) (i * 16) out (i * 16))
      [0..<unat (msize (p0 params)) div 16] (mbuf (p1 params)) = Some out"
    by (auto simp: aes_entry_defs never_partial blocks_count split: bind_splits if_splits)
  from ecb_loop_bounds [OF this] assms(2) show False by simp
qed

text \<open>
  The digest commands, for input below \<open>2^29\<close> bytes and the documented parameter types: an
  output buffer too small for the digest is refused untouched, any other receives the FIPS 180
  digest of the input in its first bytes.
\<close>

theorem sha_commands:
  assumes "memref_ok (p0 ps)" "memref_ok (p1 ps)" "msize (p0 ps) < 2 ^ 29"
  shows "ta_entry_sha224 in_out_types ps = (if msize (p1 ps) < 28 then Some (TEE_ERROR_BAD_PARAMETERS, ps)
      else Some (TEE_SUCCESS, ps\<lparr>p1 := (p1 ps)\<lparr>mbuf := put_block (mbuf (p1 ps)) 0
        (digest_bytes 7 (hash_padded (nth sha256_k) (regs_of sha224_h0) (pad (mbuf (p0 ps)))))\<rparr>\<rparr>)) \<and>
    ta_entry_sha256 in_out_types ps = (if msize (p1 ps) < 32 then Some (TEE_ERROR_BAD_PARAMETERS, ps)
      else Some (TEE_SUCCESS, ps\<lparr>p1 := (p1 ps)\<lparr>mbuf := put_block (mbuf (p1 ps)) 0
        (digest_bytes 8 (hash_padded (nth sha256_k) (regs_of sha256_h0) (pad (mbuf (p0 ps)))))\<rparr>\<rparr>))"
  using assms sha224_ok [of "msize (p0 ps)" "mbuf (p0 ps)" "mbuf (p1 ps)"] sha256_ok [of "msize (p0 ps)" "mbuf (p0 ps)" "mbuf (p1 ps)"]
  by (auto simp: ta_entry_sha224_def ta_entry_sha256_def SHA224_DIGEST_SIZE_def SHA256_DIGEST_SIZE_def
      memref_ok_def word_less_nat_alt)

section \<open>Witnesses\<close>

definition io_params :: "u8 list \<Rightarrow> u8 list \<Rightarrow> tee_params" where
  "io_params i j = zero_params\<lparr>p0 := zero_param\<lparr>mbuf := i, msize := of_nat (length i)\<rparr>,
     p1 := zero_param\<lparr>mbuf := j, msize := of_nat (length j)\<rparr>\<rparr>"

lemma io_params_simps [simp]:
  "p0 (io_params i j) = zero_param\<lparr>mbuf := i, msize := of_nat (length i)\<rparr>"
  "p1 (io_params i j) = zero_param\<lparr>mbuf := j, msize := of_nat (length j)\<rparr>"
  by (simp_all add: io_params_def)

theorem aes_commands_roundtrip_witness:
  "do { (r1, ps1, rk) \<leftarrow> ta_entry_aes256ecb_encrypt in_out_types (io_params (replicate 35 7) (replicate 35 0)) (replicate 60 0);
        (r2, ps2, rk) \<leftarrow> ta_entry_aes256ecb_decrypt in_out_types
          (ps1\<lparr>p0 := p1 ps1, p1 := zero_param\<lparr>mbuf := replicate 35 1, msize := 35\<rparr>\<rparr>) rk;
        Some (r1, r2, mbuf (p1 ps2)) }
    = Some (TEE_SUCCESS, TEE_SUCCESS, replicate 32 7 @ replicate 3 1)"
  using aes_commands_roundtrip [of "replicate 60 0" "io_params (replicate 35 7) (replicate 35 0)"
      "zero_param\<lparr>mbuf := replicate 35 1, msize := 35\<rparr>"]
  by (simp add: memref_ok_def put_block_def)

theorem aes_short_output_overrun_witness:
  "ta_entry_aes256ecb_encrypt in_out_types (io_params (replicate 32 7) (replicate 16 0)) (replicate 60 0) = None"
  by (rule aes_short_output_overrun) simp_all

theorem sha_commands_witness:
  "ta_entry_sha224 in_out_types (io_params [1, 2] (replicate 27 0)) =
     Some (TEE_ERROR_BAD_PARAMETERS, io_params [1, 2] (replicate 27 0))"
  using sha_commands [of "io_params [1, 2] (replicate 27 0)"] by (simp add: memref_ok_def)

end
