(* ===== verification/Crypt_Pta.thy ===== *)
theory Crypt_Pta
  imports Ta_Env
begin

text \<open>
  Model of \<open>src/ta/crypt/seed_rng_taf.c\<close> and \<open>src/ta/crypt/derive_key_taf.c\<close>: the commands in which
  the crypt TA is itself a client, of the system pseudo TA.  The internal client API is a record
  of functions on a state of an arbitrary type.  What the pseudo TA does is not part of the
  repository; \<open>key_pta\<close> states what its header \<open>pta_system.h\<close> documents of it.
\<close>

definition system_uuid :: tee_uuid where
  "system_uuid = (0x3a2f8978, 0x5dc0, 0x11e8, [0x9c, 0x2d, 0xfa, 0x7a, 0xe0, 0x1b, 0xbe, 0xbc])"

definition PTA_SYSTEM_ADD_RNG_ENTROPY :: uint32 where "PTA_SYSTEM_ADD_RNG_ENTROPY = 0"
definition PTA_SYSTEM_DERIVE_TA_UNIQUE_KEY :: uint32 where "PTA_SYSTEM_DERIVE_TA_UNIQUE_KEY = 1"
definition TA_DERIVED_KEY_MIN_SIZE :: nat where "TA_DERIVED_KEY_MIN_SIZE = 16"
definition TA_DERIVED_KEY_MAX_SIZE :: nat where "TA_DERIVED_KEY_MAX_SIZE = 32"
definition TA_DERIVED_EXTRA_DATA_MAX_SIZE :: nat where "TA_DERIVED_EXTRA_DATA_MAX_SIZE = 1024"

section \<open>Seeding the random number generator\<close>

definition seed_rng_pool ::
  "('m, 'z) client_api_scheme \<Rightarrow> uint32 \<Rightarrow> tee_params \<Rightarrow> 'm \<Rightarrow> TEE_Result \<times> tee_params \<times> 'm" where
  "seed_rng_pool api param_types params m =
     (if param_types \<noteq> TEE_PARAM_TYPES PT_MEMREF_INPUT PT_NONE PT_NONE PT_NONE
        then (TEE_ERROR_BAD_PARAMETERS, params, m)
      else if msize (p0 params) = 0 then (TEE_ERROR_BAD_PARAMETERS, params, m)
      else
        let (res, sess, _, _, m) = TEE_OpenTASession api system_uuid 0 0 zero_params m
        in if res \<noteq> TEE_SUCCESS then (res, params, TEE_CloseTASession api sess m)
        else
          let (res, _, params, m) = TEE_InvokeTACommand api sess 0 PTA_SYSTEM_ADD_RNG_ENTROPY param_types params m
          in (res, params, TEE_CloseTASession api sess m))"

section \<open>Deriving keys\<close>

definition derive_types :: uint32 where
  "derive_types = TEE_PARAM_TYPES PT_MEMREF_INPUT PT_MEMREF_OUTPUT PT_NONE PT_NONE"

text \<open>The parameters of a derivation: optional extra data, and the key buffer.\<close>

definition derive_params :: "u8 list \<Rightarrow> nat \<Rightarrow> u8 list option \<Rightarrow> nat \<Rightarrow> tee_params" where
  "derive_params key key_size extra extra_size = zero_params
     \<lparr>p0 := (case extra of
         Some e \<Rightarrow> if 0 < extra_size then zero_param\<lparr>mbuf := e, msize := of_nat extra_size\<rparr> else zero_param
       | None \<Rightarrow> zero_param),
      p1 := zero_param\<lparr>mbuf := key, msize := of_nat key_size\<rparr>\<rparr>"

text \<open>The result code, the key buffer and the state.\<close>

definition derive_unique_key ::
  "('m, 'z) client_api_scheme \<Rightarrow> size_t \<Rightarrow> u8 list \<Rightarrow> nat \<Rightarrow> u8 list option \<Rightarrow> nat \<Rightarrow> 'm \<Rightarrow>
     TEE_Result \<times> u8 list \<times> 'm" where
  "derive_unique_key api session key key_size extra extra_size m =
     (let (res, _, params, m) = TEE_InvokeTACommand api session 0 PTA_SYSTEM_DERIVE_TA_UNIQUE_KEY
        derive_types (derive_params key key_size extra extra_size) m
      in (res, mbuf (p1 params), m))"

text \<open>\<open>"My dummy data"\<close> with its terminating zero\<close>

definition extra_key_data :: "u8 list" where
  "extra_key_data = [0x4d, 0x79, 0x20, 0x64, 0x75, 0x6d, 0x6d, 0x79, 0x20, 0x64, 0x61, 0x74, 0x61, 0]"

definition zeros :: "nat \<Rightarrow> u8 list" where "zeros n = replicate n 0"

text \<open>Two derivations of 32 bytes into cleared buffers, and the failures they report.\<close>

definition derive_pair ::
  "('m, 'z) client_api_scheme \<Rightarrow> size_t \<Rightarrow> u8 list option \<Rightarrow> nat \<Rightarrow> u8 list option \<Rightarrow> nat \<Rightarrow> TEE_Result \<Rightarrow> 'm \<Rightarrow>
     u8 list \<times> u8 list \<times> TEE_Result \<times> 'm" where
  "derive_pair api session extra1 n1 extra2 n2 res_final m =
     (let (res, key1, m) = derive_unique_key api session (zeros 32) 32 extra1 n1 m;
          res_final = (if res \<noteq> TEE_SUCCESS then TEE_ERROR_GENERIC else res_final);
          (res, key2, m) = derive_unique_key api session (zeros 32) 32 extra2 n2 m;
          res_final = (if res \<noteq> TEE_SUCCESS then TEE_ERROR_GENERIC else res_final)
      in (key1, key2, res_final, m))"

text \<open>The loop that tries every key size; \<open>is\<close> are the iterations left.\<close>

fun derive_limits ::
  "('m, 'z) client_api_scheme \<Rightarrow> size_t \<Rightarrow> nat list \<Rightarrow> TEE_Result \<Rightarrow> 'm \<Rightarrow> TEE_Result \<times> 'm" where
  "derive_limits api session [] res_final m = (res_final, m)"
| "derive_limits api session (i # is) res_final m =
     (let (extra, extra_size) = (if i mod 2 \<noteq> 0 then (Some extra_key_data, length extra_key_data) else (None, 0));
          (res, _, m) = derive_unique_key api session (zeros 64) i extra extra_size m
      in if i < TA_DERIVED_KEY_MIN_SIZE then
           if res \<noteq> TEE_SUCCESS then derive_limits api session is res_final m
           else (TEE_ERROR_GENERIC, m)
         else if TA_DERIVED_KEY_MAX_SIZE < i then
           if res \<noteq> TEE_SUCCESS then derive_limits api session is res_final m
           else (TEE_ERROR_GENERIC, m)
         else if res \<noteq> TEE_SUCCESS then (TEE_ERROR_GENERIC, m)
         else derive_limits api session is res_final m)"

definition derive_ta_unique_key_test ::
  "('m, 'z) client_api_scheme \<Rightarrow> uint32 \<Rightarrow> tee_params \<Rightarrow> 'm \<Rightarrow> TEE_Result \<times> tee_params \<times> 'm" where
  "derive_ta_unique_key_test api param_types params m =
     (if param_types \<noteq> TEE_PARAM_TYPES PT_NONE PT_NONE PT_NONE PT_NONE
        then (TEE_ERROR_BAD_PARAMETERS, params, m)
      else
        let (res, session, _, _, m) = TEE_OpenTASession api system_uuid 0 0 zero_params m
        in if res \<noteq> TEE_SUCCESS then (res, params, m)
        else
          let x = Some extra_key_data; n = length extra_key_data;
              (key1, key2, res_final, m) = derive_pair api session None 0 None 0 TEE_SUCCESS m;
              res_final = (if key1 \<noteq> key2 then TEE_ERROR_GENERIC else res_final);
              (key1, key2, res_final, m) = derive_pair api session x n x n res_final m;
              res_final = (if key1 \<noteq> key2 then TEE_ERROR_GENERIC else res_final);
              (key1, key2, res_final, m) = derive_pair api session x n None 0 res_final m;
              res_final = (if key1 = key2 then TEE_ERROR_GENERIC else res_final);
              (res, key1, m) = derive_unique_key api session (zeros 32) 32 x (TA_DERIVED_EXTRA_DATA_MAX_SIZE + 1) m;
              res_final = (if res = TEE_SUCCESS then TEE_ERROR_GENERIC else res_final);
              (res_final, m) = derive_limits api session [0..<64] res_final m
          in (res_final, params, TEE_CloseTASession api session m))"

definition derive_ta_unique_key_test_shm ::
  "('m, 'z) client_api_scheme \<Rightarrow> uint32 \<Rightarrow> tee_params \<Rightarrow> 'm \<Rightarrow> TEE_Result \<times> tee_params \<times> 'm" where
  "derive_ta_unique_key_test_shm api param_types params m =
     (if param_types \<noteq> derive_types then (TEE_ERROR_BAD_PARAMETERS, params, m)
      else
        let (res, session, _, _, m) = TEE_OpenTASession api system_uuid 0 0 zero_params m
        in if res \<noteq> TEE_SUCCESS then (res, params, m)
        else
          let (res, _, params, m) = TEE_InvokeTACommand api session 0 PTA_SYSTEM_DERIVE_TA_UNIQUE_KEY param_types params m
          in (res, params, TEE_CloseTASession api session m))"

section \<open>The pseudo TA\<close>

text \<open>
  What \<open>pta_system.h\<close> documents of the derivation: key sizes from 16 to 32 bytes and at most 1024
  bytes of extra data are accepted, the key is a function \<open>dk\<close> of the extra data and the size, and
  anything else is refused.
\<close>

definition key_pta :: "('m, 'z) client_api_scheme \<Rightarrow> (u8 list \<Rightarrow> nat \<Rightarrow> u8 list) \<Rightarrow> bool" where
  "key_pta api dk \<longleftrightarrow> (\<forall>e n. length (dk e n) = n) \<and>
     (\<forall>u t pt ps m. fst (TEE_OpenTASession api u t pt ps m) = TEE_SUCCESS) \<and>
     (\<forall>s t ps m. TEE_InvokeTACommand api s t PTA_SYSTEM_DERIVE_TA_UNIQUE_KEY derive_types ps m =
        (if 16 \<le> msize (p1 ps) \<and> msize (p1 ps) \<le> 32 \<and> msize (p0 ps) \<le> 1024
         then (TEE_SUCCESS, 0, ps\<lparr>p1 := (p1 ps)\<lparr>mbuf := put_block (mbuf (p1 ps)) 0
                 (dk (take (unat (msize (p0 ps))) (mbuf (p0 ps))) (unat (msize (p1 ps))))\<rparr>\<rparr>, m)
         else (TEE_ERROR_BAD_PARAMETERS, 0, ps, m)))"

lemma derive_ok:
  assumes "key_pta api dk" "n \<le> 64" "x = None \<and> e = [] \<or> x = Some e \<and> e \<noteq> []" "length e \<le> 64" "n \<le> length key"
  shows "derive_unique_key api s key n x (length e) m =
    (if 16 \<le> n \<and> n \<le> 32 then (TEE_SUCCESS, put_block key 0 (dk e n), m) else (TEE_ERROR_BAD_PARAMETERS, key, m))"
proof -
  have n: "unat (of_nat n :: uint32) = n" "unat (of_nat (length e) :: uint32) = length e"
    using assms(2,4) by (simp_all add: unsigned_of_nat take_bit_nat_eq_self)
  then show ?thesis
    using assms(1,3,4) unfolding key_pta_def
    by (auto simp: derive_unique_key_def derive_params_def word_le_nat_alt zero_param_def)
qed

lemma derive_too_much:
  assumes "key_pta api dk"
  shows "derive_unique_key api s key n (Some e) (TA_DERIVED_EXTRA_DATA_MAX_SIZE + 1) m = (TEE_ERROR_BAD_PARAMETERS, key, m)"
  using assms unfolding key_pta_def
  by (simp add: derive_unique_key_def derive_params_def TA_DERIVED_EXTRA_DATA_MAX_SIZE_def)

lemma derive_limits_ok:
  assumes "key_pta api dk" "\<forall>i \<in> set is. i < 64"
  shows "derive_limits api s is r m = (r, m)"
  using assms(2)
proof (induction "is")
  case (Cons i "is")
  have "derive_unique_key api s (zeros 64) i None 0 m =
      (if 16 \<le> i \<and> i \<le> 32 then (TEE_SUCCESS, put_block (zeros 64) 0 (dk [] i), m) else (TEE_ERROR_BAD_PARAMETERS, zeros 64, m))"
    "derive_unique_key api s (zeros 64) i (Some extra_key_data) (length extra_key_data) m =
      (if 16 \<le> i \<and> i \<le> 32 then (TEE_SUCCESS, put_block (zeros 64) 0 (dk extra_key_data i), m) else (TEE_ERROR_BAD_PARAMETERS, zeros 64, m))"
    using derive_ok [OF assms(1), of i None "[]" "zeros 64" s m]
      derive_ok [OF assms(1), of i "Some extra_key_data" extra_key_data "zeros 64" s m] Cons.prems
    by (simp_all add: zeros_def extra_key_data_def)
  with Cons show ?case
    by (simp add: TA_DERIVED_KEY_MIN_SIZE_def TA_DERIVED_KEY_MAX_SIZE_def TEE_SUCCESS_def TEE_ERROR_BAD_PARAMETERS_def)
qed simp

section \<open>Sessions of the commands\<close>

lemma derive_unique_key_sessions:
  assumes "session_laws api ss" "derive_unique_key api s key n x k m = (r, key', m')"
  shows "ss m' = ss m"
  using assms(2)
  by (auto simp: derive_unique_key_def split: prod.splits dest!: invoke_session [OF assms(1)])

lemma derive_pair_sessions:
  assumes "session_laws api ss" "derive_pair api s x1 n1 x2 n2 r m = (k1, k2, r', m')"
  shows "ss m' = ss m"
  using assms(2)
  by (auto simp: derive_pair_def Let_def split: prod.splits dest!: derive_unique_key_sessions [OF assms(1)])

lemma derive_limits_sessions:
  "session_laws api ss \<Longrightarrow> derive_limits api s is r m = (r', m') \<Longrightarrow> ss m' = ss m"
proof (induction "is" arbitrary: m)
  case (Cons i "is")
  obtain x n where x: "(if i mod 2 \<noteq> 0 then (Some extra_key_data, length extra_key_data) else (None, 0)) = (x, n)"
    by force
  obtain q key m1 where q: "derive_unique_key api s (zeros 64) i x n m = (q, key, m1)"
    by (cases "derive_unique_key api s (zeros 64) i x n m")
  then have "ss m1 = ss m" by (rule derive_unique_key_sessions [OF Cons.prems(1)])
  moreover have "derive_limits api s is r m1 = (r', m') \<or> m' = m1"
    using Cons.prems(2) unfolding derive_limits.simps x Let_def prod.case q by (auto split: if_splits)
  ultimately show ?case using Cons.IH [OF Cons.prems(1)] by auto
qed simp

lemmas pta_sessions = derive_unique_key_sessions derive_pair_sessions derive_limits_sessions invoke_session

section \<open>Properties\<close>

text \<open>
  \<open>derive_ta_unique_key_test\<close> is a decision procedure: on a pseudo TA that keeps to its
  documented limits it reports success exactly when the extra data changes the 32 byte key.
\<close>

theorem derive_key_test_verdict:
  assumes "key_pta api dk"
  shows "fst (derive_ta_unique_key_test api (TEE_PARAM_TYPES PT_NONE PT_NONE PT_NONE PT_NONE) params m) =
    (if dk extra_key_data 32 = dk [] 32 then TEE_ERROR_GENERIC else TEE_SUCCESS)"
proof -
  obtain s orig ps m1 where o: "TEE_OpenTASession api system_uuid 0 0 zero_params m = (TEE_SUCCESS, s, orig, ps, m1)"
    using assms unfolding key_pta_def by (metis prod.exhaust_sel fst_conv)
  have l: "length (dk e n) = n" for e n using assms by (simp add: key_pta_def)
  have n: "derive_unique_key api s (zeros 32) 32 None 0 m = (TEE_SUCCESS, dk [] 32, m)"
    "derive_unique_key api s (zeros 32) 32 (Some extra_key_data) (length extra_key_data) m = (TEE_SUCCESS, dk extra_key_data 32, m)" for m
    using derive_ok [OF assms, of 32 None "[]" "zeros 32" s m]
      derive_ok [OF assms, of 32 "Some extra_key_data" extra_key_data "zeros 32" s m]
    by (simp_all add: zeros_def extra_key_data_def put_block_def l)
  have "TEE_ERROR_BAD_PARAMETERS \<noteq> TEE_SUCCESS" by (simp add: tee_results)
  then show ?thesis
    using o n derive_too_much [OF assms] derive_limits_ok [OF assms]
    by (simp add: derive_ta_unique_key_test_def derive_pair_def Let_def)
qed

text \<open>
  C28.  The commands towards the system pseudo TA end every session they open, on every path, and
  touch no other one.
\<close>

theorem pta_sessions_balanced:
  assumes "session_laws api ss"
  shows "ss (snd (snd (seed_rng_pool api pt params m))) = ss m \<and>
    ss (snd (snd (derive_ta_unique_key_test api pt params m))) = ss m \<and>
    ss (snd (snd (derive_ta_unique_key_test_shm api pt params m))) = ss m"
proof -
  obtain r s orig ps m1 where o: "TEE_OpenTASession api system_uuid 0 0 zero_params m = (r, s, orig, ps, m1)"
    using prod_cases5 by blast
  note s = open_session [OF assms o] no_null_session [OF assms, of m] close_session [OF assms]
  have "ss (snd (snd (seed_rng_pool api pt params m))) = ss m"
    using s by (auto simp: seed_rng_pool_def o Let_def split: prod.splits dest!: invoke_session [OF assms])
  moreover have "ss (snd (snd (derive_ta_unique_key_test api pt params m))) = ss m"
    using s by (auto simp: derive_ta_unique_key_test_def o Let_def split: prod.splits dest!: pta_sessions [OF assms])
  moreover have "ss (snd (snd (derive_ta_unique_key_test_shm api pt params m))) = ss m"
    using s by (auto simp: derive_ta_unique_key_test_shm_def o Let_def split: prod.splits dest!: invoke_session [OF assms])
  ultimately show ?thesis by blast
qed

section \<open>Witnesses\<close>

text \<open>A pseudo TA whose keys repeat the number of bytes of extra data.\<close>

definition sample_dk :: "u8 list \<Rightarrow> nat \<Rightarrow> u8 list" where
  "sample_dk e n = replicate n (of_nat (length e))"

definition sample_pta :: "nat list client_api" where
  "sample_pta = list_client
     \<lparr>TEE_OpenTASession := \<lambda>u t pt ps m. (TEE_SUCCESS, 1, 4, ps, 1 # m),
      TEE_InvokeTACommand := \<lambda>s t c pt ps m.
       if 16 \<le> msize (p1 ps) \<and> msize (p1 ps) \<le> 32 \<and> msize (p0 ps) \<le> 1024
       then (TEE_SUCCESS, 0, ps\<lparr>p1 := (p1 ps)\<lparr>mbuf := put_block (mbuf (p1 ps)) 0
               (sample_dk (take (unat (msize (p0 ps))) (mbuf (p0 ps))) (unat (msize (p1 ps))))\<rparr>\<rparr>, m)
       else (TEE_ERROR_BAD_PARAMETERS, 0, ps, m)\<rparr>"

theorem derive_key_test_verdict_witness:
  "fst (derive_ta_unique_key_test sample_pta (TEE_PARAM_TYPES PT_NONE PT_NONE PT_NONE PT_NONE) zero_params []) = TEE_SUCCESS"
proof -
  have "key_pta sample_pta sample_dk" by (simp add: key_pta_def sample_pta_def sample_dk_def)
  moreover have "sample_dk extra_key_data 32 \<noteq> sample_dk [] 32" by (simp add: sample_dk_def extra_key_data_def)
  ultimately show ?thesis
    using derive_key_test_verdict [of sample_pta sample_dk zero_params "[]"] by simp
qed

text \<open>\<^const>\<open>list_client\<close> with a count of the sessions it has opened\<close>

definition counted_client :: "(nat list \<times> nat) client_api" where
  "counted_client = \<lparr>
     TEE_OpenTASession = \<lambda>u t pt ps (l, n).
       let (res, s, orig, ps, l) = TEE_OpenTASession list_client u t pt ps l
       in (res, s, orig, ps, l, if res = TEE_SUCCESS then n + 1 else n),
     TEE_InvokeTACommand = \<lambda>s t c pt ps m. (TEE_SUCCESS, 4, ps, m),
     TEE_CloseTASession = \<lambda>s (l, n). (TEE_CloseTASession list_client s l, n)\<rparr>"

lemma counted_client_laws: "session_laws counted_client (\<lambda>m. of_nat ` set (fst m) - {0})"
proof -
  let ?s = "\<lambda>l. of_nat ` set l - {0 :: size_t}"
  have opened: "if res = TEE_SUCCESS then s \<noteq> 0 \<and> s \<notin> ?s (fst m) \<and> ?s (fst m') = insert s (?s (fst m)) else s = 0 \<and> ?s (fst m') = ?s (fst m)"
    if o: "TEE_OpenTASession counted_client u t pt ps m = (res, s, orig, ps', m')" for u t pt ps m res s orig ps' m'
  proof -
    obtain l n where m: "m = (l, n)" by fastforce
    from o obtain l' where l': "TEE_OpenTASession list_client u t pt ps l = (res, s, orig, ps', l')" "fst m' = l'"
      by (auto simp: counted_client_def m split: prod.splits)
    from open_session [OF list_client_laws l'(1)] show ?thesis by (simp only: m fst_conv l'(2))
  qed
  have closed: "?s (fst (TEE_CloseTASession counted_client s m)) = ?s (fst m) - {s}" for s m
    using close_session [OF list_client_laws, of s "fst m"] by (cases m) (simp add: counted_client_def)
  show ?thesis
    unfolding session_laws_def by (intro conjI allI impI, simp, rule closed, erule opened, simp add: counted_client_def)
qed

text \<open>Each of the three commands opens one session beside session 3, and closes it.\<close>

definition entropy_params :: tee_params where
  "entropy_params = zero_params\<lparr>p0 := zero_param\<lparr>mbuf := [1, 2], msize := 2\<rparr>\<rparr>"

lemma pta_commands_open:
  "snd (snd (snd (seed_rng_pool counted_client (TEE_PARAM_TYPES PT_MEMREF_INPUT PT_NONE PT_NONE PT_NONE) entropy_params ([3], n)))) = n + 1"
  "snd (snd (snd (derive_ta_unique_key_test counted_client (TEE_PARAM_TYPES PT_NONE PT_NONE PT_NONE PT_NONE) ps ([3], n)))) = n + 1"
  "snd (snd (snd (derive_ta_unique_key_test_shm counted_client derive_types ps ([3], n)))) = n + 1"
  by (simp_all add: seed_rng_pool_def derive_ta_unique_key_test_def derive_ta_unique_key_test_shm_def counted_client_def list_client_def
      fresh_session_def entropy_params_def derive_pair_def derive_unique_key_def upt_rec [of 0] TA_DERIVED_KEY_MIN_SIZE_def Let_def)

theorem pta_sessions_balanced_witness:
  "\<exists>m1 m2 m3.
    snd (snd (seed_rng_pool counted_client (TEE_PARAM_TYPES PT_MEMREF_INPUT PT_NONE PT_NONE PT_NONE) entropy_params ([3], 0))) = (m1, 1) \<and>
    of_nat ` set m1 - {0 :: size_t} = {3} \<and>
    snd (snd (derive_ta_unique_key_test counted_client (TEE_PARAM_TYPES PT_NONE PT_NONE PT_NONE PT_NONE) zero_params ([3], 0))) = (m2, 1) \<and>
    of_nat ` set m2 - {0 :: size_t} = {3} \<and>
    snd (snd (derive_ta_unique_key_test_shm counted_client derive_types zero_params ([3], 0))) = (m3, 1) \<and>
    of_nat ` set m3 - {0 :: size_t} = {3}"
proof -
  note claim = pta_sessions_balanced [OF counted_client_laws, where m = "([3], 0)"]
  show ?thesis
    using claim [of "TEE_PARAM_TYPES PT_MEMREF_INPUT PT_NONE PT_NONE PT_NONE" entropy_params]
      claim [of "TEE_PARAM_TYPES PT_NONE PT_NONE PT_NONE PT_NONE" zero_params] claim [of derive_types zero_params]
      pta_commands_open [where n = 0]
    by (simp add: prod_eq_iff split: prod.splits)
qed

end
