(* ===== verification/Mbedtls_Taf.thy ===== *)
theory Mbedtls_Taf
  imports Ta_Env
begin

text \<open>
  Model of \<open>src/ta/crypt/mbedtls_taf.c\<close>: checking and signing X.509 certificates.  The mbed TLS
  library is a record of functions on the memory of the TA; a C object the library works on is
  named, not given by its contents.  The embedded certificates, which the build generates from
  \<open>src/cert\<close> with \<open>file_to_c.py\<close>, are parameters too: the text of the file, which the array holds with a
  terminating zero.
\<close>

datatype mb_obj = Crt | Trust_crt | Serial | Issuer_crt | Issuer_key | Write_crt | Csr

definition MBEDTLS_ERR_BASE64_BUFFER_TOO_SMALL :: int where "MBEDTLS_ERR_BASE64_BUFFER_TOO_SMALL = - 0x2A"

text \<open>
  \<open>mb_init\<close> and \<open>mb_free\<close> are the functions of these names of each type of object; a self test is named
  by the algorithm, the other functions have the names of the library after \<open>mbedtls_\<close>.
\<close>

record 'm mbedtls_api = "'m heap_api" +
  TEE_GenerateRandom :: "size_t \<Rightarrow> 'm \<Rightarrow> u8 list \<times> 'm"
  self_test :: "string \<Rightarrow> 'm \<Rightarrow> int \<times> 'm"
  mb_init :: "mb_obj \<Rightarrow> 'm \<Rightarrow> 'm"
  mb_free :: "mb_obj \<Rightarrow> 'm \<Rightarrow> 'm"
  x509_crt_parse :: "mb_obj \<Rightarrow> u8 list \<Rightarrow> 'm \<Rightarrow> int \<times> 'm"
  x509_crt_verify :: "mb_obj \<Rightarrow> mb_obj \<Rightarrow> 'm \<Rightarrow> int \<times> 'm"
  x509_csr_parse :: "mb_obj \<Rightarrow> u8 list \<Rightarrow> 'm \<Rightarrow> int \<times> 'm"
  pk_parse_key :: "mb_obj \<Rightarrow> u8 list \<Rightarrow> 'm \<Rightarrow> int \<times> 'm"
  mpi_lset :: "mb_obj \<Rightarrow> int \<Rightarrow> 'm \<Rightarrow> int \<times> 'm"
  x509_dn_gets :: "u8 list \<Rightarrow> mb_obj \<Rightarrow> 'm \<Rightarrow> int \<times> u8 list \<times> 'm"
  x509write_crt_set_subject_name :: "mb_obj \<Rightarrow> u8 list \<Rightarrow> 'm \<Rightarrow> int \<times> 'm"
  x509write_crt_set_issuer_name :: "mb_obj \<Rightarrow> u8 list \<Rightarrow> 'm \<Rightarrow> int \<times> 'm"
  x509write_crt_set_md_alg :: "mb_obj \<Rightarrow> mb_obj \<Rightarrow> 'm \<Rightarrow> 'm"
  x509write_crt_set_subject_key :: "mb_obj \<Rightarrow> mb_obj \<Rightarrow> 'm \<Rightarrow> 'm"
  x509write_crt_set_issuer_key :: "mb_obj \<Rightarrow> mb_obj \<Rightarrow> 'm \<Rightarrow> 'm"
  x509write_crt_set_serial :: "mb_obj \<Rightarrow> mb_obj \<Rightarrow> 'm \<Rightarrow> int \<times> 'm"
  x509write_crt_set_validity :: "mb_obj \<Rightarrow> string \<Rightarrow> string \<Rightarrow> 'm \<Rightarrow> int \<times> 'm"
  x509write_crt_set_basic_constraints :: "mb_obj \<Rightarrow> int \<Rightarrow> int \<Rightarrow> 'm \<Rightarrow> int \<times> 'm"
  x509write_crt_set_subject_key_identifier :: "mb_obj \<Rightarrow> 'm \<Rightarrow> int \<times> 'm"
  x509write_crt_set_authority_key_identifier :: "mb_obj \<Rightarrow> 'm \<Rightarrow> int \<times> 'm"
  x509write_crt_pem :: "mb_obj \<Rightarrow> u8 list \<Rightarrow> (size_t \<Rightarrow> 'm \<Rightarrow> int \<times> u8 list \<times> 'm) \<Rightarrow> 'm \<Rightarrow> int \<times> u8 list \<times> 'm"
  ca_crt :: "u8 list"
  mid_crt :: "u8 list"
  mid_key :: "u8 list"
  CFG_TA_MBEDTLS_SELF_TEST :: bool

section \<open>Self tests and checking a certificate\<close>

fun self_tests :: "('m, 'z) mbedtls_api_scheme \<Rightarrow> string list \<Rightarrow> 'm \<Rightarrow> TEE_Result \<times> 'm" where
  "self_tests api [] m = (TEE_SUCCESS, m)"
| "self_tests api (x # xs) m =
     (let (ret, m) = self_test api x m
      in if ret \<noteq> 0 then (TEE_ERROR_GENERIC, m) else self_tests api xs m)"

definition ta_entry_mbedtls_self_tests ::
  "('m, 'z) mbedtls_api_scheme \<Rightarrow> uint32 \<Rightarrow> tee_params \<Rightarrow> 'm \<Rightarrow> TEE_Result \<times> tee_params \<times> 'm" where
  "ta_entry_mbedtls_self_tests api param_type params m =
     (if param_type \<noteq> TEE_PARAM_TYPES PT_NONE PT_NONE PT_NONE PT_NONE then (TEE_ERROR_BAD_PARAMETERS, params, m)
      else if \<not> CFG_TA_MBEDTLS_SELF_TEST api then (TEE_ERROR_NOT_IMPLEMENTED, params, m)
      else
        let (res, m) = self_tests api [''aes'', ''des'', ''md5'', ''sha1'', ''sha256'', ''base64'', ''mpi'', ''rsa'', ''x509''] m
        in (res, params, m))"

definition ta_entry_mbedtls_check_cert ::
  "('m, 'z) mbedtls_api_scheme \<Rightarrow> uint32 \<Rightarrow> tee_params \<Rightarrow> 'm \<Rightarrow> TEE_Result \<times> tee_params \<times> 'm" where
  "ta_entry_mbedtls_check_cert api param_type params m =
     (if param_type \<noteq> TEE_PARAM_TYPES PT_MEMREF_INPUT PT_MEMREF_INPUT PT_NONE PT_NONE
        then (TEE_ERROR_BAD_PARAMETERS, params, m)
      else
        let m = mb_init api Trust_crt (mb_init api Crt m);
            (ret, m) = x509_crt_parse api Crt (mbuf (p0 params)) m
        in if ret \<noteq> 0 then (TEE_ERROR_BAD_FORMAT, params, m)
        else
          let (ret, m) = x509_crt_parse api Trust_crt (mbuf (p1 params)) m;
              (res, m) =
                (if ret \<noteq> 0 then (TEE_ERROR_BAD_FORMAT, m)
                 else let (ret, m) = x509_crt_verify api Crt Trust_crt m
                   in if ret \<noteq> 0 then (TEE_ERROR_BAD_FORMAT, m) else (TEE_SUCCESS, m))
          in (res, params, mb_free api Crt (mb_free api Trust_crt m)))"

section \<open>Writing a certificate\<close>

definition f_rng :: "('m, 'z) mbedtls_api_scheme \<Rightarrow> size_t \<Rightarrow> 'm \<Rightarrow> int \<times> u8 list \<times> 'm" where
  "f_rng api output_len m = (let (output, m) = TEE_GenerateRandom api output_len m in (0, output, m))"

text \<open>The loop that finds out the size, with the block size \<open>bl\<close>; \<^term>\<open>None\<close> is also that it does not end.\<close>

partial_function (option) write_cert_loop ::
  "('m, 'z) mbedtls_api_scheme \<Rightarrow> mb_obj \<Rightarrow> size_t \<Rightarrow> size_t \<Rightarrow> 'm \<Rightarrow> (TEE_Result \<times> size_t \<times> 'm) option" where
  [code]: "write_cert_loop api crt blen bl m =
     (let (b, m) = TEE_Malloc api bl m
      in if b = 0 then Some (TEE_ERROR_OUT_OF_MEMORY, blen, m)
      else
        let (ret, str, m) = x509write_crt_pem api crt (replicate (unat bl) 0) (f_rng api) m
        in if ret = 0 then
          (case strlen str of None \<Rightarrow> None
           | Some n \<Rightarrow> Some (TEE_ERROR_SHORT_BUFFER, of_nat n + 1, TEE_Free api b m))
        else
          let m = TEE_Free api b m
          in if ret \<noteq> MBEDTLS_ERR_BASE64_BUFFER_TOO_SMALL then Some (TEE_ERROR_GENERIC, blen, m)
          else write_cert_loop api crt blen (bl * 2) m)"

text \<open>The result code, the buffer, \<open>*blen\<close> and the memory\<close>

definition write_cert ::
  "('m, 'z) mbedtls_api_scheme \<Rightarrow> mb_obj \<Rightarrow> u8 list \<Rightarrow> size_t \<Rightarrow> 'm \<Rightarrow> (TEE_Result \<times> u8 list \<times> size_t \<times> 'm) option" where
  "write_cert api crt buf blen m =
     (let (ret, buf, m) = x509write_crt_pem api crt buf (f_rng api) m
      in if ret = 0 then Some (TEE_SUCCESS, buf, blen, m)
      else if ret \<noteq> MBEDTLS_ERR_BASE64_BUFFER_TOO_SMALL then Some (TEE_ERROR_GENERIC, buf, blen, m)
      else map_option (\<lambda>(res, blen, m). (res, buf, blen, m)) (write_cert_loop api crt blen 1024 m))"

section \<open>Signing a certificate\<close>

definition parse_issuer_cert :: "('m, 'z) mbedtls_api_scheme \<Rightarrow> mb_obj \<Rightarrow> 'm \<Rightarrow> TEE_Result \<times> 'm" where
  "parse_issuer_cert api crt m =
     (let (buf, m) = TEE_Malloc api (of_nat (length (mid_crt api)) + 1) m
      in if buf = 0 then (TEE_ERROR_OUT_OF_MEMORY, m)
      else
        let (ret, m) = x509_crt_parse api crt (mid_crt api @ [0]) m;
            m = TEE_Free api buf m
        in if ret \<noteq> 0 then (TEE_ERROR_BAD_FORMAT, m) else (TEE_SUCCESS, m))"

definition parse_issuer_key :: "('m, 'z) mbedtls_api_scheme \<Rightarrow> mb_obj \<Rightarrow> 'm \<Rightarrow> TEE_Result \<times> 'm" where
  "parse_issuer_key api pk m =
     (let (buf, m) = TEE_Malloc api (of_nat (length (mid_key api)) + 1) m
      in if buf = 0 then (TEE_ERROR_OUT_OF_MEMORY, m)
      else
        let (ret, m) = pk_parse_key api pk (mid_key api @ [0]) m;
            m = TEE_Free api buf m
        in if ret \<noteq> 0 then (TEE_ERROR_BAD_FORMAT, m) else (TEE_SUCCESS, m))"

text \<open>
  The body of the signing in three parts; \<^term>\<open>Inl\<close> is a jump to \<open>out\<close> with the value \<open>res\<close> has there.
  First the issuer, the request and the names.
\<close>

definition sign_names :: "('m, 'z) mbedtls_api_scheme \<Rightarrow> u8 list \<Rightarrow> 'm \<Rightarrow> (TEE_Result + unit) \<times> 'm" where
  "sign_names api req m =
     (let (ret, m) = parse_issuer_cert api Issuer_crt m in if ret \<noteq> 0 then (Inl TEE_SUCCESS, m)
      else let (ret, m) = parse_issuer_key api Issuer_key m in if ret \<noteq> 0 then (Inl TEE_SUCCESS, m)
      else let (ret, m) = mpi_lset api Serial 1 m in if ret \<noteq> 0 then (Inl TEE_ERROR_BAD_FORMAT, m)
      else let (ret, m) = x509_csr_parse api Csr req m in if ret \<noteq> 0 then (Inl TEE_ERROR_BAD_FORMAT, m)
      else let (ret, name, m) = x509_dn_gets api (replicate 256 0) Csr m in if ret < 0 then (Inl TEE_ERROR_BAD_FORMAT, m)
      else let (ret, m) = x509write_crt_set_subject_name api Write_crt name m in if ret \<noteq> 0 then (Inl TEE_ERROR_BAD_FORMAT, m)
      else let (ret, name, m) = x509_dn_gets api name Issuer_crt m in if ret < 0 then (Inl TEE_ERROR_BAD_FORMAT, m)
      else let (ret, m) = x509write_crt_set_issuer_name api Write_crt name m in if ret \<noteq> 0 then (Inl TEE_ERROR_BAD_FORMAT, m)
      else (Inr (), m))"

text \<open>Then the fields of the certificate\<close>

definition sign_fields :: "('m, 'z) mbedtls_api_scheme \<Rightarrow> 'm \<Rightarrow> (TEE_Result + unit) \<times> 'm" where
  "sign_fields api m =
     (let m = x509write_crt_set_md_alg api Write_crt Csr m;
          m = x509write_crt_set_subject_key api Write_crt Csr m;
          m = x509write_crt_set_issuer_key api Write_crt Issuer_key m;
          (ret, m) = x509write_crt_set_serial api Write_crt Serial m
      in if ret \<noteq> 0 then (Inl TEE_ERROR_BAD_FORMAT, m)
      else let (ret, m) = x509write_crt_set_validity api Write_crt ''19700101000000'' ''20301231235959'' m
        in if ret \<noteq> 0 then (Inl TEE_ERROR_BAD_FORMAT, m)
      else let (ret, m) = x509write_crt_set_basic_constraints api Write_crt 0 0 m
        in if ret \<noteq> 0 then (Inl TEE_ERROR_BAD_FORMAT, m)
      else let (ret, m) = x509write_crt_set_subject_key_identifier api Write_crt m
        in if ret \<noteq> 0 then (Inl TEE_ERROR_BAD_FORMAT, m)
      else let (ret, m) = x509write_crt_set_authority_key_identifier api Write_crt m
        in if ret \<noteq> 0 then (Inl TEE_ERROR_BAD_FORMAT, m)
      else (Inr (), m))"

text \<open>
  \<open>snprintf\<close> with the format \<open>"%*s\n%*s"\<close>: the text, right justified in its widths, cut to the buffer
  and terminated; the value is the whole length, negative when it is no \<open>int\<close>.
\<close>

definition pad_left :: "nat \<Rightarrow> u8 list \<Rightarrow> u8 list" where
  "pad_left n s = replicate (n - length s) 0x20 @ s"

definition chain_text :: "('m, 'z) mbedtls_api_scheme \<Rightarrow> u8 list" where
  "chain_text api = pad_left (length (mid_crt api)) (takeWhile (\<lambda>c. c \<noteq> 0) (mid_crt api)) @ [0x0A] @
     pad_left (length (ca_crt api)) (takeWhile (\<lambda>c. c \<noteq> 0) (ca_crt api))"

definition snprintf_text :: "u8 list \<Rightarrow> uint32 \<Rightarrow> u8 list \<Rightarrow> int \<times> u8 list" where
  "snprintf_text buf n str =
     (let out = (if n = 0 then [] else take (unat n - 1) str @ [0])
      in (if length str < 2 ^ 31 then int (length str) else - 1, put_block buf 0 out))"

text \<open>Last the output: the certificate and the chain.\<close>

definition sign_output ::
  "('m, 'z) mbedtls_api_scheme \<Rightarrow> tee_params \<Rightarrow> 'm \<Rightarrow> (TEE_Result \<times> tee_params \<times> 'm) option" where
  "sign_output api params m =
     (case write_cert api Write_crt (mbuf (p1 params)) (ucast (msize (p1 params))) m of None \<Rightarrow> None
      | Some (res, buf, sz, m) \<Rightarrow>
        let params = params\<lparr>p1 := (p1 params)\<lparr>mbuf := buf\<rparr>\<rparr>
        in if res \<noteq> 0 \<and> res \<noteq> TEE_ERROR_SHORT_BUFFER then Some (res, params, m)
        else
          let params = params\<lparr>p1 := (p1 params)\<lparr>msize := ucast sz\<rparr>\<rparr>;
              (ret, str) = snprintf_text (mbuf (p2 params)) (msize (p2 params)) (chain_text api);
              params = params\<lparr>p2 := (p2 params)\<lparr>mbuf := str\<rparr>\<rparr>
          in if ret < 0 then Some (TEE_ERROR_BAD_FORMAT, params, m)
          else
            let res = (if int (unat (msize (p2 params))) \<le> ret then TEE_ERROR_SHORT_BUFFER else res)
            in Some (res, params\<lparr>p2 := (p2 params)\<lparr>msize := of_int (ret + 1)\<rparr>\<rparr>, m))"

definition sign_objects :: "mb_obj list" where
  "sign_objects = [Serial, Issuer_crt, Issuer_key, Write_crt, Csr]"

definition ta_entry_mbedtls_sign_cert ::
  "('m, 'z) mbedtls_api_scheme \<Rightarrow> uint32 \<Rightarrow> tee_params \<Rightarrow> 'm \<Rightarrow> (TEE_Result \<times> tee_params \<times> 'm) option" where
  "ta_entry_mbedtls_sign_cert api param_type params m =
     (if param_type \<noteq> TEE_PARAM_TYPES PT_MEMREF_INPUT PT_MEMREF_OUTPUT PT_MEMREF_OUTPUT PT_NONE
        then Some (TEE_ERROR_BAD_PARAMETERS, params, m)
      else
        let m = fold (mb_init api) sign_objects m;
            r = (case sign_names api (mbuf (p0 params)) m of
                (Inl res, m) \<Rightarrow> Some (res, params, m)
              | (Inr _, m) \<Rightarrow>
                (case sign_fields api m of
                  (Inl res, m) \<Rightarrow> Some (res, params, m)
                | (Inr _, m) \<Rightarrow> sign_output api params m))
        in map_option (\<lambda>(res, params, m). (res, params, fold (mb_free api) sign_objects m)) r)"

section \<open>What the commands rely on\<close>

text \<open>
  A call that works on one object: the heap blocks of the TA are as before, and so is whether each
  other object holds memory of the library.  \<open>live\<close> are the blocks, \<open>held\<close> the objects that hold memory.
\<close>

definition only :: "('m \<Rightarrow> ptr set) \<Rightarrow> ('m \<Rightarrow> mb_obj set) \<Rightarrow> mb_obj \<Rightarrow> 'm \<Rightarrow> 'm \<Rightarrow> bool" where
  "only live held obj m m' \<longleftrightarrow> live m' = live m \<and> held m' - {obj} = held m - {obj}"

text \<open>
  The laws: the heap does not touch the library's objects, an object holds nothing once it is
  initialised or freed, and every other function works on the object it is given.  A certificate that was written is
  terminated by a zero.
\<close>

definition mbedtls_laws ::
  "('m, 'z) mbedtls_api_scheme \<Rightarrow> ('m \<Rightarrow> ptr set) \<Rightarrow> ('m \<Rightarrow> mb_obj set) \<Rightarrow> bool" where
  "mbedtls_laws api live held \<longleftrightarrow> heap_laws api live \<and>
     (\<forall>n m. held (snd (TEE_Malloc api n m)) = held m) \<and> (\<forall>b m. held (TEE_Free api b m) = held m) \<and>
     (\<forall>obj m. live (mb_free api obj m) = live m \<and> held (mb_free api obj m) = held m - {obj}) \<and>
     (\<forall>obj m. live (mb_init api obj m) = live m \<and> held (mb_init api obj m) = held m - {obj}) \<and>
     (\<forall>obj b m. only live held obj m (snd (x509_crt_parse api obj b m))) \<and>
     (\<forall>obj t m. only live held obj m (snd (x509_crt_verify api obj t m))) \<and>
     (\<forall>obj b m. only live held obj m (snd (x509_csr_parse api obj b m))) \<and>
     (\<forall>obj b m. only live held obj m (snd (pk_parse_key api obj b m))) \<and>
     (\<forall>obj i m. only live held obj m (snd (mpi_lset api obj i m))) \<and>
     (\<forall>n obj m. only live held obj m (snd (snd (x509_dn_gets api n obj m)))) \<and>
     (\<forall>obj n m. only live held obj m (snd (x509write_crt_set_subject_name api obj n m))) \<and>
     (\<forall>obj n m. only live held obj m (snd (x509write_crt_set_issuer_name api obj n m))) \<and>
     (\<forall>obj c m. only live held obj m (x509write_crt_set_md_alg api obj c m)) \<and>
     (\<forall>obj c m. only live held obj m (x509write_crt_set_subject_key api obj c m)) \<and>
     (\<forall>obj c m. only live held obj m (x509write_crt_set_issuer_key api obj c m)) \<and>
     (\<forall>obj c m. only live held obj m (snd (x509write_crt_set_serial api obj c m))) \<and>
     (\<forall>obj s t m. only live held obj m (snd (x509write_crt_set_validity api obj s t m))) \<and>
     (\<forall>obj i j m. only live held obj m (snd (x509write_crt_set_basic_constraints api obj i j m))) \<and>
     (\<forall>obj m. only live held obj m (snd (x509write_crt_set_subject_key_identifier api obj m))) \<and>
     (\<forall>obj m. only live held obj m (snd (x509write_crt_set_authority_key_identifier api obj m))) \<and>
     (\<forall>obj b f m. only live held obj m (snd (snd (x509write_crt_pem api obj b f m)))) \<and>
     (\<forall>obj b f m str m'. x509write_crt_pem api obj b f m = (0, str, m') \<longrightarrow> 0 \<in> set str)"

text \<open>A heap of bounded size: blocks of more than \<open>bound\<close> bytes are refused.\<close>

definition heap_bounded :: "('m, 'z) heap_api_scheme \<Rightarrow> nat \<Rightarrow> bool" where
  "heap_bounded api bound \<longleftrightarrow> (\<forall>n m. bound < unat n \<longrightarrow> fst (TEE_Malloc api n m) = 0)"

lemma pem_law:
  assumes "mbedtls_laws api live held" "x509write_crt_pem api obj b f m = (ret, str, m')"
  shows "only live held obj m m'" "ret = 0 \<Longrightarrow> 0 \<in> set str"
proof -
  have "only live held obj m (snd (snd (x509write_crt_pem api obj b f m)))"
    using assms(1) unfolding mbedtls_laws_def by blast
  then show "only live held obj m m'" by (simp add: assms(2))
  show "0 \<in> set str" if "ret = 0" using assms that unfolding mbedtls_laws_def by blast
qed

lemma mb_heap: "mbedtls_laws api live held \<Longrightarrow> heap_laws api live"
  by (simp add: mbedtls_laws_def)

lemma mb_malloc_held: "mbedtls_laws api live held \<Longrightarrow> TEE_Malloc api n m = (b, m') \<Longrightarrow> held m' = held m"
  unfolding mbedtls_laws_def by (metis snd_conv)

lemma mb_free_held: "mbedtls_laws api live held \<Longrightarrow> held (TEE_Free api b m) = held m"
  by (simp add: mbedtls_laws_def)

text \<open>A block taken and given back around a call on an object\<close>

lemma only_bracket:
  assumes l: "mbedtls_laws api live held" and a: "TEE_Malloc api n m = (b, m1)" "b \<noteq> 0"
    and o: "only live held obj m1 m2"
  shows "only live held obj m (TEE_Free api b m2)"
proof -
  have "live m1 = insert b (live m)" "b \<notin> live m"
    using malloc_law [OF mb_heap [OF l] a(1)] a(2) by auto
  moreover have "held m1 = held m" by (rule mb_malloc_held [OF l a(1)])
  ultimately show ?thesis
    using o live_free [OF mb_heap [OF l]] mb_free_held [OF l] by (simp add: only_def)
qed

lemma only_failed_malloc:
  assumes l: "mbedtls_laws api live held" and a: "TEE_Malloc api n m = (0, m1)"
  shows "only live held obj m m1"
  using malloc_law [OF mb_heap [OF l] a] mb_malloc_held [OF l a] by (simp add: only_def)

lemma only_trans: "only live held obj m m1 \<Longrightarrow> only live held obj m1 m2 \<Longrightarrow> only live held obj m m2"
  by (simp add: only_def)

lemma strlen_ok: "0 \<in> set b \<Longrightarrow> strlen b = Some (length (takeWhile (\<lambda>c. c \<noteq> 0) b))"
  by (simp add: strlen_def)

section \<open>The search for the size ends\<close>

lemma double_below:
  assumes "unat (bl :: size_t) < 2 ^ 63"
  shows "unat (bl * 2) = 2 * unat bl"
  using assms by (simp add: unat_word_ariths(2))

lemma write_cert_loop_ok:
  assumes l: "mbedtls_laws api live held" and b: "heap_bounded api bound" "bound < 2 ^ 63"
  shows "0 < unat bl \<Longrightarrow> \<exists>res n m'. write_cert_loop api crt blen bl m = Some (res, n, m') \<and> only live held crt m m' \<and>
    res \<in> {TEE_ERROR_OUT_OF_MEMORY, TEE_ERROR_SHORT_BUFFER, TEE_ERROR_GENERIC} \<and>
    (res \<noteq> TEE_ERROR_SHORT_BUFFER \<longrightarrow> n = blen)"
proof (induction "2 ^ 64 - unat bl" arbitrary: bl m rule: less_induct)
  case less
  obtain p m1 where a: "TEE_Malloc api bl m = (p, m1)" by fastforce
  obtain ret str m2 where w: "x509write_crt_pem api crt (replicate (unat bl) 0) (f_rng api) m1 = (ret, str, m2)"
    by (metis prod_cases3)
  note pem = pem_law [OF l w]
  show ?case
  proof (cases "p = 0")
    case True
    then have "write_cert_loop api crt blen bl m = Some (TEE_ERROR_OUT_OF_MEMORY, blen, m1)"
      by (subst write_cert_loop.simps) (simp add: a)
    with only_failed_malloc [OF l] a True show ?thesis by auto
  next
    case False
    note brk = only_bracket [OF l a False pem(1)]
    consider (small) "ret = MBEDTLS_ERR_BASE64_BUFFER_TOO_SMALL" | (ok) "ret = 0" | (bad) "ret \<noteq> 0" "ret \<noteq> MBEDTLS_ERR_BASE64_BUFFER_TOO_SMALL"
      by blast
    then show ?thesis
    proof cases
      case small
      have "unat bl \<le> bound" using b(1) a False unfolding heap_bounded_def by (metis fst_conv not_le)
      then have d: "unat (bl * 2) = 2 * unat bl" "unat bl < 2 ^ 63" using double_below b(2) by auto
      have "2 ^ 64 - unat (bl * 2) < 2 ^ 64 - unat bl" "0 < unat (bl * 2)" using d less.prems by auto
      from less.hyps [OF this, of "TEE_Free api p m2"]
      obtain res n m' where i: "write_cert_loop api crt blen (bl * 2) (TEE_Free api p m2) = Some (res, n, m')"
        "only live held crt (TEE_Free api p m2) m'"
        "res \<in> {TEE_ERROR_OUT_OF_MEMORY, TEE_ERROR_SHORT_BUFFER, TEE_ERROR_GENERIC}"
        "res \<noteq> TEE_ERROR_SHORT_BUFFER \<longrightarrow> n = blen" by blast
      have "write_cert_loop api crt blen bl m = Some (res, n, m')"
        by (subst write_cert_loop.simps) (simp add: a False w small i(1) MBEDTLS_ERR_BASE64_BUFFER_TOO_SMALL_def)
      with i only_trans [OF brk] show ?thesis by blast
    next
      case ok
      then have "write_cert_loop api crt blen bl m =
          Some (TEE_ERROR_SHORT_BUFFER, of_nat (length (takeWhile (\<lambda>c. c \<noteq> 0) str)) + 1, TEE_Free api p m2)"
        by (subst write_cert_loop.simps) (simp add: a False w strlen_ok [OF pem(2)])
      with brk show ?thesis by auto
    next
      case bad
      then have "write_cert_loop api crt blen bl m = Some (TEE_ERROR_GENERIC, blen, TEE_Free api p m2)"
        by (subst write_cert_loop.simps) (simp add: a False w Let_def)
      with brk show ?thesis by auto
    qed
  qed
qed

lemma write_cert_ok:
  assumes l: "mbedtls_laws api live held" and b: "heap_bounded api bound" "bound < 2 ^ 63"
  shows "\<exists>res buf' n m'. write_cert api crt buf blen m = Some (res, buf', n, m') \<and> only live held crt m m' \<and>
    res \<in> {TEE_SUCCESS, TEE_ERROR_OUT_OF_MEMORY, TEE_ERROR_SHORT_BUFFER, TEE_ERROR_GENERIC} \<and>
    (res \<noteq> TEE_ERROR_SHORT_BUFFER \<longrightarrow> n = blen)"
proof -
  obtain ret str m1 where w: "x509write_crt_pem api crt buf (f_rng api) m = (ret, str, m1)" by (metis prod_cases3)
  note o = pem_law(1) [OF l w]
  obtain res n m' where i: "write_cert_loop api crt blen 1024 m1 = Some (res, n, m')" "only live held crt m1 m'"
    "res \<in> {TEE_ERROR_OUT_OF_MEMORY, TEE_ERROR_SHORT_BUFFER, TEE_ERROR_GENERIC}" "res \<noteq> TEE_ERROR_SHORT_BUFFER \<longrightarrow> n = blen"
    using write_cert_loop_ok [OF l b, of 1024 crt blen m1] by auto
  show ?thesis
  proof (cases "ret = 0 \<or> ret \<noteq> MBEDTLS_ERR_BASE64_BUFFER_TOO_SMALL")
    case True
    with o show ?thesis by (auto simp: write_cert_def w)
  next
    case False
    with i only_trans [OF o i(2)] show ?thesis by (auto simp: write_cert_def w)
  qed
qed

text \<open>
  C35.  On a heap that refuses blocks above some bound the search for the size of the certificate
  comes to an end, whatever size the certificate has: \<open>write_cert\<close> returns one of four results, gives
  back every block it took, and changes the length only with \<open>TEE_ERROR_SHORT_BUFFER\<close>.
\<close>

theorem write_cert_returns:
  assumes "mbedtls_laws api live held" "heap_bounded api bound" "bound < 2 ^ 63"
  shows "\<exists>res buf' n m'. write_cert api crt buf blen m = Some (res, buf', n, m') \<and> live m' = live m \<and>
    res \<in> {TEE_SUCCESS, TEE_ERROR_OUT_OF_MEMORY, TEE_ERROR_SHORT_BUFFER, TEE_ERROR_GENERIC} \<and>
    (res \<noteq> TEE_ERROR_SHORT_BUFFER \<longrightarrow> n = blen)"
  using write_cert_ok [OF assms, of crt buf blen m] unfolding only_def by blast

section \<open>A second attempt succeeds\<close>

text \<open>
  The certificate has the PEM text \<open>pem\<close>: the library writes it with a terminating zero into a buffer
  that is large enough and refuses a smaller one.  The heap grants blocks of the sizes tried.
\<close>

definition pem_text :: "('m, 'z) mbedtls_api_scheme \<Rightarrow> mb_obj \<Rightarrow> u8 list \<Rightarrow> bool" where
  "pem_text api crt pem \<longleftrightarrow> 0 \<notin> set pem \<and> (\<forall>buf f m. \<exists>m'. x509write_crt_pem api crt buf f m =
     (if length pem < length buf then (0, pem @ [0] @ drop (Suc (length pem)) buf, m')
      else (MBEDTLS_ERR_BASE64_BUFFER_TOO_SMALL, buf, m')))"

definition heap_grants :: "('m, 'z) heap_api_scheme \<Rightarrow> nat \<Rightarrow> bool" where
  "heap_grants api n \<longleftrightarrow> (\<forall>k m. unat k \<le> n \<longrightarrow> fst (TEE_Malloc api k m) \<noteq> 0)"

lemma takeWhile_pem: "0 \<notin> set pem \<Longrightarrow> takeWhile (\<lambda>c. c \<noteq> 0) (pem @ 0 # ys) = (pem :: u8 list)"
  by (induction pem) auto

lemma write_cert_loop_size:
  assumes p: "pem_text api crt pem" and g: "heap_grants api (max 1024 (2 * length pem))" and n: "length pem < 2 ^ 62"
  shows "0 < unat bl \<Longrightarrow> unat bl \<le> max 1024 (2 * length pem) \<Longrightarrow>
    \<exists>m'. write_cert_loop api crt blen bl m = Some (TEE_ERROR_SHORT_BUFFER, of_nat (Suc (length pem)), m')"
proof (induction "2 ^ 64 - unat bl" arbitrary: bl m rule: less_induct)
  case less
  obtain b m1 where a: "TEE_Malloc api bl m = (b, m1)" "b \<noteq> 0"
    using g less.prems(2) unfolding heap_grants_def by (metis prod.collapse)
  obtain m2 where w: "x509write_crt_pem api crt (replicate (unat bl) 0) (f_rng api) m1 =
     (if length pem < unat bl then (0, pem @ [0] @ drop (Suc (length pem)) (replicate (unat bl) 0), m2)
      else (MBEDTLS_ERR_BASE64_BUFFER_TOO_SMALL, replicate (unat bl) 0, m2))"
    using p unfolding pem_text_def by (metis length_replicate)
  show ?case
  proof (cases "length pem < unat bl")
    case True
    have "strlen (pem @ [0] @ drop (Suc (length pem)) (replicate (unat bl) 0)) = Some (length pem)"
      using p by (simp add: strlen_def takeWhile_pem pem_text_def)
    then show ?thesis
      by (subst write_cert_loop.simps) (simp add: a w True)
  next
    case False
    then have d: "unat (bl * 2) = 2 * unat bl" using n by (intro double_below) simp
    have "2 ^ 64 - unat (bl * 2) < 2 ^ 64 - unat bl" "0 < unat (bl * 2)" "unat (bl * 2) \<le> max 1024 (2 * length pem)"
      using d less.prems n False by auto
    from less.hyps [OF this, of "TEE_Free api b m2"] show ?thesis
      by (subst write_cert_loop.simps) (simp add: a w False MBEDTLS_ERR_BASE64_BUFFER_TOO_SMALL_def)
  qed
qed

text \<open>
  A client that called with too small a buffer is told the exact size, and the second call with
  a buffer of that size gets the certificate.
\<close>

theorem write_cert_retry:
  assumes "pem_text api crt pem" "heap_grants api (max 1024 (2 * length pem))" "length pem < 2 ^ 62"
    and "length buf \<le> length pem" "length buf' = Suc (length pem)"
  shows "(\<exists>m'. write_cert api crt buf blen m = Some (TEE_ERROR_SHORT_BUFFER, buf, of_nat (length buf'), m')) \<and>
    (\<exists>m'. write_cert api crt buf' (of_nat (length buf')) m = Some (TEE_SUCCESS, pem @ [0], of_nat (length buf'), m'))"
proof
  obtain m1 where w: "x509write_crt_pem api crt buf (f_rng api) m = (MBEDTLS_ERR_BASE64_BUFFER_TOO_SMALL, buf, m1)"
    using assms(1,4) unfolding pem_text_def by (metis not_le)
  obtain m2 where "write_cert_loop api crt blen 1024 m1 = Some (TEE_ERROR_SHORT_BUFFER, of_nat (Suc (length pem)), m2)"
    using write_cert_loop_size [OF assms(1-3), of 1024 blen m1] by auto
  then show "\<exists>m'. write_cert api crt buf blen m = Some (TEE_ERROR_SHORT_BUFFER, buf, of_nat (length buf'), m')"
    by (simp add: write_cert_def w assms(5) MBEDTLS_ERR_BASE64_BUFFER_TOO_SMALL_def)
  obtain m3 where w: "x509write_crt_pem api crt buf' (f_rng api) m =
      (if length pem < length buf' then (0, pem @ [0] @ drop (Suc (length pem)) buf', m3)
       else (MBEDTLS_ERR_BASE64_BUFFER_TOO_SMALL, buf', m3))"
    using assms(1) unfolding pem_text_def by metis
  show "\<exists>m'. write_cert api crt buf' (of_nat (length buf')) m = Some (TEE_SUCCESS, pem @ [0], of_nat (length buf'), m')"
    using assms(5) by (simp add: write_cert_def w)
qed

section \<open>What the commands leave behind\<close>

lemma mb_only:
  assumes "mbedtls_laws api live held"
  shows "only live held obj m (mb_init api obj m)"
    "only live held obj m (snd (x509_crt_parse api obj b m))"
    "only live held obj m (snd (x509_crt_verify api obj t m))"
    "only live held obj m (snd (x509_csr_parse api obj b m))"
    "only live held obj m (snd (pk_parse_key api obj b m))"
    "only live held obj m (snd (mpi_lset api obj i m))"
    "only live held obj m (snd (snd (x509_dn_gets api b obj m)))"
    "only live held obj m (snd (x509write_crt_set_subject_name api obj b m))"
    "only live held obj m (snd (x509write_crt_set_issuer_name api obj b m))"
    "only live held obj m (x509write_crt_set_md_alg api obj t m)"
    "only live held obj m (x509write_crt_set_subject_key api obj t m)"
    "only live held obj m (x509write_crt_set_issuer_key api obj t m)"
    "only live held obj m (snd (x509write_crt_set_serial api obj t m))"
    "only live held obj m (snd (x509write_crt_set_validity api obj from to m))"
    "only live held obj m (snd (x509write_crt_set_basic_constraints api obj i j m))"
    "only live held obj m (snd (x509write_crt_set_subject_key_identifier api obj m))"
    "only live held obj m (snd (x509write_crt_set_authority_key_identifier api obj m))"
  using assms by (simp_all add: mbedtls_laws_def only_def)

lemma parse_issuer_cert_only:
  assumes l: "mbedtls_laws api live held"
  shows "only live held crt m (snd (parse_issuer_cert api crt m))"
proof -
  obtain b m1 where a: "TEE_Malloc api (of_nat (length (mid_crt api)) + 1) m = (b, m1)" by fastforce
  show ?thesis
    using only_failed_malloc [OF l, of _ m m1] only_bracket [OF l a _ mb_only(2) [OF l]] a
    by (auto simp: parse_issuer_cert_def Let_def split_beta)
qed

lemma parse_issuer_key_only:
  assumes l: "mbedtls_laws api live held"
  shows "only live held pk m (snd (parse_issuer_key api pk m))"
proof -
  obtain b m1 where a: "TEE_Malloc api (of_nat (length (mid_key api)) + 1) m = (b, m1)" by fastforce
  show ?thesis
    using only_failed_malloc [OF l, of _ m m1] only_bracket [OF l a _ mb_only(5) [OF l]] a
    by (auto simp: parse_issuer_key_def Let_def split_beta)
qed

text \<open>Several objects: all but those in \<open>objs\<close> are as before.\<close>

definition apart :: "('m \<Rightarrow> ptr set) \<Rightarrow> ('m \<Rightarrow> mb_obj set) \<Rightarrow> mb_obj set \<Rightarrow> 'm \<Rightarrow> 'm \<Rightarrow> bool" where
  "apart live held objs m m' \<longleftrightarrow> live m' = live m \<and> held m' - objs = held m - objs"

lemma apart_only: "apart live held objs m m1 \<Longrightarrow> only live held obj m1 m2 \<Longrightarrow> obj \<in> objs \<Longrightarrow> apart live held objs m m2"
  unfolding apart_def only_def by blast

lemma apart_call:
  "only live held obj m1 (snd r) \<Longrightarrow> apart live held objs m m1 \<Longrightarrow> obj \<in> objs \<Longrightarrow>
    (\<And>ret m2. apart live held objs m m2 \<Longrightarrow> apart live held objs m (snd (k ret m2))) \<Longrightarrow>
    apart live held objs m (snd (let (ret, m2) = r in k ret m2))"
  using apart_only by (fastforce simp: split_beta)

lemma apart_call3:
  "only live held obj m1 (snd (snd r)) \<Longrightarrow> apart live held objs m m1 \<Longrightarrow> obj \<in> objs \<Longrightarrow>
    (\<And>ret x m2. apart live held objs m m2 \<Longrightarrow> apart live held objs m (snd (k ret x m2))) \<Longrightarrow>
    apart live held objs m (snd (let (ret, x, m2) = r in k ret x m2))"
  using apart_only by (fastforce simp: split_beta)

lemma apart_let:
  "only live held obj m1 r \<Longrightarrow> apart live held objs m m1 \<Longrightarrow> obj \<in> objs \<Longrightarrow>
    (\<And>m2. apart live held objs m m2 \<Longrightarrow> apart live held objs m (snd (k m2))) \<Longrightarrow>
    apart live held objs m (snd (let m2 = r in k m2))"
  using apart_only by fastforce

lemma apart_if:
  "apart live held objs m (snd x) \<Longrightarrow> apart live held objs m (snd y) \<Longrightarrow> apart live held objs m (snd (if b then x else y))"
  by simp

lemma apart_pair: "apart live held objs m m1 \<Longrightarrow> apart live held objs m (snd (x, m1))"
  by simp

lemmas apart_rules = apart_call apart_call3 apart_let apart_if apart_pair

lemma sign_names_apart:
  assumes l: "mbedtls_laws api live held"
  shows "apart live held (set sign_objects) m0 m \<Longrightarrow> apart live held (set sign_objects) m0 (snd (sign_names api req m))"
  unfolding sign_names_def
  by (assumption | rule apart_rules mb_only [OF l] parse_issuer_cert_only [OF l] parse_issuer_key_only [OF l] |
      simp add: sign_objects_def)+

lemma sign_fields_apart:
  assumes l: "mbedtls_laws api live held"
  shows "apart live held (set sign_objects) m0 m \<Longrightarrow> apart live held (set sign_objects) m0 (snd (sign_fields api m))"
  unfolding sign_fields_def
  by (assumption | rule apart_rules mb_only [OF l] | simp add: sign_objects_def)+

lemma sign_output_apart:
  assumes "mbedtls_laws api live held" "heap_bounded api bound" "bound < 2 ^ 63"
    and m: "apart live held (set sign_objects) m0 m"
  shows "\<exists>res ps m'. sign_output api params m = Some (res, ps, m') \<and> apart live held (set sign_objects) m0 m'"
proof -
  obtain res buf n m' where w: "write_cert api Write_crt (mbuf (p1 params)) (ucast (msize (p1 params))) m = Some (res, buf, n, m')"
    and o: "only live held Write_crt m m'"
    using write_cert_ok [OF assms(1-3)] by blast
  have "apart live held (set sign_objects) m0 m'" by (rule apart_only [OF m o]) (simp add: sign_objects_def)
  then show ?thesis by (auto simp: sign_output_def w Let_def split_beta)
qed

lemma inits_apart:
  assumes l: "mbedtls_laws api live held"
  shows "set xs \<subseteq> objs \<Longrightarrow> apart live held objs m0 m \<Longrightarrow> apart live held objs m0 (fold (mb_init api) xs m)"
proof (induction xs arbitrary: m)
  case (Cons x xs)
  with apart_only [OF Cons.prems(2) mb_only(1) [OF l]] show ?case by simp
qed simp

lemma frees_held:
  assumes l: "mbedtls_laws api live held"
  shows "held (fold (mb_free api) xs m) = held m - set xs \<and> live (fold (mb_free api) xs m) = live m"
proof (induction xs arbitrary: m)
  case Nil
  show ?case by simp
next
  case (Cons x xs)
  have "held (mb_free api x m) = held m - {x} \<and> live (mb_free api x m) = live m" using l by (simp add: mbedtls_laws_def)
  then show ?case using Cons.IH [of "mb_free api x m"] by auto
qed

lemma sign_cert_releases:
  assumes l: "mbedtls_laws api live held" and b: "heap_bounded api bound" "bound < 2 ^ 63"
    and f: "held m \<inter> set sign_objects = {}"
  shows "\<exists>res ps m'. ta_entry_mbedtls_sign_cert api t params m = Some (res, ps, m') \<and> live m' = live m \<and> held m' = held m"
proof (cases "t = TEE_PARAM_TYPES PT_MEMREF_INPUT PT_MEMREF_OUTPUT PT_MEMREF_OUTPUT PT_NONE")
  case False
  then show ?thesis by (simp add: ta_entry_mbedtls_sign_cert_def)
next
  case True
  let ?a = "apart live held (set sign_objects) m"
  define m1 where "m1 = fold (mb_init api) sign_objects m"
  obtain r1 m2 where n: "sign_names api (mbuf (p0 params)) m1 = (r1, m2)" by fastforce
  obtain r2 m3 where f2: "sign_fields api m2 = (r2, m3)" by fastforce
  have "?a m1" unfolding m1_def by (rule inits_apart [OF l]) (simp_all add: apart_def)
  from sign_names_apart [OF l this, of "mbuf (p0 params)"] have a2: "?a m2" by (simp add: n)
  from sign_fields_apart [OF l this] have a3: "?a m3" by (simp add: f2)
  obtain res ps m4 where o: "sign_output api params m3 = Some (res, ps, m4)" "?a m4"
    using sign_output_apart [OF l b a3] by blast
  have out: "live (fold (mb_free api) sign_objects m') = live m \<and> held (fold (mb_free api) sign_objects m') = held m"
    if "?a m'" for m'
    using that f frees_held [OF l, of sign_objects m'] unfolding apart_def by blast
  show ?thesis
    using out [OF a2] out [OF a3] out [OF o(2)]
    by (auto simp: ta_entry_mbedtls_sign_cert_def True Let_def m1_def [symmetric] n f2 o(1) split: sum.split)
qed

lemma check_cert_releases:
  assumes l: "mbedtls_laws api live held" and f: "held m \<inter> {Crt, Trust_crt} = {}"
    and c: "ta_entry_mbedtls_check_cert api t params m = (res, ps, m')"
  shows "live m' = live m \<and> held m' - {Crt} = held m \<and>
    (Crt \<in> held m' \<longrightarrow> fst (x509_crt_parse api Crt (mbuf (p0 params)) (mb_init api Trust_crt (mb_init api Crt m))) \<noteq> 0)"
proof (cases "t = TEE_PARAM_TYPES PT_MEMREF_INPUT PT_MEMREF_INPUT PT_NONE PT_NONE")
  case False
  with c f show ?thesis by (auto simp: ta_entry_mbedtls_check_cert_def)
next
  case True
  define m1 where "m1 = mb_init api Trust_crt (mb_init api Crt m)"
  obtain r1 m2 where p1: "x509_crt_parse api Crt (mbuf (p0 params)) m1 = (r1, m2)" by fastforce
  obtain r2 m3 where p2: "x509_crt_parse api Trust_crt (mbuf (p1 params)) m2 = (r2, m3)" by fastforce
  obtain r3 m4 where v: "x509_crt_verify api Crt Trust_crt m3 = (r3, m4)" by fastforce
  have i: "held m1 = held m" "live m1 = live m"
    using l f by (auto simp: mbedtls_laws_def m1_def)
  have o: "only live held Crt m1 m2" "only live held Trust_crt m2 m3" "only live held Crt m3 m4"
    using mb_only(2) [OF l, of Crt m1 "mbuf (p0 params)"] mb_only(2) [OF l, of Trust_crt m2 "mbuf (p1 params)"]
      mb_only(3) [OF l, of Crt m3 Trust_crt] by (simp_all add: p1 p2 v)
  have free: "held (mb_free api Crt (mb_free api Trust_crt x)) = held x - {Trust_crt} - {Crt} \<and>
      live (mb_free api Crt (mb_free api Trust_crt x)) = live x" for x
    using l by (simp add: mbedtls_laws_def)
  show ?thesis
  proof (cases "r1 = 0")
    case True
    then have m': "m' = mb_free api Crt (mb_free api Trust_crt (if r2 \<noteq> 0 then m3 else m4))"
      using c by (auto simp: ta_entry_mbedtls_check_cert_def \<open>t = _\<close> Let_def m1_def [symmetric] p1 p2 v split: if_splits)
    have swap: "A - {Crt} - {Trust_crt} = A - {Trust_crt} - {Crt}" for A :: "mb_obj set" by blast
    have s3: "held m3 - {Trust_crt} - {Crt} = held m"
    proof -
      have "held m3 - {Trust_crt} - {Crt} = held m2 - {Crt} - {Trust_crt}" using o(2) by (simp add: only_def swap)
      also have "\<dots> = held m - {Crt} - {Trust_crt}" using o(1) i by (simp add: only_def)
      also have "\<dots> = held m" using f by blast
      finally show ?thesis .
    qed
    have s4: "held m4 - {Trust_crt} - {Crt} = held m"
      using o(3) s3 unfolding only_def swap [symmetric] by simp
    have lv: "live m3 = live m" "live m4 = live m" using o i by (simp_all add: only_def)
    have "held m' = held m \<and> live m' = live m"
      using free s3 s4 lv unfolding m' by simp
    with f show ?thesis by auto
  next
    case False
    then have "m' = m2"
      using c by (auto simp: ta_entry_mbedtls_check_cert_def \<open>t = _\<close> Let_def m1_def [symmetric] p1)
    with False i o(1) f show ?thesis unfolding only_def m1_def [symmetric] by (auto simp: p1)
  qed
qed

text \<open>
  C37.  The certificate commands return on every input and release what they took: afterwards the
  heap has the same blocks and no certificate, key or number holds memory of the library, with one
  exception, the certificate to be checked when it does not parse.
\<close>

theorem cert_commands_release:
  assumes "mbedtls_laws api live held" "heap_bounded api bound" "bound < 2 ^ 63" "held m = {}"
  shows "(\<exists>res ps m'. ta_entry_mbedtls_sign_cert api t params m = Some (res, ps, m') \<and> live m' = live m \<and> held m' = {}) \<and>
    (case ta_entry_mbedtls_check_cert api t params m of (res, ps, m') \<Rightarrow> live m' = live m \<and> held m' \<subseteq> {Crt} \<and>
      (held m' = {} \<or> fst (x509_crt_parse api Crt (mbuf (p0 params)) (mb_init api Trust_crt (mb_init api Crt m))) \<noteq> 0))"
proof
  show "\<exists>res ps m'. ta_entry_mbedtls_sign_cert api t params m = Some (res, ps, m') \<and> live m' = live m \<and> held m' = {}"
    using sign_cert_releases [OF assms(1-3), of m t params] assms(4) by auto
  obtain res ps m' where c: "ta_entry_mbedtls_check_cert api t params m = (res, ps, m')" by (metis prod_cases3)
  show "case ta_entry_mbedtls_check_cert api t params m of (res, ps, m') \<Rightarrow> live m' = live m \<and> held m' \<subseteq> {Crt} \<and>
      (held m' = {} \<or> fst (x509_crt_parse api Crt (mbuf (p0 params)) (mb_init api Trust_crt (mb_init api Crt m))) \<noteq> 0)"
    using check_cert_releases [OF assms(1) _ c] assms(4) unfolding c by auto
qed

text \<open>A failure to load the issuer is reported as success, with no certificate written.\<close>

lemma sign_cert_issuer_failure:
  assumes "parse_issuer_cert api Issuer_crt (fold (mb_init api) sign_objects m) = (ret, m1)" "ret \<noteq> TEE_SUCCESS"
  shows "\<exists>m'. ta_entry_mbedtls_sign_cert api (TEE_PARAM_TYPES PT_MEMREF_INPUT PT_MEMREF_OUTPUT PT_MEMREF_OUTPUT PT_NONE)
    params m = Some (TEE_SUCCESS, params, m')"
  using assms by (simp add: ta_entry_mbedtls_sign_cert_def sign_names_def TEE_SUCCESS_def)

section \<open>Concrete runs\<close>

text \<open>
  A heap of at most 8192 bytes a block and a library that accepts every text but the empty one and
  whose certificates have 1500 characters.
\<close>

type_synonym mb_mem = "ptr list \<times> mb_obj list"

definition hold :: "mb_obj \<Rightarrow> mb_mem \<Rightarrow> mb_mem" where
  "hold obj m = (fst m, obj # snd m)"

definition drop_obj :: "mb_obj \<Rightarrow> mb_mem \<Rightarrow> mb_mem" where
  "drop_obj obj m = (fst m, filter (\<lambda>x. x \<noteq> obj) (snd m))"

definition pem_example :: "u8 list" where
  "pem_example = replicate 1500 0x2D"

definition mb_example :: "mb_mem mbedtls_api" where
  "mb_example = \<lparr>
     TEE_Malloc = \<lambda>n m. if unat n \<le> 8192 then (Suc (sum_list (fst m)), Suc (sum_list (fst m)) # fst m, snd m) else (0, m),
     TEE_Free = \<lambda>p m. (filter (\<lambda>q. q \<noteq> p) (fst m), snd m),
     TEE_GenerateRandom = \<lambda>n m. (replicate (unat n) 4, m),
     self_test = \<lambda>x m. (0, m), mb_init = drop_obj, mb_free = drop_obj,
     x509_crt_parse = \<lambda>obj b m. if b = [] then (- 1, m) else (0, hold obj m),
     x509_crt_verify = \<lambda>obj t m. (0, m),
     x509_csr_parse = \<lambda>obj b m. if b = [] then (- 1, m) else (0, hold obj m),
     pk_parse_key = \<lambda>obj b m. (0, hold obj m),
     mpi_lset = \<lambda>obj i m. (0, hold obj m),
     x509_dn_gets = \<lambda>n obj m. (1, n, m),
     x509write_crt_set_subject_name = \<lambda>obj b m. (0, hold obj m),
     x509write_crt_set_issuer_name = \<lambda>obj b m. (0, hold obj m),
     x509write_crt_set_md_alg = \<lambda>obj c m. m,
     x509write_crt_set_subject_key = \<lambda>obj c m. m,
     x509write_crt_set_issuer_key = \<lambda>obj c m. m,
     x509write_crt_set_serial = \<lambda>obj c m. (0, m),
     x509write_crt_set_validity = \<lambda>obj s t m. (0, m),
     x509write_crt_set_basic_constraints = \<lambda>obj i j m. (0, m),
     x509write_crt_set_subject_key_identifier = \<lambda>obj m. (0, m),
     x509write_crt_set_authority_key_identifier = \<lambda>obj m. (0, m),
     x509write_crt_pem = \<lambda>obj buf f m. if 1500 < length buf then (0, pem_example @ [0] @ drop 1501 buf, m)
       else (MBEDTLS_ERR_BASE64_BUFFER_TOO_SMALL, buf, m),
     ca_crt = [0x43], mid_crt = [0x4D], mid_key = [0x4B],
     CFG_TA_MBEDTLS_SELF_TEST = True\<rparr>"

lemma mb_example_laws: "mbedtls_laws mb_example (\<lambda>m. set (fst m) - {0}) (\<lambda>m. set (snd m))"
  unfolding mbedtls_laws_def heap_laws_def only_def mb_example_def hold_def drop_obj_def
  by (auto simp: fresh_block MBEDTLS_ERR_BASE64_BUFFER_TOO_SMALL_def split: if_splits)

lemma mb_example_bounded: "heap_bounded mb_example 8192"
  by (simp add: heap_bounded_def mb_example_def)

lemma mb_example_grants: "heap_grants mb_example (max 1024 (2 * length pem_example))"
  by (simp add: heap_grants_def mb_example_def pem_example_def)

lemma mb_example_pem: "pem_text mb_example Write_crt pem_example"
  by (auto simp: pem_text_def mb_example_def pem_example_def)

lemma write_cert_returns_witness:
  "\<exists>res buf' n m'. write_cert mb_example Write_crt [0] 1 ([], []) = Some (res, buf', n, m') \<and> set (fst m') - {0} = {}"
  using write_cert_returns [OF mb_example_laws mb_example_bounded, of Write_crt "[0]" 1 "([], [])"] by auto

lemma write_cert_retry_witness:
  "\<exists>m'. write_cert mb_example Write_crt [] 0 ([], []) = Some (TEE_ERROR_SHORT_BUFFER, [], 1501, m')"
  using write_cert_retry [OF mb_example_pem mb_example_grants, of "[]" "replicate 1501 0" 0 "([], [])"]
  by (simp add: pem_example_def)

lemma cert_commands_release_witness:
  "\<exists>res ps m'. ta_entry_mbedtls_sign_cert mb_example (TEE_PARAM_TYPES PT_MEMREF_INPUT PT_MEMREF_OUTPUT PT_MEMREF_OUTPUT PT_NONE)
     zero_params ([], []) = Some (res, ps, m') \<and> set (fst m') - {0} = {} \<and> set (snd m') = {}"
  using cert_commands_release [OF mb_example_laws mb_example_bounded, of "([], [])"
      "TEE_PARAM_TYPES PT_MEMREF_INPUT PT_MEMREF_OUTPUT PT_MEMREF_OUTPUT PT_NONE" zero_params] by auto

end
