(* ===== verification/Crypt_Entry.thy ===== *)
theory Crypt_Entry
  imports Arith_Taf Cryp_Taf Crypt_Data Crypt_Pta Mbedtls_Taf
begin

text \<open>
  Model of \<open>src/ta/crypt/ta_entry.c\<close>, which puts the crypt TA together: the dispatch of all
  commands, and the global value.  The state holds the statics of all files of the TA; the command
  groups share one memory, the \<open>mem\<close> of the arithmetic part, which their API functions work on.
\<close>

definition TA_CRYPT_CMD_SHA224 :: uint32 where "TA_CRYPT_CMD_SHA224 = 1"
definition TA_CRYPT_CMD_SHA256 :: uint32 where "TA_CRYPT_CMD_SHA256 = 2"
definition TA_CRYPT_CMD_AES256ECB_ENC :: uint32 where "TA_CRYPT_CMD_AES256ECB_ENC = 3"
definition TA_CRYPT_CMD_AES256ECB_DEC :: uint32 where "TA_CRYPT_CMD_AES256ECB_DEC = 4"
definition TA_CRYPT_CMD_SETGLOBAL :: uint32 where "TA_CRYPT_CMD_SETGLOBAL = 40"
definition TA_CRYPT_CMD_GETGLOBAL :: uint32 where "TA_CRYPT_CMD_GETGLOBAL = 41"
definition TA_CRYPT_CMD_MBEDTLS_SELF_TESTS :: uint32 where "TA_CRYPT_CMD_MBEDTLS_SELF_TESTS = 42"
definition TA_CRYPT_CMD_MBEDTLS_CHECK_CERT :: uint32 where "TA_CRYPT_CMD_MBEDTLS_CHECK_CERT = 43"
definition TA_CRYPT_CMD_MBEDTLS_SIGN_CERT :: uint32 where "TA_CRYPT_CMD_MBEDTLS_SIGN_CERT = 44"
definition TA_CRYPT_CMD_SEED_RNG_POOL :: uint32 where "TA_CRYPT_CMD_SEED_RNG_POOL = 45"
definition TA_CRYPT_CMD_ARITH_FREE_HANDLE :: uint32 where "TA_CRYPT_CMD_ARITH_FREE_HANDLE = 49"
definition TA_CRYPT_CMD_DERIVE_TA_UNIQUE_KEY :: uint32 where "TA_CRYPT_CMD_DERIVE_TA_UNIQUE_KEY = 77"
definition TA_CRYPT_CMD_DERIVE_TA_UNIQUE_KEY_SHM :: uint32 where "TA_CRYPT_CMD_DERIVE_TA_UNIQUE_KEY_SHM = 78"

lemmas crypt_cmd_defs = TA_CRYPT_CMD_SHA224_def TA_CRYPT_CMD_SHA256_def TA_CRYPT_CMD_AES256ECB_ENC_def
  TA_CRYPT_CMD_AES256ECB_DEC_def TA_CRYPT_CMD_SETGLOBAL_def TA_CRYPT_CMD_GETGLOBAL_def
  TA_CRYPT_CMD_MBEDTLS_SELF_TESTS_def TA_CRYPT_CMD_MBEDTLS_CHECK_CERT_def TA_CRYPT_CMD_MBEDTLS_SIGN_CERT_def
  TA_CRYPT_CMD_SEED_RNG_POOL_def TA_CRYPT_CMD_ARITH_FREE_HANDLE_def TA_CRYPT_CMD_DERIVE_TA_UNIQUE_KEY_def
  TA_CRYPT_CMD_DERIVE_TA_UNIQUE_KEY_SHM_def

text \<open>The environment of the command groups, and the statics\<close>

record 'm crypt_env =
  bigint_env :: "'m bigint_api"
  cryp_env :: "'m cryp_api"
  mbedtls_env :: "'m mbedtls_api"
  client_env :: "'m client_api"

record 'm crypt_ta =
  globalvalue :: uint32
  use_fptr :: bool
  rk :: "u32 list"
  arith :: "'m arith_st"

type_synonym 'm crypt_res = "(TEE_Result \<times> tee_params \<times> 'm crypt_ta) option"

section \<open>The global value\<close>

definition set_global :: "uint32 \<Rightarrow> tee_params \<Rightarrow> 'm crypt_ta \<Rightarrow> TEE_Result \<times> tee_params \<times> 'm crypt_ta" where
  "set_global param_types params s =
     (if PT_VALUE_INPUT \<noteq> TEE_PARAM_TYPE_GET param_types 0 then (TEE_ERROR_BAD_PARAMETERS, params, s)
      else if \<exists>i \<in> set [1..<4]. PT_NONE \<noteq> TEE_PARAM_TYPE_GET param_types i then (TEE_ERROR_BAD_PARAMETERS, params, s)
      else (TEE_SUCCESS, params, s\<lparr>globalvalue := val_a (p0 params)\<rparr>))"

definition get_global :: "uint32 \<Rightarrow> tee_params \<Rightarrow> 'm crypt_ta \<Rightarrow> TEE_Result \<times> tee_params \<times> 'm crypt_ta" where
  "get_global param_types params s =
     (if PT_VALUE_OUTPUT \<noteq> TEE_PARAM_TYPE_GET param_types 0 then (TEE_ERROR_BAD_PARAMETERS, params, s)
      else if \<exists>i \<in> set [1..<4]. PT_NONE \<noteq> TEE_PARAM_TYPE_GET param_types i then (TEE_ERROR_BAD_PARAMETERS, params, s)
      else (TEE_SUCCESS, params\<lparr>p0 := (p0 params)\<lparr>val_a := globalvalue s\<rparr>\<rparr>, s))"

section \<open>The dispatch\<close>

text \<open>A call through \<open>ta_cmd_entries\<close>, whose other entries are null pointers\<close>

definition ta_cmd_entries :: "uint32 \<Rightarrow> uint32 \<Rightarrow> tee_params \<Rightarrow> (TEE_Result \<times> tee_params) option" where
  "ta_cmd_entries cmd types params =
     (if cmd = TA_CRYPT_CMD_SHA224 then ta_entry_sha224 types params
      else if cmd = TA_CRYPT_CMD_SHA256 then ta_entry_sha256 types params
      else None)"

text \<open>The command groups on their part of the state\<close>

definition on_buffers :: "'m crypt_ta \<Rightarrow> (TEE_Result \<times> tee_params) option \<Rightarrow> 'm crypt_res" where
  "on_buffers s r = map_option (\<lambda>(res, ps). (res, ps, s)) r"

definition on_rk :: "'m crypt_ta \<Rightarrow> (u32 list \<Rightarrow> aes_taf_res) \<Rightarrow> 'm crypt_res" where
  "on_rk s f = map_option (\<lambda>(res, ps, k). (res, ps, s\<lparr>rk := k\<rparr>)) (f (rk s))"

definition on_mem :: "'m crypt_ta \<Rightarrow> ('m \<Rightarrow> (TEE_Result \<times> tee_params \<times> 'm) option) \<Rightarrow> 'm crypt_res" where
  "on_mem s f = map_option (\<lambda>(res, ps, m). (res, ps, s\<lparr>arith := (arith s)\<lparr>mem := m\<rparr>\<rparr>)) (f (mem (arith s)))"

definition on_arith :: "'m crypt_ta \<Rightarrow> ('m arith_st \<Rightarrow> 'm arith_res) \<Rightarrow> 'm crypt_res" where
  "on_arith s f = map_option (\<lambda>(res, ps, a). (res, ps, s\<lparr>arith := a\<rparr>)) (f (arith s))"

definition crypt_invoke :: "'m crypt_env \<Rightarrow> uint32 \<Rightarrow> uint32 \<Rightarrow> tee_params \<Rightarrow> 'm crypt_ta \<Rightarrow> 'm crypt_res" where
  "crypt_invoke e cmd types params s =
     (if cmd = TA_CRYPT_CMD_SHA224 then
        let s = s\<lparr>use_fptr := \<not> use_fptr s\<rparr>
        in on_buffers s (if use_fptr s then ta_cmd_entries cmd types params else ta_entry_sha224 types params)
      else if cmd = TA_CRYPT_CMD_SHA256 then
        let s = s\<lparr>use_fptr := \<not> use_fptr s\<rparr>
        in on_buffers s (if use_fptr s then ta_cmd_entries cmd types params else ta_entry_sha256 types params)
      else if cmd = TA_CRYPT_CMD_AES256ECB_ENC then on_rk s (ta_entry_aes256ecb_encrypt types params)
      else if cmd = TA_CRYPT_CMD_AES256ECB_DEC then on_rk s (ta_entry_aes256ecb_decrypt types params)
      else if cmd = TA_CRYPT_CMD_SETGLOBAL then Some (set_global types params s)
      else if cmd = TA_CRYPT_CMD_GETGLOBAL then Some (get_global types params s)
      else if cmd = TA_CRYPT_CMD_MBEDTLS_SELF_TESTS then
        on_mem s (\<lambda>m. Some (ta_entry_mbedtls_self_tests (mbedtls_env e) types params m))
      else if cmd = TA_CRYPT_CMD_MBEDTLS_CHECK_CERT then
        on_mem s (\<lambda>m. Some (ta_entry_mbedtls_check_cert (mbedtls_env e) types params m))
      else if cmd = TA_CRYPT_CMD_MBEDTLS_SIGN_CERT then on_mem s (ta_entry_mbedtls_sign_cert (mbedtls_env e) types params)
      else if cmd = TA_CRYPT_CMD_SEED_RNG_POOL then on_mem s (\<lambda>m. Some (seed_rng_pool (client_env e) types params m))
      else if cmd = TA_CRYPT_CMD_DERIVE_TA_UNIQUE_KEY then
        on_mem s (\<lambda>m. Some (derive_ta_unique_key_test (client_env e) types params m))
      else if cmd = TA_CRYPT_CMD_DERIVE_TA_UNIQUE_KEY_SHM then
        on_mem s (\<lambda>m. Some (derive_ta_unique_key_test_shm (client_env e) types params m))
      else
        case map_of (cryp_cmds (cryp_env e)) cmd of
          Some f \<Rightarrow> on_mem s (f types params)
        | None \<Rightarrow>
          (case map_of (arith_cmds (bigint_env e)) cmd of
            Some f \<Rightarrow> on_arith s (f types params)
          | None \<Rightarrow> Some (TEE_ERROR_BAD_PARAMETERS, params, s)))"

text \<open>A sequence of commands; \<^term>\<open>None\<close> when one of them is undefined or does not return\<close>

abbreviation crypt_run :: "'m crypt_env \<Rightarrow> (uint32 \<times> uint32 \<times> tee_params) list \<Rightarrow> 'm crypt_ta \<Rightarrow> 'm crypt_ta option" where
  "crypt_run e \<equiv> ta_run (crypt_invoke e)"

section \<open>What the commands keep\<close>

text \<open>The handle a command frees\<close>

definition frees_handle :: "uint32 \<Rightarrow> tee_params \<Rightarrow> int \<Rightarrow> bool" where
  "frees_handle cmd params h \<longleftrightarrow> cmd = TA_CRYPT_CMD_ARITH_FREE_HANDLE \<and> sint (val_a (p0 params) AND NOT HT_MASK) = h"

text \<open>The global value and the tables of big number handles, which any other command leaves alone\<close>

definition crypt_keeps :: "'m crypt_env \<Rightarrow> uint32 \<Rightarrow> tee_params \<Rightarrow> 'm crypt_ta \<Rightarrow> 'm crypt_ta \<Rightarrow> bool" where
  "crypt_keeps e cmd params s s' \<longleftrightarrow>
     (cmd \<noteq> TA_CRYPT_CMD_SETGLOBAL \<longrightarrow> globalvalue s' = globalvalue s) \<and>
     (realloc_ok (TEE_Realloc (bigint_env e)) \<and> db_inv (hdb (arith s)) \<longrightarrow> db_inv (hdb (arith s')) \<and>
       (\<forall>h p. bound (arith s) h p \<and> \<not> frees_handle cmd params h \<longrightarrow> bound (arith s') h p))"

definition keeps_ok :: "'m crypt_env \<Rightarrow> uint32 \<Rightarrow> tee_params \<Rightarrow> 'm crypt_ta \<Rightarrow> 'm crypt_res \<Rightarrow> bool" where
  "keeps_ok e cmd params s r \<longleftrightarrow> (\<forall>res ps s'. r = Some (res, ps, s') \<longrightarrow> crypt_keeps e cmd params s s')"

lemma keeps_ok_cond:
  "(cmd = c \<Longrightarrow> keeps_ok e cmd ps s x) \<Longrightarrow> (cmd \<noteq> c \<Longrightarrow> keeps_ok e cmd ps s y) \<Longrightarrow> keeps_ok e cmd ps s (if cmd = c then x else y)"
  by simp

lemma keeps_ok_buffers: "keeps_ok e cmd ps s (on_buffers (s\<lparr>use_fptr := b\<rparr>) r)"
  by (auto simp: keeps_ok_def on_buffers_def crypt_keeps_def)

lemma keeps_ok_rk: "keeps_ok e cmd ps s (on_rk s f)"
  by (auto simp: keeps_ok_def on_rk_def crypt_keeps_def)

lemma keeps_ok_mem: "keeps_ok e cmd ps s (on_mem s f)"
  by (auto simp: keeps_ok_def on_mem_def crypt_keeps_def bound_def)

lemma keeps_ok_globals:
  "keeps_ok e TA_CRYPT_CMD_SETGLOBAL ps s (Some (set_global types params s))"
  "keeps_ok e cmd ps s (Some (get_global types params s))"
  "keeps_ok e cmd ps s (Some (res, params, s))"
  by (auto simp: keeps_ok_def crypt_keeps_def set_global_def get_global_def)

lemma keeps_ok_arith:
  assumes "(cmd, f) \<in> set (arith_cmds (bigint_env e))"
  shows "keeps_ok e cmd params s (on_arith s (f types params))"
  unfolding keeps_ok_def
proof (intro allI impI)
  fix res ps s'
  assume "on_arith s (f types params) = Some (res, ps, s')"
  then obtain a where a: "f types params (arith s) = Some (res, ps, a)" "s' = s\<lparr>arith := a\<rparr>"
    by (auto simp: on_arith_def)
  have "db_inv (hdb a) \<and> (\<forall>h p. bound (arith s) h p \<and> \<not> frees_handle cmd params h \<longrightarrow> bound a h p)"
    if "realloc_ok (TEE_Realloc (bigint_env e))" "db_inv (hdb (arith s))"
    using arith_commands_keep_handles [OF that assms, of types params] a(1)
    by (auto simp: bound_def frees_handle_def TA_CRYPT_CMD_ARITH_FREE_HANDLE_def)
  then show "crypt_keeps e cmd params s s'" by (simp add: crypt_keeps_def a(2))
qed

lemma crypt_invoke_keeps: "keeps_ok e cmd params s (crypt_invoke e cmd types params s)"
proof -
  have lists: "keeps_ok e cmd params s (case map_of (cryp_cmds (cryp_env e)) cmd of
      Some f \<Rightarrow> on_mem s (f types params)
    | None \<Rightarrow> (case map_of (arith_cmds (bigint_env e)) cmd of
        Some f \<Rightarrow> on_arith s (f types params) | None \<Rightarrow> Some (TEE_ERROR_BAD_PARAMETERS, params, s)))"
    using keeps_ok_mem keeps_ok_globals(3) keeps_ok_arith by (auto split: option.split dest!: map_of_SomeD)
  show ?thesis
    unfolding crypt_invoke_def Let_def
    by (intro keeps_ok_cond; (simp only: keeps_ok_globals keeps_ok_mem keeps_ok_rk keeps_ok_buffers lists)?)
qed

lemma crypt_run_keeps:
  assumes "realloc_ok (TEE_Realloc (bigint_env e))"
  shows "crypt_run e cs s = Some s' \<Longrightarrow>
    (TA_CRYPT_CMD_SETGLOBAL \<notin> fst ` set cs \<longrightarrow> globalvalue s' = globalvalue s) \<and>
    (db_inv (hdb (arith s)) \<longrightarrow> db_inv (hdb (arith s')) \<and>
      (\<forall>h p. bound (arith s) h p \<and> (\<forall>(cmd, types, ps) \<in> set cs. \<not> frees_handle cmd ps h) \<longrightarrow> bound (arith s') h p))"
proof (induction cs arbitrary: s)
  case Nil
  then show ?case by simp
next
  case (Cons c cs)
  obtain cmd types params where c: "c = (cmd, types, params)" by (metis prod_cases3)
  obtain res ps s1 where i: "crypt_invoke e cmd types params s = Some (res, ps, s1)" and r: "crypt_run e cs s1 = Some s'"
    using Cons.prems by (auto simp: c split: option.splits)
  have k: "crypt_keeps e cmd params s s1" using crypt_invoke_keeps i unfolding keeps_ok_def by blast
  have "bound (arith s') h p"
    if "db_inv (hdb (arith s))" "bound (arith s) h p" "\<forall>(cmd, types, ps) \<in> set (c # cs). \<not> frees_handle cmd ps h" for h p
    using that k Cons.IH [OF r] assms unfolding crypt_keeps_def by (auto simp: c)
  with k Cons.IH [OF r] assms show ?case by (auto simp: c crypt_keeps_def)
qed

text \<open>One typed parameter passes the checks of the global commands.\<close>

lemma single_type:
  assumes "t < 16"
  shows "TEE_PARAM_TYPE_GET (TEE_PARAM_TYPES t PT_NONE PT_NONE PT_NONE) 0 = t"
    "(\<exists>i \<in> set [1..<4]. PT_NONE \<noteq> TEE_PARAM_TYPE_GET (TEE_PARAM_TYPES t PT_NONE PT_NONE PT_NONE) i) \<longleftrightarrow> False"
proof -
  have n: "PT_NONE < 16" by (simp add: PT_NONE_def)
  note g = param_types_get [OF assms n n n]
  show "TEE_PARAM_TYPE_GET (TEE_PARAM_TYPES t PT_NONE PT_NONE PT_NONE) 0 = t" by (rule g(1))
  have "set [1..<4] = {1, 2, 3 :: nat}" by auto
  with g show "(\<exists>i \<in> set [1..<4]. PT_NONE \<noteq> TEE_PARAM_TYPE_GET (TEE_PARAM_TYPES t PT_NONE PT_NONE PT_NONE) i) \<longleftrightarrow> False"
    by (simp only: simp_thms) auto
qed

lemma set_global_ok:
  "set_global (TEE_PARAM_TYPES PT_VALUE_INPUT PT_NONE PT_NONE PT_NONE) params s =
     (TEE_SUCCESS, params, s\<lparr>globalvalue := val_a (p0 params)\<rparr>)"
proof -
  have "PT_VALUE_INPUT < 16" by (simp add: PT_VALUE_INPUT_def)
  then show ?thesis by (simp only: set_global_def single_type if_False simp_thms)
qed

lemma get_global_ok:
  "get_global (TEE_PARAM_TYPES PT_VALUE_OUTPUT PT_NONE PT_NONE PT_NONE) params s =
     (TEE_SUCCESS, params\<lparr>p0 := (p0 params)\<lparr>val_a := globalvalue s\<rparr>\<rparr>, s)"
proof -
  have "PT_VALUE_OUTPUT < 16" by (simp add: PT_VALUE_OUTPUT_def)
  then show ?thesis by (simp only: get_global_def single_type if_False simp_thms)
qed

text \<open>The digest command through the dispatch\<close>

definition sha256_answer :: "u8 list \<Rightarrow> u8 list \<Rightarrow> u8 list" where
  "sha256_answer inp out = put_block out 0 (digest_bytes 8 (hash_padded (nth sha256_k) (regs_of sha256_h0) (pad inp)))"

lemma crypt_sha256:
  assumes "memref_ok (p0 ps)" "msize (p0 ps) < 2 ^ 29" "32 \<le> msize (p1 ps)" "memref_ok (p1 ps)"
  shows "\<exists>t'. crypt_invoke e TA_CRYPT_CMD_SHA256 in_out_types ps t =
    Some (TEE_SUCCESS, ps\<lparr>p1 := (p1 ps)\<lparr>mbuf := sha256_answer (mbuf (p0 ps)) (mbuf (p1 ps))\<rparr>\<rparr>, t')"
proof -
  have "sha256 (mbuf (p0 ps)) (msize (p0 ps)) (mbuf (p1 ps)) = Some (sha256_answer (mbuf (p0 ps)) (mbuf (p1 ps)))"
    using sha256_ok [of "msize (p0 ps)" "mbuf (p0 ps)" "mbuf (p1 ps)"] assms
    by (simp add: sha256_answer_def memref_ok_def word_less_nat_alt word_le_nat_alt)
  moreover have "\<not> msize (p1 ps) < SHA256_DIGEST_SIZE" using assms(3) by (simp add: SHA256_DIGEST_SIZE_def not_less)
  ultimately have "ta_entry_sha256 in_out_types ps =
      Some (TEE_SUCCESS, ps\<lparr>p1 := (p1 ps)\<lparr>mbuf := sha256_answer (mbuf (p0 ps)) (mbuf (p1 ps))\<rparr>\<rparr>)"
    by (simp add: ta_entry_sha256_def)
  then show ?thesis
    by (simp add: crypt_invoke_def on_buffers_def ta_cmd_entries_def TA_CRYPT_CMD_SHA224_def TA_CRYPT_CMD_SHA256_def Let_def)
qed

lemma length_sha256_answer: "32 \<le> length out \<Longrightarrow> length (sha256_answer inp out) = length out"
  by (simp add: sha256_answer_def length_put_block length_digest_bytes)

text \<open>
  C39.  Across the whole crypt TA the command groups do not disturb each other: after any sequence of
  commands that all return, the big number table is well formed, every handle that was in use still
  names its object unless the sequence frees that very handle, whatever other handles it frees, and a value
  that was stored with \<open>TA_CRYPT_CMD_SETGLOBAL\<close> before the sequence is what \<open>TA_CRYPT_CMD_GETGLOBAL\<close> yields
  after it, unless it was stored again.
\<close>

theorem crypt_ta_separation:
  assumes "realloc_ok (TEE_Realloc (bigint_env e))" "db_inv (hdb (arith s))"
    and "crypt_invoke e TA_CRYPT_CMD_SETGLOBAL (TEE_PARAM_TYPES PT_VALUE_INPUT PT_NONE PT_NONE PT_NONE) params s = Some (res, ps, s1)"
    and "crypt_run e cs s1 = Some s2"
  shows "res = TEE_SUCCESS \<and> db_inv (hdb (arith s2)) \<and>
    (\<forall>h p. bound (arith s) h p \<and>
        (\<forall>(cmd, types, ps) \<in> set cs. cmd = TA_CRYPT_CMD_ARITH_FREE_HANDLE \<longrightarrow> sint (val_a (p0 ps) AND NOT HT_MASK) \<noteq> h) \<longrightarrow>
      bound (arith s2) h p) \<and>
    (TA_CRYPT_CMD_SETGLOBAL \<notin> fst ` set cs \<longrightarrow>
      crypt_invoke e TA_CRYPT_CMD_GETGLOBAL (TEE_PARAM_TYPES PT_VALUE_OUTPUT PT_NONE PT_NONE PT_NONE) qs s2 =
        Some (TEE_SUCCESS, qs\<lparr>p0 := (p0 qs)\<lparr>val_a := val_a (p0 params)\<rparr>\<rparr>, s2))"
proof -
  have "(res, ps, s1) = (TEE_SUCCESS, params, s\<lparr>globalvalue := val_a (p0 params)\<rparr>)"
    using assms(3) by (auto simp: crypt_invoke_def crypt_cmd_defs set_global_ok)
  then have g: "res = TEE_SUCCESS" "globalvalue s1 = val_a (p0 params)" "arith s1 = arith s" by simp_all
  have "crypt_invoke e TA_CRYPT_CMD_GETGLOBAL (TEE_PARAM_TYPES PT_VALUE_OUTPUT PT_NONE PT_NONE PT_NONE) qs s2 =
      Some (TEE_SUCCESS, qs\<lparr>p0 := (p0 qs)\<lparr>val_a := globalvalue s2\<rparr>\<rparr>, s2)"
    by (simp add: crypt_invoke_def crypt_cmd_defs get_global_ok)
  then show ?thesis using crypt_run_keeps [OF assms(1,4)] g assms(2) by (simp add: frees_handle_def)
qed

section \<open>A concrete run\<close>

text \<open>
  The global value is set to 7, a big number is allocated, handle 1 is freed, an unknown command is refused,
  and handle 2 and the value are as before: with the heap of \<^const>\<open>sim_api\<close>, whatever the other parts of
  the environment do.
\<close>

definition sim_env :: "sim_mem cryp_api \<Rightarrow> sim_mem mbedtls_api \<Rightarrow> sim_mem client_api \<Rightarrow> sim_mem crypt_env" where
  "sim_env c b k = \<lparr>bigint_env = sim_api, cryp_env = c, mbedtls_env = b, client_env = k\<rparr>"

definition sim_ta :: "sim_mem crypt_ta" where
  "sim_ta = \<lparr>globalvalue = 0, use_fptr = False, rk = replicate 60 0, arith = sim_st\<rparr>"

definition sim_cmds :: "(uint32 \<times> uint32 \<times> tee_params) list" where
  "sim_cmds = [(46, arith_expected 46, value_params 64 0 0 0), (49, arith_expected 49, value_params (1 OR HT_BIGINT) 0 0 0),
     (99, 0, zero_params)]"

lemma sim_free_index: "sint ((1 OR HT_BIGINT) AND NOT HT_MASK) = 1" "((1 OR HT_BIGINT) AND NOT HT_MASK AND NOT HT_MASK) = 1"
  by (simp_all add: HT_MASK_def HT_BIGINT_def HT_FMMCTX_def HT_FMMVAR_def)

lemma crypt_ta_separation_witness:
  "\<forall>c b k. \<exists>s1 s2.
    crypt_invoke (sim_env c b k) TA_CRYPT_CMD_SETGLOBAL (TEE_PARAM_TYPES PT_VALUE_INPUT PT_NONE PT_NONE PT_NONE)
      (value_params 7 0 0 0) sim_ta = Some (TEE_SUCCESS, value_params 7 0 0 0, s1) \<and>
    crypt_run (sim_env c b k) sim_cmds s1 = Some s2 \<and> handle_lookup (Some (hdb (arith s2))) 3 = Some 4 \<and>
    handle_lookup (Some (hdb (arith s2))) 1 = Some 0 \<and> bound (arith s2) 2 3 \<and>
    crypt_invoke (sim_env c b k) TA_CRYPT_CMD_GETGLOBAL (TEE_PARAM_TYPES PT_VALUE_OUTPUT PT_NONE PT_NONE PT_NONE)
      zero_params s2 = Some (TEE_SUCCESS, zero_params\<lparr>p0 := zero_param\<lparr>val_a := 7\<rparr>\<rparr>, s2)"
proof (intro allI)
  fix c b k
  let ?s1 = "sim_ta\<lparr>globalvalue := 7\<rparr>"
  let ?a = "\<lparr>hdb = \<lparr>ptrs = [1, 2, 3, 4], max_ptrs = 4\<rparr>, mem = (4, (\<lambda>p. 0)(4 := 0))\<rparr> :: sim_mem arith_st"
  let ?a2 = "?a\<lparr>hdb := \<lparr>ptrs = [1, 0, 3, 4], max_ptrs = 4\<rparr>\<rparr>"
  let ?s2 = "?s1\<lparr>arith := ?a2\<rparr>"
  have set: "crypt_invoke (sim_env c b k) TA_CRYPT_CMD_SETGLOBAL (TEE_PARAM_TYPES PT_VALUE_INPUT PT_NONE PT_NONE PT_NONE)
      (value_params 7 0 0 0) sim_ta = Some (TEE_SUCCESS, value_params 7 0 0 0, ?s1)"
    by (simp add: crypt_invoke_def crypt_cmd_defs set_global_ok) (simp add: value_params_def value_param_def)
  have new: "ta_entry_arith_new_var sim_api (arith_expected 46) (value_params 64 0 0 0) sim_st =
      Some (TEE_SUCCESS, set_val_a1 (word_of_int 3 OR HT_BIGINT) (value_params 64 0 0 0), ?a)"
    by (simp add: ta_entry_arith_new_var_def CHECK_PT_def arith_expected_def sim_api_def sim_st_def
        value_params_def value_param_def get_handle_def handle_get_def find_empty.simps ld_def st_def
        set_int_def)
  have free: "ta_entry_arith_free_handle sim_api (arith_expected 49) (value_params (1 OR HT_BIGINT) 0 0 0) ?a =
      Some (TEE_SUCCESS, value_params (1 OR HT_BIGINT) 0 0 0, ?a2)"
    by (simp add: ta_entry_arith_free_handle_def CHECK_PT_def arith_expected_def sim_api_def value_params_def value_param_def
        put_handle_def handle_put_def sim_free_index ld_def st_def)
  have run: "crypt_run (sim_env c b k) sim_cmds ?s1 = Some ?s2"
    by (simp add: sim_cmds_def crypt_invoke_def crypt_cmd_defs cryp_cmds_def arith_cmds_def on_arith_def sim_env_def sim_ta_def new free
        del: One_nat_def)
  have r: "realloc_ok (TEE_Realloc (bigint_env (sim_env c b k)))" using sim_realloc_ok by (simp add: sim_env_def)
  have d: "db_inv (hdb (arith sim_ta))" using sim_st_inv by (simp add: sim_ta_def)
  have b2: "bound (arith sim_ta) 2 3" by (simp add: sim_ta_def sim_st_def bound_def handle_lookup_def ld_def)
  have other: "\<forall>(cmd, types, ps) \<in> set sim_cmds. cmd = TA_CRYPT_CMD_ARITH_FREE_HANDLE \<longrightarrow> sint (val_a (p0 ps) AND NOT HT_MASK) \<noteq> 2"
    by (simp add: sim_cmds_def crypt_cmd_defs value_params_def value_param_def sim_free_index)
  have "TA_CRYPT_CMD_SETGLOBAL \<notin> fst ` set sim_cmds" by (simp add: sim_cmds_def crypt_cmd_defs)
  with crypt_ta_separation [OF r d set run, of zero_params] b2 other have
    "bound (arith ?s2) 2 3" "crypt_invoke (sim_env c b k) TA_CRYPT_CMD_GETGLOBAL (TEE_PARAM_TYPES PT_VALUE_OUTPUT PT_NONE PT_NONE PT_NONE)
      zero_params ?s2 = Some (TEE_SUCCESS, zero_params\<lparr>p0 := zero_param\<lparr>val_a := 7\<rparr>\<rparr>, ?s2)"
    by (blast, simp add: value_params_def value_param_def zero_params_def)
  with set run
  show "\<exists>s1 s2.
    crypt_invoke (sim_env c b k) TA_CRYPT_CMD_SETGLOBAL (TEE_PARAM_TYPES PT_VALUE_INPUT PT_NONE PT_NONE PT_NONE)
      (value_params 7 0 0 0) sim_ta = Some (TEE_SUCCESS, value_params 7 0 0 0, s1) \<and>
    crypt_run (sim_env c b k) sim_cmds s1 = Some s2 \<and> handle_lookup (Some (hdb (arith s2))) 3 = Some 4 \<and>
    handle_lookup (Some (hdb (arith s2))) 1 = Some 0 \<and> bound (arith s2) 2 3 \<and>
    crypt_invoke (sim_env c b k) TA_CRYPT_CMD_GETGLOBAL (TEE_PARAM_TYPES PT_VALUE_OUTPUT PT_NONE PT_NONE PT_NONE)
      zero_params s2 = Some (TEE_SUCCESS, zero_params\<lparr>p0 := zero_param\<lparr>val_a := 7\<rparr>\<rparr>, s2)"
    by (intro exI [of _ ?s1] exI [of _ ?s2]) (simp add: handle_lookup_def ld_def)
qed

end
