(* ===== verification/Sims.thy ===== *)
theory Sims
  imports Ta_Env
begin

text \<open>
  Model of \<open>src/ta/sims/ta_sims.c\<close> and \<open>src/ta/sims/ta_entry.c\<close>: a TA that keeps four storage
  buckets and a counter shared by its sessions, and per session a context with a counter and at
  most one session to another TA.  A context is named by its address; a bucket's data is the
  address of a block and its bytes (\<^term>\<open>None\<close> is \<open>NULL\<close>).  The state holds both, and the memory the
  API functions work on.  \<^term>\<open>None\<close> as a result is undefined behaviour, \<^term>\<open>Inl\<close> a panic.
\<close>

definition TA_SIMS_MAX_STORAGE :: nat where "TA_SIMS_MAX_STORAGE = 4"

definition TA_SIMS_CMD_READ :: uint32 where "TA_SIMS_CMD_READ = 1"
definition TA_SIMS_CMD_WRITE :: uint32 where "TA_SIMS_CMD_WRITE = 2"
definition TA_SIMS_CMD_GET_COUNTER :: uint32 where "TA_SIMS_CMD_GET_COUNTER = 3"
definition TA_SIMS_CMD_PANIC :: uint32 where "TA_SIMS_CMD_PANIC = 4"
definition TA_SIMS_OPEN_TA_SESSION :: uint32 where "TA_SIMS_OPEN_TA_SESSION = 5"

lemmas sims_cmd_defs = TA_SIMS_CMD_READ_def TA_SIMS_CMD_WRITE_def TA_SIMS_CMD_GET_COUNTER_def
  TA_SIMS_CMD_PANIC_def TA_SIMS_OPEN_TA_SESSION_def

record sims_bucket =
  bsize :: uint32
  bdata :: "(ptr \<times> u8 list) option"

text \<open>\<open>struct sims_session\<close>; its \<open>array\<close> is padding that no function reads.\<close>

record sims_session =
  sess :: size_t
  sess_counter :: uint32

record 'm sims_st =
  storage :: "sims_bucket list"
  counter :: uint32
  contexts :: "ptr \<Rightarrow> sims_session option"
  sims_mem :: 'm

definition sims_init :: "'m \<Rightarrow> 'm sims_st" where
  "sims_init m = \<lparr>storage = replicate TA_SIMS_MAX_STORAGE \<lparr>bsize = 0, bdata = None\<rparr>, counter = 0,
     contexts = \<lambda>_. None, sims_mem = m\<rparr>"

type_synonym 'm sims_res = "(TEE_Result \<times> tee_params \<times> 'm sims_st) option"

definition sizeof_sims_session :: size_t where "sizeof_sims_session = 8 + 4 + 4 * 2048 + 4"

text \<open>The 16 bytes of a \<open>TEE_UUID\<close> read as the structure.\<close>

definition uuid_of :: "u8 list \<Rightarrow> tee_uuid" where
  "uuid_of b = (of_le32 (take 4 b), ucast (of_le32 (take 2 (drop 4 b) @ [0, 0])),
     ucast (of_le32 (take 2 (drop 6 b) @ [0, 0])), take 8 (drop 8 b))"

section \<open>Sessions\<close>

definition sims_open_session :: "('m, 'z) heap_api_scheme \<Rightarrow> 'm sims_st \<Rightarrow> TEE_Result \<times> ptr \<times> 'm sims_st" where
  "sims_open_session heap s =
     (let (context, m) = TEE_Malloc heap sizeof_sims_session (sims_mem s)
      in if context = 0 then (TEE_ERROR_OUT_OF_MEMORY, 0, s\<lparr>sims_mem := m\<rparr>)
      else (TEE_SUCCESS, context, s\<lparr>contexts := (contexts s)(context \<mapsto> \<lparr>sess = 0, sess_counter = counter s\<rparr>),
              counter := counter s + 1, sims_mem := m\<rparr>))"

definition sims_close_session ::
  "('m, 'z) heap_api_scheme \<Rightarrow> ('m, 'y) client_api_scheme \<Rightarrow> ptr \<Rightarrow> 'm sims_st \<Rightarrow> 'm sims_st option" where
  "sims_close_session heap api ctx s = do {
     c \<leftarrow> contexts s ctx;
     let m = (if sess c \<noteq> 0 then TEE_CloseTASession api (sess c) (sims_mem s) else sims_mem s);
     Some (s\<lparr>contexts := (contexts s)(ctx := None), sims_mem := TEE_Free heap ctx m\<rparr>)
   }"

definition sims_open_ta_session ::
  "('m, 'z) heap_api_scheme \<Rightarrow> ('m, 'y) client_api_scheme \<Rightarrow> ptr \<Rightarrow> uint32 \<Rightarrow> tee_params \<Rightarrow> 'm sims_st \<Rightarrow> 'm sims_res" where
  "sims_open_ta_session heap api session_context param_types params s =
     (if param_types \<noteq> TEE_PARAM_TYPES PT_MEMREF_INPUT PT_NONE PT_NONE PT_NONE
        then Some (TEE_ERROR_BAD_PARAMETERS, params, s)
      else if msize (p0 params) \<noteq> 16 then Some (TEE_ERROR_BAD_PARAMETERS, params, s)
      else let (uuid, m) = TEE_Malloc heap 16 (sims_mem s)
        in if uuid = 0 then Some (TEE_ERROR_OUT_OF_MEMORY, params, s\<lparr>sims_mem := m\<rparr>)
        else do {
          b \<leftarrow> memcpy (replicate 16 0) 0 (mbuf (p0 params)) (unat (msize (p0 params)));
          let (res, ses, _, _, m) = TEE_OpenTASession api (uuid_of b) 0 0 zero_params m;
          let m = TEE_Free heap uuid m;
          if res \<noteq> TEE_SUCCESS then Some (res, params, s\<lparr>sims_mem := m\<rparr>)
          else do {
            ctx \<leftarrow> contexts s session_context;
            Some (TEE_SUCCESS, params, s\<lparr>contexts := (contexts s)(session_context \<mapsto>
              ctx\<lparr>sess := ses, sess_counter := sess_counter ctx + 1\<rparr>), sims_mem := m\<rparr>)
          }
        })"

section \<open>Commands\<close>

text \<open>\<open>TEE_MemMove\<close> out of a block that may be \<open>NULL\<close>\<close>

definition bucket_bytes :: "sims_bucket \<Rightarrow> u8 list" where
  "bucket_bytes b = (case bdata b of None \<Rightarrow> [] | Some (p, d) \<Rightarrow> d)"

definition sims_read :: "('m, 'z) heap_api_scheme \<Rightarrow> uint32 \<Rightarrow> tee_params \<Rightarrow> 'm sims_st \<Rightarrow> 'm sims_res" where
  "sims_read heap param_types params s =
     (if param_types \<noteq> TEE_PARAM_TYPES PT_VALUE_INPUT PT_MEMREF_OUTPUT 0 0
        then Some (TEE_ERROR_BAD_PARAMETERS, params, s)
      else let index = unat (val_a (p0 params)) in
        if TA_SIMS_MAX_STORAGE \<le> index then Some (TEE_ERROR_BAD_PARAMETERS, params, s)
        else do {
          b \<leftarrow> ld (storage s) index;
          if msize (p1 params) < bsize b then Some (TEE_ERROR_OVERFLOW, params, s)
          else do {
            let (p, m) = TEE_Malloc heap 16000 (sims_mem s);
            if p = 0 then Some (TEE_ERROR_OUT_OF_MEMORY, params, s\<lparr>sims_mem := m\<rparr>)
            else do {
              out \<leftarrow> memcpy (mbuf (p1 params)) 0 (bucket_bytes b) (unat (msize (p1 params)));
              Some (TEE_SUCCESS, params\<lparr>p1 := (p1 params)\<lparr>mbuf := out\<rparr>\<rparr>, s\<lparr>sims_mem := TEE_Free heap p m\<rparr>)
            }
          }
        })"

definition sims_write :: "('m, 'z) heap_api_scheme \<Rightarrow> uint32 \<Rightarrow> tee_params \<Rightarrow> 'm sims_st \<Rightarrow> 'm sims_res" where
  "sims_write heap param_types params s =
     (if param_types \<noteq> TEE_PARAM_TYPES PT_VALUE_INPUT PT_MEMREF_INPUT 0 0
        then Some (TEE_ERROR_BAD_PARAMETERS, params, s)
      else let index = unat (val_a (p0 params)) in
        if TA_SIMS_MAX_STORAGE \<le> index then Some (TEE_ERROR_BAD_PARAMETERS, params, s)
        else do {
          b \<leftarrow> ld (storage s) index;
          let m = (case bdata b of None \<Rightarrow> sims_mem s | Some (p, d) \<Rightarrow> TEE_Free heap p (sims_mem s));
          let (p, m) = TEE_Malloc heap (ucast (msize (p1 params))) m;
          if p = 0 then do {
            bs \<leftarrow> st (storage s) index \<lparr>bsize = 0, bdata = None\<rparr>;
            Some (TEE_ERROR_OUT_OF_MEMORY, params, s\<lparr>storage := bs, sims_mem := m\<rparr>)
          }
          else do {
            d \<leftarrow> memcpy (replicate (unat (msize (p1 params))) 0) 0 (mbuf (p1 params)) (unat (msize (p1 params)));
            bs \<leftarrow> st (storage s) index \<lparr>bsize = msize (p1 params), bdata = Some (p, d)\<rparr>;
            Some (TEE_SUCCESS, params, s\<lparr>storage := bs, sims_mem := m\<rparr>)
          }
        })"

definition sims_get_counter :: "ptr \<Rightarrow> uint32 \<Rightarrow> tee_params \<Rightarrow> 'm sims_st \<Rightarrow> 'm sims_res" where
  "sims_get_counter session_context param_types params s =
     (if param_types \<noteq> TEE_PARAM_TYPES PT_VALUE_OUTPUT 0 0 0
        then Some (TEE_ERROR_BAD_PARAMETERS, params, s)
      else do {
        ctx \<leftarrow> contexts s session_context;
        Some (TEE_SUCCESS, params\<lparr>p0 := (p0 params)\<lparr>val_a := sess_counter ctx\<rparr>\<rparr>, s)
      })"

text \<open>The result of an entry point that may end in \<open>TEE_Panic\<close>.\<close>

type_synonym 'm sims_outcome = "(uint32 + TEE_Result \<times> tee_params \<times> 'm sims_st) option"

definition sims_entry_panic ::
  "('m, 'z) heap_api_scheme \<Rightarrow> ('m, 'y) client_api_scheme \<Rightarrow> ptr \<Rightarrow> uint32 \<Rightarrow> tee_params \<Rightarrow> 'm sims_st \<Rightarrow> 'm sims_outcome" where
  "sims_entry_panic heap api session_context param_types params s =
     (if param_types \<noteq> TEE_PARAM_TYPES PT_MEMREF_INPUT PT_NONE PT_NONE PT_NONE
        then Some (Inr (TEE_ERROR_BAD_PARAMETERS, params, s))
      else if maddr (p0 params) \<noteq> 0 \<and> msize (p0 params) \<noteq> 0 then do {
        (res, params, s) \<leftarrow> sims_open_ta_session heap api session_context param_types params s;
        if res \<noteq> TEE_SUCCESS then Some (Inr (res, params, s))
        else do {
          let params = params\<lparr>p0 := (p0 params)\<lparr>maddr := 0, mbuf := [], msize := 0\<rparr>\<rparr>;
          ctx \<leftarrow> contexts s session_context;
          let (_, _, params, m) = TEE_InvokeTACommand api (sess ctx) 0 TA_SIMS_CMD_PANIC param_types params (sims_mem s);
          Some (Inr (TEE_SUCCESS, params, s\<lparr>sims_mem := m\<rparr>))
        }
      }
      else Some (Inl 0xbeef))"

text \<open>\<open>TA_InvokeCommandEntryPoint\<close>\<close>

definition sims_invoke ::
  "('m, 'z) heap_api_scheme \<Rightarrow> ('m, 'y) client_api_scheme \<Rightarrow> ptr \<Rightarrow> uint32 \<Rightarrow> uint32 \<Rightarrow> tee_params \<Rightarrow> 'm sims_st \<Rightarrow> 'm sims_outcome" where
  "sims_invoke heap api ctx cmd param_types params s =
     (if cmd = TA_SIMS_OPEN_TA_SESSION then map_option Inr (sims_open_ta_session heap api ctx param_types params s)
      else if cmd = TA_SIMS_CMD_READ then map_option Inr (sims_read heap param_types params s)
      else if cmd = TA_SIMS_CMD_WRITE then map_option Inr (sims_write heap param_types params s)
      else if cmd = TA_SIMS_CMD_GET_COUNTER then map_option Inr (sims_get_counter ctx param_types params s)
      else if cmd = TA_SIMS_CMD_PANIC then sims_entry_panic heap api ctx param_types params s
      else Some (Inr (TEE_ERROR_BAD_PARAMETERS, params, s)))"

section \<open>The environment\<close>

text \<open>The laws of the heap and of the sessions, which do not interfere with each other.\<close>

definition sims_env ::
  "('m, 'z) heap_api_scheme \<Rightarrow> ('m, 'y) client_api_scheme \<Rightarrow> ('m \<Rightarrow> ptr set) \<Rightarrow> ('m \<Rightarrow> size_t set) \<Rightarrow> bool" where
  "sims_env heap api live ss \<longleftrightarrow> heap_laws heap live \<and> session_laws api ss \<and>
     (\<forall>n m p m'. TEE_Malloc heap n m = (p, m') \<longrightarrow> ss m' = ss m) \<and>
     (\<forall>p m. ss (TEE_Free heap p m) = ss m) \<and>
     (\<forall>u t pt ps m. live (snd (snd (snd (snd (TEE_OpenTASession api u t pt ps m))))) = live m) \<and>
     (\<forall>s t c pt ps m. live (snd (snd (snd (TEE_InvokeTACommand api s t c pt ps m)))) = live m) \<and>
     (\<forall>s m. live (TEE_CloseTASession api s m) = live m)"

lemma env_malloc:
  "sims_env heap api live ss \<Longrightarrow> TEE_Malloc heap n m = (p, m') \<Longrightarrow>
     ss m' = ss m \<and> (if p = 0 then live m' = live m else p \<notin> live m \<and> live m' = insert p (live m))"
  using malloc_law [of heap live n m p m'] by (simp add: sims_env_def)

lemma env_free:
  "sims_env heap api live ss \<Longrightarrow> ss (TEE_Free heap p m) = ss m \<and> live (TEE_Free heap p m) = live m - {p}"
  by (simp add: sims_env_def live_free)

lemma env_open:
  "sims_env heap api live ss \<Longrightarrow> TEE_OpenTASession api u t pt ps m = (res, s, orig, ps', m') \<Longrightarrow>
     live m' = live m \<and>
     (if res = TEE_SUCCESS then s \<noteq> 0 \<and> s \<notin> ss m \<and> ss m' = insert s (ss m) else s = 0 \<and> ss m' = ss m)"
  using open_session [of api ss u t pt ps m res s orig ps' m'] unfolding sims_env_def by (metis snd_conv)

lemma env_invoke:
  "sims_env heap api live ss \<Longrightarrow> TEE_InvokeTACommand api s t c pt ps m = (res, orig, ps', m') \<Longrightarrow>
     live m' = live m \<and> ss m' = ss m"
  using invoke_session [of api ss s t c pt ps m res orig ps' m'] unfolding sims_env_def by (metis snd_conv)

lemma env_close:
  "sims_env heap api live ss \<Longrightarrow> live (TEE_CloseTASession api s m) = live m \<and> ss (TEE_CloseTASession api s m) = ss m - {s}"
  by (simp add: sims_env_def close_session)

lemma env_null:
  assumes "sims_env heap api live ss"
  shows "0 \<notin> live m" "0 \<notin> ss m"
  using assms no_null_block [of heap live] no_null_session [of api ss] by (auto simp: sims_env_def)

section \<open>The invariant\<close>

definition bucket_ok :: "sims_bucket \<Rightarrow> bool" where
  "bucket_ok b \<longleftrightarrow> (case bdata b of None \<Rightarrow> bsize b = 0 | Some (p, d) \<Rightarrow> length d = unat (bsize b))"

definition bucket_ptr :: "sims_bucket \<Rightarrow> ptr list" where
  "bucket_ptr b = (case bdata b of None \<Rightarrow> [] | Some (p, d) \<Rightarrow> [p])"

definition bucket_ptrs :: "sims_bucket list \<Rightarrow> ptr list" where
  "bucket_ptrs bs = concat (map bucket_ptr bs)"

text \<open>The buckets: four, each with a block as large as its size, no block in two.\<close>

definition storage_wf :: "sims_bucket list \<Rightarrow> bool" where
  "storage_wf bs \<longleftrightarrow> length bs = TA_SIMS_MAX_STORAGE \<and> (\<forall>b \<in> set bs. bucket_ok b) \<and> distinct (bucket_ptrs bs)"

text \<open>The sessions to other TAs: the ones that contexts hold are open, and each has one holder.\<close>

definition contexts_wf :: "size_t set \<Rightarrow> (ptr \<Rightarrow> sims_session option) \<Rightarrow> bool" where
  "contexts_wf S cs \<longleftrightarrow> (\<forall>x c. cs x = Some c \<and> sess c \<noteq> 0 \<longrightarrow> sess c \<in> S) \<and>
     (\<forall>x y c d. cs x = Some c \<and> cs y = Some d \<and> x \<noteq> y \<and> sess c \<noteq> 0 \<longrightarrow> sess c \<noteq> sess d)"

text \<open>The blocks of the heap are the contexts and the buckets' data, and nothing else.\<close>

definition sims_inv :: "('m \<Rightarrow> ptr set) \<Rightarrow> ('m \<Rightarrow> size_t set) \<Rightarrow> 'm sims_st \<Rightarrow> bool" where
  "sims_inv live ss s \<longleftrightarrow> storage_wf (storage s) \<and> contexts_wf (ss (sims_mem s)) (contexts s) \<and>
     dom (contexts s) \<inter> set (bucket_ptrs (storage s)) = {} \<and>
     live (sims_mem s) = dom (contexts s) \<union> set (bucket_ptrs (storage s))"

lemma sims_inv_mem:
  "sims_inv live ss s \<Longrightarrow> live m = live (sims_mem s) \<Longrightarrow> ss m = ss (sims_mem s) \<Longrightarrow> sims_inv live ss (s\<lparr>sims_mem := m\<rparr>)"
  by (simp add: sims_inv_def)

lemma contexts_wf_new: "contexts_wf S cs \<Longrightarrow> cs x = None \<Longrightarrow> contexts_wf S (cs(x \<mapsto> \<lparr>sess = 0, sess_counter = n\<rparr>))"
  unfolding contexts_wf_def by (simp add: fun_upd_def) blast

lemma contexts_wf_end: "contexts_wf S cs \<Longrightarrow> cs x = Some c \<Longrightarrow> contexts_wf (S - {sess c}) (cs(x := None))"
  unfolding contexts_wf_def by (simp add: fun_upd_def) blast

lemma contexts_wf_sess:
  "contexts_wf S cs \<Longrightarrow> cs x = Some c \<Longrightarrow> v \<notin> S \<Longrightarrow> contexts_wf (insert v S) (cs(x \<mapsto> c\<lparr>sess := v, sess_counter := n\<rparr>))"
  unfolding contexts_wf_def by (auto simp: fun_upd_def) metis

lemma sims_open_session_inv:
  assumes "sims_env heap api live ss" "sims_inv live ss s" "sims_open_session heap s = (res, ctx, s')"
  shows "sims_inv live ss s'"
proof -
  obtain p m where p: "TEE_Malloc heap sizeof_sims_session (sims_mem s) = (p, m)" by force
  note m = env_malloc [OF assms(1) p]
  show ?thesis
  proof (cases "p = 0")
    case True
    with assms(3) m sims_inv_mem [OF assms(2), of m] show ?thesis by (simp add: sims_open_session_def p)
  next
    case False
    with m assms(2) have "contexts s p = None" "p \<notin> set (bucket_ptrs (storage s))"
      by (auto simp: sims_inv_def)
    with False m assms(2,3) show ?thesis
      by (auto simp: sims_open_session_def p sims_inv_def contexts_wf_new dom_def disjoint_iff split: if_splits)
  qed
qed

lemma sims_close_session_inv:
  assumes "sims_env heap api live ss" "sims_inv live ss s" "sims_close_session heap api ctx s = Some s'"
  shows "sims_inv live ss s'"
proof -
  obtain c where c: "contexts s ctx = Some c" using assms(3) by (auto simp: sims_close_session_def split: bind_splits)
  let ?m = "if sess c \<noteq> 0 then TEE_CloseTASession api (sess c) (sims_mem s) else sims_mem s"
  have s': "s' = s\<lparr>contexts := (contexts s)(ctx := None), sims_mem := TEE_Free heap ctx ?m\<rparr>"
    using assms(3) c by (simp add: sims_close_session_def)
  have m: "live (TEE_Free heap ctx ?m) = live (sims_mem s) - {ctx}"
    "ss (TEE_Free heap ctx ?m) = ss (sims_mem s) - {sess c}"
    using env_free [OF assms(1)] env_close [OF assms(1)] env_null(2) [OF assms(1), of "sims_mem s"] by auto
  have "ctx \<notin> set (bucket_ptrs (storage s))" using assms(2) c by (auto simp: sims_inv_def)
  with assms(2) c m show ?thesis
    by (auto simp: sims_inv_def s' contexts_wf_end)
qed

lemma sims_open_ta_session_inv:
  assumes "sims_env heap api live ss" "sims_inv live ss s"
    "sims_open_ta_session heap api ctx pt params s = Some (res, params', s')"
  shows "sims_inv live ss s'"
proof -
  obtain p m where p: "TEE_Malloc heap 16 (sims_mem s) = (p, m)" by force
  note m = env_malloc [OF assms(1) p]
  consider "s' = s" | "p = 0" "s' = s\<lparr>sims_mem := m\<rparr>"
    | b r v orig ps m1 where "p \<noteq> 0" "TEE_OpenTASession api (uuid_of b) 0 0 zero_params m = (r, v, orig, ps, m1)"
      "if r \<noteq> TEE_SUCCESS then s' = s\<lparr>sims_mem := TEE_Free heap p m1\<rparr>
       else \<exists>c. contexts s ctx = Some c \<and> s' = s\<lparr>contexts := (contexts s)(ctx \<mapsto> c\<lparr>sess := v, sess_counter := sess_counter c + 1\<rparr>),
         sims_mem := TEE_Free heap p m1\<rparr>"
    using assms(3)
    by (auto simp: sims_open_ta_session_def p Let_def split: if_splits bind_splits prod.splits)
  then show ?thesis
  proof cases
    case 1
    with assms(2) show ?thesis by simp
  next
    case 2
    with m sims_inv_mem [OF assms(2), of m] show ?thesis by simp
  next
    case 3
    note o = env_open [OF assms(1) 3(2)] env_free [OF assms(1), of p m1]
    have l: "live (TEE_Free heap p m1) = live (sims_mem s)" using o m 3(1) by auto
    show ?thesis
    proof (cases "r = TEE_SUCCESS")
      case False
      with 3(3) o m l sims_inv_mem [OF assms(2), of "TEE_Free heap p m1"] show ?thesis by simp
    next
      case True
      with 3(3) obtain c where c: "contexts s ctx = Some c"
        "s' = s\<lparr>contexts := (contexts s)(ctx \<mapsto> c\<lparr>sess := v, sess_counter := sess_counter c + 1\<rparr>), sims_mem := TEE_Free heap p m1\<rparr>"
        by auto
      have "v \<notin> ss (sims_mem s)" "ss (TEE_Free heap p m1) = insert v (ss (sims_mem s))" using o m True by auto
      with assms(2) c l show ?thesis by (auto simp: sims_inv_def contexts_wf_sess)
    qed
  qed
qed

lemma sims_read_inv:
  assumes "sims_env heap api live ss" "sims_inv live ss s" "sims_read heap pt params s = Some (res, params', s')"
  shows "sims_inv live ss s'"
proof -
  obtain p m where p: "TEE_Malloc heap 16000 (sims_mem s) = (p, m)" by force
  note m = env_malloc [OF assms(1) p] env_free [OF assms(1), of p m]
  have "s' = s \<or> p = 0 \<and> s' = s\<lparr>sims_mem := m\<rparr> \<or> p \<noteq> 0 \<and> s' = s\<lparr>sims_mem := TEE_Free heap p m\<rparr>"
    using assms(3) by (auto simp: sims_read_def p Let_def split: if_splits bind_splits)
  then show ?thesis
    using assms(2) m by (auto intro!: sims_inv_mem)
qed

lemma bucket_ptrs_split:
  assumes "i < length bs"
  shows "\<exists>as cs. bucket_ptrs bs = as @ bucket_ptr (bs ! i) @ cs \<and>
    (\<forall>b. bucket_ptrs (bs[i := b]) = as @ bucket_ptr b @ cs)"
proof -
  have "bs = take i bs @ bs ! i # drop (Suc i) bs" "\<And>b. bs[i := b] = take i bs @ b # drop (Suc i) bs"
    using assms by (simp_all add: id_take_nth_drop upd_conv_take_nth_drop)
  then have "bucket_ptrs bs = bucket_ptrs (take i bs) @ bucket_ptr (bs ! i) @ bucket_ptrs (drop (Suc i) bs)"
    "\<And>b. bucket_ptrs (bs[i := b]) = bucket_ptrs (take i bs) @ bucket_ptr b @ bucket_ptrs (drop (Suc i) bs)"
    unfolding bucket_ptrs_def by (metis concat.simps(2) concat_append list.simps(9) map_append)+
  then show ?thesis by blast
qed

lemma storage_wf_update:
  assumes "storage_wf bs" "i < length bs" "bucket_ok b" "\<forall>p \<in> set (bucket_ptr b). p \<notin> set (bucket_ptrs bs) - set (bucket_ptr (bs ! i))"
  shows "storage_wf (bs[i := b])"
    "set (bucket_ptrs (bs[i := b])) = (set (bucket_ptrs bs) - set (bucket_ptr (bs ! i))) \<union> set (bucket_ptr b)"
proof -
  obtain as cs where p: "bucket_ptrs bs = as @ bucket_ptr (bs ! i) @ cs" "bucket_ptrs (bs[i := b]) = as @ bucket_ptr b @ cs"
    using bucket_ptrs_split [OF assms(2)] by blast
  have d: "distinct (as @ bucket_ptr (bs ! i) @ cs)" using assms(1) p(1) by (simp add: storage_wf_def)
  have "distinct (bucket_ptr b)" by (simp add: bucket_ptr_def split: option.splits)
  with d assms(4) p have "distinct (bucket_ptrs (bs[i := b]))" by auto
  then show "storage_wf (bs[i := b])"
    using assms(1,3) set_update_subset_insert [of bs i b] by (auto simp: storage_wf_def)
  show "set (bucket_ptrs (bs[i := b])) = (set (bucket_ptrs bs) - set (bucket_ptr (bs ! i))) \<union> set (bucket_ptr b)"
    using d p by auto
qed

lemma sims_write_inv:
  assumes "sims_env heap api live ss" "sims_inv live ss s" "sims_write heap pt params s = Some (res, params', s')"
  shows "sims_inv live ss s'"
proof (cases "s' = s")
  case False
  let ?i = "unat (val_a (p0 params))"
  let ?b = "storage s ! ?i"
  let ?m = "case bdata ?b of None \<Rightarrow> sims_mem s | Some (p, d) \<Rightarrow> TEE_Free heap p (sims_mem s)"
  obtain p m where p: "TEE_Malloc heap (ucast (msize (p1 params))) ?m = (p, m)" by force
  have i: "?i < length (storage s)"
    using assms(3) False by (auto simp: sims_write_def ld_def Let_def split: if_splits bind_splits)
  obtain b where b: "s' = s\<lparr>storage := (storage s)[?i := b], sims_mem := m\<rparr>" "bucket_ok b"
    "bucket_ptr b = (if p = 0 then [] else [p])"
    using assms(3) False i
    by (auto simp: sims_write_def ld_def st_def p Let_def bucket_ok_def bucket_ptr_def memcpy_def length_put_block
        split: if_splits bind_splits)
  have "ss ?m = ss (sims_mem s) \<and> live ?m = live (sims_mem s) - set (bucket_ptr ?b)"
    using env_free [OF assms(1)] by (simp add: bucket_ptr_def split: option.splits prod.splits)
  with env_malloc [OF assms(1) p] have m: "ss m = ss (sims_mem s)"
    "live m = (live (sims_mem s) - set (bucket_ptr ?b)) \<union> set (bucket_ptr b)"
    "\<forall>q \<in> set (bucket_ptr b). q \<notin> live (sims_mem s) - set (bucket_ptr ?b)"
    by (auto simp: b(3) split: if_splits)
  note inv = assms(2) [unfolded sims_inv_def]
  have "\<forall>q \<in> set (bucket_ptr b). q \<notin> set (bucket_ptrs (storage s)) - set (bucket_ptr ?b)"
    using inv m(3) by auto
  note w = storage_wf_update [OF _ i b(2) this]
  have sub: "set (bucket_ptr ?b) \<subseteq> set (bucket_ptrs (storage s))"
    using bucket_ptrs_split [OF i] by auto
  have "dom (contexts s) \<inter> set (bucket_ptrs ((storage s)[?i := b])) = {}"
    "live m = dom (contexts s) \<union> set (bucket_ptrs ((storage s)[?i := b]))"
    using inv m(2,3) w(2) sub by blast+
  with inv m(1) w(1) show ?thesis by (simp add: sims_inv_def b(1))
qed (use assms(2) in simp)

lemma sims_get_counter_state: "sims_get_counter ctx pt params s = Some (res, params', s') \<Longrightarrow> s' = s"
  by (auto simp: sims_get_counter_def split: if_splits bind_splits)

lemma sims_entry_panic_inv:
  assumes "sims_env heap api live ss" "sims_inv live ss s"
    "sims_entry_panic heap api ctx pt params s = Some (Inr (res, params', s'))"
  shows "sims_inv live ss s'"
proof -
  consider "s' = s" | r q s1 where "sims_open_ta_session heap api ctx pt params s = Some (r, q, s1)"
    "s' = s1 \<or> (\<exists>v c qs. s' = s1\<lparr>sims_mem := snd (snd (snd (TEE_InvokeTACommand api v 0 c pt qs (sims_mem s1))))\<rparr>)"
    using assms(3) by (auto simp: sims_entry_panic_def Let_def split: if_splits bind_splits prod.splits) (metis snd_conv)+
  then show ?thesis
  proof cases
    case 2
    have "sims_inv live ss s1" using sims_open_ta_session_inv [OF assms(1,2) 2(1)] .
    moreover have "live (snd (snd (snd (TEE_InvokeTACommand api v t c pt qs m)))) = live m \<and>
        ss (snd (snd (snd (TEE_InvokeTACommand api v t c pt qs m)))) = ss m" for v t c qs m
      using env_invoke [OF assms(1)] by (cases "TEE_InvokeTACommand api v t c pt qs m") auto
    ultimately show ?thesis using 2(2) sims_inv_mem by metis
  qed (use assms(2) in simp)
qed

lemma sims_invoke_inv:
  assumes "sims_env heap api live ss" "sims_inv live ss s"
    "sims_invoke heap api ctx cmd pt params s = Some (Inr (res, params', s'))"
  shows "sims_inv live ss s'"
  using assms(3) sims_open_ta_session_inv [OF assms(1,2)] sims_read_inv [OF assms(1,2)] sims_write_inv [OF assms(1,2)]
    sims_entry_panic_inv [OF assms(1,2)] sims_get_counter_state [of ctx pt params s] assms(2)
  by (auto simp: sims_invoke_def split: if_splits)

section \<open>Reachable states\<close>

text \<open>
  One event of the TA: a client opens or closes a session, or a command on an open session
  returns.  A panic ends the TA.
\<close>

inductive sims_step ::
  "('m, 'z) heap_api_scheme \<Rightarrow> ('m, 'y) client_api_scheme \<Rightarrow> 'm sims_st \<Rightarrow> 'm sims_st \<Rightarrow> bool"
  for heap :: "('m, 'z) heap_api_scheme" and api :: "('m, 'y) client_api_scheme" where
  opened: "sims_open_session heap s = (res, ctx, s') \<Longrightarrow> sims_step heap api s s'"
| closed: "sims_close_session heap api ctx s = Some s' \<Longrightarrow> sims_step heap api s s'"
| invoked: "contexts s ctx \<noteq> None \<Longrightarrow> sims_invoke heap api ctx cmd pt params s = Some (Inr (res, params', s')) \<Longrightarrow>
    sims_step heap api s s'"

inductive sims_reachable ::
  "('m, 'z) heap_api_scheme \<Rightarrow> ('m, 'y) client_api_scheme \<Rightarrow> 'm \<Rightarrow> 'm sims_st \<Rightarrow> bool"
  for heap :: "('m, 'z) heap_api_scheme" and api :: "('m, 'y) client_api_scheme" and m :: 'm where
  start: "sims_reachable heap api m (sims_init m)"
| step: "sims_reachable heap api m s \<Longrightarrow> sims_step heap api s s' \<Longrightarrow> sims_reachable heap api m s'"

lemma sims_step_inv:
  "sims_step heap api s s' \<Longrightarrow> sims_env heap api live ss \<Longrightarrow> sims_inv live ss s \<Longrightarrow> sims_inv live ss s'"
  by (induction rule: sims_step.induct)
    (auto intro: sims_open_session_inv sims_close_session_inv sims_invoke_inv)

lemma sims_init_inv: "live m = {} \<Longrightarrow> sims_inv live ss (sims_init m)"
  by (simp add: sims_inv_def sims_init_def storage_wf_def contexts_wf_def bucket_ptrs_def bucket_ptr_def
      bucket_ok_def)

lemma reachable_inv:
  assumes "sims_reachable heap api m s" "sims_env heap api live ss" "live m = {}"
  shows "sims_inv live ss s"
  using assms(1)
proof induction
  case start
  show ?case using assms(3) by (rule sims_init_inv)
next
  case (step s s')
  then show ?case using sims_step_inv [OF step(2) assms(2)] by blast
qed

section \<open>Properties\<close>

text \<open>
  C29.  In every state the TA can reach, the heap holds exactly the contexts of the open sessions
  and the data of the buckets, in different blocks: nothing is leaked, freed twice or shared; each
  bucket's size is the size of its block, and the sessions to other TAs that contexts hold are open
  and belong to one context each.
\<close>

theorem sims_reachable_inv:
  assumes "sims_reachable heap api m s" "sims_env heap api live ss" "live m = {}"
  shows "sims_inv live ss s"
  by (rule reachable_inv [OF assms])

text \<open>A write into bucket \<open>i\<close>, and a read of it into a buffer.\<close>

definition sims_write_params :: "uint32 \<Rightarrow> u8 list \<Rightarrow> tee_params" where
  "sims_write_params i d = zero_params\<lparr>p0 := zero_param\<lparr>val_a := i\<rparr>, p1 := zero_param\<lparr>mbuf := d, msize := of_nat (length d)\<rparr>\<rparr>"

abbreviation sims_write_types :: uint32 where
  "sims_write_types \<equiv> TEE_PARAM_TYPES PT_VALUE_INPUT PT_MEMREF_INPUT 0 0"

abbreviation sims_read_types :: uint32 where
  "sims_read_types \<equiv> TEE_PARAM_TYPES PT_VALUE_INPUT PT_MEMREF_OUTPUT 0 0"

lemma sims_write_ok:
  assumes "storage_wf (storage s)" "i < 4" "length d < 2 ^ 32"
    "sims_write heap sims_write_types (sims_write_params i d) s = Some (TEE_SUCCESS, ps, s1)"
  shows "length (storage s1) = 4 \<and> (\<exists>p. storage s1 ! unat i = \<lparr>bsize = of_nat (length d), bdata = Some (p, d)\<rparr>)"
proof -
  have "unat (of_nat (length d) :: uint32) = length d" "unat i < 4"
    using assms(2,3) by (simp_all add: unsigned_of_nat take_bit_nat_eq_self word_less_nat_alt)
  then show ?thesis
    using assms(1,4)
    by (auto simp: sims_write_def sims_write_params_def storage_wf_def TA_SIMS_MAX_STORAGE_def Let_def ld_def st_def
        memcpy_def put_block_def tee_results split: if_splits bind_splits prod.splits)
qed

text \<open>
  What one session wrote into a bucket any session reads back, into a buffer of the size
  written.
\<close>

theorem sims_write_read:
  assumes "storage_wf (storage s)" "i < 4" "length d < 2 ^ 32" "length out = length d"
    "sims_write heap sims_write_types (sims_write_params i d) s = Some (TEE_SUCCESS, ps, s1)"
    "fst (TEE_Malloc heap 16000 (sims_mem s1)) \<noteq> 0"
  shows "\<exists>ps' s2. sims_read heap sims_read_types (sims_write_params i out) s1 = Some (TEE_SUCCESS, ps', s2) \<and>
    mbuf (p1 ps') = d \<and> storage s2 = storage s1"
proof -
  have n: "unat (of_nat (length d) :: uint32) = length d" "unat i < 4"
    using assms(2,3) by (simp_all add: unsigned_of_nat take_bit_nat_eq_self word_less_nat_alt)
  obtain p m where p: "TEE_Malloc heap 16000 (sims_mem s1) = (p, m)" "p \<noteq> 0"
    using assms(6) by (cases "TEE_Malloc heap 16000 (sims_mem s1)") simp
  from sims_write_ok [OF assms(1,2,3,5)] obtain q where
    "length (storage s1) = 4" "storage s1 ! unat i = \<lparr>bsize = of_nat (length d), bdata = Some (q, d)\<rparr>" by auto
  with n p assms(4) show ?thesis
    by (simp add: sims_read_def sims_write_params_def TA_SIMS_MAX_STORAGE_def ld_def memcpy_def bucket_bytes_def
        put_block_def Let_def)
qed

text \<open>
  \<open>sims_read\<close> copies as many bytes as the client's buffer has, not as the bucket holds: in a
  consistent state it reads outside the bucket's block exactly when the buffer is larger than the
  bucket (and the scratch block it never uses can be had).
\<close>

theorem sims_read_overread:
  assumes "storage_wf (storage s)" "val_a (p0 params) < 4" "memref_ok (p1 params)"
  shows "sims_read heap sims_read_types params s = None \<longleftrightarrow>
    bsize (storage s ! unat (val_a (p0 params))) < msize (p1 params) \<and> fst (TEE_Malloc heap 16000 (sims_mem s)) \<noteq> 0"
proof -
  let ?b = "storage s ! unat (val_a (p0 params))"
  have i: "unat (val_a (p0 params)) < 4" "length (storage s) = 4"
    using assms(1,2) by (simp_all add: word_less_nat_alt storage_wf_def TA_SIMS_MAX_STORAGE_def)
  then have "bucket_ok ?b" using assms(1) by (simp add: storage_wf_def)
  then have "length (bucket_bytes ?b) = unat (bsize ?b)"
    by (auto simp: bucket_ok_def bucket_bytes_def split: option.splits)
  then show ?thesis
    using i assms(3)
    by (cases "TEE_Malloc heap 16000 (sims_mem s)")
      (auto simp: sims_read_def TA_SIMS_MAX_STORAGE_def ld_def memcpy_def Let_def memref_ok_def word_less_nat_alt)
qed

text \<open>
  Opening a second session to another TA from the same context loses the first one: nothing
  closes it any more, neither the open itself nor the end of the client's session.
\<close>

theorem sims_reopen_leaks:
  assumes "sims_env heap api live ss" "sims_inv live ss s" "contexts s ctx = Some c" "sess c \<noteq> 0"
    "sims_open_ta_session heap api ctx pt params s = Some (TEE_SUCCESS, params', s1)"
    "sims_close_session heap api ctx s1 = Some s2"
  shows "sess c \<in> ss (sims_mem s2) \<and> (\<forall>x d. contexts s2 x = Some d \<longrightarrow> sess d \<noteq> sess c)"
proof -
  obtain p m where p: "TEE_Malloc heap 16 (sims_mem s) = (p, m)" by force
  obtain b v orig ps m1 where o: "TEE_OpenTASession api (uuid_of b) 0 0 zero_params m = (TEE_SUCCESS, v, orig, ps, m1)"
    "s1 = s\<lparr>contexts := (contexts s)(ctx \<mapsto> c\<lparr>sess := v, sess_counter := sess_counter c + 1\<rparr>), sims_mem := TEE_Free heap p m1\<rparr>"
    using assms(3,5)
    by (auto simp: sims_open_ta_session_def p Let_def tee_results split: if_splits bind_splits prod.splits)
  have v: "v \<noteq> 0" "v \<notin> ss (sims_mem s)" "ss (sims_mem s1) = insert v (ss (sims_mem s))"
    using env_malloc [OF assms(1) p] env_open [OF assms(1) o(1)] env_free [OF assms(1)] o(2) by auto
  have s2: "contexts s2 = (contexts s)(ctx := None)" "ss (sims_mem s2) = ss (sims_mem s1) - {v}"
    using assms(6) o(2) v(1) env_close [OF assms(1)] env_free [OF assms(1)]
    by (auto simp: sims_close_session_def split: bind_splits)
  have c: "sess c \<in> ss (sims_mem s)" "\<forall>y d. contexts s y = Some d \<and> y \<noteq> ctx \<longrightarrow> sess d \<noteq> sess c"
    using assms(2,3,4) unfolding sims_inv_def contexts_wf_def by metis+
  with v s2 show ?thesis by (auto split: if_splits)
qed

section \<open>Witnesses\<close>

text \<open>The environment of both lists: blocks in use and open sessions.\<close>

definition env_heap :: "(ptr list \<times> nat list) heap_api" where
  "env_heap = \<lparr>TEE_Malloc = \<lambda>n (h, t). (fst (TEE_Malloc list_heap n h), snd (TEE_Malloc list_heap n h), t),
     TEE_Free = \<lambda>p (h, t). (TEE_Free list_heap p h, t)\<rparr>"

definition env_client :: "(ptr list \<times> nat list) client_api" where
  "env_client = \<lparr>
     TEE_OpenTASession = \<lambda>u d pt ps (h, t).
       (let (r, s, orig, ps, t) = TEE_OpenTASession list_client u d pt ps t in (r, s, orig, ps, h, t)),
     TEE_InvokeTACommand = \<lambda>s d c pt ps m. (TEE_SUCCESS, 4, ps, m),
     TEE_CloseTASession = \<lambda>s (h, t). (h, TEE_CloseTASession list_client s t)\<rparr>"

abbreviation env_live :: "ptr list \<times> nat list \<Rightarrow> ptr set" where "env_live m \<equiv> set (fst m) - {0}"
abbreviation env_ss :: "ptr list \<times> nat list \<Rightarrow> size_t set" where "env_ss m \<equiv> of_nat ` set (snd m) - {0}"

lemma env_example: "sims_env env_heap env_client env_live env_ss"
proof -
  have "heap_laws env_heap env_live"
    by (auto simp: heap_laws_def env_heap_def list_heap_def fresh_block)
  moreover have "session_laws env_client env_ss"
    unfolding session_laws_def
  proof (intro conjI allI impI)
    fix u t pt ps m res s orig ps' m'
    assume "TEE_OpenTASession env_client u t pt ps m = (res, s, orig, ps', m')"
    then have "TEE_OpenTASession list_client u t pt ps (snd m) = (res, s, orig, ps', snd m')"
      by (cases m) (auto simp: env_client_def split: prod.splits)
    from open_session [OF list_client_laws this]
    show "if res = TEE_SUCCESS then s \<noteq> 0 \<and> s \<notin> env_ss m \<and> env_ss m' = insert s (env_ss m) else s = 0 \<and> env_ss m' = env_ss m"
      by simp
  next
    fix s m
    show "env_ss (TEE_CloseTASession env_client s m) = env_ss m - {s}"
      using close_session [OF list_client_laws, of s "snd m"] by (cases m) (simp add: env_client_def)
  qed (simp_all add: env_client_def)
  moreover have "env_live (snd (snd (snd (snd (TEE_OpenTASession env_client u t pt ps m))))) = env_live m" for u t pt ps m
    by (cases m) (simp add: env_client_def split: prod.splits)
  ultimately show ?thesis
    by (simp add: sims_env_def) (simp add: env_heap_def env_client_def split_beta)
qed

theorem sims_reachable_inv_witness:
  "sims_inv env_live env_ss (snd (snd (sims_open_session env_heap (sims_init ([], [])))))"
proof -
  let ?s = "snd (snd (sims_open_session env_heap (sims_init ([], []))))"
  have "sims_open_session env_heap (sims_init ([], [])) =
      (fst (sims_open_session env_heap (sims_init ([], []))), fst (snd (sims_open_session env_heap (sims_init ([], [])))), ?s)"
    by simp
  then have "sims_reachable env_heap env_client ([], []) ?s"
    by (intro sims_reachable.step [OF sims_reachable.start] sims_step.opened)
  then show ?thesis by (rule sims_reachable_inv [OF _ env_example]) simp
qed

lemma init_storage_wf: "storage_wf (storage (sims_init m))"
  by (simp add: sims_init_def storage_wf_def bucket_ptrs_def bucket_ptr_def bucket_ok_def)

theorem sims_write_read_witness:
  "\<exists>ps s1 ps' s2.
    sims_write env_heap sims_write_types (sims_write_params 2 [1, 2, 3]) (sims_init ([], [])) = Some (TEE_SUCCESS, ps, s1) \<and>
    sims_read env_heap sims_read_types (sims_write_params 2 [0, 0, 0]) s1 = Some (TEE_SUCCESS, ps', s2) \<and>
    mbuf (p1 ps') = [1, 2, 3] \<and> storage s2 = storage s1"
proof -
  have "\<exists>ps s1. sims_write env_heap sims_write_types (sims_write_params 2 [1, 2, 3]) (sims_init ([], [])) = Some (TEE_SUCCESS, ps, s1)"
    by (simp add: sims_write_def sims_write_params_def sims_init_def TA_SIMS_MAX_STORAGE_def ld_def st_def memcpy_def
        env_heap_def list_heap_def)
  then obtain ps s1 where w: "sims_write env_heap sims_write_types (sims_write_params 2 [1, 2, 3]) (sims_init ([], [])) = Some (TEE_SUCCESS, ps, s1)"
    by blast
  have "fst (TEE_Malloc env_heap 16000 (sims_mem s1)) \<noteq> 0"
    by (simp add: env_heap_def list_heap_def split_beta)
  with w sims_write_read [OF init_storage_wf _ _ _ w, of "[0, 0, 0]"] show ?thesis by auto
qed

theorem sims_read_overread_witness:
  "sims_read env_heap sims_read_types (sims_write_params 0 [0, 0]) (sims_init ([], [])) = None"
  by (subst sims_read_overread [OF init_storage_wf])
    (simp_all add: sims_write_params_def memref_ok_def sims_init_def TA_SIMS_MAX_STORAGE_def env_heap_def list_heap_def)

definition sims_one_session :: "(ptr list \<times> nat list) sims_st" where
  "sims_one_session = (sims_init ([1], [1]))\<lparr>contexts := [1 \<mapsto> \<lparr>sess = 1, sess_counter = 1\<rparr>]\<rparr>"

theorem sims_reopen_leaks_witness:
  "\<exists>s1 s2. sims_open_ta_session env_heap env_client 1 (TEE_PARAM_TYPES PT_MEMREF_INPUT PT_NONE PT_NONE PT_NONE)
      (zero_params\<lparr>p0 := zero_param\<lparr>mbuf := replicate 16 7, msize := 16\<rparr>\<rparr>) sims_one_session =
      Some (TEE_SUCCESS, zero_params\<lparr>p0 := zero_param\<lparr>mbuf := replicate 16 7, msize := 16\<rparr>\<rparr>, s1) \<and>
    sims_close_session env_heap env_client 1 s1 = Some s2 \<and> 1 \<in> env_ss (sims_mem s2)"
proof -
  let ?ps = "zero_params\<lparr>p0 := zero_param\<lparr>mbuf := replicate 16 7, msize := 16\<rparr>\<rparr>"
  let ?t = "TEE_PARAM_TYPES PT_MEMREF_INPUT PT_NONE PT_NONE PT_NONE"
  have inv: "sims_inv env_live env_ss sims_one_session"
    by (simp add: sims_one_session_def sims_init_def sims_inv_def storage_wf_def contexts_wf_def bucket_ptrs_def
        bucket_ptr_def bucket_ok_def)
  have "\<exists>s1 s2. sims_open_ta_session env_heap env_client 1 ?t ?ps sims_one_session = Some (TEE_SUCCESS, ?ps, s1) \<and>
      sims_close_session env_heap env_client 1 s1 = Some s2"
    by (simp add: sims_open_ta_session_def sims_close_session_def sims_one_session_def sims_init_def env_heap_def list_heap_def
        env_client_def list_client_def memcpy_def fresh_session_def)
  then obtain s1 s2 where r: "sims_open_ta_session env_heap env_client 1 ?t ?ps sims_one_session = Some (TEE_SUCCESS, ?ps, s1)"
    "sims_close_session env_heap env_client 1 s1 = Some s2" by blast
  with sims_reopen_leaks [OF env_example inv _ _ r(1) r(2)] show ?thesis
    by (auto simp: sims_one_session_def)
qed

end
