(* ===== verification/Sdp_Basic.thy ===== *)
theory Sdp_Basic
  imports Ta_Env
begin

text \<open>
  Model of \<open>src/ta/sdp_basic/ta_sdp_basic.c\<close>: the secure data path TA, which copies between non
  secure and secure buffers.  Here the memory is a function from addresses to bytes, since a
  command may reach beyond the buffers it was given.  The access rights of the memory, the cache
  and the other trusted applications are parameters; \<open>CFG_CACHE_API\<close> is the build option of the
  source.
\<close>

definition TA_SDP_BASIC_UUID :: tee_uuid where
  "TA_SDP_BASIC_UUID = (0x12345678, 0x5b69, 0x11e4, [0x9d, 0xbb, 0x10, 0x1f, 0x74, 0xf0, 0x00, 0x99])"

definition PTA_INVOKE_TESTS_UUID :: tee_uuid where
  "PTA_INVOKE_TESTS_UUID = (0xd96a5b40, 0xc3e5, 0x21e3, [0x87, 0x94, 0x10, 0x02, 0xa5, 0xd5, 0xc6, 0x1b])"

definition TA_SDP_BASIC_CMD_INJECT :: uint32 where "TA_SDP_BASIC_CMD_INJECT = 0"
definition TA_SDP_BASIC_CMD_TRANSFORM :: uint32 where "TA_SDP_BASIC_CMD_TRANSFORM = 1"
definition TA_SDP_BASIC_CMD_DUMP :: uint32 where "TA_SDP_BASIC_CMD_DUMP = 2"
definition TA_SDP_BASIC_CMD_INVOKE_INJECT :: uint32 where "TA_SDP_BASIC_CMD_INVOKE_INJECT = 3"
definition TA_SDP_BASIC_CMD_INVOKE_TRANSFORM :: uint32 where "TA_SDP_BASIC_CMD_INVOKE_TRANSFORM = 4"
definition TA_SDP_BASIC_CMD_INVOKE_DUMP :: uint32 where "TA_SDP_BASIC_CMD_INVOKE_DUMP = 5"
definition TA_SDP_BASIC_CMD_PTA_INJECT :: uint32 where "TA_SDP_BASIC_CMD_PTA_INJECT = 6"
definition TA_SDP_BASIC_CMD_PTA_TRANSFORM :: uint32 where "TA_SDP_BASIC_CMD_PTA_TRANSFORM = 7"
definition TA_SDP_BASIC_CMD_PTA_DUMP :: uint32 where "TA_SDP_BASIC_CMD_PTA_DUMP = 8"

lemmas sdp_cmd_defs = TA_SDP_BASIC_CMD_INJECT_def TA_SDP_BASIC_CMD_TRANSFORM_def
  TA_SDP_BASIC_CMD_DUMP_def TA_SDP_BASIC_CMD_INVOKE_INJECT_def TA_SDP_BASIC_CMD_INVOKE_TRANSFORM_def
  TA_SDP_BASIC_CMD_INVOKE_DUMP_def TA_SDP_BASIC_CMD_PTA_INJECT_def TA_SDP_BASIC_CMD_PTA_TRANSFORM_def
  TA_SDP_BASIC_CMD_PTA_DUMP_def

definition PTA_INVOKE_TESTS_CMD_COPY_NSEC_TO_SEC :: uint32 where "PTA_INVOKE_TESTS_CMD_COPY_NSEC_TO_SEC = 3"
definition PTA_INVOKE_TESTS_CMD_READ_MODIFY_SEC :: uint32 where "PTA_INVOKE_TESTS_CMD_READ_MODIFY_SEC = 4"
definition PTA_INVOKE_TESTS_CMD_COPY_SEC_TO_NSEC :: uint32 where "PTA_INVOKE_TESTS_CMD_COPY_SEC_TO_NSEC = 5"

section \<open>Memory and its environment\<close>

record 'e world =
  mem :: "size_t \<Rightarrow> u8"
  env :: 'e

record 'm sdp_api = "'m client_api" +
  TEE_CheckMemoryAccessRights :: "uint32 \<Rightarrow> size_t \<Rightarrow> uint32 \<Rightarrow> TEE_Result"
  TEE_CacheFlush :: "size_t \<Rightarrow> uint32 \<Rightarrow> TEE_Result"
  CFG_CACHE_API :: bool

text \<open>The addresses of a buffer of \<open>n\<close> bytes.\<close>

definition in_buf :: "size_t \<Rightarrow> nat \<Rightarrow> size_t \<Rightarrow> bool" where
  "in_buf p n a \<longleftrightarrow> unat (a - p) < n"

definition TEE_MemMove :: "size_t \<Rightarrow> size_t \<Rightarrow> uint32 \<Rightarrow> (size_t \<Rightarrow> u8) \<Rightarrow> size_t \<Rightarrow> u8" where
  "TEE_MemMove dst src n m = (\<lambda>a. if in_buf dst (unat n) a then m (src + (a - dst)) else m a)"

text \<open>The flush that \<open>CFG_CACHE_API\<close> adds, of a whole memory reference\<close>

definition flush_param :: "('m, 'z) sdp_api_scheme \<Rightarrow> tee_param \<Rightarrow> TEE_Result" where
  "flush_param api p = (if CFG_CACHE_API api then TEE_CacheFlush api (maddr p) (msize p) else TEE_SUCCESS)"

definition check_param :: "('m, 'z) sdp_api_scheme \<Rightarrow> uint32 \<Rightarrow> tee_param \<Rightarrow> TEE_Result" where
  "check_param api flags p = TEE_CheckMemoryAccessRights api flags (maddr p) (msize p)"

section \<open>The commands on the memory\<close>

definition cmd_inject ::
  "('m, 'z) sdp_api_scheme \<Rightarrow> uint32 \<Rightarrow> tee_params \<Rightarrow> 'e world \<Rightarrow> TEE_Result \<times> 'e world" where
  "cmd_inject api types params w =
     (if types \<noteq> TEE_PARAM_TYPES PT_MEMREF_INPUT PT_MEMREF_OUTPUT PT_NONE PT_NONE
        then (TEE_ERROR_BAD_PARAMETERS, w)
      else let ns = p0 params; sec = p1 params
      in if msize sec < msize ns then (TEE_ERROR_SHORT_BUFFER, w)
      else
        let rc = check_param api (TEE_MEMORY_ACCESS_ANY_OWNER OR TEE_MEMORY_ACCESS_READ OR TEE_MEMORY_ACCESS_NONSECURE) ns
        in if rc \<noteq> TEE_SUCCESS then (rc, w)
      else
        let rc = check_param api (TEE_MEMORY_ACCESS_ANY_OWNER OR TEE_MEMORY_ACCESS_WRITE OR TEE_MEMORY_ACCESS_SECURE) sec
        in if rc \<noteq> TEE_SUCCESS then (rc, w)
      else
        let rc = flush_param api sec in if rc \<noteq> TEE_SUCCESS then (rc, w)
      else
        let w = w\<lparr>mem := TEE_MemMove (maddr sec) (maddr ns) (msize sec) (mem w)\<rparr>;
            rc = flush_param api sec
        in (rc, w))"

text \<open>The loop of \<open>cmd_transform\<close>: two's complement of each byte.\<close>

fun transform_loop :: "size_t \<Rightarrow> nat \<Rightarrow> (size_t \<Rightarrow> u8) \<Rightarrow> size_t \<Rightarrow> u8" where
  "transform_loop p 0 m = m"
| "transform_loop p (Suc sz) m = transform_loop (p + 1) sz (m(p := NOT (m p) + 1))"

definition cmd_transform ::
  "('m, 'z) sdp_api_scheme \<Rightarrow> uint32 \<Rightarrow> tee_params \<Rightarrow> 'e world \<Rightarrow> TEE_Result \<times> 'e world" where
  "cmd_transform api types params w =
     (if types \<noteq> TEE_PARAM_TYPES PT_MEMREF_INOUT PT_NONE PT_NONE PT_NONE
        then (TEE_ERROR_BAD_PARAMETERS, w)
      else
        let rc = check_param api (TEE_MEMORY_ACCESS_ANY_OWNER OR TEE_MEMORY_ACCESS_READ OR
                   TEE_MEMORY_ACCESS_WRITE OR TEE_MEMORY_ACCESS_SECURE) (p0 params)
        in if rc \<noteq> TEE_SUCCESS then (rc, w)
      else
        let rc = flush_param api (p0 params) in if rc \<noteq> TEE_SUCCESS then (rc, w)
      else
        let w = w\<lparr>mem := transform_loop (maddr (p0 params)) (unat (msize (p0 params))) (mem w)\<rparr>;
            rc = flush_param api (p0 params)
        in (rc, w))"

definition cmd_dump ::
  "('m, 'z) sdp_api_scheme \<Rightarrow> uint32 \<Rightarrow> tee_params \<Rightarrow> 'e world \<Rightarrow> TEE_Result \<times> 'e world" where
  "cmd_dump api types params w =
     (if types \<noteq> TEE_PARAM_TYPES PT_MEMREF_INPUT PT_MEMREF_OUTPUT PT_NONE PT_NONE
        then (TEE_ERROR_BAD_PARAMETERS, w)
      else let sec = p0 params; ns = p1 params
      in if msize ns < msize sec then (TEE_ERROR_SHORT_BUFFER, w)
      else
        let rc = check_param api (TEE_MEMORY_ACCESS_ANY_OWNER OR TEE_MEMORY_ACCESS_WRITE OR TEE_MEMORY_ACCESS_NONSECURE) ns
        in if rc \<noteq> TEE_SUCCESS then (rc, w)
      else
        let rc = check_param api (TEE_MEMORY_ACCESS_ANY_OWNER OR TEE_MEMORY_ACCESS_READ OR TEE_MEMORY_ACCESS_SECURE) sec
        in if rc \<noteq> TEE_SUCCESS then (rc, w)
      else
        let rc = flush_param api sec in if rc \<noteq> TEE_SUCCESS then (rc, w)
      else (rc, w\<lparr>mem := TEE_MemMove (maddr ns) (maddr sec) (msize sec) (mem w)\<rparr>))"

section \<open>Commands through other trusted applications\<close>

text \<open>
  \<open>cmd_invoke\<close> and \<open>cmd_invoke_pta\<close> each keep a static session: it is opened on first use, kept
  while commands succeed and closed after a failure.
\<close>

definition cmd_invoke ::
  "('e world, 'z) sdp_api_scheme \<Rightarrow> uint32 \<Rightarrow> tee_params \<Rightarrow> uint32 \<Rightarrow> size_t \<Rightarrow> 'e world \<Rightarrow>
     TEE_Result \<times> tee_params \<times> size_t \<times> 'e world" where
  "cmd_invoke api nParamTypes pParams nCommandID sess w =
     (let (res, sess, w) =
        (if sess = 0 then
           let (res, sess, _, _, w) = TEE_OpenTASession api TA_SDP_BASIC_UUID 0 0 zero_params w in (res, sess, w)
         else (TEE_SUCCESS, sess, w))
      in if res \<noteq> TEE_SUCCESS then (res, pParams, 0, TEE_CloseTASession api sess w)
      else
        let (res, _, pParams, w) = TEE_InvokeTACommand api sess 0 nCommandID nParamTypes pParams w
        in if res \<noteq> TEE_SUCCESS then (res, pParams, 0, TEE_CloseTASession api sess w)
        else (res, pParams, sess, w))"

definition cmd_invoke_pta ::
  "('e world, 'z) sdp_api_scheme \<Rightarrow> uint32 \<Rightarrow> tee_params \<Rightarrow> uint32 \<Rightarrow> size_t \<Rightarrow> 'e world \<Rightarrow>
     TEE_Result \<times> tee_params \<times> size_t \<times> 'e world" where
  "cmd_invoke_pta api nParamTypes pParams nCommandID sess w =
     (let (res, sess, w) =
        (if sess = 0 then
           let (res, sess, _, _, w) = TEE_OpenTASession api PTA_INVOKE_TESTS_UUID 0 0 zero_params w in (res, sess, w)
         else (TEE_SUCCESS, sess, w))
      in if res \<noteq> TEE_SUCCESS then (res, pParams, 0, TEE_CloseTASession api sess w)
      else
        let (res, _, pParams, w) = TEE_InvokeTACommand api sess 0 nCommandID nParamTypes pParams w
        in if res \<noteq> TEE_SUCCESS then (res, pParams, 0, TEE_CloseTASession api sess w)
        else (res, pParams, sess, w))"

text \<open>The two static variables\<close>

record sdp_statics =
  ta_sess :: size_t
  pta_sess :: size_t

definition sdp_statics_init :: sdp_statics where
  "sdp_statics_init = \<lparr>ta_sess = 0, pta_sess = 0\<rparr>"

definition in_ta_sess ::
  "(size_t \<Rightarrow> 'w \<Rightarrow> TEE_Result \<times> tee_params \<times> size_t \<times> 'w) \<Rightarrow> sdp_statics \<Rightarrow> 'w \<Rightarrow>
     TEE_Result \<times> tee_params \<times> sdp_statics \<times> 'w" where
  "in_ta_sess f sv w = (let (res, ps, s, w) = f (ta_sess sv) w in (res, ps, sv\<lparr>ta_sess := s\<rparr>, w))"

definition in_pta_sess ::
  "(size_t \<Rightarrow> 'w \<Rightarrow> TEE_Result \<times> tee_params \<times> size_t \<times> 'w) \<Rightarrow> sdp_statics \<Rightarrow> 'w \<Rightarrow>
     TEE_Result \<times> tee_params \<times> sdp_statics \<times> 'w" where
  "in_pta_sess f sv w = (let (res, ps, s, w) = f (pta_sess sv) w in (res, ps, sv\<lparr>pta_sess := s\<rparr>, w))"

definition sdp_invoke ::
  "('e world, 'z) sdp_api_scheme \<Rightarrow> uint32 \<Rightarrow> uint32 \<Rightarrow> tee_params \<Rightarrow> sdp_statics \<Rightarrow> 'e world \<Rightarrow>
     TEE_Result \<times> tee_params \<times> sdp_statics \<times> 'e world" where
  "sdp_invoke api nCommandID types params sv w =
     (if nCommandID = TA_SDP_BASIC_CMD_INJECT then
        let (res, w) = cmd_inject api types params w in (res, params, sv, w)
      else if nCommandID = TA_SDP_BASIC_CMD_TRANSFORM then
        let (res, w) = cmd_transform api types params w in (res, params, sv, w)
      else if nCommandID = TA_SDP_BASIC_CMD_DUMP then
        let (res, w) = cmd_dump api types params w in (res, params, sv, w)
      else if nCommandID = TA_SDP_BASIC_CMD_INVOKE_INJECT then
        in_ta_sess (cmd_invoke api types params TA_SDP_BASIC_CMD_INJECT) sv w
      else if nCommandID = TA_SDP_BASIC_CMD_INVOKE_TRANSFORM then
        in_ta_sess (cmd_invoke api types params TA_SDP_BASIC_CMD_TRANSFORM) sv w
      else if nCommandID = TA_SDP_BASIC_CMD_INVOKE_DUMP then
        in_ta_sess (cmd_invoke api types params TA_SDP_BASIC_CMD_DUMP) sv w
      else if nCommandID = TA_SDP_BASIC_CMD_PTA_INJECT then
        in_pta_sess (cmd_invoke_pta api types params PTA_INVOKE_TESTS_CMD_COPY_NSEC_TO_SEC) sv w
      else if nCommandID = TA_SDP_BASIC_CMD_PTA_TRANSFORM then
        in_pta_sess (cmd_invoke_pta api types params PTA_INVOKE_TESTS_CMD_READ_MODIFY_SEC) sv w
      else if nCommandID = TA_SDP_BASIC_CMD_PTA_DUMP then
        in_pta_sess (cmd_invoke_pta api types params PTA_INVOKE_TESTS_CMD_COPY_SEC_TO_NSEC) sv w
      else (TEE_ERROR_BAD_PARAMETERS, params, sv, w))"

section \<open>Buffers\<close>

text \<open>The bytes of a buffer of \<open>n\<close> bytes at \<open>p\<close>\<close>

definition bytes_at :: "(size_t \<Rightarrow> u8) \<Rightarrow> size_t \<Rightarrow> nat \<Rightarrow> u8 list" where
  "bytes_at m p n = map (\<lambda>i. m (p + of_nat i)) [0..<n]"

lemma in_buf_offset: "i < 2 ^ 64 \<Longrightarrow> in_buf p n (p + of_nat i) \<longleftrightarrow> i < n"
  by (simp add: in_buf_def unsigned_of_nat take_bit_nat_eq_self)

lemma in_buf_Suc:
  assumes "n < 2 ^ 64"
  shows "in_buf p (Suc n) a \<longleftrightarrow> a = p \<or> in_buf (p + 1) n a" "\<not> in_buf (p + 1) n p"
proof -
  have down: "unat (a - (p + 1)) = unat (a - p) - 1" if "a \<noteq> p"
  proof -
    have "a - p \<noteq> 0" using that by simp
    then show ?thesis by (metis diff_diff_eq unat_minus_one)
  qed
  moreover have "0 < unat (a - p)" if "a \<noteq> p" using that by (simp add: unat_gt_0)
  ultimately show "in_buf p (Suc n) a \<longleftrightarrow> a = p \<or> in_buf (p + 1) n a"
    by (cases "a = p") (auto simp: in_buf_def)
  have "unat (- 1 :: size_t) = 2 ^ 64 - 1" by (simp add: unsigned_minus_1_eq_mask mask_eq_exp_minus_1)
  with assms show "\<not> in_buf (p + 1) n p" by (simp add: in_buf_def)
qed

lemma transform_loop_eq:
  "n \<le> 2 ^ 64 \<Longrightarrow> transform_loop p n m = (\<lambda>a. if in_buf p n a then - m a else m a)"
proof (induction n arbitrary: p m)
  case 0
  show ?case by (simp add: in_buf_def)
next
  case (Suc n)
  then have n: "n < 2 ^ 64" by simp
  show ?case using Suc.IH [of "p + 1"] in_buf_Suc [OF n, of p] n
    by (auto simp: fun_eq_iff minus_eq_not_plus_1)
qed

lemma uint32_below_64: "unat (n :: uint32) < 2 ^ 64"
  using unsigned_less [of n, where ?'a = nat] by simp

lemma bytes_at_MemMove:
  assumes "k \<le> unat n"
  shows "bytes_at (TEE_MemMove dst src n m) dst k = bytes_at m src k"
proof -
  have "TEE_MemMove dst src n m (dst + of_nat i) = m (src + of_nat i)" if "i < k" for i
  proof -
    have "i < 2 ^ 64" using that assms uint32_below_64 [of n] by linarith
    then show ?thesis using that assms by (simp add: TEE_MemMove_def in_buf_offset)
  qed
  then show ?thesis by (simp add: bytes_at_def)
qed

lemma bytes_at_transform:
  "bytes_at (transform_loop p (unat (n :: uint32)) m) p (unat n) = map uminus (bytes_at m p (unat n))"
proof -
  have "transform_loop p (unat n) m (p + of_nat i) = - m (p + of_nat i)" if "i < unat n" for i
  proof -
    have "i < 2 ^ 64" using that uint32_below_64 [of n] by linarith
    then show ?thesis using that uint32_below_64 [of n] by (simp add: transform_loop_eq in_buf_offset)
  qed
  then show ?thesis by (simp add: bytes_at_def)
qed

section \<open>The security of the data path\<close>

text \<open>
  What \<open>tee_api_defines_extensions.h\<close> documents of the extended flags: a check with the secure or
  the non secure flag succeeds only where all bytes of the range have that attribute.
\<close>

definition access_laws :: "('m, 'z) sdp_api_scheme \<Rightarrow> (size_t \<Rightarrow> bool) \<Rightarrow> bool" where
  "access_laws api secure \<longleftrightarrow> (\<forall>flags p n. TEE_CheckMemoryAccessRights api flags p n = TEE_SUCCESS \<longrightarrow>
     (flags AND TEE_MEMORY_ACCESS_SECURE \<noteq> 0 \<longrightarrow> (\<forall>a. in_buf p (unat n) a \<longrightarrow> secure a)) \<and>
     (flags AND TEE_MEMORY_ACCESS_NONSECURE \<noteq> 0 \<longrightarrow> (\<forall>a. in_buf p (unat n) a \<longrightarrow> \<not> secure a)))"

lemma secure_checked:
  "access_laws api secure \<Longrightarrow> check_param api flags p = TEE_SUCCESS \<Longrightarrow> flags AND TEE_MEMORY_ACCESS_SECURE \<noteq> 0 \<Longrightarrow>
     in_buf (maddr p) (unat (msize p)) a \<Longrightarrow> secure a"
  by (simp add: access_laws_def check_param_def)

lemma nonsecure_checked:
  "access_laws api secure \<Longrightarrow> check_param api flags p = TEE_SUCCESS \<Longrightarrow> flags AND TEE_MEMORY_ACCESS_NONSECURE \<noteq> 0 \<Longrightarrow>
     in_buf (maddr p) (unat (msize p)) a \<Longrightarrow> \<not> secure a"
  by (simp add: access_laws_def check_param_def)

lemma inject_writes_secure:
  assumes "access_laws api secure" "cmd_inject api types params w = (res, w')" "mem w' a \<noteq> mem w a"
  shows "secure a \<and> in_buf (maddr (p1 params)) (unat (msize (p1 params))) a \<and> env w' = env w"
proof -
  have c: "check_param api (TEE_MEMORY_ACCESS_ANY_OWNER OR TEE_MEMORY_ACCESS_WRITE OR TEE_MEMORY_ACCESS_SECURE) (p1 params)
      = TEE_SUCCESS" and b: "in_buf (maddr (p1 params)) (unat (msize (p1 params))) a" and e: "env w' = env w"
    using assms(2,3) by (auto simp: cmd_inject_def Let_def TEE_MemMove_def split: if_splits)
  from secure_checked [OF assms(1) c _ b] b e show ?thesis by (simp add: access_defs)
qed

lemma transform_writes_secure:
  assumes "access_laws api secure" "cmd_transform api types params w = (res, w')" "mem w' a \<noteq> mem w a"
  shows "secure a \<and> in_buf (maddr (p0 params)) (unat (msize (p0 params))) a \<and> env w' = env w"
proof -
  have n: "unat (msize (p0 params)) \<le> 2 ^ 64" using uint32_below_64 by (rule less_imp_le)
  have c: "check_param api (TEE_MEMORY_ACCESS_ANY_OWNER OR TEE_MEMORY_ACCESS_READ OR TEE_MEMORY_ACCESS_WRITE OR
      TEE_MEMORY_ACCESS_SECURE) (p0 params) = TEE_SUCCESS"
    and b: "in_buf (maddr (p0 params)) (unat (msize (p0 params))) a" and e: "env w' = env w"
    using assms(2,3) by (auto simp: cmd_transform_def Let_def transform_loop_eq [OF n] split: if_splits)
  from secure_checked [OF assms(1) c _ b] b e show ?thesis by (simp add: access_defs)
qed

lemma in_buf_mono: "in_buf p n a \<Longrightarrow> n \<le> k \<Longrightarrow> in_buf p k a"
  by (simp add: in_buf_def)

lemma dump_writes_nonsecure:
  assumes "access_laws api secure" "cmd_dump api types params w = (res, w')" "mem w' a \<noteq> mem w a"
  shows "\<not> secure a \<and> in_buf (maddr (p1 params)) (unat (msize (p1 params))) a \<and> env w' = env w"
proof -
  have c: "check_param api (TEE_MEMORY_ACCESS_ANY_OWNER OR TEE_MEMORY_ACCESS_WRITE OR TEE_MEMORY_ACCESS_NONSECURE) (p1 params)
      = TEE_SUCCESS" and b: "in_buf (maddr (p1 params)) (unat (msize (p0 params))) a"
    and l: "unat (msize (p0 params)) \<le> unat (msize (p1 params))" and e: "env w' = env w"
    using assms(2,3)
    by (auto simp: cmd_dump_def Let_def TEE_MemMove_def word_less_nat_alt not_less split: if_splits)
  note b = in_buf_mono [OF b l]
  from nonsecure_checked [OF assms(1) c _ b] b e show ?thesis by (simp add: access_defs)
qed

text \<open>
  C23.  Of the three commands on the memory, only the dump writes non secure memory, and the
  injection and the transformation write nothing but secure memory, however the client chose its
  buffers, and all three write only the buffer of their output parameter.
\<close>

theorem sdp_isolation:
  assumes "access_laws api secure"
    and "sdp_invoke api cmd types params sv w = (res, params', sv', w')"
    and "cmd \<in> {TA_SDP_BASIC_CMD_INJECT, TA_SDP_BASIC_CMD_TRANSFORM, TA_SDP_BASIC_CMD_DUMP}"
    and "mem w' a \<noteq> mem w a"
  shows "(secure a \<longleftrightarrow> cmd \<noteq> TA_SDP_BASIC_CMD_DUMP) \<and> params' = params \<and> sv' = sv \<and> env w' = env w \<and>
    (let out = (if cmd = TA_SDP_BASIC_CMD_TRANSFORM then p0 params else p1 params)
     in in_buf (maddr out) (unat (msize out)) a)"
  using assms(2-4)
  by (auto simp: sdp_invoke_def sdp_cmd_defs Let_def split: prod.splits
      dest: inject_writes_secure [OF assms(1)] transform_writes_secure [OF assms(1)] dump_writes_nonsecure [OF assms(1)])

section \<open>The data path from end to end\<close>

text \<open>
  What a client does with the TA: a list of commands, each of which has to succeed.  A buffer is
  granted when its access checks depend on the secure attribute alone and the cache can be flushed.
\<close>

type_synonym sdp_call = "uint32 \<times> uint32 \<times> tee_params"

definition sdp_do :: "('e world, 'z) sdp_api_scheme \<Rightarrow> sdp_call \<Rightarrow> 'e world \<Rightarrow> 'e world option" where
  "sdp_do api c w =
     (let (cmd, types, params) = c; (res, _, _, w) = sdp_invoke api cmd types params sdp_statics_init w
      in if res = TEE_SUCCESS then Some w else None)"

definition sdp_memref :: "size_t \<Rightarrow> uint32 \<Rightarrow> tee_param" where
  "sdp_memref p n = zero_param\<lparr>maddr := p, msize := n\<rparr>"

definition sdp_copy_call :: "uint32 \<Rightarrow> size_t \<Rightarrow> uint32 \<Rightarrow> size_t \<Rightarrow> uint32 \<Rightarrow> sdp_call" where
  "sdp_copy_call cmd src n dst k = (cmd, TEE_PARAM_TYPES PT_MEMREF_INPUT PT_MEMREF_OUTPUT PT_NONE PT_NONE,
     zero_params\<lparr>p0 := sdp_memref src n, p1 := sdp_memref dst k\<rparr>)"

definition sdp_transform_call :: "size_t \<Rightarrow> uint32 \<Rightarrow> sdp_call" where
  "sdp_transform_call p n = (TA_SDP_BASIC_CMD_TRANSFORM, TEE_PARAM_TYPES PT_MEMREF_INOUT PT_NONE PT_NONE PT_NONE,
     zero_params\<lparr>p0 := sdp_memref p n\<rparr>)"

definition granted :: "('m, 'z) sdp_api_scheme \<Rightarrow> bool \<Rightarrow> size_t \<Rightarrow> uint32 \<Rightarrow> bool" where
  "granted api secure p n \<longleftrightarrow> TEE_CacheFlush api p n = TEE_SUCCESS \<and>
     (\<forall>flags. flags AND (if secure then TEE_MEMORY_ACCESS_NONSECURE else TEE_MEMORY_ACCESS_SECURE) = 0 \<longrightarrow>
        TEE_CheckMemoryAccessRights api flags p n = TEE_SUCCESS)"

lemma granted_check:
  "granted api secure p n \<Longrightarrow> flags AND (if secure then TEE_MEMORY_ACCESS_NONSECURE else TEE_MEMORY_ACCESS_SECURE) = 0 \<Longrightarrow>
     check_param api flags (sdp_memref p n) = TEE_SUCCESS"
  by (simp add: granted_def check_param_def sdp_memref_def)

lemma granted_flush: "granted api secure p n \<Longrightarrow> flush_param api (sdp_memref p n) = TEE_SUCCESS"
  by (simp add: granted_def flush_param_def sdp_memref_def)

lemma sdp_memref_simps [simp]: "maddr (sdp_memref p n) = p" "msize (sdp_memref p n) = n"
  by (simp_all add: sdp_memref_def)

lemma sdp_do_inject:
  assumes "granted api False src n" "granted api True dst k" "n \<le> k"
  shows "sdp_do api (sdp_copy_call TA_SDP_BASIC_CMD_INJECT src n dst k) w = Some (w\<lparr>mem := TEE_MemMove dst src k (mem w)\<rparr>)"
  using assms granted_flush [OF assms(2)]
  by (simp add: sdp_do_def sdp_copy_call_def sdp_invoke_def cmd_inject_def granted_check access_defs Let_def not_less)

lemma sdp_do_transform:
  assumes "granted api True p n"
  shows "sdp_do api (sdp_transform_call p n) w = Some (w\<lparr>mem := transform_loop p (unat n) (mem w)\<rparr>)"
  using assms granted_flush [OF assms]
  by (simp add: sdp_do_def sdp_transform_call_def sdp_invoke_def sdp_cmd_defs cmd_transform_def granted_check access_defs)

lemma sdp_do_dump:
  assumes "granted api True src n" "granted api False dst k" "n \<le> k"
  shows "sdp_do api (sdp_copy_call TA_SDP_BASIC_CMD_DUMP src n dst k) w = Some (w\<lparr>mem := TEE_MemMove dst src n (mem w)\<rparr>)"
  using assms granted_flush [OF assms(1)]
  by (simp add: sdp_do_def sdp_copy_call_def sdp_invoke_def sdp_cmd_defs cmd_dump_def granted_check access_defs Let_def not_less)

lemma sdp_do_transforms:
  assumes "granted api True p n"
  shows "\<exists>w'. foldM (sdp_do api) (replicate k (sdp_transform_call p n)) w = Some w' \<and>
    bytes_at (mem w') p (unat n) = map (\<lambda>b. if even k then b else - b) (bytes_at (mem w) p (unat n))"
proof (induction k arbitrary: w)
  case 0
  show ?case by simp
next
  case (Suc k)
  let ?w = "w\<lparr>mem := transform_loop p (unat n) (mem w)\<rparr>"
  obtain w' where "foldM (sdp_do api) (replicate k (sdp_transform_call p n)) ?w = Some w'"
    "bytes_at (mem w') p (unat n) = map (\<lambda>b. if even k then b else - b) (bytes_at (mem ?w) p (unat n))"
    using Suc.IH [of ?w] by blast
  then show ?case by (auto simp: sdp_do_transform [OF assms] bytes_at_transform)
qed

text \<open>
  C33.  Data that a client injects into a secure buffer, has transformed \<open>k\<close> times and dumps into
  another buffer arrives whole: unchanged for an even \<open>k\<close>, each byte negated for an odd one.  All
  the commands succeed.
\<close>

theorem sdp_data_path:
  assumes "granted api False src n" "granted api True sec n" "granted api False dst n"
  shows "\<exists>w'. foldM (sdp_do api) ([sdp_copy_call TA_SDP_BASIC_CMD_INJECT src n sec n] @
      replicate k (sdp_transform_call sec n) @ [sdp_copy_call TA_SDP_BASIC_CMD_DUMP sec n dst n]) w = Some w' \<and>
    bytes_at (mem w') dst (unat n) = map (\<lambda>b. if even k then b else - b) (bytes_at (mem w) src (unat n))"
proof -
  let ?w = "w\<lparr>mem := TEE_MemMove sec src n (mem w)\<rparr>"
  obtain w' where "foldM (sdp_do api) (replicate k (sdp_transform_call sec n)) ?w = Some w'"
    "bytes_at (mem w') sec (unat n) = map (\<lambda>b. if even k then b else - b) (bytes_at (mem ?w) sec (unat n))"
    using sdp_do_transforms [OF assms(2)] by blast
  then show ?thesis
    using sdp_do_inject [OF assms(1,2) order_refl] sdp_do_dump [OF assms(2,3) order_refl, of w']
    by (simp add: foldM_append bytes_at_MemMove)
qed

section \<open>Cached sessions\<close>

text \<open>
  The contract both callers of another TA share: given the handle of an open session or none, a
  call leaves at most one session behind, the one it returns, and none after a failure.
\<close>

locale cached_session =
  fixes api :: "('w, 'z) client_api_scheme"
    and call :: "size_t \<Rightarrow> 'w \<Rightarrow> TEE_Result \<times> tee_params \<times> size_t \<times> 'w"
  assumes call_keeps: "session_laws api ss \<Longrightarrow> call s w = (res, ps, s', w') \<Longrightarrow> s = 0 \<or> s \<in> ss w \<Longrightarrow>
      ss w' - {s'} = ss w - {s} \<and> (s' = 0 \<or> s' \<in> ss w') \<and> (s' \<in> ss w - {s} \<longrightarrow> s' = 0) \<and>
      (res \<noteq> TEE_SUCCESS \<longrightarrow> s' = 0)"
begin

lemma holds_own:
  assumes "session_laws api ss" "call s w = (res, ps, s', w')" "ss w = others \<union> ({s} - {0})" "s \<notin> others"
  shows "ss w' = others \<union> ({s'} - {0}) \<and> s' \<notin> others \<and> (res \<noteq> TEE_SUCCESS \<longrightarrow> ss w' = others)"
proof -
  have o: "ss w - {s} = others" using assms(3,4) no_null_session [OF assms(1), of w] by auto
  have s: "s = 0 \<or> s \<in> ss w" using assms(3) by auto
  have k: "ss w' - {s'} = others" "s' = 0 \<or> s' \<in> ss w'" "s' \<in> others \<longrightarrow> s' = 0" "res \<noteq> TEE_SUCCESS \<longrightarrow> s' = 0"
    using call_keeps [OF assms(1,2) s] unfolding o by auto
  have "0 \<notin> ss w'" by (rule no_null_session [OF assms(1)])
  moreover have "0 \<notin> others" using no_null_session [OF assms(1), of w] assms(3) by simp
  ultimately show ?thesis using k by auto
qed

end

text \<open>Both calls meet the contract: they differ in the TA they open only.\<close>

lemma cached_call_law:
  assumes l: "session_laws api ss"
    and o: "(if s = 0 then let (res, sess, _, _, w) = TEE_OpenTASession api u 0 0 zero_params w in (res, sess, w)
       else (TEE_SUCCESS, s, w)) = (r, s1, w1)"
    and c: "(if r \<noteq> TEE_SUCCESS then (r, ps, 0, TEE_CloseTASession api s1 w1)
       else let (res, _, ps, w) = TEE_InvokeTACommand api s1 0 c t ps w1
        in if res \<noteq> TEE_SUCCESS then (res, ps, 0, TEE_CloseTASession api s1 w) else (res, ps, s1, w)) = (res, ps', s', w')"
    and s: "s = 0 \<or> s \<in> ss w"
  shows "ss w' - {s'} = ss w - {s} \<and> (s' = 0 \<or> s' \<in> ss w') \<and> (s' \<in> ss w - {s} \<longrightarrow> s' = 0) \<and>
      (res \<noteq> TEE_SUCCESS \<longrightarrow> s' = 0)"
proof -
  have null: "\<And>x. 0 \<notin> ss x" using no_null_session [OF l] .
  have opened: "if r = TEE_SUCCESS then s1 \<noteq> 0 \<and> s1 \<in> ss w1 \<and> ss w1 - {s1} = ss w - {s} else s1 = 0 \<and> ss w1 = ss w - {s}"
  proof (cases "s = 0")
    case True
    then obtain orig ps2 where "TEE_OpenTASession api u 0 0 zero_params w = (r, s1, orig, ps2, w1)"
      using o by (auto split: prod.splits)
    from open_session [OF l this] True null show ?thesis by (auto split: if_splits)
  next
    case False
    with o s show ?thesis by auto
  qed
  show ?thesis
  proof (cases "r = TEE_SUCCESS")
    case False
    with c opened null show ?thesis by (auto simp: close_session [OF l])
  next
    case True
    obtain r2 orig ps2 w2 where i: "TEE_InvokeTACommand api s1 0 c t ps w1 = (r2, orig, ps2, w2)"
      by (metis prod_cases4)
    from invoke_session [OF l i] have "ss w2 = ss w1" .
    with True c opened null i show ?thesis by (auto simp: close_session [OF l] split: if_splits)
  qed
qed

interpretation ta: cached_session api "cmd_invoke api types params cmd" for api types params cmd
proof
  fix ss s w res ps s' w'
  assume l: "session_laws api ss" and c: "cmd_invoke api types params cmd s w = (res, ps, s', w')" and s: "s = 0 \<or> s \<in> ss w"
  obtain r s1 w1 where o: "(if s = 0 then let (res, sess, _, _, w) = TEE_OpenTASession api TA_SDP_BASIC_UUID 0 0 zero_params w
      in (res, sess, w) else (TEE_SUCCESS, s, w)) = (r, s1, w1)"
    by (metis prod_cases3)
  from cached_call_law [OF l o _ s, of params cmd types res ps s' w'] c
  show "ss w' - {s'} = ss w - {s} \<and> (s' = 0 \<or> s' \<in> ss w') \<and> (s' \<in> ss w - {s} \<longrightarrow> s' = 0) \<and>
      (res \<noteq> TEE_SUCCESS \<longrightarrow> s' = 0)"
    unfolding cmd_invoke_def o by simp
qed

interpretation pta: cached_session api "cmd_invoke_pta api types params cmd" for api types params cmd
proof
  fix ss s w res ps s' w'
  assume l: "session_laws api ss" and c: "cmd_invoke_pta api types params cmd s w = (res, ps, s', w')" and s: "s = 0 \<or> s \<in> ss w"
  obtain r s1 w1 where o: "(if s = 0 then let (res, sess, _, _, w) = TEE_OpenTASession api PTA_INVOKE_TESTS_UUID 0 0 zero_params w
      in (res, sess, w) else (TEE_SUCCESS, s, w)) = (r, s1, w1)"
    by (metis prod_cases3)
  from cached_call_law [OF l o _ s, of params cmd types res ps s' w'] c
  show "ss w' - {s'} = ss w - {s} \<and> (s' = 0 \<or> s' \<in> ss w') \<and> (s' \<in> ss w - {s} \<longrightarrow> s' = 0) \<and>
      (res \<noteq> TEE_SUCCESS \<longrightarrow> s' = 0)"
    unfolding cmd_invoke_pta_def o by simp
qed

text \<open>The sessions a client with the sessions \<open>others\<close> sees: those, and the two that are cached.\<close>

definition sdp_inv :: "('e \<Rightarrow> size_t set) \<Rightarrow> size_t set \<Rightarrow> sdp_statics \<Rightarrow> 'e world \<Rightarrow> bool" where
  "sdp_inv ss others sv w \<longleftrightarrow> ss (env w) = others \<union> ({ta_sess sv, pta_sess sv} - {0}) \<and>
     ta_sess sv \<notin> others \<and> pta_sess sv \<notin> others \<and> (ta_sess sv = pta_sess sv \<longrightarrow> ta_sess sv = 0)"

lemma commands_keep_env:
  "cmd_inject api types params w = (res, w') \<Longrightarrow> env w' = env w"
  "cmd_transform api types params w = (res, w') \<Longrightarrow> env w' = env w"
  "cmd_dump api types params w = (res, w') \<Longrightarrow> env w' = env w"
  by (auto simp: cmd_inject_def cmd_transform_def cmd_dump_def Let_def split: if_splits)

lemma two_slots:
  "S = (others \<union> ({a} - {0})) \<union> ({s} - {0}) \<Longrightarrow> s \<notin> others \<union> ({a} - {0}) \<Longrightarrow> a \<notin> others \<Longrightarrow>
    S = others \<union> ({s, a} - {0}) \<and> s \<notin> others \<and> a \<notin> others \<and> (s = a \<longrightarrow> s = 0)"
  by auto

lemma two_slots_swap:
  "S = (others \<union> ({a} - {0})) \<union> ({s} - {0}) \<Longrightarrow> s \<notin> others \<union> ({a} - {0}) \<Longrightarrow> a \<notin> others \<Longrightarrow>
    S = others \<union> ({a, s} - {0}) \<and> a \<notin> others \<and> s \<notin> others \<and> (a = s \<longrightarrow> a = 0)"
  by auto

lemma in_ta_sess_inv:
  assumes l: "session_laws api (\<lambda>w. ss (env w))"
    and i: "sdp_inv ss others sv w"
    and c: "in_ta_sess (cmd_invoke api types params cmd) sv w = (res, ps, sv', w')"
  shows "sdp_inv ss others sv' w'"
proof -
  obtain s' where f: "cmd_invoke api types params cmd (ta_sess sv) w = (res, ps, s', w')" and sv': "sv' = sv\<lparr>ta_sess := s'\<rparr>"
    using c by (auto simp: in_ta_sess_def split: prod.splits)
  let ?o = "others \<union> ({pta_sess sv} - {0})"
  have "ss (env w) = ?o \<union> ({ta_sess sv} - {0})" "ta_sess sv \<notin> ?o"
    using i by (auto simp: sdp_inv_def)
  from ta.holds_own [OF l f this] have a: "ss (env w') = ?o \<union> ({s'} - {0})" "s' \<notin> ?o" by blast+
  have "pta_sess sv \<notin> others" using i by (simp add: sdp_inv_def)
  from two_slots [OF a this] show ?thesis by (simp add: sdp_inv_def sv')
qed

lemma in_pta_sess_inv:
  assumes l: "session_laws api (\<lambda>w. ss (env w))"
    and i: "sdp_inv ss others sv w"
    and c: "in_pta_sess (cmd_invoke_pta api types params cmd) sv w = (res, ps, sv', w')"
  shows "sdp_inv ss others sv' w'"
proof -
  obtain s' where f: "cmd_invoke_pta api types params cmd (pta_sess sv) w = (res, ps, s', w')" and sv': "sv' = sv\<lparr>pta_sess := s'\<rparr>"
    using c by (auto simp: in_pta_sess_def split: prod.splits)
  let ?o = "others \<union> ({ta_sess sv} - {0})"
  have "ss (env w) = ?o \<union> ({pta_sess sv} - {0})" "pta_sess sv \<notin> ?o"
    using i unfolding sdp_inv_def by (blast, metis Diff_iff Un_iff singletonD singletonI)
  from pta.holds_own [OF l f this] have a: "ss (env w') = ?o \<union> ({s'} - {0})" "s' \<notin> ?o" by blast+
  have "ta_sess sv \<notin> others" using i by (simp add: sdp_inv_def)
  from two_slots_swap [OF a this] show ?thesis by (simp add: sdp_inv_def sv')
qed

lemma sdp_invoke_inv:
  assumes l: "session_laws api (\<lambda>w. ss (env w))"
    and i: "sdp_inv ss others sv w" and c: "sdp_invoke api cmd types params sv w = (res, ps, sv', w')"
  shows "sdp_inv ss others sv' w'"
proof -
  define ok where "ok = (\<lambda>(res :: TEE_Result, ps :: tee_params, sv', w'). sdp_inv ss others sv' w')"
  have if_ok: "ok x \<Longrightarrow> ok y \<Longrightarrow> ok (if b then x else y)" for x y b by simp
  have mem_ok: "ok (let (res, w2) = r in (res, params, sv, w2))" if "\<And>res w2. r = (res, w2) \<Longrightarrow> env w2 = env w" for r
    using i that by (auto simp: ok_def sdp_inv_def split: prod.splits)
  have ta_ok: "ok (in_ta_sess (cmd_invoke api types params k) sv w)" for k
    using in_ta_sess_inv [OF l i] by (auto simp: ok_def)
  have pta_ok: "ok (in_pta_sess (cmd_invoke_pta api types params k) sv w)" for k
    using in_pta_sess_inv [OF l i] by (auto simp: ok_def)
  have "ok (sdp_invoke api cmd types params sv w)"
    unfolding sdp_invoke_def
    by (intro if_ok mem_ok ta_ok pta_ok; (erule commands_keep_env | simp add: ok_def i))
  with c show ?thesis by (simp add: ok_def)
qed

fun sdp_run :: "('e world, 'z) sdp_api_scheme \<Rightarrow> sdp_call list \<Rightarrow> sdp_statics \<Rightarrow> 'e world \<Rightarrow> sdp_statics \<times> 'e world" where
  "sdp_run api [] sv w = (sv, w)"
| "sdp_run api ((cmd, types, params) # cs) sv w =
     (let (_, _, sv, w) = sdp_invoke api cmd types params sv w in sdp_run api cs sv w)"

lemma sdp_run_inv:
  assumes "session_laws api (\<lambda>w. ss (env w))"
  shows "sdp_inv ss others sv w \<Longrightarrow> sdp_run api cs sv w = (sv', w') \<Longrightarrow> sdp_inv ss others sv' w'"
proof (induction cs arbitrary: sv w)
  case Nil
  then show ?case by simp
next
  case (Cons c cs)
  obtain cmd types params where c: "c = (cmd, types, params)" by (metis prod_cases3)
  obtain res ps sv1 w1 where i: "sdp_invoke api cmd types params sv w = (res, ps, sv1, w1)" by (metis prod_cases4)
  from Cons.prems(2) have "sdp_run api cs sv1 w1 = (sv', w')" by (simp add: c i)
  with Cons.IH sdp_invoke_inv [OF assms Cons.prems(1) i] show ?case by blast
qed

text \<open>
  After any sequence of commands, successful or not, the TA holds exactly the sessions its two
  static variables name, beside those that were open before; the two are never the same session.
\<close>

theorem sdp_sessions:
  assumes "session_laws api (\<lambda>w. ss (env w))" "sdp_run api cs sdp_statics_init w = (sv, w')"
  shows "ss (env w') - ss (env w) = {ta_sess sv, pta_sess sv} - {0} \<and> ss (env w) \<subseteq> ss (env w') \<and>
    (ta_sess sv = pta_sess sv \<longrightarrow> ta_sess sv = 0)"
proof -
  have "0 \<notin> ss (env w)" using no_null_session [OF assms(1)] .
  then have "sdp_inv ss (ss (env w)) sdp_statics_init w" by (simp add: sdp_inv_def sdp_statics_init_def)
  from sdp_run_inv [OF assms(1) this assms(2)] show ?thesis by (auto simp: sdp_inv_def)
qed

section \<open>Concrete runs\<close>

text \<open>
  A machine whose memory from \<open>0x1000\<close> to \<open>0x1FFF\<close> is secure, with the list of open sessions as its
  environment.
\<close>

definition secure_page :: "size_t \<Rightarrow> bool" where
  "secure_page a \<longleftrightarrow> 0x1000 \<le> a \<and> a < 0x2000"

definition sdp_example :: "nat list world sdp_api" where
  "sdp_example = \<lparr>
     TEE_OpenTASession = \<lambda>u t pt ps w.
       (case TEE_OpenTASession list_client u t pt ps (env w) of (res, s, orig, ps, e) \<Rightarrow> (res, s, orig, ps, w\<lparr>env := e\<rparr>)),
     TEE_InvokeTACommand = \<lambda>s t c pt ps w.
       (case TEE_InvokeTACommand list_client s t c pt ps (env w) of (res, orig, ps, e) \<Rightarrow> (res, orig, ps, w\<lparr>env := e\<rparr>)),
     TEE_CloseTASession = \<lambda>s w. w\<lparr>env := TEE_CloseTASession list_client s (env w)\<rparr>,
     TEE_CheckMemoryAccessRights = \<lambda>flags p n.
       if flags AND TEE_MEMORY_ACCESS_SECURE \<noteq> 0 \<and> \<not> (0x1000 \<le> p \<and> p < 0x2000 \<and> unat n \<le> unat (0x2000 - p)) \<or>
          flags AND TEE_MEMORY_ACCESS_NONSECURE \<noteq> 0 \<and> \<not> (p < 0x1000 \<and> unat n \<le> unat (0x1000 - p))
       then TEE_ERROR_ACCESS_DENIED else TEE_SUCCESS,
     TEE_CacheFlush = \<lambda>p n. TEE_SUCCESS, CFG_CACHE_API = True\<rparr>"

lemma in_range:
  assumes "in_buf p n a" "p < e" "n \<le> unat (e - p)"
  shows "p \<le> a \<and> a < e"
proof -
  have "unat (e - p) = unat e - unat p" using assms(2) by (simp add: unat_sub less_imp_le)
  moreover have "unat (a - p) < unat e - unat p" using assms calculation by (simp add: in_buf_def)
  moreover have "unat a = (unat p + unat (a - p)) mod 2 ^ 64"
    using unat_word_ariths(1) [of p "a - p"] by simp
  moreover have "unat e < 2 ^ 64" using unsigned_less [of e, where ?'a = nat] by simp
  moreover have "unat p < unat e" using assms(2) by (simp add: word_less_nat_alt)
  ultimately show ?thesis by (simp add: word_le_nat_alt word_less_nat_alt)
qed

lemma sdp_example_access: "access_laws sdp_example secure_page"
proof -
  have "secure_page a" if "in_buf p (unat n) a" "0x1000 \<le> p" "p < 0x2000" "unat n \<le> unat (0x2000 - p)" for p a :: size_t and n :: uint32
    using in_range [OF that(1,3,4)] that(2) by (auto simp: secure_page_def)
  moreover have "\<not> secure_page a" if "in_buf p (unat n) a" "p < 0x1000" "unat n \<le> unat (0x1000 - p)" for p a :: size_t and n :: uint32
    using in_range [OF that(1,2,3)] by (simp add: secure_page_def not_le)
  ultimately show ?thesis
    by (auto simp: access_laws_def sdp_example_def TEE_ERROR_ACCESS_DENIED_def TEE_SUCCESS_def split: if_splits)
qed

lemma sdp_example_sessions: "session_laws sdp_example (\<lambda>w. (\<lambda>m. of_nat ` set m - {0}) (env w))"
proof -
  define ss where "ss = (\<lambda>m. of_nat ` set m - {0} :: size_t set)"
  have l: "session_laws list_client ss" using list_client_laws by (simp add: ss_def)
  have "session_laws sdp_example (\<lambda>w. ss (env w))"
    unfolding session_laws_def sdp_example_def
    using no_null_session [OF l]
    by (auto simp: close_session [OF l] split: prod.split_asm dest!: open_session [OF l] invoke_session [OF l] split: if_split_asm)
  then show ?thesis by (simp add: ss_def)
qed

definition inject_example :: tee_params where
  "inject_example = zero_params\<lparr>p0 := sdp_memref 0x100 8, p1 := sdp_memref 0x1100 8\<rparr>"

definition low_sevens :: "size_t \<Rightarrow> u8" where
  "low_sevens a = (if a < 0x1000 then 7 else 0)"

lemma sdp_isolation_witness:
  "\<exists>w'. sdp_invoke sdp_example TA_SDP_BASIC_CMD_INJECT (TEE_PARAM_TYPES PT_MEMREF_INPUT PT_MEMREF_OUTPUT PT_NONE PT_NONE)
      inject_example sdp_statics_init \<lparr>mem = low_sevens, env = []\<rparr> = (TEE_SUCCESS, inject_example, sdp_statics_init, w') \<and>
    mem w' 0x1101 = 7 \<and> secure_page 0x1101"
proof -
  let ?w = "\<lparr>mem = low_sevens, env = []\<rparr> :: nat list world"
  let ?w' = "\<lparr>mem = TEE_MemMove 0x1100 0x100 8 low_sevens, env = []\<rparr> :: nat list world"
  have r: "sdp_invoke sdp_example TA_SDP_BASIC_CMD_INJECT (TEE_PARAM_TYPES PT_MEMREF_INPUT PT_MEMREF_OUTPUT PT_NONE PT_NONE)
      inject_example sdp_statics_init ?w = (TEE_SUCCESS, inject_example, sdp_statics_init, ?w')"
    by (simp add: sdp_invoke_def cmd_inject_def inject_example_def sdp_example_def check_param_def flush_param_def
        Let_def access_defs TEE_SUCCESS_def)
  have b: "mem ?w' 0x1101 = 7" by (simp add: TEE_MemMove_def in_buf_def low_sevens_def)
  then have "mem ?w' 0x1101 \<noteq> mem ?w 0x1101" by (simp add: low_sevens_def)
  from sdp_isolation [OF sdp_example_access r _ this] b r show ?thesis by (auto simp: sdp_cmd_defs)
qed

lemma sdp_data_path_witness:
  "\<exists>w'. foldM (sdp_do sdp_example) ([sdp_copy_call TA_SDP_BASIC_CMD_INJECT 0x101 2 0x1100 2] @
      replicate 3 (sdp_transform_call 0x1100 2) @ [sdp_copy_call TA_SDP_BASIC_CMD_DUMP 0x1100 2 0x200 2])
      \<lparr>mem = ucast, env = []\<rparr> = Some w' \<and> bytes_at (mem w') 0x200 2 = [255, 254]"
proof -
  have "granted sdp_example False 0x101 2" "granted sdp_example True 0x1100 2" "granted sdp_example False 0x200 2"
    by (simp_all add: granted_def sdp_example_def)
  from sdp_data_path [OF this, of 3 "\<lparr>mem = ucast, env = []\<rparr>"]
  have "\<exists>w'. foldM (sdp_do sdp_example) ([sdp_copy_call TA_SDP_BASIC_CMD_INJECT 0x101 2 0x1100 2] @
      replicate 3 (sdp_transform_call 0x1100 2) @ [sdp_copy_call TA_SDP_BASIC_CMD_DUMP 0x1100 2 0x200 2])
      \<lparr>mem = ucast, env = []\<rparr> = Some w' \<and>
    bytes_at (mem w') 0x200 (unat (2 :: uint32)) = map (\<lambda>b. if even (3 :: nat) then b else - b) (bytes_at ucast 0x101 (unat (2 :: uint32)))"
    by simp
  moreover have "map (\<lambda>b. if even (3 :: nat) then b else - b) (bytes_at ucast 0x101 (unat (2 :: uint32))) = [255, 254]"
    by (simp add: bytes_at_def upt_rec)
  ultimately show ?thesis by simp
qed

definition session_calls :: "sdp_call list" where
  "session_calls = [(TA_SDP_BASIC_CMD_INVOKE_INJECT, 0, zero_params), (TA_SDP_BASIC_CMD_PTA_DUMP, 0, zero_params),
     (TA_SDP_BASIC_CMD_INVOKE_DUMP, 0, zero_params)]"

lemma sdp_sessions_witness:
  "\<exists>w'. sdp_run sdp_example session_calls sdp_statics_init \<lparr>mem = ucast, env = []\<rparr> = (\<lparr>ta_sess = 1, pta_sess = 2\<rparr>, w') \<and>
    of_nat ` set (env w') - {0} = {1 :: size_t, 2}"
proof -
  have r: "sdp_run sdp_example session_calls sdp_statics_init \<lparr>mem = ucast, env = []\<rparr> =
      (\<lparr>ta_sess = 1, pta_sess = 2\<rparr>, \<lparr>mem = ucast, env = [2, 1]\<rparr>)"
    by (simp add: session_calls_def sdp_statics_init_def sdp_invoke_def sdp_cmd_defs in_ta_sess_def in_pta_sess_def
        cmd_invoke_def cmd_invoke_pta_def sdp_example_def list_client_def fresh_session_def TEE_SUCCESS_def)
  from sdp_sessions [OF sdp_example_sessions r] r show ?thesis by auto
qed

end
