(* ===== verification/Perf_Tas.thy ===== *)
theory Perf_Tas
  imports Ta_Env
begin

text \<open>
  Model of \<open>src/ta/aes_perf\<close> and \<open>src/ta/sha_perf\<close>: the TAs behind the speed tests.  They pass
  addresses inside the client's buffers to the cryptographic API, which is a record of functions on
  a state of an arbitrary type.  Each session runs in an instance of its own, with its own statics.
\<close>

definition TA_AES_PERF_CMD_PREPARE_KEY :: uint32 where "TA_AES_PERF_CMD_PREPARE_KEY = 0"
definition TA_AES_PERF_CMD_PROCESS :: uint32 where "TA_AES_PERF_CMD_PROCESS = 1"
definition TA_AES_PERF_CMD_PROCESS_SDP :: uint32 where "TA_AES_PERF_CMD_PROCESS_SDP = 2"

definition TA_AES_ECB :: uint32 where "TA_AES_ECB = 0"
definition TA_AES_CBC :: uint32 where "TA_AES_CBC = 1"
definition TA_AES_CTR :: uint32 where "TA_AES_CTR = 2"
definition TA_AES_XTS :: uint32 where "TA_AES_XTS = 3"
definition TA_AES_GCM :: uint32 where "TA_AES_GCM = 4"

definition TA_SHA_PERF_CMD_PREPARE_OP :: uint32 where "TA_SHA_PERF_CMD_PREPARE_OP = 0"
definition TA_SHA_PERF_CMD_PROCESS :: uint32 where "TA_SHA_PERF_CMD_PROCESS = 1"

definition TA_SHA_SHA1 :: uint32 where "TA_SHA_SHA1 = 0"
definition TA_SHA_SHA224 :: uint32 where "TA_SHA_SHA224 = 1"
definition TA_SHA_SHA256 :: uint32 where "TA_SHA_SHA256 = 2"
definition TA_SHA_SHA384 :: uint32 where "TA_SHA_SHA384 = 3"
definition TA_SHA_SHA512 :: uint32 where "TA_SHA_SHA512 = 4"

definition TAG_LEN :: uint32 where "TAG_LEN = 128"

text \<open>An update takes the operation, the input's address and length, the output's address and room.\<close>

type_synonym 'm update = "size_t \<Rightarrow> size_t \<Rightarrow> uint32 \<Rightarrow> size_t \<Rightarrow> uint32 \<Rightarrow> 'm \<Rightarrow> TEE_Result \<times> uint32 \<times> 'm"

record 'm perf_api =
  TEE_CheckMemoryAccessRights :: "uint32 \<Rightarrow> size_t \<Rightarrow> uint32 \<Rightarrow> TEE_Result"
  TEE_CacheFlush :: "size_t \<Rightarrow> uint32 \<Rightarrow> TEE_Result"
  CFG_CACHE_API :: bool
  CFG_SECURE_DATA_PATH :: bool
  TEE_AllocateOperation :: "uint32 \<Rightarrow> uint32 \<Rightarrow> uint32 \<Rightarrow> 'm \<Rightarrow> TEE_Result \<times> size_t \<times> 'm"
  TEE_FreeOperation :: "size_t \<Rightarrow> 'm \<Rightarrow> 'm"
  TEE_AllocateTransientObject :: "uint32 \<Rightarrow> uint32 \<Rightarrow> 'm \<Rightarrow> TEE_Result \<times> size_t \<times> 'm"
  TEE_FreeTransientObject :: "size_t \<Rightarrow> 'm \<Rightarrow> 'm"
  TEE_PopulateTransientObject :: "size_t \<Rightarrow> uint32 \<Rightarrow> u8 list \<Rightarrow> uint32 \<Rightarrow> 'm \<Rightarrow> TEE_Result \<times> 'm"
  TEE_SetOperationKey :: "size_t \<Rightarrow> size_t \<Rightarrow> 'm \<Rightarrow> TEE_Result \<times> 'm"
  TEE_SetOperationKey2 :: "size_t \<Rightarrow> size_t \<Rightarrow> size_t \<Rightarrow> 'm \<Rightarrow> TEE_Result \<times> 'm"
  TEE_AEInit :: "size_t \<Rightarrow> u8 list option \<Rightarrow> nat \<Rightarrow> uint32 \<Rightarrow> uint32 \<Rightarrow> uint32 \<Rightarrow> 'm \<Rightarrow> TEE_Result \<times> 'm"
  TEE_CipherInit :: "size_t \<Rightarrow> u8 list option \<Rightarrow> nat \<Rightarrow> 'm \<Rightarrow> 'm"
  TEE_AEUpdate :: "'m update"
  TEE_CipherUpdate :: "'m update"
  TEE_DigestDoFinal :: "'m update"

text \<open>
  \<open>while (n--)\<close> with an \<open>int n\<close>: the number of passes, and whether the loop then decrements \<open>INT_MIN\<close>,
  which is undefined, instead of ending.
\<close>

definition while_count :: "uint32 \<Rightarrow> nat \<times> bool" where
  "while_count n = (if 0 \<le> sint n then (nat (sint n), False) else (nat (sint n + 2 ^ 31), True))"

section \<open>The AES TA\<close>

record aes_perf_st =
  crypto_op :: size_t
  algo :: uint32
  use_iv :: bool

definition aes_perf_init :: aes_perf_st where
  "aes_perf_init = \<lparr>crypto_op = 0, algo = 0, use_iv = False\<rparr>"

definition iv :: "u8 list" where
  "iv = [0xA0, 0xA1, 0xA2, 0xA3, 0xA4, 0xA5, 0xA6, 0xA7, 0xA8, 0xA9, 0xAA, 0xAB, 0xAC, 0xAD, 0xAE, 0xAF]"

definition perf_key :: "u8 list" where
  "perf_key = map of_nat [0..<32]"

definition perf_key2 :: "u8 list" where
  "perf_key2 = map of_nat [32..<64]"

definition is_inbuf_a_secure_memref :: "('m, 'z) perf_api_scheme \<Rightarrow> tee_param \<Rightarrow> bool" where
  "is_inbuf_a_secure_memref api param \<longleftrightarrow> TEE_CheckMemoryAccessRights api
     (TEE_MEMORY_ACCESS_ANY_OWNER OR TEE_MEMORY_ACCESS_READ OR TEE_MEMORY_ACCESS_SECURE) (maddr param) 1 = TEE_SUCCESS"

definition is_outbuf_a_secure_memref :: "('m, 'z) perf_api_scheme \<Rightarrow> tee_param \<Rightarrow> bool" where
  "is_outbuf_a_secure_memref api param \<longleftrightarrow> TEE_CheckMemoryAccessRights api
     (TEE_MEMORY_ACCESS_ANY_OWNER OR TEE_MEMORY_ACCESS_WRITE OR TEE_MEMORY_ACCESS_SECURE) (maddr param) 1 = TEE_SUCCESS"

definition flush_memref_buffer :: "('m, 'z) perf_api_scheme \<Rightarrow> tee_param \<Rightarrow> TEE_Result" where
  "flush_memref_buffer api param =
     (if CFG_CACHE_API api then TEE_CacheFlush api (maddr param) (msize param) else TEE_SUCCESS)"

text \<open>The loop over the whole units of a pass, and a pass; \<open>unit\<close> is an \<open>int\<close>, so its sign extends.\<close>

fun update_units ::
  "'m update \<Rightarrow> size_t \<Rightarrow> uint32 \<Rightarrow> nat \<Rightarrow> size_t \<Rightarrow> size_t \<Rightarrow> uint32 \<Rightarrow> 'm \<Rightarrow>
     TEE_Result \<times> size_t \<times> size_t \<times> uint32 \<times> 'm" where
  "update_units upd op unit 0 inp out outsz m = (TEE_SUCCESS, inp, out, outsz, m)"
| "update_units upd op unit (Suc i) inp out outsz m =
     (let (res, outsz, m) = upd op inp unit out outsz m
      in if res \<noteq> TEE_SUCCESS then (res, inp, out, outsz, m)
      else update_units upd op unit i (inp + scast unit) (out + scast unit) outsz m)"

definition aes_pass ::
  "'m update \<Rightarrow> size_t \<Rightarrow> uint32 \<Rightarrow> uint32 \<Rightarrow> size_t \<Rightarrow> size_t \<Rightarrow> uint32 \<Rightarrow> 'm \<Rightarrow>
     (TEE_Result \<times> size_t \<times> size_t \<times> uint32 \<times> 'm) option" where
  "aes_pass upd op insz unit inp out outsz m =
     (if unit = 0 then None
      else
        let (res, inp, out, outsz, m) = update_units upd op unit (unat (insz div unit)) inp out outsz m
        in if res \<noteq> TEE_SUCCESS then Some (res, inp, out, outsz, m)
        else if insz mod unit \<noteq> 0 then
          let (res, outsz, m) = upd op inp (insz mod unit) out outsz m
          in Some (res, inp, out, outsz, m)
        else Some (TEE_SUCCESS, inp, out, outsz, m))"

fun aes_passes ::
  "'m update \<Rightarrow> size_t \<Rightarrow> uint32 \<Rightarrow> uint32 \<Rightarrow> bool \<Rightarrow> nat \<Rightarrow> size_t \<Rightarrow> size_t \<Rightarrow> uint32 \<Rightarrow> 'm \<Rightarrow> (TEE_Result \<times> 'm) option" where
  "aes_passes upd op insz unit wraps 0 inp out outsz m = (if wraps then None else Some (TEE_SUCCESS, m))"
| "aes_passes upd op insz unit wraps (Suc n) inp out outsz m =
     (case aes_pass upd op insz unit inp out outsz m of
        None \<Rightarrow> None
      | Some (res, inp, out, outsz, m) \<Rightarrow>
        if res \<noteq> TEE_SUCCESS then Some (res, m) else aes_passes upd op insz unit wraps n inp out outsz m)"

definition aes_process_types :: uint32 where
  "aes_process_types = TEE_PARAM_TYPES PT_MEMREF_INOUT PT_MEMREF_INOUT PT_VALUE_INPUT PT_NONE"

definition aes_cmd_process ::
  "('m, 'z) perf_api_scheme \<Rightarrow> aes_perf_st \<Rightarrow> uint32 \<Rightarrow> tee_params \<Rightarrow> bool \<Rightarrow> 'm \<Rightarrow> (TEE_Result \<times> 'm) option" where
  "aes_cmd_process api sv param_types params use_sdp m =
     (if param_types \<noteq> aes_process_types then Some (TEE_ERROR_BAD_PARAMETERS, m)
      else
        let secure_in = (use_sdp \<and> is_inbuf_a_secure_memref api (p0 params));
            secure_out = (use_sdp \<and> is_outbuf_a_secure_memref api (p1 params));
            res = (if secure_in then flush_memref_buffer api (p0 params) else TEE_SUCCESS)
        in if res \<noteq> TEE_SUCCESS then Some (res, m)
      else
        let res = (if secure_out then flush_memref_buffer api (p1 params) else TEE_SUCCESS)
        in if res \<noteq> TEE_SUCCESS then Some (res, m)
      else
        let insz = msize (p0 params);
            (n, wraps) = while_count (val_a (p2 params));
            unit = (if val_b (p2 params) = 0 then insz else val_b (p2 params));
            do_update = (if algo sv = TEE_ALG_AES_GCM then TEE_AEUpdate api else TEE_CipherUpdate api)
        in case aes_passes do_update (crypto_op sv) insz unit wraps n (maddr (p0 params)) (maddr (p1 params)) (msize (p1 params)) m of
            None \<Rightarrow> None
          | Some (res, m) \<Rightarrow>
            if res \<noteq> TEE_SUCCESS then Some (res, m)
            else if secure_out then Some (flush_memref_buffer api (p1 params), m)
            else Some (TEE_SUCCESS, m))"

definition aes_cmd_clean_res :: "('m, 'z) perf_api_scheme \<Rightarrow> aes_perf_st \<Rightarrow> 'm \<Rightarrow> 'm" where
  "aes_cmd_clean_res api sv m = (if crypto_op sv \<noteq> 0 then TEE_FreeOperation api (crypto_op sv) m else m)"

text \<open>The mode of the cipher a command names: the algorithm, whether it has an IV, and the factor of the key size.\<close>

definition aes_mode :: "uint32 \<Rightarrow> (uint32 \<times> bool \<times> uint32) option" where
  "aes_mode m =
     (if m = TA_AES_ECB then Some (TEE_ALG_AES_ECB_NOPAD, False, 1)
      else if m = TA_AES_CBC then Some (TEE_ALG_AES_CBC_NOPAD, True, 1)
      else if m = TA_AES_CTR then Some (TEE_ALG_AES_CTR, True, 1)
      else if m = TA_AES_XTS then Some (TEE_ALG_AES_XTS, True, 2)
      else if m = TA_AES_GCM then Some (TEE_ALG_AES_GCM, True, 1)
      else None)"

text \<open>Giving the operation its key, with a second one for XTS, and starting it\<close>

definition aes_set_key ::
  "('m, 'z) perf_api_scheme \<Rightarrow> aes_perf_st \<Rightarrow> uint32 \<Rightarrow> size_t \<Rightarrow> 'm \<Rightarrow> TEE_Result \<times> 'm" where
  "aes_set_key api sv keysize hkey m =
     (if algo sv = TEE_ALG_AES_XTS then
        let (res, hkey2, m) = TEE_AllocateTransientObject api TEE_TYPE_AES keysize m
        in if res \<noteq> TEE_SUCCESS then (res, m)
        else
          let (res, m) = TEE_PopulateTransientObject api hkey2 TEE_ATTR_SECRET_VALUE perf_key2 (keysize div 8) m
          in if res \<noteq> TEE_SUCCESS then (res, m)
          else
            let (res, m) = TEE_SetOperationKey2 api (crypto_op sv) hkey hkey2 m
            in if res \<noteq> TEE_SUCCESS then (res, m)
            else (TEE_SUCCESS, TEE_FreeTransientObject api hkey2 m)
      else TEE_SetOperationKey api (crypto_op sv) hkey m)"

definition aes_start :: "('m, 'z) perf_api_scheme \<Rightarrow> aes_perf_st \<Rightarrow> 'm \<Rightarrow> TEE_Result \<times> 'm" where
  "aes_start api sv m =
     (let (ivp, ivlen) = (if use_iv sv then (Some iv, length iv) else (None, 0))
      in if algo sv = TEE_ALG_AES_GCM then TEE_AEInit api (crypto_op sv) ivp ivlen TAG_LEN 0 0 m
      else (TEE_SUCCESS, TEE_CipherInit api (crypto_op sv) ivp ivlen m))"

definition aes_cmd_prepare_key ::
  "('m, 'z) perf_api_scheme \<Rightarrow> aes_perf_st \<Rightarrow> uint32 \<Rightarrow> tee_params \<Rightarrow> 'm \<Rightarrow> TEE_Result \<times> aes_perf_st \<times> 'm" where
  "aes_cmd_prepare_key api sv param_types params m =
     (if param_types \<noteq> TEE_PARAM_TYPES PT_VALUE_INPUT PT_VALUE_INPUT PT_NONE PT_NONE
        then (TEE_ERROR_BAD_PARAMETERS, sv, m)
      else
        let mode = (if val_a (p0 params) \<noteq> 0 then TEE_MODE_DECRYPT else TEE_MODE_ENCRYPT);
            keysize = val_b (p0 params)
        in case aes_mode (val_a (p1 params)) of
            None \<Rightarrow> (TEE_ERROR_BAD_PARAMETERS, sv, m)
          | Some (alg, with_iv, factor) \<Rightarrow>
            let sv = sv\<lparr>algo := alg, use_iv := with_iv\<rparr>;
                m = aes_cmd_clean_res api sv m;
                (res, op, m) = TEE_AllocateOperation api alg mode (keysize * factor) m;
                sv = sv\<lparr>crypto_op := op\<rparr>
            in if res \<noteq> TEE_SUCCESS then (res, sv, m)
            else
              let (res, hkey, m) = TEE_AllocateTransientObject api TEE_TYPE_AES keysize m
              in if res \<noteq> TEE_SUCCESS then (res, sv, m)
              else
                let (res, m) = TEE_PopulateTransientObject api hkey TEE_ATTR_SECRET_VALUE perf_key (keysize div 8) m
                in if res \<noteq> TEE_SUCCESS then (res, sv, m)
                else
                  let (res, m) = aes_set_key api sv keysize hkey m
                  in if res \<noteq> TEE_SUCCESS then (res, sv, m)
                  else
                    let (res, m) = aes_start api sv (TEE_FreeTransientObject api hkey m)
                    in (res, sv, m))"

definition aes_perf_invoke ::
  "('m, 'z) perf_api_scheme \<Rightarrow> uint32 \<Rightarrow> uint32 \<Rightarrow> tee_params \<Rightarrow> aes_perf_st \<Rightarrow> 'm \<Rightarrow>
     (TEE_Result \<times> aes_perf_st \<times> 'm) option" where
  "aes_perf_invoke api nCommandID types params sv m =
     (if nCommandID = TA_AES_PERF_CMD_PREPARE_KEY then Some (aes_cmd_prepare_key api sv types params m)
      else if nCommandID = TA_AES_PERF_CMD_PROCESS then map_option (\<lambda>(res, m). (res, sv, m)) (aes_cmd_process api sv types params False m)
      else if nCommandID = TA_AES_PERF_CMD_PROCESS_SDP then
        if CFG_SECURE_DATA_PATH api then map_option (\<lambda>(res, m). (res, sv, m)) (aes_cmd_process api sv types params True m)
        else Some (TEE_ERROR_NOT_SUPPORTED, sv, m)
      else Some (TEE_ERROR_BAD_PARAMETERS, sv, m))"

section \<open>The SHA TA\<close>

fun sha_passes ::
  "'m update \<Rightarrow> size_t \<Rightarrow> bool \<Rightarrow> nat \<Rightarrow> size_t \<Rightarrow> uint32 \<Rightarrow> size_t \<Rightarrow> uint32 \<Rightarrow> 'm \<Rightarrow> (TEE_Result \<times> 'm) option" where
  "sha_passes upd op wraps 0 inp insz out outsz m = (if wraps then None else Some (TEE_SUCCESS, m))"
| "sha_passes upd op wraps (Suc n) inp insz out outsz m =
     (let (res, outsz, m) = upd op inp insz out outsz m
      in if res \<noteq> TEE_SUCCESS then Some (res, m) else sha_passes upd op wraps n inp insz out outsz m)"

definition sha_process_types :: uint32 where
  "sha_process_types = TEE_PARAM_TYPES PT_MEMREF_INPUT PT_MEMREF_OUTPUT PT_VALUE_INPUT PT_NONE"

definition sha_cmd_process ::
  "('m, 'z) perf_api_scheme \<Rightarrow> size_t \<Rightarrow> uint32 \<Rightarrow> tee_params \<Rightarrow> 'm \<Rightarrow> (TEE_Result \<times> 'm) option" where
  "sha_cmd_process api digest_op param_types params m =
     (if param_types \<noteq> sha_process_types then Some (TEE_ERROR_BAD_PARAMETERS, m)
      else
        let offset = val_b (p2 params); (n, wraps) = while_count (val_a (p2 params))
        in sha_passes (TEE_DigestDoFinal api) digest_op wraps n (maddr (p0 params) + ucast offset)
             (msize (p0 params) - offset) (maddr (p1 params)) (msize (p1 params)) m)"

definition sha_alg :: "uint32 \<Rightarrow> uint32 option" where
  "sha_alg a =
     (if a = TA_SHA_SHA1 then Some TEE_ALG_SHA1
      else if a = TA_SHA_SHA224 then Some TEE_ALG_SHA224
      else if a = TA_SHA_SHA256 then Some TEE_ALG_SHA256
      else if a = TA_SHA_SHA384 then Some TEE_ALG_SHA384
      else if a = TA_SHA_SHA512 then Some TEE_ALG_SHA512
      else None)"

definition sha_cmd_prepare_op ::
  "('m, 'z) perf_api_scheme \<Rightarrow> size_t \<Rightarrow> uint32 \<Rightarrow> tee_params \<Rightarrow> 'm \<Rightarrow> TEE_Result \<times> size_t \<times> 'm" where
  "sha_cmd_prepare_op api digest_op param_types params m =
     (if param_types \<noteq> TEE_PARAM_TYPES PT_VALUE_INPUT PT_NONE PT_NONE PT_NONE
        then (TEE_ERROR_BAD_PARAMETERS, digest_op, m)
      else case sha_alg (val_a (p0 params)) of
          None \<Rightarrow> (TEE_ERROR_BAD_PARAMETERS, digest_op, m)
        | Some alg \<Rightarrow>
          let m = (if digest_op \<noteq> 0 then TEE_FreeOperation api digest_op m else m)
          in TEE_AllocateOperation api alg TEE_MODE_DIGEST 0 m)"

definition sha_cmd_clean_res :: "('m, 'z) perf_api_scheme \<Rightarrow> size_t \<Rightarrow> 'm \<Rightarrow> 'm" where
  "sha_cmd_clean_res api digest_op m = (if digest_op \<noteq> 0 then TEE_FreeOperation api digest_op m else m)"

definition sha_perf_invoke ::
  "('m, 'z) perf_api_scheme \<Rightarrow> uint32 \<Rightarrow> uint32 \<Rightarrow> tee_params \<Rightarrow> size_t \<Rightarrow> 'm \<Rightarrow> (TEE_Result \<times> size_t \<times> 'm) option" where
  "sha_perf_invoke api nCommandID types params digest_op m =
     (if nCommandID = TA_SHA_PERF_CMD_PREPARE_OP then Some (sha_cmd_prepare_op api digest_op types params m)
      else if nCommandID = TA_SHA_PERF_CMD_PROCESS then map_option (\<lambda>(res, m). (res, digest_op, m)) (sha_cmd_process api digest_op types params m)
      else Some (TEE_ERROR_BAD_PARAMETERS, digest_op, m))"

section \<open>Which addresses the API is given\<close>

text \<open>
  \<open>seen\<close> observes one buffer of the calls an update function has been given so far, as address and length:
  \<open>sel\<close> picks the input or the output address.
\<close>

definition sees :: "(size_t \<Rightarrow> size_t \<Rightarrow> size_t) \<Rightarrow> 'm update \<Rightarrow> ('m \<Rightarrow> (size_t \<times> uint32) list) \<Rightarrow> bool" where
  "sees sel upd seen \<longleftrightarrow> (\<forall>op inp n out room m res room' m'.
     upd op inp n out room m = (res, room', m') \<longrightarrow> seen m' = seen m @ [(sel inp out, n)])"

abbreviation input_of :: "size_t \<Rightarrow> size_t \<Rightarrow> size_t" where "input_of \<equiv> (\<lambda>inp out. inp)"
abbreviation output_of :: "size_t \<Rightarrow> size_t \<Rightarrow> size_t" where "output_of \<equiv> (\<lambda>inp out. out)"

lemma seesD: "sees sel upd seen \<Longrightarrow> upd op inp n out room m = (res, room', m') \<Longrightarrow> seen m' = seen m @ [(sel inp out, n)]"
  unfolding sees_def by blast

text \<open>\<open>offered\<close> observes the outputs with the room they are said to have; a call reports no more than that.\<close>

definition offers :: "'m update \<Rightarrow> ('m \<Rightarrow> (size_t \<times> uint32) list) \<Rightarrow> bool" where
  "offers upd offered \<longleftrightarrow> (\<forall>op inp n out room m res room' m'.
     upd op inp n out room m = (res, room', m') \<longrightarrow>
       offered m' = offered m @ [(out, room)] \<and> (res = TEE_SUCCESS \<longrightarrow> room' \<le> room))"

text \<open>Addresses that move together\<close>

definition moves :: "(size_t \<Rightarrow> size_t \<Rightarrow> size_t) \<Rightarrow> bool" where
  "moves sel \<longleftrightarrow> (\<forall>inp out d. sel (inp + d) (out + d) = sel inp out + d)"

lemma input_output_move: "moves input_of" "moves output_of"
  by (simp_all add: moves_def)

definition within :: "tee_param \<Rightarrow> size_t \<times> uint32 \<Rightarrow> bool" where
  "within p c \<longleftrightarrow> unat (fst c - maddr p) + unat (snd c) \<le> unat (msize p)"

definition unit_reads :: "size_t \<Rightarrow> uint32 \<Rightarrow> nat \<Rightarrow> (size_t \<times> uint32) list" where
  "unit_reads inp unit k = map (\<lambda>j. (inp + of_nat j * scast unit, unit)) [0..<k]"

definition pass_reads :: "size_t \<Rightarrow> uint32 \<Rightarrow> uint32 \<Rightarrow> (size_t \<times> uint32) list" where
  "pass_reads inp unit insz = unit_reads inp unit (unat (insz div unit)) @
     (if insz mod unit \<noteq> 0 then [(inp + ucast (insz div unit) * scast unit, insz mod unit)] else [])"

lemma unit_reads_Suc: "unit_reads inp unit (Suc k) = (inp, unit) # unit_reads (inp + scast unit) unit k"
  unfolding unit_reads_def by (simp add: upt_conv_Cons map_Suc_upt [symmetric] comp_def algebra_simps del: upt_Suc)

lemma update_units_seen:
  assumes s: "sees sel upd seen" and v: "moves sel"
  shows "update_units upd op unit k inp out room m = (TEE_SUCCESS, inp', out', room', m') \<Longrightarrow>
    inp' = inp + of_nat k * scast unit \<and> out' = out + of_nat k * scast unit \<and> seen m' = seen m @ unit_reads (sel inp out) unit k"
proof (induction k arbitrary: inp out room m)
  case 0
  then show ?case by (simp add: unit_reads_def)
next
  case (Suc k)
  obtain res room1 m1 where u: "upd op inp unit out room m = (res, room1, m1)" by (metis prod_cases3)
  with Suc.prems have "update_units upd op unit k (inp + scast unit) (out + scast unit) room1 m1 = (TEE_SUCCESS, inp', out', room', m')"
    by (auto split: if_splits)
  from Suc.IH [OF this] seesD [OF s u] v show ?case by (simp add: unit_reads_Suc algebra_simps moves_def)
qed

lemma aes_pass_seen:
  assumes s: "sees sel upd seen" and v: "moves sel"
    and p: "aes_pass upd op insz unit inp out room m = Some (TEE_SUCCESS, inp', out', room', m')"
  shows "unit \<noteq> 0 \<and> inp' = inp + ucast (insz div unit) * scast unit \<and> out' = out + ucast (insz div unit) * scast unit \<and>
    seen m' = seen m @ pass_reads (sel inp out) unit insz"
proof -
  let ?d = "ucast (insz div unit) * scast unit"
  have u: "unit \<noteq> 0" using p by (auto simp: aes_pass_def)
  obtain res inp1 out1 room1 m1 where l:
    "update_units upd op unit (unat (insz div unit)) inp out room m = (res, inp1, out1, room1, m1)" by (metis prod_cases5)
  have ok: "res = TEE_SUCCESS" using p u l by (auto simp: aes_pass_def split: if_splits)
  have a: "inp1 = inp + ?d" "out1 = out + ?d" "seen m1 = seen m @ unit_reads (sel inp out) unit (unat (insz div unit))"
    using update_units_seen [OF s v l [unfolded ok]] by simp_all
  obtain res2 room2 m2 where t: "upd op (inp + ?d) (insz mod unit) (out + ?d) room1 m1 = (res2, room2, m2)"
    by (metis prod_cases3)
  have "sel (inp + ?d) (out + ?d) = sel inp out + ?d" using v by (simp add: moves_def)
  then show ?thesis
    using p u a seesD [OF s t] by (auto simp: aes_pass_def l ok t pass_reads_def split: if_splits)
qed

lemma aes_passes_seen:
  assumes s: "sees sel upd seen" and v: "moves sel"
  shows "aes_passes upd op insz unit wraps n inp out room m = Some (TEE_SUCCESS, m') \<Longrightarrow>
    \<not> wraps \<and> (n = 0 \<or> unit \<noteq> 0) \<and>
    seen m' = seen m @ concat (map (\<lambda>j. pass_reads (sel inp out + of_nat j * (ucast (insz div unit) * scast unit)) unit insz) [0..<n])"
proof (induction n arbitrary: inp out room m)
  case 0
  then show ?case by (simp split: if_splits)
next
  case (Suc n)
  obtain inp1 out1 room1 m1 where p: "aes_pass upd op insz unit inp out room m = Some (TEE_SUCCESS, inp1, out1, room1, m1)"
    and r: "aes_passes upd op insz unit wraps n inp1 out1 room1 m1 = Some (TEE_SUCCESS, m')"
    using Suc.prems by (auto split: option.splits if_splits)
  note a = aes_pass_seen [OF s v p] and b = Suc.IH [OF r]
  let ?d = "ucast (insz div unit) * scast unit :: size_t"
  have d: "sel inp1 out1 = sel inp out + ?d" using a v by (simp add: moves_def)
  have "map (\<lambda>j. pass_reads (sel inp out + of_nat j * ?d) unit insz) [0..<Suc n] =
      pass_reads (sel inp out) unit insz # map (\<lambda>j. pass_reads (sel inp out + ?d + of_nat j * ?d) unit insz) [0..<n]"
    by (simp add: upt_conv_Cons map_Suc_upt [symmetric] comp_def algebra_simps del: upt_Suc)
  with a b d show ?case by simp
qed

lemma sha_passes_seen:
  assumes s: "sees input_of upd seen"
  shows "sha_passes upd op wraps n inp insz out room m = Some (TEE_SUCCESS, m') \<Longrightarrow>
    \<not> wraps \<and> seen m' = seen m @ replicate n (inp, insz)"
proof (induction n arbitrary: room m)
  case 0
  then show ?case by (simp split: if_splits)
next
  case (Suc n)
  obtain res room1 m1 where u: "upd op inp insz out room m = (res, room1, m1)" by (metis prod_cases3)
  with Suc.prems have "sha_passes upd op wraps n inp insz out room1 m1 = Some (TEE_SUCCESS, m')"
    by (auto split: if_splits)
  from Suc.IH [OF this] seesD [OF s u] show ?case by simp
qed

lemma sha_passes_offer:
  assumes s: "offers upd offered"
  shows "sha_passes upd op wraps n inp insz out room m = Some (TEE_SUCCESS, m') \<Longrightarrow> c \<in> set (offered m') \<Longrightarrow>
    c \<in> set (offered m) \<or> fst c = out \<and> snd c \<le> room"
proof (induction n arbitrary: room m)
  case 0
  then show ?case by (simp split: if_splits)
next
  case (Suc n)
  obtain res room1 m1 where u: "upd op inp insz out room m = (res, room1, m1)" by (metis prod_cases3)
  with Suc.prems have r: "sha_passes upd op wraps n inp insz out room1 m1 = Some (TEE_SUCCESS, m')" "res = TEE_SUCCESS"
    by (auto split: if_splits)
  have "offered m1 = offered m @ [(out, room)]" "room1 \<le> room" using s u r(2) unfolding offers_def by blast+
  with Suc.IH [OF r(1) Suc.prems(2)] show ?case by auto
qed

section \<open>When they are inside the buffer\<close>

lemma scast_small: "unit < 2 ^ 31 \<Longrightarrow> (scast (unit :: uint32) :: size_t) = of_nat (unat unit)"
proof -
  assume "unit < 2 ^ 31"
  then have "unat unit < 2 ^ 31" by (simp add: word_less_nat_alt)
  then have "sint unit = int (unat unit)" using sint_small by simp
  then show ?thesis by (simp add: scast_eq)
qed

lemma within_offset: "x < 2 ^ 64 \<Longrightarrow> within p (maddr p + of_nat x, n) \<longleftrightarrow> x + unat n \<le> unat (msize p)"
  by (simp add: within_def unsigned_of_nat take_bit_nat_eq_self)

text \<open>
  A pass over \<open>insz\<close> bytes that starts \<open>x\<close> bytes into a buffer stays in it exactly when the last of its bytes
  does.
\<close>

lemma pass_within:
  assumes u: "unit \<noteq> 0" "unit < 2 ^ 31" and x: "x \<le> 2 ^ 63"
  shows "(\<forall>c \<in> set (pass_reads (maddr p + of_nat x) unit insz). within p c) \<longleftrightarrow> insz = 0 \<or> x + unat insz \<le> unat (msize p)"
proof -
  let ?k = "unat (insz div unit)"
  have b: "unat insz < 2 ^ 32" using unsigned_less [of insz, where ?'a = nat] by simp
  have u0: "0 < unat unit" using u(1) by (simp add: unat_gt_0)
  have k: "?k = unat insz div unat unit" by (simp add: unat_div)
  have all: "?k * unat unit + unat (insz mod unit) = unat insz" by (simp add: k unat_mod)
  have le: "j * unat unit \<le> unat insz" if "j \<le> ?k" for j
    using that unfolding k by (metis div_times_less_eq_dividend mult_le_mono1 order_trans)
  have small: "x + j * unat unit < 2 ^ 64" if "j \<le> ?k" for j
    using le [OF that] b x by simp
  have i: "maddr p + of_nat x + of_nat j * scast unit = maddr p + of_nat (x + j * unat unit)" for j
    by (simp add: scast_small [OF u(2)])
  have w: "within p (maddr p + of_nat x + of_nat j * scast unit, n) \<longleftrightarrow> x + j * unat unit + unat n \<le> unat (msize p)"
    if "j \<le> ?k" for j n
    unfolding i by (rule within_offset [OF small [OF that]])
  have reads: "set (pass_reads (maddr p + of_nat x) unit insz) =
      (\<lambda>j. (maddr p + of_nat x + of_nat j * scast unit, unit)) ` {0..<?k} \<union>
      (if insz mod unit \<noteq> 0 then {(maddr p + of_nat x + of_nat ?k * scast unit, insz mod unit)} else {})"
    by (simp add: pass_reads_def unit_reads_def)
  have "(\<forall>c \<in> set (pass_reads (maddr p + of_nat x) unit insz). within p c) \<longleftrightarrow>
      (\<forall>j < ?k. x + j * unat unit + unat unit \<le> unat (msize p)) \<and>
      (insz mod unit \<noteq> 0 \<longrightarrow> x + ?k * unat unit + unat (insz mod unit) \<le> unat (msize p))"
    unfolding reads by (auto simp: w simp del: of_nat_unat)
  also have "\<dots> \<longleftrightarrow> insz = 0 \<or> x + unat insz \<le> unat (msize p)"
  proof (cases "insz mod unit = 0")
    case False
    then have "insz \<noteq> 0" by auto
    have "x + j * unat unit + unat unit \<le> x + unat insz" if "j < ?k" for j using le [of "Suc j"] that by simp
    moreover have "x + ?k * unat unit + unat (insz mod unit) = x + unat insz" using all by simp
    ultimately show ?thesis using False \<open>insz \<noteq> 0\<close> by (metis order_trans)
  next
    case True
    then have z: "?k * unat unit = unat insz" using all by simp
    show ?thesis
    proof (cases ?k)
      case 0
      then have "insz = 0" using z by (simp add: unat_eq_0)
      with 0 True show ?thesis by simp
    next
      case (Suc q)
      have "insz \<noteq> 0" using Suc by auto
      have below: "x + j * unat unit + unat unit \<le> x + unat insz" if "j < ?k" for j using le [of "Suc j"] that by simp
      have end_of: "x + q * unat unit + unat unit = x + unat insz" using z unfolding Suc by simp
      have "(\<forall>j < ?k. x + j * unat unit + unat unit \<le> unat (msize p)) \<longleftrightarrow> x + unat insz \<le> unat (msize p)"
      proof
        assume "\<forall>j < ?k. x + j * unat unit + unat unit \<le> unat (msize p)"
        then have "x + q * unat unit + unat unit \<le> unat (msize p)" unfolding Suc by blast
        then show "x + unat insz \<le> unat (msize p)" unfolding end_of .
      qed (use below in \<open>blast intro: order_trans\<close>)
      with True \<open>insz \<noteq> 0\<close> show ?thesis by simp
    qed
  qed
  finally show ?thesis .
qed

text \<open>The bytes that \<open>n\<close> passes move on before the last one begins\<close>

definition passed :: "uint32 \<Rightarrow> uint32 \<Rightarrow> nat \<Rightarrow> nat" where
  "passed insz unit n = (n - 1) * (unat insz div unat unit * unat unit)"

lemma passes_within:
  assumes u: "n = 0 \<or> unit \<noteq> 0" "unit < 2 ^ 31" and n: "n < 2 ^ 31"
  shows "(\<forall>c \<in> set (concat (map (\<lambda>j. pass_reads (maddr p + of_nat j * (ucast (insz div unit) * scast unit)) unit insz) [0..<n])). within p c)
    \<longleftrightarrow> n = 0 \<or> insz = 0 \<or> passed insz unit n + unat insz \<le> unat (msize p)"
proof (cases "n = 0")
  case False
  then have u1: "unit \<noteq> 0" using u(1) by simp
  let ?d = "unat insz div unat unit * unat unit"
  have b: "unat insz < 2 ^ 32" using unsigned_less [of insz, where ?'a = nat] by simp
  have d: "?d \<le> unat insz" by simp
  have step: "maddr p + of_nat j * (ucast (insz div unit) * scast unit) = maddr p + of_nat (j * ?d)" for j
  proof -
    have "(ucast (insz div unit) :: size_t) = of_nat (unat insz div unat unit)" by (simp flip: unat_div)
    then show ?thesis by (simp add: scast_small [OF u(2)])
  qed
  have bound: "j * ?d \<le> 2 ^ 63" if "j < n" for j
  proof -
    have "j * ?d \<le> 2 ^ 31 * 2 ^ 32" by (rule mult_le_mono) (use that n d b in \<open>linarith+\<close>)
    then show ?thesis by simp
  qed
  have one: "(\<forall>c \<in> set (pass_reads (maddr p + of_nat j * (ucast (insz div unit) * scast unit)) unit insz). within p c) \<longleftrightarrow>
      insz = 0 \<or> j * ?d + unat insz \<le> unat (msize p)" if "j < n" for j
    unfolding step by (rule pass_within [OF u1 u(2) bound [OF that]])
  have le: "j * ?d + unat insz \<le> (n - 1) * ?d + unat insz" if "j < n" for j
    using that by (intro add_le_mono1 mult_le_mono1) simp
  have "(\<forall>c \<in> set (concat (map (\<lambda>j. pass_reads (maddr p + of_nat j * (ucast (insz div unit) * scast unit)) unit insz) [0..<n])). within p c)
    \<longleftrightarrow> (\<forall>j < n. insz = 0 \<or> j * ?d + unat insz \<le> unat (msize p))"
    using one by auto
  also have "\<dots> \<longleftrightarrow> insz = 0 \<or> (n - 1) * ?d + unat insz \<le> unat (msize p)"
    using le False by (meson diff_less order_trans zero_less_iff_neq_zero zero_less_one)
  finally show ?thesis using False by (simp add: passed_def)
qed simp

lemma sub_within: "within p (maddr p + ucast off, msize p - off) \<longleftrightarrow> off \<le> msize p"
proof -
  have b: "unat off < 2 ^ 32" "unat (msize p) < 2 ^ 32"
    using unsigned_less [of off, where ?'a = nat] unsigned_less [of "msize p", where ?'a = nat] by simp_all
  have o: "maddr p + ucast off = maddr p + of_nat (unat off)" by simp
  have "unat off + unat (msize p - off) \<le> unat (msize p) \<longleftrightarrow> unat off \<le> unat (msize p)"
    using b by (simp add: unat_sub_if')
  then show ?thesis unfolding o using b by (subst within_offset) (simp_all add: word_le_nat_alt)
qed

lemma while_count_ends:
  assumes "while_count n = (k, False)"
  shows "k = unat n"
proof -
  have k: "0 \<le> sint n" "k = nat (sint n)" using assms by (auto simp: while_count_def split: if_splits)
  have "\<not> 2 ^ 31 \<le> unat n"
  proof
    assume "2 ^ 31 \<le> unat n"
    then have "int (2 ^ 31) \<le> int (unat n)" by (simp only: of_nat_le_iff)
    then have "2 ^ 31 \<le> uint n" by simp
    moreover have "uint n < 2 ^ 32" using unsigned_less [of n, where ?'a = int] by simp
    ultimately have "uint n div 2 ^ 31 = 1" by (simp add: div_pos_geq)
    moreover have "even (uint n div 2 ^ 31)" using k(1) by (simp add: sint_uint bit_iff_odd)
    ultimately show False by simp
  qed
  then show ?thesis using k(2) sint_small by simp
qed

lemma while_count_bound: "fst (while_count n) \<le> 2 ^ 31"
proof -
  have "sint n < 2 ^ 31" "- (2 ^ 31) \<le> sint n" using sint_lt [of n] sint_ge [of n] by simp_all
  then show ?thesis by (auto simp: while_count_def)
qed

lemma aes_process_seen:
  assumes "sees sel (TEE_CipherUpdate api) seen" "sees sel (TEE_AEUpdate api) seen" "moves sel"
    and "aes_cmd_process api sv aes_process_types ps sdp m = Some (TEE_SUCCESS, m1)"
    and "unit = (if val_b (p2 ps) = 0 then msize (p0 ps) else val_b (p2 ps))"
  shows "(val_a (p2 ps) = 0 \<or> unit \<noteq> 0) \<and> unat (val_a (p2 ps)) < 2 ^ 31 \<and> seen m1 = seen m @ concat (map (\<lambda>j. pass_reads
      (sel (maddr (p0 ps)) (maddr (p1 ps)) + of_nat j * (ucast (msize (p0 ps) div unit) * scast unit)) unit (msize (p0 ps))) [0..<unat (val_a (p2 ps))])"
proof -
  let ?upd = "if algo sv = TEE_ALG_AES_GCM then TEE_AEUpdate api else TEE_CipherUpdate api"
  obtain n wraps where w: "while_count (val_a (p2 ps)) = (n, wraps)" by fastforce
  have s: "sees sel ?upd seen" using assms(1,2) by simp
  have r: "aes_passes ?upd (crypto_op sv) (msize (p0 ps)) unit wraps n (maddr (p0 ps)) (maddr (p1 ps)) (msize (p1 ps)) m
      = Some (TEE_SUCCESS, m1)"
    using assms(4) unfolding assms(5) by (simp add: aes_cmd_process_def w Let_def split: if_splits option.splits prod.splits)
  note a = aes_passes_seen [OF s assms(3) r]
  have n: "n = unat (val_a (p2 ps))" by (rule while_count_ends) (use w a in simp)
  have "n < 2 ^ 31"
    using w a sint_lt [of "val_a (p2 ps)"] by (auto simp: while_count_def split: if_splits)
  with a n show ?thesis by (simp add: unat_eq_zero)
qed

text \<open>Inputs and outputs of the AES test, for a buffer \<open>p\<close> that starts where they do\<close>

lemma aes_calls_within:
  assumes "sees sel (TEE_CipherUpdate api) seen" "sees sel (TEE_AEUpdate api) seen" "moves sel" "seen m = []"
    and "aes_cmd_process api sv aes_process_types ps sdp m = Some (TEE_SUCCESS, m1)"
    and "unit = (if val_b (p2 ps) = 0 then msize (p0 ps) else val_b (p2 ps))" "unit < 2 ^ 31"
    and "sel (maddr (p0 ps)) (maddr (p1 ps)) = maddr p"
  shows "(\<forall>c \<in> set (seen m1). within p c) \<longleftrightarrow> val_a (p2 ps) = 0 \<or> msize (p0 ps) = 0 \<or>
    passed (msize (p0 ps)) unit (unat (val_a (p2 ps))) + unat (msize (p0 ps)) \<le> unat (msize p)"
proof -
  note a = aes_process_seen [OF assms(1-3,5,6)]
  have "unat (val_a (p2 ps)) = 0 \<or> unit \<noteq> 0" "unat (val_a (p2 ps)) < 2 ^ 31" using a by auto
  from passes_within [OF this(1) assms(7) this(2), of p "msize (p0 ps)"] a show ?thesis
    by (simp add: assms(4,8) unat_eq_zero)
qed

lemma nothing_passed:
  assumes "unit \<noteq> 0"
  shows "n = 0 \<or> insz = 0 \<or> passed insz unit (unat n) + unat insz \<le> unat insz \<longleftrightarrow> n \<le> 1 \<or> insz < unit"
proof -
  have "passed insz unit (unat n) = 0 \<longleftrightarrow> unat n \<le> 1 \<or> unat insz < unat unit"
    using assms by (auto simp: passed_def div_eq_0_iff unat_eq_zero)
  moreover have "insz < unit" if "insz = 0" using that assms by (simp add: word_neq_0_conv)
  moreover have "n \<le> 1" if "n = 0" using that by simp
  ultimately show ?thesis by (auto simp: word_le_nat_alt word_less_nat_alt)
qed

lemma aes_reads_within:
  assumes "sees input_of (TEE_CipherUpdate api) seen" "sees input_of (TEE_AEUpdate api) seen" "seen m = []"
    and "aes_cmd_process api sv aes_process_types ps sdp m = Some (TEE_SUCCESS, m1)"
    and "unit = (if val_b (p2 ps) = 0 then msize (p0 ps) else val_b (p2 ps))" "unit < 2 ^ 31"
  shows "(\<forall>c \<in> set (seen m1). within (p0 ps) c) \<longleftrightarrow> val_a (p2 ps) \<le> 1 \<or> msize (p0 ps) < unit"
proof (cases "unit = 0")
  case True
  with aes_process_seen [OF assms(1,2) input_output_move(1) assms(4,5)] assms(3) show ?thesis by simp
next
  case False
  have "input_of (maddr (p0 ps)) (maddr (p1 ps)) = maddr (p0 ps)" by simp
  from aes_calls_within [OF assms(1,2) input_output_move(1) assms(3-6) this] nothing_passed [OF False] show ?thesis by simp
qed

lemma sha_calls:
  assumes "sees input_of (TEE_DigestDoFinal api) seen" "seen m = []" "offers (TEE_DigestDoFinal api) offered" "offered m = []"
    and "sha_cmd_process api op sha_process_types qs m = Some (TEE_SUCCESS, m2)"
  shows "(\<forall>c \<in> set (seen m2). within (p0 qs) c) \<longleftrightarrow> val_a (p2 qs) = 0 \<or> val_b (p2 qs) \<le> msize (p0 qs)"
    and "\<forall>c \<in> set (offered m2). within (p1 qs) c"
proof -
  obtain n wraps where w: "while_count (val_a (p2 qs)) = (n, wraps)" by fastforce
  let ?c = "(maddr (p0 qs) + ucast (val_b (p2 qs)), msize (p0 qs) - val_b (p2 qs))"
  have run: "sha_passes (TEE_DigestDoFinal api) op wraps n (maddr (p0 qs) + ucast (val_b (p2 qs)))
      (msize (p0 qs) - val_b (p2 qs)) (maddr (p1 qs)) (msize (p1 qs)) m = Some (TEE_SUCCESS, m2)"
    using assms(5) by (simp add: sha_cmd_process_def w Let_def)
  note s = sha_passes_seen [OF assms(1) run]
  have n: "n = unat (val_a (p2 qs))" by (rule while_count_ends) (use w s in simp)
  have "seen m2 = replicate (unat (val_a (p2 qs))) ?c" using s n assms(2) by simp
  moreover have "within (p0 qs) ?c \<longleftrightarrow> val_b (p2 qs) \<le> msize (p0 qs)"
    by (rule sub_within)
  moreover have "unat (val_a (p2 qs)) = 0 \<longleftrightarrow> val_a (p2 qs) = 0" by (simp add: unat_eq_zero)
  ultimately show "(\<forall>c \<in> set (seen m2). within (p0 qs) c) \<longleftrightarrow> val_a (p2 qs) = 0 \<or> val_b (p2 qs) \<le> msize (p0 qs)"
    by (auto simp: set_replicate_conv_if)
  show "\<forall>c \<in> set (offered m2). within (p1 qs) c"
    using sha_passes_offer [OF assms(3) run] assms(4) by (auto simp: within_def word_le_nat_alt)
qed

text \<open>
  C38.  The memory that the speed tests hand to the cryptographic API, when every call succeeds and a unit
  has less than \<open>2^31\<close> bytes.  For AES, a pass does not go back to the beginning of the buffers: the inputs
  all lie in the client's input buffer exactly when there is at most one pass or the unit is larger than
  that buffer, and the outputs, counted as long as their inputs, lie in the output buffer exactly when what
  the earlier passes have moved on and one more input fit into it.  For SHA, the inputs lie in the input
  buffer exactly when there is no pass or the offset is at most its size, and the room offered for a digest
  always lies in the output buffer, if no call reports more than it was offered.
\<close>

theorem perf_reads_in_bounds:
  assumes "sees input_of (TEE_CipherUpdate api) reads" "sees input_of (TEE_AEUpdate api) reads"
    and "sees input_of (TEE_DigestDoFinal api) reads" "reads m = []"
    and "sees output_of (TEE_CipherUpdate api) writes" "sees output_of (TEE_AEUpdate api) writes" "writes m = []"
    and "offers (TEE_DigestDoFinal api) offered" "offered m = []"
    and "aes_cmd_process api sv aes_process_types ps sdp m = Some (TEE_SUCCESS, m1)"
    and "unit = (if val_b (p2 ps) = 0 then msize (p0 ps) else val_b (p2 ps))" "unit < 2 ^ 31"
    and "sha_cmd_process api op sha_process_types qs m = Some (TEE_SUCCESS, m2)"
  shows "((\<forall>c \<in> set (reads m1). within (p0 ps) c) \<longleftrightarrow> val_a (p2 ps) \<le> 1 \<or> msize (p0 ps) < unit) \<and>
    ((\<forall>c \<in> set (writes m1). within (p1 ps) c) \<longleftrightarrow> val_a (p2 ps) = 0 \<or> msize (p0 ps) = 0 \<or>
      (unat (val_a (p2 ps)) - 1) * (unat (msize (p0 ps)) div unat unit * unat unit) + unat (msize (p0 ps)) \<le> unat (msize (p1 ps))) \<and>
    ((\<forall>c \<in> set (reads m2). within (p0 qs) c) \<longleftrightarrow> val_a (p2 qs) = 0 \<or> val_b (p2 qs) \<le> msize (p0 qs)) \<and>
    (\<forall>c \<in> set (offered m2). within (p1 qs) c)"
  using aes_reads_within [OF assms(1,2,4,10,11,12)]
    aes_calls_within [OF assms(5,6) input_output_move(2) assms(7,10,11,12), of "p1 ps"]
    sha_calls [OF assms(3,4,8,9,13)]
  by (simp only: passed_def simp_thms)

section \<open>A concrete run\<close>

text \<open>The state is the list of the calls: input, length, output and room.\<close>

type_synonym perf_log = "(size_t \<times> uint32 \<times> size_t \<times> uint32) list"

definition log_update :: "perf_log update" where
  "log_update op inp n out room m = (TEE_SUCCESS, room, m @ [(inp, n, out, room)])"

definition perf_example :: "perf_log perf_api" where
  "perf_example = \<lparr>
     TEE_CheckMemoryAccessRights = \<lambda>flags p n. TEE_SUCCESS, TEE_CacheFlush = \<lambda>p n. TEE_SUCCESS,
     CFG_CACHE_API = True, CFG_SECURE_DATA_PATH = True,
     TEE_AllocateOperation = \<lambda>a mode n m. (TEE_SUCCESS, 1, m), TEE_FreeOperation = \<lambda>op m. m,
     TEE_AllocateTransientObject = \<lambda>t n m. (TEE_SUCCESS, 2, m), TEE_FreeTransientObject = \<lambda>x m. m,
     TEE_PopulateTransientObject = \<lambda>x i b n m. (TEE_SUCCESS, m),
     TEE_SetOperationKey = \<lambda>op k m. (TEE_SUCCESS, m), TEE_SetOperationKey2 = \<lambda>op k l m. (TEE_SUCCESS, m),
     TEE_AEInit = \<lambda>op b n t a p m. (TEE_SUCCESS, m), TEE_CipherInit = \<lambda>op b n m. m,
     TEE_AEUpdate = log_update, TEE_CipherUpdate = log_update, TEE_DigestDoFinal = log_update\<rparr>"

text \<open>A buffer of 32 bytes: two passes in units of 16, and one digest from offset 8\<close>

definition perf_params :: "uint32 \<Rightarrow> uint32 \<Rightarrow> tee_params" where
  "perf_params n b = zero_params\<lparr>p0 := zero_param\<lparr>maddr := 0x1000, msize := 32\<rparr>,
     p1 := zero_param\<lparr>maddr := 0x2000, msize := 32\<rparr>, p2 := zero_param\<lparr>val_a := n, val_b := b\<rparr>\<rparr>"

definition log_calls :: "(size_t \<Rightarrow> size_t \<Rightarrow> size_t) \<Rightarrow> perf_log \<Rightarrow> (size_t \<times> uint32) list" where
  "log_calls sel m = map (\<lambda>c. (sel (fst c) (fst (snd (snd c))), fst (snd c))) m"

definition log_offers :: "perf_log \<Rightarrow> (size_t \<times> uint32) list" where
  "log_offers m = map (\<lambda>c. (fst (snd (snd c)), snd (snd (snd c)))) m"

lemma log_update_sees: "sees sel log_update (log_calls sel)" "offers log_update log_offers"
  by (auto simp: sees_def offers_def log_update_def log_calls_def log_offers_def)

lemma perf_reads_in_bounds_witness:
  "\<exists>m1 m2. aes_cmd_process perf_example aes_perf_init aes_process_types (perf_params 2 16) False [] = Some (TEE_SUCCESS, m1) \<and>
    sha_cmd_process perf_example 1 sha_process_types (perf_params 1 8) [] = Some (TEE_SUCCESS, m2) \<and>
    \<not> list_all (within (p0 (perf_params 2 16))) (log_calls input_of m1) \<and>
    \<not> list_all (within (p1 (perf_params 2 16))) (log_calls output_of m1) \<and>
    list_all (within (p0 (perf_params 1 8))) (log_calls input_of m2) \<and> list_all (within (p1 (perf_params 1 8))) (log_offers m2)"
proof -
  have a: "aes_cmd_process perf_example aes_perf_init aes_process_types (perf_params 2 16) False [] =
      Some (TEE_SUCCESS, [(0x1000, 16, 0x2000, 32), (0x1010, 16, 0x2010, 32), (0x1020, 16, 0x2020, 32), (0x1030, 16, 0x2030, 32)])"
  proof -
    have n: "while_count 2 = (Suc (Suc 0), False)" by (simp add: while_count_def)
    have k: "update_units log_update op 16 2 inp out room m =
        (TEE_SUCCESS, inp + 32, out + 32, room, m @ [(inp, 16, out, room), (inp + 16, 16, out + 16, room)])" for op inp out room m
    proof -
      have "update_units log_update op 16 (Suc (Suc 0)) inp out room m =
          (TEE_SUCCESS, inp + 32, out + 32, room, m @ [(inp, 16, out, room), (inp + 16, 16, out + 16, room)])"
        by (simp add: log_update_def)
      then show ?thesis by (simp only: numeral_2_eq_2)
    qed
    show ?thesis
      by (simp add: aes_cmd_process_def perf_example_def perf_params_def aes_perf_init_def n aes_pass_def k
          log_update_def TEE_ALG_AES_GCM_def Let_def)
  qed
  have b: "sha_cmd_process perf_example 1 sha_process_types (perf_params 1 8) [] = Some (TEE_SUCCESS, [(0x1008, 24, 0x2000, 32)])"
    by (simp add: sha_cmd_process_def perf_example_def perf_params_def while_count_def log_update_def Let_def)
  have u: "sees sel (TEE_CipherUpdate perf_example) (log_calls sel)" "sees sel (TEE_AEUpdate perf_example) (log_calls sel)"
    "sees sel (TEE_DigestDoFinal perf_example) (log_calls sel)" "offers (TEE_DigestDoFinal perf_example) log_offers" for sel
    by (simp_all add: perf_example_def log_update_sees)
  have n: "\<not> (2 :: uint32) \<le> 1" by (simp add: word_le_nat_alt)
  have unit: "(if val_b (p2 (perf_params 2 16)) = 0 then msize (p0 (perf_params 2 16)) else val_b (p2 (perf_params 2 16))) = 16"
    by (simp add: perf_params_def)
  have e: "log_calls sel [] = []" "log_offers [] = []" for sel by (simp_all add: log_calls_def log_offers_def)
  note claim = perf_reads_in_bounds [OF u(1,2,3) e(1) u(1,2) e(1) u(4) e(2) a refl _ b, unfolded unit]
  have "(16 :: uint32) < 2 ^ 31" by (simp add: word_less_nat_alt)
  note claim = claim [OF this, folded list_all_iff]
  let ?m1 = "[(0x1000, 16, 0x2000, 32), (0x1010, 16, 0x2010, 32), (0x1020, 16, 0x2020, 32), (0x1030, 16, 0x2030, 32)] :: perf_log"
  let ?m2 = "[(0x1008, 24, 0x2000, 32)] :: perf_log"
  have "\<not> list_all (within (p0 (perf_params 2 16))) (log_calls input_of ?m1)"
    unfolding claim [THEN conjunct1] by (simp add: perf_params_def n)
  moreover have "\<not> list_all (within (p1 (perf_params 2 16))) (log_calls output_of ?m1)"
    unfolding claim [THEN conjunct2, THEN conjunct1] by (simp add: perf_params_def)
  moreover have "list_all (within (p0 (perf_params 1 8))) (log_calls input_of ?m2)"
    unfolding claim [THEN conjunct2, THEN conjunct2, THEN conjunct1] by (simp add: perf_params_def)
  moreover have "list_all (within (p1 (perf_params 1 8))) (log_offers ?m2)"
    by (rule claim [THEN conjunct2, THEN conjunct2, THEN conjunct2])
  ultimately show ?thesis using a b by blast
qed

end
