(* ===== verification/Storage.thy ===== *)
theory Storage
  imports Ta_Env Ta_Contract
begin

text \<open>
  Model of \<open>src/ta/storage\<close> (and \<open>src/ta/storage2\<close>, which compiles the same files): the TA that lets a
  client drive the persistent object API.  Handles go to the client as 32 bit values.  The API is a
  record of functions on a state of an arbitrary type; \<^term>\<open>None\<close> is a write outside a client's buffer.
\<close>

definition TA_STORAGE_CMD_OPEN :: uint32 where "TA_STORAGE_CMD_OPEN = 0"
definition TA_STORAGE_CMD_CLOSE :: uint32 where "TA_STORAGE_CMD_CLOSE = 1"
definition TA_STORAGE_CMD_READ :: uint32 where "TA_STORAGE_CMD_READ = 2"
definition TA_STORAGE_CMD_WRITE :: uint32 where "TA_STORAGE_CMD_WRITE = 3"
definition TA_STORAGE_CMD_CREATE :: uint32 where "TA_STORAGE_CMD_CREATE = 4"
definition TA_STORAGE_CMD_SEEK :: uint32 where "TA_STORAGE_CMD_SEEK = 5"
definition TA_STORAGE_CMD_UNLINK :: uint32 where "TA_STORAGE_CMD_UNLINK = 6"
definition TA_STORAGE_CMD_RENAME :: uint32 where "TA_STORAGE_CMD_RENAME = 7"
definition TA_STORAGE_CMD_TRUNC :: uint32 where "TA_STORAGE_CMD_TRUNC = 8"
definition TA_STORAGE_CMD_ALLOC_ENUM :: uint32 where "TA_STORAGE_CMD_ALLOC_ENUM = 9"
definition TA_STORAGE_CMD_FREE_ENUM :: uint32 where "TA_STORAGE_CMD_FREE_ENUM = 10"
definition TA_STORAGE_CMD_RESET_ENUM :: uint32 where "TA_STORAGE_CMD_RESET_ENUM = 11"
definition TA_STORAGE_CMD_START_ENUM :: uint32 where "TA_STORAGE_CMD_START_ENUM = 12"
definition TA_STORAGE_CMD_NEXT_ENUM :: uint32 where "TA_STORAGE_CMD_NEXT_ENUM = 13"
definition TA_STORAGE_CMD_CREATE_OVERWRITE :: uint32 where "TA_STORAGE_CMD_CREATE_OVERWRITE = 14"
definition TA_STORAGE_CMD_KEY_IN_PERSISTENT :: uint32 where "TA_STORAGE_CMD_KEY_IN_PERSISTENT = 15"
definition TA_STORAGE_CMD_LOOP :: uint32 where "TA_STORAGE_CMD_LOOP = 16"
definition TA_STORAGE_CMD_RESTRICT_USAGE :: uint32 where "TA_STORAGE_CMD_RESTRICT_USAGE = 17"
definition TA_STORAGE_CMD_ALLOC_OBJ :: uint32 where "TA_STORAGE_CMD_ALLOC_OBJ = 18"
definition TA_STORAGE_CMD_FREE_OBJ :: uint32 where "TA_STORAGE_CMD_FREE_OBJ = 19"
definition TA_STORAGE_CMD_RESET_OBJ :: uint32 where "TA_STORAGE_CMD_RESET_OBJ = 20"
definition TA_STORAGE_CMD_GET_OBJ_INFO :: uint32 where "TA_STORAGE_CMD_GET_OBJ_INFO = 21"
definition TA_STORAGE_CMD_OPEN_ID_IN_SHM :: uint32 where "TA_STORAGE_CMD_OPEN_ID_IN_SHM = 22"
definition TA_STORAGE_CMD_CREATE_ID_IN_SHM :: uint32 where "TA_STORAGE_CMD_CREATE_ID_IN_SHM = 23"
definition TA_STORAGE_CMD_CREATEOVER_ID_IN_SHM :: uint32 where "TA_STORAGE_CMD_CREATEOVER_ID_IN_SHM = 24"
definition TA_STORAGE_CMD_RENAME_ID_IN_SHM :: uint32 where "TA_STORAGE_CMD_RENAME_ID_IN_SHM = 25"

lemmas storage_cmd_defs = TA_STORAGE_CMD_OPEN_def
  TA_STORAGE_CMD_CLOSE_def
  TA_STORAGE_CMD_READ_def
  TA_STORAGE_CMD_WRITE_def
  TA_STORAGE_CMD_CREATE_def
  TA_STORAGE_CMD_SEEK_def
  TA_STORAGE_CMD_UNLINK_def
  TA_STORAGE_CMD_RENAME_def
  TA_STORAGE_CMD_TRUNC_def
  TA_STORAGE_CMD_ALLOC_ENUM_def
  TA_STORAGE_CMD_FREE_ENUM_def
  TA_STORAGE_CMD_RESET_ENUM_def
  TA_STORAGE_CMD_START_ENUM_def
  TA_STORAGE_CMD_NEXT_ENUM_def
  TA_STORAGE_CMD_CREATE_OVERWRITE_def
  TA_STORAGE_CMD_KEY_IN_PERSISTENT_def
  TA_STORAGE_CMD_LOOP_def
  TA_STORAGE_CMD_RESTRICT_USAGE_def
  TA_STORAGE_CMD_ALLOC_OBJ_def
  TA_STORAGE_CMD_FREE_OBJ_def
  TA_STORAGE_CMD_RESET_OBJ_def
  TA_STORAGE_CMD_GET_OBJ_INFO_def
  TA_STORAGE_CMD_OPEN_ID_IN_SHM_def
  TA_STORAGE_CMD_CREATE_ID_IN_SHM_def
  TA_STORAGE_CMD_CREATEOVER_ID_IN_SHM_def
  TA_STORAGE_CMD_RENAME_ID_IN_SHM_def

definition TEE_DATA_FLAG_ACCESS_READ :: uint32 where "TEE_DATA_FLAG_ACCESS_READ = 0x01"
definition TEE_DATA_FLAG_ACCESS_WRITE :: uint32 where "TEE_DATA_FLAG_ACCESS_WRITE = 0x02"
definition TEE_DATA_FLAG_ACCESS_WRITE_META :: uint32 where "TEE_DATA_FLAG_ACCESS_WRITE_META = 0x04"
definition TEE_DATA_FLAG_SHARE_READ :: uint32 where "TEE_DATA_FLAG_SHARE_READ = 0x10"
definition TEE_DATA_FLAG_SHARE_WRITE :: uint32 where "TEE_DATA_FLAG_SHARE_WRITE = 0x20"
definition TEE_DATA_FLAG_OVERWRITE :: uint32 where "TEE_DATA_FLAG_OVERWRITE = 0x400"

definition TEE_OBJECT_ID_MAX_LEN :: uint32 where "TEE_OBJECT_ID_MAX_LEN = 64"

record TEE_ObjectInfo =
  objectType :: uint32
  keySize :: uint32
  maxKeySize :: uint32
  objectUsage :: uint32
  dataSize :: uint32
  dataPosition :: uint32
  handleFlags :: uint32

definition zero_info :: TEE_ObjectInfo where
  "zero_info = \<lparr>objectType = 0, keySize = 0, maxKeySize = 0, objectUsage = 0, dataSize = 0, dataPosition = 0, handleFlags = 0\<rparr>"

definition info_bytes :: "TEE_ObjectInfo \<Rightarrow> u8 list" where
  "info_bytes i = le32 (objectType i) @ le32 (keySize i) @ le32 (maxKeySize i) @ le32 (objectUsage i) @
     le32 (dataSize i) @ le32 (dataPosition i) @ le32 (handleFlags i)"

definition sizeof_object_info :: uint32 where "sizeof_object_info = 28"

text \<open>
  A function that fills a \<open>TEE_ObjectInfo\<close> is given what the structure held before, \<open>stack_info\<close> where
  the source has not initialised it.  A function that takes an optional handle pointer is told
  whether it is there.
\<close>

record 'm storage_api = "'m heap_api" +
  TEE_OpenPersistentObject :: "uint32 \<Rightarrow> u8 list \<Rightarrow> uint32 \<Rightarrow> uint32 \<Rightarrow> 'm \<Rightarrow> TEE_Result \<times> size_t \<times> 'm"
  TEE_CreatePersistentObject :: "uint32 \<Rightarrow> u8 list \<Rightarrow> uint32 \<Rightarrow> uint32 \<Rightarrow> size_t \<Rightarrow> u8 list \<Rightarrow> uint32 \<Rightarrow> bool \<Rightarrow> 'm \<Rightarrow>
    TEE_Result \<times> size_t \<times> 'm"
  TEE_CloseObject :: "size_t \<Rightarrow> 'm \<Rightarrow> 'm"
  TEE_CloseAndDeletePersistentObject1 :: "size_t \<Rightarrow> 'm \<Rightarrow> TEE_Result \<times> 'm"
  TEE_ReadObjectData :: "size_t \<Rightarrow> u8 list \<Rightarrow> uint32 \<Rightarrow> uint32 \<Rightarrow> 'm \<Rightarrow> TEE_Result \<times> u8 list \<times> uint32 \<times> 'm"
  TEE_WriteObjectData :: "size_t \<Rightarrow> u8 list \<Rightarrow> uint32 \<Rightarrow> 'm \<Rightarrow> TEE_Result \<times> 'm"
  TEE_SeekObjectData :: "size_t \<Rightarrow> int \<Rightarrow> uint32 \<Rightarrow> 'm \<Rightarrow> TEE_Result \<times> 'm"
  TEE_GetObjectInfo1 :: "size_t \<Rightarrow> TEE_ObjectInfo \<Rightarrow> 'm \<Rightarrow> TEE_Result \<times> TEE_ObjectInfo \<times> 'm"
  TEE_GetObjectInfo :: "size_t \<Rightarrow> TEE_ObjectInfo \<Rightarrow> 'm \<Rightarrow> TEE_ObjectInfo \<times> 'm"
  TEE_RenamePersistentObject :: "size_t \<Rightarrow> u8 list \<Rightarrow> uint32 \<Rightarrow> 'm \<Rightarrow> TEE_Result \<times> 'm"
  TEE_TruncateObjectData :: "size_t \<Rightarrow> uint32 \<Rightarrow> 'm \<Rightarrow> TEE_Result \<times> 'm"
  TEE_AllocatePersistentObjectEnumerator :: "'m \<Rightarrow> TEE_Result \<times> size_t \<times> 'm"
  TEE_FreePersistentObjectEnumerator :: "size_t \<Rightarrow> 'm \<Rightarrow> 'm"
  TEE_ResetPersistentObjectEnumerator :: "size_t \<Rightarrow> 'm \<Rightarrow> 'm"
  TEE_StartPersistentObjectEnumerator :: "size_t \<Rightarrow> uint32 \<Rightarrow> 'm \<Rightarrow> TEE_Result \<times> 'm"
  TEE_GetNextPersistentObject :: "size_t \<Rightarrow> u8 list option \<Rightarrow> u8 list \<Rightarrow> uint32 \<Rightarrow> 'm \<Rightarrow>
    TEE_Result \<times> u8 list \<times> u8 list \<times> uint32 \<times> 'm"
  TEE_AllocateTransientObject :: "uint32 \<Rightarrow> uint32 \<Rightarrow> 'm \<Rightarrow> TEE_Result \<times> size_t \<times> 'm"
  TEE_FreeTransientObject :: "size_t \<Rightarrow> 'm \<Rightarrow> 'm"
  TEE_ResetTransientObject :: "size_t \<Rightarrow> 'm \<Rightarrow> 'm"
  TEE_GenerateKey :: "size_t \<Rightarrow> uint32 \<Rightarrow> 'm \<Rightarrow> TEE_Result \<times> 'm"
  TEE_RestrictObjectUsage1 :: "size_t \<Rightarrow> uint32 \<Rightarrow> 'm \<Rightarrow> 'm"
  TEE_AllocateOperation :: "uint32 \<Rightarrow> uint32 \<Rightarrow> uint32 \<Rightarrow> 'm \<Rightarrow> TEE_Result \<times> size_t \<times> 'm"
  TEE_FreeOperation :: "size_t \<Rightarrow> 'm \<Rightarrow> 'm"
  TEE_SetOperationKey :: "size_t \<Rightarrow> size_t \<Rightarrow> 'm \<Rightarrow> TEE_Result \<times> 'm"
  TEE_CipherInit :: "size_t \<Rightarrow> ptr \<Rightarrow> nat \<Rightarrow> 'm \<Rightarrow> 'm"
  stack_info :: TEE_ObjectInfo

type_synonym 'm storage_res = "TEE_Result \<times> tee_params \<times> 'm"

definition STORAGE_VAL2HANDLE :: "uint32 \<Rightarrow> size_t" where "STORAGE_VAL2HANDLE v = ucast v"

section \<open>Opening and creating objects\<close>

text \<open>The identifier as the API gets it: from a copy in the heap of the TA, or where the client has it.\<close>

definition ta_storage_cmd_open :: "('m, 'z) storage_api_scheme \<Rightarrow> uint32 \<Rightarrow> uint32 \<Rightarrow> tee_params \<Rightarrow> 'm \<Rightarrow> 'm storage_res" where
  "ta_storage_cmd_open api command param_types params m =
     (if TEE_PARAM_TYPES PT_MEMREF_INPUT PT_VALUE_INOUT PT_VALUE_INPUT PT_NONE \<noteq> param_types
        then (TEE_ERROR_BAD_PARAMETERS, params, m)
      else if command = TA_STORAGE_CMD_OPEN then
        let (object_id, m) = TEE_Malloc api (ucast (msize (p0 params))) m
        in if object_id = 0 then (TEE_ERROR_OUT_OF_MEMORY, params, m)
        else
          let (res, h, m) = TEE_OpenPersistentObject api (val_a (p2 params)) (mbuf (p0 params)) (msize (p0 params)) (val_a (p1 params)) m
          in (res, params\<lparr>p1 := (p1 params)\<lparr>val_b := ucast h\<rparr>\<rparr>, TEE_Free api object_id m)
      else if command = TA_STORAGE_CMD_OPEN_ID_IN_SHM then
        let (res, h, m) = TEE_OpenPersistentObject api (val_a (p2 params)) (mbuf (p0 params)) (msize (p0 params)) (val_a (p1 params)) m
        in (res, params\<lparr>p1 := (p1 params)\<lparr>val_b := ucast h\<rparr>\<rparr>, m)
      else (TEE_ERROR_NOT_SUPPORTED, params, m))"

definition ta_storage_cmd_create :: "('m, 'z) storage_api_scheme \<Rightarrow> uint32 \<Rightarrow> uint32 \<Rightarrow> tee_params \<Rightarrow> 'm \<Rightarrow> 'm storage_res" where
  "ta_storage_cmd_create api command param_types params m =
     (let create = (\<lambda>m. TEE_CreatePersistentObject api (val_b (p2 params)) (mbuf (p0 params)) (msize (p0 params))
            (val_a (p1 params)) (STORAGE_VAL2HANDLE (val_a (p2 params))) (mbuf (p3 params)) (msize (p3 params)) True m)
      in if TEE_PARAM_TYPES PT_MEMREF_INPUT PT_VALUE_INOUT PT_VALUE_INPUT PT_MEMREF_INPUT \<noteq> param_types
        then (TEE_ERROR_BAD_PARAMETERS, params, m)
      else if command = TA_STORAGE_CMD_CREATE then
        let (object_id, m) = TEE_Malloc api (ucast (msize (p0 params))) m
        in if object_id = 0 then (TEE_ERROR_OUT_OF_MEMORY, params, m)
        else
          let (res, h, m) = create m
          in (res, params\<lparr>p1 := (p1 params)\<lparr>val_b := ucast h\<rparr>\<rparr>, TEE_Free api object_id m)
      else if command = TA_STORAGE_CMD_CREATE_ID_IN_SHM then
        let (res, h, m) = create m
        in (res, params\<lparr>p1 := (p1 params)\<lparr>val_b := ucast h\<rparr>\<rparr>, m)
      else (TEE_ERROR_NOT_SUPPORTED, params, m))"

definition ta_storage_cmd_create_overwrite ::
  "('m, 'z) storage_api_scheme \<Rightarrow> uint32 \<Rightarrow> uint32 \<Rightarrow> tee_params \<Rightarrow> 'm \<Rightarrow> 'm storage_res" where
  "ta_storage_cmd_create_overwrite api command param_types params m =
     (let create = (\<lambda>m. TEE_CreatePersistentObject api (val_a (p1 params)) (mbuf (p0 params)) (msize (p0 params))
            TEE_DATA_FLAG_OVERWRITE 0 [] 0 False m)
      in if TEE_PARAM_TYPES PT_MEMREF_INPUT PT_VALUE_INPUT PT_NONE PT_NONE \<noteq> param_types
        then (TEE_ERROR_BAD_PARAMETERS, params, m)
      else if command = TA_STORAGE_CMD_CREATE_OVERWRITE then
        let (object_id, m) = TEE_Malloc api (ucast (msize (p0 params))) m
        in if object_id = 0 then (TEE_ERROR_OUT_OF_MEMORY, params, m)
        else let (res, _, m) = create m in (res, params, TEE_Free api object_id m)
      else if command = TA_STORAGE_CMD_CREATEOVER_ID_IN_SHM then
        let (res, _, m) = create m in (res, params, m)
      else (TEE_ERROR_NOT_SUPPORTED, params, m))"

definition ta_storage_cmd_rename :: "('m, 'z) storage_api_scheme \<Rightarrow> uint32 \<Rightarrow> uint32 \<Rightarrow> tee_params \<Rightarrow> 'm \<Rightarrow> 'm storage_res" where
  "ta_storage_cmd_rename api command param_types params m =
     (let h = STORAGE_VAL2HANDLE (val_a (p0 params))
      in if TEE_PARAM_TYPES PT_VALUE_INPUT PT_MEMREF_INPUT PT_NONE PT_NONE \<noteq> param_types
        then (TEE_ERROR_BAD_PARAMETERS, params, m)
      else if command = TA_STORAGE_CMD_RENAME then
        let (object_id, m) = TEE_Malloc api (ucast (msize (p1 params))) m
        in if object_id = 0 then (TEE_ERROR_OUT_OF_MEMORY, params, m)
        else
          let (res, m) = TEE_RenamePersistentObject api h (mbuf (p1 params)) (msize (p1 params)) m
          in (res, params, TEE_Free api object_id m)
      else if command = TA_STORAGE_CMD_RENAME_ID_IN_SHM then
        let (res, m) = TEE_RenamePersistentObject api h (mbuf (p1 params)) (msize (p1 params)) m in (res, params, m)
      else (TEE_ERROR_NOT_SUPPORTED, params, m))"

section \<open>Commands on one handle\<close>

definition value_types :: uint32 where
  "value_types = TEE_PARAM_TYPES PT_VALUE_INPUT PT_NONE PT_NONE PT_NONE"

definition ta_storage_cmd_close :: "('m, 'z) storage_api_scheme \<Rightarrow> uint32 \<Rightarrow> tee_params \<Rightarrow> 'm \<Rightarrow> 'm storage_res" where
  "ta_storage_cmd_close api param_types params m =
     (if value_types \<noteq> param_types then (TEE_ERROR_BAD_PARAMETERS, params, m)
      else (TEE_SUCCESS, params, TEE_CloseObject api (STORAGE_VAL2HANDLE (val_a (p0 params))) m))"

definition ta_storage_cmd_read :: "('m, 'z) storage_api_scheme \<Rightarrow> uint32 \<Rightarrow> tee_params \<Rightarrow> 'm \<Rightarrow> 'm storage_res" where
  "ta_storage_cmd_read api param_types params m =
     (if TEE_PARAM_TYPES PT_MEMREF_OUTPUT PT_VALUE_INOUT PT_NONE PT_NONE \<noteq> param_types
        then (TEE_ERROR_BAD_PARAMETERS, params, m)
      else
        let (res, buf, n, m) = TEE_ReadObjectData api (STORAGE_VAL2HANDLE (val_a (p1 params))) (mbuf (p0 params))
              (msize (p0 params)) (val_b (p1 params)) m
        in (res, params\<lparr>p0 := (p0 params)\<lparr>mbuf := buf\<rparr>, p1 := (p1 params)\<lparr>val_b := n\<rparr>\<rparr>, m))"

definition ta_storage_cmd_write :: "('m, 'z) storage_api_scheme \<Rightarrow> uint32 \<Rightarrow> tee_params \<Rightarrow> 'm \<Rightarrow> 'm storage_res" where
  "ta_storage_cmd_write api param_types params m =
     (if TEE_PARAM_TYPES PT_MEMREF_INPUT PT_VALUE_INPUT PT_NONE PT_NONE \<noteq> param_types
        then (TEE_ERROR_BAD_PARAMETERS, params, m)
      else
        let (res, m) = TEE_WriteObjectData api (STORAGE_VAL2HANDLE (val_a (p1 params))) (mbuf (p0 params)) (msize (p0 params)) m
        in (res, params, m))"

definition ta_storage_cmd_seek :: "('m, 'z) storage_api_scheme \<Rightarrow> uint32 \<Rightarrow> tee_params \<Rightarrow> 'm \<Rightarrow> 'm storage_res" where
  "ta_storage_cmd_seek api param_types params m =
     (let h = STORAGE_VAL2HANDLE (val_a (p0 params))
      in if TEE_PARAM_TYPES PT_VALUE_INPUT PT_VALUE_INOUT PT_NONE PT_NONE \<noteq> param_types
        then (TEE_ERROR_BAD_PARAMETERS, params, m)
      else
        let (res, m) = TEE_SeekObjectData api h (sint (val_b (p0 params))) (val_a (p1 params)) m
        in if res \<noteq> TEE_SUCCESS then (res, params, m)
        else
          let (res, info, m) = TEE_GetObjectInfo1 api h (stack_info api) m
          in (res, params\<lparr>p1 := (p1 params)\<lparr>val_b := dataPosition info\<rparr>\<rparr>, m))"

definition ta_storage_cmd_unlink :: "('m, 'z) storage_api_scheme \<Rightarrow> uint32 \<Rightarrow> tee_params \<Rightarrow> 'm \<Rightarrow> 'm storage_res" where
  "ta_storage_cmd_unlink api param_types params m =
     (if value_types \<noteq> param_types then (TEE_ERROR_BAD_PARAMETERS, params, m)
      else
        let (_, m) = TEE_CloseAndDeletePersistentObject1 api (STORAGE_VAL2HANDLE (val_a (p0 params))) m
        in (TEE_SUCCESS, params, m))"

definition ta_storage_cmd_trunc :: "('m, 'z) storage_api_scheme \<Rightarrow> uint32 \<Rightarrow> tee_params \<Rightarrow> 'm \<Rightarrow> 'm storage_res" where
  "ta_storage_cmd_trunc api param_types params m =
     (if value_types \<noteq> param_types then (TEE_ERROR_BAD_PARAMETERS, params, m)
      else
        let (res, m) = TEE_TruncateObjectData api (STORAGE_VAL2HANDLE (val_a (p0 params))) (val_b (p0 params)) m
        in (res, params, m))"

definition ta_storage_cmd_restrict_usage :: "('m, 'z) storage_api_scheme \<Rightarrow> uint32 \<Rightarrow> tee_params \<Rightarrow> 'm \<Rightarrow> 'm storage_res" where
  "ta_storage_cmd_restrict_usage api param_types params m =
     (if value_types \<noteq> param_types then (TEE_ERROR_BAD_PARAMETERS, params, m)
      else (TEE_SUCCESS, params, TEE_RestrictObjectUsage1 api (STORAGE_VAL2HANDLE (val_a (p0 params))) (val_b (p0 params)) m))"

definition ta_storage_cmd_alloc_obj :: "('m, 'z) storage_api_scheme \<Rightarrow> uint32 \<Rightarrow> tee_params \<Rightarrow> 'm \<Rightarrow> 'm storage_res" where
  "ta_storage_cmd_alloc_obj api param_types params m =
     (if TEE_PARAM_TYPES PT_VALUE_INPUT PT_VALUE_OUTPUT PT_NONE PT_NONE \<noteq> param_types
        then (TEE_ERROR_BAD_PARAMETERS, params, m)
      else
        let (res, h, m) = TEE_AllocateTransientObject api (val_a (p0 params)) (val_b (p0 params)) m
        in (res, set_val_a1 (ucast h) params, m))"

definition ta_storage_cmd_free_obj :: "('m, 'z) storage_api_scheme \<Rightarrow> uint32 \<Rightarrow> tee_params \<Rightarrow> 'm \<Rightarrow> 'm storage_res" where
  "ta_storage_cmd_free_obj api param_types params m =
     (if value_types \<noteq> param_types then (TEE_ERROR_BAD_PARAMETERS, params, m)
      else (TEE_SUCCESS, params, TEE_FreeTransientObject api (STORAGE_VAL2HANDLE (val_a (p0 params))) m))"

definition ta_storage_cmd_reset_obj :: "('m, 'z) storage_api_scheme \<Rightarrow> uint32 \<Rightarrow> tee_params \<Rightarrow> 'm \<Rightarrow> 'm storage_res" where
  "ta_storage_cmd_reset_obj api param_types params m =
     (if value_types \<noteq> param_types then (TEE_ERROR_BAD_PARAMETERS, params, m)
      else (TEE_SUCCESS, params, TEE_ResetTransientObject api (STORAGE_VAL2HANDLE (val_a (p0 params))) m))"

text \<open>The API writes the structure through the pointer to the client's buffer, whatever size that has.\<close>

definition ta_storage_cmd_get_obj_info ::
  "('m, 'z) storage_api_scheme \<Rightarrow> uint32 \<Rightarrow> tee_params \<Rightarrow> 'm \<Rightarrow> 'm storage_res option" where
  "ta_storage_cmd_get_obj_info api param_types params m =
     (if TEE_PARAM_TYPES PT_VALUE_INPUT PT_MEMREF_OUTPUT PT_NONE PT_NONE \<noteq> param_types
        then Some (TEE_ERROR_BAD_PARAMETERS, params, m)
      else
        let (res, info, m) = TEE_GetObjectInfo1 api (STORAGE_VAL2HANDLE (val_a (p0 params))) zero_info m
        in if res \<noteq> TEE_SUCCESS then Some (res, params, m)
        else case memcpy (mbuf (p1 params)) 0 (info_bytes info) (unat sizeof_object_info) of
            None \<Rightarrow> None
          | Some buf \<Rightarrow> Some (res, params\<lparr>p1 := (p1 params)\<lparr>mbuf := buf\<rparr>\<rparr>, m))"

section \<open>Enumerators\<close>

definition ta_storage_cmd_alloc_enum :: "('m, 'z) storage_api_scheme \<Rightarrow> uint32 \<Rightarrow> tee_params \<Rightarrow> 'm \<Rightarrow> 'm storage_res" where
  "ta_storage_cmd_alloc_enum api param_types params m =
     (if TEE_PARAM_TYPES PT_VALUE_OUTPUT PT_NONE PT_NONE PT_NONE \<noteq> param_types
        then (TEE_ERROR_BAD_PARAMETERS, params, m)
      else
        let (res, oe, m) = TEE_AllocatePersistentObjectEnumerator api m
        in (res, params\<lparr>p0 := (p0 params)\<lparr>val_a := ucast oe\<rparr>\<rparr>, m))"

definition ta_storage_cmd_free_enum :: "('m, 'z) storage_api_scheme \<Rightarrow> uint32 \<Rightarrow> tee_params \<Rightarrow> 'm \<Rightarrow> 'm storage_res" where
  "ta_storage_cmd_free_enum api param_types params m =
     (if value_types \<noteq> param_types then (TEE_ERROR_BAD_PARAMETERS, params, m)
      else (TEE_SUCCESS, params, TEE_FreePersistentObjectEnumerator api (STORAGE_VAL2HANDLE (val_a (p0 params))) m))"

definition ta_storage_cmd_reset_enum :: "('m, 'z) storage_api_scheme \<Rightarrow> uint32 \<Rightarrow> tee_params \<Rightarrow> 'm \<Rightarrow> 'm storage_res" where
  "ta_storage_cmd_reset_enum api param_types params m =
     (if value_types \<noteq> param_types then (TEE_ERROR_BAD_PARAMETERS, params, m)
      else (TEE_SUCCESS, params, TEE_ResetPersistentObjectEnumerator api (STORAGE_VAL2HANDLE (val_a (p0 params))) m))"

definition ta_storage_cmd_start_enum :: "('m, 'z) storage_api_scheme \<Rightarrow> uint32 \<Rightarrow> tee_params \<Rightarrow> 'm \<Rightarrow> 'm storage_res" where
  "ta_storage_cmd_start_enum api param_types params m =
     (if value_types \<noteq> param_types then (TEE_ERROR_BAD_PARAMETERS, params, m)
      else
        let (res, m) = TEE_StartPersistentObjectEnumerator api (STORAGE_VAL2HANDLE (val_a (p0 params))) (val_b (p0 params)) m
        in (res, params, m))"

text \<open>The object's information is optional: a memory reference, or a parameter of type none.\<close>

definition ta_storage_cmd_next_enum :: "('m, 'z) storage_api_scheme \<Rightarrow> uint32 \<Rightarrow> tee_params \<Rightarrow> 'm \<Rightarrow> 'm storage_res" where
  "ta_storage_cmd_next_enum api param_types params m =
     (let next = (\<lambda>obj params.
            if msize (p2 params) < TEE_OBJECT_ID_MAX_LEN then (TEE_ERROR_SHORT_BUFFER, params, m)
            else
              let (res, info, id, n, m) = TEE_GetNextPersistentObject api (STORAGE_VAL2HANDLE (val_a (p0 params)))
                    obj (mbuf (p2 params)) (msize (p2 params)) m;
                  params = (if obj = None then params else params\<lparr>p1 := (p1 params)\<lparr>mbuf := info\<rparr>\<rparr>)
              in (res, params\<lparr>p2 := (p2 params)\<lparr>mbuf := id, msize := n\<rparr>\<rparr>, m))
      in if TEE_PARAM_TYPE_GET param_types 0 \<noteq> PT_VALUE_INPUT then (TEE_ERROR_BAD_PARAMETERS, params, m)
      else if TEE_PARAM_TYPE_GET param_types 2 \<noteq> PT_MEMREF_OUTPUT then (TEE_ERROR_BAD_PARAMETERS, params, m)
      else if TEE_PARAM_TYPE_GET param_types 3 \<noteq> PT_NONE then (TEE_ERROR_BAD_PARAMETERS, params, m)
      else if TEE_PARAM_TYPE_GET param_types 1 = PT_NONE then next None params
      else if TEE_PARAM_TYPE_GET param_types 1 = PT_MEMREF_OUTPUT then
        let short = msize (p1 params) < sizeof_object_info;
            params = params\<lparr>p1 := (p1 params)\<lparr>msize := sizeof_object_info\<rparr>\<rparr>
        in if short then (TEE_ERROR_SHORT_BUFFER, params, m)
        else next (Some (mbuf (p1 params))) params
      else (TEE_ERROR_BAD_PARAMETERS, params, m))"

section \<open>A key as a persistent object\<close>

definition check_obj :: "TEE_ObjectInfo \<Rightarrow> TEE_ObjectInfo \<Rightarrow> TEE_Result" where
  "check_obj o1 o2 =
     (if objectType o1 \<noteq> objectType o2 \<or> keySize o1 \<noteq> keySize o2 \<or> maxKeySize o1 \<noteq> maxKeySize o2 \<or>
         objectUsage o1 \<noteq> objectUsage o2
      then TEE_ERROR_GENERIC else TEE_SUCCESS)"

definition key_flags :: uint32 where
  "key_flags = TEE_DATA_FLAG_ACCESS_READ OR TEE_DATA_FLAG_ACCESS_WRITE OR TEE_DATA_FLAG_ACCESS_WRITE_META OR
     TEE_DATA_FLAG_SHARE_READ OR TEE_DATA_FLAG_SHARE_WRITE"

definition key_object_id :: "u8 list" where "key_object_id = le32 1"

text \<open>From \<open>TEE_AllocateOperation\<close> to \<open>cleanup3\<close>: an operation with the key, and the key deleted\<close>

definition use_stored_key ::
  "('m, 'z) storage_api_scheme \<Rightarrow> size_t \<Rightarrow> TEE_ObjectInfo \<Rightarrow> 'm \<Rightarrow> TEE_Result \<times> 'm" where
  "use_stored_key api key info m =
     (let (result, encrypt_op, m) = TEE_AllocateOperation api TEE_ALG_AES_CBC_NOPAD TEE_MODE_ENCRYPT (maxKeySize info) m;
          (result, m) =
            (if result \<noteq> TEE_SUCCESS then (result, m)
             else
               let (result, m) = TEE_SetOperationKey api encrypt_op key m;
                   (result, m) =
                     (if result \<noteq> TEE_SUCCESS then (result, m)
                      else
                        let (IV, m) = TEE_Malloc api 16 m
                        in if IV = 0 then (TEE_ERROR_OUT_OF_MEMORY, m)
                        else (TEE_SUCCESS, TEE_Free api IV (TEE_CipherInit api encrypt_op IV 16 m)))
               in (result, TEE_FreeOperation api encrypt_op m));
          (_, m) = TEE_CloseAndDeletePersistentObject1 api key m
      in (result, m))"

text \<open>From \<open>TEE_GenerateKey\<close> to \<open>cleanup2\<close>\<close>

definition store_and_use_key ::
  "('m, 'z) storage_api_scheme \<Rightarrow> uint32 \<Rightarrow> size_t \<Rightarrow> 'm \<Rightarrow> TEE_Result \<times> 'm" where
  "store_and_use_key api storage transient_key m =
     (let (result, m) = TEE_GenerateKey api transient_key 256 m
      in if result \<noteq> TEE_SUCCESS then (result, m)
      else
        let (_, keyInfo, m) = TEE_GetObjectInfo1 api transient_key zero_info m;
            (result, persistent_key, m) = TEE_CreatePersistentObject api storage key_object_id 4 key_flags transient_key [] 0 True m
        in if result \<noteq> TEE_SUCCESS then (result, m)
      else
        let (_, keyInfo2, m) = TEE_GetObjectInfo1 api persistent_key zero_info m;
            result = check_obj keyInfo keyInfo2
        in if result \<noteq> TEE_SUCCESS then (result, m)
      else
        let m = TEE_CloseObject api persistent_key m;
            (result, key, m) = TEE_OpenPersistentObject api storage key_object_id 4 key_flags m
        in if result \<noteq> TEE_SUCCESS then (result, m)
      else
        let (keyInfo3, m) = TEE_GetObjectInfo api key zero_info m;
            result = check_obj keyInfo3 keyInfo2
        in if result \<noteq> TEE_SUCCESS then (result, m)
      else use_stored_key api key keyInfo3 m)"

definition ta_storage_cmd_key_in_persistent ::
  "('m, 'z) storage_api_scheme \<Rightarrow> uint32 \<Rightarrow> tee_params \<Rightarrow> 'm \<Rightarrow> 'm storage_res" where
  "ta_storage_cmd_key_in_persistent api param_types params m =
     (if value_types \<noteq> param_types then (TEE_ERROR_BAD_PARAMETERS, params, m)
      else
        let (result, transient_key, m) = TEE_AllocateTransientObject api TEE_TYPE_AES 256 m
        in if result \<noteq> TEE_SUCCESS then (result, params, m)
        else
          let (result, m) = store_and_use_key api (val_a (p0 params)) transient_key m
          in (result, params, TEE_FreeTransientObject api transient_key m))"

fun storage_loop :: "('m, 'z) storage_api_scheme \<Rightarrow> uint32 \<Rightarrow> nat list \<Rightarrow> 'm \<Rightarrow> TEE_Result \<times> 'm" where
  "storage_loop api storage [] m = (TEE_SUCCESS, m)"
| "storage_loop api storage (i # is) m =
     (let (res, object, m) = TEE_CreatePersistentObject api storage (le32 (of_nat i)) 4
            (TEE_DATA_FLAG_OVERWRITE OR TEE_DATA_FLAG_ACCESS_WRITE_META) 0 [] 0 True m
      in if res \<noteq> TEE_SUCCESS then (res, m)
      else
        let (res, m) = TEE_CloseAndDeletePersistentObject1 api object m
        in if res \<noteq> TEE_SUCCESS then (res, m) else storage_loop api storage is m)"

definition ta_storage_cmd_loop :: "('m, 'z) storage_api_scheme \<Rightarrow> uint32 \<Rightarrow> tee_params \<Rightarrow> 'm \<Rightarrow> 'm storage_res" where
  "ta_storage_cmd_loop api param_types params m =
     (if value_types \<noteq> param_types then (TEE_ERROR_BAD_PARAMETERS, params, m)
      else let (res, m) = storage_loop api (val_a (p0 params)) [0..<20] m in (res, params, m))"

section \<open>The dispatch\<close>

definition storage_invoke ::
  "('m, 'z) storage_api_scheme \<Rightarrow> uint32 \<Rightarrow> uint32 \<Rightarrow> tee_params \<Rightarrow> 'm \<Rightarrow> 'm storage_res option" where
  "storage_invoke api cmd types params m =
     (if cmd = TA_STORAGE_CMD_OPEN \<or> cmd = TA_STORAGE_CMD_OPEN_ID_IN_SHM then Some (ta_storage_cmd_open api cmd types params m)
      else if cmd = TA_STORAGE_CMD_CLOSE then Some (ta_storage_cmd_close api types params m)
      else if cmd = TA_STORAGE_CMD_READ then Some (ta_storage_cmd_read api types params m)
      else if cmd = TA_STORAGE_CMD_WRITE then Some (ta_storage_cmd_write api types params m)
      else if cmd = TA_STORAGE_CMD_CREATE \<or> cmd = TA_STORAGE_CMD_CREATE_ID_IN_SHM then Some (ta_storage_cmd_create api cmd types params m)
      else if cmd = TA_STORAGE_CMD_CREATE_OVERWRITE \<or> cmd = TA_STORAGE_CMD_CREATEOVER_ID_IN_SHM then
        Some (ta_storage_cmd_create_overwrite api cmd types params m)
      else if cmd = TA_STORAGE_CMD_SEEK then Some (ta_storage_cmd_seek api types params m)
      else if cmd = TA_STORAGE_CMD_UNLINK then Some (ta_storage_cmd_unlink api types params m)
      else if cmd = TA_STORAGE_CMD_RENAME \<or> cmd = TA_STORAGE_CMD_RENAME_ID_IN_SHM then Some (ta_storage_cmd_rename api cmd types params m)
      else if cmd = TA_STORAGE_CMD_TRUNC then Some (ta_storage_cmd_trunc api types params m)
      else if cmd = TA_STORAGE_CMD_ALLOC_ENUM then Some (ta_storage_cmd_alloc_enum api types params m)
      else if cmd = TA_STORAGE_CMD_FREE_ENUM then Some (ta_storage_cmd_free_enum api types params m)
      else if cmd = TA_STORAGE_CMD_RESET_ENUM then Some (ta_storage_cmd_reset_enum api types params m)
      else if cmd = TA_STORAGE_CMD_START_ENUM then Some (ta_storage_cmd_start_enum api types params m)
      else if cmd = TA_STORAGE_CMD_NEXT_ENUM then Some (ta_storage_cmd_next_enum api types params m)
      else if cmd = TA_STORAGE_CMD_KEY_IN_PERSISTENT then Some (ta_storage_cmd_key_in_persistent api types params m)
      else if cmd = TA_STORAGE_CMD_LOOP then Some (ta_storage_cmd_loop api types params m)
      else if cmd = TA_STORAGE_CMD_RESTRICT_USAGE then Some (ta_storage_cmd_restrict_usage api types params m)
      else if cmd = TA_STORAGE_CMD_ALLOC_OBJ then Some (ta_storage_cmd_alloc_obj api types params m)
      else if cmd = TA_STORAGE_CMD_FREE_OBJ then Some (ta_storage_cmd_free_obj api types params m)
      else if cmd = TA_STORAGE_CMD_RESET_OBJ then Some (ta_storage_cmd_reset_obj api types params m)
      else if cmd = TA_STORAGE_CMD_GET_OBJ_INFO then ta_storage_cmd_get_obj_info api types params m
      else Some (TEE_ERROR_BAD_PARAMETERS, params, m))"

section \<open>Resources\<close>

text \<open>
  What the Core API documents, with \<open>live\<close> the heap blocks, \<open>objs\<close> the open object handles and \<open>ops\<close>
  the operations: a function that yields a handle adds one, not in use before, exactly when it
  succeeds; closing, deleting and freeing end one; the other functions leave all three alone, and no
  function frees blocks or operations of the caller on its own.
\<close>

definition quiet :: "('m \<Rightarrow> ptr set) \<Rightarrow> ('m \<Rightarrow> size_t set) \<Rightarrow> ('m \<Rightarrow> size_t set) \<Rightarrow> 'm \<Rightarrow> 'm \<Rightarrow> bool" where
  "quiet live objs ops m m' \<longleftrightarrow> live m' = live m \<and> objs m' = objs m \<and> ops m' = ops m"

definition opens :: "('m \<Rightarrow> ptr set) \<Rightarrow> ('m \<Rightarrow> size_t set) \<Rightarrow> ('m \<Rightarrow> size_t set) \<Rightarrow> 'm \<Rightarrow> TEE_Result \<times> size_t \<times> 'm \<Rightarrow> bool" where
  "opens live objs ops m r \<longleftrightarrow> live (snd (snd r)) = live m \<and> ops (snd (snd r)) = ops m \<and>
     (fst r = TEE_SUCCESS \<longrightarrow> fst (snd r) \<notin> objs m \<and> objs (snd (snd r)) = insert (fst (snd r)) (objs m)) \<and>
     (fst r \<noteq> TEE_SUCCESS \<longrightarrow> objs (snd (snd r)) = objs m)"

definition closes :: "('m \<Rightarrow> ptr set) \<Rightarrow> ('m \<Rightarrow> size_t set) \<Rightarrow> ('m \<Rightarrow> size_t set) \<Rightarrow> size_t \<Rightarrow> 'm \<Rightarrow> 'm \<Rightarrow> bool" where
  "closes live objs ops h m m' \<longleftrightarrow> live m' = live m \<and> ops m' = ops m \<and> objs m' = objs m - {h}"

definition storage_laws ::
  "('m, 'z) storage_api_scheme \<Rightarrow> ('m \<Rightarrow> ptr set) \<Rightarrow> ('m \<Rightarrow> size_t set) \<Rightarrow> ('m \<Rightarrow> size_t set) \<Rightarrow> bool" where
  "storage_laws api live objs ops \<longleftrightarrow> heap_laws api live \<and>
     (\<forall>n m. objs (snd (TEE_Malloc api n m)) = objs m \<and> ops (snd (TEE_Malloc api n m)) = ops m) \<and>
     (\<forall>p m. objs (TEE_Free api p m) = objs m \<and> ops (TEE_Free api p m) = ops m) \<and>
     (\<forall>stor i n f m. opens live objs ops m (TEE_OpenPersistentObject api stor i n f m)) \<and>
     (\<forall>stor i n f h d k m. opens live objs ops m (TEE_CreatePersistentObject api stor i n f h d k True m)) \<and>
     (\<forall>stor i n f h d k m. quiet live objs ops m (snd (snd (TEE_CreatePersistentObject api stor i n f h d k False m)))) \<and>
     (\<forall>t n m. opens live objs ops m (TEE_AllocateTransientObject api t n m)) \<and>
     (\<forall>h m. closes live objs ops h m (TEE_CloseObject api h m)) \<and>
     (\<forall>h m. closes live objs ops h m (snd (TEE_CloseAndDeletePersistentObject1 api h m))) \<and>
     (\<forall>h m. closes live objs ops h m (TEE_FreeTransientObject api h m)) \<and>
     (\<forall>h b n k m. quiet live objs ops m (snd (snd (snd (TEE_ReadObjectData api h b n k m))))) \<and>
     (\<forall>h b n m. quiet live objs ops m (snd (TEE_WriteObjectData api h b n m))) \<and>
     (\<forall>h i w m. quiet live objs ops m (snd (TEE_SeekObjectData api h i w m))) \<and>
     (\<forall>h i m. quiet live objs ops m (snd (snd (TEE_GetObjectInfo1 api h i m)))) \<and>
     (\<forall>h i m. quiet live objs ops m (snd (TEE_GetObjectInfo api h i m))) \<and>
     (\<forall>h i n m. quiet live objs ops m (snd (TEE_RenamePersistentObject api h i n m))) \<and>
     (\<forall>h n m. quiet live objs ops m (snd (TEE_TruncateObjectData api h n m))) \<and>
     (\<forall>m. quiet live objs ops m (snd (snd (TEE_AllocatePersistentObjectEnumerator api m)))) \<and>
     (\<forall>h m. quiet live objs ops m (TEE_FreePersistentObjectEnumerator api h m)) \<and>
     (\<forall>h m. quiet live objs ops m (TEE_ResetPersistentObjectEnumerator api h m)) \<and>
     (\<forall>h stor m. quiet live objs ops m (snd (TEE_StartPersistentObjectEnumerator api h stor m))) \<and>
     (\<forall>h ob b n m. quiet live objs ops m (snd (snd (snd (snd (TEE_GetNextPersistentObject api h ob b n m)))))) \<and>
     (\<forall>h m. quiet live objs ops m (TEE_ResetTransientObject api h m)) \<and>
     (\<forall>h n m. quiet live objs ops m (snd (TEE_GenerateKey api h n m))) \<and>
     (\<forall>h u m. quiet live objs ops m (TEE_RestrictObjectUsage1 api h u m)) \<and>
     (\<forall>h k m. quiet live objs ops m (snd (TEE_SetOperationKey api h k m))) \<and>
     (\<forall>h p n m. quiet live objs ops m (TEE_CipherInit api h p n m)) \<and>
     (\<forall>h m. live (TEE_FreeOperation api h m) = live m \<and> objs (TEE_FreeOperation api h m) = objs m \<and>
        ops (TEE_FreeOperation api h m) = ops m - {h}) \<and>
     (\<forall>a mo n m. opens live ops objs m (TEE_AllocateOperation api a mo n m))"

text \<open>The laws as rewrite rules\<close>

lemma storage_calm:
  assumes "storage_laws api live objs ops"
  shows "live (snd (snd (TEE_OpenPersistentObject api stor i n f m))) = live m" "ops (snd (snd (TEE_OpenPersistentObject api stor i n f m))) = ops m"
    "live (snd (snd (TEE_CreatePersistentObject api stor i n f h d k b m))) = live m" "ops (snd (snd (TEE_CreatePersistentObject api stor i n f h d k b m))) = ops m"
    "live (snd (snd (TEE_AllocateTransientObject api n k m))) = live m" "ops (snd (snd (TEE_AllocateTransientObject api n k m))) = ops m"
    "live (TEE_CloseObject api h m) = live m" "ops (TEE_CloseObject api h m) = ops m"
    "live (snd (TEE_CloseAndDeletePersistentObject1 api h m)) = live m" "ops (snd (TEE_CloseAndDeletePersistentObject1 api h m)) = ops m"
    "live (TEE_FreeTransientObject api h m) = live m" "ops (TEE_FreeTransientObject api h m) = ops m"
    "live (snd (snd (snd (TEE_ReadObjectData api h d n k m)))) = live m" "ops (snd (snd (snd (TEE_ReadObjectData api h d n k m)))) = ops m"
    "live (snd (TEE_WriteObjectData api h d n m)) = live m" "ops (snd (TEE_WriteObjectData api h d n m)) = ops m"
    "live (snd (TEE_SeekObjectData api h x n m)) = live m" "ops (snd (TEE_SeekObjectData api h x n m)) = ops m"
    "live (snd (snd (TEE_GetObjectInfo1 api h y m))) = live m" "ops (snd (snd (TEE_GetObjectInfo1 api h y m))) = ops m"
    "live (snd (TEE_GetObjectInfo api h y m)) = live m" "ops (snd (TEE_GetObjectInfo api h y m)) = ops m"
    "live (snd (TEE_RenamePersistentObject api h d n m)) = live m" "ops (snd (TEE_RenamePersistentObject api h d n m)) = ops m"
    "live (snd (TEE_TruncateObjectData api h n m)) = live m" "ops (snd (TEE_TruncateObjectData api h n m)) = ops m"
    "live (snd (snd (TEE_AllocatePersistentObjectEnumerator api m))) = live m" "ops (snd (snd (TEE_AllocatePersistentObjectEnumerator api m))) = ops m"
    "live (TEE_FreePersistentObjectEnumerator api h m) = live m" "ops (TEE_FreePersistentObjectEnumerator api h m) = ops m"
    "live (TEE_ResetPersistentObjectEnumerator api h m) = live m" "ops (TEE_ResetPersistentObjectEnumerator api h m) = ops m"
    "live (snd (TEE_StartPersistentObjectEnumerator api h n m)) = live m" "ops (snd (TEE_StartPersistentObjectEnumerator api h n m)) = ops m"
    "live (snd (snd (snd (snd (TEE_GetNextPersistentObject api h z d n m))))) = live m" "ops (snd (snd (snd (snd (TEE_GetNextPersistentObject api h z d n m))))) = ops m"
    "live (TEE_ResetTransientObject api h m) = live m" "ops (TEE_ResetTransientObject api h m) = ops m"
    "live (snd (TEE_GenerateKey api h n m)) = live m" "ops (snd (TEE_GenerateKey api h n m)) = ops m"
    "live (TEE_RestrictObjectUsage1 api h n m) = live m" "ops (TEE_RestrictObjectUsage1 api h n m) = ops m"
    "live (snd (TEE_SetOperationKey api h j m)) = live m" "ops (snd (TEE_SetOperationKey api h j m)) = ops m"
    "live (TEE_CipherInit api h p q m) = live m" "ops (TEE_CipherInit api h p q m) = ops m"
  by (cases b; simp add: assms [unfolded storage_laws_def quiet_def opens_def closes_def])+

lemma storage_objs:
  assumes "storage_laws api live objs ops"
  shows "objs (snd (snd (TEE_GetObjectInfo1 api h y m))) = objs m"
    "objs (snd (TEE_GetObjectInfo api h y m)) = objs m"
    "objs (snd (TEE_GenerateKey api h n m)) = objs m"
    "objs (snd (TEE_SetOperationKey api h j m)) = objs m"
    "objs (TEE_CipherInit api h p q m) = objs m"
    "objs (TEE_CloseObject api h m) = objs m - {h}"
    "objs (snd (TEE_CloseAndDeletePersistentObject1 api h m)) = objs m - {h}"
    "objs (TEE_FreeTransientObject api h m) = objs m - {h}"
    "objs (snd (TEE_Malloc api v m)) = objs m" "objs (TEE_Free api p m) = objs m"
    "objs (TEE_FreeOperation api h m) = objs m" "objs (snd (snd (TEE_AllocateOperation api n k c m))) = objs m"
  by (simp_all add: assms [unfolded storage_laws_def quiet_def opens_def closes_def])

lemma storage_quiet:
  assumes "storage_laws api live objs ops"
  shows "objs (snd (snd (snd (TEE_ReadObjectData api h d n k m)))) = objs m"
    "objs (snd (TEE_WriteObjectData api h d n m)) = objs m"
    "objs (snd (TEE_SeekObjectData api h x n m)) = objs m"
    "objs (snd (TEE_RenamePersistentObject api h d n m)) = objs m"
    "objs (snd (TEE_TruncateObjectData api h n m)) = objs m"
    "objs (snd (snd (TEE_AllocatePersistentObjectEnumerator api m))) = objs m"
    "objs (TEE_FreePersistentObjectEnumerator api h m) = objs m"
    "objs (TEE_ResetPersistentObjectEnumerator api h m) = objs m"
    "objs (snd (TEE_StartPersistentObjectEnumerator api h n m)) = objs m"
    "objs (snd (snd (snd (snd (TEE_GetNextPersistentObject api h z d n m))))) = objs m"
    "objs (TEE_ResetTransientObject api h m) = objs m"
    "objs (TEE_RestrictObjectUsage1 api h n m) = objs m"
    "objs (snd (snd (TEE_CreatePersistentObject api s i n f h d k False m))) = objs m"
  by (simp_all add: assms [unfolded storage_laws_def quiet_def opens_def closes_def])

lemma storage_heap:
  assumes "storage_laws api live objs ops"
  shows "fst (TEE_Malloc api v m) = 0 \<Longrightarrow> live (snd (TEE_Malloc api v m)) = live m"
    "fst (TEE_Malloc api v m) \<noteq> 0 \<Longrightarrow> live (snd (TEE_Malloc api v m)) = insert (fst (TEE_Malloc api v m)) (live m)"
    "fst (TEE_Malloc api v m) \<noteq> 0 \<Longrightarrow> fst (TEE_Malloc api v m) \<notin> live m"
    "live (TEE_Free api p m) = live m - {p}"
    "ops (snd (TEE_Malloc api v m)) = ops m" "ops (TEE_Free api p m) = ops m"
proof -
  have h: "heap_laws api live" using assms by (simp add: storage_laws_def)
  show "fst (TEE_Malloc api v m) = 0 \<Longrightarrow> live (snd (TEE_Malloc api v m)) = live m"
    "fst (TEE_Malloc api v m) \<noteq> 0 \<Longrightarrow> live (snd (TEE_Malloc api v m)) = insert (fst (TEE_Malloc api v m)) (live m)"
    "fst (TEE_Malloc api v m) \<noteq> 0 \<Longrightarrow> fst (TEE_Malloc api v m) \<notin> live m"
    using malloc_law [OF h prod.collapse [symmetric], of v m] by (simp_all split: if_splits)
  show "live (TEE_Free api p m) = live m - {p}" by (rule live_free [OF h])
  show "ops (snd (TEE_Malloc api v m)) = ops m" "ops (TEE_Free api p m) = ops m"
    using assms by (simp_all add: storage_laws_def)
qed

text \<open>A command that ends with the blocks and the operations it started with\<close>

definition balanced :: "('m \<Rightarrow> ptr set) \<Rightarrow> ('m \<Rightarrow> size_t set) \<Rightarrow> 'm \<Rightarrow> 'm \<Rightarrow> bool" where
  "balanced live ops m m' \<longleftrightarrow> live m' = live m \<and> ops m' = ops m"

lemma simple_commands_balanced:
  assumes l: "storage_laws api live objs ops"
  shows "balanced live ops m (snd (snd (ta_storage_cmd_open api c t params m)))"
    "balanced live ops m (snd (snd (ta_storage_cmd_create api c t params m)))"
    "balanced live ops m (snd (snd (ta_storage_cmd_create_overwrite api c t params m)))"
    "balanced live ops m (snd (snd (ta_storage_cmd_rename api c t params m)))"
    "balanced live ops m (snd (snd (ta_storage_cmd_close api t params m)))"
    "balanced live ops m (snd (snd (ta_storage_cmd_read api t params m)))"
    "balanced live ops m (snd (snd (ta_storage_cmd_write api t params m)))"
    "balanced live ops m (snd (snd (ta_storage_cmd_seek api t params m)))"
    "balanced live ops m (snd (snd (ta_storage_cmd_unlink api t params m)))"
    "balanced live ops m (snd (snd (ta_storage_cmd_trunc api t params m)))"
    "balanced live ops m (snd (snd (ta_storage_cmd_restrict_usage api t params m)))"
    "balanced live ops m (snd (snd (ta_storage_cmd_alloc_obj api t params m)))"
    "balanced live ops m (snd (snd (ta_storage_cmd_free_obj api t params m)))"
    "balanced live ops m (snd (snd (ta_storage_cmd_reset_obj api t params m)))"
    "balanced live ops m (snd (snd (ta_storage_cmd_alloc_enum api t params m)))"
    "balanced live ops m (snd (snd (ta_storage_cmd_free_enum api t params m)))"
    "balanced live ops m (snd (snd (ta_storage_cmd_reset_enum api t params m)))"
    "balanced live ops m (snd (snd (ta_storage_cmd_start_enum api t params m)))"
    "balanced live ops m (snd (snd (ta_storage_cmd_next_enum api t params m)))"
  by (simp_all add: balanced_def ta_storage_cmd_open_def ta_storage_cmd_create_def ta_storage_cmd_create_overwrite_def
      ta_storage_cmd_rename_def ta_storage_cmd_close_def ta_storage_cmd_read_def ta_storage_cmd_write_def
      ta_storage_cmd_seek_def ta_storage_cmd_unlink_def ta_storage_cmd_trunc_def ta_storage_cmd_restrict_usage_def
      ta_storage_cmd_alloc_obj_def ta_storage_cmd_free_obj_def ta_storage_cmd_reset_obj_def ta_storage_cmd_alloc_enum_def
      ta_storage_cmd_free_enum_def ta_storage_cmd_reset_enum_def ta_storage_cmd_start_enum_def ta_storage_cmd_next_enum_def
      Let_def split_beta storage_calm [OF l] storage_heap [OF l])

lemma get_obj_info_balanced:
  assumes l: "storage_laws api live objs ops" and "ta_storage_cmd_get_obj_info api t params m = Some (res, ps, m')"
  shows "balanced live ops m m'"
  using assms(2)
  by (auto simp: balanced_def ta_storage_cmd_get_obj_info_def split_beta storage_calm [OF l] split: if_splits option.splits)

text \<open>The loop and the stored key also give back the objects, but for the two checks of the key.\<close>

lemma storage_opens:
  assumes "storage_laws api live objs ops"
  shows "opens live objs ops m (TEE_OpenPersistentObject api stor i n f m)"
    "opens live objs ops m (TEE_CreatePersistentObject api stor i n f h d k True m)"
    "opens live objs ops m (TEE_AllocateTransientObject api n k m)"
    "opens live ops objs m (TEE_AllocateOperation api n k c m)"
  using assms by (simp_all add: storage_laws_def)

lemma storage_closes:
  assumes "storage_laws api live objs ops"
  shows "closes live objs ops h m (TEE_CloseObject api h m)"
    "closes live objs ops h m (snd (TEE_CloseAndDeletePersistentObject1 api h m))"
    "closes live objs ops h m (TEE_FreeTransientObject api h m)"
  using assms by (simp_all add: storage_laws_def)

lemma storage_loop_balanced:
  assumes l: "storage_laws api live objs ops"
  shows "balanced live ops m (snd (storage_loop api s js m)) \<and> objs (snd (storage_loop api s js m)) = objs m"
proof (induction js arbitrary: m)
  case Nil
  show ?case by (simp add: balanced_def)
next
  case (Cons i js)
  obtain res h m1 where c: "TEE_CreatePersistentObject api s (le32 (of_nat i)) 4
      (TEE_DATA_FLAG_OVERWRITE OR TEE_DATA_FLAG_ACCESS_WRITE_META) 0 [] 0 True m = (res, h, m1)" by (metis prod_cases3)
  have "opens live objs ops m (res, h, m1)" using storage_opens(2) [OF l] c by metis
  then have o: "live m1 = live m" "ops m1 = ops m" "res = TEE_SUCCESS \<Longrightarrow> h \<notin> objs m \<and> objs m1 = insert h (objs m)"
    "res \<noteq> TEE_SUCCESS \<Longrightarrow> objs m1 = objs m"
    by (simp_all add: opens_def)
  obtain res2 m2 where d: "TEE_CloseAndDeletePersistentObject1 api h m1 = (res2, m2)" by fastforce
  have e: "live m2 = live m1" "ops m2 = ops m1" "objs m2 = objs m1 - {h}"
    using storage_closes(2) [OF l, of h m1] d by (simp_all add: closes_def)
  show ?case
    using Cons.IH [of m2] o e by (auto simp: c d balanced_def)
qed

lemma use_stored_key_balanced:
  assumes l: "storage_laws api live objs ops"
  shows "balanced live ops m (snd (use_stored_key api key info m)) \<and> objs (snd (use_stored_key api key info m)) = objs m - {key}"
proof -
  obtain r1 op m1 where a: "TEE_AllocateOperation api TEE_ALG_AES_CBC_NOPAD TEE_MODE_ENCRYPT (maxKeySize info) m = (r1, op, m1)"
    by (metis prod_cases3)
  have "opens live ops objs m (r1, op, m1)" using storage_opens(4) [OF l] a by metis
  then have o: "live m1 = live m" "objs m1 = objs m" "r1 = TEE_SUCCESS \<Longrightarrow> op \<notin> ops m \<and> ops m1 = insert op (ops m)"
    "r1 \<noteq> TEE_SUCCESS \<Longrightarrow> ops m1 = ops m"
    by (simp_all add: opens_def)
  have f: "live (TEE_FreeOperation api op x) = live x" "ops (TEE_FreeOperation api op x) = ops x - {op}" for x
    using l by (simp_all add: storage_laws_def)
  obtain r2 m2 where b: "TEE_SetOperationKey api op key m1 = (r2, m2)" by fastforce
  obtain iv m3 where c: "TEE_Malloc api 16 m2 = (iv, m3)" by fastforce
  note rules = storage_calm [OF l] storage_objs [OF l] storage_heap [OF l] f
  have m2: "live m2 = live m" "ops m2 = ops m1" "objs m2 = objs m"
    using b o rules by (metis snd_conv)+
  have m3: "iv = 0 \<Longrightarrow> live m3 = live m" "iv \<noteq> 0 \<Longrightarrow> live m3 = insert iv (live m) \<and> iv \<notin> live m"
      "ops m3 = ops m1" "objs m3 = objs m"
    using c m2 storage_heap [OF l, of 16 m2] storage_objs(9) [OF l, of 16 m2] by simp_all
  have "balanced live ops m (snd (use_stored_key api key info m))"
    using o m2 m3 by (auto simp: use_stored_key_def a b c balanced_def Let_def split_beta rules)
  moreover have "objs (snd (use_stored_key api key info m)) = objs m - {key}"
    using o m2 m3 by (simp add: use_stored_key_def a b c Let_def split_beta rules)
  ultimately show ?thesis by blast
qed

text \<open>
  Storing the key gives back everything but one handle on two paths, those where the information of the
  stored key differs from what it should be: the source then leaves without closing that handle.
\<close>

definition one_leak :: "('m \<Rightarrow> size_t set) \<Rightarrow> 'm \<Rightarrow> 'm \<Rightarrow> bool" where
  "one_leak objs m m' \<longleftrightarrow> (\<exists>h. h \<notin> objs m \<and> objs m' = insert h (objs m))"

lemma check_obj_results: "check_obj a b = TEE_SUCCESS \<or> check_obj a b = TEE_ERROR_GENERIC"
  by (simp add: check_obj_def)

lemma store_and_use_key_balanced:
  assumes l: "storage_laws api live objs ops" and r: "store_and_use_key api stor tk m = (res, m')"
  shows "balanced live ops m m' \<and> (objs m' = objs m \<or> (res = TEE_ERROR_GENERIC \<and> one_leak objs m m'))"
proof -
  obtain r1 m1 where a: "TEE_GenerateKey api tk 256 m = (r1, m1)" by fastforce
  obtain r2 i2 m2 where b: "TEE_GetObjectInfo1 api tk zero_info m1 = (r2, i2, m2)" by (metis prod_cases3)
  obtain r3 pk m3 where c: "TEE_CreatePersistentObject api stor key_object_id 4 key_flags tk [] 0 True m2 = (r3, pk, m3)"
    by (metis prod_cases3)
  obtain r4 i4 m4 where d: "TEE_GetObjectInfo1 api pk zero_info m3 = (r4, i4, m4)" by (metis prod_cases3)
  obtain r6 key m6 where f: "TEE_OpenPersistentObject api stor key_object_id 4 key_flags (TEE_CloseObject api pk m4) = (r6, key, m6)"
    by (metis prod_cases3)
  obtain i7 m7 where g: "TEE_GetObjectInfo api key zero_info m6 = (i7, m7)" by fastforce
  note rules = storage_calm [OF l] storage_objs [OF l]
  have m1: "live m1 = live m" "ops m1 = ops m" "objs m1 = objs m" using a rules by (metis snd_conv)+
  have m2: "live m2 = live m" "ops m2 = ops m" "objs m2 = objs m" using b m1 rules by (metis snd_conv)+
  have "opens live objs ops m2 (r3, pk, m3)" using storage_opens(2) [OF l] c by metis
  then have m3: "live m3 = live m" "ops m3 = ops m" "r3 = TEE_SUCCESS \<Longrightarrow> pk \<notin> objs m \<and> objs m3 = insert pk (objs m)"
    "r3 \<noteq> TEE_SUCCESS \<Longrightarrow> objs m3 = objs m"
    by (simp_all add: opens_def m2)
  have m4: "live m4 = live m" "ops m4 = ops m" "objs m4 = objs m3" using d m3 rules by (metis snd_conv)+
  have "opens live objs ops (TEE_CloseObject api pk m4) (r6, key, m6)" using storage_opens(1) [OF l] f by metis
  then have m6: "live m6 = live m" "ops m6 = ops m" "r6 = TEE_SUCCESS \<Longrightarrow> key \<notin> objs m3 - {pk} \<and> objs m6 = insert key (objs m3 - {pk})"
    "r6 \<noteq> TEE_SUCCESS \<Longrightarrow> objs m6 = objs m3 - {pk}"
    by (simp_all add: opens_def rules m4)
  have m7: "live m7 = live m" "ops m7 = ops m" "objs m7 = objs m6" using g m6 rules by (metis snd_conv)+
  note used = use_stored_key_balanced [OF l, of m7 key i7]
  have e: "(res, m') = (if r1 \<noteq> TEE_SUCCESS then (r1, m1) else if r3 \<noteq> TEE_SUCCESS then (r3, m3)
      else if check_obj i2 i4 \<noteq> TEE_SUCCESS then (check_obj i2 i4, m4) else if r6 \<noteq> TEE_SUCCESS then (r6, m6)
      else if check_obj i7 i4 \<noteq> TEE_SUCCESS then (check_obj i7 i4, m7) else use_stored_key api key i7 m7)"
    unfolding r [symmetric] by (simp add: store_and_use_key_def a b c d f g)
  consider "r1 \<noteq> TEE_SUCCESS" "res = r1" "m' = m1"
    | "r3 \<noteq> TEE_SUCCESS" "res = r3" "m' = m3"
    | "r3 = TEE_SUCCESS" "res = TEE_ERROR_GENERIC" "m' = m4"
    | "r3 = TEE_SUCCESS" "r6 \<noteq> TEE_SUCCESS" "m' = m6"
    | "r3 = TEE_SUCCESS" "r6 = TEE_SUCCESS" "res = TEE_ERROR_GENERIC" "m' = m7"
    | "r3 = TEE_SUCCESS" "r6 = TEE_SUCCESS" "m' = snd (use_stored_key api key i7 m7)"
    using e check_obj_results [of i2 i4] check_obj_results [of i7 i4] by (simp split: if_splits) (metis snd_conv)+
  then show ?thesis
  proof cases
    case 1 then show ?thesis using m1 by (simp add: balanced_def)
  next
    case 2 then show ?thesis using m3 by (simp add: balanced_def)
  next
    case 3 then show ?thesis using m3 m4 by (auto simp: balanced_def one_leak_def)
  next
    case 4 then show ?thesis using m3 m6 by (auto simp: balanced_def)
  next
    case 5 then show ?thesis using m3 m6 m7 by (auto simp: balanced_def one_leak_def)
  next
    case 6 then show ?thesis using m3 m6 m7 used by (auto simp: balanced_def)
  qed
qed

lemma key_in_persistent_balanced:
  assumes l: "storage_laws api live objs ops" and r: "ta_storage_cmd_key_in_persistent api t params m = (res, ps, m')"
  shows "balanced live ops m m' \<and> (objs m' = objs m \<or> (res = TEE_ERROR_GENERIC \<and> one_leak objs m m'))"
proof -
  obtain r1 tk m1 where a: "TEE_AllocateTransientObject api TEE_TYPE_AES 256 m = (r1, tk, m1)" by (metis prod_cases3)
  have "opens live objs ops m (r1, tk, m1)" using storage_opens(3) [OF l] a by metis
  then have m1: "live m1 = live m" "ops m1 = ops m" "r1 = TEE_SUCCESS \<Longrightarrow> tk \<notin> objs m \<and> objs m1 = insert tk (objs m)"
    "r1 \<noteq> TEE_SUCCESS \<Longrightarrow> objs m1 = objs m"
    by (simp_all add: opens_def)
  obtain r2 m2 where b: "store_and_use_key api (val_a (p0 params)) tk m1 = (r2, m2)" by fastforce
  note key = store_and_use_key_balanced [OF l b]
  note free = storage_calm(11,12) [OF l, of tk m2] storage_closes(3) [OF l, of tk m2]
  consider "value_types \<noteq> t \<or> r1 \<noteq> TEE_SUCCESS" "m' = m \<or> (r1 \<noteq> TEE_SUCCESS \<and> m' = m1)"
    | "r1 = TEE_SUCCESS" "res = r2" "m' = TEE_FreeTransientObject api tk m2"
    using r by (fastforce simp: ta_storage_cmd_key_in_persistent_def a b split: if_splits)
  then show ?thesis
  proof cases
    case 1 then show ?thesis using m1 by (auto simp: balanced_def)
  next
    case 2
    then have o: "tk \<notin> objs m" "objs m1 = insert tk (objs m)" using m1 by blast+
    have e: "objs m' = objs m2 - {tk}" "live m' = live m2" "ops m' = ops m2" using free 2 by (simp_all add: closes_def)
    have "balanced live ops m m'" using key e m1 by (simp add: balanced_def)
    moreover have "objs m' = objs m \<or> (res = TEE_ERROR_GENERIC \<and> one_leak objs m m')"
      using key e o 2(2) unfolding one_leak_def by (auto simp: insert_commute Diff_insert_absorb)
    ultimately show ?thesis by blast
  qed
qed

section \<open>The handles each command opens and closes\<close>

text \<open>An opening command that succeeds has told the client the handle it opened.\<close>

definition opened_for_client :: "('m \<Rightarrow> size_t set) \<Rightarrow> uint32 \<Rightarrow> TEE_Result \<Rightarrow> 'm \<Rightarrow> 'm \<Rightarrow> bool" where
  "opened_for_client objs v res m m' \<longleftrightarrow>
     (if res = TEE_SUCCESS then \<exists>h. h \<notin> objs m \<and> objs m' = insert h (objs m) \<and> v = ucast h else objs m' = objs m)"

definition closed_for_client :: "('m \<Rightarrow> size_t set) \<Rightarrow> uint32 \<Rightarrow> TEE_Result \<Rightarrow> 'm \<Rightarrow> 'm \<Rightarrow> bool" where
  "closed_for_client objs v res m m' \<longleftrightarrow>
     objs m' = (if res = TEE_SUCCESS then objs m - {STORAGE_VAL2HANDLE v} else objs m)"

lemma opening_commands:
  assumes l: "storage_laws api live objs ops"
  shows "ta_storage_cmd_open api c t params m = (res, ps, m') \<Longrightarrow> opened_for_client objs (val_b (p1 ps)) res m m'"
    "ta_storage_cmd_create api c t params m = (res, ps, m') \<Longrightarrow> opened_for_client objs (val_b (p1 ps)) res m m'"
    "ta_storage_cmd_alloc_obj api t params m = (res, ps, m') \<Longrightarrow> opened_for_client objs (val_a (p1 ps)) res m m'"
proof -
  note rules = storage_objs [OF l]
  note new = storage_opens [OF l, unfolded opens_def]
  have no: "TEE_ERROR_BAD_PARAMETERS \<noteq> TEE_SUCCESS" "TEE_ERROR_OUT_OF_MEMORY \<noteq> TEE_SUCCESS" "TEE_ERROR_NOT_SUPPORTED \<noteq> TEE_SUCCESS"
    by (simp_all add: TEE_ERROR_BAD_PARAMETERS_def TEE_ERROR_OUT_OF_MEMORY_def TEE_ERROR_NOT_SUPPORTED_def TEE_SUCCESS_def)
  show "ta_storage_cmd_open api c t params m = (res, ps, m') \<Longrightarrow> opened_for_client objs (val_b (p1 ps)) res m m'"
    using new(1) [where stor = "val_a (p2 params)" and i = "mbuf (p0 params)" and n = "msize (p0 params)" and f = "val_a (p1 params)"
        and m = "snd (TEE_Malloc api (ucast (msize (p0 params))) m)"]
      new(1) [where stor = "val_a (p2 params)" and i = "mbuf (p0 params)" and n = "msize (p0 params)" and f = "val_a (p1 params)"
        and m = m]
    by (auto simp: ta_storage_cmd_open_def opened_for_client_def split_beta Let_def rules no split: if_splits)
  show "ta_storage_cmd_create api c t params m = (res, ps, m') \<Longrightarrow> opened_for_client objs (val_b (p1 ps)) res m m'"
    using new(2) [where stor = "val_b (p2 params)" and i = "mbuf (p0 params)" and n = "msize (p0 params)" and f = "val_a (p1 params)"
        and h = "STORAGE_VAL2HANDLE (val_a (p2 params))" and d = "mbuf (p3 params)" and k = "msize (p3 params)" and m = "snd (TEE_Malloc api (ucast (msize (p0 params))) m)"]
      new(2) [where stor = "val_b (p2 params)" and i = "mbuf (p0 params)" and n = "msize (p0 params)" and f = "val_a (p1 params)"
        and h = "STORAGE_VAL2HANDLE (val_a (p2 params))" and d = "mbuf (p3 params)" and k = "msize (p3 params)" and m = m]
    by (auto simp: ta_storage_cmd_create_def opened_for_client_def split_beta Let_def rules no split: if_splits)
  show "ta_storage_cmd_alloc_obj api t params m = (res, ps, m') \<Longrightarrow> opened_for_client objs (val_a (p1 ps)) res m m'"
    using new(3) [where n = "val_a (p0 params)" and k = "val_b (p0 params)" and m = m]
    by (auto simp: ta_storage_cmd_alloc_obj_def opened_for_client_def split_beta Let_def rules no split: if_splits)
qed

lemma closing_commands:
  assumes l: "storage_laws api live objs ops"
  shows "ta_storage_cmd_close api t params m = (res, ps, m') \<Longrightarrow> closed_for_client objs (val_a (p0 params)) res m m'"
    "ta_storage_cmd_unlink api t params m = (res, ps, m') \<Longrightarrow> closed_for_client objs (val_a (p0 params)) res m m'"
    "ta_storage_cmd_free_obj api t params m = (res, ps, m') \<Longrightarrow> closed_for_client objs (val_a (p0 params)) res m m'"
  by (auto simp: closed_for_client_def ta_storage_cmd_close_def ta_storage_cmd_unlink_def ta_storage_cmd_free_obj_def
      split_beta storage_objs [OF l] TEE_ERROR_BAD_PARAMETERS_def TEE_SUCCESS_def split: if_splits)

lemma quiet_commands:
  assumes l: "storage_laws api live objs ops"
  shows "objs (snd (snd (ta_storage_cmd_create_overwrite api c t params m))) = objs m"
    "objs (snd (snd (ta_storage_cmd_rename api c t params m))) = objs m"
    "objs (snd (snd (ta_storage_cmd_read api t params m))) = objs m"
    "objs (snd (snd (ta_storage_cmd_write api t params m))) = objs m"
    "objs (snd (snd (ta_storage_cmd_seek api t params m))) = objs m"
    "objs (snd (snd (ta_storage_cmd_trunc api t params m))) = objs m"
    "objs (snd (snd (ta_storage_cmd_restrict_usage api t params m))) = objs m"
    "objs (snd (snd (ta_storage_cmd_reset_obj api t params m))) = objs m"
    "objs (snd (snd (ta_storage_cmd_alloc_enum api t params m))) = objs m"
    "objs (snd (snd (ta_storage_cmd_free_enum api t params m))) = objs m"
    "objs (snd (snd (ta_storage_cmd_reset_enum api t params m))) = objs m"
    "objs (snd (snd (ta_storage_cmd_start_enum api t params m))) = objs m"
    "objs (snd (snd (ta_storage_cmd_next_enum api t params m))) = objs m"
  by (simp_all add: ta_storage_cmd_create_overwrite_def ta_storage_cmd_rename_def ta_storage_cmd_read_def
      ta_storage_cmd_write_def ta_storage_cmd_seek_def ta_storage_cmd_trunc_def ta_storage_cmd_restrict_usage_def
      ta_storage_cmd_reset_obj_def ta_storage_cmd_alloc_enum_def ta_storage_cmd_free_enum_def
      ta_storage_cmd_reset_enum_def ta_storage_cmd_start_enum_def ta_storage_cmd_next_enum_def
      Let_def split_beta storage_quiet [OF l] storage_objs [OF l])

lemma loop_command:
  assumes l: "storage_laws api live objs ops"
  shows "balanced live ops m (snd (snd (ta_storage_cmd_loop api t params m)))"
    "objs (snd (snd (ta_storage_cmd_loop api t params m))) = objs m"
  using storage_loop_balanced [OF l, where s = "val_a (p0 params)" and js = "[0..<20]" and m = m]
  by (simp_all add: ta_storage_cmd_loop_def balanced_def split_beta del: upt.simps upt_rec_numeral)

lemma get_obj_info_quiet:
  assumes "storage_laws api live objs ops" and "ta_storage_cmd_get_obj_info api t params m = Some (res, ps, m')"
  shows "objs m' = objs m"
  using assms(2) by (auto simp: ta_storage_cmd_get_obj_info_def split_beta storage_objs [OF assms(1)] split: if_splits option.splits)

section \<open>What a command leaves behind\<close>

definition opening_commands_of :: "uint32 set" where
  "opening_commands_of = {TA_STORAGE_CMD_OPEN, TA_STORAGE_CMD_OPEN_ID_IN_SHM, TA_STORAGE_CMD_CREATE,
     TA_STORAGE_CMD_CREATE_ID_IN_SHM, TA_STORAGE_CMD_ALLOC_OBJ}"

definition closing_commands_of :: "uint32 set" where
  "closing_commands_of = {TA_STORAGE_CMD_CLOSE, TA_STORAGE_CMD_UNLINK, TA_STORAGE_CMD_FREE_OBJ}"

text \<open>
  The contract of a command: no block and no operation is left over, an opening command has opened
  exactly the handle it tells, a closing one has closed exactly the handle it got, and the others have
  opened and closed none, but for the leak of the stored key.
\<close>

definition storage_accounts ::
  "('m \<Rightarrow> ptr set) \<Rightarrow> ('m \<Rightarrow> size_t set) \<Rightarrow> ('m \<Rightarrow> size_t set) \<Rightarrow> uint32 \<Rightarrow> tee_params \<Rightarrow> 'm \<Rightarrow> 'm storage_res \<Rightarrow> bool" where
  "storage_accounts live objs ops cmd params m r \<longleftrightarrow>
     (let (res, ps, m') = r
      in balanced live ops m m' \<and>
        (if cmd \<in> opening_commands_of then
           opened_for_client objs (if cmd = TA_STORAGE_CMD_ALLOC_OBJ then val_a (p1 ps) else val_b (p1 ps)) res m m'
         else if cmd \<in> closing_commands_of then closed_for_client objs (val_a (p0 params)) res m m'
         else objs m' = objs m \<or>
           (cmd = TA_STORAGE_CMD_KEY_IN_PERSISTENT \<and> res = TEE_ERROR_GENERIC \<and> one_leak objs m m')))"

lemmas accounts_defs = storage_accounts_def opening_commands_of_def closing_commands_of_def storage_cmd_defs

lemma triple: "r = (fst r, fst (snd r), snd (snd r))"
  by simp

lemma quiet_accounts:
  assumes l: "storage_laws api live objs ops"
  shows "storage_accounts live objs ops TA_STORAGE_CMD_CREATE_OVERWRITE params m (ta_storage_cmd_create_overwrite api TA_STORAGE_CMD_CREATE_OVERWRITE t params m)"
    "storage_accounts live objs ops TA_STORAGE_CMD_CREATEOVER_ID_IN_SHM params m (ta_storage_cmd_create_overwrite api TA_STORAGE_CMD_CREATEOVER_ID_IN_SHM t params m)"
    "storage_accounts live objs ops TA_STORAGE_CMD_RENAME params m (ta_storage_cmd_rename api TA_STORAGE_CMD_RENAME t params m)"
    "storage_accounts live objs ops TA_STORAGE_CMD_RENAME_ID_IN_SHM params m (ta_storage_cmd_rename api TA_STORAGE_CMD_RENAME_ID_IN_SHM t params m)"
    "storage_accounts live objs ops TA_STORAGE_CMD_READ params m (ta_storage_cmd_read api t params m)"
    "storage_accounts live objs ops TA_STORAGE_CMD_WRITE params m (ta_storage_cmd_write api t params m)"
    "storage_accounts live objs ops TA_STORAGE_CMD_SEEK params m (ta_storage_cmd_seek api t params m)"
    "storage_accounts live objs ops TA_STORAGE_CMD_TRUNC params m (ta_storage_cmd_trunc api t params m)"
    "storage_accounts live objs ops TA_STORAGE_CMD_RESTRICT_USAGE params m (ta_storage_cmd_restrict_usage api t params m)"
    "storage_accounts live objs ops TA_STORAGE_CMD_RESET_OBJ params m (ta_storage_cmd_reset_obj api t params m)"
    "storage_accounts live objs ops TA_STORAGE_CMD_ALLOC_ENUM params m (ta_storage_cmd_alloc_enum api t params m)"
    "storage_accounts live objs ops TA_STORAGE_CMD_FREE_ENUM params m (ta_storage_cmd_free_enum api t params m)"
    "storage_accounts live objs ops TA_STORAGE_CMD_RESET_ENUM params m (ta_storage_cmd_reset_enum api t params m)"
    "storage_accounts live objs ops TA_STORAGE_CMD_START_ENUM params m (ta_storage_cmd_start_enum api t params m)"
    "storage_accounts live objs ops TA_STORAGE_CMD_NEXT_ENUM params m (ta_storage_cmd_next_enum api t params m)"
    "storage_accounts live objs ops TA_STORAGE_CMD_LOOP params m (ta_storage_cmd_loop api t params m)"
  by (simp_all add: accounts_defs split_beta simple_commands_balanced [OF l] quiet_commands [OF l] loop_command [OF l])

lemma opening_accounts:
  assumes l: "storage_laws api live objs ops"
  shows "storage_accounts live objs ops TA_STORAGE_CMD_OPEN params m (ta_storage_cmd_open api TA_STORAGE_CMD_OPEN t params m)"
    "storage_accounts live objs ops TA_STORAGE_CMD_OPEN_ID_IN_SHM params m
      (ta_storage_cmd_open api TA_STORAGE_CMD_OPEN_ID_IN_SHM t params m)"
    "storage_accounts live objs ops TA_STORAGE_CMD_CREATE params m (ta_storage_cmd_create api TA_STORAGE_CMD_CREATE t params m)"
    "storage_accounts live objs ops TA_STORAGE_CMD_CREATE_ID_IN_SHM params m
      (ta_storage_cmd_create api TA_STORAGE_CMD_CREATE_ID_IN_SHM t params m)"
    "storage_accounts live objs ops TA_STORAGE_CMD_ALLOC_OBJ params m (ta_storage_cmd_alloc_obj api t params m)"
  by (simp_all add: accounts_defs split_beta simple_commands_balanced [OF l] opening_commands(1) [OF l triple]
      opening_commands(2) [OF l triple] opening_commands(3) [OF l triple])

lemma closing_accounts:
  assumes l: "storage_laws api live objs ops"
  shows "storage_accounts live objs ops TA_STORAGE_CMD_CLOSE params m (ta_storage_cmd_close api t params m)"
    "storage_accounts live objs ops TA_STORAGE_CMD_UNLINK params m (ta_storage_cmd_unlink api t params m)"
    "storage_accounts live objs ops TA_STORAGE_CMD_FREE_OBJ params m (ta_storage_cmd_free_obj api t params m)"
  by (simp_all add: accounts_defs split_beta simple_commands_balanced [OF l] closing_commands(1) [OF l triple]
      closing_commands(2) [OF l triple] closing_commands(3) [OF l triple])

lemma key_accounts:
  assumes l: "storage_laws api live objs ops"
  shows "storage_accounts live objs ops TA_STORAGE_CMD_KEY_IN_PERSISTENT params m (ta_storage_cmd_key_in_persistent api t params m)"
  using key_in_persistent_balanced [OF l triple] by (simp add: accounts_defs split_beta)

lemma refusal_accounts:
  assumes "storage_laws api live objs ops"
  shows "storage_accounts live objs ops cmd params m (TEE_ERROR_BAD_PARAMETERS, params, m)"
  by (simp add: storage_accounts_def balanced_def opened_for_client_def closed_for_client_def
      TEE_ERROR_BAD_PARAMETERS_def TEE_SUCCESS_def)

lemma some_if:
  "(c \<Longrightarrow> \<exists>r. x = Some r \<and> P r) \<Longrightarrow> (\<not> c \<Longrightarrow> \<exists>r. y = Some r \<and> P r) \<Longrightarrow> \<exists>r. (if c then x else y) = Some r \<and> P r"
  by simp

lemma get_obj_info_returns:
  assumes "28 \<le> length (mbuf (p1 params))"
  shows "\<exists>r. ta_storage_cmd_get_obj_info api t params m = Some r"
  using assms
  by (simp add: ta_storage_cmd_get_obj_info_def split_beta info_bytes_def le32_def sizeof_object_info_def memcpy_def)

lemma storage_command_accounts:
  assumes l: "storage_laws api live objs ops"
    and room: "cmd = TA_STORAGE_CMD_GET_OBJ_INFO \<Longrightarrow> 28 \<le> length (mbuf (p1 params))"
  shows "\<exists>r. storage_invoke api cmd types params m = Some r \<and> storage_accounts live objs ops cmd params m r"
proof (cases "cmd = TA_STORAGE_CMD_GET_OBJ_INFO")
  case True
  then obtain res ps m' where r: "ta_storage_cmd_get_obj_info api types params m = Some (res, ps, m')"
    using get_obj_info_returns [OF room] by (metis prod_cases3)
  moreover have "storage_invoke api cmd types params m = ta_storage_cmd_get_obj_info api types params m"
    unfolding True by (simp add: storage_invoke_def storage_cmd_defs)
  ultimately show ?thesis
    using True get_obj_info_balanced [OF l r] get_obj_info_quiet [OF l r] by (simp add: accounts_defs)
next
  case False
  note facts = opening_accounts [OF l] closing_accounts [OF l] quiet_accounts [OF l] key_accounts [OF l] refusal_accounts [OF l]
  show ?thesis
    unfolding storage_invoke_def using False by (intro some_if; (elim disjE)?; simp add: facts)
qed

interpretation storage: total_command_set "storage_invoke api" "balanced live ops"
    "\<lambda>cmd params. storage_laws api live objs ops \<and> (cmd = TA_STORAGE_CMD_GET_OBJ_INFO \<longrightarrow> 28 \<le> length (mbuf (p1 params)))"
  for api live objs ops
proof unfold_locales
  fix cmd types m res params' m' and params :: tee_params
  assume ok: "storage_laws api live objs ops \<and> (cmd = TA_STORAGE_CMD_GET_OBJ_INFO \<longrightarrow> 28 \<le> length (mbuf (p1 params)))"
  obtain r where r: "storage_invoke api cmd types params m = Some r" "storage_accounts live objs ops cmd params m r"
    using storage_command_accounts [of api live objs ops cmd params types m] ok by auto
  then show "\<exists>r. storage_invoke api cmd types params m = Some r" by blast
  assume "storage_invoke api cmd types params m = Some (res, params', m')"
  with r show "balanced live ops m m'" by (auto simp: storage_accounts_def)
qed (simp_all add: balanced_def)


text \<open>
  APIs for the witnesses start from one that does nothing: each function succeeds without effect or, where
  it would yield something, fails.
\<close>

definition inert_storage :: "'m storage_api" where
  "inert_storage = \<lparr>
     TEE_Malloc = \<lambda>n m. (1, m), TEE_Free = \<lambda>p m. m,
     TEE_OpenPersistentObject = \<lambda>_ _ _ _ m. (TEE_ERROR_ITEM_NOT_FOUND, 0, m),
     TEE_CreatePersistentObject = \<lambda>_ _ _ _ _ _ _ _ m. (TEE_ERROR_OUT_OF_MEMORY, 0, m),
     TEE_CloseObject = \<lambda>_ m. m,
     TEE_CloseAndDeletePersistentObject1 = \<lambda>_ m. (TEE_SUCCESS, m),
     TEE_ReadObjectData = \<lambda>_ buf _ n m. (TEE_SUCCESS, buf, n, m),
     TEE_WriteObjectData = \<lambda>_ _ _ m. (TEE_SUCCESS, m),
     TEE_SeekObjectData = \<lambda>_ _ _ m. (TEE_SUCCESS, m),
     TEE_GetObjectInfo1 = \<lambda>_ _ m. (TEE_SUCCESS, zero_info, m),
     TEE_GetObjectInfo = \<lambda>_ _ m. (zero_info, m),
     TEE_RenamePersistentObject = \<lambda>_ _ _ m. (TEE_SUCCESS, m),
     TEE_TruncateObjectData = \<lambda>_ _ m. (TEE_SUCCESS, m),
     TEE_AllocatePersistentObjectEnumerator = \<lambda>m. (TEE_ERROR_OUT_OF_MEMORY, 0, m),
     TEE_FreePersistentObjectEnumerator = \<lambda>_ m. m,
     TEE_ResetPersistentObjectEnumerator = \<lambda>_ m. m,
     TEE_StartPersistentObjectEnumerator = \<lambda>_ _ m. (TEE_SUCCESS, m),
     TEE_GetNextPersistentObject = \<lambda>_ _ buf n m. (TEE_ERROR_ITEM_NOT_FOUND, [], buf, n, m),
     TEE_AllocateTransientObject = \<lambda>_ _ m. (TEE_ERROR_OUT_OF_MEMORY, 0, m),
     TEE_FreeTransientObject = \<lambda>_ m. m,
     TEE_ResetTransientObject = \<lambda>_ m. m,
     TEE_GenerateKey = \<lambda>_ _ m. (TEE_SUCCESS, m),
     TEE_RestrictObjectUsage1 = \<lambda>_ _ m. m,
     TEE_AllocateOperation = \<lambda>_ _ _ m. (TEE_ERROR_OUT_OF_MEMORY, 0, m),
     TEE_FreeOperation = \<lambda>_ m. m,
     TEE_SetOperationKey = \<lambda>_ _ m. (TEE_SUCCESS, m),
     TEE_CipherInit = \<lambda>_ _ _ m. m,
     stack_info = zero_info\<rparr>"

text \<open>An API for the witness: lists of what is in use; the information of an object names its handle.\<close>

type_synonym storage_lists = "ptr list \<times> size_t list \<times> size_t list"

definition list_open :: "storage_lists \<Rightarrow> TEE_Result \<times> size_t \<times> storage_lists" where
  "list_open m = (let (ps, hs, os) = m; h = foldr max hs 0 + 1
     in if List.member hs h then (TEE_ERROR_OUT_OF_MEMORY, 0, m) else (TEE_SUCCESS, h, (ps, h # hs, os)))"

definition list_close :: "size_t \<Rightarrow> storage_lists \<Rightarrow> storage_lists" where
  "list_close h m = (let (ps, hs, os) = m in (ps, filter (\<lambda>k. k \<noteq> h) hs, os))"

definition list_info :: "size_t \<Rightarrow> TEE_ObjectInfo" where
  "list_info h = zero_info\<lparr>objectUsage := ucast h\<rparr>"

definition list_storage :: "storage_lists storage_api" where
  "list_storage = \<lparr>
     TEE_Malloc = \<lambda>n (ps, r). (let (p, ps) = TEE_Malloc list_heap n ps in (p, ps, r)),
     TEE_Free = \<lambda>p (ps, r). (TEE_Free list_heap p ps, r),
     TEE_OpenPersistentObject = \<lambda>_ _ _ _. list_open,
     TEE_CreatePersistentObject = \<lambda>_ _ _ _ _ _ _ b m. if b then list_open m else (TEE_SUCCESS, 0, m),
     TEE_CloseObject = list_close,
     TEE_CloseAndDeletePersistentObject1 = \<lambda>h m. (TEE_SUCCESS, list_close h m),
     TEE_ReadObjectData = \<lambda>_ buf _ n m. (TEE_SUCCESS, buf, n, m),
     TEE_WriteObjectData = \<lambda>_ _ _ m. (TEE_SUCCESS, m),
     TEE_SeekObjectData = \<lambda>_ _ _ m. (TEE_SUCCESS, m),
     TEE_GetObjectInfo1 = \<lambda>h _ m. (TEE_SUCCESS, list_info h, m),
     TEE_GetObjectInfo = \<lambda>h _ m. (list_info h, m),
     TEE_RenamePersistentObject = \<lambda>_ _ _ m. (TEE_SUCCESS, m),
     TEE_TruncateObjectData = \<lambda>_ _ m. (TEE_SUCCESS, m),
     TEE_AllocatePersistentObjectEnumerator = \<lambda>m. (TEE_SUCCESS, 1, m),
     TEE_FreePersistentObjectEnumerator = \<lambda>_ m. m,
     TEE_ResetPersistentObjectEnumerator = \<lambda>_ m. m,
     TEE_StartPersistentObjectEnumerator = \<lambda>_ _ m. (TEE_SUCCESS, m),
     TEE_GetNextPersistentObject = \<lambda>_ _ buf n m. (TEE_ERROR_ITEM_NOT_FOUND, [], buf, n, m),
     TEE_AllocateTransientObject = \<lambda>_ _. list_open,
     TEE_FreeTransientObject = list_close,
     TEE_ResetTransientObject = \<lambda>_ m. m,
     TEE_GenerateKey = \<lambda>_ _ m. (TEE_SUCCESS, m),
     TEE_RestrictObjectUsage1 = \<lambda>_ _ m. m,
     TEE_AllocateOperation = \<lambda>_ _ _ (ps, hs, os). (let h = foldr max os 0 + 1
       in if List.member os h then (TEE_ERROR_OUT_OF_MEMORY, 0, (ps, hs, os)) else (TEE_SUCCESS, h, (ps, hs, h # os))),
     TEE_FreeOperation = \<lambda>h (ps, hs, os). (ps, hs, filter (\<lambda>k. k \<noteq> h) os),
     TEE_SetOperationKey = \<lambda>_ _ m. (TEE_SUCCESS, m),
     TEE_CipherInit = \<lambda>_ _ _ m. m,
     stack_info = zero_info\<rparr>"

lemma list_storage_laws: "storage_laws list_storage (\<lambda>m. set (fst m) - {0}) (\<lambda>m. set (fst (snd m))) (\<lambda>m. set (snd (snd m)))"
  unfolding storage_laws_def heap_laws_def
  by (intro conjI allI impI)
    (auto simp: list_storage_def list_heap_def fresh_block quiet_def opens_def closes_def list_open_def list_close_def
      Let_def split_beta TEE_SUCCESS_def TEE_ERROR_OUT_OF_MEMORY_def)


text \<open>
  The two flaws on this API, where the stored key has other information than the generated one: the key
  command leaves handle 2 open, and a client's buffer of 8 bytes is overrun.
\<close>

lemma key_leak_example:
  "storage_invoke list_storage TA_STORAGE_CMD_KEY_IN_PERSISTENT value_types zero_params ([], [], []) =
     Some (TEE_ERROR_GENERIC, zero_params, ([], [2], []))"
  by code_simp

lemma info_overrun_example:
  "storage_invoke list_storage TA_STORAGE_CMD_GET_OBJ_INFO (TEE_PARAM_TYPES PT_VALUE_INPUT PT_MEMREF_OUTPUT PT_NONE PT_NONE)
     (zero_params\<lparr>p1 := zero_param\<lparr>mbuf := replicate 8 0, msize := 8\<rparr>\<rparr>) ([], [1], []) = None"
  by code_simp

end
