(* ===== verification/Concurrent.thy ===== *)
theory Concurrent
  imports Ta_Env
begin

text \<open>
  Model of \<open>src/ta/concurrent/ta_entry.c\<close> (and of \<open>src/ta/concurrent_large\<close>, the same code): commands that
  run in many instances at once and count the running ones in memory that all of them share.  A command
  is a thread with a program counter; \<open>conc_next\<close> is its next step, which reads or writes the shared
  counter in one atomic operation, and the threads interleave arbitrarily.
\<close>

definition TA_CONCURRENT_CMD_BUSY_LOOP :: uint32 where "TA_CONCURRENT_CMD_BUSY_LOOP = 0"
definition TA_CONCURRENT_CMD_SHA256 :: uint32 where "TA_CONCURRENT_CMD_SHA256 = 1"
definition TEE_SHA256_HASH_SIZE :: uint32 where "TEE_SHA256_HASH_SIZE = 32"
definition sizeof_concurrent_shm :: uint32 where "sizeof_concurrent_shm = 4"

section \<open>The digest operations\<close>

text \<open>\<open>TEE_DigestDoFinal\<close> gets the input and its size, what the output block holds, and the room in it.\<close>

record 'm digest_api = "'m heap_api" +
  TEE_AllocateOperation :: "uint32 \<Rightarrow> uint32 \<Rightarrow> uint32 \<Rightarrow> 'm \<Rightarrow> TEE_Result \<times> size_t \<times> 'm"
  TEE_FreeOperation :: "size_t \<Rightarrow> 'm \<Rightarrow> 'm"
  TEE_ResetOperation :: "size_t \<Rightarrow> 'm \<Rightarrow> 'm"
  TEE_DigestDoFinal :: "size_t \<Rightarrow> u8 list \<Rightarrow> uint32 \<Rightarrow> u8 list \<Rightarrow> uint32 \<Rightarrow> 'm \<Rightarrow> TEE_Result \<times> u8 list \<times> uint32 \<times> 'm"

section \<open>Threads\<close>

text \<open>
  Where a command stands: before its checks, in the busy loop with the rounds left, before its
  allocations, in the digest loop (rounds left, output block, operation, contents of the block, its
  length, last result), before its cleanup, and after its return.
\<close>

datatype conc_phase =
    Called
  | Spinning nat
  | Preparing
  | Digesting nat ptr size_t "u8 list" uint32 TEE_Result
  | Leaving TEE_Result ptr size_t
  | Exited TEE_Result

record 'm conc_thread =
  tcmd :: uint32
  ttypes :: uint32
  tparams :: tee_params
  tmem :: 'm
  tphase :: conc_phase

definition busy_types :: uint32 where
  "busy_types = TEE_PARAM_TYPES PT_MEMREF_INOUT PT_VALUE_INOUT PT_NONE PT_NONE"

definition sha_types :: uint32 where
  "sha_types = TEE_PARAM_TYPES PT_MEMREF_INOUT PT_VALUE_INOUT PT_MEMREF_INPUT PT_MEMREF_OUTPUT"

text \<open>The checks of the two commands, in the order of the source\<close>

definition busy_accepts :: "uint32 \<Rightarrow> tee_params \<Rightarrow> bool" where
  "busy_accepts types params \<longleftrightarrow> \<not> (types \<noteq> busy_types \<or> msize (p0 params) < sizeof_concurrent_shm)"

definition sha_accepts :: "uint32 \<Rightarrow> tee_params \<Rightarrow> bool" where
  "sha_accepts types params \<longleftrightarrow>
     \<not> (types \<noteq> sha_types \<or> msize (p0 params) < sizeof_concurrent_shm \<or> msize (p3 params) < TEE_SHA256_HASH_SIZE)"

text \<open>\<open>params[1].value.b = inc_active_count(...)\<close>: the counter goes up and the new value is reported.\<close>

definition inc_active_count :: "uint32 \<Rightarrow> 'm conc_thread \<Rightarrow> conc_phase \<Rightarrow> uint32 \<times> 'm conc_thread" where
  "inc_active_count shm t next =
     (shm + 1, t\<lparr>tparams := (tparams t)\<lparr>p1 := (p1 (tparams t))\<lparr>val_b := shm + 1\<rparr>\<rparr>, tphase := next\<rparr>)"

definition dec_active_count :: "uint32 \<Rightarrow> uint32" where "dec_active_count shm = shm - 1"

definition rounds :: "'m conc_thread \<Rightarrow> nat" where "rounds t = unat (val_a (p1 (tparams t)))"

text \<open>One step; \<^term>\<open>None\<close> after the return, and when the digest does not fit the client's buffer.\<close>

definition conc_next :: "('m, 'z) digest_api_scheme \<Rightarrow> uint32 \<Rightarrow> 'm conc_thread \<Rightarrow> (uint32 \<times> 'm conc_thread) option" where
  "conc_next api shm t =
     (let params = tparams t in
      case tphase t of
        Called \<Rightarrow>
          (if tcmd t = TA_CONCURRENT_CMD_BUSY_LOOP then
             if busy_accepts (ttypes t) params then Some (inc_active_count shm t (Spinning (rounds t)))
             else Some (shm, t\<lparr>tphase := Exited TEE_ERROR_BAD_PARAMETERS\<rparr>)
           else if tcmd t = TA_CONCURRENT_CMD_SHA256 then
             if sha_accepts (ttypes t) params then Some (inc_active_count shm t Preparing)
             else Some (shm, t\<lparr>tphase := Exited TEE_ERROR_BAD_PARAMETERS\<rparr>)
           else Some (shm, t\<lparr>tphase := Exited TEE_ERROR_BAD_PARAMETERS\<rparr>))
      | Spinning n \<Rightarrow>
          Some (shm, t\<lparr>tphase := (if n = 0 then Leaving TEE_SUCCESS 0 0 else Spinning (n - 1))\<rparr>)
      | Preparing \<Rightarrow>
          let (out, m) = TEE_Malloc api (ucast (msize (p3 params))) (tmem t)
          in if out = 0 then Some (shm, t\<lparr>tmem := m, tphase := Leaving TEE_ERROR_OUT_OF_MEMORY 0 0\<rparr>)
          else
            let (res, op, m) = TEE_AllocateOperation api TEE_ALG_SHA256 TEE_MODE_DIGEST 0 m
            in if res \<noteq> TEE_SUCCESS then Some (shm, t\<lparr>tmem := m, tphase := Leaving res out op\<rparr>)
            else Some (shm, t\<lparr>tmem := m, tphase := Digesting (rounds t) out op
                   (replicate (unat (msize (p3 params))) 0) (msize (p3 params)) res\<rparr>)
      | Digesting n out op buf out_len res \<Rightarrow>
          if n \<noteq> 0 then
            let m = TEE_ResetOperation api op (tmem t);
                (res, buf, out_len, m) = TEE_DigestDoFinal api op (mbuf (p2 params)) (msize (p2 params)) buf out_len m
            in Some (shm, t\<lparr>tmem := m, tphase := Digesting (n - 1) out op buf out_len res\<rparr>)
          else
            (case memcpy (mbuf (p3 params)) 0 buf (unat out_len) of
              None \<Rightarrow> None
            | Some out_buf \<Rightarrow> Some (shm, t\<lparr>tparams := params\<lparr>p3 := (p3 params)\<lparr>mbuf := out_buf, msize := out_len\<rparr>\<rparr>,
                tphase := Leaving res out op\<rparr>))
      | Leaving res out op \<Rightarrow>
          let m = (if out \<noteq> 0 then TEE_Free api out (tmem t) else tmem t);
              m = (if op \<noteq> 0 then TEE_FreeOperation api op m else m)
          in Some (dec_active_count shm, t\<lparr>tmem := m, tphase := Exited res\<rparr>)
      | Exited res \<Rightarrow> None)"

inductive conc_step :: "('m, 'z) digest_api_scheme \<Rightarrow> uint32 \<times> 'm conc_thread list \<Rightarrow> uint32 \<times> 'm conc_thread list \<Rightarrow> bool"
  for api where
  step: "k < length ts \<Longrightarrow> conc_next api shm (ts ! k) = Some (shm', t') \<Longrightarrow> conc_step api (shm, ts) (shm', ts[k := t'])"

inductive_cases conc_stepE: "conc_step api (shm, ts) s'"

section \<open>Counting\<close>

definition inside :: "'m conc_thread \<Rightarrow> nat" where
  "inside t = (case tphase t of Called \<Rightarrow> 0 | Exited r \<Rightarrow> 0 | _ \<Rightarrow> 1)"

definition accepts :: "'m conc_thread \<Rightarrow> bool" where
  "accepts t \<longleftrightarrow> tcmd t = TA_CONCURRENT_CMD_BUSY_LOOP \<and> busy_accepts (ttypes t) (tparams t) \<or>
     tcmd t = TA_CONCURRENT_CMD_SHA256 \<and> sha_accepts (ttypes t) (tparams t)"

lemma cmds_differ: "TA_CONCURRENT_CMD_SHA256 \<noteq> TA_CONCURRENT_CMD_BUSY_LOOP"
  by (simp add: TA_CONCURRENT_CMD_SHA256_def TA_CONCURRENT_CMD_BUSY_LOOP_def)

lemma conc_next_inside:
  assumes "conc_next api shm t = Some (shm', t')"
  shows "shm' + of_nat (inside t) = shm + of_nat (inside t')"
  using assms
  by (auto simp: conc_next_def inside_def inc_active_count_def dec_active_count_def Let_def
      split: conc_phase.splits if_splits prod.splits option.splits)

lemma sum_list_swap:
  fixes f :: "'a \<Rightarrow> nat"
  assumes "k < length xs"
  shows "sum_list (map f (xs[k := x])) + f (xs ! k) = sum_list (map f xs) + f x"
  using assms
proof (induction xs arbitrary: k)
  case (Cons y ys)
  then show ?case by (cases k) auto
qed simp

definition active :: "'m conc_thread list \<Rightarrow> nat" where "active ts = sum_list (map inside ts)"

lemma active_bound: "active ts \<le> length ts"
proof (induction ts)
  case (Cons t ts)
  have "inside t \<le> 1" by (simp add: inside_def split: conc_phase.split)
  with Cons show ?case by (simp add: active_def)
qed (simp add: active_def)

lemma conc_step_count:
  assumes "conc_step api (shm, ts) (shm', ts')" "shm = c + of_nat (active ts)"
  shows "shm' = c + of_nat (active ts')"
proof -
  from assms(1) obtain k t' where k: "k < length ts" "conc_next api shm (ts ! k) = Some (shm', t')" "ts' = ts[k := t']"
    by (rule conc_stepE) auto
  have "active ts' + inside (ts ! k) = active ts + inside t'"
    using sum_list_swap [OF k(1)] by (simp add: active_def k(3))
  then have "(of_nat (active ts') :: uint32) + of_nat (inside (ts ! k)) = of_nat (active ts) + of_nat (inside t')"
    by (metis of_nat_add)
  moreover have "shm' + of_nat (inside (ts ! k)) = shm + of_nat (inside t')" using conc_next_inside k(2) .
  ultimately have "shm' + of_nat (inside (ts ! k)) = c + of_nat (active ts') + of_nat (inside (ts ! k))"
    using assms(2) by (simp add: add.assoc)
  then show ?thesis by simp
qed

section \<open>What the digest API keeps\<close>

text \<open>
  What the Core API documents of a SHA-256 operation, with \<open>live\<close> the blocks and \<open>ops\<close> the operations
  of an instance: a failed allocation yields the null handle, and a digest into a block with room for
  it never asks for more room than there is.
\<close>

definition digest_laws :: "('m, 'z) digest_api_scheme \<Rightarrow> ('m \<Rightarrow> ptr set) \<Rightarrow> ('m \<Rightarrow> size_t set) \<Rightarrow> bool" where
  "digest_laws api live ops \<longleftrightarrow> heap_laws api live \<and> (\<forall>m. 0 \<notin> ops m) \<and>
     (\<forall>n m. ops (snd (TEE_Malloc api n m)) = ops m) \<and> (\<forall>p m. ops (TEE_Free api p m) = ops m) \<and>
     (\<forall>a d n m res op m'. TEE_AllocateOperation api a d n m = (res, op, m') \<longrightarrow> live m' = live m \<and>
        (if res = TEE_SUCCESS then op \<noteq> 0 \<and> op \<notin> ops m \<and> ops m' = insert op (ops m) else op = 0 \<and> ops m' = ops m)) \<and>
     (\<forall>op m. live (TEE_FreeOperation api op m) = live m \<and> ops (TEE_FreeOperation api op m) = ops m - {op}) \<and>
     (\<forall>op m. live (TEE_ResetOperation api op m) = live m \<and> ops (TEE_ResetOperation api op m) = ops m) \<and>
     (\<forall>op i n buf len m res buf' len' m'. TEE_DigestDoFinal api op i n buf len m = (res, buf', len', m') \<longrightarrow>
        live m' = live m \<and> ops m' = ops m \<and> length buf' = length buf \<and>
        (TEE_SHA256_HASH_SIZE \<le> len \<longrightarrow> TEE_SHA256_HASH_SIZE \<le> len' \<and> len' \<le> len))"

lemma alloc_op_law:
  assumes "digest_laws api live ops" "TEE_AllocateOperation api a d n m = (res, op, m')"
  shows "live m' = live m \<and> (if res = TEE_SUCCESS then op \<noteq> 0 \<and> op \<notin> ops m \<and> ops m' = insert op (ops m) else op = 0 \<and> ops m' = ops m)"
proof -
  have "\<forall>a d n m res op m'. TEE_AllocateOperation api a d n m = (res, op, m') \<longrightarrow> live m' = live m \<and>
      (if res = TEE_SUCCESS then op \<noteq> 0 \<and> op \<notin> ops m \<and> ops m' = insert op (ops m) else op = 0 \<and> ops m' = ops m)"
    using assms(1) unfolding digest_laws_def by (elim conjE)
  with assms(2) show ?thesis by blast
qed

lemma do_final_law:
  assumes "digest_laws api live ops" "TEE_DigestDoFinal api op i n buf len m = (res, buf', len', m')"
  shows "live m' = live m \<and> ops m' = ops m \<and> length buf' = length buf \<and>
    (TEE_SHA256_HASH_SIZE \<le> len \<longrightarrow> TEE_SHA256_HASH_SIZE \<le> len' \<and> len' \<le> len)"
proof -
  have "\<forall>op i n buf len m res buf' len' m'. TEE_DigestDoFinal api op i n buf len m = (res, buf', len', m') \<longrightarrow>
        live m' = live m \<and> ops m' = ops m \<and> length buf' = length buf \<and>
        (TEE_SHA256_HASH_SIZE \<le> len \<longrightarrow> TEE_SHA256_HASH_SIZE \<le> len' \<and> len' \<le> len)"
    using assms(1) unfolding digest_laws_def by (elim conjE)
  with assms(2) show ?thesis by blast
qed

lemma other_op_laws:
  assumes "digest_laws api live ops"
  shows "ops (snd (TEE_Malloc api n m)) = ops m" "ops (TEE_Free api p m) = ops m"
    "live (TEE_FreeOperation api op m) = live m" "ops (TEE_FreeOperation api op m) = ops m - {op}"
    "live (TEE_ResetOperation api op m) = live m" "ops (TEE_ResetOperation api op m) = ops m"
  using assms by (simp_all add: digest_laws_def)

text \<open>How a thread relates to the call it came from\<close>

definition conc_rel ::
  "('m \<Rightarrow> ptr set) \<Rightarrow> ('m \<Rightarrow> size_t set) \<Rightarrow> 'm conc_thread \<Rightarrow> 'm conc_thread \<Rightarrow> bool" where
  "conc_rel live ops t0 t \<longleftrightarrow> tcmd t = tcmd t0 \<and> ttypes t = ttypes t0 \<and>
     (case tphase t of
        Called \<Rightarrow> t = t0
      | Spinning n \<Rightarrow> accepts t0 \<and> live (tmem t) = live (tmem t0) \<and> ops (tmem t) = ops (tmem t0)
      | Preparing \<Rightarrow> accepts t0 \<and> p3 (tparams t) = p3 (tparams t0) \<and> TEE_SHA256_HASH_SIZE \<le> msize (p3 (tparams t0)) \<and>
          live (tmem t) = live (tmem t0) \<and> ops (tmem t) = ops (tmem t0)
      | Digesting n out op buf len res \<Rightarrow> accepts t0 \<and> p3 (tparams t) = p3 (tparams t0) \<and>
          length buf = unat (msize (p3 (tparams t0))) \<and> TEE_SHA256_HASH_SIZE \<le> len \<and> len \<le> msize (p3 (tparams t0)) \<and>
          out \<noteq> 0 \<and> out \<notin> live (tmem t0) \<and> live (tmem t) = insert out (live (tmem t0)) \<and>
          op \<noteq> 0 \<and> op \<notin> ops (tmem t0) \<and> ops (tmem t) = insert op (ops (tmem t0))
      | Leaving res out op \<Rightarrow> accepts t0 \<and>
          (if out = 0 then live (tmem t) = live (tmem t0) else out \<notin> live (tmem t0) \<and> live (tmem t) = insert out (live (tmem t0))) \<and>
          (if op = 0 then ops (tmem t) = ops (tmem t0) else op \<notin> ops (tmem t0) \<and> ops (tmem t) = insert op (ops (tmem t0)))
      | Exited res \<Rightarrow> live (tmem t) = live (tmem t0) \<and> ops (tmem t) = ops (tmem t0) \<and>
          (\<not> accepts t0 \<longrightarrow> res = TEE_ERROR_BAD_PARAMETERS \<and> tparams t = tparams t0))"

lemma conc_rel_preparing:
  assumes l: "digest_laws api live ops" and r: "conc_rel live ops t0 t" and n: "conc_next api shm t = Some (shm', t')"
    and p: "tphase t = Preparing"
  shows "conc_rel live ops t0 t'"
proof -
  have h: "heap_laws api live" using l by (simp add: digest_laws_def)
  obtain out m where a: "TEE_Malloc api (ucast (msize (p3 (tparams t)))) (tmem t) = (out, m)" by fastforce
  obtain res op m' where b: "TEE_AllocateOperation api TEE_ALG_SHA256 TEE_MODE_DIGEST 0 m = (res, op, m')"
    by (metis prod_cases3)
  have bl: "if out = 0 then live m = live (tmem t) else out \<notin> live (tmem t) \<and> live m = insert out (live (tmem t))"
    using malloc_law [OF h a] .
  have op1: "ops m = ops (tmem t)" using other_op_laws(1) [OF l] a by (metis snd_conv)
  note op2 = alloc_op_law [OF l b]
  have eq: "conc_next api shm t = Some (shm, if out = 0 then t\<lparr>tmem := m, tphase := Leaving TEE_ERROR_OUT_OF_MEMORY 0 0\<rparr>
      else if res \<noteq> TEE_SUCCESS then t\<lparr>tmem := m', tphase := Leaving res out op\<rparr>
      else t\<lparr>tmem := m', tphase := Digesting (rounds t) out op
             (replicate (unat (msize (p3 (tparams t)))) 0) (msize (p3 (tparams t))) res\<rparr>)"
    using p by (simp add: conc_next_def a b Let_def)
  have o: "tcmd t = tcmd t0" "ttypes t = ttypes t0" "accepts t0" "p3 (tparams t) = p3 (tparams t0)"
    "TEE_SHA256_HASH_SIZE \<le> msize (p3 (tparams t0))" "live (tmem t) = live (tmem t0)" "ops (tmem t) = ops (tmem t0)"
    using r p by (simp_all add: conc_rel_def)
  consider "out = 0" | "out \<noteq> 0" "res \<noteq> TEE_SUCCESS" | "out \<noteq> 0" "res = TEE_SUCCESS" by blast
  then show ?thesis
  proof cases
    case 1
    then have "t' = t\<lparr>tmem := m, tphase := Leaving TEE_ERROR_OUT_OF_MEMORY 0 0\<rparr>" using eq n by simp
    with 1 bl op1 o show ?thesis by (simp add: conc_rel_def)
  next
    case 2
    then have "t' = t\<lparr>tmem := m', tphase := Leaving res out op\<rparr>" using eq n by simp
    with 2 bl op1 op2 o show ?thesis by (simp add: conc_rel_def)
  next
    case 3
    then have "t' = t\<lparr>tmem := m', tphase := Digesting (rounds t) out op
             (replicate (unat (msize (p3 (tparams t)))) 0) (msize (p3 (tparams t))) res\<rparr>" using eq n by simp
    with 3 bl op1 op2 o show ?thesis by (simp add: conc_rel_def)
  qed
qed

lemma conc_rel_next:
  assumes l: "digest_laws api live ops" and r: "conc_rel live ops t0 t" and n: "conc_next api shm t = Some (shm', t')"
  shows "conc_rel live ops t0 t'"
proof -
  have h: "heap_laws api live" using l by (simp add: digest_laws_def)
  show ?thesis
  proof (cases "tphase t")
    case Called
    with r have "t = t0" by (simp add: conc_rel_def)
    with Called n show ?thesis
      by (auto simp: conc_next_def conc_rel_def inc_active_count_def accepts_def sha_accepts_def cmds_differ Let_def split: if_splits)
  next
    case (Spinning k)
    with n r show ?thesis by (auto simp: conc_next_def conc_rel_def split: if_splits)
  next
    case Preparing
    then show ?thesis by (rule conc_rel_preparing [OF l r n])
  next
    case (Digesting k out op buf len res)
    show ?thesis
    proof (cases "k = 0")
      case True
      with Digesting n r show ?thesis by (auto simp: conc_next_def conc_rel_def Let_def split: option.splits)
    next
      case False
      obtain res' buf' len' m' where d: "TEE_DigestDoFinal api op (mbuf (p2 (tparams t))) (msize (p2 (tparams t))) buf len
          (TEE_ResetOperation api op (tmem t)) = (res', buf', len', m')" by (metis prod_cases4)
      note laws = do_final_law [OF l d] other_op_laws(5,6) [OF l]
      from Digesting False n r laws show ?thesis by (auto simp: conc_next_def conc_rel_def d)
    qed
  next
    case (Leaving res out op)
    with n r show ?thesis
      by (auto simp: conc_next_def conc_rel_def Let_def live_free [OF h] other_op_laws [OF l] split: if_splits)
  next
    case (Exited res)
    with n show ?thesis by (simp add: conc_next_def)
  qed
qed

section \<open>Progress\<close>

text \<open>The steps a thread has left at most\<close>

definition work :: "'m conc_thread \<Rightarrow> nat" where
  "work t = (case tphase t of
      Called \<Rightarrow> rounds t + 4
    | Spinning n \<Rightarrow> n + 2
    | Preparing \<Rightarrow> rounds t + 3
    | Digesting n _ _ _ _ _ \<Rightarrow> n + 2
    | Leaving _ _ _ \<Rightarrow> 1
    | Exited _ \<Rightarrow> 0)"

lemma conc_next_work: "conc_next api shm t = Some (shm', t') \<Longrightarrow> work t' < work t"
  by (auto simp: conc_next_def work_def inc_active_count_def rounds_def Let_def
      split: conc_phase.splits if_splits prod.splits option.splits)

definition exited :: "'m conc_thread \<Rightarrow> bool" where
  "exited t = (case tphase t of Exited r \<Rightarrow> True | _ \<Rightarrow> False)"

definition client_buffers_ok :: "'m conc_thread \<Rightarrow> bool" where
  "client_buffers_ok t \<longleftrightarrow> memref_ok (p3 (tparams t))"

lemma conc_next_enabled:
  assumes "conc_rel live ops t0 t" "client_buffers_ok t0" "\<not> exited t"
  shows "\<exists>r. conc_next api shm t = Some r"
proof (cases "tphase t")
  case (Digesting k out op buf len res)
  then have "unat len \<le> length buf" "unat len \<le> length (mbuf (p3 (tparams t)))"
    using assms(1,2) by (simp_all add: conc_rel_def client_buffers_ok_def memref_ok_def word_le_nat_alt)
  with Digesting show ?thesis by (simp add: conc_next_def memcpy_def split_beta Let_def)
qed (use assms(3) in \<open>simp_all add: conc_next_def exited_def split_beta Let_def\<close>)

section \<open>Runs\<close>

definition conc_called :: "'m conc_thread list \<Rightarrow> bool" where
  "conc_called ts \<longleftrightarrow> list_all (\<lambda>t. tphase t = Called) ts"

definition conc_rels where
  "conc_rels live ops ts0 ts \<longleftrightarrow> list_all2 (conc_rel live ops) ts0 ts"

lemma conc_step_rels:
  assumes "digest_laws api live ops" "conc_step api (shm, ts) (shm', ts')" "conc_rels live ops ts0 ts"
  shows "conc_rels live ops ts0 ts'"
proof -
  from assms(2) obtain k t' where k: "k < length ts" "conc_next api shm (ts ! k) = Some (shm', t')" "ts' = ts[k := t']"
    by (rule conc_stepE) auto
  have l: "k < length ts0" using k(1) assms(3) by (simp add: conc_rels_def list_all2_lengthD)
  have "conc_rel live ops (ts0 ! k) (ts ! k)" using assms(3) k(1) by (simp add: conc_rels_def list_all2_nthD2)
  from conc_rel_next [OF assms(1) this k(2)] have "conc_rel live ops (ts0 ! k) t'" .
  then have "list_all2 (conc_rel live ops) (ts0[k := ts0 ! k]) (ts[k := t'])"
    using assms(3) unfolding conc_rels_def by (rule list_all2_update_cong [rotated])
  with l show ?thesis by (simp add: conc_rels_def k(3))
qed

text \<open>The value a command has reported: how many ran when it started, itself included\<close>

definition reported :: "uint32 \<Rightarrow> nat \<Rightarrow> 'm conc_thread \<Rightarrow> 'm conc_thread \<Rightarrow> bool" where
  "reported c n t0 t \<longleftrightarrow> (accepts t0 \<and> tphase t \<noteq> Called \<longrightarrow> (\<exists>j. 1 \<le> j \<and> j \<le> n \<and> val_b (p1 (tparams t)) = c + of_nat j))"

lemma conc_next_reports:
  assumes "conc_next api shm t = Some (shm', t')"
  shows "if tphase t = Called then (accepts t \<longrightarrow> inside t' = 1 \<and> val_b (p1 (tparams t')) = shm')
    else tphase t' \<noteq> Called \<and> val_b (p1 (tparams t')) = val_b (p1 (tparams t))"
  using assms
  by (auto simp: conc_next_def inc_active_count_def Let_def accepts_def inside_def cmds_differ cmds_differ [symmetric]
      split: conc_phase.splits if_splits prod.splits option.splits)

lemma conc_step_reported:
  assumes "conc_step api (shm, ts) (shm', ts')" "conc_rels live ops ts0 ts" "shm = c + of_nat (active ts)"
    "list_all2 (reported c (length ts0)) ts0 ts"
  shows "list_all2 (reported c (length ts0)) ts0 ts'"
proof -
  from assms(1) obtain k t' where k: "k < length ts" "conc_next api shm (ts ! k) = Some (shm', t')" "ts' = ts[k := t']"
    by (rule conc_stepE) auto
  have len: "length ts0 = length ts" using assms(4) by (rule list_all2_lengthD)
  have rel: "conc_rel live ops (ts0 ! k) (ts ! k)" using assms(2) k(1) by (simp add: conc_rels_def list_all2_nthD2)
  have old: "reported c (length ts0) (ts0 ! k) (ts ! k)" using assms(4) k(1) by (simp add: list_all2_nthD2)
  have new: "reported c (length ts0) (ts0 ! k) t'"
  proof (cases "tphase (ts ! k) = Called")
    case False
    with conc_next_reports [OF k(2)] old show ?thesis by (simp add: reported_def)
  next
    case True
    with rel have same: "ts ! k = ts0 ! k" by (simp add: conc_rel_def)
    show ?thesis
      unfolding reported_def
    proof
      assume "accepts (ts0 ! k) \<and> tphase t' \<noteq> Called"
      then have i: "inside t' = 1" "val_b (p1 (tparams t')) = shm'" using conc_next_reports [OF k(2)] True same by simp_all
      have "active ts' + inside (ts ! k) = active ts + inside t'"
        using sum_list_swap [OF k(1)] by (simp add: active_def k(3))
      then have "1 \<le> active ts'" using i True by (simp add: inside_def)
      moreover have "active ts' \<le> length ts0" using active_bound [of ts'] len by (simp add: k(3))
      moreover have "shm' = c + of_nat (active ts')" by (rule conc_step_count [OF assms(1,3)])
      ultimately show "\<exists>j. 1 \<le> j \<and> j \<le> length ts0 \<and> val_b (p1 (tparams t')) = c + of_nat j" using i(2) by blast
    qed
  qed
  have "list_all2 (reported c (length ts0)) (ts0[k := ts0 ! k]) (ts[k := t'])"
    using assms(4) new by (rule list_all2_update_cong)
  then show ?thesis using k len by simp
qed

lemma conc_step_work:
  assumes "conc_step api (shm, ts) (shm', ts')"
  shows "sum_list (map work ts') < sum_list (map work ts)"
proof -
  from assms obtain k t' where k: "k < length ts" "conc_next api shm (ts ! k) = Some (shm', t')" "ts' = ts[k := t']"
    by (rule conc_stepE) auto
  show ?thesis using sum_list_swap [OF k(1), of work t'] conc_next_work [OF k(2)] by (simp add: k(3))
qed

lemma conc_run:
  assumes "digest_laws api live ops" "conc_called ts0" "(conc_step api ^^ n) (shm0, ts0) (shm, ts)"
  shows "conc_rels live ops ts0 ts \<and> shm = shm0 + of_nat (active ts) \<and>
    list_all2 (reported shm0 (length ts0)) ts0 ts \<and> n + sum_list (map work ts) \<le> sum_list (map work ts0)"
  using assms(3)
proof (induction n arbitrary: shm ts)
  case 0
  have "conc_rels live ops ts0 ts0"
    using assms(2) by (simp add: conc_rels_def conc_called_def list_all2_conv_all_nth list_all_length conc_rel_def)
  moreover have "active ts0 = 0"
    using assms(2) by (induction ts0) (simp_all add: conc_called_def active_def inside_def)
  moreover have "list_all2 (reported shm0 (length ts0)) ts0 ts0"
    using assms(2) by (simp add: conc_called_def list_all2_conv_all_nth list_all_length reported_def)
  ultimately show ?case using 0 by simp
next
  case (Suc n)
  then obtain shm1 ts1 where s: "(conc_step api ^^ n) (shm0, ts0) (shm1, ts1)" "conc_step api (shm1, ts1) (shm, ts)"
    by (auto elim!: relcompp.cases)
  have ih: "conc_rels live ops ts0 ts1" "shm1 = shm0 + of_nat (active ts1)" "list_all2 (reported shm0 (length ts0)) ts0 ts1"
    "n + sum_list (map work ts1) \<le> sum_list (map work ts0)"
    using Suc.IH [OF s(1)] by blast+
  have "Suc n + sum_list (map work ts) \<le> sum_list (map work ts0)"
    using conc_step_work [OF s(2)] ih(4) by linarith
  then show ?case
    using conc_step_rels [OF assms(1) s(2) ih(1)] conc_step_count [OF s(2) ih(2)] conc_step_reported [OF s(2) ih(1-3)] by blast
qed

lemma conc_stuck:
  assumes "conc_rels live ops ts0 ts" "\<forall>t \<in> set ts0. client_buffers_ok t" "\<nexists>s. conc_step api (shm, ts) s"
  shows "\<forall>t \<in> set ts. exited t"
proof
  fix t assume "t \<in> set ts"
  then obtain k where k: "k < length ts" "ts ! k = t" by (auto simp: in_set_conv_nth)
  show "exited t"
  proof (rule ccontr)
    assume "\<not> exited t"
    moreover have "conc_rel live ops (ts0 ! k) t" "client_buffers_ok (ts0 ! k)"
      using assms(1,2) k by (auto simp: conc_rels_def list_all2_conv_all_nth)
    ultimately obtain r where "conc_next api shm t = Some r" using conc_next_enabled by blast
    then show False using assms(3) k conc_step.step by (metis prod.collapse)
  qed
qed

lemma active_exited: "\<forall>t \<in> set ts. exited t \<Longrightarrow> active ts = 0"
  by (induction ts) (auto simp: active_def inside_def exited_def split: conc_phase.splits)

lemma conc_rel_exited:
  assumes "conc_rel live ops t0 t" "exited t"
  shows "live (tmem t) = live (tmem t0) \<and> ops (tmem t) = ops (tmem t0) \<and>
    (\<not> accepts t0 \<longrightarrow> tphase t = Exited TEE_ERROR_BAD_PARAMETERS \<and> tparams t = tparams t0)"
  using assms by (cases "tphase t") (simp_all add: conc_rel_def exited_def)

text \<open>
  C19.  Any number of busy loop and digest commands, started together in any way and interleaved in any
  way, always make progress and always end: no run is longer than the sum of their round counts plus
  four steps each.  Each command reports a number of running ones between one, itself, and
  the number of commands.  At every moment the shared counter stands for the number of commands between their
  first and their last access to it, so that it is back at its first value when no step is left, and
  then every command has returned and every instance has the blocks and operations it started with.
\<close>
theorem concurrent_runs:
  assumes "digest_laws api live ops" "conc_called ts0" "\<forall>t \<in> set ts0. client_buffers_ok t"
    and "(conc_step api ^^ n) (shm0, ts0) (shm, ts)"
  shows "n \<le> sum_list (map (\<lambda>t. rounds t + 4) ts0) \<and> shm = shm0 + of_nat (active ts) \<and>
    list_all2 (reported shm0 (length ts0)) ts0 ts \<and>
    ((\<nexists>s. conc_step api (shm, ts) s) \<longrightarrow>
      shm = shm0 \<and> (\<forall>t \<in> set ts. exited t) \<and>
      list_all2 (\<lambda>t0 t. live (tmem t) = live (tmem t0) \<and> ops (tmem t) = ops (tmem t0) \<and>
        (\<not> accepts t0 \<longrightarrow> tphase t = Exited TEE_ERROR_BAD_PARAMETERS \<and> tparams t = tparams t0)) ts0 ts)"
proof -
  have r: "conc_rels live ops ts0 ts" "shm = shm0 + of_nat (active ts)" "n + sum_list (map work ts) \<le> sum_list (map work ts0)"
    "list_all2 (reported shm0 (length ts0)) ts0 ts"
    using conc_run [OF assms(1,2,4)] by blast+
  have "map work ts0 = map (\<lambda>t. rounds t + 4) ts0"
    using assms(2) by (simp add: conc_called_def list_all_iff work_def)
  then have "n \<le> sum_list (map (\<lambda>t. rounds t + 4) ts0)" using r(3) by (metis add_leD1)
  moreover have "shm = shm0 \<and> (\<forall>t \<in> set ts. exited t) \<and>
      list_all2 (\<lambda>t0 t. live (tmem t) = live (tmem t0) \<and> ops (tmem t) = ops (tmem t0) \<and>
        (\<not> accepts t0 \<longrightarrow> tphase t = Exited TEE_ERROR_BAD_PARAMETERS \<and> tparams t = tparams t0)) ts0 ts"
    if stuck: "\<nexists>s. conc_step api (shm, ts) s"
  proof -
    have e: "\<forall>t \<in> set ts. exited t" by (rule conc_stuck [OF r(1) assms(3) stuck])
    moreover have "list_all2 (\<lambda>t0 t. live (tmem t) = live (tmem t0) \<and> ops (tmem t) = ops (tmem t0) \<and>
        (\<not> accepts t0 \<longrightarrow> tphase t = Exited TEE_ERROR_BAD_PARAMETERS \<and> tparams t = tparams t0)) ts0 ts"
      using r(1) e conc_rel_exited unfolding conc_rels_def list_all2_conv_all_nth by (metis nth_mem)
    ultimately show ?thesis using r(2) active_exited [OF e] by simp
  qed
  ultimately show ?thesis using r(2,4) by blast
qed

section \<open>A concrete run\<close>

text \<open>A schedule as the list of the threads that step, and an API on lists of what is in use\<close>

fun conc_sched :: "('m, 'z) digest_api_scheme \<Rightarrow> nat list \<Rightarrow> uint32 \<times> 'm conc_thread list \<Rightarrow> (uint32 \<times> 'm conc_thread list) option" where
  "conc_sched api [] s = Some s"
| "conc_sched api (k # ks) (shm, ts) =
     (if k < length ts then
        case conc_next api shm (ts ! k) of None \<Rightarrow> None | Some (shm, t) \<Rightarrow> conc_sched api ks (shm, ts[k := t])
      else None)"

lemma conc_sched_steps: "conc_sched api ks s = Some s' \<Longrightarrow> (conc_step api ^^ length ks) s s'"
proof (induction api ks s rule: conc_sched.induct)
  case (2 api k ks shm ts)
  then obtain shm' t where "k < length ts" "conc_next api shm (ts ! k) = Some (shm', t)"
    "conc_sched api ks (shm', ts[k := t]) = Some s'"
    by (auto split: if_splits option.splits)
  moreover from this have "(conc_step api ^^ length ks) (shm', ts[k := t]) s'" using "2.IH" by blast
  ultimately show ?case by (auto intro!: relpowp_Suc_I2 conc_step.step simp del: relpowp.simps)
qed simp

definition list_digest :: "(ptr list \<times> bool) digest_api" where
  "list_digest = \<lparr>
     TEE_Malloc = \<lambda>n (ps, b). (let (p, ps) = TEE_Malloc list_heap n ps in (p, ps, b)),
     TEE_Free = \<lambda>p (ps, b). (TEE_Free list_heap p ps, b),
     TEE_AllocateOperation = \<lambda>_ _ _ (ps, b). (if b then (TEE_ERROR_OUT_OF_MEMORY, 0, (ps, b)) else (TEE_SUCCESS, 1, (ps, True))),
     TEE_FreeOperation = \<lambda>h (ps, b). (ps, b \<and> h \<noteq> 1),
     TEE_ResetOperation = \<lambda>_ m. m,
     TEE_DigestDoFinal = \<lambda>_ i n buf len m.
       (TEE_SUCCESS, map (\<lambda>_. of_nat (length i)) buf, if TEE_SHA256_HASH_SIZE \<le> len then TEE_SHA256_HASH_SIZE else len, m)\<rparr>"

lemma list_digest_laws: "digest_laws list_digest (\<lambda>m. set (fst m) - {0}) (\<lambda>m. if snd m then {1} else {})"
  unfolding digest_laws_def heap_laws_def
  by (intro conjI allI impI)
    (auto simp: list_digest_def list_heap_def fresh_block TEE_SUCCESS_def TEE_ERROR_OUT_OF_MEMORY_def split: if_splits)

definition conc_call :: "uint32 \<Rightarrow> uint32 \<Rightarrow> (ptr list \<times> bool) conc_thread" where
  "conc_call cmd types = \<lparr>tcmd = cmd, ttypes = types,
     tparams = \<lparr>p0 = zero_param\<lparr>msize := 4\<rparr>, p1 = zero_param\<lparr>val_a := 1\<rparr>, p2 = zero_param\<lparr>mbuf := [7], msize := 1\<rparr>,
       p3 = zero_param\<lparr>mbuf := replicate 32 0, msize := 32\<rparr>\<rparr>, tmem = ([], False), tphase = Called\<rparr>"

definition conc_demo :: "(ptr list \<times> bool) conc_thread list" where
  "conc_demo = [conc_call TA_CONCURRENT_CMD_SHA256 sha_types, conc_call TA_CONCURRENT_CMD_BUSY_LOOP busy_types]"

lemma concurrent_runs_witness:
  "\<exists>s. conc_sched list_digest [0, 1, 0, 0, 1, 1, 0, 0, 1] (5, conc_demo) = Some s \<and> fst s = 5 \<and>
    map (\<lambda>t. val_b (p1 (tparams t))) (snd s) = [6, 7] \<and> list_all2 (reported 5 2) conc_demo (snd s)"
proof -
  have "map_option (\<lambda>(c, ts). (c, map (\<lambda>t. val_b (p1 (tparams t))) ts))
      (conc_sched list_digest [0, 1, 0, 0, 1, 1, 0, 0, 1] (5, conc_demo)) = Some (5, [6, 7])"
    by code_simp
  then obtain ts where s: "conc_sched list_digest [0, 1, 0, 0, 1, 1, 0, 0, 1] (5, conc_demo) = Some (5, ts)"
    "map (\<lambda>t. val_b (p1 (tparams t))) ts = [6, 7]"
    by auto
  have c: "conc_called conc_demo" "\<forall>t \<in> set conc_demo. client_buffers_ok t" "length conc_demo = 2"
    by (simp_all add: conc_demo_def conc_called_def conc_call_def client_buffers_ok_def memref_ok_def)
  from concurrent_runs [OF list_digest_laws c(1,2) conc_sched_steps [OF s(1)]] s c(3) show ?thesis by simp
qed

end
