(* ===== verification/Rpc_Ta.thy ===== *)
theory Rpc_Ta
  imports Crypt_Entry Sims
begin

text \<open>
  Model of \<open>src/ta/rpc_test\<close>: a TA that is a client of the crypt TA and forwards its own client's
  commands to it, either with the client's buffers or with private copies of them.
\<close>

definition TA_RPC_CMD_CRYPT_SHA224 :: uint32 where "TA_RPC_CMD_CRYPT_SHA224 = 1"
definition TA_RPC_CMD_CRYPT_SHA256 :: uint32 where "TA_RPC_CMD_CRYPT_SHA256 = 2"
definition TA_RPC_CMD_CRYPT_AES256ECB_ENC :: uint32 where "TA_RPC_CMD_CRYPT_AES256ECB_ENC = 3"
definition TA_RPC_CMD_CRYPT_AES256ECB_DEC :: uint32 where "TA_RPC_CMD_CRYPT_AES256ECB_DEC = 4"
definition TA_RPC_CMD_OPEN :: uint32 where "TA_RPC_CMD_OPEN = 5"
definition TA_RPC_CMD_CRYPT_PRIVMEM_SHA224 :: uint32 where "TA_RPC_CMD_CRYPT_PRIVMEM_SHA224 = 6"
definition TA_RPC_CMD_CRYPT_PRIVMEM_SHA256 :: uint32 where "TA_RPC_CMD_CRYPT_PRIVMEM_SHA256 = 7"
definition TA_RPC_CMD_CRYPT_PRIVMEM_AES256ECB_ENC :: uint32 where "TA_RPC_CMD_CRYPT_PRIVMEM_AES256ECB_ENC = 8"
definition TA_RPC_CMD_CRYPT_PRIVMEM_AES256ECB_DEC :: uint32 where "TA_RPC_CMD_CRYPT_PRIVMEM_AES256ECB_DEC = 9"

lemmas rpc_cmd_defs = TA_RPC_CMD_CRYPT_SHA224_def TA_RPC_CMD_CRYPT_SHA256_def TA_RPC_CMD_CRYPT_AES256ECB_ENC_def
  TA_RPC_CMD_CRYPT_AES256ECB_DEC_def TA_RPC_CMD_OPEN_def TA_RPC_CMD_CRYPT_PRIVMEM_SHA224_def
  TA_RPC_CMD_CRYPT_PRIVMEM_SHA256_def TA_RPC_CMD_CRYPT_PRIVMEM_AES256ECB_ENC_def
  TA_RPC_CMD_CRYPT_PRIVMEM_AES256ECB_DEC_def

definition cryp_uuid :: tee_uuid where
  "cryp_uuid = (0xcb3e5ba0, 0xadf1, 0x11e0, [0x99, 0x8b, 0x00, 0x02, 0xa5, 0xd5, 0xc5, 0x1b])"

definition sims_uuid :: tee_uuid where
  "sims_uuid = (0xe6a33ed4, 0x562b, 0x463a, [0xbb, 0x7e, 0xff, 0x5e, 0x15, 0xa4, 0x93, 0xc8])"

text \<open>
  A call returns, ends the TA in \<open>TEE_Panic\<close>, or copies past the end of a buffer.
\<close>

datatype 'a rpc_outcome = Returned 'a | Panicked | Overrun

lemma map_outcome [simp]:
  "map_rpc_outcome f r = Returned y \<longleftrightarrow> (\<exists>x. r = Returned x \<and> y = f x)"
  "map_rpc_outcome f r = Panicked \<longleftrightarrow> r = Panicked" "map_rpc_outcome f r = Overrun \<longleftrightarrow> r = Overrun"
  by (cases r; auto)+

section \<open>Parameters as an array\<close>

definition slots :: "tee_params \<Rightarrow> tee_param list" where
  "slots ps = [p0 ps, p1 ps, p2 ps, p3 ps]"

definition of_slots :: "tee_param list \<Rightarrow> tee_params" where
  "of_slots xs = \<lparr>p0 = xs ! 0, p1 = xs ! 1, p2 = xs ! 2, p3 = xs ! 3\<rparr>"

definition types_of :: "uint32 \<Rightarrow> uint32 list" where
  "types_of types = map (TEE_PARAM_TYPE_GET types) [0, 1, 2, 3]"

definition is_memref :: "uint32 \<Rightarrow> bool" where
  "is_memref t \<longleftrightarrow> t = PT_MEMREF_INPUT \<or> t = PT_MEMREF_OUTPUT \<or> t = PT_MEMREF_INOUT"

section \<open>Forwarding a command\<close>

text \<open>
  The loop that makes the private parameters: a slot is its type, the client's parameter, the private
  one and the block of its buffer, which \<open>TEE_Malloc\<close> hands out zeroed.
\<close>

type_synonym rpc_slot = "uint32 \<times> tee_param \<times> tee_param \<times> ptr"

fun privatize :: "('m, 'z) heap_api_scheme \<Rightarrow> (uint32 \<times> tee_param) list \<Rightarrow> 'm \<Rightarrow> (rpc_slot list \<times> 'm) rpc_outcome" where
  "privatize heap [] m = Returned ([], m)"
| "privatize heap ((t, p) # xs) m =
     (let next = (\<lambda>q b m. map_rpc_outcome (\<lambda>(ys, m). ((t, p, q, b) # ys, m)) (privatize heap xs m))
      in if t = PT_VALUE_INPUT \<or> t = PT_VALUE_INOUT then
           next (zero_param\<lparr>val_a := val_a p, val_b := val_b p\<rparr>) 0 m
         else if is_memref t then
           let (b, m) = TEE_Malloc heap (ucast (msize p)) m;
               fresh = replicate (unat (msize p)) 0
           in if b = 0 then Panicked
           else if t = PT_MEMREF_OUTPUT then next (zero_param\<lparr>mbuf := fresh, msize := msize p\<rparr>) b m
           else case memcpy fresh 0 (mbuf p) (unat (msize p)) of
               None \<Rightarrow> Overrun
             | Some buf \<Rightarrow> next (zero_param\<lparr>mbuf := buf, msize := msize p\<rparr>) b m
         else next zero_param 0 m)"

text \<open>The loop that brings the results back: each slot holds the private parameter after the call.\<close>

fun write_back :: "('m, 'z) heap_api_scheme \<Rightarrow> rpc_slot list \<Rightarrow> 'm \<Rightarrow> (tee_param list \<times> 'm) rpc_outcome" where
  "write_back heap [] m = Returned ([], m)"
| "write_back heap ((t, p, q, b) # xs) m =
     (let next = (\<lambda>p m. map_rpc_outcome (\<lambda>(ps, m). (p # ps, m)) (write_back heap xs m))
      in if t = PT_VALUE_INOUT \<or> t = PT_VALUE_OUTPUT then
           next (p\<lparr>val_a := val_a q, val_b := val_b q\<rparr>) m
         else if is_memref t then
           if t = PT_MEMREF_INPUT then next (p\<lparr>msize := msize q\<rparr>) (TEE_Free heap b m)
           else case memcpy (mbuf p) 0 (mbuf q) (unat (msize q)) of
               None \<Rightarrow> Overrun
             | Some buf \<Rightarrow> next (p\<lparr>mbuf := buf, msize := msize q\<rparr>) (TEE_Free heap b m)
         else next p m)"

definition answered :: "rpc_slot list \<Rightarrow> tee_param list \<Rightarrow> rpc_slot list" where
  "answered xs qs = map (\<lambda>((t, p, _, b), q). (t, p, q, b)) (zip xs qs)"

text \<open>
  Without private memory the parameters themselves are copied, so the callee writes the client's
  buffers, but the sizes and values it returns stay in the copy.
\<close>

definition rpc_call_cryp ::
  "('m, 'z) heap_api_scheme \<Rightarrow> ('m, 'y) client_api_scheme \<Rightarrow> bool \<Rightarrow> uint32 \<Rightarrow> tee_params \<Rightarrow> uint32 \<Rightarrow> 'm \<Rightarrow>
     (TEE_Result \<times> tee_params \<times> 'm) rpc_outcome" where
  "rpc_call_cryp heap api sec_mem nParamTypes pParams cmd m =
     (let (res, cryp_session, _, _, m) = TEE_OpenTASession api cryp_uuid 0
            (TEE_PARAM_TYPES PT_NONE PT_NONE PT_NONE PT_NONE) zero_params m
      in if res \<noteq> TEE_SUCCESS then Returned (res, pParams, m)
      else if sec_mem then
        (case privatize heap (zip (types_of nParamTypes) (slots pParams)) m of
          Returned (xs, m) \<Rightarrow>
            (let (res, _, params, m) = TEE_InvokeTACommand api cryp_session 0 cmd nParamTypes
                   (of_slots (map (\<lambda>(t, p, q, b). q) xs)) m;
                 m = TEE_CloseTASession api cryp_session m
             in map_rpc_outcome (\<lambda>(ps, m). (res, of_slots ps, m)) (write_back heap (answered xs (slots params)) m))
        | Panicked \<Rightarrow> Panicked
        | Overrun \<Rightarrow> Overrun)
      else
        let (res, _, params, m) = TEE_InvokeTACommand api cryp_session 0 cmd nParamTypes pParams m;
            m = TEE_CloseTASession api cryp_session m
        in Returned (res, of_slots (map2 (\<lambda>p q. p\<lparr>mbuf := mbuf q\<rparr>) (slots pParams) (slots params)), m))"

definition rpc_sha224 where
  "rpc_sha224 heap api sec_mem types params m = rpc_call_cryp heap api sec_mem types params TA_CRYPT_CMD_SHA224 m"

definition rpc_sha256 where
  "rpc_sha256 heap api sec_mem types params m = rpc_call_cryp heap api sec_mem types params TA_CRYPT_CMD_SHA256 m"

definition rpc_aes256ecb_encrypt where
  "rpc_aes256ecb_encrypt heap api sec_mem types params m = rpc_call_cryp heap api sec_mem types params TA_CRYPT_CMD_AES256ECB_ENC m"

definition rpc_aes256ecb_decrypt where
  "rpc_aes256ecb_decrypt heap api sec_mem types params m = rpc_call_cryp heap api sec_mem types params TA_CRYPT_CMD_AES256ECB_DEC m"

text \<open>The counter of the other TA ends in a local array, and the client's parameters are cleared.\<close>

definition rpc_open :: "('m, 'y) client_api_scheme \<Rightarrow> uint32 \<Rightarrow> tee_params \<Rightarrow> 'm \<Rightarrow> TEE_Result \<times> tee_params \<times> 'm" where
  "rpc_open api param_types params m =
     (let (res, session, _, _, m) = TEE_OpenTASession api sims_uuid 0 0 zero_params m
      in if res \<noteq> TEE_SUCCESS then (res, params, m)
      else
        let (res, _, _, m) = TEE_InvokeTACommand api session 0 TA_SIMS_CMD_GET_COUNTER
              (TEE_PARAM_TYPES PT_VALUE_OUTPUT PT_NONE PT_NONE PT_NONE) zero_params m
        in (res, zero_params, TEE_CloseTASession api session m))"

definition rpc_invoke ::
  "('m, 'z) heap_api_scheme \<Rightarrow> ('m, 'y) client_api_scheme \<Rightarrow> uint32 \<Rightarrow> uint32 \<Rightarrow> tee_params \<Rightarrow> 'm \<Rightarrow>
     (TEE_Result \<times> tee_params \<times> 'm) rpc_outcome" where
  "rpc_invoke heap api cmd types params m =
     (if cmd = TA_RPC_CMD_CRYPT_SHA224 then rpc_sha224 heap api False types params m
      else if cmd = TA_RPC_CMD_CRYPT_SHA256 then rpc_sha256 heap api False types params m
      else if cmd = TA_RPC_CMD_CRYPT_AES256ECB_ENC then rpc_aes256ecb_encrypt heap api False types params m
      else if cmd = TA_RPC_CMD_CRYPT_AES256ECB_DEC then rpc_aes256ecb_decrypt heap api False types params m
      else if cmd = TA_RPC_CMD_OPEN then Returned (rpc_open api types params m)
      else if cmd = TA_RPC_CMD_CRYPT_PRIVMEM_SHA224 then rpc_sha224 heap api True types params m
      else if cmd = TA_RPC_CMD_CRYPT_PRIVMEM_SHA256 then rpc_sha256 heap api True types params m
      else if cmd = TA_RPC_CMD_CRYPT_PRIVMEM_AES256ECB_ENC then rpc_aes256ecb_encrypt heap api True types params m
      else if cmd = TA_RPC_CMD_CRYPT_PRIVMEM_AES256ECB_DEC then rpc_aes256ecb_decrypt heap api True types params m
      else Returned (TEE_ERROR_BAD_PARAMETERS, params, m))"

section \<open>What a forwarded command leaves behind\<close>

text \<open>
  The environment: a heap and sessions that do not affect each other, and an internal client API that
  never changes the size of a buffer it was given, though it may change the size it reports.
\<close>

definition rpc_laws ::
  "('m, 'z) heap_api_scheme \<Rightarrow> ('m, 'y) client_api_scheme \<Rightarrow> ('m \<Rightarrow> ptr set) \<Rightarrow> ('m \<Rightarrow> size_t set) \<Rightarrow> bool" where
  "rpc_laws heap api live ss \<longleftrightarrow> heap_laws heap live \<and> session_laws api ss \<and>
     (\<forall>n m. ss (snd (TEE_Malloc heap n m)) = ss m) \<and> (\<forall>p m. ss (TEE_Free heap p m) = ss m) \<and>
     (\<forall>u t pt ps m. live (snd (snd (snd (snd (TEE_OpenTASession api u t pt ps m))))) = live m) \<and>
     (\<forall>s m. live (TEE_CloseTASession api s m) = live m) \<and>
     (\<forall>s t c pt ps m res orig ps' m'. TEE_InvokeTACommand api s t c pt ps m = (res, orig, ps', m') \<longrightarrow>
        live m' = live m \<and> map (\<lambda>p. length (mbuf p)) (slots ps') = map (\<lambda>p. length (mbuf p)) (slots ps))"

text \<open>The blocks of private buffers\<close>

definition slot_blocks :: "rpc_slot list \<Rightarrow> ptr set" where
  "slot_blocks xs = {b. \<exists>(t, p, q, c) \<in> set xs. is_memref t \<and> c = b}"

lemma slot_blocks_simps [simp]:
  "slot_blocks [] = {}"
  "slot_blocks ((t, p, q, b) # xs) = (if is_memref t then insert b (slot_blocks xs) else slot_blocks xs)"
  by (auto simp: slot_blocks_def)

lemma not_memref:
  "\<not> is_memref PT_VALUE_INPUT" "\<not> is_memref PT_VALUE_OUTPUT" "\<not> is_memref PT_VALUE_INOUT" "\<not> is_memref PT_NONE"
  by (simp_all add: is_memref_def param_type_defs)

lemma privatize_live:
  assumes "heap_laws heap live"
  shows "privatize heap xs m = Returned (ys, m') \<Longrightarrow>
    live m' = live m \<union> slot_blocks ys \<and> live m \<inter> slot_blocks ys = {}"
proof (induction xs arbitrary: m ys)
  case Nil
  then show ?case by simp
next
  case (Cons x xs)
  obtain t p where x: "x = (t, p)" by fastforce
  show ?case
  proof (cases "is_memref t")
    case True
    then have nv: "t \<noteq> PT_VALUE_INPUT" "t \<noteq> PT_VALUE_INOUT" using not_memref by auto
    obtain b m1 where a: "TEE_Malloc heap (ucast (msize p)) m = (b, m1)" by fastforce
    from Cons.prems nv True obtain q ys' where y: "b \<noteq> 0" "privatize heap xs m1 = Returned (ys', m')" "ys = (t, p, q, b) # ys'"
      by (auto simp: x a Let_def split: if_splits option.splits)
    with Cons.IH [OF y(2)] malloc_law [OF assms a] True show ?thesis by auto
  next
    case False
    with Cons.prems obtain q ys' where y: "privatize heap xs m = Returned (ys', m')" "ys = (t, p, q, 0) # ys'"
      by (auto simp: x Let_def split: if_splits)
    with Cons.IH [OF y(1)] False show ?thesis by simp
  qed
qed

lemma privatize_other:
  assumes "\<And>n m. ss (snd (TEE_Malloc heap n m)) = ss m"
  shows "privatize heap xs m = Returned (ys, m') \<Longrightarrow> ss m' = ss m"
proof (induction xs arbitrary: m ys)
  case Nil
  then show ?case by simp
next
  case (Cons x xs)
  obtain t p where x: "x = (t, p)" by fastforce
  obtain b m1 where a: "TEE_Malloc heap (ucast (msize p)) m = (b, m1)" by fastforce
  have "ss m1 = ss m" using assms [of "ucast (msize p)" m] by (simp add: a)
  with Cons show ?case by (auto simp: x a Let_def split: if_splits option.splits)
qed

lemma write_back_live:
  assumes "heap_laws heap live"
  shows "write_back heap xs m = Returned (ps, m') \<Longrightarrow> live m' = live m - slot_blocks xs"
proof (induction xs arbitrary: m ps)
  case Nil
  then show ?case by simp
next
  case (Cons x xs)
  obtain t p q b where x: "x = (t, p, q, b)" by (metis prod_cases4)
  show ?case
  proof (cases "is_memref t")
    case True
    then have nv: "t \<noteq> PT_VALUE_OUTPUT" "t \<noteq> PT_VALUE_INOUT" using not_memref by auto
    from Cons.prems nv True obtain ps' where y: "write_back heap xs (TEE_Free heap b m) = Returned (ps', m')"
      by (auto simp: x Let_def split: if_splits option.splits)
    from Cons.IH [OF y] True show ?thesis by (auto simp: x live_free [OF assms])
  next
    case False
    with Cons.prems obtain ps' where y: "write_back heap xs m = Returned (ps', m')"
      by (auto simp: x Let_def split: if_splits)
    with Cons.IH [OF y] False show ?thesis by (simp add: x)
  qed
qed

lemma write_back_other:
  assumes "\<And>p m. ss (TEE_Free heap p m) = ss m"
  shows "write_back heap xs m = Returned (ps, m') \<Longrightarrow> ss m' = ss m"
proof (induction xs arbitrary: m ps)
  case Nil
  then show ?case by simp
next
  case (Cons x xs)
  obtain t p q b where x: "x = (t, p, q, b)" by (metis prod_cases4)
  from Cons show ?case by (auto simp: x Let_def assms split: if_splits option.splits)
qed

lemma privatize_shape:
  "privatize heap xs m = Returned (ys, m') \<Longrightarrow> map (\<lambda>(t, p, q, b). (t, p)) ys = xs"
proof (induction xs arbitrary: m ys)
  case Nil
  then show ?case by simp
next
  case (Cons x xs)
  obtain t p where x: "x = (t, p)" by fastforce
  from Cons show ?case by (fastforce simp: x Let_def split: if_splits option.splits prod.splits)
qed

lemma answered_blocks: "length qs = length xs \<Longrightarrow> slot_blocks (answered xs qs) = slot_blocks xs"
proof (induction xs qs rule: list_induct2')
  case (4 x xs q qs)
  obtain t p r b where "x = (t, p, r, b)" by (metis prod_cases4)
  with 4 show ?case by (simp add: answered_def)
qed (simp_all add: answered_def)

section \<open>Copies that do not fit\<close>

lemma write_back_overrun:
  "write_back heap xs m \<noteq> Panicked \<and>
   (write_back heap xs m = Overrun \<longleftrightarrow> (\<exists>(t, p, q, b) \<in> set xs. (t = PT_MEMREF_OUTPUT \<or> t = PT_MEMREF_INOUT) \<and>
      (length (mbuf q) < unat (msize q) \<or> length (mbuf p) < unat (msize q))))"
proof (induction xs arbitrary: m)
  case Nil
  then show ?case by simp
next
  case (Cons x xs)
  obtain t p q b where x: "x = (t, p, q, b)" by (metis prod_cases4)
  have d: "PT_MEMREF_OUTPUT \<noteq> PT_VALUE_INOUT" "PT_MEMREF_OUTPUT \<noteq> PT_VALUE_OUTPUT" "PT_MEMREF_INOUT \<noteq> PT_VALUE_INOUT"
    "PT_MEMREF_INOUT \<noteq> PT_VALUE_OUTPUT" "PT_MEMREF_OUTPUT \<noteq> PT_MEMREF_INPUT" "PT_MEMREF_INOUT \<noteq> PT_MEMREF_INPUT"
    by (simp_all add: param_type_defs)
  have fit: "memcpy (mbuf p) 0 (mbuf q) (unat (msize q)) = None \<longleftrightarrow>
      length (mbuf q) < unat (msize q) \<or> length (mbuf p) < unat (msize q)"
    by (auto simp: memcpy_def)
  consider "t = PT_MEMREF_OUTPUT \<or> t = PT_MEMREF_INOUT" "memcpy (mbuf p) 0 (mbuf q) (unat (msize q)) = None"
    | buf where "t = PT_MEMREF_OUTPUT \<or> t = PT_MEMREF_INOUT" "memcpy (mbuf p) 0 (mbuf q) (unat (msize q)) = Some buf"
    | "t = PT_MEMREF_INPUT" | "t \<noteq> PT_MEMREF_OUTPUT" "t \<noteq> PT_MEMREF_INOUT" "t \<noteq> PT_MEMREF_INPUT"
    by blast
  then show ?case
  proof cases
    case 1
    then have "write_back heap (x # xs) m = Overrun" by (auto simp: x is_memref_def d)
    with 1 fit show ?thesis by (auto simp: x)
  next
    case 2
    with fit have "\<not> (length (mbuf q) < unat (msize q) \<or> length (mbuf p) < unat (msize q))" by (metis option.distinct(1))
    with 2 Cons.IH [of "TEE_Free heap b m"] show ?thesis by (auto simp: x is_memref_def d)
  next
    case 3
    with Cons.IH [of "TEE_Free heap b m"] d show ?thesis by (simp add: x is_memref_def) (simp add: param_type_defs)
  next
    case 4
    with Cons.IH [of m] show ?thesis by (auto simp: x is_memref_def)
  qed
qed

lemma privatize_lengths:
  assumes "\<forall>(t, p) \<in> set xs. is_memref t \<longrightarrow> memref_ok p"
  shows "privatize heap xs m \<noteq> Overrun \<and> (privatize heap xs m = Returned (ys, m') \<longrightarrow>
    (\<forall>(t, p, q, b) \<in> set ys. is_memref t \<longrightarrow> length (mbuf q) = length (mbuf p) \<and> msize q = msize p))"
  using assms
proof (induction xs arbitrary: m ys)
  case Nil
  then show ?case by simp
next
  case (Cons x xs)
  obtain t p where x: "x = (t, p)" by fastforce
  obtain b m1 where a: "TEE_Malloc heap (ucast (msize p)) m = (b, m1)" by fastforce
  have nv: "is_memref t \<Longrightarrow> t \<noteq> PT_VALUE_INPUT \<and> t \<noteq> PT_VALUE_INOUT" using not_memref by auto
  from Cons.prems have p: "is_memref t \<Longrightarrow> length (mbuf p) = unat (msize p)" by (simp add: x memref_ok_def)
  have ih: "\<forall>(t, p) \<in> set xs. is_memref t \<longrightarrow> memref_ok p" using Cons.prems by simp
  have ih1: "privatize heap xs m2 \<noteq> Overrun" for m2 using Cons.IH [OF ih] by blast
  have ih2: "\<forall>(t, p, q, b) \<in> set zs. is_memref t \<longrightarrow> length (mbuf q) = length (mbuf p) \<and> msize q = msize p"
    if "privatize heap xs m2 = Returned (zs, m')" for m2 zs using Cons.IH [OF ih] that by blast
  show ?case
  proof (cases "is_memref t")
    case True
    have "memcpy (replicate (unat (msize p)) 0) 0 (mbuf p) (unat (msize p)) = Some (mbuf p)"
      using p [OF True] by (simp add: memcpy_def put_block_def)
    with True nv [OF True] p [OF True] show ?thesis by (auto simp: x a Let_def ih1 dest!: ih2)
  next
    case False
    then show ?thesis by (auto simp: x Let_def ih1 dest!: ih2)
  qed
qed

text \<open>The parameters of the private call as the callee left them, when it came to that call\<close>

definition rpc_answer ::
  "('m, 'z) heap_api_scheme \<Rightarrow> ('m, 'y) client_api_scheme \<Rightarrow> uint32 \<Rightarrow> tee_params \<Rightarrow> uint32 \<Rightarrow> 'm \<Rightarrow> tee_params option" where
  "rpc_answer heap api types params cmd m =
     (let (res, session, _, _, m) = TEE_OpenTASession api cryp_uuid 0
            (TEE_PARAM_TYPES PT_NONE PT_NONE PT_NONE PT_NONE) zero_params m
      in if res \<noteq> TEE_SUCCESS then None
      else case privatize heap (zip (types_of types) (slots params)) m of
          Returned (xs, m) \<Rightarrow> Some (fst (snd (snd (TEE_InvokeTACommand api session 0 cmd types
            (of_slots (map (\<lambda>(t, p, q, b). q) xs)) m))))
        | _ \<Rightarrow> None)"

text \<open>The callee has reported more bytes than the buffer it got holds.\<close>

definition oversized :: "uint32 \<Rightarrow> tee_params \<Rightarrow> tee_params \<Rightarrow> bool" where
  "oversized types params answer \<longleftrightarrow>
     (\<exists>(t, p, q) \<in> set (zip (types_of types) (zip (slots params) (slots answer))).
        (t = PT_MEMREF_OUTPUT \<or> t = PT_MEMREF_INOUT) \<and> msize p < msize q)"

definition rpc_params_ok :: "uint32 \<Rightarrow> tee_params \<Rightarrow> bool" where
  "rpc_params_ok types params \<longleftrightarrow> (\<forall>(t, p) \<in> set (zip (types_of types) (slots params)). is_memref t \<longrightarrow> memref_ok p)"

lemma slots_of_slots: "length xs = 4 \<Longrightarrow> slots (of_slots xs) = xs"
  by (auto simp: slots_def of_slots_def length_Suc_conv numeral_eq_Suc)

lemma of_slots_slots [simp]: "of_slots (slots ps) = ps"
  by (simp add: slots_def of_slots_def)

lemma length_slots [simp]: "length (slots ps) = 4" "length (types_of types) = 4"
  by (simp_all add: slots_def types_of_def)

lemma privatize_length: "privatize heap xs m = Returned (ys, m') \<Longrightarrow> length ys = length xs"
  by (drule privatize_shape) (metis length_map)

lemma bex4: "(\<exists>x \<in> set [a, b, c, d]. P x) \<longleftrightarrow> P a \<or> P b \<or> P c \<or> P d"
  by simp

lemma answered_oversized:
  assumes "privatize heap (zip (types_of types) (slots params)) m = Returned (xs, m')" "rpc_params_ok types params"
    and "map (\<lambda>p. length (mbuf p)) (slots answer) = map (\<lambda>(t, p, q, b). length (mbuf q)) xs"
  shows "write_back heap (answered xs (slots answer)) m2 = Overrun \<longleftrightarrow> oversized types params answer"
proof -
  have len: "length xs = 4" using privatize_length [OF assms(1)] by simp
  obtain x0 x1 x2 x3 where "xs = [x0, x1, x2, x3]" using len by (auto simp: length_Suc_conv numeral_eq_Suc)
  moreover obtain t0 r0 q0 b0 where "x0 = (t0, r0, q0, b0)" by (metis prod_cases4)
  moreover obtain t1 r1 q1 b1 where "x1 = (t1, r1, q1, b1)" by (metis prod_cases4)
  moreover obtain t2 r2 q2 b2 where "x2 = (t2, r2, q2, b2)" by (metis prod_cases4)
  moreover obtain t3 r3 q3 b3 where "x3 = (t3, r3, q3, b3)" by (metis prod_cases4)
  ultimately have xs: "xs = [(t0, r0, q0, b0), (t1, r1, q1, b1), (t2, r2, q2, b2), (t3, r3, q3, b3)]" by simp
  have sh: "zip (types_of types) (slots params) = [(t0, r0), (t1, r1), (t2, r2), (t3, r3)]"
    using privatize_shape [OF assms(1)] by (simp add: xs)
  then have z: "zip (types_of types) (zip (slots params) (slots answer)) =
      [(t0, r0, p0 answer), (t1, r1, p1 answer), (t2, r2, p2 answer), (t3, r3, p3 answer)]"
    by (simp add: types_of_def slots_def)
  have pl: "\<forall>(t, p, q, b) \<in> set xs. is_memref t \<longrightarrow> length (mbuf q) = length (mbuf p)"
    using privatize_lengths [of "zip (types_of types) (slots params)" heap m xs m'] assms(1,2)
    unfolding rpc_params_ok_def by fastforce
  have ok: "\<forall>(t, p) \<in> set [(t0, r0), (t1, r1), (t2, r2), (t3, r3)]. is_memref t \<longrightarrow> length (mbuf p) = unat (msize p)"
    using assms(2) by (simp add: rpc_params_ok_def sh memref_ok_def)
  have a: "answered xs (slots answer) = [(t0, r0, p0 answer, b0), (t1, r1, p1 answer, b1), (t2, r2, p2 answer, b2), (t3, r3, p3 answer, b3)]"
    by (simp add: xs answered_def slots_def)
  have al: "length (mbuf (p0 answer)) = length (mbuf q0)" "length (mbuf (p1 answer)) = length (mbuf q1)"
    "length (mbuf (p2 answer)) = length (mbuf q2)" "length (mbuf (p3 answer)) = length (mbuf q3)"
    using assms(3) by (simp_all add: xs slots_def)
  have each: "(t = PT_MEMREF_OUTPUT \<or> t = PT_MEMREF_INOUT) \<and> (length (mbuf q') < unat (msize q') \<or> length (mbuf p) < unat (msize q')) \<longleftrightarrow>
      (t = PT_MEMREF_OUTPUT \<or> t = PT_MEMREF_INOUT) \<and> msize p < msize q'"
    if "is_memref t \<longrightarrow> length (mbuf q) = length (mbuf p)" "is_memref t \<longrightarrow> length (mbuf p) = unat (msize p)"
      "length (mbuf q') = length (mbuf q)" for t p q q'
    using that by (auto simp: is_memref_def word_less_nat_alt)
  have "(\<exists>(t, p, q, b) \<in> set (answered xs (slots answer)). (t = PT_MEMREF_OUTPUT \<or> t = PT_MEMREF_INOUT) \<and>
      (length (mbuf q) < unat (msize q) \<or> length (mbuf p) < unat (msize q))) \<longleftrightarrow> oversized types params answer"
  proof -
    have s: "is_memref t0 \<longrightarrow> length (mbuf q0) = length (mbuf r0)" "is_memref t1 \<longrightarrow> length (mbuf q1) = length (mbuf r1)"
      "is_memref t2 \<longrightarrow> length (mbuf q2) = length (mbuf r2)" "is_memref t3 \<longrightarrow> length (mbuf q3) = length (mbuf r3)"
      "is_memref t0 \<longrightarrow> length (mbuf r0) = unat (msize r0)" "is_memref t1 \<longrightarrow> length (mbuf r1) = unat (msize r1)"
      "is_memref t2 \<longrightarrow> length (mbuf r2) = unat (msize r2)" "is_memref t3 \<longrightarrow> length (mbuf r3) = unat (msize r3)"
      using pl ok by (simp_all add: xs)
    note e = each [OF s(1,5) al(1)] each [OF s(2,6) al(2)] each [OF s(3,7) al(3)] each [OF s(4,8) al(4)]
    show ?thesis unfolding oversized_def z a bex4 prod.case e ..
  qed
  then show ?thesis by (rule trans [OF write_back_overrun [THEN conjunct2]])
qed

section \<open>Properties\<close>

lemma rpc_invoke_law:
  assumes "rpc_laws heap api live ss" "TEE_InvokeTACommand api s t c pt ps m = (res, orig, ps', m')"
  shows "live m' = live m \<and> map (\<lambda>p. length (mbuf p)) (slots ps') = map (\<lambda>p. length (mbuf p)) (slots ps)"
proof -
  have "\<forall>s t c pt ps m res orig ps' m'. TEE_InvokeTACommand api s t c pt ps m = (res, orig, ps', m') \<longrightarrow>
        live m' = live m \<and> map (\<lambda>p. length (mbuf p)) (slots ps') = map (\<lambda>p. length (mbuf p)) (slots ps)"
    using assms(1) unfolding rpc_laws_def by (elim conjE)
  with assms(2) show ?thesis by blast
qed

lemma rpc_heap_laws:
  assumes "rpc_laws heap api live ss"
  shows "heap_laws heap live" "session_laws api ss" "ss (snd (TEE_Malloc heap n m)) = ss m" "ss (TEE_Free heap p m) = ss m"
    "live (TEE_CloseTASession api s m) = live m" "live (snd (snd (snd (snd (TEE_OpenTASession api u t pt ps m))))) = live m"
proof -
  show "heap_laws heap live" "session_laws api ss" "ss (snd (TEE_Malloc heap n m)) = ss m" "ss (TEE_Free heap p m) = ss m"
    "live (TEE_CloseTASession api s m) = live m"
    using assms by (simp_all add: rpc_laws_def)
  have "\<forall>u t pt ps m. live (snd (snd (snd (snd (TEE_OpenTASession api u t pt ps m))))) = live m"
    using assms unfolding rpc_laws_def by (elim conjE)
  then show "live (snd (snd (snd (snd (TEE_OpenTASession api u t pt ps m))))) = live m" by blast
qed

text \<open>A command that reaches the other TA with private memory\<close>

lemma rpc_private_outcome:
  assumes l: "rpc_laws heap api live ss" and ok: "rpc_params_ok types params"
    and a: "TEE_OpenTASession api cryp_uuid 0 (TEE_PARAM_TYPES PT_NONE PT_NONE PT_NONE PT_NONE) zero_params m = (TEE_SUCCESS, s, orig, ps1, m1)"
    and m1: "live m1 = live m" "s \<notin> ss m" "ss m1 = insert s (ss m)"
    and r: "privatize heap (zip (types_of types) (slots params)) m1 = Returned (xs, m2)"
  shows "(\<forall>res ps m'. rpc_call_cryp heap api True types params cmd m = Returned (res, ps, m') \<longrightarrow>
      live m' = live m \<and> ss m' = ss m) \<and>
    (rpc_call_cryp heap api True types params cmd m = Panicked \<longrightarrow> True) \<and>
    (rpc_call_cryp heap api True types params cmd m = Overrun \<longleftrightarrow>
      True \<and> (\<exists>answer. rpc_answer heap api types params cmd m = Some answer \<and> oversized types params answer))"
proof -
  note h = rpc_heap_laws [OF l]
  let ?qs = "map (\<lambda>(t, p, q, b). q) xs"
  have len: "length xs = 4" using privatize_length [OF r] by simp
  obtain res3 orig3 ps3 m3 where b: "TEE_InvokeTACommand api s 0 cmd types (of_slots ?qs) m2 = (res3, orig3, ps3, m3)"
    by (metis prod_cases4)
  let ?w = "write_back heap (answered xs (slots ps3)) (TEE_CloseTASession api s m3)"
  have c: "rpc_call_cryp heap api True types params cmd m = map_rpc_outcome (\<lambda>(ps, m). (res3, of_slots ps, m)) ?w"
    by (simp add: rpc_call_cryp_def a r b)
  have d: "rpc_answer heap api types params cmd m = Some ps3" by (simp add: rpc_answer_def a r b)
  have inv: "live m3 = live m2" "map (\<lambda>p. length (mbuf p)) (slots ps3) = map (\<lambda>p. length (mbuf p)) ?qs"
    using rpc_invoke_law [OF l b] slots_of_slots [of ?qs] len by simp_all
  have o: "?w = Overrun \<longleftrightarrow> oversized types params ps3"
    using answered_oversized [OF r ok] inv(2) by (simp add: comp_def split_beta)
  have m2: "live m2 = live m \<union> slot_blocks xs" "live m \<inter> slot_blocks xs = {}" "ss m2 = insert s (ss m)" "s \<notin> ss m"
    using privatize_live [OF h(1) r] privatize_other [of ss heap, OF h(3) r] m1 by simp_all
  have ret: "live m' = live m \<and> ss m' = ss m" if w: "?w = Returned (ps, m')" for ps m'
  proof -
    have "live m' = live m3 - slot_blocks xs"
      using write_back_live [OF h(1) w] by (simp add: answered_blocks len h(5))
    moreover have "ss m' = ss m3 - {s}" using write_back_other [of ss heap, OF h(4) w] close_session [OF h(2)] by simp
    moreover have "ss m3 = ss m2" using invoke_session [OF h(2) b] .
    ultimately show ?thesis using m2 inv(1) by auto
  qed
  have np: "?w \<noteq> Panicked" by (rule write_back_overrun [THEN conjunct1])
  obtain w where w: "?w = w" by blast
  show ?thesis
    using ret np o unfolding c d w by (cases w) auto
qed

text \<open>
  C40.  A command forwarded to the crypt TA, whatever its number, its parameter types and the answer,
  ends with the blocks and the sessions the TA started with whenever it returns.  The TA panics only
  for want of private memory, and it writes outside a buffer exactly when it works on private copies
  and the callee reports more bytes in an output or inout buffer than the buffer has, as the Core API
  makes a callee do that needs a larger one.
\<close>
theorem rpc_forwarding:
  assumes l: "rpc_laws heap api live ss" and ok: "rpc_params_ok types params"
  shows "(\<forall>res ps m'. rpc_call_cryp heap api sec_mem types params cmd m = Returned (res, ps, m') \<longrightarrow>
      live m' = live m \<and> ss m' = ss m) \<and>
    (rpc_call_cryp heap api sec_mem types params cmd m = Panicked \<longrightarrow> sec_mem) \<and>
    (rpc_call_cryp heap api sec_mem types params cmd m = Overrun \<longleftrightarrow>
      sec_mem \<and> (\<exists>answer. rpc_answer heap api types params cmd m = Some answer \<and> oversized types params answer))"
proof -
  note h = rpc_heap_laws [OF l]
  let ?nt = "TEE_PARAM_TYPES PT_NONE PT_NONE PT_NONE PT_NONE"
  obtain res s orig ps1 m1 where a: "TEE_OpenTASession api cryp_uuid 0 ?nt zero_params m = (res, s, orig, ps1, m1)"
    by (metis prod_cases5)
  have m1: "live m1 = live m" "if res = TEE_SUCCESS then s \<noteq> 0 \<and> s \<notin> ss m \<and> ss m1 = insert s (ss m) else s = 0 \<and> ss m1 = ss m"
    using h(6) [where u = cryp_uuid and t = 0 and pt = ?nt and ps = zero_params and m = m] a open_session [OF h(2) a] by simp_all
  consider "res \<noteq> TEE_SUCCESS" | "res = TEE_SUCCESS" "\<not> sec_mem" | "res = TEE_SUCCESS" "sec_mem" by blast
  then show ?thesis
  proof cases
    case 1
    with m1 a show ?thesis by (simp add: rpc_call_cryp_def rpc_answer_def)
  next
    case 2
    obtain res2 orig2 ps2 m2 where b: "TEE_InvokeTACommand api s 0 cmd types params m1 = (res2, orig2, ps2, m2)"
      by (metis prod_cases4)
    with rpc_invoke_law [OF l b] invoke_session [OF h(2) b] m1 2 show ?thesis
      by (simp add: rpc_call_cryp_def a b h close_session [OF h(2)])
  next
    case 3
    let ?p = "privatize heap (zip (types_of types) (slots params)) m1"
    have no: "?p \<noteq> Overrun" by (rule privatize_lengths [OF ok [unfolded rpc_params_ok_def], THEN conjunct1])
    show ?thesis
    proof (cases ?p)
      case Overrun
      with no show ?thesis by simp
    next
      case Panicked
      with 3 show ?thesis by (simp add: rpc_call_cryp_def rpc_answer_def a)
    next
      case (Returned r)
      obtain xs m2 where r: "?p = Returned (xs, m2)" using Returned by (cases r) auto
      have s: "live m1 = live m" "s \<notin> ss m" "ss m1 = insert s (ss m)" using m1 3 by simp_all
      show ?thesis
        using rpc_private_outcome [OF l ok a [unfolded 3(1)] s r, of cmd] unfolding eqTrueI [OF 3(2)] .
    qed
  qed
qed

section \<open>Digests through the crypt TA\<close>

lemma in_out_types_of: "types_of in_out_types = [PT_MEMREF_INPUT, PT_MEMREF_OUTPUT, PT_NONE, PT_NONE]"
proof -
  have "PT_MEMREF_INPUT < 16" "PT_MEMREF_OUTPUT < 16" "PT_NONE < 16" by (simp_all add: param_type_defs)
  then show ?thesis by (simp only: types_of_def list.map param_types_get)
qed

text \<open>The way back of a slot of each type in use\<close>

lemma write_back_slots:
  "write_back heap ((PT_MEMREF_INPUT, p, q, b) # xs) m =
     map_rpc_outcome (\<lambda>(ps, m). (p\<lparr>msize := msize q\<rparr> # ps, m)) (write_back heap xs (TEE_Free heap b m))"
  "memcpy (mbuf p) 0 (mbuf q) (unat (msize q)) = Some buf \<Longrightarrow> write_back heap ((PT_MEMREF_OUTPUT, p, q, b) # xs) m =
     map_rpc_outcome (\<lambda>(ps, m). (p\<lparr>mbuf := buf, msize := msize q\<rparr> # ps, m)) (write_back heap xs (TEE_Free heap b m))"
  "write_back heap ((PT_NONE, p, q, b) # xs) m = map_rpc_outcome (\<lambda>(ps, m). (p # ps, m)) (write_back heap xs m)"
  by (simp_all add: is_memref_def) (simp_all add: param_type_defs)

text \<open>The digest without private memory, and with it\<close>

lemma rpc_sha256_shared:
  assumes served: "\<And>s ps m r ps' t. crypt_invoke e TA_CRYPT_CMD_SHA256 in_out_types ps (ta m) = Some (r, ps', t) \<Longrightarrow>
      \<exists>m'. TEE_InvokeTACommand api s 0 TA_CRYPT_CMD_SHA256 in_out_types ps m = (r, 4, ps', m')"
    and a: "TEE_OpenTASession api cryp_uuid 0 (TEE_PARAM_TYPES PT_NONE PT_NONE PT_NONE PT_NONE) zero_params m = (TEE_SUCCESS, s, orig, ps1, m1)"
    and ok: "memref_ok (p0 ps)" "memref_ok (p1 ps)" "msize (p0 ps) < 2 ^ 29" "32 \<le> msize (p1 ps)"
  shows "\<exists>m'. rpc_call_cryp heap api False in_out_types ps TA_CRYPT_CMD_SHA256 m =
    Returned (TEE_SUCCESS, ps\<lparr>p1 := (p1 ps)\<lparr>mbuf := sha256_answer (mbuf (p0 ps)) (mbuf (p1 ps))\<rparr>\<rparr>, m')"
proof -
  obtain t' where "crypt_invoke e TA_CRYPT_CMD_SHA256 in_out_types ps (ta m1) =
      Some (TEE_SUCCESS, ps\<lparr>p1 := (p1 ps)\<lparr>mbuf := sha256_answer (mbuf (p0 ps)) (mbuf (p1 ps))\<rparr>\<rparr>, t')"
    using crypt_sha256 ok by blast
  from served [OF this] obtain m2 where b: "TEE_InvokeTACommand api s 0 TA_CRYPT_CMD_SHA256 in_out_types ps m1 =
      (TEE_SUCCESS, 4, ps\<lparr>p1 := (p1 ps)\<lparr>mbuf := sha256_answer (mbuf (p0 ps)) (mbuf (p1 ps))\<rparr>\<rparr>, m2)" by blast
  show ?thesis
    by (simp add: rpc_call_cryp_def a b slots_def of_slots_def)
qed

lemma rpc_sha256_private:
  assumes served: "\<And>s ps m r ps' t. crypt_invoke e TA_CRYPT_CMD_SHA256 in_out_types ps (ta m) = Some (r, ps', t) \<Longrightarrow>
      \<exists>m'. TEE_InvokeTACommand api s 0 TA_CRYPT_CMD_SHA256 in_out_types ps m = (r, 4, ps', m')"
    and a: "TEE_OpenTASession api cryp_uuid 0 (TEE_PARAM_TYPES PT_NONE PT_NONE PT_NONE PT_NONE) zero_params m = (TEE_SUCCESS, s, orig, ps1, m1)"
    and room: "\<And>n m. fst (TEE_Malloc heap n m) \<noteq> 0"
    and ok: "memref_ok (p0 ps)" "memref_ok (p1 ps)" "msize (p0 ps) < 2 ^ 29" "32 \<le> msize (p1 ps)"
  shows "\<exists>m'. rpc_call_cryp heap api True in_out_types ps TA_CRYPT_CMD_SHA256 m =
    Returned (TEE_SUCCESS, ps\<lparr>p1 := (p1 ps)\<lparr>mbuf := sha256_answer (mbuf (p0 ps)) (replicate (unat (msize (p1 ps))) 0)\<rparr>\<rparr>, m')"
proof -
  let ?inq = "zero_param\<lparr>mbuf := mbuf (p0 ps), msize := msize (p0 ps)\<rparr>"
  let ?n = "unat (msize (p1 ps))"
  let ?outq = "zero_param\<lparr>mbuf := replicate ?n 0, msize := msize (p1 ps)\<rparr>"
  let ?all = "\<lparr>p0 = ?inq, p1 = ?outq, p2 = zero_param, p3 = zero_param\<rparr>"
  let ?d = "sha256_answer (mbuf (p0 ps)) (replicate ?n 0)"
  have n: "32 \<le> ?n" using ok(4) by (simp add: word_le_nat_alt)
  obtain b0 m2 where c0: "TEE_Malloc heap (ucast (msize (p0 ps))) m1 = (b0, m2)" "0 < b0"
    using room by (metis prod.collapse neq0_conv)
  obtain b1 m3 where c1: "TEE_Malloc heap (ucast (msize (p1 ps))) m2 = (b1, m3)" "0 < b1"
    using room by (metis prod.collapse neq0_conv)
  have cp: "memcpy (replicate (unat (msize (p0 ps))) 0) 0 (mbuf (p0 ps)) (unat (msize (p0 ps))) = Some (mbuf (p0 ps))"
    using ok(1) by (simp add: memcpy_def put_block_def memref_ok_def)
  have pr: "privatize heap (zip (types_of in_out_types) (slots ps)) m1 =
      Returned ([(PT_MEMREF_INPUT, p0 ps, ?inq, b0), (PT_MEMREF_OUTPUT, p1 ps, ?outq, b1),
        (PT_NONE, p2 ps, zero_param, 0), (PT_NONE, p3 ps, zero_param, 0)], m3)"
    unfolding in_out_types_of slots_def using c0 c1 cp by (simp add: is_memref_def param_type_defs)
  have "memref_ok ?inq" "memref_ok ?outq" using ok(1) by (simp_all add: memref_ok_def)
  then obtain t' where "crypt_invoke e TA_CRYPT_CMD_SHA256 in_out_types ?all (ta m3) =
      Some (TEE_SUCCESS, ?all\<lparr>p1 := ?outq\<lparr>mbuf := ?d\<rparr>\<rparr>, t')"
    using crypt_sha256 [of ?all] ok by auto
  from served [OF this] obtain m4 where b: "TEE_InvokeTACommand api s 0 TA_CRYPT_CMD_SHA256 in_out_types ?all m3 =
      (TEE_SUCCESS, 4, ?all\<lparr>p1 := ?outq\<lparr>mbuf := ?d\<rparr>\<rparr>, m4)" by blast
  have copied: "memcpy (mbuf (p1 ps)) 0 ?d ?n = Some ?d"
    using ok(2) length_sha256_answer [of "replicate ?n 0" "mbuf (p0 ps)"] n by (simp add: memcpy_def put_block_def memref_ok_def)
  let ?answer = "?all\<lparr>p1 := ?outq\<lparr>mbuf := ?d\<rparr>\<rparr>"
  let ?xs = "[(PT_MEMREF_INPUT, p0 ps, p0 ?answer, b0), (PT_MEMREF_OUTPUT, p1 ps, p1 ?answer, b1),
        (PT_NONE, p2 ps, zero_param, 0), (PT_NONE, p3 ps, zero_param, 0)]"
  have call: "rpc_call_cryp heap api True in_out_types ps TA_CRYPT_CMD_SHA256 m =
      map_rpc_outcome (\<lambda>(ps, m). (TEE_SUCCESS, of_slots ps, m)) (write_back heap ?xs (TEE_CloseTASession api s m4))"
    using b by (simp add: rpc_call_cryp_def a pr of_slots_def del: write_back.simps) (simp add: answered_def slots_def del: write_back.simps)
  have same: "(p0 ps)\<lparr>msize := msize (p0 ps)\<rparr> = p0 ps" "(p1 ps)\<lparr>mbuf := ?d, msize := msize (p1 ps)\<rparr> = (p1 ps)\<lparr>mbuf := ?d\<rparr>"
    by simp_all
  have wb: "write_back heap ?xs w = Returned ([p0 ps, (p1 ps)\<lparr>mbuf := ?d\<rparr>, p2 ps, p3 ps], TEE_Free heap b1 (TEE_Free heap b0 w))" for w
    using copied same by (simp add: write_back_slots del: write_back.simps(2))
  show ?thesis
    unfolding call wb by (simp add: of_slots_def)
qed

text \<open>
  C10.  Through the RPC TA the digest of the crypt TA is the same with and without private memory: if
  the crypt TA answers the RPC TA's commands, the session opens and memory suffices, a client gets
  \<open>TEE_SUCCESS\<close> and the FIPS 180 digest of its input in the first 32 bytes of its output buffer, of
  which the rest is cleared with private memory and left as it was without.
\<close>
theorem rpc_sha256_end_to_end:
  assumes served: "\<And>s ps m r ps' t. crypt_invoke e TA_CRYPT_CMD_SHA256 in_out_types ps (ta m) = Some (r, ps', t) \<Longrightarrow>
      \<exists>m'. TEE_InvokeTACommand api s 0 TA_CRYPT_CMD_SHA256 in_out_types ps m = (r, 4, ps', m')"
    and opens: "fst (TEE_OpenTASession api cryp_uuid 0 (TEE_PARAM_TYPES PT_NONE PT_NONE PT_NONE PT_NONE) zero_params m) = TEE_SUCCESS"
    and room: "\<And>n m. fst (TEE_Malloc heap n m) \<noteq> 0"
    and ok: "memref_ok (p0 ps)" "memref_ok (p1 ps)" "msize (p0 ps) < 2 ^ 29" "32 \<le> msize (p1 ps)"
  shows "\<exists>m'. rpc_invoke heap api (if sec then TA_RPC_CMD_CRYPT_PRIVMEM_SHA256 else TA_RPC_CMD_CRYPT_SHA256) in_out_types ps m =
    Returned (TEE_SUCCESS, ps\<lparr>p1 := (p1 ps)\<lparr>mbuf := sha256_answer (mbuf (p0 ps))
      (if sec then replicate (unat (msize (p1 ps))) 0 else mbuf (p1 ps))\<rparr>\<rparr>, m')"
proof -
  let ?nt = "TEE_PARAM_TYPES PT_NONE PT_NONE PT_NONE PT_NONE"
  obtain s orig ps1 m1 where a: "TEE_OpenTASession api cryp_uuid 0 ?nt zero_params m = (TEE_SUCCESS, s, orig, ps1, m1)"
    using opens by (metis prod.collapse)
  have invoke: "rpc_invoke heap api (if sec then TA_RPC_CMD_CRYPT_PRIVMEM_SHA256 else TA_RPC_CMD_CRYPT_SHA256) in_out_types ps m =
      rpc_call_cryp heap api sec in_out_types ps TA_CRYPT_CMD_SHA256 m"
    by (cases sec) (simp_all add: rpc_invoke_def rpc_cmd_defs rpc_sha256_def)
  show ?thesis
    unfolding invoke using rpc_sha256_shared [OF served a ok] rpc_sha256_private [OF served a room ok] by (cases sec) simp_all
qed

section \<open>A concrete environment\<close>

text \<open>
  A state of blocks, sessions and a crypt TA; the heap is \<^const>\<open>list_heap\<close>, the sessions those of
  \<^const>\<open>list_client\<close>, and the commands go to the crypt TA or, for the overrun, to a TA that wants 64
  bytes more in its second parameter.
\<close>

type_synonym rpc_world = "ptr list \<times> nat list \<times> sim_mem crypt_ta"

definition rpc_heap :: "rpc_world heap_api" where
  "rpc_heap = \<lparr>TEE_Malloc = \<lambda>n (b, r). (let (p, b) = TEE_Malloc list_heap n b in (p, b, r)),
     TEE_Free = \<lambda>p (b, r). (TEE_Free list_heap p b, r)\<rparr>"

definition rpc_client ::
  "(uint32 \<Rightarrow> uint32 \<Rightarrow> tee_params \<Rightarrow> sim_mem crypt_ta \<Rightarrow> TEE_Result \<times> tee_params \<times> sim_mem crypt_ta) \<Rightarrow> rpc_world client_api" where
  "rpc_client f = \<lparr>
     TEE_OpenTASession = \<lambda>u t pt ps (b, s, c). (let (res, h, orig, ps, s) = TEE_OpenTASession list_client u t pt ps s in (res, h, orig, ps, b, s, c)),
     TEE_InvokeTACommand = \<lambda>h t cmd pt ps (b, s, c). (let (res, ps, c) = f cmd pt ps c in (res, 4, ps, b, s, c)),
     TEE_CloseTASession = \<lambda>h (b, s, c). (b, TEE_CloseTASession list_client h s, c)\<rparr>"

definition greedy_ta :: "uint32 \<Rightarrow> uint32 \<Rightarrow> tee_params \<Rightarrow> sim_mem crypt_ta \<Rightarrow> TEE_Result \<times> tee_params \<times> sim_mem crypt_ta" where
  "greedy_ta cmd types ps c = (TEE_ERROR_SHORT_BUFFER, ps\<lparr>p1 := (p1 ps)\<lparr>msize := msize (p1 ps) + 64\<rparr>\<rparr>, c)"

definition crypt_server :: "sim_mem crypt_env \<Rightarrow> uint32 \<Rightarrow> uint32 \<Rightarrow> tee_params \<Rightarrow> sim_mem crypt_ta \<Rightarrow> TEE_Result \<times> tee_params \<times> sim_mem crypt_ta" where
  "crypt_server e cmd types ps c = (case crypt_invoke e cmd types ps c of Some r \<Rightarrow> r | None \<Rightarrow> (TEE_ERROR_GENERIC, ps, c))"

lemma rpc_client_sessions: "session_laws (rpc_client f) (\<lambda>w. of_nat ` set (fst (snd w)) - {0})"
  unfolding session_laws_def
proof (intro conjI allI impI)
  fix h and w :: rpc_world
  obtain b s c where w: "w = (b, s, c)" by (metis prod_cases3)
  show "0 \<notin> of_nat ` set (fst (snd w)) - {0 :: size_t}" by simp
  show "of_nat ` set (fst (snd (TEE_CloseTASession (rpc_client f) h w))) - {0} = of_nat ` set (fst (snd w)) - {0} - {h}"
    using close_session [OF list_client_laws, of h s] by (simp add: w rpc_client_def)
next
  fix u t pt ps and w :: rpc_world and res h orig ps' w'
  obtain b s c where w: "w = (b, s, c)" by (metis prod_cases3)
  obtain res1 h1 orig1 ps1 s1 where o: "TEE_OpenTASession list_client u t pt ps s = (res1, h1, orig1, ps1, s1)" by (metis prod_cases5)
  assume "TEE_OpenTASession (rpc_client f) u t pt ps w = (res, h, orig, ps', w')"
  then have "res = res1" "h = h1" "w' = (b, s1, c)" by (simp_all add: w rpc_client_def o)
  with open_session [OF list_client_laws o] show "if res = TEE_SUCCESS
      then h \<noteq> 0 \<and> h \<notin> of_nat ` set (fst (snd w)) - {0} \<and>
        of_nat ` set (fst (snd w')) - {0} = insert h (of_nat ` set (fst (snd w)) - {0})
      else h = 0 \<and> of_nat ` set (fst (snd w')) - {0} = of_nat ` set (fst (snd w)) - {0 :: size_t}"
    by (auto simp: w)
next
  fix h t cmd pt ps and w :: rpc_world and res orig ps' w'
  assume "TEE_InvokeTACommand (rpc_client f) h t cmd pt ps w = (res, orig, ps', w')"
  then show "of_nat ` set (fst (snd w')) - {0} = of_nat ` set (fst (snd w)) - {0 :: size_t}"
    by (cases w) (auto simp: rpc_client_def split: prod.splits)
qed

lemma rpc_client_laws:
  "rpc_laws rpc_heap (rpc_client greedy_ta) (\<lambda>w. set (fst w) - {0}) (\<lambda>w. of_nat ` set (fst (snd w)) - {0})"
proof -
  have "heap_laws rpc_heap (\<lambda>w. set (fst w) - {0})"
    by (auto simp: heap_laws_def rpc_heap_def list_heap_def fresh_block split: prod.splits)
  with rpc_client_sessions [of greedy_ta] show ?thesis
    unfolding rpc_laws_def
    by (intro conjI; assumption?) (auto simp: rpc_heap_def rpc_client_def greedy_ta_def slots_def split: prod.splits)
qed

definition rpc_demo :: rpc_world where "rpc_demo = ([], [], sim_ta)"

lemma rpc_forwarding_witness:
  "rpc_call_cryp rpc_heap (rpc_client greedy_ta) True in_out_types (io_params [1, 2] (replicate 32 0)) TA_CRYPT_CMD_SHA256 rpc_demo = Overrun"
proof -
  let ?ps = "io_params [1, 2] (replicate 32 0)"
  have ok: "rpc_params_ok in_out_types ?ps"
    unfolding rpc_params_ok_def in_out_types_of slots_def
    by (simp add: memref_ok_def is_memref_def param_type_defs io_params_def zero_params_def)
  have "map_option (oversized in_out_types ?ps)
      (rpc_answer rpc_heap (rpc_client greedy_ta) in_out_types ?ps TA_CRYPT_CMD_SHA256 rpc_demo) = Some True"
    unfolding rpc_answer_def oversized_def in_out_types_of slots_def
    by (simp add: rpc_client_def list_client_def rpc_demo_def of_slots_def rpc_heap_def
        list_heap_def is_memref_def param_type_defs greedy_ta_def memcpy_def zero_params_def put_block_def Let_def)
  then obtain answer where "rpc_answer rpc_heap (rpc_client greedy_ta) in_out_types ?ps TA_CRYPT_CMD_SHA256 rpc_demo = Some answer"
    "oversized in_out_types ?ps answer" by auto
  then show ?thesis using rpc_forwarding [OF rpc_client_laws ok, of True] by blast
qed

lemma rpc_sha256_end_to_end_witness:
  "\<forall>c b k sec. \<exists>m'. rpc_invoke rpc_heap (rpc_client (crypt_server (sim_env c b k)))
      (if sec then TA_RPC_CMD_CRYPT_PRIVMEM_SHA256 else TA_RPC_CMD_CRYPT_SHA256) in_out_types
      (io_params [0x61, 0x62, 0x63] (replicate 40 9)) rpc_demo =
    Returned (TEE_SUCCESS, io_params [0x61, 0x62, 0x63] (sha256_answer [0x61, 0x62, 0x63] (replicate 40 (if sec then 0 else 9))), m')"
proof (intro allI)
  fix c b k sec
  let ?ps = "io_params [0x61, 0x62, 0x63] (replicate 40 9)"
  let ?api = "rpc_client (crypt_server (sim_env c b k))"
  have served: "\<exists>m'. TEE_InvokeTACommand ?api s 0 TA_CRYPT_CMD_SHA256 in_out_types ps m = (r, 4, ps', m')"
    if "crypt_invoke (sim_env c b k) TA_CRYPT_CMD_SHA256 in_out_types ps (snd (snd m)) = Some (r, ps', t)" for s ps m r ps' t
    using that by (cases m) (simp add: rpc_client_def crypt_server_def)
  have opens: "fst (TEE_OpenTASession ?api cryp_uuid 0 (TEE_PARAM_TYPES PT_NONE PT_NONE PT_NONE PT_NONE) zero_params rpc_demo) = TEE_SUCCESS"
    by (simp add: rpc_client_def list_client_def rpc_demo_def)
  have room: "fst (TEE_Malloc rpc_heap n m) \<noteq> 0" for n m
    by (cases m) (simp add: rpc_heap_def list_heap_def)
  have io: "?ps\<lparr>p1 := zero_param\<lparr>msize := 40, mbuf := xs\<rparr>\<rparr> = io_params [0x61, 0x62, 0x63] xs" if "length xs = 40" for xs
    using that by (simp add: io_params_def zero_params_def)
  have len: "length (sha256_answer [0x61, 0x62, 0x63] (replicate 40 x)) = 40" for x by (simp add: length_sha256_answer)
  have "\<exists>m'. rpc_invoke rpc_heap ?api (if sec then TA_RPC_CMD_CRYPT_PRIVMEM_SHA256 else TA_RPC_CMD_CRYPT_SHA256) in_out_types ?ps rpc_demo =
    Returned (TEE_SUCCESS, ?ps\<lparr>p1 := (p1 ?ps)\<lparr>mbuf := sha256_answer (mbuf (p0 ?ps))
      (if sec then replicate (unat (msize (p1 ?ps))) 0 else mbuf (p1 ?ps))\<rparr>\<rparr>, m')"
    by (rule rpc_sha256_end_to_end [where ta = "\<lambda>m. snd (snd m)" and e = "sim_env c b k"])
      (use served opens room in \<open>simp_all add: memref_ok_def\<close>)
  then show "\<exists>m'. rpc_invoke rpc_heap ?api (if sec then TA_RPC_CMD_CRYPT_PRIVMEM_SHA256 else TA_RPC_CMD_CRYPT_SHA256) in_out_types ?ps rpc_demo =
    Returned (TEE_SUCCESS, io_params [0x61, 0x62, 0x63] (sha256_answer [0x61, 0x62, 0x63] (replicate 40 (if sec then 0 else 9))), m')"
    by (cases sec) (simp_all add: io len)
qed

end
