(* ===== verification/Storage_Bench.thy ===== *)
theory Storage_Bench
  imports Storage
begin

text \<open>
  Model of \<open>src/ta/storage_benchmark\<close>: the TA that times reading, writing and rewriting a file in chunks
  through the persistent object API of \<^theory_text>\<open>Storage\<close>.  Each loop over the file is a partial function,
  so that returning is something to prove.
\<close>

definition TA_STORAGE_BENCHMARK_CMD_TEST_READ :: uint32 where "TA_STORAGE_BENCHMARK_CMD_TEST_READ = 0"
definition TA_STORAGE_BENCHMARK_CMD_TEST_WRITE :: uint32 where "TA_STORAGE_BENCHMARK_CMD_TEST_WRITE = 1"
definition TA_STORAGE_BENCHMARK_CMD_TEST_REWRITE :: uint32 where "TA_STORAGE_BENCHMARK_CMD_TEST_REWRITE = 2"

lemmas bench_cmd_defs = TA_STORAGE_BENCHMARK_CMD_TEST_READ_def TA_STORAGE_BENCHMARK_CMD_TEST_WRITE_def
  TA_STORAGE_BENCHMARK_CMD_TEST_REWRITE_def

definition DEFAULT_CHUNK_SIZE :: nat where "DEFAULT_CHUNK_SIZE = 1024"
definition DEFAULT_DATA_SIZE :: nat where "DEFAULT_DATA_SIZE = 1024"
definition TEE_STORAGE_PRIVATE :: uint32 where "TEE_STORAGE_PRIVATE = 1"
definition TEE_DATA_SEEK_SET :: uint32 where "TEE_DATA_SEEK_SET = 0"
definition TEE_DATA_SEEK_CUR :: uint32 where "TEE_DATA_SEEK_CUR = 1"

record 'm bench_api = "'m storage_api" +
  TEE_GetSystemTime :: "'m \<Rightarrow> TEE_Time \<times> 'm"

section \<open>The pattern\<close>

definition SCRAMBLE :: "size_t \<Rightarrow> u8" where
  "SCRAMBLE x = ucast ((x AND 0xff) XOR 0xaa)"

text \<open>\<open>"BenchmarkTestFile"\<close> with its terminating zero\<close>

definition filename :: "u8 list" where
  "filename = [0x42, 0x65, 0x6e, 0x63, 0x68, 0x6d, 0x61, 0x72, 0x6b, 0x54, 0x65, 0x73, 0x74, 0x46, 0x69, 0x6c, 0x65, 0]"

definition fill_buffer :: "u8 list \<Rightarrow> nat \<Rightarrow> u8 list option" where
  "fill_buffer buf n = foldM (\<lambda>i buf. st buf i (SCRAMBLE (of_nat i))) [0..<n] buf"

fun verify_loop :: "u8 list \<Rightarrow> nat list \<Rightarrow> TEE_Result option" where
  "verify_loop buf [] = Some TEE_SUCCESS"
| "verify_loop buf (i # is) =
     (case ld buf i of
       None \<Rightarrow> None
     | Some b \<Rightarrow> if SCRAMBLE (of_nat i) \<noteq> b then Some TEE_ERROR_CORRUPT_OBJECT else verify_loop buf is)"

definition verify_buffer :: "u8 list \<Rightarrow> nat \<Rightarrow> TEE_Result option" where
  "verify_buffer buf n = verify_loop buf [0..<n]"

section \<open>Time\<close>

definition tee_time_to_ms :: "TEE_Time \<Rightarrow> uint32" where
  "tee_time_to_ms t = seconds t * 1000 + millis t"

definition get_delta_time_in_ms :: "TEE_Time \<Rightarrow> TEE_Time \<Rightarrow> uint32" where
  "get_delta_time_in_ms start stop = tee_time_to_ms stop - tee_time_to_ms start"

section \<open>The loops\<close>

text \<open>The write loop of \<open>prepare_test_file\<close> and of \<open>test_write\<close>\<close>

partial_function (option) write_loop ::
  "('m, 'z) bench_api_scheme \<Rightarrow> size_t \<Rightarrow> u8 list \<Rightarrow> nat \<Rightarrow> nat \<Rightarrow> TEE_Result \<Rightarrow> 'm \<Rightarrow> (TEE_Result \<times> 'm) option" where
  "write_loop api object chunk_buf chunk_size remain_bytes res m =
     (if remain_bytes = 0 then Some (res, m)
      else
        let write_size = (if remain_bytes < chunk_size then remain_bytes else chunk_size);
            (res, m) = TEE_WriteObjectData api object chunk_buf (of_nat write_size) m
        in if res \<noteq> TEE_SUCCESS then Some (res, m)
        else write_loop api object chunk_buf chunk_size (remain_bytes - write_size) res m)"

partial_function (option) read_loop ::
  "('m, 'z) bench_api_scheme \<Rightarrow> size_t \<Rightarrow> u8 list \<Rightarrow> nat \<Rightarrow> nat \<Rightarrow> uint32 \<Rightarrow> TEE_Result \<Rightarrow> 'm \<Rightarrow>
     (TEE_Result \<times> u8 list \<times> 'm) option" where
  "read_loop api object chunk_buf chunk_size remain_bytes read_bytes res m =
     (if remain_bytes = 0 then Some (res, chunk_buf, m)
      else
        let read_size = (if remain_bytes < chunk_size then remain_bytes else chunk_size);
            (res, chunk_buf, read_bytes, m) = TEE_ReadObjectData api object chunk_buf (of_nat read_size) read_bytes m
        in if res \<noteq> TEE_SUCCESS then Some (res, chunk_buf, m)
        else read_loop api object chunk_buf chunk_size (remain_bytes - read_size) read_bytes res m)"

text \<open>
  \<open>negative_chunk_size = -(int32_t)write_size\<close>: the negation of the least \<open>int32_t\<close> overflows, which is
  undefined.
\<close>

definition negative_size :: "nat \<Rightarrow> int option" where
  "negative_size n = (let i = sint (of_nat n :: uint32) in if i = - (2 ^ 31) then None else Some (- i))"

partial_function (option) rewrite_loop ::
  "('m, 'z) bench_api_scheme \<Rightarrow> size_t \<Rightarrow> u8 list \<Rightarrow> nat \<Rightarrow> nat \<Rightarrow> uint32 \<Rightarrow> TEE_Result \<Rightarrow> 'm \<Rightarrow>
     (TEE_Result \<times> u8 list \<times> 'm) option" where
  "rewrite_loop api object chunk_buf chunk_size remain_bytes read_bytes res m =
     (if remain_bytes = 0 then Some (res, chunk_buf, m)
      else
        let write_size = (if remain_bytes < chunk_size then remain_bytes else chunk_size)
        in case negative_size write_size of None \<Rightarrow> None | Some negative_chunk_size \<Rightarrow>
        let (res, chunk_buf, read_bytes, m) = TEE_ReadObjectData api object chunk_buf (of_nat write_size) read_bytes m
        in if res \<noteq> TEE_SUCCESS then Some (res, chunk_buf, m)
        else if unat read_bytes \<noteq> write_size then Some (TEE_ERROR_CORRUPT_OBJECT, chunk_buf, m)
        else
          let (res, m) = TEE_SeekObjectData api object negative_chunk_size TEE_DATA_SEEK_CUR m
          in if res \<noteq> TEE_SUCCESS then Some (res, chunk_buf, m)
        else
          let (res, m) = TEE_WriteObjectData api object chunk_buf (of_nat write_size) m
          in if res \<noteq> TEE_SUCCESS then Some (res, chunk_buf, m)
        else rewrite_loop api object chunk_buf chunk_size (remain_bytes - write_size) read_bytes res m)"

text \<open>The loop of \<open>verify_file_data\<close>: \<open>tmp_data_size\<close> is a \<open>size_t\<close> that goes down by whole chunks.\<close>

partial_function (option) verify_file_loop ::
  "('m, 'z) bench_api_scheme \<Rightarrow> size_t \<Rightarrow> u8 list \<Rightarrow> nat \<Rightarrow> size_t \<Rightarrow> TEE_Result \<Rightarrow> 'm \<Rightarrow> (TEE_Result \<times> u8 list \<times> 'm) option" where
  "verify_file_loop api object chunk_buf chunk_size tmp_data_size res m =
     (if \<not> 0 < tmp_data_size then Some (res, chunk_buf, m)
      else
        let (res, chunk_buf, read_bytes, m) = TEE_ReadObjectData api object chunk_buf (of_nat chunk_size) 0 m
        in if res \<noteq> TEE_SUCCESS then Some (res, chunk_buf, m)
        else if unat read_bytes \<noteq> chunk_size then Some (TEE_ERROR_CORRUPT_OBJECT, chunk_buf, m)
        else case verify_buffer chunk_buf chunk_size of
            None \<Rightarrow> None
          | Some res \<Rightarrow>
            if res \<noteq> TEE_SUCCESS then Some (res, chunk_buf, m)
            else verify_file_loop api object chunk_buf chunk_size (tmp_data_size - of_nat chunk_size) res m)"

section \<open>The tests\<close>

definition bench_flags :: uint32 where
  "bench_flags = TEE_DATA_FLAG_ACCESS_READ OR TEE_DATA_FLAG_ACCESS_WRITE OR TEE_DATA_FLAG_ACCESS_WRITE_META OR
     TEE_DATA_FLAG_OVERWRITE"

definition prepare_test_file ::
  "('m, 'z) bench_api_scheme \<Rightarrow> nat \<Rightarrow> u8 list \<Rightarrow> nat \<Rightarrow> 'm \<Rightarrow> (TEE_Result \<times> 'm) option" where
  "prepare_test_file api data_size chunk_buf chunk_size m =
     (let (res, object, m) = TEE_CreatePersistentObject api TEE_STORAGE_PRIVATE filename (of_nat (length filename))
            bench_flags 0 [] 0 True m
      in if res \<noteq> TEE_SUCCESS then Some (res, m)
      else do {
        (res, m) \<leftarrow> write_loop api object chunk_buf chunk_size data_size res m;
        Some (res, TEE_CloseObject api object m)
      })"

text \<open>A timed loop: the time it took when the loop succeeds\<close>

definition timed ::
  "('m, 'z) bench_api_scheme \<Rightarrow> ('m \<Rightarrow> (TEE_Result \<times> u8 list \<times> 'm) option) \<Rightarrow> 'm \<Rightarrow>
     (TEE_Result \<times> uint32 option \<times> u8 list \<times> 'm) option" where
  "timed api loop m =
     (let (start_time, m) = TEE_GetSystemTime api m
      in do {
        (res, buf, m) \<leftarrow> loop m;
        if res \<noteq> TEE_SUCCESS then Some (res, None, buf, m)
        else
          let (stop_time, m) = TEE_GetSystemTime api m
          in Some (res, Some (get_delta_time_in_ms start_time stop_time), buf, m)
      })"

definition test_write where
  "test_write api object data_size chunk_buf chunk_size m =
     timed api (\<lambda>m. do { (res, m) \<leftarrow> write_loop api object chunk_buf chunk_size data_size TEE_SUCCESS m; Some (res, chunk_buf, m) }) m"

definition test_read where
  "test_read api object data_size chunk_buf chunk_size m =
     timed api (read_loop api object chunk_buf chunk_size data_size 0 TEE_SUCCESS) m"

definition test_rewrite where
  "test_rewrite api object data_size chunk_buf chunk_size m =
     timed api (rewrite_loop api object chunk_buf chunk_size data_size 0 TEE_SUCCESS) m"

definition verify_file_data ::
  "('m, 'z) bench_api_scheme \<Rightarrow> size_t \<Rightarrow> nat \<Rightarrow> u8 list \<Rightarrow> nat \<Rightarrow> 'm \<Rightarrow> (TEE_Result \<times> u8 list \<times> 'm) option" where
  "verify_file_data api object data_size chunk_buf chunk_size m =
     (let (res, m) = TEE_SeekObjectData api object 0 TEE_DATA_SEEK_SET m
      in if res \<noteq> TEE_SUCCESS then Some (res, chunk_buf, m)
      else verify_file_loop api object (replicate chunk_size 0) chunk_size (of_nat data_size) res m)"

text \<open>From \<open>exit_remove_object\<close> on\<close>

definition exit_remove_object ::
  "('m, 'z) bench_api_scheme \<Rightarrow> size_t \<Rightarrow> ptr \<Rightarrow> 'm \<Rightarrow> 'm" where
  "exit_remove_object api object chunk_buf m = TEE_Free api chunk_buf (snd (TEE_CloseAndDeletePersistentObject1 api object m))"

definition run_test where
  "run_test api nCommandID object data_size buf chunk_size m =
     (if nCommandID = TA_STORAGE_BENCHMARK_CMD_TEST_READ then test_read api object data_size buf chunk_size m
      else if nCommandID = TA_STORAGE_BENCHMARK_CMD_TEST_WRITE then test_write api object data_size buf chunk_size m
      else if nCommandID = TA_STORAGE_BENCHMARK_CMD_TEST_REWRITE then test_rewrite api object data_size buf chunk_size m
      else Some (TEE_ERROR_BAD_PARAMETERS, None, buf, m))"

definition ta_stroage_benchmark_chunk_access_test ::
  "('m, 'z) bench_api_scheme \<Rightarrow> uint32 \<Rightarrow> uint32 \<Rightarrow> tee_params \<Rightarrow> 'm \<Rightarrow> (TEE_Result \<times> tee_params \<times> 'm) option" where
  "ta_stroage_benchmark_chunk_access_test api nCommandID param_types params m =
     (if param_types \<noteq> TEE_PARAM_TYPES PT_VALUE_INPUT PT_VALUE_INPUT PT_VALUE_OUTPUT PT_NONE
        then Some (TEE_ERROR_BAD_PARAMETERS, params, m)
      else
        let data_size = (if val_a (p0 params) = 0 then DEFAULT_DATA_SIZE else unat (val_a (p0 params)));
            chunk_size = (if val_b (p0 params) = 0 then DEFAULT_CHUNK_SIZE else unat (val_b (p0 params)));
            do_verify = (val_a (p1 params) \<noteq> 0);
            (chunk_buf, m) = TEE_Malloc api (of_nat chunk_size) m
        in if chunk_buf = 0 then Some (TEE_ERROR_OUT_OF_MEMORY, params, m)
      else do {
        buf \<leftarrow> fill_buffer (replicate chunk_size 0) chunk_size;
        (res, m) \<leftarrow> prepare_test_file api data_size buf chunk_size m;
        if res \<noteq> TEE_SUCCESS then Some (res, params, TEE_Free api chunk_buf m)
        else
          let (res, object, m) = TEE_OpenPersistentObject api TEE_STORAGE_PRIVATE filename (of_nat (length filename)) bench_flags m
          in if res \<noteq> TEE_SUCCESS then Some (res, params, exit_remove_object api object chunk_buf m)
          else do {
            (res, spent, buf, m) \<leftarrow> run_test api nCommandID object data_size buf chunk_size m;
            let params = (case spent of None \<Rightarrow> params | Some t \<Rightarrow> params\<lparr>p2 := (p2 params)\<lparr>val_a := t\<rparr>\<rparr>);
            if res \<noteq> TEE_SUCCESS \<or> \<not> do_verify then Some (res, params, exit_remove_object api object chunk_buf m)
            else do {
              (res, buf, m) \<leftarrow> verify_file_data api object data_size buf chunk_size m;
              Some (res, params, exit_remove_object api object chunk_buf m)
            }
          }
      })"

definition ta_storage_benchmark_cmd_handler ::
  "('m, 'z) bench_api_scheme \<Rightarrow> uint32 \<Rightarrow> uint32 \<Rightarrow> tee_params \<Rightarrow> 'm \<Rightarrow> (TEE_Result \<times> tee_params \<times> 'm) option" where
  "ta_storage_benchmark_cmd_handler api nCommandID param_types params m =
     (if nCommandID = TA_STORAGE_BENCHMARK_CMD_TEST_READ \<or> nCommandID = TA_STORAGE_BENCHMARK_CMD_TEST_WRITE \<or>
         nCommandID = TA_STORAGE_BENCHMARK_CMD_TEST_REWRITE
      then ta_stroage_benchmark_chunk_access_test api nCommandID param_types params m
      else Some (TEE_ERROR_BAD_PARAMETERS, params, m))"

section \<open>Pattern buffers and files\<close>

definition pattern :: "nat \<Rightarrow> u8 list" where
  "pattern c = map (\<lambda>i. SCRAMBLE (of_nat i)) [0..<c]"

text \<open>A file of \<open>n\<close> bytes written in chunks of \<open>c\<close>\<close>

definition bench_file :: "nat \<Rightarrow> nat \<Rightarrow> u8 list" where
  "bench_file c n = map (\<lambda>i. SCRAMBLE (of_nat (i mod c))) [0..<n]"

lemma length_pattern [simp]: "length (pattern c) = c" "length (bench_file c n) = n"
  by (simp_all add: pattern_def bench_file_def)

lemma fill_pattern:
  assumes "length buf = c"
  shows "fill_buffer buf c = Some (pattern c)"
proof -
  have "\<exists>b. fill_buffer buf c = Some b \<and> length b = c \<and> take c b = pattern c"
    unfolding fill_buffer_def
  proof (rule foldM_upt_rule [where I = "\<lambda>k b. length b = c \<and> take k b = pattern k"])
    fix k b assume "k < c" "length b = c \<and> take k b = pattern k"
    then show "\<exists>b'. st b k (SCRAMBLE (of_nat k)) = Some b' \<and> length b' = c \<and> take (Suc k) b' = pattern (Suc k)"
      by (simp add: st_def pattern_def take_Suc_conv_app_nth)
  qed (simp_all add: assms pattern_def)
  then show ?thesis by auto
qed

lemma verify_loop_result:
  assumes "m \<le> n" "n \<le> length buf"
  shows "verify_loop buf [m..<n] = Some (if \<forall>i. m \<le> i \<and> i < n \<longrightarrow> buf ! i = SCRAMBLE (of_nat i) then TEE_SUCCESS else TEE_ERROR_CORRUPT_OBJECT)"
  using assms
proof (induction "n - m" arbitrary: m)
  case 0
  then show ?case by auto
next
  case (Suc d)
  then have "[m..<n] = m # [Suc m..<n]" "m < length buf" by (simp_all add: upt_conv_Cons)
  moreover have "(\<forall>i. m \<le> i \<and> i < n \<longrightarrow> buf ! i = SCRAMBLE (of_nat i)) \<longleftrightarrow>
      buf ! m = SCRAMBLE (of_nat m) \<and> (\<forall>i. Suc m \<le> i \<and> i < n \<longrightarrow> buf ! i = SCRAMBLE (of_nat i))"
    using Suc by (metis Suc_leI le_eq_less_or_eq less_eq_Suc_le zero_less_Suc zero_less_diff)
  ultimately show ?case using Suc by (auto simp: ld_def)
qed

lemma verify_buffer_returns: "n \<le> length buf \<Longrightarrow> \<exists>res. verify_buffer buf n = Some res"
  using verify_loop_result [of 0 n buf] by (auto simp: verify_buffer_def)

lemma verify_pattern: "verify_buffer (pattern c) c = Some TEE_SUCCESS"
  using verify_loop_result [of 0 c "pattern c"] by (simp add: verify_buffer_def pattern_def)

lemma bench_file_slice:
  assumes "p mod c = 0" "w \<le> c" "p + w \<le> n"
  shows "take w (drop p (bench_file c n)) = take w (pattern c)"
proof (rule nth_equalityI)
  fix i assume "i < length (take w (drop p (bench_file c n)))"
  then have i: "i < w" using assms(3) by simp
  have "(p + i) mod c = i"
  proof -
    have "(p + i) mod c = (p mod c + i mod c) mod c" by (simp add: mod_simps)
    also have "\<dots> = i" using i assms by simp
    finally show ?thesis .
  qed
  with i assms show "take w (drop p (bench_file c n)) ! i = take w (pattern c) ! i"
    by (simp add: bench_file_def pattern_def)
qed (use assms in simp)

lemma bench_file_append:
  assumes "p mod c = 0" "w \<le> c"
  shows "bench_file c p @ take w (pattern c) = bench_file c (p + w)"
proof -
  have "bench_file c (p + w) = take p (bench_file c (p + w)) @ take w (drop p (bench_file c (p + w)))"
    by (metis add_diff_cancel_left' append_take_drop_id length_drop length_pattern(2) order_refl take_all)
  also have "take p (bench_file c (p + w)) = bench_file c p" by (simp add: bench_file_def take_map)
  also have "take w (drop p (bench_file c (p + w))) = take w (pattern c)" by (rule bench_file_slice) (use assms in simp_all)
  finally show ?thesis ..
qed

section \<open>A file store behind the API\<close>

text \<open>
  What the Core API documents of one file in the private storage when nothing fails: \<open>file m h\<close> is what
  the object behind an open handle holds and the position of the handle, \<open>stored m\<close> what the file holds
  once it is closed.
\<close>

definition file_laws ::
  "('m, 'z) bench_api_scheme \<Rightarrow> ('m \<Rightarrow> size_t \<Rightarrow> (u8 list \<times> nat) option) \<Rightarrow> ('m \<Rightarrow> u8 list option) \<Rightarrow> bool" where
  "file_laws api file stored \<longleftrightarrow>
     (\<forall>m. \<exists>h m'. TEE_CreatePersistentObject api TEE_STORAGE_PRIVATE filename (of_nat (length filename)) bench_flags 0 [] 0 True m =
        (TEE_SUCCESS, h, m') \<and> file m' h = Some ([], 0)) \<and>
     (\<forall>m h c p buf n. file m h = Some (c, p) \<and> p \<le> length c \<and> unat n \<le> length buf \<longrightarrow>
        (\<exists>m'. TEE_WriteObjectData api h buf n m = (TEE_SUCCESS, m') \<and>
          file m' h = Some (take p c @ take (unat n) buf @ drop (p + unat n) c, p + unat n))) \<and>
     (\<forall>m h c p buf n k. file m h = Some (c, p) \<and> p \<le> length c \<and> unat n \<le> length buf \<longrightarrow>
        (\<exists>m'. TEE_ReadObjectData api h buf n k m =
          (let l = min (unat n) (length c - p) in (TEE_SUCCESS, take l (drop p c) @ drop l buf, of_nat l, m')) \<and>
          file m' h = Some (c, p + min (unat n) (length c - p)))) \<and>
     (\<forall>m h c p off. file m h = Some (c, p) \<and> 0 \<le> int p + off \<and> int p + off \<le> int (length c) \<longrightarrow>
        (\<exists>m'. TEE_SeekObjectData api h off TEE_DATA_SEEK_CUR m = (TEE_SUCCESS, m') \<and> file m' h = Some (c, nat (int p + off)))) \<and>
     (\<forall>m h c p. file m h = Some (c, p) \<longrightarrow>
        (\<exists>m'. TEE_SeekObjectData api h 0 TEE_DATA_SEEK_SET m = (TEE_SUCCESS, m') \<and> file m' h = Some (c, 0))) \<and>
     (\<forall>m h c p. file m h = Some (c, p) \<longrightarrow> stored (TEE_CloseObject api h m) = Some c) \<and>
     (\<forall>m c. stored m = Some c \<longrightarrow>
        (\<exists>h m'. TEE_OpenPersistentObject api TEE_STORAGE_PRIVATE filename (of_nat (length filename)) bench_flags m =
          (TEE_SUCCESS, h, m') \<and> file m' h = Some (c, 0))) \<and>
     (\<forall>m. file (snd (TEE_GetSystemTime api m)) = file m)"

text \<open>The laws one by one, for handles inside the file\<close>

lemma file_create:
  "file_laws api file stored \<Longrightarrow> \<exists>h m'. TEE_CreatePersistentObject api TEE_STORAGE_PRIVATE filename (of_nat (length filename))
     bench_flags 0 [] 0 True m = (TEE_SUCCESS, h, m') \<and> file m' h = Some ([], 0)"
  unfolding file_laws_def by (elim conjE) (erule allE)

lemma file_write:
  assumes "file_laws api file stored" "file m h = Some (c, p)" "p \<le> length c" "unat n \<le> length buf"
  shows "\<exists>m'. TEE_WriteObjectData api h buf n m = (TEE_SUCCESS, m') \<and>
    file m' h = Some (take p c @ take (unat n) buf @ drop (p + unat n) c, p + unat n)"
proof -
  have "\<forall>m h c p buf n. file m h = Some (c, p) \<and> p \<le> length c \<and> unat n \<le> length buf \<longrightarrow>
        (\<exists>m'. TEE_WriteObjectData api h buf n m = (TEE_SUCCESS, m') \<and>
          file m' h = Some (take p c @ take (unat n) buf @ drop (p + unat n) c, p + unat n))"
    using assms(1) unfolding file_laws_def by (elim conjE)
  with assms(2-4) show ?thesis by blast
qed

lemma file_read:
  assumes "file_laws api file stored" "file m h = Some (c, p)" "p \<le> length c" "unat n \<le> length buf"
    and "l = min (unat n) (length c - p)"
  shows "\<exists>m'. TEE_ReadObjectData api h buf n k m = (TEE_SUCCESS, take l (drop p c) @ drop l buf, of_nat l, m') \<and>
    file m' h = Some (c, p + l)"
proof -
  have "\<forall>m h c p buf n k. file m h = Some (c, p) \<and> p \<le> length c \<and> unat n \<le> length buf \<longrightarrow>
        (\<exists>m'. TEE_ReadObjectData api h buf n k m =
          (let l = min (unat n) (length c - p) in (TEE_SUCCESS, take l (drop p c) @ drop l buf, of_nat l, m')) \<and>
          file m' h = Some (c, p + min (unat n) (length c - p)))"
    using assms(1) unfolding file_laws_def by (elim conjE)
  with assms(2-4) show ?thesis unfolding assms(5) Let_def by blast
qed

lemma file_seek:
  assumes "file_laws api file stored" "file m h = Some (c, p)"
  shows "0 \<le> int p + off \<Longrightarrow> int p + off \<le> int (length c) \<Longrightarrow>
      \<exists>m'. TEE_SeekObjectData api h off TEE_DATA_SEEK_CUR m = (TEE_SUCCESS, m') \<and> file m' h = Some (c, nat (int p + off))"
    "\<exists>m'. TEE_SeekObjectData api h 0 TEE_DATA_SEEK_SET m = (TEE_SUCCESS, m') \<and> file m' h = Some (c, 0)"
proof -
  have 1: "\<forall>m h c p off. file m h = Some (c, p) \<and> 0 \<le> int p + off \<and> int p + off \<le> int (length c) \<longrightarrow>
        (\<exists>m'. TEE_SeekObjectData api h off TEE_DATA_SEEK_CUR m = (TEE_SUCCESS, m') \<and> file m' h = Some (c, nat (int p + off)))"
    using assms(1) unfolding file_laws_def by (elim conjE)
  have 2: "\<forall>m h c p. file m h = Some (c, p) \<longrightarrow>
        (\<exists>m'. TEE_SeekObjectData api h 0 TEE_DATA_SEEK_SET m = (TEE_SUCCESS, m') \<and> file m' h = Some (c, 0))"
    using assms(1) unfolding file_laws_def by (elim conjE)
  show "0 \<le> int p + off \<Longrightarrow> int p + off \<le> int (length c) \<Longrightarrow>
      \<exists>m'. TEE_SeekObjectData api h off TEE_DATA_SEEK_CUR m = (TEE_SUCCESS, m') \<and> file m' h = Some (c, nat (int p + off))"
    using 1 assms(2) by blast
  show "\<exists>m'. TEE_SeekObjectData api h 0 TEE_DATA_SEEK_SET m = (TEE_SUCCESS, m') \<and> file m' h = Some (c, 0)"
    using 2 assms(2) by blast
qed

lemma file_reopen:
  assumes "file_laws api file stored" "file m h = Some (c, p)"
  shows "\<exists>h' m'. TEE_OpenPersistentObject api TEE_STORAGE_PRIVATE filename (of_nat (length filename)) bench_flags
      (TEE_CloseObject api h m) = (TEE_SUCCESS, h', m') \<and> file m' h' = Some (c, 0)"
proof -
  have "\<forall>m h c p. file m h = Some (c, p) \<longrightarrow> stored (TEE_CloseObject api h m) = Some c"
    using assms(1) unfolding file_laws_def by (elim conjE)
  moreover have "\<forall>m c. stored m = Some c \<longrightarrow>
        (\<exists>h m'. TEE_OpenPersistentObject api TEE_STORAGE_PRIVATE filename (of_nat (length filename)) bench_flags m =
          (TEE_SUCCESS, h, m') \<and> file m' h = Some (c, 0))"
    using assms(1) unfolding file_laws_def by (elim conjE)
  ultimately show ?thesis using assms(2) by blast
qed

lemma file_time: "file_laws api file stored \<Longrightarrow> file (snd (TEE_GetSystemTime api m)) = file m"
  unfolding file_laws_def by (elim conjE) (erule allE)

section \<open>What the loops do to the file\<close>

text \<open>One turn moves the position by \<open>min c (n - p)\<close>, which keeps it at a multiple of \<open>c\<close> or brings it to \<open>n\<close>.\<close>

lemma unat_chunk: "n \<le> 2 ^ 31 \<Longrightarrow> unat (of_nat n :: uint32) = n"
  by (rule unat_of_nat32) simp

lemma write_loop_file:
  assumes l: "file_laws api file stored" and c: "0 < c" "c \<le> 2 ^ 31"
  shows "file m h = Some (C, p) \<Longrightarrow> take p C = bench_file c p \<Longrightarrow> p \<le> length C \<Longrightarrow> length C \<le> p + r \<Longrightarrow>
    p mod c = 0 \<or> r = 0 \<Longrightarrow>
    \<exists>m'. write_loop api h (pattern c) c r TEE_SUCCESS m = Some (TEE_SUCCESS, m') \<and> file m' h = Some (bench_file c (p + r), p + r)"
proof (induction r arbitrary: m C p rule: less_induct)
  case (less r)
  show ?case
  proof (cases "r = 0")
    case True
    with less.prems show ?thesis by (simp add: write_loop.simps)
  next
    case False
    define w where "w = (if r < c then r else c)"
    have w: "0 < w" "w \<le> c" "w \<le> r" using False c by (simp_all add: w_def)
    have u: "unat (of_nat w :: uint32) = w" by (rule unat_chunk) (use w c in simp)
    obtain m1 where m1: "TEE_WriteObjectData api h (pattern c) (of_nat w) m = (TEE_SUCCESS, m1)"
        "file m1 h = Some (take p C @ take w (pattern c) @ drop (p + w) C, p + w)"
      using file_write [OF l less.prems(1,3), of "of_nat w" "pattern c"] w by (auto simp: u)
    let ?C = "take p C @ take w (pattern c) @ drop (p + w) C"
    have pc: "p mod c = 0" using less.prems(5) False by simp
    have 1: "take (p + w) ?C = bench_file c (p + w)"
      using less.prems(2,3) w bench_file_append [OF pc w(2)] by (simp add: min_absorb2)
    have 2: "p + w \<le> length ?C" "length ?C \<le> p + w + (r - w)" using less.prems(3,4) w by auto
    have 3: "(p + w) mod c = 0 \<or> r - w = 0"
      using pc by (cases "r < c") (simp_all add: w_def mod_add_eq)
    have "r - w < r" using w by simp
    from less.IH [OF this m1(2) 1 2 3] w have "\<exists>m'. write_loop api h (pattern c) c (r - w) TEE_SUCCESS m1 = Some (TEE_SUCCESS, m') \<and>
        file m' h = Some (bench_file c (p + r), p + r)" by simp
    then show ?thesis
      using False by (subst write_loop.simps) (simp add: m1(1) flip: w_def)
  qed
qed

lemma read_loop_file:
  assumes l: "file_laws api file stored" and c: "0 < c" "c \<le> 2 ^ 31"
  shows "file m h = Some (C, p) \<Longrightarrow> length C = p + r \<Longrightarrow> length buf = c \<Longrightarrow>
    \<exists>buf' m'. read_loop api h buf c r k TEE_SUCCESS m = Some (TEE_SUCCESS, buf', m') \<and> length buf' = c \<and> file m' h = Some (C, p + r)"
proof (induction r arbitrary: m p buf k rule: less_induct)
  case (less r)
  show ?case
  proof (cases "r = 0")
    case True
    with less.prems show ?thesis by (simp add: read_loop.simps)
  next
    case False
    define w where "w = (if r < c then r else c)"
    have w: "0 < w" "w \<le> c" "w \<le> r" using False c by (simp_all add: w_def)
    have u: "unat (of_nat w :: uint32) = w" by (rule unat_chunk) (use w c in simp)
    obtain m1 where m1: "TEE_ReadObjectData api h buf (of_nat w) k m =
        (TEE_SUCCESS, take w (drop p C) @ drop w buf, of_nat w, m1)" "file m1 h = Some (C, p + w)"
      using file_read [OF l less.prems(1), of "of_nat w" buf w k] less.prems(2,3) w by (auto simp: u)
    have "r - w < r" "length C = p + w + (r - w)" "length (take w (drop p C) @ drop w buf) = c"
      using w less.prems(2,3) by simp_all
    from less.IH [OF this(1) m1(2) this(2,3), of "of_nat w"] w
    obtain buf' m' where "read_loop api h (take w (drop p C) @ drop w buf) c (r - w) (of_nat w) TEE_SUCCESS m1 = Some (TEE_SUCCESS, buf', m')"
      "length buf' = c" "file m' h = Some (C, p + r)" by auto
    then show ?thesis
      using False by (subst read_loop.simps) (simp add: m1(1) flip: w_def)
  qed
qed

lemma sint_of_nat32: "sint (of_nat n :: uint32) = (int n + 2 ^ 31) mod 2 ^ 32 - 2 ^ 31"
proof -
  have "sint (of_int (int n) :: uint32) = signed_take_bit 31 (int n)" by (simp only: signed_of_int) simp
  then show ?thesis by (simp add: signed_take_bit_eq_take_bit_shift take_bit_eq_mod)
qed

lemma negative_chunk:
  assumes "n < 2 ^ 31"
  shows "negative_size n = Some (- int n)"
proof -
  have "int n < 2 ^ 31" using assms by simp
  then have "(int n + 2 ^ 31) mod 2 ^ 32 = int n + 2 ^ 31" by (intro mod_pos_pos_trivial) simp_all
  then show ?thesis by (simp add: negative_size_def sint_of_nat32)
qed

lemma negative_defined:
  assumes "n < 2 ^ 32"
  shows "negative_size n = None \<longleftrightarrow> n = 2 ^ 31"
proof -
  have "(int n + 2 ^ 31) mod 2 ^ 32 = (if n < 2 ^ 31 then int n + 2 ^ 31 else int n - 2 ^ 31)"
  proof (cases "n < 2 ^ 31")
    case False
    then have "(int n + 2 ^ 31) mod 2 ^ 32 = (int n - 2 ^ 31 + 2 ^ 32) mod 2 ^ 32" by (simp add: add.commute)
    also have "\<dots> = int n - 2 ^ 31" using False assms by (subst mod_add_self2) (simp add: mod_pos_pos_trivial)
    finally show ?thesis using False by simp
  qed simp
  then have "(int n + 2 ^ 31) mod 2 ^ 32 = 0 \<longleftrightarrow> int n = 2 ^ 31" by (auto split: if_splits)
  then show ?thesis unfolding negative_size_def sint_of_nat32 Let_def by auto
qed

text \<open>
  The chunks of a file of \<open>n\<close> bytes can be negated unless one of them has \<open>2^31\<close> bytes, which is the first
  then.
\<close>

definition chunks_fit :: "nat \<Rightarrow> nat \<Rightarrow> bool" where
  "chunks_fit c n \<longleftrightarrow> (c = 2 ^ 31 \<longrightarrow> n < 2 ^ 31) \<and> n mod c \<noteq> 2 ^ 31"

lemma chunks_fit_iff:
  assumes "0 < c" "n < 2 ^ 32"
  shows "chunks_fit c n \<longleftrightarrow> min c n \<noteq> 2 ^ 31"
proof -
  have "n mod c \<noteq> 2 ^ 31" if "c \<le> n"
  proof
    assume "n mod c = 2 ^ 31"
    then have "2 ^ 31 < c" by (metis assms(1) mod_less_divisor)
    then have "n - c < c" "n - c < 2 ^ 31" using assms(2) by simp_all
    then have "n mod c < 2 ^ 31" using that by (simp add: mod_if)
    with \<open>n mod c = 2 ^ 31\<close> show False by simp
  qed
  then show ?thesis by (cases "n < c") (auto simp: chunks_fit_def min_def)
qed

lemma chunks_fit_next:
  assumes "chunks_fit c r" "w = (if r < c then r else c)"
  shows "w \<noteq> 2 ^ 31" "chunks_fit c (r - w)"
  using assms by (auto simp: chunks_fit_def le_mod_geq split: if_splits)

lemma rewrite_loop_file:
  assumes l: "file_laws api file stored" and c: "0 < c" "c \<le> 2 ^ 31"
  shows "file m h = Some (C, p) \<Longrightarrow> length C = p + r \<Longrightarrow> length buf = c \<Longrightarrow> chunks_fit c r \<Longrightarrow>
    \<exists>buf' m'. rewrite_loop api h buf c r k TEE_SUCCESS m = Some (TEE_SUCCESS, buf', m') \<and> length buf' = c \<and> file m' h = Some (C, p + r)"
proof (induction r arbitrary: m p buf k rule: less_induct)
  case (less r)
  show ?case
  proof (cases "r = 0")
    case True
    with less.prems show ?thesis by (simp add: rewrite_loop.simps)
  next
    case False
    define w where "w = (if r < c then r else c)"
    have w: "0 < w" "w \<le> c" "w \<le> r" using False c by (simp_all add: w_def)
    have u: "unat (of_nat w :: uint32) = w" by (rule unat_chunk) (use w c in simp)
    let ?b = "take w (drop p C) @ drop w buf"
    obtain m1 where m1: "TEE_ReadObjectData api h buf (of_nat w) k m = (TEE_SUCCESS, ?b, of_nat w, m1)"
        "file m1 h = Some (C, p + w)"
      using file_read [OF l less.prems(1), of "of_nat w" buf w k] less.prems(2,3) w by (auto simp: u)
    note fit = chunks_fit_next [OF less.prems(4) w_def]
    have n: "negative_size w = Some (- int w)" by (rule negative_chunk) (use w c fit(1) in simp)
    obtain m2 where m2: "TEE_SeekObjectData api h (- int w) TEE_DATA_SEEK_CUR m1 = (TEE_SUCCESS, m2)" "file m2 h = Some (C, p)"
      using file_seek(1) [OF l m1(2), of "- int w"] less.prems(2) by auto
    have b: "length ?b = c" "take w ?b = take w (drop p C)" using w less.prems(2,3) by simp_all
    obtain m3 where m3: "TEE_WriteObjectData api h ?b (of_nat w) m2 = (TEE_SUCCESS, m3)"
        "file m3 h = Some (take p C @ take w ?b @ drop (p + w) C, p + w)"
      using file_write [OF l m2(2), of "of_nat w" ?b] less.prems(2) w b(1) by (auto simp: u)
    have "take p C @ take w ?b @ drop (p + w) C = C" unfolding b(2) by (metis add.commute append_take_drop_id drop_drop)
    with m3(2) have f3: "file m3 h = Some (C, p + w)" by simp
    have "r - w < r" "length C = p + w + (r - w)" using w less.prems(2,3) by simp_all
    from less.IH [OF this(1) f3 this(2) b(1) fit(2), of "of_nat w"] w
    obtain buf' m' where "rewrite_loop api h ?b c (r - w) (of_nat w) TEE_SUCCESS m3 = Some (TEE_SUCCESS, buf', m')"
      "length buf' = c" "file m' h = Some (C, p + r)" by auto
    then show ?thesis
      using False by (subst rewrite_loop.simps) (simp add: m1(1) n m2(1) m3(1) u flip: w_def)
  qed
qed

lemma rewrite_loop_overflow:
  assumes "c = 2 ^ 31" "2 ^ 31 \<le> r"
  shows "rewrite_loop api h buf c r k res m = None"
  using assms negative_defined [of "2 ^ 31"] by (subst rewrite_loop.simps) simp

lemma verify_loop_file:
  assumes l: "file_laws api file stored" and c: "0 < c" "c \<le> 2 ^ 31"
  shows "file m h = Some (bench_file c (p + r), p) \<Longrightarrow> p mod c = 0 \<Longrightarrow> r \<le> 2 ^ 32 \<Longrightarrow> length buf = c \<Longrightarrow>
    \<exists>buf' m'. verify_file_loop api h buf c (of_nat r) TEE_SUCCESS m =
      Some (if c dvd r then TEE_SUCCESS else TEE_ERROR_CORRUPT_OBJECT, buf', m')"
proof (induction r arbitrary: m p buf rule: less_induct)
  case (less r)
  have r: "(0 < (of_nat r :: size_t)) = (0 < r)"
    using less.prems(3) by (simp add: word_less_nat_alt unsigned_of_nat take_bit_nat_eq_self)
  have u: "unat (of_nat c :: uint32) = c" by (rule unat_chunk) (use c in simp)
  show ?case
  proof (cases "r = 0")
    case True
    then show ?thesis by (simp add: verify_file_loop.simps)
  next
    case False
    show ?thesis
    proof (cases "r < c")
      case True
      obtain m1 b where m1: "TEE_ReadObjectData api h buf (of_nat c) 0 m = (TEE_SUCCESS, b, of_nat r, m1)"
        using file_read [OF l less.prems(1), of "of_nat c" buf r 0] less.prems(4) True by (auto simp: u)
      have "unat (of_nat r :: uint32) = r" by (rule unat_chunk) (use True c in simp)
      moreover have "\<not> c dvd r" using True False by (auto dest: dvd_imp_le)
      ultimately show ?thesis
        using True False r by (subst verify_file_loop.simps) (simp add: m1)
    next
      case r1: False
      obtain m1 where m1: "TEE_ReadObjectData api h buf (of_nat c) 0 m =
          (TEE_SUCCESS, take c (drop p (bench_file c (p + r))) @ drop c buf, of_nat c, m1)"
          "file m1 h = Some (bench_file c (p + r), p + c)"
        using file_read [OF l less.prems(1), of "of_nat c" buf c 0] less.prems(4) r1 by (auto simp: u)
      have pat: "take c (drop p (bench_file c (p + r))) @ drop c buf = pattern c"
        using bench_file_slice [OF less.prems(2), of c "p + r"] r1 less.prems(4) by simp
      have f: "file m1 h = Some (bench_file c (p + c + (r - c)), p + c)" using m1(2) r1 by simp
      have "r - c < r" "(p + c) mod c = 0" "r - c \<le> 2 ^ 32" using c r1 less.prems(2,3) False by simp_all
      from less.IH [OF this(1) f this(2,3), of "pattern c"] obtain buf' m' where
        "verify_file_loop api h (pattern c) c (of_nat (r - c)) TEE_SUCCESS m1 =
          Some (if c dvd r - c then TEE_SUCCESS else TEE_ERROR_CORRUPT_OBJECT, buf', m')" by auto
      moreover have "c dvd r - c \<longleftrightarrow> c dvd r" using r1 by (simp add: dvd_minus_self)
      moreover have "(of_nat r :: size_t) - of_nat c = of_nat (r - c)" using r1 by (simp add: of_nat_diff)
      ultimately show ?thesis
        using False r by (subst verify_file_loop.simps) (simp add: m1(1) pat verify_pattern u)
    qed
  qed
qed

section \<open>The verdict\<close>

definition bench_types :: uint32 where
  "bench_types = TEE_PARAM_TYPES PT_VALUE_INPUT PT_VALUE_INPUT PT_VALUE_OUTPUT PT_NONE"

definition bench_data :: "tee_params \<Rightarrow> nat" where
  "bench_data params = (if val_a (p0 params) = 0 then DEFAULT_DATA_SIZE else unat (val_a (p0 params)))"

definition bench_chunk :: "tee_params \<Rightarrow> nat" where
  "bench_chunk params = (if val_b (p0 params) = 0 then DEFAULT_CHUNK_SIZE else unat (val_b (p0 params)))"

lemma bench_sizes: "0 < bench_chunk params" "bench_data params < 2 ^ 32"
proof -
  have "unat (val_b (p0 params)) \<noteq> 0" if "val_b (p0 params) \<noteq> 0" using that by (simp add: unat_eq_0)
  then show "0 < bench_chunk params" by (simp add: bench_chunk_def DEFAULT_CHUNK_SIZE_def)
  show "bench_data params < 2 ^ 32"
    using unsigned_less [of "val_a (p0 params)", where ?'a = nat] by (simp add: bench_data_def DEFAULT_DATA_SIZE_def)
qed

lemma bench_chunk_bound: "bench_chunk params < 2 ^ 32"
  using unsigned_less [of "val_b (p0 params)", where ?'a = nat] by (simp add: bench_chunk_def DEFAULT_CHUNK_SIZE_def)

lemma prepare_file:
  assumes l: "file_laws api file stored" and c: "0 < c" "c \<le> 2 ^ 31"
  shows "\<exists>m1 h m2. prepare_test_file api n (pattern c) c m = Some (TEE_SUCCESS, m1) \<and>
    TEE_OpenPersistentObject api TEE_STORAGE_PRIVATE filename (of_nat (length filename)) bench_flags m1 = (TEE_SUCCESS, h, m2) \<and>
    file m2 h = Some (bench_file c n, 0)"
proof -
  obtain h0 m0 where 1: "TEE_CreatePersistentObject api TEE_STORAGE_PRIVATE filename (of_nat (length filename))
     bench_flags 0 [] 0 True m = (TEE_SUCCESS, h0, m0)" "file m0 h0 = Some ([], 0)"
    using file_create [OF l] by blast
  obtain m1 where 2: "write_loop api h0 (pattern c) c n TEE_SUCCESS m0 = Some (TEE_SUCCESS, m1)" "file m1 h0 = Some (bench_file c n, n)"
    using write_loop_file [OF l c 1(2), of n] by (auto simp: bench_file_def)
  show ?thesis
    using file_reopen [OF l 2(2)] 1(1) 2(1) by (auto simp: prepare_test_file_def)
qed

lemma test_file:
  assumes l: "file_laws api file stored" and c: "0 < c" "c \<le> 2 ^ 31" and f: "file m h = Some (bench_file c n, 0)"
    and cmd: "cmd \<in> {TA_STORAGE_BENCHMARK_CMD_TEST_READ, TA_STORAGE_BENCHMARK_CMD_TEST_WRITE, TA_STORAGE_BENCHMARK_CMD_TEST_REWRITE}"
    and fit: "cmd = TA_STORAGE_BENCHMARK_CMD_TEST_REWRITE \<Longrightarrow> chunks_fit c n"
  shows "\<exists>t buf m'. run_test api cmd h n (pattern c) c m = Some (TEE_SUCCESS, Some t, buf, m') \<and>
    length buf = c \<and> file m' h = Some (bench_file c n, n)"
proof -
  obtain t0 m0 where t0: "TEE_GetSystemTime api m = (t0, m0)" by fastforce
  have f0: "file m0 h = Some (bench_file c n, 0)" using file_time [OF l, of m] f t0 by simp
  have time: "\<exists>t1 m1. TEE_GetSystemTime api m2 = (t1, m1) \<and> file m1 = file m2" for m2
    using file_time [OF l, of m2] by (metis prod.collapse)
  obtain b1 m1 where r: "read_loop api h (pattern c) c n 0 TEE_SUCCESS m0 = Some (TEE_SUCCESS, b1, m1)" "length b1 = c"
      "file m1 h = Some (bench_file c n, n)"
    using read_loop_file [OF l c f0, of n "pattern c" 0] by auto
  obtain m2 where w: "write_loop api h (pattern c) c n TEE_SUCCESS m0 = Some (TEE_SUCCESS, m2)" "file m2 h = Some (bench_file c n, n)"
    using write_loop_file [OF l c f0, of n] by (auto simp: bench_file_def)
  obtain s1 u1 s2 u2 where u: "TEE_GetSystemTime api m1 = (s1, u1)" "file u1 = file m1"
    "TEE_GetSystemTime api m2 = (s2, u2)" "file u2 = file m2"
    using time by metis
  show ?thesis
  proof (cases "cmd = TA_STORAGE_BENCHMARK_CMD_TEST_REWRITE")
    case True
    obtain b3 m3 where "rewrite_loop api h (pattern c) c n 0 TEE_SUCCESS m0 = Some (TEE_SUCCESS, b3, m3)" "length b3 = c"
        "file m3 h = Some (bench_file c n, n)"
      using rewrite_loop_file [OF l c f0 _ _ fit [OF True], of "pattern c" 0] by auto
    moreover obtain s3 u3 where "TEE_GetSystemTime api m3 = (s3, u3)" "file u3 = file m3" using time by blast
    ultimately show ?thesis using True by (auto simp: run_test_def bench_cmd_defs test_rewrite_def timed_def t0)
  next
    case False
    with r w u cmd show ?thesis
      by (auto simp: run_test_def bench_cmd_defs test_read_def test_write_def timed_def t0)
  qed
qed

lemma test_overflow:
  assumes "c = 2 ^ 31" "2 ^ 31 \<le> n"
  shows "run_test api TA_STORAGE_BENCHMARK_CMD_TEST_REWRITE h n buf c m = None"
  by (simp add: run_test_def bench_cmd_defs test_rewrite_def timed_def rewrite_loop_overflow [OF assms] split: prod.splits)

text \<open>
  C15.  On a store that keeps the documented laws, with memory enough and nothing failing, each of the three
  tests returns, whatever data and chunk size the client asks for (chunks up to \<open>2^31\<close> bytes), and reports
  \<open>TEE_SUCCESS\<close>, except that with verification it reports \<open>TEE_ERROR_CORRUPT_OBJECT\<close>, for a file that is
  as it should be, exactly when the chunk size does not divide the data size.  Rewriting in chunks of
  exactly \<open>2^31\<close> bytes has no defined outcome once the file has one: the offset it seeks back overflows.
\<close>
theorem bench_verdict:
  assumes l: "file_laws api file stored" and room: "\<And>n m. fst (TEE_Malloc api n m) \<noteq> 0"
    and chunk: "bench_chunk params \<le> 2 ^ 31"
    and cmd: "cmd \<in> {TA_STORAGE_BENCHMARK_CMD_TEST_READ, TA_STORAGE_BENCHMARK_CMD_TEST_WRITE, TA_STORAGE_BENCHMARK_CMD_TEST_REWRITE}"
  shows "if cmd = TA_STORAGE_BENCHMARK_CMD_TEST_REWRITE \<and> bench_chunk params = 2 ^ 31 \<and> 2 ^ 31 \<le> bench_data params
    then ta_storage_benchmark_cmd_handler api cmd bench_types params m = None
    else \<exists>t m'. ta_storage_benchmark_cmd_handler api cmd bench_types params m =
      Some (if val_a (p1 params) \<noteq> 0 \<and> \<not> bench_chunk params dvd bench_data params then TEE_ERROR_CORRUPT_OBJECT else TEE_SUCCESS,
        params\<lparr>p2 := (p2 params)\<lparr>val_a := t\<rparr>\<rparr>, m')"
proof -
  let ?c = "bench_chunk params" and ?n = "bench_data params"
  note c = bench_sizes(1) [of params] chunk
  obtain b m1 where a: "TEE_Malloc api (of_nat ?c) m = (b, m1)" "0 < b"
    using room by (metis neq0_conv prod.collapse)
  obtain m2 h m3 where p: "prepare_test_file api ?n (pattern ?c) ?c m1 = Some (TEE_SUCCESS, m2)"
    "TEE_OpenPersistentObject api TEE_STORAGE_PRIVATE filename (of_nat (length filename)) bench_flags m2 = (TEE_SUCCESS, h, m3)"
    "file m3 h = Some (bench_file ?c ?n, 0)"
    using prepare_file [OF l c] by blast
  have h: "ta_storage_benchmark_cmd_handler api cmd bench_types params m =
      ta_stroage_benchmark_chunk_access_test api cmd bench_types params m"
    using cmd by (auto simp: ta_storage_benchmark_cmd_handler_def)
  note f = fill_pattern [OF length_replicate, of ?c 0]
  note unf = ta_stroage_benchmark_chunk_access_test_def bench_types_def [symmetric] bench_data_def [symmetric] bench_chunk_def [symmetric]
  show ?thesis
  proof (cases "cmd = TA_STORAGE_BENCHMARK_CMD_TEST_REWRITE \<and> ?c = 2 ^ 31 \<and> 2 ^ 31 \<le> ?n")
    case True
    then have t: "run_test api cmd h ?n (pattern ?c) ?c m3 = None" by (metis test_overflow)
    have "ta_storage_benchmark_cmd_handler api cmd bench_types params m = None"
      unfolding h unf using a p(1,2) t by (simp add: f Let_def)
    with True show ?thesis by simp
  next
    case False
    have fit: "chunks_fit ?c ?n" if "cmd = TA_STORAGE_BENCHMARK_CMD_TEST_REWRITE"
      using that False chunk bench_sizes [of params] chunks_fit_iff [of ?c ?n] by (auto simp: min_def split: if_splits)
    obtain t buf m4 where t: "run_test api cmd h ?n (pattern ?c) ?c m3 = Some (TEE_SUCCESS, Some t, buf, m4)"
      "length buf = ?c" "file m4 h = Some (bench_file ?c ?n, ?n)"
      using test_file [OF l c p(3) cmd fit] by blast
    obtain m5 where s: "TEE_SeekObjectData api h 0 TEE_DATA_SEEK_SET m4 = (TEE_SUCCESS, m5)" "file m5 h = Some (bench_file ?c (0 + ?n), 0)"
      using file_seek(2) [OF l t(3)] by auto
    obtain buf' m6 where v: "verify_file_loop api h (replicate ?c 0) ?c (of_nat ?n) TEE_SUCCESS m5 =
        Some (if ?c dvd ?n then TEE_SUCCESS else TEE_ERROR_CORRUPT_OBJECT, buf', m6)"
      using verify_loop_file [OF l c s(2), of "replicate ?c 0"] bench_sizes(2) [of params] by auto
    from False show ?thesis
      unfolding h unf
      using a p(1,2) t(1) s(1) v
      by (auto simp add: f Let_def verify_file_data_def)
  qed
qed

text \<open>
  A store for the witnesses: one file, one handle.  The state is what the open handle sees with its position,
  and what the closed file holds.
\<close>

type_synonym one_file = "(u8 list \<times> nat) option \<times> u8 list option"

definition one_close :: "one_file \<Rightarrow> one_file" where
  "one_close m = (case fst m of None \<Rightarrow> m | Some (c, p) \<Rightarrow> (None, Some c))"

definition one_open :: "one_file \<Rightarrow> TEE_Result \<times> size_t \<times> one_file" where
  "one_open m = (case snd m of None \<Rightarrow> (TEE_ERROR_ITEM_NOT_FOUND, 0, m) | Some c \<Rightarrow> (TEE_SUCCESS, 1, (Some (c, 0), snd m)))"

definition one_read :: "u8 list \<Rightarrow> uint32 \<Rightarrow> one_file \<Rightarrow> TEE_Result \<times> u8 list \<times> uint32 \<times> one_file" where
  "one_read buf n m =
     (case fst m of None \<Rightarrow> (TEE_ERROR_ITEM_NOT_FOUND, buf, 0, m)
      | Some (c, p) \<Rightarrow> let l = min (unat n) (length c - p)
          in (TEE_SUCCESS, take l (drop p c) @ drop l buf, of_nat l, (Some (c, p + l), snd m)))"

definition one_write :: "u8 list \<Rightarrow> uint32 \<Rightarrow> one_file \<Rightarrow> TEE_Result \<times> one_file" where
  "one_write buf n m =
     (case fst m of None \<Rightarrow> (TEE_ERROR_ITEM_NOT_FOUND, m)
      | Some (c, p) \<Rightarrow> (TEE_SUCCESS, (Some (take p c @ take (unat n) buf @ drop (p + unat n) c, p + unat n), snd m)))"

definition one_seek :: "int \<Rightarrow> uint32 \<Rightarrow> one_file \<Rightarrow> TEE_Result \<times> one_file" where
  "one_seek off whence m =
     (case fst m of None \<Rightarrow> (TEE_ERROR_ITEM_NOT_FOUND, m)
      | Some (c, p) \<Rightarrow> (TEE_SUCCESS, (Some (c, nat ((if whence = TEE_DATA_SEEK_SET then 0 else int p) + off)), snd m)))"

definition one_file_api :: "one_file bench_api" where
  "one_file_api = storage_api.extend (inert_storage\<lparr>
       TEE_OpenPersistentObject := \<lambda>_ _ _ _. one_open,
       TEE_CreatePersistentObject := \<lambda>_ _ _ _ _ _ _ _ m. (TEE_SUCCESS, 1, (Some ([], 0), snd m)),
       TEE_CloseObject := \<lambda>_. one_close,
       TEE_CloseAndDeletePersistentObject1 := \<lambda>_ m. (TEE_SUCCESS, (None, None)),
       TEE_ReadObjectData := \<lambda>_ buf n _. one_read buf n,
       TEE_WriteObjectData := \<lambda>_. one_write,
       TEE_SeekObjectData := \<lambda>_. one_seek\<rparr>)
     (bench_api.fields (\<lambda>m. (\<lparr>seconds = 7, millis = 20\<rparr>, m)))"

lemmas one_file_defs = one_file_api_def inert_storage_def storage_api.defs bench_api.defs

lemma one_file_laws: "file_laws one_file_api (\<lambda>m h. if h = 1 then fst m else None) snd"
  unfolding file_laws_def
  by (intro conjI allI impI)
    (auto simp: one_file_defs one_open_def one_close_def one_read_def one_write_def one_seek_def Let_def
      TEE_DATA_SEEK_SET_def TEE_DATA_SEEK_CUR_def split: if_splits)

text \<open>10 bytes in chunks of 4: the file is right and the verdict is \<open>TEE_ERROR_CORRUPT_OBJECT\<close>.\<close>

lemma bench_verdict_witness:
  "\<exists>t m'. ta_storage_benchmark_cmd_handler one_file_api TA_STORAGE_BENCHMARK_CMD_TEST_REWRITE bench_types
      (zero_params\<lparr>p0 := zero_param\<lparr>val_a := 10, val_b := 4\<rparr>, p1 := zero_param\<lparr>val_a := 1\<rparr>\<rparr>) (None, None) =
    Some (TEE_ERROR_CORRUPT_OBJECT,
      zero_params\<lparr>p0 := zero_param\<lparr>val_a := 10, val_b := 4\<rparr>, p1 := zero_param\<lparr>val_a := 1\<rparr>, p2 := zero_param\<lparr>val_a := t\<rparr>\<rparr>, m')"
  using bench_verdict [OF one_file_laws, of "zero_params\<lparr>p0 := zero_param\<lparr>val_a := 10, val_b := 4\<rparr>, p1 := zero_param\<lparr>val_a := 1\<rparr>\<rparr>"
      TA_STORAGE_BENCHMARK_CMD_TEST_REWRITE "(None, None)"]
  by (simp add: one_file_defs bench_chunk_def bench_data_def zero_params_def)

section \<open>Returning\<close>

text \<open>
  What a run relies on besides \<^const>\<open>storage_laws\<close>: the null handle is never an open object and is what a
  failed open leaves, a read keeps the buffer's length, and reading the clock changes nothing.
\<close>

definition bench_laws ::
  "('m, 'z) bench_api_scheme \<Rightarrow> ('m \<Rightarrow> ptr set) \<Rightarrow> ('m \<Rightarrow> size_t set) \<Rightarrow> ('m \<Rightarrow> size_t set) \<Rightarrow> bool" where
  "bench_laws api live objs ops \<longleftrightarrow> storage_laws api live objs ops \<and> (\<forall>m. 0 \<notin> objs m) \<and>
     (\<forall>stor i n f m. fst (TEE_OpenPersistentObject api stor i n f m) \<noteq> TEE_SUCCESS \<longrightarrow>
        fst (snd (TEE_OpenPersistentObject api stor i n f m)) = 0) \<and>
     (\<forall>h b n k m. length (fst (snd (TEE_ReadObjectData api h b n k m))) = length b) \<and>
     (\<forall>m. quiet live objs ops m (snd (TEE_GetSystemTime api m)))"

lemma quiet_trans: "quiet live objs ops m m1 \<Longrightarrow> quiet live objs ops m1 m2 \<Longrightarrow> quiet live objs ops m m2"
  by (simp add: quiet_def)

lemma quiet_refl [simp]: "quiet live objs ops m m"
  by (simp add: quiet_def)

lemma bench_steps:
  assumes "bench_laws api live objs ops"
  shows "TEE_WriteObjectData api h b n m = (res, m') \<Longrightarrow> quiet live objs ops m m'"
    and "TEE_ReadObjectData api h b n k m = (res, b', k', m') \<Longrightarrow> quiet live objs ops m m' \<and> length b' = length b"
    and "TEE_SeekObjectData api h i w m = (res, m') \<Longrightarrow> quiet live objs ops m m'"
    and "TEE_GetSystemTime api m = (t, m') \<Longrightarrow> quiet live objs ops m m'"
proof -
  have l: "storage_laws api live objs ops" using assms unfolding bench_laws_def by (elim conjE)
  have w: "\<forall>h b n m. quiet live objs ops m (snd (TEE_WriteObjectData api h b n m))"
    and r: "\<forall>h b n k m. quiet live objs ops m (snd (snd (snd (TEE_ReadObjectData api h b n k m))))"
    and s: "\<forall>h i w m. quiet live objs ops m (snd (TEE_SeekObjectData api h i w m))"
    using l by (simp_all add: storage_laws_def)
  have n: "\<forall>h b n k m. length (fst (snd (TEE_ReadObjectData api h b n k m))) = length b"
    and t: "\<forall>m. quiet live objs ops m (snd (TEE_GetSystemTime api m))"
    using assms by (simp_all add: bench_laws_def)
  show "TEE_WriteObjectData api h b n m = (res, m') \<Longrightarrow> quiet live objs ops m m'" using w by (metis snd_conv)
  show "TEE_ReadObjectData api h b n k m = (res, b', k', m') \<Longrightarrow> quiet live objs ops m m' \<and> length b' = length b"
    using r n by (metis fst_conv snd_conv)
  show "TEE_SeekObjectData api h i w m = (res, m') \<Longrightarrow> quiet live objs ops m m'" using s by (metis snd_conv)
  show "TEE_GetSystemTime api m = (t, m') \<Longrightarrow> quiet live objs ops m m'" using t by (metis snd_conv)
qed

lemma write_loop_returns:
  assumes l: "bench_laws api live objs ops" and c: "0 < c"
  shows "\<exists>res' m'. write_loop api h buf c r res m = Some (res', m') \<and> quiet live objs ops m m'"
proof (induction r arbitrary: m res rule: less_induct)
  case (less r)
  show ?case
  proof (cases "r = 0")
    case True
    then show ?thesis by (simp add: write_loop.simps)
  next
    case False
    define w where "w = (if r < c then r else c)"
    obtain res1 m1 where m1: "TEE_WriteObjectData api h buf (of_nat w) m = (res1, m1)" by fastforce
    have "r - w < r" using False c by (simp add: w_def)
    from less.IH [OF this, of res1 m1] bench_steps(1) [OF l m1] show ?thesis
      using False m1 by (subst write_loop.simps) (auto simp: Let_def simp flip: w_def intro: quiet_trans)
  qed
qed

lemma read_loop_returns:
  assumes l: "bench_laws api live objs ops" and c: "0 < c"
  shows "\<exists>res' buf' m'. read_loop api h buf c r k res m = Some (res', buf', m') \<and> length buf' = length buf \<and> quiet live objs ops m m'"
proof (induction r arbitrary: m res buf k rule: less_induct)
  case (less r)
  show ?case
  proof (cases "r = 0")
    case True
    then show ?thesis by (simp add: read_loop.simps)
  next
    case False
    define w where "w = (if r < c then r else c)"
    obtain res1 b1 k1 m1 where m1: "TEE_ReadObjectData api h buf (of_nat w) k m = (res1, b1, k1, m1)" by (metis prod.collapse)
    have "r - w < r" using False c by (simp add: w_def)
    from less.IH [OF this, of b1 k1 res1 m1] bench_steps(2) [OF l m1] show ?thesis
      using False m1 by (subst read_loop.simps) (auto simp: Let_def simp flip: w_def intro: quiet_trans)
  qed
qed

lemma rewrite_loop_returns:
  assumes l: "bench_laws api live objs ops" and c: "0 < c" "c < 2 ^ 32"
  shows "chunks_fit c r \<Longrightarrow> \<exists>res' buf' m'. rewrite_loop api h buf c r k res m = Some (res', buf', m') \<and> length buf' = length buf \<and> quiet live objs ops m m'"
proof (induction r arbitrary: m res buf k rule: less_induct)
  case (less r)
  show ?case
  proof (cases "r = 0")
    case True
    then show ?thesis by (simp add: rewrite_loop.simps)
  next
    case False
    define w where "w = (if r < c then r else c)"
    note fit = chunks_fit_next [OF less.prems w_def]
    have "w < 2 ^ 32" using c(2) by (simp add: w_def)
    then obtain i where i: "negative_size w = Some i" using negative_defined [of w] fit(1) by auto
    obtain res1 b1 k1 m1 where m1: "TEE_ReadObjectData api h buf (of_nat w) k m = (res1, b1, k1, m1)" by (metis prod.collapse)
    obtain res2 m2 where m2: "TEE_SeekObjectData api h i TEE_DATA_SEEK_CUR m1 = (res2, m2)" by fastforce
    obtain res3 m3 where m3: "TEE_WriteObjectData api h b1 (of_nat w) m2 = (res3, m3)" by fastforce
    note q = bench_steps(2) [OF l m1] bench_steps(3) [OF l m2] bench_steps(1) [OF l m3]
    then have q': "quiet live objs ops m m2" "quiet live objs ops m m3" by (blast intro: quiet_trans)+
    have "r - w < r" using False c by (simp add: w_def)
    from less.IH [OF this fit(2), of b1 k1 res3 m3] q q' show ?thesis
      using False m1 m2 m3 i by (subst rewrite_loop.simps) (auto simp: Let_def simp flip: w_def intro: quiet_trans)
  qed
qed

lemma verify_file_loop_returns:
  assumes l: "bench_laws api live objs ops" and c: "0 < c"
  shows "c dvd r \<Longrightarrow> r \<le> 2 ^ 32 \<Longrightarrow> length buf = c \<Longrightarrow>
    \<exists>res' buf' m'. verify_file_loop api h buf c (of_nat r) res m = Some (res', buf', m') \<and> quiet live objs ops m m'"
proof (induction r arbitrary: m res buf rule: less_induct)
  case (less r)
  have r: "(0 < (of_nat r :: size_t)) = (0 < r)"
    using less.prems(2) by (simp add: word_less_nat_alt unsigned_of_nat take_bit_nat_eq_self)
  show ?case
  proof (cases "r = 0")
    case True
    then show ?thesis by (simp add: verify_file_loop.simps)
  next
    case False
    then have cr: "c \<le> r" using less.prems(1) by (auto dest: dvd_imp_le)
    obtain res1 b1 k1 m1 where m1: "TEE_ReadObjectData api h buf (of_nat c) 0 m = (res1, b1, k1, m1)" by (metis prod.collapse)
    have q: "quiet live objs ops m m1" "length b1 = c" using bench_steps(2) [OF l m1] less.prems(3) by simp_all
    obtain res2 where v: "verify_buffer b1 c = Some res2" using verify_buffer_returns [of c b1] q(2) by auto
    have "r - c < r" "c dvd r - c" "r - c \<le> 2 ^ 32" using False c cr less.prems by simp_all
    from less.IH [OF this q(2), of res2 m1] obtain res' buf' m' where
      "verify_file_loop api h b1 c (of_nat (r - c)) res2 m1 = Some (res', buf', m')" "quiet live objs ops m1 m'" by blast
    moreover have "(of_nat r :: size_t) - of_nat c = of_nat (r - c)" using cr by (simp add: of_nat_diff)
    ultimately show ?thesis
      using False r m1 v q(1) by (subst verify_file_loop.simps) (auto simp: Let_def intro: quiet_trans)
  qed
qed

lemma verify_data_returns:
  assumes l: "bench_laws api live objs ops" and c: "0 < c" and r: "c dvd n" "n \<le> 2 ^ 32"
  shows "\<exists>res buf' m'. verify_file_data api h n buf c m = Some (res, buf', m') \<and> quiet live objs ops m m'"
proof -
  obtain res m1 where s: "TEE_SeekObjectData api h 0 TEE_DATA_SEEK_SET m = (res, m1)" by fastforce
  note q = bench_steps(3) [OF l s]
  show ?thesis
    using s q verify_file_loop_returns [OF l c r length_replicate, of h 0 res m1]
    by (auto simp: verify_file_data_def intro: quiet_trans)
qed

lemma timed_returns:
  assumes l: "bench_laws api live objs ops"
    and loop: "\<And>m. \<exists>res buf m'. loop m = Some (res, buf, m') \<and> length buf = c \<and> quiet live objs ops m m'"
  shows "\<exists>res t buf m'. timed api loop m = Some (res, t, buf, m') \<and> length buf = c \<and> quiet live objs ops m m'"
proof -
  obtain t0 m0 where t0: "TEE_GetSystemTime api m = (t0, m0)" by fastforce
  obtain res buf m1 where m1: "loop m0 = Some (res, buf, m1)" "length buf = c" "quiet live objs ops m0 m1" using loop by blast
  obtain t1 m2 where t1: "TEE_GetSystemTime api m1 = (t1, m2)" by fastforce
  show ?thesis
    using bench_steps(4) [OF l t0] bench_steps(4) [OF l t1] m1 t0 t1
    by (cases "res = TEE_SUCCESS") (auto simp: timed_def intro: quiet_trans)
qed

lemma run_test_returns:
  assumes l: "bench_laws api live objs ops" and c: "0 < c" "length buf = c" "c < 2 ^ 32"
    and fit: "cmd = TA_STORAGE_BENCHMARK_CMD_TEST_REWRITE \<Longrightarrow> chunks_fit c n"
  shows "\<exists>res t buf' m'. run_test api cmd h n buf c m = Some (res, t, buf', m') \<and> length buf' = c \<and> quiet live objs ops m m'"
proof -
  have r: "\<exists>res t buf' m'. test_read api h n buf c m = Some (res, t, buf', m') \<and> length buf' = c \<and> quiet live objs ops m m'"
    unfolding test_read_def using read_loop_returns [OF l c(1), of h buf n 0 TEE_SUCCESS] c(2) by (intro timed_returns [OF l]) simp
  have w: "\<exists>res t buf' m'. test_write api h n buf c m = Some (res, t, buf', m') \<and> length buf' = c \<and> quiet live objs ops m m'"
  proof -
    have "\<exists>res b m'. do { (res, m) \<leftarrow> write_loop api h buf c n TEE_SUCCESS m; Some (res, buf, m) } = Some (res, b, m') \<and>
        length b = c \<and> quiet live objs ops m m'" for m
      using write_loop_returns [OF l c(1), of h buf n TEE_SUCCESS m] c(2) by auto
    then show ?thesis unfolding test_write_def by (rule timed_returns [OF l])
  qed
  have rw: "\<exists>res t buf' m'. test_rewrite api h n buf c m = Some (res, t, buf', m') \<and> length buf' = c \<and> quiet live objs ops m m'"
    if "cmd = TA_STORAGE_BENCHMARK_CMD_TEST_REWRITE"
    unfolding test_rewrite_def using rewrite_loop_returns [OF l c(1,3) fit [OF that], of h buf 0 TEE_SUCCESS] c(2)
    by (intro timed_returns [OF l]) simp
  show ?thesis using r w rw c(2) by (simp add: run_test_def)
qed

text \<open>Opening and closing\<close>

lemma bench_handles:
  assumes "bench_laws api live objs ops"
  shows "TEE_CreatePersistentObject api stor i n f a d k True m = (res, h, m') \<Longrightarrow> opens live objs ops m (res, h, m')"
    and "TEE_OpenPersistentObject api stor i n f m = (res, h, m') \<Longrightarrow> opens live objs ops m (res, h, m') \<and> (res \<noteq> TEE_SUCCESS \<longrightarrow> h = 0)"
    and "closes live objs ops h m (TEE_CloseObject api h m)"
    and "closes live objs ops h m (snd (TEE_CloseAndDeletePersistentObject1 api h m))"
    and "0 \<notin> objs m" and "storage_laws api live objs ops"
proof -
  have l: "storage_laws api live objs ops" using assms by (simp add: bench_laws_def)
  then have 1: "opens live objs ops m (TEE_CreatePersistentObject api stor i n f a d k True m)"
    and 2: "opens live objs ops m (TEE_OpenPersistentObject api stor i n f m)"
    and c: "closes live objs ops h m (TEE_CloseObject api h m)"
      "closes live objs ops h m (snd (TEE_CloseAndDeletePersistentObject1 api h m))"
    by (simp_all add: storage_laws_def)
  have 3: "fst (TEE_OpenPersistentObject api stor i n f m) \<noteq> TEE_SUCCESS \<longrightarrow> fst (snd (TEE_OpenPersistentObject api stor i n f m)) = 0"
    using assms by (simp add: bench_laws_def)
  show "TEE_CreatePersistentObject api stor i n f a d k True m = (res, h, m') \<Longrightarrow> opens live objs ops m (res, h, m')" using 1 by simp
  show "TEE_OpenPersistentObject api stor i n f m = (res, h, m') \<Longrightarrow> opens live objs ops m (res, h, m') \<and> (res \<noteq> TEE_SUCCESS \<longrightarrow> h = 0)"
    using 2 3 by simp
  show "closes live objs ops h m (TEE_CloseObject api h m)" "closes live objs ops h m (snd (TEE_CloseAndDeletePersistentObject1 api h m))"
    by (fact c)+
  show "0 \<notin> objs m" using assms by (simp add: bench_laws_def)
  show "storage_laws api live objs ops" by (fact l)
qed

lemma opened_closed:
  assumes "opens live objs ops m (res, h, m1)" "quiet live objs ops m1 m2" "closes live objs ops h m2 m3" "0 \<notin> objs m"
    and "res = TEE_SUCCESS \<or> h = 0"
  shows "quiet live objs ops m m3"
  using assms by (cases "res = TEE_SUCCESS") (auto simp: opens_def closes_def quiet_def)

lemma prepare_returns:
  assumes l: "bench_laws api live objs ops" and c: "0 < c"
  shows "\<exists>res m'. prepare_test_file api n buf c m = Some (res, m') \<and> quiet live objs ops m m'"
proof -
  obtain res h m1 where 1: "TEE_CreatePersistentObject api TEE_STORAGE_PRIVATE filename (of_nat (length filename)) bench_flags 0 [] 0 True m
      = (res, h, m1)" by (metis prod.collapse)
  note o = bench_handles(1) [OF l 1]
  show ?thesis
  proof (cases "res = TEE_SUCCESS")
    case False
    with o have "quiet live objs ops m m1" by (simp add: opens_def quiet_def)
    with False 1 show ?thesis by (simp add: prepare_test_file_def)
  next
    case True
    obtain res2 m2 where 2: "write_loop api h buf c n res m1 = Some (res2, m2)" "quiet live objs ops m1 m2"
      using write_loop_returns [OF l c] by blast
    have "quiet live objs ops m (TEE_CloseObject api h m2)"
      by (rule opened_closed [OF o 2(2) bench_handles(3,5) [OF l]]) (simp add: True)
    with True 1 2(1) show ?thesis by (simp add: prepare_test_file_def)
  qed
qed

lemma malloc_calm:
  assumes l: "bench_laws api live objs ops" and a: "TEE_Malloc api k m = (b, m1)"
  shows "objs m1 = objs m" "ops m1 = ops m" "if b = 0 then live m1 = live m else b \<notin> live m \<and> live m1 = insert b (live m)"
proof -
  note s = bench_handles(6) [OF l]
  show "objs m1 = objs m" "ops m1 = ops m" using s a unfolding storage_laws_def by (metis snd_conv)+
  show "if b = 0 then live m1 = live m else b \<notin> live m \<and> live m1 = insert b (live m)"
    using s by (intro malloc_law [OF _ a]) (simp add: storage_laws_def)
qed

lemma freed_again:
  assumes l: "bench_laws api live objs ops" and a: "TEE_Malloc api k m = (b, m1)" "b \<noteq> 0" and q: "quiet live objs ops m1 m2"
  shows "quiet live objs ops m (TEE_Free api b m2)"
proof -
  note s = bench_handles(6) [OF l]
  have "objs (TEE_Free api b m2) = objs m2" "ops (TEE_Free api b m2) = ops m2" "heap_laws api live"
    using s by (simp_all add: storage_laws_def)
  then show ?thesis
    using q malloc_calm [OF l a(1)] a(2) live_free [of api live b m2] by (simp add: quiet_def)
qed

text \<open>A benchmark that is let in\<close>

lemma bench_accepted_returns:
  assumes l: "bench_laws api live objs ops" and d: "val_a (p1 params) = 0 \<or> bench_chunk params dvd bench_data params"
    and fit: "cmd = TA_STORAGE_BENCHMARK_CMD_TEST_REWRITE \<Longrightarrow> min (bench_chunk params) (bench_data params) \<noteq> 2 ^ 31"
    and accepted: "types = bench_types \<and> cmd \<in> {TA_STORAGE_BENCHMARK_CMD_TEST_READ, TA_STORAGE_BENCHMARK_CMD_TEST_WRITE, TA_STORAGE_BENCHMARK_CMD_TEST_REWRITE}"
  shows "\<exists>res ps m'. ta_storage_benchmark_cmd_handler api cmd types params m = Some (res, ps, m') \<and> quiet live objs ops m m'"
proof -
  let ?c = "bench_chunk params" and ?n = "bench_data params"
  note c = bench_sizes(1) [of params]
  have h: "ta_storage_benchmark_cmd_handler api cmd types params m = ta_stroage_benchmark_chunk_access_test api cmd types params m"
    using accepted by (auto simp: ta_storage_benchmark_cmd_handler_def)
  note unf = ta_stroage_benchmark_chunk_access_test_def bench_types_def [symmetric] bench_data_def [symmetric] bench_chunk_def [symmetric]
  note f = fill_pattern [OF length_replicate, of ?c 0]
  obtain b m1 where a: "TEE_Malloc api (of_nat ?c) m = (b, m1)" by fastforce
  obtain r2 m2 where p: "prepare_test_file api ?n (pattern ?c) ?c m1 = Some (r2, m2)" "quiet live objs ops m1 m2"
    using prepare_returns [OF l c] by blast
  obtain r3 h m3 where o: "TEE_OpenPersistentObject api TEE_STORAGE_PRIVATE filename (of_nat (length filename)) bench_flags m2 = (r3, h, m3)"
    by (metis prod.collapse)
  note o' = bench_handles(2) [OF l o]
  have gone: "quiet live objs ops m (exit_remove_object api h b m')" if "quiet live objs ops m3 m'" "b \<noteq> 0" for m'
  proof -
    have "quiet live objs ops m2 (snd (TEE_CloseAndDeletePersistentObject1 api h m'))"
      using o' by (intro opened_closed [OF _ that(1) bench_handles(4,5) [OF l]]) blast+
    with p(2) show ?thesis unfolding exit_remove_object_def by (intro freed_again [OF l a that(2)]) (rule quiet_trans)
  qed
  obtain r4 t buf m4 where t: "run_test api cmd h ?n (pattern ?c) ?c m3 = Some (r4, t, buf, m4)" "length buf = ?c" "quiet live objs ops m3 m4"
    using run_test_returns [OF l c length_pattern(1) bench_chunk_bound] fit chunks_fit_iff [OF bench_sizes] by blast
  consider "b = 0" | "b \<noteq> 0" "r2 \<noteq> TEE_SUCCESS" | "b \<noteq> 0" "r2 = TEE_SUCCESS" "r3 \<noteq> TEE_SUCCESS"
    | "b \<noteq> 0" "r2 = TEE_SUCCESS" "r3 = TEE_SUCCESS" "r4 \<noteq> TEE_SUCCESS \<or> val_a (p1 params) = 0"
    | "b \<noteq> 0" "r2 = TEE_SUCCESS" "r3 = TEE_SUCCESS" "r4 = TEE_SUCCESS" "val_a (p1 params) \<noteq> 0" by blast
  then show ?thesis
  proof cases
    case 1
    have "quiet live objs ops m m1"
      using 1 malloc_calm [OF l a] by (simp add: quiet_def)
    then show ?thesis using accepted a 1 unfolding h unf by (simp add: Let_def)
  next
    case 2
    then show ?thesis using accepted a p freed_again [OF l a _ p(2)] unfolding h unf by (simp add: f Let_def)
  next
    case 3
    then show ?thesis using accepted a p(1) o gone [OF quiet_refl] unfolding h unf by (simp add: f Let_def)
  next
    case 4
    then show ?thesis using accepted a p(1) o t(1) gone [OF t(3)] unfolding h unf by (auto simp add: f Let_def)
  next
    case 5
    obtain r5 buf' m5 where v: "verify_file_data api h ?n buf ?c m4 = Some (r5, buf', m5)" "quiet live objs ops m4 m5"
      using verify_data_returns [OF l c, of ?n h buf m4] 5(5) d bench_sizes(2) [of params] by auto
    then show ?thesis
      using accepted a p(1) o t(1) 5 gone [OF quiet_trans [OF t(3) v(2)]] unfolding h unf by (simp add: f Let_def)
  qed
qed

text \<open>
  C32.  Whatever the store answers to each call, a command of the benchmark returns, and the buffer, the handle
  of the file and the file position it needed are given back: heap blocks, open objects and operations are as
  before.  With verification this needs a chunk size that divides the data size, because the counter of the
  verification goes down by whole chunks and wraps otherwise; rewriting needs a first chunk of other than
  \<open>2^31\<close> bytes, whose negation overflows.
\<close>
theorem bench_returns:
  assumes l: "bench_laws api live objs ops" and d: "val_a (p1 params) = 0 \<or> bench_chunk params dvd bench_data params"
    and fit: "cmd = TA_STORAGE_BENCHMARK_CMD_TEST_REWRITE \<Longrightarrow> min (bench_chunk params) (bench_data params) \<noteq> 2 ^ 31"
  shows "\<exists>res ps m'. ta_storage_benchmark_cmd_handler api cmd types params m = Some (res, ps, m') \<and> quiet live objs ops m m'"
proof (cases "types = bench_types \<and> cmd \<in> {TA_STORAGE_BENCHMARK_CMD_TEST_READ, TA_STORAGE_BENCHMARK_CMD_TEST_WRITE, TA_STORAGE_BENCHMARK_CMD_TEST_REWRITE}")
  case False
  then show ?thesis
    by (auto simp: ta_storage_benchmark_cmd_handler_def ta_stroage_benchmark_chunk_access_test_def bench_types_def)
next
  case True
  then show ?thesis by (intro bench_accepted_returns [OF l d] fit)
qed

text \<open>An API for the witness: \<^const>\<open>list_storage\<close> with a clock, refusing when the handles run out.\<close>

definition bench_open :: "storage_lists \<Rightarrow> TEE_Result \<times> size_t \<times> storage_lists" where
  "bench_open m = (let (ps, hs, os) = m; h = foldr max hs 0 + 1
     in if h = 0 \<or> List.member hs h then (TEE_ERROR_OUT_OF_MEMORY, 0, m) else (TEE_SUCCESS, h, (ps, h # hs, os)))"

definition list_bench :: "storage_lists bench_api" where
  "list_bench = storage_api.extend (list_storage\<lparr>
       TEE_OpenPersistentObject := \<lambda>_ _ _ _. bench_open,
       TEE_CreatePersistentObject := \<lambda>_ _ _ _ _ _ _ b m. if b then bench_open m else (TEE_SUCCESS, 0, m),
       TEE_AllocateTransientObject := \<lambda>_ _. bench_open\<rparr>)
     (bench_api.fields (\<lambda>m. (\<lparr>seconds = 7, millis = 20\<rparr>, m)))"

lemma list_bench_laws: "bench_laws list_bench (\<lambda>m. set (fst m) - {0}) (\<lambda>m. set (fst (snd m)) - {0}) (\<lambda>m. set (snd (snd m)))"
  unfolding bench_laws_def storage_laws_def heap_laws_def
  by (intro conjI allI impI)
    (auto simp: list_bench_def list_storage_def list_heap_def storage_api.defs bench_api.defs fresh_block quiet_def opens_def closes_def
      bench_open_def list_close_def Let_def split_beta TEE_SUCCESS_def TEE_ERROR_OUT_OF_MEMORY_def split: if_splits)

lemma bench_returns_witness:
  "\<exists>res ps m'. ta_storage_benchmark_cmd_handler list_bench TA_STORAGE_BENCHMARK_CMD_TEST_READ bench_types
      (zero_params\<lparr>p0 := zero_param\<lparr>val_a := 12, val_b := 4\<rparr>, p1 := zero_param\<lparr>val_a := 1\<rparr>\<rparr>) ([5], [3], []) = Some (res, ps, m') \<and>
    quiet (\<lambda>m. set (fst m) - {0}) (\<lambda>m. set (fst (snd m)) - {0}) (\<lambda>m. set (snd (snd m))) ([5], [3], []) m'"
  by (rule bench_returns [OF list_bench_laws]) (simp_all add: bench_chunk_def bench_data_def zero_params_def)

end
