(* ===== verification/Teec.thy ===== *)
theory Teec
  imports Ta_Env
begin

text \<open>
  The client side: the GlobalPlatform TEE Client API as the libraries under \<open>src/host\<close> use it
  (\<open>tee_client_api.h\<close>), with the context they share (\<open>oc\<close>, \<open>src/host/libsess/session.h\<close>).  The client
  API itself is outside the repository and a parameter; \<open>teec_serves\<close> states what it documents of a
  command: the TA gets the parameters in the direction their types say, and the client gets back what
  the TA leaves in its output parameters.
\<close>

type_synonym TEEC_Result = uint32

definition TEEC_SUCCESS :: TEEC_Result where "TEEC_SUCCESS = 0"
definition TEEC_NONE :: uint32 where "TEEC_NONE = 0"
definition TEEC_VALUE_INPUT :: uint32 where "TEEC_VALUE_INPUT = 1"
definition TEEC_VALUE_OUTPUT :: uint32 where "TEEC_VALUE_OUTPUT = 2"
definition TEEC_VALUE_INOUT :: uint32 where "TEEC_VALUE_INOUT = 3"
definition TEEC_MEMREF_TEMP_INPUT :: uint32 where "TEEC_MEMREF_TEMP_INPUT = 5"
definition TEEC_MEMREF_TEMP_OUTPUT :: uint32 where "TEEC_MEMREF_TEMP_OUTPUT = 6"
definition TEEC_MEMREF_TEMP_INOUT :: uint32 where "TEEC_MEMREF_TEMP_INOUT = 7"

definition TEEC_PARAM_TYPES :: "uint32 \<Rightarrow> uint32 \<Rightarrow> uint32 \<Rightarrow> uint32 \<Rightarrow> uint32" where
  "TEEC_PARAM_TYPES t0 t1 t2 t3 = t0 OR push_bit 4 t1 OR push_bit 8 t2 OR push_bit 12 t3"

lemmas teec_type_defs = TEEC_NONE_def TEEC_VALUE_INPUT_def TEEC_VALUE_OUTPUT_def TEEC_VALUE_INOUT_def
  TEEC_MEMREF_TEMP_INPUT_def TEEC_MEMREF_TEMP_OUTPUT_def TEEC_MEMREF_TEMP_INOUT_def

text \<open>
  A parameter of an operation, the union of a value and a temporary memory reference, and the
  operation.  A reference without a buffer has \<^term>\<open>None\<close>.
\<close>

record teec_param =
  tmp_buffer :: "u8 list"
  tmp_size :: size_t
  value_a :: uint32
  value_b :: uint32

record teec_operation =
  op0 :: teec_param
  op1 :: teec_param
  op2 :: teec_param
  op3 :: teec_param

definition no_param :: teec_param where
  "no_param = \<lparr>tmp_buffer = [], tmp_size = 0, value_a = 0, value_b = 0\<rparr>"

definition op_value :: "uint32 \<Rightarrow> uint32 \<Rightarrow> teec_param" where
  "op_value a b = no_param\<lparr>value_a := a, value_b := b\<rparr>"

definition op_tmpref :: "u8 list \<Rightarrow> size_t \<Rightarrow> teec_param" where
  "op_tmpref buf n = no_param\<lparr>tmp_buffer := buf, tmp_size := n\<rparr>"

text \<open>\<open>TEEC_OPERATION_INITIALIZER\<close>\<close>

definition empty_op :: teec_operation where
  "empty_op = \<lparr>op0 = no_param, op1 = no_param, op2 = no_param, op3 = no_param\<rparr>"

record 'w teec_api =
  TEEC_InvokeCommand :: "size_t \<Rightarrow> uint32 \<Rightarrow> uint32 \<Rightarrow> teec_operation \<Rightarrow> 'w \<Rightarrow>
    TEEC_Result \<times> uint32 \<times> teec_operation \<times> 'w"

text \<open>\<open>oc\<close>: the context, the session and the return origin of the last call\<close>

record oc =
  ctx :: size_t
  session :: size_t
  oc_error :: uint32

section \<open>What the client API documents of a command\<close>

text \<open>
  A parameter as the TA sees it.  An output reference is shared memory of the size the client gave,
  whose contents the client does not choose: \<open>shm n\<close>.  Where the buffers are is not modelled, and no
  TA that is put behind a client here looks at \<open>maddr\<close>.
\<close>

definition to_ta :: "(nat \<Rightarrow> u8 list) \<Rightarrow> uint32 \<Rightarrow> teec_param \<Rightarrow> tee_param" where
  "to_ta shm t p =
     (if t = TEEC_VALUE_INPUT \<or> t = TEEC_VALUE_INOUT then zero_param\<lparr>val_a := value_a p, val_b := value_b p\<rparr>
      else if t = TEEC_MEMREF_TEMP_INPUT \<or> t = TEEC_MEMREF_TEMP_INOUT
        then zero_param\<lparr>mbuf := take (unat (tmp_size p)) (tmp_buffer p), msize := ucast (tmp_size p)\<rparr>
      else if t = TEEC_MEMREF_TEMP_OUTPUT
        then zero_param\<lparr>mbuf := shm (unat (tmp_size p)), msize := ucast (tmp_size p)\<rparr>
      else zero_param)"

text \<open>
  What comes back: an output value, the size of an output reference, and its bytes if the buffer of
  the client holds them.
\<close>

definition from_ta :: "uint32 \<Rightarrow> teec_param \<Rightarrow> tee_param \<Rightarrow> teec_param" where
  "from_ta t p q =
     (if t = TEEC_VALUE_OUTPUT \<or> t = TEEC_VALUE_INOUT then p\<lparr>value_a := val_a q, value_b := val_b q\<rparr>
      else if t = TEEC_MEMREF_TEMP_OUTPUT \<or> t = TEEC_MEMREF_TEMP_INOUT then
        p\<lparr>tmp_size := ucast (msize q), tmp_buffer :=
          (if ucast (msize q) \<le> tmp_size p
           then take (unat (msize q)) (mbuf q) @ drop (unat (msize q)) (tmp_buffer p) else tmp_buffer p)\<rparr>
      else p)"

definition op_to_ta :: "(nat \<Rightarrow> u8 list) \<Rightarrow> uint32 \<Rightarrow> teec_operation \<Rightarrow> tee_params" where
  "op_to_ta shm types op = \<lparr>
     p0 = to_ta shm (TEE_PARAM_TYPE_GET types 0) (op0 op),
     p1 = to_ta shm (TEE_PARAM_TYPE_GET types 1) (op1 op),
     p2 = to_ta shm (TEE_PARAM_TYPE_GET types 2) (op2 op),
     p3 = to_ta shm (TEE_PARAM_TYPE_GET types 3) (op3 op)\<rparr>"

definition op_from_ta :: "uint32 \<Rightarrow> teec_operation \<Rightarrow> tee_params \<Rightarrow> teec_operation" where
  "op_from_ta types op ps = \<lparr>
     op0 = from_ta (TEE_PARAM_TYPE_GET types 0) (op0 op) (p0 ps),
     op1 = from_ta (TEE_PARAM_TYPE_GET types 1) (op1 op) (p1 ps),
     op2 = from_ta (TEE_PARAM_TYPE_GET types 2) (op2 op) (p2 ps),
     op3 = from_ta (TEE_PARAM_TYPE_GET types 3) (op3 op) (p3 ps)\<rparr>"

text \<open>The buffers of an operation are as large as it says, and their sizes fit the 32 bits of a TA.\<close>

definition op_param_ok :: "teec_param \<Rightarrow> bool" where
  "op_param_ok p \<longleftrightarrow> unat (tmp_size p) \<le> length (tmp_buffer p) \<and> tmp_size p < 2 ^ 32"

definition op_ok :: "teec_operation \<Rightarrow> bool" where
  "op_ok op \<longleftrightarrow> op_param_ok (op0 op) \<and> op_param_ok (op1 op) \<and> op_param_ok (op2 op) \<and> op_param_ok (op3 op)"

definition teec_serves_at ::
  "('w, 'z) teec_api_scheme \<Rightarrow> size_t \<Rightarrow> ('w \<Rightarrow> 'm) \<Rightarrow> ('w \<Rightarrow> nat \<Rightarrow> u8 list) \<Rightarrow>
     (uint32 \<Rightarrow> uint32 \<Rightarrow> tee_params \<Rightarrow> 'm \<Rightarrow> (TEE_Result \<times> tee_params \<times> 'm) option) \<Rightarrow> 'w \<Rightarrow> bool" where
  "teec_serves_at api s ta shm invoke w \<longleftrightarrow> (\<forall>n. length (shm w n) = n) \<and>
     (\<forall>cmd types op res ps m. op_ok op \<longrightarrow> invoke cmd types (op_to_ta (shm w) types op) (ta w) = Some (res, ps, m) \<longrightarrow>
        (\<exists>org w'. TEEC_InvokeCommand api s cmd types op w = (res, org, op_from_ta types op ps, w') \<and> ta w' = m))"

text \<open>A session that is served in every state\<close>

definition teec_serves where
  "teec_serves api s ta shm invoke \<longleftrightarrow> (\<forall>w. teec_serves_at api s ta shm invoke w)"

lemma serves_now: "teec_serves api s ta shm invoke \<Longrightarrow> teec_serves_at api s ta shm invoke w"
  by (simp add: teec_serves_def)

lemma teec_serve:
  assumes "teec_serves_at api s ta shm invoke w" "op_ok op"
    and "invoke cmd types (op_to_ta (shm w) types op) (ta w) = Some (res, ps, m)"
  shows "\<exists>org w'. TEEC_InvokeCommand api s cmd types op w = (res, org, op_from_ta types op ps, w') \<and> ta w' = m"
  using assms unfolding teec_serves_at_def by blast

lemma shm_length: "teec_serves api s ta shm invoke \<Longrightarrow> length (shm w n) = n"
  unfolding teec_serves_def teec_serves_at_def by blast

text \<open>The types of both sides are the same numbers.\<close>

lemma teec_types: "TEEC_PARAM_TYPES t0 t1 t2 t3 = TEE_PARAM_TYPES t0 t1 t2 t3"
  by (simp add: TEEC_PARAM_TYPES_def TEE_PARAM_TYPES_def)

lemma teec_type_values: "TEEC_NONE = PT_NONE" "TEEC_VALUE_INPUT = PT_VALUE_INPUT" "TEEC_VALUE_OUTPUT = PT_VALUE_OUTPUT"
  "TEEC_VALUE_INOUT = PT_VALUE_INOUT" "TEEC_MEMREF_TEMP_INPUT = PT_MEMREF_INPUT" "TEEC_MEMREF_TEMP_OUTPUT = PT_MEMREF_OUTPUT"
  "TEEC_MEMREF_TEMP_INOUT = PT_MEMREF_INOUT"
  by (simp_all add: teec_type_defs param_type_defs)

lemma small_types [simp]: "PT_NONE < 16" "PT_VALUE_INPUT < 16" "PT_VALUE_OUTPUT < 16" "PT_VALUE_INOUT < 16"
  "PT_MEMREF_INPUT < 16" "PT_MEMREF_OUTPUT < 16" "PT_MEMREF_INOUT < 16"
  by (simp_all add: param_type_defs)

lemma no_param_ok [simp]: "op_param_ok no_param" "op_param_ok (op_value a b)"
  by (simp_all add: op_param_ok_def no_param_def op_value_def)

lemma tmpref_ok [simp]: "op_param_ok (op_tmpref buf (ucast (n :: uint32))) \<longleftrightarrow> unat n \<le> length buf"
  using ucast_below [of n] by (simp add: op_param_ok_def op_tmpref_def no_param_def)

lemma to_ta_simps [simp]:
  "to_ta shm PT_NONE p = zero_param" "to_ta shm PT_VALUE_OUTPUT p = zero_param"
  "to_ta shm PT_VALUE_INPUT (op_value a b) = zero_param\<lparr>val_a := a, val_b := b\<rparr>"
  "to_ta shm PT_VALUE_INOUT (op_value a b) = zero_param\<lparr>val_a := a, val_b := b\<rparr>"
  "to_ta shm PT_MEMREF_INPUT (op_tmpref buf (ucast n)) = zero_param\<lparr>mbuf := take (unat n) buf, msize := n\<rparr>"
  "to_ta shm PT_MEMREF_OUTPUT (op_tmpref buf (ucast n)) = zero_param\<lparr>mbuf := shm (unat n), msize := n\<rparr>"
  by (simp_all add: to_ta_def teec_type_values op_value_def op_tmpref_def no_param_def)
    (simp_all add: param_type_defs)

lemma from_ta_simps [simp]:
  "from_ta PT_NONE p q = p" "from_ta PT_VALUE_INPUT p q = p" "from_ta PT_MEMREF_INPUT p q = p"
  "value_a (from_ta PT_VALUE_OUTPUT p q) = val_a q" "value_b (from_ta PT_VALUE_OUTPUT p q) = val_b q"
  "value_a (from_ta PT_VALUE_INOUT p q) = val_a q" "value_b (from_ta PT_VALUE_INOUT p q) = val_b q"
  "tmp_buffer (from_ta PT_MEMREF_OUTPUT (op_tmpref buf (ucast n)) q) =
     (if msize q \<le> n then take (unat (msize q)) (mbuf q) @ drop (unat (msize q)) buf else buf)"
  "tmp_size (from_ta PT_MEMREF_OUTPUT p q) = ucast (msize q)"
  by (simp_all add: from_ta_def teec_type_values op_tmpref_def no_param_def word_le_nat_alt)
    (simp_all add: param_type_defs)

lemma empty_op_ok: "op_ok (empty_op\<lparr>op0 := a, op1 := b, op2 := d\<rparr>) \<longleftrightarrow> op_param_ok a \<and> op_param_ok b \<and> op_param_ok d"
  "op_ok (empty_op\<lparr>op0 := a, op1 := b\<rparr>) \<longleftrightarrow> op_param_ok a \<and> op_param_ok b"
  "op_ok (empty_op\<lparr>op0 := a\<rparr>) \<longleftrightarrow> op_param_ok a"
  by (simp_all add: op_ok_def empty_op_def)

lemma empty_op_fields [simp]: "op0 empty_op = no_param" "op1 empty_op = no_param" "op2 empty_op = no_param" "op3 empty_op = no_param"
  by (simp_all add: empty_op_def)

text \<open>A command on an operation, with the types as the TA sees them\<close>

lemma op_served_at:
  assumes s: "teec_serves_at api s ta shm invoke w" and "op_ok op"
    and types: "t0 < 16" "t1 < 16" "t2 < 16" "t3 < 16"
    and inv: "invoke cmd (TEE_PARAM_TYPES t0 t1 t2 t3)
      \<lparr>p0 = to_ta (shm w) t0 (op0 op), p1 = to_ta (shm w) t1 (op1 op), p2 = to_ta (shm w) t2 (op2 op), p3 = to_ta (shm w) t3 (op3 op)\<rparr>
      (ta w) = Some (res, ps, m)"
  shows "\<exists>org w'. TEEC_InvokeCommand api s cmd (TEE_PARAM_TYPES t0 t1 t2 t3) op w = (res, org,
      \<lparr>op0 = from_ta t0 (op0 op) (p0 ps), op1 = from_ta t1 (op1 op) (p1 ps), op2 = from_ta t2 (op2 op) (p2 ps), op3 = from_ta t3 (op3 op) (p3 ps)\<rparr>, w')
    \<and> ta w' = m"
  using teec_serve [OF s assms(2), of cmd "TEE_PARAM_TYPES t0 t1 t2 t3"] inv
  by (simp add: op_to_ta_def op_from_ta_def param_types_get [OF types] del: One_nat_def)

lemmas op_served = op_served_at [OF serves_now]

text \<open>A client API for the witnesses: the command runs at once on the state of the TA.\<close>

definition direct_teec ::
  "(uint32 \<Rightarrow> uint32 \<Rightarrow> tee_params \<Rightarrow> 'm \<Rightarrow> (TEE_Result \<times> tee_params \<times> 'm) option) \<Rightarrow> 'm teec_api" where
  "direct_teec invoke = \<lparr>TEEC_InvokeCommand = \<lambda>_ cmd types op w.
     case invoke cmd types (op_to_ta (\<lambda>n. replicate n 0) types op) w of
       None \<Rightarrow> (TEE_ERROR_GENERIC, 3, op, w)
     | Some (res, ps, w) \<Rightarrow> (res, 4, op_from_ta types op ps, w)\<rparr>"

lemma direct_teec_serves: "teec_serves (direct_teec invoke) s (\<lambda>w. w) (\<lambda>_ n. replicate n 0) invoke"
  by (simp add: teec_serves_def teec_serves_at_def direct_teec_def)

end
