(* ===== verification/Fs_Client.thy ===== *)
theory Fs_Client
  imports Storage Teec
begin

text \<open>
  Model of \<open>src/host/libfs/fs.c\<close>, the client of the storage TA: each function fills an operation,
  invokes one command and hands back what the command left in it.  A result that the function
  writes through a pointer is a value it is given and returns.
\<close>

definition fs_open :: "('w, 'z) teec_api_scheme \<Rightarrow> oc \<Rightarrow> u8 list \<Rightarrow> uint32 \<Rightarrow> uint32 \<Rightarrow> uint32 \<Rightarrow> uint32 \<Rightarrow> 'w \<Rightarrow>
    TEEC_Result \<times> uint32 \<times> 'w" where
  "fs_open api c oid id_size flags obj storage_id w =
     (let op = empty_op\<lparr>op0 := op_tmpref oid (ucast id_size), op1 := op_value flags 0, op2 := op_value storage_id 0\<rparr>;
          (res, _, op, w) = TEEC_InvokeCommand api (session c) TA_STORAGE_CMD_OPEN
            (TEEC_PARAM_TYPES TEEC_MEMREF_TEMP_INPUT TEEC_VALUE_INOUT TEEC_VALUE_INPUT TEEC_NONE) op w
      in (res, if res = TEEC_SUCCESS then value_b (op1 op) else obj, w))"

definition fs_create :: "('w, 'z) teec_api_scheme \<Rightarrow> oc \<Rightarrow> u8 list \<Rightarrow> uint32 \<Rightarrow> uint32 \<Rightarrow> uint32 \<Rightarrow> u8 list \<Rightarrow> uint32 \<Rightarrow>
    uint32 \<Rightarrow> uint32 \<Rightarrow> 'w \<Rightarrow> TEEC_Result \<times> uint32 \<times> 'w" where
  "fs_create api c oid id_size flags attr data data_size obj storage_id w =
     (let op = empty_op\<lparr>op0 := op_tmpref oid (ucast id_size), op1 := op_value flags 0,
            op2 := op_value attr storage_id, op3 := op_tmpref data (ucast data_size)\<rparr>;
          (res, _, op, w) = TEEC_InvokeCommand api (session c) TA_STORAGE_CMD_CREATE
            (TEEC_PARAM_TYPES TEEC_MEMREF_TEMP_INPUT TEEC_VALUE_INOUT TEEC_VALUE_INPUT TEEC_MEMREF_TEMP_INPUT) op w
      in (res, if res = TEEC_SUCCESS then value_b (op1 op) else obj, w))"

definition fs_create_overwrite :: "('w, 'z) teec_api_scheme \<Rightarrow> oc \<Rightarrow> u8 list \<Rightarrow> uint32 \<Rightarrow> uint32 \<Rightarrow> 'w \<Rightarrow> TEEC_Result \<times> 'w" where
  "fs_create_overwrite api c oid id_size storage_id w =
     (let op = empty_op\<lparr>op0 := op_tmpref oid (ucast id_size), op1 := op_value storage_id 0\<rparr>;
          (res, _, _, w) = TEEC_InvokeCommand api (session c) TA_STORAGE_CMD_CREATE_OVERWRITE
            (TEEC_PARAM_TYPES TEEC_MEMREF_TEMP_INPUT TEEC_VALUE_INPUT TEEC_NONE TEEC_NONE) op w
      in (res, w))"

text \<open>The functions whose operation is one value\<close>

definition value_call :: "('w, 'z) teec_api_scheme \<Rightarrow> oc \<Rightarrow> uint32 \<Rightarrow> uint32 \<Rightarrow> uint32 \<Rightarrow> 'w \<Rightarrow> TEEC_Result \<times> 'w" where
  "value_call api c cmd a b w =
     (let (res, _, _, w) = TEEC_InvokeCommand api (session c) cmd
            (TEEC_PARAM_TYPES TEEC_VALUE_INPUT TEEC_NONE TEEC_NONE TEEC_NONE) (empty_op\<lparr>op0 := op_value a b\<rparr>) w
      in (res, w))"

definition fs_close where "fs_close api c obj w = value_call api c TA_STORAGE_CMD_CLOSE obj 0 w"
definition fs_unlink where "fs_unlink api c obj w = value_call api c TA_STORAGE_CMD_UNLINK obj 0 w"
definition fs_trunc where "fs_trunc api c obj len w = value_call api c TA_STORAGE_CMD_TRUNC obj len w"
definition fs_reset_enum where "fs_reset_enum api c e w = value_call api c TA_STORAGE_CMD_RESET_ENUM e 0 w"
definition fs_free_enum where "fs_free_enum api c e w = value_call api c TA_STORAGE_CMD_FREE_ENUM e 0 w"
definition fs_start_enum where "fs_start_enum api c e storage_id w = value_call api c TA_STORAGE_CMD_START_ENUM e storage_id w"
definition fs_restrict_usage where
  "fs_restrict_usage api c obj obj_usage w = value_call api c TA_STORAGE_CMD_RESTRICT_USAGE obj obj_usage w"
definition fs_free_obj where "fs_free_obj api c obj w = value_call api c TA_STORAGE_CMD_FREE_OBJ obj 0 w"
definition fs_reset_obj where "fs_reset_obj api c obj w = value_call api c TA_STORAGE_CMD_RESET_OBJ obj 0 w"

definition fs_read :: "('w, 'z) teec_api_scheme \<Rightarrow> oc \<Rightarrow> uint32 \<Rightarrow> u8 list \<Rightarrow> uint32 \<Rightarrow> uint32 \<Rightarrow> 'w \<Rightarrow>
    TEEC_Result \<times> u8 list \<times> uint32 \<times> 'w" where
  "fs_read api c obj data data_size count w =
     (let op = empty_op\<lparr>op0 := op_tmpref data (ucast data_size), op1 := op_value obj 0\<rparr>;
          (res, _, op, w) = TEEC_InvokeCommand api (session c) TA_STORAGE_CMD_READ
            (TEEC_PARAM_TYPES TEEC_MEMREF_TEMP_OUTPUT TEEC_VALUE_INOUT TEEC_NONE TEEC_NONE) op w
      in (res, tmp_buffer (op0 op), if res = TEEC_SUCCESS then value_b (op1 op) else count, w))"

definition fs_write :: "('w, 'z) teec_api_scheme \<Rightarrow> oc \<Rightarrow> uint32 \<Rightarrow> u8 list \<Rightarrow> uint32 \<Rightarrow> 'w \<Rightarrow> TEEC_Result \<times> 'w" where
  "fs_write api c obj data data_size w =
     (let op = empty_op\<lparr>op0 := op_tmpref data (ucast data_size), op1 := op_value obj 0\<rparr>;
          (res, _, _, w) = TEEC_InvokeCommand api (session c) TA_STORAGE_CMD_WRITE
            (TEEC_PARAM_TYPES TEEC_MEMREF_TEMP_INPUT TEEC_VALUE_INPUT TEEC_NONE TEEC_NONE) op w
      in (res, w))"

text \<open>The signed offset travels as its bit pattern.\<close>

definition fs_seek :: "('w, 'z) teec_api_scheme \<Rightarrow> oc \<Rightarrow> uint32 \<Rightarrow> uint32 \<Rightarrow> uint32 \<Rightarrow> 'w \<Rightarrow> TEEC_Result \<times> 'w" where
  "fs_seek api c obj offset whence w =
     (let op = empty_op\<lparr>op0 := op_value obj offset, op1 := op_value whence 0\<rparr>;
          (res, _, _, w) = TEEC_InvokeCommand api (session c) TA_STORAGE_CMD_SEEK
            (TEEC_PARAM_TYPES TEEC_VALUE_INPUT TEEC_VALUE_INOUT TEEC_NONE TEEC_NONE) op w
      in (res, w))"

definition fs_rename :: "('w, 'z) teec_api_scheme \<Rightarrow> oc \<Rightarrow> uint32 \<Rightarrow> u8 list \<Rightarrow> uint32 \<Rightarrow> 'w \<Rightarrow> TEEC_Result \<times> 'w" where
  "fs_rename api c obj oid id_size w =
     (let op = empty_op\<lparr>op0 := op_value obj 0, op1 := op_tmpref oid (ucast id_size)\<rparr>;
          (res, _, _, w) = TEEC_InvokeCommand api (session c) TA_STORAGE_CMD_RENAME
            (TEEC_PARAM_TYPES TEEC_VALUE_INPUT TEEC_MEMREF_TEMP_INPUT TEEC_NONE TEEC_NONE) op w
      in (res, w))"

definition fs_alloc_enum :: "('w, 'z) teec_api_scheme \<Rightarrow> oc \<Rightarrow> uint32 \<Rightarrow> 'w \<Rightarrow> TEEC_Result \<times> uint32 \<times> 'w" where
  "fs_alloc_enum api c e w =
     (let (res, _, op, w) = TEEC_InvokeCommand api (session c) TA_STORAGE_CMD_ALLOC_ENUM
            (TEEC_PARAM_TYPES TEEC_VALUE_OUTPUT TEEC_NONE TEEC_NONE TEEC_NONE) empty_op w
      in (res, if res = TEEC_SUCCESS then value_a (op0 op) else e, w))"

text \<open>\<open>obj_info\<close> may be \<open>NULL\<close>, here \<^term>\<open>None\<close>.\<close>

definition fs_next_enum :: "('w, 'z) teec_api_scheme \<Rightarrow> oc \<Rightarrow> uint32 \<Rightarrow> u8 list option \<Rightarrow> size_t \<Rightarrow> u8 list \<Rightarrow> uint32 \<Rightarrow> 'w \<Rightarrow>
    TEEC_Result \<times> u8 list option \<times> u8 list \<times> 'w" where
  "fs_next_enum api c e obj_info info_size oid id_size w =
     (let types = TEEC_PARAM_TYPES TEEC_VALUE_INPUT TEEC_NONE TEEC_MEMREF_TEMP_OUTPUT TEEC_NONE;
          types = (if obj_info \<noteq> None \<and> info_size \<noteq> 0 then types OR push_bit 4 TEEC_MEMREF_TEMP_OUTPUT else types);
          op = empty_op\<lparr>op0 := op_value e 0, op1 := op_tmpref (case obj_info of None \<Rightarrow> [] | Some b \<Rightarrow> b) info_size,
            op2 := op_tmpref oid (ucast id_size)\<rparr>;
          (res, _, op, w) = TEEC_InvokeCommand api (session c) TA_STORAGE_CMD_NEXT_ENUM types op w
      in (res, map_option (\<lambda>_. tmp_buffer (op1 op)) obj_info, tmp_buffer (op2 op), w))"

definition fs_alloc_obj :: "('w, 'z) teec_api_scheme \<Rightarrow> oc \<Rightarrow> uint32 \<Rightarrow> uint32 \<Rightarrow> 'w \<Rightarrow> TEEC_Result \<times> uint32 \<times> 'w" where
  "fs_alloc_obj api c obj_type max_key_size w =
     (let (res, _, op, w) = TEEC_InvokeCommand api (session c) TA_STORAGE_CMD_ALLOC_OBJ
            (TEEC_PARAM_TYPES TEEC_VALUE_INPUT TEEC_VALUE_OUTPUT TEEC_NONE TEEC_NONE)
            (empty_op\<lparr>op0 := op_value obj_type max_key_size\<rparr>) w
      in (res, value_a (op1 op), w))"

definition fs_get_obj_info :: "('w, 'z) teec_api_scheme \<Rightarrow> oc \<Rightarrow> uint32 \<Rightarrow> u8 list \<Rightarrow> size_t \<Rightarrow> 'w \<Rightarrow> TEEC_Result \<times> u8 list \<times> 'w" where
  "fs_get_obj_info api c obj obj_info info_size w =
     (let op = empty_op\<lparr>op0 := op_value obj 0, op1 := op_tmpref obj_info info_size\<rparr>;
          (res, _, op, w) = TEEC_InvokeCommand api (session c) TA_STORAGE_CMD_GET_OBJ_INFO
            (TEEC_PARAM_TYPES TEEC_VALUE_INPUT TEEC_MEMREF_TEMP_OUTPUT TEEC_NONE TEEC_NONE) op w
      in (res, tmp_buffer (op1 op), w))"

section \<open>Through the TA to the API\<close>

lemmas fs_unfold = op_ok_def empty_op_def teec_types teec_type_values TEEC_SUCCESS_def TEE_SUCCESS_def

lemma invoke_dispatch:
  "storage_invoke sapi TA_STORAGE_CMD_OPEN t ps m = Some (ta_storage_cmd_open sapi TA_STORAGE_CMD_OPEN t ps m)"
  "storage_invoke sapi TA_STORAGE_CMD_CREATE t ps m = Some (ta_storage_cmd_create sapi TA_STORAGE_CMD_CREATE t ps m)"
  "storage_invoke sapi TA_STORAGE_CMD_RENAME t ps m = Some (ta_storage_cmd_rename sapi TA_STORAGE_CMD_RENAME t ps m)"
  "storage_invoke sapi TA_STORAGE_CMD_CLOSE t ps m = Some (ta_storage_cmd_close sapi t ps m)"
  "storage_invoke sapi TA_STORAGE_CMD_READ t ps m = Some (ta_storage_cmd_read sapi t ps m)"
  "storage_invoke sapi TA_STORAGE_CMD_WRITE t ps m = Some (ta_storage_cmd_write sapi t ps m)"
  "storage_invoke sapi TA_STORAGE_CMD_SEEK t ps m = Some (ta_storage_cmd_seek sapi t ps m)"
  "storage_invoke sapi TA_STORAGE_CMD_UNLINK t ps m = Some (ta_storage_cmd_unlink sapi t ps m)"
  "storage_invoke sapi TA_STORAGE_CMD_TRUNC t ps m = Some (ta_storage_cmd_trunc sapi t ps m)"
  by (simp_all add: storage_invoke_def storage_cmd_defs)

text \<open>Each call of the client is the call of the API, with the parameters where they belong.\<close>

lemma fs_close_served:
  assumes s: "teec_serves_at api (session c) ta shm (storage_invoke sapi) w"
  shows "\<exists>w'. fs_close api c obj w = (TEE_SUCCESS, w') \<and> ta w' = TEE_CloseObject sapi (ucast obj) (ta w)"
  using op_served_at [OF s, where op = "empty_op\<lparr>op0 := op_value obj 0\<rparr>" and ?t0.0 = PT_VALUE_INPUT and ?t1.0 = PT_NONE
      and ?t2.0 = PT_NONE and ?t3.0 = PT_NONE and cmd = TA_STORAGE_CMD_CLOSE]
  by (auto simp: fs_unfold fs_close_def value_call_def invoke_dispatch ta_storage_cmd_close_def value_types_def STORAGE_VAL2HANDLE_def)

lemma fs_open_served:
  assumes s: "teec_serves_at api (session c) ta shm (storage_invoke sapi) w" and n: "unat n \<le> length oid"
    and b: "TEE_Malloc sapi (ucast n) (ta w) = (b, m1)" "b \<noteq> 0"
    and o: "TEE_OpenPersistentObject sapi stor (take (unat n) oid) n flags m1 = (res, h, m2)"
  shows "\<exists>w'. fs_open api c oid n flags obj stor w = (res, if res = TEE_SUCCESS then ucast h else obj, w') \<and> ta w' = TEE_Free sapi b m2"
  using op_served_at [OF s, where op = "empty_op\<lparr>op0 := op_tmpref oid (ucast n), op1 := op_value flags 0, op2 := op_value stor 0\<rparr>"
      and ?t0.0 = PT_MEMREF_INPUT and ?t1.0 = PT_VALUE_INOUT
      and ?t2.0 = PT_VALUE_INPUT and ?t3.0 = PT_NONE and cmd = TA_STORAGE_CMD_OPEN] n b o
  by (auto simp: fs_unfold fs_open_def invoke_dispatch ta_storage_cmd_open_def Let_def)

lemma fs_create_served:
  assumes s: "teec_serves_at api (session c) ta shm (storage_invoke sapi) w"
    and n: "unat n \<le> length oid" "unat k \<le> length data"
    and b: "TEE_Malloc sapi (ucast n) (ta w) = (b, m1)" "b \<noteq> 0"
    and o: "TEE_CreatePersistentObject sapi stor (take (unat n) oid) n flags (ucast attr) (take (unat k) data) k True m1 = (res, h, m2)"
  shows "\<exists>w'. fs_create api c oid n flags attr data k obj stor w = (res, if res = TEE_SUCCESS then ucast h else obj, w') \<and> ta w' = TEE_Free sapi b m2"
  using op_served_at [OF s, where op = "empty_op\<lparr>op0 := op_tmpref oid (ucast n), op1 := op_value flags 0, op2 := op_value attr stor, op3 := op_tmpref data (ucast k)\<rparr>"
      and ?t0.0 = PT_MEMREF_INPUT and ?t1.0 = PT_VALUE_INOUT and ?t2.0 = PT_VALUE_INPUT and ?t3.0 = PT_MEMREF_INPUT
      and cmd = TA_STORAGE_CMD_CREATE] n b o
  by (auto simp: fs_unfold fs_create_def ta_storage_cmd_create_def invoke_dispatch STORAGE_VAL2HANDLE_def Let_def)

lemma fs_read_served:
  assumes s: "teec_serves api (session c) ta shm (storage_invoke sapi)"
    and n: "unat n \<le> length data"
    and o: "TEE_ReadObjectData sapi (ucast obj) (shm w (unat n)) n 0 (ta w) = (res, buf, k, m)"
  shows "\<exists>w'. fs_read api c obj data n count w = (res, take (unat n) buf @ drop (unat n) data, if res = TEE_SUCCESS then k else count, w') \<and> ta w' = m"
  using op_served [OF s, where op = "empty_op\<lparr>op0 := op_tmpref data (ucast n), op1 := op_value obj 0\<rparr>"
      and ?t0.0 = PT_MEMREF_OUTPUT and ?t1.0 = PT_VALUE_INOUT and ?t2.0 = PT_NONE and ?t3.0 = PT_NONE
      and cmd = TA_STORAGE_CMD_READ and w = w] n o
  by (auto simp: fs_unfold fs_read_def ta_storage_cmd_read_def invoke_dispatch STORAGE_VAL2HANDLE_def Let_def)

lemma fs_write_served:
  assumes s: "teec_serves api (session c) ta shm (storage_invoke sapi)"
    and n: "unat n \<le> length data"
    and o: "TEE_WriteObjectData sapi (ucast obj) (take (unat n) data) n (ta w) = (res, m)"
  shows "\<exists>w'. fs_write api c obj data n w = (res, w') \<and> ta w' = m"
  using op_served [OF s, where op = "empty_op\<lparr>op0 := op_tmpref data (ucast n), op1 := op_value obj 0\<rparr>"
      and ?t0.0 = PT_MEMREF_INPUT and ?t1.0 = PT_VALUE_INPUT and ?t2.0 = PT_NONE and ?t3.0 = PT_NONE
      and cmd = TA_STORAGE_CMD_WRITE and w = w] n o
  by (auto simp: fs_unfold fs_write_def ta_storage_cmd_write_def invoke_dispatch STORAGE_VAL2HANDLE_def Let_def)

lemma fs_seek_served:
  assumes s: "teec_serves api (session c) ta shm (storage_invoke sapi)"
    and o: "TEE_SeekObjectData sapi (ucast obj) (sint offset) whence (ta w) = (res, m1)"
    and i: "res = TEE_SUCCESS \<Longrightarrow> TEE_GetObjectInfo1 sapi (ucast obj) (stack_info sapi) m1 = (res2, info, m2)"
  shows "\<exists>w'. fs_seek api c obj offset whence w = (if res = TEE_SUCCESS then res2 else res, w') \<and> ta w' = (if res = TEE_SUCCESS then m2 else m1)"
  using op_served [OF s, where op = "empty_op\<lparr>op0 := op_value obj offset, op1 := op_value whence 0\<rparr>"
      and ?t0.0 = PT_VALUE_INPUT and ?t1.0 = PT_VALUE_INOUT and ?t2.0 = PT_NONE and ?t3.0 = PT_NONE
      and cmd = TA_STORAGE_CMD_SEEK and w = w] o i
  by (auto simp: fs_unfold fs_seek_def ta_storage_cmd_seek_def invoke_dispatch STORAGE_VAL2HANDLE_def Let_def)

lemma fs_unlink_served:
  assumes s: "teec_serves_at api (session c) ta shm (storage_invoke sapi) w"
  shows "\<exists>w'. fs_unlink api c obj w = (TEE_SUCCESS, w') \<and> ta w' = snd (TEE_CloseAndDeletePersistentObject1 sapi (ucast obj) (ta w))"
  using op_served_at [OF s, where op = "empty_op\<lparr>op0 := op_value obj 0\<rparr>"
      and ?t0.0 = PT_VALUE_INPUT and ?t1.0 = PT_NONE and ?t2.0 = PT_NONE and ?t3.0 = PT_NONE
      and cmd = TA_STORAGE_CMD_UNLINK]
  by (auto simp: fs_unfold fs_unlink_def value_call_def ta_storage_cmd_unlink_def value_types_def invoke_dispatch STORAGE_VAL2HANDLE_def Let_def split_beta)

lemma fs_trunc_served:
  assumes s: "teec_serves api (session c) ta shm (storage_invoke sapi)"
    and o: "TEE_TruncateObjectData sapi (ucast obj) len (ta w) = (res, m)"
  shows "\<exists>w'. fs_trunc api c obj len w = (res, w') \<and> ta w' = m"
  using op_served [OF s, where op = "empty_op\<lparr>op0 := op_value obj len\<rparr>"
      and ?t0.0 = PT_VALUE_INPUT and ?t1.0 = PT_NONE and ?t2.0 = PT_NONE and ?t3.0 = PT_NONE
      and cmd = TA_STORAGE_CMD_TRUNC and w = w] o
  by (auto simp: fs_unfold fs_trunc_def value_call_def ta_storage_cmd_trunc_def value_types_def invoke_dispatch STORAGE_VAL2HANDLE_def Let_def)

lemma fs_rename_served:
  assumes s: "teec_serves api (session c) ta shm (storage_invoke sapi)"
    and n: "unat n \<le> length oid"
    and b: "TEE_Malloc sapi (ucast n) (ta w) = (b, m1)" "b \<noteq> 0"
    and o: "TEE_RenamePersistentObject sapi (ucast obj) (take (unat n) oid) n m1 = (res, m2)"
  shows "\<exists>w'. fs_rename api c obj oid n w = (res, w') \<and> ta w' = TEE_Free sapi b m2"
  using op_served [OF s, where op = "empty_op\<lparr>op0 := op_value obj 0, op1 := op_tmpref oid (ucast n)\<rparr>"
      and ?t0.0 = PT_VALUE_INPUT and ?t1.0 = PT_MEMREF_INPUT and ?t2.0 = PT_NONE and ?t3.0 = PT_NONE
      and cmd = TA_STORAGE_CMD_RENAME and w = w] n b o
  by (auto simp: fs_unfold fs_rename_def ta_storage_cmd_rename_def invoke_dispatch STORAGE_VAL2HANDLE_def Let_def)

section \<open>A file through the client library\<close>

text \<open>
  What the Core API documents of the private files when nothing fails: \<open>files m\<close> maps a name to what it
  holds and \<open>open_at m\<close> an open handle to its file and position.  Memory is always granted, and the
  handles fit the 32 bits in which the TA hands them to its client.
\<close>

definition store_laws ::
  "('m, 'z) storage_api_scheme \<Rightarrow> uint32 \<Rightarrow> uint32 \<Rightarrow> ('m \<Rightarrow> u8 list \<Rightarrow> u8 list option) \<Rightarrow> ('m \<Rightarrow> size_t \<Rightarrow> (u8 list \<times> nat) option) \<Rightarrow> bool" where
  "store_laws api stor flags files open_at \<longleftrightarrow>
     (\<forall>n m. fst (TEE_Malloc api n m) \<noteq> 0 \<and> files (snd (TEE_Malloc api n m)) = files m \<and> open_at (snd (TEE_Malloc api n m)) = open_at m) \<and>
     (\<forall>p m. files (TEE_Free api p m) = files m \<and> open_at (TEE_Free api p m) = open_at m) \<and>
     (\<forall>m name n data k. files m name = None \<and> n = of_nat (length name) \<and> k = of_nat (length data) \<longrightarrow>
        (\<exists>h m'. TEE_CreatePersistentObject api stor name n flags 0 data k True m = (TEE_SUCCESS, h, m') \<and> h < 2 ^ 32 \<and>
          files m' = (files m)(name \<mapsto> data) \<and> open_at m' = (open_at m)(h \<mapsto> (name, 0)))) \<and>
     (\<forall>m name n c. files m name = Some c \<and> n = of_nat (length name) \<and> (\<forall>h p. open_at m h \<noteq> Some (name, p)) \<longrightarrow>
        (\<exists>h m'. TEE_OpenPersistentObject api stor name n flags m = (TEE_SUCCESS, h, m') \<and> h < 2 ^ 32 \<and>
          files m' = files m \<and> open_at m' = (open_at m)(h \<mapsto> (name, 0)))) \<and>
     (\<forall>m h name p c buf n. open_at m h = Some (name, p) \<and> files m name = Some c \<and> p \<le> length c \<and> unat n \<le> length buf \<longrightarrow>
        (\<exists>m'. TEE_WriteObjectData api h buf n m = (TEE_SUCCESS, m') \<and> open_at m' = (open_at m)(h \<mapsto> (name, p + unat n)) \<and>
          files m' = (files m)(name \<mapsto> take p c @ take (unat n) buf @ drop (p + unat n) c))) \<and>
     (\<forall>m h name p c buf n k. open_at m h = Some (name, p) \<and> files m name = Some c \<and> p \<le> length c \<and> unat n \<le> length buf \<longrightarrow>
        (\<exists>m'. TEE_ReadObjectData api h buf n k m =
            (let l = min (unat n) (length c - p) in (TEE_SUCCESS, take l (drop p c) @ drop l buf, of_nat l, m')) \<and>
          files m' = files m \<and> open_at m' = (open_at m)(h \<mapsto> (name, p + min (unat n) (length c - p))))) \<and>
     (\<forall>m h name p c off. open_at m h = Some (name, p) \<and> files m name = Some c \<and> 0 \<le> off \<and> off \<le> int (length c) \<longrightarrow>
        (\<exists>m'. TEE_SeekObjectData api h off 0 m = (TEE_SUCCESS, m') \<and> files m' = files m \<and> open_at m' = (open_at m)(h \<mapsto> (name, nat off)))) \<and>
     (\<forall>m h i name p. open_at m h = Some (name, p) \<longrightarrow>
        (\<exists>i' m'. TEE_GetObjectInfo1 api h i m = (TEE_SUCCESS, i', m') \<and> files m' = files m \<and> open_at m' = open_at m)) \<and>
     (\<forall>m h. files (TEE_CloseObject api h m) = files m \<and> open_at (TEE_CloseObject api h m) = (open_at m)(h := None))"

lemma store_memory:
  assumes "store_laws api stor flags files open_at"
  shows "fst (TEE_Malloc api n m) \<noteq> 0 \<and> files (snd (TEE_Malloc api n m)) = files m \<and> open_at (snd (TEE_Malloc api n m)) = open_at m"
    and "files (TEE_Free api p m) = files m \<and> open_at (TEE_Free api p m) = open_at m"
    and "files (TEE_CloseObject api h m) = files m \<and> open_at (TEE_CloseObject api h m) = (open_at m)(h := None)"
  using assms by (simp_all add: store_laws_def)

lemma store_create:
  assumes "store_laws api stor flags files open_at" "files m name = None" "n = of_nat (length name)" "k = of_nat (length data)"
  shows "\<exists>h m'. TEE_CreatePersistentObject api stor name n flags 0 data k True m = (TEE_SUCCESS, h, m') \<and> h < 2 ^ 32 \<and>
          files m' = (files m)(name \<mapsto> data) \<and> open_at m' = (open_at m)(h \<mapsto> (name, 0))"
  using assms by (simp add: store_laws_def)

lemma store_open:
  assumes "store_laws api stor flags files open_at" "files m name = Some c" "n = of_nat (length name)"
    and "\<forall>h p. open_at m h \<noteq> Some (name, p)"
  shows "\<exists>h m'. TEE_OpenPersistentObject api stor name n flags m = (TEE_SUCCESS, h, m') \<and> h < 2 ^ 32 \<and>
          files m' = files m \<and> open_at m' = (open_at m)(h \<mapsto> (name, 0))"
  using assms by (simp add: store_laws_def)

lemma store_write:
  assumes "store_laws api stor flags files open_at" "open_at m h = Some (name, p)" "files m name = Some c" "p \<le> length c" "unat n \<le> length buf"
  shows "\<exists>m'. TEE_WriteObjectData api h buf n m = (TEE_SUCCESS, m') \<and> open_at m' = (open_at m)(h \<mapsto> (name, p + unat n)) \<and>
          files m' = (files m)(name \<mapsto> take p c @ take (unat n) buf @ drop (p + unat n) c)"
  using assms by (simp add: store_laws_def)

lemma store_read:
  assumes "store_laws api stor flags files open_at" "open_at m h = Some (name, p)" "files m name = Some c" "p \<le> length c" "unat n \<le> length buf"
  shows "\<exists>m'. TEE_ReadObjectData api h buf n k m =
            (let l = min (unat n) (length c - p) in (TEE_SUCCESS, take l (drop p c) @ drop l buf, of_nat l, m')) \<and>
          files m' = files m \<and> open_at m' = (open_at m)(h \<mapsto> (name, p + min (unat n) (length c - p)))"
  using assms by (simp add: store_laws_def)

lemma store_seek:
  assumes "store_laws api stor flags files open_at" "open_at m h = Some (name, p)" "files m name = Some c" "0 \<le> off" "off \<le> int (length c)"
  shows "\<exists>m1 i m2. TEE_SeekObjectData api h off 0 m = (TEE_SUCCESS, m1) \<and> TEE_GetObjectInfo1 api h (stack_info api) m1 = (TEE_SUCCESS, i, m2) \<and>
          files m2 = files m \<and> open_at m2 = (open_at m)(h \<mapsto> (name, nat off))"
proof -
  obtain m1 where m1: "TEE_SeekObjectData api h off 0 m = (TEE_SUCCESS, m1)" "files m1 = files m" "open_at m1 = (open_at m)(h \<mapsto> (name, nat off))"
    using assms unfolding store_laws_def by meson
  obtain i m2 where "TEE_GetObjectInfo1 api h (stack_info api) m1 = (TEE_SUCCESS, i, m2)" "files m2 = files m1" "open_at m2 = open_at m1"
    using assms(1) m1(3) unfolding store_laws_def by (metis fun_upd_same)
  with m1 show ?thesis by auto
qed

text \<open>The same for the client's functions\<close>

lemma fs_create_file:
  assumes s: "teec_serves api (session c) ta shm (storage_invoke sapi)" and l: "store_laws sapi stor flags files open_at"
    and n: "length name < 2 ^ 32" "length data < 2 ^ 32" "files (ta w) name = None"
  shows "\<exists>h w'. fs_create api c name (of_nat (length name)) flags 0 data (of_nat (length data)) obj stor w = (TEE_SUCCESS, h, w') \<and>
    files (ta w') = (files (ta w))(name \<mapsto> data) \<and> open_at (ta w') = (open_at (ta w))(ucast h \<mapsto> (name, 0))"
proof -
  let ?n = "of_nat (length name) :: uint32" and ?k = "of_nat (length data) :: uint32"
  obtain b m1 where b: "TEE_Malloc sapi (ucast ?n) (ta w) = (b, m1)" by fastforce
  then have m1: "b \<noteq> 0" "files m1 = files (ta w)" "open_at m1 = open_at (ta w)"
    using store_memory(1) [OF l, of "ucast ?n" "ta w"] by simp_all
  obtain h m2 where o: "TEE_CreatePersistentObject sapi stor name ?n flags 0 data ?k True m1 = (TEE_SUCCESS, h, m2)" "h < 2 ^ 32"
      "files m2 = (files m1)(name \<mapsto> data)" "open_at m2 = (open_at m1)(h \<mapsto> (name, 0))"
    using store_create [OF l, of m1 name ?n ?k data] n m1 by auto
  have "\<exists>w'. fs_create api c name ?n flags 0 data ?k obj stor w = (TEE_SUCCESS, ucast h, w') \<and> ta w' = TEE_Free sapi b m2"
    using fs_create_served [OF serves_now [OF s] _ _ b m1(1), where oid = name and data = data and k = ?k and stor = stor and flags = flags
      and attr = 0 and res = TEE_SUCCESS and h = h and ?m2.0 = m2 and obj = obj] n o(1) by (simp add: unat_of_nat32)
  then show ?thesis
    using o m1 store_memory(2) [OF l, of b m2] ucast_up_down [OF o(2)] by (intro exI [of _ "ucast h"]) auto
qed

lemma fs_open_file:
  assumes s: "teec_serves api (session c) ta shm (storage_invoke sapi)" and l: "store_laws sapi stor flags files open_at"
    and n: "length name < 2 ^ 32" "files (ta w) name = Some cont" "\<forall>h p. open_at (ta w) h \<noteq> Some (name, p)"
  shows "\<exists>h w'. fs_open api c name (of_nat (length name)) flags obj stor w = (TEE_SUCCESS, h, w') \<and>
    files (ta w') = files (ta w) \<and> open_at (ta w') = (open_at (ta w))(ucast h \<mapsto> (name, 0))"
proof -
  let ?n = "of_nat (length name) :: uint32"
  obtain b m1 where b: "TEE_Malloc sapi (ucast ?n) (ta w) = (b, m1)" by fastforce
  then have m1: "b \<noteq> 0" "files m1 = files (ta w)" "open_at m1 = open_at (ta w)"
    using store_memory(1) [OF l, of "ucast ?n" "ta w"] by simp_all
  obtain h m2 where o: "TEE_OpenPersistentObject sapi stor name ?n flags m1 = (TEE_SUCCESS, h, m2)" "h < 2 ^ 32"
      "files m2 = files m1" "open_at m2 = (open_at m1)(h \<mapsto> (name, 0))"
    using store_open [OF l, of m1 name cont ?n] n m1 by auto
  have "\<exists>w'. fs_open api c name ?n flags obj stor w = (TEE_SUCCESS, ucast h, w') \<and> ta w' = TEE_Free sapi b m2"
    using fs_open_served [OF serves_now [OF s] _ b m1(1), of name stor flags TEE_SUCCESS h m2 obj] n o(1) by (simp add: unat_of_nat32)
  then show ?thesis
    using o m1 store_memory(2) [OF l, of b m2] ucast_up_down [OF o(2)] by (intro exI [of _ "ucast h"]) auto
qed

lemma fs_write_file:
  assumes s: "teec_serves api (session c) ta shm (storage_invoke sapi)" and l: "store_laws sapi stor flags files open_at"
    and n: "length data < 2 ^ 32" and f: "open_at (ta w) (ucast h) = Some (name, p)" "files (ta w) name = Some cont" "p \<le> length cont"
  shows "\<exists>w'. fs_write api c h data (of_nat (length data)) w = (TEE_SUCCESS, w') \<and>
    files (ta w') = (files (ta w))(name \<mapsto> take p cont @ data @ drop (p + length data) cont) \<and>
    open_at (ta w') = (open_at (ta w))(ucast h \<mapsto> (name, p + length data))"
proof -
  obtain m where "TEE_WriteObjectData sapi (ucast h) data (of_nat (length data)) (ta w) = (TEE_SUCCESS, m)"
      "open_at m = (open_at (ta w))(ucast h \<mapsto> (name, p + length data))"
      "files m = (files (ta w))(name \<mapsto> take p cont @ data @ drop (p + length data) cont)"
    using store_write [OF l f, of "of_nat (length data)" data] n by (auto simp: unat_of_nat32)
  then show ?thesis
    using fs_write_served [OF s, of "of_nat (length data)" data h w] n by (auto simp: unat_of_nat32)
qed

lemma fs_seek_file:
  assumes s: "teec_serves api (session c) ta shm (storage_invoke sapi)" and l: "store_laws sapi stor flags files open_at"
    and f: "open_at (ta w) (ucast h) = Some (name, p)" "files (ta w) name = Some cont" "k \<le> length cont" "k < 2 ^ 31"
  shows "\<exists>w'. fs_seek api c h (of_nat k) 0 w = (TEE_SUCCESS, w') \<and>
    files (ta w') = files (ta w) \<and> open_at (ta w') = (open_at (ta w))(ucast h \<mapsto> (name, k))"
proof -
  have k: "sint (of_nat k :: uint32) = int k"
    using f(4) by (simp add: signed_of_nat signed_take_bit_int_eq_self)
  obtain m1 i m2 where m: "TEE_SeekObjectData sapi (ucast h) (sint (of_nat k :: uint32)) 0 (ta w) = (TEE_SUCCESS, m1)"
      "TEE_GetObjectInfo1 sapi (ucast h) (stack_info sapi) m1 = (TEE_SUCCESS, i, m2)"
      "files m2 = files (ta w)" "open_at m2 = (open_at (ta w))(ucast h \<mapsto> (name, k))"
    using store_seek [OF l f(1,2), of "int k"] f(3) k by auto
  show ?thesis using fs_seek_served [OF s m(1,2)] m(3,4) by auto
qed

lemma fs_read_file:
  assumes s: "teec_serves api (session c) ta shm (storage_invoke sapi)" and l: "store_laws sapi stor flags files open_at"
    and f: "open_at (ta w) (ucast h) = Some (name, p)" "files (ta w) name = Some cont" "p \<le> length cont"
    and n: "length cont - p < 2 ^ 32" "length cont - p \<le> length buf"
  shows "\<exists>w'. fs_read api c h buf (of_nat (length cont - p)) count w =
      (TEE_SUCCESS, drop p cont @ drop (length cont - p) buf, of_nat (length cont - p), w') \<and> files (ta w') = files (ta w)"
proof -
  let ?n = "length cont - p"
  have u: "unat (of_nat ?n :: uint32) = ?n" using n(1) by (rule unat_of_nat32)
  note len = shm_length [OF s, of w ?n]
  obtain m where m: "TEE_ReadObjectData sapi (ucast h) (shm w ?n) (of_nat ?n) 0 (ta w) =
      (TEE_SUCCESS, take ?n (drop p cont) @ drop ?n (shm w ?n), of_nat ?n, m)" "files m = files (ta w)"
    using store_read [OF l f, of "of_nat ?n" "shm w ?n" 0] len by (auto simp: u Let_def)
  show ?thesis
    using fs_read_served [OF s, of "of_nat ?n" buf h w TEE_SUCCESS "take ?n (drop p cont) @ drop ?n (shm w ?n)" "of_nat ?n" m count] m n(2)
    by (auto simp: u)
qed

text \<open>
  C24.  What a client creates with some bytes and extends by writing, it finds again after closing and
  opening the file by name, from any position it seeks to: through the client library, the parameters of
  the operation, the storage TA and the Core API, with names, handles, offsets and sizes in their 32 bits.
\<close>
theorem fs_roundtrip:
  assumes s: "teec_serves api (session c) ta shm (storage_invoke sapi)" and l: "store_laws sapi stor flags files open_at"
    and new: "files (ta w) name = None" "\<forall>h p. open_at (ta w) h \<noteq> Some (name, p)"
    and n: "length name < 2 ^ 32" "length start < 2 ^ 32" "length start \<le> length data" "length data < 2 ^ 32"
    and k: "k \<le> length data" "k < 2 ^ 31" "length data - k \<le> length buf"
  shows "\<exists>h w1 w2 w3 h' w4 w5 w6.
    fs_create api c name (of_nat (length name)) flags 0 start (of_nat (length start)) obj stor w = (TEE_SUCCESS, h, w1) \<and>
    fs_write api c h data (of_nat (length data)) w1 = (TEE_SUCCESS, w2) \<and>
    fs_close api c h w2 = (TEE_SUCCESS, w3) \<and>
    fs_open api c name (of_nat (length name)) flags obj stor w3 = (TEE_SUCCESS, h', w4) \<and>
    fs_seek api c h' (of_nat k) 0 w4 = (TEE_SUCCESS, w5) \<and>
    fs_read api c h' buf (of_nat (length data - k)) count w5 =
      (TEE_SUCCESS, drop k data @ drop (length data - k) buf, of_nat (length data - k), w6) \<and>
    files (ta w6) = (files (ta w))(name \<mapsto> data)"
proof -
  obtain h w1 where 1: "fs_create api c name (of_nat (length name)) flags 0 start (of_nat (length start)) obj stor w = (TEE_SUCCESS, h, w1)"
    "files (ta w1) = (files (ta w))(name \<mapsto> start)" "open_at (ta w1) = (open_at (ta w))(ucast h \<mapsto> (name, 0))"
    using fs_create_file [OF s l n(1,2) new(1)] by blast
  obtain w2 where 2: "fs_write api c h data (of_nat (length data)) w1 = (TEE_SUCCESS, w2)"
    "files (ta w2) = (files (ta w))(name \<mapsto> data)" "open_at (ta w2) = (open_at (ta w))(ucast h \<mapsto> (name, length data))"
    using fs_write_file [OF s l n(4), of w1 h name 0 start] 1 n(3) by auto
  obtain w3 where 3: "fs_close api c h w2 = (TEE_SUCCESS, w3)" "files (ta w3) = (files (ta w))(name \<mapsto> data)"
    "open_at (ta w3) = (open_at (ta w))(ucast h := None)"
    using fs_close_served [OF serves_now [OF s], of h w2] store_memory(3) [OF l] 2 by auto
  have "\<forall>h p. open_at (ta w3) h \<noteq> Some (name, p)" using new(2) 3(3) by simp
  then obtain h' w4 where 4: "fs_open api c name (of_nat (length name)) flags obj stor w3 = (TEE_SUCCESS, h', w4)"
    "files (ta w4) = files (ta w3)" "open_at (ta w4) = (open_at (ta w3))(ucast h' \<mapsto> (name, 0))"
    using fs_open_file [OF s l n(1), of w3 data] 3(2) by fastforce
  obtain w5 where 5: "fs_seek api c h' (of_nat k) 0 w4 = (TEE_SUCCESS, w5)" "files (ta w5) = files (ta w4)"
    "open_at (ta w5) = (open_at (ta w4))(ucast h' \<mapsto> (name, k))"
    using fs_seek_file [OF s l, of w4 h' name 0 data k] 3(2) 4 k by auto
  have short: "length data - k < 2 ^ 32" using n(4) by simp
  obtain w6 where 6: "fs_read api c h' buf (of_nat (length data - k)) count w5 =
      (TEE_SUCCESS, drop k data @ drop (length data - k) buf, of_nat (length data - k), w6)" "files (ta w6) = files (ta w5)"
    using fs_read_file [OF s l, of w5 h' name k data buf count] short 3(2) 4 5 k by auto
  have "files (ta w6) = (files (ta w))(name \<mapsto> data)" using 3(2) 4(2) 5(2) 6(2) by simp
  with 1(1) 2(1) 3(1) 4(1) 5(1) 6(1) show ?thesis by (intro exI conjI)
qed

section \<open>A store and a session for the witness\<close>

text \<open>The state is the laws' view of it: what the files hold and where the handles are.\<close>

type_synonym demo_fs = "(u8 list \<Rightarrow> u8 list option) \<times> (size_t \<Rightarrow> (u8 list \<times> nat) option)"

definition demo_open :: "u8 list \<Rightarrow> demo_fs \<Rightarrow> TEE_Result \<times> size_t \<times> demo_fs" where
  "demo_open name m = (case fst m name of None \<Rightarrow> (TEE_ERROR_ITEM_NOT_FOUND, 0, m)
     | Some c \<Rightarrow> (TEE_SUCCESS, 7, (fst m, (snd m)(7 \<mapsto> (name, 0)))))"

definition demo_read :: "size_t \<Rightarrow> u8 list \<Rightarrow> uint32 \<Rightarrow> demo_fs \<Rightarrow> TEE_Result \<times> u8 list \<times> uint32 \<times> demo_fs" where
  "demo_read h buf n m = (case snd m h of None \<Rightarrow> (TEE_ERROR_ITEM_NOT_FOUND, buf, 0, m)
     | Some (name, p) \<Rightarrow> let c = the (fst m name); l = min (unat n) (length c - p)
         in (TEE_SUCCESS, take l (drop p c) @ drop l buf, of_nat l, (fst m, (snd m)(h \<mapsto> (name, p + l)))))"

definition demo_write :: "size_t \<Rightarrow> u8 list \<Rightarrow> uint32 \<Rightarrow> demo_fs \<Rightarrow> TEE_Result \<times> demo_fs" where
  "demo_write h buf n m = (case snd m h of None \<Rightarrow> (TEE_ERROR_ITEM_NOT_FOUND, m)
     | Some (name, p) \<Rightarrow> let c = the (fst m name)
         in (TEE_SUCCESS, ((fst m)(name \<mapsto> take p c @ take (unat n) buf @ drop (p + unat n) c), (snd m)(h \<mapsto> (name, p + unat n)))))"

definition demo_seek :: "size_t \<Rightarrow> int \<Rightarrow> uint32 \<Rightarrow> demo_fs \<Rightarrow> TEE_Result \<times> demo_fs" where
  "demo_seek h off whence m = (case snd m h of None \<Rightarrow> (TEE_ERROR_ITEM_NOT_FOUND, m)
     | Some (name, p) \<Rightarrow> (TEE_SUCCESS, (fst m, (snd m)(h \<mapsto> (name, nat (if whence = 0 then off else int p + off))))))"

definition demo_storage :: "demo_fs storage_api" where
  "demo_storage = inert_storage\<lparr>
     TEE_OpenPersistentObject := \<lambda>_ name _ _. demo_open name,
     TEE_CreatePersistentObject := \<lambda>_ name _ _ _ data _ _ m. (TEE_SUCCESS, 7, ((fst m)(name \<mapsto> data), (snd m)(7 \<mapsto> (name, 0)))),
     TEE_CloseObject := \<lambda>h m. (fst m, (snd m)(h := None)),
     TEE_ReadObjectData := \<lambda>h buf n _. demo_read h buf n,
     TEE_WriteObjectData := demo_write,
     TEE_SeekObjectData := demo_seek\<rparr>"

lemma demo_store_laws: "store_laws demo_storage stor flags fst snd"
  unfolding store_laws_def
  by (intro conjI allI impI) (auto simp: demo_storage_def inert_storage_def demo_open_def demo_read_def demo_write_def demo_seek_def Let_def)

lemma fs_roundtrip_witness:
  "\<exists>h w1 w2 w3 h' w4 w5 w6.
    fs_create (direct_teec (storage_invoke demo_storage)) \<lparr>ctx = 1, session = 2, oc_error = 0\<rparr> [65] (of_nat (length [65 :: u8])) 3 0 [1] (of_nat (length [1 :: u8])) 0 1
      (\<lambda>_. None, \<lambda>_. None) = (TEE_SUCCESS, h, w1) \<and>
    fs_write (direct_teec (storage_invoke demo_storage)) \<lparr>ctx = 1, session = 2, oc_error = 0\<rparr> h [9, 8, 7] (of_nat (length [9, 8, 7 :: u8])) w1 = (TEE_SUCCESS, w2) \<and>
    fs_close (direct_teec (storage_invoke demo_storage)) \<lparr>ctx = 1, session = 2, oc_error = 0\<rparr> h w2 = (TEE_SUCCESS, w3) \<and>
    fs_open (direct_teec (storage_invoke demo_storage)) \<lparr>ctx = 1, session = 2, oc_error = 0\<rparr> [65] (of_nat (length [65 :: u8])) 3 0 1 w3 = (TEE_SUCCESS, h', w4) \<and>
    fs_seek (direct_teec (storage_invoke demo_storage)) \<lparr>ctx = 1, session = 2, oc_error = 0\<rparr> h' (of_nat 1) 0 w4 = (TEE_SUCCESS, w5) \<and>
    fs_read (direct_teec (storage_invoke demo_storage)) \<lparr>ctx = 1, session = 2, oc_error = 0\<rparr> h' [0, 0] (of_nat (length [9, 8, 7 :: u8] - 1)) 0 w5 =
      (TEE_SUCCESS, drop 1 [9, 8, 7] @ drop (length [9, 8, 7 :: u8] - 1) [0, 0], of_nat (length [9, 8, 7 :: u8] - 1), w6) \<and>
    fst w6 = (fst ((\<lambda>_. None, \<lambda>_. None) :: demo_fs))([65] \<mapsto> [9, 8, 7])"
  by (rule fs_roundtrip [OF direct_teec_serves demo_store_laws]) simp_all

end
