(* ===== verification/Key_Ta.thy ===== *)
theory Key_Ta
  imports Storage
begin

text \<open>
  Model of \<open>src/ta/key\<close>: the TA that generates AES keys as persistent objects, lists and enumerates
  them and reads their attributes.  \<open>key.c\<close> and \<open>enum.c\<close> are its commands, \<open>ta_entry.c\<close> includes both.
\<close>

definition TA_KEY_CMD_GENERATE :: uint32 where "TA_KEY_CMD_GENERATE = 1"
definition TA_KEY_CMD_LIST :: uint32 where "TA_KEY_CMD_LIST = 2"
definition TA_KEY_CMD_ALLOC_ENUM :: uint32 where "TA_KEY_CMD_ALLOC_ENUM = 3"
definition TA_KEY_CMD_FREE_ENUM :: uint32 where "TA_KEY_CMD_FREE_ENUM = 4"
definition TA_KEY_CMD_RESET_ENUM :: uint32 where "TA_KEY_CMD_RESET_ENUM = 5"
definition TA_KEY_CMD_START_ENUM :: uint32 where "TA_KEY_CMD_START_ENUM = 6"
definition TA_KEY_CMD_NEXT_ENUM :: uint32 where "TA_KEY_CMD_NEXT_ENUM = 7"
definition TA_KEY_CMD_OPEN :: uint32 where "TA_KEY_CMD_OPEN = 8"
definition TA_KEY_CMD_CLOSE :: uint32 where "TA_KEY_CMD_CLOSE = 9"
definition TA_KEY_CMD_CLOSE_AND_DELETE :: uint32 where "TA_KEY_CMD_CLOSE_AND_DELETE = 10"
definition TA_KEY_CMD_GET_OBJECT_BUFFER_ATTRIBUTE :: uint32 where "TA_KEY_CMD_GET_OBJECT_BUFFER_ATTRIBUTE = 11"
definition TA_KEY_CMD_GET_OBJECT_VALUE_ATTRIBUTE :: uint32 where "TA_KEY_CMD_GET_OBJECT_VALUE_ATTRIBUTE = 12"

lemmas key_cmd_defs = TA_KEY_CMD_GENERATE_def TA_KEY_CMD_LIST_def TA_KEY_CMD_ALLOC_ENUM_def TA_KEY_CMD_FREE_ENUM_def
  TA_KEY_CMD_RESET_ENUM_def TA_KEY_CMD_START_ENUM_def TA_KEY_CMD_NEXT_ENUM_def TA_KEY_CMD_OPEN_def TA_KEY_CMD_CLOSE_def
  TA_KEY_CMD_CLOSE_AND_DELETE_def TA_KEY_CMD_GET_OBJECT_BUFFER_ATTRIBUTE_def TA_KEY_CMD_GET_OBJECT_VALUE_ATTRIBUTE_def

text \<open>
  The object API with the two functions for attributes, and what the uninitialised locals \<open>objectID\<close>
  and \<open>objectIDLen\<close> of \<open>ta_key_cmd_list\<close> hold.
\<close>

record 'm key_api = "'m storage_api" +
  TEE_GetObjectBufferAttribute :: "size_t \<Rightarrow> uint32 \<Rightarrow> u8 list \<Rightarrow> uint32 \<Rightarrow> 'm \<Rightarrow> TEE_Result \<times> u8 list \<times> uint32 \<times> 'm"
  TEE_GetObjectValueAttribute :: "size_t \<Rightarrow> uint32 \<Rightarrow> uint32 \<Rightarrow> uint32 \<Rightarrow> 'm \<Rightarrow> TEE_Result \<times> uint32 \<times> uint32 \<times> 'm"
  stack_id :: "u8 list"
  stack_id_len :: uint32

section \<open>Generating, opening and closing keys\<close>

definition ta_key_cmd_generate :: "('m, 'z) key_api_scheme \<Rightarrow> uint32 \<Rightarrow> tee_params \<Rightarrow> 'm \<Rightarrow> 'm storage_res" where
  "ta_key_cmd_generate api param_types params m =
     (if TEE_PARAM_TYPES PT_VALUE_INPUT PT_MEMREF_INPUT PT_VALUE_INPUT PT_VALUE_OUTPUT \<noteq> param_types
        then (TEE_ERROR_BAD_PARAMETERS, params, m)
      else
        let key_size = val_b (p2 params)
        in if key_size \<noteq> 128 \<and> key_size \<noteq> 192 \<and> key_size \<noteq> 256 then (TEE_ERROR_NOT_SUPPORTED, params, m)
      else
        let (result, transient_key, m) = TEE_AllocateTransientObject api TEE_TYPE_AES key_size m
        in if result \<noteq> TEE_SUCCESS then (result, params, m)
      else
        let (result, m) = TEE_GenerateKey api transient_key key_size m
        in if result \<noteq> TEE_SUCCESS then (result, params, TEE_FreeTransientObject api transient_key m)
      else
        let (result, _, m) = TEE_GetObjectInfo1 api transient_key (stack_info api) m
        in if result \<noteq> TEE_SUCCESS then (result, params, TEE_FreeTransientObject api transient_key m)
      else
        let (keyFileName, m) = TEE_Malloc api (ucast (msize (p1 params)) + 1) m
        in if keyFileName = 0 then (TEE_ERROR_OUT_OF_MEMORY, params, TEE_FreeTransientObject api transient_key m)
      else if msize (p1 params) = 0
        then (TEE_ERROR_BAD_PARAMETERS, params, TEE_FreeTransientObject api transient_key (TEE_Free api keyFileName m))
      else
        let (result, persistent_key, m) = TEE_CreatePersistentObject api (val_a (p0 params)) (mbuf (p1 params)) (msize (p1 params))
              (val_a (p2 params)) transient_key [] 0 True m;
            params = (if result \<noteq> TEE_SUCCESS then params else params\<lparr>p3 := (p3 params)\<lparr>val_a := ucast persistent_key\<rparr>\<rparr>)
        in (result, params, TEE_FreeTransientObject api transient_key (TEE_Free api keyFileName m)))"

definition ta_key_cmd_open :: "('m, 'z) key_api_scheme \<Rightarrow> uint32 \<Rightarrow> tee_params \<Rightarrow> 'm \<Rightarrow> 'm storage_res" where
  "ta_key_cmd_open api param_types params m =
     (if TEE_PARAM_TYPES PT_VALUE_INPUT PT_MEMREF_INPUT PT_VALUE_INPUT PT_VALUE_OUTPUT \<noteq> param_types
        then (TEE_ERROR_BAD_PARAMETERS, params, m)
      else
        let (keyFileName, m) = TEE_Malloc api (ucast (msize (p1 params)) + 1) m
        in if keyFileName = 0 then (TEE_ERROR_OUT_OF_MEMORY, params, m)
      else
        let (result, key, m) = TEE_OpenPersistentObject api (val_a (p0 params)) (mbuf (p1 params)) (msize (p1 params)) (val_a (p2 params)) m;
            params = (if result \<noteq> TEE_SUCCESS then params else params\<lparr>p3 := (p3 params)\<lparr>val_a := ucast key\<rparr>\<rparr>)
        in (result, params, TEE_Free api keyFileName m))"

definition ta_key_cmd_close :: "('m, 'z) key_api_scheme \<Rightarrow> uint32 \<Rightarrow> tee_params \<Rightarrow> 'm \<Rightarrow> 'm storage_res" where
  "ta_key_cmd_close api param_types params m =
     (if value_types \<noteq> param_types then (TEE_ERROR_BAD_PARAMETERS, params, m)
      else (TEE_SUCCESS, params, TEE_CloseObject api (STORAGE_VAL2HANDLE (val_a (p0 params))) m))"

definition ta_key_cmd_close_and_delete :: "('m, 'z) key_api_scheme \<Rightarrow> uint32 \<Rightarrow> tee_params \<Rightarrow> 'm \<Rightarrow> 'm storage_res" where
  "ta_key_cmd_close_and_delete api param_types params m =
     (if value_types \<noteq> param_types then (TEE_ERROR_BAD_PARAMETERS, params, m)
      else (TEE_SUCCESS, params, snd (TEE_CloseAndDeletePersistentObject1 api (STORAGE_VAL2HANDLE (val_a (p0 params))) m)))"

definition ta_key_cmd_get_object_buffer_attribute :: "('m, 'z) key_api_scheme \<Rightarrow> uint32 \<Rightarrow> tee_params \<Rightarrow> 'm \<Rightarrow> 'm storage_res" where
  "ta_key_cmd_get_object_buffer_attribute api param_types params m =
     (if TEE_PARAM_TYPES PT_VALUE_INPUT PT_MEMREF_OUTPUT PT_NONE PT_NONE \<noteq> param_types
        then (TEE_ERROR_BAD_PARAMETERS, params, m)
      else
        let h = STORAGE_VAL2HANDLE (val_a (p0 params));
            (_, _, m) = TEE_GetObjectInfo1 api h (stack_info api) m;
            (result, buf, n, m) = TEE_GetObjectBufferAttribute api h (val_b (p0 params)) (mbuf (p1 params)) (msize (p1 params)) m
        in (result, params\<lparr>p1 := (p1 params)\<lparr>mbuf := buf, msize := n\<rparr>\<rparr>, m))"

definition ta_key_cmd_get_object_value_attribute :: "('m, 'z) key_api_scheme \<Rightarrow> uint32 \<Rightarrow> tee_params \<Rightarrow> 'm \<Rightarrow> 'm storage_res" where
  "ta_key_cmd_get_object_value_attribute api param_types params m =
     (if TEE_PARAM_TYPES PT_VALUE_INPUT PT_VALUE_OUTPUT PT_NONE PT_NONE \<noteq> param_types
        then (TEE_ERROR_BAD_PARAMETERS, params, m)
      else
        let (result, a, b, m) = TEE_GetObjectValueAttribute api (STORAGE_VAL2HANDLE (val_a (p0 params))) (val_b (p0 params))
              (val_a (p1 params)) (val_b (p1 params)) m
        in (result, params\<lparr>p1 := (p1 params)\<lparr>val_a := a, val_b := b\<rparr>\<rparr>, m))"

section \<open>Listing and enumerating\<close>

text \<open>
  The loop of \<open>ta_key_cmd_list\<close>.  It sets a terminating zero behind the name, which is a store behind the
  array for a name of the greatest length.
\<close>

partial_function (option) key_list_loop ::
  "('m, 'z) key_api_scheme \<Rightarrow> size_t \<Rightarrow> u8 list \<Rightarrow> u8 list \<Rightarrow> uint32 \<Rightarrow> 'm \<Rightarrow> 'm option" where
  "key_list_loop api oe obj objectID objectIDLen m =
     (let (res, obj, objectID, objectIDLen, m) = TEE_GetNextPersistentObject api oe (Some obj) objectID objectIDLen m
      in if res \<noteq> TEE_SUCCESS then Some m
      else case st objectID (unat objectIDLen) 0 of
          None \<Rightarrow> None
        | Some objectID \<Rightarrow> key_list_loop api oe obj objectID objectIDLen m)"

definition ta_key_cmd_list :: "('m, 'z) key_api_scheme \<Rightarrow> uint32 \<Rightarrow> tee_params \<Rightarrow> 'm \<Rightarrow> 'm storage_res option" where
  "ta_key_cmd_list api param_types params m =
     (if value_types \<noteq> param_types then Some (TEE_ERROR_BAD_PARAMETERS, params, m)
      else
        let (res, oe, m) = TEE_AllocatePersistentObjectEnumerator api m
        in if res \<noteq> TEE_SUCCESS then Some (res, params, m)
      else
        let (res, m) = TEE_StartPersistentObjectEnumerator api oe (val_a (p0 params)) m
        in if res \<noteq> TEE_SUCCESS then Some (res, params, TEE_FreePersistentObjectEnumerator api oe m)
      else do {
        m \<leftarrow> key_list_loop api oe (info_bytes (stack_info api)) (stack_id api) (stack_id_len api) m;
        Some (res, params, TEE_FreePersistentObjectEnumerator api oe m)
      })"

definition ta_key_cmd_alloc_enum :: "('m, 'z) key_api_scheme \<Rightarrow> uint32 \<Rightarrow> tee_params \<Rightarrow> 'm \<Rightarrow> 'm storage_res" where
  "ta_key_cmd_alloc_enum api param_types params m =
     (if TEE_PARAM_TYPES PT_VALUE_OUTPUT PT_NONE PT_NONE PT_NONE \<noteq> param_types
        then (TEE_ERROR_BAD_PARAMETERS, params, m)
      else
        let (res, oe, m) = TEE_AllocatePersistentObjectEnumerator api m
        in (res, params\<lparr>p0 := (p0 params)\<lparr>val_a := ucast oe\<rparr>\<rparr>, m))"

definition ta_key_cmd_free_enum :: "('m, 'z) key_api_scheme \<Rightarrow> uint32 \<Rightarrow> tee_params \<Rightarrow> 'm \<Rightarrow> 'm storage_res" where
  "ta_key_cmd_free_enum api param_types params m =
     (if value_types \<noteq> param_types then (TEE_ERROR_BAD_PARAMETERS, params, m)
      else (TEE_SUCCESS, params, TEE_FreePersistentObjectEnumerator api (STORAGE_VAL2HANDLE (val_a (p0 params))) m))"

definition ta_key_cmd_reset_enum :: "('m, 'z) key_api_scheme \<Rightarrow> uint32 \<Rightarrow> tee_params \<Rightarrow> 'm \<Rightarrow> 'm storage_res" where
  "ta_key_cmd_reset_enum api param_types params m =
     (if value_types \<noteq> param_types then (TEE_ERROR_BAD_PARAMETERS, params, m)
      else (TEE_SUCCESS, params, TEE_ResetPersistentObjectEnumerator api (STORAGE_VAL2HANDLE (val_a (p0 params))) m))"

definition ta_key_cmd_start_enum :: "('m, 'z) key_api_scheme \<Rightarrow> uint32 \<Rightarrow> tee_params \<Rightarrow> 'm \<Rightarrow> 'm storage_res" where
  "ta_key_cmd_start_enum api param_types params m =
     (if value_types \<noteq> param_types then (TEE_ERROR_BAD_PARAMETERS, params, m)
      else
        let (res, m) = TEE_StartPersistentObjectEnumerator api (STORAGE_VAL2HANDLE (val_a (p0 params))) (val_b (p0 params)) m
        in (res, params, m))"

definition ta_key_cmd_next_enum :: "('m, 'z) key_api_scheme \<Rightarrow> uint32 \<Rightarrow> tee_params \<Rightarrow> 'm \<Rightarrow> 'm storage_res" where
  "ta_key_cmd_next_enum api param_types params m =
     (let next = (\<lambda>obj params.
            if msize (p2 params) < TEE_OBJECT_ID_MAX_LEN then (TEE_ERROR_SHORT_BUFFER, params, m)
            else
              let (res, info, name, n, m) = TEE_GetNextPersistentObject api (STORAGE_VAL2HANDLE (val_a (p0 params)))
                    obj (mbuf (p2 params)) (msize (p2 params)) m;
                  params = (if obj = None then params else params\<lparr>p1 := (p1 params)\<lparr>mbuf := info\<rparr>\<rparr>)
              in (res, params\<lparr>p2 := (p2 params)\<lparr>mbuf := name, msize := n\<rparr>\<rparr>, m))
      in if TEE_PARAM_TYPE_GET param_types 0 \<noteq> PT_VALUE_INPUT then (TEE_ERROR_BAD_PARAMETERS, params, m)
      else if TEE_PARAM_TYPE_GET param_types 2 \<noteq> PT_MEMREF_OUTPUT then (TEE_ERROR_BAD_PARAMETERS, params, m)
      else if TEE_PARAM_TYPE_GET param_types 3 \<noteq> PT_NONE then (TEE_ERROR_BAD_PARAMETERS, params, m)
      else if TEE_PARAM_TYPE_GET param_types 1 = PT_NONE then next None params
      else if TEE_PARAM_TYPE_GET param_types 1 = PT_MEMREF_OUTPUT then
        let short = msize (p1 params) < sizeof_object_info;
            params = params\<lparr>p1 := (p1 params)\<lparr>msize := sizeof_object_info\<rparr>\<rparr>
        in if short then (TEE_ERROR_SHORT_BUFFER, params, m)
        else next (Some (mbuf (p1 params))) params
      else (TEE_ERROR_BAD_PARAMETERS, params, m))"

section \<open>Sessions and dispatch\<close>

text \<open>
  The TA keeps a session to the storage TA in a static variable, which it opens with each of its own
  sessions without looking at the result.
\<close>

definition stor_uuid :: tee_uuid where
  "stor_uuid = (0xb689f2a7, 0x8adf, 0x477a, [0x9f, 0x99, 0x32, 0xe9, 0x0c, 0x0a, 0xd0, 0xa2])"

definition key_open_session :: "('m, 'y) client_api_scheme \<Rightarrow> size_t \<Rightarrow> 'm \<Rightarrow> TEE_Result \<times> size_t \<times> 'm" where
  "key_open_session capi stor_session m =
     (let (_, stor_session, _, _, m) = TEE_OpenTASession capi stor_uuid 0 (TEE_PARAM_TYPES PT_NONE PT_NONE PT_NONE PT_NONE) zero_params m
      in (TEE_SUCCESS, stor_session, m))"

definition key_close_session :: "('m, 'y) client_api_scheme \<Rightarrow> size_t \<Rightarrow> 'm \<Rightarrow> 'm" where
  "key_close_session capi stor_session m = TEE_CloseTASession capi stor_session m"

definition key_invoke :: "('m, 'z) key_api_scheme \<Rightarrow> uint32 \<Rightarrow> uint32 \<Rightarrow> tee_params \<Rightarrow> 'm \<Rightarrow> 'm storage_res option" where
  "key_invoke api cmd types params m =
     (if cmd = TA_KEY_CMD_GENERATE then Some (ta_key_cmd_generate api types params m)
      else if cmd = TA_KEY_CMD_LIST then ta_key_cmd_list api types params m
      else if cmd = TA_KEY_CMD_ALLOC_ENUM then Some (ta_key_cmd_alloc_enum api types params m)
      else if cmd = TA_KEY_CMD_FREE_ENUM then Some (ta_key_cmd_free_enum api types params m)
      else if cmd = TA_KEY_CMD_RESET_ENUM then Some (ta_key_cmd_reset_enum api types params m)
      else if cmd = TA_KEY_CMD_START_ENUM then Some (ta_key_cmd_start_enum api types params m)
      else if cmd = TA_KEY_CMD_NEXT_ENUM then Some (ta_key_cmd_next_enum api types params m)
      else if cmd = TA_KEY_CMD_OPEN then Some (ta_key_cmd_open api types params m)
      else if cmd = TA_KEY_CMD_CLOSE then Some (ta_key_cmd_close api types params m)
      else if cmd = TA_KEY_CMD_CLOSE_AND_DELETE then Some (ta_key_cmd_close_and_delete api types params m)
      else if cmd = TA_KEY_CMD_GET_OBJECT_BUFFER_ATTRIBUTE then Some (ta_key_cmd_get_object_buffer_attribute api types params m)
      else if cmd = TA_KEY_CMD_GET_OBJECT_VALUE_ATTRIBUTE then Some (ta_key_cmd_get_object_value_attribute api types params m)
      else Some (TEE_ERROR_BAD_PARAMETERS, params, m))"

section \<open>What a command leaves behind\<close>

definition key_laws ::
  "('m, 'z) key_api_scheme \<Rightarrow> ('m \<Rightarrow> ptr set) \<Rightarrow> ('m \<Rightarrow> size_t set) \<Rightarrow> ('m \<Rightarrow> size_t set) \<Rightarrow> bool" where
  "key_laws api live objs ops \<longleftrightarrow> storage_laws api live objs ops \<and>
     (\<forall>h a b n m. quiet live objs ops m (snd (snd (snd (TEE_GetObjectBufferAttribute api h a b n m))))) \<and>
     (\<forall>h a x y m. quiet live objs ops m (snd (snd (snd (TEE_GetObjectValueAttribute api h a x y m)))))"

definition key_accounts ::
  "('m \<Rightarrow> ptr set) \<Rightarrow> ('m \<Rightarrow> size_t set) \<Rightarrow> ('m \<Rightarrow> size_t set) \<Rightarrow> uint32 \<Rightarrow> tee_params \<Rightarrow> 'm \<Rightarrow> 'm storage_res \<Rightarrow> bool" where
  "key_accounts live objs ops cmd params m r \<longleftrightarrow> (case r of (res, ps, m') \<Rightarrow> balanced live ops m m' \<and>
     (if cmd = TA_KEY_CMD_GENERATE \<or> cmd = TA_KEY_CMD_OPEN then opened_for_client objs (val_a (p3 ps)) res m m'
      else if cmd = TA_KEY_CMD_CLOSE \<or> cmd = TA_KEY_CMD_CLOSE_AND_DELETE then closed_for_client objs (val_a (p0 params)) res m m'
      else objs m' = objs m))"

lemma key_list_loop_quiet:
  assumes l: "storage_laws api live objs ops" and r: "key_list_loop api oe obj objectID objectIDLen m = Some m'"
  shows "quiet live objs ops m m'"
proof -
  have "api = api \<longrightarrow> quiet live objs ops m m'"
  proof (rule key_list_loop.raw_induct [where P = "\<lambda>a _ _ _ _ m m'. a = api \<longrightarrow> quiet live objs ops m m'", OF _ r], intro impI)
    fix loop a oe obj i n m m'
    assume IH: "\<And>a oe obj i n m y. loop a oe obj i n m = Some y \<Longrightarrow> a = api \<longrightarrow> quiet live objs ops m y" and a: "a = api"
      and e: "(let (res, obj, objectID, objectIDLen, m) = TEE_GetNextPersistentObject a oe (Some obj) i n m
        in if res \<noteq> TEE_SUCCESS then Some m
           else case st objectID (unat objectIDLen) 0 of None \<Rightarrow> None
                | Some objectID \<Rightarrow> loop a oe obj objectID objectIDLen m) = Some m'"
    obtain res obj' i' n' m1 where g: "TEE_GetNextPersistentObject api oe (Some obj) i n m = (res, obj', i', n', m1)"
      by (metis prod.collapse)
    have "quiet live objs ops m m1"
      using storage_calm [OF l] storage_quiet(10) [OF l] g unfolding quiet_def by (metis snd_conv)
    with IH e show "quiet live objs ops m m'" unfolding a by (auto simp: g quiet_def split: if_splits option.splits)
  qed
  then show ?thesis by simp
qed

lemma bad_not_success: "TEE_ERROR_BAD_PARAMETERS \<noteq> TEE_SUCCESS" "TEE_ERROR_OUT_OF_MEMORY \<noteq> TEE_SUCCESS" "TEE_ERROR_NOT_SUPPORTED \<noteq> TEE_SUCCESS"
  by (simp_all add: TEE_ERROR_BAD_PARAMETERS_def TEE_ERROR_OUT_OF_MEMORY_def TEE_ERROR_NOT_SUPPORTED_def TEE_SUCCESS_def)

lemma key_list_accounts:
  assumes l: "storage_laws api live objs ops" and r: "ta_key_cmd_list api t params m = Some (res, ps, m')"
  shows "balanced live ops m m' \<and> objs m' = objs m"
proof -
  obtain r1 oe m1 where 1: "TEE_AllocatePersistentObjectEnumerator api m = (r1, oe, m1)" by (metis prod.collapse)
  obtain r2 m2 where 2: "TEE_StartPersistentObjectEnumerator api oe (val_a (p0 params)) m1 = (r2, m2)" by fastforce
  note rules = storage_calm [OF l] storage_quiet [OF l]
  have q: "live m1 = live m" "ops m1 = ops m" "objs m1 = objs m" "live m2 = live m" "ops m2 = ops m" "objs m2 = objs m"
    using rules 1 2 by (metis snd_conv)+
  show ?thesis
    using r key_list_loop_quiet [OF l] q
    by (auto simp: ta_key_cmd_list_def 1 2 balanced_def rules quiet_def split: if_splits bind_splits)
qed

lemma key_generate_accounts:
  assumes l: "storage_laws api live objs ops" and r: "ta_key_cmd_generate api t params m = (res, ps, m')"
  shows "balanced live ops m m' \<and> opened_for_client objs (val_a (p3 ps)) res m m'"
proof -
  let ?k = "val_b (p2 params)"
  obtain r1 tk m1 where 1: "TEE_AllocateTransientObject api TEE_TYPE_AES ?k m = (r1, tk, m1)" by (metis prod.collapse)
  obtain r2 m2 where 2: "TEE_GenerateKey api tk ?k m1 = (r2, m2)" by fastforce
  obtain r3 i m3 where 3: "TEE_GetObjectInfo1 api tk (stack_info api) m2 = (r3, i, m3)" by (metis prod.collapse)
  obtain b m4 where 4: "TEE_Malloc api (ucast (msize (p1 params)) + 1) m3 = (b, m4)" by fastforce
  obtain r5 pk m5 where 5: "TEE_CreatePersistentObject api (val_a (p0 params)) (mbuf (p1 params)) (msize (p1 params))
      (val_a (p2 params)) tk [] 0 True m4 = (r5, pk, m5)" by (metis prod.collapse)
  define bad_size where "bad_size \<longleftrightarrow> ?k \<noteq> 128 \<and> ?k \<noteq> 192 \<and> ?k \<noteq> 256"
  note rules = storage_calm [OF l] storage_quiet [OF l] storage_objs [OF l]
  note last = storage_objs(8,10) [OF l] storage_calm(11,12) [OF l] storage_heap(4,6) [OF l]
  have o: "opens live objs ops m (r1, tk, m1)" "opens live objs ops m4 (r5, pk, m5)"
    using storage_opens(3) [OF l] storage_opens(2) [OF l] 1 5 by metis+
  have q: "live m2 = live m1" "ops m2 = ops m1" "objs m2 = objs m1" "live m3 = live m1" "ops m3 = ops m1" "objs m3 = objs m1"
    using rules 2 3 by (metis snd_conv)+
  have a: "b = 0 \<Longrightarrow> live m4 = live m1" "b \<noteq> 0 \<Longrightarrow> live m4 = insert b (live m1) \<and> b \<notin> live m1" "ops m4 = ops m1" "objs m4 = objs m1"
    using 4 q storage_heap(1-3,5) [OF l, where v = "ucast (msize (p1 params)) + 1" and m = m3] storage_objs(9) [OF l, where v = "ucast (msize (p1 params)) + 1" and m = m3] by simp_all
  show ?thesis
    using r o q a unfolding ta_key_cmd_generate_def Let_def bad_size_def [symmetric]
    by (simp add: 1 2 3 4 5 balanced_def opened_for_client_def opens_def split: if_splits)
      (auto simp: bad_not_success last)
qed

lemma key_open_accounts:
  assumes l: "storage_laws api live objs ops" and r: "ta_key_cmd_open api t params m = (res, ps, m')"
  shows "balanced live ops m m' \<and> opened_for_client objs (val_a (p3 ps)) res m m'"
proof -
  obtain b m4 where 4: "TEE_Malloc api (ucast (msize (p1 params)) + 1) m = (b, m4)" by fastforce
  obtain r5 pk m5 where 5: "TEE_OpenPersistentObject api (val_a (p0 params)) (mbuf (p1 params)) (msize (p1 params))
      (val_a (p2 params)) m4 = (r5, pk, m5)" by (metis prod.collapse)
  note rules = storage_calm [OF l] storage_quiet [OF l] storage_objs [OF l]
  have o: "opens live objs ops m4 (r5, pk, m5)" using storage_opens(1) [OF l] 5 by metis
  have a: "b = 0 \<Longrightarrow> live m4 = live m" "b \<noteq> 0 \<Longrightarrow> live m4 = insert b (live m) \<and> b \<notin> live m" "ops m4 = ops m" "objs m4 = objs m"
    using 4 storage_heap(1-3,5) [OF l, where v = "ucast (msize (p1 params)) + 1" and m = m] storage_objs(9) [OF l, where v = "ucast (msize (p1 params)) + 1" and m = m] by simp_all
  show ?thesis
    using r o a unfolding ta_key_cmd_open_def
    by (auto simp: 4 5 balanced_def opened_for_client_def opens_def bad_not_success rules storage_heap [OF l] Let_def split: if_splits)
qed

lemma key_quiet_accounts:
  assumes k: "key_laws api live objs ops"
  shows "balanced live ops m (snd (snd (ta_key_cmd_alloc_enum api t ps m))) \<and> objs (snd (snd (ta_key_cmd_alloc_enum api t ps m))) = objs m"
    "balanced live ops m (snd (snd (ta_key_cmd_free_enum api t ps m))) \<and> objs (snd (snd (ta_key_cmd_free_enum api t ps m))) = objs m"
    "balanced live ops m (snd (snd (ta_key_cmd_reset_enum api t ps m))) \<and> objs (snd (snd (ta_key_cmd_reset_enum api t ps m))) = objs m"
    "balanced live ops m (snd (snd (ta_key_cmd_start_enum api t ps m))) \<and> objs (snd (snd (ta_key_cmd_start_enum api t ps m))) = objs m"
    "balanced live ops m (snd (snd (ta_key_cmd_next_enum api t ps m))) \<and> objs (snd (snd (ta_key_cmd_next_enum api t ps m))) = objs m"
    "balanced live ops m (snd (snd (ta_key_cmd_get_object_buffer_attribute api t ps m))) \<and>
      objs (snd (snd (ta_key_cmd_get_object_buffer_attribute api t ps m))) = objs m"
    "balanced live ops m (snd (snd (ta_key_cmd_get_object_value_attribute api t ps m))) \<and>
      objs (snd (snd (ta_key_cmd_get_object_value_attribute api t ps m))) = objs m"
proof -
  have l: "storage_laws api live objs ops" using k by (simp add: key_laws_def)
  have a: "live (snd (snd (snd (TEE_GetObjectBufferAttribute api h a b n m)))) = live m"
    "ops (snd (snd (snd (TEE_GetObjectBufferAttribute api h a b n m)))) = ops m"
    "objs (snd (snd (snd (TEE_GetObjectBufferAttribute api h a b n m)))) = objs m"
    "live (snd (snd (snd (TEE_GetObjectValueAttribute api h a x y m)))) = live m"
    "ops (snd (snd (snd (TEE_GetObjectValueAttribute api h a x y m)))) = ops m"
    "objs (snd (snd (snd (TEE_GetObjectValueAttribute api h a x y m)))) = objs m" for h a b n x y m
    using k by (simp_all add: key_laws_def quiet_def)
  note rules = storage_calm [OF l] storage_quiet [OF l] storage_objs [OF l] a
  show "balanced live ops m (snd (snd (ta_key_cmd_alloc_enum api t ps m))) \<and> objs (snd (snd (ta_key_cmd_alloc_enum api t ps m))) = objs m"
    "balanced live ops m (snd (snd (ta_key_cmd_free_enum api t ps m))) \<and> objs (snd (snd (ta_key_cmd_free_enum api t ps m))) = objs m"
    "balanced live ops m (snd (snd (ta_key_cmd_reset_enum api t ps m))) \<and> objs (snd (snd (ta_key_cmd_reset_enum api t ps m))) = objs m"
    "balanced live ops m (snd (snd (ta_key_cmd_start_enum api t ps m))) \<and> objs (snd (snd (ta_key_cmd_start_enum api t ps m))) = objs m"
    "balanced live ops m (snd (snd (ta_key_cmd_next_enum api t ps m))) \<and> objs (snd (snd (ta_key_cmd_next_enum api t ps m))) = objs m"
    "balanced live ops m (snd (snd (ta_key_cmd_get_object_buffer_attribute api t ps m))) \<and>
      objs (snd (snd (ta_key_cmd_get_object_buffer_attribute api t ps m))) = objs m"
    "balanced live ops m (snd (snd (ta_key_cmd_get_object_value_attribute api t ps m))) \<and>
      objs (snd (snd (ta_key_cmd_get_object_value_attribute api t ps m))) = objs m"
    by (simp_all add: ta_key_cmd_alloc_enum_def ta_key_cmd_free_enum_def ta_key_cmd_reset_enum_def ta_key_cmd_start_enum_def
        ta_key_cmd_next_enum_def ta_key_cmd_get_object_buffer_attribute_def ta_key_cmd_get_object_value_attribute_def
        balanced_def Let_def split_beta rules)
qed

lemma key_close_accounts:
  assumes l: "storage_laws api live objs ops"
  shows "ta_key_cmd_close api t ps m = (res, ps', m') \<Longrightarrow> balanced live ops m m' \<and> closed_for_client objs (val_a (p0 ps)) res m m'"
    "ta_key_cmd_close_and_delete api t ps m = (res, ps', m') \<Longrightarrow> balanced live ops m m' \<and> closed_for_client objs (val_a (p0 ps)) res m m'"
  by (auto simp: ta_key_cmd_close_def ta_key_cmd_close_and_delete_def closed_for_client_def balanced_def bad_not_success
      storage_calm [OF l] storage_objs [OF l] split: if_splits)

lemma key_command_accounts:
  assumes k: "key_laws api live objs ops"
  shows "(cmd \<noteq> TA_KEY_CMD_LIST \<longrightarrow> (\<exists>r. key_invoke api cmd types params m = Some r)) \<and>
    (\<forall>r. key_invoke api cmd types params m = Some r \<longrightarrow> key_accounts live objs ops cmd params m r)"
proof -
  have l: "storage_laws api live objs ops" using k by (simp add: key_laws_def)
  note accounts = key_generate_accounts [OF l] key_open_accounts [OF l] key_list_accounts [OF l] key_close_accounts [OF l]
  have "key_accounts live objs ops cmd params m r" if r: "key_invoke api cmd types params m = Some r" for r
  proof (cases r)
    case (fields res ps m')
    note quiet = key_quiet_accounts [OF k, where t = types and ps = params and m = m]
    show ?thesis
      using r quiet unfolding fields key_invoke_def key_accounts_def
      by (auto simp: key_cmd_defs balanced_def bad_not_success dest!: accounts split: if_splits)
  qed
  moreover have "\<exists>r. key_invoke api cmd types params m = Some r" if "cmd \<noteq> TA_KEY_CMD_LIST"
    using that by (cases "key_invoke api cmd types params m") (auto simp: key_invoke_def split: if_splits)
  ultimately show ?thesis by blast
qed

interpretation key: command_set "key_invoke api" "balanced live ops" "\<lambda>cmd params. key_laws api live objs ops"
  for api live objs ops
  by unfold_locales (auto simp: balanced_def key_accounts_def dest!: key_command_accounts)

interpretation key_calls: total_command_set "key_invoke api" "balanced live ops"
    "\<lambda>cmd params. key_laws api live objs ops \<and> cmd \<noteq> TA_KEY_CMD_LIST"
  for api live objs ops
proof unfold_locales
  fix cmd types m and params :: tee_params
  assume "key_laws api live objs ops \<and> cmd \<noteq> TA_KEY_CMD_LIST"
  then show "\<exists>r. key_invoke api cmd types params m = Some r"
    using key_command_accounts [of api live objs ops cmd types params m] by blast
qed (auto dest: key.command_keeps intro: key.keeps_trans key.keeps_refl)

text \<open>
  C31.  Every command of the key TA but the listing one returns whatever the API answers, and each, when it
  returns, has given back heap, operations, transient objects and enumerations of its own: the open object
  handles change by the one a generating or opening command reports to its client, and by the one a
  closing command is given.  So does any sequence of
  commands that runs to its end, as every one without the listing command does.
\<close>
theorem key_commands_account:
  assumes k: "key_laws api live objs ops"
  shows "(cmd \<noteq> TA_KEY_CMD_LIST \<longrightarrow> (\<exists>r. key_invoke api cmd types params m = Some r)) \<and>
    (\<forall>r. key_invoke api cmd types params m = Some r \<longrightarrow> key_accounts live objs ops cmd params m r) \<and>
    (\<forall>cs m'. ta_run (key_invoke api) cs m = Some m' \<longrightarrow> balanced live ops m m') \<and>
    (\<forall>cs. TA_KEY_CMD_LIST \<notin> fst ` set cs \<longrightarrow> (\<exists>m'. ta_run (key_invoke api) cs m = Some m'))"
proof (intro conjI)
  show "\<forall>cs m'. ta_run (key_invoke api) cs m = Some m' \<longrightarrow> balanced live ops m m'"
    using key.run_keeps [of _ api live objs ops m] k by blast
  show "\<forall>cs. TA_KEY_CMD_LIST \<notin> fst ` set cs \<longrightarrow> (\<exists>m'. ta_run (key_invoke api) cs m = Some m')"
    using key_calls.run_returns [of _ api live objs ops m] k by force
qed (use key_command_accounts [OF k, of cmd types params m] in blast)+

section \<open>What the listing reads\<close>

text \<open>
  What the Core API documents of an enumeration when nothing fails: \<open>names m\<close> are the names in the storage
  \<open>stor\<close>, none longer than \<open>TEE_OBJECT_ID_MAX_LEN\<close>, \<open>pending m oe\<close> those an enumerator has still to
  yield.  Starting one on a storage without objects reports that there is none.  A name is stored at the
  start of the buffer and its length returned; the enumerator fits the 32 bits of a client's value.
\<close>

definition enum_laws ::
  "('m, 'z) storage_api_scheme \<Rightarrow> uint32 \<Rightarrow> ('m \<Rightarrow> u8 list list) \<Rightarrow> ('m \<Rightarrow> size_t \<Rightarrow> u8 list list option) \<Rightarrow> bool" where
  "enum_laws api stor names pending \<longleftrightarrow> (\<forall>m. \<forall>x \<in> set (names m). length x \<le> 64) \<and>
     (\<forall>m. \<exists>oe m'. TEE_AllocatePersistentObjectEnumerator api m = (TEE_SUCCESS, oe, m') \<and> oe < 2 ^ 32 \<and> names m' = names m) \<and>
     (\<forall>oe m. \<exists>m'. TEE_StartPersistentObjectEnumerator api oe stor m =
          (if names m = [] then TEE_ERROR_ITEM_NOT_FOUND else TEE_SUCCESS, m') \<and>
        (names m \<noteq> [] \<longrightarrow> pending m' oe = Some (names m)) \<and> names m' = names m) \<and>
     (\<forall>oe ob buf n m. pending m oe = Some [] \<longrightarrow> fst (TEE_GetNextPersistentObject api oe ob buf n m) \<noteq> TEE_SUCCESS) \<and>
     (\<forall>oe ob buf n m x xs. pending m oe = Some (x # xs) \<and> 64 \<le> length buf \<and> length x \<le> 64 \<longrightarrow>
        (\<exists>info m'. TEE_GetNextPersistentObject api oe (Some ob) buf n m =
            (TEE_SUCCESS, info, x @ drop (length x) buf, of_nat (length x), m') \<and>
          length info = length ob \<and> pending m' oe = Some xs \<and> names m' = names m)) \<and>
     (\<forall>oe m. names (TEE_FreePersistentObjectEnumerator api oe m) = names m)"

lemma enum_steps:
  assumes "enum_laws api stor names pending"
  shows "\<forall>x \<in> set (names m). length x \<le> 64"
    "\<exists>oe m'. TEE_AllocatePersistentObjectEnumerator api m = (TEE_SUCCESS, oe, m') \<and> oe < 2 ^ 32 \<and> names m' = names m"
    "names m \<noteq> [] \<Longrightarrow> \<exists>m'. TEE_StartPersistentObjectEnumerator api oe stor m = (TEE_SUCCESS, m') \<and>
        pending m' oe = Some (names m) \<and> names m' = names m"
    "pending m oe = Some [] \<Longrightarrow> fst (TEE_GetNextPersistentObject api oe ob' buf n m) \<noteq> TEE_SUCCESS"
    "pending m oe = Some (x # xs) \<Longrightarrow> 64 \<le> length buf \<Longrightarrow> length x \<le> 64 \<Longrightarrow>
      \<exists>info m'. TEE_GetNextPersistentObject api oe (Some ob) buf n m =
          (TEE_SUCCESS, info, x @ drop (length x) buf, of_nat (length x), m') \<and>
        length info = length ob \<and> pending m' oe = Some xs \<and> names m' = names m"
    "names (TEE_FreePersistentObjectEnumerator api oe m) = names m"
    "names m = [] \<Longrightarrow> \<exists>m'. TEE_StartPersistentObjectEnumerator api oe stor m = (TEE_ERROR_ITEM_NOT_FOUND, m') \<and> names m' = names m"
  using assms unfolding enum_laws_def by presburger+

lemma key_list_loop_names:
  assumes l: "enum_laws api stor names pending"
  shows "pending m oe = Some xs \<Longrightarrow> \<forall>x \<in> set xs. length x \<le> 64 \<Longrightarrow> length objectID = 64 \<Longrightarrow>
    if \<exists>x \<in> set xs. length x = 64 then key_list_loop api oe obj objectID n m = None
    else \<exists>m'. key_list_loop api oe obj objectID n m = Some m'"
proof (induction xs arbitrary: m obj objectID n)
  case Nil
  then obtain res r where "TEE_GetNextPersistentObject api oe (Some obj) objectID n m = (res, r)" "res \<noteq> TEE_SUCCESS"
    using enum_steps(4) [OF l, of m oe "Some obj" objectID n] by (metis prod.collapse)
  then show ?case by (subst (1 2) key_list_loop.simps) (simp add: split_beta)
next
  case (Cons x xs)
  then obtain info m' where 1: "TEE_GetNextPersistentObject api oe (Some obj) objectID n m =
        (TEE_SUCCESS, info, x @ drop (length x) objectID, of_nat (length x), m')" "pending m' oe = Some xs"
    using enum_steps(5) [OF l, of m oe x xs objectID obj n] by auto
  have u: "unat (of_nat (length x) :: uint32) = length x"
    using Cons.prems(2) by (intro unat_of_nat32) simp
  show ?case
  proof (cases "length x = 64")
    case True
    then show ?thesis using Cons.prems(3) by (subst (1 2) key_list_loop.simps) (simp add: 1 u st_def)
  next
    case False
    let ?b = "(x @ drop (length x) objectID)[length x := 0]"
    have len: "length ?b = 64" "st (x @ drop (length x) objectID) (length x) 0 = Some ?b"
      using False Cons.prems by (simp_all add: st_def)
    show ?thesis
      using Cons.IH [OF 1(2) _ len(1), of info "of_nat (length x)"] Cons.prems(2) False
      by (subst (1 2) key_list_loop.simps) (simp add: 1(1) u len(2))
  qed
qed

text \<open>
  C21.  On a storage that behaves, the listing command reports success, or that there is no item when the
  storage is empty, unless one of the names has the greatest length the API allows: then, and only then,
  it stores a zero behind its buffer.
\<close>
theorem key_list_exact:
  assumes l: "enum_laws api stor names pending" and "length (stack_id api) = 64" and "val_a (p0 params) = stor"
  shows "if \<exists>x \<in> set (names m). length x = unat TEE_OBJECT_ID_MAX_LEN
    then key_invoke api TA_KEY_CMD_LIST value_types params m = None
    else \<exists>m'. key_invoke api TA_KEY_CMD_LIST value_types params m =
      Some (if names m = [] then TEE_ERROR_ITEM_NOT_FOUND else TEE_SUCCESS, params, m')"
proof (cases "names m = []")
  case True
  obtain oe m1 where 1: "TEE_AllocatePersistentObjectEnumerator api m = (TEE_SUCCESS, oe, m1)" "names m1 = []"
    using enum_steps(2) [OF l, of m] True by auto
  obtain m2 where "TEE_StartPersistentObjectEnumerator api oe stor m1 = (TEE_ERROR_ITEM_NOT_FOUND, m2)"
    using enum_steps(7) [OF l 1(2), of oe] by blast
  then show ?thesis
    using 1(1) True by (simp add: key_invoke_def key_cmd_defs ta_key_cmd_list_def assms(3) TEE_SUCCESS_def TEE_ERROR_ITEM_NOT_FOUND_def)
next
  case False
  obtain oe m1 where 1: "TEE_AllocatePersistentObjectEnumerator api m = (TEE_SUCCESS, oe, m1)" "names m1 = names m"
    using enum_steps(2) [OF l, of m] by blast
  obtain m2 where 2: "TEE_StartPersistentObjectEnumerator api oe stor m1 = (TEE_SUCCESS, m2)" "pending m2 oe = Some (names m)"
    using enum_steps(3) [OF l, of m1 oe] 1(2) False by auto
  show ?thesis
    using False key_list_loop_names [OF l 2(2) enum_steps(1) [OF l] assms(2), of "info_bytes (stack_info api)" "stack_id_len api"] 1 2(1)
    by (auto simp: key_invoke_def key_cmd_defs ta_key_cmd_list_def assms(3) TEE_OBJECT_ID_MAX_LEN_def split: if_splits)
qed

section \<open>Two APIs for the witnesses\<close>

definition list_key :: "storage_lists key_api" where
  "list_key = storage_api.extend list_storage
     (key_api.fields (\<lambda>_ _ buf n m. (TEE_SUCCESS, buf, n, m)) (\<lambda>_ _ a b m. (TEE_SUCCESS, a, b, m)) (replicate 64 0) 0)"

lemma storage_laws_extend: "storage_laws api live objs ops \<Longrightarrow> storage_laws (storage_api.extend api x) live objs ops"
  by (cases api) (simp add: storage_laws_def heap_laws_def storage_api.defs)

lemma list_key_laws: "key_laws list_key (\<lambda>m. set (fst m) - {0}) (\<lambda>m. set (fst (snd m))) (\<lambda>m. set (snd (snd m)))"
  unfolding key_laws_def
proof (intro conjI)
  show "storage_laws list_key (\<lambda>m. set (fst m) - {0}) (\<lambda>m. set (fst (snd m))) (\<lambda>m. set (snd (snd m)))"
    unfolding list_key_def by (rule storage_laws_extend [OF list_storage_laws])
qed (simp_all add: list_key_def quiet_def storage_api.defs key_api.defs)

definition demo_generate :: tee_params where
  "demo_generate = zero_params\<lparr>p1 := zero_param\<lparr>mbuf := [65], msize := 1\<rparr>, p2 := zero_param\<lparr>val_b := 128\<rparr>\<rparr>"

lemma key_commands_account_witness:
  "(\<exists>r. key_invoke list_key TA_KEY_CMD_GENERATE (TEE_PARAM_TYPES PT_VALUE_INPUT PT_MEMREF_INPUT PT_VALUE_INPUT PT_VALUE_OUTPUT)
      demo_generate ([5], [3], []) = Some r \<and>
      key_accounts (\<lambda>m. set (fst m) - {0}) (\<lambda>m. set (fst (snd m))) (\<lambda>m. set (snd (snd m))) TA_KEY_CMD_GENERATE
        demo_generate ([5], [3], []) r) \<and>
    (\<exists>m'. ta_run (key_invoke list_key)
        (replicate 2 (TA_KEY_CMD_GENERATE, TEE_PARAM_TYPES PT_VALUE_INPUT PT_MEMREF_INPUT PT_VALUE_INPUT PT_VALUE_OUTPUT, demo_generate))
        ([5], [3], []) = Some m' \<and>
      balanced (\<lambda>m. set (fst m) - {0}) (\<lambda>m. set (snd (snd m))) ([5], [3], []) m')"
proof -
  let ?types = "TEE_PARAM_TYPES PT_VALUE_INPUT PT_MEMREF_INPUT PT_VALUE_INPUT PT_VALUE_OUTPUT"
  let ?cs = "replicate 2 (TA_KEY_CMD_GENERATE, ?types, demo_generate)"
  note claim = key_commands_account [OF list_key_laws, of TA_KEY_CMD_GENERATE ?types demo_generate "([5], [3], [])"]
  have ne: "TA_KEY_CMD_GENERATE \<noteq> TA_KEY_CMD_LIST" by (simp add: key_cmd_defs)
  have "TA_KEY_CMD_LIST \<notin> fst ` set ?cs" using ne by (simp add: eq_commute)
  then obtain m' where m': "ta_run (key_invoke list_key) ?cs ([5], [3], []) = Some m'" using claim by blast
  moreover have "balanced (\<lambda>m. set (fst m) - {0}) (\<lambda>m. set (snd (snd m))) ([5], [3], []) m'" using claim m' by blast
  ultimately show ?thesis using claim ne by blast
qed

text \<open>The names of a storage and, for each enumerator, those it has still to yield\<close>

type_synonym demo_names = "u8 list list \<times> (size_t \<Rightarrow> u8 list list option)"

definition valid_names :: "demo_names \<Rightarrow> u8 list list" where
  "valid_names m = filter (\<lambda>x. length x \<le> 64) (fst m)"

definition demo_next :: "size_t \<Rightarrow> u8 list option \<Rightarrow> u8 list \<Rightarrow> uint32 \<Rightarrow> demo_names \<Rightarrow>
    TEE_Result \<times> u8 list \<times> u8 list \<times> uint32 \<times> demo_names" where
  "demo_next oe info buf n m = (case snd m oe of
     Some (x # xs) \<Rightarrow> (TEE_SUCCESS, case info of None \<Rightarrow> [] | Some i \<Rightarrow> i, x @ drop (length x) buf, of_nat (length x), (fst m, (snd m)(oe \<mapsto> xs)))
   | _ \<Rightarrow> (TEE_ERROR_ITEM_NOT_FOUND, case info of None \<Rightarrow> [] | Some i \<Rightarrow> i, buf, n, m))"

definition demo_key :: "demo_names key_api" where
  "demo_key = storage_api.extend (inert_storage\<lparr>
       TEE_AllocatePersistentObjectEnumerator := \<lambda>m. (TEE_SUCCESS, 9, m),
       TEE_StartPersistentObjectEnumerator := \<lambda>oe _ m. (if valid_names m = [] then TEE_ERROR_ITEM_NOT_FOUND else TEE_SUCCESS,
         (fst m, (snd m)(oe \<mapsto> valid_names m))),
       TEE_FreePersistentObjectEnumerator := \<lambda>oe m. (fst m, (snd m)(oe := None)),
       TEE_GetNextPersistentObject := demo_next\<rparr>)
     (key_api.fields (\<lambda>_ _ buf n m. (TEE_SUCCESS, buf, n, m)) (\<lambda>_ _ a b m. (TEE_SUCCESS, a, b, m)) (replicate 64 0) 0)"

lemmas demo_key_defs = demo_key_def inert_storage_def storage_api.defs key_api.defs

lemma demo_enum_laws: "enum_laws demo_key stor valid_names snd"
  unfolding enum_laws_def
  by (intro conjI allI impI) (auto simp: demo_key_defs demo_next_def valid_names_def TEE_SUCCESS_def TEE_ERROR_ITEM_NOT_FOUND_def)

lemma key_list_exact_witness:
  "key_invoke demo_key TA_KEY_CMD_LIST value_types (zero_params\<lparr>p0 := zero_param\<lparr>val_a := 1\<rparr>\<rparr>) ([[1, 2], replicate 64 3], Map.empty) = None \<and>
   (\<exists>m'. key_invoke demo_key TA_KEY_CMD_LIST value_types (zero_params\<lparr>p0 := zero_param\<lparr>val_a := 1\<rparr>\<rparr>) ([[1, 2], replicate 63 3], Map.empty) =
      Some (TEE_SUCCESS, zero_params\<lparr>p0 := zero_param\<lparr>val_a := 1\<rparr>\<rparr>, m')) \<and>
   (\<exists>m'. key_invoke demo_key TA_KEY_CMD_LIST value_types (zero_params\<lparr>p0 := zero_param\<lparr>val_a := 1\<rparr>\<rparr>) ([], Map.empty) =
      Some (TEE_ERROR_ITEM_NOT_FOUND, zero_params\<lparr>p0 := zero_param\<lparr>val_a := 1\<rparr>\<rparr>, m'))"
proof -
  note claim = key_list_exact [OF demo_enum_laws [where stor = 1], of "zero_params\<lparr>p0 := zero_param\<lparr>val_a := 1\<rparr>\<rparr>"]
  have "length (stack_id demo_key) = 64" by (simp add: demo_key_defs)
  note claim = claim [OF this]
  show ?thesis
    using claim [of "([[1, 2], replicate 64 3], Map.empty)"] claim [of "([[1, 2], replicate 63 3], Map.empty)"] claim [of "([], Map.empty)"]
    by (simp add: valid_names_def TEE_OBJECT_ID_MAX_LEN_def)
qed

end
