(* ===== verification/Key_Client.thy ===== *)
theory Key_Client
  imports Teec Key_Ta
begin

text \<open>
  Model of \<open>src/host/libkey/key.c\<close>, the client of the key TA, with the linked list it builds of the
  names in a storage on an explicit C heap.  \<^term>\<open>None\<close> is undefined behaviour: a null or dangling
  pointer, a block freed twice, a copy outside a block, or a list that has no end.
\<close>

section \<open>The C heap\<close>

text \<open>
  A block is a list node (\<open>eObjList\<close>), an object (\<open>eObj\<close>) or an array of bytes.  A field that was never
  written is \<^term>\<open>None\<close>.  Where \<open>malloc\<close> puts a block is up to it: \<open>pick h n\<close>, with 0 for \<open>NULL\<close>.
\<close>

datatype block =
    Node (node_object: "ptr option") (node_next: "ptr option")
  | Object (object_id: "ptr option") (object_size: "uint32 option")
  | Bytes nat "u8 list option"

type_synonym c_heap = "ptr \<rightharpoonup> block"
type_synonym allocator = "c_heap \<Rightarrow> ptr"

definition malloc :: "allocator \<Rightarrow> block \<Rightarrow> c_heap \<Rightarrow> ptr \<times> c_heap" where
  "malloc pick b h = (let p = pick h in if p = 0 then (0, h) else (p, h(p \<mapsto> b)))"

definition c_free :: "ptr \<Rightarrow> c_heap \<Rightarrow> c_heap option" where
  "c_free p h = (if p = 0 then Some h else if h p = None then None else Some (h(p := None)))"

definition set_node_object :: "ptr \<Rightarrow> ptr \<Rightarrow> c_heap \<Rightarrow> c_heap option" where
  "set_node_object p v h = (case h p of Some (Node ob nx) \<Rightarrow> Some (h(p \<mapsto> Node (Some v) nx)) | _ \<Rightarrow> None)"

definition set_node_next :: "ptr \<Rightarrow> ptr \<Rightarrow> c_heap \<Rightarrow> c_heap option" where
  "set_node_next p v h = (case h p of Some (Node ob nx) \<Rightarrow> Some (h(p \<mapsto> Node ob (Some v))) | _ \<Rightarrow> None)"

definition set_object_size :: "ptr \<Rightarrow> uint32 \<Rightarrow> c_heap \<Rightarrow> c_heap option" where
  "set_object_size p v h = (case h p of Some (Object i n) \<Rightarrow> Some (h(p \<mapsto> Object i (Some v))) | _ \<Rightarrow> None)"

definition set_object_id :: "ptr \<Rightarrow> ptr \<Rightarrow> c_heap \<Rightarrow> c_heap option" where
  "set_object_id p v h = (case h p of Some (Object i n) \<Rightarrow> Some (h(p \<mapsto> Object (Some v) n)) | _ \<Rightarrow> None)"

text \<open>\<open>memcpy(p, src, n)\<close> over the whole of a fresh block\<close>

definition copy_bytes :: "ptr \<Rightarrow> u8 list \<Rightarrow> nat \<Rightarrow> c_heap \<Rightarrow> c_heap option" where
  "copy_bytes p src n h = (case h p of
     Some (Bytes k _) \<Rightarrow> if n = k \<and> n \<le> length src then Some (h(p \<mapsto> Bytes k (Some (take n src)))) else None
   | _ \<Rightarrow> None)"

section \<open>The commands\<close>

text \<open>\<open>op.params[1]\<close> takes the name without its terminating zero (\<open>strlen\<close>).\<close>

definition keyGenerate :: "('w, 'z) teec_api_scheme \<Rightarrow> oc \<Rightarrow> uint32 \<Rightarrow> u8 list \<Rightarrow> uint32 \<Rightarrow> uint32 \<Rightarrow> uint32 \<Rightarrow> 'w \<Rightarrow>
    TEEC_Result \<times> uint32 \<times> 'w" where
  "keyGenerate api c sid keyFileName flags key_size keyObj w =
     (let op = empty_op\<lparr>op0 := op_value sid 0, op1 := op_tmpref keyFileName (of_nat (length keyFileName)), op2 := op_value flags key_size\<rparr>;
          (res, _, op, w) = TEEC_InvokeCommand api (session c) TA_KEY_CMD_GENERATE
            (TEEC_PARAM_TYPES TEEC_VALUE_INPUT TEEC_MEMREF_TEMP_INPUT TEEC_VALUE_INPUT TEEC_VALUE_OUTPUT) op w
      in (res, if res = TEEC_SUCCESS then value_a (op3 op) else keyObj, w))"

definition keyOpen :: "('w, 'z) teec_api_scheme \<Rightarrow> oc \<Rightarrow> uint32 \<Rightarrow> u8 list \<Rightarrow> uint32 \<Rightarrow> uint32 \<Rightarrow> 'w \<Rightarrow>
    TEEC_Result \<times> uint32 \<times> 'w" where
  "keyOpen api c sid keyFileName flags keyObj w =
     (let op = empty_op\<lparr>op0 := op_value sid 0, op1 := op_tmpref keyFileName (of_nat (length keyFileName)), op2 := op_value flags 0\<rparr>;
          (res, _, op, w) = TEEC_InvokeCommand api (session c) TA_KEY_CMD_OPEN
            (TEEC_PARAM_TYPES TEEC_VALUE_INPUT TEEC_MEMREF_TEMP_INPUT TEEC_VALUE_INPUT TEEC_VALUE_OUTPUT) op w
      in (res, if res = TEEC_SUCCESS then value_a (op3 op) else keyObj, w))"

text \<open>The commands on one value\<close>

definition key_value_call :: "('w, 'z) teec_api_scheme \<Rightarrow> oc \<Rightarrow> uint32 \<Rightarrow> uint32 \<Rightarrow> uint32 \<Rightarrow> 'w \<Rightarrow> TEEC_Result \<times> 'w" where
  "key_value_call api c cmd a b w =
     (let (res, _, _, w) = TEEC_InvokeCommand api (session c) cmd
            (TEEC_PARAM_TYPES TEEC_VALUE_INPUT TEEC_NONE TEEC_NONE TEEC_NONE) (empty_op\<lparr>op0 := op_value a b\<rparr>) w
      in (res, w))"

definition keyList where "keyList api c sid w = key_value_call api c TA_KEY_CMD_LIST sid 0 w"
definition keyResetEnum where "keyResetEnum api c e w = key_value_call api c TA_KEY_CMD_RESET_ENUM e 0 w"
definition keyFreeEnum where "keyFreeEnum api c e w = key_value_call api c TA_KEY_CMD_FREE_ENUM e 0 w"
definition keyStartEnum where "keyStartEnum api c e storage_id w = key_value_call api c TA_KEY_CMD_START_ENUM e storage_id w"
definition keyClose where "keyClose api c keyObj w = key_value_call api c TA_KEY_CMD_CLOSE keyObj 0 w"
definition keyCloseAndDelete where "keyCloseAndDelete api c keyObj w = key_value_call api c TA_KEY_CMD_CLOSE_AND_DELETE keyObj 0 w"

definition keyAllocEnum :: "('w, 'z) teec_api_scheme \<Rightarrow> oc \<Rightarrow> uint32 \<Rightarrow> 'w \<Rightarrow> TEEC_Result \<times> uint32 \<times> 'w" where
  "keyAllocEnum api c e w =
     (let (res, _, op, w) = TEEC_InvokeCommand api (session c) TA_KEY_CMD_ALLOC_ENUM
            (TEEC_PARAM_TYPES TEEC_VALUE_OUTPUT TEEC_NONE TEEC_NONE TEEC_NONE) empty_op w
      in (res, if res = TEEC_SUCCESS then value_a (op0 op) else e, w))"

text \<open>
  \<open>obj_info\<close> and \<open>info_size\<close> may be \<open>NULL\<close> as far as the parameter types go, but \<open>*info_size\<close> is read in
  any case.  The sizes are given back only on success.
\<close>

definition keyNextEnum :: "('w, 'z) teec_api_scheme \<Rightarrow> oc \<Rightarrow> uint32 \<Rightarrow> u8 list option \<Rightarrow> size_t option \<Rightarrow> u8 list \<Rightarrow> uint32 \<Rightarrow> 'w \<Rightarrow>
    (TEEC_Result \<times> u8 list option \<times> size_t option \<times> u8 list \<times> uint32 \<times> 'w) option" where
  "keyNextEnum api c e obj_info info_size name id_size w =
     (let types = TEEC_PARAM_TYPES TEEC_VALUE_INPUT TEEC_NONE TEEC_MEMREF_TEMP_OUTPUT TEEC_NONE;
          types = (if obj_info \<noteq> None \<and> info_size \<noteq> None then types OR push_bit 4 TEEC_MEMREF_TEMP_OUTPUT else types)
      in do {
        size \<leftarrow> info_size;
        let op = empty_op\<lparr>op0 := op_value e 0, op1 := op_tmpref (case obj_info of None \<Rightarrow> [] | Some b \<Rightarrow> b) size,
                  op2 := op_tmpref name (ucast id_size)\<rparr>;
            (res, _, op, w) = TEEC_InvokeCommand api (session c) TA_KEY_CMD_NEXT_ENUM types op w
        in Some (res, map_option (\<lambda>_. tmp_buffer (op1 op)) obj_info,
             Some (if res = TEEC_SUCCESS then tmp_size (op1 op) else size), tmp_buffer (op2 op),
             if res = TEEC_SUCCESS then ucast (tmp_size (op2 op)) else id_size, w)
      })"

definition keyGetObjectBufferAttribute :: "('w, 'z) teec_api_scheme \<Rightarrow> oc \<Rightarrow> uint32 \<Rightarrow> uint32 \<Rightarrow> u8 list \<Rightarrow> size_t \<Rightarrow> 'w \<Rightarrow>
    TEEC_Result \<times> u8 list \<times> size_t \<times> 'w" where
  "keyGetObjectBufferAttribute api c keyObj attrId buffer bufferSize w =
     (let op = empty_op\<lparr>op0 := op_value keyObj attrId, op1 := op_tmpref buffer bufferSize\<rparr>;
          (res, _, op, w) = TEEC_InvokeCommand api (session c) TA_KEY_CMD_GET_OBJECT_BUFFER_ATTRIBUTE
            (TEEC_PARAM_TYPES TEEC_VALUE_INPUT TEEC_MEMREF_TEMP_OUTPUT TEEC_NONE TEEC_NONE) op w
      in (res, tmp_buffer (op1 op), if res = TEEC_SUCCESS then tmp_size (op1 op) else bufferSize, w))"

definition keyGetObjectValueAttribute :: "('w, 'z) teec_api_scheme \<Rightarrow> oc \<Rightarrow> uint32 \<Rightarrow> uint32 \<Rightarrow> uint32 \<Rightarrow> uint32 \<Rightarrow> 'w \<Rightarrow>
    TEEC_Result \<times> uint32 \<times> uint32 \<times> 'w" where
  "keyGetObjectValueAttribute api c keyObj attrId valueA valueB w =
     (let (res, _, op, w) = TEEC_InvokeCommand api (session c) TA_KEY_CMD_GET_OBJECT_VALUE_ATTRIBUTE
            (TEEC_PARAM_TYPES TEEC_VALUE_INPUT TEEC_VALUE_OUTPUT TEEC_NONE TEEC_NONE) (empty_op\<lparr>op0 := op_value keyObj attrId\<rparr>) w
      in (res, if res = TEEC_SUCCESS then value_a (op1 op) else valueA, if res = TEEC_SUCCESS then value_b (op1 op) else valueB, w))"

section \<open>The list of names\<close>

definition INFO_SIZE :: size_t where "INFO_SIZE = 256"
definition ID_SIZE :: uint32 where "ID_SIZE = 257"

text \<open>One more node, with the object and the copy of the name; \<open>prev\<close> is the node to append to, if any.\<close>

definition append_name :: "allocator \<Rightarrow> u8 list \<Rightarrow> uint32 \<Rightarrow> ptr \<Rightarrow> c_heap \<Rightarrow> (ptr \<times> c_heap) option" where
  "append_name pick name idSize prev h =
     (let (objectList, h) = malloc pick (Node None None) h;
          (obj, h) = malloc pick (Object None None) h
      in do {
        h \<leftarrow> set_object_size obj idSize h;
        let (p, h) = malloc pick (Bytes (unat idSize) None) h
        in do {
          h \<leftarrow> set_object_id obj p h;
          h \<leftarrow> copy_bytes p name (unat idSize) h;
          h \<leftarrow> set_node_object objectList obj h;
          h \<leftarrow> set_node_next objectList 0 h;
          h \<leftarrow> (if prev \<noteq> 0 then set_node_next prev objectList h else Some h);
          Some (objectList, h)
        }
      })"

partial_function (option) enum_loop ::
  "('w, 'z) teec_api_scheme \<Rightarrow> allocator \<Rightarrow> oc \<Rightarrow> uint32 \<Rightarrow> ptr \<Rightarrow> ptr \<Rightarrow> size_t \<Rightarrow> u8 list \<Rightarrow> u8 list \<Rightarrow> c_heap \<Rightarrow> 'w \<Rightarrow>
     (ptr \<times> size_t \<times> c_heap \<times> 'w) option" where
  "enum_loop api pick c e list prev listSize info name h w =
     do {
       (res, info, _, name, idSize, w) \<leftarrow> keyNextEnum api c e (Some info) (Some INFO_SIZE) name ID_SIZE w;
       if res \<noteq> TEEC_SUCCESS then Some (list, listSize, h, w)
       else do {
         (objectList, h) \<leftarrow> append_name pick name idSize prev h;
         enum_loop api pick c e (if list = 0 then objectList else list) objectList (listSize + 1) (the info) name h w
       }
     }"

text \<open>\<open>*list\<close> and \<open>*listSize\<close> come back; the second is written only when the enumeration starts.\<close>

definition keyEnumObjectList :: "('w, 'z) teec_api_scheme \<Rightarrow> allocator \<Rightarrow> oc \<Rightarrow> uint32 \<Rightarrow> size_t \<Rightarrow> c_heap \<Rightarrow> 'w \<Rightarrow>
    (TEEC_Result \<times> ptr \<times> size_t \<times> c_heap \<times> 'w) option" where
  "keyEnumObjectList api pick c sid listSize h w =
     (let (res, enumHandle, w) = keyAllocEnum api c 0 w
      in if res \<noteq> TEEC_SUCCESS then Some (res, 0, listSize, h, w)
      else
        let (res, w) = keyStartEnum api c enumHandle sid w
        in if res \<noteq> TEEC_SUCCESS then Some (res, 0, listSize, h, w)
      else do {
        (list, listSize, h, w) \<leftarrow> enum_loop api pick c enumHandle 0 0 0 (replicate 256 0) (replicate 257 0) h w;
        let (res, w) = keyFreeEnum api c enumHandle w
        in Some (res, list, listSize, h, w)
      })"

partial_function (option) free_loop :: "ptr \<Rightarrow> size_t \<Rightarrow> c_heap \<Rightarrow> (size_t \<times> c_heap) option" where
  "free_loop cur nCount h =
     (if cur = 0 then Some (nCount, h)
      else case h cur of
        Some (Node (Some ob) (Some nx)) \<Rightarrow>
          (case h ob of
            Some (Object (Some p) _) \<Rightarrow>
              do { h \<leftarrow> c_free p h; h \<leftarrow> c_free ob h; h \<leftarrow> c_free cur h; free_loop nx (nCount + 1) h }
          | _ \<Rightarrow> None)
      | _ \<Rightarrow> None)"

text \<open>The count, the list pointer, which is cleared, and the heap\<close>

definition keyFreeEnumObjectList :: "ptr \<Rightarrow> c_heap \<Rightarrow> (size_t \<times> ptr \<times> c_heap) option" where
  "keyFreeEnumObjectList list h = do { (nCount, h) \<leftarrow> free_loop list 0 h; Some (nCount, 0, h) }"

section \<open>The list on the heap\<close>

text \<open>A list of names as it stands on a heap, read from its first node\<close>

fun list_names :: "c_heap \<Rightarrow> ptr \<Rightarrow> u8 list list \<Rightarrow> bool" where
  "list_names h p [] \<longleftrightarrow> p = 0"
| "list_names h p (x # xs) \<longleftrightarrow> p \<noteq> 0 \<and> (\<exists>ob nx b. h p = Some (Node (Some ob) (Some nx)) \<and>
     h ob = Some (Object (Some b) (Some (of_nat (length x)))) \<and> h b = Some (Bytes (length x) (Some x)) \<and> list_names h nx xs)"

text \<open>The three blocks of each node, with the name, and the heap they are\<close>

type_synonym node_blocks = "ptr \<times> ptr \<times> ptr \<times> u8 list"

definition first_node :: "node_blocks list \<Rightarrow> ptr" where
  "first_node xs = (case xs of [] \<Rightarrow> 0 | (n, _) # _ \<Rightarrow> n)"

definition last_node :: "node_blocks list \<Rightarrow> ptr" where
  "last_node xs = (if xs = [] then 0 else fst (last xs))"

fun cells :: "node_blocks list \<Rightarrow> c_heap" where
  "cells [] = Map.empty"
| "cells ((n, ob, b, x) # xs) = (cells xs)(n \<mapsto> Node (Some ob) (Some (first_node xs)),
     ob \<mapsto> Object (Some b) (Some (of_nat (length x))), b \<mapsto> Bytes (length x) (Some x))"

definition addrs :: "node_blocks list \<Rightarrow> ptr list" where
  "addrs xs = concat (map (\<lambda>(n, ob, b, x). [n, ob, b]) xs)"

definition separate :: "c_heap \<Rightarrow> node_blocks list \<Rightarrow> bool" where
  "separate h xs \<longleftrightarrow> distinct (addrs xs) \<and> 0 \<notin> set (addrs xs) \<and> set (addrs xs) \<inter> dom h = {}"

lemma addrs_simps [simp]: "addrs [] = []" "addrs ((n, ob, b, x) # xs) = n # ob # b # addrs xs" "addrs (xs @ ys) = addrs xs @ addrs ys"
  by (simp_all add: addrs_def)

lemma dom_cells: "dom (cells xs) = set (addrs xs)"
  by (induction xs rule: cells.induct) (auto simp del: fun_upd_apply)

lemma first_node_simps [simp]: "first_node [] = 0" "first_node ((n, r) # xs) = n"
  by (simp_all add: first_node_def)

lemma last_node_simps [simp]: "last_node [] = 0" "last_node (xs @ [(n, r)]) = n"
  by (simp_all add: last_node_def)

lemma list_names_cells:
  assumes "separate h xs" "\<And>p. p \<in> set (addrs xs) \<Longrightarrow> g p = cells xs p"
  shows "list_names g (first_node xs) (map (\<lambda>(n, ob, b, x). x) xs)"
  using assms
proof (induction xs rule: cells.induct)
  case (2 n ob b x xs)
  have d: "distinct (n # ob # b # addrs xs)" "0 \<noteq> n" using "2.prems"(1) by (simp_all add: separate_def)
  have "separate h xs" using "2.prems"(1) by (simp add: separate_def)
  moreover have "g p = cells xs p" if "p \<in> set (addrs xs)" for p
    using "2.prems"(2) [of p] that d(1) by auto
  ultimately have "list_names g (first_node xs) (map (\<lambda>(n, ob, b, x). x) xs)" by (rule "2.IH")
  with "2.prems"(2) [of n] "2.prems"(2) [of ob] "2.prems"(2) [of b] d show ?case by auto
qed simp

text \<open>Freeing such a list gives the rest of the heap back.\<close>

lemma free_loop_cells:
  "separate h xs \<Longrightarrow> free_loop (first_node xs) k (h ++ cells xs) = Some (k + of_nat (length xs), h)"
proof (induction xs arbitrary: k rule: cells.induct)
  case 1
  then show ?case by (simp add: free_loop.simps)
next
  case (2 n ob b x xs)
  let ?h = "h ++ cells ((n, ob, b, x) # xs)"
  have d: "distinct (n # ob # b # addrs xs)" "n \<noteq> 0" "ob \<noteq> 0" "b \<noteq> 0" "h n = None" "h ob = None" "h b = None" "separate h xs"
    using 2(2) by (auto simp: separate_def)
  have "cells xs n = None" "cells xs ob = None" "cells xs b = None" using d(1) dom_cells [of xs] by auto
  then have e: "?h(b := None, ob := None, n := None) = h ++ cells xs"
    using d by (auto simp: fun_eq_iff map_add_def split: option.splits)
  have "free_loop n k ?h = free_loop (first_node xs) (k + 1) (h ++ cells xs)"
  proof -
    have f: "c_free b ?h = Some (?h(b := None))" "c_free ob (?h(b := None)) = Some (?h(b := None, ob := None))"
        "c_free n (?h(b := None, ob := None)) = Some (?h(b := None, ob := None, n := None))"
      using d(1-4) by (auto simp: c_free_def)
    have "?h n = Some (Node (Some ob) (Some (first_node xs)))" "?h ob = Some (Object (Some b) (Some (of_nat (length x))))"
      using d(1) by simp_all
    then show ?thesis using d(2) by (subst free_loop.simps) (simp add: f e del: cells.simps fun_upd_apply)
  qed
  with 2(1) [OF d(8), of "k + 1"] show ?case by (simp add: add.assoc del: cells.simps)
qed

text \<open>What appending one name does\<close>

definition fresh_alloc :: "allocator \<Rightarrow> bool" where
  "fresh_alloc pick \<longleftrightarrow> (\<forall>h. finite (dom h) \<longrightarrow> pick h \<noteq> 0 \<and> pick h \<notin> dom h)"

lemma fresh_alloc_pick: "fresh_alloc pick \<Longrightarrow> finite (dom h) \<Longrightarrow> pick h \<noteq> 0 \<and> h (pick h) = None"
  by (auto simp: fresh_alloc_def)

lemma last_node_in: "xs \<noteq> [] \<Longrightarrow> last_node xs \<in> set (addrs xs)"
  by (cases xs rule: rev_cases) (auto simp: last_node_def)

lemma last_node_Cons: "xs \<noteq> [] \<Longrightarrow> last_node (y # xs) = last_node xs"
  by (simp add: last_node_def)

lemma first_node_append: "xs \<noteq> [] \<Longrightarrow> first_node (xs @ ys) = first_node xs"
  by (cases xs) (auto simp: first_node_def)

lemma last_node_cell: "distinct (addrs xs) \<Longrightarrow> xs \<noteq> [] \<Longrightarrow> \<exists>ob. cells xs (last_node xs) = Some (Node (Some ob) (Some 0))"
proof (induction xs rule: cells.induct)
  case (2 n ob b x xs)
  show ?case
  proof (cases "xs = []")
    case True
    with 2(2) show ?thesis by (auto simp: last_node_def)
  next
    case False
    then have "last_node xs \<noteq> n" "last_node xs \<noteq> ob" "last_node xs \<noteq> b" using 2(2) last_node_in [OF False] by auto
    with 2 False show ?thesis by (simp add: last_node_Cons)
  qed
qed simp

text \<open>Appending a node sets the next field of the last one.\<close>

lemma cells_snoc:
  assumes "distinct (addrs (xs @ [(n, ob, b, x)]))"
  shows "cells (xs @ [(n, ob, b, x)]) =
     (if xs = [] then Map.empty else (cells xs)(last_node xs \<mapsto> Node (node_object (the (cells xs (last_node xs)))) (Some n)))
     ++ cells [(n, ob, b, x)]"
  using assms
proof (induction xs rule: cells.induct)
  case (2 n' ob' b' x' xs)
  show ?case
  proof (cases "xs = []")
    case True
    then show ?thesis using 2(2) by (auto simp: fun_eq_iff map_add_def last_node_def)
  next
    case False
    then have "last_node xs \<noteq> n'" "last_node xs \<noteq> ob'" "last_node xs \<noteq> b'" using 2(2) last_node_in [OF False] by auto
    with 2 False show ?thesis
      by (simp add: last_node_Cons first_node_append) (auto simp: fun_eq_iff map_add_def)
  qed
qed (simp add: fun_eq_iff)

text \<open>The calls of \<open>append_name\<close> before it links the new node, with the addresses \<open>malloc\<close> yields\<close>

lemma append_name_steps:
  fixes h h1 h2 h3 :: c_heap and n ob b :: ptr and idSize :: uint32 and name :: "u8 list"
  defines "h1 \<equiv> h(n \<mapsto> Node None None)" and "h2 \<equiv> h1(ob \<mapsto> Object None (Some idSize))"
    and "h3 \<equiv> h2(b \<mapsto> Bytes (unat idSize) (Some (take (unat idSize) name)), ob \<mapsto> Object (Some b) (Some idSize), n \<mapsto> Node (Some ob) (Some 0))"
  assumes p: "pick h = n" "pick h1 = ob" "pick h2 = b" and z: "n \<noteq> 0" "ob \<noteq> 0" "b \<noteq> 0" and d: "ob \<noteq> n" "b \<noteq> n" "b \<noteq> ob"
    and l: "unat idSize \<le> length name"
  shows "append_name pick name idSize prev h =
    do { h \<leftarrow> (if prev \<noteq> 0 then set_node_next prev n h3 else Some h3); Some (n, h) }"
proof -
  have m: "malloc pick (Node None None) h = (n, h1)" "malloc pick (Object None None) h1 = (ob, h1(ob \<mapsto> Object None None))"
    "malloc pick (Bytes (unat idSize) None) h2 = (b, h2(b \<mapsto> Bytes (unat idSize) None))"
    using z p by (simp_all add: malloc_def Let_def h1_def)
  have steps: "set_object_size ob idSize (h1(ob \<mapsto> Object None None)) = Some h2"
    "set_object_id ob b (h2(b \<mapsto> Bytes (unat idSize) None)) = Some (h2(b \<mapsto> Bytes (unat idSize) None, ob \<mapsto> Object (Some b) (Some idSize)))"
    "copy_bytes b name (unat idSize) (h2(b \<mapsto> Bytes (unat idSize) None, ob \<mapsto> Object (Some b) (Some idSize))) =
      Some (h2(b \<mapsto> Bytes (unat idSize) (Some (take (unat idSize) name)), ob \<mapsto> Object (Some b) (Some idSize)))"
    "set_node_object n ob (h2(b \<mapsto> Bytes (unat idSize) (Some (take (unat idSize) name)), ob \<mapsto> Object (Some b) (Some idSize))) =
      Some (h2(b \<mapsto> Bytes (unat idSize) (Some (take (unat idSize) name)), ob \<mapsto> Object (Some b) (Some idSize), n \<mapsto> Node (Some ob) None))"
    "set_node_next n 0 (h2(b \<mapsto> Bytes (unat idSize) (Some (take (unat idSize) name)), ob \<mapsto> Object (Some b) (Some idSize), n \<mapsto> Node (Some ob) None)) = Some h3"
    using d l
    by (simp_all add: set_object_size_def set_object_id_def copy_bytes_def set_node_object_def set_node_next_def h3_def)
      (auto simp: h2_def h1_def fun_eq_iff)
  show ?thesis
    by (simp add: append_name_def m steps)
qed

lemma append_name_cells:
  assumes f: "fresh_alloc pick" "finite (dom h0)" and w: "separate h0 xs" and n: "unat idSize \<le> length name"
  shows "\<exists>y. snd (snd (snd y)) = take (unat idSize) name \<and> separate h0 (xs @ [y]) \<and>
    append_name pick name idSize (last_node xs) (h0 ++ cells xs) = Some (fst y, h0 ++ cells (xs @ [y]))"
proof -
  let ?h = "h0 ++ cells xs"
  have fin: "finite (dom ?h)" using f(2) by (simp add: dom_cells)
  define n where "n = pick ?h"
  define h1 where "h1 = ?h(n \<mapsto> Node None None)"
  define ob where "ob = pick h1"
  define h2 where "h2 = h1(ob \<mapsto> Object None (Some idSize))"
  define b where "b = pick h2"
  define y where "y = (n, ob, b, take (unat idSize) name)"
  have n: "n \<noteq> 0" "?h n = None" using fresh_alloc_pick [OF f(1) fin] by (simp_all add: n_def)
  have ob: "ob \<noteq> 0" "h1 ob = None" using fresh_alloc_pick [OF f(1), of h1] fin by (simp_all add: ob_def h1_def)
  have b: "b \<noteq> 0" "h2 b = None" using fresh_alloc_pick [OF f(1), of h2] fin by (simp_all add: b_def h2_def h1_def)
  have out: "n \<notin> dom h0" "n \<notin> set (addrs xs)" "ob \<notin> dom h0" "ob \<notin> set (addrs xs)" "b \<notin> dom h0" "b \<notin> set (addrs xs)"
      "ob \<noteq> n" "b \<noteq> n" "b \<noteq> ob"
    using n(2) ob(2) b(2) dom_cells [of xs] by (auto simp: h1_def h2_def split: if_splits)
  have sep: "separate h0 (xs @ [y])" using w out n(1) ob(1) b(1) by (auto simp: separate_def y_def)
  have len: "length (take (unat idSize) name) = unat idSize" using assms(4) by simp
  define h3 where "h3 = h2(b \<mapsto> Bytes (unat idSize) (Some (take (unat idSize) name)), ob \<mapsto> Object (Some b) (Some idSize),
    n \<mapsto> Node (Some ob) (Some 0))"
  have h3: "h3 p = ?h p" if "p \<noteq> n" "p \<noteq> ob" "p \<noteq> b" for p using that by (simp add: h3_def h2_def h1_def)
  have app: "append_name pick name idSize (last_node xs) ?h =
      do { h \<leftarrow> (if last_node xs \<noteq> 0 then set_node_next (last_node xs) n h3 else Some h3); Some (n, h) }"
    unfolding h3_def h2_def h1_def
    by (rule append_name_steps) (use n ob b out assms(4) in \<open>simp_all add: n_def ob_def b_def h1_def h2_def\<close>)
  have "append_name pick name idSize (last_node xs) ?h = Some (n, h0 ++ cells (xs @ [y]))"
  proof (cases "xs = []")
    case True
    then have "h3 = h0 ++ cells (xs @ [y])"
      using len out(7-9) by (simp add: y_def fun_eq_iff map_add_def h3_def h2_def h1_def)
    with True app show ?thesis by simp
  next
    case False
    let ?p = "last_node xs"
    have p: "?p \<in> set (addrs xs)" by (rule last_node_in [OF False])
    then have "?p \<noteq> 0" "?p \<noteq> n" "?p \<noteq> ob" "?p \<noteq> b" using w out by (auto simp: separate_def)
    moreover obtain ob' where c: "cells xs ?p = Some (Node (Some ob') (Some 0))"
      using last_node_cell [OF _ False] w by (auto simp: separate_def)
    ultimately have "set_node_next ?p n h3 = Some (h3(?p \<mapsto> Node (Some ob') (Some n)))"
      using h3 [of ?p] by (simp add: set_node_next_def)
    moreover have "h3(?p \<mapsto> Node (Some ob') (Some n)) = h0 ++ cells (xs @ [y])"
      using out len p c sep unfolding y_def
      by (subst cells_snoc) (auto simp: False separate_def fun_eq_iff map_add_def h3_def h2_def h1_def split: option.splits)
    ultimately show ?thesis using \<open>?p \<noteq> 0\<close> by (simp add: app)
  qed
  with sep show ?thesis by (intro exI [of _ y]) (simp add: y_def)
qed

section \<open>Through the TA to the storage\<close>

lemma key_dispatch:
  "key_invoke kapi TA_KEY_CMD_ALLOC_ENUM t ps m = Some (ta_key_cmd_alloc_enum kapi t ps m)"
  "key_invoke kapi TA_KEY_CMD_FREE_ENUM t ps m = Some (ta_key_cmd_free_enum kapi t ps m)"
  "key_invoke kapi TA_KEY_CMD_START_ENUM t ps m = Some (ta_key_cmd_start_enum kapi t ps m)"
  "key_invoke kapi TA_KEY_CMD_NEXT_ENUM t ps m = Some (ta_key_cmd_next_enum kapi t ps m)"
  by (simp_all add: key_invoke_def key_cmd_defs)

lemmas key_unfold = op_ok_def empty_op_def teec_types teec_type_values TEEC_SUCCESS_def TEE_SUCCESS_def

lemma key_alloc_served:
  assumes s: "teec_serves api (session c) ta shm (key_invoke kapi)"
    and o: "TEE_AllocatePersistentObjectEnumerator kapi (ta w) = (res, oe, m)"
  shows "\<exists>w'. keyAllocEnum api c e w = (res, if res = TEE_SUCCESS then ucast oe else e, w') \<and> ta w' = m"
  using op_served [OF s, where op = empty_op
      and ?t0.0 = PT_VALUE_OUTPUT and ?t1.0 = PT_NONE and ?t2.0 = PT_NONE and ?t3.0 = PT_NONE
      and cmd = TA_KEY_CMD_ALLOC_ENUM and w = w] o
  by (auto simp: key_unfold keyAllocEnum_def key_dispatch ta_key_cmd_alloc_enum_def)

lemma key_start_served:
  assumes s: "teec_serves api (session c) ta shm (key_invoke kapi)"
    and o: "TEE_StartPersistentObjectEnumerator kapi (ucast e) sid (ta w) = (res, m)"
  shows "\<exists>w'. keyStartEnum api c e sid w = (res, w') \<and> ta w' = m"
  using op_served [OF s, where op = "empty_op\<lparr>op0 := op_value e sid\<rparr>"
      and ?t0.0 = PT_VALUE_INPUT and ?t1.0 = PT_NONE and ?t2.0 = PT_NONE and ?t3.0 = PT_NONE
      and cmd = TA_KEY_CMD_START_ENUM and w = w] o
  by (auto simp: key_unfold keyStartEnum_def key_value_call_def key_dispatch ta_key_cmd_start_enum_def value_types_def STORAGE_VAL2HANDLE_def)

lemma key_free_served:
  assumes s: "teec_serves api (session c) ta shm (key_invoke kapi)"
  shows "\<exists>w'. keyFreeEnum api c e w = (TEE_SUCCESS, w') \<and> ta w' = TEE_FreePersistentObjectEnumerator kapi (ucast e) (ta w)"
  using op_served [OF s, where op = "empty_op\<lparr>op0 := op_value e 0\<rparr>"
      and ?t0.0 = PT_VALUE_INPUT and ?t1.0 = PT_NONE and ?t2.0 = PT_NONE and ?t3.0 = PT_NONE
      and cmd = TA_KEY_CMD_FREE_ENUM and w = w]
  by (auto simp: key_unfold keyFreeEnum_def key_value_call_def key_dispatch ta_key_cmd_free_enum_def value_types_def STORAGE_VAL2HANDLE_def)

lemma next_types: "TEE_PARAM_TYPES PT_VALUE_INPUT PT_NONE PT_MEMREF_OUTPUT PT_NONE OR push_bit 4 PT_MEMREF_OUTPUT =
    TEE_PARAM_TYPES PT_VALUE_INPUT PT_MEMREF_OUTPUT PT_MEMREF_OUTPUT PT_NONE"
  by (simp add: TEE_PARAM_TYPES_def param_type_defs)

lemma key_next_served:
  assumes s: "teec_serves api (session c) ta shm (key_invoke kapi)" and len: "length info = 256" "length name = 257"
    and o: "TEE_GetNextPersistentObject kapi (ucast e) (Some (shm w 256)) (shm w 257) 257 (ta w) = (res, info', name', n, m)"
  shows "\<exists>w' info1 name1 size1 n1. keyNextEnum api c e (Some info) (Some INFO_SIZE) name ID_SIZE w =
      Some (res, Some info1, Some size1, name1, n1, w') \<and> ta w' = m \<and>
    (length info' = 256 \<longrightarrow> length info1 = 256) \<and>
    (res = TEE_SUCCESS \<longrightarrow> n1 = n \<and> (unat n \<le> 257 \<longrightarrow> name1 = take (unat n) name' @ drop (unat n) name))"
proof -
  define si :: uint32 where "si = 256"
  define sn :: uint32 where "sn = 257"
  have i: "INFO_SIZE = ucast si" "ID_SIZE = sn" by (simp_all add: INFO_SIZE_def ID_SIZE_def si_def sn_def)
  have u [simp]: "unat si = 256" "unat sn = 257" by (simp_all add: si_def sn_def)
  note served = op_served [OF s, where op = "empty_op\<lparr>op0 := op_value e 0, op1 := op_tmpref info (ucast si), op2 := op_tmpref name (ucast sn)\<rparr>"
      and ?t0.0 = PT_VALUE_INPUT and ?t1.0 = PT_MEMREF_OUTPUT and ?t2.0 = PT_MEMREF_OUTPUT and ?t3.0 = PT_NONE
      and cmd = TA_KEY_CMD_NEXT_ENUM and w = w]
  have run: "key_invoke kapi TA_KEY_CMD_NEXT_ENUM (TEE_PARAM_TYPES PT_VALUE_INPUT PT_MEMREF_OUTPUT PT_MEMREF_OUTPUT PT_NONE)
      \<lparr>p0 = zero_param\<lparr>val_a := e, val_b := 0\<rparr>, p1 = zero_param\<lparr>mbuf := shm w 256, msize := si\<rparr>,
        p2 = zero_param\<lparr>mbuf := shm w 257, msize := sn\<rparr>, p3 = zero_param\<rparr> (ta w) =
    Some (res, \<lparr>p0 = zero_param\<lparr>val_a := e, val_b := 0\<rparr>, p1 = zero_param\<lparr>mbuf := info', msize := 28\<rparr>,
        p2 = zero_param\<lparr>mbuf := name', msize := n\<rparr>, p3 = zero_param\<rparr>, m)"
    using o by (simp add: si_def sn_def key_dispatch ta_key_cmd_next_enum_def param_types_get sizeof_object_info_def TEE_OBJECT_ID_MAX_LEN_def
        STORAGE_VAL2HANDLE_def Let_def del: One_nat_def)
      (simp add: param_type_defs)
  obtain org w' where i1: "TEEC_InvokeCommand api (session c) TA_KEY_CMD_NEXT_ENUM
      (TEE_PARAM_TYPES PT_VALUE_INPUT PT_MEMREF_OUTPUT PT_MEMREF_OUTPUT PT_NONE)
      (empty_op\<lparr>op0 := op_value e 0, op1 := op_tmpref info (ucast si), op2 := op_tmpref name (ucast sn)\<rparr>) w =
    (res, org, \<lparr>op0 = op_value e 0,
      op1 = from_ta PT_MEMREF_OUTPUT (op_tmpref info (ucast si)) (zero_param\<lparr>mbuf := info', msize := 28\<rparr>),
      op2 = from_ta PT_MEMREF_OUTPUT (op_tmpref name (ucast sn)) (zero_param\<lparr>mbuf := name', msize := n\<rparr>), op3 = no_param\<rparr>, w')"
    "ta w' = m"
    using served [of res "\<lparr>p0 = zero_param\<lparr>val_a := e, val_b := 0\<rparr>, p1 = zero_param\<lparr>mbuf := info', msize := 28\<rparr>,
        p2 = zero_param\<lparr>mbuf := name', msize := n\<rparr>, p3 = zero_param\<rparr>" m] run len
    by (auto simp: op_ok_def empty_op_def)
  show ?thesis
    using i1 len by (simp add: keyNextEnum_def i next_types key_unfold word_le_nat_alt)
qed

lemma enum_loop_list:
  assumes s: "teec_serves api (session c) ta shm (key_invoke kapi)" and l: "enum_laws kapi sid names pending"
    and f: "fresh_alloc pick" "finite (dom h0)"
  shows "pending (ta w) (ucast e) = Some ids \<Longrightarrow> \<forall>x \<in> set ids. length x \<le> 64 \<Longrightarrow> separate h0 xs \<Longrightarrow>
      length info = 256 \<Longrightarrow> length name = 257 \<Longrightarrow>
    \<exists>ys w'. enum_loop api pick c e (first_node xs) (last_node xs) k info name (h0 ++ cells xs) w =
        Some (first_node (xs @ ys), k + of_nat (length ids), h0 ++ cells (xs @ ys), w') \<and>
      separate h0 (xs @ ys) \<and> map (\<lambda>(n, ob, b, x). x) ys = ids"
proof (induction ids arbitrary: w xs k info name)
  case Nil
  obtain res info' name' n m where g: "TEE_GetNextPersistentObject kapi (ucast e) (Some (shm w 256)) (shm w 257) 257 (ta w) =
      (res, info', name', n, m)" by (metis prod.collapse)
  then have "res \<noteq> TEE_SUCCESS"
    using enum_steps(4) [OF l Nil(1), of "Some (shm w 256)" "shm w 257" 257] by simp
  with key_next_served [OF s Nil(4,5) g] Nil(3) show ?case
    by (intro exI [of _ "[]"]) (auto simp: enum_loop.simps TEEC_SUCCESS_def TEE_SUCCESS_def)
next
  case (Cons x ids)
  have len: "length (shm w 256) = 256" "length (shm w 257) = 257" using shm_length [OF s] by simp_all
  obtain info' m where g: "TEE_GetNextPersistentObject kapi (ucast e) (Some (shm w 256)) (shm w 257) 257 (ta w) =
      (TEE_SUCCESS, info', x @ drop (length x) (shm w 257), of_nat (length x), m)" "length info' = 256" "pending m (ucast e) = Some ids"
    using enum_steps(5) [OF l Cons.prems(1), of "shm w 257" "shm w 256" 257] Cons.prems(2) len by auto
  have u: "unat (of_nat (length x) :: uint32) = length x" using Cons.prems(2) by (intro unat_of_nat32) simp
  obtain w' info1 size1 where 1: "keyNextEnum api c e (Some info) (Some INFO_SIZE) name ID_SIZE w =
      Some (TEE_SUCCESS, Some info1, Some size1, x @ drop (length x) name, of_nat (length x), w')" "ta w' = m" "length info1 = 256"
    using key_next_served [OF s Cons.prems(4,5) g(1)] g(2) u Cons.prems(2) by auto
  obtain y where y: "snd (snd (snd y)) = x" "separate h0 (xs @ [y])"
    "append_name pick (x @ drop (length x) name) (of_nat (length x)) (last_node xs) (h0 ++ cells xs) = Some (fst y, h0 ++ cells (xs @ [y]))"
    using append_name_cells [OF f Cons.prems(3), of "of_nat (length x)" "x @ drop (length x) name"] u by auto
  have n: "first_node xs = 0 \<longleftrightarrow> xs = []" using Cons.prems(3) by (cases xs) (auto simp: separate_def)
  have ends: "(if first_node xs = 0 then fst y else first_node xs) = first_node (xs @ [y])" "last_node (xs @ [y]) = fst y"
  proof -
    show "(if first_node xs = 0 then fst y else first_node xs) = first_node (xs @ [y])"
      using first_node_append [of xs "[y]"] by (cases y, cases "xs = []") (simp_all add: n)
    show "last_node (xs @ [y]) = fst y" by (simp add: last_node_def)
  qed
  have "length (x @ drop (length x) name) = 257" using Cons.prems(2,5) by simp
  with Cons.IH [of w' "xs @ [y]" info1 "x @ drop (length x) name" "k + 1"] Cons.prems(2) g(3) 1(2,3) y(2)
  obtain ys w'' where 2: "enum_loop api pick c e (first_node (xs @ [y])) (fst y) (k + 1) info1 (x @ drop (length x) name) (h0 ++ cells (xs @ [y])) w' =
        Some (first_node (xs @ [y] @ ys), k + 1 + of_nat (length ids), h0 ++ cells (xs @ [y] @ ys), w'')"
      "separate h0 (xs @ [y] @ ys)" "map (\<lambda>(n, ob, b, x). x) ys = ids"
    by (auto simp: ends)
  have "enum_loop api pick c e (first_node xs) (last_node xs) k info name (h0 ++ cells xs) w =
      Some (first_node (xs @ y # ys), k + of_nat (length (x # ids)), h0 ++ cells (xs @ y # ys), w'')"
    using 2(1) by (subst enum_loop.simps) (simp add: 1(1) y(3) ends TEEC_SUCCESS_def TEE_SUCCESS_def add.assoc)
  moreover have "map (\<lambda>(n, ob, b, x). x) (y # ys) = x # ids" using 2(3) y(1) by (cases y) simp
  ultimately show ?case using 2(2) by (intro exI [of _ "y # ys"]) auto
qed

text \<open>An empty storage, and one with objects\<close>

lemma no_names_listed:
  assumes s: "teec_serves api (session c) ta shm (key_invoke kapi)" and l: "enum_laws kapi sid names pending"
    and none: "names (ta w) = []"
  shows "\<exists>oe m1 w1. TEE_AllocatePersistentObjectEnumerator kapi (ta w) = (TEE_SUCCESS, oe, m1) \<and>
    keyEnumObjectList api pick c sid n0 h0 w = Some (TEE_ERROR_ITEM_NOT_FOUND, 0, n0, h0, w1) \<and>
    ta w1 = snd (TEE_StartPersistentObjectEnumerator kapi oe sid m1)"
proof -
  obtain oe m1 where 1: "TEE_AllocatePersistentObjectEnumerator kapi (ta w) = (TEE_SUCCESS, oe, m1)" "oe < 2 ^ 32" "names m1 = names (ta w)"
    using enum_steps(2) [OF l, of "ta w"] by blast
  define e where "e = (ucast oe :: uint32)"
  have e: "ucast e = oe" using ucast_up_down [OF 1(2)] by (simp add: e_def)
  obtain w1 where w1: "keyAllocEnum api c 0 w = (TEE_SUCCESS, e, w1)" "ta w1 = m1"
    using key_alloc_served [OF s 1(1), of 0] by (auto simp: e_def)
  obtain m2 where 2: "TEE_StartPersistentObjectEnumerator kapi oe sid m1 = (TEE_ERROR_ITEM_NOT_FOUND, m2)"
    using enum_steps(7) [OF l, of m1 oe] 1(3) none by auto
  obtain w2 where "keyStartEnum api c e sid w1 = (TEE_ERROR_ITEM_NOT_FOUND, w2)" "ta w2 = m2"
    using key_start_served [OF s, of e sid w1 TEE_ERROR_ITEM_NOT_FOUND m2] 2 w1(2) e by auto
  then show ?thesis
    using none 1(1) 2 w1(1) by (simp add: keyEnumObjectList_def TEEC_SUCCESS_def TEE_SUCCESS_def TEE_ERROR_ITEM_NOT_FOUND_def)
qed

lemma names_linked:
  assumes s: "teec_serves api (session c) ta shm (key_invoke kapi)" and l: "enum_laws kapi sid names pending"
    and f: "fresh_alloc pick" "finite (dom h0)" and some: "names (ta w) \<noteq> []"
  shows "\<exists>list h1 w1. keyEnumObjectList api pick c sid n0 h0 w =
      Some (TEEC_SUCCESS, list, of_nat (length (names (ta w))), h1, w1) \<and>
    list_names h1 list (names (ta w)) \<and> h0 \<subseteq>\<^sub>m h1 \<and>
    keyFreeEnumObjectList list h1 = Some (of_nat (length (names (ta w))), 0, h0)"
proof -
  obtain oe m1 where 1: "TEE_AllocatePersistentObjectEnumerator kapi (ta w) = (TEE_SUCCESS, oe, m1)" "oe < 2 ^ 32" "names m1 = names (ta w)"
    using enum_steps(2) [OF l, of "ta w"] by blast
  define e where "e = (ucast oe :: uint32)"
  have e: "ucast e = oe" using ucast_up_down [OF 1(2)] by (simp add: e_def)
  obtain w1 where w1: "keyAllocEnum api c 0 w = (TEE_SUCCESS, e, w1)" "ta w1 = m1"
    using key_alloc_served [OF s 1(1), of 0] by (auto simp: e_def)
  obtain m2 where 2: "TEE_StartPersistentObjectEnumerator kapi oe sid m1 = (TEE_SUCCESS, m2)" "pending m2 oe = Some (names (ta w))"
    using enum_steps(3) [OF l, of m1 oe] 1(3) some by auto
  obtain w2 where w2: "keyStartEnum api c e sid w1 = (TEE_SUCCESS, w2)" "ta w2 = m2"
    using key_start_served [OF s, of e sid w1 TEE_SUCCESS m2] 2(1) w1(2) e by auto
  obtain ys w3 where w3: "enum_loop api pick c e 0 0 0 (replicate 256 0) (replicate 257 0) h0 w2 =
        Some (first_node ys, of_nat (length (names (ta w))), h0 ++ cells ys, w3)"
      "separate h0 ys" "map (\<lambda>(n, ob, b, x). x) ys = names (ta w)"
    using enum_loop_list [OF s l f, of w2 e "names (ta w)" "[]" "replicate 256 0" "replicate 257 0" 0]
      2(2) w2(2) e enum_steps(1) [OF l] by (auto simp: separate_def)
  obtain w4 where w4: "keyFreeEnum api c e w3 = (TEE_SUCCESS, w4)" using key_free_served [OF s] by blast
  have "length ys = length (names (ta w))" using w3(3) by (metis length_map)
  then have "keyFreeEnumObjectList (first_node ys) (h0 ++ cells ys) = Some (of_nat (length (names (ta w))), 0, h0)"
    using free_loop_cells [OF w3(2), of 0] by (simp add: keyFreeEnumObjectList_def)
  moreover have "list_names (h0 ++ cells ys) (first_node ys) (names (ta w))"
    using list_names_cells [OF w3(2), of "h0 ++ cells ys"] dom_cells [of ys] w3(3)
    by (metis (no_types, lifting) domIff map_add_dom_app_simps(1))
  moreover have "h0 \<subseteq>\<^sub>m h0 ++ cells ys"
    using w3(2) dom_cells [of ys] by (auto simp: map_le_def separate_def map_add_def split: option.splits)
  moreover have "keyEnumObjectList api pick c sid n0 h0 w =
      Some (TEEC_SUCCESS, first_node ys, of_nat (length (names (ta w))), h0 ++ cells ys, w4)"
    using w1(1) w2(1) w3(1) w4 by (simp add: keyEnumObjectList_def TEEC_SUCCESS_def TEE_SUCCESS_def)
  ultimately show ?thesis by blast
qed

text \<open>
  C27.  Listing a storage through the client library: for every storage that behaves and holds an object,
  the client gets a linked list of all names, in their order and with their lengths, and their number, on
  new blocks of its heap; freeing the list reports the same number, clears the pointer and gives back every
  block.  Of an empty storage the client gets the error, an empty list and nothing on its heap, and the TA
  is left as the start of the enumeration left it: the enumerator allocated for it is not freed.
\<close>
theorem key_names_listed:
  assumes s: "teec_serves api (session c) ta shm (key_invoke kapi)" and l: "enum_laws kapi sid names pending"
    and f: "fresh_alloc pick" "finite (dom h0)"
  shows "if names (ta w) = []
    then \<exists>oe m1 w1. TEE_AllocatePersistentObjectEnumerator kapi (ta w) = (TEE_SUCCESS, oe, m1) \<and>
      keyEnumObjectList api pick c sid n0 h0 w = Some (TEE_ERROR_ITEM_NOT_FOUND, 0, n0, h0, w1) \<and>
      ta w1 = snd (TEE_StartPersistentObjectEnumerator kapi oe sid m1)
    else \<exists>list h1 w1. keyEnumObjectList api pick c sid n0 h0 w =
        Some (TEEC_SUCCESS, list, of_nat (length (names (ta w))), h1, w1) \<and>
      list_names h1 list (names (ta w)) \<and> h0 \<subseteq>\<^sub>m h1 \<and>
      keyFreeEnumObjectList list h1 = Some (of_nat (length (names (ta w))), 0, h0)"
  using no_names_listed [OF s l, of w] names_linked [OF s l f, of w] by simp

text \<open>An allocator that puts a block behind all others\<close>

definition top_alloc :: allocator where
  "top_alloc h = Suc (Max (insert 0 (dom h)))"

lemma top_alloc_fresh: "fresh_alloc top_alloc"
proof (unfold fresh_alloc_def, intro allI impI)
  fix h :: c_heap assume f: "finite (dom h)"
  have "p < top_alloc h" if "p \<in> dom h" for p
    using f that by (simp add: top_alloc_def le_imp_less_Suc)
  then show "top_alloc h \<noteq> 0 \<and> top_alloc h \<notin> dom h" by (auto simp: top_alloc_def)
qed

lemma key_names_listed_witness:
  "(\<exists>list h1 w1. keyEnumObjectList (direct_teec (key_invoke demo_key)) top_alloc \<lparr>ctx = 1, session = 2, oc_error = 0\<rparr> 1 0 Map.empty
      ([[7, 7], [1]], Map.empty) = Some (TEEC_SUCCESS, list, 2, h1, w1) \<and>
    list_names h1 list [[7, 7], [1]] \<and> keyFreeEnumObjectList list h1 = Some (2, 0, Map.empty)) \<and>
   (\<exists>w1. keyEnumObjectList (direct_teec (key_invoke demo_key)) top_alloc \<lparr>ctx = 1, session = 2, oc_error = 0\<rparr> 1 0 Map.empty
      ([], Map.empty) = Some (TEE_ERROR_ITEM_NOT_FOUND, 0, 0, Map.empty, w1) \<and> snd w1 9 \<noteq> None)"
proof -
  have f: "finite (dom (Map.empty :: c_heap))" by simp
  note claim = key_names_listed [OF direct_teec_serves demo_enum_laws top_alloc_fresh f, where sid = 1 and ?n0.0 = 0
      and c = "\<lparr>ctx = 1, session = 2, oc_error = 0\<rparr>"]
  show ?thesis
    using claim [of "([[7, 7], [1]], Map.empty)"] claim [of "([], Map.empty)"]
    by (auto simp: valid_names_def demo_key_defs)
qed

end
