(* ===== verification/Socket_Ta.thy ===== *)
theory Socket_Ta
  imports Ta_Env
begin

text \<open>
  Model of \<open>src/ta/socket/ta_entry.c\<close>, TCP and UDP sockets for a client.  The handle of a socket is
  \<open>struct sock_handle\<close>, the context of the socket and the address of its function table, which the TA
  copies to the client and takes back with every command.  The sockets are outside the repository:
  \<open>isocket_at p m\<close> is the function table the memory holds at \<open>p\<close>, if there is one there.  A call through
  another address is undefined, \<^term>\<open>None\<close>.
\<close>

definition TA_SOCKET_CMD_TCP_OPEN :: uint32 where "TA_SOCKET_CMD_TCP_OPEN = 0"
definition TA_SOCKET_CMD_UDP_OPEN :: uint32 where "TA_SOCKET_CMD_UDP_OPEN = 1"
definition TA_SOCKET_CMD_CLOSE :: uint32 where "TA_SOCKET_CMD_CLOSE = 2"
definition TA_SOCKET_CMD_SEND :: uint32 where "TA_SOCKET_CMD_SEND = 3"
definition TA_SOCKET_CMD_RECV :: uint32 where "TA_SOCKET_CMD_RECV = 4"
definition TA_SOCKET_CMD_ERROR :: uint32 where "TA_SOCKET_CMD_ERROR = 5"
definition TA_SOCKET_CMD_IOCTL :: uint32 where "TA_SOCKET_CMD_IOCTL = 6"

lemmas socket_cmd_defs = TA_SOCKET_CMD_TCP_OPEN_def TA_SOCKET_CMD_UDP_OPEN_def TA_SOCKET_CMD_CLOSE_def
  TA_SOCKET_CMD_SEND_def TA_SOCKET_CMD_RECV_def TA_SOCKET_CMD_ERROR_def TA_SOCKET_CMD_IOCTL_def

section \<open>The socket API\<close>

text \<open>
  \<open>TEE_tcpSocket_Setup\<close> and \<open>TEE_udpSocket_Setup\<close> have the same fields.  The address is a string, here
  without its terminating zero.  An argument that a function may write is passed in and handed back.
\<close>

record socket_setup =
  ip_version :: uint32
  server_addr :: "u8 list"
  server_port :: "16 word"

record 'm tee_isocket =
  sock_open :: "size_t \<Rightarrow> socket_setup \<Rightarrow> uint32 \<Rightarrow> 'm \<Rightarrow> TEE_Result \<times> size_t \<times> uint32 \<times> 'm"
  sock_close :: "size_t \<Rightarrow> 'm \<Rightarrow> TEE_Result \<times> 'm"
  sock_send :: "size_t \<Rightarrow> u8 list \<Rightarrow> uint32 \<Rightarrow> uint32 \<Rightarrow> 'm \<Rightarrow> TEE_Result \<times> uint32 \<times> 'm"
  sock_recv :: "size_t \<Rightarrow> u8 list \<Rightarrow> uint32 \<Rightarrow> uint32 \<Rightarrow> 'm \<Rightarrow> TEE_Result \<times> u8 list \<times> uint32 \<times> 'm"
  sock_error :: "size_t \<Rightarrow> 'm \<Rightarrow> uint32 \<times> 'm"
  sock_ioctl :: "size_t \<Rightarrow> uint32 \<Rightarrow> u8 list \<Rightarrow> uint32 \<Rightarrow> 'm \<Rightarrow> TEE_Result \<times> u8 list \<times> uint32 \<times> 'm"

record 'm socket_api = "'m heap_api" +
  TEE_tcpSocket :: size_t
  TEE_udpSocket :: size_t
  isocket_at :: "size_t \<Rightarrow> 'm \<Rightarrow> 'm tee_isocket option"

section \<open>Handles\<close>

definition le64 :: "size_t \<Rightarrow> u8 list" where
  "le64 w = le32 (ucast w) @ le32 (ucast (drop_bit 32 w))"

definition of_le64 :: "u8 list \<Rightarrow> size_t" where
  "of_le64 bs = ucast (of_le32 (take 4 bs)) OR push_bit 32 (ucast (of_le32 (drop 4 bs)))"

lemma length_le64 [simp]: "length (le64 w) = 8"
  by (simp add: le64_def)

lemma of_le64_le64 [simp]: "of_le64 (le64 w) = w"
  by (rule bit_word_eqI) (auto simp: of_le64_def le64_def bit_simps)

record sock_handle =
  sh_ctx :: size_t
  sh_socket :: size_t

definition sizeof_sock_handle :: uint32 where "sizeof_sock_handle = 16"

definition sock_handle_bytes :: "sock_handle \<Rightarrow> u8 list" where
  "sock_handle_bytes h = le64 (sh_ctx h) @ le64 (sh_socket h)"

text \<open>Reading a buffer as a \<open>struct sock_handle\<close>\<close>

definition sock_handle_at :: "u8 list \<Rightarrow> sock_handle option" where
  "sock_handle_at b = (if 16 \<le> length b
     then Some \<lparr>sh_ctx = of_le64 (take 8 b), sh_socket = of_le64 (take 8 (drop 8 b))\<rparr> else None)"

lemma length_sock_handle_bytes [simp]: "length (sock_handle_bytes h) = 16"
  by (simp add: sock_handle_bytes_def)

lemma sock_handle_at_bytes [simp]: "sock_handle_at (sock_handle_bytes h) = Some h"
  by (simp add: sock_handle_at_def sock_handle_bytes_def)

text \<open>\<open>strndup(b, n)\<close> copies up to a zero, at most \<open>n\<close> bytes.\<close>

definition strndup :: "('m, 'z) heap_api_scheme \<Rightarrow> u8 list \<Rightarrow> nat \<Rightarrow> 'm \<Rightarrow> (ptr \<times> u8 list \<times> 'm) option" where
  "strndup api b n m =
     (let s = takeWhile (\<lambda>c. c \<noteq> 0) (take n b)
      in if length s = length b \<and> length b < n then None
      else let (p, m) = TEE_Malloc api (of_nat (length s) + 1) m in Some (p, s, m))"

section \<open>The commands\<close>

type_synonym 'm socket_res = "(TEE_Result \<times> tee_params \<times> 'm) option"

text \<open>\<open>ta_entry_tcp_open\<close> and \<open>ta_entry_udp_open\<close> differ in the socket.\<close>

definition socket_open_with :: "('m, 'z) socket_api_scheme \<Rightarrow> size_t \<Rightarrow> uint32 \<Rightarrow> tee_params \<Rightarrow> 'm \<Rightarrow> 'm socket_res" where
  "socket_open_with api sock param_types params m =
     (if param_types \<noteq> TEE_PARAM_TYPES PT_VALUE_INPUT PT_MEMREF_INPUT PT_MEMREF_OUTPUT PT_VALUE_OUTPUT
        then Some (TEE_ERROR_BAD_PARAMETERS, params, m)
      else if msize (p2 params) < sizeof_sock_handle
        then Some (TEE_ERROR_SHORT_BUFFER, params\<lparr>p2 := (p2 params)\<lparr>msize := sizeof_sock_handle\<rparr>\<rparr>, m)
      else do {
        (addr, s, m) \<leftarrow> strndup api (mbuf (p1 params)) (unat (msize (p1 params))) m;
        if addr = 0 then Some (TEE_ERROR_OUT_OF_MEMORY, params, m)
        else do {
          socket \<leftarrow> isocket_at api sock m;
          let (res, ctx, err, m) = sock_open socket 0
                \<lparr>ip_version = val_a (p0 params), server_addr = s, server_port = ucast (val_b (p0 params))\<rparr> (val_a (p3 params)) m;
              params = params\<lparr>p3 := (p3 params)\<lparr>val_a := err\<rparr>\<rparr>;
              m = TEE_Free api addr m
          in if res = TEE_SUCCESS then do {
            buf \<leftarrow> memcpy (mbuf (p2 params)) 0 (sock_handle_bytes \<lparr>sh_ctx = ctx, sh_socket = sock\<rparr>) (unat sizeof_sock_handle);
            Some (res, params\<lparr>p2 := (p2 params)\<lparr>mbuf := buf, msize := sizeof_sock_handle\<rparr>\<rparr>, m) }
          else Some (res, params, m) } })"

definition ta_entry_tcp_open where
  "ta_entry_tcp_open api param_types params m = socket_open_with api (TEE_tcpSocket api) param_types params m"

definition ta_entry_udp_open where
  "ta_entry_udp_open api param_types params m = socket_open_with api (TEE_udpSocket api) param_types params m"

definition ta_entry_close :: "('m, 'z) socket_api_scheme \<Rightarrow> uint32 \<Rightarrow> tee_params \<Rightarrow> 'm \<Rightarrow> 'm socket_res" where
  "ta_entry_close api param_types params m =
     (if param_types \<noteq> TEE_PARAM_TYPES PT_MEMREF_INPUT PT_NONE PT_NONE PT_NONE then Some (TEE_ERROR_BAD_PARAMETERS, params, m)
      else if msize (p0 params) \<noteq> sizeof_sock_handle then Some (TEE_ERROR_BAD_PARAMETERS, params, m)
      else do {
        h \<leftarrow> sock_handle_at (mbuf (p0 params));
        socket \<leftarrow> isocket_at api (sh_socket h) m;
        let (res, m) = sock_close socket (sh_ctx h) m
        in Some (res, params, m) })"

definition ta_entry_send :: "('m, 'z) socket_api_scheme \<Rightarrow> uint32 \<Rightarrow> tee_params \<Rightarrow> 'm \<Rightarrow> 'm socket_res" where
  "ta_entry_send api param_types params m =
     (if param_types \<noteq> TEE_PARAM_TYPES PT_MEMREF_INPUT PT_MEMREF_INPUT PT_VALUE_INOUT PT_NONE
        then Some (TEE_ERROR_BAD_PARAMETERS, params, m)
      else if msize (p0 params) \<noteq> sizeof_sock_handle then Some (TEE_ERROR_BAD_PARAMETERS, params, m)
      else do {
        h \<leftarrow> sock_handle_at (mbuf (p0 params));
        socket \<leftarrow> isocket_at api (sh_socket h) m;
        let (res, n, m) = sock_send socket (sh_ctx h) (mbuf (p1 params)) (msize (p1 params)) (val_a (p2 params)) m
        in Some (res, params\<lparr>p2 := (p2 params)\<lparr>val_b := n\<rparr>\<rparr>, m) })"

definition ta_entry_recv :: "('m, 'z) socket_api_scheme \<Rightarrow> uint32 \<Rightarrow> tee_params \<Rightarrow> 'm \<Rightarrow> 'm socket_res" where
  "ta_entry_recv api param_types params m =
     (if param_types \<noteq> TEE_PARAM_TYPES PT_MEMREF_INPUT PT_MEMREF_OUTPUT PT_VALUE_INPUT PT_NONE
        then Some (TEE_ERROR_BAD_PARAMETERS, params, m)
      else if msize (p0 params) \<noteq> sizeof_sock_handle then Some (TEE_ERROR_BAD_PARAMETERS, params, m)
      else do {
        h \<leftarrow> sock_handle_at (mbuf (p0 params));
        socket \<leftarrow> isocket_at api (sh_socket h) m;
        let (res, buf, n, m) = sock_recv socket (sh_ctx h) (mbuf (p1 params)) (msize (p1 params)) (val_a (p2 params)) m
        in Some (res, params\<lparr>p1 := (p1 params)\<lparr>mbuf := buf, msize := n\<rparr>\<rparr>, m) })"

definition ta_entry_error :: "('m, 'z) socket_api_scheme \<Rightarrow> uint32 \<Rightarrow> tee_params \<Rightarrow> 'm \<Rightarrow> 'm socket_res" where
  "ta_entry_error api param_types params m =
     (if param_types \<noteq> TEE_PARAM_TYPES PT_MEMREF_INPUT PT_VALUE_OUTPUT PT_NONE PT_NONE
        then Some (TEE_ERROR_BAD_PARAMETERS, params, m)
      else if msize (p0 params) \<noteq> sizeof_sock_handle then Some (TEE_ERROR_BAD_PARAMETERS, params, m)
      else do {
        h \<leftarrow> sock_handle_at (mbuf (p0 params));
        socket \<leftarrow> isocket_at api (sh_socket h) m;
        let (err, m) = sock_error socket (sh_ctx h) m
        in Some (TEE_SUCCESS, set_val_a1 err params, m) })"

definition ta_entry_ioctl :: "('m, 'z) socket_api_scheme \<Rightarrow> uint32 \<Rightarrow> tee_params \<Rightarrow> 'm \<Rightarrow> 'm socket_res" where
  "ta_entry_ioctl api param_types params m =
     (if param_types \<noteq> TEE_PARAM_TYPES PT_MEMREF_INPUT PT_MEMREF_INOUT PT_VALUE_INPUT PT_NONE
        then Some (TEE_ERROR_BAD_PARAMETERS, params, m)
      else if msize (p0 params) \<noteq> sizeof_sock_handle then Some (TEE_ERROR_BAD_PARAMETERS, params, m)
      else do {
        h \<leftarrow> sock_handle_at (mbuf (p0 params));
        socket \<leftarrow> isocket_at api (sh_socket h) m;
        let (res, buf, n, m) = sock_ioctl socket (sh_ctx h) (val_a (p2 params)) (mbuf (p1 params)) (msize (p1 params)) m
        in Some (res, params\<lparr>p1 := (p1 params)\<lparr>mbuf := buf, msize := n\<rparr>\<rparr>, m) })"

definition socket_invoke :: "('m, 'z) socket_api_scheme \<Rightarrow> uint32 \<Rightarrow> uint32 \<Rightarrow> tee_params \<Rightarrow> 'm \<Rightarrow> 'm socket_res" where
  "socket_invoke api cmd param_types params m =
     (if cmd = TA_SOCKET_CMD_TCP_OPEN then ta_entry_tcp_open api param_types params m
      else if cmd = TA_SOCKET_CMD_UDP_OPEN then ta_entry_udp_open api param_types params m
      else if cmd = TA_SOCKET_CMD_CLOSE then ta_entry_close api param_types params m
      else if cmd = TA_SOCKET_CMD_SEND then ta_entry_send api param_types params m
      else if cmd = TA_SOCKET_CMD_RECV then ta_entry_recv api param_types params m
      else if cmd = TA_SOCKET_CMD_ERROR then ta_entry_error api param_types params m
      else if cmd = TA_SOCKET_CMD_IOCTL then ta_entry_ioctl api param_types params m
      else Some (TEE_ERROR_BAD_PARAMETERS, params, m))"

lemmas socket_handle_commands = ta_entry_close_def ta_entry_send_def ta_entry_recv_def ta_entry_error_def ta_entry_ioctl_def

lemma socket_dispatch:
  "socket_invoke api TA_SOCKET_CMD_TCP_OPEN = ta_entry_tcp_open api"
  "socket_invoke api TA_SOCKET_CMD_UDP_OPEN = ta_entry_udp_open api"
  "socket_invoke api TA_SOCKET_CMD_CLOSE = ta_entry_close api"
  "socket_invoke api TA_SOCKET_CMD_SEND = ta_entry_send api"
  "socket_invoke api TA_SOCKET_CMD_RECV = ta_entry_recv api"
  "socket_invoke api TA_SOCKET_CMD_ERROR = ta_entry_error api"
  "socket_invoke api TA_SOCKET_CMD_IOCTL = ta_entry_ioctl api"
  by (intro ext; simp add: socket_invoke_def socket_cmd_defs)+

section \<open>Handles that come back and handles that are made up\<close>

text \<open>
  What the socket API documents: its two function tables are there, and its functions leave the
  blocks of the TA alone.
\<close>

definition sock_keeps_blocks :: "'m tee_isocket \<Rightarrow> ('m \<Rightarrow> ptr set) \<Rightarrow> 'm \<Rightarrow> bool" where
  "sock_keeps_blocks s live m \<longleftrightarrow>
     (\<forall>c setup e. live (snd (snd (snd (sock_open s c setup e m)))) = live m) \<and>
     (\<forall>c. live (snd (sock_close s c m)) = live m) \<and>
     (\<forall>c b n t. live (snd (snd (sock_send s c b n t m))) = live m) \<and>
     (\<forall>c b n t. live (snd (snd (snd (sock_recv s c b n t m)))) = live m) \<and>
     (\<forall>c. live (snd (sock_error s c m)) = live m) \<and>
     (\<forall>c k b n. live (snd (snd (snd (sock_ioctl s c k b n m)))) = live m)"

definition socket_laws :: "('m, 'z) socket_api_scheme \<Rightarrow> ('m \<Rightarrow> ptr set) \<Rightarrow> bool" where
  "socket_laws api live \<longleftrightarrow> (\<forall>p \<in> {TEE_tcpSocket api, TEE_udpSocket api}. \<forall>m.
     \<exists>s. isocket_at api p m = Some s \<and> sock_keeps_blocks s live m)"

text \<open>The commands that take a handle, and the types they ask for\<close>

definition handle_types :: "uint32 \<Rightarrow> uint32 option" where
  "handle_types cmd =
     (if cmd = TA_SOCKET_CMD_CLOSE then Some (TEE_PARAM_TYPES PT_MEMREF_INPUT PT_NONE PT_NONE PT_NONE)
      else if cmd = TA_SOCKET_CMD_SEND then Some (TEE_PARAM_TYPES PT_MEMREF_INPUT PT_MEMREF_INPUT PT_VALUE_INOUT PT_NONE)
      else if cmd = TA_SOCKET_CMD_RECV then Some (TEE_PARAM_TYPES PT_MEMREF_INPUT PT_MEMREF_OUTPUT PT_VALUE_INPUT PT_NONE)
      else if cmd = TA_SOCKET_CMD_ERROR then Some (TEE_PARAM_TYPES PT_MEMREF_INPUT PT_VALUE_OUTPUT PT_NONE PT_NONE)
      else if cmd = TA_SOCKET_CMD_IOCTL then Some (TEE_PARAM_TYPES PT_MEMREF_INPUT PT_MEMREF_INOUT PT_VALUE_INPUT PT_NONE)
      else None)"

text \<open>
  A client that keeps to the handles it was given (\<open>hs\<close>), and the states it can bring the TA to.
\<close>

definition honest :: "u8 list set \<Rightarrow> uint32 \<Rightarrow> tee_params \<Rightarrow> bool" where
  "honest hs cmd params \<longleftrightarrow> (handle_types cmd \<noteq> None \<longrightarrow> mbuf (p0 params) \<in> hs) \<and>
     memref_ok (p0 params) \<and> memref_ok (p1 params) \<and> memref_ok (p2 params)"

definition issued :: "uint32 \<Rightarrow> TEE_Result \<Rightarrow> tee_params \<Rightarrow> u8 list set" where
  "issued cmd res params =
     (if (cmd = TA_SOCKET_CMD_TCP_OPEN \<or> cmd = TA_SOCKET_CMD_UDP_OPEN) \<and> res = TEE_SUCCESS
      then {take (unat (msize (p2 params))) (mbuf (p2 params))} else {})"

inductive socket_run :: "('m, 'z) socket_api_scheme \<Rightarrow> 'm \<Rightarrow> 'm \<Rightarrow> u8 list set \<Rightarrow> bool" for api m0 where
  run_start: "socket_run api m0 m0 {}"
| run_step: "socket_run api m0 m hs \<Longrightarrow> honest hs cmd params \<Longrightarrow> socket_invoke api cmd types params m = Some (res, params', m') \<Longrightarrow>
    socket_run api m0 m' (hs \<union> issued cmd res params')"

definition own_handle :: "('m, 'z) socket_api_scheme \<Rightarrow> u8 list \<Rightarrow> bool" where
  "own_handle api b \<longleftrightarrow> (\<exists>c. \<exists>p \<in> {TEE_tcpSocket api, TEE_udpSocket api}. b = sock_handle_bytes \<lparr>sh_ctx = c, sh_socket = p\<rparr>)"


lemma sock_handle_at_size:
  "memref_ok p \<Longrightarrow> msize p = sizeof_sock_handle \<Longrightarrow>
     sock_handle_at (mbuf p) = Some \<lparr>sh_ctx = of_le64 (take 8 (mbuf p)), sh_socket = of_le64 (take 8 (drop 8 (mbuf p)))\<rparr>"
  by (simp add: sock_handle_at_def memref_ok_def sizeof_sock_handle_def)

text \<open>A command with a handle calls through the address in it, whatever that is.\<close>

lemma handle_command_defined:
  assumes "handle_types cmd = Some types" and "msize (p0 params) = sizeof_sock_handle" and "memref_ok (p0 params)"
  shows "socket_invoke api cmd types params m = None \<longleftrightarrow> isocket_at api (of_le64 (take 8 (drop 8 (mbuf (p0 params))))) m = None"
  using assms(1) unfolding handle_types_def
  by (auto split: if_splits option.splits bind_splits simp: socket_dispatch socket_handle_commands assms(2,3) sock_handle_at_size Let_def
      split_beta)

lemma socket_law:
  "socket_laws api live \<Longrightarrow> p = TEE_tcpSocket api \<or> p = TEE_udpSocket api \<Longrightarrow>
     \<exists>s. isocket_at api p m = Some s \<and> sock_keeps_blocks s live m"
  unfolding socket_laws_def by blast

lemma own_handle_at:
  assumes "own_handle api (mbuf p)"
  obtains c s where "sock_handle_at (mbuf p) = Some \<lparr>sh_ctx = c, sh_socket = s\<rparr>" "s = TEE_tcpSocket api \<or> s = TEE_udpSocket api"
  using assms unfolding own_handle_def by auto

text \<open>With a handle of its own a client gets an answer, and the blocks of the TA stay as they are.\<close>

lemma own_handle_command:
  assumes laws: "socket_laws api live" and own: "own_handle api (mbuf (p0 params))"
  shows "\<exists>res params' m'. ta_entry_close api types params m = Some (res, params', m') \<and> live m' = live m"
    "\<exists>res params' m'. ta_entry_send api types params m = Some (res, params', m') \<and> live m' = live m"
    "\<exists>res params' m'. ta_entry_recv api types params m = Some (res, params', m') \<and> live m' = live m"
    "\<exists>res params' m'. ta_entry_error api types params m = Some (res, params', m') \<and> live m' = live m"
    "\<exists>res params' m'. ta_entry_ioctl api types params m = Some (res, params', m') \<and> live m' = live m"
proof -
  obtain c p where h: "sock_handle_at (mbuf (p0 params)) = Some \<lparr>sh_ctx = c, sh_socket = p\<rparr>"
    and p: "p = TEE_tcpSocket api \<or> p = TEE_udpSocket api"
    using own by (rule own_handle_at)
  obtain s where s: "isocket_at api p m = Some s" and live: "sock_keeps_blocks s live m"
    using socket_law [OF laws p] by blast
  note live = live [unfolded sock_keeps_blocks_def]
  show "\<exists>res params' m'. ta_entry_close api types params m = Some (res, params', m') \<and> live m' = live m"
    by (simp add: ta_entry_close_def h s split_beta Let_def live)
  show "\<exists>res params' m'. ta_entry_send api types params m = Some (res, params', m') \<and> live m' = live m"
    by (simp add: ta_entry_send_def h s split_beta Let_def live)
  show "\<exists>res params' m'. ta_entry_recv api types params m = Some (res, params', m') \<and> live m' = live m"
    by (simp add: ta_entry_recv_def h s split_beta Let_def live)
  show "\<exists>res params' m'. ta_entry_error api types params m = Some (res, params', m') \<and> live m' = live m"
    by (simp add: ta_entry_error_def h s split_beta Let_def live)
  show "\<exists>res params' m'. ta_entry_ioctl api types params m = Some (res, params', m') \<and> live m' = live m"
    by (simp add: ta_entry_ioctl_def h s split_beta Let_def live)
qed

lemma strndup_memref:
  "memref_ok p \<Longrightarrow> \<exists>q s m'. strndup api (mbuf p) (unat (msize p)) m = Some (q, s, m') \<and>
     s = takeWhile (\<lambda>c. c \<noteq> 0) (mbuf p) \<and> TEE_Malloc api (of_nat (length s) + 1) m = (q, m')"
  by (simp add: strndup_def memref_ok_def split_beta Let_def)

text \<open>Opening gives its block back on every path, and a success hands out a handle of the socket.\<close>

lemma open_issues:
  assumes laws: "heap_laws api live" "socket_laws api live" and p: "p = TEE_tcpSocket api \<or> p = TEE_udpSocket api"
    and ok: "memref_ok (p1 params)" "memref_ok (p2 params)"
  shows "\<exists>res params' m'. socket_open_with api p types params m = Some (res, params', m') \<and> live m' = live m \<and>
    (res = TEE_SUCCESS \<longrightarrow> own_handle api (take (unat (msize (p2 params'))) (mbuf (p2 params'))))"
proof (cases "types = TEE_PARAM_TYPES PT_VALUE_INPUT PT_MEMREF_INPUT PT_MEMREF_OUTPUT PT_VALUE_OUTPUT \<and> \<not> msize (p2 params) < sizeof_sock_handle")
  case True
  obtain q s m1 where q: "strndup api (mbuf (p1 params)) (unat (msize (p1 params))) m = Some (q, s, m1)"
    and m1: "TEE_Malloc api (of_nat (length s) + 1) m = (q, m1)"
    using strndup_memref [OF ok(1), of api m] by blast
  note new = malloc_law [OF laws(1) m1]
  obtain sock where sock: "isocket_at api p m1 = Some sock" and live: "sock_keeps_blocks sock live m1"
    using socket_law [OF laws(2) p] by blast
  obtain r ctx e m2 where o: "sock_open sock 0 \<lparr>ip_version = val_a (p0 params), server_addr = s, server_port = ucast (val_b (p0 params))\<rparr>
      (val_a (p3 params)) m1 = (r, ctx, e, m2)"
    by (metis prod_cases4)
  have m2: "live m2 = live m1" using live o unfolding sock_keeps_blocks_def by (metis snd_conv)
  have room: "16 \<le> length (mbuf (p2 params))"
    using True ok(2) by (simp add: memref_ok_def sizeof_sock_handle_def word_less_nat_alt)
  have own: "own_handle api (sock_handle_bytes \<lparr>sh_ctx = ctx, sh_socket = p\<rparr>)"
    using p unfolding own_handle_def by blast
  have ms: "unat sizeof_sock_handle = 16" by (simp add: sizeof_sock_handle_def)
  show ?thesis
    using True q new sock o m2 room own
    by (auto simp: socket_open_with_def Let_def memcpy_def put_block_def ms live_free [OF laws(1)] TEE_SUCCESS_def TEE_ERROR_OUT_OF_MEMORY_def split: if_splits)
next
  case False
  then show ?thesis by (auto simp: socket_open_with_def tee_results)
qed

lemma honest_step:
  assumes laws: "heap_laws api live" "socket_laws api live" and hs: "\<forall>b \<in> hs. own_handle api b" and h: "honest hs cmd params"
  shows "\<exists>res params' m'. socket_invoke api cmd types params m = Some (res, params', m') \<and> live m' = live m \<and>
    (\<forall>b \<in> issued cmd res params'. own_handle api b)"
proof (cases "handle_types cmd = None")
  case False
  then have "own_handle api (mbuf (p0 params))" using h hs unfolding honest_def by blast
  note own_handle_command [OF laws(2) this, of types m]
  moreover have "issued cmd r q = {}" for r q using False by (auto simp: issued_def handle_types_def socket_cmd_defs)
  moreover have "cmd \<in> {TA_SOCKET_CMD_CLOSE, TA_SOCKET_CMD_SEND, TA_SOCKET_CMD_RECV, TA_SOCKET_CMD_ERROR, TA_SOCKET_CMD_IOCTL}"
    using False by (auto simp: handle_types_def split: if_splits)
  ultimately show ?thesis by (auto simp: socket_dispatch)
next
  case True
  have ok: "memref_ok (p1 params)" "memref_ok (p2 params)" using h by (simp_all add: honest_def)
  show ?thesis
  proof (cases "cmd = TA_SOCKET_CMD_TCP_OPEN \<or> cmd = TA_SOCKET_CMD_UDP_OPEN")
    case o: True
    then have "\<exists>p. (p = TEE_tcpSocket api \<or> p = TEE_udpSocket api) \<and> socket_invoke api cmd types params m = socket_open_with api p types params m"
      by (auto simp: socket_dispatch ta_entry_tcp_open_def ta_entry_udp_open_def)
    then show ?thesis using open_issues [OF laws _ ok, of _ types m] unfolding issued_def by (auto split: if_splits) metis+
  next
    case False
    with True show ?thesis by (auto simp: socket_invoke_def handle_types_def issued_def split: if_splits)
  qed
qed

lemma socket_run_handles:
  assumes laws: "heap_laws api live" "socket_laws api live" and run: "socket_run api m0 m hs"
  shows "live m = live m0 \<and> (\<forall>b \<in> hs. own_handle api b)"
  using run
proof (induction rule: socket_run.induct)
  case (run_step m hs cmd params types res params' m')
  then show ?case using honest_step [OF laws, of hs cmd params types m] by auto
qed simp

text \<open>
  C14.  While a client sends back the handles it was given, every command on every state it can bring
  the TA to has an answer, the TA holds the blocks it started with, and each handle is a context with
  the address of one of the two sockets.  Nothing checks that: a command with a handle of the right
  size calls through the 8 bytes the client put there, and is defined exactly when a function table
  happens to be at that address.
\<close>

theorem socket_handles:
  assumes laws: "heap_laws api live" "socket_laws api live" and run: "socket_run api m0 m hs"
  shows "(\<forall>b \<in> hs. own_handle api b) \<and>
    (\<forall>cmd types params. honest hs cmd params \<longrightarrow>
       (\<exists>res params' m'. socket_invoke api cmd types params m = Some (res, params', m') \<and> live m' = live m0)) \<and>
    (\<forall>cmd types params. handle_types cmd = Some types \<and> msize (p0 params) = sizeof_sock_handle \<and> memref_ok (p0 params) \<longrightarrow>
       (socket_invoke api cmd types params m = None \<longleftrightarrow> isocket_at api (of_le64 (take 8 (drop 8 (mbuf (p0 params))))) m = None))"
proof (intro conjI allI impI)
  note inv = socket_run_handles [OF laws run]
  show "\<forall>b \<in> hs. own_handle api b" using inv by blast
  show "\<exists>res params' m'. socket_invoke api cmd types params m = Some (res, params', m') \<and> live m' = live m0"
    if "honest hs cmd params" for cmd types params
    using honest_step [OF laws _ that, of types m] inv by metis
  show "socket_invoke api cmd types params m = None \<longleftrightarrow> isocket_at api (of_le64 (take 8 (drop 8 (mbuf (p0 params))))) m = None"
    if "handle_types cmd = Some types \<and> msize (p0 params) = sizeof_sock_handle \<and> memref_ok (p0 params)" for cmd types params
    using that handle_command_defined [of cmd types params api m] by simp
qed

section \<open>A network for the witnesses\<close>

text \<open>
  The memory is the list of blocks in use.  The two tables are at 4096 and 8192; a socket echoes: it
  sends all it is given and receives zeros.
\<close>

definition echo_socket :: "'m tee_isocket" where
  "echo_socket = \<lparr>
     sock_open = \<lambda>_ setup _ m. if server_addr setup = [] then (TEE_ERROR_BAD_PARAMETERS, 0, 1, m) else (TEE_SUCCESS, 77, 0, m),
     sock_close = \<lambda>_ m. (TEE_SUCCESS, m),
     sock_send = \<lambda>_ b n _ m. (TEE_SUCCESS, n, m),
     sock_recv = \<lambda>_ b n _ m. (TEE_SUCCESS, replicate (unat n) 0, n, m),
     sock_error = \<lambda>_ m. (0, m),
     sock_ioctl = \<lambda>_ k b n m. (TEE_SUCCESS, b, n, m)\<rparr>"

definition echo_network :: "ptr list socket_api" where
  "echo_network = heap_api.extend list_heap (socket_api.fields 4096 8192
     (\<lambda>p _. if p = 4096 \<or> p = 8192 then Some echo_socket else None))"

lemma echo_network_simps [simp]: "TEE_Malloc echo_network = TEE_Malloc list_heap" "TEE_Free echo_network = TEE_Free list_heap"
  "TEE_tcpSocket echo_network = 4096" "TEE_udpSocket echo_network = 8192"
  "isocket_at echo_network p m = (if p = 4096 \<or> p = 8192 then Some echo_socket else None)"
  by (simp_all add: echo_network_def heap_api.defs socket_api.defs)

lemma echo_network_laws: "heap_laws echo_network (\<lambda>m. set m - {0})" "socket_laws echo_network live"
proof -
  show "heap_laws echo_network (\<lambda>m. set m - {0})"
    using list_heap_laws unfolding heap_laws_def echo_network_simps .
  show "socket_laws echo_network live"
    by (simp add: socket_laws_def sock_keeps_blocks_def echo_socket_def)
qed

definition demo_params :: tee_params where
  "demo_params = zero_params\<lparr>p0 := zero_param\<lparr>val_a := 1, val_b := 80\<rparr>, p1 := zero_param\<lparr>mbuf := [49, 0], msize := 2\<rparr>,
     p2 := zero_param\<lparr>mbuf := replicate 16 0, msize := 16\<rparr>\<rparr>"

definition demo_opened :: tee_params where
  "demo_opened = demo_params\<lparr>p2 := zero_param\<lparr>mbuf := sock_handle_bytes \<lparr>sh_ctx = 77, sh_socket = 4096\<rparr>, msize := 16\<rparr>\<rparr>"

lemma demo_open_tcp:
  "socket_invoke echo_network TA_SOCKET_CMD_TCP_OPEN (TEE_PARAM_TYPES PT_VALUE_INPUT PT_MEMREF_INPUT PT_MEMREF_OUTPUT PT_VALUE_OUTPUT)
     demo_params [] = Some (TEE_SUCCESS, demo_opened, [])"
proof -
  have s: "strndup echo_network [49, 0] 2 [] = Some (1, [49], [1])" by (simp add: strndup_def list_heap_def)
  have u: "unat (16 :: uint32) = 16" "unat (2 :: uint32) = 2" by simp_all
  show ?thesis
    by (simp add: socket_dispatch ta_entry_tcp_open_def socket_open_with_def demo_params_def demo_opened_def s u sizeof_sock_handle_def
        zero_params_def zero_param_def echo_socket_def list_heap_def memcpy_def put_block_def)
qed

lemma demo_honest: "honest {} TA_SOCKET_CMD_TCP_OPEN demo_params"
  by (simp add: honest_def handle_types_def socket_cmd_defs memref_ok_def demo_params_def zero_params_def zero_param_def)

lemmas demo_run = run_step [OF run_start [of echo_network] demo_honest demo_open_tcp]

text \<open>A command with the handle just issued, and one with one whose socket is the null pointer\<close>

definition demo_send :: "u8 list \<Rightarrow> tee_params" where
  "demo_send h = zero_params\<lparr>p0 := zero_param\<lparr>mbuf := h, msize := 16\<rparr>, p1 := zero_param\<lparr>mbuf := [7, 8], msize := 2\<rparr>\<rparr>"

lemma demo_issued: "issued TA_SOCKET_CMD_TCP_OPEN TEE_SUCCESS demo_opened = {sock_handle_bytes \<lparr>sh_ctx = 77, sh_socket = 4096\<rparr>}"
proof -
  have "unat (16 :: uint32) = 16" by simp
  then show ?thesis by (simp add: issued_def demo_opened_def)
qed

lemma demo_send_honest:
  "honest ({} \<union> issued TA_SOCKET_CMD_TCP_OPEN TEE_SUCCESS demo_opened) TA_SOCKET_CMD_SEND
     (demo_send (sock_handle_bytes \<lparr>sh_ctx = 77, sh_socket = 4096\<rparr>))"
  by (simp add: honest_def demo_issued demo_send_def memref_ok_def zero_params_def zero_param_def)

lemma socket_handles_witness:
  "own_handle echo_network (sock_handle_bytes \<lparr>sh_ctx = 77, sh_socket = 4096\<rparr>) \<and>
    (\<exists>res params' m'. socket_invoke echo_network TA_SOCKET_CMD_SEND (TEE_PARAM_TYPES PT_MEMREF_INPUT PT_MEMREF_INPUT PT_VALUE_INOUT PT_NONE)
       (demo_send (sock_handle_bytes \<lparr>sh_ctx = 77, sh_socket = 4096\<rparr>)) [] = Some (res, params', m') \<and> set m' - {0} = set [] - {0}) \<and>
    socket_invoke echo_network TA_SOCKET_CMD_SEND (TEE_PARAM_TYPES PT_MEMREF_INPUT PT_MEMREF_INPUT PT_VALUE_INOUT PT_NONE)
       (demo_send (sock_handle_bytes \<lparr>sh_ctx = 77, sh_socket = 0\<rparr>)) [] = None"
proof -
  note claim = socket_handles [OF echo_network_laws demo_run]
  have t: "handle_types TA_SOCKET_CMD_SEND = Some (TEE_PARAM_TYPES PT_MEMREF_INPUT PT_MEMREF_INPUT PT_VALUE_INOUT PT_NONE)"
    by (simp add: handle_types_def socket_cmd_defs)
  have u: "unat (16 :: uint32) = 16" by simp
  have d: "of_le64 (drop 8 (sock_handle_bytes \<lparr>sh_ctx = 77, sh_socket = 0\<rparr>)) = 0"
    by (simp add: sock_handle_bytes_def)
  have f: "msize (p0 (demo_send (sock_handle_bytes \<lparr>sh_ctx = 77, sh_socket = 0\<rparr>))) = sizeof_sock_handle" "memref_ok (p0 (demo_send (sock_handle_bytes \<lparr>sh_ctx = 77, sh_socket = 0\<rparr>)))"
    "isocket_at echo_network (of_le64 (take 8 (drop 8 (mbuf (p0 (demo_send (sock_handle_bytes \<lparr>sh_ctx = 77, sh_socket = 0\<rparr>))))))) [] = None"
    by (simp_all add: demo_send_def memref_ok_def sizeof_sock_handle_def u d zero_params_def zero_param_def)
  show ?thesis
    using claim t f demo_send_honest demo_issued by auto
qed

end
