(* ===== verification/Socket_Client.thy ===== *)
theory Socket_Client
  imports Teec Socket_Ta
begin

text \<open>
  Model of \<open>src/host/libsocket/socket.c\<close>, the client of the socket TA.  A string is its characters
  without the terminating zero.  What a function writes through a pointer is a value it returns, and
  the argument it had before where the code reads that.
\<close>

text \<open>\<open>struct socket_handle\<close>: the 16 bytes of \<open>buf\<close> and how many of them the TA has filled\<close>

record socket_handle =
  hbuf :: "u8 list"
  blen :: size_t

definition cleared_handle :: socket_handle where
  "cleared_handle = \<lparr>hbuf = replicate 16 0, blen = 0\<rparr>"

text \<open>\<open>socket_tcp_open\<close> and \<open>socket_udp_open\<close> differ in the command.\<close>

definition socket_open_cmd :: "('w, 'z) teec_api_scheme \<Rightarrow> uint32 \<Rightarrow> oc \<Rightarrow> uint32 \<Rightarrow> u8 list \<Rightarrow> 16 word \<Rightarrow> 'w \<Rightarrow>
    TEEC_Result \<times> socket_handle \<times> uint32 \<times> uint32 \<times> 'w" where
  "socket_open_cmd api cmd c ip_vers addr port w =
     (let handle = cleared_handle;
          op = empty_op\<lparr>op0 := op_value ip_vers (ucast port), op1 := op_tmpref (addr @ [0]) (of_nat (length addr) + 1),
            op2 := op_tmpref (hbuf handle) 16\<rparr>;
          (res, ret_orig, op, w) = TEEC_InvokeCommand api (session c) cmd
            (TEEC_PARAM_TYPES TEEC_VALUE_INPUT TEEC_MEMREF_TEMP_INPUT TEEC_MEMREF_TEMP_OUTPUT TEEC_VALUE_OUTPUT) op w
      in (res, \<lparr>hbuf = tmp_buffer (op2 op), blen = tmp_size (op2 op)\<rparr>, value_a (op3 op), ret_orig, w))"

definition socket_tcp_open where "socket_tcp_open api = socket_open_cmd api TA_SOCKET_CMD_TCP_OPEN"
definition socket_udp_open where "socket_udp_open api = socket_open_cmd api TA_SOCKET_CMD_UDP_OPEN"

definition socket_send :: "('w, 'z) teec_api_scheme \<Rightarrow> oc \<Rightarrow> socket_handle \<Rightarrow> u8 list \<Rightarrow> size_t \<Rightarrow> uint32 \<Rightarrow> 'w \<Rightarrow>
    TEEC_Result \<times> size_t \<times> uint32 \<times> 'w" where
  "socket_send api c handle data dlen timeout w =
     (let op = empty_op\<lparr>op0 := op_tmpref (hbuf handle) (blen handle), op1 := op_tmpref data dlen, op2 := op_value timeout 0\<rparr>;
          (res, ret_orig, op, w) = TEEC_InvokeCommand api (session c) TA_SOCKET_CMD_SEND
            (TEEC_PARAM_TYPES TEEC_MEMREF_TEMP_INPUT TEEC_MEMREF_TEMP_INPUT TEEC_VALUE_INOUT TEEC_NONE) op w
      in (res, ucast (value_b (op2 op)), ret_orig, w))"

definition socket_recv :: "('w, 'z) teec_api_scheme \<Rightarrow> oc \<Rightarrow> socket_handle \<Rightarrow> u8 list \<Rightarrow> size_t \<Rightarrow> uint32 \<Rightarrow> 'w \<Rightarrow>
    TEEC_Result \<times> u8 list \<times> size_t \<times> uint32 \<times> 'w" where
  "socket_recv api c handle data dlen timeout w =
     (let op = empty_op\<lparr>op0 := op_tmpref (hbuf handle) (blen handle), op1 := op_tmpref data dlen, op2 := op_value timeout 0\<rparr>;
          (res, ret_orig, op, w) = TEEC_InvokeCommand api (session c) TA_SOCKET_CMD_RECV
            (TEEC_PARAM_TYPES TEEC_MEMREF_TEMP_INPUT TEEC_MEMREF_TEMP_OUTPUT TEEC_VALUE_INPUT TEEC_NONE) op w
      in (res, tmp_buffer (op1 op), tmp_size (op1 op), ret_orig, w))"

definition socket_get_error :: "('w, 'z) teec_api_scheme \<Rightarrow> oc \<Rightarrow> socket_handle \<Rightarrow> 'w \<Rightarrow>
    TEEC_Result \<times> uint32 \<times> uint32 \<times> 'w" where
  "socket_get_error api c handle w =
     (let op = empty_op\<lparr>op0 := op_tmpref (hbuf handle) (blen handle)\<rparr>;
          (res, ret_orig, op, w) = TEEC_InvokeCommand api (session c) TA_SOCKET_CMD_ERROR
            (TEEC_PARAM_TYPES TEEC_MEMREF_TEMP_INPUT TEEC_VALUE_OUTPUT TEEC_NONE TEEC_NONE) op w
      in (res, value_a (op1 op), ret_orig, w))"

definition socket_close :: "('w, 'z) teec_api_scheme \<Rightarrow> oc \<Rightarrow> socket_handle \<Rightarrow> 'w \<Rightarrow> TEEC_Result \<times> uint32 \<times> 'w" where
  "socket_close api c handle w =
     (let op = empty_op\<lparr>op0 := op_tmpref (hbuf handle) (blen handle)\<rparr>;
          (res, ret_orig, _, w) = TEEC_InvokeCommand api (session c) TA_SOCKET_CMD_CLOSE
            (TEEC_PARAM_TYPES TEEC_MEMREF_TEMP_INPUT TEEC_NONE TEEC_NONE TEEC_NONE) op w
      in (res, ret_orig, w))"

definition socket_ioctl :: "('w, 'z) teec_api_scheme \<Rightarrow> oc \<Rightarrow> socket_handle \<Rightarrow> uint32 \<Rightarrow> u8 list \<Rightarrow> size_t \<Rightarrow> 'w \<Rightarrow>
    TEEC_Result \<times> u8 list \<times> size_t \<times> uint32 \<times> 'w" where
  "socket_ioctl api c handle ioctl_cmd data dlen w =
     (let op = empty_op\<lparr>op0 := op_tmpref (hbuf handle) (blen handle), op1 := op_tmpref data dlen, op2 := op_value ioctl_cmd 0\<rparr>;
          (res, ret_orig, op, w) = TEEC_InvokeCommand api (session c) TA_SOCKET_CMD_IOCTL
            (TEEC_PARAM_TYPES TEEC_MEMREF_TEMP_INPUT TEEC_MEMREF_TEMP_INOUT TEEC_VALUE_INPUT TEEC_NONE) op w
      in (res, tmp_buffer (op1 op), tmp_size (op1 op), ret_orig, w))"

section \<open>The library and the TA together\<close>

lemma inout_ref [simp]:
  "to_ta shm PT_MEMREF_INOUT (op_tmpref buf (ucast n)) = zero_param\<lparr>mbuf := take (unat n) buf, msize := n\<rparr>"
  "tmp_size (from_ta PT_MEMREF_INOUT p q) = ucast (msize q)"
  "tmp_buffer (from_ta PT_MEMREF_INOUT (op_tmpref buf (ucast n)) q) =
     (if msize q \<le> n then take (unat (msize q)) (mbuf q) @ drop (unat (msize q)) buf else buf)"
  by (simp_all add: to_ta_def from_ta_def teec_type_values op_tmpref_def no_param_def word_le_nat_alt)
    (simp_all add: param_type_defs)

text \<open>What a buffer of the client holds when the TA leaves \<open>n'\<close> bytes of the \<open>n\<close> it may fill\<close>

definition filled :: "uint32 \<Rightarrow> u8 list \<Rightarrow> uint32 \<Rightarrow> u8 list \<Rightarrow> u8 list" where
  "filled n data n' buf = (if n' \<le> n then take (unat n') buf @ drop (unat n') data else data)"

definition opened_handle :: "socket_handle \<Rightarrow> size_t \<Rightarrow> size_t \<Rightarrow> bool" where
  "opened_handle h x p \<longleftrightarrow> hbuf h = sock_handle_bytes \<lparr>sh_ctx = x, sh_socket = p\<rparr> \<and> blen h = 16"

text \<open>
  What opening a socket amounts to: a copy of the address, the socket's own \<open>open\<close> with a context of 0,
  and the copy given back.
\<close>

definition connects :: "('m, 'z) socket_api_scheme \<Rightarrow> size_t \<Rightarrow> uint32 \<Rightarrow> u8 list \<Rightarrow> 16 word \<Rightarrow> 'm \<Rightarrow>
    TEE_Result \<Rightarrow> size_t \<Rightarrow> uint32 \<Rightarrow> 'm \<Rightarrow> bool" where
  "connects sapi p vers addr port m res x err m' \<longleftrightarrow> (\<exists>b m1 sock m2.
     TEE_Malloc sapi (of_nat (length addr) + 1) m = (b, m1) \<and> b \<noteq> 0 \<and> isocket_at sapi p m1 = Some sock \<and>
     sock_open sock 0 \<lparr>ip_version = vers, server_addr = addr, server_port = port\<rparr> 0 m1 = (res, x, err, m2) \<and> m' = TEE_Free sapi b m2)"

lemma handle_16: "(16 :: size_t) = ucast sizeof_sock_handle" "unat sizeof_sock_handle = 16"
  by (simp_all add: sizeof_sock_handle_def)

lemma string_size: "Suc n < 2 ^ 32 \<Longrightarrow> (of_nat n + 1 :: size_t) = ucast (of_nat (Suc n) :: uint32)"
proof (rule word_unat_eq_iff [THEN iffD2])
  assume n: "Suc n < 2 ^ 32"
  then have "unat (of_nat (Suc n) :: size_t) = Suc n" by (simp only: unsigned_of_nat) (simp add: take_bit_nat_eq_self)
  then show "unat (of_nat n + 1 :: size_t) = unat (ucast (of_nat (Suc n) :: uint32) :: size_t)"
    using unat_of_nat32 [OF n] by (simp only: unat_ucast_32_64) (simp add: add.commute)
qed

lemma port_back: "ucast (ucast (port :: 16 word) :: uint32) = port"
  by (rule bit_word_eqI) (simp add: bit_simps)

text \<open>The parameter that carries an opened handle\<close>

lemma handle_param:
  assumes "opened_handle h x p"
  shows "op_param_ok (op_tmpref (hbuf h) (blen h))"
    and "to_ta shm PT_MEMREF_INPUT (op_tmpref (hbuf h) (blen h)) =
      zero_param\<lparr>mbuf := sock_handle_bytes \<lparr>sh_ctx = x, sh_socket = p\<rparr>, msize := sizeof_sock_handle\<rparr>"
  using assms by (simp_all add: opened_handle_def handle_16)

lemmas socket_unfold = teec_types teec_type_values socket_dispatch empty_op_ok Let_def

lemma socket_open_served:
  assumes s: "teec_serves api (session c) ta shm (socket_invoke sapi)"
    and cmd: "socket_invoke sapi cmd = socket_open_with sapi p"
    and addr: "0 \<notin> set addr" "Suc (length addr) < 2 ^ 32"
    and o: "connects sapi p vers addr port (ta w) res x err m"
  shows "\<exists>h org w'. socket_open_cmd api cmd c vers addr port w = (res, h, err, org, w') \<and> ta w' = m \<and> blen h = 16 \<and>
    (if res = TEE_SUCCESS then opened_handle h x p else hbuf h = shm w 16)"
proof -
  obtain b m1 sock m2 where b: "TEE_Malloc sapi (of_nat (length addr) + 1) (ta w) = (b, m1)" "b \<noteq> 0"
    and sock: "isocket_at sapi p m1 = Some sock"
    and oo: "sock_open sock 0 \<lparr>ip_version = vers, server_addr = addr, server_port = port\<rparr> 0 m1 = (res, x, err, m2)"
    and m: "m = TEE_Free sapi b m2"
    using o unfolding connects_def by blast
  have "takeWhile (\<lambda>c. c \<noteq> 0) (addr @ [0]) = addr @ takeWhile (\<lambda>c. c \<noteq> 0) [0]"
    using addr(1) by (intro takeWhile_append2) auto
  then have dup: "strndup sapi (addr @ [0]) (Suc (length addr)) (ta w) = Some (b, addr, m1)"
    using b(1) by (simp add: strndup_def Let_def)
  note u = unat_of_nat32 [OF addr(2)]
  have len: "length (shm w 16) = 16" by (rule shm_length [OF s])
  show ?thesis
    using op_served [OF s, where op = "empty_op\<lparr>op0 := op_value vers (ucast port), op1 := op_tmpref (addr @ [0]) (ucast (of_nat (Suc (length addr)) :: uint32)),
        op2 := op_tmpref (hbuf cleared_handle) (ucast sizeof_sock_handle)\<rparr>" and ?t0.0 = PT_VALUE_INPUT and ?t1.0 = PT_MEMREF_INPUT
        and ?t2.0 = PT_MEMREF_OUTPUT and ?t3.0 = PT_VALUE_OUTPUT and cmd = cmd and w = w] b dup sock oo m
    by (cases "res = TEE_SUCCESS") (auto simp: socket_open_cmd_def socket_unfold cmd socket_open_with_def string_size [OF addr(2)] handle_16 u cleared_handle_def
        zero_param_def port_back memcpy_def put_block_def len opened_handle_def simp del: of_nat_Suc unat_of_nat)
qed


lemma socket_close_served:
  assumes s: "teec_serves api (session c) ta shm (socket_invoke sapi)"
    and h: "opened_handle h x p" and sock: "isocket_at sapi p (ta w) = Some sock" and o: "sock_close sock x (ta w) = (res, m)"
  shows "\<exists>org w'. socket_close api c h w = (res, org, w') \<and> ta w' = m"
  using op_served [OF s, where op = "empty_op\<lparr>op0 := op_tmpref (hbuf h) (blen h)\<rparr>" and ?t0.0 = PT_MEMREF_INPUT and ?t1.0 = PT_NONE
      and ?t2.0 = PT_NONE and ?t3.0 = PT_NONE and cmd = TA_SOCKET_CMD_CLOSE and w = w] sock o
  by (auto simp: socket_close_def socket_unfold handle_param [OF h] ta_entry_close_def)

lemma socket_send_served:
  assumes s: "teec_serves api (session c) ta shm (socket_invoke sapi)"
    and h: "opened_handle h x p" and sock: "isocket_at sapi p (ta w) = Some sock" and n: "unat n \<le> length data"
    and o: "sock_send sock x (take (unat n) data) n timeout (ta w) = (res, k, m)"
  shows "\<exists>org w'. socket_send api c h data (ucast n) timeout w = (res, ucast k, org, w') \<and> ta w' = m"
  using op_served [OF s, where op = "empty_op\<lparr>op0 := op_tmpref (hbuf h) (blen h), op1 := op_tmpref data (ucast n), op2 := op_value timeout 0\<rparr>"
      and ?t0.0 = PT_MEMREF_INPUT and ?t1.0 = PT_MEMREF_INPUT
      and ?t2.0 = PT_VALUE_INOUT and ?t3.0 = PT_NONE and cmd = TA_SOCKET_CMD_SEND and w = w] sock o n
  by (auto simp: socket_send_def socket_unfold handle_param [OF h] ta_entry_send_def)

lemma socket_recv_served:
  assumes s: "teec_serves api (session c) ta shm (socket_invoke sapi)"
    and h: "opened_handle h x p" and sock: "isocket_at sapi p (ta w) = Some sock" and n: "unat n \<le> length data"
    and o: "sock_recv sock x (shm w (unat n)) n timeout (ta w) = (res, buf, k, m)"
  shows "\<exists>org w'. socket_recv api c h data (ucast n) timeout w = (res, filled n data k buf, ucast k, org, w') \<and> ta w' = m"
  using op_served [OF s, where op = "empty_op\<lparr>op0 := op_tmpref (hbuf h) (blen h), op1 := op_tmpref data (ucast n), op2 := op_value timeout 0\<rparr>"
      and ?t0.0 = PT_MEMREF_INPUT and ?t1.0 = PT_MEMREF_OUTPUT
      and ?t2.0 = PT_VALUE_INPUT and ?t3.0 = PT_NONE and cmd = TA_SOCKET_CMD_RECV and w = w] sock o n
  by (auto simp: socket_recv_def socket_unfold handle_param [OF h] ta_entry_recv_def filled_def)

lemma socket_error_served:
  assumes s: "teec_serves api (session c) ta shm (socket_invoke sapi)"
    and h: "opened_handle h x p" and sock: "isocket_at sapi p (ta w) = Some sock" and o: "sock_error sock x (ta w) = (err, m)"
  shows "\<exists>org w'. socket_get_error api c h w = (TEE_SUCCESS, err, org, w') \<and> ta w' = m"
  using op_served [OF s, where op = "empty_op\<lparr>op0 := op_tmpref (hbuf h) (blen h)\<rparr>" and ?t0.0 = PT_MEMREF_INPUT and ?t1.0 = PT_VALUE_OUTPUT
      and ?t2.0 = PT_NONE and ?t3.0 = PT_NONE and cmd = TA_SOCKET_CMD_ERROR and w = w] sock o
  by (auto simp: socket_get_error_def socket_unfold handle_param [OF h] ta_entry_error_def)

lemma socket_ioctl_served:
  assumes s: "teec_serves api (session c) ta shm (socket_invoke sapi)"
    and h: "opened_handle h x p" and sock: "isocket_at sapi p (ta w) = Some sock" and n: "unat n \<le> length data"
    and o: "sock_ioctl sock x k (take (unat n) data) n (ta w) = (res, buf, l, m)"
  shows "\<exists>org w'. socket_ioctl api c h k data (ucast n) w = (res, filled n data l buf, ucast l, org, w') \<and> ta w' = m"
  using op_served [OF s, where op = "empty_op\<lparr>op0 := op_tmpref (hbuf h) (blen h), op1 := op_tmpref data (ucast n), op2 := op_value k 0\<rparr>"
      and ?t0.0 = PT_MEMREF_INPUT and ?t1.0 = PT_MEMREF_INOUT
      and ?t2.0 = PT_VALUE_INPUT and ?t3.0 = PT_NONE and cmd = TA_SOCKET_CMD_IOCTL and w = w] sock o n
  by (auto simp: socket_ioctl_def socket_unfold handle_param [OF h] ta_entry_ioctl_def filled_def)

text \<open>
  C25.  The library refines the socket API: opening a TCP or UDP socket runs the \<open>open\<close> of that socket on
  the address and port of the client and returns its result and protocol error, and with an opened handle
  each of the other five functions runs the function of the same socket on the same context and returns
  what it returned, with the bytes that fit the buffer of the client.  When opening fails the handle
  claims 16 bytes all the same, and they are what the shared memory held.
\<close>

theorem socket_library_forwards:
  assumes s: "teec_serves api (session c) ta shm (socket_invoke sapi)"
    and h: "opened_handle h x p" and sock: "isocket_at sapi p (ta w) = Some sock"
    and n: "unat n \<le> length data" and addr: "0 \<notin> set addr" "Suc (length addr) < 2 ^ 32"
    and tcp: "connects sapi (TEE_tcpSocket sapi) vers addr port (ta w) res1 x1 err1 m1"
    and udp: "connects sapi (TEE_udpSocket sapi) vers addr port (ta w) res2 x2 err2 m2"
  shows "(\<exists>h' org w'. socket_tcp_open api c vers addr port w = (res1, h', err1, org, w') \<and> ta w' = m1 \<and> blen h' = 16 \<and>
      (if res1 = TEE_SUCCESS then opened_handle h' x1 (TEE_tcpSocket sapi) else hbuf h' = shm w 16)) \<and>
    (\<exists>h' org w'. socket_udp_open api c vers addr port w = (res2, h', err2, org, w') \<and> ta w' = m2 \<and> blen h' = 16 \<and>
      (if res2 = TEE_SUCCESS then opened_handle h' x2 (TEE_udpSocket sapi) else hbuf h' = shm w 16)) \<and>
    (case sock_close sock x (ta w) of (res, m) \<Rightarrow> \<exists>org w'. socket_close api c h w = (res, org, w') \<and> ta w' = m) \<and>
    (case sock_send sock x (take (unat n) data) n timeout (ta w) of (res, k, m) \<Rightarrow>
      \<exists>org w'. socket_send api c h data (ucast n) timeout w = (res, ucast k, org, w') \<and> ta w' = m) \<and>
    (case sock_recv sock x (shm w (unat n)) n timeout (ta w) of (res, buf, k, m) \<Rightarrow>
      \<exists>org w'. socket_recv api c h data (ucast n) timeout w = (res, filled n data k buf, ucast k, org, w') \<and> ta w' = m) \<and>
    (case sock_error sock x (ta w) of (err, m) \<Rightarrow>
      \<exists>org w'. socket_get_error api c h w = (TEE_SUCCESS, err, org, w') \<and> ta w' = m) \<and>
    (case sock_ioctl sock x k (take (unat n) data) n (ta w) of (res, buf, l, m) \<Rightarrow>
      \<exists>org w'. socket_ioctl api c h k data (ucast n) w = (res, filled n data l buf, ucast l, org, w') \<and> ta w' = m)"
proof (intro conjI)
  have cmd: "socket_invoke sapi TA_SOCKET_CMD_TCP_OPEN = socket_open_with sapi (TEE_tcpSocket sapi)"
    "socket_invoke sapi TA_SOCKET_CMD_UDP_OPEN = socket_open_with sapi (TEE_udpSocket sapi)"
    by (intro ext; simp add: socket_dispatch ta_entry_tcp_open_def ta_entry_udp_open_def)+
  show "\<exists>h' org w'. socket_tcp_open api c vers addr port w = (res1, h', err1, org, w') \<and> ta w' = m1 \<and> blen h' = 16 \<and>
      (if res1 = TEE_SUCCESS then opened_handle h' x1 (TEE_tcpSocket sapi) else hbuf h' = shm w 16)"
    unfolding socket_tcp_open_def by (rule socket_open_served [OF s cmd(1) addr tcp])
  show "\<exists>h' org w'. socket_udp_open api c vers addr port w = (res2, h', err2, org, w') \<and> ta w' = m2 \<and> blen h' = 16 \<and>
      (if res2 = TEE_SUCCESS then opened_handle h' x2 (TEE_udpSocket sapi) else hbuf h' = shm w 16)"
    unfolding socket_udp_open_def by (rule socket_open_served [OF s cmd(2) addr udp])
qed (clarsimp split: prod.splits; rule socket_close_served [OF s h sock] socket_send_served [OF s h sock n]
    socket_recv_served [OF s h sock n] socket_error_served [OF s h sock] socket_ioctl_served [OF s h sock n]; assumption)+

lemma echo_connects: "p = 4096 \<or> p = 8192 \<Longrightarrow> connects echo_network p 1 [49] 80 [] TEE_SUCCESS 77 0 []"
  by (auto simp: connects_def list_heap_def echo_socket_def)

lemma socket_library_forwards_witness:
  "(\<exists>h' org w'. socket_tcp_open (direct_teec (socket_invoke echo_network)) \<lparr>ctx = 1, session = 2, oc_error = 0\<rparr> 1 [49] 80 [] = (TEE_SUCCESS, h', 0, org, w') \<and> w' = [] \<and> blen h' = 16 \<and>
      (if TEE_SUCCESS = TEE_SUCCESS then opened_handle h' 77 (TEE_tcpSocket echo_network) else hbuf h' = replicate 16 0)) \<and>
    (\<exists>h' org w'. socket_udp_open (direct_teec (socket_invoke echo_network)) \<lparr>ctx = 1, session = 2, oc_error = 0\<rparr> 1 [49] 80 [] = (TEE_SUCCESS, h', 0, org, w') \<and> w' = [] \<and> blen h' = 16 \<and>
      (if TEE_SUCCESS = TEE_SUCCESS then opened_handle h' 77 (TEE_udpSocket echo_network) else hbuf h' = replicate 16 0)) \<and>
    (case sock_close echo_socket 77 [] of (res, m) \<Rightarrow>
      \<exists>org w'. socket_close (direct_teec (socket_invoke echo_network)) \<lparr>ctx = 1, session = 2, oc_error = 0\<rparr> \<lparr>hbuf = sock_handle_bytes \<lparr>sh_ctx = 77, sh_socket = 8192\<rparr>, blen = 16\<rparr> [] = (res, org, w') \<and> w' = m) \<and>
    (case sock_send echo_socket 77 (take (unat (2 :: uint32)) [5, 6, 7]) 2 9 [] of (res, k, m) \<Rightarrow>
      \<exists>org w'. socket_send (direct_teec (socket_invoke echo_network)) \<lparr>ctx = 1, session = 2, oc_error = 0\<rparr> \<lparr>hbuf = sock_handle_bytes \<lparr>sh_ctx = 77, sh_socket = 8192\<rparr>, blen = 16\<rparr> [5, 6, 7] (ucast (2 :: uint32)) 9 [] = (res, ucast k, org, w') \<and> w' = m) \<and>
    (case sock_recv echo_socket 77 (replicate (unat (2 :: uint32)) 0) 2 9 [] of (res, buf, k, m) \<Rightarrow>
      \<exists>org w'. socket_recv (direct_teec (socket_invoke echo_network)) \<lparr>ctx = 1, session = 2, oc_error = 0\<rparr> \<lparr>hbuf = sock_handle_bytes \<lparr>sh_ctx = 77, sh_socket = 8192\<rparr>, blen = 16\<rparr> [5, 6, 7] (ucast (2 :: uint32)) 9 [] = (res, filled 2 [5, 6, 7] k buf, ucast k, org, w') \<and> w' = m) \<and>
    (case sock_error echo_socket 77 [] of (err, m) \<Rightarrow>
      \<exists>org w'. socket_get_error (direct_teec (socket_invoke echo_network)) \<lparr>ctx = 1, session = 2, oc_error = 0\<rparr> \<lparr>hbuf = sock_handle_bytes \<lparr>sh_ctx = 77, sh_socket = 8192\<rparr>, blen = 16\<rparr> [] = (TEE_SUCCESS, err, org, w') \<and> w' = m) \<and>
    (case sock_ioctl echo_socket 77 3 (take (unat (2 :: uint32)) [5, 6, 7]) 2 [] of (res, buf, l, m) \<Rightarrow>
      \<exists>org w'. socket_ioctl (direct_teec (socket_invoke echo_network)) \<lparr>ctx = 1, session = 2, oc_error = 0\<rparr> \<lparr>hbuf = sock_handle_bytes \<lparr>sh_ctx = 77, sh_socket = 8192\<rparr>, blen = 16\<rparr> 3 [5, 6, 7] (ucast (2 :: uint32)) [] = (res, filled 2 [5, 6, 7] l buf, ucast l, org, w') \<and> w' = m)"
  by (rule socket_library_forwards [OF direct_teec_serves])
    (auto simp: opened_handle_def echo_connects)

end
