(* ===== verification/Crypt_Client.thy ===== *)
theory Crypt_Client
  imports Teec Crypt_Entry
begin

text \<open>
  Model of \<open>src/host/libcrypt/crypt.c\<close> and of the functions of \<open>helpers.c\<close> beside \<open>pack_attrs\<close>
  (\<open>Attr_Codec\<close>): the client of the crypt TA.  A handle of the client is a pointer that has to fit 32
  bits: \<open>assert\<close> ends the program otherwise, \<^term>\<open>None\<close>.  A result that a function writes through a
  pointer is a value it returns, and where the code leaves it alone the value it was given.  An input
  that may be \<open>NULL\<close> is an option.  \<open>calloc\<close> tells whether a block can be allocated.
\<close>

section \<open>Commands\<close>

definition TA_CRYPT_CMD_ALLOCATE_OPERATION :: uint32 where "TA_CRYPT_CMD_ALLOCATE_OPERATION = 5"
definition TA_CRYPT_CMD_FREE_OPERATION :: uint32 where "TA_CRYPT_CMD_FREE_OPERATION = 6"
definition TA_CRYPT_CMD_RESET_OPERATION :: uint32 where "TA_CRYPT_CMD_RESET_OPERATION = 8"
definition TA_CRYPT_CMD_SET_OPERATION_KEY :: uint32 where "TA_CRYPT_CMD_SET_OPERATION_KEY = 9"
definition TA_CRYPT_CMD_SET_OPERATION_KEY2 :: uint32 where "TA_CRYPT_CMD_SET_OPERATION_KEY2 = 10"
definition TA_CRYPT_CMD_COPY_OPERATION :: uint32 where "TA_CRYPT_CMD_COPY_OPERATION = 11"
definition TA_CRYPT_CMD_DIGEST_UPDATE :: uint32 where "TA_CRYPT_CMD_DIGEST_UPDATE = 12"
definition TA_CRYPT_CMD_DIGEST_DO_FINAL :: uint32 where "TA_CRYPT_CMD_DIGEST_DO_FINAL = 13"
definition TA_CRYPT_CMD_CIPHER_INIT :: uint32 where "TA_CRYPT_CMD_CIPHER_INIT = 14"
definition TA_CRYPT_CMD_CIPHER_UPDATE :: uint32 where "TA_CRYPT_CMD_CIPHER_UPDATE = 15"
definition TA_CRYPT_CMD_CIPHER_DO_FINAL :: uint32 where "TA_CRYPT_CMD_CIPHER_DO_FINAL = 16"
definition TA_CRYPT_CMD_MAC_INIT :: uint32 where "TA_CRYPT_CMD_MAC_INIT = 17"
definition TA_CRYPT_CMD_MAC_UPDATE :: uint32 where "TA_CRYPT_CMD_MAC_UPDATE = 18"
definition TA_CRYPT_CMD_MAC_FINAL_COMPUTE :: uint32 where "TA_CRYPT_CMD_MAC_FINAL_COMPUTE = 19"
definition TA_CRYPT_CMD_ALLOCATE_TRANSIENT_OBJECT :: uint32 where "TA_CRYPT_CMD_ALLOCATE_TRANSIENT_OBJECT = 21"
definition TA_CRYPT_CMD_FREE_TRANSIENT_OBJECT :: uint32 where "TA_CRYPT_CMD_FREE_TRANSIENT_OBJECT = 22"
definition TA_CRYPT_CMD_RESET_TRANSIENT_OBJECT :: uint32 where "TA_CRYPT_CMD_RESET_TRANSIENT_OBJECT = 23"
definition TA_CRYPT_CMD_POPULATE_TRANSIENT_OBJECT :: uint32 where "TA_CRYPT_CMD_POPULATE_TRANSIENT_OBJECT = 24"
definition TA_CRYPT_CMD_GENERATE_KEY :: uint32 where "TA_CRYPT_CMD_GENERATE_KEY = 26"
definition TA_CRYPT_CMD_ASYMMETRIC_ENCRYPT :: uint32 where "TA_CRYPT_CMD_ASYMMETRIC_ENCRYPT = 27"
definition TA_CRYPT_CMD_ASYMMETRIC_DECRYPT :: uint32 where "TA_CRYPT_CMD_ASYMMETRIC_DECRYPT = 28"
definition TA_CRYPT_CMD_ASYMMETRIC_SIGN_DIGEST :: uint32 where "TA_CRYPT_CMD_ASYMMETRIC_SIGN_DIGEST = 29"
definition TA_CRYPT_CMD_ASYMMETRIC_VERIFY_DIGEST :: uint32 where "TA_CRYPT_CMD_ASYMMETRIC_VERIFY_DIGEST = 30"
definition TA_CRYPT_CMD_DERIVE_KEY :: uint32 where "TA_CRYPT_CMD_DERIVE_KEY = 31"
definition TA_CRYPT_CMD_RANDOM_NUMBER_GENEREATE :: uint32 where "TA_CRYPT_CMD_RANDOM_NUMBER_GENEREATE = 32"
definition TA_CRYPT_CMD_AE_INIT :: uint32 where "TA_CRYPT_CMD_AE_INIT = 33"
definition TA_CRYPT_CMD_AE_UPDATE_AAD :: uint32 where "TA_CRYPT_CMD_AE_UPDATE_AAD = 34"
definition TA_CRYPT_CMD_AE_UPDATE :: uint32 where "TA_CRYPT_CMD_AE_UPDATE = 35"
definition TA_CRYPT_CMD_AE_ENCRYPT_FINAL :: uint32 where "TA_CRYPT_CMD_AE_ENCRYPT_FINAL = 36"
definition TA_CRYPT_CMD_AE_DECRYPT_FINAL :: uint32 where "TA_CRYPT_CMD_AE_DECRYPT_FINAL = 37"
definition TA_CRYPT_CMD_GET_OBJECT_BUFFER_ATTRIBUTE :: uint32 where "TA_CRYPT_CMD_GET_OBJECT_BUFFER_ATTRIBUTE = 38"
definition TA_CRYPT_CMD_GET_OBJECT_VALUE_ATTRIBUTE :: uint32 where "TA_CRYPT_CMD_GET_OBJECT_VALUE_ATTRIBUTE = 39"

lemmas cryp_cmd_defs = TA_CRYPT_CMD_ALLOCATE_OPERATION_def TA_CRYPT_CMD_FREE_OPERATION_def
  TA_CRYPT_CMD_RESET_OPERATION_def TA_CRYPT_CMD_SET_OPERATION_KEY_def
  TA_CRYPT_CMD_SET_OPERATION_KEY2_def TA_CRYPT_CMD_COPY_OPERATION_def
  TA_CRYPT_CMD_DIGEST_UPDATE_def TA_CRYPT_CMD_DIGEST_DO_FINAL_def
  TA_CRYPT_CMD_CIPHER_INIT_def TA_CRYPT_CMD_CIPHER_UPDATE_def
  TA_CRYPT_CMD_CIPHER_DO_FINAL_def TA_CRYPT_CMD_MAC_INIT_def
  TA_CRYPT_CMD_MAC_UPDATE_def TA_CRYPT_CMD_MAC_FINAL_COMPUTE_def
  TA_CRYPT_CMD_ALLOCATE_TRANSIENT_OBJECT_def TA_CRYPT_CMD_FREE_TRANSIENT_OBJECT_def
  TA_CRYPT_CMD_RESET_TRANSIENT_OBJECT_def TA_CRYPT_CMD_POPULATE_TRANSIENT_OBJECT_def
  TA_CRYPT_CMD_GENERATE_KEY_def TA_CRYPT_CMD_ASYMMETRIC_ENCRYPT_def
  TA_CRYPT_CMD_ASYMMETRIC_DECRYPT_def TA_CRYPT_CMD_ASYMMETRIC_SIGN_DIGEST_def
  TA_CRYPT_CMD_ASYMMETRIC_VERIFY_DIGEST_def TA_CRYPT_CMD_DERIVE_KEY_def
  TA_CRYPT_CMD_RANDOM_NUMBER_GENEREATE_def TA_CRYPT_CMD_AE_INIT_def
  TA_CRYPT_CMD_AE_UPDATE_AAD_def TA_CRYPT_CMD_AE_UPDATE_def
  TA_CRYPT_CMD_AE_ENCRYPT_FINAL_def TA_CRYPT_CMD_AE_DECRYPT_FINAL_def
  TA_CRYPT_CMD_GET_OBJECT_BUFFER_ATTRIBUTE_def TA_CRYPT_CMD_GET_OBJECT_VALUE_ATTRIBUTE_def

definition UINT32_MAX :: size_t where "UINT32_MAX = 0xFFFFFFFF"

text \<open>\<open>assert((uintptr_t)h <= UINT32_MAX)\<close> for each handle\<close>

definition assert_handles :: "size_t list \<Rightarrow> 'a option \<Rightarrow> 'a option" where
  "assert_handles hs r = (if \<forall>h \<in> set hs. h \<le> UINT32_MAX then r else None)"

definition crypt_command :: "('w, 'z) teec_api_scheme \<Rightarrow> oc \<Rightarrow> uint32 \<Rightarrow> uint32 \<Rightarrow> teec_operation \<Rightarrow> 'w \<Rightarrow>
    TEEC_Result \<times> teec_operation \<times> 'w" where
  "crypt_command api c cmd types op w = (let (res, _, op, w) = TEEC_InvokeCommand api (session c) cmd types op w in (res, op, w))"

section \<open>Data commands\<close>

definition ta_crypt_cmd_sha256 ::
  "('w, 'z) teec_api_scheme \<Rightarrow> oc \<Rightarrow> u8 list \<Rightarrow> size_t \<Rightarrow> u8 list \<Rightarrow> size_t \<Rightarrow> 'w \<Rightarrow> TEEC_Result \<times> u8 list \<times> size_t \<times> 'w" where
  "ta_crypt_cmd_sha256 api c src src_len dst dst_len w =
     (let (res, op, w) = crypt_command api c TA_CRYPT_CMD_SHA256
            (TEEC_PARAM_TYPES TEEC_MEMREF_TEMP_INPUT TEEC_MEMREF_TEMP_OUTPUT TEEC_NONE TEEC_NONE)
            (empty_op\<lparr>op0 := op_tmpref src src_len, op1 := op_tmpref dst dst_len\<rparr>) w
      in (res, tmp_buffer (op1 op), if res = TEEC_SUCCESS then tmp_size (op1 op) else dst_len, w))"

definition ta_crypt_cmd_aes256ecb_enc ::
  "('w, 'z) teec_api_scheme \<Rightarrow> oc \<Rightarrow> u8 list \<Rightarrow> size_t \<Rightarrow> u8 list \<Rightarrow> size_t \<Rightarrow> 'w \<Rightarrow> TEEC_Result \<times> u8 list \<times> size_t \<times> 'w" where
  "ta_crypt_cmd_aes256ecb_enc api c src src_len dst dst_len w =
     (let (res, op, w) = crypt_command api c TA_CRYPT_CMD_AES256ECB_ENC
            (TEEC_PARAM_TYPES TEEC_MEMREF_TEMP_INPUT TEEC_MEMREF_TEMP_OUTPUT TEEC_NONE TEEC_NONE)
            (empty_op\<lparr>op0 := op_tmpref src src_len, op1 := op_tmpref dst dst_len\<rparr>) w
      in (res, tmp_buffer (op1 op), if res = TEEC_SUCCESS then tmp_size (op1 op) else dst_len, w))"

definition ta_crypt_cmd_aes256ecb_dec ::
  "('w, 'z) teec_api_scheme \<Rightarrow> oc \<Rightarrow> u8 list \<Rightarrow> size_t \<Rightarrow> u8 list \<Rightarrow> size_t \<Rightarrow> 'w \<Rightarrow> TEEC_Result \<times> u8 list \<times> size_t \<times> 'w" where
  "ta_crypt_cmd_aes256ecb_dec api c src src_len dst dst_len w =
     (let (res, op, w) = crypt_command api c TA_CRYPT_CMD_AES256ECB_DEC
            (TEEC_PARAM_TYPES TEEC_MEMREF_TEMP_INPUT TEEC_MEMREF_TEMP_OUTPUT TEEC_NONE TEEC_NONE)
            (empty_op\<lparr>op0 := op_tmpref src src_len, op1 := op_tmpref dst dst_len\<rparr>) w
      in (res, tmp_buffer (op1 op), if res = TEEC_SUCCESS then tmp_size (op1 op) else dst_len, w))"

section \<open>Operations\<close>

definition ta_crypt_cmd_allocate_operation ::
  "('w, 'z) teec_api_scheme \<Rightarrow> oc \<Rightarrow> size_t \<Rightarrow> uint32 \<Rightarrow> uint32 \<Rightarrow> uint32 \<Rightarrow> 'w \<Rightarrow> TEEC_Result \<times> size_t \<times> 'w" where
  "ta_crypt_cmd_allocate_operation api c oph algo mode max_key_size w =
     (let (res, op, w) = crypt_command api c TA_CRYPT_CMD_ALLOCATE_OPERATION
            (TEEC_PARAM_TYPES TEEC_VALUE_INOUT TEEC_VALUE_INPUT TEEC_NONE TEEC_NONE)
            (empty_op\<lparr>op0 := op_value 0 algo, op1 := op_value mode max_key_size\<rparr>) w
      in (res, if res = TEEC_SUCCESS then ucast (teec_param.value_a (op0 op)) else oph, w))"

definition ta_crypt_cmd_free_operation ::
  "('w, 'z) teec_api_scheme \<Rightarrow> oc \<Rightarrow> size_t \<Rightarrow> 'w \<Rightarrow> TEEC_Result \<times> 'w" where
  "ta_crypt_cmd_free_operation api c oph w =
     (let (res, _, w) = crypt_command api c TA_CRYPT_CMD_FREE_OPERATION
            (TEEC_PARAM_TYPES TEEC_VALUE_INPUT TEEC_NONE TEEC_NONE TEEC_NONE)
            (empty_op\<lparr>op0 := op_value (ucast oph) 0\<rparr>) w
      in (res, w))"

definition ta_crypt_cmd_reset_operation ::
  "('w, 'z) teec_api_scheme \<Rightarrow> oc \<Rightarrow> size_t \<Rightarrow> 'w \<Rightarrow> (TEEC_Result \<times> 'w) option" where
  "ta_crypt_cmd_reset_operation api c oph w =
     assert_handles [oph] (
       (let (res, _, w) = crypt_command api c TA_CRYPT_CMD_RESET_OPERATION
              (TEEC_PARAM_TYPES TEEC_VALUE_INPUT TEEC_NONE TEEC_NONE TEEC_NONE)
              (empty_op\<lparr>op0 := op_value (ucast oph) 0\<rparr>) w
        in Some (res, w)))"

definition ta_crypt_cmd_copy_operation ::
  "('w, 'z) teec_api_scheme \<Rightarrow> oc \<Rightarrow> size_t \<Rightarrow> size_t \<Rightarrow> 'w \<Rightarrow> (TEEC_Result \<times> 'w) option" where
  "ta_crypt_cmd_copy_operation api c dst_oph src_oph w =
     assert_handles [dst_oph, src_oph] (
       (let (res, _, w) = crypt_command api c TA_CRYPT_CMD_COPY_OPERATION
              (TEEC_PARAM_TYPES TEEC_VALUE_INPUT TEEC_NONE TEEC_NONE TEEC_NONE)
              (empty_op\<lparr>op0 := op_value (ucast dst_oph) (ucast src_oph)\<rparr>) w
        in Some (res, w)))"

definition ta_crypt_cmd_set_operation_key ::
  "('w, 'z) teec_api_scheme \<Rightarrow> oc \<Rightarrow> size_t \<Rightarrow> size_t \<Rightarrow> 'w \<Rightarrow> (TEEC_Result \<times> 'w) option" where
  "ta_crypt_cmd_set_operation_key api c oph key w =
     assert_handles [oph, key] (
       (let (res, _, w) = crypt_command api c TA_CRYPT_CMD_SET_OPERATION_KEY
              (TEEC_PARAM_TYPES TEEC_VALUE_INPUT TEEC_NONE TEEC_NONE TEEC_NONE)
              (empty_op\<lparr>op0 := op_value (ucast oph) (ucast key)\<rparr>) w
        in Some (res, w)))"

definition ta_crypt_cmd_set_operation_key2 ::
  "('w, 'z) teec_api_scheme \<Rightarrow> oc \<Rightarrow> size_t \<Rightarrow> size_t \<Rightarrow> size_t \<Rightarrow> 'w \<Rightarrow> (TEEC_Result \<times> 'w) option" where
  "ta_crypt_cmd_set_operation_key2 api c oph key1 key2 w =
     assert_handles [oph, key1, key2] (
       (let (res, _, w) = crypt_command api c TA_CRYPT_CMD_SET_OPERATION_KEY2
              (TEEC_PARAM_TYPES TEEC_VALUE_INPUT TEEC_VALUE_INPUT TEEC_NONE TEEC_NONE)
              (empty_op\<lparr>op0 := op_value (ucast oph) (ucast key1), op1 := op_value (ucast key2) 0\<rparr>) w
        in Some (res, w)))"

section \<open>Digests, ciphers and MACs\<close>

definition ta_crypt_cmd_digest_update ::
  "('w, 'z) teec_api_scheme \<Rightarrow> oc \<Rightarrow> size_t \<Rightarrow> u8 list \<Rightarrow> size_t \<Rightarrow> 'w \<Rightarrow> (TEEC_Result \<times> 'w) option" where
  "ta_crypt_cmd_digest_update api c oph chunk chunk_size w =
     assert_handles [oph] (
       (let (res, _, w) = crypt_command api c TA_CRYPT_CMD_DIGEST_UPDATE
              (TEEC_PARAM_TYPES TEEC_VALUE_INPUT TEEC_MEMREF_TEMP_INPUT TEEC_NONE TEEC_NONE)
              (empty_op\<lparr>op0 := op_value (ucast oph) 0, op1 := op_tmpref chunk chunk_size\<rparr>) w
        in Some (res, w)))"

definition ta_crypt_cmd_digest_do_final ::
  "('w, 'z) teec_api_scheme \<Rightarrow> oc \<Rightarrow> size_t \<Rightarrow> u8 list \<Rightarrow> size_t \<Rightarrow> u8 list \<Rightarrow> size_t \<Rightarrow> 'w \<Rightarrow> (TEEC_Result \<times> u8 list \<times> size_t \<times> 'w) option" where
  "ta_crypt_cmd_digest_do_final api c oph chunk chunk_len hash hash_len w =
     assert_handles [oph] (
       (let (res, op, w) = crypt_command api c TA_CRYPT_CMD_DIGEST_DO_FINAL
              (TEEC_PARAM_TYPES TEEC_VALUE_INPUT TEEC_MEMREF_TEMP_INPUT TEEC_MEMREF_TEMP_OUTPUT TEEC_NONE)
              (empty_op\<lparr>op0 := op_value (ucast oph) 0, op1 := op_tmpref chunk chunk_len, op2 := op_tmpref hash hash_len\<rparr>) w
        in Some (res, tmp_buffer (op2 op), if res = TEEC_SUCCESS then tmp_size (op2 op) else hash_len, w)))"

definition ta_crypt_cmd_mac_init ::
  "('w, 'z) teec_api_scheme \<Rightarrow> oc \<Rightarrow> size_t \<Rightarrow> u8 list option \<Rightarrow> size_t \<Rightarrow> 'w \<Rightarrow> (TEEC_Result \<times> 'w) option" where
  "ta_crypt_cmd_mac_init api c oph iv iv_len w =
     assert_handles [oph] (
       let (res, _, w) = (case iv of
            Some iv \<Rightarrow> crypt_command api c TA_CRYPT_CMD_MAC_INIT
              (TEEC_PARAM_TYPES TEEC_VALUE_INPUT TEEC_MEMREF_TEMP_INPUT TEEC_NONE TEEC_NONE)
              (empty_op\<lparr>op0 := op_value (ucast oph) 0, op1 := op_tmpref iv iv_len\<rparr>) w
          | None \<Rightarrow> crypt_command api c TA_CRYPT_CMD_MAC_INIT
              (TEEC_PARAM_TYPES TEEC_VALUE_INPUT TEEC_NONE TEEC_NONE TEEC_NONE)
              (empty_op\<lparr>op0 := op_value (ucast oph) 0\<rparr>) w)
       in Some (res, w))"

definition ta_crypt_cmd_mac_update ::
  "('w, 'z) teec_api_scheme \<Rightarrow> oc \<Rightarrow> size_t \<Rightarrow> u8 list \<Rightarrow> size_t \<Rightarrow> 'w \<Rightarrow> (TEEC_Result \<times> 'w) option" where
  "ta_crypt_cmd_mac_update api c oph chunk chunk_size w =
     assert_handles [oph] (
       (let (res, _, w) = crypt_command api c TA_CRYPT_CMD_MAC_UPDATE
              (TEEC_PARAM_TYPES TEEC_VALUE_INPUT TEEC_MEMREF_TEMP_INPUT TEEC_NONE TEEC_NONE)
              (empty_op\<lparr>op0 := op_value (ucast oph) 0, op1 := op_tmpref chunk chunk_size\<rparr>) w
        in Some (res, w)))"

definition ta_crypt_cmd_mac_final_compute ::
  "('w, 'z) teec_api_scheme \<Rightarrow> oc \<Rightarrow> size_t \<Rightarrow> u8 list \<Rightarrow> size_t \<Rightarrow> u8 list \<Rightarrow> size_t \<Rightarrow> 'w \<Rightarrow> (TEEC_Result \<times> u8 list \<times> size_t \<times> 'w) option" where
  "ta_crypt_cmd_mac_final_compute api c oph chunk chunk_len hash hash_len w =
     assert_handles [oph] (
       (let (res, op, w) = crypt_command api c TA_CRYPT_CMD_MAC_FINAL_COMPUTE
              (TEEC_PARAM_TYPES TEEC_VALUE_INPUT TEEC_MEMREF_TEMP_INPUT TEEC_MEMREF_TEMP_OUTPUT TEEC_NONE)
              (empty_op\<lparr>op0 := op_value (ucast oph) 0, op1 := op_tmpref chunk chunk_len, op2 := op_tmpref hash hash_len\<rparr>) w
        in Some (res, tmp_buffer (op2 op), if res = TEEC_SUCCESS then tmp_size (op2 op) else hash_len, w)))"

definition ta_crypt_cmd_cipher_init ::
  "('w, 'z) teec_api_scheme \<Rightarrow> oc \<Rightarrow> size_t \<Rightarrow> u8 list option \<Rightarrow> size_t \<Rightarrow> 'w \<Rightarrow> (TEEC_Result \<times> 'w) option" where
  "ta_crypt_cmd_cipher_init api c oph iv iv_len w =
     assert_handles [oph] (
       let (res, _, w) = (case iv of
            Some iv \<Rightarrow> crypt_command api c TA_CRYPT_CMD_CIPHER_INIT
              (TEEC_PARAM_TYPES TEEC_VALUE_INPUT TEEC_MEMREF_TEMP_INPUT TEEC_NONE TEEC_NONE)
              (empty_op\<lparr>op0 := op_value (ucast oph) 0, op1 := op_tmpref iv iv_len\<rparr>) w
          | None \<Rightarrow> crypt_command api c TA_CRYPT_CMD_CIPHER_INIT
              (TEEC_PARAM_TYPES TEEC_VALUE_INPUT TEEC_NONE TEEC_NONE TEEC_NONE)
              (empty_op\<lparr>op0 := op_value (ucast oph) 0\<rparr>) w)
       in Some (res, w))"

definition ta_crypt_cmd_cipher_update ::
  "('w, 'z) teec_api_scheme \<Rightarrow> oc \<Rightarrow> size_t \<Rightarrow> u8 list \<Rightarrow> size_t \<Rightarrow> u8 list \<Rightarrow> size_t \<Rightarrow> 'w \<Rightarrow> (TEEC_Result \<times> u8 list \<times> size_t \<times> 'w) option" where
  "ta_crypt_cmd_cipher_update api c oph src src_len dst dst_len w =
     assert_handles [oph] (
       (let (res, op, w) = crypt_command api c TA_CRYPT_CMD_CIPHER_UPDATE
              (TEEC_PARAM_TYPES TEEC_VALUE_INPUT TEEC_MEMREF_TEMP_INPUT TEEC_MEMREF_TEMP_OUTPUT TEEC_NONE)
              (empty_op\<lparr>op0 := op_value (ucast oph) 0, op1 := op_tmpref src src_len, op2 := op_tmpref dst dst_len\<rparr>) w
        in Some (res, tmp_buffer (op2 op), if res = TEEC_SUCCESS then tmp_size (op2 op) else dst_len, w)))"

definition ta_crypt_cmd_cipher_do_final ::
  "('w, 'z) teec_api_scheme \<Rightarrow> oc \<Rightarrow> size_t \<Rightarrow> u8 list \<Rightarrow> size_t \<Rightarrow> u8 list \<Rightarrow> size_t \<Rightarrow> 'w \<Rightarrow> (TEEC_Result \<times> u8 list \<times> size_t \<times> 'w) option" where
  "ta_crypt_cmd_cipher_do_final api c oph src src_len dst dst_len w =
     assert_handles [oph] (
       (let (res, op, w) = crypt_command api c TA_CRYPT_CMD_CIPHER_DO_FINAL
              (TEEC_PARAM_TYPES TEEC_VALUE_INPUT TEEC_MEMREF_TEMP_INPUT TEEC_MEMREF_TEMP_OUTPUT TEEC_NONE)
              (empty_op\<lparr>op0 := op_value (ucast oph) 0, op1 := op_tmpref src src_len, op2 := op_tmpref dst dst_len\<rparr>) w
        in Some (res, tmp_buffer (op2 op), if res = TEEC_SUCCESS then tmp_size (op2 op) else dst_len, w)))"

definition ta_crypt_cmd_random_number_generate ::
  "('w, 'z) teec_api_scheme \<Rightarrow> oc \<Rightarrow> u8 list \<Rightarrow> size_t \<Rightarrow> 'w \<Rightarrow> TEEC_Result \<times> u8 list \<times> 'w" where
  "ta_crypt_cmd_random_number_generate api c buf blen w =
     (let (res, op, w) = crypt_command api c TA_CRYPT_CMD_RANDOM_NUMBER_GENEREATE
            (TEEC_PARAM_TYPES TEEC_MEMREF_TEMP_OUTPUT TEEC_NONE TEEC_NONE TEEC_NONE)
            (empty_op\<lparr>op0 := op_tmpref buf blen\<rparr>) w
      in (res, tmp_buffer (op0 op), w))"

section \<open>Authenticated encryption\<close>

definition ta_crypt_cmd_ae_init ::
  "('w, 'z) teec_api_scheme \<Rightarrow> oc \<Rightarrow> size_t \<Rightarrow> u8 list \<Rightarrow> size_t \<Rightarrow> size_t \<Rightarrow> size_t \<Rightarrow> size_t \<Rightarrow> 'w \<Rightarrow> (TEEC_Result \<times> 'w) option" where
  "ta_crypt_cmd_ae_init api c oph nonce nonce_len tag_len aad_len payload_len w =
     assert_handles [oph] (
       (let (res, _, w) = crypt_command api c TA_CRYPT_CMD_AE_INIT
              (TEEC_PARAM_TYPES TEEC_VALUE_INPUT TEEC_MEMREF_TEMP_INPUT TEEC_VALUE_INPUT TEEC_NONE)
              (empty_op\<lparr>op0 := op_value (ucast oph) (ucast tag_len), op1 := op_tmpref nonce nonce_len, op2 := op_value (ucast aad_len) (ucast payload_len)\<rparr>) w
        in Some (res, w)))"

definition ta_crypt_cmd_ae_update_aad ::
  "('w, 'z) teec_api_scheme \<Rightarrow> oc \<Rightarrow> size_t \<Rightarrow> u8 list \<Rightarrow> size_t \<Rightarrow> 'w \<Rightarrow> (TEEC_Result \<times> 'w) option" where
  "ta_crypt_cmd_ae_update_aad api c oph aad aad_len w =
     assert_handles [oph] (
       (let (res, _, w) = crypt_command api c TA_CRYPT_CMD_AE_UPDATE_AAD
              (TEEC_PARAM_TYPES TEEC_VALUE_INPUT TEEC_MEMREF_TEMP_INPUT TEEC_NONE TEEC_NONE)
              (empty_op\<lparr>op0 := op_value (ucast oph) 0, op1 := op_tmpref aad aad_len\<rparr>) w
        in Some (res, w)))"

definition ta_crypt_cmd_ae_update ::
  "('w, 'z) teec_api_scheme \<Rightarrow> oc \<Rightarrow> size_t \<Rightarrow> u8 list \<Rightarrow> size_t \<Rightarrow> u8 list \<Rightarrow> size_t \<Rightarrow> 'w \<Rightarrow> (TEEC_Result \<times> u8 list \<times> size_t \<times> 'w) option" where
  "ta_crypt_cmd_ae_update api c oph src src_len dst dst_len w =
     assert_handles [oph] (
       (let (res, op, w) = crypt_command api c TA_CRYPT_CMD_AE_UPDATE
              (TEEC_PARAM_TYPES TEEC_VALUE_INPUT TEEC_MEMREF_TEMP_INPUT TEEC_MEMREF_TEMP_OUTPUT TEEC_NONE)
              (empty_op\<lparr>op0 := op_value (ucast oph) 0, op1 := op_tmpref src src_len, op2 := op_tmpref dst dst_len\<rparr>) w
        in Some (res, tmp_buffer (op2 op), if res = TEEC_SUCCESS then tmp_size (op2 op) else dst_len, w)))"

definition ta_crypt_cmd_ae_encrypt_final ::
  "('w, 'z) teec_api_scheme \<Rightarrow> oc \<Rightarrow> size_t \<Rightarrow> u8 list \<Rightarrow> size_t \<Rightarrow> u8 list \<Rightarrow> size_t \<Rightarrow> u8 list \<Rightarrow> size_t \<Rightarrow> 'w \<Rightarrow> (TEEC_Result \<times> u8 list \<times> size_t \<times> u8 list \<times> size_t \<times> 'w) option" where
  "ta_crypt_cmd_ae_encrypt_final api c oph src src_len dst dst_len tag tag_len w =
     assert_handles [oph] (
       (let (res, op, w) = crypt_command api c TA_CRYPT_CMD_AE_ENCRYPT_FINAL
              (TEEC_PARAM_TYPES TEEC_VALUE_INPUT TEEC_MEMREF_TEMP_INPUT TEEC_MEMREF_TEMP_OUTPUT TEEC_MEMREF_TEMP_OUTPUT)
              (empty_op\<lparr>op0 := op_value (ucast oph) 0, op1 := op_tmpref src src_len, op2 := op_tmpref dst dst_len, op3 := op_tmpref tag tag_len\<rparr>) w;
            ok = (res = TEEC_SUCCESS)
        in Some (res, tmp_buffer (op2 op), if ok then tmp_size (op2 op) else dst_len, tmp_buffer (op3 op), if ok then tmp_size (op3 op) else tag_len, w)))"

definition ta_crypt_cmd_ae_decrypt_final ::
  "('w, 'z) teec_api_scheme \<Rightarrow> oc \<Rightarrow> size_t \<Rightarrow> u8 list \<Rightarrow> size_t \<Rightarrow> u8 list \<Rightarrow> size_t \<Rightarrow> u8 list \<Rightarrow> size_t \<Rightarrow> 'w \<Rightarrow> (TEEC_Result \<times> u8 list \<times> size_t \<times> 'w) option" where
  "ta_crypt_cmd_ae_decrypt_final api c oph src src_len dst dst_len tag tag_len w =
     assert_handles [oph] (
       (let (res, op, w) = crypt_command api c TA_CRYPT_CMD_AE_DECRYPT_FINAL
              (TEEC_PARAM_TYPES TEEC_VALUE_INPUT TEEC_MEMREF_TEMP_INPUT TEEC_MEMREF_TEMP_OUTPUT TEEC_MEMREF_TEMP_INPUT)
              (empty_op\<lparr>op0 := op_value (ucast oph) 0, op1 := op_tmpref src src_len, op2 := op_tmpref dst dst_len, op3 := op_tmpref tag tag_len\<rparr>) w
        in Some (res, tmp_buffer (op2 op), if res = TEEC_SUCCESS then tmp_size (op2 op) else dst_len, w)))"

section \<open>Objects and attributes\<close>

definition ta_crypt_cmd_allocate_transient_object ::
  "('w, 'z) teec_api_scheme \<Rightarrow> oc \<Rightarrow> uint32 \<Rightarrow> uint32 \<Rightarrow> size_t \<Rightarrow> 'w \<Rightarrow> TEEC_Result \<times> size_t \<times> 'w" where
  "ta_crypt_cmd_allocate_transient_object api c obj_type max_obj_size oh w =
     (let (res, op, w) = crypt_command api c TA_CRYPT_CMD_ALLOCATE_TRANSIENT_OBJECT
            (TEEC_PARAM_TYPES TEEC_VALUE_INPUT TEEC_VALUE_OUTPUT TEEC_NONE TEEC_NONE)
            (empty_op\<lparr>op0 := op_value obj_type max_obj_size\<rparr>) w
      in (res, if res = TEEC_SUCCESS then ucast (teec_param.value_a (op1 op)) else oh, w))"

definition ta_crypt_cmd_free_transient_object ::
  "('w, 'z) teec_api_scheme \<Rightarrow> oc \<Rightarrow> size_t \<Rightarrow> 'w \<Rightarrow> (TEEC_Result \<times> 'w) option" where
  "ta_crypt_cmd_free_transient_object api c oh w =
     assert_handles [oh] (
       (let (res, _, w) = crypt_command api c TA_CRYPT_CMD_FREE_TRANSIENT_OBJECT
              (TEEC_PARAM_TYPES TEEC_VALUE_INPUT TEEC_NONE TEEC_NONE TEEC_NONE)
              (empty_op\<lparr>op0 := op_value (ucast oh) 0\<rparr>) w
        in Some (res, w)))"

definition ta_crypt_cmd_reset_transient_object ::
  "('w, 'z) teec_api_scheme \<Rightarrow> oc \<Rightarrow> size_t \<Rightarrow> 'w \<Rightarrow> (TEEC_Result \<times> 'w) option" where
  "ta_crypt_cmd_reset_transient_object api c oh w =
     assert_handles [oh] (
       (let (res, _, w) = crypt_command api c TA_CRYPT_CMD_RESET_TRANSIENT_OBJECT
              (TEEC_PARAM_TYPES TEEC_VALUE_INPUT TEEC_NONE TEEC_NONE TEEC_NONE)
              (empty_op\<lparr>op0 := op_value (ucast oh) 0\<rparr>) w
        in Some (res, w)))"

text \<open>\<open>pack_attrs\<close> first; the rest of a function with its buffer.\<close>

definition with_packed :: "(size_t \<Rightarrow> bool) \<Rightarrow> host_attribute list \<Rightarrow> uint32 \<Rightarrow> (TEEC_Result \<Rightarrow> 'a) \<Rightarrow> (u8 list \<Rightarrow> size_t \<Rightarrow> 'a option) \<Rightarrow> 'a option" where
  "with_packed calloc attrs attr_count fail k = do {
     (res, buf, blen) \<leftarrow> pack_attrs calloc attrs attr_count;
     if res \<noteq> TEEC_SUCCESS then Some (fail res) else k (buffer_bytes buf) blen }"

definition ta_crypt_cmd_populate_transient_object ::
  "('w, 'z) teec_api_scheme \<Rightarrow> oc \<Rightarrow> (size_t \<Rightarrow> bool) \<Rightarrow> size_t \<Rightarrow> host_attribute list \<Rightarrow> uint32 \<Rightarrow> 'w \<Rightarrow> (TEEC_Result \<times> 'w) option" where
  "ta_crypt_cmd_populate_transient_object api c calloc oh attrs attr_count w =
     with_packed calloc attrs attr_count (\<lambda>res. (res, w)) (\<lambda>buf blen. assert_handles [oh] (
       let (res, _, w) = crypt_command api c TA_CRYPT_CMD_POPULATE_TRANSIENT_OBJECT
            (TEEC_PARAM_TYPES TEEC_VALUE_INPUT TEEC_MEMREF_TEMP_INPUT TEEC_NONE TEEC_NONE)
            (empty_op\<lparr>op0 := op_value (ucast oh) 0, op1 := op_tmpref buf blen\<rparr>) w
       in Some (res, w)))"

definition ta_crypt_cmd_generate_key ::
  "('w, 'z) teec_api_scheme \<Rightarrow> oc \<Rightarrow> (size_t \<Rightarrow> bool) \<Rightarrow> size_t \<Rightarrow> uint32 \<Rightarrow> host_attribute list \<Rightarrow> uint32 \<Rightarrow> 'w \<Rightarrow> (TEEC_Result \<times> 'w) option" where
  "ta_crypt_cmd_generate_key api c calloc oh key_size params paramCount w =
     with_packed calloc params paramCount (\<lambda>res. (res, w)) (\<lambda>buf blen. assert_handles [oh] (
       let (res, _, w) = crypt_command api c TA_CRYPT_CMD_GENERATE_KEY
            (TEEC_PARAM_TYPES TEEC_VALUE_INPUT TEEC_MEMREF_TEMP_INPUT TEEC_NONE TEEC_NONE)
            (empty_op\<lparr>op0 := op_value (ucast oh) key_size, op1 := op_tmpref buf blen\<rparr>) w
       in Some (res, w)))"

definition ta_crypt_cmd_derive_key ::
  "('w, 'z) teec_api_scheme \<Rightarrow> oc \<Rightarrow> (size_t \<Rightarrow> bool) \<Rightarrow> size_t \<Rightarrow> size_t \<Rightarrow> host_attribute list \<Rightarrow> uint32 \<Rightarrow> 'w \<Rightarrow> (TEEC_Result \<times> 'w) option" where
  "ta_crypt_cmd_derive_key api c calloc oph oh params paramCount w =
     with_packed calloc params paramCount (\<lambda>res. (res, w)) (\<lambda>buf blen. assert_handles [oph, oh] (
       let (res, _, w) = crypt_command api c TA_CRYPT_CMD_DERIVE_KEY
            (TEEC_PARAM_TYPES TEEC_VALUE_INPUT TEEC_MEMREF_TEMP_INPUT TEEC_NONE TEEC_NONE)
            (empty_op\<lparr>op0 := op_value (ucast oph) (ucast oh), op1 := op_tmpref buf blen\<rparr>) w
       in Some (res, w)))"

definition ta_crypt_cmd_get_object_buffer_attribute ::
  "('w, 'z) teec_api_scheme \<Rightarrow> oc \<Rightarrow> size_t \<Rightarrow> uint32 \<Rightarrow> u8 list \<Rightarrow> size_t \<Rightarrow> 'w \<Rightarrow> (TEEC_Result \<times> u8 list \<times> size_t \<times> 'w) option" where
  "ta_crypt_cmd_get_object_buffer_attribute api c oh attr_id buf blen w =
     assert_handles [oh] (
       (let (res, op, w) = crypt_command api c TA_CRYPT_CMD_GET_OBJECT_BUFFER_ATTRIBUTE
              (TEEC_PARAM_TYPES TEEC_VALUE_INPUT TEEC_MEMREF_TEMP_OUTPUT TEEC_NONE TEEC_NONE)
              (empty_op\<lparr>op0 := op_value (ucast oh) attr_id, op1 := op_tmpref buf blen\<rparr>) w
        in Some (res, tmp_buffer (op1 op), if res = TEEC_SUCCESS then tmp_size (op1 op) else blen, w)))"

definition ta_crypt_cmd_get_object_value_attribute ::
  "('w, 'z) teec_api_scheme \<Rightarrow> oc \<Rightarrow> size_t \<Rightarrow> uint32 \<Rightarrow> uint32 \<Rightarrow> uint32 \<Rightarrow> 'w \<Rightarrow> (TEEC_Result \<times> uint32 \<times> uint32 \<times> 'w) option" where
  "ta_crypt_cmd_get_object_value_attribute api c oh attr_id valuea valueb w =
     assert_handles [oh] (
       (let (res, op, w) = crypt_command api c TA_CRYPT_CMD_GET_OBJECT_VALUE_ATTRIBUTE
              (TEEC_PARAM_TYPES TEEC_VALUE_INPUT TEEC_VALUE_OUTPUT TEEC_NONE TEEC_NONE)
              (empty_op\<lparr>op0 := op_value (ucast oh) attr_id\<rparr>) w;
            ok = (res = TEEC_SUCCESS)
        in Some (res, if ok then teec_param.value_a (op1 op) else valuea, if ok then teec_param.value_b (op1 op) else valueb, w)))"

section \<open>Asymmetric operations\<close>

definition ta_crypt_cmd_asymmetric_operate ::
  "('w, 'z) teec_api_scheme \<Rightarrow> oc \<Rightarrow> (size_t \<Rightarrow> bool) \<Rightarrow> size_t \<Rightarrow> uint32 \<Rightarrow> host_attribute list \<Rightarrow> uint32 \<Rightarrow> u8 list \<Rightarrow> size_t \<Rightarrow> u8 list \<Rightarrow> size_t \<Rightarrow> 'w \<Rightarrow> (TEEC_Result \<times> u8 list \<times> size_t \<times> 'w) option" where
  "ta_crypt_cmd_asymmetric_operate api c calloc oph cmd params paramCount src src_len dst dst_len w =
     with_packed calloc params paramCount (\<lambda>res. (res, dst, dst_len, w)) (\<lambda>buf blen. assert_handles [oph] (
       let (res, op, w) = crypt_command api c cmd
            (TEEC_PARAM_TYPES TEEC_VALUE_INPUT TEEC_MEMREF_TEMP_INPUT TEEC_MEMREF_TEMP_INPUT TEEC_MEMREF_TEMP_OUTPUT)
            (empty_op\<lparr>op0 := op_value (ucast oph) 0, op1 := op_tmpref buf blen, op2 := op_tmpref src src_len, op3 := op_tmpref dst dst_len\<rparr>) w
       in Some (res, tmp_buffer (op3 op), if res = TEEC_SUCCESS then tmp_size (op3 op) else dst_len, w)))"

definition ta_crypt_cmd_asymmetric_encrypt where
  "ta_crypt_cmd_asymmetric_encrypt api c calloc oph =
     ta_crypt_cmd_asymmetric_operate api c calloc oph TA_CRYPT_CMD_ASYMMETRIC_ENCRYPT"

definition ta_crypt_cmd_asymmetric_decrypt where
  "ta_crypt_cmd_asymmetric_decrypt api c calloc oph =
     ta_crypt_cmd_asymmetric_operate api c calloc oph TA_CRYPT_CMD_ASYMMETRIC_DECRYPT"

definition ta_crypt_cmd_asymmetric_sign where
  "ta_crypt_cmd_asymmetric_sign api c calloc oph =
     ta_crypt_cmd_asymmetric_operate api c calloc oph TA_CRYPT_CMD_ASYMMETRIC_SIGN_DIGEST"

definition ta_crypt_cmd_asymmetric_verify ::
  "('w, 'z) teec_api_scheme \<Rightarrow> oc \<Rightarrow> (size_t \<Rightarrow> bool) \<Rightarrow> size_t \<Rightarrow> host_attribute list \<Rightarrow> uint32 \<Rightarrow> u8 list \<Rightarrow> size_t \<Rightarrow> u8 list \<Rightarrow> size_t \<Rightarrow> 'w \<Rightarrow> (TEEC_Result \<times> 'w) option" where
  "ta_crypt_cmd_asymmetric_verify api c calloc oph params paramCount digest digest_len signature signature_len w =
     with_packed calloc params paramCount (\<lambda>res. (res, w)) (\<lambda>buf blen. assert_handles [oph] (
       let (res, _, w) = crypt_command api c TA_CRYPT_CMD_ASYMMETRIC_VERIFY_DIGEST
            (TEEC_PARAM_TYPES TEEC_VALUE_INPUT TEEC_MEMREF_TEMP_INPUT TEEC_MEMREF_TEMP_INPUT TEEC_MEMREF_TEMP_INPUT)
            (empty_op\<lparr>op0 := op_value (ucast oph) 0, op1 := op_tmpref buf blen, op2 := op_tmpref digest digest_len,
              op3 := op_tmpref signature signature_len\<rparr>) w
       in Some (res, w)))"

section \<open>The library and the TA together\<close>

lemma crypt_dispatch:
  "crypt_invoke e TA_CRYPT_CMD_ALLOCATE_OPERATION types ps s = on_mem s (ta_entry_allocate_operation (cryp_env e) types ps)"
  "crypt_invoke e TA_CRYPT_CMD_FREE_OPERATION types ps s = on_mem s (ta_entry_free_operation (cryp_env e) types ps)"
  "crypt_invoke e TA_CRYPT_CMD_DIGEST_UPDATE types ps s = on_mem s (ta_entry_digest_update (cryp_env e) types ps)"
  "crypt_invoke e TA_CRYPT_CMD_DIGEST_DO_FINAL types ps s = on_mem s (ta_entry_digest_do_final (cryp_env e) types ps)"
  "crypt_invoke e TA_CRYPT_CMD_AES256ECB_ENC types ps s = on_rk s (ta_entry_aes256ecb_encrypt types ps)"
  "crypt_invoke e TA_CRYPT_CMD_AES256ECB_DEC types ps s = on_rk s (ta_entry_aes256ecb_decrypt types ps)"
  by (simp_all add: crypt_invoke_def crypt_cmd_defs cryp_cmd_defs cryp_cmds_def)

lemmas client_unfold = teec_types teec_type_values crypt_command_def op_ok_def empty_op_def zero_param_def Let_def

lemma crypt_served:
  assumes "teec_serves api (session c) ta shm (crypt_invoke e)" and "op_ok op"
    and "t0 < 16" "t1 < 16" "t2 < 16" "t3 < 16"
    and "crypt_invoke e cmd (TEE_PARAM_TYPES t0 t1 t2 t3)
      \<lparr>p0 = to_ta (shm w) t0 (op0 op), p1 = to_ta (shm w) t1 (op1 op), p2 = to_ta (shm w) t2 (op2 op), p3 = to_ta (shm w) t3 (op3 op)\<rparr>
      (ta w) = Some (res, ps, s)"
  shows "\<exists>w'. crypt_command api c cmd (TEEC_PARAM_TYPES t0 t1 t2 t3) op w = (res,
      \<lparr>op0 = from_ta t0 (op0 op) (p0 ps), op1 = from_ta t1 (op1 op) (p1 ps), op2 = from_ta t2 (op2 op) (p2 ps), op3 = from_ta t3 (op3 op) (p3 ps)\<rparr>, w')
    \<and> ta w' = s"
  using op_served [OF assms] by (auto simp: crypt_command_def teec_types)

subsection \<open>Data commands\<close>

text \<open>The command on a message and an output buffer of \<open>n\<close> bytes of shared memory\<close>

definition data_params :: "(nat \<Rightarrow> u8 list) \<Rightarrow> u8 list \<Rightarrow> uint32 \<Rightarrow> tee_params" where
  "data_params shm msg n = zero_params\<lparr>p0 := zero_param\<lparr>mbuf := msg, msize := of_nat (length msg)\<rparr>,
     p1 := zero_param\<lparr>mbuf := shm (unat n), msize := n\<rparr>\<rparr>"

lemma data_served:
  assumes s: "teec_serves api (session c) ta shm (crypt_invoke e)"
    and m: "length msg < 2 ^ 32" and n: "unat n \<le> length dst"
    and i: "crypt_invoke e cmd in_out_types (data_params (shm w) msg n) (ta w) =
      Some (res, (data_params (shm w) msg n)\<lparr>p1 := (p1 (data_params (shm w) msg n))\<lparr>mbuf := out\<rparr>\<rparr>, t)"
  shows "\<exists>op w'. crypt_command api c cmd (TEEC_PARAM_TYPES TEEC_MEMREF_TEMP_INPUT TEEC_MEMREF_TEMP_OUTPUT TEEC_NONE TEEC_NONE)
      (empty_op\<lparr>op0 := op_tmpref msg (of_nat (length msg)), op1 := op_tmpref dst (ucast n)\<rparr>) w = (res, op, w') \<and>
    tmp_buffer (op1 op) = take (unat n) out @ drop (unat n) dst \<and> tmp_size (op1 op) = ucast n \<and> ta w' = t"
proof -
  have k: "(of_nat (length msg) :: size_t) = ucast (of_nat (length msg) :: uint32)"
    by (rule size_64_32 [OF m])
  show ?thesis
    using crypt_served [OF s, where op = "empty_op\<lparr>op0 := op_tmpref msg (of_nat (length msg)), op1 := op_tmpref dst (ucast n)\<rparr>"
        and ?t0.0 = PT_MEMREF_INPUT and ?t1.0 = PT_MEMREF_OUTPUT and ?t2.0 = PT_NONE and ?t3.0 = PT_NONE and cmd = cmd and w = w] n i
    by (auto simp: client_unfold data_params_def zero_params_def k unat_of_nat32 [OF m])
qed


lemma data_params_simps [simp]:
  "p0 (data_params shm msg n) = zero_param\<lparr>mbuf := msg, msize := of_nat (length msg)\<rparr>"
  "p1 (data_params shm msg n) = zero_param\<lparr>mbuf := shm (unat n), msize := n\<rparr>"
  by (simp_all add: data_params_def)

lemma library_sha256:
  assumes s: "teec_serves api (session c) ta shm (crypt_invoke e)"
    and m: "length msg < 2 ^ 29" and n: "unat n \<le> length dst" "32 \<le> (n :: uint32)"
  shows "\<exists>w'. ta_crypt_cmd_sha256 api c msg (of_nat (length msg)) dst (ucast n) w =
    (TEEC_SUCCESS, sha256_answer msg (shm w (unat n)) @ drop (unat n) dst, ucast n, w')"
proof -
  have k: "unat (of_nat (length msg) :: uint32) = length msg" using m by (intro unat_of_nat32) simp
  have l: "length (shm w (unat n)) = unat n" by (rule shm_length [OF s])
  obtain t where t: "crypt_invoke e TA_CRYPT_CMD_SHA256 in_out_types (data_params (shm w) msg n) (ta w) =
      Some (TEE_SUCCESS, (data_params (shm w) msg n)\<lparr>p1 := (p1 (data_params (shm w) msg n))\<lparr>mbuf := sha256_answer msg (shm w (unat n))\<rparr>\<rparr>, t)"
    using crypt_sha256 [of "data_params (shm w) msg n" e "ta w"] m n k l by (auto simp: memref_ok_def word_less_nat_alt)
  have a: "length (sha256_answer msg (shm w (unat n))) = unat n"
    using n l by (subst length_sha256_answer) (simp_all add: word_le_nat_alt)
  show ?thesis
    using data_served [OF s _ n(1) t] m a
    by (auto simp: ta_crypt_cmd_sha256_def TEEC_SUCCESS_def TEE_SUCCESS_def)
qed

lemma library_sha256_short:
  assumes s: "teec_serves api (session c) ta shm (crypt_invoke e)"
    and m: "length msg < 2 ^ 32" and n: "unat n \<le> length dst" "(n :: uint32) < 32"
  shows "\<exists>w'. ta_crypt_cmd_sha256 api c msg (of_nat (length msg)) dst (ucast n) w =
    (TEE_ERROR_BAD_PARAMETERS, shm w (unat n) @ drop (unat n) dst, ucast n, w')"
proof -
  have l: "length (shm w (unat n)) = unat n" by (rule shm_length [OF s])
  have "crypt_invoke e TA_CRYPT_CMD_SHA256 in_out_types (data_params (shm w) msg n) (ta w) =
      Some (TEE_ERROR_BAD_PARAMETERS, (data_params (shm w) msg n)\<lparr>p1 := (p1 (data_params (shm w) msg n))\<lparr>mbuf := shm w (unat n)\<rparr>\<rparr>,
        (ta w)\<lparr>use_fptr := \<not> use_fptr (ta w)\<rparr>)"
    using n(2) by (simp add: crypt_invoke_def crypt_cmd_defs on_buffers_def ta_cmd_entries_def ta_entry_sha256_def SHA256_DIGEST_SIZE_def
        data_params_def)
  from data_served [OF s m n(1) this] l show ?thesis
    by (auto simp: ta_crypt_cmd_sha256_def)
qed

text \<open>Encrypting and decrypting, with \<open>k\<close> whole blocks\<close>

lemma library_aes:
  assumes s: "teec_serves api (session c) ta shm (crypt_invoke e)" and rk: "length (rk (ta w)) = 60"
    and k: "length msg = 16 * k" "length msg < 2 ^ 32" and n: "length msg \<le> length dst"
  shows "\<exists>w'. ta_crypt_cmd_aes256ecb_enc api c msg (of_nat (length msg)) dst (of_nat (length msg)) w =
      (TEEC_SUCCESS, ecb aes_cipher msg k @ drop (length msg) dst, of_nat (length msg), w') \<and> length (rk (ta w')) = 60"
    and "\<exists>w'. ta_crypt_cmd_aes256ecb_dec api c msg (of_nat (length msg)) dst (of_nat (length msg)) w =
      (TEEC_SUCCESS, ecb aes_inv_cipher msg k @ drop (length msg) dst, of_nat (length msg), w') \<and> length (rk (ta w')) = 60"
proof -
  define n32 where "n32 = (of_nat (length msg) :: uint32)"
  have u: "unat n32 = length msg" "(of_nat (length msg) :: size_t) = ucast n32"
    using k(2) by (simp_all add: n32_def unat_of_nat32 word_unat_eq_iff unsigned_of_nat take_bit_nat_eq_self)
  let ?ps = "data_params (shm w) msg n32"
  have l: "length (shm w (length msg)) = length msg" by (rule shm_length [OF s])
  have ps: "p0 ?ps = zero_param\<lparr>mbuf := msg, msize := n32\<rparr>" "p1 ?ps = zero_param\<lparr>mbuf := shm w (length msg), msize := n32\<rparr>"
    by (simp_all add: u n32_def [symmetric])
  have put: "put_block (shm w (length msg)) 0 (ecb f msg k) = ecb f msg k" for f
    using l k(1) by (simp add: put_block_def)
  have nd: "unat n32 \<le> length dst" using n u by simp
  have len: "length (ecb f msg k) = length msg" for f using k(1) by simp
  obtain rk1 where e: "ta_entry_aes256ecb_encrypt in_out_types ?ps (rk (ta w)) =
      Some (TEE_SUCCESS, ?ps\<lparr>p1 := (p1 ?ps)\<lparr>mbuf := ecb aes_cipher msg k\<rparr>\<rparr>, rk1)" "length rk1 = 60"
    using aes_encrypt_ok [of "rk (ta w)" ?ps] rk k(1) l unfolding ps by (auto simp: u put [unfolded k(1)])
  obtain rk2 where d: "ta_entry_aes256ecb_decrypt in_out_types ?ps (rk (ta w)) =
      Some (TEE_SUCCESS, ?ps\<lparr>p1 := (p1 ?ps)\<lparr>mbuf := ecb aes_inv_cipher msg k\<rparr>\<rparr>, rk2)" "length rk2 = 60"
    using aes_decrypt_ok [of "rk (ta w)" ?ps] rk k(1) l unfolding ps by (auto simp: u put [unfolded k(1)])
  have ei: "crypt_invoke e TA_CRYPT_CMD_AES256ECB_ENC in_out_types ?ps (ta w) =
      Some (TEE_SUCCESS, ?ps\<lparr>p1 := (p1 ?ps)\<lparr>mbuf := ecb aes_cipher msg k\<rparr>\<rparr>, (ta w)\<lparr>rk := rk1\<rparr>)"
    by (simp add: crypt_dispatch on_rk_def e(1))
  have di: "crypt_invoke e TA_CRYPT_CMD_AES256ECB_DEC in_out_types ?ps (ta w) =
      Some (TEE_SUCCESS, ?ps\<lparr>p1 := (p1 ?ps)\<lparr>mbuf := ecb aes_inv_cipher msg k\<rparr>\<rparr>, (ta w)\<lparr>rk := rk2\<rparr>)"
    by (simp add: crypt_dispatch on_rk_def d(1))
  show "\<exists>w'. ta_crypt_cmd_aes256ecb_enc api c msg (of_nat (length msg)) dst (of_nat (length msg)) w =
      (TEEC_SUCCESS, ecb aes_cipher msg k @ drop (length msg) dst, of_nat (length msg), w') \<and> length (rk (ta w')) = 60"
    using data_served [OF s k(2) nd ei] e(2) len
    by (auto simp: ta_crypt_cmd_aes256ecb_enc_def TEEC_SUCCESS_def TEE_SUCCESS_def u simp del: length_ecb)
  show "\<exists>w'. ta_crypt_cmd_aes256ecb_dec api c msg (of_nat (length msg)) dst (of_nat (length msg)) w =
      (TEEC_SUCCESS, ecb aes_inv_cipher msg k @ drop (length msg) dst, of_nat (length msg), w') \<and> length (rk (ta w')) = 60"
    using data_served [OF s k(2) nd di] d(2) len
    by (auto simp: ta_crypt_cmd_aes256ecb_dec_def TEEC_SUCCESS_def TEE_SUCCESS_def u simp del: length_ecb)
qed

lemma ecb_back: "length msg = 16 * k \<Longrightarrow> ecb aes_inv_cipher (ecb aes_cipher msg k) k = msg"
proof -
  assume k: "length msg = 16 * k"
  have "ecb aes_inv_cipher (ecb aes_cipher msg k) k = ecb (\<lambda>s. s) msg k"
    unfolding ecb_def [of aes_inv_cipher] ecb_def [of "\<lambda>s. s"]
  proof (intro arg_cong [of _ _ concat] map_cong refl)
    fix i assume "i \<in> set [0..<k]"
    then have "state_at (put_block (replicate (16 * k) 0) 0 (ecb aes_cipher msg k)) (i * 16) = aes_cipher (state_at msg (i * 16))"
      by (intro state_at_ecb) simp_all
    then show "state_bytes (aes_inv_cipher (state_at (ecb aes_cipher msg k) (i * 16))) = state_bytes (state_at msg (i * 16))"
      by (simp add: put_block_def aes_inverse)
  qed
  then show ?thesis using k by (simp add: ecb_id)
qed

text \<open>
  C26.  Through the client library the data commands of the crypt TA do what they say.  The digest of a
  message below 512 MB arrives in the first 32 bytes of any buffer that has room for it, and the length
  stays that of the buffer; a smaller buffer is refused.  What is decrypted is what was encrypted.
\<close>

theorem crypt_library_data:
  assumes s: "teec_serves api (session c) ta shm (crypt_invoke e)" and rk: "length (rk (ta w)) = 60"
    and n: "unat (n :: uint32) \<le> length dst" and m: "length msg < 2 ^ 29"
    and k: "length plain = 16 * k" "length plain < 2 ^ 32" "length plain \<le> length b1" "length plain \<le> length b2"
  shows "(\<exists>w'. ta_crypt_cmd_sha256 api c msg (of_nat (length msg)) dst (ucast n) w =
      (if n < 32 then (TEE_ERROR_BAD_PARAMETERS, shm w (unat n) @ drop (unat n) dst, ucast n, w')
       else (TEEC_SUCCESS, sha256_answer msg (shm w (unat n)) @ drop (unat n) dst, ucast n, w'))) \<and>
    (\<exists>w1 w2. ta_crypt_cmd_aes256ecb_enc api c plain (of_nat (length plain)) b1 (of_nat (length plain)) w =
        (TEEC_SUCCESS, ecb aes_cipher plain k @ drop (length plain) b1, of_nat (length plain), w1) \<and>
      ta_crypt_cmd_aes256ecb_dec api c (ecb aes_cipher plain k) (of_nat (length plain)) b2 (of_nat (length plain)) w1 =
        (TEEC_SUCCESS, plain @ drop (length plain) b2, of_nat (length plain), w2))"
proof
  show "\<exists>w'. ta_crypt_cmd_sha256 api c msg (of_nat (length msg)) dst (ucast n) w =
      (if n < 32 then (TEE_ERROR_BAD_PARAMETERS, shm w (unat n) @ drop (unat n) dst, ucast n, w')
       else (TEEC_SUCCESS, sha256_answer msg (shm w (unat n)) @ drop (unat n) dst, ucast n, w'))"
    using library_sha256 [OF s m n] library_sha256_short [OF s _ n, of msg] m by (cases "n < 32") auto
  obtain w1 where w1: "ta_crypt_cmd_aes256ecb_enc api c plain (of_nat (length plain)) b1 (of_nat (length plain)) w =
      (TEEC_SUCCESS, ecb aes_cipher plain k @ drop (length plain) b1, of_nat (length plain), w1)" "length (rk (ta w1)) = 60"
    using library_aes(1) [OF s rk k(1-3)] by blast
  let ?ct = "ecb aes_cipher plain k"
  have ct: "length ?ct = 16 * k" "length ?ct = length plain" using k(1) by simp_all
  obtain w2 where "ta_crypt_cmd_aes256ecb_dec api c ?ct (of_nat (length plain)) b2 (of_nat (length plain)) w1 =
      (TEEC_SUCCESS, plain @ drop (length plain) b2, of_nat (length plain), w2)"
    using library_aes(2) [OF s w1(2) ct(1), of b2] k ecb_back [OF k(1)] unfolding ct(2) by auto
  with w1 show "\<exists>w1 w2. ta_crypt_cmd_aes256ecb_enc api c plain (of_nat (length plain)) b1 (of_nat (length plain)) w =
        (TEEC_SUCCESS, ecb aes_cipher plain k @ drop (length plain) b1, of_nat (length plain), w1) \<and>
      ta_crypt_cmd_aes256ecb_dec api c ?ct (of_nat (length plain)) b2 (of_nat (length plain)) w1 =
        (TEEC_SUCCESS, plain @ drop (length plain) b2, of_nat (length plain), w2)" by blast
qed

lemma crypt_library_data_witness:
  "\<forall>f b k. (\<exists>w'. ta_crypt_cmd_sha256 (direct_teec (crypt_invoke (sim_env f b k))) \<lparr>ctx = 1, session = 2, oc_error = 0\<rparr>
      [0x61, 0x62, 0x63] (of_nat (length [0x61, 0x62, 0x63 :: u8])) (replicate 40 9) (ucast (40 :: uint32)) sim_ta =
      (if (40 :: uint32) < 32 then (TEE_ERROR_BAD_PARAMETERS, replicate (unat (40 :: uint32)) 0 @ drop (unat (40 :: uint32)) (replicate 40 9), ucast (40 :: uint32), w')
       else (TEEC_SUCCESS, sha256_answer [0x61, 0x62, 0x63] (replicate (unat (40 :: uint32)) 0) @ drop (unat (40 :: uint32)) (replicate 40 9), ucast (40 :: uint32), w'))) \<and>
    (\<exists>w1 w2. ta_crypt_cmd_aes256ecb_enc (direct_teec (crypt_invoke (sim_env f b k))) \<lparr>ctx = 1, session = 2, oc_error = 0\<rparr>
        (replicate 32 7) (of_nat (length (replicate 32 (7 :: u8)))) (replicate 35 0) (of_nat (length (replicate 32 (7 :: u8)))) sim_ta =
        (TEEC_SUCCESS, ecb aes_cipher (replicate 32 7) 2 @ drop (length (replicate 32 (7 :: u8))) (replicate 35 0), of_nat (length (replicate 32 (7 :: u8))), w1) \<and>
      ta_crypt_cmd_aes256ecb_dec (direct_teec (crypt_invoke (sim_env f b k))) \<lparr>ctx = 1, session = 2, oc_error = 0\<rparr>
        (ecb aes_cipher (replicate 32 7) 2) (of_nat (length (replicate 32 (7 :: u8)))) (replicate 32 1) (of_nat (length (replicate 32 (7 :: u8)))) w1 =
        (TEEC_SUCCESS, replicate 32 7 @ drop (length (replicate 32 (7 :: u8))) (replicate 32 1), of_nat (length (replicate 32 (7 :: u8))), w2))"
  by (intro allI; rule crypt_library_data [OF direct_teec_serves]) (simp_all add: sim_ta_def)


subsection \<open>A digest operation from its allocation to its end\<close>

text \<open>
  What the Core API documents of digest operations: \<open>ops m\<close> maps the handle of an operation to its
  algorithm and the bytes it has taken, and \<open>digest\<close> is the function an algorithm computes.  While there
  is room, operations of the algorithms \<open>algs\<close> are granted, at addresses a command can name.
\<close>

definition digest_op_laws :: "('m, 'z) cryp_api_scheme \<Rightarrow> ('m \<Rightarrow> size_t \<Rightarrow> (uint32 \<times> u8 list) option) \<Rightarrow>
    (uint32 \<Rightarrow> u8 list \<Rightarrow> u8 list) \<Rightarrow> ('m \<Rightarrow> bool) \<Rightarrow> uint32 set \<Rightarrow> bool" where
  "digest_op_laws api ops digest room algs \<longleftrightarrow>
     (\<forall>m. \<forall>algo \<in> algs. room m \<longrightarrow> (\<exists>h m'. TEE_AllocateOperation api algo TEE_MODE_DIGEST 0 m = (TEE_SUCCESS, h, m') \<and>
        h \<noteq> 0 \<and> 0 < unat (h - ta_head api) \<and> unat (h - ta_head api) < 2 ^ 32 \<and> ops m h = None \<and> ops m' = (ops m)(h \<mapsto> (algo, [])))) \<and>
     (\<forall>m h a d b n. ops m h = Some (a, d) \<and> unat n \<le> length b \<longrightarrow>
        ops (TEE_DigestUpdate api h b n m) = (ops m)(h \<mapsto> (a, d @ take (unat n) b))) \<and>
     (\<forall>m h a d b n out k. ops m h = Some (a, d) \<and> unat n \<le> length b \<and> length (digest a (d @ take (unat n) b)) \<le> unat k \<and> unat k \<le> length out \<longrightarrow>
        (\<exists>rest m'. TEE_DigestDoFinal api h b n out k m =
           (TEE_SUCCESS, digest a (d @ take (unat n) b) @ rest, of_nat (length (digest a (d @ take (unat n) b))), m') \<and>
         ops m' = (ops m)(h \<mapsto> (a, [])))) \<and>
     (\<forall>m h. ops (TEE_FreeOperation api h m) = (ops m)(h := None))"

lemma digest_law:
  assumes "digest_op_laws api ops digest room algs"
  shows "algo \<in> algs \<Longrightarrow> room m \<Longrightarrow> \<exists>h m'. TEE_AllocateOperation api algo TEE_MODE_DIGEST 0 m = (TEE_SUCCESS, h, m') \<and>
        h \<noteq> 0 \<and> 0 < unat (h - ta_head api) \<and> unat (h - ta_head api) < 2 ^ 32 \<and> ops m h = None \<and> ops m' = (ops m)(h \<mapsto> (algo, []))"
    and "ops m h = Some (a, d) \<Longrightarrow> unat n \<le> length b \<Longrightarrow> ops (TEE_DigestUpdate api h b n m) = (ops m)(h \<mapsto> (a, d @ take (unat n) b))"
    and "ops m h = Some (a, d) \<Longrightarrow> unat n \<le> length b \<Longrightarrow> length (digest a (d @ take (unat n) b)) \<le> unat k \<Longrightarrow> unat k \<le> length out \<Longrightarrow>
        \<exists>rest m'. TEE_DigestDoFinal api h b n out k m =
           (TEE_SUCCESS, digest a (d @ take (unat n) b) @ rest, of_nat (length (digest a (d @ take (unat n) b))), m') \<and>
         ops m' = (ops m)(h \<mapsto> (a, []))"
    and "ops (TEE_FreeOperation api h m) = (ops m)(h := None)"
  using assms unfolding digest_op_laws_def by blast+

text \<open>The handle of the client for an operation of the TA\<close>

definition names_op :: "'m crypt_env \<Rightarrow> size_t \<Rightarrow> size_t \<Rightarrow> bool" where
  "names_op e oph h \<longleftrightarrow> oph \<le> UINT32_MAX \<and> VAL2HANDLE (ta_head (cryp_env e)) (ucast oph) = h"

lemma names_allocated:
  assumes "h \<noteq> 0" "0 < unat (h - ta_head (cryp_env e))" "unat (h - ta_head (cryp_env e)) < 2 ^ 32"
  shows "names_op e (ucast (HANDLE2VAL (ta_head (cryp_env e)) h)) h"
proof -
  let ?d = "h - ta_head (cryp_env e)"
  have d: "ucast (ucast ?d :: uint32) = ?d" using assms(3) by (intro ucast_up_down) (simp add: word_less_nat_alt)
  moreover have "(ucast ?d :: uint32) \<noteq> 0" using d assms(2) by (metis unsigned_0 less_irrefl)
  moreover have "?d \<le> UINT32_MAX"
    using assms(3) unfolding UINT32_MAX_def by (simp add: word_le_nat_alt)
  ultimately show ?thesis using assms(1) by (simp add: names_op_def HANDLE2VAL_def VAL2HANDLE_def)
qed

abbreviation ops_of :: "('m \<Rightarrow> 'r) \<Rightarrow> ('w \<Rightarrow> 'm crypt_ta) \<Rightarrow> 'w \<Rightarrow> 'r" where
  "ops_of ops ta w \<equiv> ops (mem (arith (ta w)))"

lemmas session_unfold = teec_types teec_type_values empty_op_ok Let_def crypt_dispatch on_mem_def ASSERT_PARAM_TYPE_def
  TEEC_SUCCESS_def TEE_SUCCESS_def assert_handles_def names_op_def

lemma allocate_served:
  assumes s: "teec_serves api (session c) ta shm (crypt_invoke e)" and l: "digest_op_laws (cryp_env e) ops digest room algs" and a: "algo \<in> algs" "room (mem (arith (ta w)))"
  shows "\<exists>oph h w'. ta_crypt_cmd_allocate_operation api c oph0 algo TEE_MODE_DIGEST 0 w = (TEEC_SUCCESS, oph, w') \<and>
    names_op e oph h \<and> ops_of ops ta w h = None \<and> ops_of ops ta w' = (ops_of ops ta w)(h \<mapsto> (algo, []))"
proof -
  obtain h m' where h: "TEE_AllocateOperation (cryp_env e) algo TEE_MODE_DIGEST 0 (mem (arith (ta w))) = (TEE_SUCCESS, h, m')"
      "h \<noteq> 0" "0 < unat (h - ta_head (cryp_env e))" "unat (h - ta_head (cryp_env e)) < 2 ^ 32"
      "ops_of ops ta w h = None" "ops m' = (ops_of ops ta w)(h \<mapsto> (algo, []))"
    using digest_law(1) [OF l a] by blast
  show ?thesis
    using crypt_served [OF s, where op = "empty_op\<lparr>op0 := op_value 0 algo, op1 := op_value TEE_MODE_DIGEST 0\<rparr>"
        and ?t0.0 = PT_VALUE_INOUT and ?t1.0 = PT_VALUE_INPUT and ?t2.0 = PT_NONE and ?t3.0 = PT_NONE
        and cmd = TA_CRYPT_CMD_ALLOCATE_OPERATION and w = w] names_allocated [OF h(2-4)] h(1,5,6)
    by (fastforce simp: ta_crypt_cmd_allocate_operation_def session_unfold ta_entry_allocate_operation_def)
qed


lemma update_served:
  assumes s: "teec_serves api (session c) ta shm (crypt_invoke e)" and l: "digest_op_laws (cryp_env e) ops digest room algs"
    and h: "names_op e oph h" "ops_of ops ta w h = Some (a, d)" and n: "length chunk < 2 ^ 32"
  shows "\<exists>w'. ta_crypt_cmd_digest_update api c oph chunk (of_nat (length chunk)) w = Some (TEEC_SUCCESS, w') \<and>
    ops_of ops ta w' = (ops_of ops ta w)(h \<mapsto> (a, d @ chunk))"
  using crypt_served [OF s, where op = "empty_op\<lparr>op0 := op_value (ucast oph) 0, op1 := op_tmpref chunk (ucast (of_nat (length chunk) :: uint32))\<rparr>"
      and ?t0.0 = PT_VALUE_INPUT and ?t1.0 = PT_MEMREF_INPUT and ?t2.0 = PT_NONE and ?t3.0 = PT_NONE
      and cmd = TA_CRYPT_CMD_DIGEST_UPDATE and w = w]
    digest_law(2) [OF l h(2), of "of_nat (length chunk)" chunk] h(1) unat_of_nat32 [OF n]
  by (fastforce simp: ta_crypt_cmd_digest_update_def session_unfold size_64_32 [OF n] ta_entry_digest_update_def simp del: unat_of_nat)

lemma final_served:
  assumes s: "teec_serves api (session c) ta shm (crypt_invoke e)" and l: "digest_op_laws (cryp_env e) ops digest room algs"
    and h: "names_op e oph h" "ops_of ops ta w h = Some (a, d)" and n: "length chunk < 2 ^ 32"
    and k: "length (digest a (d @ chunk)) \<le> unat k" "unat (k :: uint32) \<le> length hash"
  shows "\<exists>w'. ta_crypt_cmd_digest_do_final api c oph chunk (of_nat (length chunk)) hash (ucast k) w =
      Some (TEEC_SUCCESS, digest a (d @ chunk) @ drop (length (digest a (d @ chunk))) hash, of_nat (length (digest a (d @ chunk))), w') \<and>
    ops_of ops ta w' = (ops_of ops ta w)(h \<mapsto> (a, []))"
proof -
  let ?D = "digest a (d @ chunk)"
  have len: "length (shm w (unat k)) = unat k" by (rule shm_length [OF s])
  have D: "length ?D < 2 ^ 32" using k(1) unsigned_less [of k, where ?'a = nat] by simp
  obtain rest m' where f: "TEE_DigestDoFinal (cryp_env e) h chunk (of_nat (length chunk)) (shm w (unat k)) k (mem (arith (ta w))) =
      (TEE_SUCCESS, ?D @ rest, of_nat (length ?D), m')" "ops m' = (ops_of ops ta w)(h \<mapsto> (a, []))"
    using digest_law(3) [OF l h(2), of "of_nat (length chunk)" chunk k "shm w (unat k)"] k(1) len unat_of_nat32 [OF n] by auto
  have le: "(of_nat (length ?D) :: uint32) \<le> k" using k(1) by (simp add: word_le_nat_alt unat_of_nat32 [OF D])
  show ?thesis
    using crypt_served [OF s, where op = "empty_op\<lparr>op0 := op_value (ucast oph) 0, op1 := op_tmpref chunk (ucast (of_nat (length chunk) :: uint32)),
          op2 := op_tmpref hash (ucast k)\<rparr>"
        and ?t0.0 = PT_VALUE_INPUT and ?t1.0 = PT_MEMREF_INPUT and ?t2.0 = PT_MEMREF_OUTPUT and ?t3.0 = PT_NONE
        and cmd = TA_CRYPT_CMD_DIGEST_DO_FINAL and w = w] h(1) unat_of_nat32 [OF n] unat_of_nat32 [OF D] f k(2) le size_64_32 [OF D]
    by (fastforce simp: ta_crypt_cmd_digest_do_final_def session_unfold size_64_32 [OF n] ta_entry_digest_do_final_def simp del: unat_of_nat)
qed

lemma free_served:
  assumes s: "teec_serves api (session c) ta shm (crypt_invoke e)" and l: "digest_op_laws (cryp_env e) ops digest room algs" and h: "names_op e oph h"
  shows "\<exists>w'. ta_crypt_cmd_free_operation api c oph w = (TEEC_SUCCESS, w') \<and> ops_of ops ta w' = (ops_of ops ta w)(h := None)"
  using crypt_served [OF s, where op = "empty_op\<lparr>op0 := op_value (ucast oph) 0\<rparr>"
      and ?t0.0 = PT_VALUE_INPUT and ?t1.0 = PT_NONE and ?t2.0 = PT_NONE and ?t3.0 = PT_NONE
      and cmd = TA_CRYPT_CMD_FREE_OPERATION and w = w] digest_law(4) [OF l] h
  by (fastforce simp: ta_crypt_cmd_free_operation_def session_unfold ta_entry_free_operation_def)

text \<open>A client that feeds a message in pieces, each of which the command accepts\<close>

fun digest_pieces :: "('w, 'z) teec_api_scheme \<Rightarrow> oc \<Rightarrow> size_t \<Rightarrow> u8 list list \<Rightarrow> 'w \<Rightarrow> 'w option" where
  "digest_pieces api c oph [] w = Some w"
| "digest_pieces api c oph (x # xs) w = do {
     (res, w) \<leftarrow> ta_crypt_cmd_digest_update api c oph x (of_nat (length x)) w;
     if res = TEEC_SUCCESS then digest_pieces api c oph xs w else None }"

lemma pieces_served:
  assumes s: "teec_serves api (session c) ta shm (crypt_invoke e)" and l: "digest_op_laws (cryp_env e) ops digest room algs" and h: "names_op e oph h"
  shows "ops_of ops ta w h = Some (a, d) \<Longrightarrow> \<forall>x \<in> set xs. length x < 2 ^ 32 \<Longrightarrow>
    \<exists>w'. digest_pieces api c oph xs w = Some w' \<and> ops_of ops ta w' = (ops_of ops ta w)(h \<mapsto> (a, d @ concat xs))"
proof (induction xs arbitrary: w d)
  case Nil
  then show ?case by auto
next
  case (Cons x xs)
  obtain w1 where w1: "ta_crypt_cmd_digest_update api c oph x (of_nat (length x)) w = Some (TEEC_SUCCESS, w1)"
    "ops_of ops ta w1 = (ops_of ops ta w)(h \<mapsto> (a, d @ x))"
    using update_served [OF s l h Cons.prems(1), of x] Cons.prems(2) by auto
  have "ops_of ops ta w1 h = Some (a, d @ x)" by (simp add: w1(2))
  then obtain w2 where "digest_pieces api c oph xs w1 = Some w2" "ops_of ops ta w2 = (ops_of ops ta w1)(h \<mapsto> (a, (d @ x) @ concat xs))"
    using Cons.IH [of w1 "d @ x"] Cons.prems(2) unfolding list.set by blast
  with w1 show ?case by auto
qed

text \<open>
  C22.  A digest through the library, from allocating the operation to freeing it: however the message is
  cut into pieces, the client gets the digest of the whole message and its length, every call succeeds,
  and the operations of the TA are what they were.
\<close>

theorem crypt_library_digest:
  assumes s: "teec_serves api (session c) ta shm (crypt_invoke e)" and l: "digest_op_laws (cryp_env e) ops digest room algs" and a: "algo \<in> algs" "room (mem (arith (ta w)))"
    and x: "\<forall>x \<in> set xs. length x < 2 ^ 32" "length y < 2 ^ 32"
    and k: "length (digest algo (concat xs @ y)) \<le> unat k" "unat (k :: uint32) \<le> length hash"
  shows "\<exists>oph w1 w2 w3 w4.
    ta_crypt_cmd_allocate_operation api c oph0 algo TEE_MODE_DIGEST 0 w = (TEEC_SUCCESS, oph, w1) \<and>
    digest_pieces api c oph xs w1 = Some w2 \<and>
    ta_crypt_cmd_digest_do_final api c oph y (of_nat (length y)) hash (ucast k) w2 =
      Some (TEEC_SUCCESS, digest algo (concat xs @ y) @ drop (length (digest algo (concat xs @ y))) hash,
        of_nat (length (digest algo (concat xs @ y))), w3) \<and>
    ta_crypt_cmd_free_operation api c oph w3 = (TEEC_SUCCESS, w4) \<and>
    ops (mem (arith (ta w4))) = ops (mem (arith (ta w)))"
proof -
  obtain oph h w1 where 1: "ta_crypt_cmd_allocate_operation api c oph0 algo TEE_MODE_DIGEST 0 w = (TEEC_SUCCESS, oph, w1)"
    "names_op e oph h" "ops_of ops ta w h = None" "ops_of ops ta w1 = (ops_of ops ta w)(h \<mapsto> (algo, []))"
    using allocate_served [OF s l a] by blast
  obtain w2 where 2: "digest_pieces api c oph xs w1 = Some w2" "ops_of ops ta w2 = (ops_of ops ta w)(h \<mapsto> (algo, concat xs))"
    using pieces_served [OF s l 1(2), of w1 algo "[]" xs] 1(4) x(1) by auto
  obtain w3 where 3: "ta_crypt_cmd_digest_do_final api c oph y (of_nat (length y)) hash (ucast k) w2 =
      Some (TEEC_SUCCESS, digest algo (concat xs @ y) @ drop (length (digest algo (concat xs @ y))) hash,
        of_nat (length (digest algo (concat xs @ y))), w3)" "ops_of ops ta w3 = (ops_of ops ta w)(h \<mapsto> (algo, []))"
    using final_served [OF s l 1(2), of w2 algo "concat xs" y k hash] 2(2) x(2) k by auto
  obtain w4 where "ta_crypt_cmd_free_operation api c oph w3 = (TEEC_SUCCESS, w4)" "ops_of ops ta w4 = ops_of ops ta w"
    using free_served [OF s l 1(2), of w3] 3(2) 1(3) by (auto simp: fun_upd_idem)
  with 1(1) 2(1) 3(1) show ?thesis by blast
qed


section \<open>Operations for the witness\<close>

text \<open>
  The memory maps handles to operations and there is room for one; a digest is the algorithm and the
  length, one byte each.  The rest of the environment is arbitrary.
\<close>

type_synonym demo_ops = "size_t \<Rightarrow> (uint32 \<times> u8 list) option"

definition demo_digest :: "uint32 \<Rightarrow> u8 list \<Rightarrow> u8 list" where
  "demo_digest a d = [ucast a, of_nat (length d)]"

definition demo_cryp :: "demo_ops cryp_api \<Rightarrow> demo_ops cryp_api" where
  "demo_cryp base = base\<lparr>
     ta_head := 0x1000,
     TEE_AllocateOperation := \<lambda>algo _ _ m. (TEE_SUCCESS, 0x1001, m(0x1001 \<mapsto> (algo, []))),
     TEE_FreeOperation := \<lambda>h m. m(h := None),
     TEE_DigestUpdate := \<lambda>h b n m. (case m h of None \<Rightarrow> m | Some (a, d) \<Rightarrow> m(h \<mapsto> (a, d @ take (unat n) b))),
     TEE_DigestDoFinal := \<lambda>h b n out k m. (case m h of None \<Rightarrow> (TEE_ERROR_BAD_STATE, out, k, m)
       | Some (a, d) \<Rightarrow> (TEE_SUCCESS, demo_digest a (d @ take (unat n) b) @ drop 2 out, 2, m(h \<mapsto> (a, []))))\<rparr>"

lemma demo_digest_laws: "digest_op_laws (demo_cryp base) (\<lambda>m. m) demo_digest (\<lambda>m. m = Map.empty) UNIV"
  unfolding digest_op_laws_def by (simp add: demo_cryp_def demo_digest_def)

definition demo_crypt_env where
  "demo_crypt_env f base b k = \<lparr>bigint_env = f, cryp_env = demo_cryp base, mbedtls_env = b, client_env = k\<rparr>"

definition demo_crypt_ta :: "demo_ops crypt_ta" where
  "demo_crypt_ta = \<lparr>globalvalue = 0, use_fptr = False, rk = [], arith = \<lparr>hdb = \<lparr>ptrs = [], max_ptrs = 0\<rparr>, mem = Map.empty\<rparr>\<rparr>"

lemma demo_env_laws: "digest_op_laws (cryp_env (demo_crypt_env f base b k)) (\<lambda>m. m) demo_digest (\<lambda>m. m = Map.empty) UNIV"
  by (simp add: demo_crypt_env_def demo_digest_laws)

lemma crypt_library_digest_witness:
  "\<forall>f base b k. \<exists>oph w1 w2 w3 w4.
    ta_crypt_cmd_allocate_operation (direct_teec (crypt_invoke (demo_crypt_env f base b k))) \<lparr>ctx = 1, session = 2, oc_error = 0\<rparr>
      0 4 TEE_MODE_DIGEST 0 demo_crypt_ta = (TEEC_SUCCESS, oph, w1) \<and>
    digest_pieces (direct_teec (crypt_invoke (demo_crypt_env f base b k))) \<lparr>ctx = 1, session = 2, oc_error = 0\<rparr> oph [[1, 2], [], [3]] w1 = Some w2 \<and>
    ta_crypt_cmd_digest_do_final (direct_teec (crypt_invoke (demo_crypt_env f base b k))) \<lparr>ctx = 1, session = 2, oc_error = 0\<rparr>
      oph [4, 5] (of_nat (length [4, 5 :: u8])) [0, 0, 9] (ucast (3 :: uint32)) w2 =
      Some (TEEC_SUCCESS, demo_digest 4 (concat [[1, 2], [], [3]] @ [4, 5]) @ drop (length (demo_digest 4 (concat [[1, 2], [], [3]] @ [4, 5]))) [0, 0, 9],
        of_nat (length (demo_digest 4 (concat [[1, 2], [], [3]] @ [4, 5]))), w3) \<and>
    ta_crypt_cmd_free_operation (direct_teec (crypt_invoke (demo_crypt_env f base b k))) \<lparr>ctx = 1, session = 2, oc_error = 0\<rparr> oph w3 = (TEEC_SUCCESS, w4) \<and>
    mem (arith w4) = mem (arith demo_crypt_ta)"
  by (intro allI; rule crypt_library_digest [OF direct_teec_serves demo_env_laws])
    (simp_all add: demo_crypt_ta_def demo_digest_def)

end
