(* ===== verification/Os_Test.thy ===== *)
theory Os_Test
  imports Rpc_Ta Ta_Contract
begin

text \<open>
  Model of \<open>src/ta/os_test\<close> with \<open>src/ta/os_test_lib\<close>: the TA that tests what the TEE provides, as a client
  of itself and of the crypt TA.  A command ends in a result or in a panic; \<^term>\<open>None\<close> is a call that does
  not return or is undefined.
\<close>

definition TA_OS_TEST_CMD_INIT :: uint32 where "TA_OS_TEST_CMD_INIT = 0"
definition TA_OS_TEST_CMD_CLIENT_WITH_TIMEOUT :: uint32 where "TA_OS_TEST_CMD_CLIENT_WITH_TIMEOUT = 1"
definition TA_OS_TEST_CMD_BASIC :: uint32 where "TA_OS_TEST_CMD_BASIC = 5"
definition TA_OS_TEST_CMD_PANIC :: uint32 where "TA_OS_TEST_CMD_PANIC = 6"
definition TA_OS_TEST_CMD_CLIENT :: uint32 where "TA_OS_TEST_CMD_CLIENT = 7"
definition TA_OS_TEST_CMD_PARAMS_ACCESS :: uint32 where "TA_OS_TEST_CMD_PARAMS_ACCESS = 8"
definition TA_OS_TEST_CMD_WAIT :: uint32 where "TA_OS_TEST_CMD_WAIT = 9"
definition TA_OS_TEST_CMD_BAD_MEM_ACCESS :: uint32 where "TA_OS_TEST_CMD_BAD_MEM_ACCESS = 10"
definition TA_OS_TEST_CMD_TA2TA_MEMREF :: uint32 where "TA_OS_TEST_CMD_TA2TA_MEMREF = 11"
definition TA_OS_TEST_CMD_TA2TA_MEMREF_MIX :: uint32 where "TA_OS_TEST_CMD_TA2TA_MEMREF_MIX = 12"
definition TA_OS_TEST_CMD_PARAMS :: uint32 where "TA_OS_TEST_CMD_PARAMS = 13"
definition TA_OS_TEST_CMD_CALL_LIB :: uint32 where "TA_OS_TEST_CMD_CALL_LIB = 14"
definition TA_OS_TEST_CMD_CALL_LIB_PANIC :: uint32 where "TA_OS_TEST_CMD_CALL_LIB_PANIC = 15"

lemmas os_cmd_defs = TA_OS_TEST_CMD_INIT_def TA_OS_TEST_CMD_CLIENT_WITH_TIMEOUT_def TA_OS_TEST_CMD_BASIC_def
  TA_OS_TEST_CMD_PANIC_def TA_OS_TEST_CMD_CLIENT_def TA_OS_TEST_CMD_PARAMS_ACCESS_def TA_OS_TEST_CMD_WAIT_def
  TA_OS_TEST_CMD_BAD_MEM_ACCESS_def TA_OS_TEST_CMD_TA2TA_MEMREF_def TA_OS_TEST_CMD_TA2TA_MEMREF_MIX_def
  TA_OS_TEST_CMD_PARAMS_def TA_OS_TEST_CMD_CALL_LIB_def TA_OS_TEST_CMD_CALL_LIB_PANIC_def

definition os_test_uuid :: tee_uuid where
  "os_test_uuid = (0x5b9e0e40, 0x2636, 0x11e1, [0xad, 0x9e, 0x00, 0x02, 0xa5, 0xd5, 0xc5, 0x1b])"

definition TEE_PROPSET_TEE_IMPLEMENTATION :: size_t where "TEE_PROPSET_TEE_IMPLEMENTATION = 0xFFFFFFFD"
definition TEE_PROPSET_CURRENT_CLIENT :: size_t where "TEE_PROPSET_CURRENT_CLIENT = 0xFFFFFFFE"
definition TEE_PROPSET_CURRENT_TA :: size_t where "TEE_PROPSET_CURRENT_TA = 0xFFFFFFFF"
definition TEE_ORIGIN_TRUSTED_APP :: uint32 where "TEE_ORIGIN_TRUSTED_APP = 4"

section \<open>The API\<close>

text \<open>
  What the tests call beside heap and sessions.  A getter is given a name or \<^term>\<open>None\<close> for the property an
  enumerator is at; of the typed ones the model keeps the result only, since the value is not used.
  \<open>addr_test_uuid\<close>, \<open>addr_ret_orig\<close> and \<open>addr_buf\<close> are where the UUID, \<open>ret_orig\<close> and the local buffers of
  a function are, and \<open>float_result\<close> is what \<open>test_float\<close> returns, whose IEEE arithmetic is
  not modelled.
\<close>

record 'm os_api = "'m client_api" +
  TEE_AllocatePropertyEnumerator :: "'m \<Rightarrow> TEE_Result \<times> size_t \<times> 'm"
  TEE_FreePropertyEnumerator :: "size_t \<Rightarrow> 'm \<Rightarrow> 'm"
  TEE_StartPropertyEnumerator :: "size_t \<Rightarrow> size_t \<Rightarrow> 'm \<Rightarrow> 'm"
  TEE_GetPropertyName :: "size_t \<Rightarrow> u8 list \<Rightarrow> uint32 \<Rightarrow> 'm \<Rightarrow> TEE_Result \<times> u8 list \<times> uint32 \<times> 'm"
  TEE_GetNextProperty :: "size_t \<Rightarrow> 'm \<Rightarrow> TEE_Result \<times> 'm"
  TEE_GetPropertyAsString :: "size_t \<Rightarrow> u8 list option \<Rightarrow> u8 list \<Rightarrow> uint32 \<Rightarrow> 'm \<Rightarrow> TEE_Result \<times> u8 list \<times> uint32 \<times> 'm"
  TEE_GetPropertyAsBool :: "size_t \<Rightarrow> u8 list option \<Rightarrow> 'm \<Rightarrow> TEE_Result \<times> 'm"
  TEE_GetPropertyAsU32 :: "size_t \<Rightarrow> u8 list option \<Rightarrow> 'm \<Rightarrow> TEE_Result \<times> 'm"
  TEE_GetPropertyAsUUID :: "size_t \<Rightarrow> u8 list option \<Rightarrow> 'm \<Rightarrow> TEE_Result \<times> 'm"
  TEE_GetPropertyAsIdentity :: "size_t \<Rightarrow> u8 list option \<Rightarrow> 'm \<Rightarrow> TEE_Result \<times> 'm"
  TEE_GetPropertyAsBinaryBlock :: "size_t \<Rightarrow> u8 list option \<Rightarrow> u8 list \<Rightarrow> uint32 \<Rightarrow> 'm \<Rightarrow> TEE_Result \<times> u8 list \<times> uint32 \<times> 'm"
  TEE_CheckMemoryAccessRights :: "uint32 \<Rightarrow> size_t \<Rightarrow> size_t \<Rightarrow> 'm \<Rightarrow> TEE_Result"
  TEE_GetSystemTime :: "'m \<Rightarrow> TEE_Time \<times> 'm"
  TEE_GetREETime :: "'m \<Rightarrow> TEE_Time \<times> 'm"
  TEE_GetTAPersistentTime :: "TEE_Time \<Rightarrow> 'm \<Rightarrow> TEE_Result \<times> TEE_Time \<times> 'm"
  TEE_SetTAPersistentTime :: "TEE_Time \<Rightarrow> 'm \<Rightarrow> TEE_Result \<times> 'm"
  TEE_Wait :: "uint32 \<Rightarrow> 'm \<Rightarrow> TEE_Result \<times> 'm"
  addr_test_uuid :: size_t
  addr_ret_orig :: size_t
  addr_buf :: size_t
  float_result :: TEE_Result

section \<open>The properties\<close>

datatype p_type = P_TYPE_BOOL | P_TYPE_INT | P_TYPE_UUID | P_TYPE_IDENTITY | P_TYPE_STRING | P_TYPE_BINARY_BLOCK

record p_attr =
  p_str :: "u8 list"
  p_ty :: p_type
  retrieved :: bool

text \<open>A string literal without its zero, and the string in a buffer\<close>

definition lit :: "string \<Rightarrow> u8 list" where
  "lit s = map of_char s"

definition cstr :: "u8 list \<Rightarrow> u8 list" where
  "cstr b = takeWhile (\<lambda>c. c \<noteq> 0) b"

definition check_returned_prop :: "TEE_Result \<Rightarrow> TEE_Result \<Rightarrow> uint32 \<Rightarrow> uint32 \<Rightarrow> TEE_Result" where
  "check_returned_prop return_res expected_res return_len expected_len =
     (if return_res \<noteq> expected_res then TEE_ERROR_GENERIC
      else if return_len \<noteq> expected_len then TEE_ERROR_GENERIC
      else TEE_SUCCESS)"

definition hello_property :: "u8 list" where
  "hello_property = lit ''hello property, larger than 80 characters, so that it checks that it is not truncated by anything in the source code which may be wrong''"

text \<open>
  Where a step of the test leads: the function returns a result, or goes on.  The attributes are
  updated in place.
\<close>

type_synonym 'm prop_step = "(TEE_Result option \<times> p_attr list \<times> 'm) option"

text \<open>The getter of the type that is expected\<close>

definition get_typed :: "('m, 'z) os_api_scheme \<Rightarrow> size_t \<Rightarrow> p_type \<Rightarrow> u8 list \<Rightarrow> 'm \<Rightarrow> TEE_Result \<times> 'm" where
  "get_typed api h ty nbuf m = (case ty of
     P_TYPE_BOOL \<Rightarrow> TEE_GetPropertyAsBool api h None m
   | P_TYPE_INT \<Rightarrow> TEE_GetPropertyAsU32 api h None m
   | P_TYPE_UUID \<Rightarrow> TEE_GetPropertyAsUUID api h None m
   | P_TYPE_IDENTITY \<Rightarrow> TEE_GetPropertyAsIdentity api h None m
   | P_TYPE_STRING \<Rightarrow> (TEE_SUCCESS, m)
   | P_TYPE_BINARY_BLOCK \<Rightarrow>
       (let (res, bbuf, bblen, m) = TEE_GetPropertyAsBinaryBlock api h None (replicate 80 0) 80 m
        in if res \<noteq> TEE_SUCCESS then (res, m)
        else if cstr nbuf = lit ''myprop.binaryblock'' then
          if unat bblen \<noteq> length (lit ''Hello world!'') \<or> take (unat bblen) bbuf \<noteq> lit ''Hello world!''
          then (TEE_ERROR_GENERIC, m) else (TEE_SUCCESS, m)
        else (TEE_SUCCESS, m)))"

fun attrs_loop :: "('m, 'z) os_api_scheme \<Rightarrow> size_t \<Rightarrow> u8 list \<Rightarrow> p_attr list \<Rightarrow> 'm \<Rightarrow> TEE_Result option \<times> p_attr list \<times> 'm" where
  "attrs_loop api h nbuf [] m = (None, [], m)"
| "attrs_loop api h nbuf (a # as) m =
     (if cstr nbuf \<noteq> p_str a then
        let (r, as, m) = attrs_loop api h nbuf as m in (r, a # as, m)
      else if retrieved a then (Some TEE_ERROR_GENERIC, a # as, m)
      else
        let a = a\<lparr>retrieved := True\<rparr>;
            (res, m) = get_typed api h (p_ty a) nbuf m
        in if res \<noteq> TEE_SUCCESS then (Some res, a # as, m)
           else let (r, as, m) = attrs_loop api h nbuf as m in (r, a # as, m))"

text \<open>The body of the loop of \<open>print_properties\<close> up to \<open>TEE_GetNextProperty\<close>: the value, and before it the name\<close>

definition print_value :: "('m, 'z) os_api_scheme \<Rightarrow> size_t \<Rightarrow> size_t \<Rightarrow> u8 list \<Rightarrow> p_attr list \<Rightarrow> 'm \<Rightarrow> 'm prop_step" where
  "print_value api h prop_set nbuf attrs m =
     (let (res, vbuf, vblen, m) = TEE_GetPropertyAsString api h None (replicate 256 0) 256 m
      in do {
        vlen \<leftarrow> strlen vbuf;
        let res = check_returned_prop res TEE_SUCCESS vblen (of_nat (vlen + 1));
        if res \<noteq> TEE_SUCCESS then Some (Some res, attrs, m) else
        let (res, vbuf2, vblen2, m) = TEE_GetPropertyAsString api prop_set (Some (cstr nbuf)) (replicate 256 0) 256 m
        in do {
        vlen2 \<leftarrow> strlen vbuf2;
        let res = check_returned_prop res TEE_SUCCESS vblen2 (of_nat (vlen2 + 1));
        if res \<noteq> TEE_SUCCESS then Some (Some res, attrs, m)
        else if cstr vbuf \<noteq> cstr vbuf2 then Some (Some TEE_ERROR_GENERIC, attrs, m) else
        let (res, vbuf2, vblen2, m) = TEE_GetPropertyAsString api prop_set (Some (cstr nbuf)) vbuf2 1 m;
            res = check_returned_prop res TEE_ERROR_SHORT_BUFFER vblen2 vblen
        in if res \<noteq> TEE_SUCCESS then Some (Some res, attrs, m) else
        let (res, vbuf2, vblen2, m) = TEE_GetPropertyAsString api prop_set (Some (cstr nbuf)) vbuf2 (vblen - 1) m;
            res = check_returned_prop res TEE_ERROR_SHORT_BUFFER vblen2 vblen
        in if res \<noteq> TEE_SUCCESS then Some (Some res, attrs, m) else
        let (res, vbuf2, vblen2, m) = TEE_GetPropertyAsString api prop_set (Some (cstr nbuf)) vbuf2 vblen m;
            res = check_returned_prop res TEE_SUCCESS vblen2 vblen
        in if res \<noteq> TEE_SUCCESS then Some (Some res, attrs, m)
        else if cstr nbuf = lit ''myprop.hello'' \<and> unat vblen2 \<noteq> 1 + length hello_property
          then Some (Some TEE_ERROR_GENERIC, attrs, m)
        else Some (attrs_loop api h nbuf attrs m)
        } })"

definition print_property :: "('m, 'z) os_api_scheme \<Rightarrow> size_t \<Rightarrow> size_t \<Rightarrow> p_attr list \<Rightarrow> 'm \<Rightarrow> 'm prop_step" where
  "print_property api h prop_set attrs m =
     (let (res, nbuf, nblen, m) = TEE_GetPropertyName api h (replicate 256 0) 256 m
      in if res \<noteq> TEE_SUCCESS then Some (Some res, attrs, m)
      else do {
        nlen \<leftarrow> strlen nbuf;
        if unat nblen \<noteq> nlen + 1 then Some (Some TEE_ERROR_GENERIC, attrs, m)
        else
        let (res, small, n, m) = TEE_GetPropertyName api h (replicate 256 0) 2 m;
            res = check_returned_prop res TEE_ERROR_SHORT_BUFFER n nblen
        in if res \<noteq> TEE_SUCCESS then Some (Some res, attrs, m) else
        let (res, small, n, m) = TEE_GetPropertyName api h small (nblen - 1) m;
            res = check_returned_prop res TEE_ERROR_SHORT_BUFFER n nblen
        in if res \<noteq> TEE_SUCCESS then Some (Some res, attrs, m) else
        let (res, small, n, m) = TEE_GetPropertyName api h small nblen m;
            res = check_returned_prop res TEE_SUCCESS n nblen
        in if res \<noteq> TEE_SUCCESS then Some (Some res, attrs, m)
        else print_value api h prop_set nbuf attrs m
      })"

partial_function (option) print_loop ::
  "('m, 'z) os_api_scheme \<Rightarrow> size_t \<Rightarrow> size_t \<Rightarrow> p_attr list \<Rightarrow> 'm \<Rightarrow> (TEE_Result \<times> p_attr list \<times> 'm) option" where
  "print_loop api h prop_set attrs m =
     (case print_property api h prop_set attrs m of
        None \<Rightarrow> None
      | Some (Some res, attrs, m) \<Rightarrow> Some (res, attrs, m)
      | Some (None, attrs, m) \<Rightarrow>
          (let (res, m) = TEE_GetNextProperty api h m
           in if res = TEE_SUCCESS then print_loop api h prop_set attrs m
              else Some (if res = TEE_ERROR_ITEM_NOT_FOUND then TEE_SUCCESS else res, attrs, m)))"

definition print_properties where
  "print_properties api h prop_set attrs m =
     print_loop api h prop_set attrs (TEE_StartPropertyEnumerator api h prop_set m)"

definition test_p_attrs :: "p_attr list" where
  "test_p_attrs = map (\<lambda>(s, t). \<lparr>p_str = lit s, p_ty = t, retrieved = False\<rparr>) [
     (''gpd.ta.appID'', P_TYPE_UUID),
     (''gpd.ta.singleInstance'', P_TYPE_BOOL),
     (''gpd.ta.multiSession'', P_TYPE_BOOL),
     (''gpd.ta.instanceKeepAlive'', P_TYPE_BOOL),
     (''gpd.ta.dataSize'', P_TYPE_INT),
     (''gpd.ta.stackSize'', P_TYPE_INT),
     (''gpd.ta.version'', P_TYPE_STRING),
     (''gpd.ta.description'', P_TYPE_STRING),
     (''gpd.client.identity'', P_TYPE_IDENTITY),
     (''gpd.tee.apiversion'', P_TYPE_STRING),
     (''gpd.tee.description'', P_TYPE_STRING),
     (''gpd.tee.deviceID'', P_TYPE_UUID),
     (''gpd.tee.systemTime.protectionLevel'', P_TYPE_INT),
     (''gpd.tee.TAPersistentTime.protectionLevel'', P_TYPE_INT),
     (''gpd.tee.arith.maxBigIntSize'', P_TYPE_INT),
     (''gpd.tee.cryptography.ecc'', P_TYPE_BOOL),
     (''gpd.tee.trustedStorage.antiRollback.protectionLevel'', P_TYPE_INT),
     (''gpd.tee.trustedos.implementation.version'', P_TYPE_STRING),
     (''gpd.tee.trustedos.implementation.binaryversion'', P_TYPE_INT),
     (''gpd.tee.trustedos.manufacturer'', P_TYPE_STRING),
     (''gpd.tee.firmware.implementation.version'', P_TYPE_STRING),
     (''gpd.tee.firmware.implementation.binaryversion'', P_TYPE_INT),
     (''gpd.tee.firmware.manufacturer'', P_TYPE_STRING),
     (''myprop.true'', P_TYPE_BOOL),
     (''myprop.42'', P_TYPE_INT),
     (''myprop.123'', P_TYPE_UUID),
     (''myprop.1234'', P_TYPE_IDENTITY),
     (''myprop.hello'', P_TYPE_STRING),
     (''myprop.binaryblock'', P_TYPE_BINARY_BLOCK)]"

text \<open>The three property sets, one after the other\<close>

fun print_sets :: "('m, 'z) os_api_scheme \<Rightarrow> size_t \<Rightarrow> size_t list \<Rightarrow> p_attr list \<Rightarrow> 'm \<Rightarrow> (TEE_Result \<times> p_attr list \<times> 'm) option" where
  "print_sets api h [] attrs m = Some (TEE_SUCCESS, attrs, m)"
| "print_sets api h (s # ss) attrs m = do {
     (res, attrs, m) \<leftarrow> print_properties api h s attrs m;
     if res \<noteq> TEE_SUCCESS then Some (res, attrs, m) else print_sets api h ss attrs m
   }"

definition test_properties :: "('m, 'z) os_api_scheme \<Rightarrow> 'm \<Rightarrow> (TEE_Result \<times> 'm) option" where
  "test_properties api m =
     (let (res, h, m) = TEE_AllocatePropertyEnumerator api m
      in if res \<noteq> TEE_SUCCESS then Some (TEE_ERROR_GENERIC, m)
      else do {
        (res, attrs, m) \<leftarrow> print_sets api h
          [TEE_PROPSET_CURRENT_TA, TEE_PROPSET_CURRENT_CLIENT, TEE_PROPSET_TEE_IMPLEMENTATION] test_p_attrs m;
        let res = (if res = TEE_SUCCESS \<and> \<not> list_all retrieved attrs then TEE_ERROR_GENERIC else res);
        Some (res, TEE_FreePropertyEnumerator api h m)
      })"

section \<open>Memory, rights and time\<close>

definition test_malloc :: "('m, 'y) heap_api_scheme \<Rightarrow> 'm \<Rightarrow> TEE_Result \<times> 'm" where
  "test_malloc heap m =
     (let (p, m) = TEE_Malloc heap 4 m
      in if p = 0 then (TEE_ERROR_OUT_OF_MEMORY, m)
      else (TEE_SUCCESS, TEE_Free heap 0 (TEE_Free heap p m)))"

definition access_types :: uint32 where
  "access_types = TEE_PARAM_TYPES PT_MEMREF_INPUT PT_MEMREF_INPUT 0 0"

text \<open>The part of the function from opening a session of its own\<close>

definition access_from_ta :: "('m, 'z) os_api_scheme \<Rightarrow> 'm \<Rightarrow> TEE_Result \<times> 'm" where
  "access_from_ta api m =
     (let (res, sess, ret_orig, _, m) = TEE_OpenTASession api os_test_uuid 0 0 zero_params m
      in if res \<noteq> TEE_SUCCESS then (res, TEE_CloseTASession api sess m)
      else
        let l_params = zero_params\<lparr>p0 := zero_param\<lparr>maddr := addr_buf api, mbuf := replicate 32 0, msize := 32\<rparr>\<rparr>;
            (res, ret_orig, _, m) = TEE_InvokeTACommand api sess 0 TA_OS_TEST_CMD_PARAMS_ACCESS access_types l_params m
        in (res, TEE_CloseTASession api sess m))"

definition test_mem_access_right ::
  "('m, 'y) heap_api_scheme \<Rightarrow> ('m, 'z) os_api_scheme \<Rightarrow> uint32 \<Rightarrow> tee_params \<Rightarrow> 'm \<Rightarrow> TEE_Result \<times> 'm" where
  "test_mem_access_right heap api param_types params m =
     (let check = TEE_CheckMemoryAccessRights api;
          rw = TEE_MEMORY_ACCESS_READ OR TEE_MEMORY_ACCESS_WRITE
      in if param_types \<noteq> TEE_PARAM_TYPES PT_MEMREF_INPUT 0 0 0 then (TEE_ERROR_GENERIC, m) else
      let res = check (TEE_MEMORY_ACCESS_READ OR TEE_MEMORY_ACCESS_ANY_OWNER) (maddr (p0 params)) (ucast (msize (p0 params))) m
      in if res \<noteq> TEE_SUCCESS then (res, m)
      else if check TEE_MEMORY_ACCESS_READ (maddr (p0 params)) (ucast (msize (p0 params))) m \<noteq> TEE_ERROR_ACCESS_DENIED
        then (TEE_ERROR_GENERIC, m) else
      let res = check TEE_MEMORY_ACCESS_READ (addr_test_uuid api) 16 m
      in if res \<noteq> TEE_SUCCESS then (res, m)
      else if check TEE_MEMORY_ACCESS_WRITE (addr_test_uuid api) 16 m = TEE_SUCCESS then (TEE_ERROR_GENERIC, m) else
      let res = check rw (addr_ret_orig api) 4 m
      in if res \<noteq> TEE_SUCCESS then (res, m) else
      let (uuid, m) = TEE_Malloc heap 16 m
      in if uuid = 0 then (TEE_ERROR_OUT_OF_MEMORY, m) else
      let res = check rw (of_nat uuid) 16 m;
          m = TEE_Free heap uuid m
      in if res \<noteq> TEE_SUCCESS then (res, m)
      else if check TEE_MEMORY_ACCESS_READ 0 1 m = TEE_SUCCESS then (TEE_ERROR_GENERIC, m)
      else if check TEE_MEMORY_ACCESS_READ (256 * 1024) 1 m = TEE_SUCCESS then (TEE_ERROR_GENERIC, m)
      else access_from_ta api m)"

definition test_time :: "('m, 'z) os_api_scheme \<Rightarrow> 'm \<Rightarrow> TEE_Result \<times> 'm" where
  "test_time api m =
     (let (sys_t, m) = TEE_GetSystemTime api m;
          (t, m) = TEE_GetREETime api m;
          (res, t, m) = TEE_GetTAPersistentTime api t m
      in if res \<noteq> TEE_SUCCESS \<and> res \<noteq> TEE_ERROR_OVERFLOW \<and> res \<noteq> TEE_ERROR_TIME_NOT_SET \<and> res \<noteq> TEE_ERROR_TIME_NEEDS_RESET
        then (res, m) else
      let (res, m) = TEE_SetTAPersistentTime api \<lparr>seconds = 0, millis = 0\<rparr> m
      in if res \<noteq> TEE_SUCCESS then (res, m) else
      let (res, t, m) = TEE_GetTAPersistentTime api t m
      in if res \<noteq> TEE_SUCCESS then (res, m)
      else if seconds t > 1 \<or> millis t \<ge> 1000 then (TEE_ERROR_BAD_STATE, m) else
      let (res, m) = TEE_SetTAPersistentTime api \<lparr>seconds = 0xFFFFFFFF, millis = 999\<rparr> m
      in if res \<noteq> TEE_SUCCESS then (res, m) else
      let (res, m) = TEE_Wait api 1000 m;
          (res, t, m) = TEE_GetTAPersistentTime api t m
      in if res \<noteq> TEE_ERROR_OVERFLOW then (TEE_ERROR_BAD_STATE, m)
      else if seconds t > seconds sys_t then (TEE_ERROR_BAD_STATE, m)
      else (TEE_SUCCESS, m))"

text \<open>
  \<open>test_setjmp\<close>: \<open>setjmp\<close> returns a second time when \<open>longjmp(env, 1)\<close> is called, then with 1.  The argument
  is what \<open>setjmp\<close> returns.
\<close>

function setjmp_returns :: "nat \<Rightarrow> TEE_Result" where
  "setjmp_returns r = (if r \<noteq> 0 then TEE_SUCCESS else setjmp_returns 1)"
  by auto
termination by (relation "measure (\<lambda>r. if r = 0 then 1 else 0)") auto

declare setjmp_returns.simps [simp del]

definition test_setjmp :: TEE_Result where "test_setjmp = setjmp_returns 0"

definition ta_entry_basic ::
  "('m, 'y) heap_api_scheme \<Rightarrow> ('m, 'z) os_api_scheme \<Rightarrow> uint32 \<Rightarrow> tee_params \<Rightarrow> 'm \<Rightarrow> (TEE_Result \<times> 'm) option" where
  "ta_entry_basic heap api param_types params m =
     (let (res, m) = test_malloc heap m
      in if res \<noteq> TEE_SUCCESS then Some (res, m)
      else do {
        (res, m) \<leftarrow> test_properties api m;
        if res \<noteq> TEE_SUCCESS then Some (res, m) else
        let (res, m) = test_mem_access_right heap api param_types params m
        in if res \<noteq> TEE_SUCCESS then Some (res, m) else
        let (res, m) = test_time api m
        in if res \<noteq> TEE_SUCCESS then Some (res, m)
        else if float_result api \<noteq> TEE_SUCCESS then Some (float_result api, m)
        else if test_setjmp \<noteq> TEE_SUCCESS then Some (test_setjmp, m)
        else Some (TEE_SUCCESS, m)
      })"

section \<open>The other commands\<close>

datatype 'm os_outcome = Os_Returns TEE_Result tee_params 'm | Os_Panics

definition returns :: "tee_params \<Rightarrow> TEE_Result \<times> 'm \<Rightarrow> 'm os_outcome option" where
  "returns params r = Some (Os_Returns (fst r) params (snd r))"

definition ta_entry_panic :: "tee_params \<Rightarrow> 'm \<Rightarrow> 'm os_outcome option" where
  "ta_entry_panic params m = Some Os_Panics"

definition ta_entry_init where
  "ta_entry_init api params m =
     (let (res, _, m) = TEE_GetTAPersistentTime api \<lparr>seconds = 0, millis = 0\<rparr> m in returns params (res, m))"

definition ta_entry_client_with_timeout where
  "ta_entry_client_with_timeout api param_types params m =
     (if param_types \<noteq> TEE_PARAM_TYPES PT_VALUE_INPUT PT_NONE PT_NONE PT_NONE
        then returns params (TEE_ERROR_BAD_PARAMETERS, m)
      else
        let (res, sess, ret_orig, _, m) = TEE_OpenTASession api os_test_uuid 0 0 zero_params m
        in if res \<noteq> TEE_SUCCESS then returns params (res, m)
        else
          let (res, ret_orig, params, m) =
                TEE_InvokeTACommand api sess (val_a (p0 params) div 2) TA_OS_TEST_CMD_WAIT param_types params m;
              res = (if ret_orig \<noteq> TEE_ORIGIN_TRUSTED_APP \<or> res \<noteq> TEE_ERROR_CANCEL then TEE_ERROR_GENERIC else TEE_SUCCESS)
          in returns params (res, TEE_CloseTASession api sess m))"

definition sha256_in :: "u8 list" where "sha256_in = [0x61, 0x62, 0x63]"

definition sha256_out :: "u8 list" where
  "sha256_out = [
     0xba, 0x78, 0x16, 0xbf, 0x8f, 0x01, 0xcf, 0xea,
     0x41, 0x41, 0x40, 0xde, 0x5d, 0xae, 0x22, 0x23,
     0xb0, 0x03, 0x61, 0xa3, 0x96, 0x17, 0x7a, 0x9c,
     0xb4, 0x10, 0xff, 0x61, 0xf2, 0x00, 0x15, 0xad]"

text \<open>The output buffer is read back from the parameter the call leaves.\<close>

definition ta_entry_client where
  "ta_entry_client heap api params m =
     (let (inp, m) = TEE_Malloc heap 3 m
      in if inp = 0 then returns params (TEE_ERROR_OUT_OF_MEMORY, m)
      else
        let (res, sess, ret_orig, _, m) = TEE_OpenTASession api cryp_uuid 0 0 zero_params m;
            (res, m) =
              (if res \<noteq> TEE_SUCCESS then (res, m)
               else
                 let l_params = zero_params\<lparr>p0 := zero_param\<lparr>maddr := of_nat inp, mbuf := sha256_in, msize := 3\<rparr>,
                       p1 := zero_param\<lparr>maddr := addr_buf api, mbuf := replicate 32 0, msize := 32\<rparr>\<rparr>;
                     (res, ret_orig, l_params, m) = TEE_InvokeTACommand api sess 0 TA_CRYPT_CMD_SHA256
                       (TEE_PARAM_TYPES PT_MEMREF_INPUT PT_MEMREF_OUTPUT 0 0) l_params m
                 in if res \<noteq> TEE_SUCCESS then (res, m)
                    else if mbuf (p1 l_params) \<noteq> sha256_out then (TEE_ERROR_GENERIC, m)
                    else (res, m))
        in returns params (res, TEE_CloseTASession api sess (TEE_Free heap inp m)))"

definition ta_entry_params_access_rights where
  "ta_entry_params_access_rights api param_types params m = returns params
     (if param_types \<noteq> access_types then TEE_ERROR_GENERIC
      else
        let res = TEE_CheckMemoryAccessRights api (TEE_MEMORY_ACCESS_READ OR TEE_MEMORY_ACCESS_ANY_OWNER)
              (maddr (p0 params)) (ucast (msize (p0 params))) m
        in if res \<noteq> TEE_SUCCESS then res
        else if TEE_CheckMemoryAccessRights api TEE_MEMORY_ACCESS_READ (maddr (p0 params)) (ucast (msize (p0 params))) m
              \<noteq> TEE_ERROR_ACCESS_DENIED then TEE_ERROR_GENERIC
        else if maddr (p1 params) \<noteq> 0 \<or> msize (p1 params) \<noteq> 0 then TEE_ERROR_BAD_PARAMETERS
        else TEE_SUCCESS, m)"

definition ta_entry_wait where
  "ta_entry_wait api params m = returns params (TEE_Wait api (val_a (p0 params)) m)"

text \<open>Writing to address 0 or far from the stack, calling there, and the undefined instruction have no defined outcome.\<close>

definition ta_entry_bad_mem_access where
  "ta_entry_bad_mem_access param_types params m =
     (if param_types \<noteq> TEE_PARAM_TYPES PT_VALUE_INPUT 0 0 0 \<and>
         param_types \<noteq> TEE_PARAM_TYPES PT_VALUE_INPUT PT_MEMREF_INOUT 0 0 then returns params (TEE_ERROR_GENERIC, m)
      else if val_a (p0 params) \<in> {1, 2, 3, 4, 5} then None
      else returns params (TEE_SUCCESS, m))"

text \<open>The loop over the three buffers; an index outside one of them is undefined.\<close>

definition ta_entry_ta2ta_memref_mix where
  "ta_entry_ta2ta_memref_mix param_types params m =
     (if param_types \<noteq> TEE_PARAM_TYPES PT_MEMREF_INPUT PT_MEMREF_INOUT PT_MEMREF_OUTPUT 0
        then returns params (TEE_ERROR_GENERIC, m)
      else
        let bufsize = msize (p0 params)
        in if msize (p1 params) \<noteq> bufsize \<or> msize (p2 params) \<noteq> bufsize then returns params (TEE_ERROR_GENERIC, m)
        else do {
          (inout, out) \<leftarrow> foldM (\<lambda>i (inout, out). do {
              b \<leftarrow> ld inout i;
              inout \<leftarrow> st inout i (b + 1);
              a \<leftarrow> ld (mbuf (p0 params)) i;
              out \<leftarrow> st out i (b + 1 + a);
              Some (inout, out) }) [0..<unat bufsize] (mbuf (p1 params), mbuf (p2 params));
          returns (params\<lparr>p1 := (p1 params)\<lparr>mbuf := inout\<rparr>, p2 := (p2 params)\<lparr>mbuf := out\<rparr>\<rparr>) (TEE_SUCCESS, m)
        })"

definition TA2TA_BUF_SIZE :: nat where "TA2TA_BUF_SIZE = 2 * 1024"

definition incr_values :: "nat \<Rightarrow> u8 list \<Rightarrow> u8 list option" where
  "incr_values n a = foldM (\<lambda>i a. do { x \<leftarrow> ld a i; st a i (x + 1) }) [0..<n] a"

definition ta2ta_types :: uint32 where
  "ta2ta_types = TEE_PARAM_TYPES PT_MEMREF_INPUT PT_MEMREF_INOUT PT_MEMREF_OUTPUT 0"

text \<open>Whether the check of the values meets a wrong one\<close>

fun values_differ :: "nat list \<Rightarrow> u8 list \<Rightarrow> u8 list \<Rightarrow> u8 list \<Rightarrow> bool option" where
  "values_differ [] a b c = Some False"
| "values_differ (i # is) a b c = do {
     x \<leftarrow> ld a i; y \<leftarrow> ld b i; z \<leftarrow> ld c i;
     if x \<noteq> 6 \<or> y \<noteq> 13 \<or> z \<noteq> 19 then Some True else values_differ is a b c
   }"

definition ta_entry_ta2ta_memref where
  "ta_entry_ta2ta_memref api param_types params m =
     (if param_types \<noteq> TEE_PARAM_TYPES 0 0 0 0 then returns params (TEE_ERROR_GENERIC, m)
      else
        let (res, sess, ret_orig, _, m) = TEE_OpenTASession api os_test_uuid 0 0 zero_params m
        in if res \<noteq> TEE_SUCCESS then returns params (res, TEE_CloseTASession api sess m)
        else
          let n = TA2TA_BUF_SIZE;
              ref = (\<lambda>i x. zero_param\<lparr>maddr := addr_buf api + of_nat (i * n), mbuf := replicate n x, msize := of_nat n\<rparr>);
              (res, ret_orig, l, m) = TEE_InvokeTACommand api sess 0 TA_OS_TEST_CMD_TA2TA_MEMREF_MIX ta2ta_types
                (zero_params\<lparr>p0 := ref 0 5, p1 := ref 1 10, p2 := ref 2 0\<rparr>) m
          in if res \<noteq> TEE_SUCCESS then returns params (res, TEE_CloseTASession api sess m)
          else do {
            a \<leftarrow> incr_values n (mbuf (p0 l));
            b \<leftarrow> incr_values n (mbuf (p1 l));
            c \<leftarrow> incr_values n (mbuf (p2 l));
            let (res, ret_orig, l, m) = TEE_InvokeTACommand api sess 0 TA_OS_TEST_CMD_TA2TA_MEMREF_MIX ta2ta_types
                  (l\<lparr>p0 := (p0 l)\<lparr>mbuf := a\<rparr>, p1 := (p1 l)\<lparr>mbuf := b\<rparr>, p2 := (p2 l)\<lparr>mbuf := c\<rparr>\<rparr>) m;
            if res \<noteq> TEE_SUCCESS then returns params (res, TEE_CloseTASession api sess m)
            else do {
              bad \<leftarrow> values_differ [0..<n] (mbuf (p0 l)) (mbuf (p1 l)) (mbuf (p2 l));
              if bad then returns params (TEE_ERROR_GENERIC, m)
              else returns params (res, TEE_CloseTASession api sess m)
            }
          })"

definition ta_entry_params where
  "ta_entry_params param_types params m = returns params
     (if param_types \<noteq> TEE_PARAM_TYPES PT_MEMREF_INPUT PT_MEMREF_INPUT PT_MEMREF_OUTPUT PT_MEMREF_OUTPUT
        then TEE_ERROR_BAD_PARAMETERS
      else if list_ex (\<lambda>p. maddr p = 0 \<or> msize p = 0) (slots params) then TEE_ERROR_BAD_PARAMETERS
      else TEE_SUCCESS, m)"

text \<open>The shared library; the sum of two \<open>int\<close>s is undefined on overflow.\<close>

definition os_test_shlib_add :: "int \<Rightarrow> int \<Rightarrow> int option" where
  "os_test_shlib_add a b = (if - (2 ^ 31) \<le> a + b \<and> a + b < 2 ^ 31 then Some (a + b) else None)"

definition ta_entry_call_lib where
  "ta_entry_call_lib param_types params m =
     (if param_types \<noteq> TEE_PARAM_TYPES PT_NONE PT_NONE PT_NONE PT_NONE then returns params (TEE_ERROR_BAD_PARAMETERS, m)
      else do {
        s \<leftarrow> os_test_shlib_add 1 2;
        returns params (if s \<noteq> 3 then TEE_ERROR_GENERIC else TEE_SUCCESS, m) })"

definition ta_entry_call_lib_panic where
  "ta_entry_call_lib_panic param_types params m =
     (if param_types \<noteq> TEE_PARAM_TYPES PT_NONE PT_NONE PT_NONE PT_NONE then returns params (TEE_ERROR_BAD_PARAMETERS, m)
      else Some Os_Panics)"

definition os_invoke ::
  "('m, 'y) heap_api_scheme \<Rightarrow> ('m, 'z) os_api_scheme \<Rightarrow> uint32 \<Rightarrow> uint32 \<Rightarrow> tee_params \<Rightarrow> 'm \<Rightarrow> 'm os_outcome option" where
  "os_invoke heap api cmd types params m =
     (if cmd = TA_OS_TEST_CMD_INIT then ta_entry_init api params m
      else if cmd = TA_OS_TEST_CMD_CLIENT_WITH_TIMEOUT then ta_entry_client_with_timeout api types params m
      else if cmd = TA_OS_TEST_CMD_BASIC then ta_entry_basic heap api types params m \<bind> returns params
      else if cmd = TA_OS_TEST_CMD_PANIC then ta_entry_panic params m
      else if cmd = TA_OS_TEST_CMD_CLIENT then ta_entry_client heap api params m
      else if cmd = TA_OS_TEST_CMD_PARAMS_ACCESS then ta_entry_params_access_rights api types params m
      else if cmd = TA_OS_TEST_CMD_WAIT then ta_entry_wait api params m
      else if cmd = TA_OS_TEST_CMD_BAD_MEM_ACCESS then ta_entry_bad_mem_access types params m
      else if cmd = TA_OS_TEST_CMD_TA2TA_MEMREF then ta_entry_ta2ta_memref api types params m
      else if cmd = TA_OS_TEST_CMD_TA2TA_MEMREF_MIX then ta_entry_ta2ta_memref_mix types params m
      else if cmd = TA_OS_TEST_CMD_PARAMS then ta_entry_params types params m
      else if cmd = TA_OS_TEST_CMD_CALL_LIB then ta_entry_call_lib types params m
      else if cmd = TA_OS_TEST_CMD_CALL_LIB_PANIC then ta_entry_call_lib_panic types params m
      else returns params (TEE_ERROR_BAD_PARAMETERS, m))"

section \<open>What the commands leave behind\<close>

text \<open>
  The books of the TA: its blocks, its sessions and its property enumerators.  Heap and sessions keep to
  their laws, an enumerator that is allocated is new, and nothing else touches the three.
\<close>

definition kept :: "('m \<Rightarrow> ptr set) \<Rightarrow> ('m \<Rightarrow> size_t set) \<Rightarrow> ('m \<Rightarrow> size_t set) \<Rightarrow> 'm \<Rightarrow> 'm \<Rightarrow> bool" where
  "kept live ss es m m' \<longleftrightarrow> live m' = live m \<and> ss m' = ss m \<and> es m' = es m"

definition os_laws ::
  "('m, 'y) heap_api_scheme \<Rightarrow> ('m, 'z) os_api_scheme \<Rightarrow> ('m \<Rightarrow> ptr set) \<Rightarrow> ('m \<Rightarrow> size_t set) \<Rightarrow> ('m \<Rightarrow> size_t set) \<Rightarrow> bool" where
  "os_laws heap api live ss es \<longleftrightarrow> heap_laws heap live \<and> session_laws api ss \<and>
     (\<forall>n m. ss (snd (TEE_Malloc heap n m)) = ss m \<and> es (snd (TEE_Malloc heap n m)) = es m) \<and>
     (\<forall>p m. ss (TEE_Free heap p m) = ss m \<and> es (TEE_Free heap p m) = es m) \<and>
     (\<forall>u t pt ps m res s orig ps' m'. TEE_OpenTASession api u t pt ps m = (res, s, orig, ps', m') \<longrightarrow> live m' = live m \<and> es m' = es m) \<and>
     (\<forall>s m. live (TEE_CloseTASession api s m) = live m \<and> es (TEE_CloseTASession api s m) = es m) \<and>
     (\<forall>s t c pt ps m res orig ps' m'. TEE_InvokeTACommand api s t c pt ps m = (res, orig, ps', m') \<longrightarrow>
        live m' = live m \<and> es m' = es m \<and> map (\<lambda>p. length (mbuf p)) (slots ps') = map (\<lambda>p. length (mbuf p)) (slots ps)) \<and>
     (\<forall>m res h m'. TEE_AllocatePropertyEnumerator api m = (res, h, m') \<longrightarrow> live m' = live m \<and> ss m' = ss m \<and>
        (if res = TEE_SUCCESS then h \<notin> es m \<and> es m' = insert h (es m) else es m' = es m)) \<and>
     (\<forall>h m. live (TEE_FreePropertyEnumerator api h m) = live m \<and> ss (TEE_FreePropertyEnumerator api h m) = ss m \<and>
        es (TEE_FreePropertyEnumerator api h m) = es m - {h}) \<and>
     (\<forall>h s m. kept live ss es m (TEE_StartPropertyEnumerator api h s m)) \<and>
     (\<forall>h b n m. kept live ss es m (snd (snd (snd (TEE_GetPropertyName api h b n m))))) \<and>
     (\<forall>h m. kept live ss es m (snd (TEE_GetNextProperty api h m))) \<and>
     (\<forall>h x b n m. kept live ss es m (snd (snd (snd (TEE_GetPropertyAsString api h x b n m))))) \<and>
     (\<forall>h x m. kept live ss es m (snd (TEE_GetPropertyAsBool api h x m))) \<and>
     (\<forall>h x m. kept live ss es m (snd (TEE_GetPropertyAsU32 api h x m))) \<and>
     (\<forall>h x m. kept live ss es m (snd (TEE_GetPropertyAsUUID api h x m))) \<and>
     (\<forall>h x m. kept live ss es m (snd (TEE_GetPropertyAsIdentity api h x m))) \<and>
     (\<forall>h x b n m. kept live ss es m (snd (snd (snd (TEE_GetPropertyAsBinaryBlock api h x b n m))))) \<and>
     (\<forall>m. kept live ss es m (snd (TEE_GetSystemTime api m))) \<and>
     (\<forall>m. kept live ss es m (snd (TEE_GetREETime api m))) \<and>
     (\<forall>t m. kept live ss es m (snd (snd (TEE_GetTAPersistentTime api t m)))) \<and>
     (\<forall>t m. kept live ss es m (snd (TEE_SetTAPersistentTime api t m))) \<and>
     (\<forall>n m. kept live ss es m (snd (TEE_Wait api n m)))"

lemma kept_refl [simp]: "kept live ss es m m"
  by (simp add: kept_def)

lemma kept_trans: "kept live ss es m1 m2 \<Longrightarrow> kept live ss es m2 m3 \<Longrightarrow> kept live ss es m1 m3"
  by (simp add: kept_def)

text \<open>The calls, as steps between states\<close>

lemma os_quiet:
  assumes "os_laws heap api live ss es"
  shows "kept live ss es m (TEE_StartPropertyEnumerator api h s m)"
    "TEE_GetPropertyName api h b n m = (r, b', n', m') \<Longrightarrow> kept live ss es m m'"
    "TEE_GetNextProperty api h m = (r, m') \<Longrightarrow> kept live ss es m m'"
    "TEE_GetPropertyAsString api h x b n m = (r, b', n', m') \<Longrightarrow> kept live ss es m m'"
    "TEE_GetPropertyAsBool api h x m = (r, m') \<Longrightarrow> kept live ss es m m'"
    "TEE_GetPropertyAsU32 api h x m = (r, m') \<Longrightarrow> kept live ss es m m'"
    "TEE_GetPropertyAsUUID api h x m = (r, m') \<Longrightarrow> kept live ss es m m'"
    "TEE_GetPropertyAsIdentity api h x m = (r, m') \<Longrightarrow> kept live ss es m m'"
    "TEE_GetPropertyAsBinaryBlock api h x b n m = (r, b', n', m') \<Longrightarrow> kept live ss es m m'"
    "TEE_GetSystemTime api m = (t, m') \<Longrightarrow> kept live ss es m m'"
    "TEE_GetREETime api m = (t, m') \<Longrightarrow> kept live ss es m m'"
    "TEE_GetTAPersistentTime api t m = (r, t', m') \<Longrightarrow> kept live ss es m m'"
    "TEE_SetTAPersistentTime api t m = (r, m') \<Longrightarrow> kept live ss es m m'"
    "TEE_Wait api k m = (r, m') \<Longrightarrow> kept live ss es m m'"
  using assms unfolding os_laws_def by (metis snd_conv)+

lemma os_heap:
  assumes "os_laws heap api live ss es"
  shows "heap_laws heap live" "session_laws api ss"
    "TEE_Malloc heap n m = (p, m') \<Longrightarrow> ss m' = ss m \<and> es m' = es m"
    "ss (TEE_Free heap p m) = ss m" "es (TEE_Free heap p m) = es m"
  using assms unfolding os_laws_def by (metis snd_conv)+

lemma os_session:
  assumes "os_laws heap api live ss es"
  shows "TEE_OpenTASession api u t pt ps m = (res, s, orig, ps', m') \<Longrightarrow> live m' = live m \<and> es m' = es m"
    "live (TEE_CloseTASession api s m) = live m" "es (TEE_CloseTASession api s m) = es m"
    "TEE_InvokeTACommand api s t c pt ps m = (res, orig, ps', m') \<Longrightarrow>
       live m' = live m \<and> es m' = es m \<and> map (\<lambda>p. length (mbuf p)) (slots ps') = map (\<lambda>p. length (mbuf p)) (slots ps)"
    "TEE_AllocatePropertyEnumerator api m = (res, h, m') \<Longrightarrow> live m' = live m \<and> ss m' = ss m \<and>
        (if res = TEE_SUCCESS then h \<notin> es m \<and> es m' = insert h (es m) else es m' = es m)"
    "live (TEE_FreePropertyEnumerator api h m) = live m" "ss (TEE_FreePropertyEnumerator api h m) = ss m"
    "es (TEE_FreePropertyEnumerator api h m) = es m - {h}"
proof -
  note l = assms [unfolded os_laws_def]
  show "TEE_OpenTASession api u t pt ps m = (res, s, orig, ps', m') \<Longrightarrow> live m' = live m \<and> es m' = es m" using l by meson
  show "live (TEE_CloseTASession api s m) = live m" "es (TEE_CloseTASession api s m) = es m" using l by meson+
  show "TEE_InvokeTACommand api s t c pt ps m = (res, orig, ps', m') \<Longrightarrow>
       live m' = live m \<and> es m' = es m \<and> map (\<lambda>p. length (mbuf p)) (slots ps') = map (\<lambda>p. length (mbuf p)) (slots ps)" using l by meson
  show "TEE_AllocatePropertyEnumerator api m = (res, h, m') \<Longrightarrow> live m' = live m \<and> ss m' = ss m \<and>
        (if res = TEE_SUCCESS then h \<notin> es m \<and> es m' = insert h (es m) else es m' = es m)" using l by meson
  show "live (TEE_FreePropertyEnumerator api h m) = live m" "ss (TEE_FreePropertyEnumerator api h m) = ss m"
    "es (TEE_FreePropertyEnumerator api h m) = es m - {h}" using l by meson+
qed

text \<open>The property tests\<close>

lemma get_typed_kept:
  assumes l: "os_laws heap api live ss es"
  shows "get_typed api h ty nbuf m = (r, m') \<Longrightarrow> kept live ss es m m'"
  unfolding get_typed_def
  by (auto split: p_type.splits prod.splits if_splits dest: os_quiet(5-9) [OF l])

lemma attrs_loop_kept:
  assumes l: "os_laws heap api live ss es"
  shows "attrs_loop api h nbuf as m = (r, as', m') \<Longrightarrow> kept live ss es m m'"
proof (induction as arbitrary: m r as' m')
  case (Cons a as)
  then show ?case
    by (auto simp: Let_def split: if_splits prod.splits dest!: get_typed_kept [OF l] intro: kept_trans)
qed simp

lemma print_value_kept:
  assumes l: "os_laws heap api live ss es"
  shows "print_value api h s nbuf as m = Some (r, as', m') \<Longrightarrow> kept live ss es m m'"
  unfolding print_value_def Let_def
  by (auto split: if_splits prod.splits bind_splits dest!: os_quiet(4) [OF l] attrs_loop_kept [OF l]) (simp_all add: kept_def)

lemma print_property_kept:
  assumes l: "os_laws heap api live ss es"
  shows "print_property api h s as m = Some (r, as', m') \<Longrightarrow> kept live ss es m m'"
  unfolding print_property_def Let_def
  by (auto split: if_splits prod.splits bind_splits dest!: os_quiet(2) [OF l] print_value_kept [OF l]) (simp_all add: kept_def)

lemma print_loop_kept:
  assumes l: "os_laws heap api live ss es"
  shows "print_loop api h s as m = Some (r, as', m') \<Longrightarrow> kept live ss es m m'"
proof -
  assume r: "print_loop api h s as m = Some (r, as', m')"
  have "api = api \<longrightarrow> kept live ss es m (snd (snd (r, as', m')))"
  proof (rule print_loop.raw_induct [where P = "\<lambda>a _ _ _ m y. a = api \<longrightarrow> kept live ss es m (snd (snd y))", OF _ r], intro impI)
    fix loop a h s as m y
    assume IH: "\<And>a h s as m y. loop a h s as m = Some y \<Longrightarrow> a = api \<longrightarrow> kept live ss es m (snd (snd y))" and a: "a = api"
      and e: "(case print_property a h s as m of None \<Rightarrow> None
        | Some (Some res, as, m) \<Rightarrow> Some (res, as, m)
        | Some (None, as, m) \<Rightarrow>
            (let (res, m) = TEE_GetNextProperty a h m
             in if res = TEE_SUCCESS then loop a h s as m
                else Some (if res = TEE_ERROR_ITEM_NOT_FOUND then TEE_SUCCESS else res, as, m))) = Some y"
    show "kept live ss es m (snd (snd y))"
      using e unfolding a
      by (auto split: option.splits prod.splits if_splits dest!: print_property_kept [OF l] os_quiet(3) [OF l] IH)
        (auto simp: kept_def)
  qed
  then show "kept live ss es m m'" by simp
qed

lemma print_sets_kept:
  assumes l: "os_laws heap api live ss es"
  shows "print_sets api h sets as m = Some (r, as', m') \<Longrightarrow> kept live ss es m m'"
proof (induction sets arbitrary: as m)
  case (Cons s sets)
  then show ?case
    by (auto simp: print_properties_def split: if_splits bind_splits
        dest!: print_loop_kept [OF l] intro: kept_trans [OF kept_trans [OF os_quiet(1) [OF l]]] kept_trans [OF os_quiet(1) [OF l]])
qed simp


text \<open>The commands\<close>

lemma test_malloc_kept:
  assumes l: "os_laws heap api live ss es" and r: "test_malloc heap m = (r, m')"
  shows "kept live ss es m m'"
proof -
  obtain p m1 where p: "TEE_Malloc heap 4 m = (p, m1)" by fastforce
  note new = malloc_law [OF os_heap(1) [OF l] p] os_heap(3) [OF l p] no_null_block [OF os_heap(1) [OF l], of m]
  show ?thesis
    using r new by (auto simp: test_malloc_def p kept_def os_heap(4,5) [OF l] live_free [OF os_heap(1) [OF l]] split: if_splits)
qed

lemma test_properties_kept:
  assumes l: "os_laws heap api live ss es" and r: "test_properties api m = Some (r, m')"
  shows "kept live ss es m m'"
proof -
  obtain a h m1 where a: "TEE_AllocatePropertyEnumerator api m = (a, h, m1)" by (metis prod_cases3)
  note new = os_session(5) [OF l a]
  show ?thesis
  proof (cases "a = TEE_SUCCESS")
    case True
    then obtain r' as' m2 where p: "print_sets api h [TEE_PROPSET_CURRENT_TA, TEE_PROPSET_CURRENT_CLIENT, TEE_PROPSET_TEE_IMPLEMENTATION]
        test_p_attrs m1 = Some (r', as', m2)" and m': "m' = TEE_FreePropertyEnumerator api h m2"
      using r by (auto simp: test_properties_def a Let_def simp del: print_sets.simps split: bind_splits)
    show ?thesis
      using print_sets_kept [OF l p] new True by (auto simp: m' kept_def os_session(6-8) [OF l])
  qed (use r new in \<open>simp add: test_properties_def a kept_def\<close>)
qed

text \<open>A session that is opened, used and closed\<close>

lemma session_bracket:
  assumes l: "os_laws heap api live ss es"
    and o: "TEE_OpenTASession api u t pt ps m = (TEE_SUCCESS, s, orig, ps', m1)"
    and i: "TEE_InvokeTACommand api s t' c pt' qs m1 = (res, orig', qs', m2)"
  shows "kept live ss es m (TEE_CloseTASession api s m2)"
  using os_session(1) [OF l o] os_session(4) [OF l i] open_session [OF os_heap(2) [OF l] o] invoke_session [OF os_heap(2) [OF l] i]
  by (auto simp: kept_def os_session(2,3) [OF l] close_session [OF os_heap(2) [OF l]])

lemma failed_session:
  assumes l: "os_laws heap api live ss es"
    and o: "TEE_OpenTASession api u t pt ps m = (res, s, orig, ps', m1)" and r: "res \<noteq> TEE_SUCCESS"
  shows "kept live ss es m m1" "kept live ss es m (TEE_CloseTASession api s m1)"
  using os_session(1) [OF l o] open_session [OF os_heap(2) [OF l] o] r no_null_session [OF os_heap(2) [OF l], of m]
  by (auto simp: kept_def os_session(2,3) [OF l] close_session [OF os_heap(2) [OF l]])

lemma access_from_ta_kept:
  assumes l: "os_laws heap api live ss es" and r: "access_from_ta api m = (r, m')"
  shows "kept live ss es m m'"
proof -
  obtain a s og ps m1 where a: "TEE_OpenTASession api os_test_uuid 0 0 zero_params m = (a, s, og, ps, m1)" by (metis prod_cases5)
  show ?thesis
    using r session_bracket [OF l, of os_test_uuid 0 0 zero_params m s og ps m1] failed_session [OF l a]
    by (cases "a = TEE_SUCCESS") (auto simp: access_from_ta_def a Let_def split: prod.splits)
qed

lemma mem_access_right_kept:
  assumes l: "os_laws heap api live ss es" and r: "test_mem_access_right heap api types params m = (r, m')"
  shows "kept live ss es m m'"
proof -
  obtain p m1 where p: "TEE_Malloc heap 16 m = (p, m1)" by fastforce
  note new = malloc_law [OF os_heap(1) [OF l] p] os_heap(3) [OF l p]
  have free: "kept live ss es m (TEE_Free heap p m1)" if "p \<noteq> 0"
    using that new by (auto simp: kept_def os_heap(4,5) [OF l] live_free [OF os_heap(1) [OF l]])
  have fail: "kept live ss es m m1" if "p = 0" using that new by (simp add: kept_def)
  note access = access_from_ta_kept [OF l, of "TEE_Free heap p m1"]
  show ?thesis
    using r free fail access unfolding test_mem_access_right_def Let_def p
    by (auto split: if_splits prod.splits intro: kept_trans)
qed

lemma test_time_kept:
  assumes l: "os_laws heap api live ss es" and r: "test_time api m = (r, m')"
  shows "kept live ss es m m'"
  using r unfolding test_time_def Let_def
  by (auto split: if_splits prod.splits dest!: os_quiet(10-14) [OF l]) (simp_all add: kept_def)

lemma basic_kept:
  assumes l: "os_laws heap api live ss es" and r: "ta_entry_basic heap api types params m = Some (r, m')"
  shows "kept live ss es m m'"
  using r unfolding ta_entry_basic_def Let_def
  by (auto split: if_splits prod.splits bind_splits dest!: test_malloc_kept [OF l] test_properties_kept [OF l]
      mem_access_right_kept [OF l] test_time_kept [OF l] intro: kept_trans)


lemma basic_command_kept:
  assumes l: "os_laws heap api live ss es" and r: "ta_entry_basic heap api types params m \<bind> returns params = Some (Os_Returns res ps m')"
  shows "kept live ss es m m'"
  using r basic_kept [OF l] by (auto simp: returns_def split: bind_splits)

lemma timeout_kept:
  assumes l: "os_laws heap api live ss es" and r: "ta_entry_client_with_timeout api types params m = Some (Os_Returns res ps m')"
  shows "kept live ss es m m'"
proof -
  obtain a s og qs m1 where a: "TEE_OpenTASession api os_test_uuid 0 0 zero_params m = (a, s, og, qs, m1)" by (metis prod_cases5)
  show ?thesis
    using r session_bracket [OF l, of os_test_uuid 0 0 zero_params m s og qs m1] failed_session [OF l a]
    by (cases "a = TEE_SUCCESS") (auto simp: ta_entry_client_with_timeout_def returns_def a Let_def split: prod.splits if_splits)
qed

lemma client_kept:
  assumes l: "os_laws heap api live ss es" and r: "ta_entry_client heap api params m = Some (Os_Returns res ps m')"
  shows "kept live ss es m m'"
proof -
  obtain p m1 where p: "TEE_Malloc heap 3 m = (p, m1)" by fastforce
  obtain a s og qs m2 where a: "TEE_OpenTASession api cryp_uuid 0 0 zero_params m1 = (a, s, og, qs, m2)" by (metis prod_cases5)
  let ?l = "zero_params\<lparr>p0 := zero_param\<lparr>maddr := of_nat p, mbuf := sha256_in, msize := 3\<rparr>,
    p1 := zero_param\<lparr>maddr := addr_buf api, mbuf := replicate 32 0, msize := 32\<rparr>\<rparr>"
  obtain b og' qs' m3 where b: "TEE_InvokeTACommand api s 0 TA_CRYPT_CMD_SHA256 (TEE_PARAM_TYPES PT_MEMREF_INPUT PT_MEMREF_OUTPUT 0 0) ?l m2 =
      (b, og', qs', m3)" by (metis prod_cases4)
  note new = malloc_law [OF os_heap(1) [OF l] p] os_heap(3) [OF l p]
  show ?thesis
  proof (cases "p = 0")
    case True
    then show ?thesis using r new by (simp add: ta_entry_client_def returns_def p kept_def)
  next
    case False
    have m': "m' = TEE_CloseTASession api s (TEE_Free heap p (if a = TEE_SUCCESS then m3 else m2))"
      using r False by (simp add: ta_entry_client_def returns_def p a b Let_def split: if_splits)
    have "live m3 = live m2" "es m3 = es m2" "ss m3 = ss m2"
      using os_session(4) [OF l b] invoke_session [OF os_heap(2) [OF l] b] by simp_all
    then show ?thesis
      using False new os_session(1) [OF l a] open_session [OF os_heap(2) [OF l] a] no_null_session [OF os_heap(2) [OF l], of m]
      by (auto simp: m' kept_def os_heap(4,5) [OF l] live_free [OF os_heap(1) [OF l]] os_session(2,3) [OF l]
          close_session [OF os_heap(2) [OF l]] split: if_splits)
  qed
qed

text \<open>
  The command that does not close its session when a value is wrong.  \<open>ta2ta_values\<close> are the three buffers
  after its second call, if its session opens and both calls succeed.
\<close>

definition ta2ta_values :: "('m, 'z) os_api_scheme \<Rightarrow> 'm \<Rightarrow> (u8 list \<times> u8 list \<times> u8 list) option" where
  "ta2ta_values api m =
     (let n = TA2TA_BUF_SIZE;
          ref = (\<lambda>i x. zero_param\<lparr>maddr := addr_buf api + of_nat (i * n), mbuf := replicate n x, msize := of_nat n\<rparr>);
          mix = (\<lambda>s l. TEE_InvokeTACommand api s 0 TA_OS_TEST_CMD_TA2TA_MEMREF_MIX ta2ta_types l);
          (res, s, og, ps, m) = TEE_OpenTASession api os_test_uuid 0 0 zero_params m;
          (res1, og, l, m) = mix s (zero_params\<lparr>p0 := ref 0 5, p1 := ref 1 10, p2 := ref 2 0\<rparr>) m
      in if res \<noteq> TEE_SUCCESS \<or> res1 \<noteq> TEE_SUCCESS then None
         else do {
           a \<leftarrow> incr_values n (mbuf (p0 l));
           b \<leftarrow> incr_values n (mbuf (p1 l));
           c \<leftarrow> incr_values n (mbuf (p2 l));
           let (res2, og, l, m) = mix s (l\<lparr>p0 := (p0 l)\<lparr>mbuf := a\<rparr>, p1 := (p1 l)\<lparr>mbuf := b\<rparr>, p2 := (p2 l)\<lparr>mbuf := c\<rparr>\<rparr>) m;
           if res2 = TEE_SUCCESS then Some (mbuf (p0 l), mbuf (p1 l), mbuf (p2 l)) else None
         })"

definition ta2ta_wrong :: "('m, 'z) os_api_scheme \<Rightarrow> 'm \<Rightarrow> bool" where
  "ta2ta_wrong api m \<longleftrightarrow> (case ta2ta_values api m of None \<Rightarrow> False
     | Some (a, b, c) \<Rightarrow> \<exists>i < TA2TA_BUF_SIZE. a ! i \<noteq> 6 \<or> b ! i \<noteq> 13 \<or> c ! i \<noteq> 19)"

lemma values_differ_iff:
  "values_differ is a b c = Some d \<Longrightarrow> d \<longleftrightarrow> (\<exists>i \<in> set is. a ! i \<noteq> 6 \<or> b ! i \<noteq> 13 \<or> c ! i \<noteq> 19)"
  by (induction "is") (auto simp: ld_def split: if_splits)

lemma ta2ta_ends:
  assumes o: "TEE_OpenTASession api os_test_uuid 0 0 zero_params m = (TEE_SUCCESS, s, og, qs, m1)"
    and r: "ta_entry_ta2ta_memref api types params m = Some (Os_Returns res ps m')" and t: "types = TEE_PARAM_TYPES 0 0 0 0"
  shows "\<exists>c ps0 r1 og1 l1 m2. TEE_InvokeTACommand api s 0 c ta2ta_types ps0 m1 = (r1, og1, l1, m2) \<and>
    (m' = TEE_CloseTASession api s m2 \<and> \<not> ta2ta_wrong api m \<or>
      (\<exists>ps1 r2 og2 l2 m3. TEE_InvokeTACommand api s 0 c ta2ta_types ps1 m2 = (r2, og2, l2, m3) \<and>
        (if ta2ta_wrong api m then res = TEE_ERROR_GENERIC \<and> m' = m3 else m' = TEE_CloseTASession api s m3)))"
proof -
  define ps0 where "ps0 = (let n = TA2TA_BUF_SIZE;
      ref = (\<lambda>i x. zero_param\<lparr>maddr := addr_buf api + of_nat (i * n), mbuf := replicate n x, msize := of_nat n\<rparr>)
    in zero_params\<lparr>p0 := ref 0 5, p1 := ref 1 10, p2 := ref 2 0\<rparr>)"
  obtain r1 og1 l1 m2 where 1: "TEE_InvokeTACommand api s 0 TA_OS_TEST_CMD_TA2TA_MEMREF_MIX ta2ta_types ps0 m1 = (r1, og1, l1, m2)"
    by (metis prod_cases4)
  note r' = r [unfolded ta_entry_ta2ta_memref_def o t Let_def prod.case returns_def, folded ps0_def [unfolded Let_def], unfolded 1 prod.case]
  have w: "ta2ta_wrong api m \<longleftrightarrow> (case ta2ta_values api m of None \<Rightarrow> False
     | Some (a, b, c) \<Rightarrow> \<exists>i \<in> set [0..<TA2TA_BUF_SIZE]. a ! i \<noteq> 6 \<or> b ! i \<noteq> 13 \<or> c ! i \<noteq> 19)"
    by (auto simp: ta2ta_wrong_def split: option.splits)
  note v = ta2ta_values_def [of api m, unfolded o Let_def prod.case, folded ps0_def [unfolded Let_def], unfolded 1 prod.case]
  show ?thesis
  proof (cases "r1 = TEE_SUCCESS")
    case False
    then have "m' = TEE_CloseTASession api s m2" using r' by auto
    moreover have "\<not> ta2ta_wrong api m" using False by (simp add: w v)
    ultimately show ?thesis using 1 by blast
  next
    case True
    then obtain a b c where "incr_values TA2TA_BUF_SIZE (mbuf (p0 l1)) = Some a" "incr_values TA2TA_BUF_SIZE (mbuf (p1 l1)) = Some b"
      "incr_values TA2TA_BUF_SIZE (mbuf (p2 l1)) = Some c"
      using r' by (auto split: bind_splits)
    note r'' = r' [unfolded this bind.bind_lunit True] and v' = v [unfolded this bind.bind_lunit True]
    obtain r2 og2 l2 m3 where 2: "TEE_InvokeTACommand api s 0 TA_OS_TEST_CMD_TA2TA_MEMREF_MIX ta2ta_types
        (l1\<lparr>p0 := (p0 l1)\<lparr>mbuf := a\<rparr>, p1 := (p1 l1)\<lparr>mbuf := b\<rparr>, p2 := (p2 l1)\<lparr>mbuf := c\<rparr>\<rparr>) m2 = (r2, og2, l2, m3)"
      by (metis prod_cases4)
    have "if ta2ta_wrong api m then res = TEE_ERROR_GENERIC \<and> m' = m3 else m' = TEE_CloseTASession api s m3"
      using r'' v' 2 unfolding w by (auto split: if_splits bind_splits dest!: values_differ_iff)
    with 1 2 show ?thesis by blast
  qed
qed

text \<open>What is lost when a value is wrong\<close>

definition session_lost :: "('m \<Rightarrow> ptr set) \<Rightarrow> ('m \<Rightarrow> size_t set) \<Rightarrow> ('m \<Rightarrow> size_t set) \<Rightarrow> 'm \<Rightarrow> 'm \<Rightarrow> bool" where
  "session_lost live ss es m m' \<longleftrightarrow> live m' = live m \<and> es m' = es m \<and> (\<exists>s. s \<notin> ss m \<and> ss m' = insert s (ss m))"

lemma ta2ta_kept:
  assumes l: "os_laws heap api live ss es" and r: "ta_entry_ta2ta_memref api types params m = Some (Os_Returns res ps m')"
  shows "if types = TEE_PARAM_TYPES 0 0 0 0 \<and> ta2ta_wrong api m
    then res = TEE_ERROR_GENERIC \<and> session_lost live ss es m m' else kept live ss es m m'"
proof (cases "types = TEE_PARAM_TYPES 0 0 0 0")
  case False
  then show ?thesis using r by (simp add: ta_entry_ta2ta_memref_def returns_def)
next
  case True
  obtain a s og qs m1 where a: "TEE_OpenTASession api os_test_uuid 0 0 zero_params m = (a, s, og, qs, m1)" by (metis prod_cases5)
  show ?thesis
  proof (cases "a = TEE_SUCCESS")
    case False
    then have "\<not> ta2ta_wrong api m" by (simp add: ta2ta_wrong_def ta2ta_values_def a Let_def split: prod.splits)
    then show ?thesis using r True False failed_session [OF l a] by (simp add: ta_entry_ta2ta_memref_def returns_def a)
  next
    case a': True
    note still = os_session(4) [OF l] invoke_session [OF os_heap(2) [OF l]]
    obtain c ps0 r1 og1 l1 m2 where 1: "TEE_InvokeTACommand api s 0 c ta2ta_types ps0 m1 = (r1, og1, l1, m2)"
      and 2: "m' = TEE_CloseTASession api s m2 \<and> \<not> ta2ta_wrong api m \<or>
        (\<exists>ps1 r2 og2 l2 m3. TEE_InvokeTACommand api s 0 c ta2ta_types ps1 m2 = (r2, og2, l2, m3) \<and>
          (if ta2ta_wrong api m then res = TEE_ERROR_GENERIC \<and> m' = m3 else m' = TEE_CloseTASession api s m3))"
      using ta2ta_ends [OF a [unfolded a'] r True] by blast
    have m1: "live m1 = live m" "es m1 = es m" "s \<notin> ss m" "ss m1 = insert s (ss m)"
      using os_session(1) [OF l a] open_session [OF os_heap(2) [OF l] a] a' by simp_all
    have m2: "live m2 = live m" "es m2 = es m" "ss m2 = insert s (ss m)" using m1 still [OF 1] by simp_all
    have close: "kept live ss es m (TEE_CloseTASession api s v)"
      if "live v = live m" "es v = es m" "ss v = insert s (ss m)" for v
      using that m1(3) by (auto simp: kept_def os_session(2,3) [OF l] close_session [OF os_heap(2) [OF l]])
    from 2 show ?thesis
    proof (elim disjE exE conjE)
      assume "m' = TEE_CloseTASession api s m2" "\<not> ta2ta_wrong api m"
      then show ?thesis using close [OF m2] by simp
    next
      fix ps1 r2 og2 l2 m3
      assume i: "TEE_InvokeTACommand api s 0 c ta2ta_types ps1 m2 = (r2, og2, l2, m3)"
        and e: "if ta2ta_wrong api m then res = TEE_ERROR_GENERIC \<and> m' = m3 else m' = TEE_CloseTASession api s m3"
      have "live m3 = live m" "es m3 = es m" "ss m3 = insert s (ss m)" using m2 still [OF i] by simp_all
      then show ?thesis using e True m1(3) close [of m3] by (auto simp: session_lost_def split: if_splits)
    qed
  qed
qed

text \<open>The runs that lose a session\<close>

definition loses_session :: "('m, 'z) os_api_scheme \<Rightarrow> uint32 \<Rightarrow> uint32 \<Rightarrow> 'm \<Rightarrow> bool" where
  "loses_session api cmd types m \<longleftrightarrow>
     cmd = TA_OS_TEST_CMD_TA2TA_MEMREF \<and> types = TEE_PARAM_TYPES 0 0 0 0 \<and> ta2ta_wrong api m"

lemma os_command_kept:
  assumes l: "os_laws heap api live ss es" and r: "os_invoke heap api cmd types params m = Some (Os_Returns res ps m')"
  shows "if loses_session api cmd types m then res = TEE_ERROR_GENERIC \<and> session_lost live ss es m m' else kept live ss es m m'"
proof (cases "cmd = TA_OS_TEST_CMD_TA2TA_MEMREF")
  case True
  then show ?thesis
    using r ta2ta_kept [OF l, of types params m res ps m'] by (simp add: os_invoke_def os_cmd_defs loses_session_def)
next
  case False
  have init: "ta_entry_init api params m = Some (Os_Returns res ps m') \<Longrightarrow> kept live ss es m m'"
    by (auto simp: ta_entry_init_def returns_def split: prod.splits dest: os_quiet(12) [OF l])
  have wait: "ta_entry_wait api params m = Some (Os_Returns res ps m') \<Longrightarrow> kept live ss es m m'"
    by (auto simp: ta_entry_wait_def returns_def intro: os_quiet(14) [OF l prod.collapse [symmetric]])
  have others: "ta_entry_panic params m = Some (Os_Returns res ps m') \<Longrightarrow> m' = m"
    "ta_entry_params_access_rights api types params m = Some (Os_Returns res ps m') \<Longrightarrow> m' = m"
    "ta_entry_bad_mem_access types params m = Some (Os_Returns res ps m') \<Longrightarrow> m' = m"
    "ta_entry_ta2ta_memref_mix types params m = Some (Os_Returns res ps m') \<Longrightarrow> m' = m"
    "ta_entry_params types params m = Some (Os_Returns res ps m') \<Longrightarrow> m' = m"
    "ta_entry_call_lib types params m = Some (Os_Returns res ps m') \<Longrightarrow> m' = m"
    "ta_entry_call_lib_panic types params m = Some (Os_Returns res ps m') \<Longrightarrow> m' = m"
    "returns params (x, m) = Some (Os_Returns res ps m') \<Longrightarrow> m' = m" for x
    by (auto simp: ta_entry_panic_def ta_entry_params_access_rights_def ta_entry_bad_mem_access_def ta_entry_ta2ta_memref_mix_def
        ta_entry_params_def ta_entry_call_lib_def ta_entry_call_lib_panic_def returns_def Let_def split: if_splits bind_splits)
  have "kept live ss es m m'"
    using r False unfolding os_invoke_def
    by (auto simp del: bind_eq_Some_conv split: if_split_asm dest!: init wait others timeout_kept [OF l] client_kept [OF l]
        basic_command_kept [OF l])
  with False show ?thesis by (simp add: loses_session_def)
qed

text \<open>As a command set: what a command returns, when it returns\<close>

definition os_handler ::
  "('m, 'y) heap_api_scheme \<Rightarrow> ('m, 'z) os_api_scheme \<Rightarrow> uint32 \<Rightarrow> uint32 \<Rightarrow> tee_params \<Rightarrow> 'm \<Rightarrow> (TEE_Result \<times> tee_params \<times> 'm) option" where
  "os_handler heap api cmd types params m =
     (case os_invoke heap api cmd types params m of Some (Os_Returns res ps m') \<Rightarrow> Some (res, ps, m') | _ \<Rightarrow> None)"

interpretation os: command_set "os_handler heap api" "kept live ss es"
    "\<lambda>cmd params. os_laws heap api live ss es \<and> cmd \<noteq> TA_OS_TEST_CMD_TA2TA_MEMREF"
  for heap api live ss es
  by unfold_locales (auto simp: os_handler_def loses_session_def split: option.splits os_outcome.splits if_splits
    intro: kept_trans dest: os_command_kept)


text \<open>
  C12.  Every command, when it returns, has given back its blocks, sessions and property enumerators, whatever
  the API answers, with one exception: the command that checks the shared buffers loses the session it
  opened, and then reports a generic error, exactly when its session opens, both calls in it succeed and
  a value in one of the three buffers is not the expected one.  Sequences of the other commands give back
  all of the three.
\<close>
theorem os_commands_account:
  assumes l: "os_laws heap api live ss es"
  shows "(\<forall>res ps m'. os_invoke heap api cmd types params m = Some (Os_Returns res ps m') \<longrightarrow>
      (if cmd = TA_OS_TEST_CMD_TA2TA_MEMREF \<and> types = TEE_PARAM_TYPES 0 0 0 0 \<and> ta2ta_wrong api m
       then res = TEE_ERROR_GENERIC \<and> live m' = live m \<and> es m' = es m \<and> (\<exists>s. s \<notin> ss m \<and> ss m' = insert s (ss m))
       else kept live ss es m m')) \<and>
    (\<forall>cs m'. TA_OS_TEST_CMD_TA2TA_MEMREF \<notin> fst ` set cs \<longrightarrow> ta_run (os_handler heap api) cs m = Some m' \<longrightarrow> kept live ss es m m')"
proof (intro conjI allI impI)
  fix cs m'
  assume cs: "TA_OS_TEST_CMD_TA2TA_MEMREF \<notin> fst ` set cs" "ta_run (os_handler heap api) cs m = Some m'"
  show "kept live ss es m m'" by (rule os.run_keeps [OF _ cs(2)]) (use l cs(1) in force)
qed (use os_command_kept [OF l, of cmd types params m] in \<open>auto simp: loses_session_def session_lost_def split: if_splits\<close>)

section \<open>A TEE for the witness\<close>

text \<open>Blocks, sessions and the properties each enumerator has still to show; a session echoes.\<close>

record ta_prop =
  pname :: "u8 list"
  pvalue :: "u8 list"
  ptype :: p_type
  pbin :: "u8 list"

type_synonym demo_os_m = "ptr list \<times> nat list \<times> (size_t \<Rightarrow> ta_prop list option)"

text \<open>How the API hands out a string: with its zero, or only the size it needs\<close>

definition put_string :: "u8 list \<Rightarrow> u8 list \<Rightarrow> uint32 \<Rightarrow> TEE_Result \<times> u8 list \<times> uint32" where
  "put_string s buf n =
     (if unat n < length s + 1 then (TEE_ERROR_SHORT_BUFFER, buf, of_nat (length s + 1))
      else (TEE_SUCCESS, s @ [0] @ drop (length s + 1) buf, of_nat (length s + 1)))"

definition put_block_out :: "u8 list \<Rightarrow> u8 list \<Rightarrow> uint32 \<Rightarrow> TEE_Result \<times> u8 list \<times> uint32" where
  "put_block_out b buf n =
     (if unat n < length b then (TEE_ERROR_SHORT_BUFFER, buf, of_nat (length b))
      else (TEE_SUCCESS, b @ drop (length b) buf, of_nat (length b)))"

definition demo_current :: "(ta_prop \<Rightarrow> 'a) \<Rightarrow> 'a \<Rightarrow> size_t \<Rightarrow> demo_os_m \<Rightarrow> 'a" where
  "demo_current f none h m = (case snd (snd m) h of Some (p # ps) \<Rightarrow> f p | _ \<Rightarrow> none)"

definition demo_typed :: "p_type \<Rightarrow> size_t \<Rightarrow> u8 list option \<Rightarrow> demo_os_m \<Rightarrow> TEE_Result \<times> demo_os_m" where
  "demo_typed t h name m = (demo_current (\<lambda>p. if ptype p = t then TEE_SUCCESS else TEE_ERROR_BAD_FORMAT) TEE_ERROR_ITEM_NOT_FOUND h m, m)"

definition demo_text :: "TEE_Result \<times> u8 list \<times> uint32 \<Rightarrow> demo_os_m \<Rightarrow> TEE_Result \<times> u8 list \<times> uint32 \<times> demo_os_m" where
  "demo_text r m = (fst r, fst (snd r), snd (snd r), m)"

definition demo_os :: "(size_t \<Rightarrow> ta_prop list) \<Rightarrow> demo_os_m os_api" where
  "demo_os props = client_api.extend \<lparr>
       TEE_OpenTASession = \<lambda>u t pt ps (b, s, e). (let (res, h, orig, ps, s) = TEE_OpenTASession list_client u t pt ps s in (res, h, orig, ps, b, s, e)),
       TEE_InvokeTACommand = \<lambda>h t cmd pt ps m. (TEE_SUCCESS, 4, ps, m),
       TEE_CloseTASession = \<lambda>h (b, s, e). (b, TEE_CloseTASession list_client h s, e)\<rparr>
     (os_api.fields
       (\<lambda>(b, s, e). if e 5 = None then (TEE_SUCCESS, 5, b, s, e(5 \<mapsto> [])) else (TEE_ERROR_OUT_OF_MEMORY, 0, b, s, e))
       (\<lambda>h (b, s, e). (b, s, e(h := None)))
       (\<lambda>h k (b, s, e). (b, s, if e h = None then e else e(h \<mapsto> props k)))
       (\<lambda>h buf n m. demo_text (demo_current (\<lambda>p. put_string (pname p) buf n) (TEE_ERROR_ITEM_NOT_FOUND, buf, n) h m) m)
       (\<lambda>h (b, s, e). case e h of Some (p # q # ps) \<Rightarrow> (TEE_SUCCESS, b, s, e(h \<mapsto> q # ps)) | _ \<Rightarrow> (TEE_ERROR_ITEM_NOT_FOUND, b, s, e))
       (\<lambda>h name buf n m. demo_text (case name of
            None \<Rightarrow> demo_current (\<lambda>p. put_string (pvalue p) buf n) (TEE_ERROR_ITEM_NOT_FOUND, buf, n) h m
          | Some x \<Rightarrow> (case find (\<lambda>p. pname p = x) (props h) of None \<Rightarrow> (TEE_ERROR_ITEM_NOT_FOUND, buf, n) | Some p \<Rightarrow> put_string (pvalue p) buf n)) m)
       (demo_typed P_TYPE_BOOL) (demo_typed P_TYPE_INT) (demo_typed P_TYPE_UUID) (demo_typed P_TYPE_IDENTITY)
       (\<lambda>h name buf n m. demo_text (demo_current (\<lambda>p. if ptype p = P_TYPE_BINARY_BLOCK then put_block_out (pbin p) buf n
            else (TEE_ERROR_BAD_FORMAT, buf, n)) (TEE_ERROR_ITEM_NOT_FOUND, buf, n) h m) m)
       (\<lambda>flags p n m. if p = 0 then TEE_ERROR_ACCESS_DENIED else TEE_SUCCESS)
       (\<lambda>m. (\<lparr>seconds = 10, millis = 0\<rparr>, m)) (\<lambda>m. (\<lparr>seconds = 10, millis = 0\<rparr>, m))
       (\<lambda>t m. (TEE_SUCCESS, t, m)) (\<lambda>t m. (TEE_SUCCESS, m)) (\<lambda>n m. (TEE_SUCCESS, m))
       0x1000 0x2000 0x3000 TEE_SUCCESS)"

definition demo_os_heap :: "demo_os_m heap_api" where
  "demo_os_heap = \<lparr>TEE_Malloc = \<lambda>n (b, r). (let (p, b) = TEE_Malloc list_heap n b in (p, b, r)),
     TEE_Free = \<lambda>p (b, r). (TEE_Free list_heap p b, r)\<rparr>"

lemmas demo_os_defs = demo_os_def client_api.defs os_api.defs

lemma demo_os_laws:
  "os_laws demo_os_heap (demo_os props) (\<lambda>m. set (fst m) - {0}) (\<lambda>m. of_nat ` set (fst (snd m)) - {0}) (\<lambda>m. dom (snd (snd m)))"
proof -
  have heap: "heap_laws demo_os_heap (\<lambda>m. set (fst m) - {0})"
    by (auto simp: heap_laws_def demo_os_heap_def list_heap_def fresh_block split: prod.splits)
  have sess: "session_laws (demo_os props) (\<lambda>m. of_nat ` set (fst (snd m)) - {0})"
    unfolding session_laws_def
  proof (intro conjI allI impI)
    fix u t pt ps and m :: demo_os_m and res s orig ps' m'
    assume o: "TEE_OpenTASession (demo_os props) u t pt ps m = (res, s, orig, ps', m')"
    obtain b l e where m: "m = (b, l, e)" by (cases m)
    obtain l' where l': "TEE_OpenTASession list_client u t pt ps l = (res, s, orig, ps', l')" "m' = (b, l', e)"
      using o by (auto simp: m demo_os_defs split: prod.splits)
    show "if res = TEE_SUCCESS then s \<noteq> 0 \<and> s \<notin> of_nat ` set (fst (snd m)) - {0} \<and>
        of_nat ` set (fst (snd m')) - {0} = insert s (of_nat ` set (fst (snd m)) - {0})
      else s = 0 \<and> of_nat ` set (fst (snd m')) - {0} = of_nat ` set (fst (snd m)) - {0 :: size_t}"
      using open_session [OF list_client_laws l'(1)] by (auto simp: m l'(2) split: if_splits)
  next
    fix s and m :: demo_os_m
    show "of_nat ` set (fst (snd (TEE_CloseTASession (demo_os props) s m))) - {0} = of_nat ` set (fst (snd m)) - {0} - {s}"
      using close_session [OF list_client_laws, of s] by (cases m) (simp add: demo_os_defs)
  qed (auto simp: demo_os_defs)
  show ?thesis
    unfolding os_laws_def
    by (intro conjI heap sess)
      (auto simp: demo_os_heap_def demo_os_defs kept_def demo_typed_def demo_text_def TEE_SUCCESS_def TEE_ERROR_OUT_OF_MEMORY_def
          split: prod.splits if_splits option.splits list.splits)
qed

lemma incr_values_all: "length a = n \<Longrightarrow> incr_values n a = Some (map (\<lambda>x. x + 1) a)"
proof -
  assume n: "length a = n"
  have "foldM (\<lambda>i a. do { x \<leftarrow> ld a i; st a i (x + 1) }) [0..<n] (fill (\<lambda>i. a ! i + 1) a 0) = Some (fill (\<lambda>i. a ! i + 1) a n)"
    by (rule fill_loop) (use n in \<open>auto simp: ld_def fill_def nth_append\<close>)
  moreover have "fill (\<lambda>i. a ! i + 1) a n = map (\<lambda>x. x + 1) a"
    using n by (intro nth_equalityI) (auto simp: fill_def)
  ultimately show ?thesis by (simp add: incr_values_def fill_0)
qed

text \<open>A session that only echoes leaves a wrong sum, and the command loses its session.\<close>

lemma ta2ta_echo:
  "ta2ta_wrong (demo_os props) ([9], [], e)"
  "\<exists>m'. os_invoke demo_os_heap (demo_os props) TA_OS_TEST_CMD_TA2TA_MEMREF (TEE_PARAM_TYPES 0 0 0 0) zero_params ([9], [], e) =
      Some (Os_Returns TEE_ERROR_GENERIC zero_params m')"
proof -
  have n: "length (replicate TA2TA_BUF_SIZE x) = TA2TA_BUF_SIZE" for x :: u8 by simp
  have 0: "0 < TA2TA_BUF_SIZE" by (simp add: TA2TA_BUF_SIZE_def)
  show "ta2ta_wrong (demo_os props) ([9], [], e)"
    using 0 by (auto simp: ta2ta_wrong_def ta2ta_values_def demo_os_defs list_client_def fresh_session_def Let_def incr_values_all [OF n]
        intro!: exI [of _ 0])
  show "\<exists>m'. os_invoke demo_os_heap (demo_os props) TA_OS_TEST_CMD_TA2TA_MEMREF (TEE_PARAM_TYPES 0 0 0 0) zero_params ([9], [], e) =
      Some (Os_Returns TEE_ERROR_GENERIC zero_params m')"
    using 0 by (simp add: os_invoke_def os_cmd_defs ta_entry_ta2ta_memref_def demo_os_defs list_client_def fresh_session_def returns_def Let_def
        incr_values_all [OF n] ld_def upt_rec [of 0])
qed

lemma os_commands_account_witness:
  "(\<exists>m'. os_invoke demo_os_heap (demo_os (\<lambda>_. [])) TA_OS_TEST_CMD_TA2TA_MEMREF (TEE_PARAM_TYPES 0 0 0 0) zero_params ([9], [], \<lambda>_. None) =
      Some (Os_Returns TEE_ERROR_GENERIC zero_params m') \<and> (\<exists>s. of_nat ` set (fst (snd m')) - {0} = {s :: size_t})) \<and>
   (\<exists>m' w'. os_invoke demo_os_heap (demo_os (\<lambda>_. [])) TA_OS_TEST_CMD_CLIENT 0 zero_params ([9], [], \<lambda>_. None) =
      Some (Os_Returns TEE_ERROR_GENERIC zero_params m') \<and>
    kept (\<lambda>m. set (fst m) - {0}) (\<lambda>m. of_nat ` set (fst (snd m)) - {0}) (\<lambda>m. dom (snd (snd m))) ([9], [], \<lambda>_. None) m' \<and>
    ta_run (os_handler demo_os_heap (demo_os (\<lambda>_. []))) [(TA_OS_TEST_CMD_CLIENT, 0, zero_params), (TA_OS_TEST_CMD_INIT, 0, zero_params)]
      ([9], [], \<lambda>_. None) = Some w' \<and>
    kept (\<lambda>m. set (fst m) - {0}) (\<lambda>m. of_nat ` set (fst (snd m)) - {0}) (\<lambda>m. dom (snd (snd m))) ([9], [], \<lambda>_. None) w')"
proof (intro conjI)
  let ?m = "([9], [], \<lambda>_. None) :: demo_os_m"
  let ?cs = "[(TA_OS_TEST_CMD_CLIENT, 0, zero_params), (TA_OS_TEST_CMD_INIT, 0, zero_params)]"
  note claim = os_commands_account [OF demo_os_laws, of "\<lambda>_. []" _ _ zero_params ?m]
  show "\<exists>m'. os_invoke demo_os_heap (demo_os (\<lambda>_. [])) TA_OS_TEST_CMD_TA2TA_MEMREF (TEE_PARAM_TYPES 0 0 0 0) zero_params ?m =
      Some (Os_Returns TEE_ERROR_GENERIC zero_params m') \<and> (\<exists>s. of_nat ` set (fst (snd m')) - {0} = {s :: size_t})"
    using claim [of TA_OS_TEST_CMD_TA2TA_MEMREF "TEE_PARAM_TYPES 0 0 0 0"] ta2ta_echo [of "\<lambda>_. []" "\<lambda>_. None"] by auto
  have ne: "replicate 32 (0 :: u8) \<noteq> sha256_out" by (simp add: sha256_out_def eval_nat_numeral)
  have "\<exists>m'. os_invoke demo_os_heap (demo_os (\<lambda>_. [])) TA_OS_TEST_CMD_CLIENT 0 zero_params ?m =
      Some (Os_Returns TEE_ERROR_GENERIC zero_params m')"
    by (simp add: os_invoke_def os_cmd_defs ta_entry_client_def returns_def demo_os_heap_def demo_os_defs list_heap_def list_client_def
        fresh_session_def ne Let_def)
  then obtain m' where m': "os_invoke demo_os_heap (demo_os (\<lambda>_. [])) TA_OS_TEST_CMD_CLIENT 0 zero_params ?m =
      Some (Os_Returns TEE_ERROR_GENERIC zero_params m')" by blast
  have "\<exists>w'. ta_run (os_handler demo_os_heap (demo_os (\<lambda>_. []))) ?cs ?m = Some w'"
    by (cases m', simp add: os_handler_def m') (simp add: os_invoke_def os_cmd_defs ta_entry_init_def returns_def demo_os_defs)
  then obtain w' where w': "ta_run (os_handler demo_os_heap (demo_os (\<lambda>_. []))) ?cs ?m = Some w'" by blast
  have ne: "TA_OS_TEST_CMD_CLIENT \<noteq> TA_OS_TEST_CMD_TA2TA_MEMREF" "TA_OS_TEST_CMD_TA2TA_MEMREF \<notin> fst ` set ?cs"
    by (simp_all add: os_cmd_defs)
  note kept_m' = claim [of TA_OS_TEST_CMD_CLIENT 0, THEN conjunct1, rule_format, OF m']
    and kept_w' = claim [of TA_OS_TEST_CMD_CLIENT 0, THEN conjunct2, rule_format, OF ne(2) w']
  show "\<exists>m' w'. os_invoke demo_os_heap (demo_os (\<lambda>_. [])) TA_OS_TEST_CMD_CLIENT 0 zero_params ?m =
      Some (Os_Returns TEE_ERROR_GENERIC zero_params m') \<and>
    kept (\<lambda>m. set (fst m) - {0}) (\<lambda>m. of_nat ` set (fst (snd m)) - {0}) (\<lambda>m. dom (snd (snd m))) ?m m' \<and>
    ta_run (os_handler demo_os_heap (demo_os (\<lambda>_. []))) ?cs ?m = Some w' \<and>
    kept (\<lambda>m. set (fst m) - {0}) (\<lambda>m. of_nat ` set (fst (snd m)) - {0}) (\<lambda>m. dom (snd (snd m))) ?m w'"
    using m' w' kept_m' kept_w' ne(1) by (intro exI [of _ m'] exI [of _ w'] conjI) simp_all
qed

end
