(* ===== verification/Sha2_Vector.thy ===== *)
theory Sha2_Vector
  imports Sha2_Correct
begin

text \<open>
  The digest of \<open>"abc"\<close>, the first test vector of FIPS 180, computed by the kernel.  The schedule of the
  standard is recursive in all earlier words, so it is first brought into a form that computes.
\<close>


text \<open>The schedule as a window of sixteen words that moves with the rounds\<close>

fun sha_window :: "uint32 list \<Rightarrow> uint32 list \<Rightarrow> sha_regs \<Rightarrow> sha_regs" where
  "sha_window [] w r = r"
| "sha_window (k # ks) w r =
     sha_window ks (tl w @ [sigma1 (w ! 14) + w ! 9 + sigma0 (w ! 1) + hd w]) (sha_round k (hd w) r)"

lemma sha_window_rounds:
  "sha_window (map K [t..<t + n]) (map (schedule M) [t..<t + 16]) r =
     fold (\<lambda>t. sha_round (K t) (schedule M t)) [t..<t + n] r"
proof (induction n arbitrary: t r)
  case (Suc n)
  have n: "[t..<t + Suc n] = t # [Suc t..<Suc t + n]" by (simp add: upt_rec)
  have w: "map (schedule M) [t..<t + 16] = schedule M t # map (schedule M) [Suc t..<t + 16]" by (simp add: upt_rec)
  have "schedule M (t + 16) = sigma1 (schedule M (t + 14)) + schedule M (t + 9) + sigma0 (schedule M (t + 1)) + schedule M t"
    by (subst schedule.simps) (simp add: add.commute)
  moreover have "[Suc t..<Suc (t + 16)] = [Suc t..<t + 16] @ [t + 16]" by (rule upt_Suc_append) simp
  ultimately have s: "map (schedule M) [Suc t..<t + 16] @ [sigma1 (map (schedule M) [t..<t + 16] ! 14) + map (schedule M) [t..<t + 16] ! 9 +
      sigma0 (map (schedule M) [t..<t + 16] ! 1) + schedule M t] = map (schedule M) [Suc t..<Suc (t + 16)]"
    by simp
  show ?case
    unfolding n using Suc.IH [of "Suc t"] s by (simp add: w del: upt_Suc)
qed simp

text \<open>A message of one block\<close>

lemma sha256_one_block:
  assumes "length p = 64"
  shows "hash_padded K H p = add_regs H (sha_window (map K [0..<64]) (map (\<lambda>j. be32_at p (4 * j)) [0..<16]) H)"
proof -
  let ?M = "\<lambda>j. be32_at p (4 * j)"
  have "map ?M [0..<16] = map (schedule ?M) [0..<16]"
    by (rule map_cong [OF refl]) (subst schedule.simps, simp)
  moreover have "sha_window (map K [0..<64]) (map (schedule ?M) [0..<16]) H = fold (\<lambda>t. sha_round (K t) (schedule ?M t)) [0..<64] H"
    using sha_window_rounds [of K 0 64 ?M H] by simp
  moreover have "hash_padded K H p = compress K ?M H"
    using assms by (simp add: hash_padded_def hash_blocks_def)
  ultimately show ?thesis by (simp only: compress_def)
qed
lemma pad_abc: "pad [0x61, 0x62, 0x63] = [0x61, 0x62, 0x63, 0x80] @ replicate 52 0 @ [0,0,0,0,0,0,0,24]"
  by code_simp

lemma abc_words: "map (\<lambda>j. be32_at (pad [0x61, 0x62, 0x63]) (4 * j)) [0..<16] =
  [0x61626380, 0, 0, 0, 0, 0, 0, 0, 0, 0, 0, 0, 0, 0, 0, 0x18]"
  unfolding pad_abc by code_simp

lemma abc_rounds: "add_regs (regs_of sha256_h0) (sha_window sha256_k [0x61626380, 0, 0, 0, 0, 0, 0, 0, 0, 0, 0, 0, 0, 0, 0, 0x18] (regs_of sha256_h0)) =
   (0xba7816bf, 0x8f01cfea, 0x414140de, 0x5dae2223, 0xb00361a3, 0x96177a9c, 0xb410ff61, 0xf20015ad)"
  by code_simp

lemma sha256_abc:
  "digest_bytes 8 (hash_padded (nth sha256_k) (regs_of sha256_h0) (pad [0x61, 0x62, 0x63])) =
    [0xba, 0x78, 0x16, 0xbf, 0x8f, 0x01, 0xcf, 0xea, 0x41, 0x41, 0x40, 0xde, 0x5d, 0xae, 0x22, 0x23,
     0xb0, 0x03, 0x61, 0xa3, 0x96, 0x17, 0x7a, 0x9c, 0xb4, 0x10, 0xff, 0x61, 0xf2, 0x00, 0x15, 0xad]"
proof -
  have k: "map (nth sha256_k) [0..<64] = sha256_k"
    using map_nth [of sha256_k] by (simp add: length_sha256_k del: upt_rec_numeral)
  have p: "length (pad [0x61, 0x62, 0x63]) = 64" by (simp add: pad_abc)
  show ?thesis
    unfolding sha256_one_block [OF p] k abc_words abc_rounds by code_simp
qed

end
