(* ===== verification/Os_Calls.thy ===== *)
theory Os_Calls
  imports Os_Test Sha2_Vector
begin

text \<open>
  The OS test TA as a client: what its commands answer when the TEE delivers them to another instance of the
  TA and to the crypt TA.
\<close>

section \<open>The TA as its own client\<close>

text \<open>The mixing command on buffers of one size: the sums wrap at 256.\<close>

lemma memref_mix_all:
  assumes ok: "memref_ok (p0 ps)" "memref_ok (p1 ps)" "memref_ok (p2 ps)" and n: "msize (p1 ps) = msize (p0 ps)" "msize (p2 ps) = msize (p0 ps)"
  shows "ta_entry_ta2ta_memref_mix ta2ta_types ps m = Some (Os_Returns TEE_SUCCESS
    (ps\<lparr>p1 := (p1 ps)\<lparr>mbuf := map (\<lambda>b. b + 1) (mbuf (p1 ps))\<rparr>,
        p2 := (p2 ps)\<lparr>mbuf := map2 (\<lambda>b a. b + 1 + a) (mbuf (p1 ps)) (mbuf (p0 ps))\<rparr>\<rparr>) m)"
proof -
  let ?n = "unat (msize (p0 ps))" and ?a = "mbuf (p0 ps)" and ?b = "mbuf (p1 ps)" and ?c = "mbuf (p2 ps)"
  let ?f = "\<lambda>i. ?b ! i + 1" and ?g = "\<lambda>i. ?b ! i + 1 + ?a ! i"
  have len: "length ?a = ?n" "length ?b = ?n" "length ?c = ?n" using ok n by (simp_all add: memref_ok_def)
  have "\<exists>s. foldM (\<lambda>i (inout, out). do {
      b \<leftarrow> ld inout i; inout \<leftarrow> st inout i (b + 1); a \<leftarrow> ld ?a i; out \<leftarrow> st out i (b + 1 + a); Some (inout, out) })
      [0..<?n] (?b, ?c) = Some s \<and> s = (fill ?f ?b ?n, fill ?g ?c ?n)"
  proof (rule foldM_upt_rule [where I = "\<lambda>k s. s = (fill ?f ?b k, fill ?g ?c k)"])
    fix k and s :: "u8 list \<times> u8 list"
    assume k: "k < ?n" "s = (fill ?f ?b k, fill ?g ?c k)"
    have "ld (fill ?f ?b k) k = Some (?b ! k)" using k(1) len by (simp add: ld_def fill_def nth_append)
    moreover have "st (fill ?f ?b k) k (?b ! k + 1) = Some (fill ?f ?b (Suc k))" using k(1) len by (intro st_fill) simp_all
    moreover have "ld ?a k = Some (?a ! k)" using k(1) len by (simp add: ld_def)
    moreover have "st (fill ?g ?c k) k (?b ! k + 1 + ?a ! k) = Some (fill ?g ?c (Suc k))" using k(1) len by (intro st_fill) simp_all
    ultimately show "\<exists>s'. (case s of (inout, out) \<Rightarrow> do {
      b \<leftarrow> ld inout k; inout \<leftarrow> st inout k (b + 1); a \<leftarrow> ld ?a k; out \<leftarrow> st out k (b + 1 + a); Some (inout, out) }) = Some s' \<and>
      s' = (fill ?f ?b (Suc k), fill ?g ?c (Suc k))" by (simp add: k(2))
  qed (simp_all add: fill_0)
  moreover have "fill ?f ?b ?n = map (\<lambda>b. b + 1) ?b" "fill ?g ?c ?n = map2 (\<lambda>b a. b + 1 + a) ?b ?a"
    using len by (auto simp: fill_def intro!: nth_equalityI)
  ultimately show ?thesis
    using n by (simp add: ta_entry_ta2ta_memref_mix_def ta2ta_types_def returns_def Let_def)
qed

text \<open>
  A session \<open>s\<close> leads to a TA: the TEE delivers a command with no timeout to the instance \<open>inst m\<close>, and
  brings its answer.  \<open>ta_connects\<close> says that opening a session to a TA succeeds and leads to it.
\<close>

definition ta_serves ::
  "('m, 'z) os_api_scheme \<Rightarrow> size_t \<Rightarrow> (uint32 \<Rightarrow> uint32 \<Rightarrow> tee_params \<Rightarrow> 'x \<Rightarrow> (TEE_Result \<times> tee_params \<times> 'x) option) \<Rightarrow> ('m \<Rightarrow> 'x) \<Rightarrow> bool" where
  "ta_serves api s handler inst \<longleftrightarrow> (\<forall>cmd types ps m res ps' x. handler cmd types ps (inst m) = Some (res, ps', x) \<longrightarrow>
     (\<exists>m'. TEE_InvokeTACommand api s 0 cmd types ps m = (res, TEE_ORIGIN_TRUSTED_APP, ps', m') \<and> inst m' = x))"

definition ta_connects ::
  "('m, 'z) os_api_scheme \<Rightarrow> tee_uuid \<Rightarrow> (uint32 \<Rightarrow> uint32 \<Rightarrow> tee_params \<Rightarrow> 'x \<Rightarrow> (TEE_Result \<times> tee_params \<times> 'x) option) \<Rightarrow> ('m \<Rightarrow> 'x) \<Rightarrow> 'm \<Rightarrow> bool" where
  "ta_connects api u handler inst m \<longleftrightarrow>
     (\<exists>s orig ps m'. TEE_OpenTASession api u 0 0 zero_params m = (TEE_SUCCESS, s, orig, ps, m') \<and> ta_serves api s handler inst)"

lemma served_call:
  "ta_serves api s handler inst \<Longrightarrow> handler cmd types ps (inst m) = Some (res, ps', x) \<Longrightarrow>
     \<exists>m'. TEE_InvokeTACommand api s 0 cmd types ps m = (res, TEE_ORIGIN_TRUSTED_APP, ps', m') \<and> inst m' = x"
  unfolding ta_serves_def by blast

lemma map2_replicate: "map2 f (replicate n a) (replicate n b) = replicate n (f a b)"
  by (simp add: zip_replicate)

lemma values_right: "set is \<subseteq> {..<n} \<Longrightarrow> values_differ is (replicate n 6) (replicate n 13) (replicate n 19) = Some False"
  by (induction "is") (auto simp: ld_def)

lemma mix_served:
  assumes s: "ta_serves api h (os_handler heap' api') inst" and n: "n < 2 ^ 32"
    and p: "mbuf (p0 ps) = replicate n a" "mbuf (p1 ps) = replicate n b" "mbuf (p2 ps) = replicate n c"
      "msize (p0 ps) = of_nat n" "msize (p1 ps) = of_nat n" "msize (p2 ps) = of_nat n"
  shows "\<exists>m'. TEE_InvokeTACommand api h 0 TA_OS_TEST_CMD_TA2TA_MEMREF_MIX ta2ta_types ps m = (TEE_SUCCESS, TEE_ORIGIN_TRUSTED_APP,
      ps\<lparr>p1 := (p1 ps)\<lparr>mbuf := replicate n (b + 1)\<rparr>, p2 := (p2 ps)\<lparr>mbuf := replicate n (b + 1 + a)\<rparr>\<rparr>, m')"
proof -
  have ok: "memref_ok (p0 ps)" "memref_ok (p1 ps)" "memref_ok (p2 ps)" using p n by (simp_all add: memref_ok_def unat_of_nat32)
  have "os_handler heap' api' TA_OS_TEST_CMD_TA2TA_MEMREF_MIX ta2ta_types ps (inst m) =
      Some (TEE_SUCCESS, ps\<lparr>p1 := (p1 ps)\<lparr>mbuf := replicate n (b + 1)\<rparr>, p2 := (p2 ps)\<lparr>mbuf := replicate n (b + 1 + a)\<rparr>\<rparr>, inst m)"
    using memref_mix_all [OF ok, of "inst m"] p by (simp add: os_handler_def os_invoke_def os_cmd_defs map2_replicate)
  from served_call [OF s this] show ?thesis by blast
qed

lemma ta2ta_passes:
  assumes o: "ta_connects api os_test_uuid (os_handler heap' api') inst m"
  shows "\<exists>m'. ta_entry_ta2ta_memref api (TEE_PARAM_TYPES 0 0 0 0) params m = Some (Os_Returns TEE_SUCCESS params m')"
proof -
  let ?n = TA2TA_BUF_SIZE
  have n: "?n < 2 ^ 32" by (simp add: TA2TA_BUF_SIZE_def)
  obtain h og qs m1 where a: "TEE_OpenTASession api os_test_uuid 0 0 zero_params m = (TEE_SUCCESS, h, og, qs, m1)"
    and s: "ta_serves api h (os_handler heap' api') inst"
    using o unfolding ta_connects_def by blast
  let ?ref = "\<lambda>i x. zero_param\<lparr>maddr := addr_buf api + of_nat (i * ?n), mbuf := replicate ?n x, msize := of_nat ?n\<rparr>"
  let ?ps = "zero_params\<lparr>p0 := ?ref 0 5, p1 := ?ref 1 10, p2 := ?ref 2 0\<rparr>"
  let ?ps1 = "zero_params\<lparr>p0 := ?ref 0 5, p1 := ?ref 1 11, p2 := ?ref 2 16\<rparr>"
  let ?ps2 = "zero_params\<lparr>p0 := ?ref 0 6, p1 := ?ref 1 12, p2 := ?ref 2 17\<rparr>"
  let ?ps3 = "zero_params\<lparr>p0 := ?ref 0 6, p1 := ?ref 1 13, p2 := ?ref 2 19\<rparr>"
  obtain m2 where 1: "TEE_InvokeTACommand api h 0 TA_OS_TEST_CMD_TA2TA_MEMREF_MIX ta2ta_types ?ps m1 = (TEE_SUCCESS, TEE_ORIGIN_TRUSTED_APP, ?ps1, m2)"
    using mix_served [OF s n, of ?ps 5 10 0 m1] by auto
  obtain m3 where 2: "TEE_InvokeTACommand api h 0 TA_OS_TEST_CMD_TA2TA_MEMREF_MIX ta2ta_types ?ps2 m2 = (TEE_SUCCESS, TEE_ORIGIN_TRUSTED_APP, ?ps3, m3)"
    using mix_served [OF s n, of ?ps2 6 12 17 m2] by auto
  have i: "incr_values ?n (replicate ?n x) = Some (replicate ?n (x + 1))" for x by (simp add: incr_values_all)
  have i': "incr_values ?n (replicate ?n 5) = Some (replicate ?n 6)" "incr_values ?n (replicate ?n 11) = Some (replicate ?n 12)"
    "incr_values ?n (replicate ?n 16) = Some (replicate ?n 17)" by (simp_all add: i)
  have bufs: "mbuf (p0 ?ps1) = replicate ?n 5" "mbuf (p1 ?ps1) = replicate ?n 11" "mbuf (p2 ?ps1) = replicate ?n 16"
    "mbuf (p0 ?ps3) = replicate ?n 6" "mbuf (p1 ?ps3) = replicate ?n 13" "mbuf (p2 ?ps3) = replicate ?n 19" by simp_all
  have next_ps: "?ps1\<lparr>p0 := (p0 ?ps1)\<lparr>mbuf := replicate ?n 6\<rparr>, p1 := (p1 ?ps1)\<lparr>mbuf := replicate ?n 12\<rparr>,
    p2 := (p2 ?ps1)\<lparr>mbuf := replicate ?n 17\<rparr>\<rparr> = ?ps2" by simp
  have v: "values_differ [0..<?n] (replicate ?n 6) (replicate ?n 13) (replicate ?n 19) = Some False" by (rule values_right) auto
  have "ta_entry_ta2ta_memref api (TEE_PARAM_TYPES 0 0 0 0) params m = Some (Os_Returns TEE_SUCCESS params (TEE_CloseTASession api h m3))"
    by (simp only: ta_entry_ta2ta_memref_def a Let_def prod.case 1 bufs i' bind.bind_lunit next_ps 2 v returns_def fst_conv snd_conv
        not_True_eq_False not_False_eq_True simp_thms if_False if_True)
  then show ?thesis by blast
qed


lemma client_passes:
  assumes b: "TEE_Malloc heap 3 m = (b, m1)" "b \<noteq> 0" and o: "ta_connects api cryp_uuid (crypt_invoke e) inst m1"
  shows "\<exists>m'. ta_entry_client heap api params m = Some (Os_Returns TEE_SUCCESS params m')"
proof -
  obtain h og qs m2 where a: "TEE_OpenTASession api cryp_uuid 0 0 zero_params m1 = (TEE_SUCCESS, h, og, qs, m2)"
    and s: "ta_serves api h (crypt_invoke e) inst"
    using o unfolding ta_connects_def by blast
  let ?l = "zero_params\<lparr>p0 := zero_param\<lparr>maddr := of_nat b, mbuf := sha256_in, msize := 3\<rparr>,
    p1 := zero_param\<lparr>maddr := addr_buf api, mbuf := replicate 32 0, msize := 32\<rparr>\<rparr>"
  have t: "TEE_PARAM_TYPES PT_MEMREF_INPUT PT_MEMREF_OUTPUT 0 0 = in_out_types" by (simp add: PT_NONE_def)
  have u: "unat (32 :: uint32) = 32" "unat (3 :: uint32) = 3" by simp_all
  have "memref_ok (p0 ?l)" "msize (p0 ?l) < 2 ^ 29" "32 \<le> msize (p1 ?l)" "memref_ok (p1 ?l)"
    by (simp_all add: memref_ok_def sha256_in_def u)
  then obtain t' where "crypt_invoke e TA_CRYPT_CMD_SHA256 in_out_types ?l (inst m2) =
      Some (TEE_SUCCESS, ?l\<lparr>p1 := (p1 ?l)\<lparr>mbuf := sha256_answer (mbuf (p0 ?l)) (mbuf (p1 ?l))\<rparr>\<rparr>, t')"
    using crypt_sha256 by blast
  from served_call [OF s this] obtain m3 where c: "TEE_InvokeTACommand api h 0 TA_CRYPT_CMD_SHA256 in_out_types ?l m2 =
      (TEE_SUCCESS, TEE_ORIGIN_TRUSTED_APP, ?l\<lparr>p1 := (p1 ?l)\<lparr>mbuf := sha256_answer (mbuf (p0 ?l)) (mbuf (p1 ?l))\<rparr>\<rparr>, m3)" by blast
  have "sha256_answer sha256_in (replicate 32 0) = sha256_out"
    unfolding sha256_answer_def sha256_in_def sha256_abc by (simp add: put_block_def sha256_out_def)
  then show ?thesis using b by (simp add: ta_entry_client_def a c [folded t] returns_def)
qed

text \<open>
  C30.  On a TEE that delivers its commands, the tests of the internal client API pass: the buffers shared with
  another instance of the TA come back as computed there and incremented here, and the digest of \<open>"abc"\<close>
  that the crypt TA computes is the constant in the test.
\<close>
theorem os_calls_pass:
  assumes "ta_connects api os_test_uuid (os_handler heap' api') inst m"
    and "TEE_Malloc heap 3 m = (b, m1)" "b \<noteq> 0" and "ta_connects api cryp_uuid (crypt_invoke e) cinst m1"
  shows "(\<exists>m'. os_invoke heap api TA_OS_TEST_CMD_TA2TA_MEMREF (TEE_PARAM_TYPES 0 0 0 0) params m = Some (Os_Returns TEE_SUCCESS params m')) \<and>
    (\<exists>m'. os_invoke heap api TA_OS_TEST_CMD_CLIENT types params m = Some (Os_Returns TEE_SUCCESS params m'))"
  using ta2ta_passes [OF assms(1)] client_passes [OF assms(2-4)] by (simp add: os_invoke_def os_cmd_defs)

section \<open>A TEE for the witness, and one that breaks a value\<close>

text \<open>The state holds those of the two TAs; handle 1 leads to the OS test TA, any other to the crypt TA.\<close>

definition deliver :: "(TEE_Result \<times> tee_params \<times> 'x) option \<Rightarrow> ('x \<Rightarrow> 'm) \<Rightarrow> tee_params \<Rightarrow> 'm \<Rightarrow> TEE_Result \<times> uint32 \<times> tee_params \<times> 'm" where
  "deliver r put ps m = (case r of Some (res, ps', x) \<Rightarrow> (res, 4, ps', put x) | None \<Rightarrow> (TEE_ERROR_GENERIC, 3, ps, m))"

definition demo_calls :: "sim_mem crypt_env \<Rightarrow> (sim_mem crypt_ta \<times> demo_os_m) os_api" where
  "demo_calls e = client_api.extend \<lparr>
       TEE_OpenTASession = \<lambda>u t pt ps m. (TEE_SUCCESS, if u = os_test_uuid then 1 else 2, 4, ps, m),
       TEE_InvokeTACommand = \<lambda>h t cmd pt ps m. if h = 1
         then deliver (os_handler demo_os_heap (demo_os (\<lambda>_. [])) cmd pt ps (snd m)) (\<lambda>x. (fst m, x)) ps m
         else deliver (crypt_invoke e cmd pt ps (fst m)) (\<lambda>x. (x, snd m)) ps m,
       TEE_CloseTASession = \<lambda>h m. m\<rparr>
     (os_api.fields (\<lambda>m. (TEE_SUCCESS, 5, m)) (\<lambda>h m. m) (\<lambda>h k m. m) (\<lambda>h b n m. (TEE_ERROR_ITEM_NOT_FOUND, b, n, m))
       (\<lambda>h m. (TEE_ERROR_ITEM_NOT_FOUND, m)) (\<lambda>h x b n m. (TEE_ERROR_ITEM_NOT_FOUND, b, n, m)) (\<lambda>h x m. (TEE_SUCCESS, m))
       (\<lambda>h x m. (TEE_SUCCESS, m)) (\<lambda>h x m. (TEE_SUCCESS, m)) (\<lambda>h x m. (TEE_SUCCESS, m)) (\<lambda>h x b n m. (TEE_ERROR_ITEM_NOT_FOUND, b, n, m))
       (\<lambda>flags p n m. TEE_SUCCESS) (\<lambda>m. (\<lparr>seconds = 10, millis = 0\<rparr>, m)) (\<lambda>m. (\<lparr>seconds = 10, millis = 0\<rparr>, m))
       (\<lambda>t m. (TEE_SUCCESS, t, m)) (\<lambda>t m. (TEE_SUCCESS, m)) (\<lambda>n m. (TEE_SUCCESS, m)) 0x1000 0x2000 0x3000 TEE_SUCCESS)"

definition demo_calls_heap :: "(sim_mem crypt_ta \<times> demo_os_m) heap_api" where
  "demo_calls_heap = \<lparr>TEE_Malloc = \<lambda>n m. (1, m), TEE_Free = \<lambda>p m. m\<rparr>"

lemma demo_connects:
  "ta_connects (demo_calls e) os_test_uuid (os_handler demo_os_heap (demo_os (\<lambda>_. []))) snd m"
  "ta_connects (demo_calls e) cryp_uuid (crypt_invoke e) fst m"
proof -
  have o: "TEE_OpenTASession (demo_calls e) u t pt ps m = (TEE_SUCCESS, if u = os_test_uuid then 1 else 2, 4, ps, m)" for u t pt ps m
    by (simp add: demo_calls_def client_api.defs os_api.defs)
  have "cryp_uuid \<noteq> os_test_uuid" by (simp add: cryp_uuid_def os_test_uuid_def)
  moreover have "ta_serves (demo_calls e) 1 (os_handler demo_os_heap (demo_os (\<lambda>_. []))) snd"
    "ta_serves (demo_calls e) 2 (crypt_invoke e) fst"
    by (simp_all add: ta_serves_def demo_calls_def client_api.defs os_api.defs deliver_def TEE_ORIGIN_TRUSTED_APP_def)
  ultimately show "ta_connects (demo_calls e) os_test_uuid (os_handler demo_os_heap (demo_os (\<lambda>_. []))) snd m"
    "ta_connects (demo_calls e) cryp_uuid (crypt_invoke e) fst m"
    by (cases m, simp add: ta_connects_def o)+
qed

lemma os_calls_pass_witness:
  "\<forall>c b k. (\<exists>m'. os_invoke demo_calls_heap (demo_calls (sim_env c b k)) TA_OS_TEST_CMD_TA2TA_MEMREF (TEE_PARAM_TYPES 0 0 0 0) zero_params
      (sim_ta, [], [], \<lambda>_. None) = Some (Os_Returns TEE_SUCCESS zero_params m')) \<and>
    (\<exists>m'. os_invoke demo_calls_heap (demo_calls (sim_env c b k)) TA_OS_TEST_CMD_CLIENT 0 zero_params
      (sim_ta, [], [], \<lambda>_. None) = Some (Os_Returns TEE_SUCCESS zero_params m'))"
  by (intro allI os_calls_pass [where b = 1, OF demo_connects(1) _ _ demo_connects(2)]) (simp_all add: demo_calls_heap_def)

end
