(* ===== verification/Os_Props.thy ===== *)
theory Os_Props
  imports Os_Test
begin

text \<open>
  What the property test of the OS test TA finds out: the exact condition on the properties of a TEE, under
  what the Internal Core API documents of property enumerators and getters, for the test to succeed.
\<close>

section \<open>The documented behaviour\<close>

text \<open>
  \<open>props s\<close> lists the properties of a property set and \<open>left m h\<close> those an enumerator has still to show, the
  current one first.  Names and values are strings without a zero, and the names of a set differ.  A getter
  leaves the enumerators as they are, and one for a type succeeds for a property of that type.
\<close>

definition string_ok :: "u8 list \<Rightarrow> bool" where
  "string_ok s \<longleftrightarrow> 0 \<notin> set s \<and> length s < 2 ^ 31"

definition gives :: "(TEE_Result \<times> u8 list \<times> uint32 \<times> 'm) \<Rightarrow> ('m \<Rightarrow> 'x) \<Rightarrow> 'm \<Rightarrow> TEE_Result \<times> u8 list \<times> uint32 \<Rightarrow> bool" where
  "gives r left m t \<longleftrightarrow> (\<exists>m'. r = (fst t, fst (snd t), snd (snd t), m') \<and> left m' = left m)"

definition decides :: "(TEE_Result \<times> 'm) \<Rightarrow> ('m \<Rightarrow> 'x) \<Rightarrow> 'm \<Rightarrow> bool \<Rightarrow> bool" where
  "decides r left m ok \<longleftrightarrow> (\<exists>res m'. r = (res, m') \<and> left m' = left m \<and> (res = TEE_SUCCESS \<longleftrightarrow> ok))"

definition prop_laws ::
  "('m, 'z) os_api_scheme \<Rightarrow> (size_t \<Rightarrow> ta_prop list) \<Rightarrow> ('m \<Rightarrow> size_t \<Rightarrow> ta_prop list option) \<Rightarrow> bool" where
  "prop_laws api props left \<longleftrightarrow>
     (\<forall>s. \<forall>p \<in> set (props s). string_ok (pname p) \<and> string_ok (pvalue p) \<and> length (pbin p) < 2 ^ 31) \<and>
     (\<forall>s. distinct (map pname (props s))) \<and>
     (\<forall>h s m. left m h \<noteq> None \<longrightarrow> left (TEE_StartPropertyEnumerator api h s m) h = Some (props s)) \<and>
     (\<forall>h m b n. left m h = Some [] \<longrightarrow> fst (TEE_GetPropertyName api h b n m) \<noteq> TEE_SUCCESS \<and>
        left (snd (snd (snd (TEE_GetPropertyName api h b n m)))) h \<noteq> None) \<and>
     (\<forall>h m b n p ps. left m h = Some (p # ps) \<longrightarrow> gives (TEE_GetPropertyName api h b n m) left m (put_string (pname p) b n) \<and>
        gives (TEE_GetPropertyAsString api h None b n m) left m (put_string (pvalue p) b n) \<and>
        decides (TEE_GetPropertyAsBool api h None m) left m (ptype p = P_TYPE_BOOL) \<and>
        decides (TEE_GetPropertyAsU32 api h None m) left m (ptype p = P_TYPE_INT) \<and>
        decides (TEE_GetPropertyAsUUID api h None m) left m (ptype p = P_TYPE_UUID) \<and>
        decides (TEE_GetPropertyAsIdentity api h None m) left m (ptype p = P_TYPE_IDENTITY) \<and>
        gives (TEE_GetPropertyAsBinaryBlock api h None b n m) left m
          (if ptype p = P_TYPE_BINARY_BLOCK then put_block_out (pbin p) b n else (TEE_ERROR_BAD_FORMAT, b, n))) \<and>
     (\<forall>s m b n. \<forall>p \<in> set (props s). gives (TEE_GetPropertyAsString api s (Some (pname p)) b n m) left m (put_string (pvalue p) b n)) \<and>
     (\<forall>h m p ps. left m h = Some (p # ps) \<longrightarrow> (\<exists>res m'. TEE_GetNextProperty api h m = (res, m') \<and> left m' h \<noteq> None \<and>
        (if ps = [] then res = TEE_ERROR_ITEM_NOT_FOUND else res = TEE_SUCCESS \<and> left m' h = Some ps)))"

section \<open>What the test asks of a property\<close>

text \<open>
  The buffers hold 256 bytes with the zero; the smaller ones, of 2 and of 1 byte, must be too small.
\<close>

definition texts_fit :: "ta_prop \<Rightarrow> bool" where
  "texts_fit p \<longleftrightarrow> 2 \<le> length (pname p) \<and> length (pname p) \<le> 255 \<and> 1 \<le> length (pvalue p) \<and> length (pvalue p) \<le> 255 \<and>
     (pname p = lit ''myprop.hello'' \<longrightarrow> length (pvalue p) = length hello_property)"

definition type_fits :: "p_type \<Rightarrow> ta_prop \<Rightarrow> bool" where
  "type_fits t p = (case t of
     P_TYPE_STRING \<Rightarrow> True
   | P_TYPE_BINARY_BLOCK \<Rightarrow> ptype p = P_TYPE_BINARY_BLOCK \<and> length (pbin p) \<le> 80 \<and>
       (pname p = lit ''myprop.binaryblock'' \<longrightarrow> pbin p = lit ''Hello world!'')
   | _ \<Rightarrow> ptype p = t)"

definition mark :: "ta_prop \<Rightarrow> p_attr list \<Rightarrow> p_attr list" where
  "mark p as = map (\<lambda>a. if p_str a = pname p then a\<lparr>retrieved := True\<rparr> else a) as"

definition attr_accepts :: "ta_prop \<Rightarrow> p_attr \<Rightarrow> bool" where
  "attr_accepts p a \<longleftrightarrow> (p_str a = pname p \<longrightarrow> \<not> retrieved a \<and> type_fits (p_ty a) p)"

fun props_accepted :: "ta_prop list \<Rightarrow> p_attr list \<Rightarrow> bool" where
  "props_accepted [] as = True"
| "props_accepted (p # ps) as = (texts_fit p \<and> list_all (attr_accepts p) as \<and> props_accepted ps (mark p as))"

section \<open>The steps of the test\<close>

lemma cstr_string: "0 \<notin> set s \<Longrightarrow> cstr (s @ 0 # b) = s"
  by (simp add: cstr_def takeWhile_append2)
    (metis (mono_tags, lifting) append_Nil2 takeWhile.simps(2) takeWhile_append2)

lemma strlen_string: "0 \<notin> set s \<Longrightarrow> strlen (s @ 0 # b) = Some (length s)"
  using cstr_string [of s b] by (simp add: strlen_def cstr_def)

lemma strlen_zeros: "0 < n \<Longrightarrow> strlen (replicate n 0) = Some 0"
  by (cases n) (simp_all add: strlen_def)

lemma unat_string: "length s < 2 ^ 31 \<Longrightarrow> unat (of_nat (length s + 1) :: uint32) = length s + 1"
  by (rule unat_of_nat32) simp

lemma give: "gives r left m (put_string s b n) \<Longrightarrow> \<exists>m'. left m' = left m \<and>
    r = (if unat n < length s + 1 then (TEE_ERROR_SHORT_BUFFER, b, of_nat (length s + 1), m')
         else (TEE_SUCCESS, s @ 0 # drop (length s + 1) b, of_nat (length s + 1), m'))"
  by (auto simp: gives_def put_string_def)

lemma check_prop: "check_returned_prop r e n k = TEE_SUCCESS \<longleftrightarrow> r = e \<and> n = k"
  by (simp add: check_returned_prop_def TEE_ERROR_GENERIC_def TEE_SUCCESS_def)

lemma get_typed_fits:
  assumes l: "prop_laws api props left" and h: "left m h = Some (p # ps)" and p: "string_ok (pname p)" "length (pbin p) < 2 ^ 31"
    and n: "cstr nbuf = pname p"
  shows "\<exists>res m'. get_typed api h t nbuf m = (res, m') \<and> left m' = left m \<and> (res = TEE_SUCCESS \<longleftrightarrow> type_fits t p)"
proof -
  have s: "gives (TEE_GetPropertyAsBinaryBlock api h None b n m) left m
      (if ptype p = P_TYPE_BINARY_BLOCK then put_block_out (pbin p) b n else (TEE_ERROR_BAD_FORMAT, b, n))"
    "decides (TEE_GetPropertyAsBool api h None m) left m (ptype p = P_TYPE_BOOL)"
    "decides (TEE_GetPropertyAsU32 api h None m) left m (ptype p = P_TYPE_INT)"
    "decides (TEE_GetPropertyAsUUID api h None m) left m (ptype p = P_TYPE_UUID)"
    "decides (TEE_GetPropertyAsIdentity api h None m) left m (ptype p = P_TYPE_IDENTITY)" for b n
    using l h unfolding prop_laws_def by blast+
  have u: "unat (80 :: uint32) = 80" "unat (of_nat (length (pbin p)) :: uint32) = length (pbin p)"
    using p(2) by (simp_all add: unat_of_nat32)
  show ?thesis
  proof (cases t)
    case P_TYPE_BINARY_BLOCK
    then show ?thesis
      using s(1) [of "replicate 80 0" 80] u n
      by (auto simp: get_typed_def gives_def put_block_out_def type_fits_def TEE_SUCCESS_def TEE_ERROR_BAD_FORMAT_def
          TEE_ERROR_SHORT_BUFFER_def TEE_ERROR_GENERIC_def split: if_splits)
  qed (use s(2-5) in \<open>auto simp: get_typed_def decides_def type_fits_def\<close>)
qed

lemma attrs_loop_fits:
  assumes l: "prop_laws api props left" and p: "string_ok (pname p)" "length (pbin p) < 2 ^ 31" and n: "cstr nbuf = pname p"
  shows "left m h = Some (p # ps) \<Longrightarrow> \<exists>r as' m'. attrs_loop api h nbuf as m = (r, as', m') \<and> left m' = left m \<and>
    (if list_all (attr_accepts p) as then r = None \<and> as' = mark p as else \<exists>x. r = Some x \<and> x \<noteq> TEE_SUCCESS)"
proof (induction as arbitrary: m)
  case (Cons a as)
  obtain res m1 where g: "get_typed api h (p_ty a) nbuf m = (res, m1)" "left m1 = left m" "res = TEE_SUCCESS \<longleftrightarrow> type_fits (p_ty a) p"
    using get_typed_fits [OF l Cons.prems p n] by blast
  have m1: "left m1 h = Some (p # ps)" using Cons.prems g(2) by simp
  have a: "attr_accepts p a \<longleftrightarrow> (p_str a = pname p \<longrightarrow> \<not> retrieved a \<and> type_fits (p_ty a) p)"
    and mk: "mark p (a # as) = (if p_str a = pname p then a\<lparr>retrieved := True\<rparr> else a) # mark p as"
    by (simp_all add: attr_accepts_def mark_def)
  have ne: "TEE_ERROR_GENERIC \<noteq> TEE_SUCCESS" by (simp add: tee_results)
  show ?case
    using Cons.IH [OF Cons.prems] Cons.IH [OF m1] g n a ne
    by (cases "list_all (attr_accepts p) as"; cases "p_str a = pname p") (auto simp: mk Let_def)
qed (simp add: mark_def)

lemma prop_strings:
  assumes "prop_laws api props left" and "p \<in> set (props s)"
  shows "string_ok (pname p)" "string_ok (pvalue p)" "length (pbin p) < 2 ^ 31"
  using assms(1) [unfolded prop_laws_def, THEN conjunct1] assms(2) by simp_all

lemma prop_getters:
  assumes l: "prop_laws api props left" and h: "left m h = Some (p # ps)"
  shows "gives (TEE_GetPropertyName api h b n m) left m (put_string (pname p) b n)"
    "gives (TEE_GetPropertyAsString api h None b n m) left m (put_string (pvalue p) b n)"
    "\<exists>res m'. TEE_GetNextProperty api h m = (res, m') \<and> left m' h \<noteq> None \<and>
        (if ps = [] then res = TEE_ERROR_ITEM_NOT_FOUND else res = TEE_SUCCESS \<and> left m' h = Some ps)"
  using l h unfolding prop_laws_def by blast+

lemma prop_lookup:
  "prop_laws api props left \<Longrightarrow> p \<in> set (props s) \<Longrightarrow> gives (TEE_GetPropertyAsString api s (Some (pname p)) b n m) left m (put_string (pvalue p) b n)"
  unfolding prop_laws_def by blast

text \<open>The way through the checks when the calls answer as they should\<close>

lemma print_property_flow:
  assumes "TEE_GetPropertyName api h (replicate 256 0) 256 m = (TEE_SUCCESS, nb, N, m1)" "strlen nb = Some k" "unat N = k + 1"
    "TEE_GetPropertyName api h (replicate 256 0) 2 m1 = (r2, sm, n2, m2)"
  shows "\<not> (r2 = TEE_ERROR_SHORT_BUFFER \<and> n2 = N) \<Longrightarrow> print_property api h s as m = Some (Some TEE_ERROR_GENERIC, as, m2)"
    and "r2 = TEE_ERROR_SHORT_BUFFER \<Longrightarrow> n2 = N \<Longrightarrow> TEE_GetPropertyName api h sm (N - 1) m2 = (TEE_ERROR_SHORT_BUFFER, sm2, N, m3) \<Longrightarrow>
      TEE_GetPropertyName api h sm2 N m3 = (TEE_SUCCESS, sm3, N, m4) \<Longrightarrow> print_property api h s as m = print_value api h s nb as m4"
  using assms by (auto simp: print_property_def check_returned_prop_def TEE_ERROR_GENERIC_def TEE_SUCCESS_def TEE_ERROR_SHORT_BUFFER_def)

lemma print_value_flow:
  assumes "TEE_GetPropertyAsString api h None (replicate 256 0) 256 m = (r1, vb, V, m1)" "strlen vb = Some k"
  shows "r1 \<noteq> TEE_SUCCESS \<Longrightarrow> print_value api h s nb as m = Some (Some TEE_ERROR_GENERIC, as, m1)"
    and "r1 = TEE_SUCCESS \<Longrightarrow> V = of_nat (k + 1) \<Longrightarrow>
      TEE_GetPropertyAsString api s (Some (cstr nb)) (replicate 256 0) 256 m1 = (TEE_SUCCESS, vb, V, m2) \<Longrightarrow>
      TEE_GetPropertyAsString api s (Some (cstr nb)) vb 1 m2 = (r3, vb2, V, m3) \<Longrightarrow> r3 \<noteq> TEE_ERROR_SHORT_BUFFER \<Longrightarrow>
      print_value api h s nb as m = Some (Some TEE_ERROR_GENERIC, as, m3)"
    and "r1 = TEE_SUCCESS \<Longrightarrow> V = of_nat (k + 1) \<Longrightarrow>
      TEE_GetPropertyAsString api s (Some (cstr nb)) (replicate 256 0) 256 m1 = (TEE_SUCCESS, vb, V, m2) \<Longrightarrow>
      TEE_GetPropertyAsString api s (Some (cstr nb)) vb 1 m2 = (TEE_ERROR_SHORT_BUFFER, vb2, V, m3) \<Longrightarrow>
      TEE_GetPropertyAsString api s (Some (cstr nb)) vb2 (V - 1) m3 = (TEE_ERROR_SHORT_BUFFER, vb3, V, m4) \<Longrightarrow>
      TEE_GetPropertyAsString api s (Some (cstr nb)) vb3 V m4 = (TEE_SUCCESS, vb4, V, m5) \<Longrightarrow>
      print_value api h s nb as m =
        (if cstr nb = lit ''myprop.hello'' \<and> unat V \<noteq> 1 + length hello_property then Some (Some TEE_ERROR_GENERIC, as, m5)
         else Some (attrs_loop api h nb as m5))"
  using assms by (auto simp: print_value_def check_returned_prop_def TEE_ERROR_GENERIC_def TEE_SUCCESS_def TEE_ERROR_SHORT_BUFFER_def)

text \<open>What a getter answers in a state whose enumerators are those of \<open>m\<close>\<close>

lemma name_answers:
  assumes l: "prop_laws api props left" and h: "left m h = Some (p # ps)" and w: "left w = left m"
  shows "\<exists>m'. left m' = left m \<and> TEE_GetPropertyName api h b n w =
      (if unat n < length (pname p) + 1 then (TEE_ERROR_SHORT_BUFFER, b, of_nat (length (pname p) + 1), m')
       else (TEE_SUCCESS, pname p @ 0 # drop (length (pname p) + 1) b, of_nat (length (pname p) + 1), m'))"
  using give [OF prop_getters(1) [OF l, of w h p ps b n]] h w by auto

lemma value_answers:
  assumes l: "prop_laws api props left" and h: "left m h = Some (p # ps)" and w: "left w = left m"
  shows "\<exists>m'. left m' = left m \<and> TEE_GetPropertyAsString api h None b n w =
      (if unat n < length (pvalue p) + 1 then (TEE_ERROR_SHORT_BUFFER, b, of_nat (length (pvalue p) + 1), m')
       else (TEE_SUCCESS, pvalue p @ 0 # drop (length (pvalue p) + 1) b, of_nat (length (pvalue p) + 1), m'))"
  using give [OF prop_getters(2) [OF l, of w h p ps b n]] h w by auto

lemma lookup_answers:
  assumes l: "prop_laws api props left" and p: "p \<in> set (props s)" and w: "left w = left m"
  shows "\<exists>m'. left m' = left m \<and> TEE_GetPropertyAsString api s (Some (pname p)) b n w =
      (if unat n < length (pvalue p) + 1 then (TEE_ERROR_SHORT_BUFFER, b, of_nat (length (pvalue p) + 1), m')
       else (TEE_SUCCESS, pvalue p @ 0 # drop (length (pvalue p) + 1) b, of_nat (length (pvalue p) + 1), m'))"
  using give [OF prop_lookup [OF l p, of b n w]] w by auto

lemma small_lengths: "unat (256 :: uint32) = 256" "unat (2 :: uint32) = 2" "unat (1 :: uint32) = 1"
  by simp_all

lemma unat_pred: "length s < 2 ^ 31 \<Longrightarrow> unat (of_nat (length s + 1) - 1 :: uint32) = length s"
  by (simp add: unat_of_nat32)

lemma print_value_fits:
  assumes l: "prop_laws api props left" and h: "left m h = Some (p # ps)" and p: "p \<in> set (props s)" and nb: "cstr nb = pname p"
    and w: "left w = left m"
  shows "\<exists>r as' m'. print_value api h s nb as w = Some (r, as', m') \<and> left m' = left m \<and>
    (if 1 \<le> length (pvalue p) \<and> length (pvalue p) \<le> 255 \<and> (pname p = lit ''myprop.hello'' \<longrightarrow> length (pvalue p) = length hello_property) \<and>
        list_all (attr_accepts p) as
     then r = None \<and> as' = mark p as else \<exists>x. r = Some x \<and> x \<noteq> TEE_SUCCESS)"
proof -
  let ?k = "length (pvalue p)" and ?z = "replicate 256 0 :: u8 list"
  let ?V = "of_nat (?k + 1) :: uint32" and ?b = "pvalue p @ 0 # drop (?k + 1) ?z"
  note ok = prop_strings [OF l p]
  have k: "unat ?V = ?k + 1" "unat (?V - 1) = ?k"
    using ok(2) unat_string [of "pvalue p"] unat_pred [of "pvalue p"] by (simp_all only: string_ok_def)
  have b: "strlen ?b = Some ?k" "strlen ?z = Some 0"
    using strlen_string [of "pvalue p"] ok(2) strlen_zeros [of 256] by (simp_all only: string_ok_def) simp_all
  have ne: "TEE_ERROR_GENERIC \<noteq> TEE_SUCCESS" "TEE_ERROR_SHORT_BUFFER \<noteq> TEE_SUCCESS" "TEE_SUCCESS \<noteq> TEE_ERROR_SHORT_BUFFER"
    by (simp_all add: tee_results)
  obtain m1 where 1: "left m1 = left m" "TEE_GetPropertyAsString api h None ?z 256 w =
      (if 256 < ?k + 1 then (TEE_ERROR_SHORT_BUFFER, ?z, ?V, m1) else (TEE_SUCCESS, ?b, ?V, m1))"
    using value_answers [OF l h w, of ?z 256] unfolding small_lengths by blast
  consider (long) "256 < ?k + 1" | (empty) "?k = 0" | (fits) "1 \<le> ?k" "?k \<le> 255" by linarith
  then show ?thesis
  proof cases
    case long
    then have "print_value api h s nb as w = Some (Some TEE_ERROR_GENERIC, as, m1)"
      using print_value_flow(1) [OF _ b(2)] 1(2) ne(2) by simp
    with long ne 1(1) show ?thesis by auto
  next
    case empty
    have c: "\<not> 256 < ?k + 1" "\<not> 1 < ?k + 1" using empty by simp_all
    obtain m2 where 2: "left m2 = left m" "TEE_GetPropertyAsString api s (Some (pname p)) ?z 256 m1 = (TEE_SUCCESS, ?b, ?V, m2)"
      using lookup_answers [OF l p 1(1), of ?z 256] c(1) unfolding small_lengths by auto
    obtain m3 vb where 3: "left m3 = left m" "TEE_GetPropertyAsString api s (Some (pname p)) ?b 1 m2 = (TEE_SUCCESS, vb, ?V, m3)"
      using lookup_answers [OF l p 2(1), of ?b 1] c(2) unfolding small_lengths by auto
    have "print_value api h s nb as w = Some (Some TEE_ERROR_GENERIC, as, m3)"
      by (rule print_value_flow(2) [OF 1(2) [unfolded if_not_P [OF c(1)]] b(1)]) (use 2(2) 3(2) ne(3) in \<open>simp_all only: nb refl not_False_eq_True\<close>)
    with empty ne 3(1) show ?thesis by auto
  next
    case fits
    have c: "\<not> 256 < ?k + 1" "1 < ?k + 1" using fits by linarith+
    obtain m2 where 2: "left m2 = left m" "TEE_GetPropertyAsString api s (Some (pname p)) ?z 256 m1 = (TEE_SUCCESS, ?b, ?V, m2)"
      using lookup_answers [OF l p 1(1), of ?z 256] c(1) unfolding small_lengths by auto
    obtain m3 where 3: "left m3 = left m" "TEE_GetPropertyAsString api s (Some (pname p)) ?b 1 m2 = (TEE_ERROR_SHORT_BUFFER, ?b, ?V, m3)"
      using lookup_answers [OF l p 2(1), of ?b 1] c(2) unfolding small_lengths by auto
    obtain m4 where 4: "left m4 = left m" "TEE_GetPropertyAsString api s (Some (pname p)) ?b (?V - 1) m3 = (TEE_ERROR_SHORT_BUFFER, ?b, ?V, m4)"
      using lookup_answers [OF l p 3(1), of ?b "?V - 1"] unfolding k by auto
    obtain m5 vb where 5: "left m5 = left m" "TEE_GetPropertyAsString api s (Some (pname p)) ?b ?V m4 = (TEE_SUCCESS, vb, ?V, m5)"
      using lookup_answers [OF l p 4(1), of ?b ?V] unfolding k by auto
    have flow: "print_value api h s nb as w =
        (if pname p = lit ''myprop.hello'' \<and> ?k + 1 \<noteq> 1 + length hello_property then Some (Some TEE_ERROR_GENERIC, as, m5)
         else Some (attrs_loop api h nb as m5))"
      using print_value_flow(3) [where nb = nb and s = s and as = as, unfolded nb,
        OF 1(2) [unfolded if_not_P [OF c(1)]] b(1) refl refl 2(2) 3(2) 4(2) 5(2)] unfolding k .
    obtain r as' m' where a: "attrs_loop api h nb as m5 = (r, as', m')" "left m' = left m"
      "if list_all (attr_accepts p) as then r = None \<and> as' = mark p as else \<exists>x. r = Some x \<and> x \<noteq> TEE_SUCCESS"
      using attrs_loop_fits [OF l ok(1,3) nb, of m5 h ps as] 5(1) h by auto
    show ?thesis
      using flow a fits ne(1) 5(1) by auto
  qed
qed

lemma print_property_fits:
  assumes l: "prop_laws api props left" and h: "left m h = Some (p # ps)" and p: "p \<in> set (props s)"
  shows "\<exists>r as' m'. print_property api h s as m = Some (r, as', m') \<and> left m' = left m \<and>
    (if texts_fit p \<and> list_all (attr_accepts p) as then r = None \<and> as' = mark p as else \<exists>x. r = Some x \<and> x \<noteq> TEE_SUCCESS)"
proof -
  let ?k = "length (pname p)" and ?z = "replicate 256 0 :: u8 list"
  let ?N = "of_nat (?k + 1) :: uint32" and ?b = "pname p @ 0 # drop (?k + 1) ?z"
  note ok = prop_strings [OF l p]
  have k: "unat ?N = ?k + 1" "unat (?N - 1) = ?k"
    using ok(1) unat_string [of "pname p"] unat_pred [of "pname p"] by (simp_all only: string_ok_def)
  have b: "strlen ?b = Some ?k" "cstr ?b = pname p"
    using strlen_string [of "pname p"] cstr_string [of "pname p"] ok(1) by (simp_all only: string_ok_def) simp_all
  have ne: "TEE_ERROR_GENERIC \<noteq> TEE_SUCCESS" "TEE_ERROR_SHORT_BUFFER \<noteq> TEE_SUCCESS" "TEE_SUCCESS \<noteq> TEE_ERROR_SHORT_BUFFER"
    by (simp_all add: tee_results)
  obtain m1 where 1: "left m1 = left m" "TEE_GetPropertyName api h ?z 256 m =
      (if 256 < ?k + 1 then (TEE_ERROR_SHORT_BUFFER, ?z, ?N, m1) else (TEE_SUCCESS, ?b, ?N, m1))"
    using name_answers [OF l h refl, of ?z 256] unfolding small_lengths by blast
  obtain m2 where 2: "left m2 = left m" "TEE_GetPropertyName api h ?z 2 m1 =
      (if 2 < ?k + 1 then (TEE_ERROR_SHORT_BUFFER, ?z, ?N, m2) else (TEE_SUCCESS, ?b, ?N, m2))"
    using name_answers [OF l h 1(1), of ?z 2] unfolding small_lengths by blast
  consider (long) "256 < ?k + 1" | (short) "?k \<le> 1" | (fits) "2 \<le> ?k" "?k \<le> 255" by linarith
  then show ?thesis
  proof cases
    case long
    then show ?thesis using 1 ne(2) by (auto simp: print_property_def texts_fit_def)
  next
    case short
    have c: "\<not> 256 < ?k + 1" "\<not> 2 < ?k + 1" using short by simp_all
    have "print_property api h s as m = Some (Some TEE_ERROR_GENERIC, as, m2)"
      by (rule print_property_flow(1) [OF 1(2) [unfolded if_not_P [OF c(1)]] b(1) k(1) 2(2) [unfolded if_not_P [OF c(2)]]]) (simp add: ne)
    with short ne 2(1) show ?thesis by (auto simp: texts_fit_def)
  next
    case fits
    have c: "\<not> 256 < ?k + 1" "2 < ?k + 1" using fits by simp_all
    obtain m3 where 3: "left m3 = left m" "TEE_GetPropertyName api h ?z (?N - 1) m2 = (TEE_ERROR_SHORT_BUFFER, ?z, ?N, m3)"
      using name_answers [OF l h 2(1), of ?z "?N - 1"] unfolding k by auto
    obtain m4 vb where 4: "left m4 = left m" "TEE_GetPropertyName api h ?z ?N m3 = (TEE_SUCCESS, vb, ?N, m4)"
      using name_answers [OF l h 3(1), of ?z ?N] unfolding k by auto
    have flow: "print_property api h s as m = print_value api h s ?b as m4"
      by (rule print_property_flow(2) [OF 1(2) [unfolded if_not_P [OF c(1)]] b(1) k(1) 2(2) [unfolded if_P [OF c(2)]] refl refl 3(2) 4(2)])
    show ?thesis
      unfolding flow using print_value_fits [OF l h p b(2) 4(1), of as] fits by (auto simp: texts_fit_def)
  qed
qed


text \<open>The enumeration of a set, of the three sets, and the whole test\<close>

lemma print_loop_fits:
  assumes l: "prop_laws api props left"
  shows "left m h = Some (p # ps) \<Longrightarrow> set (p # ps) \<subseteq> set (props s) \<Longrightarrow>
    \<exists>r as' m'. print_loop api h s as m = Some (r, as', m') \<and> left m' h \<noteq> None \<and>
      (if props_accepted (p # ps) as then r = TEE_SUCCESS \<and> as' = fold mark (p # ps) as else r \<noteq> TEE_SUCCESS)"
proof (induction ps arbitrary: p as m)
  case Nil
  have "p \<in> set (props s)" using Nil.prems(2) by simp
  from print_property_fits [OF l Nil.prems(1) this, of as] obtain r as' m1 where 1: "print_property api h s as m = Some (r, as', m1)" "left m1 = left m"
    "if texts_fit p \<and> list_all (attr_accepts p) as then r = None \<and> as' = mark p as else \<exists>x. r = Some x \<and> x \<noteq> TEE_SUCCESS" by blast
  have "left m1 h = Some [p]" using 1(2) Nil.prems(1) by simp
  from prop_getters(3) [OF l this] obtain m2 where 2: "TEE_GetNextProperty api h m1 = (TEE_ERROR_ITEM_NOT_FOUND, m2)" "left m2 h \<noteq> None" by auto
  have ne: "TEE_ERROR_ITEM_NOT_FOUND \<noteq> TEE_SUCCESS" by (simp add: tee_results)
  show ?case
    using 1 2 ne Nil.prems(1) by (subst print_loop.simps) (auto split: if_splits)
next
  case (Cons q ps)
  have "p \<in> set (props s)" using Cons.prems(2) by simp
  from print_property_fits [OF l Cons.prems(1) this, of as] obtain r as' m1 where 1: "print_property api h s as m = Some (r, as', m1)" "left m1 = left m"
    "if texts_fit p \<and> list_all (attr_accepts p) as then r = None \<and> as' = mark p as else \<exists>x. r = Some x \<and> x \<noteq> TEE_SUCCESS" by blast
  have "left m1 h = Some (p # q # ps)" using 1(2) Cons.prems(1) by simp
  from prop_getters(3) [OF l this] obtain m2 where 2: "TEE_GetNextProperty api h m1 = (TEE_SUCCESS, m2)" "left m2 h = Some (q # ps)" by auto
  have sub: "set (q # ps) \<subseteq> set (props s)" using Cons.prems(2) by simp
  show ?case
    using 1 2 Cons.IH [OF 2(2) sub, of "mark p as"] Cons.prems(1) by (subst print_loop.simps) (auto split: if_splits)
qed

lemma print_properties_fits:
  assumes l: "prop_laws api props left" and h: "left m h \<noteq> None"
  shows "\<exists>r as' m'. print_properties api h s as m = Some (r, as', m') \<and> left m' h \<noteq> None \<and>
    (if props s \<noteq> [] \<and> props_accepted (props s) as then r = TEE_SUCCESS \<and> as' = fold mark (props s) as else r \<noteq> TEE_SUCCESS)"
proof -
  let ?m = "TEE_StartPropertyEnumerator api h s m"
  have st: "left ?m h = Some (props s)" using l h unfolding prop_laws_def by simp
  show ?thesis
  proof (cases "props s")
    case Nil
    have "fst (TEE_GetPropertyName api h (replicate 256 0) 256 ?m) \<noteq> TEE_SUCCESS"
      "left (snd (snd (snd (TEE_GetPropertyName api h (replicate 256 0) 256 ?m)))) h \<noteq> None"
      using l st Nil unfolding prop_laws_def by simp_all
    then show ?thesis
      using Nil by (auto simp: print_properties_def print_loop.simps [of api h s as ?m] print_property_def split_beta)
  next
    case (Cons p ps)
    have sub: "set (p # ps) \<subseteq> set (props s)" using Cons by simp
    show ?thesis
      unfolding print_properties_def Cons using print_loop_fits [OF l st [unfolded Cons] sub, of as]
      by (simp only: list.distinct not_False_eq_True simp_thms)
  qed
qed

lemma props_accepted_append: "props_accepted (ps @ qs) as \<longleftrightarrow> props_accepted ps as \<and> props_accepted qs (fold mark ps as)"
  by (induction ps arbitrary: as) auto

lemma print_sets_fits:
  assumes l: "prop_laws api props left"
  shows "left m h \<noteq> None \<Longrightarrow> \<exists>r as' m'. print_sets api h sets as m = Some (r, as', m') \<and>
    (if [] \<notin> props ` set sets \<and> props_accepted (concat (map props sets)) as
     then r = TEE_SUCCESS \<and> as' = fold mark (concat (map props sets)) as else r \<noteq> TEE_SUCCESS)"
proof (induction sets arbitrary: as m)
  case (Cons s sets)
  from print_properties_fits [OF l Cons.prems, of s as] obtain r as' m1 where 1: "print_properties api h s as m = Some (r, as', m1)" "left m1 h \<noteq> None"
    "if props s \<noteq> [] \<and> props_accepted (props s) as then r = TEE_SUCCESS \<and> as' = fold mark (props s) as else r \<noteq> TEE_SUCCESS" by blast
  show ?case
    using 1 Cons.IH [OF 1(2), of as'] by (auto simp: props_accepted_append split: if_splits)
qed simp

text \<open>What acceptance comes to: no expected name is met twice, and each property fits.\<close>

lemma mark_strs [simp]: "map p_str (mark p as) = map p_str as" "map p_ty (mark p as) = map p_ty as"
  by (auto simp: mark_def)

lemma mark_accepts:
  "list_all (attr_accepts q) (mark p as) \<longleftrightarrow> list_all (attr_accepts q) as \<and> (pname q = pname p \<longrightarrow> pname p \<notin> p_str ` set as)"
  by (induction as) (auto simp: mark_def attr_accepts_def)

definition attr_types :: "p_attr list \<Rightarrow> ta_prop \<Rightarrow> bool" where
  "attr_types as p \<longleftrightarrow> list_all (\<lambda>a. p_str a = pname p \<longrightarrow> type_fits (p_ty a) p) as"

lemma props_accepted_names:
  "props_accepted ps as \<longleftrightarrow> list_all texts_fit ps \<and> list_all (\<lambda>p. list_all (attr_accepts p) as) ps \<and>
    distinct (filter (\<lambda>n. n \<in> p_str ` set as) (map pname ps))"
proof (induction ps arbitrary: as)
  case (Cons p ps)
  have s: "p_str ` set (mark p as) = p_str ` set as" by (metis list.set_map mark_strs(1))
  have m: "list_all (\<lambda>q. list_all (attr_accepts q) (mark p as)) ps \<longleftrightarrow>
      list_all (\<lambda>q. list_all (attr_accepts q) as) ps \<and> (pname p \<in> p_str ` set as \<longrightarrow> pname p \<notin> pname ` set ps)"
    by (induction ps) (auto simp: mark_accepts)
  show ?case
    unfolding props_accepted.simps Cons.IH s m by auto
qed simp

lemma marked: "list_all retrieved (fold mark ps as) \<longleftrightarrow> list_all (\<lambda>a. retrieved a \<or> p_str a \<in> pname ` set ps) as"
proof (induction ps arbitrary: as)
  case (Cons p ps)
  show ?case by (simp add: Cons.IH) (auto simp: mark_def list_all_iff)
qed simp

definition occurrences :: "u8 list \<Rightarrow> ta_prop list \<Rightarrow> nat" where
  "occurrences n ps = length (filter (\<lambda>p. pname p = n) ps)"

lemma distinct_once:
  "distinct (filter (\<lambda>n. n \<in> N) (map pname ps)) \<and> N \<subseteq> pname ` set ps \<longleftrightarrow> (\<forall>n \<in> N. occurrences n ps = 1)"
proof -
  have d: "distinct (filter (\<lambda>n. n \<in> N) (map pname ps)) \<longleftrightarrow> (\<forall>n \<in> N. occurrences n ps \<le> 1)"
  proof (induction ps)
    case (Cons p ps)
    have "occurrences (pname p) ps = 0 \<longleftrightarrow> pname p \<notin> pname ` set ps"
      by (auto simp: occurrences_def filter_empty_conv image_iff)
    with Cons show ?case by (force simp: occurrences_def)
  qed (simp add: occurrences_def)
  have e: "n \<in> pname ` set ps \<longleftrightarrow> occurrences n ps \<noteq> 0" for n
    by (auto simp: occurrences_def filter_empty_conv image_iff)
  show ?thesis unfolding d using e by (auto simp: subset_iff le_Suc_eq) (metis less_irrefl)
qed

text \<open>The verdict: the three sets hold each expected property once and of its type, and all texts fit.\<close>

definition prop_sets :: "size_t list" where
  "prop_sets = [TEE_PROPSET_CURRENT_TA, TEE_PROPSET_CURRENT_CLIENT, TEE_PROPSET_TEE_IMPLEMENTATION]"

definition properties_conform :: "(size_t \<Rightarrow> ta_prop list) \<Rightarrow> bool" where
  "properties_conform props \<longleftrightarrow> [] \<notin> props ` set prop_sets \<and>
     list_all (\<lambda>p. texts_fit p \<and> attr_types test_p_attrs p) (concat (map props prop_sets)) \<and>
     list_all (\<lambda>a. occurrences (p_str a) (concat (map props prop_sets)) = 1) test_p_attrs"

lemma nothing_retrieved: "list_all (\<lambda>a. \<not> retrieved a) test_p_attrs"
  by (simp add: test_p_attrs_def)

lemma props_accepted_conform:
  "[] \<notin> props ` set prop_sets \<and> props_accepted (concat (map props prop_sets)) test_p_attrs \<and>
     list_all retrieved (fold mark (concat (map props prop_sets)) test_p_attrs) \<longleftrightarrow> properties_conform props"
proof -
  let ?ps = "concat (map props prop_sets)"
  have a: "list_all (attr_accepts p) test_p_attrs \<longleftrightarrow> attr_types test_p_attrs p" for p
    using nothing_retrieved by (auto simp: attr_accepts_def attr_types_def list_all_iff)
  have m: "list_all retrieved (fold mark ?ps test_p_attrs) \<longleftrightarrow> p_str ` set test_p_attrs \<subseteq> pname ` set ?ps"
    unfolding marked using nothing_retrieved by (auto simp: list_all_iff)
  have "list_all (\<lambda>a. occurrences (p_str a) ?ps = 1) test_p_attrs \<longleftrightarrow> (\<forall>n \<in> p_str ` set test_p_attrs. occurrences n ?ps = 1)"
    by (auto simp: list_all_iff)
  then show ?thesis
    unfolding props_accepted_names a m properties_conform_def distinct_once [symmetric] by (auto simp: list_all_iff)
qed

text \<open>
  C16.  On a TEE whose enumerators and getters behave as documented, the property test returns, and succeeds
  exactly when the three property sets together hold each of the 29 expected properties once and of its
  type, none of the sets is empty, every name has 2 to 255 and every value 1 to 255 characters, and the two
  properties of the TA with known contents have them.
\<close>
theorem os_properties_verdict:
  assumes l: "prop_laws api props left" and a: "TEE_AllocatePropertyEnumerator api m = (TEE_SUCCESS, h, m1)" "left m1 h \<noteq> None"
  shows "\<exists>res m'. test_properties api m = Some (res, m') \<and> (res = TEE_SUCCESS \<longleftrightarrow> properties_conform props)"
proof -
  obtain r as' m2 where p: "print_sets api h prop_sets test_p_attrs m1 = Some (r, as', m2)"
    "if [] \<notin> props ` set prop_sets \<and> props_accepted (concat (map props prop_sets)) test_p_attrs
     then r = TEE_SUCCESS \<and> as' = fold mark (concat (map props prop_sets)) test_p_attrs else r \<noteq> TEE_SUCCESS"
    using print_sets_fits [OF l a(2), of prop_sets test_p_attrs] by blast
  have ne: "TEE_ERROR_GENERIC \<noteq> TEE_SUCCESS" by (simp add: tee_results)
  have "test_properties api m = Some (if r = TEE_SUCCESS \<and> \<not> list_all retrieved as' then TEE_ERROR_GENERIC else r, TEE_FreePropertyEnumerator api h m2)"
    unfolding test_properties_def a(1) Let_def prod.case prop_sets_def [symmetric] p(1) by simp
  then show ?thesis
    using p(2) ne props_accepted_conform [of props] by (auto split: if_splits)
qed

section \<open>A TEE that conforms\<close>

definition demo_prop :: "p_attr \<Rightarrow> ta_prop" where
  "demo_prop a = \<lparr>pname = p_str a, pvalue = (if p_str a = lit ''myprop.hello'' then hello_property else lit ''v''),
     ptype = p_ty a, pbin = lit ''Hello world!''\<rparr>"

definition demo_props :: "size_t \<Rightarrow> ta_prop list" where
  "demo_props s = map demo_prop
     (if s = TEE_PROPSET_CURRENT_TA then take 8 test_p_attrs @ drop 23 test_p_attrs
      else if s = TEE_PROPSET_CURRENT_CLIENT then [test_p_attrs ! 8]
      else if s = TEE_PROPSET_TEE_IMPLEMENTATION then take 14 (drop 9 test_p_attrs) else [])"

lemma demo_sets: "set (demo_props s) \<subseteq> demo_prop ` set test_p_attrs"
proof -
  have "8 < length test_p_attrs" by (simp add: test_p_attrs_def)
  then have "test_p_attrs ! 8 \<in> set test_p_attrs" by (rule nth_mem)
  then show ?thesis by (auto simp: demo_props_def dest!: in_set_takeD in_set_dropD)
qed

definition fine :: "ta_prop \<Rightarrow> bool" where
  "fine p \<longleftrightarrow> list_all (\<lambda>c. c \<noteq> 0) (pname p) \<and> length (pname p) < 1000 \<and> list_all (\<lambda>c. c \<noteq> 0) (pvalue p) \<and> length (pvalue p) < 1000 \<and> length (pbin p) < 1000"

lemma demo_fine: "list_all fine (map demo_prop test_p_attrs)"
  by code_simp

lemma demo_distinct: "distinct (map p_str test_p_attrs)"
  by code_simp

lemma demo_names: "list_all (\<lambda>a. 2 \<le> length (p_str a) \<and> length (p_str a) \<le> 255) test_p_attrs"
  by code_simp

lemma demo_lengths: "length hello_property \<le> 255" "1 \<le> length hello_property" "length (lit ''v'') = 1" "length (lit ''Hello world!'') = 12"
  by code_simp+

text \<open>The three sets, together, are the expected properties.\<close>

lemma demo_all: "concat (map demo_props prop_sets) =
    map demo_prop (take 8 test_p_attrs @ drop 23 test_p_attrs @ [test_p_attrs ! 8] @ take 14 (drop 9 test_p_attrs))"
  by (simp add: prop_sets_def demo_props_def TEE_PROPSET_CURRENT_TA_def TEE_PROPSET_CURRENT_CLIENT_def TEE_PROPSET_TEE_IMPLEMENTATION_def)

lemma attrs_parts: "test_p_attrs = take 8 test_p_attrs @ [test_p_attrs ! 8] @ take 14 (drop 9 test_p_attrs) @ drop 23 test_p_attrs"
proof -
  have "8 < length test_p_attrs" by (simp add: test_p_attrs_def)
  then have "test_p_attrs = take 8 test_p_attrs @ test_p_attrs ! 8 # drop (Suc 8) test_p_attrs" by (rule id_take_nth_drop)
  moreover have "drop (Suc 8) test_p_attrs = take 14 (drop 9 test_p_attrs) @ drop 23 test_p_attrs"
    using append_take_drop_id [of 14 "drop 9 test_p_attrs"] by simp
  ultimately show ?thesis by simp
qed

lemma occurrences_append: "occurrences n (xs @ ys) = occurrences n xs + occurrences n ys"
  by (simp add: occurrences_def)

lemma occurrences_demo: "occurrences n (concat (map demo_props prop_sets)) = occurrences n (map demo_prop test_p_attrs)"
  unfolding demo_all by (subst (5) attrs_parts) (simp only: map_append occurrences_append add.assoc add.commute add.left_commute)

lemma occurrences_Cons: "occurrences n (p # ps) = (if pname p = n then 1 else 0) + occurrences n ps"
  by (simp add: occurrences_def)

lemma occurrences_none: "n \<notin> pname ` set ps \<Longrightarrow> occurrences n ps = 0"
  by (auto simp: occurrences_def filter_empty_conv)

lemma demo_pname [simp]: "pname (demo_prop a) = p_str a"
  by (simp add: demo_prop_def)

lemma occurrences_once: "distinct (map p_str as) \<Longrightarrow> a \<in> set as \<Longrightarrow> occurrences (p_str a) (map demo_prop as) = 1"
proof (induction as)
  case (Cons b as)
  then show ?case by (auto simp: occurrences_Cons image_image intro!: occurrences_none)
qed simp

lemma demo_conforms: "properties_conform demo_props"
proof -
  have n: "[] \<notin> demo_props ` set prop_sets"
    using attrs_parts by (auto simp: prop_sets_def demo_props_def TEE_PROPSET_CURRENT_TA_def TEE_PROPSET_CURRENT_CLIENT_def
        TEE_PROPSET_TEE_IMPLEMENTATION_def test_p_attrs_def)
  have s: "set (concat (map demo_props prop_sets)) \<subseteq> demo_prop ` set test_p_attrs" using demo_sets by auto
  have t: "texts_fit (demo_prop a)" if "a \<in> set test_p_attrs" for a
    using demo_names that demo_lengths by (simp add: texts_fit_def demo_prop_def list_all_iff)
  have y: "attr_types test_p_attrs (demo_prop a)" if a: "a \<in> set test_p_attrs" for a
  proof -
    have "b = a" if "b \<in> set test_p_attrs" "p_str b = p_str a" for b
      using demo_distinct a that by (metis distinct_map inj_onD)
    moreover have "type_fits (p_ty a) (demo_prop a)"
      using demo_lengths by (cases "p_ty a") (simp_all add: type_fits_def demo_prop_def)
    moreover have "pname (demo_prop a) = p_str a" by (simp add: demo_prop_def)
    ultimately show ?thesis unfolding attr_types_def list_all_iff by metis
  qed
  have "list_all (\<lambda>p. texts_fit p \<and> attr_types test_p_attrs p) (concat (map demo_props prop_sets))"
    unfolding list_all_iff using s t y by blast
  moreover have "list_all (\<lambda>a. occurrences (p_str a) (concat (map demo_props prop_sets)) = 1) test_p_attrs"
    unfolding occurrences_demo list_all_iff using occurrences_once [OF demo_distinct] by blast
  ultimately show ?thesis unfolding properties_conform_def using n by (intro conjI)
qed

lemma find_named: "p \<in> set xs \<Longrightarrow> distinct (map pname xs) \<Longrightarrow> find (\<lambda>q. pname q = pname p) xs = Some p"
  by (induction xs) auto

lemma demo_prop_laws: "prop_laws (demo_os demo_props) demo_props (\<lambda>m. snd (snd m))"
proof -
  have f: "string_ok (pname p)" "string_ok (pvalue p)" "length (pbin p) < 2 ^ 31" if "p \<in> set (demo_props s)" for p s
  proof -
    have "fine p" using that demo_sets [of s] demo_fine by (auto simp: list_all_iff)
    then show "string_ok (pname p)" "string_ok (pvalue p)" "length (pbin p) < 2 ^ 31"
      by (auto simp: fine_def string_ok_def list_all_iff)
  qed
  have d: "distinct (map pname (demo_props s))" for s
  proof -
    have "pname (demo_prop a) = p_str a" for a by (simp add: demo_prop_def)
    then have "map pname (demo_props s) = map p_str (if s = TEE_PROPSET_CURRENT_TA then take 8 test_p_attrs @ drop 23 test_p_attrs
      else if s = TEE_PROPSET_CURRENT_CLIENT then [test_p_attrs ! 8]
      else if s = TEE_PROPSET_TEE_IMPLEMENTATION then take 14 (drop 9 test_p_attrs) else [])"
      by (simp add: demo_props_def)
    moreover have "distinct (map p_str (take 8 test_p_attrs @ [test_p_attrs ! 8] @ take 14 (drop 9 test_p_attrs) @ drop 23 test_p_attrs))"
      using demo_distinct attrs_parts by simp
    ultimately show ?thesis by auto
  qed
  have g: "find (\<lambda>q. pname q = pname p) (demo_props s) = Some p" if "p \<in> set (demo_props s)" for p s
    using find_named [OF that d] .
  have ne: "TEE_ERROR_ITEM_NOT_FOUND \<noteq> TEE_SUCCESS" "TEE_ERROR_BAD_FORMAT \<noteq> TEE_SUCCESS" by (simp_all add: tee_results)
  show ?thesis
    unfolding prop_laws_def
  proof (intro conjI allI impI ballI)
    fix h and m :: demo_os_m and p ps
    assume h: "snd (snd m) h = Some (p # ps)"
    show "\<exists>res m'. TEE_GetNextProperty (demo_os demo_props) h m = (res, m') \<and> snd (snd m') h \<noteq> None \<and>
        (if ps = [] then res = TEE_ERROR_ITEM_NOT_FOUND else res = TEE_SUCCESS \<and> snd (snd m') h = Some ps)"
      using h by (cases m; cases ps) (auto simp: demo_os_defs)
  qed (use f d g ne in \<open>auto simp: demo_os_defs gives_def decides_def demo_text_def demo_current_def demo_typed_def\<close>)
qed

lemma os_properties_verdict_witness:
  "\<exists>m'. test_properties (demo_os demo_props) ([], [], \<lambda>_. None) = Some (TEE_SUCCESS, m')"
  using os_properties_verdict [OF demo_prop_laws, of "([], [], \<lambda>_. None)" 5 "([], [], [5 \<mapsto> []])"] demo_conforms
  by (auto simp: demo_os_defs)

end
