(* ===== verification/Session_Client.thy ===== *)
theory Session_Client
  imports Fs_Client
begin

text \<open>
  Model of \<open>src/host/libsess/session.c\<close>, which allocates the context and the session of a client and
  connects them to the TEE.  The connection part of the client API and the heap of the process are
  parameters; contexts, sessions and blocks are known by their addresses.
\<close>

definition TEEC_LOGIN_PUBLIC :: uint32 where "TEEC_LOGIN_PUBLIC = 0"

text \<open>The sizes of \<open>TEEC_Context\<close> (an \<open>int\<close> and a \<open>bool\<close>) and \<open>TEEC_Session\<close> (a pointer and an identifier)\<close>

definition sizeof_TEEC_Context :: nat where "sizeof_TEEC_Context = 8"
definition sizeof_TEEC_Session :: nat where "sizeof_TEEC_Session = 16"

record 'w conn_api = "'w teec_api" +
  host_malloc :: "nat \<Rightarrow> 'w \<Rightarrow> size_t \<times> 'w"
  host_free :: "size_t \<Rightarrow> 'w \<Rightarrow> 'w"
  TEEC_InitializeContext :: "u8 list option \<Rightarrow> size_t \<Rightarrow> 'w \<Rightarrow> TEEC_Result \<times> 'w"
  TEEC_FinalizeContext :: "size_t \<Rightarrow> 'w \<Rightarrow> 'w"
  TEEC_OpenSession :: "size_t \<Rightarrow> size_t \<Rightarrow> tee_uuid \<Rightarrow> uint32 \<Rightarrow> u8 list option \<Rightarrow> (uint32 \<times> teec_operation) option \<Rightarrow> 'w \<Rightarrow>
    TEEC_Result \<times> uint32 \<times> 'w"
  TEEC_CloseSession :: "size_t \<Rightarrow> 'w \<Rightarrow> 'w"

text \<open>The functions of the library; the result of \<open>malloc\<close> is not checked.\<close>

definition initializeContext :: "('w, 'z) conn_api_scheme \<Rightarrow> u8 list option \<Rightarrow> oc \<Rightarrow> 'w \<Rightarrow> TEEC_Result \<times> oc \<times> 'w" where
  "initializeContext api name c w =
     (let (p, w) = host_malloc api sizeof_TEEC_Context w;
          c = c\<lparr>ctx := p\<rparr>;
          (res, w) = TEEC_InitializeContext api name (ctx c) w
      in (res, c, w))"

definition openSession :: "('w, 'z) conn_api_scheme \<Rightarrow> oc \<Rightarrow> tee_uuid \<Rightarrow> uint32 \<Rightarrow> u8 list option \<Rightarrow> (uint32 \<times> teec_operation) option \<Rightarrow> 'w \<Rightarrow>
    TEEC_Result \<times> oc \<times> 'w" where
  "openSession api c uuid connectionMethod connectionData operation w =
     (let (p, w) = host_malloc api sizeof_TEEC_Session w;
          c = c\<lparr>session := p\<rparr>;
          (res, err, w) = TEEC_OpenSession api (ctx c) (session c) uuid connectionMethod connectionData operation w
      in (res, c\<lparr>oc_error := err\<rparr>, w))"

definition closeSession :: "('w, 'z) conn_api_scheme \<Rightarrow> oc \<Rightarrow> 'w \<Rightarrow> 'w" where
  "closeSession api c w = host_free api (session c) (TEEC_CloseSession api (session c) w)"

definition finalizeContext :: "('w, 'z) conn_api_scheme \<Rightarrow> oc \<Rightarrow> 'w \<Rightarrow> 'w" where
  "finalizeContext api c w = host_free api (ctx c) (TEEC_FinalizeContext api (ctx c) w)"

section \<open>What the connection keeps\<close>

text \<open>
  The books of a process: its blocks, the contexts that are initialised and the TA each open session
  leads to.  A call without a context or a session fails, and an identifier of an object that is not
  there is left alone.
\<close>

record host_books =
  blocks :: "size_t set"
  contexts :: "size_t set"
  sessions :: "size_t \<Rightarrow> tee_uuid option"

definition host_heap_laws :: "('w, 'z) conn_api_scheme \<Rightarrow> ('w \<Rightarrow> host_books) \<Rightarrow> bool" where
  "host_heap_laws api books \<longleftrightarrow> (\<forall>n w p w'. host_malloc api n w = (p, w') \<longrightarrow>
     books w' = (if p = 0 then books w else (books w)\<lparr>blocks := insert p (blocks (books w))\<rparr>) \<and> p \<notin> blocks (books w)) \<and>
     (\<forall>p w. books (host_free api p w) = (books w)\<lparr>blocks := blocks (books w) - {p}\<rparr>)"

definition context_laws :: "('w, 'z) conn_api_scheme \<Rightarrow> ('w \<Rightarrow> host_books) \<Rightarrow> bool" where
  "context_laws api books \<longleftrightarrow> (\<forall>name p w res w'. TEEC_InitializeContext api name p w = (res, w') \<longrightarrow>
     (res = TEEC_SUCCESS \<longrightarrow> p \<noteq> 0) \<and>
     books w' = (if res = TEEC_SUCCESS then (books w)\<lparr>contexts := insert p (contexts (books w))\<rparr> else books w)) \<and>
     (\<forall>p w. books (TEEC_FinalizeContext api p w) = (books w)\<lparr>contexts := contexts (books w) - {p}\<rparr>)"

definition host_session_laws :: "('w, 'z) conn_api_scheme \<Rightarrow> ('w \<Rightarrow> host_books) \<Rightarrow> bool" where
  "host_session_laws api books \<longleftrightarrow> (\<forall>k s uuid meth d op w res err w'. TEEC_OpenSession api k s uuid meth d op w = (res, err, w') \<longrightarrow>
     (res = TEEC_SUCCESS \<longrightarrow> s \<noteq> 0) \<and>
     books w' = (if res = TEEC_SUCCESS then (books w)\<lparr>sessions := (sessions (books w))(s \<mapsto> uuid)\<rparr> else books w)) \<and>
     (\<forall>s w. books (TEEC_CloseSession api s w) = (books w)\<lparr>sessions := (sessions (books w))(s := None)\<rparr>) \<and>
     (\<forall>s cmd types op w res org op' w'. TEEC_InvokeCommand api s cmd types op w = (res, org, op', w') \<longrightarrow> books w' = books w)"

definition conn_laws :: "('w, 'z) conn_api_scheme \<Rightarrow> ('w \<Rightarrow> host_books) \<Rightarrow> bool" where
  "conn_laws api books \<longleftrightarrow> host_heap_laws api books \<and> context_laws api books \<and> host_session_laws api books"

lemma conn_malloc: "conn_laws api books \<Longrightarrow> host_malloc api n w = (p, w1) \<Longrightarrow>
    books w1 = (if p = 0 then books w else (books w)\<lparr>blocks := insert p (blocks (books w))\<rparr>) \<and> p \<notin> blocks (books w)"
  unfolding conn_laws_def host_heap_laws_def by blast

lemma conn_initialize: "conn_laws api books \<Longrightarrow> TEEC_InitializeContext api name p w = (res, w1) \<Longrightarrow>
    (res = TEEC_SUCCESS \<longrightarrow> p \<noteq> 0) \<and>
    books w1 = (if res = TEEC_SUCCESS then (books w)\<lparr>contexts := insert p (contexts (books w))\<rparr> else books w)"
  unfolding conn_laws_def context_laws_def by blast

lemma conn_open: "conn_laws api books \<Longrightarrow> TEEC_OpenSession api k s uuid meth d op w = (res, err, w1) \<Longrightarrow>
    (res = TEEC_SUCCESS \<longrightarrow> s \<noteq> 0) \<and>
    books w1 = (if res = TEEC_SUCCESS then (books w)\<lparr>sessions := (sessions (books w))(s \<mapsto> uuid)\<rparr> else books w)"
  unfolding conn_laws_def host_session_laws_def by metis

lemma conn_invoke: "conn_laws api books \<Longrightarrow> TEEC_InvokeCommand api s cmd types op w = (res, org, op', w1) \<Longrightarrow> books w1 = books w"
  unfolding conn_laws_def host_session_laws_def by blast

lemma conn_ends:
  assumes "conn_laws api books"
  shows "books (host_free api p w) = (books w)\<lparr>blocks := blocks (books w) - {p}\<rparr>"
    "books (TEEC_FinalizeContext api p w) = (books w)\<lparr>contexts := contexts (books w) - {p}\<rparr>"
    "books (TEEC_CloseSession api s w) = (books w)\<lparr>sessions := (sessions (books w))(s := None)\<rparr>"
  using assms by (simp_all add: conn_laws_def host_heap_laws_def context_laws_def host_session_laws_def)

text \<open>Whatever the client does on its session in between, the two pairs of functions leave nothing behind.\<close>

definition fresh_books :: "host_books \<Rightarrow> bool" where
  "fresh_books b \<longleftrightarrow> contexts b \<subseteq> blocks b \<and> dom (sessions b) \<subseteq> blocks b"

lemma session_connects:
  assumes l: "conn_laws api books" and b: "fresh_books (books w)"
    and i: "initializeContext api name c w = (TEEC_SUCCESS, c1, w1)"
    and o: "openSession api c1 uuid meth d op w1 = (TEEC_SUCCESS, c2, w2)"
  shows "books w2 = \<lparr>blocks = insert (session c2) (insert (ctx c2) (blocks (books w))), contexts = insert (ctx c2) (contexts (books w)),
      sessions = (sessions (books w))(session c2 \<mapsto> uuid)\<rparr>"
    and "ctx c2 \<notin> blocks (books w)" "session c2 \<notin> insert (ctx c2) (blocks (books w))"
proof -
  obtain p v1 where p: "host_malloc api sizeof_TEEC_Context w = (p, v1)" by fastforce
  then have v1: "TEEC_InitializeContext api name p v1 = (TEEC_SUCCESS, w1)" "c1 = c\<lparr>ctx := p\<rparr>"
    using i by (auto simp: initializeContext_def split: prod.splits)
  obtain s v2 where s: "host_malloc api sizeof_TEEC_Session w1 = (s, v2)" by fastforce
  then obtain err where v2: "TEEC_OpenSession api p s uuid meth d op v2 = (TEEC_SUCCESS, err, w2)" "c2 = c\<lparr>ctx := p, session := s, oc_error := err\<rparr>"
    using o v1(2) by (auto simp: openSession_def split: prod.splits)
  have w1: "p \<noteq> 0" "p \<notin> blocks (books w)" "books w1 = (books w)\<lparr>blocks := insert p (blocks (books w)), contexts := insert p (contexts (books w))\<rparr>"
    using conn_initialize [OF l v1(1)] conn_malloc [OF l p] by simp_all
  have w2: "s \<noteq> 0" "s \<notin> blocks (books w1)" "books w2 = (books w1)\<lparr>blocks := insert s (blocks (books w1)), sessions := (sessions (books w1))(s \<mapsto> uuid)\<rparr>"
    using conn_open [OF l v2(1)] conn_malloc [OF l s] by simp_all
  show "books w2 = \<lparr>blocks = insert (session c2) (insert (ctx c2) (blocks (books w))), contexts = insert (ctx c2) (contexts (books w)),
      sessions = (sessions (books w))(session c2 \<mapsto> uuid)\<rparr>" "ctx c2 \<notin> blocks (books w)" "session c2 \<notin> insert (ctx c2) (blocks (books w))"
    using w1 w2 v2(2) by simp_all
qed

lemma session_disconnects:
  assumes l: "conn_laws api books" and b: "fresh_books B"
    and new: "ctx c \<notin> blocks B" "session c \<notin> insert (ctx c) (blocks B)"
    and w: "books w = \<lparr>blocks = insert (session c) (insert (ctx c) (blocks B)), contexts = insert (ctx c) (contexts B),
      sessions = (sessions B)(session c \<mapsto> uuid)\<rparr>"
  shows "books (finalizeContext api c (closeSession api c w)) = B"
proof -
  have "ctx c \<notin> contexts B" "sessions B (session c) = None"
    using b new by (auto simp: fresh_books_def)
  then have "(sessions B)(session c := None) = sessions B" by auto
  then show ?thesis
    using new \<open>ctx c \<notin> contexts B\<close> by (cases B) (simp add: finalizeContext_def closeSession_def conn_ends [OF l] w)
qed

text \<open>
  When the session cannot be opened, its block is still there: a client that only finalizes its context
  loses it, and the function that frees it closes a session that was never opened.
\<close>

lemma failed_open_keeps_block:
  assumes l: "conn_laws api books"
    and i: "initializeContext api name c w = (TEEC_SUCCESS, c1, w1)"
    and o: "openSession api c1 uuid meth d op w1 = (res, c2, w2)" "res \<noteq> TEEC_SUCCESS" "session c2 \<noteq> 0" and b: "fresh_books (books w)"
  shows "books (finalizeContext api c2 w2) = (books w)\<lparr>blocks := insert (session c2) (blocks (books w))\<rparr> \<and> session c2 \<notin> blocks (books w)"
proof -
  obtain p v1 where p: "host_malloc api sizeof_TEEC_Context w = (p, v1)" by fastforce
  then have v1: "TEEC_InitializeContext api name p v1 = (TEEC_SUCCESS, w1)" "c1 = c\<lparr>ctx := p\<rparr>"
    using i by (auto simp: initializeContext_def split: prod.splits)
  obtain s v2 where s: "host_malloc api sizeof_TEEC_Session w1 = (s, v2)" by fastforce
  then obtain err where v2: "TEEC_OpenSession api p s uuid meth d op v2 = (res, err, w2)" "c2 = c\<lparr>ctx := p, session := s, oc_error := err\<rparr>"
    using o v1(2) by (auto simp: openSession_def split: prod.splits)
  have w1: "p \<noteq> 0" "p \<notin> blocks (books w)" "books w1 = (books w)\<lparr>blocks := insert p (blocks (books w)), contexts := insert p (contexts (books w))\<rparr>"
    using conn_initialize [OF l v1(1)] conn_malloc [OF l p] by simp_all
  moreover have "s \<notin> blocks (books w1)" "books w2 = (books w1)\<lparr>blocks := insert s (blocks (books w1))\<rparr>"
    using conn_open [OF l v2(1)] conn_malloc [OF l s] o(2,3) v2(2) by simp_all
  moreover have "p \<notin> contexts (books w)" using b w1(2) by (auto simp: fresh_books_def)
  moreover have "insert s (insert p (blocks (books w))) - {p} = insert s (blocks (books w))" if "s \<noteq> p" using that w1(2) by auto
  ultimately show ?thesis
    by (auto simp: finalizeContext_def conn_ends [OF l] v2(2))
qed

end
