(* ===== verification/Host_Programs.thy ===== *)
theory Host_Programs
  imports Session_Client Storage_Bench
begin

text \<open>
  Programs of a client as a whole, with the TAs they talk to: the test of the file library
  (\<open>src/host/libfs/test/create\<close>), the same steps on the functions of \<open>src/host/storageTest\<close>, and the
  greeting (\<open>src/host/hello\<close>, \<open>src/ta/hello\<close>).  Printing is left out; a program ends with its exit status.
\<close>

definition storage_uuid :: tee_uuid where
  "storage_uuid = (0xb689f2a7, 0x8adf, 0x477a, [0x9f, 0x99, 0x32, 0xe9, 0x0c, 0x0a, 0xd0, 0xa2])"

definition objectID :: "u8 list" where
  "objectID = [0x00, 0x01, 0x02, 0x03, 0x04, 0x05, 0x06, 0x07, 0x08, 0x09, 0x10, 0x11, 0x12, 0x13, 0x14, 0x15]"

definition object_data :: "u8 list" where
  "object_data = [0x0a, 0x0b, 0x0c, 0x0d, 0x0e, 0x0f, 0x1a, 0x1b]"

section \<open>The test of the file library\<close>

text \<open>Closing and opening the object again; \<open>errx\<close> ends the program with status 1.\<close>

definition close_and_open :: "('w, 'z) teec_api_scheme \<Rightarrow> oc \<Rightarrow> uint32 \<Rightarrow> 'w \<Rightarrow> TEEC_Result \<times> uint32 \<times> 'w" where
  "close_and_open api c obj w =
     (let (res, w) = fs_close api c obj w
      in if res \<noteq> TEEC_SUCCESS then (res, obj, w)
         else fs_open api c objectID 16 TEE_DATA_FLAG_ACCESS_WRITE_META obj TEE_STORAGE_PRIVATE w)"

definition object_steps :: "('w, 'z) teec_api_scheme \<Rightarrow> oc \<Rightarrow> uint32 \<Rightarrow> 'w \<Rightarrow> nat \<times> 'w" where
  "object_steps api c obj w =
     (let (res, obj, w) = fs_create api c objectID 16 (TEE_DATA_FLAG_ACCESS_WRITE OR TEE_DATA_FLAG_ACCESS_WRITE_META)
            0 object_data 8 obj TEE_STORAGE_PRIVATE w
      in if res \<noteq> TEEC_SUCCESS then (1, w) else
      let (res, obj, w) = close_and_open api c obj w
      in if res \<noteq> TEEC_SUCCESS then (1, w) else
      let (res, obj, w) = close_and_open api c obj w
      in if res \<noteq> TEEC_SUCCESS then (1, w) else
      let (res, w) = fs_unlink api c obj w
      in if res \<noteq> TEEC_SUCCESS then (1, w) else (0, w))"

text \<open>The arguments stand for what the variables \<open>o\<close> and \<open>obj\<close> hold before they are written.\<close>

definition create_test :: "('w, 'z) conn_api_scheme \<Rightarrow> oc \<Rightarrow> uint32 \<Rightarrow> 'w \<Rightarrow> nat \<times> 'w" where
  "create_test api c obj w =
     (let (res, c, w) = initializeContext api None c w
      in if res \<noteq> TEEC_SUCCESS then (1, w) else
      let (res, c, w) = openSession api c storage_uuid TEEC_LOGIN_PUBLIC None None w
      in if res \<noteq> TEEC_SUCCESS then (1, w) else
      let (status, w) = object_steps api c obj w
      in if status \<noteq> 0 then (status, w)
         else (0, finalizeContext api c (closeSession api c w)))"

section \<open>What the Core API documents of the objects\<close>

text \<open>
  \<open>files m\<close> maps a name to its data and \<open>open_at m\<close> an open handle to its name and flags.  An object can
  be created when its name is free and opened when it is closed, as long as not too many are open; with
  write access to the meta data it can be deleted.  Handles fit 32 bits.
\<close>

definition handles_left :: "(size_t \<Rightarrow> 'x option) \<Rightarrow> bool" where
  "handles_left hs \<longleftrightarrow> finite (dom hs) \<and> card (dom hs) < 2 ^ 31"

definition object_laws ::
  "('m, 'z) storage_api_scheme \<Rightarrow> uint32 \<Rightarrow> ('m \<Rightarrow> u8 list \<Rightarrow> u8 list option) \<Rightarrow> ('m \<Rightarrow> size_t \<Rightarrow> (u8 list \<times> uint32) option) \<Rightarrow> bool" where
  "object_laws api stor files open_at \<longleftrightarrow>
     (\<forall>n m. fst (TEE_Malloc api n m) \<noteq> 0 \<and> files (snd (TEE_Malloc api n m)) = files m \<and> open_at (snd (TEE_Malloc api n m)) = open_at m) \<and>
     (\<forall>p m. files (TEE_Free api p m) = files m \<and> open_at (TEE_Free api p m) = open_at m) \<and>
     (\<forall>m name n flags data k. handles_left (open_at m) \<and> files m name = None \<and> n = of_nat (length name) \<and> k = of_nat (length data) \<longrightarrow>
        (\<exists>h m'. TEE_CreatePersistentObject api stor name n flags 0 data k True m = (TEE_SUCCESS, h, m') \<and> h < 2 ^ 32 \<and> open_at m h = None \<and>
          files m' = (files m)(name \<mapsto> data) \<and> open_at m' = (open_at m)(h \<mapsto> (name, flags)))) \<and>
     (\<forall>m name n flags c. handles_left (open_at m) \<and> files m name = Some c \<and> n = of_nat (length name) \<and> (\<forall>h f. open_at m h \<noteq> Some (name, f)) \<longrightarrow>
        (\<exists>h m'. TEE_OpenPersistentObject api stor name n flags m = (TEE_SUCCESS, h, m') \<and> h < 2 ^ 32 \<and> open_at m h = None \<and>
          files m' = files m \<and> open_at m' = (open_at m)(h \<mapsto> (name, flags)))) \<and>
     (\<forall>m h. files (TEE_CloseObject api h m) = files m \<and> open_at (TEE_CloseObject api h m) = (open_at m)(h := None)) \<and>
     (\<forall>m h name flags. open_at m h = Some (name, flags) \<and> flags AND TEE_DATA_FLAG_ACCESS_WRITE_META \<noteq> 0 \<longrightarrow>
        files (snd (TEE_CloseAndDeletePersistentObject1 api h m)) = (files m)(name := None) \<and>
        open_at (snd (TEE_CloseAndDeletePersistentObject1 api h m)) = (open_at m)(h := None))"

lemma object_memory:
  assumes "object_laws api stor files open_at"
  shows "fst (TEE_Malloc api n m) \<noteq> 0 \<and> files (snd (TEE_Malloc api n m)) = files m \<and> open_at (snd (TEE_Malloc api n m)) = open_at m"
    and "files (TEE_Free api p m) = files m \<and> open_at (TEE_Free api p m) = open_at m"
    and "files (TEE_CloseObject api h m) = files m \<and> open_at (TEE_CloseObject api h m) = (open_at m)(h := None)"
  using assms by (simp_all add: object_laws_def)

lemma object_new:
  assumes "object_laws api stor files open_at" "handles_left (open_at m)" "files m name = None" "n = of_nat (length name)" "k = of_nat (length data)"
  shows "\<exists>h m'. TEE_CreatePersistentObject api stor name n flags 0 data k True m = (TEE_SUCCESS, h, m') \<and> h < 2 ^ 32 \<and> open_at m h = None \<and>
    files m' = (files m)(name \<mapsto> data) \<and> open_at m' = (open_at m)(h \<mapsto> (name, flags))"
  using assms by (simp add: object_laws_def)

lemma object_again:
  assumes "object_laws api stor files open_at" "handles_left (open_at m)" "files m name = Some c" "n = of_nat (length name)" "\<forall>h f. open_at m h \<noteq> Some (name, f)"
  shows "\<exists>h m'. TEE_OpenPersistentObject api stor name n flags m = (TEE_SUCCESS, h, m') \<and> h < 2 ^ 32 \<and> open_at m h = None \<and>
    files m' = files m \<and> open_at m' = (open_at m)(h \<mapsto> (name, flags))"
  using assms by (simp add: object_laws_def)

lemma object_deleted:
  assumes "object_laws api stor files open_at" "open_at m h = Some (name, flags)" "flags AND TEE_DATA_FLAG_ACCESS_WRITE_META \<noteq> 0"
  shows "files (snd (TEE_CloseAndDeletePersistentObject1 api h m)) = (files m)(name := None) \<and>
    open_at (snd (TEE_CloseAndDeletePersistentObject1 api h m)) = (open_at m)(h := None)"
  using assms by (auto simp: object_laws_def)

section \<open>The calls of the client, one by one\<close>

text \<open>A session that is open to a TA is served by the commands of the TA.\<close>

definition tee_serves ::
  "('w, 'z) conn_api_scheme \<Rightarrow> ('w \<Rightarrow> host_books) \<Rightarrow> tee_uuid \<Rightarrow> ('w \<Rightarrow> 'm) \<Rightarrow> ('w \<Rightarrow> nat \<Rightarrow> u8 list) \<Rightarrow>
     (uint32 \<Rightarrow> uint32 \<Rightarrow> tee_params \<Rightarrow> 'm \<Rightarrow> (TEE_Result \<times> tee_params \<times> 'm) option) \<Rightarrow> bool" where
  "tee_serves api books uuid ta shm invoke \<longleftrightarrow>
     (\<forall>w s. sessions (books w) s = Some uuid \<longrightarrow> teec_serves_at api s ta shm invoke w)"

lemma fs_calls_keep_books:
  assumes l: "conn_laws api books"
  shows "fs_create api c oid n flags attr data k obj stor w = (res, h, w1) \<Longrightarrow> books w1 = books w"
    and "fs_open api c oid n flags obj stor w = (res, h, w1) \<Longrightarrow> books w1 = books w"
    and "fs_close api c obj w = (res, w1) \<Longrightarrow> books w1 = books w"
    and "fs_unlink api c obj w = (res, w1) \<Longrightarrow> books w1 = books w"
  by (auto simp: fs_create_def fs_open_def fs_close_def fs_unlink_def value_call_def Let_def dest: conn_invoke [OF l] split: prod.splits)

lemma object_created:
  assumes s: "teec_serves_at api (session c) ta shm (storage_invoke sapi) w" and l: "object_laws sapi stor files open_at"
    and hl: "handles_left (open_at (ta w))"
    and n: "length name < 2 ^ 32" "length data < 2 ^ 32" "files (ta w) name = None"
  shows "\<exists>h w'. fs_create api c name (of_nat (length name)) flags 0 data (of_nat (length data)) obj stor w = (TEE_SUCCESS, h, w') \<and>
    open_at (ta w) (ucast h) = None \<and> files (ta w') = (files (ta w))(name \<mapsto> data) \<and> open_at (ta w') = (open_at (ta w))(ucast h \<mapsto> (name, flags))"
proof -
  let ?n = "of_nat (length name) :: uint32" and ?k = "of_nat (length data) :: uint32"
  obtain b m1 where b: "TEE_Malloc sapi (ucast ?n) (ta w) = (b, m1)" by fastforce
  then have m1: "b \<noteq> 0" "files m1 = files (ta w)" "open_at m1 = open_at (ta w)"
    using object_memory(1) [OF l, of "ucast ?n" "ta w"] by simp_all
  have hl': "handles_left (open_at m1)" using hl m1 by simp
  obtain h m2 where o: "TEE_CreatePersistentObject sapi stor name ?n flags 0 data ?k True m1 = (TEE_SUCCESS, h, m2)" "h < 2 ^ 32"
      "open_at m1 h = None" "files m2 = (files m1)(name \<mapsto> data)" "open_at m2 = (open_at m1)(h \<mapsto> (name, flags))"
    using object_new [OF l hl', of name ?n ?k data flags] n m1 by auto
  have "\<exists>w'. fs_create api c name ?n flags 0 data ?k obj stor w = (TEE_SUCCESS, ucast h, w') \<and> ta w' = TEE_Free sapi b m2"
    using fs_create_served [OF s _ _ b m1(1), where oid = name and data = data and k = ?k and stor = stor and flags = flags
      and attr = 0 and res = TEE_SUCCESS and h = h and ?m2.0 = m2 and obj = obj] n o(1) by (simp add: unat_of_nat32)
  then show ?thesis
    using o m1 object_memory(2) [OF l, of b m2] ucast_up_down [OF o(2)] by (intro exI [of _ "ucast h"]) auto
qed

lemma object_opened:
  assumes s: "teec_serves_at api (session c) ta shm (storage_invoke sapi) w" and l: "object_laws sapi stor files open_at"
    and hl: "handles_left (open_at (ta w))"
    and n: "length name < 2 ^ 32" "files (ta w) name = Some cont" "\<forall>h f. open_at (ta w) h \<noteq> Some (name, f)"
  shows "\<exists>h w'. fs_open api c name (of_nat (length name)) flags obj stor w = (TEE_SUCCESS, h, w') \<and>
    open_at (ta w) (ucast h) = None \<and> files (ta w') = files (ta w) \<and> open_at (ta w') = (open_at (ta w))(ucast h \<mapsto> (name, flags))"
proof -
  let ?n = "of_nat (length name) :: uint32"
  obtain b m1 where b: "TEE_Malloc sapi (ucast ?n) (ta w) = (b, m1)" by fastforce
  then have m1: "b \<noteq> 0" "files m1 = files (ta w)" "open_at m1 = open_at (ta w)"
    using object_memory(1) [OF l, of "ucast ?n" "ta w"] by simp_all
  have hl': "handles_left (open_at m1)" using hl m1 by simp
  obtain h m2 where o: "TEE_OpenPersistentObject sapi stor name ?n flags m1 = (TEE_SUCCESS, h, m2)" "h < 2 ^ 32"
      "open_at m1 h = None" "files m2 = files m1" "open_at m2 = (open_at m1)(h \<mapsto> (name, flags))"
    using object_again [OF l hl', of name cont ?n flags] n m1 by auto
  have "\<exists>w'. fs_open api c name ?n flags obj stor w = (TEE_SUCCESS, ucast h, w') \<and> ta w' = TEE_Free sapi b m2"
    using fs_open_served [OF s _ b m1(1), of name stor flags TEE_SUCCESS h m2 obj] n o(1) by (simp add: unat_of_nat32)
  then show ?thesis
    using o m1 object_memory(2) [OF l, of b m2] ucast_up_down [OF o(2)] by (intro exI [of _ "ucast h"]) auto
qed

section \<open>The steps together\<close>

text \<open>Closed and opened again, an object is there under the new handle only.\<close>

lemma object_reopened:
  assumes l: "conn_laws api books" and s: "tee_serves api books storage_uuid ta shm (storage_invoke sapi)" and o: "object_laws sapi TEE_STORAGE_PRIVATE files open_at"
    and c: "sessions (books w) (session c) = Some storage_uuid" and f: "files (ta w) objectID = Some cont"
    and h: "open_at (ta w) = B(ucast obj \<mapsto> (objectID, g))" "B (ucast obj) = None" "\<forall>h f. B h \<noteq> Some (objectID, f)" "handles_left B"
  shows "\<exists>obj' w'. close_and_open api c obj w = (TEE_SUCCESS, obj', w') \<and> books w' = books w \<and> files (ta w') = files (ta w) \<and>
    open_at (ta w') = B(ucast obj' \<mapsto> (objectID, TEE_DATA_FLAG_ACCESS_WRITE_META)) \<and> B (ucast obj') = None"
proof -
  have at: "teec_serves_at api (session c) ta shm (storage_invoke sapi) v" if "books v = books w" for v
    using s c that by (simp add: tee_serves_def)
  obtain w1 where 1: "fs_close api c obj w = (TEE_SUCCESS, w1)" "ta w1 = TEE_CloseObject sapi (ucast obj) (ta w)"
    using fs_close_served [OF at [OF refl]] by blast
  have b1: "books w1 = books w" by (rule fs_calls_keep_books(3) [OF l 1(1)])
  have f1: "files (ta w1) = files (ta w)" "open_at (ta w1) = B"
    using object_memory(3) [OF o, of "ucast obj" "ta w"] h(1,2) by (auto simp: 1(2))
  have "length objectID = 16" by (simp add: objectID_def)
  then obtain obj' w2 where 2: "fs_open api c objectID 16 TEE_DATA_FLAG_ACCESS_WRITE_META obj TEE_STORAGE_PRIVATE w1 = (TEE_SUCCESS, obj', w2)"
    "open_at (ta w1) (ucast obj') = None" "files (ta w2) = files (ta w1)"
    "open_at (ta w2) = (open_at (ta w1))(ucast obj' \<mapsto> (objectID, TEE_DATA_FLAG_ACCESS_WRITE_META))"
    using object_opened [OF at [OF b1] o, of objectID cont TEE_DATA_FLAG_ACCESS_WRITE_META obj] f f1 h(3,4) by auto
  have "books w2 = books w" using fs_calls_keep_books(2) [OF l 2(1)] b1 by simp
  then show ?thesis
    using 1(1) 2 f1 by (simp add: close_and_open_def TEEC_SUCCESS_def TEE_SUCCESS_def)
qed

lemma object_steps_pass:
  assumes l: "conn_laws api books" and s: "tee_serves api books storage_uuid ta shm (storage_invoke sapi)" and o: "object_laws sapi TEE_STORAGE_PRIVATE files open_at"
    and c: "sessions (books w) (session c) = Some storage_uuid"
    and f: "files (ta w) objectID = None" "\<forall>h f. open_at (ta w) h \<noteq> Some (objectID, f)" "handles_left (open_at (ta w))"
  shows "\<exists>w'. object_steps api c obj w = (0, w') \<and> books w' = books w \<and> files (ta w') = files (ta w) \<and> open_at (ta w') = open_at (ta w)"
proof -
  have at: "teec_serves_at api (session c) ta shm (storage_invoke sapi) v" if "books v = books w" for v
    using s c that by (simp add: tee_serves_def)
  let ?F = "TEE_DATA_FLAG_ACCESS_WRITE OR TEE_DATA_FLAG_ACCESS_WRITE_META" and ?B = "open_at (ta w)"
  have n: "length objectID = 16" "length object_data = 8" by (simp_all add: objectID_def object_data_def)
  obtain h w1 where 1: "fs_create api c objectID 16 ?F 0 object_data 8 obj TEE_STORAGE_PRIVATE w = (TEE_SUCCESS, h, w1)"
    "?B (ucast h) = None" "files (ta w1) = (files (ta w))(objectID \<mapsto> object_data)" "open_at (ta w1) = ?B(ucast h \<mapsto> (objectID, ?F))"
    using object_created [OF at [OF refl] o, of objectID object_data ?F obj] f(1,3) by (auto simp: n)
  have b1: "books w1 = books w" by (rule fs_calls_keep_books(1) [OF l 1(1)])
  obtain h2 w2 where 2: "close_and_open api c h w1 = (TEE_SUCCESS, h2, w2)" "books w2 = books w1" "files (ta w2) = files (ta w1)"
    "open_at (ta w2) = ?B(ucast h2 \<mapsto> (objectID, TEE_DATA_FLAG_ACCESS_WRITE_META))" "?B (ucast h2) = None"
    using object_reopened [OF l s o _ _ 1(4,2) f(2,3), of c object_data] c 1(3) b1 by auto
  obtain h3 w3 where 3: "close_and_open api c h2 w2 = (TEE_SUCCESS, h3, w3)" "books w3 = books w2" "files (ta w3) = files (ta w2)"
    "open_at (ta w3) = ?B(ucast h3 \<mapsto> (objectID, TEE_DATA_FLAG_ACCESS_WRITE_META))" "?B (ucast h3) = None"
    using object_reopened [OF l s o _ _ 2(4,5) f(2,3), of c object_data] c 1(3) b1 2(2,3) by auto
  have b3: "books w3 = books w" using 2(2) 3(2) b1 by simp
  obtain w4 where 4: "fs_unlink api c h3 w3 = (TEE_SUCCESS, w4)" "ta w4 = snd (TEE_CloseAndDeletePersistentObject1 sapi (ucast h3) (ta w3))"
    using fs_unlink_served [OF at [OF b3]] by blast
  have "files (ta w4) = (files (ta w3))(objectID := None)" "open_at (ta w4) = (open_at (ta w3))(ucast h3 := None)"
    using object_deleted [OF o, of "ta w3" "ucast h3" objectID TEE_DATA_FLAG_ACCESS_WRITE_META] 3(4)
    by (simp_all add: 4(2) TEE_DATA_FLAG_ACCESS_WRITE_META_def)
  moreover have "books w4 = books w" using fs_calls_keep_books(4) [OF l 4(1)] b3 by simp
  moreover have "?B(ucast h3 := None) = ?B" "(files (ta w))(objectID := None) = files (ta w)" using 3(5) f(1) by auto
  ultimately show ?thesis
    using 1 2 3 4(1) by (simp add: object_steps_def TEEC_SUCCESS_def TEE_SUCCESS_def)
qed

section \<open>The program as a whole\<close>

text \<open>A TEE that can be reached: contexts and sessions open when there is memory, and the connection leaves the objects alone.\<close>

definition tee_reached :: "('w, 'z) conn_api_scheme \<Rightarrow> ('w \<Rightarrow> host_books) \<Rightarrow> tee_uuid \<Rightarrow> ('w \<Rightarrow> 'x) \<Rightarrow> bool" where
  "tee_reached api books uuid view \<longleftrightarrow>
     (\<forall>n w. card (blocks (books w)) < 2 ^ 63 \<longrightarrow> fst (host_malloc api n w) \<noteq> 0) \<and>
     (\<forall>n w. view (snd (host_malloc api n w)) = view w) \<and> (\<forall>p w. view (host_free api p w) = view w) \<and>
     (\<forall>p w. p \<noteq> 0 \<longrightarrow> fst (TEEC_InitializeContext api None p w) = TEEC_SUCCESS) \<and>
     (\<forall>p w. view (snd (TEEC_InitializeContext api None p w)) = view w \<and> view (TEEC_FinalizeContext api p w) = view w) \<and>
     (\<forall>k s w. s \<noteq> 0 \<longrightarrow> fst (TEEC_OpenSession api k s uuid TEEC_LOGIN_PUBLIC None None w) = TEEC_SUCCESS) \<and>
     (\<forall>k s w. view (snd (snd (TEEC_OpenSession api k s uuid TEEC_LOGIN_PUBLIC None None w))) = view w \<and>
        view (TEEC_CloseSession api s w) = view w)"

lemma reached_view:
  assumes "tee_reached api books uuid view"
  shows "view (snd (host_malloc api n w)) = view w" "view (host_free api p w) = view w"
    "view (snd (TEEC_InitializeContext api None p w)) = view w" "view (TEEC_FinalizeContext api p w) = view w"
    "view (snd (snd (TEEC_OpenSession api k s uuid TEEC_LOGIN_PUBLIC None None w))) = view w" "view (TEEC_CloseSession api s w) = view w"
  using assms by (auto simp: tee_reached_def)

lemma reached_opens:
  assumes "tee_reached api books uuid view"
  shows "card (blocks (books w)) < 2 ^ 63 \<Longrightarrow> fst (host_malloc api n w) \<noteq> 0"
    "p \<noteq> 0 \<Longrightarrow> fst (TEEC_InitializeContext api None p w) = TEEC_SUCCESS"
    "p \<noteq> 0 \<Longrightarrow> fst (TEEC_OpenSession api k p uuid TEEC_LOGIN_PUBLIC None None w) = TEEC_SUCCESS"
  using assms by (auto simp: tee_reached_def)

lemma library_connects:
  assumes r: "tee_reached api books uuid view" and b: "card (blocks (books w)) < 2 ^ 63"
  shows "\<exists>c1 w1. initializeContext api None c w = (TEEC_SUCCESS, c1, w1) \<and> view w1 = view w"
    and "\<exists>c2 w2. openSession api c uuid TEEC_LOGIN_PUBLIC None None w = (TEEC_SUCCESS, c2, w2) \<and> view w2 = view w"
  using reached_opens [OF r] reached_view [OF r] b unfolding initializeContext_def openSession_def
  by (auto simp: Let_def split_beta prod_eq_iff)

lemma context_block:
  assumes l: "conn_laws api books" and i: "initializeContext api name c w = (res, c1, w1)" and b: "card (blocks (books w)) < 2 ^ 62"
  shows "card (blocks (books w1)) < 2 ^ 63"
proof -
  obtain p v where p: "host_malloc api sizeof_TEEC_Context w = (p, v)" by fastforce
  then obtain r where r: "TEEC_InitializeContext api name p v = (r, w1)"
    using i by (auto simp: initializeContext_def split: prod.splits)
  have "card (blocks (books w1)) \<le> Suc (card (blocks (books w)))"
    using conn_malloc [OF l p] conn_initialize [OF l r] by (auto simp: card_insert_if)
  then show ?thesis using b by simp
qed

lemma create_test_runs:
  assumes l: "conn_laws api books" and s: "tee_serves api books storage_uuid ta shm (storage_invoke sapi)"
    and o: "object_laws sapi TEE_STORAGE_PRIVATE files open_at"
    and r: "tee_reached api books storage_uuid (\<lambda>w. (files (ta w), open_at (ta w)))"
    and f: "files (ta w) objectID = None" "\<forall>h f. open_at (ta w) h \<noteq> Some (objectID, f)" "handles_left (open_at (ta w))"
    and b: "fresh_books (books w)" "card (blocks (books w)) < 2 ^ 62"
  shows "\<exists>w'. create_test api c obj w = (0, w') \<and> books w' = books w \<and> files (ta w') = files (ta w) \<and> open_at (ta w') = open_at (ta w)"
proof -
  obtain c1 w1 where 1: "initializeContext api None c w = (TEEC_SUCCESS, c1, w1)" "files (ta w1) = files (ta w)" "open_at (ta w1) = open_at (ta w)"
    using library_connects(1) [OF r, of w c] b(2) by auto
  obtain c2 w2 where 2: "openSession api c1 storage_uuid TEEC_LOGIN_PUBLIC None None w1 = (TEEC_SUCCESS, c2, w2)"
    "files (ta w2) = files (ta w1)" "open_at (ta w2) = open_at (ta w1)"
    using library_connects(2) [OF r context_block [OF l 1(1) b(2)], of c1] by auto
  note n = session_connects [OF l b(1) 1(1) 2(1)]
  obtain w3 where 3: "object_steps api c2 obj w2 = (0, w3)" "books w3 = books w2" "files (ta w3) = files (ta w2)" "open_at (ta w3) = open_at (ta w2)"
    using object_steps_pass [OF l s o, of w2 c2 obj] f 1 2 n(1) by auto
  have "books (finalizeContext api c2 (closeSession api c2 w3)) = books w"
    by (rule session_disconnects [OF l b(1) n(2,3)]) (simp add: 3(2) n(1))
  moreover have "files (ta (finalizeContext api c2 (closeSession api c2 w3))) = files (ta w3)"
    "open_at (ta (finalizeContext api c2 (closeSession api c2 w3))) = open_at (ta w3)"
    using reached_view [OF r] by (simp_all add: finalizeContext_def closeSession_def)
  ultimately show ?thesis
    using 1 2 3 by (simp add: create_test_def)
qed

section \<open>The storage test\<close>

text \<open>
  \<open>src/host/storageTest/common/helper.c\<close> holds the functions of the file library with the session as their
  first argument; only \<open>fs_next_enum\<close> differs and hands back the sizes.
\<close>

definition sess_oc :: "size_t \<Rightarrow> oc" where
  "sess_oc sess = \<lparr>ctx = 0, session = sess, oc_error = 0\<rparr>"

definition helper_fs_next_enum :: "('w, 'z) teec_api_scheme \<Rightarrow> size_t \<Rightarrow> uint32 \<Rightarrow> u8 list option \<Rightarrow> size_t \<Rightarrow> u8 list \<Rightarrow> uint32 \<Rightarrow> 'w \<Rightarrow>
    TEEC_Result \<times> u8 list option \<times> size_t \<times> u8 list \<times> uint32 \<times> 'w" where
  "helper_fs_next_enum api sess e obj_info info_size oid id_size w =
     (let types = TEEC_PARAM_TYPES TEEC_VALUE_INPUT TEEC_NONE TEEC_MEMREF_TEMP_OUTPUT TEEC_NONE;
          types = (if obj_info \<noteq> None then types OR push_bit 4 TEEC_MEMREF_TEMP_OUTPUT else types);
          op = empty_op\<lparr>op0 := op_value e 0, op1 := op_tmpref (case obj_info of None \<Rightarrow> [] | Some b \<Rightarrow> b) info_size,
            op2 := op_tmpref oid (ucast id_size)\<rparr>;
          (res, _, op, w) = TEEC_InvokeCommand api sess TA_STORAGE_CMD_NEXT_ENUM types op w
      in (res, map_option (\<lambda>_. tmp_buffer (op1 op)) obj_info, tmp_size (op1 op), tmp_buffer (op2 op), ucast (tmp_size (op2 op)), w))"

text \<open>The program of \<open>perObj\<close>: its context and its session are variables, at the addresses given.\<close>

definition per_obj :: "('w, 'z) conn_api_scheme \<Rightarrow> size_t \<Rightarrow> size_t \<Rightarrow> uint32 \<Rightarrow> 'w \<Rightarrow> nat \<times> 'w" where
  "per_obj api ctx_p sess_p obj w =
     (let (res, w) = TEEC_InitializeContext api None ctx_p w
      in if res \<noteq> TEEC_SUCCESS then (1, w) else
      let (res, err, w) = TEEC_OpenSession api ctx_p sess_p storage_uuid TEEC_LOGIN_PUBLIC None None w
      in if res \<noteq> TEEC_SUCCESS then (1, w) else
      let (status, w) = object_steps api (sess_oc sess_p) obj w
      in if status \<noteq> 0 then (status, w) else (0, TEEC_FinalizeContext api ctx_p w))"

text \<open>It leaves the objects as they were, but its session is never closed.\<close>

lemma per_obj_keeps_session:
  assumes l: "conn_laws api books" and s: "tee_serves api books storage_uuid ta shm (storage_invoke sapi)"
    and o: "object_laws sapi TEE_STORAGE_PRIVATE files open_at"
    and r: "tee_reached api books storage_uuid (\<lambda>w. (files (ta w), open_at (ta w)))"
    and f: "files (ta w) objectID = None" "\<forall>h f. open_at (ta w) h \<noteq> Some (objectID, f)" "handles_left (open_at (ta w))"
    and p: "ctx_p \<noteq> 0" "sess_p \<noteq> 0" "ctx_p \<notin> contexts (books w)"
  shows "\<exists>w'. per_obj api ctx_p sess_p obj w = (0, w') \<and> files (ta w') = files (ta w) \<and> open_at (ta w') = open_at (ta w) \<and>
    books w' = (books w)\<lparr>sessions := (sessions (books w))(sess_p \<mapsto> storage_uuid)\<rparr>"
proof -
  obtain w1 where 1: "TEEC_InitializeContext api None ctx_p w = (TEEC_SUCCESS, w1)"
    using reached_opens(2) [OF r p(1), of w] by (cases "TEEC_InitializeContext api None ctx_p w") simp
  obtain err w2 where 2: "TEEC_OpenSession api ctx_p sess_p storage_uuid TEEC_LOGIN_PUBLIC None None w1 = (TEEC_SUCCESS, err, w2)"
    using reached_opens(3) [OF r p(2), of ctx_p w1] by (cases "TEEC_OpenSession api ctx_p sess_p storage_uuid TEEC_LOGIN_PUBLIC None None w1") simp
  have v: "files (ta w2) = files (ta w)" "open_at (ta w2) = open_at (ta w)"
    using reached_view(3) [OF r, of ctx_p w] reached_view(5) [OF r, of ctx_p sess_p w1] 1 2 by simp_all
  have b: "books w2 = (books w)\<lparr>contexts := insert ctx_p (contexts (books w)), sessions := (sessions (books w))(sess_p \<mapsto> storage_uuid)\<rparr>"
    using conn_initialize [OF l 1] conn_open [OF l 2] by simp
  obtain w3 where 3: "object_steps api (sess_oc sess_p) obj w2 = (0, w3)" "books w3 = books w2" "files (ta w3) = files (ta w2)" "open_at (ta w3) = open_at (ta w2)"
    using object_steps_pass [OF l s o, of w2 "sess_oc sess_p" obj] f v b by (auto simp: sess_oc_def)
  have "insert ctx_p (contexts (books w)) - {ctx_p} = contexts (books w)" using p(3) by auto
  then show ?thesis
    using 1 2 3 v b reached_view(4) [OF r, of ctx_p w3] conn_ends(2) [OF l, of ctx_p w3] by (simp add: per_obj_def)
qed

text \<open>
  C36.  The test program of the file library ends with status 0: it finds the object it made by name, deletes
  it, and leaves behind no object, no open handle, no session, no context and no block.  So does \<open>perObj\<close>,
  but for its session.
\<close>
theorem create_test_passes:
  assumes l: "conn_laws api books" and s: "tee_serves api books storage_uuid ta shm (storage_invoke sapi)"
    and o: "object_laws sapi TEE_STORAGE_PRIVATE files open_at"
    and r: "tee_reached api books storage_uuid (\<lambda>w. (files (ta w), open_at (ta w)))"
    and f: "files (ta w) objectID = None" "\<forall>h f. open_at (ta w) h \<noteq> Some (objectID, f)" "handles_left (open_at (ta w))"
    and b: "fresh_books (books w)" "card (blocks (books w)) < 2 ^ 62"
  shows "(\<exists>w'. create_test api c obj w = (0, w') \<and> books w' = books w \<and> files (ta w') = files (ta w) \<and> open_at (ta w') = open_at (ta w)) \<and>
    (ctx_p \<noteq> 0 \<and> sess_p \<noteq> 0 \<and> ctx_p \<notin> contexts (books w) \<longrightarrow>
      (\<exists>w'. per_obj api ctx_p sess_p obj w = (0, w') \<and> files (ta w') = files (ta w) \<and> open_at (ta w') = open_at (ta w) \<and>
        books w' = (books w)\<lparr>sessions := (sessions (books w))(sess_p \<mapsto> storage_uuid)\<rparr>))"
  using create_test_runs [OF assms] per_obj_keeps_session [OF l s o r f] by blast

section \<open>A process and a TEE for the witnesses\<close>

text \<open>The first of 1, 2, \<open>\<dots>\<close> that is not in use\<close>

definition first_free :: "size_t list \<Rightarrow> size_t" where
  "first_free ks = (case filter (\<lambda>h. h \<notin> set ks) (map of_nat [1..<length (remdups ks) + 2]) of [] \<Rightarrow> 0 | h # _ \<Rightarrow> h)"

lemma filter_first: "filter P xs = h # hs \<Longrightarrow> P h \<and> h \<in> set xs"
  by (metis list.set_intros(1) mem_Collect_eq set_filter)

lemma first_free_new: "first_free ks = 0 \<or> first_free ks \<notin> set ks"
proof (cases "filter (\<lambda>h. h \<notin> set ks) (map of_nat [1..<length (remdups ks) + 2])")
  case Nil
  then show ?thesis unfolding first_free_def Nil by simp
next
  case (Cons h hs)
  show ?thesis unfolding first_free_def Cons list.case using filter_first [OF Cons] by simp
qed

lemma first_free_small:
  assumes "card (set ks) < 2 ^ 63"
  shows "first_free ks \<noteq> 0 \<and> unat (first_free ks) \<le> card (set ks) + 1"
proof -
  define n where "n = length (remdups ks)"
  let ?c = "map of_nat [1..<n + 2] :: size_t list"
  have n: "n = card (set ks)" by (simp add: n_def length_remdups_card_conv)
  have u: "unat (of_nat i :: size_t) = i" if "i < n + 2" for i
    using that assms by (simp add: n unat_of_nat take_bit_nat_eq_self)
  have "inj_on (of_nat :: nat \<Rightarrow> size_t) {1..<n + 2}" by (intro inj_onI) (metis atLeastLessThan_iff u)
  then have "card ((of_nat :: nat \<Rightarrow> size_t) ` {1..<n + 2}) = n + 1" by (subst card_image) simp_all
  then have c: "card (set ?c) = n + 1" by (simp only: set_map set_upt)
  have "filter (\<lambda>h. h \<notin> set ks) ?c \<noteq> []"
  proof
    assume "filter (\<lambda>h. h \<notin> set ks) ?c = []"
    then have "set ?c \<subseteq> set ks" by (metis (no_types, lifting) filter_empty_conv subsetI)
    then have "card (set ?c) \<le> card (set ks)" by (intro card_mono) simp_all
    then show False using c n by linarith
  qed
  then obtain h hs where f: "filter (\<lambda>h. h \<notin> set ks) ?c = h # hs" by (meson neq_Nil_conv)
  then have "h \<in> of_nat ` {1..<n + 2}" using filter_first [OF f] by (simp only: set_map set_upt)
  then obtain i where i: "h = of_nat i" "1 \<le> i" "i < n + 2" by auto
  have "unat h = i" using u [OF i(3)] i(1) by simp
  moreover have "first_free ks = h" using f by (simp only: first_free_def n_def list.case)
  ultimately show ?thesis using i(2,3) n by auto
qed

text \<open>The objects: the files and the open handles\<close>

type_synonym demo_objs = "(u8 list \<Rightarrow> u8 list option) \<times> (size_t \<times> u8 list \<times> uint32) list"

definition without :: "'k \<Rightarrow> ('k \<times> 'x) list \<Rightarrow> ('k \<times> 'x) list" where
  "without h hs = filter (\<lambda>p. fst p \<noteq> h) hs"

lemma map_of_without [simp]: "map_of (without h hs) = (map_of hs)(h := None)"
  by (induction hs) (auto simp: without_def)

definition object_slot :: "u8 list \<Rightarrow> uint32 \<Rightarrow> demo_objs \<Rightarrow> TEE_Result \<times> size_t \<times> demo_objs" where
  "object_slot name flags m =
     (let h = first_free (map fst (snd m)) in (TEE_SUCCESS, h, (fst m, (h, name, flags) # snd m)))"

definition demo_objects :: "demo_objs storage_api" where
  "demo_objects = inert_storage\<lparr>
     TEE_OpenPersistentObject := \<lambda>_ name _ flags. object_slot name flags,
     TEE_CreatePersistentObject := \<lambda>_ name _ flags _ data _ _ m. object_slot name flags ((fst m)(name \<mapsto> data), snd m),
     TEE_CloseObject := \<lambda>h m. (fst m, without h (snd m)),
     TEE_CloseAndDeletePersistentObject1 := \<lambda>h m. case map_of (snd m) h of
         None \<Rightarrow> (TEE_ERROR_GENERIC, m)
       | Some (name, _) \<Rightarrow> (TEE_SUCCESS, ((fst m)(name := None), without h (snd m)))\<rparr>"

lemma first_free_handle:
  assumes "handles_left (map_of hs)"
  shows "first_free (map fst hs) < 2 ^ 32" "map_of hs (first_free (map fst hs)) = None"
proof -
  let ?h = "first_free (map fst hs)"
  have d: "dom (map_of hs) = set (map fst hs)" by (simp add: dom_map_of_conv_image_fst)
  then have c: "card (set (map fst hs)) < 2 ^ 31" using assms by (simp add: handles_left_def)
  then have h: "?h \<noteq> 0" "unat ?h \<le> 2 ^ 31" using first_free_small [of "map fst hs"] by auto
  then show "map_of hs ?h = None" using first_free_new [of "map fst hs"] d by (metis domIff)
  show "?h < 2 ^ 32" using h(2) by (simp add: word_less_nat_alt)
qed

lemma object_slot_fits:
  "handles_left (map_of hs) \<Longrightarrow>
    \<exists>h. object_slot name flags (fs, hs) = (TEE_SUCCESS, h, (fs, (h, name, flags) # hs)) \<and> h < 2 ^ 32 \<and> map_of hs h = None"
  using first_free_handle [of hs] by (simp add: object_slot_def Let_def)

lemma demo_object_laws: "object_laws demo_objects stor fst (\<lambda>m. map_of (snd m))"
  unfolding object_laws_def
proof (intro conjI allI impI, goal_cases)
  case (6 m name n flags data k)
  then show ?case using object_slot_fits [of "snd m" name flags "(fst m)(name \<mapsto> data)"] by (auto simp: demo_objects_def)
next
  case (7 m name n flags c)
  then show ?case using object_slot_fits [of "snd m" name flags "fst m"] by (auto simp: demo_objects_def)
qed (auto simp: demo_objects_def inert_storage_def split: option.splits prod.splits)

text \<open>The process and its connections; the commands of an open session run at once on the state of the TA.\<close>

record 'm demo_host =
  d_blocks :: "size_t list"
  d_contexts :: "size_t list"
  d_sessions :: "(size_t \<times> tee_uuid) list"
  d_ta :: 'm

definition demo_books :: "'m demo_host \<Rightarrow> host_books" where
  "demo_books w = \<lparr>blocks = set (d_blocks w) - {0}, contexts = set (d_contexts w), sessions = map_of (d_sessions w)\<rparr>"

definition demo_conn :: "(uint32 \<Rightarrow> uint32 \<Rightarrow> tee_params \<Rightarrow> 'm \<Rightarrow> (TEE_Result \<times> tee_params \<times> 'm) option) \<Rightarrow> 'm demo_host conn_api" where
  "demo_conn invoke = \<lparr>
     TEEC_InvokeCommand = \<lambda>s cmd types op w.
       (let (res, org, op, m) = TEEC_InvokeCommand (direct_teec invoke) s cmd types op (d_ta w) in (res, org, op, w\<lparr>d_ta := m\<rparr>)),
     host_malloc = \<lambda>_ w. let p = first_free (removeAll 0 (d_blocks w)) in (p, if p = 0 then w else w\<lparr>d_blocks := p # d_blocks w\<rparr>),
     host_free = \<lambda>p w. w\<lparr>d_blocks := removeAll p (d_blocks w)\<rparr>,
     TEEC_InitializeContext = \<lambda>_ p w. if p = 0 then (TEE_ERROR_BAD_PARAMETERS, w) else (TEEC_SUCCESS, w\<lparr>d_contexts := p # d_contexts w\<rparr>),
     TEEC_FinalizeContext = \<lambda>p w. w\<lparr>d_contexts := removeAll p (d_contexts w)\<rparr>,
     TEEC_OpenSession = \<lambda>_ s uuid _ _ _ w. if s = 0 then (TEE_ERROR_BAD_PARAMETERS, 3, w)
       else (TEEC_SUCCESS, 4, w\<lparr>d_sessions := (s, uuid) # d_sessions w\<rparr>),
     TEEC_CloseSession = \<lambda>s w. w\<lparr>d_sessions := without s (d_sessions w)\<rparr>\<rparr>"

lemma demo_conn_laws: "conn_laws (demo_conn invoke) demo_books"
proof -
  have *: "first_free (removeAll 0 l) = 0 \<or> first_free (removeAll 0 l) \<notin> set l" for l
    using first_free_new [of "removeAll 0 l"] by auto
  show ?thesis
    unfolding conn_laws_def host_heap_laws_def context_laws_def host_session_laws_def using *
    by (intro conjI allI impI) (auto simp: demo_conn_def demo_books_def Let_def TEEC_SUCCESS_def tee_results split: prod.splits if_splits)
qed

lemma demo_serves: "tee_serves (demo_conn invoke) demo_books uuid d_ta (\<lambda>_ n. replicate n 0) invoke"
  by (auto simp: tee_serves_def teec_serves_at_def demo_conn_def direct_teec_def)

lemma demo_reached: "tee_reached (demo_conn invoke) demo_books uuid (\<lambda>w. view (d_ta w))"
  unfolding tee_reached_def
proof (intro conjI allI impI, goal_cases)
  case (1 n w)
  then show ?case using first_free_small [of "removeAll 0 (d_blocks w)"] by (simp add: demo_conn_def demo_books_def Let_def)
qed (auto simp: demo_conn_def Let_def TEEC_SUCCESS_def)

lemma create_test_passes_witness:
  "\<exists>w'. create_test (demo_conn (storage_invoke demo_objects)) \<lparr>ctx = 0, session = 0, oc_error = 0\<rparr> 0
      \<lparr>d_blocks = [], d_contexts = [], d_sessions = [], d_ta = (\<lambda>_. None, [])\<rparr> = (0, w') \<and>
    demo_books w' = \<lparr>blocks = {}, contexts = {}, sessions = \<lambda>_. None\<rparr> \<and> fst (d_ta w') = (\<lambda>_. None) \<and> map_of (snd (d_ta w')) = (\<lambda>_. None)"
  using create_test_passes [OF demo_conn_laws demo_serves demo_object_laws demo_reached [where view = "\<lambda>m. (fst m, map_of (snd m))"],
      where w = "\<lparr>d_blocks = [], d_contexts = [], d_sessions = [], d_ta = (\<lambda>_. None, [])\<rparr>"]
  by (simp add: demo_books_def fresh_books_def handles_left_def)

end
