(* ===== verification/Hello.thy ===== *)
theory Hello
  imports Host_Programs
begin

text \<open>
  Model of \<open>src/ta/hello\<close> and of its client \<open>src/host/hello/main.c\<close>: the TA copies its input and
  \<open>"-World!"\<close> to its output, and the client ends the text with a zero and prints it.
\<close>

definition hello_uuid :: tee_uuid where
  "hello_uuid = (0x973c225c, 0x4f59, 0x465c, [0x9a, 0xa5, 0x9b, 0x6b, 0x4d, 0x40, 0xb9, 0x10])"

definition TA_HELLO_CMD :: uint32 where "TA_HELLO_CMD = 0"

text \<open>\<open>"-World!"\<close> and \<open>"Hello"\<close>\<close>

definition world :: "u8 list" where "world = [0x2d, 0x57, 0x6f, 0x72, 0x6c, 0x64, 0x21]"
definition hello_text :: "u8 list" where "hello_text = [0x48, 0x65, 0x6c, 0x6c, 0x6f]"

definition memref_type :: "uint32 \<Rightarrow> bool" where
  "memref_type t \<longleftrightarrow> t = PT_MEMREF_INPUT \<or> t = PT_MEMREF_OUTPUT \<or> t = PT_MEMREF_INOUT"

text \<open>
  The TA looks neither at the types nor at the size of the output: a parameter that is no reference has no
  buffer, and a text that does not fit is written behind it.  Both are undefined here.  With its messages
  compiled in (\<open>traced\<close>) it first prints both buffers with \<open>%*s\<close>, where the size is a width and no bound: a
  buffer without a zero is read past its end.
\<close>

definition ta_hello_cmd :: "bool \<Rightarrow> uint32 \<Rightarrow> tee_params \<Rightarrow> 'm \<Rightarrow> (TEE_Result \<times> tee_params \<times> 'm) option" where
  "ta_hello_cmd traced param_types params m =
     (if \<not> memref_type (TEE_PARAM_TYPE_GET param_types 0) \<or> \<not> memref_type (TEE_PARAM_TYPE_GET param_types 1) then None
      else do {
        _ \<leftarrow> (if traced then strlen (mbuf (p0 params)) else Some 0);
        _ \<leftarrow> (if traced then strlen (mbuf (p1 params)) else Some 0);
        out \<leftarrow> memcpy (mbuf (p1 params)) 0 (mbuf (p0 params)) (unat (msize (p0 params)));
        out \<leftarrow> memcpy out (unat (msize (p0 params))) world 7;
        Some (TEE_SUCCESS, params\<lparr>p1 := (p1 params)\<lparr>mbuf := out, msize := msize (p0 params) + 7\<rparr>\<rparr>, m)
      })"

definition hello_invoke :: "bool \<Rightarrow> uint32 \<Rightarrow> uint32 \<Rightarrow> tee_params \<Rightarrow> 'm \<Rightarrow> (TEE_Result \<times> tee_params \<times> 'm) option" where
  "hello_invoke traced cmd_id param_types params m =
     (if cmd_id = TA_HELLO_CMD then ta_hello_cmd traced param_types params m
      else Some (TEE_ERROR_BAD_PARAMETERS, params, m))"

text \<open>
  The program.  The context and the session are variables at the addresses given, and \<open>op\<close> is what the
  operation holds before its first two parameters are set; \<^term>\<open>None\<close> is an access behind a buffer.
  \<open>hello_call\<close> is what \<open>main\<close> does once it has printed its buffer.
\<close>

definition hello_call ::
  "('w, 'z) conn_api_scheme \<Rightarrow> size_t \<Rightarrow> size_t \<Rightarrow> u8 list \<Rightarrow> teec_operation \<Rightarrow> 'w \<Rightarrow> (nat \<times> u8 list \<times> 'w) option" where
  "hello_call api ctx_p sess_p output op w =
     (let op = op\<lparr>op0 := op_tmpref hello_text 5, op1 := op_tmpref output 50\<rparr>;
          (res, err, op, w) = TEEC_InvokeCommand api sess_p TA_HELLO_CMD
            (TEEC_PARAM_TYPES TEEC_MEMREF_TEMP_INPUT TEEC_MEMREF_TEMP_OUTPUT TEEC_NONE TEEC_NONE) op w
      in if res \<noteq> TEEC_SUCCESS then Some (1, tmp_buffer (op1 op), w)
      else do {
        output \<leftarrow> st (tmp_buffer (op1 op)) (unat (tmp_size (op1 op))) 0;
        _ \<leftarrow> strlen output;
        Some (0, output, TEEC_FinalizeContext api ctx_p w)
      })"

definition hello_main :: "('w, 'z) conn_api_scheme \<Rightarrow> size_t \<Rightarrow> size_t \<Rightarrow> teec_operation \<Rightarrow> 'w \<Rightarrow> (nat \<times> u8 list \<times> 'w) option" where
  "hello_main api ctx_p sess_p op w =
     (let (res, w) = TEEC_InitializeContext api None ctx_p w
      in if res \<noteq> TEEC_SUCCESS then Some (1, [], w) else
      let (res, err, w) = TEEC_OpenSession api ctx_p sess_p hello_uuid TEEC_LOGIN_PUBLIC None None w
      in if res \<noteq> TEEC_SUCCESS then Some (1, [], w)
      else do {
        output \<leftarrow> Some (replicate 50 0x41);
        _ \<leftarrow> strlen output;
        hello_call api ctx_p sess_p output op w
      })"

section \<open>What the TA needs\<close>

lemma type_gets: "TEE_PARAM_TYPE_GET (TEE_PARAM_TYPES PT_MEMREF_INPUT PT_MEMREF_OUTPUT PT_NONE PT_NONE) 0 = PT_MEMREF_INPUT"
  "TEE_PARAM_TYPE_GET (TEE_PARAM_TYPES PT_MEMREF_INPUT PT_MEMREF_OUTPUT PT_NONE PT_NONE) 1 = PT_MEMREF_OUTPUT"
  by (simp_all add: param_types_get del: One_nat_def)

text \<open>
  What the TA stores behind the text of its input, and when it is defined: both parameters must be
  references and the text must fit the output; with messages, both buffers need a zero.
\<close>

definition hello_reply :: "tee_params \<Rightarrow> tee_params" where
  "hello_reply params = params\<lparr>p1 := (p1 params)\<lparr>
     mbuf := take (unat (msize (p0 params))) (mbuf (p0 params)) @ world @ drop (unat (msize (p0 params)) + 7) (mbuf (p1 params)),
     msize := msize (p0 params) + 7\<rparr>\<rparr>"

definition hello_safe :: "bool \<Rightarrow> uint32 \<Rightarrow> tee_params \<Rightarrow> bool" where
  "hello_safe traced types params \<longleftrightarrow>
     memref_type (TEE_PARAM_TYPE_GET types 0) \<and> memref_type (TEE_PARAM_TYPE_GET types 1) \<and>
     unat (msize (p0 params)) + 7 \<le> length (mbuf (p1 params)) \<and>
     (traced \<longrightarrow> 0 \<in> set (mbuf (p0 params)) \<and> 0 \<in> set (mbuf (p1 params)))"

lemma hello_copy:
  assumes "n \<le> length a"
  shows "do { out \<leftarrow> memcpy b 0 a n; memcpy out n world 7 } =
    (if n + 7 \<le> length b then Some (take n a @ world @ drop (n + 7) b) else None)"
  using assms by (auto simp: memcpy_def put_block_def world_def min_def add.commute)

lemma hello_command:
  assumes "unat (msize (p0 params)) \<le> length (mbuf (p0 params))"
  shows "hello_invoke traced TA_HELLO_CMD types params m =
    (if hello_safe traced types params then Some (TEE_SUCCESS, hello_reply params, m) else None)"
  using hello_copy [OF assms, of "mbuf (p1 params)"]
  by (auto simp: hello_invoke_def ta_hello_cmd_def hello_safe_def hello_reply_def strlen_def split: bind_splits if_splits)

section \<open>What the client prints\<close>

text \<open>The text of the start has no end in its buffer.\<close>

lemma no_greeting:
  assumes "TEEC_InitializeContext api None ctx_p w = (TEEC_SUCCESS, w1)"
    and "TEEC_OpenSession api ctx_p sess_p hello_uuid TEEC_LOGIN_PUBLIC None None w1 = (TEEC_SUCCESS, err, w2)"
  shows "hello_main api ctx_p sess_p op w = None"
  using assms by (simp add: hello_main_def strlen_def)

lemma hello_call_prints:
  assumes l: "conn_laws api books" and s: "tee_serves api books hello_uuid ta shm (hello_invoke False)"
    and c: "sessions (books w) sess_p = Some hello_uuid" and out: "length output = 50"
    and op: "op_param_ok (op2 op)" "op_param_ok (op3 op)"
  shows "\<exists>w'. hello_call api ctx_p sess_p output op w = Some (0, hello_text @ world @ 0 # drop 13 output, w') \<and>
    books w' = (books w)\<lparr>contexts := contexts (books w) - {ctx_p}\<rparr>"
proof -
  have at: "teec_serves_at api sess_p ta shm (hello_invoke False) w" using s c by (simp add: tee_serves_def)
  let ?op = "op\<lparr>op0 := op_tmpref hello_text (ucast (5 :: uint32)), op1 := op_tmpref output (ucast (50 :: uint32))\<rparr>"
  have shm: "length (shm w 50) = 50" using at by (simp add: teec_serves_at_def)
  have five: "take 5 hello_text = hello_text" by (simp add: hello_text_def)
  have ok: "op_ok ?op" using op out by (simp add: op_ok_def op_param_ok_def op_tmpref_def hello_text_def)
  let ?ps = "\<lparr>p0 = zero_param\<lparr>mbuf := hello_text, msize := 5\<rparr>, p1 = zero_param\<lparr>mbuf := shm w 50, msize := 50\<rparr>,
    p2 = zero_param, p3 = zero_param\<rparr>"
  have "hello_invoke False TA_HELLO_CMD (TEE_PARAM_TYPES PT_MEMREF_INPUT PT_MEMREF_OUTPUT PT_NONE PT_NONE) ?ps (ta w) =
      Some (TEE_SUCCESS, hello_reply ?ps, ta w)"
    using hello_command [of ?ps False "TEE_PARAM_TYPES PT_MEMREF_INPUT PT_MEMREF_OUTPUT PT_NONE PT_NONE" "ta w"] shm
    by (simp add: hello_safe_def type_gets memref_type_def hello_text_def del: One_nat_def)
  then have served: "hello_invoke False TA_HELLO_CMD (TEE_PARAM_TYPES PT_MEMREF_INPUT PT_MEMREF_OUTPUT PT_NONE PT_NONE)
      \<lparr>p0 = to_ta (shm w) PT_MEMREF_INPUT (op0 ?op), p1 = to_ta (shm w) PT_MEMREF_OUTPUT (op1 ?op),
        p2 = to_ta (shm w) PT_NONE (op2 ?op), p3 = to_ta (shm w) PT_NONE (op3 ?op)\<rparr> (ta w) =
      Some (TEE_SUCCESS, \<lparr>p0 = zero_param\<lparr>mbuf := hello_text, msize := 5\<rparr>,
        p1 = zero_param\<lparr>mbuf := hello_text @ world @ drop 12 (shm w 50), msize := 12\<rparr>, p2 = zero_param, p3 = zero_param\<rparr>, ta w)"
    using to_ta_simps(5) [of "shm w" hello_text 5] to_ta_simps(6) [of "shm w" "output" 50]
    by (simp add: five hello_reply_def hello_text_def)
  have reply: "tmp_buffer (from_ta PT_MEMREF_OUTPUT (op_tmpref output (ucast (50 :: uint32)))
      (zero_param\<lparr>mbuf := hello_text @ world @ drop 12 (shm w 50), msize := 12\<rparr>)) = hello_text @ world @ drop 12 output"
    unfolding from_ta_simps(8) using shm out by (simp add: hello_text_def world_def)
  from op_served_at [OF at ok _ _ _ _ served] obtain org op' w3 where
    3: "TEEC_InvokeCommand api sess_p TA_HELLO_CMD (TEE_PARAM_TYPES PT_MEMREF_INPUT PT_MEMREF_OUTPUT PT_NONE PT_NONE) ?op w = (TEE_SUCCESS, org, op', w3)"
    "tmp_buffer (op1 op') = hello_text @ world @ drop 12 output" "tmp_size (op1 op') = 12"
    using reply by auto
  have x: "drop 12 output = output ! 12 # drop 13 output"
    using out Cons_nth_drop_Suc [of 12 "output"] by simp
  have "st (hello_text @ world @ drop 12 output) 12 0 = Some (hello_text @ world @ 0 # drop 13 output)"
    unfolding x by (simp add: st_def hello_text_def world_def numeral_eq_Suc)
  moreover have "books w3 = books w" by (rule conn_invoke [OF l 3(1)])
  ultimately show ?thesis
    using 3 conn_ends(2) [OF l, of ctx_p w3]
    by (simp add: hello_call_def strlen_def teec_types teec_type_values TEEC_SUCCESS_def TEE_SUCCESS_def)
qed

text \<open>
  C34.  The command of the TA copies its input and \<open>"-World!"\<close> to its output, and has a defined outcome exactly
  when its first two parameters are references and the text fits the second; with messages compiled in,
  exactly when both buffers hold a zero besides.  The client always prints a buffer without an end once
  its session is open, which has no defined outcome.  What follows that message turns the first 13 bytes
  of the buffer into \<open>Hello-World!\<close> and a zero, if the TA has no messages, ends with status 0 and leaves
  the session open.
\<close>
theorem hello_greets:
  assumes "conn_laws api books" and "tee_serves api books hello_uuid ta shm (hello_invoke False)" and "tee_reached api books hello_uuid view"
    and "ctx_p \<noteq> 0" "sess_p \<noteq> 0" "op_param_ok (op2 op)" "op_param_ok (op3 op)"
  shows "(unat (msize (p0 params)) \<le> length (mbuf (p0 params)) \<longrightarrow> hello_invoke traced TA_HELLO_CMD types params m =
      (if memref_type (TEE_PARAM_TYPE_GET types 0) \<and> memref_type (TEE_PARAM_TYPE_GET types 1) \<and>
          unat (msize (p0 params)) + 7 \<le> length (mbuf (p1 params)) \<and>
          (traced \<longrightarrow> 0 \<in> set (mbuf (p0 params)) \<and> 0 \<in> set (mbuf (p1 params)))
       then Some (TEE_SUCCESS, params\<lparr>p1 := (p1 params)\<lparr>
           mbuf := take (unat (msize (p0 params))) (mbuf (p0 params)) @ world @ drop (unat (msize (p0 params)) + 7) (mbuf (p1 params)),
           msize := msize (p0 params) + 7\<rparr>\<rparr>, m)
       else None)) \<and>
    hello_main api ctx_p sess_p op w = None \<and>
    (sessions (books w) sess_p = Some hello_uuid \<and> length output = 50 \<longrightarrow>
      (\<exists>w'. hello_call api ctx_p sess_p output op w = Some (0, hello_text @ world @ 0 # drop 13 output, w') \<and>
        books w' = (books w)\<lparr>contexts := contexts (books w) - {ctx_p}\<rparr>))"
proof (intro conjI impI)
  assume "unat (msize (p0 params)) \<le> length (mbuf (p0 params))"
  from hello_command [OF this, of traced types m]
  show "hello_invoke traced TA_HELLO_CMD types params m =
      (if memref_type (TEE_PARAM_TYPE_GET types 0) \<and> memref_type (TEE_PARAM_TYPE_GET types 1) \<and>
          unat (msize (p0 params)) + 7 \<le> length (mbuf (p1 params)) \<and>
          (traced \<longrightarrow> 0 \<in> set (mbuf (p0 params)) \<and> 0 \<in> set (mbuf (p1 params)))
       then Some (TEE_SUCCESS, params\<lparr>p1 := (p1 params)\<lparr>
           mbuf := take (unat (msize (p0 params))) (mbuf (p0 params)) @ world @ drop (unat (msize (p0 params)) + 7) (mbuf (p1 params)),
           msize := msize (p0 params) + 7\<rparr>\<rparr>, m)
       else None)"
    unfolding hello_safe_def hello_reply_def .
next
  obtain w1 where 1: "TEEC_InitializeContext api None ctx_p w = (TEEC_SUCCESS, w1)"
    using reached_opens(2) [OF assms(3,4), of w] by (cases "TEEC_InitializeContext api None ctx_p w") simp
  obtain err w2 where "TEEC_OpenSession api ctx_p sess_p hello_uuid TEEC_LOGIN_PUBLIC None None w1 = (TEEC_SUCCESS, err, w2)"
    using reached_opens(3) [OF assms(3,5), of ctx_p w1] by (cases "TEEC_OpenSession api ctx_p sess_p hello_uuid TEEC_LOGIN_PUBLIC None None w1") simp
  with 1 show "hello_main api ctx_p sess_p op w = None" by (rule no_greeting)
qed (use hello_call_prints [OF assms(1,2) _ _ assms(6,7)] in blast)

lemma hello_greets_witness:
  "hello_invoke True TA_HELLO_CMD (TEE_PARAM_TYPES PT_MEMREF_INPUT PT_MEMREF_OUTPUT PT_NONE PT_NONE)
      (zero_params\<lparr>p0 := zero_param\<lparr>mbuf := hello_text, msize := 5\<rparr>, p1 := zero_param\<lparr>mbuf := replicate 50 0, msize := 50\<rparr>\<rparr>) () = None \<and>
   hello_main (demo_conn (hello_invoke False)) 1 2 empty_op \<lparr>d_blocks = [], d_contexts = [1], d_sessions = [(2, hello_uuid)], d_ta = ()\<rparr> = None \<and>
   (\<exists>w'. hello_call (demo_conn (hello_invoke False)) 1 2 (replicate 50 0x41) empty_op
        \<lparr>d_blocks = [], d_contexts = [1], d_sessions = [(2, hello_uuid)], d_ta = ()\<rparr> =
      Some (0, hello_text @ world @ 0 # replicate 37 0x41, w'))"
proof -
  let ?w = "\<lparr>d_blocks = [], d_contexts = [1], d_sessions = [(2, hello_uuid)], d_ta = ()\<rparr> :: unit demo_host"
  note claim = hello_greets [OF demo_conn_laws demo_serves demo_reached [where view = "\<lambda>_. ()"], of 1 2 empty_op
      "zero_params\<lparr>p0 := zero_param\<lparr>mbuf := hello_text, msize := 5\<rparr>, p1 := zero_param\<lparr>mbuf := replicate 50 0, msize := 50\<rparr>\<rparr>"
      True "TEE_PARAM_TYPES PT_MEMREF_INPUT PT_MEMREF_OUTPUT PT_NONE PT_NONE" "()" ?w "replicate 50 0x41"]
  have "drop 13 (replicate 50 (0x41 :: u8)) = replicate 37 0x41" by simp
  then show ?thesis using claim by (auto simp: hello_text_def demo_books_def type_gets memref_type_def)
qed

end
