(* ===== verification/Enum_Files.thy ===== *)
theory Enum_Files
  imports Host_Programs Key_Client
begin

text \<open>
  Model of \<open>src/host/storageTest/enumFiles\<close>, which creates three objects, prints what an enumeration of
  the storage yields, and deletes its objects, and of the functions of \<open>common/helper.c\<close> it uses.
\<close>

section \<open>The functions of helper.c\<close>

text \<open>They are those of \<open>libfs/fs.c\<close> on a session instead of a context record.\<close>

definition helper_fs_open where "helper_fs_open api sess = fs_open api (sess_oc sess)"
definition helper_fs_create where "helper_fs_create api sess = fs_create api (sess_oc sess)"
definition helper_fs_create_overwrite where "helper_fs_create_overwrite api sess = fs_create_overwrite api (sess_oc sess)"
definition helper_fs_close where "helper_fs_close api sess = fs_close api (sess_oc sess)"
definition helper_fs_read where "helper_fs_read api sess = fs_read api (sess_oc sess)"
definition helper_fs_write where "helper_fs_write api sess = fs_write api (sess_oc sess)"
definition helper_fs_seek where "helper_fs_seek api sess = fs_seek api (sess_oc sess)"
definition helper_fs_unlink where "helper_fs_unlink api sess = fs_unlink api (sess_oc sess)"
definition helper_fs_trunc where "helper_fs_trunc api sess = fs_trunc api (sess_oc sess)"
definition helper_fs_rename where "helper_fs_rename api sess = fs_rename api (sess_oc sess)"
definition helper_fs_alloc_enum where "helper_fs_alloc_enum api sess = fs_alloc_enum api (sess_oc sess)"
definition helper_fs_reset_enum where "helper_fs_reset_enum api sess = fs_reset_enum api (sess_oc sess)"
definition helper_fs_free_enum where "helper_fs_free_enum api sess = fs_free_enum api (sess_oc sess)"
definition helper_fs_start_enum where "helper_fs_start_enum api sess = fs_start_enum api (sess_oc sess)"
definition helper_fs_restrict_usage where "helper_fs_restrict_usage api sess = fs_restrict_usage api (sess_oc sess)"
definition helper_fs_alloc_obj where "helper_fs_alloc_obj api sess = fs_alloc_obj api (sess_oc sess)"
definition helper_fs_free_obj where "helper_fs_free_obj api sess = fs_free_obj api (sess_oc sess)"
definition helper_fs_reset_obj where "helper_fs_reset_obj api sess = fs_reset_obj api (sess_oc sess)"
definition helper_fs_get_obj_info where "helper_fs_get_obj_info api sess = fs_get_obj_info api (sess_oc sess)"

lemma sess_oc_session [simp]: "session (sess_oc s) = s"
  by (simp add: sess_oc_def)

section \<open>The program\<close>

definition enum_names :: "u8 list list" where "enum_names = [[1, 2], [3, 4], [5, 6]]"

text \<open>The loops over the three names; the second component of a pair is what the array \<open>obj\<close> held.\<close>

definition enum_flags :: uint32 where "enum_flags = TEE_DATA_FLAG_ACCESS_WRITE OR TEE_DATA_FLAG_ACCESS_WRITE_META"

fun create_files :: "('w, 'z) teec_api_scheme \<Rightarrow> size_t \<Rightarrow> (u8 list \<times> uint32) list \<Rightarrow> 'w \<Rightarrow> nat \<times> uint32 list \<times> 'w" where
  "create_files api sess [] w = (0, [], w)"
| "create_files api sess ((f, obj) # fs) w =
     (let (res, h, w) = helper_fs_create api sess f (of_nat (length f)) enum_flags 0 object_data 8 obj TEE_STORAGE_PRIVATE w
      in if res \<noteq> TEEC_SUCCESS then (1, [], w)
         else let (status, hs, w) = create_files api sess fs w in (status, h # hs, w))"

fun unlink_files :: "('w, 'z) teec_api_scheme \<Rightarrow> size_t \<Rightarrow> uint32 list \<Rightarrow> 'w \<Rightarrow> nat \<times> 'w" where
  "unlink_files api sess [] w = (0, w)"
| "unlink_files api sess (h # hs) w =
     (let (res, w) = helper_fs_unlink api sess h w
      in if res \<noteq> TEEC_SUCCESS then (1, w) else unlink_files api sess hs w)"

text \<open>
  The loop over the enumeration: what it prints are the name and the information of each object, as long
  as the sizes handed back say; to read behind the buffers of 200 bytes is undefined.
\<close>

partial_function (option) print_files ::
  "('w, 'z) teec_api_scheme \<Rightarrow> size_t \<Rightarrow> uint32 \<Rightarrow> u8 list \<Rightarrow> u8 list \<Rightarrow> 'w \<Rightarrow> ((u8 list \<times> u8 list) list \<times> 'w) option" where
  "print_files api sess e info name w =
     (let (res, info, infoSize, name, idSize, w) = helper_fs_next_enum api sess e (Some info) 200 name 200 w
      in if res \<noteq> TEEC_SUCCESS then Some ([], w)
      else case info of
        None \<Rightarrow> None
      | Some info \<Rightarrow>
          if length name < unat idSize \<or> length info < unat infoSize then None
          else do {
            (printed, w) \<leftarrow> print_files api sess e info name w;
            Some ((take (unat idSize) name, take (unat infoSize) info) # printed, w)
          })"

text \<open>The exit status, what was printed, and the state; \<open>objs\<close> is what the array \<open>obj\<close> held.\<close>

definition enum_files :: "('w, 'z) conn_api_scheme \<Rightarrow> size_t \<Rightarrow> size_t \<Rightarrow> uint32 list \<Rightarrow> 'w \<Rightarrow>
    (nat \<times> (u8 list \<times> u8 list) list \<times> 'w) option" where
  "enum_files api ctx_p sess_p objs w =
     (let (res, w) = TEEC_InitializeContext api None ctx_p w
      in if res \<noteq> TEEC_SUCCESS then Some (1, [], w) else
      let (res, err, w) = TEEC_OpenSession api ctx_p sess_p storage_uuid TEEC_LOGIN_PUBLIC None None w
      in if res \<noteq> TEEC_SUCCESS then Some (1, [], w) else
      let (status, hs, w) = create_files api sess_p (zip enum_names objs) w
      in if status \<noteq> 0 then Some (status, [], w) else
      let (res, e, w) = helper_fs_alloc_enum api sess_p 0 w
      in if res \<noteq> TEEC_SUCCESS then Some (1, [], w) else
      let (res, w) = helper_fs_start_enum api sess_p e TEE_STORAGE_PRIVATE w
      in if res \<noteq> TEEC_SUCCESS then Some (1, [], w)
      else do {
        (printed, w) \<leftarrow> print_files api sess_p e (replicate 200 0) (replicate 200 0) w;
        let (res, w) = helper_fs_free_enum api sess_p e w;
        if res \<noteq> TEEC_SUCCESS then Some (1, printed, w)
        else
          let (status, w) = unlink_files api sess_p hs w
          in if status \<noteq> 0 then Some (status, printed, w)
             else Some (0, printed, TEEC_FinalizeContext api ctx_p w)
      })"

section \<open>What the Core API documents of an enumeration\<close>

text \<open>
  Beside the objects, \<open>pending m oe\<close> holds the names that an enumerator has still to yield, at first those
  of all objects in some order.  Starting one on a storage without objects reports that there is none.
\<close>

definition listing_laws ::
  "('m, 'z) storage_api_scheme \<Rightarrow> uint32 \<Rightarrow> ('m \<Rightarrow> u8 list \<Rightarrow> u8 list option) \<Rightarrow> ('m \<Rightarrow> size_t \<Rightarrow> (u8 list \<times> uint32) option) \<Rightarrow>
     ('m \<Rightarrow> size_t \<Rightarrow> u8 list list option) \<Rightarrow> bool" where
  "listing_laws api stor files open_at pending \<longleftrightarrow>
     (\<forall>m. \<exists>oe m'. TEE_AllocatePersistentObjectEnumerator api m = (TEE_SUCCESS, oe, m') \<and> oe < 2 ^ 32 \<and>
        files m' = files m \<and> open_at m' = open_at m) \<and>
     (\<forall>oe m. finite (dom (files m)) \<longrightarrow> (\<exists>ns m'. TEE_StartPersistentObjectEnumerator api oe stor m =
          (if files m = Map.empty then TEE_ERROR_ITEM_NOT_FOUND else TEE_SUCCESS, m') \<and>
        (files m \<noteq> Map.empty \<longrightarrow> pending m' oe = Some ns \<and> distinct ns \<and> set ns = dom (files m)) \<and>
        files m' = files m \<and> open_at m' = open_at m)) \<and>
     (\<forall>oe ob buf n m. pending m oe = Some [] \<longrightarrow> (\<exists>res info name k m'. TEE_GetNextPersistentObject api oe ob buf n m = (res, info, name, k, m') \<and>
        res \<noteq> TEE_SUCCESS \<and> files m' = files m \<and> open_at m' = open_at m)) \<and>
     (\<forall>oe ob buf n m x xs. pending m oe = Some (x # xs) \<and> 64 \<le> length buf \<and> length x \<le> 64 \<longrightarrow>
        (\<exists>info m'. TEE_GetNextPersistentObject api oe (Some ob) buf n m = (TEE_SUCCESS, info, x @ drop (length x) buf, of_nat (length x), m') \<and>
          length info = length ob \<and> pending m' oe = Some xs \<and> files m' = files m \<and> open_at m' = open_at m)) \<and>
     (\<forall>oe m. files (TEE_FreePersistentObjectEnumerator api oe m) = files m \<and> open_at (TEE_FreePersistentObjectEnumerator api oe m) = open_at m)"

lemma listing_steps:
  assumes "listing_laws api stor files open_at pending"
  shows "\<exists>oe m'. TEE_AllocatePersistentObjectEnumerator api m = (TEE_SUCCESS, oe, m') \<and> oe < 2 ^ 32 \<and> files m' = files m \<and> open_at m' = open_at m"
    "pending m oe = Some [] \<Longrightarrow> \<exists>res info name k m'. TEE_GetNextPersistentObject api oe ob' buf n m = (res, info, name, k, m') \<and>
        res \<noteq> TEE_SUCCESS \<and> files m' = files m \<and> open_at m' = open_at m"
    "pending m oe = Some (x # xs) \<Longrightarrow> 64 \<le> length buf \<Longrightarrow> length x \<le> 64 \<Longrightarrow>
      \<exists>info m'. TEE_GetNextPersistentObject api oe (Some ob) buf n m = (TEE_SUCCESS, info, x @ drop (length x) buf, of_nat (length x), m') \<and>
          length info = length ob \<and> pending m' oe = Some xs \<and> files m' = files m \<and> open_at m' = open_at m"
    "files (TEE_FreePersistentObjectEnumerator api oe m) = files m \<and> open_at (TEE_FreePersistentObjectEnumerator api oe m) = open_at m"
  using assms by (simp_all add: listing_laws_def)

lemma listing_start:
  assumes "listing_laws api stor files open_at pending" "finite (dom (files m))" "files m \<noteq> Map.empty"
  shows "\<exists>ns m'. TEE_StartPersistentObjectEnumerator api oe stor m = (TEE_SUCCESS, m') \<and>
    pending m' oe = Some ns \<and> distinct ns \<and> set ns = dom (files m) \<and> files m' = files m \<and> open_at m' = open_at m"
proof -
  have "\<forall>oe m. finite (dom (files m)) \<longrightarrow> (\<exists>ns m'. TEE_StartPersistentObjectEnumerator api oe stor m =
          (if files m = Map.empty then TEE_ERROR_ITEM_NOT_FOUND else TEE_SUCCESS, m') \<and>
        (files m \<noteq> Map.empty \<longrightarrow> pending m' oe = Some ns \<and> distinct ns \<and> set ns = dom (files m)) \<and>
        files m' = files m \<and> open_at m' = open_at m)"
    using assms(1) unfolding listing_laws_def by (elim conjE)
  from this [rule_format, OF assms(2), of oe] assms(3) show ?thesis by auto
qed

section \<open>The calls of the client\<close>

lemma enum_dispatch:
  "storage_invoke sapi TA_STORAGE_CMD_ALLOC_ENUM t ps m = Some (ta_storage_cmd_alloc_enum sapi t ps m)"
  "storage_invoke sapi TA_STORAGE_CMD_START_ENUM t ps m = Some (ta_storage_cmd_start_enum sapi t ps m)"
  "storage_invoke sapi TA_STORAGE_CMD_NEXT_ENUM t ps m = Some (ta_storage_cmd_next_enum sapi t ps m)"
  "storage_invoke sapi TA_STORAGE_CMD_FREE_ENUM t ps m = Some (ta_storage_cmd_free_enum sapi t ps m)"
  by (simp_all add: storage_invoke_def storage_cmd_defs)

lemma alloc_enum_served:
  assumes s: "teec_serves_at api sess ta shm (storage_invoke sapi) w"
    and o: "TEE_AllocatePersistentObjectEnumerator sapi (ta w) = (TEE_SUCCESS, oe, m)"
  shows "\<exists>w'. helper_fs_alloc_enum api sess e w = (TEE_SUCCESS, ucast oe, w') \<and> ta w' = m"
  using op_served_at [OF s, where op = "empty_op" and ?t0.0 = PT_VALUE_OUTPUT and ?t1.0 = PT_NONE
      and ?t2.0 = PT_NONE and ?t3.0 = PT_NONE and cmd = TA_STORAGE_CMD_ALLOC_ENUM] o
  by (auto simp: fs_unfold helper_fs_alloc_enum_def fs_alloc_enum_def enum_dispatch ta_storage_cmd_alloc_enum_def)

lemma start_enum_served:
  assumes s: "teec_serves_at api sess ta shm (storage_invoke sapi) w"
    and o: "TEE_StartPersistentObjectEnumerator sapi (ucast e) stor (ta w) = (res, m)"
  shows "\<exists>w'. helper_fs_start_enum api sess e stor w = (res, w') \<and> ta w' = m"
  using op_served_at [OF s, where op = "empty_op\<lparr>op0 := op_value e stor\<rparr>" and ?t0.0 = PT_VALUE_INPUT and ?t1.0 = PT_NONE
      and ?t2.0 = PT_NONE and ?t3.0 = PT_NONE and cmd = TA_STORAGE_CMD_START_ENUM] o
  by (auto simp: fs_unfold helper_fs_start_enum_def fs_start_enum_def value_call_def enum_dispatch ta_storage_cmd_start_enum_def
      value_types_def STORAGE_VAL2HANDLE_def)

lemma free_enum_served:
  assumes s: "teec_serves_at api sess ta shm (storage_invoke sapi) w"
  shows "\<exists>w'. helper_fs_free_enum api sess e w = (TEE_SUCCESS, w') \<and> ta w' = TEE_FreePersistentObjectEnumerator sapi (ucast e) (ta w)"
  using op_served_at [OF s, where op = "empty_op\<lparr>op0 := op_value e 0\<rparr>" and ?t0.0 = PT_VALUE_INPUT and ?t1.0 = PT_NONE
      and ?t2.0 = PT_NONE and ?t3.0 = PT_NONE and cmd = TA_STORAGE_CMD_FREE_ENUM]
  by (auto simp: fs_unfold helper_fs_free_enum_def fs_free_enum_def value_call_def enum_dispatch ta_storage_cmd_free_enum_def
      value_types_def STORAGE_VAL2HANDLE_def)

lemma next_enum_served:
  assumes s: "teec_serves_at api sess ta shm (storage_invoke sapi) w" and len: "length info = 200" "length name = 200"
    and o: "TEE_GetNextPersistentObject sapi (ucast e) (Some (shm w 200)) (shm w 200) 200 (ta w) = (res, info', name', n, m)"
  shows "\<exists>w' info1 name1 size1 n1. helper_fs_next_enum api sess e (Some info) 200 name 200 w = (res, Some info1, size1, name1, n1, w') \<and> ta w' = m \<and>
    (length info' = 200 \<longrightarrow> length info1 = 200 \<and> size1 = 28) \<and>
    (res = TEE_SUCCESS \<longrightarrow> n1 = n \<and> (unat n \<le> 200 \<longrightarrow> name1 = take (unat n) name' @ drop (unat n) name))"
proof -
  define sz :: uint32 where "sz = 200"
  have i: "200 = (ucast sz :: size_t)" "(200 :: uint32) = sz" by (simp_all add: sz_def)
  have u [simp]: "unat sz = 200" by (simp add: sz_def)
  note served = op_served_at [OF s, where op = "empty_op\<lparr>op0 := op_value e 0, op1 := op_tmpref info (ucast sz), op2 := op_tmpref name (ucast sz)\<rparr>"
      and ?t0.0 = PT_VALUE_INPUT and ?t1.0 = PT_MEMREF_OUTPUT and ?t2.0 = PT_MEMREF_OUTPUT and ?t3.0 = PT_NONE
      and cmd = TA_STORAGE_CMD_NEXT_ENUM]
  have run: "storage_invoke sapi TA_STORAGE_CMD_NEXT_ENUM (TEE_PARAM_TYPES PT_VALUE_INPUT PT_MEMREF_OUTPUT PT_MEMREF_OUTPUT PT_NONE)
      \<lparr>p0 = zero_param\<lparr>val_a := e, val_b := 0\<rparr>, p1 = zero_param\<lparr>mbuf := shm w 200, msize := sz\<rparr>,
        p2 = zero_param\<lparr>mbuf := shm w 200, msize := sz\<rparr>, p3 = zero_param\<rparr> (ta w) =
    Some (res, \<lparr>p0 = zero_param\<lparr>val_a := e, val_b := 0\<rparr>, p1 = zero_param\<lparr>mbuf := info', msize := 28\<rparr>,
        p2 = zero_param\<lparr>mbuf := name', msize := n\<rparr>, p3 = zero_param\<rparr>, m)"
    using o by (simp add: sz_def enum_dispatch ta_storage_cmd_next_enum_def param_types_get sizeof_object_info_def TEE_OBJECT_ID_MAX_LEN_def
        STORAGE_VAL2HANDLE_def Let_def del: One_nat_def)
      (simp add: param_type_defs)
  obtain org w' where i1: "TEEC_InvokeCommand api sess TA_STORAGE_CMD_NEXT_ENUM
      (TEE_PARAM_TYPES PT_VALUE_INPUT PT_MEMREF_OUTPUT PT_MEMREF_OUTPUT PT_NONE)
      (empty_op\<lparr>op0 := op_value e 0, op1 := op_tmpref info (ucast sz), op2 := op_tmpref name (ucast sz)\<rparr>) w =
    (res, org, \<lparr>op0 = op_value e 0,
      op1 = from_ta PT_MEMREF_OUTPUT (op_tmpref info (ucast sz)) (zero_param\<lparr>mbuf := info', msize := 28\<rparr>),
      op2 = from_ta PT_MEMREF_OUTPUT (op_tmpref name (ucast sz)) (zero_param\<lparr>mbuf := name', msize := n\<rparr>), op3 = no_param\<rparr>, w')"
    "ta w' = m"
    using served [of res "\<lparr>p0 = zero_param\<lparr>val_a := e, val_b := 0\<rparr>, p1 = zero_param\<lparr>mbuf := info', msize := 28\<rparr>,
        p2 = zero_param\<lparr>mbuf := name', msize := n\<rparr>, p3 = zero_param\<rparr>" m] run len
    by (auto simp: op_ok_def empty_op_def)
  show ?thesis
    using i1 len unfolding i helper_fs_next_enum_def
    by (simp add: next_types fs_unfold word_le_nat_alt)
qed

text \<open>The rest keeps the books.\<close>

lemma helper_calls_keep_books:
  assumes l: "conn_laws api books"
  shows "helper_fs_create api s oid n flags attr data k obj stor w = (res, h, w1) \<Longrightarrow> books w1 = books w"
    and "helper_fs_unlink api s obj w = (res, w1) \<Longrightarrow> books w1 = books w"
    and "helper_fs_alloc_enum api s e w = (res, e', w1) \<Longrightarrow> books w1 = books w"
    and "helper_fs_start_enum api s e stor w = (res, w1) \<Longrightarrow> books w1 = books w"
    and "helper_fs_free_enum api s e w = (res, w1) \<Longrightarrow> books w1 = books w"
    and "helper_fs_next_enum api s e info nn name k w = (res, info', n', name', k', w1) \<Longrightarrow> books w1 = books w"
  by (auto simp: helper_fs_create_def helper_fs_unlink_def helper_fs_alloc_enum_def helper_fs_start_enum_def helper_fs_free_enum_def
      helper_fs_next_enum_def fs_create_def fs_unlink_def fs_alloc_enum_def fs_start_enum_def fs_free_enum_def value_call_def Let_def
      dest: conn_invoke [OF l] split: prod.splits)

section \<open>The loops\<close>

lemma print_files_list:
  assumes l: "conn_laws api books" and s: "tee_serves api books storage_uuid ta shm (storage_invoke sapi)"
    and o: "listing_laws sapi stor files open_at pending"
  shows "pending (ta w) (ucast e) = Some ids \<Longrightarrow> \<forall>x \<in> set ids. length x \<le> 64 \<Longrightarrow> sessions (books w) sess = Some storage_uuid \<Longrightarrow>
      length info = 200 \<Longrightarrow> length name = 200 \<Longrightarrow>
    \<exists>printed w'. print_files api sess e info name w = Some (printed, w') \<and> map fst printed = ids \<and>
      books w' = books w \<and> files (ta w') = files (ta w) \<and> open_at (ta w') = open_at (ta w)"
proof (induction ids arbitrary: w info name)
  case Nil
  have at: "teec_serves_at api sess ta shm (storage_invoke sapi) w" using s Nil(3) by (simp add: tee_serves_def)
  obtain res info' name' n m where g: "TEE_GetNextPersistentObject sapi (ucast e) (Some (shm w 200)) (shm w 200) 200 (ta w) =
      (res, info', name', n, m)" "res \<noteq> TEE_SUCCESS" "files m = files (ta w)" "open_at m = open_at (ta w)"
    using listing_steps(2) [OF o Nil(1), of "Some (shm w 200)" "shm w 200" 200] by blast
  obtain w' info1 name1 size1 n1 where x: "helper_fs_next_enum api sess e (Some info) 200 name 200 w = (res, Some info1, size1, name1, n1, w')" "ta w' = m"
    using next_enum_served [OF at Nil(4,5) g(1)] by blast
  have "books w' = books w" by (rule helper_calls_keep_books(6) [OF l x(1)])
  then show ?case using x g by (subst print_files.simps) (simp add: TEEC_SUCCESS_def TEE_SUCCESS_def)
next
  case (Cons i ids)
  have at: "teec_serves_at api sess ta shm (storage_invoke sapi) w" using s Cons(4) by (simp add: tee_serves_def)
  have len: "length (shm w 200) = 200" "length i \<le> 64" using at Cons(3) by (simp_all add: teec_serves_at_def)
  then have u: "unat (of_nat (length i) :: uint32) = length i" by (intro unat_of_nat32) simp
  obtain info' m where g: "TEE_GetNextPersistentObject sapi (ucast e) (Some (shm w 200)) (shm w 200) 200 (ta w) =
      (TEE_SUCCESS, info', i @ drop (length i) (shm w 200), of_nat (length i), m)" "length info' = 200"
      "pending m (ucast e) = Some ids" "files m = files (ta w)" "open_at m = open_at (ta w)"
    using listing_steps(3) [OF o Cons(2), of "shm w 200" "shm w 200" 200] len by auto
  obtain w' info1 name1 where x: "helper_fs_next_enum api sess e (Some info) 200 name 200 w = (TEE_SUCCESS, Some info1, 28, name1, of_nat (length i), w')"
      "ta w' = m" "length info1 = 200" "name1 = i @ drop (length i) name"
    using next_enum_served [OF at Cons(5,6) g(1)] g(2) len u by auto
  have b: "books w' = books w" by (rule helper_calls_keep_books(6) [OF l x(1)])
  have n: "length name1 = 200" "take (length i) name1 = i" using x(4) len(2) Cons(6) by simp_all
  obtain printed w2 where r: "print_files api sess e info1 name1 w' = Some (printed, w2)" "map fst printed = ids"
      "books w2 = books w'" "files (ta w2) = files (ta w')" "open_at (ta w2) = open_at (ta w')"
    using Cons.IH [of w' info1 name1] g x b n Cons.prems(2,3) by auto
  have "length i \<le> length name1" "unat (28 :: size_t) \<le> length info1" using len(2) n(1) x(3) by simp_all
  then have "print_files api sess e info name w = Some ((i, take 28 info1) # printed, w2)"
    by (subst print_files.simps) (simp add: x(1) r(1) u n(2) TEEC_SUCCESS_def TEE_SUCCESS_def)
  then show ?case using r b g x(2) by simp
qed

text \<open>What the loops over the names add to the open handles, under the handles \<open>hs\<close>\<close>

definition handles_of :: "uint32 list \<Rightarrow> u8 list list \<Rightarrow> size_t \<Rightarrow> (u8 list \<times> uint32) option" where
  "handles_of hs fs = map_of (zip (map ucast hs) (map (\<lambda>f. (f, enum_flags)) fs))"

definition contents_of :: "u8 list list \<Rightarrow> u8 list \<Rightarrow> u8 list option" where
  "contents_of fs = map_of (map (\<lambda>f. (f, object_data)) fs)"

lemma handles_of_Cons: "handles_of (h # hs) (f # fs) = (handles_of hs fs)(ucast h \<mapsto> (f, enum_flags))"
  by (simp add: handles_of_def)

lemma contents_of_Cons: "contents_of (f # fs) = (contents_of fs)(f \<mapsto> object_data)"
  by (simp add: contents_of_def)

lemma add_upd_fresh: "x \<notin> dom B \<Longrightarrow> (A(x \<mapsto> y)) ++ B = (A ++ B)(x \<mapsto> y)"
  by (rule ext) (auto simp: map_add_def split: option.splits)

lemma dom_handles_of: "length hs = length fs \<Longrightarrow> dom (handles_of hs fs) = ucast ` set hs"
  by (simp add: handles_of_def dom_map_of_zip)

lemma dom_contents_of: "dom (contents_of fs) = set fs"
  by (simp add: contents_of_def dom_map_of_conv_image_fst image_image)

lemma create_files_made:
  assumes l: "conn_laws api books" and s: "tee_serves api books storage_uuid ta shm (storage_invoke sapi)"
    and o: "object_laws sapi TEE_STORAGE_PRIVATE files open_at"
  shows "length objs = length fs \<Longrightarrow> sessions (books w) sess = Some storage_uuid \<Longrightarrow> distinct fs \<Longrightarrow> set fs \<inter> dom (files (ta w)) = {} \<Longrightarrow>
      \<forall>f \<in> set fs. length f < 2 ^ 32 \<Longrightarrow> finite (dom (open_at (ta w))) \<Longrightarrow> card (dom (open_at (ta w))) + length fs \<le> 2 ^ 31 \<Longrightarrow>
    \<exists>hs w'. create_files api sess (zip fs objs) w = (0, hs, w') \<and> books w' = books w \<and> length hs = length fs \<and>
      distinct (map (ucast :: uint32 \<Rightarrow> size_t) hs) \<and> ucast ` set hs \<inter> dom (open_at (ta w)) = {} \<and>
      files (ta w') = files (ta w) ++ contents_of fs \<and> open_at (ta w') = open_at (ta w) ++ handles_of hs fs"
proof (induction fs arbitrary: w objs)
  case Nil
  then show ?case by (simp add: handles_of_def contents_of_def)
next
  case (Cons f fs)
  then obtain obj objs' where objs: "objs = obj # objs'" "length objs' = length fs" by (cases objs) auto
  have at: "teec_serves_at api (session (sess_oc sess)) ta shm (storage_invoke sapi) w" using s Cons.prems(2) by (simp add: tee_serves_def)
  have hl: "handles_left (open_at (ta w))" using Cons.prems(6,7) by (simp add: handles_left_def)
  have n: "length object_data = 8" by (simp add: object_data_def)
  obtain h w1 where 1: "fs_create api (sess_oc sess) f (of_nat (length f)) enum_flags 0 object_data 8 obj TEE_STORAGE_PRIVATE w = (TEE_SUCCESS, h, w1)"
    "open_at (ta w) (ucast h) = None" "files (ta w1) = (files (ta w))(f \<mapsto> object_data)" "open_at (ta w1) = (open_at (ta w))(ucast h \<mapsto> (f, enum_flags))"
    using object_created [OF at o hl, of f object_data enum_flags obj] Cons.prems(4,5) n by auto
  have b: "books w1 = books w" by (rule fs_calls_keep_books(1) [OF l 1(1)])
  have dom: "dom (open_at (ta w1)) = insert (ucast h) (dom (open_at (ta w)))" "dom (files (ta w1)) = insert f (dom (files (ta w)))"
    by (simp_all add: 1(3,4))
  have "card (dom (open_at (ta w1))) + length fs \<le> 2 ^ 31"
    using Cons.prems(6,7) 1(2) by (simp add: dom card_insert_if domIff)
  then obtain hs w2 where 2: "create_files api sess (zip fs objs') w1 = (0, hs, w2)" "books w2 = books w1" "length hs = length fs"
      "distinct (map (ucast :: uint32 \<Rightarrow> size_t) hs)" "ucast ` set hs \<inter> dom (open_at (ta w1)) = {}"
      "files (ta w2) = files (ta w1) ++ contents_of fs" "open_at (ta w2) = open_at (ta w1) ++ handles_of hs fs"
    using Cons.IH [OF objs(2), of w1] Cons.prems b dom by auto
  have h: "ucast h \<notin> dom (handles_of hs fs)" "f \<notin> dom (contents_of fs)"
    using 2(3,5) dom Cons.prems(3) by (auto simp: dom_handles_of dom_contents_of)
  have "files (ta w2) = files (ta w) ++ contents_of (f # fs)" "open_at (ta w2) = open_at (ta w) ++ handles_of (h # hs) (f # fs)"
    using 2(6,7) 1(3,4) h by (simp_all add: add_upd_fresh handles_of_Cons contents_of_Cons)
  moreover have "ucast h \<notin> (ucast ` set hs :: size_t set)" using 2(5) dom by auto
  ultimately show ?case
    using 1(1,2) 2 b dom by (simp add: objs helper_fs_create_def TEEC_SUCCESS_def TEE_SUCCESS_def domIff)
qed

lemma unlink_files_gone:
  assumes l: "conn_laws api books" and s: "tee_serves api books storage_uuid ta shm (storage_invoke sapi)"
    and o: "object_laws sapi TEE_STORAGE_PRIVATE files open_at"
  shows "length hs = length fs \<Longrightarrow> sessions (books w) sess = Some storage_uuid \<Longrightarrow> distinct fs \<Longrightarrow> set fs \<inter> dom F = {} \<Longrightarrow>
      distinct (map (ucast :: uint32 \<Rightarrow> size_t) hs) \<Longrightarrow> ucast ` set hs \<inter> dom B = {} \<Longrightarrow>
      files (ta w) = F ++ contents_of fs \<Longrightarrow> open_at (ta w) = B ++ handles_of hs fs \<Longrightarrow>
    \<exists>w'. unlink_files api sess hs w = (0, w') \<and> books w' = books w \<and> files (ta w') = F \<and> open_at (ta w') = B"
proof (induction hs fs arbitrary: w rule: list_induct2')
  case 1
  then show ?case by (simp add: handles_of_def contents_of_def)
next
  case (4 h hs f fs)
  have at: "teec_serves_at api (session (sess_oc sess)) ta shm (storage_invoke sapi) w" using s 4(3) by (simp add: tee_serves_def)
  obtain w1 where 1: "fs_unlink api (sess_oc sess) h w = (TEE_SUCCESS, w1)" "ta w1 = snd (TEE_CloseAndDeletePersistentObject1 sapi (ucast h) (ta w))"
    using fs_unlink_served [OF at] by blast
  have b: "books w1 = books w" by (rule fs_calls_keep_books(4) [OF l 1(1)])
  have "open_at (ta w) (ucast h) = Some (f, enum_flags)" by (simp add: 4(9) handles_of_Cons)
  then have g: "files (ta w1) = (files (ta w))(f := None)" "open_at (ta w1) = (open_at (ta w))(ucast h := None)"
    using object_deleted [OF o, of "ta w" "ucast h" f enum_flags]
    by (simp_all add: 1(2) enum_flags_def TEE_DATA_FLAG_ACCESS_WRITE_META_def TEE_DATA_FLAG_ACCESS_WRITE_def)
  have n: "F f = None" "contents_of fs f = None" "B (ucast h) = None" "handles_of hs fs (ucast h) = None"
    using 4(2,4-7) dom_contents_of [of fs] dom_handles_of [of hs fs] by (auto simp: domIff)
  have "files (ta w1) = F ++ contents_of fs" "open_at (ta w1) = B ++ handles_of hs fs"
    using n by (auto simp: g 4(8,9) handles_of_Cons contents_of_Cons map_add_def fun_eq_iff split: option.splits)
  then obtain w2 where "unlink_files api sess hs w1 = (0, w2)" "books w2 = books w1" "files (ta w2) = F" "open_at (ta w2) = B"
    using 4(1) [of w1] 4(2-7) b by auto
  then show ?case using 1(1) b by (simp add: helper_fs_unlink_def TEEC_SUCCESS_def TEE_SUCCESS_def)
qed simp_all

section \<open>The program as a whole\<close>

lemma enum_names_facts: "distinct enum_names" "length enum_names = 3" "\<forall>f \<in> set enum_names. length f < 2 ^ 32" "\<forall>f \<in> set enum_names. length f \<le> 64"
  by (simp_all add: enum_names_def)

text \<open>From the creation of the objects to their deletion, on an open session\<close>

lemma enum_session:
  assumes l: "conn_laws api books" and s: "tee_serves api books storage_uuid ta shm (storage_invoke sapi)"
    and o: "object_laws sapi TEE_STORAGE_PRIVATE files open_at" and y: "listing_laws sapi TEE_STORAGE_PRIVATE files open_at pending"
    and c: "sessions (books w) sess = Some storage_uuid" and objs: "length objs = 3"
    and f: "finite (dom (files (ta w)))" "\<forall>x \<in> dom (files (ta w)). length x \<le> 64" "set enum_names \<inter> dom (files (ta w)) = {}"
    and h: "finite (dom (open_at (ta w)))" "card (dom (open_at (ta w))) + 3 \<le> 2 ^ 31"
  shows "\<exists>hs w1 e w2 w3 printed w4 w5 w6.
    create_files api sess (zip enum_names objs) w = (0, hs, w1) \<and> helper_fs_alloc_enum api sess 0 w1 = (TEEC_SUCCESS, e, w2) \<and>
    helper_fs_start_enum api sess e TEE_STORAGE_PRIVATE w2 = (TEEC_SUCCESS, w3) \<and>
    print_files api sess e (replicate 200 0) (replicate 200 0) w3 = Some (printed, w4) \<and>
    helper_fs_free_enum api sess e w4 = (TEEC_SUCCESS, w5) \<and> unlink_files api sess hs w5 = (0, w6) \<and>
    distinct (map fst printed) \<and> set (map fst printed) = dom (files (ta w)) \<union> set enum_names \<and>
    books w6 = books w \<and> files (ta w6) = files (ta w) \<and> open_at (ta w6) = open_at (ta w)"
proof -
  have at: "teec_serves_at api sess ta shm (storage_invoke sapi) v" if "books v = books w" for v
    using s c that by (simp add: tee_serves_def)
  let ?F = "files (ta w) ++ contents_of enum_names"
  obtain hs w1 where 1: "create_files api sess (zip enum_names objs) w = (0, hs, w1)" "books w1 = books w" "length hs = length enum_names"
    "distinct (map (ucast :: uint32 \<Rightarrow> size_t) hs)" "ucast ` set hs \<inter> dom (open_at (ta w)) = {}"
    "files (ta w1) = ?F" "open_at (ta w1) = open_at (ta w) ++ handles_of hs enum_names"
    using create_files_made [OF l s o, of objs enum_names w sess] objs c f(3) h enum_names_facts by auto
  obtain oe m2 where 2: "TEE_AllocatePersistentObjectEnumerator sapi (ta w1) = (TEE_SUCCESS, oe, m2)" "oe < 2 ^ 32"
    "files m2 = files (ta w1)" "open_at m2 = open_at (ta w1)" using listing_steps(1) [OF y] by blast
  define e where "e = (ucast oe :: uint32)"
  have e: "ucast e = oe" using ucast_up_down [OF 2(2)] by (simp add: e_def)
  obtain w2 where w2: "helper_fs_alloc_enum api sess 0 w1 = (TEE_SUCCESS, e, w2)" "ta w2 = m2"
    using alloc_enum_served [OF at [OF 1(2)] 2(1), of 0] by (auto simp: e_def)
  have b2: "books w2 = books w" using helper_calls_keep_books(3) [OF l w2(1)] 1(2) by simp
  have dom: "dom ?F = dom (files (ta w)) \<union> set enum_names" by (auto simp: dom_contents_of)
  then have fin: "finite (dom (files (ta w2)))" "files (ta w2) \<noteq> Map.empty"
    using f(1) enum_names_facts(2) by (auto simp: w2(2) 2(3) 1(6))
  then obtain ns m3 where 3: "TEE_StartPersistentObjectEnumerator sapi (ucast e) TEE_STORAGE_PRIVATE (ta w2) = (TEE_SUCCESS, m3)"
    "pending m3 (ucast e) = Some ns" "distinct ns" "set ns = dom (files (ta w2))" "files m3 = files (ta w2)" "open_at m3 = open_at (ta w2)"
    using listing_start [OF y fin] by blast
  obtain w3 where w3: "helper_fs_start_enum api sess e TEE_STORAGE_PRIVATE w2 = (TEE_SUCCESS, w3)" "ta w3 = m3"
    using start_enum_served [OF at [OF b2] 3(1)] by blast
  have b3: "books w3 = books w" using helper_calls_keep_books(4) [OF l w3(1)] b2 by simp
  have ns: "set ns = dom (files (ta w)) \<union> set enum_names" using 3(4) dom by (simp add: w2(2) 2(3) 1(6))
  then have "\<forall>x \<in> set ns. length x \<le> 64" using f(2) enum_names_facts(4) by auto
  then obtain printed w4 where 4: "print_files api sess e (replicate 200 0) (replicate 200 0) w3 = Some (printed, w4)" "map fst printed = ns"
    "books w4 = books w3" "files (ta w4) = files (ta w3)" "open_at (ta w4) = open_at (ta w3)"
    using print_files_list [OF l s y, of w3 e ns sess "replicate 200 0" "replicate 200 0"] 3(2) b3 c by (auto simp: w3(2))
  obtain w5 where 5: "helper_fs_free_enum api sess e w4 = (TEE_SUCCESS, w5)" "ta w5 = TEE_FreePersistentObjectEnumerator sapi (ucast e) (ta w4)"
    using free_enum_served [OF at [of w4]] 4(3) b3 by auto
  have b5: "books w5 = books w" using helper_calls_keep_books(5) [OF l 5(1)] 4(3) b3 by simp
  have g: "files (ta w5) = ?F" "open_at (ta w5) = open_at (ta w) ++ handles_of hs enum_names"
    using listing_steps(4) [OF y] by (simp_all add: 5(2) 4(4,5) w3(2) 3(5,6) w2(2) 2(3,4) 1(6,7))
  obtain w6 where 6: "unlink_files api sess hs w5 = (0, w6)" "books w6 = books w5" "files (ta w6) = files (ta w)" "open_at (ta w6) = open_at (ta w)"
    using unlink_files_gone [OF l s o 1(3) _ enum_names_facts(1) f(3) 1(4,5) g] c b5 by auto
  have ok: "TEE_SUCCESS = TEEC_SUCCESS" by (simp add: TEEC_SUCCESS_def TEE_SUCCESS_def)
  have "distinct (map fst printed)" "set (map fst printed) = dom (files (ta w)) \<union> set enum_names" "books w6 = books w"
    using 4(2) 3(3) ns 6(2) b5 by simp_all
  then show ?thesis
    using 1(1) w2(1) [unfolded ok] w3(1) [unfolded ok] 4(1) 5(1) [unfolded ok] 6(1,3,4) by blast
qed

text \<open>
  C13.  On a storage that holds none of its three names, no name of more than 64 bytes and room for three more
  handles, the program ends with status 0 and prints the name of every object of the storage exactly once,
  its own three among them.  It deletes what it created and reads only what was handed back to it; its
  session stays open.
\<close>
theorem enum_files_lists:
  assumes l: "conn_laws api books" and s: "tee_serves api books storage_uuid ta shm (storage_invoke sapi)"
    and o: "object_laws sapi TEE_STORAGE_PRIVATE files open_at" and y: "listing_laws sapi TEE_STORAGE_PRIVATE files open_at pending"
    and r: "tee_reached api books storage_uuid (\<lambda>w. (files (ta w), open_at (ta w)))"
    and f: "finite (dom (files (ta w)))" "\<forall>x \<in> dom (files (ta w)). length x \<le> 64" "set enum_names \<inter> dom (files (ta w)) = {}"
    and h: "finite (dom (open_at (ta w)))" "card (dom (open_at (ta w))) + 3 \<le> 2 ^ 31"
    and p: "ctx_p \<noteq> 0" "sess_p \<noteq> 0" "ctx_p \<notin> contexts (books w)" "length objs = 3"
  shows "\<exists>printed w'. enum_files api ctx_p sess_p objs w = Some (0, printed, w') \<and>
    distinct (map fst printed) \<and> set (map fst printed) = dom (files (ta w)) \<union> set enum_names \<and>
    files (ta w') = files (ta w) \<and> open_at (ta w') = open_at (ta w) \<and>
    books w' = (books w)\<lparr>sessions := (sessions (books w))(sess_p \<mapsto> storage_uuid)\<rparr>"
proof -
  obtain w1 where 1: "TEEC_InitializeContext api None ctx_p w = (TEEC_SUCCESS, w1)"
    using reached_opens(2) [OF r p(1), of w] by (cases "TEEC_InitializeContext api None ctx_p w") simp
  obtain err w2 where 2: "TEEC_OpenSession api ctx_p sess_p storage_uuid TEEC_LOGIN_PUBLIC None None w1 = (TEEC_SUCCESS, err, w2)"
    using reached_opens(3) [OF r p(2), of ctx_p w1] by (cases "TEEC_OpenSession api ctx_p sess_p storage_uuid TEEC_LOGIN_PUBLIC None None w1") simp
  have v: "files (ta w2) = files (ta w)" "open_at (ta w2) = open_at (ta w)"
    using reached_view(3) [OF r, of ctx_p w] reached_view(5) [OF r, of ctx_p sess_p w1] 1 2 by simp_all
  have b: "books w2 = (books w)\<lparr>contexts := insert ctx_p (contexts (books w)), sessions := (sessions (books w))(sess_p \<mapsto> storage_uuid)\<rparr>"
    using conn_initialize [OF l 1] conn_open [OF l 2] by simp
  have c: "sessions (books w2) sess_p = Some storage_uuid" by (simp add: b)
  have i: "insert ctx_p (contexts (books w)) - {ctx_p} = contexts (books w)" using p(3) by auto
  show ?thesis
    using enum_session [OF l s o y c p(4)] f h 1 2 i reached_view(4) [OF r] conn_ends(2) [OF l]
    by (auto simp: v b enum_files_def)
qed

section \<open>A storage for the witness\<close>

text \<open>The files, the open handles, and what each enumerator has still to yield; the only enumerator is 9.\<close>

type_synonym demo_list = "(u8 list \<times> u8 list) list \<times> (size_t \<times> u8 list \<times> uint32) list \<times> u8 list list"

definition list_slot :: "u8 list \<Rightarrow> uint32 \<Rightarrow> demo_list \<Rightarrow> TEE_Result \<times> size_t \<times> demo_list" where
  "list_slot name flags m =
     (let h = first_free (map fst (fst (snd m))) in (TEE_SUCCESS, h, (fst m, (h, name, flags) # fst (snd m), snd (snd m))))"

definition demo_listing :: "demo_list storage_api" where
  "demo_listing = inert_storage\<lparr>
     TEE_OpenPersistentObject := \<lambda>_ name _ flags. list_slot name flags,
     TEE_CreatePersistentObject := \<lambda>_ name _ flags _ data _ _ m. list_slot name flags ((name, data) # fst m, snd m),
     TEE_CloseObject := \<lambda>h m. (fst m, without h (fst (snd m)), snd (snd m)),
     TEE_CloseAndDeletePersistentObject1 := \<lambda>h m. case map_of (fst (snd m)) h of
         None \<Rightarrow> (TEE_ERROR_GENERIC, m)
       | Some (name, _) \<Rightarrow> (TEE_SUCCESS, (without name (fst m), without h (fst (snd m)), snd (snd m))),
     TEE_AllocatePersistentObjectEnumerator := \<lambda>m. (TEE_SUCCESS, 9, m),
     TEE_FreePersistentObjectEnumerator := \<lambda>_ m. m,
     TEE_StartPersistentObjectEnumerator := \<lambda>_ _ m. (if fst m = [] then TEE_ERROR_ITEM_NOT_FOUND else TEE_SUCCESS, (fst m, fst (snd m), remdups (map fst (fst m)))),
     TEE_GetNextPersistentObject := \<lambda>_ info buf n m. case snd (snd m) of
         [] \<Rightarrow> (TEE_ERROR_ITEM_NOT_FOUND, (case info of None \<Rightarrow> [] | Some i \<Rightarrow> i), buf, n, m)
       | x # xs \<Rightarrow> (TEE_SUCCESS, (case info of None \<Rightarrow> [] | Some i \<Rightarrow> i), x @ drop (length x) buf, of_nat (length x), (fst m, fst (snd m), xs))\<rparr>"

lemma list_slot_fits:
  "handles_left (map_of hs) \<Longrightarrow> \<exists>h. list_slot name flags (fs, hs, es) = (TEE_SUCCESS, h, (fs, (h, name, flags) # hs, es)) \<and>
    h < 2 ^ 32 \<and> map_of hs h = None"
  using first_free_handle [of hs] by (simp add: list_slot_def Let_def)

lemma demo_listing_objects: "object_laws demo_listing stor (\<lambda>m. map_of (fst m)) (\<lambda>m. map_of (fst (snd m)))"
  unfolding object_laws_def
proof (intro conjI allI impI, goal_cases)
  case (6 m name n flags data k)
  then show ?case using list_slot_fits [of "fst (snd m)" name flags "(name, data) # fst m" "snd (snd m)"] by (cases m) (auto simp: demo_listing_def)
next
  case (7 m name n flags c)
  then show ?case using list_slot_fits [of "fst (snd m)" name flags "fst m" "snd (snd m)"] by (cases m) (auto simp: demo_listing_def)
qed (auto simp: demo_listing_def inert_storage_def split: option.splits prod.splits)

lemma demo_listing_laws: "listing_laws demo_listing stor (\<lambda>m. map_of (fst m)) (\<lambda>m. map_of (fst (snd m))) (\<lambda>m _. Some (snd (snd m)))"
  by (auto simp: listing_laws_def demo_listing_def inert_storage_def dom_map_of_conv_image_fst tee_results)

lemma enum_files_lists_witness:
  "\<exists>printed w'. enum_files (demo_conn (storage_invoke demo_listing)) 1 2 [0, 0, 0]
      \<lparr>d_blocks = [], d_contexts = [], d_sessions = [], d_ta = ([([7], [])], [], [])\<rparr> = Some (0, printed, w') \<and>
    distinct (map fst printed) \<and> set (map fst printed) = {[7]} \<union> set enum_names \<and> map_of (fst (d_ta w')) = [[7] \<mapsto> []]"
proof -
  let ?w = "\<lparr>d_blocks = [], d_contexts = [], d_sessions = [], d_ta = ([([7], [])], [], [])\<rparr> :: demo_list demo_host"
  have d: "dom (map_of (fst (d_ta ?w))) = {[7]}" by simp
  have "\<exists>printed w'. enum_files (demo_conn (storage_invoke demo_listing)) 1 2 [0, 0, 0] ?w = Some (0, printed, w') \<and>
    distinct (map fst printed) \<and> set (map fst printed) = dom (map_of (fst (d_ta ?w))) \<union> set enum_names \<and>
    map_of (fst (d_ta w')) = map_of (fst (d_ta ?w)) \<and> map_of (fst (snd (d_ta w'))) = map_of (fst (snd (d_ta ?w))) \<and>
    demo_books w' = (demo_books ?w)\<lparr>sessions := (sessions (demo_books ?w))(2 \<mapsto> storage_uuid)\<rparr>"
    by (rule enum_files_lists [OF demo_conn_laws demo_serves demo_listing_objects demo_listing_laws
        demo_reached [where view = "\<lambda>m. (map_of (fst m), map_of (fst (snd m)))"]]) (unfold d, simp_all add: demo_books_def enum_names_def)
  moreover have "map_of (fst (d_ta ?w)) = [[7] \<mapsto> []]" by simp
  ultimately show ?thesis using d by metis
qed

end
