(* ===== verification/Spec2Isabelle.thy ===== *)
theory Spec2Isabelle
  imports Aes_Correct Sha2_Correct Arith_Taf Cryp_Taf Crypt_Data Crypt_Pta Mbedtls_Taf Crypt_Entry Sims Sdp_Basic Perf_Tas Storage Concurrent Rpc_Ta Storage_Bench Fs_Client Key_Client Socket_Client Crypt_Client Os_Calls Os_Props Hello Enum_Files
begin

text \<open>
  A verification library for the OP-TEE 3.6 test programs of this repository: trusted applications
  (TAs) under \<open>src/ta\<close>, which run behind the GlobalPlatform Internal Core API, and client libraries
  under \<open>src/host\<close>, which drive them.  A client opens a session with a TA and invokes commands, each
  a number with the types of four parameters and the parameters themselves; a TA checks the types,
  works on the values and buffers, calls the Core API and answers with a result code.

  \<^bold>\<open>The parts of the program and their theories.\<close>

  \<^item> \<open>OT_Prelude\<close>: bounds checked arrays (\<open>ld\<close>, \<open>st\<close>), loops (\<open>foldM\<close>), blocks of buffers, packed words,
    with the rewriting the component proofs share.
  \<^item> \<open>Tee_Api\<close>, \<open>Ta_Env\<close>: result codes, parameter types, the four parameters; the heap, the access
    rights of memory and the sessions to other TAs, with the laws the API documents of them.
  \<^item> \<open>Ta_Contract\<close>: the contract of a set of commands, the locales \<open>command_set\<close> (every command keeps the
    books) and \<open>total_command_set\<close> (and returns), with the lemmas on sequences of commands; interpreted
    for the storage, key, cryptographic and OS test TAs.
  \<^item> \<open>Aes_Impl\<close> is \<open>src/ta/crypt/aes_impl.c\<close>, table by table and word by word; \<open>Aes_Spec\<close> is FIPS 197;
    \<open>Aes_Tables\<close>, \<open>Aes_Keys\<close> and \<open>Aes_Correct\<close> relate them (C1 to C4).
  \<^item> \<open>Sha2_Impl\<close> is \<open>src/ta/crypt/sha2_impl.c\<close>, \<open>Sha2_Spec\<close> is FIPS 180-4, \<open>Sha2_Correct\<close> relates them
    (C6 to C9); \<open>Sha2_Vector\<close> computes the digest of \<open>"abc"\<close> in the kernel.
  \<^item> \<open>Handle_Db\<close> is \<open>src/ta/crypt/handle.c\<close>, the table that turns pointers into numbers for the client
    (C11); \<open>Arith_Taf\<close> is \<open>arith_taf.c\<close>, the big number commands on top of it.  The contract between
    the two is the locale \<open>handle_table\<close>.
  \<^item> \<open>Attr_Codec\<close> is the wire format of attributes on both sides: \<open>pack_attrs\<close> of
    \<open>src/host/libcrypt/helpers.c\<close> and \<open>unpack_attrs\<close> of \<open>src/ta/crypt/cryp_taf.c\<close> (C17, C18).
  \<^item> \<open>Cryp_Taf\<close> is the rest of \<open>cryp_taf.c\<close>, 35 commands that drive operations and objects of the Core
    API (C20).
  \<^item> \<open>Crypt_Data\<close> is \<open>aes_taf.c\<close> and \<open>sha2_taf.c\<close>, the cipher and the digests on a client's buffers.
  \<^item> \<open>Crypt_Pta\<close> is \<open>seed_rng_taf.c\<close> and \<open>derive_key_taf.c\<close>, the crypt TA as a client of the system
    pseudo TA (C28).
  \<^item> \<open>Mbedtls_Taf\<close> is \<open>mbedtls_taf.c\<close>, checking and signing certificates (C35, C37).
  \<^item> \<open>Crypt_Entry\<close> is \<open>ta_entry.c\<close> of the crypt TA: the dispatch over all the groups above and the global
    value (C39).
  \<^item> \<open>Sims\<close> is \<open>src/ta/sims\<close> (and \<open>sims_keepalive\<close> and \<open>miss\<close>, which compile the same files): one
    instance with storage buckets, a counter, and several sessions (C29).
  \<^item> \<open>Sdp_Basic\<close> is \<open>src/ta/sdp_basic\<close>, the secure data path (C23, C33), with the locale
    \<open>cached_session\<close> for the contract of its two callers of other TAs.
  \<^item> \<open>Perf_Tas\<close> is \<open>src/ta/aes_perf\<close> and \<open>src/ta/sha_perf\<close>, the TAs behind the speed tests (C38).
  \<^item> \<open>Storage\<close> is \<open>src/ta/storage\<close> (and \<open>storage2\<close>, which includes the same files), the persistent object
    API for a client (C5); \<open>Storage_Bench\<close> is \<open>src/ta/storage_benchmark\<close>, which reads, writes and rewrites
    a file in chunks (C15, C32).
  \<^item> \<open>Key_Ta\<close> is \<open>src/ta/key\<close>, named keys and their enumeration (C21, C31); \<open>Socket_Ta\<close> is
    \<open>src/ta/socket\<close>, sockets behind handles that are addresses of their function tables (C14).
  \<^item> \<open>Concurrent\<close> is \<open>src/ta/concurrent\<close> (\<open>concurrent_large\<close> has the same code): a step relation in which
    the commands of several instances interleave on a counter in shared memory (C19).
  \<^item> \<open>Rpc_Ta\<close> is \<open>src/ta/rpc_test\<close>, a TA that forwards commands to the crypt TA; it is composed with the
    model of the crypt TA (C10, C40).
  \<^item> \<open>Os_Test\<close> is \<open>src/ta/os_test\<close> and \<open>os_test_lib\<close>, the tests of the operating system (C12).  \<open>Os_Props\<close>
    says what a TEE must offer to pass the test of its properties (C16), \<open>Os_Calls\<close> composes the tests of
    calls between TAs with the TAs they call, the crypt TA among them (C30).
  \<^item> \<open>Teec\<close> is the client side of a command: operations with temporary references, and what the client API
    does with them.  \<open>Fs_Client\<close> (\<open>src/host/libfs\<close>, C24), \<open>Key_Client\<close> (\<open>libkey\<close>, C27, with its list of
    nodes in an explicit heap), \<open>Socket_Client\<close> (\<open>libsocket\<close>, C25) and \<open>Crypt_Client\<close> (\<open>libcrypt\<close>, C22,
    C26) are the client libraries, each composed with its TA.
  \<^item> \<open>Session_Client\<close> is \<open>src/host/libsess\<close>, which makes contexts and sessions; \<open>Host_Programs\<close> has the test
    program of the file library and the \<open>perObj\<close> test as a whole (C36), \<open>Enum_Files\<close> the \<open>enumFiles\<close> test
    with the functions of \<open>storageTest/common\<close> (C13), \<open>Hello\<close> the TA of that name and its program (C34).

  \<^bold>\<open>How the code is modelled.\<close>  A function of the source is a definition of the same name; where two
  files use one name it has the TA's name in front.  Words have the width of the arm64 build:
  \<open>uint32_t\<close> is 32 bits and wraps, \<open>size_t\<close> and \<open>unsigned long\<close> are 64 bits.  An array is a list with
  its accesses checked, and \<^term>\<open>None\<close> stands for undefined behaviour: an access outside an array, a null
  pointer, a division by zero, a signed overflow, or a loop that does not end (\<open>write_cert_loop\<close>, \<open>key_list_loop\<close>, \<open>enum_loop\<close>, \<open>free_loop\<close>, \<open>print_loop\<close>, \<open>print_files\<close> and the loops of
  \<open>Storage_Bench\<close> are partial functions).
  A property that says a command returns \<^term>\<open>Some\<close> therefore says that it ends and stays inside its
  buffers.  \<open>Sdp_Basic\<close> and \<open>Perf_Tas\<close> take addresses instead, where the question is which memory a
  command touches.  \<open>static\<close> variables are fields of a state record that every command takes and returns.
  Code outside \<open>src\<close> and the vendored OP-TEE and mbed TLS libraries are records of functions on a
  memory of an arbitrary type (\<open>heap_api\<close>, \<open>bigint_api\<close>, \<open>cryp_api\<close>, \<open>client_api\<close>, \<open>mbedtls_api\<close>,
  \<open>sdp_api\<close>, \<open>perf_api\<close>, \<open>storage_api\<close>, \<open>key_api\<close>, \<open>socket_api\<close>, \<open>os_api\<close>, \<open>teec_api\<close>, \<open>conn_api\<close>); what a
  property relies on of them is one of the named laws (\<open>heap_laws\<close>, \<open>session_laws\<close>, \<open>realloc_ok\<close>,
  \<open>bigint_laws\<close>, \<open>operation_laws\<close>, \<open>digest_op_laws\<close>, \<open>mbedtls_laws\<close>, \<open>access_laws\<close>, \<open>storage_laws\<close>,
  \<open>store_laws\<close>, \<open>object_laws\<close>, \<open>listing_laws\<close>, \<open>key_laws\<close>, \<open>enum_laws\<close>, \<open>socket_laws\<close>, \<open>bench_laws\<close>, \<open>os_laws\<close>, \<open>prop_laws\<close>,
  \<open>conn_laws\<close>; \<open>teec_serves\<close>, \<open>ta_serves\<close> and \<open>tee_serves\<close> for the delivery of a command to a TA), and each
  witness runs the code on an environment that satisfies them.  The laws of stores (\<open>store_laws\<close>,
  \<open>object_laws\<close>, \<open>file_laws\<close>) and of listings describe an API on which nothing fails, and idealise it in one
  point: they let an object name have any length, where the Core API panics above 64 bytes.  Starting to
  enumerate an empty storage is reported as \<open>TEE_ERROR_ITEM_NOT_FOUND\<close>.  A build switch is a field of the
  record (\<open>CFG_CACHE_API\<close>, \<open>CFG_TA_MBEDTLS_SELF_TEST\<close>) or an argument (\<open>traced\<close> in \<open>Hello\<close>).

  \<^bold>\<open>What is shown.\<close>  Functional correctness against the standards (C1, C2, C6, C7) and through the client
  library (C22, C26); equivalence of the unrolled variants (C4) and of forwarding with and without private
  memory (C10); the constants (C8); round trips (C3, C18, C24, C33); refinement of the handle table to a map
  (C11); what a list of names or keys contains (C21, C27); the verdict of a test as a condition on the
  system under test (C15, C16, C30); whole programs (C13, C36), among them one that has no defined outcome once its
  session is open (C34); invariants over every state a TA can reach (C29, C39); no
  leak of blocks, sessions or library objects (C5, C12, C20, C28, C31, C37, C40); memory safety for arbitrary input (C17);
  what a client's handle reaches (C14, C25); an isolation of secure from non secure memory (C23); termination
  and a step of every interleaving (C19, C32, C35); the exact conditions of the defects found (C5, C9, C12, C15, C21, C25, C27,
  C31, C34, C38, C40).

  \<^bold>\<open>Bounds.\<close>  The digests are exact below 2\<open>^\<close>29 bytes; from there on the message that is hashed
  ends with its length in bits modulo 2\<open>^\<close>32, which is not the padding of the standard (C9).  No definition takes fuel: all loops recurse over the
  iterations the code counts, but for \<open>write_cert_loop\<close>, whose termination (C35) needs a heap that
  refuses blocks above some bound below 2\<open>^\<close>63 bytes, and the loops of \<open>Storage_Bench\<close>, which end on every
  store (C32; the one that verifies for chunk sizes that divide the data size, the one that rewrites unless its
  first chunk has exactly 2\<open>^\<close>31 bytes, whose negation overflows).

  \<^bold>\<open>Not modelled.\<close>  The googletest drivers in C++ (\<open>src/host/tests\<close>); \<open>create_fail_test\<close>, whose entry points return constants; \<open>test_float\<close> of
  \<open>os_test\<close>, whose checks are facts of IEEE arithmetic in the compiler and the FPU (its result is a
  parameter); the vendored \<open>src/googletest\<close> and \<open>src/optee\<close>.  Trace output has no effect on any state and
  is left out, except in \<open>Hello\<close>, where it reads behind buffers.  Panics inside the Core API end the TA and are not results of its functions.
\<close>

end
